(* ===== verification/Prelude.thy ===== *)
theory Prelude
  imports Main "HOL-Library.Sublist" "HOL-Library.List_Lexorder" "HOL-Library.Char_ord"
begin

text \<open>
  Shared vocabulary of the development: results with errors, the Python string operations
  the services use, list-backed database tables, and the locales that two or more
  components instantiate.

  Python \<open>str\<close> values are modelled by Isabelle \<open>string\<close>s that hold their UTF-8 bytes.
  Equality, concatenation, substring tests and ordering by code point agree with the same
  operations on the bytes; \<open>py_len\<close> counts code points and \<open>py_strip\<close> removes exactly the
  characters for which \<open>str.isspace\<close> holds.

  Times are integers, counted in seconds.
\<close>

named_theorems result_simps
named_theorems table_simps
named_theorems text_simps

type_synonym time = int

section \<open>Results\<close>

text \<open>A call returns a value or raises: \<open>Inl\<close> carries the exception.\<close>

definition rbind :: "'e + 'a \<Rightarrow> ('a \<Rightarrow> 'e + 'b) \<Rightarrow> 'e + 'b" where
  "rbind r k = (case r of Inl e \<Rightarrow> Inl e | Inr x \<Rightarrow> k x)"

definition ensure :: "bool \<Rightarrow> 'e \<Rightarrow> 'e + unit" where
  "ensure b e = (if b then Inr () else Inl e)"

definition is_ok :: "'e + 'a \<Rightarrow> bool" where
  "is_ok r = (case r of Inl _ \<Rightarrow> False | Inr _ \<Rightarrow> True)"

lemma rbind_simps [simp]: "rbind (Inl e) k = Inl e" "rbind (Inr x) k = k x"
  by (simp_all add: rbind_def)

lemma is_ok_simps [simp]: "is_ok (Inr x)" "\<not> is_ok (Inl e)"
  by (simp_all add: is_ok_def)

lemma rbind_Inr_iff [result_simps]: "rbind r k = Inr y \<longleftrightarrow> (\<exists>x. r = Inr x \<and> k x = Inr y)"
  by (cases r) simp_all

lemma rbindE:
  assumes "rbind x f = Inr y"
  obtains a where "x = Inr a" and "f a = Inr y"
  using assms by (auto simp: rbind_Inr_iff)

lemma rbind_Inl_iff [result_simps]:
  "rbind r k = Inl e \<longleftrightarrow> r = Inl e \<or> (\<exists>x. r = Inr x \<and> k x = Inl e)"
  by (cases r) auto

lemma ensure_Inr_iff [simp]: "ensure b e = Inr u \<longleftrightarrow> b"
  by (simp add: ensure_def)

lemma ensure_Inl_iff [simp]: "ensure b e = Inl e' \<longleftrightarrow> \<not> b \<and> e' = e"
  by (auto simp: ensure_def)

lemma ensure_cases [simp]: "ensure True e = Inr ()" "ensure False e = Inl e"
  by (simp_all add: ensure_def)

lemma is_ok_iff: "is_ok r \<longleftrightarrow> (\<exists>x. r = Inr x)"
  by (cases r) simp_all

section \<open>Python strings\<close>

fun py_in :: "string \<Rightarrow> string \<Rightarrow> bool" where
  \<comment> \<open>\<open>p in s\<close>\<close>
  "py_in p [] = (p = [])"
| "py_in p (c # cs) = (prefix p (c # cs) \<or> py_in p cs)"

definition py_in_any :: "string list \<Rightarrow> string \<Rightarrow> bool" where
  \<comment> \<open>\<open>any(x in s for x in ps)\<close>\<close>
  "py_in_any ps s = list_ex (\<lambda>p. py_in p s) ps"

lemma py_in_sublist [text_simps]: "py_in p s \<longleftrightarrow> sublist p s"
proof (induction s)
  case Nil
  then show ?case by simp
next
  case (Cons c cs)
  then show ?case by (simp add: sublist_Cons_right)
qed

lemma py_in_append: "py_in p s \<Longrightarrow> py_in p (s @ t)" "py_in p t \<Longrightarrow> py_in p (s @ t)"
  by (auto simp: py_in_sublist sublist_append)

definition py_ws :: "string list" where
  \<comment> \<open>the 29 code points with \<open>str.isspace\<close>, as UTF-8\<close>
  "py_ws =
     [[CHR 0x09], [CHR 0x0A], [CHR 0x0B], [CHR 0x0C], [CHR 0x0D],
      [CHR 0x1C], [CHR 0x1D], [CHR 0x1E], [CHR 0x1F], [CHR 0x20],
      [CHR 0xC2, CHR 0x85], [CHR 0xC2, CHR 0xA0], [CHR 0xE1, CHR 0x9A, CHR 0x80],
      [CHR 0xE2, CHR 0x80, CHR 0x80], [CHR 0xE2, CHR 0x80, CHR 0x81],
      [CHR 0xE2, CHR 0x80, CHR 0x82], [CHR 0xE2, CHR 0x80, CHR 0x83],
      [CHR 0xE2, CHR 0x80, CHR 0x84], [CHR 0xE2, CHR 0x80, CHR 0x85],
      [CHR 0xE2, CHR 0x80, CHR 0x86], [CHR 0xE2, CHR 0x80, CHR 0x87],
      [CHR 0xE2, CHR 0x80, CHR 0x88], [CHR 0xE2, CHR 0x80, CHR 0x89],
      [CHR 0xE2, CHR 0x80, CHR 0x8A], [CHR 0xE2, CHR 0x80, CHR 0xA8],
      [CHR 0xE2, CHR 0x80, CHR 0xA9], [CHR 0xE2, CHR 0x80, CHR 0xAF],
      [CHR 0xE2, CHR 0x81, CHR 0x9F], [CHR 0xE3, CHR 0x80, CHR 0x80]]"

lemma py_ws_nonempty: "w \<in> set py_ws \<Longrightarrow> w \<noteq> []"
  by (auto simp: py_ws_def)

function strip_front :: "string list \<Rightarrow> string \<Rightarrow> string" where
  "strip_front ws s =
     (case find (\<lambda>w. w \<noteq> [] \<and> prefix w s) ws of
        None \<Rightarrow> s
      | Some w \<Rightarrow> strip_front ws (drop (length w) s))"
  by pat_completeness auto
termination
proof (relation "measure (\<lambda>(ws, s). length s)")
  show "wf (measure (\<lambda>(ws :: string list, s :: string). length s))" by simp
next
  fix ws :: "string list" and s w
  assume "find (\<lambda>w. w \<noteq> [] \<and> prefix w s) ws = Some w"
  then have "w \<noteq> []" and "prefix w s"
    by (auto simp: find_Some_iff)
  then show "((ws, drop (length w) s), (ws, s)) \<in> measure (\<lambda>(ws, s). length s)"
    by (cases s; cases w) auto
qed

declare strip_front.simps [simp del]

definition py_lstrip :: "string \<Rightarrow> string" where
  "py_lstrip s = strip_front py_ws s"

definition py_rstrip :: "string \<Rightarrow> string" where
  "py_rstrip s = rev (strip_front (map rev py_ws) (rev s))"

definition py_strip :: "string \<Rightarrow> string" where
  "py_strip s = py_rstrip (py_lstrip s)"

definition py_blank :: "string \<Rightarrow> bool" where
  \<comment> \<open>\<open>not s.strip()\<close>\<close>
  "py_blank s = (py_strip s = [])"

lemma strip_front_Nil [simp]: "strip_front ws [] = []"
  by (subst strip_front.simps) (auto simp: find_None_iff split: option.splits dest: find_Some_iff [THEN iffD1])

lemma strip_front_suffix: "suffix (strip_front ws s) s"
proof (induction ws s rule: strip_front.induct)
  case (1 ws s)
  show ?case
  proof (cases "find (\<lambda>w. w \<noteq> [] \<and> prefix w s) ws")
    case None
    then show ?thesis by (subst strip_front.simps) simp
  next
    case (Some w)
    then have "suffix (strip_front ws (drop (length w) s)) (drop (length w) s)"
      by (rule "1.IH")
    then have "suffix (strip_front ws (drop (length w) s)) s"
      by (meson suffix_drop suffix_order.trans)
    with Some show ?thesis by (subst strip_front.simps) simp
  qed
qed

lemma strip_front_fixed: "strip_front ws (strip_front ws s) = strip_front ws s"
proof (induction ws s rule: strip_front.induct)
  case (1 ws s)
  show ?case
  proof (cases "find (\<lambda>w. w \<noteq> [] \<and> prefix w s) ws")
    case None
    then have "strip_front ws s = s" by (subst strip_front.simps) simp
    then show ?thesis by simp
  next
    case (Some w)
    then have "strip_front ws s = strip_front ws (drop (length w) s)"
      by (subst strip_front.simps) simp
    with "1.IH" [OF Some] show ?thesis by simp
  qed
qed

lemma py_strip_Nil [simp]: "py_strip [] = []" "py_blank []"
  by (simp_all add: py_strip_def py_lstrip_def py_rstrip_def py_blank_def)

lemma py_strip_sublist: "sublist (py_strip s) s"
proof -
  have "prefix (py_rstrip t) t" for t
    using strip_front_suffix [of "map rev py_ws" "rev t"]
    by (simp add: py_rstrip_def suffix_to_prefix)
  then have "sublist (py_strip s) (py_lstrip s)"
    unfolding py_strip_def by (rule prefix_imp_sublist)
  moreover have "sublist (py_lstrip s) s"
    unfolding py_lstrip_def by (rule suffix_imp_sublist [OF strip_front_suffix])
  ultimately show ?thesis by (rule sublist_order.order.trans)
qed

lemma py_strip_length: "length (py_strip s) \<le> length s"
  using py_strip_sublist by (rule sublist_length_le)

definition py_len :: "string \<Rightarrow> nat" where
  \<comment> \<open>\<open>len(s)\<close>: bytes of the form 10xxxxxx continue a code point\<close>
  "py_len s = length (filter (\<lambda>c. of_char c < (128 :: nat) \<or> 192 \<le> (of_char c :: nat)) s)"

definition is_continuation :: "char \<Rightarrow> bool" where
  "is_continuation c = (128 \<le> (of_char c :: nat) \<and> (of_char c :: nat) < 192)"

function code_points :: "string \<Rightarrow> string list" where
  \<comment> \<open>the characters of a text, each as its bytes\<close>
  "code_points [] = []"
| "code_points (c # cs) = (c # takeWhile is_continuation cs) # code_points (dropWhile is_continuation cs)"
  by pat_completeness auto
termination by (relation "measure length") (auto simp: less_Suc_eq_le length_dropWhile_le)

lemma concat_code_points [simp]: "concat (code_points s) = s"
  by (induction s rule: code_points.induct) simp_all

lemma code_points_ascii:
  "(\<And>c. c \<in> set s \<Longrightarrow> \<not> is_continuation c) \<Longrightarrow> code_points s = map (\<lambda>c. [c]) s"
proof (induction s rule: code_points.induct)
  case (2 c cs)
  then have none: "\<not> is_continuation d" if "d \<in> set cs" for d using that by simp
  then have "takeWhile is_continuation cs = []" "dropWhile is_continuation cs = cs"
    by (cases cs; simp)+
  with 2 none show ?case by simp
qed simp

fun py_take :: "nat \<Rightarrow> string \<Rightarrow> string" where
  \<comment> \<open>\<open>s[:n]\<close>, counting code points\<close>
  "py_take n [] = []"
| "py_take n (c # cs) =
     (if is_continuation c then c # py_take n cs
      else case n of 0 \<Rightarrow> [] | Suc m \<Rightarrow> c # py_take m cs)"

lemma py_len_Nil [simp]: "py_len [] = 0"
  by (simp add: py_len_def)

lemma py_len_Cons: "py_len (c # s) = (if is_continuation c then py_len s else Suc (py_len s))"
  by (auto simp: py_len_def is_continuation_def)

lemma py_take_len: "py_len (py_take n s) \<le> n"
  by (induction n s rule: py_take.induct) (auto simp: py_len_Cons split: nat.split)

lemma py_len_le: "py_len s \<le> length s"
  by (simp add: py_len_def)

lemma py_len_append [simp]: "py_len (s @ t) = py_len s + py_len t"
  by (simp add: py_len_def)

fun py_join :: "string \<Rightarrow> string list \<Rightarrow> string" where
  "py_join sep [] = []"
| "py_join sep [s] = s"
| "py_join sep (s # t # ts) = s @ sep @ py_join sep (t # ts)"

fun py_split :: "char \<Rightarrow> string \<Rightarrow> string list" where
  \<comment> \<open>\<open>s.split(c)\<close> for a one-byte separator\<close>
  "py_split c [] = [[]]"
| "py_split c (x # xs) =
     (if x = c then [] # py_split c xs
      else case py_split c xs of [] \<Rightarrow> [[x]] | y # ys \<Rightarrow> (x # y) # ys)"

lemma py_split_nonempty [simp]: "py_split c s \<noteq> []"
  by (induction s) (auto split: list.splits)

lemma py_join_split: "py_join [c] (py_split c s) = s"
proof (induction s)
  case Nil
  then show ?case by simp
next
  case (Cons x xs)
  obtain y ys where ys: "py_split c xs = y # ys"
    using py_split_nonempty [of c xs] by (cases "py_split c xs") auto
  with Cons show ?case by (cases ys) auto
qed

lemma py_split_join:
  assumes "xs \<noteq> []" and "\<And>x. x \<in> set xs \<Longrightarrow> c \<notin> set x"
  shows "py_split c (py_join [c] xs) = xs"
proof -
  have one: "py_split c (x @ c # s) = x # py_split c s" if "c \<notin> set x" for x s
    using that by (induction x) auto
  have last: "py_split c x = [x]" if "c \<notin> set x" for x
    using that by (induction x) auto
  show ?thesis
    using assms
  proof (induction "[c]" xs rule: py_join.induct)
    case (3 s t ts)
    then show ?case by (simp add: one)
  qed (simp_all add: last)
qed

definition ascii_lower :: "string \<Rightarrow> string" where
  \<comment> \<open>\<open>s.lower()\<close> on the ASCII letters\<close>
  "ascii_lower s =
     map (\<lambda>c. let n = of_char c :: nat in if 65 \<le> n \<and> n \<le> 90 then char_of (n + 32) else c) s"

function show_nat :: "nat \<Rightarrow> string" where
  \<comment> \<open>\<open>str(n)\<close>\<close>
  "show_nat n = (if n < 10 then [char_of (48 + n)] else show_nat (n div 10) @ [char_of (48 + n mod 10)])"
  by pat_completeness auto
termination by (relation "measure id") auto

declare show_nat.simps [simp del]

definition show_int :: "int \<Rightarrow> string" where
  "show_int i = (if i < 0 then ''-'' @ show_nat (nat (- i)) else show_nat (nat i))"

lemma show_nat_nonempty [simp]: "show_nat n \<noteq> []"
  by (subst show_nat.simps) simp

definition opt_str :: "string option \<Rightarrow> string" where
  \<comment> \<open>\<open>x or ""\<close> for an optional string\<close>
  "opt_str x = (case x of None \<Rightarrow> [] | Some s \<Rightarrow> s)"

definition opt_truthy :: "string option \<Rightarrow> bool" where
  \<comment> \<open>\<open>bool(x)\<close> for an optional string\<close>
  "opt_truthy x = (case x of None \<Rightarrow> False | Some s \<Rightarrow> s \<noteq> [])"

definition opt_or :: "string option \<Rightarrow> string \<Rightarrow> string" where
  \<comment> \<open>\<open>x or y\<close>\<close>
  "opt_or x y = (if opt_truthy x then opt_str x else y)"

lemma opt_or_simps [simp]:
  "opt_or None y = y" "opt_or (Some []) y = y" "s \<noteq> [] \<Longrightarrow> opt_or (Some s) y = s"
  by (simp_all add: opt_or_def opt_truthy_def opt_str_def)

definition rstrip_slash :: "string \<Rightarrow> string" where
  \<comment> \<open>\<open>s.rstrip("/")\<close>\<close>
  "rstrip_slash s = rev (dropWhile (\<lambda>c. c = CHR ''/'') (rev s))"

definition digit_val :: "char \<Rightarrow> nat option" where
  "digit_val c = (let n = of_char c :: nat in if 48 \<le> n \<and> n \<le> 57 then Some (n - 48) else None)"

fun py_digits :: "nat \<Rightarrow> bool \<Rightarrow> string \<Rightarrow> nat option" where
  \<comment> \<open>decimal digits, single underscores between them; the flag says that a digit came before\<close>
  "py_digits acc prev [] = (if prev then Some acc else None)"
| "py_digits acc prev (c # cs) =
     (case digit_val c of
        Some d \<Rightarrow> py_digits (10 * acc + d) True cs
      | None \<Rightarrow> if c = CHR ''_'' \<and> prev then py_digits acc False cs else None)"

definition py_int_str :: "string \<Rightarrow> int option" where
  \<comment> \<open>\<open>int(s)\<close> for ASCII digits, \<open>None\<close> for \<open>ValueError\<close>\<close>
  "py_int_str s =
     (case py_strip s of
        [] \<Rightarrow> None
      | c # cs \<Rightarrow>
          if c = CHR ''-'' then map_option (\<lambda>n. - int n) (py_digits 0 False cs)
          else if c = CHR ''+'' then map_option int (py_digits 0 False cs)
          else map_option int (py_digits 0 False (c # cs)))"

lemma digit_val_show: "n < 10 \<Longrightarrow> digit_val (char_of (48 + n)) = Some n"
  by (simp add: digit_val_def of_char_of)

lemma py_digits_show: "py_digits 0 False (show_nat n @ u) = py_digits n True u"
proof (induction n arbitrary: u rule: show_nat.induct)
  case (1 n)
  show ?case
  proof (cases "n < 10")
    case True
    then have "show_nat n = [char_of (48 + n)]" by (subst show_nat.simps) simp
    with True show ?thesis by (simp add: digit_val_show)
  next
    case False
    then have "show_nat n = show_nat (n div 10) @ [char_of (48 + n mod 10)]"
      by (subst show_nat.simps) simp
    with 1 [OF False] show ?thesis by (simp add: digit_val_show)
  qed
qed

lemma strip_front_id: "(\<And>w. w \<in> set ws \<Longrightarrow> \<not> prefix w s) \<Longrightarrow> strip_front ws s = s"
proof -
  assume "\<And>w. w \<in> set ws \<Longrightarrow> \<not> prefix w s"
  then have "find (\<lambda>w. w \<noteq> [] \<and> prefix w s) ws = None" by (auto simp: find_None_iff)
  then show ?thesis by (subst strip_front.simps) simp
qed

lemma py_strip_id:
  assumes "s \<noteq> []" and "hd s \<notin> hd ` set py_ws" and "last s \<notin> last ` set py_ws"
  shows "py_strip s = s"
proof -
  have "\<not> prefix w s" if "w \<in> set py_ws" for w
  proof
    assume "prefix w s"
    then have "hd w = hd s" using py_ws_nonempty [OF that] by (auto simp: prefix_def)
    with that assms(2) show False by (metis imageI)
  qed
  then have l: "py_lstrip s = s" unfolding py_lstrip_def by (rule strip_front_id)
  have "\<not> prefix w (rev s)" if "w \<in> set (map rev py_ws)" for w
  proof
    assume p: "prefix w (rev s)"
    from that obtain v where v: "v \<in> set py_ws" "w = rev v" by auto
    with p have "suffix v s" by (simp add: suffix_to_prefix)
    then have "last v = last s" using py_ws_nonempty [OF v(1)] by (auto simp: suffix_def)
    with v(1) assms(3) show False by (metis imageI)
  qed
  then have "strip_front (map rev py_ws) (rev s) = rev s" by (rule strip_front_id)
  then have "py_rstrip s = s" by (simp add: py_rstrip_def)
  with l show ?thesis by (simp add: py_strip_def)
qed

lemma show_nat_digits: "c \<in> set (show_nat n) \<Longrightarrow> \<exists>d :: nat. d < 10 \<and> c = char_of (48 + d)"
proof (induction n rule: show_nat.induct)
  case (1 n)
  show ?case
  proof (cases "n < 10")
    case True
    then have "show_nat n = [char_of (48 + n)]" by (subst show_nat.simps) simp
    with True 1 show ?thesis by auto
  next
    case False
    then have "show_nat n = show_nat (n div 10) @ [char_of (48 + n mod 10)]"
      by (subst show_nat.simps) simp
    with 1(2) consider "c \<in> set (show_nat (n div 10))" | "c = char_of (48 + n mod 10)" by auto
    then show ?thesis
    proof cases
      case 1
      with "1.IH" [OF False] show ?thesis by blast
    next
      case 2
      then show ?thesis by (intro exI [of _ "n mod 10"]) simp
    qed
  qed
qed

lemma digit_no_ws:
  fixes d :: nat
  shows "d < 10 \<Longrightarrow> char_of (48 + d) \<notin> hd ` set py_ws"
    and "d < 10 \<Longrightarrow> char_of (48 + d) \<notin> last ` set py_ws"
proof -
  have "\<forall>d < 10 :: nat. char_of (48 + d) \<notin> hd ` set py_ws \<and> char_of (48 + d) \<notin> last ` set py_ws"
    unfolding py_ws_def by code_simp
  then show "d < 10 \<Longrightarrow> char_of (48 + d) \<notin> hd ` set py_ws" "d < 10 \<Longrightarrow> char_of (48 + d) \<notin> last ` set py_ws"
    by blast+
qed

lemma py_int_str_show: "py_int_str (show_int i) = Some i"
proof -
  have m: "CHR ''-'' \<notin> hd ` set py_ws" unfolding py_ws_def by code_simp
  have l: "last (show_nat n) \<notin> last ` set py_ws" "hd (show_nat n) \<notin> hd ` set py_ws" for n
  proof -
    obtain d e :: nat where "d < 10" "last (show_nat n) = char_of (48 + d)" "e < 10"
      "hd (show_nat n) = char_of (48 + e)"
      using show_nat_digits [of "last (show_nat n)" n] show_nat_digits [of "hd (show_nat n)" n] by auto
    then show "last (show_nat n) \<notin> last ` set py_ws" "hd (show_nat n) \<notin> hd ` set py_ws"
      using digit_no_ws by metis+
  qed
  have d: "py_digits 0 False (show_nat n) = Some n" for n
    using py_digits_show [of n "[]"] by simp
  have h: "hd (show_nat n) \<noteq> CHR ''-'' \<and> hd (show_nat n) \<noteq> CHR ''+''" for n
  proof -
    obtain k :: nat where k: "k < 10" "hd (show_nat n) = char_of (48 + k)"
      using show_nat_digits [of "hd (show_nat n)" n] by auto
    then have "(of_char (hd (show_nat n)) :: nat) = 48 + k" by (simp add: of_char_of)
    moreover have "(of_char CHR ''-'' :: nat) = 45" "(of_char CHR ''+'' :: nat) = 43" by simp_all
    ultimately have "(of_char (hd (show_nat n)) :: nat) \<noteq> of_char CHR ''-''"
      "(of_char (hd (show_nat n)) :: nat) \<noteq> of_char CHR ''+''" by linarith+
    then show ?thesis by (intro conjI notI) simp_all
  qed
  have minus: "py_strip (CHR ''-'' # show_nat n) = CHR ''-'' # show_nat n" for n
  proof (rule py_strip_id)
    show "CHR ''-'' # show_nat n \<noteq> []" by (rule list.distinct)
    show "hd (CHR ''-'' # show_nat n) \<notin> hd ` set py_ws" unfolding list.sel by (rule m)
    show "last (CHR ''-'' # show_nat n) \<notin> last ` set py_ws"
      unfolding last_ConsR [OF show_nat_nonempty] by (rule l)
  qed
  have plain: "py_strip (show_nat n) = show_nat n" for n
    by (rule py_strip_id [OF show_nat_nonempty l(2) l(1)])
  show ?thesis
  proof (cases "i < 0")
    case True
    then have "show_int i = CHR ''-'' # show_nat (nat (- i))" by (simp add: show_int_def)
    with True show ?thesis by (simp add: py_int_str_def minus d del: py_digits.simps)
  next
    case False
    obtain c cs where c: "show_nat (nat i) = c # cs" by (cases "show_nat (nat i)") simp_all
    with h [of "nat i"] d [of "nat i"] plain [of "nat i"] False show ?thesis
      by (simp add: py_int_str_def show_int_def del: py_digits.simps)
  qed
qed

end
