(* ===== verification/Lexicon.thy ===== *)
theory Lexicon
  imports Prelude
begin

text \<open>
  The Chinese literals that the modelled conditions of the services test or store, as their
  UTF-8 bytes.  Each definition names the code points and the meaning of the literal.
\<close>

definition zh_dev_user :: string where
  \<comment> \<open>U+672C U+5730 U+5F00 U+53D1 U+7528 U+6237 (local development user)\<close>
  "zh_dev_user =
     [CHR 0xE6, CHR 0x9C, CHR 0xAC, CHR 0xE5, CHR 0x9C, CHR 0xB0, CHR 0xE5, CHR 0xBC, CHR 0x80,
      CHR 0xE5, CHR 0x8F, CHR 0x91, CHR 0xE7, CHR 0x94, CHR 0xA8, CHR 0xE6, CHR 0x88, CHR 0xB7]"

definition zh_local_admin :: string where
  \<comment> \<open>U+672C U+5730 U+7BA1 U+7406 U+5458 (local administrator)\<close>
  "zh_local_admin =
     [CHR 0xE6, CHR 0x9C, CHR 0xAC, CHR 0xE5, CHR 0x9C, CHR 0xB0, CHR 0xE7, CHR 0xAE, CHR 0xA1,
      CHR 0xE7, CHR 0x90, CHR 0x86, CHR 0xE5, CHR 0x91, CHR 0x98]"

definition zh_success :: string where
  \<comment> \<open>U+6210 U+529F (success)\<close>
  "zh_success = [CHR 0xE6, CHR 0x88, CHR 0x90, CHR 0xE5, CHR 0x8A, CHR 0x9F]"

definition zh_op_login :: string where
  \<comment> \<open>U+767B U+5F55 U+5E73 U+53F0 (sign in to the platform)\<close>
  "zh_op_login =
     [CHR 0xE7, CHR 0x99, CHR 0xBB, CHR 0xE5, CHR 0xBD, CHR 0x95, CHR 0xE5, CHR 0xB9, CHR 0xB3,
      CHR 0xE5, CHR 0x8F, CHR 0xB0]"

definition zh_cat_login :: string where
  \<comment> \<open>U+767B U+5F55 (sign-in)\<close>
  "zh_cat_login = [CHR 0xE7, CHR 0x99, CHR 0xBB, CHR 0xE5, CHR 0xBD, CHR 0x95]"

definition zh_dev_login_detail :: string where
  \<comment> \<open>U+672C U+5730 U+5F00 U+53D1 U+6A21 U+5F0F U+767B U+5F55 (local development sign-in)\<close>
  "zh_dev_login_detail =
     [CHR 0xE6, CHR 0x9C, CHR 0xAC, CHR 0xE5, CHR 0x9C, CHR 0xB0, CHR 0xE5, CHR 0xBC, CHR 0x80,
      CHR 0xE5, CHR 0x8F, CHR 0x91, CHR 0xE6, CHR 0xA8, CHR 0xA1, CHR 0xE5, CHR 0xBC, CHR 0x8F,
      CHR 0xE7, CHR 0x99, CHR 0xBB, CHR 0xE5, CHR 0xBD, CHR 0x95]"

definition zh_op_sync :: string where
  \<comment> \<open>U+540C U+6B65 U+7528 U+6237 U+6743 U+9650 (synchronise user permissions)\<close>
  "zh_op_sync =
     [CHR 0xE5, CHR 0x90, CHR 0x8C, CHR 0xE6, CHR 0xAD, CHR 0xA5, CHR 0xE7, CHR 0x94, CHR 0xA8,
      CHR 0xE6, CHR 0x88, CHR 0xB7, CHR 0xE6, CHR 0x9D, CHR 0x83, CHR 0xE9, CHR 0x99, CHR 0x90]"

definition zh_cat_account :: string where
  \<comment> \<open>U+8D26 U+53F7 (account)\<close>
  "zh_cat_account = [CHR 0xE8, CHR 0xB4, CHR 0xA6, CHR 0xE5, CHR 0x8F, CHR 0xB7]"

definition zh_sync_detail :: string where
  \<comment> \<open>U+4ECE U+7EDF U+4E00 U+7528 U+6237 U+4E2D U+5FC3 U+540C U+6B65 U+89D2 U+8272 U+548C U+6743 U+9650 (roles and permissions taken from the user center)\<close>
  "zh_sync_detail =
     [CHR 0xE4, CHR 0xBB, CHR 0x8E, CHR 0xE7, CHR 0xBB, CHR 0x9F, CHR 0xE4, CHR 0xB8, CHR 0x80,
      CHR 0xE7, CHR 0x94, CHR 0xA8, CHR 0xE6, CHR 0x88, CHR 0xB7, CHR 0xE4, CHR 0xB8, CHR 0xAD,
      CHR 0xE5, CHR 0xBF, CHR 0x83, CHR 0xE5, CHR 0x90, CHR 0x8C, CHR 0xE6, CHR 0xAD, CHR 0xA5,
      CHR 0xE8, CHR 0xA7, CHR 0x92, CHR 0xE8, CHR 0x89, CHR 0xB2, CHR 0xE5, CHR 0x92, CHR 0x8C,
      CHR 0xE6, CHR 0x9D, CHR 0x83, CHR 0xE9, CHR 0x99, CHR 0x90]"

definition zh_oauth_detail :: string where
  \<comment> \<open>U+901A U+8FC7 U+7EDF U+4E00 U+7528 U+6237 U+4E2D U+5FC3 U+0020 U+004F U+0041 U+0075 U+0074 U+0068 U+0032 U+0020 U+767B U+5F55 (signed in through OAuth2 of the user center)\<close>
  "zh_oauth_detail =
     [CHR 0xE9, CHR 0x80, CHR 0x9A, CHR 0xE8, CHR 0xBF, CHR 0x87, CHR 0xE7, CHR 0xBB, CHR 0x9F,
      CHR 0xE4, CHR 0xB8, CHR 0x80, CHR 0xE7, CHR 0x94, CHR 0xA8, CHR 0xE6, CHR 0x88, CHR 0xB7,
      CHR 0xE4, CHR 0xB8, CHR 0xAD, CHR 0xE5, CHR 0xBF, CHR 0x83, CHR 0x20, CHR 0x4F, CHR 0x41,
      CHR 0x75, CHR 0x74, CHR 0x68, CHR 0x32, CHR 0x20, CHR 0xE7, CHR 0x99, CHR 0xBB, CHR 0xE5,
      CHR 0xBD, CHR 0x95]"

definition zh_op_refresh :: string where
  \<comment> \<open>U+5237 U+65B0 U+767B U+5F55 U+4F1A U+8BDD (refresh the session)\<close>
  "zh_op_refresh =
     [CHR 0xE5, CHR 0x88, CHR 0xB7, CHR 0xE6, CHR 0x96, CHR 0xB0, CHR 0xE7, CHR 0x99, CHR 0xBB,
      CHR 0xE5, CHR 0xBD, CHR 0x95, CHR 0xE4, CHR 0xBC, CHR 0x9A, CHR 0xE8, CHR 0xAF, CHR 0x9D]"

definition zh_cat_security :: string where
  \<comment> \<open>U+5B89 U+5168 (security)\<close>
  "zh_cat_security = [CHR 0xE5, CHR 0xAE, CHR 0x89, CHR 0xE5, CHR 0x85, CHR 0xA8]"

definition zh_refresh_detail :: string where
  \<comment> \<open>U+5237 U+65B0 U+7EDF U+4E00 U+7528 U+6237 U+4E2D U+5FC3 U+8BBF U+95EE U+4EE4 U+724C U+548C U+6743 U+9650 U+4FE1 U+606F (access token and permissions refreshed)\<close>
  "zh_refresh_detail =
     [CHR 0xE5, CHR 0x88, CHR 0xB7, CHR 0xE6, CHR 0x96, CHR 0xB0, CHR 0xE7, CHR 0xBB, CHR 0x9F,
      CHR 0xE4, CHR 0xB8, CHR 0x80, CHR 0xE7, CHR 0x94, CHR 0xA8, CHR 0xE6, CHR 0x88, CHR 0xB7,
      CHR 0xE4, CHR 0xB8, CHR 0xAD, CHR 0xE5, CHR 0xBF, CHR 0x83, CHR 0xE8, CHR 0xAE, CHR 0xBF,
      CHR 0xE9, CHR 0x97, CHR 0xAE, CHR 0xE4, CHR 0xBB, CHR 0xA4, CHR 0xE7, CHR 0x89, CHR 0x8C,
      CHR 0xE5, CHR 0x92, CHR 0x8C, CHR 0xE6, CHR 0x9D, CHR 0x83, CHR 0xE9, CHR 0x99, CHR 0x90,
      CHR 0xE4, CHR 0xBF, CHR 0xA1, CHR 0xE6, CHR 0x81, CHR 0xAF]"

definition zh_op_logout :: string where
  \<comment> \<open>U+9000 U+51FA U+767B U+5F55 (sign out)\<close>
  "zh_op_logout =
     [CHR 0xE9, CHR 0x80, CHR 0x80, CHR 0xE5, CHR 0x87, CHR 0xBA, CHR 0xE7, CHR 0x99, CHR 0xBB,
      CHR 0xE5, CHR 0xBD, CHR 0x95]"

definition zh_logout_detail :: string where
  \<comment> \<open>U+4E3B U+52A8 U+9000 U+51FA U+4EBF U+7EA7 U+77E5 U+8BC6 U+56FE U+8C31 U+5E73 U+53F0 (signed out of the platform)\<close>
  "zh_logout_detail =
     [CHR 0xE4, CHR 0xB8, CHR 0xBB, CHR 0xE5, CHR 0x8A, CHR 0xA8, CHR 0xE9, CHR 0x80, CHR 0x80,
      CHR 0xE5, CHR 0x87, CHR 0xBA, CHR 0xE4, CHR 0xBA, CHR 0xBF, CHR 0xE7, CHR 0xBA, CHR 0xA7,
      CHR 0xE7, CHR 0x9F, CHR 0xA5, CHR 0xE8, CHR 0xAF, CHR 0x86, CHR 0xE5, CHR 0x9B, CHR 0xBE,
      CHR 0xE8, CHR 0xB0, CHR 0xB1, CHR 0xE5, CHR 0xB9, CHR 0xB3, CHR 0xE5, CHR 0x8F, CHR 0xB0]"

definition zh_op_portal :: string where
  \<comment> \<open>U+590D U+7528 U+95E8 U+6237 U+767B U+5F55 U+6001 (reuse the portal sign-in)\<close>
  "zh_op_portal =
     [CHR 0xE5, CHR 0xA4, CHR 0x8D, CHR 0xE7, CHR 0x94, CHR 0xA8, CHR 0xE9, CHR 0x97, CHR 0xA8,
      CHR 0xE6, CHR 0x88, CHR 0xB7, CHR 0xE7, CHR 0x99, CHR 0xBB, CHR 0xE5, CHR 0xBD, CHR 0x95,
      CHR 0xE6, CHR 0x80, CHR 0x81]"

definition zh_portal_detail :: string where
  \<comment> \<open>U+901A U+8FC7 U+7EDF U+4E00 U+7528 U+6237 U+4E2D U+5FC3 U+95E8 U+6237 U+0020 U+0043 U+006F U+006F U+006B U+0069 U+0065 U+0020 U+521B U+5EFA U+672C U+5730 U+4F1A U+8BDD (session created from the portal cookie)\<close>
  "zh_portal_detail =
     [CHR 0xE9, CHR 0x80, CHR 0x9A, CHR 0xE8, CHR 0xBF, CHR 0x87, CHR 0xE7, CHR 0xBB, CHR 0x9F,
      CHR 0xE4, CHR 0xB8, CHR 0x80, CHR 0xE7, CHR 0x94, CHR 0xA8, CHR 0xE6, CHR 0x88, CHR 0xB7,
      CHR 0xE4, CHR 0xB8, CHR 0xAD, CHR 0xE5, CHR 0xBF, CHR 0x83, CHR 0xE9, CHR 0x97, CHR 0xA8,
      CHR 0xE6, CHR 0x88, CHR 0xB7, CHR 0x20, CHR 0x43, CHR 0x6F, CHR 0x6F, CHR 0x6B, CHR 0x69,
      CHR 0x65, CHR 0x20, CHR 0xE5, CHR 0x88, CHR 0x9B, CHR 0xE5, CHR 0xBB, CHR 0xBA, CHR 0xE6,
      CHR 0x9C, CHR 0xAC, CHR 0xE5, CHR 0x9C, CHR 0xB0, CHR 0xE4, CHR 0xBC, CHR 0x9A, CHR 0xE8,
      CHR 0xAF, CHR 0x9D]"

definition zh_submit_note :: string where
  \<comment> \<open>U+63D0 U+4EA4 U+4EBA U+5DE5 U+4FEE U+6B63 U+7533 U+8BF7 (correction submitted)\<close>
  "zh_submit_note =
     [CHR 0xE6, CHR 0x8F, CHR 0x90, CHR 0xE4, CHR 0xBA, CHR 0xA4, CHR 0xE4, CHR 0xBA, CHR 0xBA,
      CHR 0xE5, CHR 0xB7, CHR 0xA5, CHR 0xE4, CHR 0xBF, CHR 0xAE, CHR 0xE6, CHR 0xAD, CHR 0xA3,
      CHR 0xE7, CHR 0x94, CHR 0xB3, CHR 0xE8, CHR 0xAF, CHR 0xB7]"

definition zh_edit_note :: string where
  \<comment> \<open>U+4FEE U+6539 U+5F85 U+5BA1 U+6838 U+4FEE U+6B63 U+8BB0 U+5F55 (pending correction edited)\<close>
  "zh_edit_note =
     [CHR 0xE4, CHR 0xBF, CHR 0xAE, CHR 0xE6, CHR 0x94, CHR 0xB9, CHR 0xE5, CHR 0xBE, CHR 0x85,
      CHR 0xE5, CHR 0xAE, CHR 0xA1, CHR 0xE6, CHR 0xA0, CHR 0xB8, CHR 0xE4, CHR 0xBF, CHR 0xAE,
      CHR 0xE6, CHR 0xAD, CHR 0xA3, CHR 0xE8, CHR 0xAE, CHR 0xB0, CHR 0xE5, CHR 0xBD, CHR 0x95]"

definition zh_cancel_note :: string where
  \<comment> \<open>U+64A4 U+9500 U+4EBA U+5DE5 U+4FEE U+6B63 U+7533 U+8BF7 (correction withdrawn)\<close>
  "zh_cancel_note =
     [CHR 0xE6, CHR 0x92, CHR 0xA4, CHR 0xE9, CHR 0x94, CHR 0x80, CHR 0xE4, CHR 0xBA, CHR 0xBA,
      CHR 0xE5, CHR 0xB7, CHR 0xA5, CHR 0xE4, CHR 0xBF, CHR 0xAE, CHR 0xE6, CHR 0xAD, CHR 0xA3,
      CHR 0xE7, CHR 0x94, CHR 0xB3, CHR 0xE8, CHR 0xAF, CHR 0xB7]"

definition zh_approve_note :: string where
  \<comment> \<open>U+5BA1 U+6838 U+901A U+8FC7 (approved)\<close>
  "zh_approve_note =
     [CHR 0xE5, CHR 0xAE, CHR 0xA1, CHR 0xE6, CHR 0xA0, CHR 0xB8, CHR 0xE9, CHR 0x80, CHR 0x9A,
      CHR 0xE8, CHR 0xBF, CHR 0x87]"

definition zh_retry_note :: string where
  \<comment> \<open>U+7BA1 U+7406 U+5458 U+624B U+52A8 U+91CD U+8BD5 (retried by an administrator)\<close>
  "zh_retry_note =
     [CHR 0xE7, CHR 0xAE, CHR 0xA1, CHR 0xE7, CHR 0x90, CHR 0x86, CHR 0xE5, CHR 0x91, CHR 0x98,
      CHR 0xE6, CHR 0x89, CHR 0x8B, CHR 0xE5, CHR 0x8A, CHR 0xA8, CHR 0xE9, CHR 0x87, CHR 0x8D,
      CHR 0xE8, CHR 0xAF, CHR 0x95]"

definition zh_projection_note :: string where
  \<comment> \<open>U+4FEE U+6B63 U+6295 U+5F71 U+5DF2 U+843D U+5E93 U+FF0C U+4E1A U+52A1 U+6570 U+636E U+4FDD U+6301 U+9694 U+79BB (projection stored, business data kept apart)\<close>
  "zh_projection_note =
     [CHR 0xE4, CHR 0xBF, CHR 0xAE, CHR 0xE6, CHR 0xAD, CHR 0xA3, CHR 0xE6, CHR 0x8A, CHR 0x95,
      CHR 0xE5, CHR 0xBD, CHR 0xB1, CHR 0xE5, CHR 0xB7, CHR 0xB2, CHR 0xE8, CHR 0x90, CHR 0xBD,
      CHR 0xE5, CHR 0xBA, CHR 0x93, CHR 0xEF, CHR 0xBC, CHR 0x8C, CHR 0xE4, CHR 0xB8, CHR 0x9A,
      CHR 0xE5, CHR 0x8A, CHR 0xA1, CHR 0xE6, CHR 0x95, CHR 0xB0, CHR 0xE6, CHR 0x8D, CHR 0xAE,
      CHR 0xE4, CHR 0xBF, CHR 0x9D, CHR 0xE6, CHR 0x8C, CHR 0x81, CHR 0xE9, CHR 0x9A, CHR 0x94,
      CHR 0xE7, CHR 0xA6, CHR 0xBB]"

definition zh_dual_note :: string where
  \<comment> \<open>U+004D U+0079 U+0053 U+0051 U+004C U+0020 U+4E0E U+56FE U+5E93 U+540C U+6B65 U+5B8C U+6210 (MySQL and graph synchronised)\<close>
  "zh_dual_note =
     [CHR 0x4D, CHR 0x79, CHR 0x53, CHR 0x51, CHR 0x4C, CHR 0x20, CHR 0xE4, CHR 0xB8, CHR 0x8E,
      CHR 0xE5, CHR 0x9B, CHR 0xBE, CHR 0xE5, CHR 0xBA, CHR 0x93, CHR 0xE5, CHR 0x90, CHR 0x8C,
      CHR 0xE6, CHR 0xAD, CHR 0xA5, CHR 0xE5, CHR 0xAE, CHR 0x8C, CHR 0xE6, CHR 0x88, CHR 0x90]"

definition zh_sync_service :: string where
  \<comment> \<open>U+540C U+6B65 U+670D U+52A1 (synchronisation service)\<close>
  "zh_sync_service =
     [CHR 0xE5, CHR 0x90, CHR 0x8C, CHR 0xE6, CHR 0xAD, CHR 0xA5, CHR 0xE6, CHR 0x9C, CHR 0x8D,
      CHR 0xE5, CHR 0x8A, CHR 0xA1]"

definition zh_mapping :: string where
  \<comment> \<open>U+6620 U+5C04 (mapping)\<close>
  "zh_mapping = [CHR 0xE6, CHR 0x98, CHR 0xA0, CHR 0xE5, CHR 0xB0, CHR 0x84]"

definition zh_type_judgement :: string where
  \<comment> \<open>U+7C7B U+578B U+5224 U+65AD (type judgement)\<close>
  "zh_type_judgement =
     [CHR 0xE7, CHR 0xB1, CHR 0xBB, CHR 0xE5, CHR 0x9E, CHR 0x8B, CHR 0xE5, CHR 0x88, CHR 0xA4,
      CHR 0xE6, CHR 0x96, CHR 0xAD]"

definition zh_std_failed :: string where
  \<comment> \<open>U+6807 U+51C6 U+5316 U+5931 U+8D25 (standardisation failed)\<close>
  "zh_std_failed =
     [CHR 0xE6, CHR 0xA0, CHR 0x87, CHR 0xE5, CHR 0x87, CHR 0x86, CHR 0xE5, CHR 0x8C, CHR 0x96,
      CHR 0xE5, CHR 0xA4, CHR 0xB1, CHR 0xE8, CHR 0xB4, CHR 0xA5]"

definition zh_entity_dup :: string where
  \<comment> \<open>U+5B9E U+4F53 U+91CD U+590D (entity duplicate)\<close>
  "zh_entity_dup =
     [CHR 0xE5, CHR 0xAE, CHR 0x9E, CHR 0xE4, CHR 0xBD, CHR 0x93, CHR 0xE9, CHR 0x87, CHR 0x8D,
      CHR 0xE5, CHR 0xA4, CHR 0x8D]"

definition zh_entity_type :: string where
  \<comment> \<open>U+5B9E U+4F53 U+7C7B U+578B (entity type)\<close>
  "zh_entity_type =
     [CHR 0xE5, CHR 0xAE, CHR 0x9E, CHR 0xE4, CHR 0xBD, CHR 0x93, CHR 0xE7, CHR 0xB1, CHR 0xBB,
      CHR 0xE5, CHR 0x9E, CHR 0x8B]"

definition zh_entity_conf :: string where
  \<comment> \<open>U+5B9E U+4F53 U+7F6E U+4FE1 (entity confidence)\<close>
  "zh_entity_conf =
     [CHR 0xE5, CHR 0xAE, CHR 0x9E, CHR 0xE4, CHR 0xBD, CHR 0x93, CHR 0xE7, CHR 0xBD, CHR 0xAE,
      CHR 0xE4, CHR 0xBF, CHR 0xA1]"

definition zh_entity_align :: string where
  \<comment> \<open>U+5B9E U+4F53 U+5BF9 U+9F50 (entity alignment)\<close>
  "zh_entity_align =
     [CHR 0xE5, CHR 0xAE, CHR 0x9E, CHR 0xE4, CHR 0xBD, CHR 0x93, CHR 0xE5, CHR 0xAF, CHR 0xB9,
      CHR 0xE9, CHR 0xBD, CHR 0x90]"

definition zh_align_ambig :: string where
  \<comment> \<open>U+5BF9 U+9F50 U+6B67 U+4E49 (alignment ambiguity)\<close>
  "zh_align_ambig =
     [CHR 0xE5, CHR 0xAF, CHR 0xB9, CHR 0xE9, CHR 0xBD, CHR 0x90, CHR 0xE6, CHR 0xAD, CHR 0xA7,
      CHR 0xE4, CHR 0xB9, CHR 0x89]"

definition zh_relation :: string where
  \<comment> \<open>U+5173 U+7CFB (relation)\<close>
  "zh_relation = [CHR 0xE5, CHR 0x85, CHR 0xB3, CHR 0xE7, CHR 0xB3, CHR 0xBB]"

definition zh_evidence :: string where
  \<comment> \<open>U+8BC1 U+636E (evidence)\<close>
  "zh_evidence = [CHR 0xE8, CHR 0xAF, CHR 0x81, CHR 0xE6, CHR 0x8D, CHR 0xAE]"

definition zh_confidence :: string where
  \<comment> \<open>U+7F6E U+4FE1 (confidence)\<close>
  "zh_confidence = [CHR 0xE7, CHR 0xBD, CHR 0xAE, CHR 0xE4, CHR 0xBF, CHR 0xA1]"

definition zh_type :: string where
  \<comment> \<open>U+7C7B U+578B (type)\<close>
  "zh_type = [CHR 0xE7, CHR 0xB1, CHR 0xBB, CHR 0xE5, CHR 0x9E, CHR 0x8B]"

definition zh_attr_conflict :: string where
  \<comment> \<open>U+5C5E U+6027 U+51B2 U+7A81 (attribute conflict)\<close>
  "zh_attr_conflict =
     [CHR 0xE5, CHR 0xB1, CHR 0x9E, CHR 0xE6, CHR 0x80, CHR 0xA7, CHR 0xE5, CHR 0x86, CHR 0xB2,
      CHR 0xE7, CHR 0xAA, CHR 0x81]"

definition zh_missing :: string where
  \<comment> \<open>U+7F3A U+5931 (missing)\<close>
  "zh_missing = [CHR 0xE7, CHR 0xBC, CHR 0xBA, CHR 0xE5, CHR 0xA4, CHR 0xB1]"

definition zh_unique :: string where
  \<comment> \<open>U+552F U+4E00 U+6027 (uniqueness)\<close>
  "zh_unique =
     [CHR 0xE5, CHR 0x94, CHR 0xAF, CHR 0xE4, CHR 0xB8, CHR 0x80, CHR 0xE6, CHR 0x80, CHR 0xA7]"

definition zh_dup_record :: string where
  \<comment> \<open>U+91CD U+590D U+8BB0 U+5F55 (duplicate record)\<close>
  "zh_dup_record =
     [CHR 0xE9, CHR 0x87, CHR 0x8D, CHR 0xE5, CHR 0xA4, CHR 0x8D, CHR 0xE8, CHR 0xAE, CHR 0xB0,
      CHR 0xE5, CHR 0xBD, CHR 0x95]"

definition zh_conflict :: string where
  \<comment> \<open>U+51B2 U+7A81 (conflict)\<close>
  "zh_conflict = [CHR 0xE5, CHR 0x86, CHR 0xB2, CHR 0xE7, CHR 0xAA, CHR 0x81]"

definition zh_insufficient :: string where
  \<comment> \<open>U+4E0D U+8DB3 (insufficient)\<close>
  "zh_insufficient = [CHR 0xE4, CHR 0xB8, CHR 0x8D, CHR 0xE8, CHR 0xB6, CHR 0xB3]"

definition zh_failed :: string where
  \<comment> \<open>U+5931 U+8D25 (failed)\<close>
  "zh_failed = [CHR 0xE5, CHR 0xA4, CHR 0xB1, CHR 0xE8, CHR 0xB4, CHR 0xA5]"

definition zh_timeout :: string where
  \<comment> \<open>U+8D85 U+65F6 (timeout)\<close>
  "zh_timeout = [CHR 0xE8, CHR 0xB6, CHR 0x85, CHR 0xE6, CHR 0x97, CHR 0xB6]"

definition zh_map_failed :: string where
  \<comment> \<open>U+6620 U+5C04 U+5931 U+8D25 (mapping failed)\<close>
  "zh_map_failed =
     [CHR 0xE6, CHR 0x98, CHR 0xA0, CHR 0xE5, CHR 0xB0, CHR 0x84, CHR 0xE5, CHR 0xA4, CHR 0xB1,
      CHR 0xE8, CHR 0xB4, CHR 0xA5]"

definition zh_manual_review :: string where
  \<comment> \<open>U+4EBA U+5DE5 U+5BA1 U+6838 (manual review)\<close>
  "zh_manual_review =
     [CHR 0xE4, CHR 0xBA, CHR 0xBA, CHR 0xE5, CHR 0xB7, CHR 0xA5, CHR 0xE5, CHR 0xAE, CHR 0xA1,
      CHR 0xE6, CHR 0xA0, CHR 0xB8]"

definition zh_approval_note :: string where
  \<comment> \<open>U+5BA1 U+6279 U+610F U+89C1 (approval note)\<close>
  "zh_approval_note =
     [CHR 0xE5, CHR 0xAE, CHR 0xA1, CHR 0xE6, CHR 0x89, CHR 0xB9, CHR 0xE6, CHR 0x84, CHR 0x8F,
      CHR 0xE8, CHR 0xA7, CHR 0x81]"

definition zh_data_processing :: string where
  \<comment> \<open>U+6570 U+636E U+5904 U+7406 (data processing)\<close>
  "zh_data_processing =
     [CHR 0xE6, CHR 0x95, CHR 0xB0, CHR 0xE6, CHR 0x8D, CHR 0xAE, CHR 0xE5, CHR 0xA4, CHR 0x84,
      CHR 0xE7, CHR 0x90, CHR 0x86]"

definition zh_graph_build :: string where
  \<comment> \<open>U+56FE U+8C31 U+6784 U+5EFA (graph construction)\<close>
  "zh_graph_build =
     [CHR 0xE5, CHR 0x9B, CHR 0xBE, CHR 0xE8, CHR 0xB0, CHR 0xB1, CHR 0xE6, CHR 0x9E, CHR 0x84,
      CHR 0xE5, CHR 0xBB, CHR 0xBA]"

definition zh_step_source :: string where
  \<comment> \<open>U+6570 U+636E U+63A5 U+5165 (data ingestion)\<close>
  "zh_step_source =
     [CHR 0xE6, CHR 0x95, CHR 0xB0, CHR 0xE6, CHR 0x8D, CHR 0xAE, CHR 0xE6, CHR 0x8E, CHR 0xA5,
      CHR 0xE5, CHR 0x85, CHR 0xA5]"

definition zh_step_normalize :: string where
  \<comment> \<open>U+6E05 U+6D17 U+6807 U+51C6 U+5316 (cleaning and standardisation)\<close>
  "zh_step_normalize =
     [CHR 0xE6, CHR 0xB8, CHR 0x85, CHR 0xE6, CHR 0xB4, CHR 0x97, CHR 0xE6, CHR 0xA0, CHR 0x87,
      CHR 0xE5, CHR 0x87, CHR 0x86, CHR 0xE5, CHR 0x8C, CHR 0x96]"

definition zh_step_schema :: string where
  \<comment> \<open>U+0053 U+0063 U+0068 U+0065 U+006D U+0061 U+0020 U+6620 U+5C04 (schema mapping)\<close>
  "zh_step_schema =
     [CHR 0x53, CHR 0x63, CHR 0x68, CHR 0x65, CHR 0x6D, CHR 0x61, CHR 0x20, CHR 0xE6, CHR 0x98,
      CHR 0xA0, CHR 0xE5, CHR 0xB0, CHR 0x84]"

definition zh_step_extract :: string where
  \<comment> \<open>U+5B9E U+4F53 U+5173 U+7CFB U+62BD U+53D6 (entity and relation extraction)\<close>
  "zh_step_extract =
     [CHR 0xE5, CHR 0xAE, CHR 0x9E, CHR 0xE4, CHR 0xBD, CHR 0x93, CHR 0xE5, CHR 0x85, CHR 0xB3,
      CHR 0xE7, CHR 0xB3, CHR 0xBB, CHR 0xE6, CHR 0x8A, CHR 0xBD, CHR 0xE5, CHR 0x8F, CHR 0x96]"

definition zh_step_align :: string where
  \<comment> \<open>U+5B9E U+4F53 U+5BF9 U+9F50 U+6D88 U+6B67 (entity alignment and disambiguation)\<close>
  "zh_step_align =
     [CHR 0xE5, CHR 0xAE, CHR 0x9E, CHR 0xE4, CHR 0xBD, CHR 0x93, CHR 0xE5, CHR 0xAF, CHR 0xB9,
      CHR 0xE9, CHR 0xBD, CHR 0x90, CHR 0xE6, CHR 0xB6, CHR 0x88, CHR 0xE6, CHR 0xAD, CHR 0xA7]"

definition zh_step_validate :: string where
  \<comment> \<open>U+89C4 U+5219 U+4E0E U+8BC1 U+636E U+6821 U+9A8C (rule and evidence validation)\<close>
  "zh_step_validate =
     [CHR 0xE8, CHR 0xA7, CHR 0x84, CHR 0xE5, CHR 0x88, CHR 0x99, CHR 0xE4, CHR 0xB8, CHR 0x8E,
      CHR 0xE8, CHR 0xAF, CHR 0x81, CHR 0xE6, CHR 0x8D, CHR 0xAE, CHR 0xE6, CHR 0xA0, CHR 0xA1,
      CHR 0xE9, CHR 0xAA, CHR 0x8C]"

definition zh_step_persist :: string where
  \<comment> \<open>U+56FE U+8C31 U+5165 U+5E93 (graph persistence)\<close>
  "zh_step_persist =
     [CHR 0xE5, CHR 0x9B, CHR 0xBE, CHR 0xE8, CHR 0xB0, CHR 0xB1, CHR 0xE5, CHR 0x85, CHR 0xA5,
      CHR 0xE5, CHR 0xBA, CHR 0x93]"

definition zh_title_map :: string where
  \<comment> \<open>U+9009 U+503C U+6620 U+5C04 (value mapping)\<close>
  "zh_title_map =
     [CHR 0xE9, CHR 0x80, CHR 0x89, CHR 0xE5, CHR 0x80, CHR 0xBC, CHR 0xE6, CHR 0x98, CHR 0xA0,
      CHR 0xE5, CHR 0xB0, CHR 0x84]"

definition zh_title_fill :: string where
  \<comment> \<open>U+5FC5 U+586B U+8865 U+5168 (required field completion)\<close>
  "zh_title_fill =
     [CHR 0xE5, CHR 0xBF, CHR 0x85, CHR 0xE5, CHR 0xA1, CHR 0xAB, CHR 0xE8, CHR 0xA1, CHR 0xA5,
      CHR 0xE5, CHR 0x85, CHR 0xA8]"

definition zh_title_merge :: string where
  \<comment> \<open>U+91CD U+590D U+5B9A U+4E3B (duplicate master selection)\<close>
  "zh_title_merge =
     [CHR 0xE9, CHR 0x87, CHR 0x8D, CHR 0xE5, CHR 0xA4, CHR 0x8D, CHR 0xE5, CHR 0xAE, CHR 0x9A,
      CHR 0xE4, CHR 0xB8, CHR 0xBB]"

definition zh_title_link :: string where
  \<comment> \<open>U+5B9E U+4F53 U+5BF9 U+9F50 U+88C1 U+51B3 (entity alignment verdict)\<close>
  "zh_title_link =
     [CHR 0xE5, CHR 0xAE, CHR 0x9E, CHR 0xE4, CHR 0xBD, CHR 0x93, CHR 0xE5, CHR 0xAF, CHR 0xB9,
      CHR 0xE9, CHR 0xBD, CHR 0x90, CHR 0xE8, CHR 0xA3, CHR 0x81, CHR 0xE5, CHR 0x86, CHR 0xB3]"

definition zh_title_evidence :: string where
  \<comment> \<open>U+5173 U+7CFB U+8BC1 U+636E U+5BA1 U+6838 (relation evidence review)\<close>
  "zh_title_evidence =
     [CHR 0xE5, CHR 0x85, CHR 0xB3, CHR 0xE7, CHR 0xB3, CHR 0xBB, CHR 0xE8, CHR 0xAF, CHR 0x81,
      CHR 0xE6, CHR 0x8D, CHR 0xAE, CHR 0xE5, CHR 0xAE, CHR 0xA1, CHR 0xE6, CHR 0xA0, CHR 0xB8]"

definition zh_title_attr :: string where
  \<comment> \<open>U+5C5E U+6027 U+5BF9 U+7167 (attribute comparison)\<close>
  "zh_title_attr =
     [CHR 0xE5, CHR 0xB1, CHR 0x9E, CHR 0xE6, CHR 0x80, CHR 0xA7, CHR 0xE5, CHR 0xAF, CHR 0xB9,
      CHR 0xE7, CHR 0x85, CHR 0xA7]"

definition zh_title_runtime :: string where
  \<comment> \<open>U+8FD0 U+884C U+5904 U+7F6E (runtime handling)\<close>
  "zh_title_runtime =
     [CHR 0xE8, CHR 0xBF, CHR 0x90, CHR 0xE8, CHR 0xA1, CHR 0x8C, CHR 0xE5, CHR 0xA4, CHR 0x84,
      CHR 0xE7, CHR 0xBD, CHR 0xAE]"

definition zh_target_map :: string where
  \<comment> \<open>U+0053 U+0063 U+0068 U+0065 U+006D U+0061 U+0020 U+6620 U+5C04 U+002F U+6807 U+51C6 U+5B57 U+5178 U+0020 U+0063 U+006F U+0072 U+0072 U+0065 U+0063 U+0074 U+0069 U+006F U+006E U+0020 U+5C42 (schema mapping / dictionary correction layer)\<close>
  "zh_target_map =
     [CHR 0x53, CHR 0x63, CHR 0x68, CHR 0x65, CHR 0x6D, CHR 0x61, CHR 0x20, CHR 0xE6, CHR 0x98,
      CHR 0xA0, CHR 0xE5, CHR 0xB0, CHR 0x84, CHR 0x2F, CHR 0xE6, CHR 0xA0, CHR 0x87, CHR 0xE5,
      CHR 0x87, CHR 0x86, CHR 0xE5, CHR 0xAD, CHR 0x97, CHR 0xE5, CHR 0x85, CHR 0xB8, CHR 0x20,
      CHR 0x63, CHR 0x6F, CHR 0x72, CHR 0x72, CHR 0x65, CHR 0x63, CHR 0x74, CHR 0x69, CHR 0x6F,
      CHR 0x6E, CHR 0x20, CHR 0xE5, CHR 0xB1, CHR 0x82]"

definition zh_target_fill :: string where
  \<comment> \<open>U+5B57 U+6BB5 U+8865 U+5168 U+0020 U+0063 U+006F U+0072 U+0072 U+0065 U+0063 U+0074 U+0069 U+006F U+006E U+0020 U+5C42 (field completion correction layer)\<close>
  "zh_target_fill =
     [CHR 0xE5, CHR 0xAD, CHR 0x97, CHR 0xE6, CHR 0xAE, CHR 0xB5, CHR 0xE8, CHR 0xA1, CHR 0xA5,
      CHR 0xE5, CHR 0x85, CHR 0xA8, CHR 0x20, CHR 0x63, CHR 0x6F, CHR 0x72, CHR 0x72, CHR 0x65,
      CHR 0x63, CHR 0x74, CHR 0x69, CHR 0x6F, CHR 0x6E, CHR 0x20, CHR 0xE5, CHR 0xB1, CHR 0x82]"

definition zh_target_merge :: string where
  \<comment> \<open>U+53BB U+91CD U+0020 U+0063 U+006F U+0072 U+0072 U+0065 U+0063 U+0074 U+0069 U+006F U+006E U+0020 U+5C42 (deduplication correction layer)\<close>
  "zh_target_merge =
     [CHR 0xE5, CHR 0x8E, CHR 0xBB, CHR 0xE9, CHR 0x87, CHR 0x8D, CHR 0x20, CHR 0x63, CHR 0x6F,
      CHR 0x72, CHR 0x72, CHR 0x65, CHR 0x63, CHR 0x74, CHR 0x69, CHR 0x6F, CHR 0x6E, CHR 0x20,
      CHR 0xE5, CHR 0xB1, CHR 0x82]"

definition zh_target_link :: string where
  \<comment> \<open>U+5B9E U+4F53 U+5BF9 U+9F50 U+0020 U+0063 U+006F U+0072 U+0072 U+0065 U+0063 U+0074 U+0069 U+006F U+006E U+0020 U+5C42 (entity alignment correction layer)\<close>
  "zh_target_link =
     [CHR 0xE5, CHR 0xAE, CHR 0x9E, CHR 0xE4, CHR 0xBD, CHR 0x93, CHR 0xE5, CHR 0xAF, CHR 0xB9,
      CHR 0xE9, CHR 0xBD, CHR 0x90, CHR 0x20, CHR 0x63, CHR 0x6F, CHR 0x72, CHR 0x72, CHR 0x65,
      CHR 0x63, CHR 0x74, CHR 0x69, CHR 0x6F, CHR 0x6E, CHR 0x20, CHR 0xE5, CHR 0xB1, CHR 0x82]"

definition zh_target_evidence :: string where
  \<comment> \<open>U+5019 U+9009 U+5173 U+7CFB U+0020 U+0063 U+006F U+0072 U+0072 U+0065 U+0063 U+0074 U+0069 U+006F U+006E U+0020 U+5C42 (candidate relation correction layer)\<close>
  "zh_target_evidence =
     [CHR 0xE5, CHR 0x80, CHR 0x99, CHR 0xE9, CHR 0x80, CHR 0x89, CHR 0xE5, CHR 0x85, CHR 0xB3,
      CHR 0xE7, CHR 0xB3, CHR 0xBB, CHR 0x20, CHR 0x63, CHR 0x6F, CHR 0x72, CHR 0x72, CHR 0x65,
      CHR 0x63, CHR 0x74, CHR 0x69, CHR 0x6F, CHR 0x6E, CHR 0x20, CHR 0xE5, CHR 0xB1, CHR 0x82]"

definition zh_target_attr :: string where
  \<comment> \<open>U+5C5E U+6027 U+878D U+5408 U+0020 U+0063 U+006F U+0072 U+0072 U+0065 U+0063 U+0074 U+0069 U+006F U+006E U+0020 U+5C42 (attribute fusion correction layer)\<close>
  "zh_target_attr =
     [CHR 0xE5, CHR 0xB1, CHR 0x9E, CHR 0xE6, CHR 0x80, CHR 0xA7, CHR 0xE8, CHR 0x9E, CHR 0x8D,
      CHR 0xE5, CHR 0x90, CHR 0x88, CHR 0x20, CHR 0x63, CHR 0x6F, CHR 0x72, CHR 0x72, CHR 0x65,
      CHR 0x63, CHR 0x74, CHR 0x69, CHR 0x6F, CHR 0x6E, CHR 0x20, CHR 0xE5, CHR 0xB1, CHR 0x82]"

definition zh_target_runtime :: string where
  \<comment> \<open>U+4EFB U+52A1 U+914D U+7F6E U+0020 U+0063 U+006F U+0072 U+0072 U+0065 U+0063 U+0074 U+0069 U+006F U+006E U+0020 U+5C42 (task configuration correction layer)\<close>
  "zh_target_runtime =
     [CHR 0xE4, CHR 0xBB, CHR 0xBB, CHR 0xE5, CHR 0x8A, CHR 0xA1, CHR 0xE9, CHR 0x85, CHR 0x8D,
      CHR 0xE7, CHR 0xBD, CHR 0xAE, CHR 0x20, CHR 0x63, CHR 0x6F, CHR 0x72, CHR 0x72, CHR 0x65,
      CHR 0x63, CHR 0x74, CHR 0x69, CHR 0x6F, CHR 0x6E, CHR 0x20, CHR 0xE5, CHR 0xB1, CHR 0x82]"

lemmas lexicon_defs =
  zh_dev_user_def
  zh_local_admin_def
  zh_success_def
  zh_op_login_def
  zh_cat_login_def
  zh_dev_login_detail_def
  zh_op_sync_def
  zh_cat_account_def
  zh_sync_detail_def
  zh_oauth_detail_def
  zh_op_refresh_def
  zh_cat_security_def
  zh_refresh_detail_def
  zh_op_logout_def
  zh_logout_detail_def
  zh_op_portal_def
  zh_portal_detail_def
  zh_submit_note_def
  zh_edit_note_def
  zh_cancel_note_def
  zh_approve_note_def
  zh_retry_note_def
  zh_projection_note_def
  zh_dual_note_def
  zh_sync_service_def
  zh_mapping_def
  zh_type_judgement_def
  zh_std_failed_def
  zh_entity_dup_def
  zh_entity_type_def
  zh_entity_conf_def
  zh_entity_align_def
  zh_align_ambig_def
  zh_relation_def
  zh_evidence_def
  zh_confidence_def
  zh_type_def
  zh_attr_conflict_def
  zh_missing_def
  zh_unique_def
  zh_dup_record_def
  zh_conflict_def
  zh_insufficient_def
  zh_failed_def
  zh_timeout_def
  zh_map_failed_def
  zh_manual_review_def
  zh_approval_note_def
  zh_data_processing_def
  zh_graph_build_def
  zh_step_source_def
  zh_step_normalize_def
  zh_step_schema_def
  zh_step_extract_def
  zh_step_align_def
  zh_step_validate_def
  zh_step_persist_def
  zh_title_map_def
  zh_title_fill_def
  zh_title_merge_def
  zh_title_link_def
  zh_title_evidence_def
  zh_title_attr_def
  zh_title_runtime_def
  zh_target_map_def
  zh_target_fill_def
  zh_target_merge_def
  zh_target_link_def
  zh_target_evidence_def
  zh_target_attr_def
  zh_target_runtime_def

end
