(* ===== verification/Json.thy ===== *)
theory Json
  imports Prelude "HOL-Library.Multiset"
begin

text \<open>
  JSON values as the services hold them, their truthiness, dictionary access and update, and
  the canonical printer \<open>dump\<close> of service/manual\_review\_production.py.  A float is kept as
  its \<open>repr\<close>, which Python prints and reads back without loss.
\<close>

datatype json =
    JNull
  | JBool bool
  | JInt int
  | JFloat string
  | JStr string
  | JList "json list"
  | JObj "(string \<times> json) list"

type_synonym dict = "(string \<times> json) list"

section \<open>Truthiness and access\<close>

fun truthy :: "json \<Rightarrow> bool" where
  "truthy JNull = False"
| "truthy (JBool b) = b"
| "truthy (JInt i) = (i \<noteq> 0)"
| "truthy (JFloat s) = (s \<noteq> ''0.0'' \<and> s \<noteq> ''-0.0'')"
| "truthy (JStr s) = (s \<noteq> [])"
| "truthy (JList xs) = (xs \<noteq> [])"
| "truthy (JObj d) = (d \<noteq> [])"

definition dget :: "dict \<Rightarrow> string \<Rightarrow> json" where
  \<comment> \<open>\<open>d.get(k)\<close>\<close>
  "dget d k = (case map_of d k of None \<Rightarrow> JNull | Some v \<Rightarrow> v)"

definition dget_or :: "dict \<Rightarrow> string \<Rightarrow> json \<Rightarrow> json" where
  \<comment> \<open>\<open>d.get(k, v0)\<close>\<close>
  "dget_or d k v0 = (case map_of d k of None \<Rightarrow> v0 | Some v \<Rightarrow> v)"

fun dset :: "string \<Rightarrow> json \<Rightarrow> dict \<Rightarrow> dict" where
  \<comment> \<open>\<open>d[k] = v\<close>: an existing key keeps its place, a new key is appended\<close>
  "dset k v [] = [(k, v)]"
| "dset k v (p # d) = (if fst p = k then (k, v) # d else p # dset k v d)"

definition dmerge :: "dict \<Rightarrow> dict \<Rightarrow> dict" where
  \<comment> \<open>\<open>{**a, **b}\<close>\<close>
  "dmerge a b = foldl (\<lambda>d p. dset (fst p) (snd p) d) a b"

lemma map_of_dset [simp]: "map_of (dset k v d) = (map_of d)(k \<mapsto> v)"
  by (induction d) auto

lemma dget_dset [simp]: "dget (dset k v d) k' = (if k' = k then v else dget d k')"
  by (simp add: dget_def)

lemma dset_not_Nil [simp]: "dset k v d \<noteq> []"
  by (cases d) auto

lemma keys_dset: "fst ` set (dset k v d) = insert k (fst ` set d)"
  by (induction d) auto

lemma distinct_dset: "distinct (map fst d) \<Longrightarrow> distinct (map fst (dset k v d))"
proof (induction d)
  case Nil
  then show ?case by simp
next
  case (Cons p d)
  then show ?case using keys_dset [of k v d] by auto
qed

lemma map_of_dmerge: "distinct (map fst b) \<Longrightarrow> map_of (dmerge a b) = map_of a ++ map_of b"
proof (induction b arbitrary: a)
  case Nil
  then show ?case by (simp add: dmerge_def)
next
  case (Cons p b)
  then have "map_of (dmerge a (p # b)) = map_of (dset (fst p) (snd p) a) ++ map_of b"
    by (simp add: dmerge_def)
  moreover have "fst p \<notin> dom (map_of b)"
    using Cons.prems by (auto simp: dom_map_of_conv_image_fst)
  ultimately show ?case
    by (cases p) (auto simp: map_add_upd_left fun_eq_iff map_add_def split: option.splits)
qed

lemma distinct_dmerge: "distinct (map fst a) \<Longrightarrow> distinct (map fst (dmerge a b))"
  unfolding dmerge_def by (induction b arbitrary: a) (auto simp: distinct_dset)

definition json_or :: "json \<Rightarrow> json \<Rightarrow> json" where
  \<comment> \<open>\<open>a or b\<close>\<close>
  "json_or a b = (if truthy a then a else b)"

definition as_dict :: "json \<Rightarrow> dict" where
  "as_dict v = (case v of JObj d \<Rightarrow> d | _ \<Rightarrow> [])"

section \<open>Canonical printing\<close>

definition hex_digit :: "nat \<Rightarrow> char" where
  "hex_digit n = (if n < 10 then char_of (48 + n) else char_of (87 + n))"

definition esc_char :: "char \<Rightarrow> string" where
  "esc_char c =
     (let n = of_char c :: nat in
      if n = 34 then [CHR 0x5C, CHR 0x22]
      else if n = 92 then [CHR 0x5C, CHR 0x5C]
      else if n = 10 then [CHR 0x5C, CHR ''n'']
      else if n = 13 then [CHR 0x5C, CHR ''r'']
      else if n = 9 then [CHR 0x5C, CHR ''t'']
      else if n = 12 then [CHR 0x5C, CHR ''f'']
      else if n = 8 then [CHR 0x5C, CHR ''b'']
      else if n < 32 then [CHR 0x5C, CHR ''u'', CHR ''0'', CHR ''0'',
                           hex_digit (n div 16), hex_digit (n mod 16)]
      else [c])"

definition dump_str :: "string \<Rightarrow> string" where
  "dump_str s = CHR 0x22 # concat (map esc_char s) @ [CHR 0x22]"

fun dump :: "json \<Rightarrow> string" where
  "dump JNull = ''null''"
| "dump (JBool b) = (if b then ''true'' else ''false'')"
| "dump (JInt i) = show_int i"
| "dump (JFloat s) = s"
| "dump (JStr s) = dump_str s"
| "dump (JList xs) = ''['' @ py_join '','' (map dump xs) @ '']''"
| "dump (JObj d) =
     ''{'' @ py_join '','' (map snd (sort_key fst
        (map (\<lambda>p. (fst p, dump_str (fst p) @ '':'' @ dump (snd p))) d))) @ ''}''"

text \<open>The printed form does not depend on the insertion order of the keys.\<close>

lemma distinct_set_single: "distinct zs \<Longrightarrow> set zs = {k} \<Longrightarrow> zs = [k]"
  by (cases zs; cases "tl zs") auto

lemma sort_key_mset_eq:
  fixes xs ys :: "('a :: linorder \<times> 'b) list"
  assumes "mset xs = mset ys" and "distinct (map fst xs)"
  shows "sort_key fst xs = sort_key fst ys"
proof (rule properties_for_sort_key)
  show "mset (sort_key fst ys) = mset xs" using assms(1) by simp
  show "sorted (map fst (sort_key fst ys))" by simp
  fix k
  assume "k \<in> set (sort_key fst ys)"
  then have "k \<in> set xs" using assms(1) by (metis mset_eq_setD set_sort)
  have inj: "inj_on fst (set xs)" using assms(2) by (simp add: distinct_map)
  have "distinct xs" using assms(2) by (simp add: distinct_map)
  then have d: "distinct (sort_key fst ys)"
    using assms(1) by (metis distinct_sort mset_eq_imp_distinct_iff)
  have s: "set (sort_key fst ys) = set xs" using assms(1) by (metis mset_eq_setD set_sort)
  have one: "filter (\<lambda>x. fst k = fst x) zs = [k]"
    if "distinct zs" and "set zs = set xs" for zs
  proof (rule distinct_set_single)
    show "distinct (filter (\<lambda>x. fst k = fst x) zs)" using that by simp
    show "set (filter (\<lambda>x. fst k = fst x) zs) = {k}"
      using that \<open>k \<in> set xs\<close> inj by (auto dest: inj_onD)
  qed
  show "filter (\<lambda>x. fst k = fst x) (sort_key fst ys) = filter (\<lambda>x. fst k = fst x) xs"
    using one [OF d s] one [OF \<open>distinct xs\<close> refl] by simp
qed

lemma dump_key_order:
  assumes "mset d = mset d'" and "distinct (map fst d)"
  shows "dump (JObj d) = dump (JObj d')"
proof -
  let ?g = "\<lambda>p. (fst p, dump_str (fst p) @ '':'' @ dump (snd p))"
  have "sort_key fst (map ?g d) = sort_key fst (map ?g d')"
    by (rule sort_key_mset_eq) (use assms in \<open>simp_all add: comp_def\<close>)
  then show ?thesis by simp
qed

section \<open>\<open>str\<close> and \<open>repr\<close>\<close>

text \<open>
  \<open>str(v)\<close> of a JSON value.  Code points above ASCII are printed as they are; Python escapes
  those that Unicode calls not printable.
\<close>

definition repr_char :: "char \<Rightarrow> char \<Rightarrow> string" where
  "repr_char q c =
     (let n = of_char c :: nat in
      if c = q \<or> n = 92 then [CHR 0x5C, c]
      else if n = 10 then [CHR 0x5C, CHR ''n'']
      else if n = 13 then [CHR 0x5C, CHR ''r'']
      else if n = 9 then [CHR 0x5C, CHR ''t'']
      else if n < 32 \<or> n = 127 then [CHR 0x5C, CHR ''x'', hex_digit (n div 16), hex_digit (n mod 16)]
      else [c])"

definition repr_str :: "string \<Rightarrow> string" where
  "repr_str s =
     (let q = (if CHR 0x27 \<in> set s \<and> CHR 0x22 \<notin> set s then CHR 0x22 else CHR 0x27)
      in q # concat (map (repr_char q) s) @ [q])"

fun py_repr :: "json \<Rightarrow> string" where
  "py_repr JNull = ''None''"
| "py_repr (JBool b) = (if b then ''True'' else ''False'')"
| "py_repr (JInt i) = show_int i"
| "py_repr (JFloat s) = s"
| "py_repr (JStr s) = repr_str s"
| "py_repr (JList xs) = ''['' @ py_join '', '' (map py_repr xs) @ '']''"
| "py_repr (JObj d) =
     ''{'' @ py_join '', '' (map (\<lambda>p. repr_str (fst p) @ '': '' @ py_repr (snd p)) d) @ ''}''"

definition py_str :: "json \<Rightarrow> string" where
  "py_str v = (case v of JStr s \<Rightarrow> s | _ \<Rightarrow> py_repr v)"

lemma py_str_JStr [simp]: "py_str (JStr s) = s"
  by (simp add: py_str_def)

end
