(* ===== verification/Review_Domain.thy ===== *)
theory Review_Domain
  imports Lexicon Json
begin

text \<open>
  The contract of the manual-review pipeline (backend/service/manual\_review\_domain.py):
  pipeline steps and the review templates each admits, the choice of a template from an error
  description, the risk policy with its deadlines, the validation of a reviewer's action, and
  role-based access.
\<close>

datatype review_error =
    Conflict string       \<comment> \<open>ReviewConflictError\<close>
  | Forbidden string      \<comment> \<open>ReviewForbiddenError\<close>
  | Validation string     \<comment> \<open>ReviewValidationError\<close>
  | Missing string        \<comment> \<open>KeyError\<close>
  | TypeErr
  | AttrErr
  | RuntimeErr string
  | IntegrityErr          \<comment> \<open>sqlalchemy.exc.IntegrityError\<close>

record review_identity =
  ri_user_id :: string
  ri_user_name :: string
  ri_roles :: "string set"
  ri_domains :: "string set"
  ri_organization :: string
  ri_request_id :: string

definition has_any :: "review_identity \<Rightarrow> string list \<Rightarrow> bool" where
  "has_any i roles = list_ex (\<lambda>r. r \<in> ri_roles i) roles"

lemma has_any_iff [simp]: "has_any i rs \<longleftrightarrow> (\<exists>r \<in> set rs. r \<in> ri_roles i)"
  by (simp add: has_any_def list_ex_iff)

section \<open>Pipeline steps and templates\<close>

record step_info =
  st_name :: string
  st_phase :: string
  st_templates :: "string list"

definition PIPELINE_STEPS :: "(string \<times> step_info) list" where
  "PIPELINE_STEPS =
    [(''source'', \<lparr>st_name = zh_step_source, st_phase = zh_data_processing,
        st_templates = [''T_RUNTIME'']\<rparr>),
     (''normalize'', \<lparr>st_name = zh_step_normalize, st_phase = zh_data_processing,
        st_templates = [''T_MAP'', ''T_DQ_FILL'', ''T_DQ_MERGE'', ''T_RUNTIME'']\<rparr>),
     (''schema'', \<lparr>st_name = zh_step_schema, st_phase = zh_graph_build,
        st_templates = [''T_MAP'', ''T_RUNTIME'']\<rparr>),
     (''extract'', \<lparr>st_name = zh_step_extract, st_phase = zh_graph_build,
        st_templates = [''T_RUNTIME'']\<rparr>),
     (''align'', \<lparr>st_name = zh_step_align, st_phase = zh_graph_build,
        st_templates = [''T_LINK'', ''T_RUNTIME'']\<rparr>),
     (''validate'', \<lparr>st_name = zh_step_validate, st_phase = zh_graph_build,
        st_templates = [''T_EVIDENCE'', ''T_ATTR'', ''T_RUNTIME'']\<rparr>),
     (''persist'', \<lparr>st_name = zh_step_persist, st_phase = zh_graph_build,
        st_templates = [''T_RUNTIME'']\<rparr>)]"

definition TEMPLATE_ALIASES :: "(string \<times> string) list" where
  "TEMPLATE_ALIASES = [(''T_ENTITY'', ''T_LINK''), (''T_RELATION'', ''T_EVIDENCE'')]"

record template =
  tp_title :: string
  tp_actions :: "string list"
  tp_adapter :: string
  tp_components :: json

definition component :: "string \<Rightarrow> string \<Rightarrow> json" where
  "component ty src = JList [JObj [(''type'', JStr ty), (''source'', JStr src)]]"

definition TEMPLATES :: "(string \<times> template) list" where
  "TEMPLATES =
    [(''T_MAP'', \<lparr>tp_title = zh_title_map,
        tp_actions = [''save-map-rerun'', ''confirm-type'', ''rollback-dict'', ''reject-upstream''],
        tp_adapter = ''mapping'',
        tp_components = component ''mapping-table'' ''data.candidate.mappings''\<rparr>),
     (''T_DQ_FILL'', \<lparr>tp_title = zh_title_fill,
        tp_actions = [''save-fill-rerun'', ''discard-record'', ''reject-upstream''],
        tp_adapter = ''data-quality-fill'',
        tp_components = component ''field-editor'' ''data.candidate.missingFields''\<rparr>),
     (''T_DQ_MERGE'', \<lparr>tp_title = zh_title_merge,
        tp_actions = [''merge-rerun'', ''isolate-dup'', ''reject-upstream''],
        tp_adapter = ''data-quality-merge'',
        tp_components = component ''record-merge'' ''data.candidate.records''\<rparr>),
     (''T_LINK'', \<lparr>tp_title = zh_title_link,
        tp_actions = [''entity-confirm'', ''reject-candidate''],
        tp_adapter = ''entity-link'',
        tp_components = JList [JObj [(''type'', JStr ''entity-comparison''),
          (''source'', JStr ''data.candidate''),
          (''target'', JStr ''data.candidate.existingCandidates'')]]\<rparr>),
     (''T_EVIDENCE'', \<lparr>tp_title = zh_title_evidence,
        tp_actions = [''pass-rerun'', ''keep-isolated'', ''reject-extract'', ''force-pass''],
        tp_adapter = ''relation-evidence'',
        tp_components = component ''evidence-list'' ''data.evidence''\<rparr>),
     (''T_ATTR'', \<lparr>tp_title = zh_title_attr,
        tp_actions = [''confirm-attr'', ''reject-upstream''],
        tp_adapter = ''attribute'',
        tp_components = component ''attribute-comparison'' ''data.candidate.conflicts''\<rparr>),
     (''T_RUNTIME'', \<lparr>tp_title = zh_title_runtime,
        tp_actions = [''rerun-batch'', ''retry-task'', ''skip-task'', ''escalate''],
        tp_adapter = ''runtime'',
        tp_components = component ''runtime-config'' ''data.candidate.runtime''\<rparr>)]"

definition ty_is :: "string \<Rightarrow> json" where
  "ty_is t = JObj [(''type'', JStr t)]"

definition RESULT_SCHEMAS :: "(string \<times> json) list" where
  "RESULT_SCHEMAS =
    [(''T_MAP'', JObj [(''type'', JStr ''object''),
        (''properties'', JObj [(''mappings'', ty_is ''array''), (''entityType'', ty_is ''string'')])]),
     (''T_DQ_FILL'', JObj [(''type'', JStr ''object''),
        (''properties'', JObj [(''fields'', ty_is ''object'')])]),
     (''T_DQ_MERGE'', JObj [(''type'', JStr ''object''),
        (''required'', JList [JStr ''mergeMaster'']),
        (''properties'', JObj [(''mergeMaster'',
           JObj [(''type'', JList [JStr ''string'', JStr ''integer''])])])]),
     (''T_LINK'', JObj [(''type'', JStr ''object''),
        (''required'', JList [JStr ''entityVerdict'']),
        (''properties'', JObj [(''entityVerdict'',
           JObj [(''enum'', JList [JStr ''merge'', JStr ''create'', JStr ''retype''])]),
         (''targetEntityId'', ty_is ''string'')])]),
     (''T_EVIDENCE'', JObj [(''type'', JStr ''object''),
        (''properties'', JObj [(''evidence'', ty_is ''array'')])]),
     (''T_ATTR'', JObj [(''type'', JStr ''object''),
        (''properties'', JObj [(''fields'', ty_is ''object''), (''attrVerdict'', ty_is ''string'')])]),
     (''T_RUNTIME'', JObj [(''type'', JStr ''object''),
        (''properties'', JObj [(''runtimeConfig'',
           JObj [(''type'', JList [JStr ''object'', JStr ''string''])])])])]"

definition HIGH_RISK_ACTIONS :: "string list" where
  "HIGH_RISK_ACTIONS = [''force-pass'', ''rollback-dict'', ''skip-task'']"

definition canonical_template :: "string \<Rightarrow> string" where
  "canonical_template v = (case map_of TEMPLATE_ALIASES v of None \<Rightarrow> v | Some t \<Rightarrow> t)"

definition choose_template :: "string \<Rightarrow> string \<Rightarrow> string \<Rightarrow> string" where
  "choose_template error_type node_id object_type =
     (let text = error_type @ '' '' @ node_id @ '' '' @ object_type in
      if py_in zh_mapping text \<or> py_in zh_type_judgement text \<or> py_in zh_std_failed text
        then ''T_MAP''
      else if py_in_any [zh_entity_dup, zh_entity_type, zh_entity_conf, zh_entity_align,
                         zh_align_ambig] text
        then ''T_LINK''
      else if py_in zh_relation text \<and> py_in_any [zh_evidence, zh_confidence, zh_type] text
        then ''T_EVIDENCE''
      else if py_in zh_attr_conflict text then ''T_ATTR''
      else if py_in zh_missing text then ''T_DQ_FILL''
      else if py_in zh_unique text \<or> py_in zh_dup_record text then ''T_DQ_MERGE''
      else ''T_RUNTIME'')"

definition validate_step_template :: "string \<Rightarrow> string \<Rightarrow> review_error + string" where
  "validate_step_template step_id template_id =
     (case map_of PIPELINE_STEPS step_id of
        None \<Rightarrow> Inl (Validation ''step'')
      | Some info \<Rightarrow>
          let tid = canonical_template template_id in
          if map_of TEMPLATES tid = None then Inl (Validation ''template'')
          else if tid \<notin> set (st_templates info) then Inl (Validation ''step-template'')
          else Inr tid)"

section \<open>Risk policy\<close>

datatype risk = P0 | P1 | P2

instantiation risk :: linorder
begin

definition risk_rank :: "risk \<Rightarrow> nat" where
  "risk_rank r = (case r of P0 \<Rightarrow> 0 | P1 \<Rightarrow> 1 | P2 \<Rightarrow> 2)"

definition less_eq_risk :: "risk \<Rightarrow> risk \<Rightarrow> bool" where
  "less_eq_risk a b = (risk_rank a \<le> risk_rank b)"

definition less_risk :: "risk \<Rightarrow> risk \<Rightarrow> bool" where
  "less_risk a b = (risk_rank a < risk_rank b)"

instance
  by standard (auto simp: less_eq_risk_def less_risk_def risk_rank_def split: risk.splits)

end

datatype scope_level = BatchLevel | TaskLevel

fun parse_risk :: "string \<Rightarrow> risk option" where
  "parse_risk s = (if s = ''P0'' then Some P0 else if s = ''P1'' then Some P1
     else if s = ''P2'' then Some P2 else None)"

definition risk_policy ::
  "time \<Rightarrow> string \<Rightarrow> string option \<Rightarrow> string option \<Rightarrow> risk \<times> scope_level \<times> time \<times> time" where
  "risk_policy t error_type scope_hint severity =
     (let scope = (if scope_hint \<in> {Some ''batch'', Some ''BATCH'', Some ''REVIEW_BATCH''}
                   then BatchLevel else TaskLevel);
          risk = (case Option.bind severity parse_risk of
                    Some r \<Rightarrow> r
                  | None \<Rightarrow>
                      if scope = BatchLevel then P0
                      else if py_in_any [zh_conflict, zh_insufficient, zh_missing, zh_failed,
                                         zh_timeout] error_type then P1
                      else P2)
      in case risk of
           P0 \<Rightarrow> (risk, scope, t + 15 * 60, t + 30 * 60)
         | P1 \<Rightarrow> (risk, scope, t + 60 * 60, t + 4 * 60 * 60)
         | P2 \<Rightarrow> (risk, scope, t + 4 * 60 * 60, t + 24 * 60 * 60))"

section \<open>Validation of an action\<close>

definition str_blank :: "json \<Rightarrow> bool" where
  \<comment> \<open>\<open>not str(v).strip()\<close>: only a blank string prints blank; \<open>str(None)\<close> is \<open>'None'\<close>\<close>
  "str_blank v = (case v of JStr s \<Rightarrow> py_blank s | _ \<Rightarrow> False)"

fun count_checked :: "json list \<Rightarrow> review_error + nat" where
  \<comment> \<open>\<open>len([x for x in xs if x.get("checked", True)])\<close>\<close>
  "count_checked [] = Inr 0"
| "count_checked (x # xs) =
     (case x of
        JObj d \<Rightarrow> rbind (count_checked xs)
          (\<lambda>n. Inr (if truthy (dget_or d ''checked'' (JBool True)) then Suc n else n))
      | _ \<Rightarrow> Inl AttrErr)"

definition evidence_count :: "json \<Rightarrow> review_error + nat" where
  \<comment> \<open>iterating a dictionary or a string yields strings, which have no \<open>get\<close>\<close>
  "evidence_count v =
     (case v of
        JList xs \<Rightarrow> count_checked xs
      | JObj d \<Rightarrow> if d = [] then Inr 0 else Inl AttrErr
      | JStr s \<Rightarrow> if s = [] then Inr 0 else Inl AttrErr
      | _ \<Rightarrow> Inl TypeErr)"

definition check_verdict :: "dict \<Rightarrow> review_error + unit" where
  "check_verdict result =
     (case dget result ''entityVerdict'' of
        JStr v \<Rightarrow>
          if v \<notin> {''merge'', ''create'', ''retype''} then Inl (Validation ''verdict'')
          else if v = ''merge'' \<and> \<not> truthy (dget result ''targetEntityId'')
            then Inl (Validation ''targetEntityId'')
          else Inr ()
      | JList _ \<Rightarrow> Inl TypeErr
      | JObj _ \<Rightarrow> Inl TypeErr
      | _ \<Rightarrow> Inl (Validation ''verdict''))"

definition check_evidence :: "dict \<Rightarrow> review_error + unit" where
  "check_evidence result =
     rbind (evidence_count (dget_or result ''evidence'' (JList [])))
       (\<lambda>n. ensure (2 \<le> n) (Validation ''evidence''))"

definition validate_action :: "string \<Rightarrow> string \<Rightarrow> dict \<Rightarrow> review_error + unit" where
  "validate_action template_id action result =
     (case map_of TEMPLATES (canonical_template template_id) of
        None \<Rightarrow> Inl (Validation ''action'')
      | Some t \<Rightarrow>
          if action \<notin> set (tp_actions t) then Inl (Validation ''action'')
          else if action \<in> {''save-map-rerun'', ''rollback-dict''} \<and>
                  \<not> truthy (dget result ''mappings'')
            then Inl (Validation ''mappings'')
          else if action = ''confirm-type'' \<and> \<not> truthy (dget result ''entityType'')
            then Inl (Validation ''entityType'')
          else rbind (if action = ''entity-confirm'' then check_verdict result else Inr ()) (\<lambda>_.
            rbind (if action = ''pass-rerun'' then check_evidence result else Inr ()) (\<lambda>_.
              if action = ''save-fill-rerun'' \<and>
                 \<not> (truthy (dget result ''titleZh'') \<or> truthy (dget result ''fields''))
                then Inl (Validation ''fields'')
              else if action = ''merge-rerun'' \<and>
                      str_blank (dget_or result ''mergeMaster'' (JStr []))
                then Inl (Validation ''mergeMaster'')
              else if action = ''confirm-attr'' \<and>
                      \<not> (truthy (dget result ''fields'') \<or> truthy (dget result ''attrVerdict''))
                then Inl (Validation ''attrVerdict'')
              else if truthy (dget result ''rerunStepId'')
                then Inl (Validation ''rerunStepId'')
              else Inr ())))"

definition template_contract :: "string \<Rightarrow> review_error + json" where
  "template_contract template_id =
     (let tid = canonical_template template_id in
      case (map_of TEMPLATES tid, map_of RESULT_SCHEMAS tid) of
        (Some t, Some sch) \<Rightarrow> Inr (JObj
          [(''id'', JStr tid), (''version'', JStr ''1.0''), (''title'', JStr (tp_title t)),
           (''displaySchema'', JObj [(''sections'', tp_components t)]),
           (''resultSchema'', sch),
           (''allowedActions'', JList (map JStr (sort (tp_actions t))))])
      | _ \<Rightarrow> Inl (Missing tid))"

definition rerun_step :: "string \<Rightarrow> string \<Rightarrow> string" where
  "rerun_step step_id action = (if action = ''reject-extract'' then ''extract'' else step_id)"

definition write_target :: "string \<Rightarrow> review_error + string" where
  "write_target template_id =
     (case map_of [(''T_MAP'', zh_target_map), (''T_DQ_FILL'', zh_target_fill),
                   (''T_DQ_MERGE'', zh_target_merge), (''T_LINK'', zh_target_link),
                   (''T_EVIDENCE'', zh_target_evidence), (''T_ATTR'', zh_target_attr),
                   (''T_RUNTIME'', zh_target_runtime)] (canonical_template template_id) of
        None \<Rightarrow> Inl (Missing (canonical_template template_id))
      | Some s \<Rightarrow> Inr s)"

definition requires_approval :: "risk \<Rightarrow> string \<Rightarrow> dict \<Rightarrow> bool" where
  "requires_approval risk_level action result =
     (risk_level = P0 \<or> action \<in> set HIGH_RISK_ACTIONS \<or> truthy (dget result ''highValueEntity''))"

section \<open>Access\<close>

definition require_domain_access :: "review_identity \<Rightarrow> string \<Rightarrow> review_error + unit" where
  "require_domain_access i d =
     (if \<not> has_any i [''review_admin'', ''auditor'', ''approver''] \<and>
         ri_domains i \<noteq> {} \<and> ''*'' \<notin> ri_domains i \<and> d \<notin> ri_domains i
      then Inl (Forbidden ''domain'') else Inr ())"

definition require_role :: "review_identity \<Rightarrow> string list \<Rightarrow> review_error + unit" where
  "require_role i roles =
     (if \<not> has_any i (roles @ [''review_admin'']) then Inl (Forbidden ''role'') else Inr ())"

definition role_can_review :: "review_identity \<Rightarrow> string \<Rightarrow> bool" where
  "role_can_review i phase =
     (has_any i [''reviewer'', ''review_admin''] \<or>
      phase = zh_data_processing \<and> has_any i [''data_quality_reviewer''] \<or>
      phase = zh_graph_build \<and> has_any i [''graph_governance_reviewer''])"

section \<open>Facts about the contract\<close>

lemma steps_known: "map_of PIPELINE_STEPS s = Some info \<Longrightarrow> t \<in> set (st_templates info) \<Longrightarrow>
    map_of TEMPLATES t \<noteq> None \<and> map_of TEMPLATE_ALIASES t = None"
  by (auto simp: PIPELINE_STEPS_def TEMPLATES_def TEMPLATE_ALIASES_def split: if_splits)

lemma canonical_idem [simp]: "canonical_template (canonical_template v) = canonical_template v"
  by (auto simp: canonical_template_def TEMPLATE_ALIASES_def)

lemma validate_step_template_canonical:
  "validate_step_template s t = Inr tid \<Longrightarrow> tid = canonical_template t \<and> canonical_template tid = tid"
  by (auto simp: validate_step_template_def Let_def split: option.splits if_splits)

lemma validate_step_template_known:
  "validate_step_template s t = Inr tid \<Longrightarrow> \<exists>tp. map_of TEMPLATES tid = Some tp"
  by (auto simp: validate_step_template_def Let_def split: option.splits if_splits)

lemma validate_step_template_step:
  "validate_step_template s t = Inr tid \<Longrightarrow> \<exists>info. map_of PIPELINE_STEPS s = Some info"
  by (auto simp: validate_step_template_def split: option.splits)

text \<open>Which templates carry \<open>reject-extract\<close>, and at which step they can be used.\<close>

lemma reject_extract_template:
  "map_of TEMPLATES t = Some tp \<Longrightarrow> ''reject-extract'' \<in> set (tp_actions tp) \<Longrightarrow> t = ''T_EVIDENCE''"
  by (auto simp: TEMPLATES_def split: if_splits)

lemma evidence_template_step:
  "validate_step_template s t = Inr ''T_EVIDENCE'' \<Longrightarrow> s = ''validate''"
  by (auto simp: validate_step_template_def PIPELINE_STEPS_def Let_def split: if_splits)

text \<open>The templates of a known id have a contract, a result schema and a write target.\<close>

lemma known_template_total:
  assumes "map_of TEMPLATES (canonical_template t) = Some tp"
  shows "is_ok (template_contract t) \<and> is_ok (write_target t)"
  using assms
  by (auto simp: template_contract_def write_target_def TEMPLATES_def RESULT_SCHEMAS_def Let_def
      split: if_splits)

section \<open>The decision table of an action\<close>

text \<open>
  What a result must contain, action by action, stated without the order of the checks.
\<close>

definition evidence_items :: "dict \<Rightarrow> json list option" where
  "evidence_items r =
     (case dget_or r ''evidence'' (JList []) of
        JList xs \<Rightarrow> if list_all (\<lambda>x. \<exists>d. x = JObj d) xs then Some xs else None
      | JObj d \<Rightarrow> if d = [] then Some [] else None
      | JStr s \<Rightarrow> if s = [] then Some [] else None
      | _ \<Rightarrow> None)"

definition is_checked :: "json \<Rightarrow> bool" where
  "is_checked x = (case x of JObj d \<Rightarrow> truthy (dget_or d ''checked'' (JBool True)) | _ \<Rightarrow> False)"

definition payload_complete :: "string \<Rightarrow> dict \<Rightarrow> bool" where
  "payload_complete action r =
     (if action = ''save-map-rerun'' \<or> action = ''rollback-dict'' then truthy (dget r ''mappings'')
      else if action = ''confirm-type'' then truthy (dget r ''entityType'')
      else if action = ''entity-confirm'' then
        dget r ''entityVerdict'' = JStr ''create'' \<or> dget r ''entityVerdict'' = JStr ''retype'' \<or>
        dget r ''entityVerdict'' = JStr ''merge'' \<and> truthy (dget r ''targetEntityId'')
      else if action = ''pass-rerun'' then
        (case evidence_items r of None \<Rightarrow> False | Some xs \<Rightarrow> 2 \<le> length (filter is_checked xs))
      else if action = ''save-fill-rerun'' then
        truthy (dget r ''titleZh'') \<or> truthy (dget r ''fields'')
      else if action = ''merge-rerun'' then \<not> str_blank (dget_or r ''mergeMaster'' (JStr []))
      else if action = ''confirm-attr'' then
        truthy (dget r ''fields'') \<or> truthy (dget r ''attrVerdict'')
      else True)"

lemma count_checked_eq:
  "count_checked xs = Inr n \<longleftrightarrow>
     list_all (\<lambda>x. \<exists>d. x = JObj d) xs \<and> n = length (filter is_checked xs)"
proof (induction xs arbitrary: n)
  case Nil
  then show ?case by auto
next
  case (Cons x xs)
  then show ?case
    by (cases x) (auto simp: rbind_Inr_iff is_checked_def)
qed

lemma check_evidence_ok:
  "check_evidence r = Inr u \<longleftrightarrow>
     (case evidence_items r of None \<Rightarrow> False | Some xs \<Rightarrow> 2 \<le> length (filter is_checked xs))"
  unfolding check_evidence_def evidence_items_def evidence_count_def
  by (cases "dget_or r ''evidence'' (JList [])") (auto simp: rbind_Inr_iff count_checked_eq)

lemma check_verdict_ok:
  "check_verdict r = Inr u \<longleftrightarrow>
     dget r ''entityVerdict'' = JStr ''create'' \<or> dget r ''entityVerdict'' = JStr ''retype'' \<or>
     dget r ''entityVerdict'' = JStr ''merge'' \<and> truthy (dget r ''targetEntityId'')"
  unfolding check_verdict_def by (cases "dget r ''entityVerdict''") auto

lemma action_allowed:
  "validate_action tid action r = Inr u \<Longrightarrow>
     \<exists>t. map_of TEMPLATES (canonical_template tid) = Some t \<and> action \<in> set (tp_actions t)"
  by (auto simp: validate_action_def split: option.splits if_splits)

lemma validate_action_unfold:
  assumes "map_of TEMPLATES (canonical_template tid) = Some t" and "action \<in> set (tp_actions t)"
  shows "validate_action tid action r = Inr () \<longleftrightarrow>
    (action \<in> {''save-map-rerun'', ''rollback-dict''} \<longrightarrow> truthy (dget r ''mappings'')) \<and>
    (action = ''confirm-type'' \<longrightarrow> truthy (dget r ''entityType'')) \<and>
    (action = ''entity-confirm'' \<longrightarrow> check_verdict r = Inr ()) \<and>
    (action = ''pass-rerun'' \<longrightarrow> check_evidence r = Inr ()) \<and>
    (action = ''save-fill-rerun'' \<longrightarrow> truthy (dget r ''titleZh'') \<or> truthy (dget r ''fields'')) \<and>
    (action = ''merge-rerun'' \<longrightarrow> \<not> str_blank (dget_or r ''mergeMaster'' (JStr []))) \<and>
    (action = ''confirm-attr'' \<longrightarrow> truthy (dget r ''fields'') \<or> truthy (dget r ''attrVerdict'')) \<and>
    \<not> truthy (dget r ''rerunStepId'')"
proof -
  have if_Inr: "(if b then Inl e else x) = Inr y \<longleftrightarrow> \<not> b \<and> x = Inr y" for b e x y
    by simp
  have if_unit: "(if b then x else Inr ()) = Inr u \<longleftrightarrow> (b \<longrightarrow> x = Inr u)" for b x u
    by simp
  show ?thesis
    unfolding validate_action_def assms(1) option.case if_Inr rbind_Inr_iff if_unit
    using assms(2)
    by (cases "action = ''save-map-rerun''"; cases "action = ''rollback-dict''") simp_all
qed

text \<open>
  The sequence of checks of \<open>validate_action\<close> accepts exactly the results that the decision
  table allows: the action belongs to the (canonical) template, the payload is complete for that
  action, and the client does not name a step to rerun.
\<close>

theorem validate_action_table:
  "validate_action tid action r = Inr () \<longleftrightarrow>
     (\<exists>t. map_of TEMPLATES (canonical_template tid) = Some t \<and> action \<in> set (tp_actions t)) \<and>
     payload_complete action r \<and> \<not> truthy (dget r ''rerunStepId'')"
proof (cases "\<exists>t. map_of TEMPLATES (canonical_template tid) = Some t \<and> action \<in> set (tp_actions t)")
  case False
  then show ?thesis using action_allowed by blast
next
  case True
  then obtain t where t: "map_of TEMPLATES (canonical_template tid) = Some t"
    "action \<in> set (tp_actions t)" by blast
  show ?thesis
    unfolding validate_action_unfold [OF t] payload_complete_def check_evidence_ok check_verdict_ok
    using True by simp
qed

text \<open>
  A step admits a template exactly when the table of the step lists the canonical name of the
  template, and then the canonical name is what is stored; the runtime template, the fallback of
  \<open>choose_template\<close>, is admitted at every step of the pipeline.
\<close>

theorem validate_step_template_exact:
  "(validate_step_template s t = Inr tid \<longleftrightarrow>
      tid = canonical_template t \<and>
      (case map_of PIPELINE_STEPS s of None \<Rightarrow> False | Some info \<Rightarrow> tid \<in> set (st_templates info))) \<and>
   (is_ok (validate_step_template s ''T_RUNTIME'') \<longleftrightarrow> s \<in> fst ` set PIPELINE_STEPS)"
proof
  show "validate_step_template s t = Inr tid \<longleftrightarrow>
      tid = canonical_template t \<and>
      (case map_of PIPELINE_STEPS s of None \<Rightarrow> False | Some info \<Rightarrow> tid \<in> set (st_templates info))"
    by (cases "map_of PIPELINE_STEPS s")
       (auto simp: validate_step_template_def Let_def dest: steps_known)
  show "is_ok (validate_step_template s ''T_RUNTIME'') \<longleftrightarrow> s \<in> fst ` set PIPELINE_STEPS"
    by (auto simp: validate_step_template_def PIPELINE_STEPS_def TEMPLATES_def
        canonical_template_def TEMPLATE_ALIASES_def)
qed

text \<open>
  The deadlines of the risk policy: claiming is due after the report and before the resolution,
  and a higher risk never has a later deadline than a lower one, whatever the two reports say.
\<close>

theorem risk_policy_deadlines:
  "case risk_policy t e h sev of (r, sc, claim, resolve) \<Rightarrow>
     t < claim \<and> claim < resolve \<and> resolve \<le> t + 24 * 60 * 60 \<and>
     (sev \<notin> {Some ''P0'', Some ''P1'', Some ''P2''} \<and> sc = BatchLevel \<longrightarrow> r = P0) \<and>
     (case risk_policy t e' h' sev' of (r', sc', claim', resolve') \<Rightarrow>
        r \<le> r' \<longrightarrow> claim \<le> claim' \<and> resolve \<le> resolve')"
proof -
  have shape: "\<exists>r sc. risk_policy t e h sev = (r, sc,
      t + (case r of P0 \<Rightarrow> 900 | P1 \<Rightarrow> 3600 | P2 \<Rightarrow> 14400),
      t + (case r of P0 \<Rightarrow> 1800 | P1 \<Rightarrow> 14400 | P2 \<Rightarrow> 86400)) \<and>
      (sev \<notin> {Some ''P0'', Some ''P1'', Some ''P2''} \<and> sc = BatchLevel \<longrightarrow> r = P0)" for e h sev
    by (cases "Option.bind sev parse_risk"; cases sev)
       (auto simp: risk_policy_def Let_def split: risk.splits if_splits)
  obtain r sc where 1: "risk_policy t e h sev = (r, sc,
      t + (case r of P0 \<Rightarrow> 900 | P1 \<Rightarrow> 3600 | P2 \<Rightarrow> 14400),
      t + (case r of P0 \<Rightarrow> 1800 | P1 \<Rightarrow> 14400 | P2 \<Rightarrow> 86400))"
      "sev \<notin> {Some ''P0'', Some ''P1'', Some ''P2''} \<and> sc = BatchLevel \<longrightarrow> r = P0"
    using shape by blast
  obtain r' sc' where 2: "risk_policy t e' h' sev' = (r', sc',
      t + (case r' of P0 \<Rightarrow> 900 | P1 \<Rightarrow> 3600 | P2 \<Rightarrow> 14400),
      t + (case r' of P0 \<Rightarrow> 1800 | P1 \<Rightarrow> 14400 | P2 \<Rightarrow> 86400))"
    using shape by blast
  show ?thesis
    unfolding 1(1) 2 using 1(2)
    by (auto simp: less_eq_risk_def risk_rank_def split: risk.splits)
qed

theorem risk_policy_deadlines_witness:
  "case risk_policy 0 zh_missing None None of (r, sc, claim, resolve) \<Rightarrow>
     r = P1 \<and> claim = 3600 \<and> resolve = 14400"
proof -
  have r: "risk_policy 0 zh_missing None None = (P1, TaskLevel, 3600, 14400)"
    by code_simp
  show ?thesis
    using risk_policy_deadlines [where t = 0 and e = zh_missing and h = None and sev = None
      and e' = zh_missing and h' = None and sev' = None] r by simp
qed

text \<open>Two places where the code accepts less than its message asks for.\<close>

lemma merge_master_null_accepted:
  "validate_action ''T_DQ_MERGE'' ''merge-rerun'' [(''mergeMaster'', JNull)] = Inr ()"
  by code_simp

lemma same_evidence_twice_accepted:
  "validate_action ''T_EVIDENCE'' ''pass-rerun'' [(''evidence'', JList [JObj e, JObj e])] = Inr () \<longleftrightarrow>
     truthy (dget_or e ''checked'' (JBool True))"
  unfolding validate_action_table payload_complete_def
  by (auto simp: canonical_template_def TEMPLATE_ALIASES_def TEMPLATES_def evidence_items_def
      dget_or_def dget_def is_checked_def)

end
