(* ===== verification/Tables.thy ===== *)
theory Tables
  imports Prelude
begin

text \<open>
  Database tables as lists of rows in insertion order, with the reads and writes the services
  issue, and the interface a client of a keyed table relies on.
\<close>

section \<open>Reads and writes\<close>

definition tbl_get :: "('r \<Rightarrow> 'k) \<Rightarrow> 'k \<Rightarrow> 'r list \<Rightarrow> 'r option" where
  \<comment> \<open>\<open>session.get(T, k)\<close>, \<open>SELECT ... WHERE id = k\<close>\<close>
  "tbl_get key k t = find (\<lambda>r. key r = k) t"

definition tbl_upd :: "('r \<Rightarrow> 'k) \<Rightarrow> 'k \<Rightarrow> ('r \<Rightarrow> 'r) \<Rightarrow> 'r list \<Rightarrow> 'r list" where
  \<comment> \<open>\<open>UPDATE T SET ... WHERE id = k\<close>\<close>
  "tbl_upd key k f t = map (\<lambda>r. if key r = k then f r else r) t"

definition tbl_put :: "('r \<Rightarrow> 'k) \<Rightarrow> 'r \<Rightarrow> 'r list \<Rightarrow> 'r list" where
  \<comment> \<open>\<open>session.merge(r)\<close>, \<open>INSERT OR REPLACE\<close>\<close>
  "tbl_put key r t =
     (if list_ex (\<lambda>r'. key r' = key r) t then tbl_upd key (key r) (\<lambda>_. r) t else t @ [r])"

definition tbl_insert :: "('r \<Rightarrow> 'k) \<Rightarrow> 'r \<Rightarrow> 'r list \<Rightarrow> 'r list option" where
  \<comment> \<open>\<open>INSERT\<close>: refused when the primary key is taken\<close>
  "tbl_insert key r t = (if list_ex (\<lambda>r'. key r' = key r) t then None else Some (t @ [r]))"

definition tbl_del :: "('r \<Rightarrow> 'k) \<Rightarrow> 'k \<Rightarrow> 'r list \<Rightarrow> 'r list" where
  "tbl_del key k t = filter (\<lambda>r. key r \<noteq> k) t"

definition keys_ok :: "('r \<Rightarrow> 'k) \<Rightarrow> 'r list \<Rightarrow> bool" where
  "keys_ok key t = distinct (map key t)"

fun latest :: "('r \<Rightarrow> 'o :: linorder) \<Rightarrow> 'r list \<Rightarrow> 'r option" where
  \<comment> \<open>first row of \<open>ORDER BY f DESC\<close>; among equal values the row inserted last\<close>
  "latest f [] = None"
| "latest f (r # t) =
     (case latest f t of None \<Rightarrow> Some r | Some r' \<Rightarrow> if f r' < f r then Some r else Some r')"

lemma tbl_get_Some: "tbl_get key k t = Some r \<Longrightarrow> r \<in> set t \<and> key r = k"
  by (auto simp: tbl_get_def find_Some_iff)

lemma tbl_get_None_iff: "tbl_get key k t = None \<longleftrightarrow> k \<notin> key ` set t"
  by (auto simp: tbl_get_def find_None_iff)

lemma tbl_get_unique: "keys_ok key t \<Longrightarrow> r \<in> set t \<Longrightarrow> tbl_get key (key r) t = Some r"
  unfolding keys_ok_def tbl_get_def by (induction t) auto

lemma tbl_get_append: "tbl_get key k (t @ u) =
  (case tbl_get key k t of None \<Rightarrow> tbl_get key k u | Some r \<Rightarrow> Some r)"
  by (induction t) (auto simp: tbl_get_def)

lemma tbl_get_Nil [simp]: "tbl_get key k [] = None"
  by (simp add: tbl_get_def)

lemma tbl_get_Cons [simp]: "tbl_get key k (r # t) = (if key r = k then Some r else tbl_get key k t)"
  by (simp add: tbl_get_def)

lemma tbl_get_upd [table_simps]:
  assumes "\<And>r. key r = k' \<Longrightarrow> key (f r) = k'"
  shows "tbl_get key k (tbl_upd key k' f t) =
    (if k = k' then map_option f (tbl_get key k t) else tbl_get key k t)"
  using assms by (induction t) (auto simp: tbl_upd_def)

lemma tbl_get_put [table_simps]:
  "tbl_get key k (tbl_put key r t) = (if k = key r then Some r else tbl_get key k t)"
proof (cases "list_ex (\<lambda>r'. key r' = key r) t")
  case True
  then have "tbl_get key (key r) t \<noteq> None"
    unfolding list_ex_iff tbl_get_None_iff by (metis imageI)
  with True show ?thesis
    by (auto simp: tbl_put_def tbl_get_upd)
next
  case False
  then have "tbl_get key (key r) t = None"
    by (auto simp: list_ex_iff tbl_get_None_iff)
  with False show ?thesis
    by (auto simp: tbl_put_def tbl_get_append split: option.splits)
qed

lemma tbl_get_del [table_simps]:
  "tbl_get key k (tbl_del key k' t) = (if k = k' then None else tbl_get key k t)"
  by (induction t) (auto simp: tbl_del_def)

lemma tbl_get_iff: "tbl_get key k t \<noteq> None \<longleftrightarrow> k \<in> key ` set t"
  by (simp add: tbl_get_None_iff)

lemma keys_put: "key ` set (tbl_put key r t) = insert (key r) (key ` set t)"
  unfolding set_eq_iff tbl_get_iff [symmetric] insert_iff tbl_get_put by simp

lemma keys_ok_filter: "keys_ok key t \<Longrightarrow> keys_ok key (filter P t)"
  by (simp add: keys_ok_def distinct_map_filter)

lemma filter_commute: "filter P (filter Q t) = filter Q (filter P t)"
  by (simp add: conj_commute)

lemma map_key_upd: "(\<And>r. key r = k \<Longrightarrow> key (f r) = k) \<Longrightarrow> map key (tbl_upd key k f t) = map key t"
  by (induction t) (auto simp: tbl_upd_def)

lemma length_upd [simp]: "length (tbl_upd key k f t) = length t"
  by (simp add: tbl_upd_def)

lemma keys_ok_upd: "(\<And>r. key r = k \<Longrightarrow> key (f r) = k) \<Longrightarrow> keys_ok key (tbl_upd key k f t) = keys_ok key t"
  by (simp add: keys_ok_def map_key_upd)

lemma keys_ok_put: "keys_ok key t \<Longrightarrow> keys_ok key (tbl_put key r t)"
  by (auto simp: tbl_put_def keys_ok_upd list_ex_iff) (auto simp: keys_ok_def)

lemma keys_ok_del: "keys_ok key t \<Longrightarrow> keys_ok key (tbl_del key k t)"
  by (simp add: keys_ok_def tbl_del_def distinct_map_filter)

lemma set_tbl_upd: "set (tbl_upd key k f t) = (\<lambda>r. if key r = k then f r else r) ` set t"
  by (simp add: tbl_upd_def)

lemma in_tbl_put: "x \<in> set (tbl_put key r t) \<Longrightarrow> x = r \<or> (x \<in> set t \<and> key x \<noteq> key r)"
  by (auto simp: tbl_put_def set_tbl_upd list_ex_iff split: if_splits)

lemma tbl_insert_Some: "tbl_insert key r t = Some t' \<longleftrightarrow> key r \<notin> key ` set t \<and> t' = t @ [r]"
  unfolding tbl_insert_def list_ex_iff by (auto simp: image_iff) metis+

lemma keys_ok_insert: "keys_ok key t \<Longrightarrow> tbl_insert key r t = Some t' \<Longrightarrow> keys_ok key t'"
  by (simp add: tbl_insert_Some keys_ok_def)

lemma tbl_put_mem [simp]: "r \<in> set (tbl_put key r t)"
  by (auto simp: tbl_put_def set_tbl_upd list_ex_iff)

lemma tbl_put_other: "x \<in> set t \<Longrightarrow> key x \<noteq> key r \<Longrightarrow> x \<in> set (tbl_put key r t)"
  by (auto simp: tbl_put_def set_tbl_upd)

lemma tbl_put_present: "keys_ok key t \<Longrightarrow> tbl_get key (key r) t = Some r0 \<Longrightarrow>
    map g (tbl_put key r t) = map (\<lambda>x. if key x = key r then g r else g x) t"
  by (auto simp: tbl_put_def tbl_upd_def list_ex_iff dest: tbl_get_Some)

lemma map_put_static:
  assumes "keys_ok key t" and "tbl_get key (key r) t = Some r0" and "g r = g r0"
  shows "map g (tbl_put key r t) = map g t"
proof -
  have "g (if key x = key r then r else x) = g x" if "x \<in> set t" for x
  proof (cases "key x = key r")
    case True
    with tbl_get_unique [OF assms(1) that] assms(2) have "x = r0" by simp
    with True assms(3) show ?thesis by simp
  qed simp
  then show ?thesis
    using assms(2) by (auto simp: tbl_put_def tbl_upd_def list_ex_iff dest: tbl_get_Some)
qed

lemma keys_ok_put_static:
  "keys_ok key t \<Longrightarrow> keys_ok g t \<Longrightarrow> tbl_get key (key r) t = Some r0 \<Longrightarrow> g r = g r0 \<Longrightarrow>
     keys_ok g (tbl_put key r t)"
  by (simp add: keys_ok_def map_put_static)

lemma latest_in: "latest f t = Some r \<Longrightarrow> r \<in> set t"
  by (induction t arbitrary: r) (auto split: option.splits if_splits)

lemma latest_None_iff [simp]: "latest f t = None \<longleftrightarrow> t = []"
  by (cases t) (auto split: option.splits)

lemma latest_max: "latest f t = Some r \<Longrightarrow> x \<in> set t \<Longrightarrow> f x \<le> f r"
proof (induction t arbitrary: r x)
  case Nil
  then show ?case by simp
next
  case (Cons a t)
  then show ?case
    by (cases "latest f t") (force split: if_splits)+
qed

section \<open>The interface of a keyed table\<close>

text \<open>
  What a service assumes of a table that it reads and writes by primary key: a read after a
  write returns the row written, other rows are untouched, and well-formedness is kept.
\<close>

locale keyed_table =
  fixes get :: "'k \<Rightarrow> 't \<Rightarrow> 'r option"
    and put :: "'r \<Rightarrow> 't \<Rightarrow> 't"
    and del :: "'k \<Rightarrow> 't \<Rightarrow> 't"
    and key :: "'r \<Rightarrow> 'k"
    and wf_t :: "'t \<Rightarrow> bool"
  assumes get_put: "get k (put r t) = (if k = key r then Some r else get k t)"
    and get_del: "get k (del k' t) = (if k = k' then None else get k t)"
    and get_key: "get k t = Some r \<Longrightarrow> key r = k"
    and wf_put: "wf_t t \<Longrightarrow> wf_t (put r t)"
    and wf_del: "wf_t t \<Longrightarrow> wf_t (del k t)"
begin

lemma read_your_write: "get (key r) (put r t) = Some r"
  by (simp add: get_put)

lemma frame: "k \<noteq> key r \<Longrightarrow> get k (put r t) = get k t"
  by (simp add: get_put)

lemma last_write_wins: "key r = key r' \<Longrightarrow> get k (put r (put r' t)) = get k (put r t)"
  by (simp add: get_put)

lemma writes_commute: "key r \<noteq> key r' \<Longrightarrow> get k (put r (put r' t)) = get k (put r' (put r t))"
  by (simp add: get_put)

lemma rewrite_is_noop: "get (key r) t = Some r \<Longrightarrow> get k (put r t) = get k t"
  by (auto simp: get_put)

lemma write_then_delete: "get k (del (key r) (put r t)) = get k (del (key r) t)"
  by (simp add: get_put get_del)

end

lemma keyed_table_list:
  "keyed_table (tbl_get key) (tbl_put key) (tbl_del key) key (keys_ok key)"
  by unfold_locales (auto simp: table_simps keys_ok_put keys_ok_del dest: tbl_get_Some)

end
