(* ===== verification/Review_Store.thy ===== *)
theory Review_Store
  imports Review_Domain Tables
begin

text \<open>
  The tables of the manual-review service (backend/db\_model/manual\_review.py) and the
  primitive writes its methods are made of.  JSON columns hold the value that
  \<open>load(dump(v))\<close> returns; column lengths are not modelled.
\<close>

datatype review_status =
    OPEN | CLAIMED | IN_REVIEW | PENDING_APPROVAL | APPLYING | RERUNNING | VERIFYING
  | RESOLVED | REJECTED | CANCELLED | EXPIRED | APPLY_FAILED | RERUN_FAILED

definition TERMINAL_STATUSES :: "review_status list" where
  "TERMINAL_STATUSES = [RESOLVED, REJECTED, CANCELLED, EXPIRED]"

definition EDITABLE_STATUSES :: "review_status list" where
  "EDITABLE_STATUSES = [CLAIMED, IN_REVIEW]"

datatype isolation = ObjectScope | BatchScope

record review_case =
  rc_id :: string
  rc_dedupe_key :: string
  rc_event_id :: string
  rc_source_task_id :: string
  rc_batch_id :: "string option"
  rc_pipeline_step_id :: string
  rc_object_id :: string
  rc_object_type :: string
  rc_object_name :: string
  rc_error_type :: string
  rc_error_fingerprint :: string
  rc_category :: string
  rc_template_id :: string
  rc_template_version :: string
  rc_domain :: string
  rc_phase :: string
  rc_risk_level :: risk
  rc_scope :: scope_level
  rc_status :: review_status
  rc_assignee_id :: "string option"
  rc_assignee_name :: "string option"
  rc_submitted_by :: "string option"
  rc_version :: nat
  rc_sla_claim_at :: time
  rc_sla_resolve_at :: time
  rc_claimed_at :: "time option"
  rc_heartbeat_at :: "time option"
  rc_completed_at :: "time option"
  rc_source_table :: "string option"
  rc_source_record_id :: "string option"
  rc_rule_version :: "string option"
  rc_model_version :: "string option"
  rc_workflow_type :: string
  rc_workflow_id :: string
  rc_workflow_run_id :: "string option"
  rc_task_queue :: string
  rc_resume_token :: string
  rc_exception_code :: string
  rc_isolation_scope :: isolation
  rc_input_snapshot :: dict
  rc_candidate_snapshot :: dict
  rc_diagnosis :: string
  rc_created_at :: time
  rc_updated_at :: time

record review_draft =
  dr_case_id :: string
  dr_payload :: dict
  dr_updated_by :: string
  dr_updated_at :: time

datatype decision_status = DecPending | DecApproved | DecRejected

record review_decision =
  de_id :: nat
  de_case_id :: string
  de_action_id :: string
  de_result :: dict
  de_note :: string
  de_submitted_by :: string
  de_approved_by :: "string option"
  de_status :: decision_status
  de_created_at :: time
  de_decided_at :: "time option"

record review_evidence =
  ev_id :: string
  ev_case_id :: string
  ev_file_name :: string
  ev_content_type :: string
  ev_size_bytes :: int
  ev_sha256 :: string
  ev_bucket :: string
  ev_object_key :: string
  ev_source :: string
  ev_trust_level :: string
  ev_uploaded_by :: string
  ev_created_at :: time

datatype correction_status = CorPending | CorDispatched | CorApplied

record review_correction =
  co_id :: string
  co_case_id :: string
  co_adapter :: string
  co_payload :: dict
  co_payload_sha256 :: string
  co_rerun_step_id :: string
  co_status :: correction_status
  co_attempts :: nat
  co_last_error :: "string option"
  co_created_at :: time
  co_applied_at :: "time option"

record review_execution =
  ex_id :: string
  ex_case_id :: string
  ex_resume_node :: string
  ex_workflow_type :: string
  ex_workflow_id :: string
  ex_run_id :: "string option"
  ex_status :: string
  ex_error :: "string option"
  ex_created_at :: time
  ex_completed_at :: "time option"

record review_audit =
  au_id :: nat
  au_case_id :: string
  au_event_type :: string
  au_actor_id :: string
  au_actor_name :: string
  au_request_id :: string
  au_old_status :: "review_status option"
  au_new_status :: review_status
  au_detail :: dict
  au_created_at :: time

datatype outbox_status = ObPending | ObProcessing | ObRetry | ObDone | ObDead

record review_outbox =
  ob_id :: string
  ob_case_id :: string
  ob_event_type :: string
  ob_payload :: dict
  ob_status :: outbox_status
  ob_attempts :: nat
  ob_available_at :: time
  ob_locked_at :: "time option"
  ob_last_error :: "string option"
  ob_created_at :: time
  ob_processed_at :: "time option"

datatype event_type =
    CORRECTION_ACCEPTED | RERUN_STARTED | RERUN_PROGRESS | RERUN_SUCCEEDED
  | RERUN_FAILED_EV | VERIFICATION_SUCCEEDED | VERIFICATION_FAILED

fun EVENT_STAGE :: "event_type \<Rightarrow> nat" where
  "EVENT_STAGE CORRECTION_ACCEPTED = 1"
| "EVENT_STAGE RERUN_STARTED = 2"
| "EVENT_STAGE RERUN_PROGRESS = 2"
| "EVENT_STAGE RERUN_SUCCEEDED = 3"
| "EVENT_STAGE RERUN_FAILED_EV = 3"
| "EVENT_STAGE VERIFICATION_SUCCEEDED = 4"
| "EVENT_STAGE VERIFICATION_FAILED = 4"

fun event_name :: "event_type \<Rightarrow> string" where
  "event_name CORRECTION_ACCEPTED = ''CORRECTION_ACCEPTED''"
| "event_name RERUN_STARTED = ''RERUN_STARTED''"
| "event_name RERUN_PROGRESS = ''RERUN_PROGRESS''"
| "event_name RERUN_SUCCEEDED = ''RERUN_SUCCEEDED''"
| "event_name RERUN_FAILED_EV = ''RERUN_FAILED''"
| "event_name VERIFICATION_SUCCEEDED = ''VERIFICATION_SUCCEEDED''"
| "event_name VERIFICATION_FAILED = ''VERIFICATION_FAILED''"

record review_event =
  xe_event_id :: string
  xe_case_id :: string
  xe_execution_id :: string
  xe_event_type :: event_type
  xe_stage :: nat
  xe_occurred_at :: time
  xe_created_at :: time

record review_db =
  t_cases :: "review_case list"
  t_drafts :: "review_draft list"
  t_decisions :: "review_decision list"
  t_evidence :: "review_evidence list"
  t_corrections :: "review_correction list"
  t_executions :: "review_execution list"
  t_audits :: "review_audit list"
  t_outbox :: "review_outbox list"
  t_events :: "review_event list"

definition empty_review_db :: review_db where
  "empty_review_db = \<lparr>t_cases = [], t_drafts = [], t_decisions = [], t_evidence = [],
     t_corrections = [], t_executions = [], t_audits = [], t_outbox = [], t_events = []\<rparr>"

section \<open>Primitive writes\<close>

text \<open>
  What one call observes of its surroundings: the clock, and the \<open>uuid4().hex[:16].upper()\<close>
  strings it draws.
\<close>

record call_env =
  ce_now :: time
  ce_hex1 :: string
  ce_hex2 :: string

definition need :: "review_db \<Rightarrow> string \<Rightarrow> review_error + review_case" where
  "need db i = (case tbl_get rc_id i (t_cases db) of None \<Rightarrow> Inl (Missing i) | Some c \<Rightarrow> Inr c)"

definition owned :: "review_db \<Rightarrow> string \<Rightarrow> review_identity \<Rightarrow> review_error + review_case" where
  "owned db i a =
     rbind (need db i) (\<lambda>c.
     rbind (require_domain_access a (rc_domain c)) (\<lambda>_.
     if rc_assignee_id c \<noteq> Some (ri_user_id a) \<and> \<not> has_any a [''review_admin'']
     then Inl (Forbidden ''not-claimed-by-user'') else Inr c))"

definition save_case :: "review_case \<Rightarrow> review_db \<Rightarrow> review_db" where
  "save_case c db = db\<lparr>t_cases := tbl_put rc_id c (t_cases db)\<rparr>"

definition audit :: "time \<Rightarrow> string \<Rightarrow> review_identity \<Rightarrow> string \<Rightarrow> review_status option \<Rightarrow>
    review_status \<Rightarrow> dict \<Rightarrow> review_db \<Rightarrow> review_db" where
  "audit t cid a ev old new d db = db\<lparr>t_audits := t_audits db @
     [\<lparr>au_id = Suc (length (t_audits db)), au_case_id = cid, au_event_type = ev,
       au_actor_id = ri_user_id a, au_actor_name = ri_user_name a,
       au_request_id = ri_request_id a, au_old_status = old, au_new_status = new,
       au_detail = d, au_created_at = t\<rparr>]\<rparr>"

definition outbox :: "call_env \<Rightarrow> string \<Rightarrow> string \<Rightarrow> dict \<Rightarrow> review_db \<Rightarrow> review_error + review_db" where
  "outbox env cid ev p db =
     (case tbl_insert ob_id
        \<lparr>ob_id = ''OUT-'' @ ce_hex2 env, ob_case_id = cid, ob_event_type = ev, ob_payload = p,
         ob_status = ObPending, ob_attempts = 0, ob_available_at = ce_now env,
         ob_locked_at = None, ob_last_error = None, ob_created_at = ce_now env,
         ob_processed_at = None\<rparr> (t_outbox db) of
        None \<Rightarrow> Inl IntegrityErr
      | Some t \<Rightarrow> Inr (db\<lparr>t_outbox := t\<rparr>))"

definition decision_payload :: "review_decision \<Rightarrow> dict" where
  "decision_payload d = [(''decisionId'', JInt (int (de_id d))), (''result'', JObj (de_result d))]"

definition enqueue_correction ::
  "(string \<Rightarrow> string) \<Rightarrow> call_env \<Rightarrow> review_case \<Rightarrow> review_decision \<Rightarrow> review_db \<Rightarrow> review_error + review_db" where
  \<comment> \<open>\<open>sha256\<close> is the hexadecimal SHA-256 digest of a text\<close>
  "enqueue_correction sha256 env c d db =
     (case map_of TEMPLATES (canonical_template (rc_template_id c)) of
        None \<Rightarrow> Inl (Missing (rc_template_id c))
      | Some tp \<Rightarrow>
         (case tbl_insert co_id
            \<lparr>co_id = ''COR-'' @ ce_hex1 env, co_case_id = rc_id c, co_adapter = tp_adapter tp,
             co_payload = decision_payload d,
             co_payload_sha256 = sha256 (dump (JObj (decision_payload d))),
             co_rerun_step_id = rerun_step (rc_pipeline_step_id c) (de_action_id d),
             co_status = CorPending, co_attempts = 0, co_last_error = None,
             co_created_at = ce_now env, co_applied_at = None\<rparr> (t_corrections db) of
            None \<Rightarrow> Inl IntegrityErr
          | Some t \<Rightarrow>
              outbox env (rc_id c) ''RESUME_REQUESTED''
                [(''correctionId'', JStr (''COR-'' @ ce_hex1 env))] (db\<lparr>t_corrections := t\<rparr>)))"

definition latest_correction :: "review_db \<Rightarrow> string \<Rightarrow> review_correction option" where
  "latest_correction db i =
     latest co_created_at (filter (\<lambda>x. co_case_id x = i) (t_corrections db))"

definition latest_decision :: "review_db \<Rightarrow> string \<Rightarrow> decision_status \<Rightarrow> review_decision option" where
  "latest_decision db i st =
     latest de_id (filter (\<lambda>d. de_case_id d = i \<and> de_status d = st) (t_decisions db))"

section \<open>The tables as keyed tables\<close>

interpretation case_table: keyed_table "tbl_get rc_id" "tbl_put rc_id" "tbl_del rc_id" rc_id "keys_ok rc_id"
  by (rule keyed_table_list)

interpretation outbox_table: keyed_table "tbl_get ob_id" "tbl_put ob_id" "tbl_del ob_id" ob_id "keys_ok ob_id"
  by (rule keyed_table_list)

lemma need_Inr [result_simps]: "need db i = Inr c \<longleftrightarrow> tbl_get rc_id i (t_cases db) = Some c"
  by (auto simp: need_def split: option.splits)

lemma need_key: "need db i = Inr c \<Longrightarrow> rc_id c = i"
  unfolding need_Inr by (rule case_table.get_key)

lemma need_save_case [simp]: "need (save_case c db) i = (if i = rc_id c then Inr c else need db i)"
  by (simp add: need_def save_case_def case_table.get_put)

lemma owned_Inr [result_simps]: "owned db i a = Inr c \<longleftrightarrow>
    need db i = Inr c \<and> require_domain_access a (rc_domain c) = Inr () \<and>
    (rc_assignee_id c = Some (ri_user_id a) \<or> has_any a [''review_admin''])"
  by (auto simp: owned_def rbind_Inr_iff split: if_splits)

lemma need_audit [simp]: "need (audit t cid a ev old new d db) i = need db i"
  by (simp add: need_def audit_def)

lemma audit_tables [simp]:
  "t_cases (audit t cid a ev old new d db) = t_cases db"
  "t_drafts (audit t cid a ev old new d db) = t_drafts db"
  "t_decisions (audit t cid a ev old new d db) = t_decisions db"
  "t_evidence (audit t cid a ev old new d db) = t_evidence db"
  "t_corrections (audit t cid a ev old new d db) = t_corrections db"
  "t_executions (audit t cid a ev old new d db) = t_executions db"
  "t_outbox (audit t cid a ev old new d db) = t_outbox db"
  "t_events (audit t cid a ev old new d db) = t_events db"
  by (simp_all add: audit_def)

lemma save_case_tables [simp]:
  "t_cases (save_case c db) = tbl_put rc_id c (t_cases db)"
  "t_drafts (save_case c db) = t_drafts db"
  "t_decisions (save_case c db) = t_decisions db"
  "t_evidence (save_case c db) = t_evidence db"
  "t_corrections (save_case c db) = t_corrections db"
  "t_executions (save_case c db) = t_executions db"
  "t_audits (save_case c db) = t_audits db"
  "t_outbox (save_case c db) = t_outbox db"
  "t_events (save_case c db) = t_events db"
  by (simp_all add: save_case_def)

end
