(* ===== verification/Systems.thy ===== *)
theory Systems
  imports Prelude
begin

text \<open>
  Two contracts that several services share: a transactional system whose commands keep an
  invariant, and an operation under optimistic locking.
\<close>

section \<open>Transactional systems\<close>

text \<open>
  Every public method of a service is a command: it returns the next database state, or it
  raises, in which case the session is closed without a commit and the state is unchanged.
\<close>

fun run_cmds :: "('c \<Rightarrow> 's \<Rightarrow> 'e + 's) \<Rightarrow> 'c list \<Rightarrow> 's \<Rightarrow> 's" where
  "run_cmds exec [] s = s"
| "run_cmds exec (c # cs) s =
     (case exec c s of Inl e \<Rightarrow> run_cmds exec cs s | Inr s' \<Rightarrow> run_cmds exec cs s')"

inductive reach :: "('c \<Rightarrow> 's \<Rightarrow> 'e + 's) \<Rightarrow> 's \<Rightarrow> 's \<Rightarrow> bool" for exec and s0 where
  reach_init: "reach exec s0 s0"
| reach_step: "reach exec s0 s \<Longrightarrow> exec c s = Inr s' \<Longrightarrow> reach exec s0 s'"

lemma reach_trans: "reach exec s0 s \<Longrightarrow> reach exec s s' \<Longrightarrow> reach exec s0 s'"
  by (rotate_tac, induction rule: reach.induct) (auto intro: reach_step)

lemma run_cmds_append: "run_cmds exec (cs @ ds) s = run_cmds exec ds (run_cmds exec cs s)"
  by (induction cs arbitrary: s) (auto split: sum.splits)

lemma reach_run_cmds: "reach exec s (run_cmds exec cs s)"
proof (induction cs arbitrary: s)
  case Nil
  then show ?case by (simp add: reach_init)
next
  case (Cons c cs)
  show ?case
  proof (cases "exec c s")
    case (Inl e)
    with Cons show ?thesis by simp
  next
    case (Inr s')
    then have "reach exec s s'" by (rule reach_step [OF reach_init])
    from reach_trans [OF this Cons] Inr show ?thesis by simp
  qed
qed

lemma reach_iff_run: "reach exec s0 s \<longleftrightarrow> (\<exists>cs. s = run_cmds exec cs s0)"
proof
  assume "reach exec s0 s"
  then show "\<exists>cs. s = run_cmds exec cs s0"
  proof (induction rule: reach.induct)
    case reach_init
    then show ?case by (metis run_cmds.simps(1))
  next
    case (reach_step s c s')
    then obtain cs where "s = run_cmds exec cs s0" by blast
    with reach_step.hyps have "s' = run_cmds exec (cs @ [c]) s0"
      by (simp add: run_cmds_append)
    then show ?case by blast
  qed
qed (auto intro: reach_run_cmds)

locale guarded_system =
  fixes exec :: "'c \<Rightarrow> 's \<Rightarrow> 'e + 's"
    and invariant :: "'s \<Rightarrow> bool"
  assumes exec_keeps: "invariant s \<Longrightarrow> exec c s = Inr s' \<Longrightarrow> invariant s'"
begin

lemma reach_keeps: "reach exec s0 s \<Longrightarrow> invariant s0 \<Longrightarrow> invariant s"
  by (induction rule: reach.induct) (auto intro: exec_keeps)

lemma run_keeps: "invariant s \<Longrightarrow> invariant (run_cmds exec cs s)"
  by (rule reach_keeps [OF reach_run_cmds])

end

section \<open>Optimistic locking\<close>

text \<open>
  An operation that takes the version the client has read, succeeds only when that is the
  stored version, and stores the next one.
\<close>

locale optimistic_lock =
  fixes op :: "nat \<Rightarrow> 's \<Rightarrow> 'e + 's"
    and ver :: "'s \<Rightarrow> nat option"
  assumes op_checks: "op v s = Inr s' \<Longrightarrow> ver s = Some v"
    and op_bumps: "op v s = Inr s' \<Longrightarrow> ver s' = Some (Suc v)"
begin

lemma stale_fails: "ver s \<noteq> Some v \<Longrightarrow> \<not> is_ok (op v s)"
  using op_checks by (fastforce simp: is_ok_iff)

lemma no_double_commit: "op v s = Inr s' \<Longrightarrow> \<not> is_ok (op v s')"
  by (rule stale_fails) (simp add: op_bumps)

lemma version_grows: "op v s = Inr s' \<Longrightarrow> ver s = Some m \<Longrightarrow> ver s' = Some n \<Longrightarrow> m < n"
  using op_checks op_bumps by fastforce

end

text \<open>
  Two operations on the same record under the same scheme exclude each other: when both were
  prepared against the same version, the second one to arrive is refused.
\<close>

locale competing_locks =
  fst_op: optimistic_lock op1 ver + snd_op: optimistic_lock op2 ver
  for op1 :: "nat \<Rightarrow> 's \<Rightarrow> 'e + 's" and op2 :: "nat \<Rightarrow> 's \<Rightarrow> 'e + 's" and ver
begin

lemma second_is_refused: "op1 v s = Inr s' \<Longrightarrow> \<not> is_ok (op2 v s')"
  by (rule snd_op.stale_fails) (simp add: fst_op.op_bumps)

end

end
