(* ===== verification/Review_Service.thy ===== *)
theory Review_Service
  imports Review_Store Systems
begin

text \<open>
  The methods of \<open>ManualReviewService\<close> (backend/service/manual\_review\_production.py), each as a
  function from the database to the database after the commit, or to the exception that leaves
  the database as it was.  The methods that end in \<open>return self.detail(s, c)\<close> return the view
  \<open>detail\<close> of the case in the new database.
\<close>

section \<open>Ingress\<close>

record review_config =
  cf_snapshot_max :: nat
  cf_evidence_max :: int
  cf_evidence_types :: "string list"
  cf_lock_timeout :: time
  cf_max_attempts :: nat
  cf_mock :: bool
  cf_base_url :: string

definition default_config :: review_config where
  "default_config = \<lparr>cf_snapshot_max = 2097152, cf_evidence_max = 20971520,
     cf_evidence_types = [''application/pdf'', ''image/png'', ''image/jpeg'', ''text/plain''],
     cf_lock_timeout = 60, cf_max_attempts = 5, cf_mock = True, cf_base_url = []\<rparr>"

record workflow_ref =
  wf_type :: string
  wf_id :: string
  wf_run_id :: "string option"
  wf_task_queue :: string
  wf_resume_token :: string

record review_required =
  rr_event_id :: string
  rr_source_task_id :: string
  rr_batch_id :: "string option"
  rr_step_id :: string
  rr_workflow :: workflow_ref
  rr_object_id :: string
  rr_object_type :: string
  rr_object_name :: string
  rr_exc_code :: string
  rr_exc_message :: string
  rr_exc_fingerprint :: string
  rr_exc_severity :: string
  rr_exc_scope :: isolation
  rr_template_id :: string
  rr_template_version :: string
  rr_domain :: string
  rr_input :: dict
  rr_candidate :: dict
  rr_evidence :: "json list"
  rr_rule_version :: "string option"
  rr_model_version :: "string option"
  rr_source_table :: "string option"
  rr_source_record_id :: "string option"

fun isolation_name :: "isolation \<Rightarrow> string" where
  "isolation_name ObjectScope = ''OBJECT''"
| "isolation_name BatchScope = ''BATCH''"

record ingress_response =
  ir_review_id :: string
  ir_status :: review_status
  ir_risk_level :: risk
  ir_isolation_strategy :: string
  ir_duplicate :: bool

definition ingress_response_of :: "review_case \<Rightarrow> bool \<Rightarrow> ingress_response" where
  "ingress_response_of c dup =
     \<lparr>ir_review_id = rc_id c, ir_status = rc_status c, ir_risk_level = rc_risk_level c,
      ir_isolation_strategy = (if rc_isolation_scope c = BatchScope
        then ''BLOCK_BATCH_AND_DOWNSTREAM'' else ''ISOLATE_OBJECT''),
      ir_duplicate = dup\<rparr>"

definition dedupe_key_of :: "(string \<Rightarrow> string) \<Rightarrow> review_required \<Rightarrow> string" where
  "dedupe_key_of sha256 p =
     sha256 (dump (JList [JStr (rr_source_task_id p), JStr (rr_step_id p), JStr (rr_object_id p),
                          JStr (rr_exc_fingerprint p)]))"

definition snapshot_size :: "review_required \<Rightarrow> nat" where
  "snapshot_size p =
     length (dump (JObj [(''input'', JObj (rr_input p)), (''candidate'', JObj (rr_candidate p)),
                         (''evidence'', JList (rr_evidence p))]))"

definition build_case ::
  "review_config \<Rightarrow> (string \<Rightarrow> string) \<Rightarrow> call_env \<Rightarrow> review_required \<Rightarrow> review_error + review_case" where
  \<comment> \<open>\<open>ce_hex1\<close> stands for the date and the twelve hexadecimal digits of the id\<close>
  "build_case cf sha256 env p =
     rbind (validate_step_template (rr_step_id p) (rr_template_id p)) (\<lambda>tpl.
     if rr_exc_scope p = BatchScope \<and> rr_exc_severity p \<noteq> ''P0'' then Inl (Validation ''batch-P0'')
     else if cf_snapshot_max cf < snapshot_size p then Inl (Validation ''snapshot-size'')
     else
       case (map_of TEMPLATES tpl, map_of PIPELINE_STEPS (rr_step_id p)) of
         (Some tp, Some info) \<Rightarrow>
           (case risk_policy (ce_now env) (rr_exc_message p)
                   (Some (isolation_name (rr_exc_scope p))) (Some (rr_exc_severity p)) of
              (risk, scope, claim, resolve) \<Rightarrow> Inr
      \<lparr>rc_id = ''MR-'' @ ce_hex1 env,
       rc_dedupe_key = dedupe_key_of sha256 p,
       rc_event_id = rr_event_id p,
       rc_source_task_id = rr_source_task_id p,
       rc_batch_id = rr_batch_id p,
       rc_pipeline_step_id = rr_step_id p,
       rc_object_id = rr_object_id p,
       rc_object_type = rr_object_type p,
       rc_object_name = rr_object_name p,
       rc_error_type = rr_exc_message p,
       rc_error_fingerprint = rr_exc_fingerprint p,
       rc_category = tp_title tp,
       rc_template_id = tpl,
       rc_template_version = rr_template_version p,
       rc_domain = rr_domain p,
       rc_phase = st_phase info,
       rc_risk_level = risk,
       rc_scope = scope,
       rc_status = OPEN,
       rc_assignee_id = None, rc_assignee_name = None, rc_submitted_by = None,
       rc_version = 1,
       rc_sla_claim_at = claim, rc_sla_resolve_at = resolve,
       rc_claimed_at = None, rc_heartbeat_at = None, rc_completed_at = None,
       rc_source_table = rr_source_table p,
       rc_source_record_id = rr_source_record_id p,
       rc_rule_version = rr_rule_version p,
       rc_model_version = rr_model_version p,
       rc_workflow_type = wf_type (rr_workflow p),
       rc_workflow_id = wf_id (rr_workflow p),
       rc_workflow_run_id = wf_run_id (rr_workflow p),
       rc_task_queue = wf_task_queue (rr_workflow p),
       rc_resume_token = wf_resume_token (rr_workflow p),
       rc_exception_code = rr_exc_code p,
       rc_isolation_scope = rr_exc_scope p,
       rc_input_snapshot = rr_input p,
       rc_candidate_snapshot = dset ''reportedEvidence'' (JList (rr_evidence p)) (rr_candidate p),
       rc_diagnosis = rr_exc_message p,
       rc_created_at = ce_now env, rc_updated_at = ce_now env\<rparr>)
       | _ \<Rightarrow> Inl (Missing tpl))"

definition find_existing :: "review_db \<Rightarrow> string \<Rightarrow> string \<Rightarrow> review_case option" where
  "find_existing db event_id dk =
     find (\<lambda>c. rc_event_id c = event_id \<or> rc_dedupe_key c = dk) (t_cases db)"

definition service_identity :: "string \<Rightarrow> string \<Rightarrow> string \<Rightarrow> string \<Rightarrow> review_identity" where
  "service_identity uid name org req =
     \<lparr>ri_user_id = uid, ri_user_name = name, ri_roles = {''review_admin''}, ri_domains = {''*''},
      ri_organization = org, ri_request_id = req\<rparr>"

definition violates_unique :: "review_db \<Rightarrow> review_case \<Rightarrow> bool" where
  "violates_unique db c =
     list_ex (\<lambda>x. rc_id x = rc_id c \<or> rc_dedupe_key x = rc_dedupe_key c \<or>
                  rc_event_id x = rc_event_id c) (t_cases db)"

definition ingress_commit ::
  "string \<Rightarrow> review_case \<Rightarrow> review_db \<Rightarrow> review_error + (review_db \<times> ingress_response)" where
  \<comment> \<open>\<open>s.add(c); self.audit(...); s.commit()\<close> with the handler of \<open>IntegrityError\<close>: the
      database may have changed since the lookup\<close>
  "ingress_commit service_actor c db =
     (if violates_unique db c then
        (case find_existing db (rc_event_id c) (rc_dedupe_key c) of
           None \<Rightarrow> Inl IntegrityErr
         | Some x \<Rightarrow> Inr (db, ingress_response_of x True))
      else Inr (audit (rc_created_at c) (rc_id c)
                  (service_identity service_actor service_actor ''service'' (rc_event_id c))
                  ''CASE_CREATED'' None OPEN
                  [(''stepId'', JStr (rc_pipeline_step_id c)),
                   (''exceptionCode'', JStr (rc_exception_code c))]
                  (db\<lparr>t_cases := t_cases db @ [c]\<rparr>),
                ingress_response_of c False))"

definition create_review_required ::
  "review_config \<Rightarrow> (string \<Rightarrow> string) \<Rightarrow> call_env \<Rightarrow> string \<Rightarrow> review_required \<Rightarrow> review_db \<Rightarrow>
   review_error + (review_db \<times> ingress_response)" where
  "create_review_required cf sha256 env service_actor p db =
     rbind (build_case cf sha256 env p) (\<lambda>c.
     case find_existing db (rr_event_id p) (rc_dedupe_key c) of
       Some x \<Rightarrow> Inr (db, ingress_response_of x True)
     | None \<Rightarrow> ingress_commit service_actor c db)"

text \<open>The legacy entry point: the step and the template are derived from the free-form request.\<close>

record legacy_request =
  lq_step_id :: "string option"
  lq_node_id :: "string option"
  lq_phase :: "string option"
  lq_template_id :: "string option"
  lq_error_type :: string
  lq_object_id :: string
  lq_object_type :: string
  lq_object_name :: string
  lq_scope_hint :: "string option"
  lq_event_id :: "string option"
  lq_source_task_id :: string
  lq_batch_id :: "string option"
  lq_domain :: string
  lq_diagnosis :: string
  lq_fingerprint :: "string option"
  lq_input :: dict
  lq_candidate :: dict
  lq_rule_version :: "string option"
  lq_model_version :: "string option"
  lq_source_table :: "string option"
  lq_source_record_id :: "string option"

definition legacy_step :: "string option \<Rightarrow> string option \<Rightarrow> string option \<Rightarrow> string" where
  "legacy_step step_id node_id phase =
     (let n = ascii_lower (opt_or step_id (opt_str node_id)) in
      case find (\<lambda>x. py_in x n) (map fst PIPELINE_STEPS) of
        Some x \<Rightarrow> x
      | None \<Rightarrow> if phase = Some zh_data_processing then ''normalize'' else ''validate'')"

definition legacy_to_required ::
  "(string \<Rightarrow> string) \<Rightarrow> call_env \<Rightarrow> legacy_request \<Rightarrow> review_required" where
  "legacy_to_required sha256 env q =
     (let step = legacy_step (lq_step_id q) (lq_node_id q) (lq_phase q);
          tpl = canonical_template (opt_or (lq_template_id q)
                  (choose_template (lq_error_type q)
                     (case lq_node_id q of None \<Rightarrow> step | Some n \<Rightarrow> n) (lq_object_type q)));
          legacy_batch = (lq_scope_hint q = Some ''batch'' \<or>
                          step = ''schema'' \<and> py_in zh_map_failed (lq_error_type q))
      in \<lparr>rr_event_id = opt_or (lq_event_id q) (''legacy-'' @ ce_hex2 env),
          rr_source_task_id = lq_source_task_id q,
          rr_batch_id = lq_batch_id q,
          rr_step_id = step,
          rr_workflow = \<lparr>wf_type = ''legacy'', wf_id = lq_source_task_id q, wf_run_id = None,
             wf_task_queue = ''legacy'', wf_resume_token = ''legacy:'' @ lq_source_task_id q\<rparr>,
          rr_object_id = lq_object_id q,
          rr_object_type = lq_object_type q,
          rr_object_name = lq_object_name q,
          rr_exc_code = ''LEGACY_REVIEW_REQUIRED'',
          rr_exc_message = (if lq_diagnosis q \<noteq> [] then lq_diagnosis q else lq_error_type q),
          rr_exc_fingerprint = opt_or (lq_fingerprint q)
             (sha256 (dump (JList [JStr (lq_error_type q), JObj (lq_candidate q)]))),
          rr_exc_severity = (if legacy_batch then ''P0'' else ''P1''),
          rr_exc_scope = (if legacy_batch then BatchScope else ObjectScope),
          rr_template_id = tpl,
          rr_template_version = ''1.0'',
          rr_domain = lq_domain q,
          rr_input = lq_input q,
          rr_candidate = lq_candidate q,
          rr_evidence = [],
          rr_rule_version = lq_rule_version q,
          rr_model_version = lq_model_version q,
          rr_source_table = lq_source_table q,
          rr_source_record_id = lq_source_record_id q\<rparr>)"

section \<open>The reviewer's operations\<close>

definition claim :: "call_env \<Rightarrow> string \<Rightarrow> review_identity \<Rightarrow> nat \<Rightarrow> review_db \<Rightarrow> review_error + review_db" where
  "claim env i a v db =
     rbind (need db i) (\<lambda>c.
     rbind (require_domain_access a (rc_domain c)) (\<lambda>_.
     if \<not> role_can_review a (rc_phase c) then Inl (Forbidden ''role-phase'')
     else if \<not> (rc_version c = v \<and> rc_status c = OPEN) then Inl (Conflict ''claimed-or-version'')
     else Inr (audit (ce_now env) i a ''CASE_CLAIMED'' (Some OPEN) CLAIMED []
            (save_case (c\<lparr>rc_status := CLAIMED, rc_assignee_id := Some (ri_user_id a),
               rc_assignee_name := Some (ri_user_name a), rc_claimed_at := Some (ce_now env),
               rc_heartbeat_at := Some (ce_now env), rc_updated_at := ce_now env,
               rc_version := Suc (rc_version c)\<rparr>) db))))"

text \<open>
  \<open>claim\<close> is one conditional UPDATE.  The other commands load the case, compare its version in Python and
  write without a lock: each of them is one step here, so that of two that overlap the second sees the
  first.  In the code both may pass the comparison, and the one that commits last wins:
  theory Review\_Overlap has the two steps of \<open>mutate\<close>.
\<close>

definition mutate ::
  "call_env \<Rightarrow> string \<Rightarrow> review_identity \<Rightarrow> (review_case \<Rightarrow> review_case) \<Rightarrow> string \<Rightarrow> bool \<Rightarrow>
   nat \<Rightarrow> review_db \<Rightarrow> review_error + review_db" where
  \<comment> \<open>\<open>values\<close> is the update that \<open>setattr\<close> performs for the given columns\<close>
  "mutate env i a values event admin v db =
     rbind (need db i) (\<lambda>c.
     rbind (require_domain_access a (rc_domain c)) (\<lambda>_.
     if \<not> admin \<and> rc_assignee_id c \<noteq> Some (ri_user_id a) then Inl (Forbidden ''not-assignee'')
     else if rc_version c \<noteq> v then Inl (Conflict ''version'')
     else let c' = (values c)\<lparr>rc_version := Suc (rc_version c), rc_updated_at := ce_now env\<rparr>
          in Inr (audit (ce_now env) i a event (Some (rc_status c)) (rc_status c') []
                    (save_case c' db))))"

definition heartbeat where
  "heartbeat env i a = mutate env i a (\<lambda>c. c\<lparr>rc_heartbeat_at := Some (ce_now env)\<rparr>) ''HEARTBEAT'' False"

definition release where
  "release env i a = mutate env i a
     (\<lambda>c. c\<lparr>rc_status := OPEN, rc_assignee_id := None, rc_assignee_name := None,
            rc_claimed_at := None, rc_heartbeat_at := None\<rparr>) ''CASE_RELEASED'' False"

definition transfer ::
  "call_env \<Rightarrow> string \<Rightarrow> string \<Rightarrow> string \<Rightarrow> review_identity \<Rightarrow> nat \<Rightarrow> review_db \<Rightarrow> review_error + review_db" where
  "transfer env i uid name a v db =
     rbind (require_role a [''review_admin'']) (\<lambda>_.
       mutate env i a (\<lambda>c. c\<lparr>rc_assignee_id := Some uid, rc_assignee_name := Some name,
                             rc_heartbeat_at := Some (ce_now env)\<rparr>) ''CASE_TRANSFERRED'' True v db)"

definition cancel :: "call_env \<Rightarrow> string \<Rightarrow> review_identity \<Rightarrow> nat \<Rightarrow> review_db \<Rightarrow> review_error + review_db" where
  "cancel env i a v db =
     rbind (require_role a [''review_admin'']) (\<lambda>_.
       mutate env i a (\<lambda>c. c\<lparr>rc_status := CANCELLED, rc_completed_at := Some (ce_now env)\<rparr>)
         ''CASE_CANCELLED'' True v db)"

definition draft ::
  "call_env \<Rightarrow> string \<Rightarrow> dict \<Rightarrow> review_identity \<Rightarrow> nat \<Rightarrow> review_db \<Rightarrow> review_error + review_db" where
  "draft env i p a v db =
     rbind (owned db i a) (\<lambda>c.
     if rc_version c \<noteq> v \<or> rc_status c \<notin> set EDITABLE_STATUSES then Inl (Conflict ''state-or-version'')
     else let dr = \<lparr>dr_case_id = i, dr_payload = p, dr_updated_by = ri_user_id a,
                    dr_updated_at = ce_now env\<rparr>
          in Inr (audit (ce_now env) i a ''DRAFT_SAVED'' (Some (rc_status c)) IN_REVIEW []
                (save_case (c\<lparr>rc_status := IN_REVIEW, rc_version := Suc (rc_version c),
                              rc_updated_at := ce_now env\<rparr>)
                   (db\<lparr>t_drafts := tbl_put dr_case_id dr (t_drafts db)\<rparr>))))"

definition new_decision ::
  "time \<Rightarrow> string \<Rightarrow> string \<Rightarrow> dict \<Rightarrow> string \<Rightarrow> string \<Rightarrow> bool \<Rightarrow> review_db \<Rightarrow> review_decision" where
  "new_decision t i action result note uid approval db =
     \<lparr>de_id = Suc (length (t_decisions db)), de_case_id = i, de_action_id = action,
      de_result = result, de_note = note, de_submitted_by = uid, de_approved_by = None,
      de_status = (if approval then DecPending else DecApproved), de_created_at = t,
      de_decided_at = (if approval then None else Some t)\<rparr>"

definition submit ::
  "(string \<Rightarrow> string) \<Rightarrow> call_env \<Rightarrow> string \<Rightarrow> string \<Rightarrow> dict \<Rightarrow> string \<Rightarrow> review_identity \<Rightarrow> nat \<Rightarrow>
   review_db \<Rightarrow> review_error + review_db" where
  "submit sha256 env i action result note a v db =
     rbind (owned db i a) (\<lambda>c.
     if rc_version c \<noteq> v \<or> rc_status c \<notin> set EDITABLE_STATUSES then Inl (Conflict ''state-or-version'')
     else rbind (validate_action (rc_template_id c) action result) (\<lambda>_.
       let approval = requires_approval (rc_risk_level c) action result;
           t = ce_now env;
           d = new_decision t i action result note (ri_user_id a) approval db;
           db1 = db\<lparr>t_decisions := t_decisions db @ [d]\<rparr>;
           st = (if approval then PENDING_APPROVAL else APPLYING)
       in rbind (if approval then Inr db1 else enqueue_correction sha256 env c d db1) (\<lambda>db2.
            Inr (audit t i a ''DECISION_SUBMITTED'' (Some (rc_status c)) st
                   [(''actionId'', JStr action)]
                   (save_case (c\<lparr>rc_submitted_by := Some (ri_user_id a), rc_status := st,
                       rc_version := Suc (rc_version c), rc_updated_at := t\<rparr>) db2)))))"

definition decided :: "time \<Rightarrow> string \<Rightarrow> bool \<Rightarrow> string \<Rightarrow> review_decision \<Rightarrow> review_decision" where
  "decided t uid ok note d =
     d\<lparr>de_approved_by := Some uid,
       de_note := py_strip (de_note d @ [CHR 0x0A] @ zh_approval_note @ '': '' @ note),
       de_decided_at := Some t,
       de_status := (if ok then DecApproved else DecRejected)\<rparr>"

definition case_after_decision :: "time \<Rightarrow> bool \<Rightarrow> review_case \<Rightarrow> review_case" where
  "case_after_decision t ok c =
     (if ok then c\<lparr>rc_status := APPLYING\<rparr>
      else c\<lparr>rc_status := REJECTED, rc_completed_at := Some t\<rparr>)
        \<lparr>rc_version := Suc (rc_version c), rc_updated_at := t\<rparr>"

definition approve ::
  "(string \<Rightarrow> string) \<Rightarrow> call_env \<Rightarrow> string \<Rightarrow> bool \<Rightarrow> string \<Rightarrow> review_identity \<Rightarrow> nat \<Rightarrow> review_db \<Rightarrow>
   review_error + review_db" where
  "approve sha256 env i ok note a v db =
     rbind (require_role a [''approver'']) (\<lambda>_.
     rbind (need db i) (\<lambda>c.
     rbind (require_domain_access a (rc_domain c)) (\<lambda>_.
     if rc_version c \<noteq> v \<or> rc_status c \<noteq> PENDING_APPROVAL then Inl (Conflict ''state-or-version'')
     else case latest_decision db i DecPending of
       None \<Rightarrow> Inl (Conflict ''no-pending-decision'')
     | Some d \<Rightarrow>
         if de_submitted_by d = ri_user_id a then Inl (Forbidden ''submitter-approves'')
         else
           let t = ce_now env;
               d' = decided t (ri_user_id a) ok note d;
               db1 = db\<lparr>t_decisions := tbl_put de_id d' (t_decisions db)\<rparr>;
               c' = case_after_decision t ok c
           in rbind (if ok then enqueue_correction sha256 env c d' db1 else Inr db1) (\<lambda>db2.
                Inr (audit t i a (if ok then ''DECISION_APPROVED'' else ''DECISION_REJECTED'')
                       (Some (rc_status c)) (rc_status c') [] (save_case c' db2))))))"

definition retry :: "call_env \<Rightarrow> string \<Rightarrow> review_identity \<Rightarrow> nat \<Rightarrow> review_db \<Rightarrow> review_error + review_db" where
  "retry env i a v db =
     rbind (need db i) (\<lambda>c.
     rbind (require_domain_access a (rc_domain c)) (\<lambda>_.
     if rc_version c \<noteq> v \<or> rc_status c \<notin> {APPLY_FAILED, RERUN_FAILED}
     then Inl (Conflict ''not-failed-or-version'')
     else case latest_correction db i of
       None \<Rightarrow> Inl AttrErr
     | Some cor \<Rightarrow>
         let cor' = cor\<lparr>co_status := CorPending, co_last_error := None,
                        co_attempts := Suc (co_attempts cor)\<rparr>;
             db1 = db\<lparr>t_corrections := tbl_put co_id cor' (t_corrections db)\<rparr>
         in rbind (outbox env i ''RESUME_REQUESTED''
                     [(''correctionId'', JStr (co_id cor)), (''retry'', JBool True)] db1) (\<lambda>db2.
              Inr (audit (ce_now env) i a ''CASE_RETRIED'' (Some (rc_status c)) APPLYING []
                     (save_case (c\<lparr>rc_status := APPLYING, rc_version := Suc (rc_version c),
                                   rc_updated_at := ce_now env\<rparr>) db2)))))"

definition is_claim_expired :: "time \<Rightarrow> review_case \<Rightarrow> bool" where
  "is_claim_expired cutoff c =
     (rc_status c \<in> {CLAIMED, IN_REVIEW} \<and>
      (case rc_heartbeat_at c of None \<Rightarrow> False | Some h \<Rightarrow> h < cutoff))"

definition reclaim_one :: "call_env \<Rightarrow> review_db \<Rightarrow> review_case \<Rightarrow> review_db" where
  "reclaim_one env db c =
     audit (ce_now env) (rc_id c) (service_identity ''system'' ''system'' [] ''reclaimer'')
       ''CLAIM_EXPIRED'' (Some (rc_status c)) OPEN []
       (save_case (c\<lparr>rc_status := OPEN, rc_assignee_id := None, rc_assignee_name := None,
          rc_claimed_at := None, rc_heartbeat_at := None, rc_version := Suc (rc_version c),
          rc_updated_at := ce_now env\<rparr>) db)"

definition reclaim_expired :: "call_env \<Rightarrow> nat \<Rightarrow> review_db \<Rightarrow> review_db \<times> nat" where
  "reclaim_expired env minutes db =
     (let rows = filter (is_claim_expired (ce_now env - int minutes * 60)) (t_cases db)
      in (foldl (reclaim_one env) db rows, length rows))"

end
