(* ===== verification/Review_Outbox.thy ===== *)
theory Review_Outbox
  imports Review_Service
begin

text \<open>
  The hand-off to graph construction: the outbox worker, the dispatch of a resume request, and
  the callbacks that report the progress of an execution
  (backend/service/manual\_review\_production.py).  The HTTP response of the graph-build
  service is an argument: it is code outside the repository.
\<close>

section \<open>Dispatch\<close>

record resume_response =
  rs_accepted :: bool
  rs_execution_id :: string
  rs_workflow_id :: "string option"
  rs_run_id :: "string option"
  rs_status :: "string option"

type_synonym resume_post = "string \<Rightarrow> dict \<Rightarrow> string \<Rightarrow> string + resume_response"

definition opt_json :: "string option \<Rightarrow> json" where
  "opt_json x = (case x of None \<Rightarrow> JNull | Some s \<Rightarrow> JStr s)"

definition resume_payload :: "review_case \<Rightarrow> review_correction \<Rightarrow> dict" where
  "resume_payload c cor =
     [(''reviewId'', JStr (rc_id c)),
      (''correctionId'', JStr (co_id cor)),
      (''correctionVersion'', JInt 1),
      (''stepId'', JStr (co_rerun_step_id cor)),
      (''scope'', JStr (isolation_name (rc_isolation_scope c))),
      (''sourceTaskId'', JStr (rc_source_task_id c)),
      (''batchId'', opt_json (rc_batch_id c)),
      (''workflow'', JObj
        [(''workflowType'', JStr (rc_workflow_type c)),
         (''workflowId'', JStr (rc_workflow_id c)),
         (''runId'', opt_json (rc_workflow_run_id c)),
         (''taskQueue'', JStr (rc_task_queue c)),
         (''resumeToken'', JStr (rc_resume_token c))]),
      (''correctionUrl'', JStr (''/api/v1/internal/manual-reviews/'' @ rc_id c @ ''/correction''))]"

definition dispatch_resume ::
  "review_config \<Rightarrow> resume_post \<Rightarrow> review_case \<Rightarrow> review_correction \<Rightarrow> string + resume_response" where
  \<comment> \<open>\<open>post url body key\<close> is the answer of the HTTP request with that idempotency key, or the
      text of the exception it raises\<close>
  "dispatch_resume cf post c cor =
     (if cf_mock cf then
        Inr \<lparr>rs_accepted = True, rs_execution_id = ''MOCK-'' @ co_id cor,
             rs_workflow_id = Some (if rc_workflow_id c \<noteq> [] then rc_workflow_id c
                                    else ''mock-'' @ rc_id c),
             rs_run_id = Some ''mock'', rs_status = Some ''QUEUED''\<rparr>
      else let base = rstrip_slash (cf_base_url cf) in
        if base = [] then Inl ''GRAPH_BUILD_INTERNAL_URL''
        else (case post (base @ ''/internal/review-resumes'') (resume_payload c cor) (co_id cor) of
                Inl e \<Rightarrow> Inl e
              | Inr r \<Rightarrow> if \<not> rs_accepted r \<or> rs_execution_id r = [] then Inl ''invalid-response''
                         else Inr r))"

section \<open>The outbox worker\<close>

definition unlock_stale :: "review_config \<Rightarrow> time \<Rightarrow> review_outbox \<Rightarrow> review_outbox" where
  "unlock_stale cf t x =
     (if ob_status x = ObProcessing \<and>
        (case ob_locked_at x of None \<Rightarrow> False | Some l \<Rightarrow> l < t - cf_lock_timeout cf)
     then x\<lparr>ob_status := ObRetry, ob_available_at := t, ob_locked_at := None\<rparr> else x)"

definition recover_stale :: "review_config \<Rightarrow> time \<Rightarrow> review_db \<Rightarrow> review_db" where
  "recover_stale cf t db = db\<lparr>t_outbox := map (unlock_stale cf t) (t_outbox db)\<rparr>"

definition is_due :: "time \<Rightarrow> review_outbox \<Rightarrow> bool" where
  "is_due t x = (ob_status x \<in> {ObPending, ObRetry} \<and> ob_available_at x \<le> t)"

definition due_ids :: "time \<Rightarrow> nat \<Rightarrow> review_db \<Rightarrow> string list" where
  "due_ids t limit db =
     map ob_id (take limit (sort_key ob_created_at (filter (is_due t) (t_outbox db))))"

definition claim_outbox :: "time \<Rightarrow> string \<Rightarrow> review_db \<Rightarrow> review_db \<times> bool" where
  "claim_outbox t oid db =
     (case tbl_get ob_id oid (t_outbox db) of
        None \<Rightarrow> (db, False)
      | Some x \<Rightarrow>
          if is_due t x
          then (db\<lparr>t_outbox := tbl_put ob_id
                  (x\<lparr>ob_status := ObProcessing, ob_locked_at := Some t\<rparr>) (t_outbox db)\<rparr>, True)
          else (db, False))"

definition payload_correction_id :: "review_outbox \<Rightarrow> review_error + string" where
  \<comment> \<open>\<open>load(x.payload)["correctionId"]\<close>\<close>
  "payload_correction_id x =
     (case map_of (ob_payload x) ''correctionId'' of Some (JStr s) \<Rightarrow> Inr s
      | _ \<Rightarrow> Inl (Missing ''correctionId''))"

datatype outbox_outcome = ObxSkipped | ObxDone | ObxFailed

definition executions_with ::
  "time \<Rightarrow> review_case \<Rightarrow> review_correction \<Rightarrow> resume_response \<Rightarrow> review_execution list \<Rightarrow>
   review_execution list" where
  "executions_with t c cor resp execs =
     (if tbl_get ex_id (rs_execution_id resp) execs = None then execs @
        [\<lparr>ex_id = rs_execution_id resp, ex_case_id = rc_id c, ex_resume_node = co_rerun_step_id cor,
          ex_workflow_type = (if rc_workflow_type c \<noteq> [] then rc_workflow_type c
                              else ''graph-build''),
          ex_workflow_id = opt_or (rs_workflow_id resp) (rc_workflow_id c),
          ex_run_id = rs_run_id resp,
          ex_status = (case rs_status resp of None \<Rightarrow> ''QUEUED'' | Some s \<Rightarrow> s),
          ex_error = None, ex_created_at = t, ex_completed_at = None\<rparr>]
      else execs)"

definition outbox_success ::
  "time \<Rightarrow> review_outbox \<Rightarrow> review_case \<Rightarrow> review_correction \<Rightarrow> resume_response \<Rightarrow> review_db \<Rightarrow>
   string + review_db" where
  "outbox_success t x c cor resp db =
     (let eid = rs_execution_id resp;
          existing = tbl_get ex_id eid (t_executions db) in
      if (case existing of None \<Rightarrow> False | Some e \<Rightarrow> ex_case_id e \<noteq> rc_id c)
      then Inl ''execution-of-another-case''
      else
        Inr (audit t (rc_id c) (service_identity ''outbox-worker'' ''Outbox Worker'' ''system'' (ob_id x))
              ''RESUME_ACCEPTED'' (Some (rc_status c)) RERUNNING [(''executionId'', JStr eid)]
              (save_case (c\<lparr>rc_status := RERUNNING, rc_version := Suc (rc_version c),
                            rc_updated_at := t\<rparr>)
                (db\<lparr>t_executions := executions_with t c cor resp (t_executions db),
                    t_corrections := tbl_put co_id (cor\<lparr>co_status := CorDispatched\<rparr>)
                                       (t_corrections db),
                    t_outbox := tbl_put ob_id
                      (x\<lparr>ob_status := ObDone, ob_processed_at := Some t\<rparr>) (t_outbox db)\<rparr>))))"

definition backoff_seconds :: "nat \<Rightarrow> int" where
  "backoff_seconds attempts = min 300 (2 ^ attempts)"

definition outbox_failure ::
  "review_config \<Rightarrow> time \<Rightarrow> string \<Rightarrow> review_outbox \<Rightarrow> review_case \<Rightarrow> review_correction \<Rightarrow> review_db \<Rightarrow>
   review_db" where
  "outbox_failure cf t msg x c cor db =
     (let n = Suc (ob_attempts x) in
      save_case (c\<lparr>rc_status := APPLY_FAILED, rc_version := Suc (rc_version c), rc_updated_at := t\<rparr>)
        (db\<lparr>t_outbox := tbl_put ob_id
              (x\<lparr>ob_attempts := n, ob_last_error := Some msg,
                 ob_status := (if cf_max_attempts cf \<le> n then ObDead else ObRetry),
                 ob_available_at := t + backoff_seconds n\<rparr>) (t_outbox db),
            t_corrections := tbl_put co_id
              (cor\<lparr>co_status := CorPending, co_last_error := Some msg,
                   co_attempts := Suc (co_attempts cor)\<rparr>) (t_corrections db)\<rparr>))"

definition process_claimed ::
  "review_config \<Rightarrow> resume_post \<Rightarrow> time \<Rightarrow> string \<Rightarrow> review_db \<Rightarrow>
   review_error + (review_db \<times> outbox_outcome)" where
  "process_claimed cf post t oid db =
     (case tbl_get ob_id oid (t_outbox db) of
        None \<Rightarrow> Inr (db, ObxSkipped)
      | Some x \<Rightarrow>
          if ob_status x \<noteq> ObProcessing then Inr (db, ObxSkipped)
          else if ob_event_type x \<noteq> ''RESUME_REQUESTED'' then
            Inr (db\<lparr>t_outbox := tbl_put ob_id
                   (x\<lparr>ob_status := ObDone, ob_processed_at := Some t\<rparr>) (t_outbox db)\<rparr>, ObxDone)
          else
            rbind (need db (ob_case_id x)) (\<lambda>c.
            rbind (payload_correction_id x) (\<lambda>cid.
            case tbl_get co_id cid (t_corrections db) of
              None \<Rightarrow> Inl AttrErr
            | Some cor \<Rightarrow>
                (case rbind (dispatch_resume cf post c cor)
                        (\<lambda>resp. outbox_success t x c cor resp db) of
                   Inr db' \<Rightarrow> Inr (db', ObxDone)
                 | Inl msg \<Rightarrow> Inr (outbox_failure cf t msg x c cor db, ObxFailed)))))"

record outbox_report =
  or_processed :: nat
  or_failed :: nat
  or_raised :: "review_error option"

fun outbox_loop ::
  "review_config \<Rightarrow> resume_post \<Rightarrow> time \<Rightarrow> string list \<Rightarrow> outbox_report \<Rightarrow> review_db \<Rightarrow>
   review_db \<times> outbox_report" where
  \<comment> \<open>every row is claimed and processed in transactions of its own; an exception outside the
      \<open>try\<close> ends the loop and leaves the earlier rows committed\<close>
  "outbox_loop cf post t [] r db = (db, r)"
| "outbox_loop cf post t (oid # ids) r db =
     (case claim_outbox t oid db of
        (db1, False) \<Rightarrow> outbox_loop cf post t ids r db1
      | (db1, True) \<Rightarrow>
          (case process_claimed cf post t oid db1 of
             Inl e \<Rightarrow> (db1, r\<lparr>or_raised := Some e\<rparr>)
           | Inr (db2, ObxSkipped) \<Rightarrow> outbox_loop cf post t ids r db2
           | Inr (db2, ObxDone) \<Rightarrow>
               outbox_loop cf post t ids (r\<lparr>or_processed := Suc (or_processed r)\<rparr>) db2
           | Inr (db2, ObxFailed) \<Rightarrow>
               outbox_loop cf post t ids (r\<lparr>or_failed := Suc (or_failed r)\<rparr>) db2))"

definition process_outbox ::
  "review_config \<Rightarrow> resume_post \<Rightarrow> time \<Rightarrow> nat \<Rightarrow> review_db \<Rightarrow> review_db \<times> outbox_report" where
  "process_outbox cf post t limit db =
     (let db1 = recover_stale cf t db
      in outbox_loop cf post t (due_ids t limit db1)
           \<lparr>or_processed = 0, or_failed = 0, or_raised = None\<rparr> db1)"

section \<open>Execution callbacks\<close>

record execution_event =
  ee_event_id :: string
  ee_execution_id :: string
  ee_type :: event_type
  ee_occurred_at :: time
  ee_step_id :: string
  ee_workflow_id :: "string option"
  ee_run_id :: "string option"
  ee_error :: "string option"

definition callback_step_ok :: "string \<Rightarrow> string \<Rightarrow> bool" where
  "callback_step_ok step pipeline_step =
     (step = pipeline_step \<or> step = ''extract'' \<and> pipeline_step = ''validate'')"

fun event_allowed :: "event_type \<Rightarrow> review_status list" where
  "event_allowed CORRECTION_ACCEPTED = [APPLYING, RERUNNING]"
| "event_allowed RERUN_STARTED = [APPLYING, RERUNNING]"
| "event_allowed RERUN_PROGRESS = [RERUNNING]"
| "event_allowed RERUN_SUCCEEDED = [RERUNNING]"
| "event_allowed RERUN_FAILED_EV = [RERUNNING]"
| "event_allowed VERIFICATION_SUCCEEDED = [VERIFYING]"
| "event_allowed VERIFICATION_FAILED = [VERIFYING]"

definition previous_stage :: "review_db \<Rightarrow> string \<Rightarrow> string \<Rightarrow> nat" where
  "previous_stage db i eid =
     fold max (map xe_stage (filter (\<lambda>e. xe_case_id e = i \<and> xe_execution_id e = eid) (t_events db))) 0"

definition case_after_event :: "event_type \<Rightarrow> time \<Rightarrow> review_case \<Rightarrow> review_case" where
  "case_after_event typ t c =
     (case typ of
        RERUN_SUCCEEDED \<Rightarrow> c\<lparr>rc_status := VERIFYING\<rparr>
      | RERUN_FAILED_EV \<Rightarrow> c\<lparr>rc_status := RERUN_FAILED\<rparr>
      | VERIFICATION_FAILED \<Rightarrow> c\<lparr>rc_status := RERUN_FAILED\<rparr>
      | VERIFICATION_SUCCEEDED \<Rightarrow> c\<lparr>rc_status := RESOLVED, rc_completed_at := Some t\<rparr>
      | _ \<Rightarrow> c\<lparr>rc_status := RERUNNING\<rparr>)"

definition execution_after_event ::
  "event_type \<Rightarrow> time \<Rightarrow> string option \<Rightarrow> review_execution \<Rightarrow> review_execution" where
  "execution_after_event typ t err x =
     (case typ of
        RERUN_SUCCEEDED \<Rightarrow> x\<lparr>ex_status := ''RERUN_SUCCEEDED''\<rparr>
      | RERUN_FAILED_EV \<Rightarrow> x\<lparr>ex_status := ''FAILED'', ex_error := err, ex_completed_at := Some t\<rparr>
      | VERIFICATION_FAILED \<Rightarrow> x\<lparr>ex_status := ''FAILED'', ex_error := err, ex_completed_at := Some t\<rparr>
      | VERIFICATION_SUCCEEDED \<Rightarrow> x\<lparr>ex_status := ''COMPLETED'', ex_completed_at := Some t\<rparr>
      | _ \<Rightarrow> x\<lparr>ex_status := ''RUNNING''\<rparr>)"

definition execution_event ::
  "time \<Rightarrow> string \<Rightarrow> execution_event \<Rightarrow> review_db \<Rightarrow> review_error + (review_db \<times> bool)" where
  \<comment> \<open>the flag is the \<open>duplicate\<close> of the response\<close>
  "execution_event t i p db =
     rbind (need db i) (\<lambda>c.
     if \<not> callback_step_ok (ee_step_id p) (rc_pipeline_step_id c) then Inl (Validation ''callback-step'')
     else if tbl_get xe_event_id (ee_event_id p) (t_events db) \<noteq> None then Inr (db, True)
     else
       let typ = ee_type p; stage = EVENT_STAGE typ in
       if stage < previous_stage db i (ee_execution_id p) then Inl (Conflict ''out-of-order'')
       else if rc_status c \<notin> set (event_allowed typ) then Inl (Conflict ''status-event'')
       else
         let found = tbl_get ex_id (ee_execution_id p) (t_executions db) in
         if (case found of None \<Rightarrow> False | Some x \<Rightarrow> ex_case_id x \<noteq> i)
         then Inl (Validation ''execution-of-another-case'')
         else
           let x = (case found of Some x \<Rightarrow> x | None \<Rightarrow>
                 \<lparr>ex_id = ee_execution_id p, ex_case_id = i, ex_resume_node = ee_step_id p,
                  ex_workflow_type = (if rc_workflow_type c \<noteq> [] then rc_workflow_type c
                                      else ''graph-build''),
                  ex_workflow_id = opt_or (ee_workflow_id p) (rc_workflow_id c),
                  ex_run_id = ee_run_id p, ex_status = ''QUEUED'', ex_error = None,
                  ex_created_at = t, ex_completed_at = None\<rparr>)
           in rbind (if typ = VERIFICATION_SUCCEEDED then
                       (case latest_correction db i of None \<Rightarrow> Inl AttrErr
                        | Some cor \<Rightarrow> Inr (tbl_put co_id
                            (cor\<lparr>co_status := CorApplied, co_applied_at := Some t\<rparr>)
                            (t_corrections db)))
                     else Inr (t_corrections db)) (\<lambda>cors.
               let c' = (case_after_event typ t c)
                          \<lparr>rc_version := Suc (rc_version c), rc_updated_at := t\<rparr>;
                   ev = \<lparr>xe_event_id = ee_event_id p, xe_case_id = i,
                         xe_execution_id = ee_execution_id p, xe_event_type = typ,
                         xe_stage = stage, xe_occurred_at = ee_occurred_at p, xe_created_at = t\<rparr>
               in Inr (audit t i (service_identity ''graph-build'' ''Graph Build'' ''service'' (ee_event_id p))
                        (event_name typ) (Some (rc_status c)) (rc_status c')
                        [(''executionId'', JStr (ee_execution_id p))]
                        (save_case c'
                          (db\<lparr>t_executions := tbl_put ex_id (execution_after_event typ t (ee_error p) x)
                                                (t_executions db),
                              t_corrections := cors,
                              t_events := t_events db @ [ev]\<rparr>)),
                       False)))"

definition complete_execution ::
  "call_env \<Rightarrow> string \<Rightarrow> string \<Rightarrow> bool \<Rightarrow> string \<Rightarrow> review_identity \<Rightarrow> review_db \<Rightarrow>
   review_error + (review_db \<times> bool)" where
  "complete_execution env i eid success err a db =
     rbind (require_role a [''review_admin'']) (\<lambda>_.
     rbind (need db i) (\<lambda>c.
       execution_event (ce_now env) i
         \<lparr>ee_event_id = ''legacy-'' @ eid @ ''-'' @ ce_hex1 env, ee_execution_id = eid,
          ee_type = (if success then VERIFICATION_SUCCEEDED else RERUN_FAILED_EV),
          ee_occurred_at = ce_now env, ee_step_id = rc_pipeline_step_id c,
          ee_workflow_id = None, ee_run_id = None, ee_error = Some err\<rparr> db))"

section \<open>Evidence files\<close>

definition basename :: "string \<Rightarrow> string" where
  "basename s = rev (takeWhile (\<lambda>c. c \<noteq> CHR ''/'') (rev s))"

definition safe_file_name :: "string \<Rightarrow> string" where
  "safe_file_name s = map (\<lambda>c. if c = CHR 0x5C then CHR ''_'' else c) (basename s)"

definition is_hex_digit :: "char \<Rightarrow> bool" where
  "is_hex_digit c = (c \<in> set ''0123456789abcdefABCDEF'')"

record evidence_ticket =
  et_evidence_id :: string
  et_object_key :: string

definition evidence_upload ::
  "review_config \<Rightarrow> call_env \<Rightarrow> string \<Rightarrow> string \<Rightarrow> string \<Rightarrow> int \<Rightarrow> string \<Rightarrow> review_identity \<Rightarrow>
   review_db \<Rightarrow> review_error + evidence_ticket" where
  "evidence_upload cf env i file_name content_type sz digest a db =
     (if sz < 1 \<or> cf_evidence_max cf < sz then Inl (Validation ''evidence-size'')
      else if py_len digest \<noteq> 64 \<or> \<not> list_all is_hex_digit digest then Inl (Validation ''sha256'')
      else if content_type \<notin> set (cf_evidence_types cf) then Inl (Validation ''content-type'')
      else rbind (need db i) (\<lambda>c.
           rbind (require_domain_access a (rc_domain c)) (\<lambda>_.
             let eid = ''EVD-'' @ ce_hex1 env
             in Inr \<lparr>et_evidence_id = eid,
                     et_object_key = i @ ''/'' @ eid @ ''/'' @ safe_file_name file_name\<rparr>)))"

record object_head =
  oh_content_length :: int
  oh_content_type :: string
  oh_sha256 :: string

record evidence_complete_request =
  ec_evidence_id :: string
  ec_file_name :: string
  ec_content_type :: string
  ec_size_bytes :: int
  ec_sha256 :: string
  ec_bucket :: string
  ec_object_key :: string
  ec_source :: string
  ec_trust_level :: string

definition evidence_complete ::
  "object_head \<Rightarrow> time \<Rightarrow> string \<Rightarrow> evidence_complete_request \<Rightarrow> review_identity \<Rightarrow> review_db \<Rightarrow>
   review_error + review_db" where
  \<comment> \<open>\<open>head\<close> is what the object store reports for the uploaded object\<close>
  "evidence_complete head t i p a db =
     (if oh_content_length head \<noteq> ec_size_bytes p \<or> oh_content_type head \<noteq> ec_content_type p \<or>
         ascii_lower (oh_sha256 head) \<noteq> ascii_lower (ec_sha256 p)
      then Inl (Validation ''evidence-integrity'')
      else rbind (owned db i a) (\<lambda>c.
        case tbl_insert ev_id
          \<lparr>ev_id = ec_evidence_id p, ev_case_id = i, ev_file_name = ec_file_name p,
           ev_content_type = ec_content_type p, ev_size_bytes = ec_size_bytes p,
           ev_sha256 = ec_sha256 p, ev_bucket = ec_bucket p, ev_object_key = ec_object_key p,
           ev_source = ec_source p, ev_trust_level = ec_trust_level p,
           ev_uploaded_by = ri_user_id a, ev_created_at = t\<rparr> (t_evidence db) of
          None \<Rightarrow> Inl IntegrityErr
        | Some tb \<Rightarrow>
            Inr (audit t i a ''EVIDENCE_ADDED'' (Some (rc_status c)) (rc_status c)
                   [(''evidenceId'', JStr (ec_evidence_id p))] (db\<lparr>t_evidence := tb\<rparr>))))"

section \<open>Reading\<close>

record list_filter =
  lf_status :: "string option"
  lf_risk :: "string option"
  lf_domain :: "string option"
  lf_template_id :: "string option"
  lf_assignee_id :: "string option"
  lf_queue :: "string option"
  lf_keyword :: "string option"
  lf_page :: "int option"
  lf_page_size :: "int option"

definition queue_matches :: "string option \<Rightarrow> review_identity \<Rightarrow> review_case \<Rightarrow> bool" where
  "queue_matches q a c =
     (if q = Some ''mine'' then rc_assignee_id c = Some (ri_user_id a)
      else if q = Some ''unclaimed'' then rc_status c = OPEN
      else if q = Some ''approval'' then rc_status c = PENDING_APPROVAL
      else if q = Some ''failed'' then rc_status c \<in> {APPLY_FAILED, RERUN_FAILED}
      else if q = Some ''history'' then rc_status c \<in> set TERMINAL_STATUSES
      else True)"

fun status_name :: "review_status \<Rightarrow> string" where
  "status_name OPEN = ''OPEN''"
| "status_name CLAIMED = ''CLAIMED''"
| "status_name IN_REVIEW = ''IN_REVIEW''"
| "status_name PENDING_APPROVAL = ''PENDING_APPROVAL''"
| "status_name APPLYING = ''APPLYING''"
| "status_name RERUNNING = ''RERUNNING''"
| "status_name VERIFYING = ''VERIFYING''"
| "status_name RESOLVED = ''RESOLVED''"
| "status_name REJECTED = ''REJECTED''"
| "status_name CANCELLED = ''CANCELLED''"
| "status_name EXPIRED = ''EXPIRED''"
| "status_name APPLY_FAILED = ''APPLY_FAILED''"
| "status_name RERUN_FAILED = ''RERUN_FAILED''"

fun risk_name :: "risk \<Rightarrow> string" where
  "risk_name P0 = ''P0''"
| "risk_name P1 = ''P1''"
| "risk_name P2 = ''P2''"

definition col_eq :: "string option \<Rightarrow> string option \<Rightarrow> bool" where
  \<comment> \<open>an absent or empty filter matches everything; NULL equals nothing\<close>
  "col_eq f v = (if opt_truthy f then v = f else True)"

definition domain_visible :: "review_identity \<Rightarrow> review_case \<Rightarrow> bool" where
  "domain_visible a c =
     (if ri_domains a \<noteq> {} \<and> ''*'' \<notin> ri_domains a \<and> \<not> has_any a [''review_admin'', ''auditor'']
      then rc_domain c \<in> ri_domains a else True)"

definition keyword_matches :: "string option \<Rightarrow> review_case \<Rightarrow> bool" where
  \<comment> \<open>SQL \<open>LIKE '%kw%'\<close> for a keyword without wildcards\<close>
  "keyword_matches kw c =
     (if opt_truthy kw then
        py_in (opt_str kw) (rc_id c) \<or> py_in (opt_str kw) (rc_object_name c) \<or>
        (case rc_source_record_id c of None \<Rightarrow> False | Some r \<Rightarrow> py_in (opt_str kw) r)
      else True)"

definition case_matches :: "list_filter \<Rightarrow> review_identity \<Rightarrow> review_case \<Rightarrow> bool" where
  "case_matches f a c =
     (col_eq (lf_status f) (Some (status_name (rc_status c))) \<and>
      col_eq (lf_risk f) (Some (risk_name (rc_risk_level c))) \<and>
      col_eq (lf_domain f) (Some (rc_domain c)) \<and>
      col_eq (lf_template_id f) (Some (rc_template_id c)) \<and>
      col_eq (lf_assignee_id f) (rc_assignee_id c) \<and>
      queue_matches (lf_queue f) a c \<and> domain_visible a c \<and> keyword_matches (lf_keyword f) c)"

definition or_default :: "int option \<Rightarrow> int \<Rightarrow> int" where
  \<comment> \<open>\<open>int(x or d)\<close>\<close>
  "or_default x d = (case x of None \<Rightarrow> d | Some v \<Rightarrow> if v = 0 then d else v)"

definition page_of :: "int option \<Rightarrow> nat" where
  "page_of p = nat (max (or_default p 1) 1)"

definition page_size_of :: "int option \<Rightarrow> nat" where
  "page_size_of s = nat (min (max (or_default s 50) 1) 200)"

record case_page =
  cp_items :: "review_case list"
  cp_total :: nat
  cp_page :: nat
  cp_page_size :: nat

definition list_cases ::
  "list_filter \<Rightarrow> review_identity \<Rightarrow> review_db \<Rightarrow> review_error + case_page" where
  "list_cases f a db =
     rbind (require_role a [''reviewer'', ''data_quality_reviewer'', ''graph_governance_reviewer'',
                            ''approver'', ''auditor'']) (\<lambda>_.
       let page = page_of (lf_page f); ps = page_size_of (lf_page_size f);
           rows = filter (case_matches f a) (t_cases db)
       in Inr \<lparr>cp_items = take ps (drop ((page - 1) * ps)
                 (sort_key rc_risk_level (sort_key rc_created_at rows))),
               cp_total = length rows, cp_page = page, cp_page_size = ps\<rparr>)"

record case_detail =
  cd_case :: review_case
  cd_draft :: dict
  cd_template :: json
  cd_write_target :: string
  cd_reported :: json
  cd_evidence_ids :: "string list"
  cd_executions :: "review_execution list"

definition detail :: "review_db \<Rightarrow> review_case \<Rightarrow> review_error + case_detail" where
  "detail db c =
     rbind (template_contract (rc_template_id c)) (\<lambda>tc.
     rbind (write_target (rc_template_id c)) (\<lambda>wt.
       Inr \<lparr>cd_case = c,
            cd_draft = (case tbl_get dr_case_id (rc_id c) (t_drafts db) of
                          None \<Rightarrow> [] | Some d \<Rightarrow> dr_payload d),
            cd_template = tc, cd_write_target = wt,
            cd_reported = dget_or (rc_candidate_snapshot c) ''reportedEvidence'' (JList []),
            cd_evidence_ids = map ev_id (sort_key ev_created_at
               (filter (\<lambda>x. ev_case_id x = rc_id c) (t_evidence db))),
            cd_executions = rev (sort_key ex_created_at
               (filter (\<lambda>x. ex_case_id x = rc_id c) (t_executions db)))\<rparr>))"

definition get_case :: "string \<Rightarrow> review_identity \<Rightarrow> review_db \<Rightarrow> review_error + case_detail" where
  "get_case i a db =
     rbind (need db i) (\<lambda>c. rbind (require_domain_access a (rc_domain c)) (\<lambda>_. detail db c))"

definition logs :: "string \<Rightarrow> review_identity \<Rightarrow> review_db \<Rightarrow> review_error + review_audit list" where
  "logs i a db =
     rbind (need db i) (\<lambda>c. rbind (require_domain_access a (rc_domain c)) (\<lambda>_.
       Inr (sort_key au_created_at (filter (\<lambda>x. au_case_id x = i) (t_audits db)))))"

record correction_view =
  cv_review_id :: string
  cv_correction_id :: string
  cv_template_id :: string
  cv_action_id :: "string option"
  cv_step_id :: string
  cv_payload :: dict
  cv_evidence_refs :: "(string \<times> string) list"
  cv_rule_sedimentation :: bool
  cv_submitted_by :: "string option"
  cv_approved_by :: "string option"
  cv_payload_sha256 :: string

definition correction :: "string \<Rightarrow> review_db \<Rightarrow> review_error + correction_view" where
  "correction i db =
     rbind (need db i) (\<lambda>c.
     case latest_correction db i of
       None \<Rightarrow> Inl (Missing i)
     | Some x \<Rightarrow>
         let d = latest_decision db i DecApproved in
         Inr \<lparr>cv_review_id = i, cv_correction_id = co_id x,
              cv_template_id = canonical_template (rc_template_id c),
              cv_action_id = map_option de_action_id d, cv_step_id = co_rerun_step_id x,
              cv_payload = co_payload x,
              cv_evidence_refs = map (\<lambda>e. (ev_id e, ev_sha256 e))
                 (filter (\<lambda>e. ev_case_id e = i) (t_evidence db)),
              cv_rule_sedimentation = (case d of None \<Rightarrow> False
                 | Some d \<Rightarrow> truthy (dget (de_result d) ''sedimentRule'')),
              cv_submitted_by = map_option de_submitted_by d,
              cv_approved_by = Option.bind d de_approved_by,
              cv_payload_sha256 = co_payload_sha256 x\<rparr>)"

definition create_case ::
  "review_config \<Rightarrow> (string \<Rightarrow> string) \<Rightarrow> call_env \<Rightarrow> legacy_request \<Rightarrow> review_identity \<Rightarrow> review_db \<Rightarrow>
   review_error + (review_db \<times> (review_error + case_detail))" where
  \<comment> \<open>the case is committed before the access check of the response\<close>
  "create_case cf sha256 env q a db =
     rbind (create_review_required cf sha256 env (ri_user_id a) (legacy_to_required sha256 env q) db)
       (\<lambda>(db', resp). Inr (db', get_case (ir_review_id resp) a db'))"

end
