(* ===== verification/Review_Inv.thy ===== *)
theory Review_Inv
  imports Review_Outbox
begin

text \<open>
  The manual-review service as a transactional system: its commands, the invariant that every
  command keeps, and the interpretations of the shared contracts on the model's operations.
\<close>

section \<open>Commands\<close>

datatype review_cmd =
    CIngress call_env string review_required
  | CClaim call_env string review_identity nat
  | CHeartbeat call_env string review_identity nat
  | CRelease call_env string review_identity nat
  | CTransfer call_env string string string review_identity nat
  | CCancel call_env string review_identity nat
  | CDraft call_env string dict review_identity nat
  | CSubmit call_env string string dict string review_identity nat
  | CApprove call_env string bool string review_identity nat
  | CRetry call_env string review_identity nat
  | CReclaim call_env nat
  | CRecover time
  | CClaimOutbox time string
  | CProcess resume_post time string
  | CEvent time string execution_event
  | CEvidence object_head time string evidence_complete_request review_identity

fun exec_review ::
  "review_config \<Rightarrow> (string \<Rightarrow> string) \<Rightarrow> review_cmd \<Rightarrow> review_db \<Rightarrow> review_error + review_db" where
  "exec_review cf sha (CIngress env actor p) db =
     rbind (create_review_required cf sha env actor p db) (\<lambda>r. Inr (fst r))"
| "exec_review cf sha (CClaim env i a v) db = claim env i a v db"
| "exec_review cf sha (CHeartbeat env i a v) db = heartbeat env i a v db"
| "exec_review cf sha (CRelease env i a v) db = release env i a v db"
| "exec_review cf sha (CTransfer env i uid name a v) db = transfer env i uid name a v db"
| "exec_review cf sha (CCancel env i a v) db = cancel env i a v db"
| "exec_review cf sha (CDraft env i p a v) db = draft env i p a v db"
| "exec_review cf sha (CSubmit env i action result note a v) db =
     submit sha env i action result note a v db"
| "exec_review cf sha (CApprove env i ok note a v) db = approve sha env i ok note a v db"
| "exec_review cf sha (CRetry env i a v) db = retry env i a v db"
| "exec_review cf sha (CReclaim env minutes) db = Inr (fst (reclaim_expired env minutes db))"
| "exec_review cf sha (CRecover t) db = Inr (recover_stale cf t db)"
| "exec_review cf sha (CClaimOutbox t oid) db = Inr (fst (claim_outbox t oid db))"
| "exec_review cf sha (CProcess post t oid) db =
     rbind (process_claimed cf post t oid db) (\<lambda>r. Inr (fst r))"
| "exec_review cf sha (CEvent t i p) db = rbind (execution_event t i p db) (\<lambda>r. Inr (fst r))"
| "exec_review cf sha (CEvidence head t i p a) db = evidence_complete head t i p a db"

section \<open>The invariant\<close>

definition static_eq :: "review_case \<Rightarrow> review_case \<Rightarrow> bool" where
  \<comment> \<open>the columns no method writes after the insert\<close>
  "static_eq c c' \<longleftrightarrow> rc_id c' = rc_id c \<and> rc_dedupe_key c' = rc_dedupe_key c \<and>
     rc_event_id c' = rc_event_id c \<and> rc_risk_level c' = rc_risk_level c \<and>
     rc_template_id c' = rc_template_id c \<and> rc_pipeline_step_id c' = rc_pipeline_step_id c"

definition decision_ok :: "review_case list \<Rightarrow> review_decision \<Rightarrow> bool" where
  "decision_ok cases d \<longleftrightarrow>
     (case tbl_get rc_id (de_case_id d) cases of
        None \<Rightarrow> False
      | Some c \<Rightarrow>
          validate_action (rc_template_id c) (de_action_id d) (de_result d) = Inr () \<and>
          (de_status d = DecApproved \<and>
           requires_approval (rc_risk_level c) (de_action_id d) (de_result d) \<longrightarrow>
             (\<exists>u. de_approved_by d = Some u \<and> u \<noteq> de_submitted_by d)))"

definition correction_ok :: "review_decision list \<Rightarrow> review_correction \<Rightarrow> bool" where
  "correction_ok ds x \<longleftrightarrow>
     (\<exists>d \<in> set ds. de_status d = DecApproved \<and> de_case_id d = co_case_id x \<and>
        co_payload x = decision_payload d)"

definition outbox_ok :: "review_correction list \<Rightarrow> review_outbox \<Rightarrow> bool" where
  "outbox_ok cors x \<longleftrightarrow>
     ob_event_type x = ''RESUME_REQUESTED'' \<and>
     (\<exists>cid cor. payload_correction_id x = Inr cid \<and> tbl_get co_id cid cors = Some cor \<and>
        co_case_id cor = ob_case_id x)"

definition attempts_ok :: "nat \<Rightarrow> review_outbox \<Rightarrow> bool" where
  "attempts_ok m x \<longleftrightarrow>
     ob_attempts x \<le> m \<and> (ob_status x \<in> {ObPending, ObProcessing, ObRetry} \<longrightarrow> ob_attempts x < m)"

definition stages_sorted :: "review_event list \<Rightarrow> bool" where
  "stages_sorted es \<longleftrightarrow>
     (\<forall>i eid. sorted (map xe_stage (filter (\<lambda>e. xe_case_id e = i \<and> xe_execution_id e = eid) es)))"

definition cases_inv :: "review_case list \<Rightarrow> bool" where
  "cases_inv cs \<longleftrightarrow> keys_ok rc_id cs \<and> keys_ok rc_dedupe_key cs \<and> keys_ok rc_event_id cs"

definition decisions_inv :: "review_case list \<Rightarrow> review_decision list \<Rightarrow> bool" where
  "decisions_inv cs ds \<longleftrightarrow> map de_id ds = [1..<Suc (length ds)] \<and> (\<forall>d \<in> set ds. decision_ok cs d)"

definition corrections_inv :: "review_decision list \<Rightarrow> review_correction list \<Rightarrow> bool" where
  "corrections_inv ds xs \<longleftrightarrow> keys_ok co_id xs \<and> (\<forall>x \<in> set xs. correction_ok ds x)"

definition outbox_inv :: "nat \<Rightarrow> review_correction list \<Rightarrow> review_outbox list \<Rightarrow> bool" where
  "outbox_inv m cors xs \<longleftrightarrow>
     keys_ok ob_id xs \<and> (\<forall>x \<in> set xs. outbox_ok cors x \<and> attempts_ok m x)"

definition events_inv :: "review_event list \<Rightarrow> bool" where
  "events_inv es \<longleftrightarrow> keys_ok xe_event_id es \<and> stages_sorted es"

definition review_inv :: "review_config \<Rightarrow> review_db \<Rightarrow> bool" where
  "review_inv cf db \<longleftrightarrow>
     0 < cf_max_attempts cf \<and>
     cases_inv (t_cases db) \<and>
     decisions_inv (t_cases db) (t_decisions db) \<and>
     corrections_inv (t_decisions db) (t_corrections db) \<and>
     outbox_inv (cf_max_attempts cf) (t_corrections db) (t_outbox db) \<and>
     events_inv (t_events db)"

subsection \<open>Tables under the primitive writes\<close>

lemma cases_inv_put:
  assumes "cases_inv cs" and "tbl_get rc_id (rc_id c') cs = Some c" and "static_eq c c'"
  shows "cases_inv (tbl_put rc_id c' cs)"
  using assms keys_ok_put_static [of rc_id cs rc_dedupe_key c' c]
    keys_ok_put_static [of rc_id cs rc_event_id c' c]
  by (auto simp: cases_inv_def keys_ok_put static_eq_def)

lemma decision_ok_put:
  assumes "tbl_get rc_id (rc_id c') cs = Some c" and "static_eq c c'"
  shows "decision_ok (tbl_put rc_id c' cs) d = decision_ok cs d"
  using assms by (auto simp: decision_ok_def case_table.get_put static_eq_def)

lemma decisions_inv_put:
  assumes "decisions_inv cs ds" and "tbl_get rc_id (rc_id c') cs = Some c" and "static_eq c c'"
  shows "decisions_inv (tbl_put rc_id c' cs) ds"
  using assms by (simp add: decisions_inv_def decision_ok_put)

lemma decisions_inv_new_case:
  assumes "decisions_inv cs ds" and "tbl_get rc_id (rc_id c) cs = None"
  shows "decisions_inv (cs @ [c]) ds"
  using assms
  by (auto simp: decisions_inv_def decision_ok_def tbl_get_append split: option.splits)

lemma correction_ok_mono: "set ds \<subseteq> set ds' \<Longrightarrow> correction_ok ds x \<Longrightarrow> correction_ok ds' x"
  by (auto simp: correction_ok_def)

lemma outbox_okI:
  "ob_event_type x = ''RESUME_REQUESTED'' \<Longrightarrow> payload_correction_id x = Inr cid \<Longrightarrow>
    tbl_get co_id cid cors = Some cor \<Longrightarrow> co_case_id cor = ob_case_id x \<Longrightarrow> outbox_ok cors x"
  by (simp add: outbox_ok_def)

lemma outbox_okE:
  assumes "outbox_ok cors x"
  obtains cid cor where "ob_event_type x = ''RESUME_REQUESTED''" and "payload_correction_id x = Inr cid"
    and "tbl_get co_id cid cors = Some cor" and "co_case_id cor = ob_case_id x"
  using assms unfolding outbox_ok_def by blast

lemma outbox_ok_append:
  assumes "outbox_ok cors x"
  shows "outbox_ok (cors @ [cor]) x"
proof -
  obtain cid y where x: "ob_event_type x = ''RESUME_REQUESTED''" "payload_correction_id x = Inr cid"
    and y: "tbl_get co_id cid cors = Some y" "co_case_id y = ob_case_id x"
    using assms by (rule outbox_okE)
  have "tbl_get co_id cid (cors @ [cor]) = Some y"
    using y by (simp add: tbl_get_append)
  with x show ?thesis by (rule outbox_okI) (rule y)
qed

lemma outbox_ok_put:
  assumes "outbox_ok cors x" and "tbl_get co_id (co_id cor) cors = Some cor0"
    and "co_case_id cor = co_case_id cor0"
  shows "outbox_ok (tbl_put co_id cor cors) x"
proof -
  obtain cid y where x: "ob_event_type x = ''RESUME_REQUESTED''" "payload_correction_id x = Inr cid"
    and y: "tbl_get co_id cid cors = Some y" "co_case_id y = ob_case_id x"
    using assms(1) by (rule outbox_okE)
  have "tbl_get co_id cid (tbl_put co_id cor cors) = Some (if cid = co_id cor then cor else y)"
    using y by (simp add: tbl_get_put)
  with x show ?thesis
    by (rule outbox_okI) (use assms(2,3) y in auto)
qed

lemma outbox_inv_put_correction:
  assumes "outbox_inv m cors xs" and "tbl_get co_id (co_id cor) cors = Some cor0"
    and "co_case_id cor = co_case_id cor0"
  shows "outbox_inv m (tbl_put co_id cor cors) xs"
  using assms outbox_ok_put by (auto simp: outbox_inv_def)

lemma corrections_inv_put:
  assumes "corrections_inv ds cors" and "tbl_get co_id (co_id cor) cors = Some cor0"
    and "co_case_id cor = co_case_id cor0" and "co_payload cor = co_payload cor0"
  shows "corrections_inv ds (tbl_put co_id cor cors)"
  using assms
  by (auto simp: corrections_inv_def keys_ok_put correction_ok_def dest!: in_tbl_put tbl_get_Some)

lemma outbox_inv_put:
  assumes "outbox_inv m cors xs" and "tbl_get ob_id (ob_id x') xs = Some x"
    and "ob_event_type x' = ob_event_type x" and "ob_payload x' = ob_payload x"
    and "ob_case_id x' = ob_case_id x" and "attempts_ok m x'"
  shows "outbox_inv m cors (tbl_put ob_id x' xs)"
proof -
  have "outbox_ok cors x" using assms(1,2) by (auto simp: outbox_inv_def dest: tbl_get_Some)
  then have "outbox_ok cors x'"
    using assms(3-5) by (simp add: outbox_ok_def payload_correction_id_def)
  with assms(1,6) show ?thesis
    by (auto simp: outbox_inv_def keys_ok_put dest!: in_tbl_put)
qed

lemma latest_correction_get:
  assumes "keys_ok co_id (t_corrections db)" and "latest_correction db i = Some cor"
  shows "tbl_get co_id (co_id cor) (t_corrections db) = Some cor \<and> co_case_id cor = i"
  using assms tbl_get_unique by (fastforce simp: latest_correction_def dest: latest_in)

subsection \<open>The invariant under the primitive writes\<close>

named_theorems review_inv_intros

lemma review_inv_audit [simp]:
  "review_inv cf (audit t cid a ev old new d db) = review_inv cf db"
  by (simp add: review_inv_def)

lemma review_inv_save_case [review_inv_intros]:
  assumes "review_inv cf db" and "tbl_get rc_id (rc_id c') (t_cases db) = Some c" and "static_eq c c'"
  shows "review_inv cf (save_case c' db)"
  using assms by (simp add: review_inv_def cases_inv_put decisions_inv_put)

lemma review_inv_cong:
  assumes "review_inv cf db" and "t_cases db' = t_cases db" and "t_decisions db' = t_decisions db"
    and "t_corrections db' = t_corrections db" and "t_outbox db' = t_outbox db"
    and "t_events db' = t_events db"
  shows "review_inv cf db'"
  using assms by (simp add: review_inv_def)

lemma review_inv_outbox_row:
  assumes "review_inv cf db" and "tbl_get ob_id (ob_id x') (t_outbox db) = Some x"
    and "ob_event_type x' = ob_event_type x" and "ob_payload x' = ob_payload x"
    and "ob_case_id x' = ob_case_id x" and "attempts_ok (cf_max_attempts cf) x'"
  shows "review_inv cf (db\<lparr>t_outbox := tbl_put ob_id x' (t_outbox db)\<rparr>)"
  using assms by (auto simp: review_inv_def intro: outbox_inv_put)

lemma review_inv_correction_row:
  assumes "review_inv cf db" and "tbl_get co_id (co_id cor) (t_corrections db) = Some cor0"
    and "co_case_id cor = co_case_id cor0" and "co_payload cor = co_payload cor0"
  shows "review_inv cf (db\<lparr>t_corrections := tbl_put co_id cor (t_corrections db)\<rparr>)"
  using assms by (auto simp: review_inv_def intro: corrections_inv_put outbox_inv_put_correction)

lemma review_inv_new_decision:
  assumes "review_inv cf db" and "de_id d = Suc (length (t_decisions db))"
    and "decision_ok (t_cases db) d"
  shows "review_inv cf (db\<lparr>t_decisions := t_decisions db @ [d]\<rparr>)"
  using assms correction_ok_mono [of "t_decisions db" "t_decisions db @ [d]"]
  by (auto simp: review_inv_def decisions_inv_def corrections_inv_def)

lemma review_inv_decide:
  assumes inv: "review_inv cf db" and d: "d \<in> set (t_decisions db)" and p: "de_status d = DecPending"
    and id: "de_id d' = de_id d" and ok: "decision_ok (t_cases db) d'"
  shows "review_inv cf (db\<lparr>t_decisions := tbl_put de_id d' (t_decisions db)\<rparr>)"
proof -
  let ?ds = "t_decisions db"
  have ids: "map de_id ?ds = [1..<Suc (length ?ds)]"
    using inv by (simp add: review_inv_def decisions_inv_def)
  then have k: "keys_ok de_id ?ds" by (simp add: keys_ok_def)
  have g: "tbl_get de_id (de_id d') ?ds = Some d" using tbl_get_unique [OF k d] id by simp
  have "map de_id (tbl_put de_id d' ?ds) = map de_id ?ds"
    using g by (auto simp: tbl_put_def tbl_upd_def list_ex_iff dest: tbl_get_Some)
  moreover from this have "length (tbl_put de_id d' ?ds) = length ?ds" by (metis length_map)
  ultimately have dec: "decisions_inv (t_cases db) (tbl_put de_id d' ?ds)"
    using inv ok ids by (auto simp: review_inv_def decisions_inv_def dest!: in_tbl_put)
  have keep: "correction_ok (tbl_put de_id d' ?ds) x" if "correction_ok ?ds x" for x
  proof -
    from that obtain e where e: "e \<in> set ?ds" "de_status e = DecApproved"
      "de_case_id e = co_case_id x" "co_payload x = decision_payload e"
      by (auto simp: correction_ok_def)
    have "de_id e \<noteq> de_id d'"
    proof
      assume "de_id e = de_id d'"
      with tbl_get_unique [OF k e(1)] g have "e = d" by simp
      with e(2) p show False by simp
    qed
    with e have "e \<in> set (tbl_put de_id d' ?ds)" by (intro tbl_put_other)
    with e show ?thesis by (auto simp: correction_ok_def)
  qed
  show ?thesis
    using inv dec keep by (auto simp: review_inv_def corrections_inv_def)
qed

lemma outbox_row_inv:
  assumes inv: "review_inv cf db" and o: "outbox env i ev p db = Inr db'"
    and ev: "ev = ''RESUME_REQUESTED''"
    and p: "map_of p ''correctionId'' = Some (JStr cid)"
    and cor: "tbl_get co_id cid (t_corrections db) = Some cor" "co_case_id cor = i"
  shows "review_inv cf db'"
proof -
  let ?x = "\<lparr>ob_id = ''OUT-'' @ ce_hex2 env, ob_case_id = i, ob_event_type = ev, ob_payload = p,
         ob_status = ObPending, ob_attempts = 0, ob_available_at = ce_now env,
         ob_locked_at = None, ob_last_error = None, ob_created_at = ce_now env,
         ob_processed_at = None\<rparr>"
  obtain t where t: "tbl_insert ob_id ?x (t_outbox db) = Some t" and db': "db' = db\<lparr>t_outbox := t\<rparr>"
    using o by (auto simp: outbox_def split: option.splits)
  have "outbox_ok (t_corrections db) ?x"
    using ev p cor by (simp add: outbox_ok_def payload_correction_id_def)
  moreover have "attempts_ok (cf_max_attempts cf) ?x"
    using inv by (simp add: attempts_ok_def review_inv_def)
  ultimately have "outbox_inv (cf_max_attempts cf) (t_corrections db) t"
    using inv t keys_ok_insert [OF _ t]
    by (auto simp: outbox_inv_def review_inv_def tbl_insert_Some)
  with inv db' show ?thesis by (simp add: review_inv_def)
qed

lemma enqueue_correction_Inr:
  assumes "enqueue_correction sha env c d db = Inr db'"
  obtains x t where "co_id x = ''COR-'' @ ce_hex1 env" and "co_case_id x = rc_id c"
    and "co_payload x = decision_payload d" and "tbl_insert co_id x (t_corrections db) = Some t"
    and "outbox env (rc_id c) ''RESUME_REQUESTED''
      [(''correctionId'', JStr (''COR-'' @ ce_hex1 env))] (db\<lparr>t_corrections := t\<rparr>) = Inr db'"
proof -
  obtain tp where tp: "map_of TEMPLATES (canonical_template (rc_template_id c)) = Some tp"
    using assms by (cases "map_of TEMPLATES (canonical_template (rc_template_id c))")
      (simp_all add: enqueue_correction_def)
  let ?x = "\<lparr>co_id = ''COR-'' @ ce_hex1 env, co_case_id = rc_id c, co_adapter = tp_adapter tp,
             co_payload = decision_payload d,
             co_payload_sha256 = sha (dump (JObj (decision_payload d))),
             co_rerun_step_id = rerun_step (rc_pipeline_step_id c) (de_action_id d),
             co_status = CorPending, co_attempts = 0, co_last_error = None,
             co_created_at = ce_now env, co_applied_at = None\<rparr>"
  show ?thesis
    using assms unfolding enqueue_correction_def tp option.case
    by (cases "tbl_insert co_id ?x (t_corrections db)")
      (simp_all del: dump.simps add: that [of ?x])
qed

lemma enqueue_correction_inv:
  assumes inv: "review_inv cf db" and d: "d \<in> set (t_decisions db)" "de_status d = DecApproved"
    and i: "de_case_id d = rc_id c" and e: "enqueue_correction sha env c d db = Inr db'"
  shows "review_inv cf db'"
proof -
  obtain x t where x: "co_id x = ''COR-'' @ ce_hex1 env" "co_case_id x = rc_id c"
      "co_payload x = decision_payload d"
    and t: "tbl_insert co_id x (t_corrections db) = Some t"
    and o: "outbox env (rc_id c) ''RESUME_REQUESTED''
      [(''correctionId'', JStr (''COR-'' @ ce_hex1 env))] (db\<lparr>t_corrections := t\<rparr>) = Inr db'"
    using e by (rule enqueue_correction_Inr)
  have t': "t = t_corrections db @ [x]" and fresh: "tbl_get co_id (co_id x) (t_corrections db) = None"
    using t by (auto simp: tbl_insert_Some tbl_get_None_iff)
  have "corrections_inv (t_decisions db) t"
    using inv keys_ok_insert [OF _ t] d x i t'
    by (auto simp: corrections_inv_def review_inv_def correction_ok_def)
  moreover have "outbox_inv (cf_max_attempts cf) t (t_outbox db)"
    using inv outbox_ok_append [of "t_corrections db" _ x] t'
    by (auto simp: outbox_inv_def review_inv_def)
  ultimately have "review_inv cf (db\<lparr>t_corrections := t\<rparr>)"
    using inv by (simp add: review_inv_def)
  then show ?thesis
    by (rule outbox_row_inv [OF _ o refl, where cid = "co_id x" and cor = x])
       (use x t' fresh in \<open>simp_all add: tbl_get_append\<close>)
qed

end
