(* ===== verification/Review_Commands.thy ===== *)
theory Review_Commands
  imports Review_Inv
begin

text \<open>
  Every command of the manual-review service keeps the invariant of Review\_Inv; the
  interpretations of the shared contracts (a guarded system, optimistic locking, competing
  locks) on the operations of the service.
\<close>

section \<open>What a successful call tells\<close>

lemma claim_Inr:
  assumes "claim env i a v db = Inr db'"
  obtains c c' where "tbl_get rc_id i (t_cases db) = Some c" and "rc_version c = v"
    and "rc_status c = OPEN" and "role_can_review a (rc_phase c)"
    and "require_domain_access a (rc_domain c) = Inr ()"
    and "c' = c\<lparr>rc_status := CLAIMED, rc_assignee_id := Some (ri_user_id a),
               rc_assignee_name := Some (ri_user_name a), rc_claimed_at := Some (ce_now env),
               rc_heartbeat_at := Some (ce_now env), rc_updated_at := ce_now env,
               rc_version := Suc (rc_version c)\<rparr>"
    and "db' = audit (ce_now env) i a ''CASE_CLAIMED'' (Some OPEN) CLAIMED [] (save_case c' db)"
  using assms unfolding claim_def
  by (elim rbindE) (auto simp: need_Inr split: if_splits)

lemma mutate_Inr:
  assumes "mutate env i a values event admin v db = Inr db'"
  obtains c c' where "tbl_get rc_id i (t_cases db) = Some c" and "rc_version c = v"
    and "require_domain_access a (rc_domain c) = Inr ()"
    and "admin \<or> rc_assignee_id c = Some (ri_user_id a)"
    and "c' = (values c)\<lparr>rc_version := Suc (rc_version c), rc_updated_at := ce_now env\<rparr>"
    and "db' = audit (ce_now env) i a event (Some (rc_status c)) (rc_status c') [] (save_case c' db)"
  using assms unfolding mutate_def
  by (elim rbindE) (auto simp: need_Inr Let_def split: if_splits)

lemma draft_Inr:
  assumes "draft env i p a v db = Inr db'"
  obtains c c' drs where "tbl_get rc_id i (t_cases db) = Some c" and "rc_version c = v"
    and "rc_status c \<in> set EDITABLE_STATUSES"
    and "rc_assignee_id c = Some (ri_user_id a) \<or> has_any a [''review_admin'']"
    and "c' = c\<lparr>rc_status := IN_REVIEW, rc_version := Suc (rc_version c), rc_updated_at := ce_now env\<rparr>"
    and "db' = audit (ce_now env) i a ''DRAFT_SAVED'' (Some (rc_status c)) IN_REVIEW []
           (save_case c' (db\<lparr>t_drafts := drs\<rparr>))"
  using assms unfolding draft_def
  by (elim rbindE) (auto simp: need_Inr owned_Inr Let_def split: if_splits)

lemma submit_Inr:
  assumes "submit sha env i action result note a v db = Inr db'"
  obtains c d c' db2 where "tbl_get rc_id i (t_cases db) = Some c" and "rc_version c = v"
    and "rc_status c \<in> set EDITABLE_STATUSES"
    and "rc_assignee_id c = Some (ri_user_id a) \<or> has_any a [''review_admin'']"
    and "validate_action (rc_template_id c) action result = Inr ()"
    and "d = new_decision (ce_now env) i action result note (ri_user_id a)
               (requires_approval (rc_risk_level c) action result) db"
    and "c' = c\<lparr>rc_submitted_by := Some (ri_user_id a),
                 rc_status := (if requires_approval (rc_risk_level c) action result
                               then PENDING_APPROVAL else APPLYING),
                 rc_version := Suc (rc_version c), rc_updated_at := ce_now env\<rparr>"
    and "(if requires_approval (rc_risk_level c) action result
          then Inr (db\<lparr>t_decisions := t_decisions db @ [d]\<rparr>)
          else enqueue_correction sha env c d (db\<lparr>t_decisions := t_decisions db @ [d]\<rparr>)) = Inr db2"
    and "db' = audit (ce_now env) i a ''DECISION_SUBMITTED'' (Some (rc_status c)) (rc_status c')
                 [(''actionId'', JStr action)] (save_case c' db2)"
proof -
  from assms obtain c where c: "owned db i a = Inr c"
    and g: "rc_version c = v" "rc_status c \<in> set EDITABLE_STATUSES"
    and va: "validate_action (rc_template_id c) action result = Inr ()"
    unfolding submit_def by (elim rbindE) (auto split: if_splits elim!: rbindE)
  let ?ap = "requires_approval (rc_risk_level c) action result"
  let ?d = "new_decision (ce_now env) i action result note (ri_user_id a) ?ap db"
  let ?db1 = "db\<lparr>t_decisions := t_decisions db @ [?d]\<rparr>"
  from assms c g va obtain db2
    where e: "(if ?ap then Inr ?db1 else enqueue_correction sha env c ?d ?db1) = Inr db2"
      and db': "db' = audit (ce_now env) i a ''DECISION_SUBMITTED'' (Some (rc_status c))
                 (if ?ap then PENDING_APPROVAL else APPLYING) [(''actionId'', JStr action)]
                 (save_case (c\<lparr>rc_submitted_by := Some (ri_user_id a),
                    rc_status := (if ?ap then PENDING_APPROVAL else APPLYING),
                    rc_version := Suc (rc_version c), rc_updated_at := ce_now env\<rparr>) db2)"
    unfolding submit_def Let_def by (simp add: rbind_Inr_iff) blast
  show ?thesis
    by (rule that [OF _ g _ va refl refl e]) (use c db' in \<open>auto simp: owned_Inr need_Inr\<close>)
qed

lemma approve_Inr:
  assumes "approve sha env i ok note a v db = Inr db'"
  obtains c d d' c' db2 where "tbl_get rc_id i (t_cases db) = Some c" and "rc_version c = v"
    and "rc_status c = PENDING_APPROVAL" and "latest_decision db i DecPending = Some d"
    and "require_role a [''approver''] = Inr ()" and "de_submitted_by d \<noteq> ri_user_id a"
    and "d' = decided (ce_now env) (ri_user_id a) ok note d"
    and "c' = case_after_decision (ce_now env) ok c"
    and "(if ok then enqueue_correction sha env c d' (db\<lparr>t_decisions := tbl_put de_id d' (t_decisions db)\<rparr>)
          else Inr (db\<lparr>t_decisions := tbl_put de_id d' (t_decisions db)\<rparr>)) = Inr db2"
    and "db' = audit (ce_now env) i a (if ok then ''DECISION_APPROVED'' else ''DECISION_REJECTED'')
                 (Some (rc_status c)) (rc_status c') [] (save_case c' db2)"
proof -
  from assms obtain c d where r: "require_role a [''approver''] = Inr ()" and c: "need db i = Inr c"
    and dom: "require_domain_access a (rc_domain c) = Inr ()"
    and g: "rc_version c = v" "rc_status c = PENDING_APPROVAL"
    and d: "latest_decision db i DecPending = Some d" "de_submitted_by d \<noteq> ri_user_id a"
    unfolding approve_def by (elim rbindE) (auto split: if_splits option.splits elim!: rbindE)
  let ?d = "decided (ce_now env) (ri_user_id a) ok note d"
  let ?db1 = "db\<lparr>t_decisions := tbl_put de_id ?d (t_decisions db)\<rparr>"
  let ?c = "case_after_decision (ce_now env) ok c"
  from assms r c dom g d obtain db2 where
    e: "(if ok then enqueue_correction sha env c ?d ?db1 else Inr ?db1) = Inr db2"
    and db': "db' = audit (ce_now env) i a (if ok then ''DECISION_APPROVED'' else ''DECISION_REJECTED'')
                 (Some (rc_status c)) (rc_status ?c) [] (save_case ?c db2)"
    unfolding approve_def Let_def
    by (simp only: rbind_simps g d if_False simp_thms option.case) (auto simp: rbind_Inr_iff)
  show ?thesis
    by (rule that [OF _ g d(1) r d(2) refl refl e db']) (use c in \<open>simp add: need_Inr\<close>)
qed

lemma retry_Inr:
  assumes "retry env i a v db = Inr db'"
  obtains c cor c' db2 where "tbl_get rc_id i (t_cases db) = Some c" and "rc_version c = v"
    and "rc_status c \<in> {APPLY_FAILED, RERUN_FAILED}" and "latest_correction db i = Some cor"
    and "outbox env i ''RESUME_REQUESTED'' [(''correctionId'', JStr (co_id cor)), (''retry'', JBool True)]
           (db\<lparr>t_corrections := tbl_put co_id (cor\<lparr>co_status := CorPending, co_last_error := None,
              co_attempts := Suc (co_attempts cor)\<rparr>) (t_corrections db)\<rparr>) = Inr db2"
    and "c' = c\<lparr>rc_status := APPLYING, rc_version := Suc (rc_version c), rc_updated_at := ce_now env\<rparr>"
    and "db' = audit (ce_now env) i a ''CASE_RETRIED'' (Some (rc_status c)) APPLYING [] (save_case c' db2)"
  using assms unfolding retry_def Let_def
  by (elim rbindE) (auto simp: need_Inr split: if_splits option.splits elim!: rbindE)

section \<open>Frames\<close>

lemma outbox_frame:
  assumes "outbox env i ev p db = Inr db'"
  shows "t_cases db' = t_cases db" and "t_decisions db' = t_decisions db"
    and "t_corrections db' = t_corrections db" and "t_audits db' = t_audits db"
    and "t_events db' = t_events db" and "t_executions db' = t_executions db"
  using assms by (auto simp: outbox_def split: option.splits)

lemma enqueue_correction_frame:
  assumes "enqueue_correction sha env c d db = Inr db'"
  shows "t_cases db' = t_cases db" and "t_decisions db' = t_decisions db"
    and "t_audits db' = t_audits db" and "t_events db' = t_events db"
    and "t_executions db' = t_executions db"
  using assms by (auto elim!: enqueue_correction_Inr dest: outbox_frame)

lemma latest_decision_facts:
  assumes "latest_decision db i st = Some d"
  shows "d \<in> set (t_decisions db)" and "de_case_id d = i" and "de_status d = st"
  using assms by (auto simp: latest_decision_def dest: latest_in)

lemma static_eq_trans: "static_eq a b \<Longrightarrow> static_eq b c \<Longrightarrow> static_eq a c"
  by (simp add: static_eq_def)

section \<open>Every command keeps the invariant\<close>

lemma review_inv_tables:
  "review_inv cf (db\<lparr>t_drafts := x\<rparr>) = review_inv cf db"
  "review_inv cf (db\<lparr>t_evidence := y\<rparr>) = review_inv cf db"
  "review_inv cf (db\<lparr>t_executions := z\<rparr>) = review_inv cf db"
  by (simp_all add: review_inv_def)

lemma review_inv_keys:
  assumes "review_inv cf db"
  shows "keys_ok rc_id (t_cases db)" and "keys_ok co_id (t_corrections db)"
    and "keys_ok ob_id (t_outbox db)" and "0 < cf_max_attempts cf"
  using assms
  by (simp_all add: review_inv_def cases_inv_def corrections_inv_def outbox_inv_def)

lemma review_inv_update:
  \<comment> \<open>the shape of most commands: rows elsewhere, then the case, then the audit row\<close>
  assumes "tbl_get rc_id i (t_cases db) = Some c" and "static_eq c c'"
    and "review_inv cf db2" and "t_cases db2 = t_cases db"
  shows "review_inv cf (audit t i' a ev old new d (save_case c' db2))"
proof -
  have "rc_id c' = i" using assms(1,2) case_table.get_key by (fastforce simp: static_eq_def)
  with assms show ?thesis by (simp add: review_inv_save_case)
qed

lemma claim_inv: "review_inv cf db \<Longrightarrow> claim env i a v db = Inr db' \<Longrightarrow> review_inv cf db'"
  by (erule claim_Inr) (simp add: review_inv_update static_eq_def del: review_inv_audit)

lemma mutate_inv:
  assumes "review_inv cf db" and "mutate env i a values event admin v db = Inr db'"
    and s: "\<And>c. static_eq c (values c)"
  shows "review_inv cf db'"
  using assms(2)
proof (rule mutate_Inr)
  fix c c'
  assume c: "tbl_get rc_id i (t_cases db) = Some c"
    and c': "c' = (values c)\<lparr>rc_version := Suc (rc_version c), rc_updated_at := ce_now env\<rparr>"
    and db': "db' = audit (ce_now env) i a event (Some (rc_status c)) (rc_status c') [] (save_case c' db)"
  have "static_eq c c'" using s [of c] c' by (simp add: static_eq_def)
  with assms(1) show ?thesis unfolding db' by (intro review_inv_update [OF c]) auto
qed

lemma draft_inv: "review_inv cf db \<Longrightarrow> draft env i p a v db = Inr db' \<Longrightarrow> review_inv cf db'"
  by (erule draft_Inr)
    (simp add: review_inv_update review_inv_tables static_eq_def del: review_inv_audit)

lemma submit_inv:
  assumes inv: "review_inv cf db" and s: "submit sha env i action result note a v db = Inr db'"
  shows "review_inv cf db'"
  using s
proof (rule submit_Inr)
  fix c :: review_case and d :: review_decision and c' db2
  let ?ap = "requires_approval (rc_risk_level c) action result"
  let ?db1 = "db\<lparr>t_decisions := t_decisions db @ [d]\<rparr>"
  assume c: "tbl_get rc_id i (t_cases db) = Some c"
    and va: "validate_action (rc_template_id c) action result = Inr ()"
    and d: "d = new_decision (ce_now env) i action result note (ri_user_id a) ?ap db"
    and c': "c' = c\<lparr>rc_submitted_by := Some (ri_user_id a),
                 rc_status := (if ?ap then PENDING_APPROVAL else APPLYING),
                 rc_version := Suc (rc_version c), rc_updated_at := ce_now env\<rparr>"
    and e: "(if ?ap then Inr ?db1 else enqueue_correction sha env c d ?db1) = Inr db2"
    and db': "db' = audit (ce_now env) i a ''DECISION_SUBMITTED'' (Some (rc_status c)) (rc_status c')
                 [(''actionId'', JStr action)] (save_case c' db2)"
  have dok: "decision_ok (t_cases db) d"
    using c va by (simp add: decision_ok_def d new_decision_def)
  have inv1: "review_inv cf ?db1"
    by (rule review_inv_new_decision [OF inv _ dok]) (simp add: d new_decision_def)
  have "review_inv cf db2 \<and> t_cases db2 = t_cases db"
  proof (cases ?ap)
    case True
    with e inv1 show ?thesis by auto
  next
    case False
    with e have en: "enqueue_correction sha env c d ?db1 = Inr db2" by simp
    have "de_status d = DecApproved" "de_case_id d = rc_id c"
      using False case_table.get_key [OF c] by (simp_all add: d new_decision_def)
    then show ?thesis
      using enqueue_correction_inv [OF inv1 _ _ _ en] enqueue_correction_frame(1) [OF en] by simp
  qed
  then show ?thesis
    unfolding db' by (intro review_inv_update [OF c]) (auto simp: c' static_eq_def)
qed

lemma approve_inv:
  assumes inv: "review_inv cf db" and s: "approve sha env i ok note a v db = Inr db'"
  shows "review_inv cf db'"
  using s
proof (rule approve_Inr)
  fix c :: review_case and d d' :: review_decision and c' db2
  let ?db1 = "db\<lparr>t_decisions := tbl_put de_id d' (t_decisions db)\<rparr>"
  assume c: "tbl_get rc_id i (t_cases db) = Some c"
    and d: "latest_decision db i DecPending = Some d" "de_submitted_by d \<noteq> ri_user_id a"
    and d': "d' = decided (ce_now env) (ri_user_id a) ok note d"
    and c': "c' = case_after_decision (ce_now env) ok c"
    and e: "(if ok then enqueue_correction sha env c d' ?db1 else Inr ?db1) = Inr db2"
    and db': "db' = audit (ce_now env) i a (if ok then ''DECISION_APPROVED'' else ''DECISION_REJECTED'')
                 (Some (rc_status c)) (rc_status c') [] (save_case c' db2)"
  note df = latest_decision_facts [OF d(1)]
  have "decision_ok (t_cases db) d"
    using inv df(1) by (simp add: review_inv_def decisions_inv_def)
  then have dok: "decision_ok (t_cases db) d'"
    using d(2) by (auto simp: decision_ok_def d' decided_def split: option.splits)
  have inv1: "review_inv cf ?db1"
    by (rule review_inv_decide [OF inv df(1) df(3) _ dok]) (simp add: d' decided_def)
  have "review_inv cf db2 \<and> t_cases db2 = t_cases db"
  proof (cases ok)
    case False
    with e inv1 show ?thesis by auto
  next
    case True
    with e have en: "enqueue_correction sha env c d' ?db1 = Inr db2" by simp
    have "de_status d' = DecApproved" "de_case_id d' = rc_id c"
      using True df case_table.get_key [OF c] by (simp_all add: d' decided_def)
    then show ?thesis
      using enqueue_correction_inv [OF inv1 _ _ _ en] enqueue_correction_frame(1) [OF en] by simp
  qed
  then show ?thesis
    unfolding db'
    by (intro review_inv_update [OF c]) (auto simp: c' case_after_decision_def static_eq_def)
qed

lemma retry_inv:
  assumes inv: "review_inv cf db" and s: "retry env i a v db = Inr db'"
  shows "review_inv cf db'"
  using s
proof (rule retry_Inr)
  fix c :: review_case and cor :: review_correction and c' db2
  let ?cor = "cor\<lparr>co_status := CorPending, co_last_error := None, co_attempts := Suc (co_attempts cor)\<rparr>"
  let ?db1 = "db\<lparr>t_corrections := tbl_put co_id ?cor (t_corrections db)\<rparr>"
  assume c: "tbl_get rc_id i (t_cases db) = Some c" and cor: "latest_correction db i = Some cor"
    and o: "outbox env i ''RESUME_REQUESTED''
             [(''correctionId'', JStr (co_id cor)), (''retry'', JBool True)] ?db1 = Inr db2"
    and c': "c' = c\<lparr>rc_status := APPLYING, rc_version := Suc (rc_version c), rc_updated_at := ce_now env\<rparr>"
    and db': "db' = audit (ce_now env) i a ''CASE_RETRIED'' (Some (rc_status c)) APPLYING [] (save_case c' db2)"
  have g: "tbl_get co_id (co_id cor) (t_corrections db) = Some cor" "co_case_id cor = i"
    using latest_correction_get [OF review_inv_keys(2) [OF inv] cor] by auto
  have "review_inv cf ?db1"
    by (rule review_inv_correction_row [OF inv, of _ cor]) (use g in simp_all)
  then have "review_inv cf db2"
    by (rule outbox_row_inv [OF _ o refl, where cid = "co_id cor" and cor = ?cor])
      (use g in \<open>simp_all add: tbl_get_put\<close>)
  moreover have "t_cases db2 = t_cases db" using outbox_frame(1) [OF o] by simp
  ultimately show ?thesis
    unfolding db' by (intro review_inv_update [OF c]) (auto simp: c' static_eq_def)
qed

lemma reclaim_one_inv:
  assumes "review_inv cf db" and "tbl_get rc_id (rc_id c) (t_cases db) = Some c"
  shows "review_inv cf (reclaim_one env db c)"
  unfolding reclaim_one_def
  by (intro review_inv_update [OF assms(2)]) (auto simp: static_eq_def assms(1))

lemma reclaim_one_get:
  "tbl_get rc_id i (t_cases (reclaim_one env db c)) =
     (if i = rc_id c then Some (c\<lparr>rc_status := OPEN, rc_assignee_id := None, rc_assignee_name := None,
          rc_claimed_at := None, rc_heartbeat_at := None, rc_version := Suc (rc_version c),
          rc_updated_at := ce_now env\<rparr>) else tbl_get rc_id i (t_cases db))"
  by (simp add: reclaim_one_def case_table.get_put)

lemma reclaim_fold_inv:
  "review_inv cf db \<Longrightarrow> keys_ok rc_id rows \<Longrightarrow>
     (\<And>c. c \<in> set rows \<Longrightarrow> tbl_get rc_id (rc_id c) (t_cases db) = Some c) \<Longrightarrow>
     review_inv cf (foldl (reclaim_one env) db rows)"
proof (induction rows arbitrary: db)
  case Nil
  then show ?case by simp
next
  case (Cons c rows)
  have "review_inv cf (reclaim_one env db c)"
    using Cons.prems by (intro reclaim_one_inv) auto
  moreover have "tbl_get rc_id (rc_id c') (t_cases (reclaim_one env db c)) = Some c'"
    if "c' \<in> set rows" for c'
  proof -
    have "rc_id c' \<noteq> rc_id c" using Cons.prems(2) that by (simp add: keys_ok_def) (metis imageI)
    with Cons.prems(3) [of c'] that show ?thesis by (simp add: reclaim_one_get)
  qed
  ultimately show ?case
    using Cons.IH Cons.prems(2) by (simp add: keys_ok_def)
qed

lemma reclaim_inv:
  assumes "review_inv cf db"
  shows "review_inv cf (fst (reclaim_expired env minutes db))"
proof -
  note k = review_inv_keys(1) [OF assms]
  have "keys_ok rc_id (filter P (t_cases db))" for P
    using k by (simp add: keys_ok_def distinct_map_filter)
  from reclaim_fold_inv [OF assms this] tbl_get_unique [OF k] show ?thesis
    by (simp add: reclaim_expired_def Let_def)
qed

lemma outbox_inv_map:
  assumes "outbox_inv m cors xs" and "\<And>x. ob_id (f x) = ob_id x"
    and "\<And>x. outbox_ok cors x \<Longrightarrow> outbox_ok cors (f x)"
    and "\<And>x. attempts_ok m x \<Longrightarrow> attempts_ok m (f x)"
  shows "outbox_inv m cors (map f xs)"
  using assms by (auto simp: outbox_inv_def keys_ok_def comp_def)

lemma recover_inv:
  assumes "review_inv cf db"
  shows "review_inv cf (recover_stale cf t db)"
proof -
  have "outbox_inv m cors (map (unlock_stale cf t) xs)" if "outbox_inv m cors xs" for m cors xs
    using that
    by (rule outbox_inv_map)
      (simp_all add: unlock_stale_def outbox_ok_def payload_correction_id_def attempts_ok_def)
  then show ?thesis using assms by (simp add: review_inv_def recover_stale_def)
qed

lemma outbox_row_facts:
  assumes "review_inv cf db" and "tbl_get ob_id oid (t_outbox db) = Some x"
  shows "outbox_ok (t_corrections db) x" and "attempts_ok (cf_max_attempts cf) x" and "ob_id x = oid"
  using assms tbl_get_Some [OF assms(2)] by (auto simp: review_inv_def outbox_inv_def)

lemma claim_outbox_inv:
  assumes inv: "review_inv cf db"
  shows "review_inv cf (fst (claim_outbox t oid db))"
proof (cases "tbl_get ob_id oid (t_outbox db)")
  case None
  with inv show ?thesis by (simp add: claim_outbox_def)
next
  case (Some x)
  note facts = outbox_row_facts [OF inv Some]
  show ?thesis
  proof (cases "is_due t x")
    case False
    with inv Some show ?thesis by (simp add: claim_outbox_def)
  next
    case True
    have "attempts_ok (cf_max_attempts cf) (x\<lparr>ob_status := ObProcessing, ob_locked_at := Some t\<rparr>)"
      using facts(2) True by (auto simp: attempts_ok_def is_due_def)
    with Some facts(3) True show ?thesis
      by (simp add: claim_outbox_def review_inv_outbox_row [OF inv, of _ x])
  qed
qed

lemma review_inv_dispatch:
  \<comment> \<open>the writes that both outcomes of a dispatch share\<close>
  assumes inv: "review_inv cf db"
    and x: "tbl_get ob_id oid (t_outbox db) = Some x"
    and x': "ob_id x' = ob_id x" "ob_event_type x' = ob_event_type x" "ob_payload x' = ob_payload x"
      "ob_case_id x' = ob_case_id x" "attempts_ok (cf_max_attempts cf) x'"
    and cor: "tbl_get co_id cid (t_corrections db) = Some cor"
    and cor': "co_id cor' = co_id cor" "co_case_id cor' = co_case_id cor" "co_payload cor' = co_payload cor"
    and c: "tbl_get rc_id i (t_cases db) = Some c" and c': "static_eq c c'"
    and db2: "db2 = db\<lparr>t_executions := e, t_corrections := tbl_put co_id cor' (t_corrections db),
                t_outbox := tbl_put ob_id x' (t_outbox db)\<rparr>"
  shows "review_inv cf (save_case c' db2)"
proof -
  have "review_inv cf (db\<lparr>t_corrections := tbl_put co_id cor' (t_corrections db)\<rparr>)"
    by (rule review_inv_correction_row [OF inv, of _ cor])
      (use cor cor' tbl_get_Some [OF cor] in auto)
  then have "review_inv cf (db\<lparr>t_corrections := tbl_put co_id cor' (t_corrections db),
                t_outbox := tbl_put ob_id x' (t_outbox db)\<rparr>)"
    using review_inv_outbox_row [of cf "db\<lparr>t_corrections := tbl_put co_id cor' (t_corrections db)\<rparr>" x' x]
      x x' tbl_get_Some [OF x] by simp
  then have "review_inv cf db2" unfolding db2 by (rule review_inv_cong) simp_all
  then show ?thesis
    using review_inv_update [OF c c'] db2 by simp
qed

subsection \<open>Dispatch, callbacks, evidence and ingress\<close>

lemma process_claimed_cases:
  assumes "process_claimed cf post t oid db = Inr (db', out)"
  obtains (same) "db' = db" and "out = ObxSkipped"
  | (other) x where "tbl_get ob_id oid (t_outbox db) = Some x" and "ob_status x = ObProcessing"
      and "ob_event_type x \<noteq> ''RESUME_REQUESTED''"
  | (done_) x c cid cor resp where "tbl_get ob_id oid (t_outbox db) = Some x"
      and "ob_status x = ObProcessing" and "tbl_get rc_id (ob_case_id x) (t_cases db) = Some c"
      and "tbl_get co_id cid (t_corrections db) = Some cor" and "payload_correction_id x = Inr cid"
      and "dispatch_resume cf post c cor = Inr resp"
      and "outbox_success t x c cor resp db = Inr db'" and "out = ObxDone"
  | (failed) x c cid cor msg where "tbl_get ob_id oid (t_outbox db) = Some x"
      and "ob_status x = ObProcessing" and "tbl_get rc_id (ob_case_id x) (t_cases db) = Some c"
      and "tbl_get co_id cid (t_corrections db) = Some cor" and "payload_correction_id x = Inr cid"
      and "db' = outbox_failure cf t msg x c cor db" and "out = ObxFailed"
proof (cases "tbl_get ob_id oid (t_outbox db)")
  case None
  with assms same show ?thesis by (simp add: process_claimed_def)
next
  case (Some x)
  show ?thesis
  proof (cases "ob_status x = ObProcessing \<and> ob_event_type x = ''RESUME_REQUESTED''")
    case False
    with Some assms same other show ?thesis
      by (cases "ob_status x = ObProcessing") (simp_all add: process_claimed_def)
  next
    case True
    with Some assms obtain c cid cor where c: "tbl_get rc_id (ob_case_id x) (t_cases db) = Some c"
      and cid: "payload_correction_id x = Inr cid"
      and cor: "tbl_get co_id cid (t_corrections db) = Some cor"
      and r: "(case rbind (dispatch_resume cf post c cor) (\<lambda>resp. outbox_success t x c cor resp db) of
                   Inr db' \<Rightarrow> Inr (db', ObxDone)
                 | Inl msg \<Rightarrow> Inr (outbox_failure cf t msg x c cor db, ObxFailed))
               = (Inr (db', out) :: review_error + review_db \<times> outbox_outcome)"
      by (auto simp: process_claimed_def need_Inr elim!: rbindE split: option.splits)
    show ?thesis
    proof (cases "rbind (dispatch_resume cf post c cor) (\<lambda>resp. outbox_success t x c cor resp db)")
      case (Inl msg)
      with r have "db' = outbox_failure cf t msg x c cor db" and "out = ObxFailed" by simp_all
      then show ?thesis using failed [OF Some _ c cor cid] True by blast
    next
      case (Inr db2)
      then obtain resp where "dispatch_resume cf post c cor = Inr resp"
        and "outbox_success t x c cor resp db = Inr db2" by (rule rbindE)
      with Inr r done_ [OF Some _ c cor cid] True show ?thesis by simp
    qed
  qed
qed

lemma outbox_success_Inr:
  assumes "outbox_success t x c cor resp db = Inr db'"
  shows "db' = audit t (rc_id c) (service_identity ''outbox-worker'' ''Outbox Worker'' ''system'' (ob_id x))
              ''RESUME_ACCEPTED'' (Some (rc_status c)) RERUNNING
              [(''executionId'', JStr (rs_execution_id resp))]
              (save_case (c\<lparr>rc_status := RERUNNING, rc_version := Suc (rc_version c),
                            rc_updated_at := t\<rparr>)
                (db\<lparr>t_executions := executions_with t c cor resp (t_executions db),
                    t_corrections := tbl_put co_id (cor\<lparr>co_status := CorDispatched\<rparr>) (t_corrections db),
                    t_outbox := tbl_put ob_id
                      (x\<lparr>ob_status := ObDone, ob_processed_at := Some t\<rparr>) (t_outbox db)\<rparr>))"
  using assms unfolding outbox_success_def Let_def by (simp split: if_splits)

lemma process_claimed_inv:
  assumes inv: "review_inv cf db" and p: "process_claimed cf post t oid db = Inr (db', out)"
  shows "review_inv cf db'"
  using p
proof (cases rule: process_claimed_cases)
  case same
  with inv show ?thesis by simp
next
  case (other x)
  with outbox_row_facts(1) [OF inv other(1)] show ?thesis by (simp add: outbox_ok_def)
next
  case (done_ x c cid cor resp)
  let ?x = "x\<lparr>ob_status := ObDone, ob_processed_at := Some t\<rparr>"
  have a: "attempts_ok (cf_max_attempts cf) ?x"
    using outbox_row_facts(2) [OF inv done_(1)] by (simp add: attempts_ok_def)
  show ?thesis
    unfolding outbox_success_Inr [OF done_(7)] review_inv_audit
    by (rule review_inv_dispatch [OF inv done_(1) _ _ _ _ a done_(4) _ _ _ done_(3) _ refl])
      (simp_all add: static_eq_def)
next
  case (failed x c cid cor msg)
  let ?x = "x\<lparr>ob_attempts := Suc (ob_attempts x), ob_last_error := Some msg,
       ob_status := if cf_max_attempts cf \<le> Suc (ob_attempts x) then ObDead else ObRetry,
       ob_available_at := t + backoff_seconds (Suc (ob_attempts x))\<rparr>"
  have a: "attempts_ok (cf_max_attempts cf) ?x"
    using outbox_row_facts(2) [OF inv failed(1)] failed(2) by (auto simp: attempts_ok_def)
  show ?thesis
    unfolding failed(6) outbox_failure_def Let_def
    by (rule review_inv_dispatch [OF inv failed(1) _ _ _ _ a failed(4) _ _ _ failed(3),
          where e = "t_executions db" and cor' = "cor\<lparr>co_status := CorPending, co_last_error := Some msg,
             co_attempts := Suc (co_attempts cor)\<rparr>"])
      (simp_all add: static_eq_def)
qed

lemma fold_max_le: "(x :: nat) \<in> set xs \<or> x \<le> m \<Longrightarrow> x \<le> fold max xs m"
proof (induction xs arbitrary: m)
  case Nil
  then show ?case by simp
next
  case (Cons y ys)
  then show ?case by (cases "x = y") (auto simp: le_max_iff_disj)
qed

lemma previous_stage_bound:
  assumes "e \<in> set (t_events db)" and "xe_case_id e = i" and "xe_execution_id e = eid"
  shows "xe_stage e \<le> previous_stage db i eid"
  unfolding previous_stage_def using assms by (intro fold_max_le) auto

lemma stages_sorted_append:
  assumes "stages_sorted es" and "\<And>e'. e' \<in> set es \<Longrightarrow> xe_case_id e' = xe_case_id e \<Longrightarrow>
      xe_execution_id e' = xe_execution_id e \<Longrightarrow> xe_stage e' \<le> xe_stage e"
  shows "stages_sorted (es @ [e])"
  using assms by (auto simp: stages_sorted_def sorted_append)

lemma events_inv_append:
  assumes "events_inv es" and "tbl_get xe_event_id (xe_event_id e) es = None"
    and "\<And>e'. e' \<in> set es \<Longrightarrow> xe_case_id e' = xe_case_id e \<Longrightarrow>
      xe_execution_id e' = xe_execution_id e \<Longrightarrow> xe_stage e' \<le> xe_stage e"
  shows "events_inv (es @ [e])"
  using assms stages_sorted_append [of es e]
  by (simp add: events_inv_def keys_ok_def tbl_get_None_iff)

lemma execution_event_Inr:
  assumes "execution_event t i p db = Inr (db', dup)"
  obtains (replay) e where "db' = db" and "dup" and "tbl_get xe_event_id (ee_event_id p) (t_events db) = Some e"
  | (taken) c c' cors execs ev d where "\<not> dup" and "tbl_get rc_id i (t_cases db) = Some c"
      and "tbl_get xe_event_id (ee_event_id p) (t_events db) = None"
      and "callback_step_ok (ee_step_id p) (rc_pipeline_step_id c)"
      and "previous_stage db i (ee_execution_id p) \<le> EVENT_STAGE (ee_type p)"
      and "rc_status c \<in> set (event_allowed (ee_type p))"
      and "c' = (case_after_event (ee_type p) t c)\<lparr>rc_version := Suc (rc_version c), rc_updated_at := t\<rparr>"
      and "if ee_type p = VERIFICATION_SUCCEEDED then
             (\<exists>cor. latest_correction db i = Some cor \<and>
                cors = tbl_put co_id (cor\<lparr>co_status := CorApplied, co_applied_at := Some t\<rparr>) (t_corrections db))
           else cors = t_corrections db"
      and "ev = \<lparr>xe_event_id = ee_event_id p, xe_case_id = i, xe_execution_id = ee_execution_id p,
             xe_event_type = ee_type p, xe_stage = EVENT_STAGE (ee_type p),
             xe_occurred_at = ee_occurred_at p, xe_created_at = t\<rparr>"
      and "db' = audit t i (service_identity ''graph-build'' ''Graph Build'' ''service'' (ee_event_id p))
             (event_name (ee_type p)) (Some (rc_status c)) (rc_status c') d
             (save_case c' (db\<lparr>t_executions := execs, t_corrections := cors, t_events := t_events db @ [ev]\<rparr>))"
proof -
  from assms obtain c where c: "tbl_get rc_id i (t_cases db) = Some c"
    and st: "callback_step_ok (ee_step_id p) (rc_pipeline_step_id c)"
    by (auto simp: execution_event_def need_Inr elim!: rbindE split: if_splits)
  then have n: "need db i = Inr c" by (simp add: need_Inr)
  show ?thesis
  proof (cases "tbl_get xe_event_id (ee_event_id p) (t_events db)")
    case (Some e)
    with assms n st replay show ?thesis by (simp add: execution_event_def)
  next
    case None
    have g: "previous_stage db i (ee_execution_id p) \<le> EVENT_STAGE (ee_type p)"
      "rc_status c \<in> set (event_allowed (ee_type p))"
      using assms None n st by (auto simp: execution_event_def Let_def split: if_splits)
    show ?thesis
    proof (cases "ee_type p = VERIFICATION_SUCCEEDED")
      case True
      then obtain cor where "latest_correction db i = Some cor"
        using assms None n st g
        by (cases "latest_correction db i")
          (auto simp: execution_event_def Let_def split: if_splits)
      with True assms n st g None taken [OF _ c None st g refl _ refl] show ?thesis
        by (auto simp: execution_event_def Let_def split: if_splits)
    next
      case False
      with assms n st g None taken [OF _ c None st g refl _ refl] show ?thesis
        by (auto simp: execution_event_def Let_def split: if_splits)
    qed
  qed
qed

lemma case_after_event_static: "static_eq c (case_after_event typ t c)"
  by (simp add: case_after_event_def static_eq_def split: event_type.split)

lemma execution_event_inv:
  assumes inv: "review_inv cf db" and p: "execution_event t i p db = Inr (db', dup)"
  shows "review_inv cf db'"
  using p
proof (cases rule: execution_event_Inr)
  case (replay e)
  with inv show ?thesis by simp
next
  case (taken c c' cors execs ev d)
  have "review_inv cf (db\<lparr>t_corrections := cors\<rparr>)"
  proof (cases "ee_type p = VERIFICATION_SUCCEEDED")
    case False
    with taken(8) inv show ?thesis by simp
  next
    case True
    with taken(8) obtain cor where cor: "latest_correction db i = Some cor"
      and cors: "cors = tbl_put co_id (cor\<lparr>co_status := CorApplied, co_applied_at := Some t\<rparr>)
                   (t_corrections db)" by auto
    show ?thesis
      unfolding cors using latest_correction_get [OF review_inv_keys(2) [OF inv] cor]
      by (intro review_inv_correction_row [OF inv, of _ cor]) auto
  qed
  moreover have "events_inv (t_events db @ [ev])"
  proof (rule events_inv_append)
    show "events_inv (t_events db)" using inv by (simp add: review_inv_def)
    show "tbl_get xe_event_id (xe_event_id ev) (t_events db) = None"
      using taken(3,9) by simp
    show "xe_stage e \<le> xe_stage ev" if "e \<in> set (t_events db)" "xe_case_id e = xe_case_id ev"
      "xe_execution_id e = xe_execution_id ev" for e
      using previous_stage_bound [of e db i "ee_execution_id p"] that taken(5,9) by simp
  qed
  ultimately have "review_inv cf
      (db\<lparr>t_executions := execs, t_corrections := cors, t_events := t_events db @ [ev]\<rparr>)"
    by (simp add: review_inv_def)
  moreover have "static_eq c c'"
    using case_after_event_static [of c "ee_type p" t] taken(7) by (simp add: static_eq_def)
  ultimately show ?thesis
    unfolding taken(10) by (intro review_inv_update [OF taken(2)]) auto
qed

lemma evidence_complete_Inr:
  assumes "evidence_complete head t i p a db = Inr db'"
  obtains c e d where "tbl_get rc_id i (t_cases db) = Some c"
    and "oh_content_length head = ec_size_bytes p" and "oh_content_type head = ec_content_type p"
    and "ascii_lower (oh_sha256 head) = ascii_lower (ec_sha256 p)"
    and "db' = audit t i a ''EVIDENCE_ADDED'' (Some (rc_status c)) (rc_status c) d
           (db\<lparr>t_evidence := t_evidence db @ [e]\<rparr>)"
  using assms unfolding evidence_complete_def
  by (auto simp: owned_Inr tbl_insert_Some need_Inr elim!: rbindE split: if_splits option.splits)

lemma evidence_inv:
  "review_inv cf db \<Longrightarrow> evidence_complete head t i p a db = Inr db' \<Longrightarrow> review_inv cf db'"
  by (erule evidence_complete_Inr) (simp add: review_inv_tables)

lemma ingress_Inr:
  assumes "create_review_required cf sha env actor p db = Inr (db', resp)"
  obtains (duplicate) x where "db' = db" and "x \<in> set (t_cases db)" and "resp = ingress_response_of x True"
      and "rc_event_id x = rr_event_id p \<or> rc_dedupe_key x = dedupe_key_of sha p"
  | (created) c where "build_case cf sha env p = Inr c" and "find_existing db (rr_event_id p) (rc_dedupe_key c) = None"
      and "\<not> violates_unique db c"
      and "db' = audit (rc_created_at c) (rc_id c)
             (service_identity actor actor ''service'' (rr_event_id p)) ''CASE_CREATED'' None OPEN
             [(''stepId'', JStr (rc_pipeline_step_id c)), (''exceptionCode'', JStr (rc_exception_code c))]
             (db\<lparr>t_cases := t_cases db @ [c]\<rparr>)"
      and "resp = ingress_response_of c False"
proof -
  from assms obtain c where c: "build_case cf sha env p = Inr c"
    unfolding create_review_required_def by (rule rbindE)
  have k: "rc_event_id c = rr_event_id p" "rc_dedupe_key c = dedupe_key_of sha p"
    using c by (auto simp: build_case_def elim!: rbindE split: if_splits option.splits prod.splits)
  note ex = find_Some_iff [of _ "t_cases db"]
  show ?thesis
  proof (cases "find_existing db (rr_event_id p) (rc_dedupe_key c)")
    case (Some x)
    then have "x \<in> set (t_cases db)" "rc_event_id x = rr_event_id p \<or> rc_dedupe_key x = dedupe_key_of sha p"
      unfolding find_existing_def k by (auto simp: ex)
    with assms c Some duplicate show ?thesis by (simp add: create_review_required_def)
  next
    case None
    then have "\<not> violates_unique db c" if "find_existing db (rc_event_id c) (rc_dedupe_key c) \<noteq> None"
      using that by (simp add: k)
    with assms c None created [OF c] show ?thesis
      by (auto simp: create_review_required_def ingress_commit_def k split: if_splits)
  qed
qed

lemma ingress_inv:
  assumes inv: "review_inv cf db" and p: "create_review_required cf sha env actor p db = Inr (db', resp)"
  shows "review_inv cf db'"
  using p
proof (cases rule: ingress_Inr)
  case (duplicate x)
  with inv show ?thesis by simp
next
  case (created c)
  have new: "rc_id c \<notin> rc_id ` set (t_cases db)" "rc_dedupe_key c \<notin> rc_dedupe_key ` set (t_cases db)"
    "rc_event_id c \<notin> rc_event_id ` set (t_cases db)"
    using created(3) by (auto simp: violates_unique_def list_ex_iff)
  then have "cases_inv (t_cases db @ [c])"
    using inv by (simp add: review_inv_def cases_inv_def keys_ok_def)
  moreover have "decisions_inv (t_cases db @ [c]) (t_decisions db)"
    using inv new(1) by (intro decisions_inv_new_case) (simp_all add: review_inv_def tbl_get_None_iff)
  ultimately show ?thesis using inv by (simp add: created(4) review_inv_def)
qed

section \<open>The service as a guarded system\<close>

lemma exec_review_keeps:
  assumes inv: "review_inv cf db" and e: "exec_review cf sha cmd db = Inr db'"
  shows "review_inv cf db'"
proof (cases cmd)
  case (CIngress env actor p)
  with e ingress_inv [OF inv] show ?thesis by (auto elim!: rbindE)
next
  case (CClaim env i a v)
  with e claim_inv [OF inv] show ?thesis by simp
next
  case (CHeartbeat env i a v)
  with e mutate_inv [OF inv] show ?thesis by (simp add: heartbeat_def static_eq_def)
next
  case (CRelease env i a v)
  with e mutate_inv [OF inv] show ?thesis by (simp add: release_def static_eq_def)
next
  case (CTransfer env i uid name a v)
  with e mutate_inv [OF inv] show ?thesis by (auto simp: transfer_def static_eq_def elim!: rbindE)
next
  case (CCancel env i a v)
  with e mutate_inv [OF inv] show ?thesis by (auto simp: cancel_def static_eq_def elim!: rbindE)
next
  case (CDraft env i p a v)
  with e draft_inv [OF inv] show ?thesis by simp
next
  case (CSubmit env i action result msg a v)
  with e submit_inv [OF inv] show ?thesis by simp
next
  case (CApprove env i ok msg a v)
  with e approve_inv [OF inv] show ?thesis by simp
next
  case (CRetry env i a v)
  with e retry_inv [OF inv] show ?thesis by simp
next
  case (CReclaim env minutes)
  with e reclaim_inv [OF inv] show ?thesis by auto
next
  case (CRecover t)
  with e recover_inv [OF inv] show ?thesis by auto
next
  case (CClaimOutbox t oid)
  with e claim_outbox_inv [OF inv] show ?thesis by auto
next
  case (CProcess post t oid)
  with e process_claimed_inv [OF inv] show ?thesis by (auto elim!: rbindE)
next
  case (CEvent t i p)
  with e execution_event_inv [OF inv] show ?thesis by (auto elim!: rbindE)
next
  case (CEvidence head t i p a)
  with e evidence_inv [OF inv] show ?thesis by simp
qed

interpretation review: guarded_system "exec_review cf sha" "review_inv cf" for cf sha
  by unfold_locales (rule exec_review_keeps)

lemma review_inv_empty: "0 < cf_max_attempts cf \<Longrightarrow> review_inv cf empty_review_db"
  by (simp add: review_inv_def empty_review_db_def cases_inv_def decisions_inv_def
      corrections_inv_def outbox_inv_def events_inv_def keys_ok_def stages_sorted_def)

lemma reachable_review_inv:
  "reach (exec_review cf sha) empty_review_db db \<Longrightarrow> 0 < cf_max_attempts cf \<Longrightarrow> review_inv cf db"
  by (rule review.reach_keeps [OF _ review_inv_empty])

section \<open>Optimistic locking of a case\<close>

definition case_version :: "string \<Rightarrow> review_db \<Rightarrow> nat option" where
  "case_version i db = map_option rc_version (tbl_get rc_id i (t_cases db))"

lemma case_version_audit [simp]: "case_version i (audit t i' a ev old new d db) = case_version i db"
  by (simp add: case_version_def)

lemma case_version_save:
  "case_version i (save_case c db) = (if i = rc_id c then Some (rc_version c) else case_version i db)"
  by (simp add: case_version_def case_table.get_put)

lemma mutate_lock:
  assumes "\<And>c. rc_id (values c) = rc_id c"
  shows "optimistic_lock (mutate env i a values event admin) (case_version i)"
  by unfold_locales
    (auto simp: case_version_def case_version_save assms case_table.get_put
      dest: case_table.get_key elim!: mutate_Inr)

interpretation claim_lock: optimistic_lock "claim env i a" "case_version i" for env i a
  by unfold_locales
    (auto simp: case_version_def case_table.get_put dest: case_table.get_key elim!: claim_Inr)

interpretation heartbeat_lock: optimistic_lock "heartbeat env i a" "case_version i" for env i a
  unfolding heartbeat_def by (rule mutate_lock) simp

interpretation release_lock: optimistic_lock "release env i a" "case_version i" for env i a
  unfolding release_def by (rule mutate_lock) simp

interpretation draft_lock: optimistic_lock "draft env i p a" "case_version i" for env i p a
  by unfold_locales
    (auto simp: case_version_def case_table.get_put dest: case_table.get_key elim!: draft_Inr)

lemma submit_cases:
  "(if ap then Inr (db\<lparr>t_decisions := ds\<rparr>) else enqueue_correction sha env c d (db\<lparr>t_decisions := ds\<rparr>))
     = Inr db2 \<Longrightarrow> t_cases db2 = t_cases db"
  by (auto dest: enqueue_correction_frame(1) split: if_splits)

interpretation submit_lock: optimistic_lock "submit sha env i action result msg a" "case_version i"
  for sha env i action result msg a
  by unfold_locales
    (auto simp: case_version_def case_table.get_put simp del: if_split
      dest: case_table.get_key elim!: submit_Inr)

interpretation approve_lock: optimistic_lock "approve sha env i ok msg a" "case_version i"
  for sha env i ok msg a
  by unfold_locales
    (auto simp: case_version_def case_table.get_put case_after_decision_def
      dest: case_table.get_key elim!: approve_Inr)

interpretation retry_lock: optimistic_lock "retry env i a" "case_version i" for env i a
  by unfold_locales
    (auto simp: case_version_def case_table.get_put dest: case_table.get_key elim!: retry_Inr)

lemma transfer_Inr: "transfer env i uid name a v db = Inr db' \<Longrightarrow>
  mutate env i a (\<lambda>c. c\<lparr>rc_assignee_id := Some uid, rc_assignee_name := Some name,
     rc_heartbeat_at := Some (ce_now env)\<rparr>) ''CASE_TRANSFERRED'' True v db = Inr db'"
  unfolding transfer_def by (erule rbindE)

lemma cancel_Inr: "cancel env i a v db = Inr db' \<Longrightarrow>
  mutate env i a (\<lambda>c. c\<lparr>rc_status := CANCELLED, rc_completed_at := Some (ce_now env)\<rparr>)
     ''CASE_CANCELLED'' True v db = Inr db'"
  unfolding cancel_def by (erule rbindE)

interpretation transfer_lock: optimistic_lock "transfer env i uid name a" "case_version i"
  for env i uid name a
  by unfold_locales
    (auto simp: case_version_def case_table.get_put dest: case_table.get_key
      dest!: transfer_Inr elim!: mutate_Inr)

interpretation cancel_lock: optimistic_lock "cancel env i a" "case_version i" for env i a
  by unfold_locales
    (auto simp: case_version_def case_table.get_put dest: case_table.get_key
      dest!: cancel_Inr elim!: mutate_Inr)

interpretation claims: competing_locks "claim env i a" "claim env' i b" "case_version i"
  for env a env' b i ..

interpretation approvals: competing_locks "approve sha env i ok msg a" "approve sha env' i ok' msg' b"
  "case_version i" for sha env ok msg a env' ok' msg' b i ..

interpretation release_submit: competing_locks "release env i a" "submit sha env' i action result msg b"
  "case_version i" for env a sha env' action result msg b i ..

end
