(* ===== verification/Review_History.thy ===== *)
theory Review_History
  imports Review_Commands
begin

text \<open>
  What no command of the manual-review service can undo: audit rows, events and evidence are
  only appended, a decided decision and the content of a correction never change, and every
  change of a case raises its version.
\<close>

definition case_grows :: "review_case \<Rightarrow> review_case \<Rightarrow> bool" where
  "case_grows c c' \<longleftrightarrow> static_eq c c' \<and> (c' = c \<or> rc_version c < rc_version c')"

definition correction_keeps :: "review_correction \<Rightarrow> review_correction \<Rightarrow> bool" where
  "correction_keeps x x' \<longleftrightarrow> co_case_id x' = co_case_id x \<and> co_payload x' = co_payload x \<and>
     co_payload_sha256 x' = co_payload_sha256 x \<and> co_rerun_step_id x' = co_rerun_step_id x \<and>
     co_adapter x' = co_adapter x \<and> co_created_at x' = co_created_at x"

definition rows_grow :: "('k \<Rightarrow> 't \<Rightarrow> 'r option) \<Rightarrow> ('r \<Rightarrow> 'r \<Rightarrow> bool) \<Rightarrow> 't \<Rightarrow> 't \<Rightarrow> bool" where
  "rows_grow get rel t t' \<longleftrightarrow> (\<forall>k r. get k t = Some r \<longrightarrow> (\<exists>r'. get k t' = Some r' \<and> rel r r'))"

definition decisions_grow :: "review_decision list \<Rightarrow> review_decision list \<Rightarrow> bool" where
  "decisions_grow ds ds' \<longleftrightarrow> {d \<in> set ds. de_status d \<noteq> DecPending} \<subseteq> set ds'"

definition review_grows :: "review_db \<Rightarrow> review_db \<Rightarrow> bool" where
  "review_grows db db' \<longleftrightarrow>
     prefix (t_audits db) (t_audits db') \<and> prefix (t_events db) (t_events db') \<and>
     prefix (t_evidence db) (t_evidence db') \<and>
     rows_grow (tbl_get rc_id) case_grows (t_cases db) (t_cases db') \<and>
     rows_grow (tbl_get co_id) correction_keeps (t_corrections db) (t_corrections db') \<and>
     decisions_grow (t_decisions db) (t_decisions db')"

lemma rows_grow_refl: "(\<And>r. rel r r) \<Longrightarrow> rows_grow get rel t t"
  by (auto simp: rows_grow_def)

lemma rows_grow_trans:
  assumes "rows_grow get rel t u" and "rows_grow get rel u v"
    and "\<And>a b c. rel a b \<Longrightarrow> rel b c \<Longrightarrow> rel a c"
  shows "rows_grow get rel t v"
  using assms unfolding rows_grow_def by meson

lemma rows_grow_append: "(\<And>r. rel r r) \<Longrightarrow> rows_grow (tbl_get key) rel t (t @ u)"
  by (auto simp: rows_grow_def tbl_get_append)

lemma rows_grow_put:
  assumes "tbl_get key (key r') t = Some r" and "rel r r'" and "\<And>r. rel r r"
  shows "rows_grow (tbl_get key) rel t (tbl_put key r' t)"
  using assms by (auto simp: rows_grow_def tbl_get_put)

lemma case_grows_refl: "case_grows c c"
  by (simp add: case_grows_def static_eq_def)

lemma case_grows_trans: "case_grows a b \<Longrightarrow> case_grows b c \<Longrightarrow> case_grows a c"
  by (auto simp: case_grows_def static_eq_def)

lemma correction_keeps_refl: "correction_keeps x x"
  by (simp add: correction_keeps_def)

lemma correction_keeps_trans: "correction_keeps a b \<Longrightarrow> correction_keeps b c \<Longrightarrow> correction_keeps a c"
  by (simp add: correction_keeps_def)

lemma decisions_grow_refl: "decisions_grow ds ds"
  by (auto simp: decisions_grow_def)

lemma rows_grow_same: "rows_grow get case_grows t t" "rows_grow get' correction_keeps u u"
  by (simp_all add: rows_grow_refl case_grows_refl correction_keeps_refl)

lemmas grow_refls = case_grows_refl correction_keeps_refl decisions_grow_refl rows_grow_same

lemma review_grows_refl: "review_grows db db"
  by (simp add: review_grows_def grow_refls)

lemma review_grows_trans:
  assumes "review_grows a b" and "review_grows b c"
  shows "review_grows a c"
proof -
  have "decisions_grow (t_decisions a) (t_decisions c)"
    using assms by (auto simp: review_grows_def decisions_grow_def)
  moreover have "rows_grow (tbl_get rc_id) case_grows (t_cases a) (t_cases c)"
    using assms unfolding review_grows_def by (meson rows_grow_trans case_grows_trans)
  moreover have "rows_grow (tbl_get co_id) correction_keeps (t_corrections a) (t_corrections c)"
    using assms unfolding review_grows_def by (meson rows_grow_trans correction_keeps_trans)
  ultimately show ?thesis
    using assms unfolding review_grows_def by (blast intro: prefix_order.trans)
qed

lemma grows_update:
  assumes c: "tbl_get rc_id i (t_cases db) = Some c" and s: "static_eq c c'"
    and v: "rc_version c < rc_version c'" and g: "review_grows db db2" and eq: "t_cases db2 = t_cases db"
  shows "review_grows db (audit t i' a ev old new d (save_case c' db2))"
proof -
  have "rc_id c' = i" using c s case_table.get_key [OF c] by (simp add: static_eq_def)
  then have "rows_grow (tbl_get rc_id) case_grows (t_cases db) (tbl_put rc_id c' (t_cases db))"
    using c s v by (intro rows_grow_put [where r = c]) (auto simp: case_grows_def static_eq_def)
  with g eq show ?thesis
    by (auto simp: review_grows_def audit_def intro: prefix_order.trans)
qed

lemma grows_audit: "review_grows db db2 \<Longrightarrow> review_grows db (audit t i a ev old new d db2)"
  by (auto simp: review_grows_def audit_def intro: prefix_order.trans)

lemma grows_same:
  assumes "t_audits db' = t_audits db" and "t_events db' = t_events db" and "t_evidence db' = t_evidence db"
    and "t_cases db' = t_cases db" and "t_decisions db' = t_decisions db"
    and "rows_grow (tbl_get co_id) correction_keeps (t_corrections db) (t_corrections db')"
  shows "review_grows db db'"
  using assms by (simp add: review_grows_def grow_refls)

lemma outbox_grows: "outbox env i ev p db = Inr db' \<Longrightarrow> review_grows db db'"
  by (auto simp: outbox_def review_grows_def grow_refls split: option.splits)

lemma enqueue_correction_grows:
  assumes "enqueue_correction sha env c d db = Inr db'"
  shows "review_grows db db'"
  using assms
proof (rule enqueue_correction_Inr)
  fix x t
  assume t: "tbl_insert co_id x (t_corrections db) = Some t"
    and o: "outbox env (rc_id c) ''RESUME_REQUESTED''
      [(''correctionId'', JStr (''COR-'' @ ce_hex1 env))] (db\<lparr>t_corrections := t\<rparr>) = Inr db'"
  have "review_grows db (db\<lparr>t_corrections := t\<rparr>)"
    using t by (auto simp: review_grows_def grow_refls tbl_insert_Some intro!: rows_grow_append)
  then show ?thesis by (rule review_grows_trans) (rule outbox_grows [OF o])
qed

section \<open>Every command only adds to the history\<close>

lemma claim_grows: "claim env i a v db = Inr db' \<Longrightarrow> review_grows db db'"
  by (erule claim_Inr) (simp add: grows_update static_eq_def review_grows_refl)

lemma mutate_grows:
  assumes "mutate env i a values event admin v db = Inr db'" and "\<And>c. static_eq c (values c)"
  shows "review_grows db db'"
  using assms(1)
proof (rule mutate_Inr)
  fix c c'
  assume c: "tbl_get rc_id i (t_cases db) = Some c"
    and c': "c' = (values c)\<lparr>rc_version := Suc (rc_version c), rc_updated_at := ce_now env\<rparr>"
    and db': "db' = audit (ce_now env) i a event (Some (rc_status c)) (rc_status c') [] (save_case c' db)"
  show ?thesis
    unfolding db' using assms(2) [of c]
    by (intro grows_update [OF c]) (auto simp: c' static_eq_def review_grows_refl)
qed

lemma draft_grows: "draft env i p a v db = Inr db' \<Longrightarrow> review_grows db db'"
proof (erule draft_Inr)
  fix c c' drs
  assume c: "tbl_get rc_id i (t_cases db) = Some c"
    and c': "c' = c\<lparr>rc_status := IN_REVIEW, rc_version := Suc (rc_version c), rc_updated_at := ce_now env\<rparr>"
    and db': "db' = audit (ce_now env) i a ''DRAFT_SAVED'' (Some (rc_status c)) IN_REVIEW []
           (save_case c' (db\<lparr>t_drafts := drs\<rparr>))"
  show "review_grows db db'"
    unfolding db'
    by (intro grows_update [OF c]) (auto simp: c' static_eq_def review_grows_def grow_refls)
qed

lemma submit_grows:
  assumes "submit sha env i action result msg a v db = Inr db'"
  shows "review_grows db db'"
  using assms
proof (rule submit_Inr)
  fix c :: review_case and d :: review_decision and c' db2
  let ?ap = "requires_approval (rc_risk_level c) action result"
  let ?db1 = "db\<lparr>t_decisions := t_decisions db @ [d]\<rparr>"
  assume c: "tbl_get rc_id i (t_cases db) = Some c"
    and c': "c' = c\<lparr>rc_submitted_by := Some (ri_user_id a),
                 rc_status := (if ?ap then PENDING_APPROVAL else APPLYING),
                 rc_version := Suc (rc_version c), rc_updated_at := ce_now env\<rparr>"
    and e: "(if ?ap then Inr ?db1 else enqueue_correction sha env c d ?db1) = Inr db2"
    and db': "db' = audit (ce_now env) i a ''DECISION_SUBMITTED'' (Some (rc_status c)) (rc_status c')
                 [(''actionId'', JStr action)] (save_case c' db2)"
  have "review_grows db ?db1"
    by (auto simp: review_grows_def grow_refls decisions_grow_def)
  then have "review_grows db db2"
    using e by (auto dest: enqueue_correction_grows intro: review_grows_trans split: if_splits)
  then show ?thesis
    unfolding db' using submit_cases [OF e]
    by (intro grows_update [OF c]) (auto simp: c' static_eq_def)
qed

lemma approve_grows:
  assumes inv: "review_inv cf db" and "approve sha env i ok msg a v db = Inr db'"
  shows "review_grows db db'"
  using assms(2)
proof (rule approve_Inr)
  fix c :: review_case and d d' :: review_decision and c' db2
  let ?db1 = "db\<lparr>t_decisions := tbl_put de_id d' (t_decisions db)\<rparr>"
  assume c: "tbl_get rc_id i (t_cases db) = Some c"
    and d: "latest_decision db i DecPending = Some d"
    and d': "d' = decided (ce_now env) (ri_user_id a) ok msg d"
    and c': "c' = case_after_decision (ce_now env) ok c"
    and e: "(if ok then enqueue_correction sha env c d' ?db1 else Inr ?db1) = Inr db2"
    and db': "db' = audit (ce_now env) i a (if ok then ''DECISION_APPROVED'' else ''DECISION_REJECTED'')
                 (Some (rc_status c)) (rc_status c') [] (save_case c' db2)"
  note df = latest_decision_facts [OF d]
  have k: "keys_ok de_id (t_decisions db)"
    using inv by (simp add: review_inv_def decisions_inv_def keys_ok_def)
  have "decisions_grow (t_decisions db) (tbl_put de_id d' (t_decisions db))"
  proof -
    have "x \<in> set (tbl_put de_id d' (t_decisions db))"
      if "x \<in> set (t_decisions db)" "de_status x \<noteq> DecPending" for x
    proof (rule tbl_put_other [OF that(1)])
      show "de_id x \<noteq> de_id d'"
      proof
        assume "de_id x = de_id d'"
        then have same: "de_id x = de_id d" by (simp add: d' decided_def)
        have "x = d"
          using tbl_get_unique [OF k that(1)] tbl_get_unique [OF k df(1)] unfolding same by simp
        with that(2) df(3) show False by simp
      qed
    qed
    then show ?thesis by (auto simp: decisions_grow_def)
  qed
  then have g: "review_grows db ?db1" by (simp add: review_grows_def grow_refls)
  have "review_grows db db2 \<and> t_cases db2 = t_cases db"
  proof (cases ok)
    case True
    with e have en: "enqueue_correction sha env c d' ?db1 = Inr db2" by simp
    show ?thesis
      using review_grows_trans [OF g enqueue_correction_grows [OF en]] enqueue_correction_frame(1) [OF en]
      by simp
  next
    case False
    with e g show ?thesis by auto
  qed
  then show ?thesis
    unfolding db'
    by (intro grows_update [OF c]) (auto simp: c' case_after_decision_def static_eq_def)
qed

lemma grows_correction_put:
  assumes "tbl_get co_id (co_id cor') (t_corrections db) = Some cor" and "correction_keeps cor cor'"
  shows "rows_grow (tbl_get co_id) correction_keeps (t_corrections db) (tbl_put co_id cor' (t_corrections db))"
  using assms by (intro rows_grow_put) (auto simp: correction_keeps_refl)

lemma retry_grows:
  assumes inv: "review_inv cf db" and s: "retry env i a v db = Inr db'"
  shows "review_grows db db'"
  using s
proof (rule retry_Inr)
  fix c :: review_case and cor :: review_correction and c' db2
  let ?cor = "cor\<lparr>co_status := CorPending, co_last_error := None, co_attempts := Suc (co_attempts cor)\<rparr>"
  let ?db1 = "db\<lparr>t_corrections := tbl_put co_id ?cor (t_corrections db)\<rparr>"
  assume c: "tbl_get rc_id i (t_cases db) = Some c" and cor: "latest_correction db i = Some cor"
    and o: "outbox env i ''RESUME_REQUESTED''
             [(''correctionId'', JStr (co_id cor)), (''retry'', JBool True)] ?db1 = Inr db2"
    and c': "c' = c\<lparr>rc_status := APPLYING, rc_version := Suc (rc_version c), rc_updated_at := ce_now env\<rparr>"
    and db': "db' = audit (ce_now env) i a ''CASE_RETRIED'' (Some (rc_status c)) APPLYING [] (save_case c' db2)"
  have "review_grows db ?db1"
    using latest_correction_get [OF review_inv_keys(2) [OF inv] cor]
    by (intro grows_same) (auto intro!: grows_correction_put simp: correction_keeps_def)
  then have "review_grows db db2" by (rule review_grows_trans) (rule outbox_grows [OF o])
  then show ?thesis
    unfolding db' using outbox_frame(1) [OF o]
    by (intro grows_update [OF c]) (auto simp: c' static_eq_def)
qed

lemma reclaim_fold_grows:
  "keys_ok rc_id rows \<Longrightarrow>
     (\<And>c. c \<in> set rows \<Longrightarrow> tbl_get rc_id (rc_id c) (t_cases db) = Some c) \<Longrightarrow>
     review_grows db (foldl (reclaim_one env) db rows)"
proof (induction rows arbitrary: db)
  case Nil
  then show ?case by (simp add: review_grows_refl)
next
  case (Cons c rows)
  have c: "tbl_get rc_id (rc_id c) (t_cases db) = Some c" using Cons.prems(2) by simp
  have "review_grows db (reclaim_one env db c)"
    unfolding reclaim_one_def
    by (intro grows_update [OF c]) (auto simp: static_eq_def review_grows_refl)
  moreover have "tbl_get rc_id (rc_id c') (t_cases (reclaim_one env db c)) = Some c'"
    if "c' \<in> set rows" for c'
  proof -
    have "rc_id c' \<noteq> rc_id c" using Cons.prems(1) that by (simp add: keys_ok_def) (metis imageI)
    with Cons.prems(2) [of c'] that show ?thesis by (simp add: reclaim_one_get)
  qed
  ultimately show ?case
    using Cons.IH [of "reclaim_one env db c"] Cons.prems(1)
    by (auto simp: keys_ok_def intro: review_grows_trans)
qed

lemma reclaim_grows:
  assumes "review_inv cf db"
  shows "review_grows db (fst (reclaim_expired env minutes db))"
proof -
  note k = review_inv_keys(1) [OF assms]
  have "keys_ok rc_id (filter P (t_cases db))" for P
    using k by (simp add: keys_ok_def distinct_map_filter)
  from reclaim_fold_grows [OF this] tbl_get_unique [OF k] show ?thesis
    by (simp add: reclaim_expired_def Let_def)
qed

lemma outbox_only_grows: "review_grows db (db\<lparr>t_outbox := x\<rparr>)"
  by (rule grows_same) (simp_all add: grow_refls)

lemma claim_outbox_grows: "review_grows db (fst (claim_outbox t oid db))"
  by (simp add: claim_outbox_def outbox_only_grows review_grows_refl split: option.split)

lemma dispatch_grows:
  assumes cor: "tbl_get co_id cid (t_corrections db) = Some cor"
    and cor': "co_id cor' = co_id cor" "correction_keeps cor cor'"
    and c: "tbl_get rc_id i (t_cases db) = Some c" "static_eq c c'" "rc_version c < rc_version c'"
    and db2: "db2 = db\<lparr>t_executions := e, t_corrections := tbl_put co_id cor' (t_corrections db),
                t_outbox := ob\<rparr>"
  shows "review_grows db (audit t i' a ev old new d (save_case c' db2))"
proof (rule grows_update [OF c])
  show "review_grows db db2"
    unfolding db2 using cor cor' tbl_get_Some [OF cor]
    by (intro grows_same) (auto intro!: grows_correction_put)
qed (simp add: db2)

lemma dispatch_grows_unaudited:
  assumes "tbl_get co_id cid (t_corrections db) = Some cor"
    and "co_id cor' = co_id cor" "correction_keeps cor cor'"
    and "tbl_get rc_id i (t_cases db) = Some c" "static_eq c c'" "rc_version c < rc_version c'"
    and "db2 = db\<lparr>t_executions := e, t_corrections := tbl_put co_id cor' (t_corrections db),
                t_outbox := ob\<rparr>"
  shows "review_grows db (save_case c' db2)"
  using dispatch_grows [OF assms] assms(7) by (simp add: review_grows_def)

lemma process_claimed_grows:
  assumes inv: "review_inv cf db" and p: "process_claimed cf post t oid db = Inr (db', out)"
  shows "review_grows db db'"
  using p
proof (cases rule: process_claimed_cases)
  case same
  then show ?thesis by (simp add: review_grows_refl)
next
  case (other x)
  with outbox_row_facts(1) [OF inv other(1)] show ?thesis by (simp add: outbox_ok_def)
next
  case (done_ x c cid cor resp)
  show ?thesis
    unfolding outbox_success_Inr [OF done_(7)]
    by (rule dispatch_grows [OF done_(4) _ _ done_(3) _ _ refl])
      (simp_all add: static_eq_def correction_keeps_def)
next
  case (failed x c cid cor msg)
  show ?thesis
    unfolding failed(6) outbox_failure_def Let_def
    by (rule dispatch_grows_unaudited [OF failed(4) _ _ failed(3), where e = "t_executions db"
          and cor' = "cor\<lparr>co_status := CorPending, co_last_error := Some msg,
             co_attempts := Suc (co_attempts cor)\<rparr>"
          and ob = "tbl_put ob_id
              (x\<lparr>ob_attempts := Suc (ob_attempts x), ob_last_error := Some msg,
                 ob_status := (if cf_max_attempts cf \<le> Suc (ob_attempts x) then ObDead else ObRetry),
                 ob_available_at := t + backoff_seconds (Suc (ob_attempts x))\<rparr>) (t_outbox db)"])
      (simp_all add: static_eq_def correction_keeps_def)
qed

lemma execution_event_grows:
  assumes inv: "review_inv cf db" and p: "execution_event t i p db = Inr (db', dup)"
  shows "review_grows db db'"
  using p
proof (cases rule: execution_event_Inr)
  case (replay e)
  then show ?thesis by (simp add: review_grows_refl)
next
  case (taken c c' cors execs ev d)
  have "rows_grow (tbl_get co_id) correction_keeps (t_corrections db) cors"
  proof (cases "ee_type p = VERIFICATION_SUCCEEDED")
    case False
    with taken(8) show ?thesis by (simp add: grow_refls)
  next
    case True
    with taken(8) obtain cor where cor: "latest_correction db i = Some cor"
      and cors: "cors = tbl_put co_id (cor\<lparr>co_status := CorApplied, co_applied_at := Some t\<rparr>)
                   (t_corrections db)" by auto
    show ?thesis
      unfolding cors using latest_correction_get [OF review_inv_keys(2) [OF inv] cor]
      by (intro grows_correction_put [of _ _ cor]) (auto simp: correction_keeps_def)
  qed
  then have "review_grows db
      (db\<lparr>t_executions := execs, t_corrections := cors, t_events := t_events db @ [ev]\<rparr>)"
    by (simp add: review_grows_def grow_refls)
  moreover have "static_eq c c'" "rc_version c < rc_version c'"
    using case_after_event_static [of c "ee_type p" t] taken(7) by (simp_all add: static_eq_def)
  ultimately show ?thesis
    unfolding taken(10) by (intro grows_update [OF taken(2)]) auto
qed

lemma evidence_grows: "evidence_complete head t i p a db = Inr db' \<Longrightarrow> review_grows db db'"
  by (erule evidence_complete_Inr, hypsubst, rule grows_audit) (simp add: review_grows_def grow_refls)

lemma ingress_grows:
  assumes "create_review_required cf sha env actor p db = Inr (db', resp)"
  shows "review_grows db db'"
  using assms
proof (cases rule: ingress_Inr)
  case (duplicate x)
  then show ?thesis by (simp add: review_grows_refl)
next
  case (created c)
  have "review_grows db (db\<lparr>t_cases := t_cases db @ [c]\<rparr>)"
    by (simp add: review_grows_def grow_refls rows_grow_append)
  then show ?thesis unfolding created(4) by (rule grows_audit)
qed

lemma exec_review_grows:
  assumes inv: "review_inv cf db" and e: "exec_review cf sha cmd db = Inr db'"
  shows "review_grows db db'"
proof (cases cmd)
  case (CIngress env actor p)
  with e show ?thesis by (auto elim!: rbindE intro: ingress_grows)
next
  case (CClaim env i a v)
  with e claim_grows show ?thesis by simp
next
  case (CHeartbeat env i a v)
  with e mutate_grows show ?thesis by (simp add: heartbeat_def static_eq_def)
next
  case (CRelease env i a v)
  with e mutate_grows show ?thesis by (simp add: release_def static_eq_def)
next
  case (CTransfer env i uid name a v)
  with e have "transfer env i uid name a v db = Inr db'" by simp
  from mutate_grows [OF transfer_Inr [OF this]] show ?thesis by (simp add: static_eq_def)
next
  case (CCancel env i a v)
  with e have "cancel env i a v db = Inr db'" by simp
  from mutate_grows [OF cancel_Inr [OF this]] show ?thesis by (simp add: static_eq_def)
next
  case (CDraft env i p a v)
  with e draft_grows show ?thesis by simp
next
  case (CSubmit env i action result msg a v)
  with e submit_grows show ?thesis by simp
next
  case (CApprove env i ok msg a v)
  with e approve_grows [OF inv] show ?thesis by simp
next
  case (CRetry env i a v)
  with e retry_grows [OF inv] show ?thesis by simp
next
  case (CReclaim env minutes)
  with e reclaim_grows [OF inv] show ?thesis by auto
next
  case (CRecover t)
  with e show ?thesis by (auto simp: recover_stale_def outbox_only_grows)
next
  case (CClaimOutbox t oid)
  with e claim_outbox_grows show ?thesis by auto
next
  case (CProcess post t oid)
  with e process_claimed_grows [OF inv] show ?thesis by (auto elim!: rbindE)
next
  case (CEvent t i p)
  with e execution_event_grows [OF inv] show ?thesis by (auto elim!: rbindE)
next
  case (CEvidence head t i p a)
  with e evidence_grows show ?thesis by simp
qed

lemma reach_review_grows:
  "reach (exec_review cf sha) db db' \<Longrightarrow> review_inv cf db \<Longrightarrow> review_grows db db'"
proof (induction rule: reach.induct)
  case reach_init
  then show ?case by (simp add: review_grows_refl)
next
  case (reach_step s c s')
  then have "review_inv cf s" by (blast intro: review.reach_keeps)
  with reach_step show ?case by (blast intro: exec_review_grows review_grows_trans)
qed

end
