(* ===== verification/Review_Scenario.thy ===== *)
theory Review_Scenario
  imports Review_History
begin

text \<open>
  One concrete run of the manual-review service, from an empty database: a batch exception is
  reported, claimed, decided by a reviewer and approved by a second person.  The states after
  each command are the inputs of the witnesses.
\<close>

definition sc_user :: "string \<Rightarrow> string \<Rightarrow> review_identity" where
  "sc_user u r = \<lparr>ri_user_id = u, ri_user_name = u, ri_roles = {r}, ri_domains = {''*''},
     ri_organization = [], ri_request_id = ''r''\<rparr>"

definition sc_env :: "time \<Rightarrow> string \<Rightarrow> call_env" where
  "sc_env t h = \<lparr>ce_now = t, ce_hex1 = h, ce_hex2 = h\<rparr>"

definition sc_sha :: "string \<Rightarrow> string" where
  "sc_sha s = ''h''"

definition sc_request :: review_required where
  "sc_request = \<lparr>rr_event_id = ''e1'', rr_source_task_id = ''t1'', rr_batch_id = None,
     rr_step_id = ''schema'',
     rr_workflow = \<lparr>wf_type = ''w'', wf_id = ''w1'', wf_run_id = None, wf_task_queue = ''q'',
       wf_resume_token = ''k''\<rparr>,
     rr_object_id = ''o1'', rr_object_type = ''Org'', rr_object_name = ''n'', rr_exc_code = ''X'',
     rr_exc_message = ''m'', rr_exc_fingerprint = ''f'', rr_exc_severity = ''P0'',
     rr_exc_scope = BatchScope, rr_template_id = ''T_MAP'', rr_template_version = ''1.0'',
     rr_domain = ''d'', rr_input = [], rr_candidate = [], rr_evidence = [],
     rr_rule_version = None, rr_model_version = None, rr_source_table = None,
     rr_source_record_id = None\<rparr>"

definition sc_case1 :: review_case where
  "sc_case1 = \<lparr>rc_id = ''MR-A'', rc_dedupe_key = ''h'', rc_event_id = ''e1'',
     rc_source_task_id = ''t1'', rc_batch_id = None, rc_pipeline_step_id = ''schema'',
     rc_object_id = ''o1'', rc_object_type = ''Org'', rc_object_name = ''n'', rc_error_type = ''m'',
     rc_error_fingerprint = ''f'', rc_category = zh_title_map, rc_template_id = ''T_MAP'',
     rc_template_version = ''1.0'', rc_domain = ''d'', rc_phase = zh_graph_build,
     rc_risk_level = P0, rc_scope = BatchLevel, rc_status = OPEN, rc_assignee_id = None,
     rc_assignee_name = None, rc_submitted_by = None, rc_version = 1, rc_sla_claim_at = 900,
     rc_sla_resolve_at = 1800, rc_claimed_at = None, rc_heartbeat_at = None,
     rc_completed_at = None, rc_source_table = None, rc_source_record_id = None,
     rc_rule_version = None, rc_model_version = None, rc_workflow_type = ''w'',
     rc_workflow_id = ''w1'', rc_workflow_run_id = None, rc_task_queue = ''q'',
     rc_resume_token = ''k'', rc_exception_code = ''X'', rc_isolation_scope = BatchScope,
     rc_input_snapshot = [], rc_candidate_snapshot = [(''reportedEvidence'', JList [])],
     rc_diagnosis = ''m'', rc_created_at = 0, rc_updated_at = 0\<rparr>"

lemma sc_build: "build_case default_config sc_sha (sc_env 0 ''A'') sc_request = Inr sc_case1"
proof -
  have v: "validate_step_template ''schema'' ''T_MAP'' = Inr ''T_MAP''"
    by (simp add: validate_step_template_def PIPELINE_STEPS_def TEMPLATES_def canonical_template_def
        TEMPLATE_ALIASES_def)
  have "snapshot_size sc_request < 1000" by code_simp
  then have s: "\<not> cf_snapshot_max default_config < snapshot_size sc_request"
    by (simp add: default_config_def)
  have r: "risk_policy 0 ''m'' (Some ''BATCH'') (Some ''P0'') = (P0, BatchLevel, 900, 1800)" by code_simp
  have t: "map_option tp_title (map_of TEMPLATES ''T_MAP'') = Some zh_title_map"
    by (simp add: TEMPLATES_def)
  have p: "map_option st_phase (map_of PIPELINE_STEPS ''schema'') = Some zh_graph_build"
    by (simp add: PIPELINE_STEPS_def)
  have d: "dset ''reportedEvidence'' (JList []) [] = [(''reportedEvidence'', JList [])]" by code_simp
  have rq: "rr_step_id sc_request = ''schema''" "rr_template_id sc_request = ''T_MAP''"
    "rr_exc_scope sc_request = BatchScope" "rr_exc_severity sc_request = ''P0''"
    "rr_exc_message sc_request = ''m''"
    by (simp_all add: sc_request_def)
  show ?thesis
    using t p s unfolding build_case_def rq v rbind_simps
    by (auto simp: r sc_env_def d sc_case1_def dedupe_key_of_def sc_sha_def simp del: dump.simps)
      (simp_all add: sc_request_def d)
qed

definition sc_cmd1 :: review_cmd where
  "sc_cmd1 = CIngress (sc_env 0 ''A'') ''svc'' sc_request"

definition sc_db1 :: review_db where
  "sc_db1 = audit 0 ''MR-A'' (service_identity ''svc'' ''svc'' ''service'' ''e1'') ''CASE_CREATED'' None OPEN
     [(''stepId'', JStr ''schema''), (''exceptionCode'', JStr ''X'')]
     (empty_review_db\<lparr>t_cases := [sc_case1]\<rparr>)"

lemma sc_step1: "exec_review default_config sc_sha sc_cmd1 empty_review_db = Inr sc_db1"
  using sc_build
  by (simp add: sc_cmd1_def create_review_required_def ingress_commit_def find_existing_def
      violates_unique_def empty_review_db_def sc_db1_def) (simp add: sc_case1_def)

definition sc_cmd2 :: review_cmd where
  "sc_cmd2 = CClaim (sc_env 1 ''B'') ''MR-A'' (sc_user ''u1'' ''reviewer'') 1"

definition sc_case2 :: review_case where
  "sc_case2 = sc_case1\<lparr>rc_status := CLAIMED, rc_assignee_id := Some ''u1'',
     rc_assignee_name := Some ''u1'', rc_claimed_at := Some 1, rc_heartbeat_at := Some 1,
     rc_updated_at := 1, rc_version := 2\<rparr>"

definition sc_db2 :: review_db where
  "sc_db2 = audit 1 ''MR-A'' (sc_user ''u1'' ''reviewer'') ''CASE_CLAIMED'' (Some OPEN) CLAIMED []
     (sc_db1\<lparr>t_cases := [sc_case2]\<rparr>)"

lemma sc_put: "rc_id c = rc_id c' \<Longrightarrow> tbl_put rc_id c [c'] = [c]"
  by (simp add: tbl_put_def tbl_upd_def)

lemma sc_step2: "exec_review default_config sc_sha sc_cmd2 sc_db1 = Inr sc_db2"
proof -
  have cs: "t_cases sc_db1 = [sc_case1]" by (simp add: sc_db1_def)
  have c: "need sc_db1 ''MR-A'' = Inr sc_case1" by (simp add: need_def cs) (simp add: sc_case1_def)
  have f: "rc_version sc_case1 = 1" "rc_status sc_case1 = OPEN"
    by (simp_all add: sc_case1_def)
  have r: "require_domain_access (sc_user ''u1'' ''reviewer'') d = Inr ()"
    "role_can_review (sc_user ''u1'' ''reviewer'') ph" for d ph
    by (simp_all add: require_domain_access_def role_can_review_def has_any_def sc_user_def)
  have c2: "sc_case1\<lparr>rc_status := CLAIMED, rc_assignee_id := Some ''u1'',
     rc_assignee_name := Some ''u1'', rc_claimed_at := Some 1, rc_heartbeat_at := Some 1,
     rc_updated_at := 1, rc_version := Suc 1\<rparr> = sc_case2" by (simp add: sc_case2_def)
  have id: "rc_id sc_case2 = rc_id sc_case1" by (simp add: sc_case2_def)
  have u: "ri_user_id (sc_user ''u1'' x) = ''u1''" "ri_user_name (sc_user ''u1'' x) = ''u1''"
    "ce_now (sc_env 1 h) = 1" for x h
    by (simp_all add: sc_user_def sc_env_def)
  show ?thesis
    unfolding sc_cmd2_def exec_review.simps claim_def c rbind_simps f r u c2
    by (simp add: r save_case_def cs id sc_put sc_db2_def)
qed

definition sc_result :: dict where
  "sc_result = [(''mappings'', JList [JInt 1])]"

definition sc_cmd3 :: review_cmd where
  "sc_cmd3 = CSubmit (sc_env 2 ''C'') ''MR-A'' ''save-map-rerun'' sc_result ''ok''
     (sc_user ''u1'' ''reviewer'') 2"

definition sc_decision :: review_decision where
  "sc_decision = \<lparr>de_id = 1, de_case_id = ''MR-A'', de_action_id = ''save-map-rerun'',
     de_result = sc_result, de_note = ''ok'', de_submitted_by = ''u1'', de_approved_by = None,
     de_status = DecPending, de_created_at = 2, de_decided_at = None\<rparr>"

definition sc_case3 :: review_case where
  "sc_case3 = sc_case2\<lparr>rc_submitted_by := Some ''u1'', rc_status := PENDING_APPROVAL,
     rc_version := 3, rc_updated_at := 2\<rparr>"

definition sc_db3 :: review_db where
  "sc_db3 = audit 2 ''MR-A'' (sc_user ''u1'' ''reviewer'') ''DECISION_SUBMITTED'' (Some CLAIMED)
     PENDING_APPROVAL [(''actionId'', JStr ''save-map-rerun'')]
     (sc_db2\<lparr>t_decisions := [sc_decision], t_cases := [sc_case3]\<rparr>)"

lemma sc_valid: "validate_action ''T_MAP'' ''save-map-rerun'' sc_result = Inr ()"
  by (simp add: validate_action_def TEMPLATES_def canonical_template_def TEMPLATE_ALIASES_def
      sc_result_def dget_def)

lemma sc_tables [simp]:
  "t_decisions sc_db1 = []" "t_decisions sc_db2 = []" "t_corrections sc_db2 = []" "t_outbox sc_db2 = []"
  "t_corrections sc_db3 = []" "t_outbox sc_db3 = []" "t_decisions sc_db3 = [sc_decision]"
  "t_cases sc_db2 = [sc_case2]" "t_cases sc_db3 = [sc_case3]" "t_cases sc_db1 = [sc_case1]"
  "t_events sc_db3 = []" "t_executions sc_db3 = []"
  by (simp_all add: sc_db1_def sc_db2_def sc_db3_def empty_review_db_def)

lemma sc_step3: "exec_review default_config sc_sha sc_cmd3 sc_db2 = Inr sc_db3"
proof -
  have c: "owned sc_db2 ''MR-A'' (sc_user ''u1'' ''reviewer'') = Inr sc_case2"
    by (simp add: owned_def need_def sc_case2_def sc_case1_def require_domain_access_def has_any_def sc_user_def)
  have f: "rc_version sc_case2 = 2" "rc_status sc_case2 = CLAIMED" "rc_template_id sc_case2 = ''T_MAP''"
    "rc_risk_level sc_case2 = P0"
    by (simp_all add: sc_case2_def sc_case1_def)
  have d: "new_decision 2 ''MR-A'' ''save-map-rerun'' sc_result ''ok'' ''u1'' True sc_db2 = sc_decision"
    by (simp add: new_decision_def sc_decision_def)
  have c3: "sc_case2\<lparr>rc_submitted_by := Some ''u1'', rc_status := PENDING_APPROVAL,
     rc_version := 3, rc_updated_at := 2\<rparr> = sc_case3" by (simp add: sc_case3_def)
  have id: "rc_id sc_case3 = rc_id sc_case2" by (simp add: sc_case3_def)
  show ?thesis
    unfolding sc_cmd3_def exec_review.simps submit_def c rbind_simps f sc_valid
    using d c3
    by (simp add: EDITABLE_STATUSES_def requires_approval_def sc_env_def Let_def save_case_def id sc_put
        sc_db3_def) (simp add: sc_user_def sc_put id)
qed

definition sc_cmd4 :: review_cmd where
  "sc_cmd4 = CApprove (sc_env 3 ''D'') ''MR-A'' True ''fine'' (sc_user ''u2'' ''approver'') 3"

definition sc_approved :: review_decision where
  "sc_approved = decided 3 ''u2'' True ''fine'' sc_decision"

definition sc_case4 :: review_case where
  "sc_case4 = case_after_decision 3 True sc_case3"

definition sc_correction :: review_correction where
  "sc_correction = \<lparr>co_id = ''COR-D'', co_case_id = ''MR-A'', co_adapter = ''mapping'',
     co_payload = decision_payload sc_approved, co_payload_sha256 = ''h'',
     co_rerun_step_id = ''schema'', co_status = CorPending, co_attempts = 0, co_last_error = None,
     co_created_at = 3, co_applied_at = None\<rparr>"

definition sc_outbox :: review_outbox where
  "sc_outbox = \<lparr>ob_id = ''OUT-D'', ob_case_id = ''MR-A'', ob_event_type = ''RESUME_REQUESTED'',
     ob_payload = [(''correctionId'', JStr ''COR-D'')], ob_status = ObPending, ob_attempts = 0,
     ob_available_at = 3, ob_locked_at = None, ob_last_error = None, ob_created_at = 3,
     ob_processed_at = None\<rparr>"

definition sc_db4 :: review_db where
  "sc_db4 = audit 3 ''MR-A'' (sc_user ''u2'' ''approver'') ''DECISION_APPROVED'' (Some PENDING_APPROVAL)
     APPLYING [] (sc_db3\<lparr>t_decisions := [sc_approved], t_corrections := [sc_correction],
        t_outbox := [sc_outbox], t_cases := [sc_case4]\<rparr>)"

lemma sc_put_decision: "de_id d = de_id d' \<Longrightarrow> tbl_put de_id d [d'] = [d]"
  by (simp add: tbl_put_def tbl_upd_def)

lemma sc_enqueue:
  "enqueue_correction sc_sha (sc_env 3 ''D'') sc_case3 sc_approved (sc_db3\<lparr>t_decisions := [sc_approved]\<rparr>)
     = Inr (sc_db3\<lparr>t_decisions := [sc_approved], t_corrections := [sc_correction], t_outbox := [sc_outbox]\<rparr>)"
proof -
  have f: "rc_template_id sc_case3 = ''T_MAP''" "rc_pipeline_step_id sc_case3 = ''schema''"
    "rc_id sc_case3 = ''MR-A''" "de_action_id sc_approved = ''save-map-rerun''"
    by (simp_all add: sc_case3_def sc_case2_def sc_case1_def sc_approved_def decided_def sc_decision_def)
  have t: "canonical_template ''T_MAP'' = ''T_MAP''"
    by (simp add: canonical_template_def TEMPLATE_ALIASES_def)
  have "map_option tp_adapter (map_of TEMPLATES ''T_MAP'') = Some ''mapping''"
    by (simp add: TEMPLATES_def)
  then obtain tp where tp: "map_of TEMPLATES ''T_MAP'' = Some tp" "tp_adapter tp = ''mapping''"
    by auto
  show ?thesis
    unfolding enqueue_correction_def f t tp option.case
    by (simp add: tbl_insert_def outbox_def rerun_step_def sc_sha_def sc_env_def sc_correction_def
        sc_outbox_def tp(2) del: dump.simps)
qed

lemma sc_step4: "exec_review default_config sc_sha sc_cmd4 sc_db3 = Inr sc_db4"
proof -
  have c: "need sc_db3 ''MR-A'' = Inr sc_case3"
    by (simp add: need_def) (simp add: sc_case3_def sc_case2_def sc_case1_def)
  have r: "require_role (sc_user ''u2'' ''approver'') [''approver''] = Inr ()"
    "require_domain_access (sc_user ''u2'' ''approver'') d = Inr ()" for d
    by (simp_all add: require_role_def require_domain_access_def has_any_def sc_user_def)
  have f: "rc_version sc_case3 = 3" "rc_status sc_case3 = PENDING_APPROVAL"
    by (simp_all add: sc_case3_def)
  have d: "latest_decision sc_db3 ''MR-A'' DecPending = Some sc_decision"
    by (simp add: latest_decision_def) (simp add: sc_decision_def)
  have u: "ri_user_id (sc_user ''u2'' x) = ''u2''" "ce_now (sc_env 3 h) = 3" for x h
    by (simp_all add: sc_user_def sc_env_def)
  have n: "de_submitted_by sc_decision \<noteq> ''u2''" by (simp add: sc_decision_def)
  have p: "tbl_put de_id sc_approved [sc_decision] = [sc_approved]"
    by (simp add: sc_put_decision sc_approved_def decided_def)
  have k: "rc_id sc_case4 = rc_id sc_case3" "rc_status sc_case4 = APPLYING"
    by (simp_all add: sc_case4_def case_after_decision_def)
  show ?thesis
    unfolding sc_cmd4_def exec_review.simps approve_def r c rbind_simps f d option.case u Let_def
      sc_approved_def [symmetric] sc_case4_def [symmetric]
    using n p sc_enqueue
    by (simp add: save_case_def k sc_put sc_db4_def)
qed

definition sc_start :: "review_cmd list" where
  "sc_start = [sc_cmd1, sc_cmd2, sc_cmd3, sc_cmd4]"

lemma sc_reach:
  "reach (exec_review default_config sc_sha) empty_review_db sc_db1"
  "reach (exec_review default_config sc_sha) empty_review_db sc_db2"
  "reach (exec_review default_config sc_sha) empty_review_db sc_db3"
  "reach (exec_review default_config sc_sha) empty_review_db sc_db4"
  using sc_step1 sc_step2 sc_step3 sc_step4 by (meson reach_init reach_step)+

lemma sc_tables4 [simp]:
  "t_corrections sc_db4 = [sc_correction]" "t_outbox sc_db4 = [sc_outbox]"
  "t_decisions sc_db4 = [sc_approved]" "t_cases sc_db4 = [sc_case4]" "t_events sc_db4 = []"
  "t_executions sc_db4 = []"
  by (simp_all add: sc_db4_def)

lemma sc_attempts: "0 < cf_max_attempts default_config"
  by (simp add: default_config_def)

lemma sc_inv: "review_inv default_config sc_db1" "review_inv default_config sc_db2"
  "review_inv default_config sc_db3" "review_inv default_config sc_db4"
  using sc_reach sc_attempts by (blast intro: reachable_review_inv)+

text \<open>The hand-off to graph construction and the callbacks that resolve the case.\<close>

definition sc_db5 :: review_db where
  "sc_db5 = sc_db4\<lparr>t_outbox := [sc_outbox\<lparr>ob_status := ObProcessing, ob_locked_at := Some 4\<rparr>]\<rparr>"

lemma sc_step5: "exec_review default_config sc_sha (CClaimOutbox 4 ''OUT-D'') sc_db4 = Inr sc_db5"
proof -
  have "is_due 4 sc_outbox" "ob_id sc_outbox = ''OUT-D''"
    by (simp_all add: is_due_def sc_outbox_def)
  then show ?thesis
    by (simp add: claim_outbox_def sc_db5_def tbl_put_def tbl_upd_def)
qed

definition sc_post :: resume_post where
  "sc_post url body key = Inl ''unreachable''"

definition sc_response :: resume_response where
  "sc_response = \<lparr>rs_accepted = True, rs_execution_id = ''MOCK-COR-D'', rs_workflow_id = Some ''w1'',
     rs_run_id = Some ''mock'', rs_status = Some ''QUEUED''\<rparr>"

definition sc_case6 :: review_case where
  "sc_case6 = sc_case4\<lparr>rc_status := RERUNNING, rc_version := 5, rc_updated_at := 4\<rparr>"

definition sc_db6 :: review_db where
  "sc_db6 = audit 4 ''MR-A'' (service_identity ''outbox-worker'' ''Outbox Worker'' ''system'' ''OUT-D'')
     ''RESUME_ACCEPTED'' (Some APPLYING) RERUNNING [(''executionId'', JStr ''MOCK-COR-D'')]
     (sc_db5\<lparr>t_executions := executions_with 4 sc_case4 sc_correction sc_response [],
        t_corrections := [sc_correction\<lparr>co_status := CorDispatched\<rparr>],
        t_outbox := [sc_outbox\<lparr>ob_locked_at := Some 4, ob_status := ObDone, ob_processed_at := Some 4\<rparr>],
        t_cases := [sc_case6]\<rparr>)"

lemma sc_tables5 [simp]:
  "t_corrections sc_db5 = [sc_correction]" "t_cases sc_db5 = [sc_case4]" "t_events sc_db5 = []"
  "t_executions sc_db5 = []"
  "t_outbox sc_db5 = [sc_outbox\<lparr>ob_status := ObProcessing, ob_locked_at := Some 4\<rparr>]"
  by (simp_all add: sc_db5_def)

lemma sc_fields4:
  "rc_id sc_case4 = ''MR-A''" "rc_status sc_case4 = APPLYING" "rc_version sc_case4 = 4"
  "rc_workflow_id sc_case4 = ''w1''" "rc_pipeline_step_id sc_case4 = ''schema''"
  by (simp_all add: sc_case4_def case_after_decision_def sc_case3_def sc_case2_def sc_case1_def)

lemma sc_dispatch: "dispatch_resume default_config sc_post sc_case4 sc_correction = Inr sc_response"
  by (simp add: dispatch_resume_def default_config_def sc_fields4 sc_response_def sc_correction_def)

lemma sc_outbox_fields:
  "ob_id sc_outbox = ''OUT-D''" "ob_case_id sc_outbox = ''MR-A''"
  "ob_event_type sc_outbox = ''RESUME_REQUESTED''"
  "payload_correction_id (sc_outbox\<lparr>ob_status := st, ob_locked_at := l\<rparr>) = Inr ''COR-D''"
  by (simp_all add: sc_outbox_def payload_correction_id_def)

lemma sc_success:
  "outbox_success 4 (sc_outbox\<lparr>ob_status := ObProcessing, ob_locked_at := Some 4\<rparr>) sc_case4 sc_correction
     sc_response sc_db5 = Inr sc_db6"
proof -
  have e: "rs_execution_id sc_response = ''MOCK-COR-D''" by (simp add: sc_response_def)
  have c: "sc_case4\<lparr>rc_status := RERUNNING, rc_version := Suc 4, rc_updated_at := 4\<rparr> = sc_case6"
    by (simp add: sc_case6_def)
  have k: "rc_id sc_case6 = rc_id sc_case4" by (simp add: sc_case6_def)
  show ?thesis
    unfolding outbox_success_def Let_def e sc_fields4 c
    by (simp add: save_case_def sc_put k sc_db6_def sc_outbox_fields sc_fields4)
      (simp add: tbl_put_def tbl_upd_def)
qed

lemma sc_step6:
  "exec_review default_config sc_sha (CProcess sc_post 4 ''OUT-D'') sc_db5 = Inr sc_db6"
proof -
  have n: "need sc_db5 ''MR-A'' = Inr sc_case4" by (simp add: need_def sc_fields4)
  have k: "co_id sc_correction = ''COR-D''" by (simp add: sc_correction_def)
  show ?thesis
    by (simp add: process_claimed_def sc_outbox_fields n k sc_dispatch sc_success)
qed

definition sc_event :: "string \<Rightarrow> event_type \<Rightarrow> execution_event" where
  "sc_event eid ty = \<lparr>ee_event_id = eid, ee_execution_id = ''MOCK-COR-D'', ee_type = ty,
     ee_occurred_at = 5, ee_step_id = ''schema'', ee_workflow_id = None, ee_run_id = None, ee_error = None\<rparr>"

definition sc_event_row :: "string \<Rightarrow> event_type \<Rightarrow> time \<Rightarrow> review_event" where
  "sc_event_row eid ty t = \<lparr>xe_event_id = eid, xe_case_id = ''MR-A'', xe_execution_id = ''MOCK-COR-D'',
     xe_event_type = ty, xe_stage = EVENT_STAGE ty, xe_occurred_at = 5, xe_created_at = t\<rparr>"

definition sc_execution :: review_execution where
  "sc_execution = hd (executions_with 4 sc_case4 sc_correction sc_response [])"

lemma sc_executions: "executions_with 4 sc_case4 sc_correction sc_response [] = [sc_execution]"
  by (simp add: sc_execution_def executions_with_def)

lemma sc_execution_fields: "ex_id sc_execution = ''MOCK-COR-D''" "ex_case_id sc_execution = ''MR-A''"
  by (simp_all add: sc_execution_def executions_with_def sc_fields4 sc_response_def)

lemma sc_put_execution: "ex_id x = ex_id y \<Longrightarrow> tbl_put ex_id x [y] = [x]"
  by (simp add: tbl_put_def tbl_upd_def)

definition sc_case7 :: review_case where
  "sc_case7 = sc_case6\<lparr>rc_status := VERIFYING, rc_version := 6, rc_updated_at := 5\<rparr>"

definition sc_db7 :: review_db where
  "sc_db7 = audit 5 ''MR-A'' (service_identity ''graph-build'' ''Graph Build'' ''service'' ''x1'')
     ''RERUN_SUCCEEDED'' (Some RERUNNING) VERIFYING [(''executionId'', JStr ''MOCK-COR-D'')]
     (sc_db6\<lparr>t_executions := [execution_after_event RERUN_SUCCEEDED 5 None sc_execution],
        t_corrections := [sc_correction\<lparr>co_status := CorDispatched\<rparr>],
        t_events := [sc_event_row ''x1'' RERUN_SUCCEEDED 5], t_cases := [sc_case7]\<rparr>)"

lemma sc_tables67 [simp]:
  "t_cases sc_db6 = [sc_case6]" "t_events sc_db6 = []" "t_executions sc_db6 = [sc_execution]"
  "t_corrections sc_db6 = [sc_correction\<lparr>co_status := CorDispatched\<rparr>]"
  "t_cases sc_db7 = [sc_case7]" "t_events sc_db7 = [sc_event_row ''x1'' RERUN_SUCCEEDED 5]"
  "t_corrections sc_db7 = [sc_correction\<lparr>co_status := CorDispatched\<rparr>]"
  "t_executions sc_db7 = [execution_after_event RERUN_SUCCEEDED 5 None sc_execution]"
  by (simp_all add: sc_db6_def sc_db7_def sc_executions)

lemma sc_fields67:
  "rc_id sc_case6 = ''MR-A''" "rc_status sc_case6 = RERUNNING" "rc_version sc_case6 = 5"
  "rc_pipeline_step_id sc_case6 = ''schema''"
  "rc_id sc_case7 = ''MR-A''" "rc_status sc_case7 = VERIFYING" "rc_version sc_case7 = 6"
  "rc_pipeline_step_id sc_case7 = ''schema''"
  by (simp_all add: sc_case7_def sc_case6_def sc_fields4)

lemma sc_event_ok: "callback_step_ok (ee_step_id (sc_event e ty)) ''schema''"
  by (simp add: callback_step_ok_def sc_event_def)

lemma sc_event_fields: "ee_event_id (sc_event e ty) = e" "ee_type (sc_event e ty) = ty"
  "ee_execution_id (sc_event e ty) = ''MOCK-COR-D''" "ee_occurred_at (sc_event e ty) = 5"
  "ee_error (sc_event e ty) = None"
  by (simp_all add: sc_event_def)

lemma sc_step7:
  "exec_review default_config sc_sha (CEvent 5 ''MR-A'' (sc_event ''x1'' RERUN_SUCCEEDED)) sc_db6 = Inr sc_db7"
proof -
  have n: "need sc_db6 ''MR-A'' = Inr sc_case6" by (simp add: need_def sc_fields67)
  have c: "(case_after_event RERUN_SUCCEEDED 5 sc_case6)\<lparr>rc_version := Suc 5, rc_updated_at := 5\<rparr> = sc_case7"
    by (simp add: case_after_event_def sc_case7_def)
  have k: "rc_id sc_case7 = rc_id sc_case6" by (simp add: sc_case7_def)
  have x: "ex_id (execution_after_event ty t err x) = ex_id x" for ty t err x
    by (simp add: execution_after_event_def split: event_type.split)
  have ev: "\<lparr>xe_event_id = ''x1'', xe_case_id = ''MR-A'', xe_execution_id = ''MOCK-COR-D'',
     xe_event_type = RERUN_SUCCEEDED, xe_stage = EVENT_STAGE RERUN_SUCCEEDED, xe_occurred_at = 5,
     xe_created_at = 5\<rparr> = sc_event_row ''x1'' RERUN_SUCCEEDED 5" by (simp add: sc_event_row_def)
  show ?thesis
    unfolding exec_review.simps execution_event_def n rbind_simps sc_fields67 Let_def sc_event_fields c ev
    by (simp add: sc_event_ok previous_stage_def sc_execution_fields save_case_def k sc_put
        sc_put_execution x sc_fields67) (simp add: sc_db7_def)
qed

definition sc_case8 :: review_case where
  "sc_case8 = sc_case7\<lparr>rc_status := RESOLVED, rc_completed_at := Some 6, rc_version := 7, rc_updated_at := 6\<rparr>"

definition sc_db8 :: review_db where
  "sc_db8 = audit 6 ''MR-A'' (service_identity ''graph-build'' ''Graph Build'' ''service'' ''x2'')
     ''VERIFICATION_SUCCEEDED'' (Some VERIFYING) RESOLVED [(''executionId'', JStr ''MOCK-COR-D'')]
     (sc_db7\<lparr>t_executions := [execution_after_event VERIFICATION_SUCCEEDED 6 None
          (execution_after_event RERUN_SUCCEEDED 5 None sc_execution)],
        t_corrections := [sc_correction\<lparr>co_status := CorApplied, co_applied_at := Some 6\<rparr>],
        t_events := [sc_event_row ''x1'' RERUN_SUCCEEDED 5, sc_event_row ''x2'' VERIFICATION_SUCCEEDED 6],
        t_cases := [sc_case8]\<rparr>)"

lemma sc_step8:
  "exec_review default_config sc_sha (CEvent 6 ''MR-A'' (sc_event ''x2'' VERIFICATION_SUCCEEDED)) sc_db7
     = Inr sc_db8"
proof -
  have n: "need sc_db7 ''MR-A'' = Inr sc_case7" by (simp add: need_def sc_fields67)
  have c: "(case_after_event VERIFICATION_SUCCEEDED 6 sc_case7)\<lparr>rc_version := Suc 6, rc_updated_at := 6\<rparr>
      = sc_case8"
    by (simp add: case_after_event_def sc_case8_def)
  have k: "rc_id sc_case8 = rc_id sc_case7" "rc_status sc_case8 = RESOLVED" by (simp_all add: sc_case8_def)
  have x: "ex_id (execution_after_event ty t err x) = ex_id x"
    "ex_case_id (execution_after_event ty t err x) = ex_case_id x" for ty t err x
    by (simp_all add: execution_after_event_def split: event_type.split)
  have ev: "\<lparr>xe_event_id = ''x2'', xe_case_id = ''MR-A'', xe_execution_id = ''MOCK-COR-D'',
     xe_event_type = VERIFICATION_SUCCEEDED, xe_stage = EVENT_STAGE VERIFICATION_SUCCEEDED, xe_occurred_at = 5,
     xe_created_at = 6\<rparr> = sc_event_row ''x2'' VERIFICATION_SUCCEEDED 6" by (simp add: sc_event_row_def)
  have p: "previous_stage sc_db7 ''MR-A'' ''MOCK-COR-D'' = 3"
    by (simp add: previous_stage_def) (simp add: sc_event_row_def)
  have r: "xe_event_id (sc_event_row e ty t) = e" for e ty t by (simp add: sc_event_row_def)
  have cor: "latest_correction sc_db7 ''MR-A'' = Some (sc_correction\<lparr>co_status := CorDispatched\<rparr>)"
    by (simp add: latest_correction_def) (simp add: sc_correction_def)
  show ?thesis
    unfolding exec_review.simps execution_event_def n rbind_simps sc_fields67 Let_def sc_event_fields c ev p
    using cor
    by (simp add: sc_event_ok sc_execution_fields save_case_def k sc_put
        sc_put_execution x r sc_fields67) (simp add: sc_db8_def tbl_put_def tbl_upd_def)
qed

lemma sc_tables8 [simp]: "t_cases sc_db8 = [sc_case8]" "rc_id sc_case8 = ''MR-A''" "rc_status sc_case8 = RESOLVED"
  "t_events sc_db8 = [sc_event_row ''x1'' RERUN_SUCCEEDED 5, sc_event_row ''x2'' VERIFICATION_SUCCEEDED 6]"
  by (simp_all add: sc_db8_def sc_case8_def sc_fields67)

lemma sc_reach_end:
  "reach (exec_review default_config sc_sha) empty_review_db sc_db5"
  "reach (exec_review default_config sc_sha) empty_review_db sc_db6"
  "reach (exec_review default_config sc_sha) empty_review_db sc_db7"
  "reach (exec_review default_config sc_sha) empty_review_db sc_db8"
  using sc_reach(4) sc_step5 sc_step6 sc_step7 sc_step8 by (meson reach_step)+

end
