(* ===== verification/Review_Safety.thy ===== *)
theory Review_Safety
  imports Review_Scenario
begin

text \<open>
  The safety properties of the manual-review service over its reachable databases: approval,
  status machine, history, idempotence of the ingress and of the callbacks, the outbox.
\<close>

section \<open>Decisions and corrections\<close>

lemma reachable_correction:
  assumes "reach (exec_review cf sha) empty_review_db db" and "0 < cf_max_attempts cf"
    and "x \<in> set (t_corrections db)"
  obtains c d where "tbl_get rc_id (co_case_id x) (t_cases db) = Some c" and "d \<in> set (t_decisions db)"
    and "de_status d = DecApproved" and "de_case_id d = co_case_id x" and "co_payload x = decision_payload d"
    and "validate_action (rc_template_id c) (de_action_id d) (de_result d) = Inr ()"
    and "requires_approval (rc_risk_level c) (de_action_id d) (de_result d) \<longrightarrow>
           (\<exists>u. de_approved_by d = Some u \<and> u \<noteq> de_submitted_by d)"
proof -
  have inv: "review_inv cf db" using assms(1,2) by (rule reachable_review_inv)
  then obtain d where d: "d \<in> set (t_decisions db)" "de_status d = DecApproved"
    "de_case_id d = co_case_id x" "co_payload x = decision_payload d"
    using assms(3) by (auto simp: review_inv_def corrections_inv_def correction_ok_def)
  then have "decision_ok (t_cases db) d"
    using inv by (simp add: review_inv_def decisions_inv_def)
  with d that show ?thesis by (auto simp: decision_ok_def split: option.splits)
qed

text \<open>
  C3: Nothing reaches the graph without an accepted decision.  In every reachable database each
  correction carries the result of an approved decision on the same case, whose action the
  template of the case allows with that result; and when the risk of the case, the action or the
  result asks for approval, the approver is a different user from the submitter.
\<close>

theorem corrections_are_approved:
  assumes "reach (exec_review cf sha) empty_review_db db" and "0 < cf_max_attempts cf"
    and "x \<in> set (t_corrections db)"
  shows "\<exists>c d. tbl_get rc_id (co_case_id x) (t_cases db) = Some c \<and> d \<in> set (t_decisions db) \<and>
           de_status d = DecApproved \<and> de_case_id d = co_case_id x \<and>
           co_payload x = decision_payload d \<and>
           validate_action (rc_template_id c) (de_action_id d) (de_result d) = Inr () \<and>
           (requires_approval (rc_risk_level c) (de_action_id d) (de_result d) \<longrightarrow>
             (\<exists>u. de_approved_by d = Some u \<and> u \<noteq> de_submitted_by d))"
  by (rule reachable_correction [OF assms]) blast

theorem corrections_are_approved_witness:
  "\<exists>u. de_approved_by sc_approved = Some u \<and> u \<noteq> de_submitted_by sc_approved"
proof -
  have "requires_approval (rc_risk_level sc_case4) a r" for a r
    by (simp add: requires_approval_def sc_case4_def case_after_decision_def sc_case3_def sc_case2_def
        sc_case1_def)
  then show ?thesis
    using corrections_are_approved [OF sc_reach(4) sc_attempts, of sc_correction]
    by (auto split: if_splits)
qed

section \<open>The status machine\<close>

fun move_ok :: "review_cmd \<Rightarrow> review_status \<Rightarrow> review_status \<Rightarrow> bool" where
  \<comment> \<open>the specification of the moves: command, old and new status\<close>
  "move_ok (CClaim env i a v) old new = (old = OPEN \<and> new = CLAIMED)"
| "move_ok (CRelease env i a v) old new = (new = OPEN)"
| "move_ok (CCancel env i a v) old new = (new = CANCELLED)"
| "move_ok (CDraft env i p a v) old new = (old \<in> set EDITABLE_STATUSES \<and> new = IN_REVIEW)"
| "move_ok (CSubmit env i action result msg a v) old new =
     (old \<in> set EDITABLE_STATUSES \<and> new \<in> {PENDING_APPROVAL, APPLYING})"
| "move_ok (CApprove env i ok msg a v) old new =
     (old = PENDING_APPROVAL \<and> new = (if ok then APPLYING else REJECTED))"
| "move_ok (CRetry env i a v) old new = (old \<in> {APPLY_FAILED, RERUN_FAILED} \<and> new = APPLYING)"
| "move_ok (CReclaim env minutes) old new = (old \<in> set EDITABLE_STATUSES \<and> new = OPEN)"
| "move_ok (CProcess post t oid) old new = (new \<in> {RERUNNING, APPLY_FAILED})"
| "move_ok (CEvent t i p) old new =
     (case ee_type p of
        CORRECTION_ACCEPTED \<Rightarrow> old = APPLYING \<and> new = RERUNNING
      | RERUN_STARTED \<Rightarrow> old = APPLYING \<and> new = RERUNNING
      | RERUN_PROGRESS \<Rightarrow> False
      | RERUN_SUCCEEDED \<Rightarrow> old = RERUNNING \<and> new = VERIFYING
      | RERUN_FAILED_EV \<Rightarrow> old = RERUNNING \<and> new = RERUN_FAILED
      | VERIFICATION_SUCCEEDED \<Rightarrow> old = VERIFYING \<and> new = RESOLVED
      | VERIFICATION_FAILED \<Rightarrow> old = VERIFYING \<and> new = RERUN_FAILED)"
| "move_ok _ old new = False"

lemma put_status:
  assumes "t_cases db' = tbl_put rc_id x' (t_cases db)" and "tbl_get rc_id k (t_cases db) = Some x"
    and "rc_id x' = rc_id x" and "tbl_get rc_id i (t_cases db) = Some c"
    and "tbl_get rc_id i (t_cases db') = Some c'" and "rc_status c' \<noteq> rc_status c"
  shows "c = x \<and> c' = x' \<and> i = k"
  using assms case_table.get_key [OF assms(2)] by (auto simp: case_table.get_put split: if_splits)

lemma mutate_status:
  assumes "mutate env k a values event admin v db = Inr db'" and "\<And>c. rc_id (values c) = rc_id c"
    and c: "tbl_get rc_id i (t_cases db) = Some c" and c': "tbl_get rc_id i (t_cases db') = Some c'"
    and ne: "rc_status c' \<noteq> rc_status c"
  shows "rc_status c' = rc_status (values c)"
  using assms(1)
proof (rule mutate_Inr)
  fix x x' assume x: "tbl_get rc_id k (t_cases db) = Some x"
    and x': "x' = (values x)\<lparr>rc_version := Suc (rc_version x), rc_updated_at := ce_now env\<rparr>"
    and db': "db' = audit (ce_now env) k a event (Some (rc_status x)) (rc_status x') [] (save_case x' db)"
  have "c = x \<and> c' = x' \<and> i = k"
    by (rule put_status [OF _ x _ c c' ne]) (simp_all add: db' x' assms(2))
  then show ?thesis by (simp add: x')
qed

lemma submit_status:
  assumes "submit sha env k action result msg a v db = Inr db'"
    and c: "tbl_get rc_id i (t_cases db) = Some c" and c': "tbl_get rc_id i (t_cases db') = Some c'"
    and ne: "rc_status c' \<noteq> rc_status c"
  shows "rc_status c \<in> set EDITABLE_STATUSES \<and> rc_status c' \<in> {PENDING_APPROVAL, APPLYING}"
  using assms(1)
proof (rule submit_Inr)
  fix x :: review_case and d :: review_decision and x' db2
  let ?ap = "requires_approval (rc_risk_level x) action result"
  assume x: "tbl_get rc_id k (t_cases db) = Some x" and ed: "rc_status x \<in> set EDITABLE_STATUSES"
    and x': "x' = x\<lparr>rc_submitted_by := Some (ri_user_id a),
                 rc_status := (if ?ap then PENDING_APPROVAL else APPLYING),
                 rc_version := Suc (rc_version x), rc_updated_at := ce_now env\<rparr>"
    and e: "(if ?ap then Inr (db\<lparr>t_decisions := t_decisions db @ [d]\<rparr>)
          else enqueue_correction sha env x d (db\<lparr>t_decisions := t_decisions db @ [d]\<rparr>)) = Inr db2"
    and db': "db' = audit (ce_now env) k a ''DECISION_SUBMITTED'' (Some (rc_status x)) (rc_status x')
                 [(''actionId'', JStr action)] (save_case x' db2)"
  have "c = x \<and> c' = x' \<and> i = k"
    by (rule put_status [OF _ x _ c c' ne]) (simp_all add: db' x' submit_cases [OF e])
  with ed show ?thesis by (simp add: x')
qed

lemma approve_status:
  assumes "approve sha env k ok msg a v db = Inr db'"
    and c: "tbl_get rc_id i (t_cases db) = Some c" and c': "tbl_get rc_id i (t_cases db') = Some c'"
    and ne: "rc_status c' \<noteq> rc_status c"
  shows "rc_status c = PENDING_APPROVAL \<and> rc_status c' = (if ok then APPLYING else REJECTED)"
  using assms(1)
proof (rule approve_Inr)
  fix x :: review_case and d d' :: review_decision and x' db2
  let ?db1 = "db\<lparr>t_decisions := tbl_put de_id d' (t_decisions db)\<rparr>"
  assume x: "tbl_get rc_id k (t_cases db) = Some x" and st: "rc_status x = PENDING_APPROVAL"
    and x': "x' = case_after_decision (ce_now env) ok x"
    and e: "(if ok then enqueue_correction sha env x d' ?db1 else Inr ?db1) = Inr db2"
    and db': "db' = audit (ce_now env) k a (if ok then ''DECISION_APPROVED'' else ''DECISION_REJECTED'')
                 (Some (rc_status x)) (rc_status x') [] (save_case x' db2)"
  have "t_cases db2 = t_cases db"
    using e by (auto dest: enqueue_correction_frame(1) split: if_splits)
  then have "c = x \<and> c' = x' \<and> i = k"
    by (intro put_status [OF _ x _ c c' ne]) (simp_all add: db' x' case_after_decision_def)
  with st show ?thesis by (simp add: x' case_after_decision_def)
qed

lemma retry_status:
  assumes "retry env k a v db = Inr db'"
    and c: "tbl_get rc_id i (t_cases db) = Some c" and c': "tbl_get rc_id i (t_cases db') = Some c'"
    and ne: "rc_status c' \<noteq> rc_status c"
  shows "rc_status c \<in> {APPLY_FAILED, RERUN_FAILED} \<and> rc_status c' = APPLYING"
  using assms(1)
proof (rule retry_Inr)
  fix x :: review_case and cor :: review_correction and x' db2
  assume x: "tbl_get rc_id k (t_cases db) = Some x" and st: "rc_status x \<in> {APPLY_FAILED, RERUN_FAILED}"
    and o: "outbox env k ''RESUME_REQUESTED'' [(''correctionId'', JStr (co_id cor)), (''retry'', JBool True)]
           (db\<lparr>t_corrections := tbl_put co_id (cor\<lparr>co_status := CorPending, co_last_error := None,
              co_attempts := Suc (co_attempts cor)\<rparr>) (t_corrections db)\<rparr>) = Inr db2"
    and x': "x' = x\<lparr>rc_status := APPLYING, rc_version := Suc (rc_version x), rc_updated_at := ce_now env\<rparr>"
    and db': "db' = audit (ce_now env) k a ''CASE_RETRIED'' (Some (rc_status x)) APPLYING [] (save_case x' db2)"
  have "c = x \<and> c' = x' \<and> i = k"
    using outbox_frame(1) [OF o] by (intro put_status [OF _ x _ c c' ne]) (simp_all add: db' x')
  with st show ?thesis by (simp add: x')
qed

lemma claim_status:
  assumes "claim env k a v db = Inr db'"
    and c: "tbl_get rc_id i (t_cases db) = Some c" and c': "tbl_get rc_id i (t_cases db') = Some c'"
    and ne: "rc_status c' \<noteq> rc_status c"
  shows "rc_status c = OPEN \<and> rc_status c' = CLAIMED"
  using assms(1)
proof (rule claim_Inr)
  fix x x' assume x: "tbl_get rc_id k (t_cases db) = Some x" and st: "rc_status x = OPEN"
    and x': "x' = x\<lparr>rc_status := CLAIMED, rc_assignee_id := Some (ri_user_id a),
               rc_assignee_name := Some (ri_user_name a), rc_claimed_at := Some (ce_now env),
               rc_heartbeat_at := Some (ce_now env), rc_updated_at := ce_now env,
               rc_version := Suc (rc_version x)\<rparr>"
    and db': "db' = audit (ce_now env) k a ''CASE_CLAIMED'' (Some OPEN) CLAIMED [] (save_case x' db)"
  have "c = x \<and> c' = x' \<and> i = k"
    by (rule put_status [OF _ x _ c c' ne]) (simp_all add: db' x')
  with st show ?thesis by (simp add: x')
qed

lemma draft_status:
  assumes "draft env k p a v db = Inr db'"
    and c: "tbl_get rc_id i (t_cases db) = Some c" and c': "tbl_get rc_id i (t_cases db') = Some c'"
    and ne: "rc_status c' \<noteq> rc_status c"
  shows "rc_status c \<in> set EDITABLE_STATUSES \<and> rc_status c' = IN_REVIEW"
  using assms(1)
proof (rule draft_Inr)
  fix x x' drs assume x: "tbl_get rc_id k (t_cases db) = Some x"
    and st: "rc_status x \<in> set EDITABLE_STATUSES"
    and x': "x' = x\<lparr>rc_status := IN_REVIEW, rc_version := Suc (rc_version x), rc_updated_at := ce_now env\<rparr>"
    and db': "db' = audit (ce_now env) k a ''DRAFT_SAVED'' (Some (rc_status x)) IN_REVIEW []
           (save_case x' (db\<lparr>t_drafts := drs\<rparr>))"
  have "c = x \<and> c' = x' \<and> i = k"
    by (rule put_status [OF _ x _ c c' ne]) (simp_all add: db' x')
  with st show ?thesis by (simp add: x')
qed

definition unclaimed :: "call_env \<Rightarrow> review_case \<Rightarrow> review_case" where
  \<comment> \<open>the case after its claim has expired\<close>
  "unclaimed env c = c\<lparr>rc_status := OPEN, rc_assignee_id := None, rc_assignee_name := None,
     rc_claimed_at := None, rc_heartbeat_at := None, rc_version := Suc (rc_version c),
     rc_updated_at := ce_now env\<rparr>"

lemma reclaim_one_case:
  "tbl_get rc_id i (t_cases (reclaim_one env db c)) =
     (if i = rc_id c then Some (unclaimed env c) else tbl_get rc_id i (t_cases db))"
  by (simp add: reclaim_one_get unclaimed_def)

lemma reclaim_fold_case:
  "keys_ok rc_id rows \<Longrightarrow>
     tbl_get rc_id i (t_cases (foldl (reclaim_one env) db rows)) =
       (case tbl_get rc_id i rows of None \<Rightarrow> tbl_get rc_id i (t_cases db)
        | Some c \<Rightarrow> Some (unclaimed env c))"
proof (induction rows arbitrary: db)
  case Nil
  then show ?case by simp
next
  case (Cons c rows)
  have "tbl_get rc_id (rc_id c) rows = None"
    using Cons.prems by (simp add: keys_ok_def tbl_get_None_iff)
  with Cons show ?case
    by (auto simp: keys_ok_def reclaim_one_case split: option.split)
qed

lemma tbl_get_filter:
  assumes "keys_ok key t"
  shows "tbl_get key i (filter P t) =
    (case tbl_get key i t of None \<Rightarrow> None | Some r \<Rightarrow> if P r then Some r else None)"
  using assms
proof (induction t)
  case Nil
  then show ?case by simp
next
  case (Cons r t)
  then have "tbl_get key (key r) (filter P t) = None"
    by (auto simp: keys_ok_def tbl_get_None_iff)
  with Cons show ?case by (auto simp: keys_ok_def)
qed

lemma reclaim_case:
  assumes "keys_ok rc_id (t_cases db)"
  shows "tbl_get rc_id i (t_cases (fst (reclaim_expired env minutes db))) =
    (case tbl_get rc_id i (t_cases db) of None \<Rightarrow> None
     | Some c \<Rightarrow> Some (if is_claim_expired (ce_now env - int minutes * 60) c then unclaimed env c else c))"
proof -
  have "keys_ok rc_id (filter P (t_cases db))" for P
    using assms by (simp add: keys_ok_def distinct_map_filter)
  then show ?thesis
    by (simp add: reclaim_expired_def Let_def reclaim_fold_case tbl_get_filter [OF assms]
        split: option.split)
qed

lemma process_status:
  assumes inv: "review_inv cf db" and p: "process_claimed cf post t oid db = Inr (db', out)"
    and c: "tbl_get rc_id i (t_cases db) = Some c" and c': "tbl_get rc_id i (t_cases db') = Some c'"
    and ne: "rc_status c' \<noteq> rc_status c"
  shows "rc_status c' \<in> {RERUNNING, APPLY_FAILED}"
  using p
proof (cases rule: process_claimed_cases)
  case same
  with c c' ne show ?thesis by simp
next
  case (other x)
  with outbox_row_facts(1) [OF inv other(1)] show ?thesis by (simp add: outbox_ok_def)
next
  case (done_ x y cid cor resp)
  have "c = y \<and> c' = y\<lparr>rc_status := RERUNNING, rc_version := Suc (rc_version y), rc_updated_at := t\<rparr>
      \<and> i = ob_case_id x"
    by (rule put_status [OF _ done_(3) _ c c' ne]) (simp_all add: outbox_success_Inr [OF done_(7)])
  then show ?thesis by simp
next
  case (failed x y cid cor msg)
  have "c = y \<and> c' = y\<lparr>rc_status := APPLY_FAILED, rc_version := Suc (rc_version y), rc_updated_at := t\<rparr>
      \<and> i = ob_case_id x"
    by (rule put_status [OF _ failed(3) _ c c' ne]) (simp_all add: failed(6) outbox_failure_def Let_def)
  then show ?thesis by simp
qed

lemma event_status:
  assumes p: "execution_event t k p db = Inr (db', dup)"
    and c: "tbl_get rc_id i (t_cases db) = Some c" and c': "tbl_get rc_id i (t_cases db') = Some c'"
    and ne: "rc_status c' \<noteq> rc_status c"
  shows "i = k \<and> rc_status c \<in> set (event_allowed (ee_type p)) \<and>
    rc_status c' = rc_status (case_after_event (ee_type p) t c) \<and>
    (\<exists>e \<in> set (t_events db'). xe_case_id e = i \<and> xe_event_type e = ee_type p)"
  using p
proof (cases rule: execution_event_Inr)
  case (replay e)
  with c c' ne show ?thesis by simp
next
  case (taken x x' cors execs ev d)
  have "rc_id x' = rc_id x"
    using case_after_event_static [of x "ee_type p" t] taken(7) by (simp add: static_eq_def)
  then have "c = x \<and> c' = x' \<and> i = k"
    by (intro put_status [OF _ taken(2) _ c c' ne]) (simp_all add: taken(10))
  with taken(6,7,9,10) show ?thesis by auto
qed

lemma status_moves:
  assumes inv: "review_inv cf db" and e: "exec_review cf sha cmd db = Inr db'"
    and c: "tbl_get rc_id i (t_cases db) = Some c" and c': "tbl_get rc_id i (t_cases db') = Some c'"
    and ne: "rc_status c' \<noteq> rc_status c"
  shows "move_ok cmd (rc_status c) (rc_status c')"
proof (cases cmd)
  case (CIngress env actor p)
  with e obtain resp where "create_review_required cf sha env actor p db = Inr (db', resp)"
    by (auto elim!: rbindE)
  then show ?thesis
    using c c' ne by (cases rule: ingress_Inr) (auto simp: tbl_get_append)
next
  case (CClaim env k a v)
  with e claim_status [OF _ c c' ne] show ?thesis by simp
next
  case (CHeartbeat env k a v)
  with e mutate_status [OF _ _ c c' ne] ne show ?thesis by (fastforce simp: heartbeat_def)
next
  case (CRelease env k a v)
  with e mutate_status [OF _ _ c c' ne] show ?thesis by (fastforce simp: release_def)
next
  case (CTransfer env k uid name a v)
  with e have "transfer env k uid name a v db = Inr db'" by simp
  from mutate_status [OF transfer_Inr [OF this] _ c c' ne] ne show ?thesis by simp
next
  case (CCancel env k a v)
  with e have "cancel env k a v db = Inr db'" by simp
  from mutate_status [OF cancel_Inr [OF this] _ c c' ne] CCancel show ?thesis by simp
next
  case (CDraft env k p a v)
  with e draft_status [OF _ c c' ne] show ?thesis by simp
next
  case (CSubmit env k action result msg a v)
  with e submit_status [OF _ c c' ne] show ?thesis by simp
next
  case (CApprove env k ok msg a v)
  with e approve_status [OF _ c c' ne] show ?thesis by simp
next
  case (CRetry env k a v)
  with e retry_status [OF _ c c' ne] show ?thesis by simp
next
  case (CReclaim env minutes)
  with e have db': "db' = fst (reclaim_expired env minutes db)" by simp
  with c c' ne reclaim_case [OF review_inv_keys(1) [OF inv], of i env minutes] CReclaim show ?thesis
    by (auto simp: unclaimed_def is_claim_expired_def EDITABLE_STATUSES_def split: if_splits)
next
  case (CRecover t)
  with e c c' ne show ?thesis by (auto simp: recover_stale_def)
next
  case (CClaimOutbox t oid)
  with e c c' ne show ?thesis by (auto simp: claim_outbox_def split: option.splits if_splits)
next
  case (CProcess post t oid)
  with e process_status [OF inv _ c c' ne] show ?thesis by (auto elim!: rbindE)
next
  case (CEvent t k p)
  with e obtain dup where "execution_event t k p db = Inr (db', dup)" by (auto elim!: rbindE)
  from event_status [OF this c c' ne] ne CEvent show ?thesis
    by (cases "ee_type p") (auto simp: case_after_event_def)
next
  case (CEvidence head t k p a)
  with e have "evidence_complete head t k p a db = Inr db'" by simp
  then show ?thesis using c c' ne by (auto elim!: evidence_complete_Inr)
qed

text \<open>
  C13: Every change of a case's status, by whatever command (reviewer, worker, callback or
  reclaimer), is one of the moves of the state machine for that command; in particular
  RESOLVED is entered only from VERIFYING by a successful verification and APPLYING only by an
  accepted decision or a retry.
\<close>

theorem status_machine:
  assumes "reach (exec_review cf sha) empty_review_db db" and "0 < cf_max_attempts cf"
    and "exec_review cf sha cmd db = Inr db'"
    and "tbl_get rc_id i (t_cases db) = Some c" and "tbl_get rc_id i (t_cases db') = Some c'"
    and "rc_status c' \<noteq> rc_status c"
  shows "move_ok cmd (rc_status c) (rc_status c')"
  by (rule status_moves [OF reachable_review_inv [OF assms(1,2)] assms(3-)])

lemma sc_statuses:
  "tbl_get rc_id ''MR-A'' (t_cases sc_db3) = Some sc_case3"
  "tbl_get rc_id ''MR-A'' (t_cases sc_db4) = Some sc_case4"
  "rc_status sc_case3 = PENDING_APPROVAL" "rc_status sc_case4 = APPLYING"
  by (simp_all add: sc_case4_def case_after_decision_def sc_case3_def sc_case2_def sc_case1_def)

theorem status_machine_witness: "move_ok sc_cmd4 PENDING_APPROVAL APPLYING"
  using status_machine [OF sc_reach(3) sc_attempts sc_step4 sc_statuses(1,2)] sc_statuses(3,4) by simp

lemma approve_cases:
  "(if ok then enqueue_correction sha env c d (db\<lparr>t_decisions := ds\<rparr>) else Inr (db\<lparr>t_decisions := ds\<rparr>))
     = Inr db2 \<Longrightarrow> t_cases db2 = t_cases db"
  by (auto dest: enqueue_correction_frame(1) split: if_splits)

definition resolved_inv :: "review_db \<Rightarrow> bool" where
  "resolved_inv db \<longleftrightarrow> (\<forall>i c. tbl_get rc_id i (t_cases db) = Some c \<longrightarrow> rc_status c = RESOLVED \<longrightarrow>
     (\<exists>e \<in> set (t_events db). xe_case_id e = i \<and> xe_event_type e = VERIFICATION_SUCCEEDED))"

lemma ingress_status:
  assumes "build_case cf sha env p = Inr c"
  shows "rc_status c = OPEN" and "rc_version c = 1" and "rc_event_id c = rr_event_id p"
    and "rc_dedupe_key c = dedupe_key_of sha p" and "rc_pipeline_step_id c = rr_step_id p"
    and "validate_step_template (rr_step_id p) (rr_template_id p) = Inr (rc_template_id c)"
  using assms by (auto simp: build_case_def elim!: rbindE split: if_splits option.splits prod.splits)

lemma new_case_open:
  assumes e: "exec_review cf sha cmd db = Inr db'" and inv: "review_inv cf db"
    and n: "tbl_get rc_id i (t_cases db) = None" and c': "tbl_get rc_id i (t_cases db') = Some c'"
  shows "rc_status c' = OPEN"
proof -
  have put: False if "t_cases db' = tbl_put rc_id x' (t_cases db)"
    "tbl_get rc_id k (t_cases db) = Some x" "rc_id x' = rc_id x" for x x' k
    using that n c' case_table.get_key [OF that(2)]
    by (auto simp: case_table.get_put split: if_splits)
  have mut: False if "mutate env k a values event admin v db = Inr db'"
    "\<And>c. rc_id (values c) = rc_id c" for env k a "values" event admin v
    using that(1)
  proof (rule mutate_Inr)
    fix x x' assume x: "tbl_get rc_id k (t_cases db) = Some x"
      and "x' = (values x)\<lparr>rc_version := Suc (rc_version x), rc_updated_at := ce_now env\<rparr>"
      and "db' = audit (ce_now env) k a event (Some (rc_status x)) (rc_status x') [] (save_case x' db)"
    then show False by (intro put [OF _ x, where x' = x']) (simp_all add: that(2))
  qed
  show ?thesis
  proof (cases cmd)
    case (CIngress env actor p)
    with e obtain resp where "create_review_required cf sha env actor p db = Inr (db', resp)"
      by (auto elim!: rbindE)
    then show ?thesis
      using n c' by (cases rule: ingress_Inr) (auto simp: tbl_get_append ingress_status split: if_splits)
  next
    case (CClaim env k a v)
    with e have "claim env k a v db = Inr db'" by simp
    then have False by (rule claim_Inr) (rule put, simp, assumption, simp)
    then show ?thesis ..
  next
    case (CHeartbeat env k a v)
    with e mut show ?thesis by (fastforce simp: heartbeat_def)
  next
    case (CRelease env k a v)
    with e mut show ?thesis by (fastforce simp: release_def)
  next
    case (CTransfer env k uid name a v)
    with e have "transfer env k uid name a v db = Inr db'" by simp
    from mut [OF transfer_Inr [OF this]] show ?thesis by simp
  next
    case (CCancel env k a v)
    with e have "cancel env k a v db = Inr db'" by simp
    from mut [OF cancel_Inr [OF this]] show ?thesis by simp
  next
    case (CDraft env k p a v)
    with e have "draft env k p a v db = Inr db'" by simp
    then have False by (rule draft_Inr) (rule put, simp, assumption, simp)
    then show ?thesis ..
  next
    case (CSubmit env k action result msg a v)
    with e have "submit sha env k action result msg a v db = Inr db'" by simp
    then have False by (rule submit_Inr) (frule submit_cases, rule put, simp, assumption, simp)
    then show ?thesis ..
  next
    case (CApprove env k ok msg a v)
    with e have "approve sha env k ok msg a v db = Inr db'" by simp
    then have False
      by (rule approve_Inr)
        (frule approve_cases, rule put, simp, assumption, simp add: case_after_decision_def)
    then show ?thesis ..
  next
    case (CRetry env k a v)
    with e have "retry env k a v db = Inr db'" by simp
    then have False by (rule retry_Inr) (frule outbox_frame(1), rule put, simp, assumption, simp)
    then show ?thesis ..
  next
    case (CReclaim env minutes)
    with e n c' reclaim_case [OF review_inv_keys(1) [OF inv], of i env minutes] show ?thesis by auto
  next
    case (CRecover t)
    with e n c' show ?thesis by (auto simp: recover_stale_def)
  next
    case (CClaimOutbox t oid)
    with e n c' show ?thesis by (auto simp: claim_outbox_def split: option.splits if_splits)
  next
    case (CProcess post t oid)
    with e obtain out where "process_claimed cf post t oid db = Inr (db', out)" by (auto elim!: rbindE)
    then show ?thesis
    proof (cases rule: process_claimed_cases)
      case same
      with n c' show ?thesis by simp
    next
      case (other x)
      with outbox_row_facts(1) [OF inv other(1)] show ?thesis by (simp add: outbox_ok_def)
    next
      case (done_ x y cid cor resp)
      have False by (rule put [OF _ done_(3)], simp add: outbox_success_Inr [OF done_(7)], simp)
      then show ?thesis ..
    next
      case (failed x y cid cor msg)
      have False by (rule put [OF _ failed(3)], simp add: failed(6) outbox_failure_def Let_def, simp)
      then show ?thesis ..
    qed
  next
    case (CEvent t k p)
    with e obtain dup where "execution_event t k p db = Inr (db', dup)" by (auto elim!: rbindE)
    then show ?thesis
    proof (cases rule: execution_event_Inr)
      case (replay e)
      with n c' show ?thesis by simp
    next
      case (taken x x' cors execs ev d)
      have "rc_id x' = rc_id x"
        using case_after_event_static [of x "ee_type p" t] taken(7) by (simp add: static_eq_def)
      then have False by (intro put [OF _ taken(2), where x' = x']) (simp_all add: taken(10))
      then show ?thesis ..
    qed
  next
    case (CEvidence head t k p a)
    with e have "evidence_complete head t k p a db = Inr db'" by simp
    then show ?thesis using n c' by (auto elim!: evidence_complete_Inr)
  qed
qed

lemma resolved_keeps:
  assumes inv: "review_inv cf db" and r: "resolved_inv db" and e: "exec_review cf sha cmd db = Inr db'"
  shows "resolved_inv db'"
  unfolding resolved_inv_def
proof (intro allI impI)
  fix i c'
  assume c': "tbl_get rc_id i (t_cases db') = Some c'" and st: "rc_status c' = RESOLVED"
  have sub: "set (t_events db) \<subseteq> set (t_events db')"
    using exec_review_grows [OF inv e] by (auto simp: review_grows_def dest: set_mono_prefix)
  obtain c where c: "tbl_get rc_id i (t_cases db) = Some c"
    using new_case_open [OF e inv _ c'] st by (cases "tbl_get rc_id i (t_cases db)") auto
  show "\<exists>e \<in> set (t_events db'). xe_case_id e = i \<and> xe_event_type e = VERIFICATION_SUCCEEDED"
  proof (cases "rc_status c = RESOLVED")
    case True
    with c r sub show ?thesis unfolding resolved_inv_def by blast
  next
    case False
    with st have ne: "rc_status c' \<noteq> rc_status c" by simp
    from status_moves [OF inv e c c' ne] st obtain t k p where cmd: "cmd = CEvent t k p"
      and ty: "ee_type p = VERIFICATION_SUCCEEDED"
      by (cases cmd) (auto split: event_type.splits if_splits)
    with e obtain dup where ev: "execution_event t k p db = Inr (db', dup)" by (auto elim!: rbindE)
    from event_status [OF ev c c' ne] ty show ?thesis by auto
  qed
qed

text \<open>
  C19: A case is RESOLVED only when graph construction has reported a successful verification
  for it: the event is in the event table.
\<close>

theorem resolved_is_verified:
  assumes r: "reach (exec_review cf sha) empty_review_db db" and m: "0 < cf_max_attempts cf"
    and c: "tbl_get rc_id i (t_cases db) = Some c" and st: "rc_status c = RESOLVED"
  shows "\<exists>e \<in> set (t_events db). xe_case_id e = i \<and> xe_event_type e = VERIFICATION_SUCCEEDED"
proof -
  from r have "review_inv cf db \<and> resolved_inv db"
  proof (induction rule: reach.induct)
    case reach_init
    then show ?case using review_inv_empty [OF m] by (simp add: resolved_inv_def empty_review_db_def)
  next
    case (reach_step s cmd s')
    then show ?case by (blast intro: exec_review_keeps resolved_keeps)
  qed
  with c st show ?thesis by (simp add: resolved_inv_def)
qed

theorem resolved_is_verified_witness:
  "\<exists>e \<in> set (t_events sc_db8). xe_case_id e = ''MR-A'' \<and> xe_event_type e = VERIFICATION_SUCCEEDED"
  using resolved_is_verified [OF sc_reach_end(4) sc_attempts, of "''MR-A''" sc_case8] by simp

section \<open>History\<close>

text \<open>
  C15: History is never rewritten.  Whatever commands run between two reachable databases, the
  audit trail, the callback events and the evidence of the first are prefixes of those of the
  second; cases keep their identity and template and change only with a higher version;
  corrections keep their content and hash; a decided decision stays as it is.
\<close>

theorem history_is_append_only:
  assumes "reach (exec_review cf sha) empty_review_db db" and "0 < cf_max_attempts cf"
    and "reach (exec_review cf sha) db db'"
  shows "review_grows db db'"
  by (rule reach_review_grows [OF assms(3) reachable_review_inv [OF assms(1,2)]])

theorem history_is_append_only_witness: "review_grows sc_db4 sc_db8"
proof -
  have "reach (exec_review default_config sc_sha) sc_db4 sc_db8"
    using sc_step5 sc_step6 sc_step7 sc_step8 by (meson reach_init reach_step)
  then show ?thesis by (rule history_is_append_only [OF sc_reach(4) sc_attempts])
qed

section \<open>Idempotence\<close>

lemma build_case_det:
  assumes "build_case cf sha env p = Inr c" and "build_case cf sha env' p = Inr c'"
  shows "rc_event_id c' = rc_event_id c" and "rc_dedupe_key c' = rc_dedupe_key c"
  using assms ingress_status by metis+

lemma build_case_env:
  "is_ok (build_case cf sha env p) = is_ok (build_case cf sha env' p)"
  unfolding build_case_def
  by (auto simp: is_ok_def rbind_def split: sum.split option.split prod.split)

text \<open>
  Reporting the same exception again is harmless, at any later time: once an event has been
  accepted, a redelivery in any later database answers with the same case, marked as a
  duplicate, and leaves the database as it is.
\<close>

theorem ingress_redelivery:
  assumes "reach (exec_review cf sha) empty_review_db db" and "0 < cf_max_attempts cf"
    and p: "create_review_required cf sha env actor p db = Inr (db1, resp)"
    and r: "reach (exec_review cf sha) db1 db2"
  shows "\<exists>resp2. create_review_required cf sha env2 actor2 p db2 = Inr (db2, resp2) \<and> ir_duplicate resp2"
proof -
  have inv: "review_inv cf db1"
    using reachable_review_inv [OF assms(1,2)] p by (rule ingress_inv)
  obtain x where x: "tbl_get rc_id (rc_id x) (t_cases db1) = Some x"
    "rc_event_id x = rr_event_id p \<or> rc_dedupe_key x = dedupe_key_of sha p"
    using p
  proof (cases rule: ingress_Inr)
    case (duplicate x)
    with that tbl_get_unique [OF review_inv_keys(1) [OF inv]] show ?thesis by blast
  next
    case (created c)
    then have "c \<in> set (t_cases db1)" by simp
    with that created(1) ingress_status(3) tbl_get_unique [OF review_inv_keys(1) [OF inv]]
    show ?thesis by blast
  qed
  then obtain x2 where "tbl_get rc_id (rc_id x) (t_cases db2) = Some x2" and g: "case_grows x x2"
    using reach_review_grows [OF r inv] unfolding review_grows_def rows_grow_def by blast
  then have m: "x2 \<in> set (t_cases db2)" by (auto dest: tbl_get_Some)
  have q: "rc_event_id x2 = rr_event_id p \<or> rc_dedupe_key x2 = dedupe_key_of sha p"
    using g x(2) by (auto simp: case_grows_def static_eq_def)
  obtain c where c: "build_case cf sha env2 p = Inr c"
    using p build_case_env [of cf sha env p env2]
    by (auto simp: create_review_required_def is_ok_iff elim!: rbindE)
  obtain y where "find_existing db2 (rr_event_id p) (rc_dedupe_key c) = Some y"
    using m q ingress_status(4) [OF c]
    by (cases "find_existing db2 (rr_event_id p) (rc_dedupe_key c)")
      (auto simp: find_existing_def find_None_iff)
  with c show ?thesis
    by (auto simp: create_review_required_def ingress_response_of_def)
qed

lemma sc_ingress:
  "create_review_required default_config sc_sha (sc_env 0 ''A'') ''svc'' sc_request empty_review_db
     = Inr (sc_db1, ingress_response_of sc_case1 False)"
  using sc_build
  by (simp add: create_review_required_def ingress_commit_def find_existing_def
      violates_unique_def empty_review_db_def sc_db1_def) (simp add: sc_case1_def)

theorem ingress_redelivery_witness:
  "\<exists>resp2. create_review_required default_config sc_sha (sc_env 9 ''Z'') ''other'' sc_request sc_db1
     = Inr (sc_db1, resp2) \<and> ir_duplicate resp2"
  by (rule ingress_redelivery [OF reach_init sc_attempts sc_ingress reach_init])

text \<open>
  No exception has two cases, also under a race: when another session commits between the
  lookup and the insert, the commit either inserts the only case with that event and dedupe
  key, or answers with the case that the other session made, or fails with the database
  unchanged.
\<close>

theorem ingress_commit_race:
  assumes inv: "review_inv cf db" and c: "build_case cf sha env p = Inr c"
    and commit: "ingress_commit actor c db = Inr (db', resp)"
  shows "review_inv cf db' \<and>
    (\<exists>!x. x \<in> set (t_cases db') \<and> rc_id x = ir_review_id resp) \<and>
    (\<forall>x \<in> set (t_cases db'). rc_id x = ir_review_id resp \<longrightarrow>
        rc_event_id x = rc_event_id c \<or> rc_dedupe_key x = rc_dedupe_key c) \<and>
    (ir_duplicate resp \<longrightarrow> db' = db)"
proof (cases "violates_unique db c")
  case True
  with commit obtain x where f: "find_existing db (rc_event_id c) (rc_dedupe_key c) = Some x"
    and r: "db' = db" "resp = ingress_response_of x True"
    by (auto simp: ingress_commit_def split: option.splits)
  have x: "x \<in> set (t_cases db)" "rc_event_id x = rc_event_id c \<or> rc_dedupe_key x = rc_dedupe_key c"
    using f by (auto simp: find_existing_def find_Some_iff)
  have u: "y = x" if "y \<in> set (t_cases db)" "rc_id y = rc_id x" for y
  proof -
    have "tbl_get rc_id (rc_id x) (t_cases db) = Some y"
      using tbl_get_unique [OF review_inv_keys(1) [OF inv] that(1)] unfolding that(2) .
    moreover have "tbl_get rc_id (rc_id x) (t_cases db) = Some x"
      by (rule tbl_get_unique [OF review_inv_keys(1) [OF inv] x(1)])
    ultimately show ?thesis by simp
  qed
  have i: "ir_review_id resp = rc_id x" by (simp add: r ingress_response_of_def)
  show ?thesis
    unfolding i r(1)
  proof (intro conjI)
    show "review_inv cf db" by (rule inv)
    show "\<exists>!y. y \<in> set (t_cases db) \<and> rc_id y = rc_id x" using x(1) u by blast
    show "\<forall>y\<in>set (t_cases db). rc_id y = rc_id x \<longrightarrow>
        rc_event_id y = rc_event_id c \<or> rc_dedupe_key y = rc_dedupe_key c" using x(2) u by blast
  qed simp
next
  case False
  with commit have db': "t_cases db' = t_cases db @ [c]" and r: "resp = ingress_response_of c False"
    by (auto simp: ingress_commit_def)
  have "find_existing db (rr_event_id p) (rc_dedupe_key c) = None"
    using False ingress_status(3) [OF c]
    by (auto simp: find_existing_def violates_unique_def list_ex_iff find_None_iff)
  then have e: "create_review_required cf sha env actor p db = Inr (db', resp)"
    using commit c by (simp add: create_review_required_def)
  have n: "x = c" if "x \<in> set (t_cases db')" "rc_id x = rc_id c" for x
  proof -
    from that(1) have "x \<in> set (t_cases db) \<or> x = c" by (auto simp: db')
    with that(2) False show ?thesis unfolding violates_unique_def list_ex_iff by blast
  qed
  have i: "ir_review_id resp = rc_id c" "ir_duplicate resp = False"
    by (simp_all add: r ingress_response_of_def)
  have m: "c \<in> set (t_cases db')" by (simp add: db')
  show ?thesis
    unfolding i
  proof (intro conjI)
    show "review_inv cf db'" by (rule ingress_inv [OF inv e])
    show "\<exists>!x. x \<in> set (t_cases db') \<and> rc_id x = rc_id c" using m n by blast
    show "\<forall>x\<in>set (t_cases db'). rc_id x = rc_id c \<longrightarrow>
        rc_event_id x = rc_event_id c \<or> rc_dedupe_key x = rc_dedupe_key c" using n by blast
  qed simp
qed

theorem ingress_commit_race_witness:
  "\<exists>!x. x \<in> set (t_cases sc_db1) \<and> rc_id x = ''MR-A''"
proof -
  have "ingress_commit ''svc'' sc_case1 empty_review_db = Inr (sc_db1, ingress_response_of sc_case1 False)"
    by (simp add: ingress_commit_def violates_unique_def empty_review_db_def sc_db1_def)
      (simp add: sc_case1_def)
  from ingress_commit_race [OF review_inv_empty [OF sc_attempts] sc_build this] show ?thesis
    by (simp add: ingress_response_of_def) (simp add: sc_case1_def)
qed

section \<open>Optimistic locking\<close>

fun cmd_lock :: "review_cmd \<Rightarrow> (string \<times> nat) option" where
  \<comment> \<open>the case a command of a reviewer works on and the version it was prepared against\<close>
  "cmd_lock (CClaim env i a v) = Some (i, v)"
| "cmd_lock (CHeartbeat env i a v) = Some (i, v)"
| "cmd_lock (CRelease env i a v) = Some (i, v)"
| "cmd_lock (CTransfer env i uid name a v) = Some (i, v)"
| "cmd_lock (CCancel env i a v) = Some (i, v)"
| "cmd_lock (CDraft env i p a v) = Some (i, v)"
| "cmd_lock (CSubmit env i action result msg a v) = Some (i, v)"
| "cmd_lock (CApprove env i ok msg a v) = Some (i, v)"
| "cmd_lock (CRetry env i a v) = Some (i, v)"
| "cmd_lock _ = None"

lemma cmd_lock_checks:
  assumes "cmd_lock cmd = Some (i, v)" and "exec_review cf sha cmd db = Inr db'"
  shows "case_version i db = Some v \<and> case_version i db' = Some (Suc v)"
proof (cases cmd)
  case (CClaim env k a w)
  with assms claim_lock.op_checks claim_lock.op_bumps show ?thesis by auto
next
  case (CHeartbeat env k a w)
  with assms heartbeat_lock.op_checks heartbeat_lock.op_bumps show ?thesis by auto
next
  case (CRelease env k a w)
  with assms release_lock.op_checks release_lock.op_bumps show ?thesis by auto
next
  case (CTransfer env k uid name a w)
  with assms transfer_lock.op_checks transfer_lock.op_bumps show ?thesis by auto
next
  case (CCancel env k a w)
  with assms cancel_lock.op_checks cancel_lock.op_bumps show ?thesis by auto
next
  case (CDraft env k p a w)
  with assms draft_lock.op_checks draft_lock.op_bumps show ?thesis by auto
next
  case (CSubmit env k action result msg a w)
  with assms submit_lock.op_checks submit_lock.op_bumps show ?thesis by auto
next
  case (CApprove env k ok msg a w)
  with assms approve_lock.op_checks approve_lock.op_bumps show ?thesis by auto
next
  case (CRetry env k a w)
  with assms retry_lock.op_checks retry_lock.op_bumps show ?thesis by auto
qed (use assms in simp_all)

text \<open>
  Two reviewers never both win.  Of two commands prepared against the same version of a
  case, whatever they are and whatever runs between them, at most one succeeds.
\<close>

theorem stale_command_refused:
  assumes "reach (exec_review cf sha) empty_review_db db" and "0 < cf_max_attempts cf"
    and "cmd_lock cmd1 = Some (i, v)" and "cmd_lock cmd2 = Some (i, v)"
    and "exec_review cf sha cmd1 db = Inr db1"
    and "reach (exec_review cf sha) db1 db2"
  shows "\<not> is_ok (exec_review cf sha cmd2 db2)"
proof
  assume "is_ok (exec_review cf sha cmd2 db2)"
  then have v2: "case_version i db2 = Some v"
    using cmd_lock_checks [OF assms(4)] by (auto simp: is_ok_iff)
  have inv: "review_inv cf db1"
    using reachable_review_inv [OF assms(1,2)] assms(5) by (rule exec_review_keeps)
  from cmd_lock_checks [OF assms(3,5)] obtain c where c: "tbl_get rc_id i (t_cases db1) = Some c"
    and "rc_version c = Suc v" by (auto simp: case_version_def)
  moreover obtain c2 where "tbl_get rc_id i (t_cases db2) = Some c2" "case_grows c c2"
    using reach_review_grows [OF assms(6) inv] c unfolding review_grows_def rows_grow_def by blast
  ultimately show False using v2 by (auto simp: case_version_def case_grows_def)
qed

theorem stale_command_refused_witness:
  "\<not> is_ok (exec_review default_config sc_sha (CClaim (sc_env 2 ''C'') ''MR-A'' (sc_user ''u9'' ''reviewer'') 1) sc_db2)"
  by (rule stale_command_refused [OF sc_reach(1) sc_attempts _ _ sc_step2 reach_init, of "''MR-A''" 1])
    (simp_all add: sc_cmd2_def)

section \<open>Callbacks\<close>

text \<open>
  Callbacks are idempotent.  Once an execution event has been taken, its redelivery for the
  same case and step, in any later database, is acknowledged as a duplicate and changes
  nothing; and in every reachable database the stages recorded for an execution never go back.
\<close>

theorem callback_replay:
  assumes "reach (exec_review cf sha) empty_review_db db" and "0 < cf_max_attempts cf"
    and e: "execution_event t i p db = Inr (db1, dup)"
    and r: "reach (exec_review cf sha) db1 db2"
  shows "execution_event t2 i p db2 = Inr (db2, True) \<and>
    sorted (map xe_stage (filter (\<lambda>x. xe_case_id x = i \<and> xe_execution_id x = ee_execution_id p) (t_events db2)))"
proof -
  have inv: "review_inv cf db1"
    using reachable_review_inv [OF assms(1,2)] e by (rule execution_event_inv)
  have g: "review_grows db1 db2" by (rule reach_review_grows [OF r inv])
  have inv2: "review_inv cf db2" using r inv by (rule review.reach_keeps)
  obtain c where c: "tbl_get rc_id i (t_cases db) = Some c"
    and st: "callback_step_ok (ee_step_id p) (rc_pipeline_step_id c)"
    using e by (auto simp: execution_event_def need_Inr elim!: rbindE split: if_splits)
  have "review_grows db db2"
    using execution_event_grows [OF reachable_review_inv [OF assms(1,2)] e] g by (rule review_grows_trans)
  then obtain c2 where c2: "need db2 i = Inr c2" "rc_pipeline_step_id c2 = rc_pipeline_step_id c"
    using c unfolding review_grows_def rows_grow_def case_grows_def static_eq_def need_Inr by blast
  have "ee_event_id p \<in> xe_event_id ` set (t_events db1)"
    using e
  proof (cases rule: execution_event_Inr)
    case (replay e)
    then show ?thesis by (metis imageI tbl_get_Some)
  next
    case (taken c c' cors execs ev d)
    then show ?thesis by simp
  qed
  then have "ee_event_id p \<in> xe_event_id ` set (t_events db2)"
    using g unfolding review_grows_def by (meson image_mono set_mono_prefix subsetD)
  then have "tbl_get xe_event_id (ee_event_id p) (t_events db2) \<noteq> None"
    by (simp add: tbl_get_None_iff)
  then have "execution_event t2 i p db2 = Inr (db2, True)"
    using c2 st by (simp add: execution_event_def)
  moreover have "stages_sorted (t_events db2)" using inv2 by (simp add: review_inv_def events_inv_def)
  ultimately show ?thesis by (simp add: stages_sorted_def)
qed

lemma sc_event7: "execution_event 5 ''MR-A'' (sc_event ''x1'' RERUN_SUCCEEDED) sc_db6 = Inr (sc_db7, False)"
proof -
  obtain dup where d: "execution_event 5 ''MR-A'' (sc_event ''x1'' RERUN_SUCCEEDED) sc_db6 = Inr (sc_db7, dup)"
    using sc_step7 by (auto elim!: rbindE)
  then have "\<not> dup" by (cases rule: execution_event_Inr) (simp_all add: sc_event_fields)
  with d show ?thesis by simp
qed

theorem callback_replay_witness:
  "execution_event 99 ''MR-A'' (sc_event ''x1'' RERUN_SUCCEEDED) sc_db8 = Inr (sc_db8, True)"
proof -
  have "reach (exec_review default_config sc_sha) sc_db7 sc_db8"
    using sc_step8 by (meson reach_init reach_step)
  then show ?thesis
    using callback_replay [OF sc_reach_end(2) sc_attempts sc_event7] by blast
qed

text \<open>
  The step that a correction asks graph construction to rerun is always one that the
  callback of that execution may name: for every template admitted at the step of the case and
  every action that \<open>validate_action\<close> accepts, \<open>rerun_step\<close> passes the check of
  \<open>execution_event\<close>.
\<close>

theorem rerun_step_accepted:
  assumes s: "validate_step_template step tpl = Inr tid" and a: "validate_action tid action r = Inr ()"
  shows "callback_step_ok (rerun_step step action) step"
proof (cases "action = ''reject-extract''")
  case False
  then show ?thesis by (simp add: rerun_step_def callback_step_ok_def)
next
  case True
  have canon: "canonical_template tid = tid" using validate_step_template_canonical [OF s] by simp
  obtain t where t: "map_of TEMPLATES tid = Some t" "action \<in> set (tp_actions t)"
    using action_allowed [OF a] canon by auto
  then have "tid = ''T_EVIDENCE''" using reject_extract_template True by blast
  with s have "step = ''validate''" using evidence_template_step by blast
  with True show ?thesis by (simp add: rerun_step_def callback_step_ok_def)
qed

theorem rerun_step_accepted_witness:
  "callback_step_ok (rerun_step ''validate'' ''reject-extract'') ''validate''"
proof (rule rerun_step_accepted)
  show "validate_step_template ''validate'' ''T_EVIDENCE'' = Inr ''T_EVIDENCE''"
    by (simp add: validate_step_template_def PIPELINE_STEPS_def TEMPLATES_def canonical_template_def
        TEMPLATE_ALIASES_def)
  show "validate_action ''T_EVIDENCE'' ''reject-extract'' [] = Inr ()"
    by (simp add: validate_action_def TEMPLATES_def canonical_template_def TEMPLATE_ALIASES_def dget_def)
qed

section \<open>The outbox worker\<close>

lemma process_claimed_total:
  assumes "review_inv cf db" shows "is_ok (process_claimed cf post t oid db)"
proof (cases "tbl_get ob_id oid (t_outbox db)")
  case None
  then show ?thesis by (simp add: process_claimed_def)
next
  case (Some x)
  obtain cid cor where ev: "ob_event_type x = ''RESUME_REQUESTED''" and cid: "payload_correction_id x = Inr cid"
    and cor: "tbl_get co_id cid (t_corrections db) = Some cor" and i: "co_case_id cor = ob_case_id x"
    using outbox_row_facts(1) [OF assms Some] by (rule outbox_okE)
  have "correction_ok (t_decisions db) cor"
    using assms cor by (auto simp: review_inv_def corrections_inv_def dest: tbl_get_Some)
  then obtain d where "d \<in> set (t_decisions db)" "de_case_id d = co_case_id cor"
    by (auto simp: correction_ok_def)
  then obtain c where "need db (ob_case_id x) = Inr c"
    using assms i by (auto simp: review_inv_def decisions_inv_def decision_ok_def need_Inr split: option.splits)
  with Some ev cid cor show ?thesis
    by (simp add: process_claimed_def split: sum.split)
qed

lemma outbox_loop_inv:
  "review_inv cf db \<Longrightarrow> or_raised r = None \<Longrightarrow> outbox_loop cf post t ids r db = (db', r') \<Longrightarrow>
     review_inv cf db' \<and> or_raised r' = None"
proof (induction ids arbitrary: r db)
  case Nil
  then show ?case by simp
next
  case (Cons oid ids)
  obtain db1 ok where c: "claim_outbox t oid db = (db1, ok)" by fastforce
  have i1: "review_inv cf db1" using claim_outbox_inv [OF Cons.prems(1), of t oid] c by simp
  show ?case
  proof (cases ok)
    case False
    with Cons c i1 show ?thesis by simp
  next
    case True
    obtain db2 out where p: "process_claimed cf post t oid db1 = Inr (db2, out)"
      using process_claimed_total [OF i1, of post t oid] by (auto simp: is_ok_iff)
    have i2: "review_inv cf db2" by (rule process_claimed_inv [OF i1 p])
    obtain r2 where "or_raised r2 = None" "outbox_loop cf post t ids r2 db2 = (db', r')"
      using Cons.prems(2,3) c p True that [of r] that [of "r\<lparr>or_processed := Suc (or_processed r)\<rparr>"]
        that [of "r\<lparr>or_failed := Suc (or_failed r)\<rparr>"]
      by (cases out) simp_all
    then show ?thesis by (rule Cons.IH [OF i2])
  qed
qed

text \<open>
  The outbox worker never fails as a whole.  In a reachable database every row it may pick
  refers to an existing correction of an existing case, so a pass of \<open>process_outbox\<close> raises
  nothing whatever graph construction answers, and afterwards every row still has at most
  \<open>outbox_max_attempts\<close> attempts, with fewer while it is pending, processing or waiting to retry.
\<close>

theorem outbox_pass_safe:
  assumes "reach (exec_review cf sha) empty_review_db db" and "0 < cf_max_attempts cf"
    and "process_outbox cf post t limit db = (db', rep)"
  shows "or_raised rep = None \<and>
    (\<forall>x \<in> set (t_outbox db'). ob_attempts x \<le> cf_max_attempts cf \<and>
       (ob_status x \<in> {ObPending, ObProcessing, ObRetry} \<longrightarrow> ob_attempts x < cf_max_attempts cf))"
proof -
  have "review_inv cf (recover_stale cf t db)"
    by (rule recover_inv [OF reachable_review_inv [OF assms(1,2)]])
  then have "review_inv cf db' \<and> or_raised rep = None"
    by (rule outbox_loop_inv) (use assms(3) in \<open>simp_all add: process_outbox_def Let_def\<close>)
  then show ?thesis by (auto simp: review_inv_def outbox_inv_def attempts_ok_def)
qed

theorem outbox_pass_safe_witness:
  "or_raised (snd (process_outbox default_config sc_post 4 20 sc_db4)) = None"
  using outbox_pass_safe [OF sc_reach(4) sc_attempts, of sc_post 4 20] by (metis prod.collapse)

end
