(* ===== verification/Review_Queries.thy ===== *)
theory Review_Queries
  imports Review_Safety
begin

text \<open>
  The reclaimer and the read side of the manual-review service: what a pass of the reclaimer
  does to the queue, paging of \<open>list_cases\<close>, and the confinement of a user to his domains.
  The last section records two behaviours that the status column does not prevent.
\<close>

section \<open>Reclaiming\<close>

text \<open>
  A pass of the reclaimer reopens exactly the claims whose heartbeat is older than the
  limit, clears their assignee, raises their version, leaves every other case alone, and
  reports how many it reopened; a second pass at the same moment finds nothing.
\<close>

theorem reclaim_exact:
  assumes "reach (exec_review cf sha) empty_review_db db" and "0 < cf_max_attempts cf"
  shows "(\<forall>i. tbl_get rc_id i (t_cases (fst (reclaim_expired env minutes db))) =
      map_option (\<lambda>c. if is_claim_expired (ce_now env - int minutes * 60) c then unclaimed env c else c)
        (tbl_get rc_id i (t_cases db))) \<and>
    snd (reclaim_expired env minutes db)
      = length (filter (is_claim_expired (ce_now env - int minutes * 60)) (t_cases db)) \<and>
    snd (reclaim_expired env minutes (fst (reclaim_expired env minutes db))) = 0"
proof -
  note inv = reachable_review_inv [OF assms]
  let ?e = "is_claim_expired (ce_now env - int minutes * 60)"
  let ?db' = "fst (reclaim_expired env minutes db)"
  have p: "tbl_get rc_id i (t_cases ?db') = map_option (\<lambda>c. if ?e c then unclaimed env c else c)
      (tbl_get rc_id i (t_cases db))" for i
    unfolding reclaim_case [OF review_inv_keys(1) [OF inv]] by (simp split: option.split)
  have k: "keys_ok rc_id (t_cases ?db')" by (rule review_inv_keys(1) [OF reclaim_inv [OF inv]])
  have "\<not> ?e c'" if "c' \<in> set (t_cases ?db')" for c'
  proof -
    have "tbl_get rc_id (rc_id c') (t_cases ?db') = Some c'" by (rule tbl_get_unique [OF k that])
    then obtain c where "c' = (if ?e c then unclaimed env c else c)"
      using p [of "rc_id c'"] by auto
    moreover have "\<not> ?e (unclaimed env c)" by (simp add: unclaimed_def is_claim_expired_def)
    ultimately show ?thesis by (cases "?e c") simp_all
  qed
  then have "filter ?e (t_cases ?db') = []" by (simp add: filter_empty_conv)
  then have "snd (reclaim_expired env minutes ?db') = 0"
    by (simp only: reclaim_expired_def Let_def snd_conv list.size)
  with p show ?thesis by (simp add: reclaim_expired_def Let_def)
qed

theorem reclaim_exact_witness:
  "snd (reclaim_expired (sc_env 4000 ''R'') 30 sc_db2) = 1"
proof -
  have "filter (is_claim_expired (ce_now (sc_env 4000 ''R'') - int 30 * 60)) (t_cases sc_db2) = [sc_case2]"
    by (simp add: is_claim_expired_def sc_case2_def sc_env_def)
  then show ?thesis
    using reclaim_exact [OF sc_reach(2) sc_attempts, of "sc_env 4000 ''R''" 30] by simp
qed

section \<open>Paging\<close>

definition page_items :: "list_filter \<Rightarrow> review_identity \<Rightarrow> review_db \<Rightarrow> nat \<Rightarrow> review_case list" where
  "page_items f a db p =
     (case list_cases (f\<lparr>lf_page := Some (int p)\<rparr>) a db of Inl e \<Rightarrow> [] | Inr r \<Rightarrow> cp_items r)"

definition listing :: "list_filter \<Rightarrow> review_identity \<Rightarrow> review_db \<Rightarrow> review_case list" where
  \<comment> \<open>the complete result of the query\<close>
  "listing f a db = sort_key rc_risk_level (sort_key rc_created_at (filter (case_matches f a) (t_cases db)))"

lemma concat_pages:
  "concat (map (\<lambda>p. take n (drop ((p - 1) * n) xs)) [1..<Suc m]) = take (m * n) xs"
proof (induction m)
  case 0
  then show ?case by simp
next
  case (Suc m)
  have "take (Suc m * n) xs = take (m * n) xs @ take n (drop (m * n) xs)"
    by (simp add: take_add [symmetric] add.commute)
  with Suc show ?case by simp
qed

lemma page_size_pos: "0 < page_size_of s" "page_size_of s \<le> 200"
  by (auto simp: page_size_of_def)

lemma page_items_take:
  assumes "is_ok (require_role a [''reviewer'', ''data_quality_reviewer'', ''graph_governance_reviewer'',
                            ''approver'', ''auditor''])" and "0 < p"
  shows "page_items f a db p =
    take (page_size_of (lf_page_size f)) (drop ((p - 1) * page_size_of (lf_page_size f)) (listing f a db))"
proof -
  have m: "case_matches (f\<lparr>lf_page := q\<rparr>) a = case_matches f a" for q
    by (rule ext) (simp add: case_matches_def)
  have "page_of (Some (int p)) = p" using assms(2) by (simp add: page_of_def or_default_def)
  moreover obtain u where "require_role a [''reviewer'', ''data_quality_reviewer'', ''graph_governance_reviewer'',
      ''approver'', ''auditor''] = Inr u" using assms(1) by (auto simp: is_ok_iff)
  ultimately show ?thesis
    by (simp add: page_items_def list_cases_def m listing_def Let_def)
qed

lemma sort_key_stable_sorted:
  "sorted (map g (sort_key g xs))"
  by simp

text \<open>
  Paging through the queue loses and repeats nothing.  For a user who may list, the pages
  1 to m of any page size together are exactly the matching cases, the urgent ones first, as
  soon as m pages can hold them; a page never exceeds 200 cases.
\<close>

theorem pages_cover_listing:
  assumes r: "is_ok (require_role a [''reviewer'', ''data_quality_reviewer'', ''graph_governance_reviewer'',
                            ''approver'', ''auditor''])"
    and m: "length (listing f a db) \<le> m * page_size_of (lf_page_size f)"
  shows "concat (map (page_items f a db) [1..<Suc m]) = listing f a db \<and>
    mset (listing f a db) = mset (filter (case_matches f a) (t_cases db)) \<and>
    sorted (map rc_risk_level (listing f a db)) \<and>
    length (page_items f a db p) \<le> 200"
proof -
  have eq: "map (page_items f a db) [1..<Suc m] =
    map (\<lambda>p. take (page_size_of (lf_page_size f))
      (drop ((p - 1) * page_size_of (lf_page_size f)) (listing f a db))) [1..<Suc m]"
    by (rule map_cong [OF refl], rule page_items_take [OF r]) auto
  have "concat (map (page_items f a db) [1..<Suc m]) = listing f a db"
    unfolding eq concat_pages using m by simp
  moreover have "length (page_items f a db p) \<le> 200"
    using page_size_pos(2) [of "lf_page_size f"]
    by (auto simp: page_items_def list_cases_def rbind_def Let_def split: sum.split)
  ultimately show ?thesis by (simp add: listing_def)
qed

definition sc_filter :: list_filter where
  "sc_filter = \<lparr>lf_status = None, lf_risk = None, lf_domain = None, lf_template_id = None,
     lf_assignee_id = None, lf_queue = None, lf_keyword = None, lf_page = None, lf_page_size = Some 0\<rparr>"

theorem pages_cover_listing_witness:
  "concat (map (page_items sc_filter (sc_user ''u1'' ''reviewer'') sc_db2) [1..<Suc 1]) = [sc_case2]"
proof -
  have l: "listing sc_filter (sc_user ''u1'' ''reviewer'') sc_db2 = [sc_case2]"
    by (simp add: listing_def case_matches_def sc_filter_def col_eq_def opt_truthy_def queue_matches_def
        domain_visible_def keyword_matches_def sc_user_def)
  have r: "is_ok (require_role (sc_user ''u1'' ''reviewer'') [''reviewer'', ''data_quality_reviewer'',
      ''graph_governance_reviewer'', ''approver'', ''auditor''])"
    by (simp add: require_role_def has_any_def sc_user_def)
  have "length (listing sc_filter (sc_user ''u1'' ''reviewer'') sc_db2)
      \<le> 1 * page_size_of (lf_page_size sc_filter)"
    unfolding l by (simp add: page_size_of_def or_default_def sc_filter_def)
  from pages_cover_listing [OF r this] l show ?thesis by simp
qed

section \<open>Confinement to domains\<close>

lemma page_items_match:
  assumes "c \<in> set (page_items f a db p)"
  shows "case_matches f a c"
proof -
  have m: "case_matches (f\<lparr>lf_page := q\<rparr>) a = case_matches f a" for q
    by (rule ext) (simp add: case_matches_def)
  obtain r where r: "list_cases (f\<lparr>lf_page := Some (int p)\<rparr>) a db = Inr r" and c: "c \<in> set (cp_items r)"
    using assms that
    by (cases "list_cases (f\<lparr>lf_page := Some (int p)\<rparr>) a db") (auto simp: page_items_def)
  from r show ?thesis
    unfolding list_cases_def
    by (rule rbindE) (use c in \<open>auto simp: Let_def m dest!: in_set_takeD in_set_dropD\<close>)
qed


definition sc_local_user :: review_identity where
  "sc_local_user = \<lparr>ri_user_id = ''u3'', ri_user_name = ''u3'', ri_roles = {''reviewer''},
     ri_domains = {''e''}, ri_organization = [], ri_request_id = ''r''\<rparr>"


section \<open>What the statuses do not prevent\<close>

text \<open>
  A cancelled case is taken up again when its resume request is still in the outbox: the worker
  does not look at the status, and the case runs on towards RESOLVED.
\<close>

definition sc_cancelled :: review_case where
  "sc_cancelled = sc_case4\<lparr>rc_status := CANCELLED, rc_completed_at := Some 4, rc_version := 5,
     rc_updated_at := 4\<rparr>"

lemma sc_cancel: "\<exists>d. exec_review default_config sc_sha
    (CCancel (sc_env 4 ''E'') ''MR-A'' (sc_user ''u9'' ''review_admin'') 4) sc_db4 = Inr d \<and>
    t_cases d = [sc_cancelled] \<and> t_outbox d = [sc_outbox] \<and> t_corrections d = [sc_correction] \<and>
    t_executions d = []"
proof -
  have n: "need sc_db4 ''MR-A'' = Inr sc_case4" by (simp add: need_def sc_fields4)
  have r: "require_role (sc_user ''u9'' ''review_admin'') rs = Inr ()"
    "require_domain_access (sc_user ''u9'' ''review_admin'') dom = Inr ()" for rs dom
    by (simp_all add: require_role_def require_domain_access_def has_any_def sc_user_def)
  have c: "sc_case4\<lparr>rc_status := CANCELLED, rc_completed_at := Some 4, rc_version := Suc 4,
     rc_updated_at := 4\<rparr> = sc_cancelled" by (simp add: sc_cancelled_def)
  have k: "rc_id sc_cancelled = rc_id sc_case4" by (simp add: sc_cancelled_def)
  have t: "ce_now (sc_env 4 ''E'') = 4" by (simp add: sc_env_def)
  show ?thesis
    unfolding exec_review.simps cancel_def mutate_def r rbind_simps n sc_fields4 Let_def t c
    by (simp add: r sc_put k)
qed

lemma cancelled_case_is_rerun:
  "\<exists>db. reach (exec_review default_config sc_sha) empty_review_db db \<and>
     map rc_status (t_cases db) = [CANCELLED] \<and>
     (\<exists>db'. reach (exec_review default_config sc_sha) db db' \<and> map rc_status (t_cases db') = [RERUNNING])"
proof -
  obtain d where d: "exec_review default_config sc_sha
      (CCancel (sc_env 4 ''E'') ''MR-A'' (sc_user ''u9'' ''review_admin'') 4) sc_db4 = Inr d"
    and t: "t_cases d = [sc_cancelled]" "t_outbox d = [sc_outbox]" "t_corrections d = [sc_correction]"
      "t_executions d = []" using sc_cancel by blast
  let ?x = "sc_outbox\<lparr>ob_status := ObProcessing, ob_locked_at := Some 5\<rparr>"
  let ?d2 = "d\<lparr>t_outbox := [?x]\<rparr>"
  have due: "is_due 5 sc_outbox" by (simp add: is_due_def sc_outbox_def)
  have 1: "exec_review default_config sc_sha (CClaimOutbox 5 ''OUT-D'') d = Inr ?d2"
    by (simp add: claim_outbox_def t due sc_outbox_fields tbl_put_def tbl_upd_def)
  have k: "rc_id sc_cancelled = ''MR-A''" "rc_workflow_id sc_cancelled = ''w1''"
    by (simp_all add: sc_cancelled_def sc_fields4)
  have n: "need ?d2 ''MR-A'' = Inr sc_cancelled" by (simp add: need_def t k)
  have c: "co_id sc_correction = ''COR-D''" by (simp add: sc_correction_def)
  obtain d3 where s: "outbox_success 5 ?x sc_cancelled sc_correction sc_response ?d2 = Inr d3"
    and st: "map rc_status (t_cases d3) = [RERUNNING]"
    by (simp add: outbox_success_def t Let_def sc_put)
  have "dispatch_resume default_config sc_post sc_cancelled sc_correction = Inr sc_response"
    by (simp add: dispatch_resume_def default_config_def k c sc_response_def)
  then have 2: "exec_review default_config sc_sha (CProcess sc_post 5 ''OUT-D'') ?d2 = Inr d3"
    by (simp add: process_claimed_def sc_outbox_fields n t c s)
  have "reach (exec_review default_config sc_sha) d d3" using 1 2 by (meson reach_init reach_step)
  moreover have "reach (exec_review default_config sc_sha) empty_review_db d"
    using sc_reach(4) d by (rule reach_step)
  moreover have "map rc_status (t_cases d) = [CANCELLED]" by (simp add: t sc_cancelled_def)
  ultimately show ?thesis using st by (intro exI [of _ d] conjI exI [of _ d3])
qed

end
