(* ===== verification/Review_Overlap.thy ===== *)
theory Review_Overlap
  imports Review_Commands
begin

text \<open>
  Commands that overlap.  \<open>ReviewService.mutate\<close> reads the case, compares its version in Python and writes the
  columns it changed, without a lock and without the version in the UPDATE: a request has two steps,
  between which others can commit.  Alone it is the one step \<open>mutate\<close>; of two that read the same version both
  succeed.
\<close>

section \<open>The two steps of a request\<close>

definition written_column :: "'a \<Rightarrow> 'a \<Rightarrow> 'a \<Rightarrow> 'a" where
  \<comment> \<open>a column whose value is not the one that was read is written\<close>
  "written_column old new current = (if new = old then current else new)"

definition write_columns :: "review_case \<Rightarrow> review_case \<Rightarrow> review_case \<Rightarrow> review_case" where
  \<comment> \<open>the UPDATE of the columns that the commands set\<close>
  "write_columns c c' r =
     r\<lparr>rc_status := written_column (rc_status c) (rc_status c') (rc_status r),
       rc_assignee_id := written_column (rc_assignee_id c) (rc_assignee_id c') (rc_assignee_id r),
       rc_assignee_name := written_column (rc_assignee_name c) (rc_assignee_name c') (rc_assignee_name r),
       rc_claimed_at := written_column (rc_claimed_at c) (rc_claimed_at c') (rc_claimed_at r),
       rc_heartbeat_at := written_column (rc_heartbeat_at c) (rc_heartbeat_at c') (rc_heartbeat_at r),
       rc_completed_at := written_column (rc_completed_at c) (rc_completed_at c') (rc_completed_at r),
       rc_updated_at := written_column (rc_updated_at c) (rc_updated_at c') (rc_updated_at r),
       rc_version := written_column (rc_version c) (rc_version c') (rc_version r)\<rparr>"

definition begin_mutate ::
  "call_env \<Rightarrow> string \<Rightarrow> review_identity \<Rightarrow> (review_case \<Rightarrow> review_case) \<Rightarrow> bool \<Rightarrow> nat \<Rightarrow> review_db \<Rightarrow>
   review_error + review_case \<times> review_case" where
  \<comment> \<open>the case as it was read and as it is to be\<close>
  "begin_mutate env i a values admin v db =
     rbind (need db i) (\<lambda>c.
     rbind (require_domain_access a (rc_domain c)) (\<lambda>_.
     if \<not> admin \<and> rc_assignee_id c \<noteq> Some (ri_user_id a) then Inl (Forbidden ''not-assignee'')
     else if rc_version c \<noteq> v then Inl (Conflict ''version'')
     else Inr (c, (values c)\<lparr>rc_version := Suc (rc_version c), rc_updated_at := ce_now env\<rparr>)))"

definition finish_mutate ::
  "call_env \<Rightarrow> string \<Rightarrow> review_identity \<Rightarrow> string \<Rightarrow> review_case \<Rightarrow> review_case \<Rightarrow> review_db \<Rightarrow> review_db" where
  "finish_mutate env i a event c c' db =
     audit (ce_now env) i a event (Some (rc_status c)) (rc_status c') []
       (db\<lparr>t_cases := tbl_upd rc_id i (write_columns c c') (t_cases db)\<rparr>)"

lemma write_columns_id [simp]: "rc_id (write_columns c c' r) = rc_id r"
  by (simp add: write_columns_def)

lemma begin_mutate_Inr:
  "begin_mutate env i a values admin v db = Inr (c, c') \<longleftrightarrow>
     tbl_get rc_id i (t_cases db) = Some c \<and> require_domain_access a (rc_domain c) = Inr () \<and>
     (admin \<or> rc_assignee_id c = Some (ri_user_id a)) \<and> rc_version c = v \<and>
     c' = (values c)\<lparr>rc_version := Suc (rc_version c), rc_updated_at := ce_now env\<rparr>"
  by (auto simp: begin_mutate_def rbind_Inr_iff need_Inr split: if_splits)

lemma write_columns_later:
  assumes "write_columns c d c = d"
  shows "write_columns c (d\<lparr>rc_version := n, rc_updated_at := t\<rparr>) c = d\<lparr>rc_version := n, rc_updated_at := t\<rparr>"
  by (subst (2) assms [symmetric]) (simp add: write_columns_def written_column_def)

section \<open>A request alone\<close>

definition sets_columns :: "(review_case \<Rightarrow> review_case) \<Rightarrow> bool" where
  \<comment> \<open>the update sets columns of the commands only\<close>
  "sets_columns values \<longleftrightarrow> (\<forall>c. write_columns c (values c) c = values c)"

lemma sets_columns_id: "sets_columns values \<Longrightarrow> rc_id (values c) = rc_id c"
  by (metis sets_columns_def write_columns_id)

lemma command_columns:
  "sets_columns (\<lambda>c. c\<lparr>rc_heartbeat_at := t\<rparr>)"
  "sets_columns (\<lambda>c. c\<lparr>rc_status := st, rc_assignee_id := u, rc_assignee_name := n, rc_claimed_at := t, rc_heartbeat_at := t'\<rparr>)"
  "sets_columns (\<lambda>c. c\<lparr>rc_assignee_id := u, rc_assignee_name := n, rc_heartbeat_at := t\<rparr>)"
  "sets_columns (\<lambda>c. c\<lparr>rc_status := st, rc_completed_at := t\<rparr>)"
  by (simp_all add: sets_columns_def write_columns_def written_column_def)

lemma put_is_update:
  assumes "keys_ok rc_id t" and "tbl_get rc_id i t = Some c" and "rc_id c' = i" and "f c = c'"
  shows "tbl_put rc_id c' t = tbl_upd rc_id i f t"
proof -
  have u: "r = c" if "r \<in> set t" "rc_id r = i" for r
    using tbl_get_unique [OF assms(1) that(1)] assms(2) that(2) by simp
  have "list_ex (\<lambda>r. rc_id r = i) t"
    using tbl_get_Some [OF assms(2)] by (auto simp: list_ex_iff)
  then show ?thesis
    using assms(3,4) u by (auto simp: tbl_put_def tbl_upd_def)
qed

lemma mutate_is_two_steps:
  assumes "keys_ok rc_id (t_cases db)" and "sets_columns values"
  shows "mutate env i a values event admin v db =
    rbind (begin_mutate env i a values admin v db) (\<lambda>p. Inr (finish_mutate env i a event (fst p) (snd p) db))"
proof (cases "need db i")
  case (Inr c)
  then have c: "tbl_get rc_id i (t_cases db) = Some c" by (simp add: need_Inr)
  let ?c = "(values c)\<lparr>rc_version := Suc (rc_version c), rc_updated_at := ce_now env\<rparr>"
  have w: "write_columns c (values c) c = values c" using assms(2) by (simp add: sets_columns_def)
  then have "write_columns c ?c c = ?c"
    by (rule write_columns_later)
  moreover have "rc_id ?c = i"
    using sets_columns_id [OF assms(2)] tbl_get_Some [OF c] by simp
  ultimately have "tbl_put rc_id ?c (t_cases db) = tbl_upd rc_id i (write_columns c ?c) (t_cases db)"
    by (intro put_is_update [OF assms(1) c])
  then show ?thesis
    by (cases "require_domain_access a (rc_domain c)")
      (auto simp: mutate_def begin_mutate_def finish_mutate_def Inr Let_def save_case_def)
qed (simp add: mutate_def begin_mutate_def)

section \<open>Two requests\<close>

text \<open>
  Two requests that read the case at the same version both commit: its version grows by one, and the
  second has succeeded although, after the first, the same request is refused.
\<close>

theorem overlapping_commands_both_succeed:
  fixes event event2 :: string
  assumes "begin_mutate env i a values admin v db = Inr (c, c1)" and "begin_mutate env2 i b values2 admin2 v db = Inr (c, c2)"
  defines "db1 \<equiv> finish_mutate env i a event c c1 db"
  shows "\<exists>r. tbl_get rc_id i (t_cases (finish_mutate env2 i b event2 c c2 db1)) = Some r \<and> rc_version r = Suc v \<and>
    length (t_audits (finish_mutate env2 i b event2 c c2 db1)) = length (t_audits db) + 2 \<and>
    \<not> is_ok (begin_mutate env2 i b values2 admin2 v db1)"
proof -
  note c = assms(1,2) [unfolded begin_mutate_Inr]
  have one: "tbl_get rc_id i (t_cases db1) = Some (write_columns c c1 c)"
    using c(1) by (simp add: db1_def finish_mutate_def audit_def tbl_get_upd)
  have ver: "rc_version (write_columns c c1 c) = Suc v" "rc_version (write_columns c c2 r) = Suc v" for r
    using c by (simp_all add: write_columns_def written_column_def)
  have "tbl_get rc_id i (t_cases (finish_mutate env2 i b event2 c c2 db1)) = Some (write_columns c c2 (write_columns c c1 c))"
    using one by (simp add: finish_mutate_def audit_def tbl_get_upd)
  moreover have "begin_mutate env2 i b values2 admin2 v db1 \<noteq> Inr p" for p
    using one ver(1) by (cases p) (auto simp: begin_mutate_Inr)
  ultimately show ?thesis
    using ver(2) by (auto simp: is_ok_def db1_def finish_mutate_def audit_def split: sum.splits)
qed

end
