(* ===== verification/Platform_Access.thy ===== *)
theory Platform_Access
  imports Json Tables Systems
begin

text \<open>
  Users, the global administrator role and the audit rows of administrative actions
  (backend/service/platform\_access.py, backend/db\_model/platform\_governance.py).
\<close>

definition ADMIN_ROLE :: string where
  "ADMIN_ROLE = ''platform_admin''"

definition USER_PERMISSIONS :: "string list" where
  "USER_PERMISSIONS = [''analysis:read'', ''correction:submit'']"

definition ADMIN_PERMISSIONS :: "string list" where
  "ADMIN_PERMISSIONS = [''admin:access'', ''correction:review'', ''correction:sync'',
     ''member:manage'', ''schema:manage'', ''workflow:manage'']"

record platform_actor =
  pa_user_id :: string
  pa_username :: string
  pa_display_name :: string
  pa_email :: string
  pa_is_admin :: bool

definition actor_roles :: "platform_actor \<Rightarrow> string list" where
  "actor_roles a = (if pa_is_admin a then [''platform_user'', ADMIN_ROLE] else [''platform_user''])"

definition actor_permissions :: "platform_actor \<Rightarrow> string list" where
  "actor_permissions a = USER_PERMISSIONS @ (if pa_is_admin a then ADMIN_PERMISSIONS else [])"

record platform_user =
  pu_user_id :: string
  pu_username :: string
  pu_nickname :: string
  pu_email :: string
  pu_last_seen_at :: time

record platform_role =
  pr_id :: string
  pr_user_id :: string
  pr_role_code :: string
  pr_granted_by :: string

record admin_audit =
  aa_actor_id :: string
  aa_actor_name :: string
  aa_action :: string
  aa_resource_type :: string
  aa_resource_id :: string
  aa_detail :: dict

record access_db =
  p_users :: "platform_user list"
  p_roles :: "platform_role list"
  p_audits :: "admin_audit list"

definition empty_access_db :: access_db where
  "empty_access_db = \<lparr>p_users = [], p_roles = [], p_audits = []\<rparr>"

datatype access_error = UnknownUser string | ImmutableAdmin | LastAdmin | RoleConflict

section \<open>Signing in\<close>

record user_profile =
  up_id :: string
  up_username :: string
  up_nickname :: string
  up_email :: string

definition upsert_user :: "time \<Rightarrow> user_profile \<Rightarrow> access_db \<Rightarrow> access_db" where
  "upsert_user t p db = db\<lparr>p_users := tbl_put pu_user_id
     \<lparr>pu_user_id = up_id p, pu_username = up_username p, pu_nickname = up_nickname p,
      pu_email = up_email p, pu_last_seen_at = t\<rparr> (p_users db)\<rparr>"

definition admin_row :: "access_db \<Rightarrow> string \<Rightarrow> platform_role option" where
  "admin_row db uid = find (\<lambda>r. pr_user_id r = uid \<and> pr_role_code r = ADMIN_ROLE) (p_roles db)"

definition admin_rows :: "access_db \<Rightarrow> platform_role list" where
  "admin_rows db = filter (\<lambda>r. pr_role_code r = ADMIN_ROLE) (p_roles db)"

definition actor_of :: "user_profile \<Rightarrow> bool \<Rightarrow> platform_actor" where
  "actor_of p admin = \<lparr>pa_user_id = up_id p, pa_username = up_username p,
     pa_display_name = (if up_nickname p \<noteq> [] then up_nickname p else up_username p),
     pa_email = up_email p, pa_is_admin = admin\<rparr>"

text \<open>
  A fault of the database: none, one raised by the first statement, or one raised by the
  commit.  The local variables keep what they were given before the fault.
\<close>

datatype db_fault = NoFault | FirstStatement | AtCommit

record access_state =
  as_db :: access_db
  as_dev_seen :: "string set"     \<comment> \<open>\<open>_DEV_ACTOR_UPSERTED\<close>, a set of the process\<close>

definition actor_from_profile ::
  "user_profile \<Rightarrow> string list \<Rightarrow> bool \<Rightarrow> bool \<Rightarrow> bool \<Rightarrow> db_fault \<Rightarrow> time \<Rightarrow> string \<Rightarrow> access_state \<Rightarrow>
   access_state \<times> platform_actor" where
  "actor_from_profile p initial_admins auth_enabled bootstrap_first force_admin fault t role_id s =
     (let uid = up_id p;
          bootstrap = (\<not> auth_enabled \<or> force_admin \<or> uid \<in> set initial_admins) in
      if \<not> auth_enabled \<and> uid \<in> as_dev_seen s then (s, actor_of p bootstrap)
      else if fault = FirstStatement then (s, actor_of p bootstrap)
      else
        let db1 = upsert_user t p (as_db s);
            seen = (if \<not> auth_enabled then insert uid (as_dev_seen s) else as_dev_seen s);
            existing = admin_row db1 uid;
            grant = (auth_enabled \<and> bootstrap_first \<and> existing = None \<and>
                     \<not> (initial_admins \<noteq> [] \<or> admin_rows db1 \<noteq> []));
            db2 = (if grant then db1\<lparr>p_roles := p_roles db1 @
                     [\<lparr>pr_id = role_id, pr_user_id = uid, pr_role_code = ADMIN_ROLE,
                       pr_granted_by = ''system-bootstrap''\<rparr>]\<rparr> else db1);
            database_admin = (auth_enabled \<and> (existing \<noteq> None \<or> grant))
        in (s\<lparr>as_db := (if fault = AtCommit \<or> grant \<and> role_id \<in> pr_id ` set (p_roles db1)
                         then as_db s else db2), as_dev_seen := seen\<rparr>,
            actor_of p (bootstrap \<or> database_admin)))"

section \<open>Members\<close>

record member_view =
  mv_user_id :: string
  mv_username :: string
  mv_nickname :: string
  mv_email :: string
  mv_is_admin :: bool
  mv_last_seen_at :: time

definition list_members :: "string list \<Rightarrow> access_db \<Rightarrow> member_view list" where
  "list_members initial_admins db =
     map (\<lambda>u. \<lparr>mv_user_id = pu_user_id u, mv_username = pu_username u,
                mv_nickname = pu_nickname u, mv_email = pu_email u,
                mv_is_admin = (pu_user_id u \<in> pr_user_id ` set (admin_rows db) \<union> set initial_admins),
                mv_last_seen_at = pu_last_seen_at u\<rparr>)
       (rev (sort_key pu_last_seen_at (p_users db)))"

definition set_admin_role ::
  "string \<Rightarrow> bool \<Rightarrow> platform_actor \<Rightarrow> string list \<Rightarrow> string \<Rightarrow> access_db \<Rightarrow> access_error + access_db" where
  "set_admin_role uid enabled actor immutable role_id db =
     (case tbl_get pu_user_id uid (p_users db) of
        None \<Rightarrow> Inl (UnknownUser uid)
      | Some u \<Rightarrow>
          let existing = admin_row db uid in
          if \<not> enabled \<and> uid \<in> set immutable then Inl ImmutableAdmin
          else
            let audit = \<lparr>aa_actor_id = pa_user_id actor, aa_actor_name = pa_display_name actor,
                  aa_action = (if enabled then ''GRANT_ADMIN'' else ''REVOKE_ADMIN''),
                  aa_resource_type = ''platform_user'', aa_resource_id = uid,
                  aa_detail = [(''isAdmin'', JBool enabled)]\<rparr> in
            rbind (case existing of
                None \<Rightarrow>
                  if \<not> enabled then Inr db
                  else (case tbl_insert pr_id \<lparr>pr_id = role_id, pr_user_id = uid,
                          pr_role_code = ADMIN_ROLE, pr_granted_by = pa_user_id actor\<rparr> (p_roles db) of
                      None \<Rightarrow> Inl RoleConflict
                    | Some roles \<Rightarrow> Inr (db\<lparr>p_roles := roles\<rparr>))
              | Some r \<Rightarrow>
                  if enabled then Inr db
                  else if length (admin_rows db) \<le> 1 \<and> immutable = [] then Inl LastAdmin
                  else Inr (db\<lparr>p_roles := tbl_del pr_id (pr_id r) (p_roles db)\<rparr>))
              (\<lambda>db1. Inr (db1\<lparr>p_audits := p_audits db1 @ [audit]\<rparr>)))"

section \<open>The system\<close>

datatype access_cmd =
    ALogin user_profile bool bool bool db_fault time string
  | ASetAdmin string bool platform_actor string

fun exec_access :: "string list \<Rightarrow> access_cmd \<Rightarrow> access_state \<Rightarrow> access_error + access_state" where
  "exec_access admins (ALogin p auth first force fault t rid) s =
     Inr (fst (actor_from_profile p admins auth first force fault t rid s))"
| "exec_access admins (ASetAdmin uid on actor rid) s =
     rbind (set_admin_role uid on actor admins rid (as_db s)) (\<lambda>db. Inr (s\<lparr>as_db := db\<rparr>))"

definition access_inv :: "access_db \<Rightarrow> bool" where
  "access_inv db \<longleftrightarrow> keys_ok pr_id (p_roles db) \<and> keys_ok pu_user_id (p_users db) \<and>
     keys_ok pr_user_id (admin_rows db) \<and>
     (\<forall>r \<in> set (p_roles db). pr_user_id r \<in> pu_user_id ` set (p_users db))"

definition some_admin :: "string list \<Rightarrow> access_db \<Rightarrow> bool" where
  "some_admin admins db \<longleftrightarrow> admins \<noteq> [] \<or> admin_rows db \<noteq> []"

definition new_admin :: "string \<Rightarrow> string \<Rightarrow> string \<Rightarrow> access_db \<Rightarrow> access_db" where
  "new_admin rid uid g db = db\<lparr>p_roles := p_roles db @
     [\<lparr>pr_id = rid, pr_user_id = uid, pr_role_code = ADMIN_ROLE, pr_granted_by = g\<rparr>]\<rparr>"

lemma admin_row_None: "admin_row db uid = None \<longleftrightarrow> uid \<notin> pr_user_id ` set (admin_rows db)"
  by (auto simp: admin_row_def admin_rows_def find_None_iff)

lemma admin_row_Some: "admin_row db uid = Some r \<Longrightarrow>
    r \<in> set (admin_rows db) \<and> r \<in> set (p_roles db) \<and> pr_user_id r = uid"
  by (auto simp: admin_row_def admin_rows_def find_Some_iff)

lemma upsert_user_roles [simp]: "p_roles (upsert_user t p db) = p_roles db"
  "admin_rows (upsert_user t p db) = admin_rows db" "admin_row (upsert_user t p db) uid = admin_row db uid"
  by (simp_all add: upsert_user_def admin_rows_def admin_row_def)

lemma upsert_user_ids: "pu_user_id ` set (p_users (upsert_user t p db))
    = insert (up_id p) (pu_user_id ` set (p_users db))"
  by (simp add: upsert_user_def keys_put)

lemma new_admin_rows: "admin_rows (new_admin rid uid g db) = admin_rows db @
     [\<lparr>pr_id = rid, pr_user_id = uid, pr_role_code = ADMIN_ROLE, pr_granted_by = g\<rparr>]"
  by (simp add: new_admin_def admin_rows_def)

lemma new_admin_row: "admin_row (new_admin rid uid g db) uid \<noteq> None"
  by (simp add: admin_row_None new_admin_rows)

lemma admin_rows_del: "admin_rows (db\<lparr>p_roles := tbl_del pr_id k (p_roles db)\<rparr>) = tbl_del pr_id k (admin_rows db)"
  unfolding admin_rows_def tbl_del_def by (simp add: conj_commute)

lemma admin_rows_audit [simp]: "admin_rows (db\<lparr>p_audits := x\<rparr>) = admin_rows db"
  by (simp add: admin_rows_def)

lemma access_inv_audit [simp]: "access_inv (db\<lparr>p_audits := x\<rparr>) = access_inv db"
  by (simp add: access_inv_def)

lemma access_inv_upsert: "access_inv db \<Longrightarrow> access_inv (upsert_user t p db)"
  unfolding access_inv_def upsert_user_ids upsert_user_roles
  by (auto simp: upsert_user_def keys_ok_put)

lemma access_inv_new_admin:
  "access_inv db \<Longrightarrow> uid \<in> pu_user_id ` set (p_users db) \<Longrightarrow> admin_row db uid = None \<Longrightarrow>
     rid \<notin> pr_id ` set (p_roles db) \<Longrightarrow> access_inv (new_admin rid uid g db)"
  unfolding access_inv_def new_admin_rows by (auto simp: new_admin_def keys_ok_def admin_row_None)

lemma access_inv_del: "access_inv db \<Longrightarrow> access_inv (db\<lparr>p_roles := tbl_del pr_id k (p_roles db)\<rparr>)"
  unfolding access_inv_def admin_rows_del
  by (auto simp: keys_ok_del tbl_del_def keys_ok_filter)

lemma login_cases:
  fixes p admins auth first force fault t rid s
  defines "r \<equiv> actor_from_profile p admins auth first force fault t rid s"
  obtains (unchanged) "as_db (fst r) = as_db s"
  | (seen) "as_db (fst r) = upsert_user t p (as_db s)"
  | (bootstrap) "as_db (fst r) = new_admin rid (up_id p) ''system-bootstrap'' (upsert_user t p (as_db s))"
      and "auth" and "first" and "admins = []" and "admin_rows (as_db s) = []"
      and "rid \<notin> pr_id ` set (p_roles (as_db s))"
proof -
  let ?g = "auth \<and> first \<and> admin_row (as_db s) (up_id p) = None \<and> admins = [] \<and> admin_rows (as_db s) = []"
  note defs = r_def actor_from_profile_def Let_def new_admin_def
  show ?thesis
  proof (cases "\<not> auth \<and> up_id p \<in> as_dev_seen s \<or> fault \<noteq> NoFault")
    case True
    then have "as_db (fst r) = as_db s" by (cases fault) (auto simp: defs)
    then show ?thesis by (rule unchanged)
  next
    case False
    show ?thesis
    proof (cases ?g)
      case True
      with False unchanged bootstrap show ?thesis
        by (cases "rid \<in> pr_id ` set (p_roles (as_db s))") (simp_all add: defs)
    next
      case nog: False
      with False have "as_db (fst r) = upsert_user t p (as_db s)" by (auto simp: defs)
      then show ?thesis by (rule seen)
    qed
  qed
qed

lemma role_cases:
  assumes "set_admin_role uid on actor admins rid db = Inr db'"
  obtains (noop) a where "db' = db\<lparr>p_audits := a\<rparr>"
  | (grant) a where "on" and "db' = (new_admin rid uid (pa_user_id actor) db)\<lparr>p_audits := a\<rparr>"
      and "admin_row db uid = None" and "rid \<notin> pr_id ` set (p_roles db)"
      and "uid \<in> pu_user_id ` set (p_users db)"
  | (revoke) a r where "\<not> on" and "db' = (db\<lparr>p_roles := tbl_del pr_id (pr_id r) (p_roles db)\<rparr>)\<lparr>p_audits := a\<rparr>"
      and "admin_row db uid = Some r" and "2 \<le> length (admin_rows db) \<or> admins \<noteq> []"
      and "uid \<notin> set admins"
proof -
  from assms obtain u where u: "tbl_get pu_user_id uid (p_users db) = Some u"
    and im: "\<not> (\<not> on \<and> uid \<in> set admins)"
    by (auto simp: set_admin_role_def Let_def split: option.splits if_splits)
  then have m: "uid \<in> pu_user_id ` set (p_users db)" by (metis imageI tbl_get_Some)
  show ?thesis
  proof (cases "admin_row db uid")
    case None
    show ?thesis
    proof (cases "on")
      case True
      with assms u None have "rid \<notin> pr_id ` set (p_roles db)"
        by (auto simp: set_admin_role_def Let_def tbl_insert_def list_ex_iff split: if_splits)
      moreover have "\<exists>a. db' = (new_admin rid uid (pa_user_id actor) db)\<lparr>p_audits := a\<rparr>"
        using assms u None True
        by (auto simp: set_admin_role_def Let_def tbl_insert_def new_admin_def split: if_splits)
      ultimately show ?thesis using grant True None m by blast
    next
      case False
      with assms u im None noop show ?thesis by (auto simp: set_admin_role_def Let_def)
    qed
  next
    case (Some r)
    show ?thesis
    proof (cases "on")
      case True
      with assms u Some noop show ?thesis by (auto simp: set_admin_role_def Let_def)
    next
      case False
      have "2 \<le> length (admin_rows db) \<or> admins \<noteq> []"
        "\<exists>a. db' = (db\<lparr>p_roles := tbl_del pr_id (pr_id r) (p_roles db)\<rparr>)\<lparr>p_audits := a\<rparr>"
        using assms u im Some False by (auto simp: set_admin_role_def Let_def split: if_splits)
      with revoke False Some im show ?thesis by blast
    qed
  qed
qed

lemma two_rows:
  assumes "keys_ok key t" and "2 \<le> length t"
  shows "tbl_del key k t \<noteq> []"
proof
  assume "tbl_del key k t = []"
  then have "set (map key t) \<subseteq> {k}" by (auto simp: tbl_del_def filter_empty_conv)
  then have "card (set (map key t)) \<le> 1" using card_mono [of "{k}"] by force
  moreover have "card (set (map key t)) = length (map key t)"
    using assms(1) by (intro distinct_card) (simp add: keys_ok_def)
  ultimately show False using assms(2) by simp
qed

lemma exec_access_keeps:
  assumes inv: "access_inv (as_db s)" and e: "exec_access admins c s = Inr s'"
  shows "access_inv (as_db s') \<and> (some_admin admins (as_db s) \<longrightarrow> some_admin admins (as_db s'))"
proof (cases c)
  case (ALogin p auth first force fault t rid)
  then have s': "s' = fst (actor_from_profile p admins auth first force fault t rid s)" using e by simp
  have u: "up_id p \<in> pu_user_id ` set (p_users (upsert_user t p (as_db s)))"
    by (simp add: upsert_user_ids)
  show ?thesis
    unfolding s'
  proof (cases p admins auth first force fault t rid s rule: login_cases)
    case unchanged
    with inv show "access_inv (as_db (fst (actor_from_profile p admins auth first force fault t rid s))) \<and>
      (some_admin admins (as_db s) \<longrightarrow>
       some_admin admins (as_db (fst (actor_from_profile p admins auth first force fault t rid s))))" by simp
  next
    case seen
    with inv show "access_inv (as_db (fst (actor_from_profile p admins auth first force fault t rid s))) \<and>
      (some_admin admins (as_db s) \<longrightarrow>
       some_admin admins (as_db (fst (actor_from_profile p admins auth first force fault t rid s))))"
      by (simp add: access_inv_upsert some_admin_def)
  next
    case bootstrap
    with access_inv_new_admin [OF access_inv_upsert [OF inv] u, of rid "''system-bootstrap''"]
    show "access_inv (as_db (fst (actor_from_profile p admins auth first force fault t rid s))) \<and>
      (some_admin admins (as_db s) \<longrightarrow>
       some_admin admins (as_db (fst (actor_from_profile p admins auth first force fault t rid s))))"
      by (simp add: admin_row_None some_admin_def new_admin_rows)
  qed
next
  case (ASetAdmin uid "on" actor rid)
  then obtain db' where r: "set_admin_role uid on actor admins rid (as_db s) = Inr db'"
    and s': "s' = s\<lparr>as_db := db'\<rparr>" using e by (auto elim!: rbindE)
  have "access_inv db' \<and> (some_admin admins (as_db s) \<longrightarrow> some_admin admins db')"
    using r
  proof (cases rule: role_cases)
    case (noop a)
    with inv show ?thesis by (simp add: some_admin_def)
  next
    case (grant a)
    with inv show ?thesis by (simp add: access_inv_new_admin some_admin_def new_admin_rows)
  next
    case (revoke a r)
    have k: "keys_ok pr_id (admin_rows (as_db s))"
      using inv by (simp add: access_inv_def admin_rows_def keys_ok_filter)
    with revoke inv two_rows [OF k] show ?thesis
      by (auto simp: access_inv_del some_admin_def admin_rows_del)
  qed
  with s' show ?thesis by simp
qed

interpretation access: guarded_system "exec_access admins" "\<lambda>s. access_inv (as_db s)" for admins
  by unfold_locales (simp add: exec_access_keeps)

interpretation governed: guarded_system "exec_access admins"
    "\<lambda>s. access_inv (as_db s) \<and> some_admin admins (as_db s)" for admins
  by unfold_locales (use exec_access_keeps in blast)

lemma access_inv_empty: "access_inv empty_access_db"
  by (simp add: access_inv_def empty_access_db_def keys_ok_def admin_rows_def)

section \<open>Properties\<close>

text \<open>
  C16: The platform never loses its last administrator.  Once there is one, by configuration or
  by a role row, every database that sign-ins and role changes can reach from there has one,
  and no user ever holds the administrator role twice.
\<close>

theorem an_admin_remains:
  assumes "reach (exec_access admins) \<lparr>as_db = empty_access_db, as_dev_seen = seen\<rparr> s"
    and "some_admin admins (as_db s)" and "reach (exec_access admins) s s'"
  shows "some_admin admins (as_db s') \<and> keys_ok pr_user_id (admin_rows (as_db s'))"
proof -
  have "access_inv (as_db s)"
    using access.reach_keeps [OF assms(1)] by (simp add: access_inv_empty)
  then have "access_inv (as_db s') \<and> some_admin admins (as_db s')"
    using governed.reach_keeps [OF assms(3)] assms(2) by simp
  then show ?thesis by (simp add: access_inv_def)
qed

definition ex_profile :: user_profile where
  "ex_profile = \<lparr>up_id = ''7'', up_username = ''li'', up_nickname = [], up_email = []\<rparr>"

definition ex_login :: access_cmd where
  "ex_login = ALogin ex_profile True True False NoFault 10 ''r1''"

definition ex_state :: access_state where
  "ex_state = \<lparr>as_db = \<lparr>p_users = [\<lparr>pu_user_id = ''7'', pu_username = ''li'', pu_nickname = [],
       pu_email = [], pu_last_seen_at = 10\<rparr>],
     p_roles = [\<lparr>pr_id = ''r1'', pr_user_id = ''7'', pr_role_code = ADMIN_ROLE,
       pr_granted_by = ''system-bootstrap''\<rparr>], p_audits = []\<rparr>, as_dev_seen = {}\<rparr>"

lemma ex_login_step:
  "exec_access [] ex_login \<lparr>as_db = empty_access_db, as_dev_seen = {}\<rparr> = Inr ex_state"
  by (simp add: ex_login_def actor_from_profile_def ex_profile_def empty_access_db_def ex_state_def
      upsert_user_def admin_row_def admin_rows_def tbl_put_def Let_def)

theorem an_admin_remains_witness:
  "some_admin [] (as_db ex_state) \<and> keys_ok pr_user_id (admin_rows (as_db ex_state))"
proof -
  have "reach (exec_access []) \<lparr>as_db = empty_access_db, as_dev_seen = {}\<rparr> ex_state"
    using ex_login_step by (meson reach_init reach_step)
  moreover have "some_admin [] (as_db ex_state)"
    by (simp add: some_admin_def ex_state_def admin_rows_def)
  ultimately show ?thesis by (rule an_admin_remains [OF _ _ reach_init])
qed

text \<open>
  Administrator rights come only from where they may.  When the database answers, a signed-in
  user is an administrator exactly when authentication is off, he is forced or configured as
  one, or the role table says so after the call; and a sign-in adds a role row only as the first
  administrator of a platform that has none, when bootstrapping is switched on.
\<close>

theorem login_rights:
  assumes "rid \<notin> pr_id ` set (p_roles (as_db s))"
    and "actor_from_profile p admins auth first force NoFault t rid s = (s', a)"
  shows "(pa_is_admin a \<longleftrightarrow> \<not> auth \<or> force \<or> up_id p \<in> set admins \<or> admin_row (as_db s') (up_id p) \<noteq> None) \<and>
    (admin_rows (as_db s') = admin_rows (as_db s) \<or>
      auth \<and> first \<and> admins = [] \<and> admin_rows (as_db s) = [] \<and>
      pr_user_id ` set (admin_rows (as_db s')) = {up_id p})"
proof (cases "auth \<and> first \<and> admin_row (as_db s) (up_id p) = None \<and> admins = [] \<and> admin_rows (as_db s) = []")
  case True
  then have s': "as_db s' = new_admin rid (up_id p) ''system-bootstrap'' (upsert_user t p (as_db s))"
    and a: "pa_is_admin a"
    using assms by (auto simp: actor_from_profile_def Let_def new_admin_def actor_of_def)
  show ?thesis
    unfolding s' using True a by (simp add: new_admin_row new_admin_rows)
next
  case False
  have r: "s' = fst (actor_from_profile p admins auth first force NoFault t rid s)"
    "a = snd (actor_from_profile p admins auth first force NoFault t rid s)"
    using assms(2) by simp_all
  have rows: "admin_rows (as_db s') = admin_rows (as_db s)"
    using False unfolding r actor_from_profile_def Let_def
    by (cases "auth \<or> up_id p \<notin> as_dev_seen s") auto
  have "pa_is_admin a \<longleftrightarrow> \<not> auth \<or> force \<or> up_id p \<in> set admins \<or>
      auth \<and> admin_row (as_db s) (up_id p) \<noteq> None"
    using False unfolding r actor_from_profile_def Let_def actor_of_def by (cases auth) auto
  moreover have "admin_row (as_db s') (up_id p) = None \<longleftrightarrow> admin_row (as_db s) (up_id p) = None"
    unfolding admin_row_None rows ..
  ultimately show ?thesis using rows by simp
qed

theorem login_rights_witness:
  "pa_is_admin (snd (actor_from_profile ex_profile [] True True False NoFault 10 ''r1''
     \<lparr>as_db = empty_access_db, as_dev_seen = {}\<rparr>))"
proof -
  let ?r = "actor_from_profile ex_profile [] True True False NoFault 10 ''r1''
     \<lparr>as_db = empty_access_db, as_dev_seen = {}\<rparr>"
  have f: "fst ?r = ex_state" using ex_login_step by (simp add: ex_login_def)
  have "pa_is_admin (snd ?r) \<longleftrightarrow> admin_row (as_db (fst ?r)) (up_id ex_profile) \<noteq> None"
    using login_rights [of "''r1''" "\<lparr>as_db = empty_access_db, as_dev_seen = {}\<rparr>" ex_profile "[]" True True
        False 10 "fst ?r" "snd ?r"] by (simp add: empty_access_db_def)
  then show ?thesis unfolding f by (simp add: ex_state_def ex_profile_def admin_row_def)
qed

text \<open>
  When the commit fails after a bootstrap grant the row is rolled back, but the variable that
  says the user is an administrator is not.
\<close>

lemma rolled_back_bootstrap_keeps_rights:
  "case actor_from_profile ex_profile [] True True False AtCommit 10 ''r1''
     \<lparr>as_db = empty_access_db, as_dev_seen = {}\<rparr> of (s, a) \<Rightarrow> pa_is_admin a \<and> p_roles (as_db s) = []"
  by (simp add: actor_from_profile_def Let_def actor_of_def admin_row_def admin_rows_def
      empty_access_db_def upsert_user_def)

end
