(* ===== verification/Correction.thy ===== *)
theory Correction
  imports Platform_Access Lexicon
begin

text \<open>
  The ledger of manual corrections (backend/service/correction.py): submission, review, and the
  reliable synchronisation of approved corrections with the projection table and, in dual mode,
  with the graph.  The graph client is an argument: the requests it receives are values, and it
  answers with success or the text of an exception.
\<close>

section \<open>Tables\<close>

datatype correction_state = PENDING_REVIEW | PENDING_SYNC | SYNC_FAILED | COMPLETED | REJECTED | CANCELLED

datatype target_type = TExpert | TOrganization | TRelation

datatype operation = OCreate | OUpdate | ODelete

record manual_correction =
  mc_id :: string
  mc_target_type :: target_type
  mc_operation :: operation
  mc_target_id :: string
  mc_title :: string
  mc_reason :: string
  mc_before :: dict
  mc_after :: dict
  mc_status :: correction_state
  mc_submitter_id :: string
  mc_submitter_name :: string
  mc_reviewer_id :: "string option"
  mc_reviewer_name :: "string option"
  mc_decision_note :: string
  mc_version :: nat
  mc_submitted_at :: time
  mc_reviewed_at :: "time option"
  mc_completed_at :: "time option"
  mc_created_at :: time

record correction_review =
  cw_correction_id :: string
  cw_action :: string
  cw_actor_id :: string
  cw_actor_name :: string
  cw_note :: string
  cw_snapshot_status :: correction_state
  cw_snapshot_version :: nat
  cw_created_at :: time

datatype task_status = TkPending | TkProcessing | TkRetrying | TkSucceeded | TkFailed

datatype part_status = PtPending | PtSucceeded | PtFailed | PtSkipped

record sync_task =
  ct_id :: string
  ct_correction_id :: string
  ct_idempotency_key :: string
  ct_status :: task_status
  ct_mysql_status :: part_status
  ct_graph_status :: part_status
  ct_attempts :: nat
  ct_max_attempts :: nat
  ct_next_retry_at :: "time option"
  ct_last_error :: string
  ct_created_at :: time

record projection =
  pj_target :: "target_type \<times> string"
  pj_payload :: dict
  pj_active :: bool
  pj_version :: nat
  pj_last_correction_id :: string

record correction_db =
  k_corrections :: "manual_correction list"
  k_reviews :: "correction_review list"
  k_tasks :: "sync_task list"
  k_projections :: "projection list"
  k_audits :: "admin_audit list"

definition empty_correction_db :: correction_db where
  "empty_correction_db = \<lparr>k_corrections = [], k_reviews = [], k_tasks = [], k_projections = [],
     k_audits = []\<rparr>"

datatype correction_error =
    NoCorrection string | NotPermitted string | BadValue string | DuplicateKey
  | SessionFailure    \<comment> \<open>an exception of the database while the session writes\<close>

record correction_env =
  ke_now :: time
  ke_id :: string         \<comment> \<open>the \<open>uuid4\<close> of the row that the call may insert\<close>
  ke_max_attempts :: int  \<comment> \<open>\<open>CORRECTION_SYNC_MAX_ATTEMPTS\<close>\<close>

section \<open>Primitive writes\<close>

definition get_correction :: "correction_db \<Rightarrow> string \<Rightarrow> correction_error + manual_correction" where
  "get_correction db i = (case tbl_get mc_id i (k_corrections db) of
     None \<Rightarrow> Inl (NoCorrection i) | Some c \<Rightarrow> Inr c)"

definition get_owned :: "correction_db \<Rightarrow> string \<Rightarrow> platform_actor \<Rightarrow> correction_error + manual_correction" where
  "get_owned db i a =
     rbind (get_correction db i) (\<lambda>c.
       if \<not> pa_is_admin a \<and> mc_submitter_id c \<noteq> pa_user_id a then Inl (NotPermitted i) else Inr c)"

definition put_correction :: "manual_correction \<Rightarrow> correction_db \<Rightarrow> correction_db" where
  "put_correction c db = db\<lparr>k_corrections := tbl_put mc_id c (k_corrections db)\<rparr>"

definition put_task :: "sync_task \<Rightarrow> correction_db \<Rightarrow> correction_db" where
  "put_task x db = db\<lparr>k_tasks := tbl_put ct_id x (k_tasks db)\<rparr>"

definition add_review :: "time \<Rightarrow> manual_correction \<Rightarrow> string \<Rightarrow> platform_actor \<Rightarrow> string \<Rightarrow> correction_db \<Rightarrow>
    correction_db" where
  "add_review t c action a text db = db\<lparr>k_reviews := k_reviews db @
     [\<lparr>cw_correction_id = mc_id c, cw_action = action, cw_actor_id = pa_user_id a,
       cw_actor_name = pa_display_name a, cw_note = text, cw_snapshot_status = mc_status c,
       cw_snapshot_version = mc_version c, cw_created_at = t\<rparr>]\<rparr>"

definition add_audit :: "platform_actor \<Rightarrow> string \<Rightarrow> string \<Rightarrow> dict \<Rightarrow> correction_db \<Rightarrow> correction_db" where
  "add_audit a action rid d db = db\<lparr>k_audits := k_audits db @
     [\<lparr>aa_actor_id = pa_user_id a, aa_actor_name = pa_display_name a, aa_action = action,
       aa_resource_type = ''manual_correction'', aa_resource_id = rid, aa_detail = d\<rparr>]\<rparr>"

definition system_actor :: platform_actor where
  "system_actor = \<lparr>pa_user_id = ''system'', pa_username = ''system'', pa_display_name = zh_sync_service,
     pa_email = [], pa_is_admin = True\<rparr>"

definition task_of :: "correction_db \<Rightarrow> string \<Rightarrow> sync_task option" where
  "task_of db cid = find (\<lambda>x. ct_correction_id x = cid) (k_tasks db)"

fun state_name :: "correction_state \<Rightarrow> string" where
  "state_name PENDING_REVIEW = ''PENDING_REVIEW''"
| "state_name PENDING_SYNC = ''PENDING_SYNC''"
| "state_name SYNC_FAILED = ''SYNC_FAILED''"
| "state_name COMPLETED = ''COMPLETED''"
| "state_name REJECTED = ''REJECTED''"
| "state_name CANCELLED = ''CANCELLED''"

section \<open>Submission and review\<close>

record correction_payload =
  cp_target_type :: target_type
  cp_operation :: operation
  cp_target_id :: string
  cp_title :: string
  cp_reason :: string
  cp_before :: dict
  cp_after :: dict

definition new_correction :: "correction_env \<Rightarrow> correction_payload \<Rightarrow> platform_actor \<Rightarrow> manual_correction" where
  "new_correction env p a =
     \<lparr>mc_id = ke_id env, mc_target_type = cp_target_type p, mc_operation = cp_operation p,
      mc_target_id = cp_target_id p, mc_title = cp_title p, mc_reason = cp_reason p,
      mc_before = cp_before p, mc_after = cp_after p, mc_status = PENDING_REVIEW,
      mc_submitter_id = pa_user_id a, mc_submitter_name = pa_display_name a,
      mc_reviewer_id = None, mc_reviewer_name = None, mc_decision_note = [], mc_version = 1,
      mc_submitted_at = ke_now env, mc_reviewed_at = None, mc_completed_at = None,
      mc_created_at = ke_now env\<rparr>"

definition create_correction ::
  "correction_env \<Rightarrow> correction_payload \<Rightarrow> platform_actor \<Rightarrow> correction_db \<Rightarrow> correction_error + correction_db" where
  "create_correction env p a db =
     (let c = new_correction env p a in
      case tbl_insert mc_id c (k_corrections db) of
        None \<Rightarrow> Inl DuplicateKey
      | Some cs \<Rightarrow> Inr (add_audit a ''CREATE_CORRECTION'' (mc_id c)
                         [(''status'', JStr (state_name (mc_status c)))]
                         (add_review (ke_now env) c ''SUBMIT'' a zh_submit_note
                           (db\<lparr>k_corrections := cs\<rparr>))))"

record correction_edit =
  ce_title :: "string option"
  ce_reason :: "string option"
  ce_before :: "dict option"
  ce_after :: "dict option"

definition or_keep :: "'a option \<Rightarrow> 'a \<Rightarrow> 'a" where
  "or_keep x y = (case x of None \<Rightarrow> y | Some v \<Rightarrow> v)"

definition edited :: "correction_edit \<Rightarrow> manual_correction \<Rightarrow> manual_correction" where
  \<comment> \<open>\<open>for key, value in payload.items(): if value is not None: setattr(...)\<close>\<close>
  "edited p c = c\<lparr>mc_title := or_keep (ce_title p) (mc_title c),
     mc_reason := or_keep (ce_reason p) (mc_reason c),
     mc_before := or_keep (ce_before p) (mc_before c),
     mc_after := or_keep (ce_after p) (mc_after c)\<rparr>"

definition update_correction ::
  "correction_env \<Rightarrow> string \<Rightarrow> correction_edit \<Rightarrow> platform_actor \<Rightarrow> correction_db \<Rightarrow> correction_error + correction_db" where
  "update_correction env i p a db =
     rbind (get_owned db i a) (\<lambda>c.
       if mc_status c \<noteq> PENDING_REVIEW then Inl (BadValue ''not-pending'')
       else let c1 = edited p c in
         if mc_operation c1 \<noteq> ODelete \<and> mc_after c1 = [] then Inl (BadValue ''after-data'')
         else let c2 = c1\<lparr>mc_version := Suc (mc_version c1)\<rparr> in
           Inr (add_audit a ''UPDATE_CORRECTION'' i [(''version'', JInt (int (mc_version c2)))]
                 (add_review (ke_now env) c2 ''EDIT'' a zh_edit_note (put_correction c2 db))))"

definition cancel_correction ::
  "correction_env \<Rightarrow> string \<Rightarrow> platform_actor \<Rightarrow> correction_db \<Rightarrow> correction_error + correction_db" where
  "cancel_correction env i a db =
     rbind (get_owned db i a) (\<lambda>c.
       if mc_status c \<noteq> PENDING_REVIEW then Inl (BadValue ''not-pending'')
       else let c1 = c\<lparr>mc_status := CANCELLED\<rparr> in
         Inr (add_audit a ''CANCEL_CORRECTION'' i []
               (add_review (ke_now env) c1 ''CANCEL'' a zh_cancel_note (put_correction c1 db))))"

definition reviewed :: "time \<Rightarrow> string \<Rightarrow> platform_actor \<Rightarrow> bool \<Rightarrow> manual_correction \<Rightarrow> manual_correction" where
  "reviewed t text a reject c =
     c\<lparr>mc_reviewer_id := Some (pa_user_id a), mc_reviewer_name := Some (pa_display_name a),
       mc_reviewed_at := Some t, mc_decision_note := py_strip text,
       mc_status := (if reject then REJECTED else PENDING_SYNC)\<rparr>"

definition new_task :: "correction_env \<Rightarrow> manual_correction \<Rightarrow> sync_task" where
  "new_task env c = \<lparr>ct_id = ke_id env, ct_correction_id = mc_id c,
     ct_idempotency_key = ''correction:'' @ mc_id c @ '':v'' @ show_nat (mc_version c),
     ct_status = TkPending, ct_mysql_status = PtPending, ct_graph_status = PtPending,
     ct_attempts = 0, ct_max_attempts = nat (max 1 (ke_max_attempts env)), ct_next_retry_at = None,
     ct_last_error = [], ct_created_at = ke_now env\<rparr>"

definition ensure_task :: "correction_env \<Rightarrow> manual_correction \<Rightarrow> correction_db \<Rightarrow> correction_error + correction_db" where
  "ensure_task env c db =
     (case task_of db (mc_id c) of
        Some x \<Rightarrow> Inr db
      | None \<Rightarrow>
          if list_ex (\<lambda>x. ct_id x = ke_id env \<or>
                          ct_idempotency_key x = ct_idempotency_key (new_task env c)) (k_tasks db)
          then Inl DuplicateKey
          else Inr (db\<lparr>k_tasks := k_tasks db @ [new_task env c]\<rparr>))"

definition decide ::
  "correction_env \<Rightarrow> string \<Rightarrow> bool \<Rightarrow> string \<Rightarrow> platform_actor \<Rightarrow> correction_db \<Rightarrow> correction_error + correction_db" where
  \<comment> \<open>\<open>reject\<close> is \<open>decision == "reject"\<close>; the request model admits approve and reject\<close>
  "decide env i reject text a db =
     rbind (get_correction db i) (\<lambda>c.
       if mc_status c \<noteq> PENDING_REVIEW then Inl (BadValue ''already-decided'')
       else if mc_submitter_id c = pa_user_id a then Inl (NotPermitted ''own-correction'')
       else if reject \<and> py_blank text then Inl (BadValue ''reason'')
       else
         let c1 = reviewed (ke_now env) text a reject c in
         if reject then
           Inr (add_audit a ''REJECT_CORRECTION'' i [(''note'', JStr text)]
                 (add_review (ke_now env) c1 ''REJECT'' a text (put_correction c1 db)))
         else
           rbind (ensure_task env c1 (put_correction c1 db)) (\<lambda>db1.
             Inr (add_audit a ''APPROVE_CORRECTION'' i [(''note'', JStr text)]
                   (add_review (ke_now env) c1 ''APPROVE'' a
                     (if text \<noteq> [] then text else zh_approve_note) db1))))"

definition retry_correction ::
  "correction_env \<Rightarrow> string \<Rightarrow> string \<Rightarrow> platform_actor \<Rightarrow> correction_db \<Rightarrow> correction_error + correction_db" where
  "retry_correction env i text a db =
     rbind (get_correction db i) (\<lambda>c.
       case task_of db i of
         None \<Rightarrow> Inl (BadValue ''no-retry'')
       | Some x \<Rightarrow>
           if mc_status c \<notin> {SYNC_FAILED, PENDING_SYNC} then Inl (BadValue ''no-retry'')
           else
             let x1 = x\<lparr>ct_status := TkPending, ct_attempts := 0, ct_next_retry_at := None,
                        ct_last_error := []\<rparr>;
                 c1 = c\<lparr>mc_status := PENDING_SYNC\<rparr>
             in Inr (add_audit a ''RETRY_CORRECTION'' i [(''note'', JStr text)]
                  (add_review (ke_now env) c1 ''RETRY'' a (if text \<noteq> [] then text else zh_retry_note)
                    (put_task x1 (put_correction c1 db)))))"

end
