(* ===== verification/Correction_Sync.thy ===== *)
theory Correction_Sync
  imports Correction
begin

text \<open>
  Synchronisation of approved corrections (backend/service/correction.py): the projection table,
  the requests to the graph, the task with its retries, one pass over the due tasks, and the
  read side of the ledger.
\<close>

section \<open>Mode\<close>

datatype sync_mode = ProjectionMode | DualMode

definition sync_mode_of :: "string option \<Rightarrow> string option \<Rightarrow> correction_error + sync_mode" where
  \<comment> \<open>the argument of the constructor and the variable \<open>CORRECTION_SYNC_MODE\<close>\<close>
  "sync_mode_of arg var =
     (let m = ascii_lower (py_strip (opt_or arg (case var of None \<Rightarrow> ''projection'' | Some v \<Rightarrow> v))) in
      if m = ''projection'' then Inr ProjectionMode
      else if m = ''dual'' then Inr DualMode
      else Inl (BadValue ''CORRECTION_SYNC_MODE''))"

section \<open>The projection\<close>

definition projected :: "manual_correction \<Rightarrow> projection \<Rightarrow> projection" where
  "projected c p =
     (case mc_operation c of
        OCreate \<Rightarrow> p\<lparr>pj_payload := mc_after c, pj_active := True\<rparr>
      | OUpdate \<Rightarrow> p\<lparr>pj_payload := dmerge (pj_payload p) (mc_after c), pj_active := True\<rparr>
      | ODelete \<Rightarrow> p\<lparr>pj_active := False\<rparr>)
     \<lparr>pj_version := Suc (pj_version p), pj_last_correction_id := mc_id c\<rparr>"

definition target_of :: "manual_correction \<Rightarrow> target_type \<times> string" where
  "target_of c = (mc_target_type c, mc_target_id c)"

definition apply_mysql_projection :: "manual_correction \<Rightarrow> projection list \<Rightarrow> projection list" where
  "apply_mysql_projection c ps =
     (case tbl_get pj_target (target_of c) ps of
        Some p \<Rightarrow> if pj_last_correction_id p = mc_id c then ps
                  else tbl_put pj_target (projected c p) ps
      | None \<Rightarrow> tbl_put pj_target
          (projected c \<lparr>pj_target = target_of c, pj_payload = [], pj_active = True, pj_version = 0,
             pj_last_correction_id = mc_id c\<rparr>) ps)"

section \<open>The graph\<close>

datatype graph_request =
    GetNode string
  | UpdateNode string dict
  | MergeNode string dict dict
  | MergeEdge string string string dict dict
  | UpdateEdge string dict string

type_synonym graph = "graph_request \<Rightarrow> string + bool"
  \<comment> \<open>the text of the exception, or whether the request found its node\<close>

definition graph_metadata :: "string \<Rightarrow> manual_correction \<Rightarrow> dict" where
  "graph_metadata now c =
     [(''manual_disabled'', JBool (mc_operation c = ODelete)), (''correction_id'', JStr (mc_id c)),
      (''corrected_at'', JStr now)]"

definition apply_graph_node :: "graph \<Rightarrow> string \<Rightarrow> manual_correction \<Rightarrow> string + unit" where
  "apply_graph_node g now c =
     (let label = (if mc_target_type c = TExpert then ''Scholar'' else ''Organization'');
          metadata = graph_metadata now c in
      if mc_operation c = ODelete then
        rbind (g (GetNode (mc_target_id c))) (\<lambda>found.
          if \<not> found then Inr ()
          else rbind (g (UpdateNode (mc_target_id c) metadata)) (\<lambda>_. Inr ()))
      else
        let key = (if label = ''Scholar'' then ''scholar_id'' else ''org_id'');
            properties = dmerge (dmerge [(key, JStr (mc_target_id c))] (mc_after c)) metadata
        in rbind (g (MergeNode label [(key, JStr (mc_target_id c))] properties)) (\<lambda>_. Inr ()))"

definition is_upper :: "char \<Rightarrow> bool" where
  "is_upper c = (65 \<le> (of_char c :: nat) \<and> (of_char c :: nat) \<le> 90)"

definition is_digit :: "char \<Rightarrow> bool" where
  "is_digit c = (48 \<le> (of_char c :: nat) \<and> (of_char c :: nat) \<le> 57)"

definition edge_type_ok :: "string \<Rightarrow> bool" where
  \<comment> \<open>\<open>^[A-Z][A-Z0-9_]{0,63}$\<close>\<close>
  "edge_type_ok s = (case s of [] \<Rightarrow> False
     | c # cs \<Rightarrow> is_upper c \<and> length cs \<le> 63 \<and>
                 list_all (\<lambda>x. is_upper x \<or> is_digit x \<or> x = CHR ''_'') cs)"

definition first_str :: "dict \<Rightarrow> string \<Rightarrow> string \<Rightarrow> string" where
  "first_str d k1 k2 = py_str (json_or (json_or (dget d k1) (dget d k2)) (JStr []))"

definition RELATION_KEYS :: "string list" where
  "RELATION_KEYS = [''sourceId'', ''source_id'', ''targetId'', ''target_id'', ''edgeType'', ''edge_type'']"

definition apply_graph_relation :: "graph \<Rightarrow> string \<Rightarrow> manual_correction \<Rightarrow> string + unit" where
  "apply_graph_relation g now c =
     (let payload = dmerge (mc_before c) (mc_after c);
          source_id = first_str payload ''sourceId'' ''source_id'';
          target_id = first_str payload ''targetId'' ''target_id'';
          edge_type = first_str payload ''edgeType'' ''edge_type'' in
      if source_id = [] \<or> target_id = [] \<or> \<not> edge_type_ok edge_type then Inl ''relation-payload''
      else if edge_type \<noteq> ''EMPLOYED_BY'' then Inl ''relation-type''
      else
        let edge_id = (if py_in ''->'' (mc_target_id c) \<and> py_in ''@'' (mc_target_id c)
                       then mc_target_id c else source_id @ ''->'' @ target_id @ ''@0'');
            properties = (case dget payload ''properties'' of
               JObj d \<Rightarrow> d
             | _ \<Rightarrow> filter (\<lambda>p. fst p \<notin> set RELATION_KEYS) (mc_after c));
            properties = dmerge properties (graph_metadata now c)
        in rbind (g (if mc_operation c = OCreate
               then MergeEdge source_id target_id edge_type [(''correction_id'', JStr (mc_id c))] properties
               else UpdateEdge edge_id properties edge_type)) (\<lambda>_. Inr ()))"

definition apply_graph_projection :: "graph \<Rightarrow> string \<Rightarrow> manual_correction \<Rightarrow> string + unit" where
  "apply_graph_projection g now c =
     (if mc_target_type c \<in> {TExpert, TOrganization} then apply_graph_node g now c
      else apply_graph_relation g now c)"

section \<open>The task\<close>

record sync_env =
  se_now :: time
  se_iso :: string               \<comment> \<open>\<open>_now().isoformat()\<close>\<close>
  se_mysql :: "string option"    \<comment> \<open>the exception of the projection statement, if it raises\<close>
  se_flush_fails :: bool         \<comment> \<open>a flush of the session raises\<close>
  se_graph :: graph

definition retry_seconds :: "nat \<Rightarrow> int" where
  "retry_seconds attempts = min 3600 (30 * 2 ^ (attempts - 1))"

definition failed_task :: "time \<Rightarrow> string \<Rightarrow> sync_task \<Rightarrow> sync_task" where
  "failed_task t msg x =
     (if ct_max_attempts x \<le> ct_attempts x
      then x\<lparr>ct_last_error := py_take 2000 msg, ct_status := TkFailed, ct_next_retry_at := None\<rparr>
      else x\<lparr>ct_last_error := py_take 2000 msg, ct_status := TkRetrying,
             ct_next_retry_at := Some (t + retry_seconds (ct_attempts x))\<rparr>)"

definition complete_task ::
  "time \<Rightarrow> sync_task \<Rightarrow> manual_correction \<Rightarrow> string \<Rightarrow> correction_db \<Rightarrow> correction_db" where
  "complete_task t x c text db =
     (let x1 = x\<lparr>ct_status := TkSucceeded, ct_last_error := [], ct_next_retry_at := None\<rparr>;
          c1 = c\<lparr>mc_status := COMPLETED, mc_completed_at := Some t\<rparr>
      in add_review t c1 ''SYNC_SUCCEEDED'' system_actor text (put_task x1 (put_correction c1 db)))"

definition schedule_failure ::
  "time \<Rightarrow> sync_task \<Rightarrow> manual_correction \<Rightarrow> string \<Rightarrow> correction_db \<Rightarrow> correction_db" where
  "schedule_failure t x c msg db =
     put_task (failed_task t msg x) (put_correction (c\<lparr>mc_status := SYNC_FAILED\<rparr>) db)"

text \<open>
  A flush that raises leaves the session without a usable transaction.  When it is the flush inside the
  \<open>try\<close>, the code of the \<open>except\<close> works on that session and raises in its turn; so wherever a flush
  fails the exception leaves \<open>process_task\<close>, and the transaction of the pass is rolled back.
\<close>

definition process_task ::
  "sync_mode \<Rightarrow> sync_env \<Rightarrow> string \<Rightarrow> correction_db \<Rightarrow> correction_error + correction_db" where
  "process_task mode env tid db =
     (case tbl_get ct_id tid (k_tasks db) of
        None \<Rightarrow> Inr db
      | Some x0 \<Rightarrow>
          if ct_status x0 = TkSucceeded then Inr db
          else rbind (get_correction db (ct_correction_id x0)) (\<lambda>c.
            let x = x0\<lparr>ct_status := TkProcessing, ct_attempts := Suc (ct_attempts x0),
                       ct_next_retry_at := None\<rparr>;
                t = se_now env in
            if se_flush_fails env then Inl SessionFailure
            else case se_mysql env of
              Some msg \<Rightarrow>
                Inr (schedule_failure t
                  (x\<lparr>ct_mysql_status := PtFailed,
                     ct_graph_status := (if mode = ProjectionMode then PtSkipped else ct_graph_status x)\<rparr>)
                  c msg db)
            | None \<Rightarrow>
                let db1 = db\<lparr>k_projections := apply_mysql_projection c (k_projections db)\<rparr>;
                    x1 = x\<lparr>ct_mysql_status := PtSucceeded\<rparr> in
                if mode = ProjectionMode then
                  Inr (complete_task t (x1\<lparr>ct_graph_status := PtSkipped\<rparr>) c zh_projection_note db1)
                else
                  (case apply_graph_projection (se_graph env) (se_iso env) c of
                     Inr u \<Rightarrow> Inr (complete_task t (x1\<lparr>ct_graph_status := PtSucceeded\<rparr>) c zh_dual_note db1)
                   | Inl msg \<Rightarrow> Inr (schedule_failure t (x1\<lparr>ct_graph_status := PtFailed\<rparr>) c msg db1))))"

definition task_due :: "time \<Rightarrow> sync_task \<Rightarrow> bool" where
  "task_due t x = (ct_status x \<in> {TkPending, TkRetrying} \<and>
     (case ct_next_retry_at x of None \<Rightarrow> True | Some r \<Rightarrow> r \<le> t))"

definition due_tasks :: "time \<Rightarrow> nat \<Rightarrow> correction_db \<Rightarrow> sync_task list" where
  "due_tasks t limit db = take limit (sort_key ct_created_at (filter (task_due t) (k_tasks db)))"

fun process_tasks ::
  "sync_mode \<Rightarrow> (string \<Rightarrow> sync_env) \<Rightarrow> string list \<Rightarrow> correction_db \<Rightarrow> correction_error + correction_db" where
  "process_tasks mode env [] db = Inr db"
| "process_tasks mode env (i # is) db =
     rbind (process_task mode (env i) i db) (process_tasks mode env is)"

definition process_due_sync_tasks ::
  "sync_mode \<Rightarrow> (string \<Rightarrow> sync_env) \<Rightarrow> time \<Rightarrow> nat \<Rightarrow> correction_db \<Rightarrow>
   correction_error + (correction_db \<times> nat)" where
  "process_due_sync_tasks mode env t limit db =
     (let tasks = due_tasks t limit db
      in rbind (process_tasks mode env (map ct_id tasks) db) (\<lambda>db'. Inr (db', length tasks)))"

section \<open>Reading\<close>

fun action_order :: "string \<Rightarrow> nat" where
  "action_order a =
     (if a = ''SUBMIT'' then 0 else if a = ''EDIT'' then 10
      else if a \<in> {''APPROVE'', ''REJECT'', ''CANCEL''} then 20
      else if a = ''RETRY'' then 30 else if a = ''SYNC_SUCCEEDED'' then 40 else 50)"

record correction_detail =
  cx_correction :: manual_correction
  cx_sync :: "sync_task option"
  cx_history :: "correction_review list option"

definition history_of :: "correction_db \<Rightarrow> string \<Rightarrow> correction_review list" where
  \<comment> \<open>rows with the same time and order follow their insertion; the code orders them by a random id\<close>
  "history_of db i =
     sort_key cw_created_at (sort_key (\<lambda>r. action_order (cw_action r))
       (filter (\<lambda>r. cw_correction_id r = i) (k_reviews db)))"

definition correction_detail :: "correction_db \<Rightarrow> bool \<Rightarrow> manual_correction \<Rightarrow> correction_detail" where
  "correction_detail db include_history c =
     \<lparr>cx_correction = c, cx_sync = task_of db (mc_id c),
      cx_history = (if include_history then Some (history_of db (mc_id c)) else None)\<rparr>"

definition get_correction_view :: "correction_db \<Rightarrow> string \<Rightarrow> platform_actor \<Rightarrow>
    correction_error + correction_detail" where
  "get_correction_view db i a = rbind (get_owned db i a) (\<lambda>c. Inr (correction_detail db True c))"

fun target_type_name :: "target_type \<Rightarrow> string" where
  "target_type_name TExpert = ''expert''"
| "target_type_name TOrganization = ''organization''"
| "target_type_name TRelation = ''relation''"

record correction_query =
  cq_all_users :: bool
  cq_status :: "string option"
  cq_statuses :: "string list"
  cq_target_type :: "string option"
  cq_keyword :: "string option"
  cq_page :: int
  cq_page_size :: int

definition correction_matches :: "correction_query \<Rightarrow> platform_actor \<Rightarrow> manual_correction \<Rightarrow> bool" where
  \<comment> \<open>the keyword is matched by \<open>LIKE\<close> without wildcards\<close>
  "correction_matches q a c =
     ((if cq_all_users q \<and> pa_is_admin a then True else mc_submitter_id c = pa_user_id a) \<and>
      (if opt_truthy (cq_status q) then Some (state_name (mc_status c)) = cq_status q
       else if cq_statuses q \<noteq> [] then state_name (mc_status c) \<in> set (cq_statuses q) else True) \<and>
      (if opt_truthy (cq_target_type q)
       then Some (target_type_name (mc_target_type c)) = cq_target_type q else True) \<and>
      (if opt_truthy (cq_keyword q) then
         let kw = py_strip (opt_str (cq_keyword q)) in
         py_in kw (mc_title c) \<or> py_in kw (mc_target_id c) \<or> py_in kw (mc_reason c) \<or>
         py_in kw (mc_submitter_name c)
       else True))"

record correction_page =
  cg_items :: "correction_detail list"
  cg_total :: nat
  cg_page :: nat
  cg_page_size :: nat
  cg_status_counts :: "(correction_state \<times> nat) list"

definition ALL_STATES :: "correction_state list" where
  "ALL_STATES = [PENDING_REVIEW, PENDING_SYNC, SYNC_FAILED, COMPLETED, REJECTED, CANCELLED]"

definition list_corrections :: "correction_query \<Rightarrow> platform_actor \<Rightarrow> correction_db \<Rightarrow> correction_page" where
  "list_corrections q a db =
     (let rows = filter (correction_matches q a) (k_corrections db);
          size = nat (min (max (cq_page_size q) 1) 100);
          page = nat (max (cq_page q) 1);
          ordered = rev (sort_key mc_created_at (sort_key mc_id rows))
      in \<lparr>cg_items = map (correction_detail db False) (take size (drop ((page - 1) * size) ordered)),
          cg_total = length rows, cg_page = page, cg_page_size = size,
          cg_status_counts = filter (\<lambda>p. snd p \<noteq> 0)
            (map (\<lambda>s. (s, length (filter (\<lambda>c. mc_status c = s) rows))) ALL_STATES)\<rparr>)"

end
