(* ===== verification/Correction_Inv.thy ===== *)
theory Correction_Inv
  imports Correction_Sync
begin

text \<open>
  The ledger of corrections as a transactional system: the coherence of corrections, tasks and
  projections, and that every call keeps it.
\<close>

datatype correction_cmd =
    KCreate correction_env correction_payload platform_actor
  | KUpdate correction_env string correction_edit platform_actor
  | KCancel correction_env string platform_actor
  | KDecide correction_env string bool string platform_actor
  | KRetry correction_env string string platform_actor
  | KProcess sync_mode "string \<Rightarrow> sync_env" time nat

fun exec_correction :: "correction_cmd \<Rightarrow> correction_db \<Rightarrow> correction_error + correction_db" where
  "exec_correction (KCreate env p a) db = create_correction env p a db"
| "exec_correction (KUpdate env i p a) db = update_correction env i p a db"
| "exec_correction (KCancel env i a) db = cancel_correction env i a db"
| "exec_correction (KDecide env i reject text a) db = decide env i reject text a db"
| "exec_correction (KRetry env i text a) db = retry_correction env i text a db"
| "exec_correction (KProcess mode env t limit) db =
     rbind (process_due_sync_tasks mode env t limit db) (\<lambda>r. Inr (fst r))"

section \<open>Coherence\<close>

fun state_of_task :: "task_status \<Rightarrow> correction_state" where
  "state_of_task TkPending = PENDING_SYNC"
| "state_of_task TkProcessing = PENDING_SYNC"
| "state_of_task TkRetrying = SYNC_FAILED"
| "state_of_task TkSucceeded = COMPLETED"
| "state_of_task TkFailed = SYNC_FAILED"

definition SYNC_STATES :: "correction_state list" where
  "SYNC_STATES = [PENDING_SYNC, SYNC_FAILED, COMPLETED]"

definition task_ok :: "manual_correction list \<Rightarrow> sync_task \<Rightarrow> bool" where
  "task_ok cs x \<longleftrightarrow>
     (\<exists>c. tbl_get mc_id (ct_correction_id x) cs = Some c \<and> mc_status c = state_of_task (ct_status x)) \<and>
     ct_status x \<noteq> TkProcessing \<and> 0 < ct_max_attempts x \<and> ct_attempts x \<le> ct_max_attempts x \<and>
     (ct_status x \<in> {TkPending, TkRetrying} \<longrightarrow> ct_attempts x < ct_max_attempts x) \<and>
     (ct_status x = TkRetrying \<longrightarrow> ct_next_retry_at x \<noteq> None)"

definition reviewed_ok :: "manual_correction \<Rightarrow> bool" where
  "reviewed_ok c \<longleftrightarrow> (\<exists>r. mc_reviewer_id c = Some r \<and> r \<noteq> mc_submitter_id c)"

definition correction_row_ok :: "sync_task list \<Rightarrow> manual_correction \<Rightarrow> bool" where
  "correction_row_ok xs c \<longleftrightarrow>
     (mc_status c \<in> set SYNC_STATES \<longleftrightarrow> mc_id c \<in> ct_correction_id ` set xs) \<and>
     (mc_status c \<in> set (REJECTED # SYNC_STATES) \<longrightarrow> reviewed_ok c)"

definition projection_ok :: "manual_correction list \<Rightarrow> projection \<Rightarrow> bool" where
  "projection_ok cs p \<longleftrightarrow>
     (\<exists>c. tbl_get mc_id (pj_last_correction_id p) cs = Some c \<and> target_of c = pj_target p \<and>
        mc_status c \<in> set SYNC_STATES)"

definition correction_inv :: "correction_db \<Rightarrow> bool" where
  "correction_inv db \<longleftrightarrow>
     keys_ok mc_id (k_corrections db) \<and> keys_ok ct_id (k_tasks db) \<and>
     keys_ok ct_correction_id (k_tasks db) \<and> keys_ok pj_target (k_projections db) \<and>
     (\<forall>x \<in> set (k_tasks db). task_ok (k_corrections db) x) \<and>
     (\<forall>c \<in> set (k_corrections db). correction_row_ok (k_tasks db) c) \<and>
     (\<forall>p \<in> set (k_projections db). projection_ok (k_corrections db) p)"

definition content_eq :: "manual_correction \<Rightarrow> manual_correction \<Rightarrow> bool" where
  "content_eq c c' \<longleftrightarrow> mc_id c' = mc_id c \<and> mc_target_type c' = mc_target_type c \<and>
     mc_operation c' = mc_operation c \<and> mc_target_id c' = mc_target_id c \<and>
     mc_title c' = mc_title c \<and> mc_reason c' = mc_reason c \<and> mc_before c' = mc_before c \<and>
     mc_after c' = mc_after c \<and> mc_submitter_id c' = mc_submitter_id c \<and>
     mc_reviewer_id c' = mc_reviewer_id c \<and> mc_version c' = mc_version c"

interpretation correction_table: keyed_table "tbl_get mc_id" "tbl_put mc_id" "tbl_del mc_id" mc_id "keys_ok mc_id"
  by (rule keyed_table_list)

interpretation task_table: keyed_table "tbl_get ct_id" "tbl_put ct_id" "tbl_del ct_id" ct_id "keys_ok ct_id"
  by (rule keyed_table_list)

interpretation projection_table:
  keyed_table "tbl_get pj_target" "tbl_put pj_target" "tbl_del pj_target" pj_target "keys_ok pj_target"
  by (rule keyed_table_list)

lemma correction_tables [simp]:
  "k_corrections (add_review t c act a text db) = k_corrections db"
  "k_tasks (add_review t c act a text db) = k_tasks db"
  "k_projections (add_review t c act a text db) = k_projections db"
  "k_corrections (add_audit a act i d db) = k_corrections db"
  "k_tasks (add_audit a act i d db) = k_tasks db"
  "k_projections (add_audit a act i d db) = k_projections db"
  "k_corrections (put_correction c db) = tbl_put mc_id c (k_corrections db)"
  "k_tasks (put_correction c db) = k_tasks db"
  "k_projections (put_correction c db) = k_projections db"
  "k_corrections (put_task x db) = k_corrections db"
  "k_tasks (put_task x db) = tbl_put ct_id x (k_tasks db)"
  "k_projections (put_task x db) = k_projections db"
  by (simp_all add: add_review_def add_audit_def put_correction_def put_task_def)

lemma correction_inv_rows [simp]:
  "correction_inv (add_review t c act a text db) = correction_inv db"
  "correction_inv (add_audit a act i d db) = correction_inv db"
  by (simp_all add: correction_inv_def)

lemma get_correction_Inr: "get_correction db i = Inr c \<longleftrightarrow> tbl_get mc_id i (k_corrections db) = Some c"
  by (auto simp: get_correction_def split: option.splits)

lemma get_owned_Inr: "get_owned db i a = Inr c \<longleftrightarrow>
    tbl_get mc_id i (k_corrections db) = Some c \<and> (pa_is_admin a \<or> mc_submitter_id c = pa_user_id a)"
  by (auto simp: get_owned_def get_correction_Inr rbind_Inr_iff split: if_splits)

lemma task_of_Some: "task_of db i = Some x \<Longrightarrow> x \<in> set (k_tasks db) \<and> ct_correction_id x = i"
  by (auto simp: task_of_def find_Some_iff)

lemma task_of_None: "task_of db i = None \<longleftrightarrow> i \<notin> ct_correction_id ` set (k_tasks db)"
  by (auto simp: task_of_def find_None_iff)

lemma inv_parts:
  assumes "correction_inv db"
  shows "keys_ok mc_id (k_corrections db)" and "keys_ok ct_id (k_tasks db)"
    and "keys_ok ct_correction_id (k_tasks db)" and "keys_ok pj_target (k_projections db)"
    and "x \<in> set (k_tasks db) \<Longrightarrow> task_ok (k_corrections db) x"
    and "tbl_get mc_id i (k_corrections db) = Some c \<Longrightarrow> correction_row_ok (k_tasks db) c"
    and "p \<in> set (k_projections db) \<Longrightarrow> projection_ok (k_corrections db) p"
  using assms tbl_get_Some [of mc_id i "k_corrections db" c] by (auto simp: correction_inv_def)

subsection \<open>A correction that has no task\<close>

lemma correction_inv_untasked:
  assumes inv: "correction_inv db" and c: "tbl_get mc_id i (k_corrections db) = Some c"
    and s: "mc_status c \<notin> set SYNC_STATES" and id: "mc_id c' = i"
    and s': "mc_status c' \<notin> set SYNC_STATES" and r: "mc_status c' = REJECTED \<Longrightarrow> reviewed_ok c'"
  shows "correction_inv (put_correction c' db)"
proof -
  note parts = inv_parts [OF inv]
  have n: "i \<notin> ct_correction_id ` set (k_tasks db)"
    using parts(6) [OF c] s correction_table.get_key [OF c] by (simp add: correction_row_ok_def)
  have other: "tbl_get mc_id k (tbl_put mc_id c' (k_corrections db)) = tbl_get mc_id k (k_corrections db)"
    if "k \<noteq> i" for k using that id by (simp add: tbl_get_put)
  have "task_ok (tbl_put mc_id c' (k_corrections db)) x" if "x \<in> set (k_tasks db)" for x
  proof -
    have "ct_correction_id x \<noteq> i" using n that by (metis imageI)
    from other [OF this] parts(5) [OF that] show ?thesis by (simp add: task_ok_def)
  qed
  moreover have "projection_ok (tbl_put mc_id c' (k_corrections db)) p" if "p \<in> set (k_projections db)" for p
  proof -
    have "pj_last_correction_id p \<noteq> i"
      using parts(7) [OF that] c s by (auto simp: projection_ok_def)
    with parts(7) [OF that] show ?thesis by (simp add: projection_ok_def other)
  qed
  moreover have "correction_row_ok (k_tasks db) x" if "x \<in> set (tbl_put mc_id c' (k_corrections db))" for x
  proof -
    from in_tbl_put [OF that] consider "x = c'" | "x \<in> set (k_corrections db)" by blast
    then show ?thesis
    proof cases
      case 1
      with s' r n id show ?thesis by (auto simp: correction_row_ok_def)
    next
      case 2
      with inv show ?thesis by (simp add: correction_inv_def)
    qed
  qed
  ultimately show ?thesis
    using parts(1-4) by (simp add: correction_inv_def keys_ok_put)
qed

subsection \<open>A correction together with its task\<close>

lemma correction_inv_tasked:
  assumes inv: "correction_inv db" and x: "tbl_get ct_id k (k_tasks db) = Some x"
    and c: "tbl_get mc_id (ct_correction_id x) (k_corrections db) = Some c"
    and x': "ct_id x' = k" "ct_correction_id x' = ct_correction_id x"
    and c': "mc_id c' = mc_id c" "target_of c' = target_of c" "mc_submitter_id c' = mc_submitter_id c"
      "mc_reviewer_id c' = mc_reviewer_id c" "mc_status c' = state_of_task (ct_status x')"
    and ok: "ct_status x' \<noteq> TkProcessing" "ct_attempts x' \<le> ct_max_attempts x'" "0 < ct_max_attempts x'"
      "ct_status x' \<in> {TkPending, TkRetrying} \<Longrightarrow> ct_attempts x' < ct_max_attempts x'"
      "ct_status x' = TkRetrying \<Longrightarrow> ct_next_retry_at x' \<noteq> None"
  shows "correction_inv (put_task x' (put_correction c' db))"
proof -
  note parts = inv_parts [OF inv]
  let ?cs = "tbl_put mc_id c' (k_corrections db)" and ?xs = "tbl_put ct_id x' (k_tasks db)"
  have xm: "x \<in> set (k_tasks db)" "ct_id x = k" using tbl_get_Some [OF x] by auto
  have cid: "mc_id c = ct_correction_id x" by (rule correction_table.get_key [OF c])
  have sync: "mc_status c' \<in> set SYNC_STATES"
    using c'(5) by (cases "ct_status x'") (simp_all add: SYNC_STATES_def)
  have owners: "ct_correction_id ` set ?xs = ct_correction_id ` set (k_tasks db)"
  proof -
    have "map ct_correction_id ?xs = map ct_correction_id (k_tasks db)"
      by (rule map_put_static [OF parts(2), of _ x]) (use x x' in simp_all)
    then show ?thesis by (metis list.set_map)
  qed
  have kc: "keys_ok ct_correction_id ?xs"
    by (rule keys_ok_put_static [OF parts(2,3), of _ x]) (use x x' in simp_all)
  have get: "tbl_get mc_id i ?cs = (if i = mc_id c then Some c' else tbl_get mc_id i (k_corrections db))" for i
    using c'(1) by (simp add: tbl_get_put)
  have "task_ok ?cs y" if "y \<in> set ?xs" for y
  proof -
    from in_tbl_put [OF that] consider "y = x'" | "y \<in> set (k_tasks db)" "ct_id y \<noteq> ct_id x'" by blast
    then show ?thesis
    proof cases
      case 1
      with ok c' x' cid show ?thesis by (auto simp: task_ok_def get)
    next
      case 2
      have "ct_correction_id y \<noteq> ct_correction_id x"
      proof
        assume "ct_correction_id y = ct_correction_id x"
        then have "y = x" using parts(3) 2(1) xm(1) by (auto simp: keys_ok_def distinct_map inj_on_def)
        with 2(2) xm x'(1) show False by simp
      qed
      with parts(5) [OF 2(1)] cid show ?thesis by (simp add: task_ok_def get)
    qed
  qed
  moreover have "projection_ok ?cs p" if "p \<in> set (k_projections db)" for p
    using parts(7) [OF that] c cid c'(2) sync by (auto simp: projection_ok_def get)
  moreover have "correction_row_ok ?xs y" if "y \<in> set ?cs" for y
  proof -
    from in_tbl_put [OF that] consider "y = c'" | "y \<in> set (k_corrections db)" by blast
    then show ?thesis
    proof cases
      case 1
      have "mc_status c \<in> set SYNC_STATES"
        using parts(6) [OF c] xm cid by (auto simp: correction_row_ok_def)
      then have "reviewed_ok c'" using parts(6) [OF c] c' by (simp add: correction_row_ok_def reviewed_ok_def)
      with 1 sync owners xm cid c'(1) show ?thesis by (auto simp: correction_row_ok_def)
    next
      case 2
      with inv show ?thesis by (simp add: correction_inv_def correction_row_ok_def owners)
    qed
  qed
  ultimately show ?thesis
    using parts(1-4) kc by (simp add: correction_inv_def keys_ok_put)
qed

subsection \<open>New rows\<close>

lemma correction_inv_create:
  assumes inv: "correction_inv db" and f: "mc_id c \<notin> mc_id ` set (k_corrections db)"
    and s: "mc_status c = PENDING_REVIEW"
  shows "correction_inv (db\<lparr>k_corrections := k_corrections db @ [c]\<rparr>)"
proof -
  note parts = inv_parts [OF inv]
  have app: "tbl_get mc_id i (k_corrections db @ [c]) = Some d"
    if "tbl_get mc_id i (k_corrections db) = Some d" for i d
    using that by (simp add: tbl_get_append)
  have n: "mc_id c \<notin> ct_correction_id ` set (k_tasks db)"
  proof
    assume "mc_id c \<in> ct_correction_id ` set (k_tasks db)"
    then obtain x where "x \<in> set (k_tasks db)" "ct_correction_id x = mc_id c" by auto
    with parts(5) [of x] obtain d where "tbl_get mc_id (mc_id c) (k_corrections db) = Some d"
      by (auto simp: task_ok_def)
    with f show False using tbl_get_Some [of mc_id "mc_id c" "k_corrections db" d] by (metis imageI)
  qed
  have "task_ok (k_corrections db @ [c]) x" if "x \<in> set (k_tasks db)" for x
    using parts(5) [OF that] app unfolding task_ok_def by blast
  moreover have "projection_ok (k_corrections db @ [c]) p" if "p \<in> set (k_projections db)" for p
    using parts(7) [OF that] app unfolding projection_ok_def by blast
  moreover have "correction_row_ok (k_tasks db) c"
    using n s by (simp add: correction_row_ok_def SYNC_STATES_def)
  ultimately show ?thesis
    using inv f by (simp add: correction_inv_def keys_ok_def)
qed

lemma correction_inv_approve:
  assumes inv: "correction_inv db" and c: "tbl_get mc_id i (k_corrections db) = Some c"
    and s: "mc_status c \<notin> set SYNC_STATES" and c': "mc_id c' = i" "mc_status c' = PENDING_SYNC"
    and r: "reviewed_ok c'" and x: "ct_id x \<notin> ct_id ` set (k_tasks db)" "ct_correction_id x = i"
      "ct_status x = TkPending" "ct_attempts x < ct_max_attempts x"
  shows "correction_inv (put_correction c' db\<lparr>k_tasks := k_tasks db @ [x]\<rparr>)"
proof -
  note parts = inv_parts [OF inv]
  let ?cs = "tbl_put mc_id c' (k_corrections db)"
  have n: "i \<notin> ct_correction_id ` set (k_tasks db)"
    using parts(6) [OF c] s correction_table.get_key [OF c] by (simp add: correction_row_ok_def)
  have get: "tbl_get mc_id k ?cs = (if k = i then Some c' else tbl_get mc_id k (k_corrections db))" for k
    using c'(1) by (simp add: tbl_get_put)
  have "task_ok ?cs y" if "y \<in> set (k_tasks db)" for y
  proof -
    have "ct_correction_id y \<noteq> i" using n that by (metis imageI)
    with parts(5) [OF that] show ?thesis by (simp add: task_ok_def get)
  qed
  moreover have "task_ok ?cs x" using x c' by (simp add: task_ok_def get)
  moreover have "projection_ok ?cs p" if "p \<in> set (k_projections db)" for p
  proof -
    have "pj_last_correction_id p \<noteq> i"
      using parts(7) [OF that] c s by (auto simp: projection_ok_def)
    with parts(7) [OF that] show ?thesis by (simp add: projection_ok_def get)
  qed
  moreover have "correction_row_ok (k_tasks db @ [x]) y" if "y \<in> set ?cs" for y
  proof -
    from in_tbl_put [OF that, unfolded c'(1)]
    consider "y = c'" | "y \<in> set (k_corrections db)" "mc_id y \<noteq> i" by blast
    then show ?thesis
    proof cases
      case 1
      with c' r x(2) show ?thesis by (simp add: correction_row_ok_def SYNC_STATES_def)
    next
      case 2
      with inv x(2) show ?thesis by (auto simp: correction_inv_def correction_row_ok_def)
    qed
  qed
  moreover have "keys_ok mc_id ?cs" by (rule keys_ok_put [OF parts(1)])
  moreover have "keys_ok ct_id (k_tasks db @ [x])" "keys_ok ct_correction_id (k_tasks db @ [x])"
    using parts(2,3) n x by (auto simp: keys_ok_def)
  ultimately show ?thesis
    using parts(4) by (auto simp: correction_inv_def)
qed

lemma correction_inv_projection:
  assumes inv: "correction_inv db" and c: "tbl_get mc_id i (k_corrections db) = Some c"
    and s: "mc_status c \<in> set SYNC_STATES"
  shows "correction_inv (db\<lparr>k_projections := apply_mysql_projection c (k_projections db)\<rparr>)"
proof -
  note parts = inv_parts [OF inv]
  have id: "mc_id c = i" by (rule correction_table.get_key [OF c])
  have new: "projection_ok (k_corrections db) (projected c p)" if "pj_target p = target_of c" for p
    using that c id s by (auto simp: projection_ok_def projected_def split: operation.split)
  have t: "pj_target (projected c p) = pj_target p" for p
    by (simp add: projected_def split: operation.split)
  have "projection_ok (k_corrections db) p" if "p \<in> set (apply_mysql_projection c (k_projections db))" for p
    using that parts(7) new
    by (auto simp: apply_mysql_projection_def dest!: in_tbl_put split: option.splits if_splits
        dest: projection_table.get_key)
  moreover have "keys_ok pj_target (apply_mysql_projection c (k_projections db))"
    using parts(4) by (simp add: apply_mysql_projection_def keys_ok_put split: option.split)
  ultimately show ?thesis using inv by (simp add: correction_inv_def)
qed

section \<open>Every call keeps the coherence\<close>

lemma process_task_cases:
  assumes "process_task mode env tid db = Inr db'"
  obtains (skip) "db' = db" and "\<forall>x. tbl_get ct_id tid (k_tasks db) = Some x \<longrightarrow> ct_status x = TkSucceeded"
  | (failed) x c x' msg where "tbl_get ct_id tid (k_tasks db) = Some x" and "ct_status x \<noteq> TkSucceeded"
      and "tbl_get mc_id (ct_correction_id x) (k_corrections db) = Some c"
      and "ct_id x' = ct_id x" and "ct_correction_id x' = ct_correction_id x"
      and "ct_attempts x' = Suc (ct_attempts x)" and "ct_max_attempts x' = ct_max_attempts x"
      and "db' = schedule_failure (se_now env) x' c msg db \<or>
           db' = schedule_failure (se_now env) x' c msg
                   (db\<lparr>k_projections := apply_mysql_projection c (k_projections db)\<rparr>)"
  | (completed) x c x' nt where "tbl_get ct_id tid (k_tasks db) = Some x" and "ct_status x \<noteq> TkSucceeded"
      and "tbl_get mc_id (ct_correction_id x) (k_corrections db) = Some c"
      and "ct_id x' = ct_id x" and "ct_correction_id x' = ct_correction_id x"
      and "ct_attempts x' = Suc (ct_attempts x)" and "ct_max_attempts x' = ct_max_attempts x"
      and "db' = complete_task (se_now env) x' c nt
                   (db\<lparr>k_projections := apply_mysql_projection c (k_projections db)\<rparr>)"
proof (cases "tbl_get ct_id tid (k_tasks db)")
  case None
  with assms skip show ?thesis by (simp add: process_task_def)
next
  case (Some x)
  note base = Some
  show ?thesis
  proof (cases "ct_status x = TkSucceeded")
    case True
    with Some assms skip show ?thesis by (simp add: process_task_def)
  next
    case False
    with Some assms obtain c where c: "tbl_get mc_id (ct_correction_id x) (k_corrections db) = Some c"
      by (auto simp: process_task_def get_correction_Inr elim!: rbindE)
    then have g: "get_correction db (ct_correction_id x) = Inr c" by (simp add: get_correction_Inr)
    have "\<not> se_flush_fails env" using Some assms False g by (auto simp: process_task_def Let_def)
    note assms = assms this
    let ?x = "x\<lparr>ct_status := TkProcessing, ct_attempts := Suc (ct_attempts x), ct_next_retry_at := None\<rparr>"
    show ?thesis
    proof (cases "se_mysql env")
      case (Some msg)
      let ?x' = "?x\<lparr>ct_mysql_status := PtFailed,
             ct_graph_status := (if mode = ProjectionMode then PtSkipped else ct_graph_status x)\<rparr>"
      have "db' = schedule_failure (se_now env) ?x' c msg db"
        using assms base False g Some by (auto simp: process_task_def Let_def)
      then show ?thesis by (intro failed [OF base False c _ _ _ _ disjI1]) simp_all
    next
      case None
      note base = base False
      let ?x1 = "?x\<lparr>ct_mysql_status := PtSucceeded\<rparr>"
      show ?thesis
      proof (cases "mode = ProjectionMode")
        case True
        with None base g assms completed [OF base c, of "?x1\<lparr>ct_graph_status := PtSkipped\<rparr>" zh_projection_note]
        show ?thesis by (simp add: process_task_def Let_def)
      next
        case dual: False
        show ?thesis
        proof (cases "apply_graph_projection (se_graph env) (se_iso env) c")
          case (Inl msg)
          with None dual base g assms failed [OF base c, of "?x1\<lparr>ct_graph_status := PtFailed\<rparr>" msg]
          show ?thesis by (simp add: process_task_def Let_def)
        next
          case (Inr u)
          with None dual base g assms completed [OF base c, of "?x1\<lparr>ct_graph_status := PtSucceeded\<rparr>" zh_dual_note]
          show ?thesis by (simp add: process_task_def Let_def)
        qed
      qed
    qed
  qed
qed

lemma task_correction:
  assumes inv: "correction_inv db" and x: "tbl_get ct_id tid (k_tasks db) = Some x"
  obtains c where "tbl_get mc_id (ct_correction_id x) (k_corrections db) = Some c"
    and "mc_status c = state_of_task (ct_status x)" and "mc_status c \<in> set SYNC_STATES"
    and "ct_attempts x \<le> ct_max_attempts x" and "ct_status x \<noteq> TkProcessing"
    and "ct_status x \<in> {TkPending, TkRetrying} \<longrightarrow> ct_attempts x < ct_max_attempts x"
proof -
  have "x \<in> set (k_tasks db)" using tbl_get_Some [OF x] by simp
  from inv_parts(5) [OF inv this] obtain c
    where c: "tbl_get mc_id (ct_correction_id x) (k_corrections db) = Some c"
      "mc_status c = state_of_task (ct_status x)"
    and r: "ct_attempts x \<le> ct_max_attempts x" "ct_status x \<noteq> TkProcessing"
      "ct_status x \<in> {TkPending, TkRetrying} \<longrightarrow> ct_attempts x < ct_max_attempts x"
    by (auto simp: task_ok_def)
  have "mc_status c \<in> set SYNC_STATES"
    using c(2) by (cases "ct_status x") (simp_all add: SYNC_STATES_def)
  with c r that show ?thesis by blast
qed

lemma failed_task_fields [simp]:
  "ct_id (failed_task t msg x) = ct_id x" "ct_correction_id (failed_task t msg x) = ct_correction_id x"
  "ct_attempts (failed_task t msg x) = ct_attempts x"
  "ct_max_attempts (failed_task t msg x) = ct_max_attempts x"
  "ct_status (failed_task t msg x) = (if ct_max_attempts x \<le> ct_attempts x then TkFailed else TkRetrying)"
  "ct_next_retry_at (failed_task t msg x) = (if ct_max_attempts x \<le> ct_attempts x then None
     else Some (t + retry_seconds (ct_attempts x)))"
  by (simp_all add: failed_task_def)

lemma schedule_failure_inv:
  assumes inv: "correction_inv db" and x: "tbl_get ct_id tid (k_tasks db) = Some x"
    and c: "tbl_get mc_id (ct_correction_id x) (k_corrections db) = Some c"
    and x': "ct_id x' = ct_id x" "ct_correction_id x' = ct_correction_id x" "ct_attempts x' \<le> ct_max_attempts x'"
      "0 < ct_max_attempts x'"
  shows "correction_inv (schedule_failure t x' c msg db)"
  unfolding schedule_failure_def
  by (rule correction_inv_tasked [OF inv x c]) (use x' tbl_get_Some [OF x] in \<open>auto simp: target_of_def split: if_splits\<close>)

lemma complete_task_inv:
  assumes inv: "correction_inv db" and x: "tbl_get ct_id tid (k_tasks db) = Some x"
    and c: "tbl_get mc_id (ct_correction_id x) (k_corrections db) = Some c"
    and x': "ct_id x' = ct_id x" "ct_correction_id x' = ct_correction_id x" "ct_attempts x' \<le> ct_max_attempts x'"
      "0 < ct_max_attempts x'"
  shows "correction_inv (complete_task t x' c text db)"
  unfolding complete_task_def Let_def correction_inv_rows
  by (rule correction_inv_tasked [OF inv x c]) (use x' tbl_get_Some [OF x] in \<open>auto simp: target_of_def split: if_splits\<close>)

text \<open>
  \<open>process_task\<close> may be called for a task that is not due; a task that has used up its attempts
  then goes beyond them, so the bound is kept for due tasks only.
\<close>

lemma process_task_inv:
  assumes inv: "correction_inv db" and p: "process_task mode env tid db = Inr db'"
    and due: "\<And>x. tbl_get ct_id tid (k_tasks db) = Some x \<Longrightarrow> ct_status x \<in> {TkPending, TkRetrying}"
  shows "correction_inv db'"
  using p
proof (cases rule: process_task_cases)
  case skip
  with inv show ?thesis by simp
next
  case (failed x c x' msg)
  from task_correction [OF inv failed(1)] failed(3) have s: "mc_status c \<in> set SYNC_STATES"
    and a: "ct_attempts x < ct_max_attempts x" using due [OF failed(1)] by (metis option.inject)+
  let ?d = "db\<lparr>k_projections := apply_mysql_projection c (k_projections db)\<rparr>"
  have i1: "correction_inv ?d" by (rule correction_inv_projection [OF inv failed(3) s])
  have b: "ct_attempts x' \<le> ct_max_attempts x'" "0 < ct_max_attempts x'" using a failed(6,7) by simp_all
  have "correction_inv (schedule_failure (se_now env) x' c msg db)"
    by (rule schedule_failure_inv [OF inv failed(1,3,4,5) b])
  moreover have "correction_inv (schedule_failure (se_now env) x' c msg ?d)"
    by (rule schedule_failure_inv [OF i1 _ _ failed(4,5) b]) (use failed(1,3) in simp_all)
  ultimately show ?thesis using failed(8) by auto
next
  case (completed x c x' nt)
  from task_correction [OF inv completed(1)] completed(3) have s: "mc_status c \<in> set SYNC_STATES"
    and a: "ct_attempts x < ct_max_attempts x" using due [OF completed(1)] by (metis option.inject)+
  have b: "ct_attempts x' \<le> ct_max_attempts x'" "0 < ct_max_attempts x'"
    using a completed(6,7) by simp_all
  show ?thesis
    unfolding completed(8)
    by (rule complete_task_inv [OF correction_inv_projection [OF inv completed(3) s] _ _ completed(4,5) b])
      (use completed(1,3) in simp_all)
qed

lemma process_task_frame:
  assumes p: "process_task mode env tid db = Inr db'" and i: "i \<noteq> tid"
  shows "tbl_get ct_id i (k_tasks db') = tbl_get ct_id i (k_tasks db)"
  using p
proof (cases rule: process_task_cases)
  case skip
  then show ?thesis by simp
next
  case (failed x c x' msg)
  then show ?thesis using i tbl_get_Some [OF failed(1)]
    by (auto simp: schedule_failure_def tbl_get_put)
next
  case (completed x c x' nt)
  then show ?thesis using i tbl_get_Some [OF completed(1)]
    by (simp add: complete_task_def Let_def tbl_get_put)
qed

lemma process_task_total:
  assumes inv: "correction_inv db" and up: "\<not> se_flush_fails env"
  shows "is_ok (process_task mode env tid db)"
proof (cases "tbl_get ct_id tid (k_tasks db)")
  case None
  then show ?thesis by (simp add: process_task_def)
next
  case (Some x)
  obtain c where "get_correction db (ct_correction_id x) = Inr c"
    using task_correction [OF inv Some] by (metis get_correction_Inr)
  with Some up show ?thesis
    by (simp add: process_task_def Let_def split: option.split sum.split)
qed

lemma process_tasks_ok:
  assumes "correction_inv db" and "distinct ids"
    and "\<And>i x. i \<in> set ids \<Longrightarrow> tbl_get ct_id i (k_tasks db) = Some x \<Longrightarrow>
           ct_status x \<in> {TkPending, TkRetrying}"
  shows "(process_tasks mode env ids db = Inr db' \<longrightarrow> correction_inv db') \<and>
    ((\<forall>i. \<not> se_flush_fails (env i)) \<longrightarrow> is_ok (process_tasks mode env ids db))"
  using assms
proof (induction ids arbitrary: db)
  case Nil
  then show ?case by auto
next
  case (Cons i ids)
  show ?case
  proof (cases "process_task mode (env i) i db")
    case (Inl e)
    then have "se_flush_fails (env i)"
      using process_task_total [OF Cons.prems(1), of "env i" mode i] by (auto simp: is_ok_iff)
    with Inl show ?thesis by auto
  next
    case p: (Inr db1)
    have "correction_inv db1"
      by (rule process_task_inv [OF Cons.prems(1) p]) (use Cons.prems(3) in auto)
    moreover have "ct_status x \<in> {TkPending, TkRetrying}"
      if "j \<in> set ids" "tbl_get ct_id j (k_tasks db1) = Some x" for j x
    proof -
      have "j \<noteq> i" using Cons.prems(2) that(1) by auto
      from process_task_frame [OF p this] that Cons.prems(3) [of j x] show ?thesis by simp
    qed
    ultimately show ?thesis using Cons.IH [of db1] Cons.prems(2) p by auto
  qed
qed

lemma due_tasks_facts:
  assumes "correction_inv db"
  shows "distinct (map ct_id (due_tasks t limit db))" and "length (due_tasks t limit db) \<le> limit"
    and "x \<in> set (due_tasks t limit db) \<Longrightarrow> x \<in> set (k_tasks db) \<and> task_due t x"
proof -
  have "keys_ok ct_id (filter (task_due t) (k_tasks db))"
    using inv_parts(2) [OF assms] by (rule keys_ok_filter)
  then have "distinct (map ct_id (sort_key ct_created_at (filter (task_due t) (k_tasks db))))"
    unfolding keys_ok_def by (simp add: distinct_map)
  then show "distinct (map ct_id (due_tasks t limit db))"
    by (simp add: due_tasks_def take_map [symmetric] distinct_take)
  show "length (due_tasks t limit db) \<le> limit" by (simp add: due_tasks_def)
  show "x \<in> set (k_tasks db) \<and> task_due t x" if "x \<in> set (due_tasks t limit db)"
    using that by (auto simp: due_tasks_def dest!: in_set_takeD)
qed

lemma process_due_ok:
  assumes inv: "correction_inv db"
  shows "(process_due_sync_tasks mode env t limit db = Inr (db', n) \<longrightarrow>
      n = length (due_tasks t limit db) \<and> correction_inv db') \<and>
    ((\<forall>i. \<not> se_flush_fails (env i)) \<longrightarrow> is_ok (process_due_sync_tasks mode env t limit db))"
proof -
  have "(process_tasks mode env (map ct_id (due_tasks t limit db)) db = Inr db' \<longrightarrow> correction_inv db') \<and>
    ((\<forall>i. \<not> se_flush_fails (env i)) \<longrightarrow> is_ok (process_tasks mode env (map ct_id (due_tasks t limit db)) db))"
  proof (rule process_tasks_ok [OF inv due_tasks_facts(1) [OF inv]])
    fix i x assume "i \<in> set (map ct_id (due_tasks t limit db))" and g: "tbl_get ct_id i (k_tasks db) = Some x"
    then obtain y where y: "y \<in> set (due_tasks t limit db)" "ct_id y = i" by auto
    then have "y = x"
      using due_tasks_facts(3) [OF inv y(1)] tbl_get_unique [OF inv_parts(2) [OF inv], of y] g by simp
    then show "ct_status x \<in> {TkPending, TkRetrying}"
      using due_tasks_facts(3) [OF inv y(1)] by (simp add: task_due_def)
  qed
  then show ?thesis by (auto simp: process_due_sync_tasks_def Let_def is_ok_iff elim!: rbindE)
qed

lemma decide_Inr:
  assumes "decide env i reject nt a db = Inr db'"
  obtains c where "tbl_get mc_id i (k_corrections db) = Some c" and "mc_status c = PENDING_REVIEW"
    and "mc_submitter_id c \<noteq> pa_user_id a" and "reject \<longrightarrow> \<not> py_blank nt"
    and "if reject then k_corrections db' = tbl_put mc_id (reviewed (ke_now env) nt a reject c) (k_corrections db) \<and>
             k_tasks db' = k_tasks db \<and> k_projections db' = k_projections db
         else \<exists>db1. ensure_task env (reviewed (ke_now env) nt a reject c)
                (put_correction (reviewed (ke_now env) nt a reject c) db) = Inr db1 \<and>
              k_corrections db' = k_corrections db1 \<and> k_tasks db' = k_tasks db1 \<and>
              k_projections db' = k_projections db1"
proof -
  from assms obtain c where c: "tbl_get mc_id i (k_corrections db) = Some c"
    and g: "mc_status c = PENDING_REVIEW" "mc_submitter_id c \<noteq> pa_user_id a" "reject \<longrightarrow> \<not> py_blank nt"
    unfolding decide_def
    by (auto simp: get_correction_Inr elim!: rbindE split: if_splits)
  then have "get_correction db i = Inr c" by (simp add: get_correction_Inr)
  with assms g show ?thesis
    by (intro that [OF c g]) (auto simp: decide_def Let_def elim!: rbindE split: if_splits)
qed

lemma correction_inv_cong:
  assumes "correction_inv db" and "k_corrections db' = k_corrections db" and "k_tasks db' = k_tasks db"
    and "k_projections db' = k_projections db"
  shows "correction_inv db'"
  using assms by (simp add: correction_inv_def)

lemma decide_inv:
  assumes inv: "correction_inv db" and d: "decide env i reject nt a db = Inr db'"
  shows "correction_inv db'"
  using d
proof (rule decide_Inr)
  fix c
  let ?c = "reviewed (ke_now env) nt a reject c"
  assume c: "tbl_get mc_id i (k_corrections db) = Some c" and s: "mc_status c = PENDING_REVIEW"
    and o: "mc_submitter_id c \<noteq> pa_user_id a"
    and r: "if reject then k_corrections db' = tbl_put mc_id ?c (k_corrections db) \<and>
             k_tasks db' = k_tasks db \<and> k_projections db' = k_projections db
         else \<exists>db1. ensure_task env ?c (put_correction ?c db) = Inr db1 \<and>
              k_corrections db' = k_corrections db1 \<and> k_tasks db' = k_tasks db1 \<and>
              k_projections db' = k_projections db1"
  have id: "mc_id ?c = i" using correction_table.get_key [OF c] by (simp add: reviewed_def)
  have rev: "reviewed_ok ?c" using o by (auto simp: reviewed_ok_def reviewed_def)
  have ns: "mc_status c \<notin> set SYNC_STATES" using s by (simp add: SYNC_STATES_def)
  show ?thesis
  proof (cases reject)
    case True
    have "correction_inv (put_correction ?c db)"
      by (rule correction_inv_untasked [OF inv c ns id _ rev]) (simp add: True reviewed_def SYNC_STATES_def)
    then show ?thesis by (rule correction_inv_cong) (use r True in simp_all)
  next
    case False
    then obtain db1 where e: "ensure_task env ?c (put_correction ?c db) = Inr db1"
      and t: "k_corrections db' = k_corrections db1" "k_tasks db' = k_tasks db1"
        "k_projections db' = k_projections db1" using r by auto
    have n: "task_of (put_correction ?c db) (mc_id ?c) = None"
      using inv_parts(6) [OF inv c] ns correction_table.get_key [OF c] id
      by (simp add: task_of_None correction_row_ok_def)
    then have f: "ke_id env \<notin> ct_id ` set (k_tasks db)"
      and db1: "db1 = put_correction ?c db\<lparr>k_tasks := k_tasks db @ [new_task env ?c]\<rparr>"
      using e by (auto simp: ensure_task_def list_ex_iff split: if_splits)
    have "correction_inv db1"
      unfolding db1
      by (rule correction_inv_approve [OF inv c ns id _ rev])
        (use f id False in \<open>auto simp: reviewed_def new_task_def\<close>)
    then show ?thesis by (rule correction_inv_cong) (use t in simp_all)
  qed
qed

lemma retry_correction_Inr:
  assumes "retry_correction env i nt a db = Inr db'"
  obtains c x where "tbl_get mc_id i (k_corrections db) = Some c" and "task_of db i = Some x"
    and "mc_status c \<in> {SYNC_FAILED, PENDING_SYNC}"
    and "k_corrections db' = tbl_put mc_id (c\<lparr>mc_status := PENDING_SYNC\<rparr>) (k_corrections db)"
    and "k_tasks db' = tbl_put ct_id (x\<lparr>ct_status := TkPending, ct_attempts := 0,
           ct_next_retry_at := None, ct_last_error := []\<rparr>) (k_tasks db)"
    and "k_projections db' = k_projections db"
  using assms unfolding retry_correction_def
  by (auto simp: get_correction_Inr Let_def elim!: rbindE split: option.splits if_splits)

lemma retry_correction_inv:
  assumes inv: "correction_inv db" and r: "retry_correction env i nt a db = Inr db'"
  shows "correction_inv db'"
  using r
proof (rule retry_correction_Inr)
  fix c :: manual_correction and x :: sync_task
  let ?c = "c\<lparr>mc_status := PENDING_SYNC\<rparr>"
  let ?x = "x\<lparr>ct_status := TkPending, ct_attempts := 0, ct_next_retry_at := None, ct_last_error := []\<rparr>"
  assume c: "tbl_get mc_id i (k_corrections db) = Some c" and x: "task_of db i = Some x"
    and t: "k_corrections db' = tbl_put mc_id ?c (k_corrections db)"
      "k_tasks db' = tbl_put ct_id ?x (k_tasks db)" "k_projections db' = k_projections db"
  have xm: "x \<in> set (k_tasks db)" "ct_correction_id x = i" using task_of_Some [OF x] by auto
  have g: "tbl_get ct_id (ct_id x) (k_tasks db) = Some x" by (rule tbl_get_unique [OF inv_parts(2) [OF inv] xm(1)])
  have m: "0 < ct_max_attempts x" using inv_parts(5) [OF inv xm(1)] by (simp add: task_ok_def)
  have "correction_inv (put_task ?x (put_correction ?c db))"
    by (rule correction_inv_tasked [OF inv g]) (use c xm m in \<open>auto simp: target_of_def\<close>)
  then show ?thesis by (rule correction_inv_cong) (simp_all add: t)
qed

lemma update_correction_Inr:
  assumes "update_correction env i p a db = Inr db'"
  obtains c where "tbl_get mc_id i (k_corrections db) = Some c" and "mc_status c = PENDING_REVIEW"
    and "pa_is_admin a \<or> mc_submitter_id c = pa_user_id a"
    and "k_corrections db' = tbl_put mc_id ((edited p c)\<lparr>mc_version := Suc (mc_version c)\<rparr>) (k_corrections db)"
    and "k_tasks db' = k_tasks db" and "k_projections db' = k_projections db"
  using assms unfolding update_correction_def
  by (auto simp: get_owned_Inr edited_def Let_def elim!: rbindE split: if_splits)

lemma cancel_correction_Inr:
  assumes "cancel_correction env i a db = Inr db'"
  obtains c where "tbl_get mc_id i (k_corrections db) = Some c" and "mc_status c = PENDING_REVIEW"
    and "pa_is_admin a \<or> mc_submitter_id c = pa_user_id a"
    and "k_corrections db' = tbl_put mc_id (c\<lparr>mc_status := CANCELLED\<rparr>) (k_corrections db)"
    and "k_tasks db' = k_tasks db" and "k_projections db' = k_projections db"
  using assms unfolding cancel_correction_def
  by (auto simp: get_owned_Inr Let_def elim!: rbindE split: if_splits)

lemma create_correction_Inr:
  assumes "create_correction env p a db = Inr db'"
  obtains c where "mc_id c \<notin> mc_id ` set (k_corrections db)" and "mc_status c = PENDING_REVIEW"
    and "c = new_correction env p a" and "k_corrections db' = k_corrections db @ [c]"
    and "k_tasks db' = k_tasks db" and "k_projections db' = k_projections db"
  using assms that [of "new_correction env p a"] unfolding create_correction_def Let_def
  by (auto simp: tbl_insert_Some new_correction_def split: option.splits)

lemma exec_correction_keeps:
  assumes inv: "correction_inv db" and e: "exec_correction cmd db = Inr db'"
  shows "correction_inv db'"
proof (cases cmd)
  case (KCreate env p a)
  with e have "create_correction env p a db = Inr db'" by simp
  then show ?thesis
  proof (rule create_correction_Inr)
    fix c assume f: "mc_id c \<notin> mc_id ` set (k_corrections db)" "mc_status c = PENDING_REVIEW"
      and t: "k_corrections db' = k_corrections db @ [c]" "k_tasks db' = k_tasks db"
        "k_projections db' = k_projections db"
    show ?thesis
      by (rule correction_inv_cong [OF correction_inv_create [OF inv f]]) (simp_all add: t)
  qed
next
  case (KUpdate env i p a)
  with e have "update_correction env i p a db = Inr db'" by simp
  then show ?thesis
  proof (rule update_correction_Inr)
    fix c assume c: "tbl_get mc_id i (k_corrections db) = Some c" "mc_status c = PENDING_REVIEW"
      and t: "k_corrections db' = tbl_put mc_id ((edited p c)\<lparr>mc_version := Suc (mc_version c)\<rparr>) (k_corrections db)"
        "k_tasks db' = k_tasks db" "k_projections db' = k_projections db"
    have "correction_inv (put_correction ((edited p c)\<lparr>mc_version := Suc (mc_version c)\<rparr>) db)"
      by (rule correction_inv_untasked [OF inv c(1)])
        (use c correction_table.get_key [OF c(1)] in \<open>simp_all add: edited_def SYNC_STATES_def\<close>)
    then show ?thesis by (rule correction_inv_cong) (simp_all add: t)
  qed
next
  case (KCancel env i a)
  with e have "cancel_correction env i a db = Inr db'" by simp
  then show ?thesis
  proof (rule cancel_correction_Inr)
    fix c assume c: "tbl_get mc_id i (k_corrections db) = Some c" "mc_status c = PENDING_REVIEW"
      and t: "k_corrections db' = tbl_put mc_id (c\<lparr>mc_status := CANCELLED\<rparr>) (k_corrections db)"
        "k_tasks db' = k_tasks db" "k_projections db' = k_projections db"
    have "correction_inv (put_correction (c\<lparr>mc_status := CANCELLED\<rparr>) db)"
      by (rule correction_inv_untasked [OF inv c(1)])
        (use c correction_table.get_key [OF c(1)] in \<open>simp_all add: SYNC_STATES_def\<close>)
    then show ?thesis by (rule correction_inv_cong) (simp_all add: t)
  qed
next
  case (KDecide env i reject nt a)
  with e decide_inv [OF inv] show ?thesis by simp
next
  case (KRetry env i nt a)
  with e retry_correction_inv [OF inv] show ?thesis by simp
next
  case (KProcess mode env t limit)
  with e process_due_ok [OF inv, of mode env t limit] show ?thesis by (auto elim!: rbindE)
qed

interpretation ledger: guarded_system exec_correction correction_inv
  by unfold_locales (rule exec_correction_keeps)

lemma correction_inv_empty: "correction_inv empty_correction_db"
  by (simp add: correction_inv_def empty_correction_db_def keys_ok_def)

lemma reachable_correction_inv: "reach exec_correction empty_correction_db db \<Longrightarrow> correction_inv db"
  by (rule ledger.reach_keeps [OF _ correction_inv_empty])

end
