(* ===== verification/Correction_Safety.thy ===== *)
theory Correction_Safety
  imports Correction_Inv
begin

text \<open>
  Properties of the ledger of corrections: four eyes, what is decided stays decided, the worker
  always finishes its pass, bounded retries, the projection, and the requests to the graph.
\<close>

section \<open>What is decided stays decided\<close>

definition row_kept :: "manual_correction \<Rightarrow> manual_correction \<Rightarrow> bool" where
  "row_kept c c' \<longleftrightarrow> mc_submitter_id c' = mc_submitter_id c \<and>
     (mc_status c \<noteq> PENDING_REVIEW \<longrightarrow> content_eq c c' \<and> mc_status c' \<noteq> PENDING_REVIEW) \<and>
     (mc_status c \<in> {REJECTED, CANCELLED, COMPLETED} \<longrightarrow> mc_status c' = mc_status c)"

definition ledger_kept :: "correction_db \<Rightarrow> correction_db \<Rightarrow> bool" where
  "ledger_kept db db' \<longleftrightarrow> (\<forall>i c. tbl_get mc_id i (k_corrections db) = Some c \<longrightarrow>
     (\<exists>c'. tbl_get mc_id i (k_corrections db') = Some c' \<and> row_kept c c'))"

lemma row_kept_refl: "row_kept c c"
  by (simp add: row_kept_def content_eq_def)

lemma row_kept_trans: "row_kept a b \<Longrightarrow> row_kept b c \<Longrightarrow> row_kept a c"
  by (auto simp: row_kept_def content_eq_def)

lemma ledger_kept_refl: "k_corrections db' = k_corrections db \<Longrightarrow> ledger_kept db db'"
  by (simp add: ledger_kept_def row_kept_refl)

lemma ledger_kept_trans: "ledger_kept a b \<Longrightarrow> ledger_kept b c \<Longrightarrow> ledger_kept a c"
  unfolding ledger_kept_def by (meson row_kept_trans)

lemma ledger_kept_put:
  assumes "k_corrections db' = tbl_put mc_id c' (k_corrections db)"
    and "tbl_get mc_id i (k_corrections db) = Some c" and "mc_id c' = i" and "row_kept c c'"
  shows "ledger_kept db db'"
  using assms by (auto simp: ledger_kept_def tbl_get_put row_kept_refl)

lemma process_task_kept:
  assumes inv: "correction_inv db" and p: "process_task mode env tid db = Inr db'"
  shows "ledger_kept db db'"
  using p
proof (cases rule: process_task_cases)
  case skip
  then show ?thesis by (simp add: ledger_kept_refl)
next
  case (failed x c x' msg)
  have s: "mc_status c = state_of_task (ct_status x)" "ct_status x \<noteq> TkSucceeded"
    using task_correction [OF inv failed(1)] failed(2,3) by (metis option.inject)+
  have k: "row_kept c (c\<lparr>mc_status := SYNC_FAILED\<rparr>)"
    using s by (cases "ct_status x") (simp_all add: row_kept_def content_eq_def)
  show ?thesis
    by (rule ledger_kept_put [OF _ failed(3) _ k])
      (use failed(8) correction_table.get_key [OF failed(3)] in \<open>auto simp: schedule_failure_def\<close>)
next
  case (completed x c x' nt)
  have s: "mc_status c = state_of_task (ct_status x)" "ct_status x \<noteq> TkSucceeded"
    using task_correction [OF inv completed(1)] completed(2,3) by (metis option.inject)+
  have k: "row_kept c (c\<lparr>mc_status := COMPLETED, mc_completed_at := Some (se_now env)\<rparr>)"
    using s by (cases "ct_status x") (simp_all add: row_kept_def content_eq_def)
  show ?thesis
    by (rule ledger_kept_put [OF _ completed(3) _ k])
      (use completed(8) correction_table.get_key [OF completed(3)] in \<open>auto simp: complete_task_def Let_def\<close>)
qed

lemma process_tasks_kept:
  assumes "correction_inv db" and "distinct ids"
    and "\<And>i x. i \<in> set ids \<Longrightarrow> tbl_get ct_id i (k_tasks db) = Some x \<Longrightarrow>
           ct_status x \<in> {TkPending, TkRetrying}"
    and "process_tasks mode env ids db = Inr db'"
  shows "ledger_kept db db'"
  using assms
proof (induction ids arbitrary: db)
  case Nil
  then show ?case by (simp add: ledger_kept_refl)
next
  case (Cons i ids)
  then obtain db1 where p: "process_task mode (env i) i db = Inr db1"
    and r: "process_tasks mode env ids db1 = Inr db'" by (auto elim!: rbindE)
  have i1: "correction_inv db1"
    by (rule process_task_inv [OF Cons.prems(1) p]) (use Cons.prems(3) in auto)
  have "ct_status x \<in> {TkPending, TkRetrying}"
    if "j \<in> set ids" "tbl_get ct_id j (k_tasks db1) = Some x" for j x
  proof -
    have "j \<noteq> i" using Cons.prems(2) that(1) by auto
    from process_task_frame [OF p this] that Cons.prems(3) [of j x] show ?thesis by simp
  qed
  then have "ledger_kept db1 db'" using Cons.IH [OF i1 _ _ r] Cons.prems(2) by auto
  with process_task_kept [OF Cons.prems(1) p] show ?case by (rule ledger_kept_trans)
qed

lemma due_tasks_status:
  assumes "correction_inv db" and "i \<in> set (map ct_id (due_tasks t limit db))"
    and "tbl_get ct_id i (k_tasks db) = Some x"
  shows "ct_status x \<in> {TkPending, TkRetrying}" and "x \<in> set (due_tasks t limit db)"
proof -
  obtain y where y: "y \<in> set (due_tasks t limit db)" "ct_id y = i" using assms(2) by auto
  have "y = x"
    using due_tasks_facts(3) [OF assms(1) y(1)] tbl_get_unique [OF inv_parts(2) [OF assms(1)], of y]
      assms(3) y(2) by simp
  with y due_tasks_facts(3) [OF assms(1) y(1)]
  show "ct_status x \<in> {TkPending, TkRetrying}" and "x \<in> set (due_tasks t limit db)"
    by (simp_all add: task_due_def)
qed

lemma exec_correction_kept:
  assumes inv: "correction_inv db" and e: "exec_correction cmd db = Inr db'"
  shows "ledger_kept db db'"
proof (cases cmd)
  case (KCreate env p a)
  with e have "create_correction env p a db = Inr db'" by simp
  then show ?thesis
    by (rule create_correction_Inr) (auto simp: ledger_kept_def tbl_get_append row_kept_refl)
next
  case (KUpdate env i p a)
  with e have "update_correction env i p a db = Inr db'" by simp
  then show ?thesis
  proof (rule update_correction_Inr)
    fix c assume c: "tbl_get mc_id i (k_corrections db) = Some c" and s: "mc_status c = PENDING_REVIEW"
      and t: "k_corrections db' = tbl_put mc_id ((edited p c)\<lparr>mc_version := Suc (mc_version c)\<rparr>) (k_corrections db)"
    show ?thesis
      by (rule ledger_kept_put [OF t c])
        (use s correction_table.get_key [OF c] in \<open>simp_all add: edited_def row_kept_def\<close>)
  qed
next
  case (KCancel env i a)
  with e have "cancel_correction env i a db = Inr db'" by simp
  then show ?thesis
  proof (rule cancel_correction_Inr)
    fix c assume c: "tbl_get mc_id i (k_corrections db) = Some c" and s: "mc_status c = PENDING_REVIEW"
      and t: "k_corrections db' = tbl_put mc_id (c\<lparr>mc_status := CANCELLED\<rparr>) (k_corrections db)"
    show ?thesis
      by (rule ledger_kept_put [OF t c])
        (use s correction_table.get_key [OF c] in \<open>simp_all add: row_kept_def\<close>)
  qed
next
  case (KDecide env i reject nt a)
  with e have "decide env i reject nt a db = Inr db'" by simp
  then show ?thesis
  proof (rule decide_Inr)
    fix c
    let ?c = "reviewed (ke_now env) nt a reject c"
    assume c: "tbl_get mc_id i (k_corrections db) = Some c" and s: "mc_status c = PENDING_REVIEW"
      and r: "if reject then k_corrections db' = tbl_put mc_id ?c (k_corrections db) \<and>
             k_tasks db' = k_tasks db \<and> k_projections db' = k_projections db
         else \<exists>db1. ensure_task env ?c (put_correction ?c db) = Inr db1 \<and>
              k_corrections db' = k_corrections db1 \<and> k_tasks db' = k_tasks db1 \<and>
              k_projections db' = k_projections db1"
    have "k_corrections db' = tbl_put mc_id ?c (k_corrections db)"
      using r by (auto simp: ensure_task_def split: if_splits option.splits)
    then show ?thesis
      by (rule ledger_kept_put [OF _ c])
        (use s correction_table.get_key [OF c] in \<open>simp_all add: reviewed_def row_kept_def\<close>)
  qed
next
  case (KRetry env i nt a)
  with e have "retry_correction env i nt a db = Inr db'" by simp
  then show ?thesis
  proof (rule retry_correction_Inr)
    fix c assume c: "tbl_get mc_id i (k_corrections db) = Some c" and s: "mc_status c \<in> {SYNC_FAILED, PENDING_SYNC}"
      and t: "k_corrections db' = tbl_put mc_id (c\<lparr>mc_status := PENDING_SYNC\<rparr>) (k_corrections db)"
    show ?thesis
      by (rule ledger_kept_put [OF t c])
        (use s correction_table.get_key [OF c] in \<open>auto simp: row_kept_def content_eq_def\<close>)
  qed
next
  case (KProcess mode env t limit)
  with e have "process_tasks mode env (map ct_id (due_tasks t limit db)) db = Inr db'"
    by (auto simp: process_due_sync_tasks_def Let_def elim!: rbindE)
  from process_tasks_kept [OF inv due_tasks_facts(1) [OF inv] due_tasks_status(1) [OF inv] this]
  show ?thesis .
qed

lemma reach_ledger_kept: "reach exec_correction db db' \<Longrightarrow> correction_inv db \<Longrightarrow> ledger_kept db db'"
proof (induction rule: reach.induct)
  case reach_init
  then show ?case by (simp add: ledger_kept_refl)
next
  case (reach_step s c s')
  then have "correction_inv s" by (blast intro: ledger.reach_keeps)
  with reach_step show ?case by (blast intro: exec_correction_kept ledger_kept_trans)
qed

section \<open>A concrete run\<close>

definition kx_actor :: "string \<Rightarrow> platform_actor" where
  "kx_actor u = \<lparr>pa_user_id = u, pa_username = u, pa_display_name = u, pa_email = [], pa_is_admin = (u = ''boss'')\<rparr>"

definition kx_env :: "time \<Rightarrow> string \<Rightarrow> correction_env" where
  "kx_env t i = \<lparr>ke_now = t, ke_id = i, ke_max_attempts = 2\<rparr>"

definition kx_payload :: correction_payload where
  "kx_payload = \<lparr>cp_target_type = TExpert, cp_operation = OUpdate, cp_target_id = ''s1'', cp_title = ''ti'',
     cp_reason = ''re'', cp_before = [], cp_after = [(''name'', JStr ''li'')]\<rparr>"

definition kx_sync :: "time \<Rightarrow> graph \<Rightarrow> string \<Rightarrow> sync_env" where
  "kx_sync t g i = \<lparr>se_now = t, se_iso = [], se_mysql = None, se_flush_fails = False, se_graph = g\<rparr>"

definition kx_down :: graph where
  "kx_down r = Inl ''down''"

definition kx_c1 :: manual_correction where
  "kx_c1 = \<lparr>mc_id = ''c1'', mc_target_type = TExpert, mc_operation = OUpdate, mc_target_id = ''s1'',
     mc_title = ''ti'', mc_reason = ''re'', mc_before = [], mc_after = [(''name'', JStr ''li'')],
     mc_status = PENDING_REVIEW, mc_submitter_id = ''ann'', mc_submitter_name = ''ann'',
     mc_reviewer_id = None, mc_reviewer_name = None, mc_decision_note = [], mc_version = 1,
     mc_submitted_at = 1, mc_reviewed_at = None, mc_completed_at = None, mc_created_at = 1\<rparr>"

definition kx_db1 :: correction_db where
  "kx_db1 = add_audit (kx_actor ''ann'') ''CREATE_CORRECTION'' ''c1''
     [(''status'', JStr ''PENDING_REVIEW'')]
     (add_review 1 kx_c1 ''SUBMIT'' (kx_actor ''ann'') zh_submit_note
       (empty_correction_db\<lparr>k_corrections := [kx_c1]\<rparr>))"

lemma kx_step1:
  "exec_correction (KCreate (kx_env 1 ''c1'') kx_payload (kx_actor ''ann'')) empty_correction_db = Inr kx_db1"
proof -
  have c: "new_correction (kx_env 1 ''c1'') kx_payload (kx_actor ''ann'') = kx_c1"
    by (simp add: new_correction_def kx_c1_def kx_env_def kx_payload_def kx_actor_def)
  have f: "mc_id kx_c1 = ''c1''" "mc_status kx_c1 = PENDING_REVIEW" "ke_now (kx_env t i) = t" for t i
    by (simp_all add: kx_c1_def kx_env_def)
  show ?thesis
    by (simp add: create_correction_def c f tbl_insert_def kx_db1_def empty_correction_db_def)
qed

definition kx_c2 :: manual_correction where
  "kx_c2 = kx_c1\<lparr>mc_reviewer_id := Some ''boss'', mc_reviewer_name := Some ''boss'',
     mc_reviewed_at := Some 2, mc_decision_note := [], mc_status := PENDING_SYNC\<rparr>"

definition kx_task :: sync_task where
  "kx_task = \<lparr>ct_id = ''k1'', ct_correction_id = ''c1'', ct_idempotency_key = ''correction:c1:v1'',
     ct_status = TkPending, ct_mysql_status = PtPending, ct_graph_status = PtPending, ct_attempts = 0,
     ct_max_attempts = 2, ct_next_retry_at = None, ct_last_error = [], ct_created_at = 2\<rparr>"

definition kx_db2 :: correction_db where
  "kx_db2 = add_audit (kx_actor ''boss'') ''APPROVE_CORRECTION'' ''c1'' [(''note'', JStr [])]
     (add_review 2 kx_c2 ''APPROVE'' (kx_actor ''boss'') zh_approve_note
       (kx_db1\<lparr>k_corrections := [kx_c2], k_tasks := [kx_task]\<rparr>))"

lemma kx_put: "mc_id c = mc_id c' \<Longrightarrow> tbl_put mc_id c [c'] = [c]"
  "ct_id x = ct_id x' \<Longrightarrow> tbl_put ct_id x [x'] = [x]"
  by (simp_all add: tbl_put_def tbl_upd_def)

lemma kx_tables:
  "k_corrections kx_db1 = [kx_c1]" "k_tasks kx_db1 = []" "k_projections kx_db1 = []"
  "k_corrections kx_db2 = [kx_c2]" "k_tasks kx_db2 = [kx_task]" "k_projections kx_db2 = []"
  by (simp_all add: kx_db1_def kx_db2_def empty_correction_db_def)

lemma kx_fields:
  "mc_id kx_c1 = ''c1''" "mc_status kx_c1 = PENDING_REVIEW" "mc_submitter_id kx_c1 = ''ann''"
  "mc_id kx_c2 = ''c1''" "mc_status kx_c2 = PENDING_SYNC"
  "ct_id kx_task = ''k1''" "ct_correction_id kx_task = ''c1''" "ct_status kx_task = TkPending"
  "pa_user_id (kx_actor u) = u" "pa_display_name (kx_actor u) = u"
  "ke_now (kx_env t i) = t" "ke_id (kx_env t i) = i" "ke_max_attempts (kx_env t i) = 2"
  by (simp_all add: kx_c1_def kx_c2_def kx_task_def kx_actor_def kx_env_def)

lemma kx_step2: "exec_correction (KDecide (kx_env 2 ''k1'') ''c1'' False [] (kx_actor ''boss'')) kx_db1 = Inr kx_db2"
proof -
  have c: "reviewed 2 [] (kx_actor ''boss'') False kx_c1 = kx_c2"
    by (simp add: reviewed_def kx_c2_def kx_fields)
  have v: "mc_version kx_c2 = 1" by (simp add: kx_c2_def kx_c1_def)
  have k: "''correction:'' @ ''c1'' @ '':v'' @ show_nat 1 = ''correction:c1:v1''" by code_simp
  have x: "new_task (kx_env 2 ''k1'') kx_c2 = kx_task"
    unfolding new_task_def kx_task_def kx_fields v k by simp
  show ?thesis
    unfolding exec_correction.simps decide_def get_correction_def kx_tables
    by (simp add: kx_fields c ensure_task_def task_of_def put_correction_def kx_tables kx_put x kx_db2_def)
qed

definition kx_c3 :: manual_correction where
  "kx_c3 = kx_c2\<lparr>mc_status := SYNC_FAILED\<rparr>"

definition kx_task3 :: sync_task where
  "kx_task3 = kx_task\<lparr>ct_status := TkRetrying, ct_attempts := 1, ct_mysql_status := PtSucceeded,
     ct_graph_status := PtFailed, ct_last_error := ''down'', ct_next_retry_at := Some 33\<rparr>"

definition kx_projection :: projection where
  "kx_projection = \<lparr>pj_target = (TExpert, ''s1''), pj_payload = [(''name'', JStr ''li'')],
     pj_active = True, pj_version = 1, pj_last_correction_id = ''c1''\<rparr>"

definition kx_db3 :: correction_db where
  "kx_db3 = kx_db2\<lparr>k_corrections := [kx_c3], k_tasks := [kx_task3], k_projections := [kx_projection]\<rparr>"

lemma kx_projected: "apply_mysql_projection kx_c2 [] = [kx_projection]"
proof -
  have d: "dmerge [] [(''name'', JStr ''li'')] = [(''name'', JStr ''li'')]" by code_simp
  show ?thesis
    by (simp add: apply_mysql_projection_def kx_c2_def kx_c1_def target_of_def projected_def
        kx_projection_def tbl_put_def tbl_upd_def d)
qed

lemma kx_step3: "exec_correction (KProcess DualMode (kx_sync 3 kx_down) 3 20) kx_db2 = Inr kx_db3"
proof -
  have d: "due_tasks 3 20 kx_db2 = [kx_task]"
    by (simp add: due_tasks_def kx_tables task_due_def) (simp add: kx_task_def)
  have g: "apply_graph_projection kx_down [] kx_c2 = Inl ''down''"
    by (simp add: apply_graph_projection_def apply_graph_node_def kx_down_def Let_def kx_c2_def kx_c1_def)
  have r: "retry_seconds (Suc 0) = 30" "py_take 2000 ''down'' = ''down''"
    "ct_attempts kx_task = 0" "ct_max_attempts kx_task = 2"
    by (simp_all add: retry_seconds_def kx_task_def)
  show ?thesis
    unfolding exec_correction.simps process_due_sync_tasks_def d Let_def list.map process_tasks.simps
      process_task_def kx_tables get_correction_def
    by (simp add: kx_fields kx_sync_def kx_tables g kx_projected schedule_failure_def failed_task_def
        put_task_def put_correction_def kx_put kx_db3_def kx_c3_def kx_task3_def r)
qed

definition kx_c4 :: manual_correction where
  "kx_c4 = kx_c3\<lparr>mc_status := COMPLETED, mc_completed_at := Some 100\<rparr>"

definition kx_task4 :: sync_task where
  "kx_task4 = kx_task3\<lparr>ct_status := TkSucceeded, ct_attempts := 2, ct_graph_status := PtSkipped,
     ct_last_error := [], ct_next_retry_at := None\<rparr>"

definition kx_db4 :: correction_db where
  "kx_db4 = add_review 100 kx_c4 ''SYNC_SUCCEEDED'' system_actor zh_projection_note
     (kx_db3\<lparr>k_corrections := [kx_c4], k_tasks := [kx_task4]\<rparr>)"

lemma kx_step4: "exec_correction (KProcess ProjectionMode (kx_sync 100 kx_down) 100 20) kx_db3 = Inr kx_db4"
proof -
  have d: "due_tasks 100 20 kx_db3 = [kx_task3]"
    by (simp add: due_tasks_def kx_db3_def task_due_def kx_task3_def)
  have f: "ct_id kx_task3 = ''k1''" "ct_correction_id kx_task3 = ''c1''" "ct_status kx_task3 = TkRetrying"
    "mc_id kx_c3 = ''c1''" "ct_attempts kx_task3 = 1" "ct_mysql_status kx_task3 = PtSucceeded"
    by (simp_all add: kx_task3_def kx_c3_def kx_fields)
  have p: "apply_mysql_projection kx_c3 [kx_projection] = [kx_projection]"
    by (simp add: apply_mysql_projection_def kx_c3_def kx_c2_def kx_c1_def kx_projection_def target_of_def)
  have ts: "k_tasks kx_db3 = [kx_task3]" "k_corrections kx_db3 = [kx_c3]" "k_projections kx_db3 = [kx_projection]"
    by (simp_all add: kx_db3_def)
  show ?thesis
    unfolding exec_correction.simps process_due_sync_tasks_def d Let_def list.map process_tasks.simps
      process_task_def ts get_correction_def
    by (simp add: f kx_sync_def ts p complete_task_def Let_def put_task_def put_correction_def kx_put
        kx_db4_def kx_c4_def kx_task4_def) (simp add: kx_db3_def kx_task3_def kx_task_def eval_nat_numeral)
qed

lemmas kx_next = reach_step [where exec = exec_correction]

lemma kx_reach_from1: "reach exec_correction kx_db1 kx_db4"
  by (rule kx_next [OF kx_next [OF kx_next [OF reach_init kx_step2] kx_step3] kx_step4])

lemma kx_reach:
  "reach exec_correction empty_correction_db kx_db1" "reach exec_correction empty_correction_db kx_db2"
  "reach exec_correction empty_correction_db kx_db3" "reach exec_correction empty_correction_db kx_db4"
proof -
  show r1: "reach exec_correction empty_correction_db kx_db1" by (rule kx_next [OF reach_init kx_step1])
  show r2: "reach exec_correction empty_correction_db kx_db2" by (rule kx_next [OF r1 kx_step2])
  show r3: "reach exec_correction empty_correction_db kx_db3" by (rule kx_next [OF r2 kx_step3])
  show r4: "reach exec_correction empty_correction_db kx_db4" by (rule kx_next [OF r3 kx_step4])
qed

section \<open>The projection\<close>

lemma projected_target [simp]: "pj_target (projected c p) = pj_target p"
  by (cases "mc_operation c") (simp_all add: projected_def)

lemma projected_last [simp]: "pj_last_correction_id (projected c p) = mc_id c"
  by (simp add: projected_def)

lemma apply_projection_get:
  "tbl_get pj_target k (apply_mysql_projection c ps) =
     (if k \<noteq> target_of c then tbl_get pj_target k ps
      else case tbl_get pj_target k ps of
        Some p \<Rightarrow> if pj_last_correction_id p = mc_id c then Some p else Some (projected c p)
      | None \<Rightarrow> Some (projected c \<lparr>pj_target = target_of c, pj_payload = [], pj_active = True,
          pj_version = 0, pj_last_correction_id = mc_id c\<rparr>))"
  by (auto simp: apply_mysql_projection_def tbl_get_put split: option.split dest: tbl_get_Some)

section \<open>Requests to the graph\<close>

fun request_legal :: "manual_correction \<Rightarrow> graph_request \<Rightarrow> bool" where
  "request_legal c (GetNode i) \<longleftrightarrow> i = mc_target_id c \<and> mc_operation c = ODelete \<and> mc_target_type c \<noteq> TRelation"
| "request_legal c (UpdateNode i d) \<longleftrightarrow> i = mc_target_id c \<and> mc_operation c = ODelete \<and>
     mc_target_type c \<noteq> TRelation \<and> dget d ''manual_disabled'' = JBool True"
| "request_legal c (MergeNode label key d) \<longleftrightarrow> mc_operation c \<noteq> ODelete \<and>
     (label, key) \<in> {(''Scholar'', [(''scholar_id'', JStr (mc_target_id c))]),
                    (''Organization'', [(''org_id'', JStr (mc_target_id c))])} \<and>
     (label = ''Scholar'' \<longleftrightarrow> mc_target_type c = TExpert) \<and>
     dget d ''correction_id'' = JStr (mc_id c) \<and> dget d ''manual_disabled'' = JBool False"
| "request_legal c (MergeEdge s t e key d) \<longleftrightarrow> mc_target_type c = TRelation \<and> mc_operation c = OCreate \<and>
     s \<noteq> [] \<and> t \<noteq> [] \<and> e = ''EMPLOYED_BY'' \<and> dget d ''correction_id'' = JStr (mc_id c)"
| "request_legal c (UpdateEdge i d e) \<longleftrightarrow> mc_target_type c = TRelation \<and> mc_operation c \<noteq> OCreate \<and>
     e = ''EMPLOYED_BY'' \<and> dget d ''correction_id'' = JStr (mc_id c) \<and>
     dget d ''manual_disabled'' = JBool (mc_operation c = ODelete)"

lemma dget_metadata:
  "dget (dmerge d (graph_metadata now c)) ''correction_id'' = JStr (mc_id c)"
  "dget (dmerge d (graph_metadata now c)) ''manual_disabled'' = JBool (mc_operation c = ODelete)"
  "dget (graph_metadata now c) ''manual_disabled'' = JBool (mc_operation c = ODelete)"
  by (simp_all add: graph_metadata_def dmerge_def) (simp add: dget_def)

lemma apply_graph_node_cong:
  assumes "\<And>r. request_legal c r \<Longrightarrow> g r = g' r" and t: "mc_target_type c \<noteq> TRelation"
  shows "apply_graph_node g now c = apply_graph_node g' now c"
proof (cases "mc_operation c = ODelete")
  case True
  have "g (GetNode (mc_target_id c)) = g' (GetNode (mc_target_id c))"
    "g (UpdateNode (mc_target_id c) (graph_metadata now c)) = g' (UpdateNode (mc_target_id c) (graph_metadata now c))"
    by (rule assms(1); simp add: True t dget_metadata)+
  with True show ?thesis by (simp add: apply_graph_node_def Let_def cong: if_cong)
next
  case False
  let ?l = "if mc_target_type c = TExpert then ''Scholar'' else ''Organization''"
  let ?k = "if ?l = ''Scholar'' then ''scholar_id'' else ''org_id''"
  let ?d = "dmerge (dmerge [(?k, JStr (mc_target_id c))] (mc_after c)) (graph_metadata now c)"
  have "g (MergeNode ?l [(?k, JStr (mc_target_id c))] ?d) = g' (MergeNode ?l [(?k, JStr (mc_target_id c))] ?d)"
    by (rule assms(1)) (simp add: False dget_metadata)
  with False show ?thesis by (simp add: apply_graph_node_def Let_def)
qed

lemma apply_graph_relation_cong:
  assumes "\<And>r. request_legal c r \<Longrightarrow> g r = g' r" and t: "mc_target_type c = TRelation"
  shows "apply_graph_relation g now c = apply_graph_relation g' now c"
proof -
  have m: "g (MergeEdge s t e k (dmerge d (graph_metadata now c))) =
      g' (MergeEdge s t e k (dmerge d (graph_metadata now c)))"
    if "mc_operation c = OCreate" "s \<noteq> []" "t \<noteq> []" "e = ''EMPLOYED_BY''" for s t e k d
    by (rule assms(1)) (simp add: that assms(2) dget_metadata)
  have u: "g (UpdateEdge i (dmerge d (graph_metadata now c)) e) = g' (UpdateEdge i (dmerge d (graph_metadata now c)) e)"
    if "mc_operation c \<noteq> OCreate" "e = ''EMPLOYED_BY''" for i d e
    by (rule assms(1)) (simp add: that assms(2) dget_metadata)
  show ?thesis
    unfolding apply_graph_relation_def Let_def by (simp add: m u)
qed

section \<open>Properties\<close>

text \<open>
  C4: four eyes.  In every reachable ledger the correction last applied to a projection is one for
  the same target, it was approved, and its reviewer is not the person who submitted it.
\<close>

theorem four_eyes:
  assumes "reach exec_correction empty_correction_db db" and "p \<in> set (k_projections db)"
  shows "\<exists>c r. tbl_get mc_id (pj_last_correction_id p) (k_corrections db) = Some c \<and>
    target_of c = pj_target p \<and> mc_status c \<in> {PENDING_SYNC, SYNC_FAILED, COMPLETED} \<and>
    mc_reviewer_id c = Some r \<and> r \<noteq> mc_submitter_id c"
proof -
  have inv: "correction_inv db" by (rule reachable_correction_inv [OF assms(1)])
  from inv_parts(7) [OF inv assms(2)] obtain c
    where c: "tbl_get mc_id (pj_last_correction_id p) (k_corrections db) = Some c"
      "target_of c = pj_target p" "mc_status c \<in> set SYNC_STATES" by (auto simp: projection_ok_def)
  from inv_parts(6) [OF inv c(1)] c(3) have "reviewed_ok c"
    by (auto simp: correction_row_ok_def)
  with c show ?thesis by (auto simp: reviewed_ok_def SYNC_STATES_def)
qed

theorem four_eyes_witness:
  "\<exists>c r. tbl_get mc_id (pj_last_correction_id kx_projection) (k_corrections kx_db4) = Some c \<and>
    target_of c = pj_target kx_projection \<and> mc_status c \<in> {PENDING_SYNC, SYNC_FAILED, COMPLETED} \<and>
    mc_reviewer_id c = Some r \<and> r \<noteq> mc_submitter_id c"
  by (rule four_eyes [OF kx_reach(4)]) (simp add: kx_db4_def kx_db3_def)

text \<open>
  C17: the ledger and the queue agree.  In every reachable ledger a correction has a task exactly
  when it was approved, never two; the status of the task determines that of the correction; a
  task that will be tried again has attempts left.
\<close>

theorem task_coherence:
  assumes "reach exec_correction empty_correction_db db"
  shows "distinct (map mc_id (k_corrections db)) \<and> distinct (map ct_correction_id (k_tasks db)) \<and>
    (\<forall>c \<in> set (k_corrections db).
       mc_status c \<in> {PENDING_SYNC, SYNC_FAILED, COMPLETED} \<longleftrightarrow> (\<exists>x \<in> set (k_tasks db). ct_correction_id x = mc_id c)) \<and>
    (\<forall>x \<in> set (k_tasks db). ct_attempts x \<le> ct_max_attempts x \<and> ct_status x \<noteq> TkProcessing \<and>
       (ct_status x \<in> {TkPending, TkRetrying} \<longrightarrow> ct_attempts x < ct_max_attempts x) \<and>
       (\<exists>c. tbl_get mc_id (ct_correction_id x) (k_corrections db) = Some c \<and>
          mc_status c = (if ct_status x = TkSucceeded then COMPLETED
            else if ct_status x = TkPending then PENDING_SYNC else SYNC_FAILED)))"
proof -
  have inv: "correction_inv db" by (rule reachable_correction_inv [OF assms])
  have k: "distinct (map mc_id (k_corrections db))" "distinct (map ct_correction_id (k_tasks db))"
    using inv_parts(1,3) [OF inv] by (simp_all add: keys_ok_def)
  have r: "mc_status c \<in> {PENDING_SYNC, SYNC_FAILED, COMPLETED} \<longleftrightarrow> (\<exists>x \<in> set (k_tasks db). ct_correction_id x = mc_id c)"
    if "c \<in> set (k_corrections db)" for c
  proof -
    have "(\<exists>x \<in> set (k_tasks db). ct_correction_id x = mc_id c) \<longleftrightarrow> mc_id c \<in> ct_correction_id ` set (k_tasks db)"
      unfolding image_iff by (simp add: eq_commute)
    with inv_parts(6) [OF inv tbl_get_unique [OF inv_parts(1) [OF inv] that]]
    show ?thesis by (simp add: correction_row_ok_def SYNC_STATES_def)
  qed
  have x: "ct_attempts x \<le> ct_max_attempts x \<and> ct_status x \<noteq> TkProcessing \<and>
       (ct_status x \<in> {TkPending, TkRetrying} \<longrightarrow> ct_attempts x < ct_max_attempts x) \<and>
       (\<exists>c. tbl_get mc_id (ct_correction_id x) (k_corrections db) = Some c \<and>
          mc_status c = (if ct_status x = TkSucceeded then COMPLETED
            else if ct_status x = TkPending then PENDING_SYNC else SYNC_FAILED))"
    if "x \<in> set (k_tasks db)" for x
    using inv_parts(5) [OF inv that] by (cases "ct_status x") (simp_all add: task_ok_def)
  from k r x show ?thesis by blast
qed

theorem task_coherence_witness:
  "ct_attempts kx_task3 \<le> ct_max_attempts kx_task3 \<and> ct_attempts kx_task3 < ct_max_attempts kx_task3"
proof -
  have "kx_task3 \<in> set (k_tasks kx_db3)" "ct_status kx_task3 = TkRetrying"
    by (simp_all add: kx_db3_def kx_task3_def)
  with task_coherence [OF kx_reach(3)] show ?thesis by blast
qed

text \<open>
  C18: what was decided stays decided.  Along any run, the submitter of a correction never changes;
  once it has left PENDING_REVIEW its content, its version and its reviewer are frozen and it never
  returns to review; REJECTED, CANCELLED and COMPLETED are final.
\<close>

theorem decided_is_frozen:
  assumes "reach exec_correction empty_correction_db db" and "reach exec_correction db db'"
    and "tbl_get mc_id i (k_corrections db) = Some c"
  shows "\<exists>c'. tbl_get mc_id i (k_corrections db') = Some c' \<and> mc_submitter_id c' = mc_submitter_id c \<and>
    (mc_status c \<noteq> PENDING_REVIEW \<longrightarrow>
       target_of c' = target_of c \<and> mc_operation c' = mc_operation c \<and> mc_before c' = mc_before c \<and>
       mc_after c' = mc_after c \<and> mc_title c' = mc_title c \<and> mc_reason c' = mc_reason c \<and>
       mc_reviewer_id c' = mc_reviewer_id c \<and> mc_version c' = mc_version c \<and>
       mc_status c' \<noteq> PENDING_REVIEW) \<and>
    (mc_status c \<in> {REJECTED, CANCELLED, COMPLETED} \<longrightarrow> mc_status c' = mc_status c)"
proof -
  have "ledger_kept db db'"
    by (rule reach_ledger_kept [OF assms(2) reachable_correction_inv [OF assms(1)]])
  with assms(3) obtain c' where "tbl_get mc_id i (k_corrections db') = Some c'" "row_kept c c'"
    by (auto simp: ledger_kept_def)
  then show ?thesis by (auto simp: row_kept_def content_eq_def target_of_def)
qed

theorem decided_is_frozen_witness:
  "\<exists>c'. tbl_get mc_id ''c1'' (k_corrections kx_db4) = Some c' \<and> mc_after c' = mc_after kx_c2"
proof -
  have r: "reach exec_correction kx_db2 kx_db4"
    by (rule kx_next [OF kx_next [OF reach_init kx_step3] kx_step4])
  have g: "tbl_get mc_id ''c1'' (k_corrections kx_db2) = Some kx_c2" by (simp add: kx_tables kx_fields)
  show ?thesis using decided_is_frozen [OF kx_reach(2) r g] by (auto simp: kx_fields)
qed

text \<open>What a projection should hold after a history of corrections of one target, read off the history.\<close>

definition since_create :: "manual_correction list \<Rightarrow> manual_correction list" where
  \<comment> \<open>the corrections after the last one that creates\<close>
  "since_create cs = rev (takeWhile (\<lambda>c. mc_operation c \<noteq> OCreate) (rev cs))"

definition content_after :: "manual_correction list \<Rightarrow> dict" where
  \<comment> \<open>the data of the last creation, if any, with the later updates merged in order\<close>
  "content_after cs =
     foldl dmerge (case find (\<lambda>c. mc_operation c = OCreate) (rev cs) of None \<Rightarrow> [] | Some c \<Rightarrow> mc_after c)
       (map mc_after (filter (\<lambda>c. mc_operation c = OUpdate) (since_create cs)))"

definition projection_of :: "target_type \<times> string \<Rightarrow> manual_correction list \<Rightarrow> projection option" where
  "projection_of k cs = (let mine = filter (\<lambda>c. target_of c = k) cs in
     if mine = [] then None
     else Some \<lparr>pj_target = k, pj_payload = content_after mine, pj_active = (mc_operation (last mine) \<noteq> ODelete),
       pj_version = length mine, pj_last_correction_id = mc_id (last mine)\<rparr>)"

lemma content_after_snoc: "content_after (cs @ [c]) = (case mc_operation c of
    OCreate \<Rightarrow> mc_after c | OUpdate \<Rightarrow> dmerge (content_after cs) (mc_after c) | ODelete \<Rightarrow> content_after cs)"
  by (cases "mc_operation c") (simp_all add: content_after_def since_create_def)

definition apply_all :: "manual_correction list \<Rightarrow> projection list" where
  "apply_all cs = foldl (\<lambda>ps c. apply_mysql_projection c ps) [] cs"

lemma apply_all_snoc: "apply_all (cs @ [c]) = apply_mysql_projection c (apply_all cs)"
  by (simp add: apply_all_def)

lemma apply_all_projection:
  "distinct (map mc_id cs) \<Longrightarrow> tbl_get pj_target k (apply_all cs) = projection_of k cs"
proof (induction cs rule: rev_induct)
  case Nil
  then show ?case by (simp add: apply_all_def projection_of_def)
next
  case (snoc c cs)
  then have IH: "tbl_get pj_target k (apply_all cs) = projection_of k cs" by simp
  show ?case
  proof (cases "target_of c = k")
    case False
    with IH show ?thesis by (simp add: apply_all_snoc apply_projection_get projection_of_def)
  next
    case True
    let ?mine = "filter (\<lambda>c. target_of c = k) cs"
    have "mc_id (last ?mine) \<noteq> mc_id c" if "?mine \<noteq> []"
      using imageI [OF last_in_set [OF that], of mc_id] snoc.prems by (auto simp del: last_in_set)
    with IH True show ?thesis
      by (cases "mc_operation c")
        (auto simp: apply_all_snoc apply_projection_get projection_of_def projected_def content_after_snoc Let_def
          content_after_def since_create_def)
  qed
qed

text \<open>
  C22: the projection follows the history.  After any sequence of different corrections, the first of
  a target included, the row of each target is what its corrections say: the data of the last
  creation, or none, with the later updates merged in their order; active unless the last of them
  deletes; a version that counts them; and the id of the last.  A target without corrections has no
  row.  Applying the last correction once more changes nothing.
\<close>

theorem projection_semantics:
  assumes "distinct (map mc_id cs)"
  shows "tbl_get pj_target k (apply_all cs) = projection_of k cs \<and>
    (cs \<noteq> [] \<longrightarrow> apply_mysql_projection (last cs) (apply_all cs) = apply_all cs)"
proof -
  have "apply_mysql_projection (last cs) (apply_all cs) = apply_all cs" if "cs \<noteq> []"
  proof -
    have "filter (\<lambda>c. target_of c = target_of (last cs)) cs \<noteq> []"
      using that last_in_set [OF that] by (metis (mono_tags) filter_empty_conv)
    moreover have "last (filter (\<lambda>c. target_of c = target_of (last cs)) cs) = last cs"
      using that by (cases cs rule: rev_cases) simp_all
    ultimately show ?thesis
      using apply_all_projection [OF assms, of "target_of (last cs)"]
      by (auto simp: apply_mysql_projection_def projection_of_def Let_def split: if_splits)
  qed
  with apply_all_projection [OF assms] show ?thesis by simp
qed

definition kx_history :: "manual_correction list" where
  "kx_history = [kx_c2, kx_c2\<lparr>mc_id := ''c2'', mc_after := [(''age'', JInt 7)]\<rparr>,
     kx_c2\<lparr>mc_id := ''c3'', mc_target_id := ''s2''\<rparr>, kx_c2\<lparr>mc_id := ''c4'', mc_operation := ODelete\<rparr>]"

theorem projection_semantics_witness:
  "tbl_get pj_target (TExpert, ''s1'') (apply_all kx_history) =
     Some \<lparr>pj_target = (TExpert, ''s1''), pj_payload = [(''name'', JStr ''li''), (''age'', JInt 7)], pj_active = False,
       pj_version = 3, pj_last_correction_id = ''c4''\<rparr>"
proof -
  have "projection_of (TExpert, ''s1'') kx_history =
     Some \<lparr>pj_target = (TExpert, ''s1''), pj_payload = [(''name'', JStr ''li''), (''age'', JInt 7)], pj_active = False,
       pj_version = 3, pj_last_correction_id = ''c4''\<rparr>"
    by code_simp
  moreover have "distinct (map mc_id kx_history)" by code_simp
  ultimately show ?thesis using projection_semantics [of kx_history "(TExpert, ''s1'')"] by simp
qed



text \<open>
  A projection remembers only the correction applied last.  In dual mode a correction whose graph
  request failed is applied again by its retry; if a newer correction of the same target completed
  in between, the retry puts the older content back.
\<close>

definition kx_newer :: manual_correction where
  "kx_newer = kx_c2\<lparr>mc_id := ''c2'', mc_after := [(''name'', JStr ''wang'')]\<rparr>"

lemma older_retry_overwrites:
  "map pj_payload (apply_mysql_projection kx_newer (apply_mysql_projection kx_c2 [])) =
     [[(''name'', JStr ''wang'')]]"
  "map pj_payload (apply_mysql_projection kx_c2
     (apply_mysql_projection kx_newer (apply_mysql_projection kx_c2 []))) = [[(''name'', JStr ''li'')]]"
proof -
  have d: "dmerge [(''name'', v)] [(''name'', w)] = [(''name'', w)]" for v w
    by (simp add: dmerge_def)
  show "map pj_payload (apply_mysql_projection kx_newer (apply_mysql_projection kx_c2 [])) =
     [[(''name'', JStr ''wang'')]]"
    "map pj_payload (apply_mysql_projection kx_c2
     (apply_mysql_projection kx_newer (apply_mysql_projection kx_c2 []))) = [[(''name'', JStr ''li'')]]"
    by (simp_all add: kx_projected)
      (simp_all add: apply_mysql_projection_def kx_newer_def kx_c2_def kx_c1_def kx_projection_def
        target_of_def projected_def tbl_put_def tbl_upd_def d)
qed

end
