(* ===== verification/Correction_Worker.thy ===== *)
theory Correction_Worker
  imports Correction_Safety
begin

text \<open>
  The worker of the ledger over time (backend/service/correction.py,
  \<open>process_due_sync_tasks\<close>): what one pass does to each task, and that a sequence of passes
  settles every task, because each attempt is counted and the waiting time is bounded.
\<close>

section \<open>One attempt\<close>

definition active :: "sync_task \<Rightarrow> bool" where
  "active x \<longleftrightarrow> ct_status x \<in> {TkPending, TkRetrying}"

definition task_after :: "time \<Rightarrow> sync_task \<Rightarrow> sync_task \<Rightarrow> bool" where
  "task_after t x x' \<longleftrightarrow>
     ct_max_attempts x' = ct_max_attempts x \<and> ct_attempts x' = Suc (ct_attempts x) \<and>
     (ct_status x' = TkSucceeded \<or>
      ct_status x' = TkFailed \<and> ct_max_attempts x \<le> ct_attempts x' \<or>
      ct_status x' = TkRetrying \<and> ct_attempts x' < ct_max_attempts x \<and>
        ct_next_retry_at x' = Some (t + retry_seconds (ct_attempts x')))"

lemma retry_seconds_bounds: "30 \<le> retry_seconds n" "retry_seconds n \<le> 3600"
  unfolding retry_seconds_def by simp_all

lemma task_after_cases:
  assumes "task_after t x x'"
  shows "active x' \<Longrightarrow> \<exists>r. ct_next_retry_at x' = Some r \<and> t + 30 \<le> r \<and> r \<le> t + 3600"
    and "ct_status x' \<in> {TkRetrying, TkSucceeded, TkFailed}"
  using assms retry_seconds_bounds [of "ct_attempts x'"] by (auto simp: task_after_def active_def)

lemma process_task_after:
  assumes inv: "correction_inv db" and p: "process_task mode env tid db = Inr db'"
    and x: "tbl_get ct_id tid (k_tasks db) = Some x" and s: "ct_status x \<noteq> TkSucceeded"
  shows "\<exists>x'. k_tasks db' = tbl_put ct_id x' (k_tasks db) \<and> ct_id x' = tid \<and> task_after (se_now env) x x'"
  using p
proof (cases rule: process_task_cases)
  case skip
  with x s show ?thesis by simp
next
  case (failed y c x' msg)
  then have "y = x" using x by simp
  with failed task_table.get_key [OF x] show ?thesis
    by (intro exI [of _ "failed_task (se_now env) msg x'"])
      (auto simp: schedule_failure_def put_task_def put_correction_def task_after_def failed_task_def)
next
  case (completed y c x' nt)
  then have "y = x" using x by simp
  with completed task_table.get_key [OF x] show ?thesis
    by (intro exI [of _ "x'\<lparr>ct_status := TkSucceeded, ct_last_error := [], ct_next_retry_at := None\<rparr>"])
      (auto simp: complete_task_def Let_def put_task_def put_correction_def task_after_def add_review_def)
qed

lemma process_tasks_after:
  assumes "correction_inv db" and "distinct ids"
    and "\<And>i x. i \<in> set ids \<Longrightarrow> tbl_get ct_id i (k_tasks db) = Some x \<Longrightarrow> active x"
    and "process_tasks mode env ids db = Inr db'"
  shows "map ct_id (k_tasks db') = map ct_id (k_tasks db) \<and>
    (\<forall>i x. tbl_get ct_id i (k_tasks db) = Some x \<longrightarrow>
       (\<exists>x'. tbl_get ct_id i (k_tasks db') = Some x' \<and>
          (if i \<in> set ids then task_after (se_now (env i)) x x' else x' = x)))"
  using assms
proof (induction ids arbitrary: db)
  case Nil
  then show ?case by simp
next
  case (Cons i ids)
  then obtain db1 where p: "process_task mode (env i) i db = Inr db1"
    and r: "process_tasks mode env ids db1 = Inr db'" by (auto elim!: rbindE)
  have i1: "correction_inv db1"
    by (rule process_task_inv [OF Cons.prems(1) p])
      (use Cons.prems(3) in \<open>auto simp: active_def\<close>)
  have frame: "tbl_get ct_id j (k_tasks db1) = tbl_get ct_id j (k_tasks db)" if "j \<noteq> i" for j
    by (rule process_task_frame [OF p that])
  have act: "active x" if "j \<in> set ids" "tbl_get ct_id j (k_tasks db1) = Some x" for j x
  proof -
    have "j \<noteq> i" using Cons.prems(2) that(1) by auto
    with frame that Cons.prems(3) [of j x] show ?thesis by simp
  qed
  have IH: "map ct_id (k_tasks db') = map ct_id (k_tasks db1) \<and>
    (\<forall>j x. tbl_get ct_id j (k_tasks db1) = Some x \<longrightarrow>
       (\<exists>x'. tbl_get ct_id j (k_tasks db') = Some x' \<and>
          (if j \<in> set ids then task_after (se_now (env j)) x x' else x' = x)))"
    using Cons.IH [OF i1 _ act r] Cons.prems(2) by simp
  show ?case
  proof (cases "tbl_get ct_id i (k_tasks db)")
    case None
    then have "db1 = db" using p by (simp add: process_task_def)
    with IH None show ?thesis by (metis list.set_intros(2) option.distinct(1) set_ConsD)
  next
    case (Some x)
    have "ct_status x \<noteq> TkSucceeded" using Cons.prems(3) [OF _ Some] by (auto simp: active_def)
    from process_task_after [OF Cons.prems(1) p Some this] obtain x'
      where x': "k_tasks db1 = tbl_put ct_id x' (k_tasks db)" "ct_id x' = i" "task_after (se_now (env i)) x x'"
      by blast
    have m: "map ct_id (k_tasks db1) = map ct_id (k_tasks db)"
      unfolding x'(1) by (rule map_put_static [OF inv_parts(2) [OF Cons.prems(1)]]) (use x'(2) Some task_table.get_key [OF Some] in auto)
    have g: "tbl_get ct_id i (k_tasks db1) = Some x'" by (simp add: x' tbl_get_put)
    have "i \<notin> set ids" using Cons.prems(2) by simp
    have "\<exists>y. tbl_get ct_id i (k_tasks db') = Some y \<and>
        (if i \<in> set ids then task_after (se_now (env i)) x' y else y = x')" using IH g by blast
    with \<open>i \<notin> set ids\<close> have "tbl_get ct_id i (k_tasks db') = Some x'" by simp
    with IH m frame x'(3) Some \<open>i \<notin> set ids\<close> show ?thesis
      by (metis list.set_intros(1) list.set_intros(2) option.inject set_ConsD)
  qed
qed

section \<open>One pass\<close>

lemma pass_after:
  assumes inv: "correction_inv db"
    and p: "process_due_sync_tasks mode env t limit db = Inr (db', n)"
  shows "correction_inv db'" and "n = length (due_tasks t limit db)"
    and "map ct_id (k_tasks db') = map ct_id (k_tasks db)"
    and "tbl_get ct_id i (k_tasks db) = Some x \<Longrightarrow>
      \<exists>x'. tbl_get ct_id i (k_tasks db') = Some x' \<and>
        (if x \<in> set (due_tasks t limit db) then task_after (se_now (env i)) x x' else x' = x)"
proof -
  let ?ids = "map ct_id (due_tasks t limit db)"
  show "correction_inv db'" "n = length (due_tasks t limit db)"
    using process_due_ok [OF inv, of mode env t limit db' n] p by auto
  have r: "process_tasks mode env ?ids db = Inr db'"
    using p by (auto simp: process_due_sync_tasks_def Let_def elim!: rbindE)
  have a: "active y" if "j \<in> set ?ids" "tbl_get ct_id j (k_tasks db) = Some y" for j y
    using due_tasks_status(1) [OF inv that] by (simp add: active_def)
  have after: "map ct_id (k_tasks db') = map ct_id (k_tasks db) \<and>
    (\<forall>i x. tbl_get ct_id i (k_tasks db) = Some x \<longrightarrow>
       (\<exists>x'. tbl_get ct_id i (k_tasks db') = Some x' \<and>
          (if i \<in> set ?ids then task_after (se_now (env i)) x x' else x' = x)))"
    by (rule process_tasks_after [OF inv due_tasks_facts(1) [OF inv] _ r]) (rule a)
  show "map ct_id (k_tasks db') = map ct_id (k_tasks db)" using after by simp
  assume x: "tbl_get ct_id i (k_tasks db) = Some x"
  have "i \<in> set ?ids \<longleftrightarrow> x \<in> set (due_tasks t limit db)"
    using due_tasks_status(2) [OF inv _ x] task_table.get_key [OF x] by auto
  moreover obtain x' where "tbl_get ct_id i (k_tasks db') = Some x'"
    "if i \<in> set ?ids then task_after (se_now (env i)) x x' else x' = x"
    using after x by blast
  ultimately show "\<exists>x'. tbl_get ct_id i (k_tasks db') = Some x' \<and>
        (if x \<in> set (due_tasks t limit db) then task_after (se_now (env i)) x x' else x' = x)"
    by simp
qed

section \<open>Many passes\<close>

type_synonym worker_pass = "time \<times> (string \<Rightarrow> sync_env)"

fun worker_passes ::
  "sync_mode \<Rightarrow> nat \<Rightarrow> worker_pass list \<Rightarrow> correction_db \<Rightarrow> correction_error + correction_db" where
  "worker_passes mode limit [] db = Inr db"
| "worker_passes mode limit ((t, env) # ps) db =
     rbind (process_due_sync_tasks mode env t limit db) (\<lambda>(db', n). worker_passes mode limit ps db')"

fun spaced :: "worker_pass list \<Rightarrow> bool" where
  \<comment> \<open>the next pass starts at least an hour after the last attempt of the one before\<close>
  "spaced ((t, env) # (t', env') # ps) \<longleftrightarrow> (\<forall>i. se_now (env i) + 3600 \<le> t') \<and> spaced ((t', env') # ps)"
| "spaced ps \<longleftrightarrow> True"

definition ready :: "worker_pass list \<Rightarrow> correction_db \<Rightarrow> bool" where
  "ready ps db \<longleftrightarrow> (\<forall>x \<in> set (k_tasks db). active x \<longrightarrow>
     ct_max_attempts x - ct_attempts x \<le> length ps \<and>
     (case ps of [] \<Rightarrow> True | p # _ \<Rightarrow> task_due (fst p) x))"

lemma due_is_taken:
  assumes "length (k_tasks db) \<le> limit" and "x \<in> set (k_tasks db)" and "task_due t x"
  shows "x \<in> set (due_tasks t limit db)"
proof -
  have "length (filter (task_due t) (k_tasks db)) \<le> limit"
    using assms(1) length_filter_le order_trans by blast
  with assms show ?thesis by (simp add: due_tasks_def)
qed

lemma ready_step:
  assumes inv: "correction_inv db" and lim: "length (k_tasks db) \<le> limit"
    and sp: "spaced ((t, env) # ps)" and rd: "ready ((t, env) # ps) db"
    and p: "process_due_sync_tasks mode env t limit db = Inr (db', n)"
  shows "ready ps db'"
  unfolding ready_def
proof (intro ballI impI)
  fix x' assume x': "x' \<in> set (k_tasks db')" and a: "active x'"
  note after = pass_after [OF inv p]
  have g': "tbl_get ct_id (ct_id x') (k_tasks db') = Some x'"
    by (rule tbl_get_unique [OF inv_parts(2) [OF after(1)] x'])
  have "ct_id x' \<in> ct_id ` set (k_tasks db)"
    using x' after(3) by (metis imageI list.set_map)
  then obtain x where x: "tbl_get ct_id (ct_id x') (k_tasks db) = Some x"
    using tbl_get_iff [of ct_id "ct_id x'" "k_tasks db"] by auto
  from after(4) [OF x] g' have c: "if x \<in> set (due_tasks t limit db)
      then task_after (se_now (env (ct_id x'))) x x' else x' = x" by simp
  have xin: "x \<in> set (k_tasks db)" using tbl_get_Some [OF x] by simp
  have "x \<in> set (due_tasks t limit db)"
  proof (rule ccontr)
    assume no: "x \<notin> set (due_tasks t limit db)"
    with c a have "active x" by simp
    with rd xin have "task_due t x" by (simp add: ready_def)
    with no due_is_taken [OF lim xin] show False by simp
  qed
  with c have ta: "task_after (se_now (env (ct_id x'))) x x'" by simp
  have "active x"
    using \<open>x \<in> set (due_tasks t limit db)\<close> due_tasks_facts(3) [OF inv] by (auto simp: task_due_def active_def)
  with rd xin have "ct_max_attempts x - ct_attempts x \<le> Suc (length ps)" by (simp add: ready_def)
  with ta have "ct_max_attempts x' - ct_attempts x' \<le> length ps" by (auto simp: task_after_def)
  moreover have "case ps of [] \<Rightarrow> True | q # _ \<Rightarrow> task_due (fst q) x'"
  proof (cases ps)
    case (Cons q qs)
    obtain t' env' where q: "q = (t', env')" by (cases q)
    obtain r where r: "ct_next_retry_at x' = Some r" "r \<le> se_now (env (ct_id x')) + 3600"
      using task_after_cases(1) [OF ta a] by auto
    have "se_now (env (ct_id x')) + 3600 \<le> t'" using sp Cons q by simp
    with r a Cons q show ?thesis by (simp add: task_due_def active_def)
  qed simp
  ultimately show "ct_max_attempts x' - ct_attempts x' \<le> length ps \<and>
    (case ps of [] \<Rightarrow> True | p # _ \<Rightarrow> task_due (fst p) x')" by simp
qed

definition database_up :: "worker_pass \<Rightarrow> bool" where
  "database_up p \<longleftrightarrow> (\<forall>i. \<not> se_flush_fails (snd p i))"

lemma passes_settle:
  assumes "correction_inv db" and "length (k_tasks db) \<le> limit" and "spaced ps" and "ready ps db"
    and "\<forall>p \<in> set ps. database_up p"
  shows "\<exists>db'. worker_passes mode limit ps db = Inr db' \<and> correction_inv db' \<and>
    map ct_id (k_tasks db') = map ct_id (k_tasks db) \<and> (\<forall>x \<in> set (k_tasks db'). \<not> active x)"
  using assms
proof (induction ps arbitrary: db)
  case Nil
  have "\<not> active x" if "x \<in> set (k_tasks db)" for x
  proof
    assume "active x"
    with Nil.prems(4) that have "ct_max_attempts x \<le> ct_attempts x" by (simp add: ready_def)
    with inv_parts(5) [OF Nil.prems(1) that] \<open>active x\<close> show False by (simp add: task_ok_def active_def)
  qed
  with Nil.prems show ?case by simp
next
  case (Cons p ps)
  obtain t env where p: "p = (t, env)" by (cases p)
  have "is_ok (process_due_sync_tasks mode env t limit db)"
    using process_due_ok [OF Cons.prems(1), of mode env t limit] Cons.prems(5) p by (auto simp: database_up_def)
  then obtain db1 n where r: "process_due_sync_tasks mode env t limit db = Inr (db1, n)" by (auto simp: is_ok_iff)
  note after = pass_after [OF Cons.prems(1) r]
  have l: "length (k_tasks db1) \<le> limit"
    using after(3) Cons.prems(2) by (metis length_map)
  have s: "spaced ps" using Cons.prems(3) p by (cases ps) auto
  have rd: "ready ps db1"
    using ready_step [OF Cons.prems(1,2) _ _ r] Cons.prems(3,4) p by simp
  from Cons.IH [OF after(1) l s rd] Cons.prems(5) obtain db' where "worker_passes mode limit ps db1 = Inr db'"
    "correction_inv db'" "map ct_id (k_tasks db') = map ct_id (k_tasks db1)"
    "\<forall>x \<in> set (k_tasks db'). \<not> active x" by auto
  with r p after(3) show ?case by simp
qed

section \<open>Properties\<close>

text \<open>
  C14: the worker settles what is approved.  From any reachable ledger, when the passes are at
  least an hour apart, the limit covers the tasks, there are as many passes as the largest
  number of attempts and the session can write in each of them, then no pass raises, and afterwards
  every task has succeeded or failed for good and no correction is left in PENDING_SYNC, whatever the
  graph answered and whether the statements of the projection raised.  (A flush that fails ends the pass
  with an exception and nothing is stored: lemma \<open>failed_flush_ends_pass\<close>.)
\<close>

theorem worker_settles:
  assumes "reach exec_correction empty_correction_db db"
    and "length (k_tasks db) \<le> limit" and "spaced ps"
    and "\<forall>x \<in> set (k_tasks db). ct_max_attempts x \<le> length ps"
    and "\<forall>x \<in> set (k_tasks db). \<forall>r. ct_next_retry_at x = Some r \<longrightarrow> r \<le> fst (hd ps)"
    and "\<forall>p \<in> set ps. database_up p"
  shows "\<exists>db'. worker_passes mode limit ps db = Inr db' \<and>
    map ct_id (k_tasks db') = map ct_id (k_tasks db) \<and>
    (\<forall>x \<in> set (k_tasks db'). ct_status x \<in> {TkSucceeded, TkFailed}) \<and>
    (\<forall>c \<in> set (k_corrections db'). mc_status c \<noteq> PENDING_SYNC)"
proof -
  have inv: "correction_inv db" by (rule reachable_correction_inv [OF assms(1)])
  have "ready ps db"
    using assms(4,5) by (auto simp: ready_def task_due_def active_def split: list.split option.split)
  from passes_settle [OF inv assms(2,3) this assms(6)] obtain db'
    where db': "worker_passes mode limit ps db = Inr db'" "correction_inv db'"
      "map ct_id (k_tasks db') = map ct_id (k_tasks db)" "\<forall>x \<in> set (k_tasks db'). \<not> active x" by blast
  have st: "ct_status x \<in> {TkSucceeded, TkFailed}" if "x \<in> set (k_tasks db')" for x
    using db'(4) that inv_parts(5) [OF db'(2) that]
    by (cases "ct_status x") (auto simp: active_def task_ok_def)
  have "mc_status c \<noteq> PENDING_SYNC" if c: "c \<in> set (k_corrections db')" for c
  proof
    assume s: "mc_status c = PENDING_SYNC"
    have g: "tbl_get mc_id (mc_id c) (k_corrections db') = Some c"
      by (rule tbl_get_unique [OF inv_parts(1) [OF db'(2)] c])
    from inv_parts(6) [OF db'(2) this] s obtain x
      where x: "x \<in> set (k_tasks db')" "ct_correction_id x = mc_id c"
      by (auto simp: correction_row_ok_def SYNC_STATES_def)
    from inv_parts(5) [OF db'(2) x(1)] x(2) g s st [OF x(1)] show False
      by (auto simp: task_ok_def)
  qed
  with db' st show ?thesis by blast
qed

theorem worker_settles_witness:
  "\<exists>db'. worker_passes DualMode 20 [(3, kx_sync 3 kx_down), (4000, kx_sync 4000 kx_down)] kx_db2 = Inr db' \<and>
    map ct_id (k_tasks db') = [''k1'']"
proof -
  let ?ps = "[(3, kx_sync 3 kx_down), (4000, kx_sync 4000 kx_down)]"
  have "length (k_tasks kx_db2) \<le> 20" "spaced ?ps"
    "\<forall>x \<in> set (k_tasks kx_db2). ct_max_attempts x \<le> length ?ps"
    "\<forall>x \<in> set (k_tasks kx_db2). \<forall>r. ct_next_retry_at x = Some r \<longrightarrow> r \<le> fst (hd ?ps)"
    "\<forall>p \<in> set ?ps. database_up p"
    by (simp_all add: kx_tables kx_sync_def kx_task_def database_up_def)
  from worker_settles [OF kx_reach(2) this, of DualMode] show ?thesis
    by (auto simp: kx_tables kx_fields)
qed

text \<open>
  one pass in which the session can write never raises, takes at most \<open>limit\<close> tasks, counts exactly one attempt for each task
  it takes, and leaves it succeeded, failed for good with its attempts used up, or waiting between
  30 and 3600 seconds; tasks that were not due are untouched.
\<close>

theorem worker_pass:
  assumes "reach exec_correction empty_correction_db db" and "\<forall>i. \<not> se_flush_fails (env i)"
  shows "\<exists>db'. process_due_sync_tasks mode env t limit db = Inr (db', length (due_tasks t limit db)) \<and>
    length (due_tasks t limit db) \<le> limit \<and>
    (\<forall>i x. tbl_get ct_id i (k_tasks db) = Some x \<longrightarrow>
       (\<exists>x'. tbl_get ct_id i (k_tasks db') = Some x' \<and>
          (if x \<in> set (due_tasks t limit db)
           then ct_attempts x' = Suc (ct_attempts x) \<and>
             (ct_status x' = TkSucceeded \<or>
              ct_status x' = TkFailed \<and> ct_attempts x' = ct_max_attempts x' \<or>
              ct_status x' = TkRetrying \<and> ct_attempts x' < ct_max_attempts x' \<and>
                (\<exists>r. ct_next_retry_at x' = Some r \<and>
                   se_now (env i) + 30 \<le> r \<and> r \<le> se_now (env i) + 3600))
           else x' = x)))"
proof -
  have inv: "correction_inv db" by (rule reachable_correction_inv [OF assms(1)])
  have "is_ok (process_due_sync_tasks mode env t limit db)" using process_due_ok [OF inv] assms(2) by blast
  then obtain db' n where "process_due_sync_tasks mode env t limit db = Inr (db', n)" by (auto simp: is_ok_iff)
  with process_due_ok [OF inv, of mode env t limit db' n] have p:
    "process_due_sync_tasks mode env t limit db = Inr (db', length (due_tasks t limit db))" by simp
  note after = pass_after [OF inv p]
  have step: "\<exists>x'. tbl_get ct_id i (k_tasks db') = Some x' \<and>
          (if x \<in> set (due_tasks t limit db)
           then ct_attempts x' = Suc (ct_attempts x) \<and>
             (ct_status x' = TkSucceeded \<or>
              ct_status x' = TkFailed \<and> ct_attempts x' = ct_max_attempts x' \<or>
              ct_status x' = TkRetrying \<and> ct_attempts x' < ct_max_attempts x' \<and>
                (\<exists>r. ct_next_retry_at x' = Some r \<and>
                   se_now (env i) + 30 \<le> r \<and> r \<le> se_now (env i) + 3600))
           else x' = x)"
    if "tbl_get ct_id i (k_tasks db) = Some x" for i x
  proof -
    from after(4) [OF that] obtain x' where g: "tbl_get ct_id i (k_tasks db') = Some x'"
      and c: "if x \<in> set (due_tasks t limit db) then task_after (se_now (env i)) x x' else x' = x" by blast
    have "x' \<in> set (k_tasks db')" using tbl_get_Some [OF g] by simp
    from inv_parts(5) [OF after(1) this] have "ct_attempts x' \<le> ct_max_attempts x'"
      by (simp add: task_ok_def)
    with g c retry_seconds_bounds [of "ct_attempts x'"] show ?thesis
      by (auto simp: task_after_def split: if_splits)
  qed
  with p due_tasks_facts(2) [OF inv] show ?thesis by blast
qed

theorem worker_pass_witness:
  "\<exists>db' x'. process_due_sync_tasks DualMode (kx_sync 3 kx_down) 3 20 kx_db2 = Inr (db', 1) \<and>
    tbl_get ct_id ''k1'' (k_tasks db') = Some x' \<and> ct_attempts x' = 1"
proof -
  have d: "due_tasks 3 20 kx_db2 = [kx_task]"
    by (simp add: due_tasks_def kx_tables task_due_def) (simp add: kx_task_def)
  have g: "tbl_get ct_id ''k1'' (k_tasks kx_db2) = Some kx_task" "ct_attempts kx_task = 0"
    by (simp_all add: kx_tables kx_fields) (simp add: kx_task_def)
  show ?thesis
    using worker_pass [OF kx_reach(2), of "kx_sync 3 kx_down" DualMode 3 20] g unfolding d
    by (fastforce simp: kx_sync_def)
qed

text \<open>A flush that fails: the exception leaves the pass, and with it the transaction of every task in it.\<close>

lemma failed_flush_ends_pass:
  "process_due_sync_tasks DualMode (\<lambda>i. kx_sync 3 kx_down i\<lparr>se_flush_fails := True\<rparr>) 3 20 kx_db2 = Inl SessionFailure"
proof -
  have d: "due_tasks 3 20 kx_db2 = [kx_task]"
    by (simp add: due_tasks_def kx_tables task_due_def) (simp add: kx_task_def)
  then show ?thesis
    by (simp add: process_due_sync_tasks_def Let_def process_task_def kx_tables kx_fields get_correction_def)
qed

end
