(* ===== verification/Calls.thy ===== *)
theory Calls
  imports Prelude
begin

text \<open>
  Calls that read and write a state and may raise: what a call wrote before it raised stays
  written.  The authentication service over its session store and the operator registry over its
  files are of this kind.
\<close>

type_synonym ('e, 's, 'a) call = "'s \<Rightarrow> ('e + 'a) \<times> 's"

definition aret :: "'a \<Rightarrow> ('e, 's, 'a) call" where
  "aret x s = (Inr x, s)"

definition araise :: "'e \<Rightarrow> ('e, 's, 'a) call" where
  "araise e s = (Inl e, s)"

definition abind :: "('e, 's, 'a) call \<Rightarrow> ('a \<Rightarrow> ('e, 's, 'b) call) \<Rightarrow> ('e, 's, 'b) call" where
  "abind m f s = (case m s of (Inl e, s') \<Rightarrow> (Inl e, s') | (Inr x, s') \<Rightarrow> f x s')"

definition alift :: "'e + 'a \<Rightarrow> ('e, 's, 'a) call" where
  "alift r s = (r, s)"

definition acall :: "('s \<Rightarrow> 'a \<times> 's) \<Rightarrow> ('e, 's, 'a) call" where
  "acall f s = (case f s of (x, s') \<Rightarrow> (Inr x, s'))"

definition awrite :: "('s \<Rightarrow> 's) \<Rightarrow> ('e, 's, unit) call" where
  "awrite f s = (Inr (), f s)"

section \<open>Triples\<close>

text \<open>\<open>keeps I m Q\<close>: the call keeps \<open>I\<close>, also when it raises, and a value it returns satisfies \<open>Q\<close>.\<close>

definition keeps :: "('s \<Rightarrow> bool) \<Rightarrow> ('e, 's, 'a) call \<Rightarrow> ('a \<Rightarrow> bool) \<Rightarrow> bool" where
  "keeps I m Q \<longleftrightarrow> (\<forall>s. I s \<longrightarrow> I (snd (m s)) \<and> (\<forall>x. fst (m s) = Inr x \<longrightarrow> Q x))"

lemma keepsD: "keeps I m Q \<Longrightarrow> I s \<Longrightarrow> m s = (r, s') \<Longrightarrow> I s' \<and> (\<forall>x. r = Inr x \<longrightarrow> Q x)"
  by (metis keeps_def fst_conv snd_conv)

named_theorems keeps_intro

lemma keeps_aret [keeps_intro]: "Q x \<Longrightarrow> keeps I (aret x) Q"
  by (simp add: keeps_def aret_def)

lemma keeps_araise [keeps_intro]: "keeps I (araise e) Q"
  by (simp add: keeps_def araise_def)

lemma keeps_alift [keeps_intro]: "(\<And>x. r = Inr x \<Longrightarrow> Q x) \<Longrightarrow> keeps I (alift r) Q"
  by (simp add: keeps_def alift_def)

lemma keeps_awrite [keeps_intro]: "(\<And>s. I s \<Longrightarrow> I (f s)) \<Longrightarrow> Q () \<Longrightarrow> keeps I (awrite f) Q"
  by (simp add: keeps_def awrite_def)

lemma keeps_acall: "(\<And>s. I s \<Longrightarrow> I (snd (f s)) \<and> Q (fst (f s))) \<Longrightarrow> keeps I (acall f) Q"
  unfolding keeps_def acall_def by (metis (no_types, lifting) case_prod_beta fst_conv snd_conv sum.inject(2))

lemma keeps_abind: "keeps I m R \<Longrightarrow> (\<And>x. R x \<Longrightarrow> keeps I (f x) Q) \<Longrightarrow> keeps I (abind m f) Q"
  unfolding keeps_def abind_def by (fastforce split: prod.splits sum.splits)

lemma keeps_weaken: "keeps I m R \<Longrightarrow> (\<And>x. R x \<Longrightarrow> Q x) \<Longrightarrow> keeps I m Q"
  by (auto simp: keeps_def)

lemma keeps_if: "(b \<Longrightarrow> keeps I m Q) \<Longrightarrow> (\<not> b \<Longrightarrow> keeps I n Q) \<Longrightarrow> keeps I (if b then m else n) Q"
  by simp

lemma keeps_store: "keeps I m Q \<Longrightarrow> I s \<Longrightarrow> I (snd (m s))"
  by (simp add: keeps_def)

end
