(* ===== verification/Ttl_Store.thy ===== *)
theory Ttl_Store
  imports Prelude
begin

text \<open>
  The contract of a store whose entries expire, and of a cache kept in such a store in front of
  data that changes.  The result cache and the session store of the backend both provide it.
\<close>

locale ttl_store =
  fixes lookup :: "time \<Rightarrow> 'k \<Rightarrow> 's \<Rightarrow> 'v option"
    and store :: "time \<Rightarrow> int \<Rightarrow> 'k \<Rightarrow> 'v \<Rightarrow> 's \<Rightarrow> 's"
    and discard :: "('k \<Rightarrow> bool) \<Rightarrow> 's \<Rightarrow> 's"
  assumes lookup_store: "lookup t k (store t0 d k' v s) =
      (if k = k' then (if t < t0 + d then Some v else None) else lookup t k s)"
    and lookup_discard: "lookup t k (discard P s) = (if P k then None else lookup t k s)"
    and lookup_earlier: "lookup t' k s = Some v \<Longrightarrow> t \<le> t' \<Longrightarrow> lookup t k s = Some v"
begin

lemma read_your_write: "t < t0 + d \<Longrightarrow> lookup t k (store t0 d k v s) = Some v"
  by (simp add: lookup_store)

lemma expires: "t0 + d \<le> t \<Longrightarrow> lookup t k (store t0 d k v s) = None"
  by (simp add: lookup_store)

lemma other_key: "k \<noteq> k' \<Longrightarrow> lookup t k (store t0 d k' v s) = lookup t k s"
  by (simp add: lookup_store)

lemma last_write_wins: "lookup t k (store t1 d1 k' v1 (store t0 d0 k' v0 s)) = lookup t k (store t1 d1 k' v1 s)"
  by (simp add: lookup_store)

lemma never_returns: "lookup t k s = None \<Longrightarrow> t \<le> t' \<Longrightarrow> lookup t' k s = None"
  by (cases "lookup t' k s") (auto dest: lookup_earlier)

end

text \<open>
  A cache is coherent when every live entry is one of the answers that the data behind it would
  give now.  \<open>views d k\<close> are these answers for the key \<open>k\<close>.
\<close>

locale cached_views = ttl_store lookup store discard
  for lookup :: "time \<Rightarrow> 'k \<Rightarrow> 's \<Rightarrow> 'v option" and store and discard +
  fixes views :: "'d \<Rightarrow> 'k \<Rightarrow> 'v \<Rightarrow> bool"
    and stale :: "'k \<Rightarrow> bool"
begin

definition coherent :: "'d \<Rightarrow> 's \<Rightarrow> bool" where
  "coherent d s \<longleftrightarrow> (\<forall>t k v. stale k \<longrightarrow> lookup t k s = Some v \<longrightarrow> views d k v)"

lemma coherent_store: "coherent d s \<Longrightarrow> (stale k \<Longrightarrow> views d k v) \<Longrightarrow> coherent d (store t0 dur k v s)"
  by (auto simp: coherent_def lookup_store split: if_splits)

lemma coherent_write: "(\<And>k. stale k \<Longrightarrow> P k) \<Longrightarrow> coherent d' (discard P s)"
  by (simp add: coherent_def lookup_discard)

lemma coherent_discard: "coherent d s \<Longrightarrow> coherent d (discard P s)"
  by (simp add: coherent_def lookup_discard)

lemma coherent_mono: "coherent d s \<Longrightarrow> (\<And>k v. stale k \<Longrightarrow> views d k v \<Longrightarrow> views d' k v) \<Longrightarrow> coherent d' s"
  unfolding coherent_def by blast

lemma coherent_hit: "coherent d s \<Longrightarrow> stale k \<Longrightarrow> lookup t k s = Some v \<Longrightarrow> views d k v"
  unfolding coherent_def by blast

end

end
