(* ===== verification/Session_Store.thy ===== *)
theory Session_Store
  imports Ttl_Store Json
begin

text \<open>
  The session store of backend/infra/redis.py: \<open>MemoryJsonStore\<close>, a dictionary from keys to an
  expiry time and a JSON value.  Every operation runs under one lock, so it is one step; reads
  remove expired entries as the code does.  The copy through \<open>json.dumps\<close> and \<open>json.loads\<close> is
  the identity on JSON values.
\<close>

section \<open>Operations\<close>

type_synonym jstore = "string \<Rightarrow> (time \<times> dict) option"

definition empty_jstore :: jstore where
  "empty_jstore = (\<lambda>k. None)"

definition mem_get :: "time \<Rightarrow> string \<Rightarrow> jstore \<Rightarrow> dict option \<times> jstore" where
  "mem_get t k s =
     (case s k of
        None \<Rightarrow> (None, s)
      | Some (e, v) \<Rightarrow> if e \<le> t then (None, s(k := None)) else (Some v, s))"

definition mem_set :: "time \<Rightarrow> string \<Rightarrow> dict \<Rightarrow> int \<Rightarrow> jstore \<Rightarrow> jstore" where
  "mem_set t k v ttl s = s(k := Some (t + ttl, v))"

definition mem_touch :: "time \<Rightarrow> string \<Rightarrow> int \<Rightarrow> jstore \<Rightarrow> bool \<times> jstore" where
  "mem_touch t k ttl s =
     (case s k of
        None \<Rightarrow> (False, s)
      | Some (e, v) \<Rightarrow> if e \<le> t then (False, s(k := None)) else (True, s(k := Some (t + ttl, v))))"

definition mem_replace :: "time \<Rightarrow> string \<Rightarrow> dict \<Rightarrow> int \<Rightarrow> jstore \<Rightarrow> bool \<times> jstore" where
  "mem_replace t k v ttl s =
     (case s k of
        None \<Rightarrow> (False, s)
      | Some (e, v0) \<Rightarrow> if e \<le> t then (False, s(k := None)) else (True, s(k := Some (t + ttl, v))))"

definition mem_pop :: "time \<Rightarrow> string \<Rightarrow> jstore \<Rightarrow> dict option \<times> jstore" where
  "mem_pop t k s =
     (case s k of
        None \<Rightarrow> (None, s(k := None))
      | Some (e, v) \<Rightarrow> (if e \<le> t then None else Some v, s(k := None)))"

definition mem_delete :: "string \<Rightarrow> jstore \<Rightarrow> jstore" where
  "mem_delete k s = s(k := None)"

definition mem_close :: "jstore \<Rightarrow> jstore" where
  "mem_close s = empty_jstore"

section \<open>What a client can observe\<close>

definition live :: "time \<Rightarrow> string \<Rightarrow> jstore \<Rightarrow> dict option" where
  "live t k s = (case s k of None \<Rightarrow> None | Some (e, v) \<Rightarrow> if t < e then Some v else None)"

definition mem_remove :: "(string \<Rightarrow> bool) \<Rightarrow> jstore \<Rightarrow> jstore" where
  "mem_remove P s = (\<lambda>k. if P k then None else s k)"

interpretation session_store: ttl_store live "\<lambda>t d k v s. mem_set t k v d s" mem_remove
  by unfold_locales (auto simp: live_def mem_set_def mem_remove_def split: option.splits if_splits)

text \<open>Two stores that agree from a time on: what a read does to the store is invisible.\<close>

definition agree_from :: "time \<Rightarrow> jstore \<Rightarrow> jstore \<Rightarrow> bool" where
  "agree_from t s s' \<longleftrightarrow> (\<forall>t' k. t \<le> t' \<longrightarrow> live t' k s' = live t' k s)"

lemma mem_get_live: "fst (mem_get t k s) = live t k s"
  by (auto simp: mem_get_def live_def split: option.split)

lemma mem_get_agree: "agree_from t s (snd (mem_get t k s))"
  by (auto simp: agree_from_def mem_get_def live_def split: option.split)

lemma mem_touch_live:
  "fst (mem_touch t k ttl s) \<longleftrightarrow> live t k s \<noteq> None"
  "t \<le> t' \<Longrightarrow> live t' k' (snd (mem_touch t k ttl s)) =
     (if k' = k then (if t' < t + ttl then live t k s else None) else live t' k' s)"
  by (auto simp: mem_touch_def live_def split: option.split)

lemma mem_replace_live:
  "fst (mem_replace t k v ttl s) \<longleftrightarrow> live t k s \<noteq> None"
  "t \<le> t' \<Longrightarrow> live t' k' (snd (mem_replace t k v ttl s)) =
     (if k' = k then (if live t k s \<noteq> None \<and> t' < t + ttl then Some v else None) else live t' k' s)"
  by (auto simp: mem_replace_def live_def split: option.split)

lemma mem_pop_live:
  "fst (mem_pop t k s) = live t k s"
  "live t' k' (snd (mem_pop t k s)) = (if k' = k then None else live t' k' s)"
  by (auto simp: mem_pop_def live_def split: option.split)

lemma mem_delete_live: "live t' k' (mem_delete k s) = (if k' = k then None else live t' k' s)"
  by (simp add: mem_delete_def live_def)

lemma mem_set_live: "live t' k' (mem_set t k v ttl s) =
    (if k' = k then (if t' < t + ttl then Some v else None) else live t' k' s)"
  by (simp add: session_store.lookup_store)

text \<open>
  What is stored under a key, live or not, comes from an earlier write under that key: the
  operations never copy a value from one key to another.
\<close>

definition entries_ok :: "(string \<Rightarrow> time \<Rightarrow> dict \<Rightarrow> bool) \<Rightarrow> jstore \<Rightarrow> bool" where
  "entries_ok P s \<longleftrightarrow> (\<forall>k e v. s k = Some (e, v) \<longrightarrow> P k e v)"

lemma entries_ok_empty: "entries_ok P empty_jstore"
  by (simp add: entries_ok_def empty_jstore_def)

lemma entries_okD: "entries_ok P s \<Longrightarrow> s k = Some (e, v) \<Longrightarrow> P k e v"
  by (simp add: entries_ok_def)

lemma entries_ok_live: "entries_ok P s \<Longrightarrow> live t k s = Some v \<Longrightarrow> \<exists>e. t < e \<and> P k e v"
  by (auto simp: entries_ok_def live_def split: option.splits if_splits)

lemma entries_ok_ops:
  assumes "entries_ok P s"
  shows "entries_ok P (snd (mem_get t k s))" and "entries_ok P (snd (mem_pop t k s))"
    and "entries_ok P (mem_delete k s)" and "P k (t + ttl) v \<Longrightarrow> entries_ok P (mem_set t k v ttl s)"
    and "(\<And>e v. P k e v \<Longrightarrow> P k (t + ttl) v) \<Longrightarrow> entries_ok P (snd (mem_touch t k ttl s))"
    and "(\<And>e v0. P k e v0 \<Longrightarrow> P k (t + ttl) v) \<Longrightarrow> entries_ok P (snd (mem_replace t k v ttl s))"
  using assms
  by (auto simp: entries_ok_def mem_get_def mem_pop_def mem_delete_def mem_set_def mem_touch_def
      mem_replace_def split: option.splits if_splits) blast+

end
