(* ===== verification/Auth_Settings.thy ===== *)
theory Auth_Settings
  imports Prelude Lexicon
begin

text \<open>
  The configuration of authentication (backend/config/auth.py) as a function of the environment
  of the process.  A malformed integer makes \<open>from_env\<close> raise.
\<close>

type_synonym environ = "string \<Rightarrow> string option"

definition getenv :: "environ \<Rightarrow> string \<Rightarrow> string \<Rightarrow> string" where
  "getenv env k d = (case env k of None \<Rightarrow> d | Some v \<Rightarrow> v)"

definition env_bool :: "environ \<Rightarrow> string \<Rightarrow> bool \<Rightarrow> bool" where
  "env_bool env k d =
     (case env k of
        None \<Rightarrow> d
      | Some v \<Rightarrow> ascii_lower (py_strip v) \<in> {''1'', ''true'', ''yes'', ''on''})"

definition env_int :: "environ \<Rightarrow> string \<Rightarrow> int \<Rightarrow> string + int" where
  "env_int env k d =
     (case env k of
        None \<Rightarrow> Inr d
      | Some v \<Rightarrow> if v = [] then Inr d
                 else (case py_int_str v of None \<Rightarrow> Inl k | Some i \<Rightarrow> Inr i))"

record auth_settings =
  st_enabled :: bool
  st_allow_insecure_dev_context :: bool
  st_user_center_base_url :: string
  st_sso_login_url :: string
  st_user_center_portal_url :: string
  st_client_id :: string
  st_client_secret :: string
  st_redirect_uri :: string
  st_frontend_url :: string
  st_scope :: string
  st_session_cookie_name :: string
  st_portal_token_cookie_name :: string
  st_portal_cookie_login_enabled :: bool
  st_session_ttl_seconds :: int
  st_state_ttl_seconds :: int
  st_bearer_cache_ttl_seconds :: int
  st_audit_ttl_seconds :: int
  st_audit_max_items :: int
  st_cookie_secure :: bool
  st_cookie_samesite :: string
  st_cookie_path :: string
  st_redis_url :: string
  st_session_backend :: string
  st_dev_user_id :: string
  st_dev_username :: string
  st_dev_nickname :: string
  st_initial_admin_user_ids :: "string list"
  st_bootstrap_first_admin :: bool
  st_dev_first_user_admin :: bool

definition DEV_ENVS :: "string set" where
  "DEV_ENVS = {''dev'', ''development'', ''local'', ''test''}"

definition app_env :: "environ \<Rightarrow> string" where
  "app_env env = ascii_lower (py_strip (getenv env ''APP_ENV'' ''prod''))"

definition redis_url_of :: "environ \<Rightarrow> string" where
  "redis_url_of env =
     (let url = opt_str (env ''REDIS_URL'') in
      if url \<noteq> [] then url
      else
        let pw = getenv env ''REDIS_PASSWORD'' [];
            credentials = (if pw \<noteq> [] then '':'' @ pw @ ''@'' else [])
        in ''redis://'' @ credentials @ getenv env ''REDIS_HOST'' ''127.0.0.1'' @ '':'' @
             getenv env ''REDIS_PORT'' ''6379'' @ ''/'' @ getenv env ''REDIS_DATABASE'' ''0'')"

definition comma_items :: "string \<Rightarrow> string list" where
  \<comment> \<open>\<open>item.strip() for item in s.split(",") if item.strip()\<close>\<close>
  "comma_items s = filter (\<lambda>x. x \<noteq> []) (map py_strip (py_split CHR '','' s))"

definition settings_from_env :: "environ \<Rightarrow> string + auth_settings" where
  "settings_from_env env =
     rbind (env_int env ''AUTH_SESSION_TTL_SECONDS'' (30 * 60)) (\<lambda>session_ttl.
     rbind (env_int env ''AUTH_STATE_TTL_SECONDS'' 300) (\<lambda>state_ttl.
     rbind (env_int env ''AUTH_BEARER_CACHE_TTL_SECONDS'' 60) (\<lambda>bearer_ttl.
     rbind (env_int env ''AUTH_AUDIT_TTL_SECONDS'' (90 * 24 * 3600)) (\<lambda>audit_ttl.
     rbind (env_int env ''AUTH_AUDIT_MAX_ITEMS'' 200) (\<lambda>audit_max.
     let samesite = ascii_lower (getenv env ''AUTH_COOKIE_SAMESITE'' ''lax'') in
     Inr \<lparr>st_enabled = env_bool env ''AUTH_ENABLED'' True,
       st_allow_insecure_dev_context =
         (app_env env \<in> DEV_ENVS \<and> env_bool env ''AUTH_ALLOW_INSECURE_DEV_CONTEXT'' False),
       st_user_center_base_url = rstrip_slash (getenv env ''USER_CENTER_OAUTH_BASE_URL''
         ''https://edu.itic-sci.com/uc/admin-api/system/oauth2''),
       st_sso_login_url = getenv env ''USER_CENTER_SSO_LOGIN_URL''
         ''https://edu.itic-sci.com/uc/sso/login'',
       st_user_center_portal_url = getenv env ''USER_CENTER_ACCOUNT_URL''
         ''https://edu.itic-sci.com/uc/admin/login?redirect=/index'',
       st_client_id = getenv env ''USER_CENTER_CLIENT_ID'' [],
       st_client_secret = getenv env ''USER_CENTER_CLIENT_SECRET'' [],
       st_redirect_uri = getenv env ''USER_CENTER_REDIRECT_URI''
         ''http://127.0.0.1:8000/api/v1/auth/callback'',
       st_frontend_url = getenv env ''AUTH_FRONTEND_URL'' ''http://127.0.0.1:5173'',
       st_scope = py_strip (getenv env ''USER_CENTER_SCOPE'' []),
       st_session_cookie_name = getenv env ''AUTH_SESSION_COOKIE'' ''techkg_session'',
       st_portal_token_cookie_name = getenv env ''USER_CENTER_PORTAL_TOKEN_COOKIE''
         ''portal_access_token'',
       st_portal_cookie_login_enabled = env_bool env ''USER_CENTER_PORTAL_COOKIE_LOGIN_ENABLED'' False,
       st_session_ttl_seconds = session_ttl,
       st_state_ttl_seconds = state_ttl,
       st_bearer_cache_ttl_seconds = bearer_ttl,
       st_audit_ttl_seconds = audit_ttl,
       st_audit_max_items = audit_max,
       st_cookie_secure = env_bool env ''AUTH_COOKIE_SECURE'' False,
       st_cookie_samesite = (if samesite \<in> {''lax'', ''strict'', ''none''} then samesite else ''lax''),
       st_cookie_path = getenv env ''AUTH_COOKIE_PATH'' ''/'',
       st_redis_url = redis_url_of env,
       st_session_backend = ascii_lower (getenv env ''AUTH_SESSION_BACKEND'' ''redis''),
       st_dev_user_id = getenv env ''AUTH_DEV_USER_ID'' ''local-dev'',
       st_dev_username = getenv env ''AUTH_DEV_USERNAME'' ''local-dev'',
       st_dev_nickname = getenv env ''AUTH_DEV_NICKNAME'' zh_dev_user,
       st_initial_admin_user_ids = comma_items (getenv env ''PLATFORM_INITIAL_ADMIN_USER_IDS'' []),
       st_bootstrap_first_admin = env_bool env ''PLATFORM_BOOTSTRAP_FIRST_ADMIN''
         (env_bool env ''PLATFORM_BOOTSTRAP_EXISTING_USERS_ADMIN'' False),
       st_dev_first_user_admin =
         (app_env env \<in> DEV_ENVS \<and> env_bool env ''PLATFORM_DEV_FIRST_USER_ADMIN'' False)\<rparr>)))))"

definition oauth_credentials :: "auth_settings \<Rightarrow> bool" where
  "oauth_credentials st \<longleftrightarrow> st_client_id st \<noteq> [] \<and> st_client_secret st \<noteq> []"

lemma settings_dev:
  assumes "settings_from_env env = Inr st"
  shows "st_allow_insecure_dev_context st \<Longrightarrow> app_env env \<in> DEV_ENVS"
    and "st_dev_first_user_admin st \<Longrightarrow> app_env env \<in> DEV_ENVS"
    and "st_enabled st \<longleftrightarrow> env_bool env ''AUTH_ENABLED'' True"
  using assms by (auto simp: settings_from_env_def Let_def elim!: rbindE)

end
