(* ===== verification/Result_Cache.thy ===== *)
theory Result_Cache
  imports Ttl_Store "HOL-Library.Multiset" "HOL-Library.Product_Lexorder"
begin

text \<open>
  The response cache of the HTTP interface: backend/infra/result\_cache.py (a dictionary from keys
  to expiry and body) and the keys of backend/biz/handler/get\_cache.py (a prefix and the sorted,
  percent-encoded query parameters).
\<close>

section \<open>The store\<close>

type_synonym cache = "string \<Rightarrow> (time \<times> string) option"

definition empty_cache :: cache where
  "empty_cache = (\<lambda>k. None)"

definition get_cached_json :: "time \<Rightarrow> string \<Rightarrow> cache \<Rightarrow> string option" where
  "get_cached_json t k c = (case c k of
     None \<Rightarrow> None | Some (e, body) \<Rightarrow> if e > t then Some body else None)"

definition set_cached_json :: "time \<Rightarrow> int \<Rightarrow> string \<Rightarrow> string \<Rightarrow> cache \<Rightarrow> cache" where
  "set_cached_json t ttl k body c = c(k \<mapsto> (t + ttl, body))"

definition before_q :: "string \<Rightarrow> string" where
  \<comment> \<open>\<open>k.split("?", 1)[0]\<close>\<close>
  "before_q k = takeWhile (\<lambda>c. c \<noteq> CHR ''?'') k"

definition drop_keys :: "(string \<Rightarrow> bool) \<Rightarrow> cache \<Rightarrow> cache" where
  "drop_keys P c = (\<lambda>k. if P k then None else c k)"

definition discard_prefix :: "string \<Rightarrow> cache \<Rightarrow> cache" where
  "discard_prefix p c = drop_keys (\<lambda>k. before_q k = p) c"

interpretation response_cache: ttl_store get_cached_json set_cached_json drop_keys
  by unfold_locales
    (auto simp: get_cached_json_def set_cached_json_def drop_keys_def split: option.splits if_splits)

section \<open>Query strings\<close>

definition is_safe :: "char \<Rightarrow> bool" where
  \<comment> \<open>the bytes that \<open>quote_plus\<close> leaves as they are\<close>
  "is_safe c = (let n = of_char c :: nat in
     48 \<le> n \<and> n \<le> 57 \<or> 65 \<le> n \<and> n \<le> 90 \<or> 97 \<le> n \<and> n \<le> 122 \<or>
     c = CHR ''_'' \<or> c = CHR ''.'' \<or> c = CHR ''-'' \<or> c = CHR ''~'')"

definition hex_upper :: "nat \<Rightarrow> char" where
  "hex_upper n = (if n < 10 then char_of (48 + n) else char_of (55 + n))"

definition quote_char :: "char \<Rightarrow> string" where
  "quote_char c =
     (if c = CHR '' '' then [CHR ''+'']
      else if is_safe c then [c]
      else [CHR ''%'', hex_upper (of_char c div 16), hex_upper (of_char c mod 16)])"

definition quote_plus :: "string \<Rightarrow> string" where
  "quote_plus s = concat (map quote_char s)"

definition urlencode :: "(string \<times> string) list \<Rightarrow> string" where
  "urlencode items = py_join ''&'' (map (\<lambda>p. quote_plus (fst p) @ ''='' @ quote_plus (snd p)) items)"

definition cache_key :: "string \<Rightarrow> (string \<times> string) list \<Rightarrow> string" where
  \<comment> \<open>\<open>_key(prefix, request)\<close>; the second argument is \<open>request.query_params.multi_items()\<close>\<close>
  "cache_key p items =
     (let qs = urlencode (sort items) in if qs \<noteq> [] then p @ ''?'' @ qs else p)"

section \<open>Reading a query string back\<close>

definition hex_val :: "char \<Rightarrow> nat" where
  "hex_val c = (let n = of_char c :: nat in if n < 65 then n - 48 else n - 55)"

fun unquote_plus :: "string \<Rightarrow> string" where
  "unquote_plus [] = []"
| "unquote_plus (c # s) =
     (if c = CHR ''+'' then CHR '' '' # unquote_plus s
      else if c = CHR ''%'' then
        (case s of a # b # u \<Rightarrow> char_of (16 * hex_val a + hex_val b) # unquote_plus u
         | _ \<Rightarrow> c # unquote_plus s)
      else c # unquote_plus s)"

definition parse_pair :: "string \<Rightarrow> string \<times> string" where
  "parse_pair s = (unquote_plus (takeWhile (\<lambda>c. c \<noteq> CHR ''='') s),
     unquote_plus (drop 1 (dropWhile (\<lambda>c. c \<noteq> CHR ''='') s)))"

definition parse_query :: "string \<Rightarrow> (string \<times> string) list" where
  "parse_query s = (if s = [] then [] else map parse_pair (py_split CHR ''&'' s))"

lemma hex_val_upper: "n < 16 \<Longrightarrow> hex_val (hex_upper n) = n"
  by (auto simp: hex_val_def hex_upper_def Let_def of_char_of)

lemma char_div_16: "(of_char c :: nat) div 16 < 16"
proof -
  have "(of_char c :: nat) < 16 * 16" by simp
  then show ?thesis by (simp only: less_mult_imp_div_less)
qed

lemma unquote_quote_char: "unquote_plus (quote_char c @ s) = c # unquote_plus s"
proof -
  have "char_of (16 * (of_char c div 16) + (of_char c mod 16 :: nat)) = c" by simp
  moreover have "hex_val (hex_upper (of_char c div 16)) = of_char c div 16"
    "hex_val (hex_upper (of_char c mod 16)) = of_char c mod 16"
    by (simp_all add: hex_val_upper char_div_16)
  ultimately show ?thesis
    by (auto simp: quote_char_def is_safe_def Let_def)
qed

lemma unquote_quote: "unquote_plus (quote_plus s) = s"
  by (induction s) (simp_all add: quote_plus_def unquote_quote_char)

definition url_byte :: "char \<Rightarrow> bool" where
  "url_byte c \<longleftrightarrow> is_safe c \<or> c = CHR ''+'' \<or> c = CHR ''%''"

lemma hex_upper_safe: "n < 16 \<Longrightarrow> is_safe (hex_upper n)"
  by (auto simp: is_safe_def hex_upper_def Let_def of_char_of)

lemma quote_url_bytes: "c \<in> set (quote_plus s) \<Longrightarrow> url_byte c"
proof -
  have "url_byte x" if "x \<in> set (quote_char b)" for x b
  proof -
    have "is_safe (hex_upper (of_char b div 16))" "is_safe (hex_upper (of_char b mod 16))"
      by (simp_all add: hex_upper_safe char_div_16)
    with that show ?thesis by (auto simp: quote_char_def url_byte_def split: if_splits)
  qed
  then show "c \<in> set (quote_plus s) \<Longrightarrow> url_byte c" by (auto simp: quote_plus_def)
qed

lemma not_url_byte: "\<not> url_byte CHR ''&''" "\<not> url_byte CHR ''=''" "\<not> url_byte CHR ''?''"
  by (simp_all add: url_byte_def is_safe_def)

lemma parse_pair_encode: "parse_pair (quote_plus k @ ''='' @ quote_plus v) = (k, v)"
proof -
  have "\<forall>c \<in> set (quote_plus k). c \<noteq> CHR ''=''"
    using quote_url_bytes not_url_byte(2) by blast
  then have "takeWhile (\<lambda>c. c \<noteq> CHR ''='') (quote_plus k @ CHR ''='' # quote_plus v) = quote_plus k"
    "dropWhile (\<lambda>c. c \<noteq> CHR ''='') (quote_plus k @ CHR ''='' # quote_plus v) = CHR ''='' # quote_plus v"
    by (simp_all add: takeWhile_append dropWhile_append)
  then show ?thesis by (simp add: parse_pair_def unquote_quote)
qed

lemma urlencode_Nil_iff: "urlencode items = [] \<longleftrightarrow> items = []"
  by (cases items; cases "tl items") (auto simp: urlencode_def)

lemma parse_urlencode: "parse_query (urlencode items) = items"
proof (cases "items = []")
  case True
  then show ?thesis by (simp add: parse_query_def urlencode_def)
next
  case False
  let ?enc = "\<lambda>p. quote_plus (fst p) @ ''='' @ quote_plus (snd p)"
  have "CHR ''&'' \<notin> set (?enc p)" for p
    using quote_url_bytes [of "CHR ''&''"] not_url_byte by auto
  then have "py_split CHR ''&'' (urlencode items) = map ?enc items"
    unfolding urlencode_def by (intro py_split_join) (use False in auto)
  moreover have "map parse_pair (map ?enc items) = items"
    by (induction items) (simp_all only: list.map parse_pair_encode prod.collapse)
  ultimately show ?thesis using False by (simp add: parse_query_def urlencode_Nil_iff)
qed

lemma before_q_key: "CHR ''?'' \<notin> set p \<Longrightarrow> before_q (cache_key p items) = p"
proof -
  assume "CHR ''?'' \<notin> set p"
  then have "takeWhile (\<lambda>c. c \<noteq> CHR ''?'') (p @ CHR ''?'' # s) = p" "takeWhile (\<lambda>c. c \<noteq> CHR ''?'') p = p" for s
    by (induction p) auto
  then show ?thesis by (simp add: before_q_def cache_key_def Let_def)
qed

lemma cache_key_eq_iff:
  assumes "CHR ''?'' \<notin> set p" and "CHR ''?'' \<notin> set p'"
  shows "cache_key p items = cache_key p' items' \<longleftrightarrow> p = p' \<and> mset items = mset items'"
proof
  assume eq: "cache_key p items = cache_key p' items'"
  have p: "p = p'" using before_q_key [OF assms(1)] before_q_key [OF assms(2)] eq by metis
  have "urlencode (sort items) = urlencode (sort items')"
    using eq p urlencode_Nil_iff by (auto simp: cache_key_def Let_def split: if_splits)
  then have "sort items = sort items'" by (metis parse_urlencode)
  with p show "p = p' \<and> mset items = mset items'" by (metis mset_sort)
next
  assume "p = p' \<and> mset items = mset items'"
  moreover from this have "sort items = sort items'" by (metis properties_for_sort mset_sort sorted_sort)
  ultimately show "cache_key p items = cache_key p' items'" by (simp add: cache_key_def)
qed

section \<open>Properties\<close>

text \<open>
  the keys of the response cache separate requests exactly.  Two requests share an entry
  precisely when they are for the same listing and carry the same query parameters, counted with
  repetitions and in whatever order; who asks is not part of the key.
\<close>

theorem cache_key_exact:
  assumes "CHR ''?'' \<notin> set p" and "CHR ''?'' \<notin> set p'"
  shows "(cache_key p items = cache_key p' items' \<longleftrightarrow> p = p' \<and> mset items = mset items') \<and>
    before_q (cache_key p items) = p"
  using cache_key_eq_iff [OF assms] before_q_key [OF assms(1)] by blast

theorem cache_key_exact_witness:
  "cache_key ''correction:list'' [(''a b'', ''1&2''), (''c'', ''='')] =
     cache_key ''correction:list'' [(''c'', ''=''), (''a b'', ''1&2'')]"
  using cache_key_exact [of "''correction:list''" "''correction:list''"
      "[(''a b'', ''1&2''), (''c'', ''='')]" "[(''c'', ''=''), (''a b'', ''1&2'')]"] by simp

text \<open>
  The encoding of the query parameters loses nothing: reading the query string back gives the
  parameters, for every list of keys and values, with every byte.
\<close>

theorem urlencode_roundtrip: "parse_query (urlencode items) = items"
  by (rule parse_urlencode)

end
