(* ===== verification/Auth.thy ===== *)
theory Auth
  imports Calls Session_Store Auth_Settings Platform_Access Result_Cache
begin

text \<open>
  Signing in, sessions and bearer tokens (backend/service/auth.py).  A call reads and writes the
  session store and may raise; what it wrote before it raised stays written.  The unified user
  center, SHA-256, the fresh random tokens and the framework's validation of the user record are
  arguments.  All clocks of one call show the same time.  The task that refreshes a session is
  shared by the callers that wait for it; here it is the call itself.
\<close>

section \<open>Errors and the effect\<close>

datatype auth_error =
    AuthError nat string   \<comment> \<open>\<open>AuthenticationError\<close> with its HTTP status\<close>
  | Crash                  \<comment> \<open>any other exception\<close>

type_synonym 'a auth = "(auth_error, jstore, 'a) call"

section \<open>The user center\<close>

type_synonym uc_error = "nat \<times> string"

record token_answer =
  tk_access :: "string option"
  tk_refresh :: "string option"
  tk_expires_in :: "int option"

record user_center =
  uc_exchange :: "string \<Rightarrow> string \<Rightarrow> uc_error + token_answer"
  uc_refresh :: "string \<Rightarrow> uc_error + token_answer"
  uc_check :: "string \<Rightarrow> uc_error + int option"      \<comment> \<open>the \<open>exp\<close> of the token\<close>
  uc_permissions :: "string \<Rightarrow> uc_error + dict"
  uc_logout :: "string \<Rightarrow> uc_error + bool"

definition auth_of_uc :: "uc_error + 'a \<Rightarrow> auth_error + 'a" where
  \<comment> \<open>\<open>except UserCenterError as exc: raise AuthenticationError(str(exc), exc.status_code)\<close>\<close>
  "auth_of_uc r = (case r of Inl (n, msg) \<Rightarrow> Inl (AuthError n msg) | Inr x \<Rightarrow> Inr x)"

definition build_login_url :: "auth_settings \<Rightarrow> string \<Rightarrow> string + string" where
  "build_login_url st state =
     (if \<not> oauth_credentials st then Inl ''credentials''
      else let parameters =
             [(''response_type'', ''code''), (''client_id'', st_client_id st),
              (''redirect_uri'', st_redirect_uri st), (''state'', state)] @
             (if st_scope st \<noteq> [] then [(''scope'', st_scope st)] else []);
             separator = (if py_in ''?'' (st_sso_login_url st) then ''&'' else ''?'')
           in Inr (st_sso_login_url st @ separator @ urlencode parameters))"

section \<open>The context of a request\<close>

record auth_context =
  ax_access_token :: string
  ax_permission_info :: dict
  ax_expires_at :: "int option"
  ax_session_id :: "string option"
  ax_refresh_token :: string
  ax_token_source :: string

definition to_record :: "auth_context \<Rightarrow> dict" where
  "to_record c =
     [(''access_token'', JStr (ax_access_token c)), (''refresh_token'', JStr (ax_refresh_token c)),
      (''expires_at'', case ax_expires_at c of None \<Rightarrow> JNull | Some i \<Rightarrow> JInt i),
      (''permission_info'', JObj (ax_permission_info c)), (''token_source'', JStr (ax_token_source c))]"

definition from_record :: "dict \<Rightarrow> string \<Rightarrow> auth_context" where
  "from_record d sid =
     \<lparr>ax_access_token = py_str (dget_or d ''access_token'' (JStr [])),
      ax_permission_info = as_dict (dget d ''permission_info''),
      ax_expires_at = (case dget d ''expires_at'' of JInt i \<Rightarrow> Some i | _ \<Rightarrow> None),
      ax_session_id = Some sid,
      ax_refresh_token = py_str (dget_or d ''refresh_token'' (JStr [])),
      ax_token_source = py_str (json_or (dget d ''token_source'')
        (JStr (if truthy (dget d ''refresh_token'') then ''oauth'' else ''unknown'')))\<rparr>"

definition OVERVIEW_PATH :: string where
  "OVERVIEW_PATH = ''/overview''"

definition state_key :: "string \<Rightarrow> string" where
  "state_key x = ''techkg:auth:state:'' @ x"

definition session_key :: "string \<Rightarrow> string" where
  "session_key x = ''techkg:auth:session:'' @ x"

definition bearer_key :: "string \<Rightarrow> string" where
  "bearer_key x = ''techkg:auth:bearer:'' @ x"

definition audit_key_of :: "string \<Rightarrow> string" where
  "audit_key_of x = ''techkg:auth:audit:'' @ x"

section \<open>Sessions\<close>

definition touch_session :: "auth_settings \<Rightarrow> time \<Rightarrow> string \<Rightarrow> unit auth" where
  "touch_session st t sid =
     abind (acall (mem_touch t (session_key sid) (st_session_ttl_seconds st))) (\<lambda>exists.
       if exists then aret () else araise (AuthError 401 ''login-expired''))"

definition save_session :: "auth_settings \<Rightarrow> time \<Rightarrow> auth_context \<Rightarrow> bool \<Rightarrow> unit auth" where
  "save_session st t c existing =
     (let sid = opt_str (ax_session_id c) in
      if sid = [] then araise Crash
      else if existing then
        abind (acall (mem_replace t (session_key sid) (to_record c) (st_session_ttl_seconds st)))
          (\<lambda>exists. if exists then aret () else araise (AuthError 401 ''login-expired''))
      else awrite (mem_set t (session_key sid) (to_record c) (st_session_ttl_seconds st)))"

definition delete_session :: "string \<Rightarrow> unit auth" where
  "delete_session sid = awrite (mem_delete (session_key sid))"

definition context_from_token :: "user_center \<Rightarrow> time \<Rightarrow> token_answer \<Rightarrow> auth_error + auth_context" where
  "context_from_token uc t tok =
     (let access = opt_str (tk_access tok) in
      if access = [] then Inl (AuthError 502 ''no-access-token'')
      else rbind (auth_of_uc (uc_permissions uc access)) (\<lambda>info.
        let expires_in = max 1 (case tk_expires_in tok of
              None \<Rightarrow> 3600 | Some i \<Rightarrow> if i = 0 then 3600 else i)
        in Inr \<lparr>ax_access_token = access, ax_permission_info = info,
                ax_expires_at = Some (t + expires_in), ax_session_id = None,
                ax_refresh_token = opt_str (tk_refresh tok), ax_token_source = ''oauth''\<rparr>))"

definition safe_next :: "string \<Rightarrow> string" where
  \<comment> \<open>\<open>if not next.startswith("/") or next.startswith("//")\<close>\<close>
  "safe_next p = (if prefix ''/'' p \<and> \<not> prefix ''//'' p then p else OVERVIEW_PATH)"

definition create_login_url ::
  "auth_settings \<Rightarrow> time \<Rightarrow> string \<Rightarrow> string \<Rightarrow> (string \<times> int \<times> string) auth" where
  \<comment> \<open>the last argument is the fresh \<open>state\<close>\<close>
  "create_login_url st t next_path state =
     (case build_login_url st state of
        Inl e \<Rightarrow> araise (AuthError 503 e)
      | Inr url \<Rightarrow>
          abind (awrite (mem_set t (state_key state) [(''next'', JStr (safe_next next_path))]
                   (st_state_ttl_seconds st)))
            (\<lambda>u. aret (url, st_state_ttl_seconds st, state)))"

definition complete_login ::
  "auth_settings \<Rightarrow> user_center \<Rightarrow> time \<Rightarrow> string \<Rightarrow> string \<Rightarrow> string \<Rightarrow> (auth_context \<times> string) auth" where
  "complete_login st uc t code state sid =
     abind (acall (mem_pop t (state_key state))) (\<lambda>data.
       case data of
         None \<Rightarrow> araise (AuthError 400 ''state'')
       | Some d \<Rightarrow>
           abind (alift (rbind (auth_of_uc (uc_exchange uc code state)) (context_from_token uc t))) (\<lambda>c0.
             let c = c0\<lparr>ax_session_id := Some sid\<rparr> in
             abind (save_session st t c False) (\<lambda>u.
               aret (c, py_str (json_or (dget d ''next'') (JStr OVERVIEW_PATH))))))"

definition refresh_by_token ::
  "auth_settings \<Rightarrow> user_center \<Rightarrow> time \<Rightarrow> string \<Rightarrow> auth_context \<Rightarrow> auth_context auth" where
  \<comment> \<open>the branch of \<open>_refresh_session\<close> for a session that has a refresh token\<close>
  "refresh_by_token st uc t sid current =
     (case uc_refresh uc (ax_refresh_token current) of
        Inl (n, msg) \<Rightarrow>
          abind (if n = 401 then delete_session sid else aret ()) (\<lambda>u. araise (AuthError n msg))
      | Inr tok0 \<Rightarrow>
          let tok = (if opt_str (tk_refresh tok0) = [] then tok0\<lparr>tk_refresh := Some (ax_refresh_token current)\<rparr>
                     else tok0)
          in abind (alift (context_from_token uc t tok)) (\<lambda>c0.
               let c = c0\<lparr>ax_session_id := Some sid\<rparr> in
               abind (save_session st t c True) (\<lambda>u. aret c)))"

definition refresh_by_check ::
  "auth_settings \<Rightarrow> user_center \<Rightarrow> time \<Rightarrow> string \<Rightarrow> auth_context \<Rightarrow> auth_context auth" where
  \<comment> \<open>the branch for a session without one, made from a token of the portal\<close>
  "refresh_by_check st uc t sid current =
     (case rbind (uc_check uc (ax_access_token current)) (\<lambda>exp.
             rbind (uc_permissions uc (ax_access_token current)) (\<lambda>info. Inr (exp, info))) of
        Inl (n, msg) \<Rightarrow>
          abind (if n = 401 then delete_session sid else aret ()) (\<lambda>u. araise (AuthError n msg))
      | Inr (exp, info) \<Rightarrow>
          (case exp of
             None \<Rightarrow> araise (AuthError 502 ''no-expiry'')
           | Some e \<Rightarrow>
               if e \<le> t then abind (delete_session sid) (\<lambda>u. araise (AuthError 401 ''token-expired''))
               else let c = \<lparr>ax_access_token = ax_access_token current, ax_permission_info = info,
                             ax_expires_at = Some e, ax_session_id = Some sid, ax_refresh_token = [],
                             ax_token_source = ax_token_source current\<rparr>
                    in abind (save_session st t c True) (\<lambda>u. aret c)))"

definition refresh_session ::
  "auth_settings \<Rightarrow> user_center \<Rightarrow> time \<Rightarrow> string \<Rightarrow> auth_context option \<Rightarrow> auth_context auth" where
  "refresh_session st uc t sid previous =
     abind (acall (mem_get t (session_key sid))) (\<lambda>r.
       case r of
         None \<Rightarrow> araise (AuthError 401 ''login-expired'')
       | Some d \<Rightarrow>
           let current = from_record d sid in
           if (case previous of None \<Rightarrow> False | Some p \<Rightarrow> ax_access_token current \<noteq> ax_access_token p)
           then abind (touch_session st t sid) (\<lambda>u. aret current)
           else if ax_refresh_token current = [] then refresh_by_check st uc t sid current
           else refresh_by_token st uc t sid current)"

definition get_session :: "auth_settings \<Rightarrow> user_center \<Rightarrow> time \<Rightarrow> string \<Rightarrow> auth_context auth" where
  "get_session st uc t sid =
     abind (acall (mem_get t (session_key sid))) (\<lambda>r.
       case r of
         None \<Rightarrow> araise (AuthError 401 ''login-expired'')
       | Some d \<Rightarrow>
           let c = from_record d sid in
           if (case ax_expires_at c of None \<Rightarrow> False | Some e \<Rightarrow> e \<le> t + 30)
           then refresh_session st uc t sid (Some c)
           else abind (touch_session st t sid) (\<lambda>u. aret c))"

section \<open>Bearer tokens\<close>

definition positive_exp :: "int option \<Rightarrow> int option" where
  \<comment> \<open>\<open>int(checked.get("exp")) if checked.get("exp") else None\<close>\<close>
  "positive_exp ex = (case ex of None \<Rightarrow> None | Some e \<Rightarrow> if e = 0 then None else Some e)"

definition expired :: "time \<Rightarrow> int option \<Rightarrow> bool" where
  "expired t ex = (case ex of None \<Rightarrow> False | Some e \<Rightarrow> e \<le> t)"

definition checked_context :: "string \<Rightarrow> string \<Rightarrow> int option \<Rightarrow> dict \<Rightarrow> auth_context" where
  "checked_context tok source ex info =
     \<lparr>ax_access_token = tok, ax_permission_info = info, ax_expires_at = ex, ax_session_id = None,
      ax_refresh_token = [], ax_token_source = source\<rparr>"

definition check_and_permissions :: "user_center \<Rightarrow> string \<Rightarrow> uc_error + (int option \<times> dict)" where
  "check_and_permissions uc tok =
     rbind (uc_check uc tok) (\<lambda>exp. rbind (uc_permissions uc tok) (\<lambda>info. Inr (exp, info)))"

definition bearer_ttl :: "auth_settings \<Rightarrow> time \<Rightarrow> int option \<Rightarrow> int" where
  "bearer_ttl st t ex =
     (case ex of None \<Rightarrow> st_bearer_cache_ttl_seconds st
      | Some e \<Rightarrow> max 1 (min (st_bearer_cache_ttl_seconds st) (e - t)))"

definition fetch_bearer ::
  "auth_settings \<Rightarrow> (string \<Rightarrow> string) \<Rightarrow> user_center \<Rightarrow> time \<Rightarrow> string \<Rightarrow> auth_context auth" where
  \<comment> \<open>\<open>resolve_bearer\<close> after a miss of the cache\<close>
  "fetch_bearer st sha uc t tok =
     abind (alift (auth_of_uc (check_and_permissions uc tok))) (\<lambda>(exp, info).
       let ex = positive_exp exp; c = checked_context tok ''bearer'' ex info in
       if expired t ex then araise (AuthError 401 ''token-expired'')
       else abind (awrite (mem_set t (bearer_key (sha tok)) (to_record c) (bearer_ttl st t ex)))
              (\<lambda>u. aret c))"

definition resolve_bearer ::
  "auth_settings \<Rightarrow> (string \<Rightarrow> string) \<Rightarrow> user_center \<Rightarrow> time \<Rightarrow> string \<Rightarrow> auth_context auth" where
  "resolve_bearer st sha uc t tok =
     abind (acall (mem_get t (bearer_key (sha tok)))) (\<lambda>cached.
       case cached of
         Some d \<Rightarrow> aret ((from_record d [])\<lparr>ax_token_source := ''bearer''\<rparr>)
       | None \<Rightarrow> fetch_bearer st sha uc t tok)"

definition create_session_from_access_token ::
  "auth_settings \<Rightarrow> user_center \<Rightarrow> time \<Rightarrow> string \<Rightarrow> string \<Rightarrow> auth_context auth" where
  "create_session_from_access_token st uc t tok sid =
     abind (alift (auth_of_uc (check_and_permissions uc tok))) (\<lambda>(exp, info).
       case positive_exp exp of
         None \<Rightarrow> araise (AuthError 502 ''no-expiry'')
       | Some e \<Rightarrow>
           if e \<le> t then araise (AuthError 401 ''token-expired'')
           else let c = (checked_context tok ''portal'' (Some e) info)\<lparr>ax_session_id := Some sid\<rparr>
                in abind (save_session st t c False) (\<lambda>u. aret c))"

section \<open>Signing out\<close>

definition logout ::
  "auth_settings \<Rightarrow> (string \<Rightarrow> string) \<Rightarrow> user_center \<Rightarrow> auth_context \<Rightarrow> bool auth" where
  "logout st sha uc c =
     abind (if opt_str (ax_session_id c) \<noteq> [] then delete_session (opt_str (ax_session_id c)) else aret ()) (\<lambda>u.
       let revoked =
         (if ax_access_token c \<noteq> [] \<and> st_enabled st \<and> ax_token_source c \<in> {''oauth'', ''bearer''}
          then (case uc_logout uc (ax_access_token c) of Inl e \<Rightarrow> False | Inr b \<Rightarrow> b)
          else False)
       in if revoked then abind (awrite (mem_delete (bearer_key (sha (ax_access_token c))))) (\<lambda>u. aret True)
          else aret False)"

definition logout_session ::
  "auth_settings \<Rightarrow> (string \<Rightarrow> string) \<Rightarrow> user_center \<Rightarrow> time \<Rightarrow> string \<Rightarrow>
   (auth_context option \<times> bool) auth" where
  "logout_session st sha uc t sid =
     abind (acall (mem_pop t (session_key sid))) (\<lambda>r.
       case r of
         None \<Rightarrow> aret (None, False)
       | Some d \<Rightarrow>
           let c = from_record d sid in
           abind (logout st sha uc c) (\<lambda>b. aret (Some c, b)))"

end
