(* ===== verification/Auth_Profile.thy ===== *)
theory Auth_Profile
  imports Auth
begin

text \<open>
  What is read from the permission information of a user, the trail of his operations, and the
  application layer that turns a context into a platform actor (backend/service/auth.py,
  backend/application/auth.py).  The framework's validation of the user record is an argument;
  roles, menus and organisations are only passed through to the frontend and are left out.
\<close>

section \<open>Profile\<close>

record full_user = user_profile +
  fu_mobile :: string
  fu_status :: int

type_synonym validate_user = "dict \<Rightarrow> full_user option"

record auth_profile =
  pf_user :: full_user
  pf_permissions :: "string list"
  pf_expires_at :: "int option"
  pf_auth_enabled :: bool

definition as_list :: "json \<Rightarrow> json list" where
  "as_list v = (case v of JList xs \<Rightarrow> xs | _ \<Rightarrow> [])"

definition permissions_of :: "dict \<Rightarrow> string list" where
  \<comment> \<open>\<open>sorted({str(item) for item in (permission_set.get("permissions") or [])})\<close>\<close>
  "permissions_of info =
     sort (remdups (map py_str (as_list (dget (as_dict (dget info ''allPermissions'')) ''permissions''))))"

definition profile :: "auth_settings \<Rightarrow> validate_user \<Rightarrow> auth_context \<Rightarrow> auth_error + auth_profile" where
  "profile st valid c =
     (let info = ax_permission_info c; raw_user = as_dict (dget info ''userInfo'') in
      if raw_user = [] then Inl (AuthError 401 ''no-user'')
      else (case valid raw_user of
              None \<Rightarrow> Inl Crash
            | Some u \<Rightarrow> Inr \<lparr>pf_user = u, pf_permissions = permissions_of info,
                             pf_expires_at = ax_expires_at c, pf_auth_enabled = st_enabled st\<rparr>))"

definition dev_context :: "auth_settings \<Rightarrow> auth_context" where
  "dev_context st =
     (let empty = JObj [(''roles'', JList []), (''permissions'', JList []), (''menus'', JList [])] in
      \<lparr>ax_access_token = [],
       ax_permission_info =
         [(''userInfo'', JObj [(''id'', JStr (st_dev_user_id st)), (''username'', JStr (st_dev_username st)),
             (''nickname'', JStr (st_dev_nickname st)), (''userType'', JInt 1)]),
          (''allPermissions'', JObj
             [(''roles'', JList [JObj [(''id'', JStr ''local-admin''), (''name'', JStr zh_local_admin),
                (''code'', JStr ''local_admin''), (''type'', JInt 1)]]),
              (''permissions'', JList [JStr ''*'']), (''menus'', JList [])]),
          (''appPermissions'', empty), (''orgPermissions'', empty),
          (''roleMenuList'', JList []), (''orgs'', JList [])],
       ax_expires_at = None, ax_session_id = None, ax_refresh_token = [], ax_token_source = ''unknown''\<rparr>)"

record account_security_data =
  ay_active :: bool               \<comment> \<open>the text of \<open>account_status\<close>\<close>
  ay_email_bound :: bool
  ay_mobile_bound :: bool
  ay_session_backend :: string
  ay_expires_at :: "int option"
  ay_remaining_seconds :: "int option"
  ay_secure_cookie :: bool
  ay_recommendations :: "string list"

definition account_security ::
  "auth_settings \<Rightarrow> validate_user \<Rightarrow> time \<Rightarrow> auth_context \<Rightarrow> auth_error + account_security_data" where
  "account_security st valid t c =
     rbind (profile st valid c) (\<lambda>p.
       let u = pf_user p;
           r = (if up_email u = [] then [''bind-email''] else []) @
               (if fu_mobile u = [] then [''bind-mobile''] else [])
       in Inr \<lparr>ay_active = (fu_status u = 0), ay_email_bound = (up_email u \<noteq> []),
          ay_mobile_bound = (fu_mobile u \<noteq> []), ay_session_backend = st_session_backend st,
          ay_expires_at = ax_expires_at c,
          ay_remaining_seconds = map_option (\<lambda>e. max 0 (e - t)) (ax_expires_at c),
          ay_secure_cookie = st_cookie_secure st,
          ay_recommendations = (if r = [] then [''change-password''] else r)\<rparr>)"

section \<open>The trail of operations\<close>

record operation_item =
  oi_id :: string
  oi_action :: string
  oi_category :: string
  oi_result :: string
  oi_detail :: string
  oi_ip_address :: string
  oi_user_agent :: string
  oi_occurred_at :: string

definition dump_item :: "operation_item \<Rightarrow> dict" where
  \<comment> \<open>\<open>model_dump(by_alias=True)\<close>\<close>
  "dump_item x =
     [(''id'', JStr (oi_id x)), (''action'', JStr (oi_action x)), (''category'', JStr (oi_category x)),
      (''result'', JStr (oi_result x)), (''detail'', JStr (oi_detail x)),
      (''ipAddress'', JStr (oi_ip_address x)), (''userAgent'', JStr (oi_user_agent x)),
      (''occurredAt'', JStr (oi_occurred_at x))]"

definition str_field :: "dict \<Rightarrow> string \<Rightarrow> string option \<Rightarrow> string option" where
  "str_field d k dflt =
     (case map_of d k of None \<Rightarrow> dflt | Some (JStr s) \<Rightarrow> Some s | Some _ \<Rightarrow> None)"

definition read_item :: "dict \<Rightarrow> operation_item option" where
  \<comment> \<open>\<open>OperationLogItem.model_validate\<close>\<close>
  "read_item d =
     (case (str_field d ''id'' None, str_field d ''action'' None, str_field d ''category'' None,
            str_field d ''result'' None, str_field d ''detail'' (Some []), str_field d ''ipAddress'' (Some []),
            str_field d ''userAgent'' (Some []), str_field d ''occurredAt'' None) of
        (Some i, Some a, Some c, Some r, Some de, Some ip, Some ua, Some oc) \<Rightarrow>
          Some \<lparr>oi_id = i, oi_action = a, oi_category = c, oi_result = r, oi_detail = de,
                oi_ip_address = ip, oi_user_agent = ua, oi_occurred_at = oc\<rparr>
      | _ \<Rightarrow> None)"

definition audit_key ::
  "auth_settings \<Rightarrow> validate_user \<Rightarrow> (string \<Rightarrow> string) \<Rightarrow> auth_context \<Rightarrow> auth_error + string" where
  "audit_key st valid sha c =
     rbind (profile st valid c) (\<lambda>p. Inr (audit_key_of (sha (up_id (pf_user p)))))"

definition payload_items :: "dict option \<Rightarrow> json list" where
  "payload_items r = as_list (dget (case r of None \<Rightarrow> [] | Some d \<Rightarrow> d) ''items'')"

record operation_note =
  on_action :: string
  on_category :: string
  on_detail :: string
  on_result :: string
  on_ip_address :: string
  on_user_agent :: string

definition record_operation ::
  "auth_settings \<Rightarrow> validate_user \<Rightarrow> (string \<Rightarrow> string) \<Rightarrow> time \<Rightarrow> string \<Rightarrow> string \<Rightarrow> auth_context \<Rightarrow>
   operation_note \<Rightarrow> jstore \<Rightarrow> jstore" where
  \<comment> \<open>the strings are the fresh id and the ISO form of the time; every exception is swallowed\<close>
  "record_operation st valid sha t fresh now_iso c n s =
     (case audit_key st valid sha c of
        Inl e \<Rightarrow> s
      | Inr key \<Rightarrow>
          (case mem_get t key s of (r, s1) \<Rightarrow>
             let item = JObj (dump_item
                   \<lparr>oi_id = fresh, oi_action = on_action n, oi_category = on_category n,
                    oi_result = on_result n, oi_detail = on_detail n,
                    oi_ip_address = py_take 64 (on_ip_address n),
                    oi_user_agent = py_take 240 (on_user_agent n), oi_occurred_at = now_iso\<rparr>);
                 items = item # payload_items r
             in mem_set t key [(''items'', JList (take (nat (max 1 (st_audit_max_items st))) items))]
                  (st_audit_ttl_seconds st) s1))"

definition dev_operation_logs :: "string \<Rightarrow> string \<Rightarrow> operation_item list" where
  \<comment> \<open>the arguments are the ISO forms of the time and of the time eight minutes before\<close>
  "dev_operation_logs now_iso iso8 =
     [\<lparr>oi_id = ''demo-login'', oi_action = zh_op_login, oi_category = zh_cat_login, oi_result = zh_success,
       oi_detail = zh_dev_login_detail, oi_ip_address = ''127.0.0.1'',
       oi_user_agent = ''Local development session'', oi_occurred_at = now_iso\<rparr>,
      \<lparr>oi_id = ''demo-permission'', oi_action = zh_op_sync, oi_category = zh_cat_account,
       oi_result = zh_success, oi_detail = zh_sync_detail, oi_ip_address = ''127.0.0.1'',
       oi_user_agent = ''Local development session'', oi_occurred_at = iso8\<rparr>]"

record log_query =
  lq_page :: int
  lq_page_size :: int
  lq_category :: "string option"
  lq_result :: "string option"
  lq_keyword :: "string option"

record log_page =
  lg_items :: "operation_item list"
  lg_total :: nat
  lg_page :: nat
  lg_page_size :: nat
  lg_mock :: bool

definition log_matches :: "log_query \<Rightarrow> operation_item \<Rightarrow> bool" where
  "log_matches q x \<longleftrightarrow>
     (opt_truthy (lq_category q) \<longrightarrow> Some (oi_category x) = lq_category q) \<and>
     (opt_truthy (lq_result q) \<longrightarrow> Some (oi_result x) = lq_result q) \<and>
     (let kw = ascii_lower (py_strip (opt_str (lq_keyword q))) in
      kw \<noteq> [] \<longrightarrow> py_in kw (ascii_lower (oi_action x @ '' '' @ oi_category x @ '' '' @ oi_detail x @ '' '' @
        oi_ip_address x)))"

fun read_items :: "json list \<Rightarrow> operation_item list option" where
  "read_items [] = Some []"
| "read_items (JObj d # xs) =
     (case read_item d of None \<Rightarrow> None | Some x \<Rightarrow> map_option (Cons x) (read_items xs))"
| "read_items (_ # xs) = read_items xs"

definition operation_logs ::
  "auth_settings \<Rightarrow> validate_user \<Rightarrow> (string \<Rightarrow> string) \<Rightarrow> time \<Rightarrow> operation_item list \<Rightarrow> auth_context \<Rightarrow>
   log_query \<Rightarrow> log_page auth" where
  \<comment> \<open>the list is \<open>_dev_operation_logs()\<close> at that time\<close>
  "operation_logs st valid sha t dev c q =
     abind (alift (audit_key st valid sha c)) (\<lambda>key.
     abind (acall (mem_get t key)) (\<lambda>r.
       case read_items (payload_items r) of
         None \<Rightarrow> araise Crash
       | Some items0 \<Rightarrow>
           let mock = (items0 = [] \<and> \<not> st_enabled st);
               items = filter (log_matches q) (if mock then dev else items0);
               page = nat (max 1 (lq_page q));
               size = nat (min (max 1 (lq_page_size q)) 100)
           in aret \<lparr>lg_items = take size (drop ((page - 1) * size) items), lg_total = length items,
                    lg_page = page, lg_page_size = size, lg_mock = mock\<rparr>))"

section \<open>The application layer\<close>

definition platform_actor_of ::
  "auth_settings \<Rightarrow> db_fault \<Rightarrow> time \<Rightarrow> string \<Rightarrow> auth_profile \<Rightarrow> string option \<times> access_state \<Rightarrow>
   platform_actor \<times> (string option \<times> access_state)" where
  \<comment> \<open>\<open>_platform_actor_for_profile\<close>; the option is \<open>_dev_admin_user_id\<close> of the process\<close>
  "platform_actor_of st fault t rid p w =
     (let uid = up_id (pf_user p);
          dev = (if st_dev_first_user_admin st \<and> fst w = None then Some uid else fst w)
      in case actor_from_profile (user_profile.truncate (pf_user p)) (st_initial_admin_user_ids st) (st_enabled st)
              (st_bootstrap_first_admin st) (st_dev_first_user_admin st \<and> dev = Some uid) fault t rid (snd w) of
           (s', a) \<Rightarrow> (a, (dev, s')))"

definition frontend_redirect :: "auth_settings \<Rightarrow> string \<Rightarrow> string" where
  "frontend_redirect st p = rstrip_slash (st_frontend_url st) @ ''/#'' @ safe_next p"

definition refresh_context ::
  "auth_settings \<Rightarrow> user_center \<Rightarrow> time \<Rightarrow> auth_context \<Rightarrow> auth_context auth" where
  "refresh_context st uc t c =
     (if opt_str (ax_session_id c) = [] then aret c
      else refresh_session st uc t (opt_str (ax_session_id c)) (Some c))"

end
