(* ===== verification/Auth_Gate.thy ===== *)
theory Auth_Gate
  imports Auth_Profile
begin

text \<open>
  Who may call: the dependency that every protected endpoint uses
  (backend/biz/dependencies/auth.py), the cookies (backend/biz/auth\_cookies.py) and the sign-in
  and sign-out endpoints (backend/biz/handler/auth.py).  The framework parses the request; the
  parsed Authorization header and the cookies are given.
\<close>

section \<open>Requests and cookies\<close>

record http_request =
  hr_bearer :: "(string \<times> string) option"      \<comment> \<open>scheme and credentials\<close>
  hr_cookies :: "string \<Rightarrow> string option"
  hr_client_host :: string
  hr_user_agent :: string

record cookie =
  ck_name :: string
  ck_value :: string
  ck_max_age :: "int option"
  ck_path :: string
  ck_secure :: bool
  ck_httponly :: bool
  ck_samesite :: string
  ck_deleted :: bool

definition set_session_cookie :: "auth_settings \<Rightarrow> string \<Rightarrow> cookie" where
  "set_session_cookie st sid =
     \<lparr>ck_name = st_session_cookie_name st, ck_value = sid, ck_max_age = Some (st_session_ttl_seconds st),
      ck_path = st_cookie_path st, ck_secure = st_cookie_secure st, ck_httponly = True,
      ck_samesite = st_cookie_samesite st, ck_deleted = False\<rparr>"

definition delete_cookie :: "auth_settings \<Rightarrow> string \<Rightarrow> cookie" where
  "delete_cookie st name =
     \<lparr>ck_name = name, ck_value = [], ck_max_age = Some 0, ck_path = st_cookie_path st,
      ck_secure = st_cookie_secure st, ck_httponly = True, ck_samesite = st_cookie_samesite st,
      ck_deleted = True\<rparr>"

definition logout_cookie_name :: "auth_settings \<Rightarrow> string" where
  "logout_cookie_name st = st_session_cookie_name st @ ''_portal_logout''"

definition state_cookie_name :: "auth_settings \<Rightarrow> string" where
  "state_cookie_name st = st_session_cookie_name st @ ''_oauth_state''"

definition compare_digest :: "string \<Rightarrow> string \<Rightarrow> auth_error + bool" where
  \<comment> \<open>\<open>hmac.compare_digest\<close> refuses text with other than ASCII characters\<close>
  "compare_digest a b =
     (if list_all (\<lambda>c. (of_char c :: nat) < 128) (a @ b) then Inr (a = b) else Inl Crash)"

definition portal_sso_blocked ::
  "auth_settings \<Rightarrow> (string \<Rightarrow> string) \<Rightarrow> http_request \<Rightarrow> string option \<Rightarrow> auth_error + bool" where
  "portal_sso_blocked st sha req tok0 =
     (let tok = (case tok0 of Some x \<Rightarrow> x
                 | None \<Rightarrow> opt_str (hr_cookies req (st_portal_token_cookie_name st)));
          marker = opt_str (hr_cookies req (logout_cookie_name st))
      in if tok \<noteq> [] \<and> marker \<noteq> [] then compare_digest marker (sha tok) else Inr False)"

definition clear_browser_session ::
  "auth_settings \<Rightarrow> (string \<Rightarrow> string) \<Rightarrow> http_request \<Rightarrow> cookie list" where
  "clear_browser_session st sha req =
     (let tok = opt_str (hr_cookies req (st_portal_token_cookie_name st)) in
      [delete_cookie st (st_session_cookie_name st),
       if tok \<noteq> [] then
         \<lparr>ck_name = logout_cookie_name st, ck_value = sha tok, ck_max_age = None,
          ck_path = st_cookie_path st, ck_secure = st_cookie_secure st, ck_httponly = True,
          ck_samesite = st_cookie_samesite st, ck_deleted = False\<rparr>
       else delete_cookie st (logout_cookie_name st)])"

definition middleware_cookies :: "auth_settings \<Rightarrow> string option \<Rightarrow> nat \<Rightarrow> cookie list" where
  \<comment> \<open>what \<open>AuthSessionMiddleware\<close> appends to a response with that status\<close>
  "middleware_cookies st pending status =
     (case pending of
        Some sid \<Rightarrow> if status < 400 then [set_session_cookie st sid] else []
      | None \<Rightarrow> [])"

section \<open>The dependency\<close>

record gate_env =
  ge_now :: time
  ge_now_iso :: string
  ge_sid :: string       \<comment> \<open>fresh session id\<close>
  ge_item :: string      \<comment> \<open>fresh id of an audit item\<close>

record auth_world =
  aw_settings :: auth_settings
  aw_valid :: validate_user
  aw_sha :: "string \<Rightarrow> string"
  aw_uc :: user_center

definition portal_login ::
  "auth_world \<Rightarrow> gate_env \<Rightarrow> http_request \<Rightarrow> string \<Rightarrow> (auth_context \<times> string option) auth" where
  "portal_login w env req tok =
     abind (create_session_from_access_token (aw_settings w) (aw_uc w) (ge_now env) tok (ge_sid env)) (\<lambda>c.
     abind (awrite (record_operation (aw_settings w) (aw_valid w) (aw_sha w) (ge_now env) (ge_item env)
              (ge_now_iso env) c
              \<lparr>on_action = zh_op_portal, on_category = zh_cat_login, on_detail = zh_portal_detail,
               on_result = zh_success, on_ip_address = hr_client_host req,
               on_user_agent = hr_user_agent req\<rparr>)) (\<lambda>u.
       aret (c, Some (opt_str (ax_session_id c)))))"

definition without_session ::
  "auth_world \<Rightarrow> gate_env \<Rightarrow> http_request \<Rightarrow> auth_error option \<Rightarrow> (auth_context \<times> string option) auth" where
  \<comment> \<open>from the test for the portal cookie to the end of the \<open>try\<close> block\<close>
  "without_session w env req session_error =
     (let st = aw_settings w in
      abind (alift (if st_portal_cookie_login_enabled st then portal_sso_blocked st (aw_sha w) req None
                    else Inr True)) (\<lambda>blocked.
        let tok = (if blocked then [] else opt_str (hr_cookies req (st_portal_token_cookie_name st)))
        in if tok \<noteq> [] then portal_login w env req tok
           else araise (case session_error of Some e \<Rightarrow> e | None \<Rightarrow> AuthError 401 ''not-logged-in'')))"

definition require_authenticated_user ::
  "auth_world \<Rightarrow> gate_env \<Rightarrow> http_request \<Rightarrow> (auth_context \<times> string option) auth" where
  \<comment> \<open>the option is \<open>request.state.auth_session_cookie\<close>\<close>
  "require_authenticated_user w env req =
     (let st = aw_settings w in
      if \<not> st_enabled st then
        (if st_allow_insecure_dev_context st then aret (dev_context st, None)
         else araise (AuthError 503 ''auth-disabled''))
      else case hr_bearer req of
        Some (scheme, credentials) \<Rightarrow>
          if ascii_lower scheme \<noteq> ''bearer'' \<or> credentials = [] then araise (AuthError 401 ''header'')
          else abind (resolve_bearer st (aw_sha w) (aw_uc w) (ge_now env) credentials) (\<lambda>c. aret (c, None))
      | None \<Rightarrow>
          let sid = opt_str (hr_cookies req (st_session_cookie_name st)) in
          if sid = [] then without_session w env req None
          else (\<lambda>s. case get_session st (aw_uc w) (ge_now env) sid s of
              (Inr c, s1) \<Rightarrow>
                (case (if ax_token_source c \<in> {''portal'', ''unknown''}
                       then portal_sso_blocked st (aw_sha w) req (Some (ax_access_token c)) else Inr False) of
                   Inl e \<Rightarrow> (Inl e, s1)
                 | Inr True \<Rightarrow> without_session w env req (Some (AuthError 401 ''not-logged-in'')) s1
                 | Inr False \<Rightarrow> (Inr (c, Some sid), s1))
            | (Inl (AuthError n m), s1) \<Rightarrow> without_session w env req (Some (AuthError n m)) s1
            | (Inl Crash, s1) \<Rightarrow> (Inl Crash, s1)))"

definition require_platform_admin :: "platform_actor \<Rightarrow> auth_error + platform_actor" where
  "require_platform_admin a = (if \<not> pa_is_admin a then Inl (AuthError 403 ''admin-only'') else Inr a)"

definition require_permission :: "auth_world \<Rightarrow> string \<Rightarrow> auth_context \<Rightarrow> auth_error + auth_context" where
  "require_permission w permission c =
     rbind (profile (aw_settings w) (aw_valid w) c) (\<lambda>p.
       let granted = set (pf_permissions p) in
       if ''*'' \<notin> granted \<and> permission \<notin> granted then Inl (AuthError 403 ''permission'') else Inr c)"

section \<open>The endpoints\<close>

datatype auth_response =
    Redirect string "cookie list"
  | Answer nat bool "cookie list"   \<comment> \<open>status, \<open>remote_revoked\<close>\<close>

definition login_error_url :: "auth_settings \<Rightarrow> string \<Rightarrow> string" where
  "login_error_url st msg =
     rstrip_slash (st_frontend_url st) @ ''/#/login?'' @ urlencode [(''error'', msg)]"

definition get_login_url ::
  "auth_world \<Rightarrow> time \<Rightarrow> string \<Rightarrow> string \<Rightarrow> (string \<times> int \<times> cookie list) auth" where
  "get_login_url w t next_path fresh_state =
     (let st = aw_settings w in
      if \<not> st_enabled st then
        (if \<not> st_allow_insecure_dev_context st then araise (AuthError 503 ''login-disabled'')
         else aret (frontend_redirect st next_path, st_state_ttl_seconds st, []))
      else abind (create_login_url st t next_path fresh_state) (\<lambda>(url, expires_in, state).
        aret (url, expires_in,
          [\<lparr>ck_name = state_cookie_name st, ck_value = state, ck_max_age = Some expires_in,
            ck_path = st_cookie_path st, ck_secure = st_cookie_secure st, ck_httponly = True,
            ck_samesite = st_cookie_samesite st, ck_deleted = False\<rparr>])))"

record callback_query =
  cb_code :: "string option"
  cb_state :: "string option"
  cb_error :: "string option"
  cb_error_description :: "string option"

definition error_redirect :: "auth_settings \<Rightarrow> string \<Rightarrow> auth_response" where
  "error_redirect st msg = Redirect (login_error_url st msg) [delete_cookie st (state_cookie_name st)]"

definition oauth_callback ::
  "auth_world \<Rightarrow> gate_env \<Rightarrow> http_request \<Rightarrow> callback_query \<Rightarrow> auth_response auth" where
  "oauth_callback w env req q =
     (let st = aw_settings w; code = opt_str (cb_code q); state = opt_str (cb_state q);
          state_cookie = opt_str (hr_cookies req (state_cookie_name st)) in
      if opt_truthy (cb_error q) then
        aret (error_redirect st (opt_or (cb_error_description q) (opt_str (cb_error q))))
      else if code = [] \<or> state = [] then aret (error_redirect st ''no-code'')
      else abind (alift (if state_cookie = [] then Inr False else compare_digest state_cookie state)) (\<lambda>same.
      if \<not> same then aret (error_redirect st ''other-browser'')
      else (\<lambda>s. case complete_login st (aw_uc w) (ge_now env) code state (ge_sid env) s of
          (Inl (AuthError n m), s1) \<Rightarrow> (Inr (error_redirect st m), s1)
        | (Inl Crash, s1) \<Rightarrow> (Inl Crash, s1)
        | (Inr (c, next_path), s1) \<Rightarrow>
            (Inr (Redirect (frontend_redirect st next_path)
                [delete_cookie st (state_cookie_name st), delete_cookie st (logout_cookie_name st),
                 set_session_cookie st (opt_str (ax_session_id c))]),
             record_operation st (aw_valid w) (aw_sha w) (ge_now env) (ge_item env) (ge_now_iso env) c
               \<lparr>on_action = zh_op_login, on_category = zh_cat_login, on_detail = zh_oauth_detail,
                on_result = zh_success, on_ip_address = hr_client_host req,
                on_user_agent = hr_user_agent req\<rparr> s1))))"

definition logout_step ::
  "auth_world \<Rightarrow> gate_env \<Rightarrow> http_request \<Rightarrow> (auth_context option \<times> bool) auth" where
  "logout_step w env req =
     (let st = aw_settings w in
      if \<not> st_enabled st then aret (None, False)
      else let sid = opt_str (hr_cookies req (st_session_cookie_name st)) in
        if sid \<noteq> [] then logout_session st (aw_sha w) (aw_uc w) (ge_now env) sid
        else case hr_bearer req of
          Some (scheme, credentials) \<Rightarrow>
            if ascii_lower scheme = ''bearer'' then
              abind (resolve_bearer st (aw_sha w) (aw_uc w) (ge_now env) credentials) (\<lambda>c.
              abind (logout st (aw_sha w) (aw_uc w) c) (\<lambda>b. aret (Some c, b)))
            else aret (None, False)
        | None \<Rightarrow> aret (None, False))"

definition logout_endpoint :: "auth_world \<Rightarrow> gate_env \<Rightarrow> http_request \<Rightarrow> auth_response auth" where
  "logout_endpoint w env req s =
     (let st = aw_settings w;
          cleared = clear_browser_session st (aw_sha w) req @ [delete_cookie st (state_cookie_name st)] in
      case logout_step w env req s of
        (Inl Crash, s1) \<Rightarrow> (Inl Crash, s1)
      | (Inl (AuthError n m), s1) \<Rightarrow>
          if n \<noteq> 401 then (Inr (Answer n False cleared), s1) else (Inr (Answer 200 False cleared), s1)
      | (Inr (None, b), s1) \<Rightarrow> (Inr (Answer 200 b cleared), s1)
      | (Inr (Some c, b), s1) \<Rightarrow>
          (Inr (Answer 200 b cleared),
           record_operation st (aw_valid w) (aw_sha w) (ge_now env) (ge_item env) (ge_now_iso env) c
             \<lparr>on_action = zh_op_logout, on_category = zh_cat_login, on_detail = zh_logout_detail,
              on_result = zh_success, on_ip_address = hr_client_host req,
              on_user_agent = hr_user_agent req\<rparr> s1))"

definition refresh_endpoint ::
  "auth_world \<Rightarrow> gate_env \<Rightarrow> http_request \<Rightarrow> auth_context \<Rightarrow> auth_profile auth" where
  \<comment> \<open>for the context that the dependency returned; roles are added by the application layer\<close>
  "refresh_endpoint w env req c =
     abind (refresh_context (aw_settings w) (aw_uc w) (ge_now env) c) (\<lambda>r.
     abind (awrite (record_operation (aw_settings w) (aw_valid w) (aw_sha w) (ge_now env) (ge_item env)
              (ge_now_iso env) r
              \<lparr>on_action = zh_op_refresh, on_category = zh_cat_security, on_detail = zh_refresh_detail,
               on_result = zh_success, on_ip_address = hr_client_host req,
               on_user_agent = hr_user_agent req\<rparr>)) (\<lambda>u.
       alift (profile (aw_settings w) (aw_valid w) r)))"

end
