(* ===== verification/Governance_Api.thy ===== *)
theory Governance_Api
  imports Correction_Worker Auth_Gate
begin

text \<open>
  The HTTP interface of corrections and members (backend/biz/handler/correction.py,
  admin\_member.py, get\_cache.py) and the dispatcher of the sync worker (backend/main.py): what a
  call answers, the error it is mapped to, and the cache in front of the listings.  Validation of query parameters and the encoding of an answer as
  text belong to the framework and are arguments.
\<close>

section \<open>State and answers\<close>

type_synonym query_items = "(string \<times> string) list"

datatype 'a http = HttpOk 'a | HttpError nat string

record list_params =
  lp_all :: bool                        \<comment> \<open>\<open>scope == "all"\<close>\<close>
  lp_status :: "string option"
  lp_statuses :: "string option"
  lp_target_type :: "string option"
  lp_keyword :: "string option"
  lp_page :: int
  lp_page_size :: int

record api_config =
  ac_ttl :: int                                              \<comment> \<open>\<open>RESULT_CACHE_TTL\<close>\<close>
  ac_params :: "query_items \<Rightarrow> list_params option"           \<comment> \<open>None: refused with 422\<close>
  ac_page_text :: "correction_page \<Rightarrow> string"
  ac_members_text :: "member_view list \<Rightarrow> string"
  ac_initial_admins :: "string list"

record api_state =
  ap_ledger :: correction_db
  ap_access :: access_db
  ap_cache :: cache

section \<open>The cache of the listings\<close>

definition try_get :: "time \<Rightarrow> string \<Rightarrow> query_items \<Rightarrow> cache \<Rightarrow> string option" where
  "try_get t p items c = get_cached_json t (cache_key p items) c"

definition store_page :: "time \<Rightarrow> int \<Rightarrow> string \<Rightarrow> query_items \<Rightarrow> string \<Rightarrow> cache \<Rightarrow> cache" where
  "store_page t ttl p items body c = set_cached_json t ttl (cache_key p items) body c"

definition invalidate :: "string \<Rightarrow> cache \<Rightarrow> cache" where
  "invalidate p c = discard_prefix p c"

definition cached_answer ::
  "time \<Rightarrow> int \<Rightarrow> string \<Rightarrow> query_items \<Rightarrow> string \<Rightarrow> api_state \<Rightarrow> string \<times> api_state" where
  \<comment> \<open>\<open>try_get\<close>, or else \<open>store\<close> of the computed body\<close>
  "cached_answer t ttl p items body s =
     (case try_get t p items (ap_cache s) of
        Some cached \<Rightarrow> (cached, s)
      | None \<Rightarrow> (body, s\<lparr>ap_cache := store_page t ttl p items body (ap_cache s)\<rparr>))"

section \<open>Corrections\<close>

definition CORRECTION_LIST :: string where
  "CORRECTION_LIST = ''correction:list''"

definition raise_error :: "correction_error \<Rightarrow> 'a http" where
  "raise_error e = (case e of
     NoCorrection i \<Rightarrow> HttpError 404 ''no-correction''
   | NotPermitted m \<Rightarrow> HttpError 403 ''no-access''
   | BadValue m \<Rightarrow> HttpError 409 m
   | DuplicateKey \<Rightarrow> HttpError 500 []
   | SessionFailure \<Rightarrow> HttpError 500 [])"

definition query_of :: "list_params \<Rightarrow> correction_query" where
  "query_of p = \<lparr>cq_all_users = lp_all p, cq_status = lp_status p,
     cq_statuses = comma_items (opt_str (lp_statuses p)), cq_target_type = lp_target_type p,
     cq_keyword = lp_keyword p, cq_page = lp_page p, cq_page_size = lp_page_size p\<rparr>"

definition list_corrections_handler ::
  "api_config \<Rightarrow> time \<Rightarrow> platform_actor \<Rightarrow> query_items \<Rightarrow> api_state \<Rightarrow> string http \<times> api_state" where
  "list_corrections_handler cfg t a items s =
     (case ac_params cfg items of
        None \<Rightarrow> (HttpError 422 [], s)
      | Some p \<Rightarrow>
          (case cached_answer t (ac_ttl cfg) CORRECTION_LIST items
                  (ac_page_text cfg (list_corrections (query_of p) a (ap_ledger s))) s of
             (body, s') \<Rightarrow> (HttpOk body, s')))"

definition written :: "correction_db \<Rightarrow> string \<Rightarrow> correction_detail http" where
  \<comment> \<open>\<open>self.detail(correction, include_history=True)\<close> after the write\<close>
  "written db i = (case tbl_get mc_id i (k_corrections db) of
     None \<Rightarrow> HttpError 404 ''no-correction'' | Some c \<Rightarrow> HttpOk (correction_detail db True c))"

text \<open>
  A request that writes has two steps.  The function of the endpoint computes the new rows in its session
  and clears the cached listings; the session commits after it has returned.  What happens between the
  steps sees the old ledger.  A handler is both steps without anything in between.
\<close>

definition session_commit :: "correction_db option \<Rightarrow> api_state \<Rightarrow> api_state" where
  "session_commit pending s = (case pending of None \<Rightarrow> s | Some db \<Rightarrow> s\<lparr>ap_ledger := db\<rparr>)"

definition committed ::
  "correction_detail http \<times> correction_db option \<times> api_state \<Rightarrow> correction_detail http \<times> api_state" where
  "committed r = (case r of (answer, pending, s) \<Rightarrow> (answer, session_commit pending s))"

definition write_request ::
  "(correction_db \<Rightarrow> correction_error + correction_db) \<Rightarrow> string \<Rightarrow> api_state \<Rightarrow>
   correction_detail http \<times> correction_db option \<times> api_state" where
  "write_request f i s =
     (case f (ap_ledger s) of
        Inl e \<Rightarrow> (raise_error e, None, s)
      | Inr db \<Rightarrow> (written db i, Some db, s\<lparr>ap_cache := invalidate CORRECTION_LIST (ap_cache s)\<rparr>))"

definition write_handler ::
  "(correction_db \<Rightarrow> correction_error + correction_db) \<Rightarrow> string \<Rightarrow> api_state \<Rightarrow>
   correction_detail http \<times> api_state" where
  "write_handler f i s = committed (write_request f i s)"

definition create_correction_request ::
  "correction_env \<Rightarrow> correction_payload \<Rightarrow> platform_actor \<Rightarrow> api_state \<Rightarrow>
   correction_detail http \<times> correction_db option \<times> api_state" where
  \<comment> \<open>the session does not flush before a query, so the answer shows the history before the call\<close>
  "create_correction_request env p a s =
     (case create_correction env p a (ap_ledger s) of
        Inl e \<Rightarrow> (raise_error e, None, s)
      | Inr db \<Rightarrow> (HttpOk (correction_detail (ap_ledger s) True (new_correction env p a)), Some db,
          s\<lparr>ap_cache := invalidate CORRECTION_LIST (ap_cache s)\<rparr>))"

definition create_correction_handler ::
  "correction_env \<Rightarrow> correction_payload \<Rightarrow> platform_actor \<Rightarrow> api_state \<Rightarrow> correction_detail http \<times> api_state" where
  "create_correction_handler env p a s = committed (create_correction_request env p a s)"

definition get_correction_handler ::
  "string \<Rightarrow> platform_actor \<Rightarrow> api_state \<Rightarrow> correction_detail http" where
  "get_correction_handler i a s =
     (case get_correction_view (ap_ledger s) i a of Inl e \<Rightarrow> raise_error e | Inr d \<Rightarrow> HttpOk d)"

definition update_correction_handler ::
  "correction_env \<Rightarrow> string \<Rightarrow> correction_edit \<Rightarrow> platform_actor \<Rightarrow> api_state \<Rightarrow>
   correction_detail http \<times> api_state" where
  "update_correction_handler env i p a = write_handler (update_correction env i p a) i"

definition cancel_correction_handler ::
  "correction_env \<Rightarrow> string \<Rightarrow> platform_actor \<Rightarrow> api_state \<Rightarrow> correction_detail http \<times> api_state" where
  "cancel_correction_handler env i a = write_handler (cancel_correction env i a) i"

definition admin_only ::
  "platform_actor \<Rightarrow> (api_state \<Rightarrow> 'a http \<times> api_state) \<Rightarrow> api_state \<Rightarrow> 'a http \<times> api_state" where
  \<comment> \<open>the dependency \<open>CurrentAdmin\<close>\<close>
  "admin_only a h s =
     (case require_platform_admin a of
        Inl (AuthError n m) \<Rightarrow> (HttpError n m, s)
      | Inl Crash \<Rightarrow> (HttpError 500 [], s)
      | Inr b \<Rightarrow> h s)"

definition review_correction_handler ::
  "correction_env \<Rightarrow> string \<Rightarrow> bool \<Rightarrow> string \<Rightarrow> platform_actor \<Rightarrow> api_state \<Rightarrow>
   correction_detail http \<times> api_state" where
  "review_correction_handler env i reject text a =
     admin_only a (write_handler (decide env i reject text a) i)"

definition retry_correction_handler ::
  "correction_env \<Rightarrow> string \<Rightarrow> string \<Rightarrow> platform_actor \<Rightarrow> api_state \<Rightarrow> correction_detail http \<times> api_state" where
  "retry_correction_handler env i text a = admin_only a (write_handler (retry_correction env i text a) i)"

section \<open>The dispatcher\<close>

definition dispatch_corrections_once ::
  "sync_mode \<Rightarrow> (string \<Rightarrow> sync_env) \<Rightarrow> time \<Rightarrow> api_state \<Rightarrow> api_state" where
  \<comment> \<open>the loop logs an exception and goes on\<close>
  "dispatch_corrections_once mode env t s =
     (case process_due_sync_tasks mode env t 20 (ap_ledger s) of
        Inl e \<Rightarrow> s
      | Inr (db, n) \<Rightarrow> s\<lparr>ap_ledger := db\<rparr>)"

section \<open>Members\<close>

definition MEMBER_LIST :: string where
  "MEMBER_LIST = ''admin-member:list''"

definition get_members_handler ::
  "api_config \<Rightarrow> time \<Rightarrow> platform_actor \<Rightarrow> query_items \<Rightarrow> api_state \<Rightarrow> string http \<times> api_state" where
  "get_members_handler cfg t a items =
     admin_only a (\<lambda>s.
       case cached_answer t (ac_ttl cfg) MEMBER_LIST items
              (ac_members_text cfg (list_members (ac_initial_admins cfg @ [pa_user_id a]) (ap_access s))) s of
         (body, s') \<Rightarrow> (HttpOk body, s'))"

definition update_admin_role_handler ::
  "api_config \<Rightarrow> string \<Rightarrow> bool \<Rightarrow> platform_actor \<Rightarrow> string \<Rightarrow> api_state \<Rightarrow> bool http \<times> api_state" where
  "update_admin_role_handler cfg uid enabled a role_id =
     admin_only a (\<lambda>s.
       case set_admin_role uid enabled a (ac_initial_admins cfg) role_id (ap_access s) of
         Inl (UnknownUser u) \<Rightarrow> (HttpError 404 ''no-user'', s)
       | Inl ImmutableAdmin \<Rightarrow> (HttpError 409 ''immutable-admin'', s)
       | Inl LastAdmin \<Rightarrow> (HttpError 409 ''last-admin'', s)
       | Inl RoleConflict \<Rightarrow> (HttpError 500 [], s)
       | Inr db \<Rightarrow> (HttpOk enabled, s\<lparr>ap_access := db, ap_cache := invalidate MEMBER_LIST (ap_cache s)\<rparr>))"

end
