(* ===== verification/Governance_Claims.thy ===== *)
theory Governance_Claims
  imports Governance_Api
begin

text \<open>
  The listings behind the cache, the errors of the review endpoint, and a concrete run.
\<close>

section \<open>The system\<close>

datatype api_cmd =
    ApList time platform_actor query_items
  | ApCreate correction_env correction_payload platform_actor
  | ApUpdate correction_env string correction_edit platform_actor
  | ApCancel correction_env string platform_actor
  | ApReview correction_env string bool string platform_actor
  | ApRetry correction_env string string platform_actor
  | ApDispatch sync_mode "string \<Rightarrow> sync_env" time
  | ApMembers time platform_actor query_items
  | ApSetRole string bool platform_actor string
  | ApSignIn user_profile bool bool bool db_fault time string "string set"

definition sign_in ::
  "string list \<Rightarrow> user_profile \<Rightarrow> bool \<Rightarrow> bool \<Rightarrow> bool \<Rightarrow> db_fault \<Rightarrow> time \<Rightarrow> string \<Rightarrow> string set \<Rightarrow>
   access_db \<Rightarrow> access_db" where
  "sign_in admins p auth first force fault t rid seen db =
     as_db (fst (actor_from_profile p admins auth first force fault t rid \<lparr>as_db = db, as_dev_seen = seen\<rparr>))"

fun exec_api :: "api_config \<Rightarrow> api_cmd \<Rightarrow> api_state \<Rightarrow> unit + api_state" where
  "exec_api cfg (ApList t a items) s = Inr (snd (list_corrections_handler cfg t a items s))"
| "exec_api cfg (ApCreate env p a) s = Inr (snd (create_correction_handler env p a s))"
| "exec_api cfg (ApUpdate env i p a) s = Inr (snd (update_correction_handler env i p a s))"
| "exec_api cfg (ApCancel env i a) s = Inr (snd (cancel_correction_handler env i a s))"
| "exec_api cfg (ApReview env i reject text a) s = Inr (snd (review_correction_handler env i reject text a s))"
| "exec_api cfg (ApRetry env i text a) s = Inr (snd (retry_correction_handler env i text a s))"
| "exec_api cfg (ApDispatch mode env t) s = Inr (dispatch_corrections_once mode env t s)"
| "exec_api cfg (ApMembers t a items) s = Inr (snd (get_members_handler cfg t a items s))"
| "exec_api cfg (ApSetRole uid enabled a rid) s = Inr (snd (update_admin_role_handler cfg uid enabled a rid s))"
| "exec_api cfg (ApSignIn p auth first force fault t rid seen) s =
     Inr (s\<lparr>ap_access := sign_in (ac_initial_admins cfg) p auth first force fault t rid seen (ap_access s)\<rparr>)"

section \<open>What the cache holds\<close>

lemmas write_steps = write_handler_def write_request_def create_correction_handler_def create_correction_request_def
  committed_def session_commit_def

text \<open>The changes that do not clear the cache: passes of the dispatcher, and sign-ins.\<close>

inductive dispatched :: "correction_db \<Rightarrow> correction_db \<Rightarrow> bool" where
  dispatched_refl: "dispatched db db"
| dispatched_step: "dispatched db db' \<Longrightarrow> process_due_sync_tasks mode env t limit db' = Inr (db'', n) \<Longrightarrow>
    dispatched db db''"

inductive signed_in :: "string list \<Rightarrow> access_db \<Rightarrow> access_db \<Rightarrow> bool" for admins where
  signed_in_refl: "signed_in admins db db"
| signed_in_step: "signed_in admins db db' \<Longrightarrow>
    signed_in admins db (sign_in admins p auth first force fault t rid seen db')"

definition page_views :: "api_config \<Rightarrow> correction_db \<Rightarrow> string \<Rightarrow> string \<Rightarrow> bool" where
  "page_views cfg db k body \<longleftrightarrow> (\<exists>db0 a items p. dispatched db0 db \<and> ac_params cfg items = Some p \<and>
     k = cache_key CORRECTION_LIST items \<and>
     body = ac_page_text cfg (list_corrections (query_of p) a db0))"

definition member_views :: "api_config \<Rightarrow> access_db \<Rightarrow> string \<Rightarrow> string \<Rightarrow> bool" where
  "member_views cfg db k body \<longleftrightarrow> (\<exists>db0 (a :: platform_actor) items. signed_in (ac_initial_admins cfg) db0 db \<and> pa_is_admin a \<and>
     k = cache_key MEMBER_LIST items \<and>
     body = ac_members_text cfg (list_members (ac_initial_admins cfg @ [pa_user_id a]) db0))"

interpretation correction_pages: cached_views get_cached_json set_cached_json drop_keys
    "page_views cfg" "\<lambda>k. before_q k = CORRECTION_LIST" for cfg :: api_config
  by unfold_locales

interpretation member_pages: cached_views get_cached_json set_cached_json drop_keys
    "member_views cfg" "\<lambda>k. before_q k = MEMBER_LIST" for cfg :: api_config
  by unfold_locales

abbreviation pages_ok :: "api_config \<Rightarrow> api_state \<Rightarrow> bool" where
  "pages_ok cfg s \<equiv> correction_pages.coherent cfg (ap_ledger s) (ap_cache s) \<and>
     member_pages.coherent cfg (ap_access s) (ap_cache s)"

lemma list_names [simp]: "CHR ''?'' \<notin> set CORRECTION_LIST" "CHR ''?'' \<notin> set MEMBER_LIST"
  "CORRECTION_LIST \<noteq> MEMBER_LIST" "MEMBER_LIST \<noteq> CORRECTION_LIST"
  by (simp_all add: CORRECTION_LIST_def MEMBER_LIST_def)

lemma key_prefix [simp]: "before_q (cache_key CORRECTION_LIST items) = CORRECTION_LIST"
  "before_q (cache_key MEMBER_LIST items) = MEMBER_LIST"
  by (simp_all add: before_q_key)

lemma invalidated [simp]:
  "correction_pages.coherent cfg db (invalidate CORRECTION_LIST c)"
  "member_pages.coherent cfg acc (invalidate MEMBER_LIST c)"
  unfolding invalidate_def discard_prefix_def
  by (rule correction_pages.coherent_write, assumption) (rule member_pages.coherent_write, assumption)

lemma invalidate_other:
  "correction_pages.coherent cfg db c \<Longrightarrow> correction_pages.coherent cfg db (invalidate q c)"
  "member_pages.coherent cfg acc c \<Longrightarrow> member_pages.coherent cfg acc (invalidate q c)"
  unfolding invalidate_def discard_prefix_def
  by (fact correction_pages.coherent_discard, fact member_pages.coherent_discard)

lemma write_pages: "pages_ok cfg s \<Longrightarrow> pages_ok cfg (snd (write_handler f i s))"
  by (simp add: write_steps invalidate_other split: sum.split)

lemma admin_only_pages:
  "pages_ok cfg s \<Longrightarrow> pages_ok cfg (snd (h s)) \<Longrightarrow> pages_ok cfg (snd (admin_only a h s))"
  by (simp add: admin_only_def split: sum.split auth_error.split)

lemma cached_pages:
  assumes "pages_ok cfg s"
    and "before_q (cache_key p items) = CORRECTION_LIST \<Longrightarrow> page_views cfg (ap_ledger s) (cache_key p items) body"
    and "before_q (cache_key p items) = MEMBER_LIST \<Longrightarrow> member_views cfg (ap_access s) (cache_key p items) body"
  shows "pages_ok cfg (snd (cached_answer t ttl p items body s))"
  using assms
  by (auto simp: cached_answer_def store_page_def intro: correction_pages.coherent_store
      member_pages.coherent_store split: option.split)

lemma fresh_page_view: "ac_params cfg items = Some p \<Longrightarrow>
    page_views cfg db (cache_key CORRECTION_LIST items) (ac_page_text cfg (list_corrections (query_of p) a db))"
  unfolding page_views_def by (blast intro: dispatched_refl)

lemma fresh_member_view: "pa_is_admin (a :: platform_actor) \<Longrightarrow> member_views cfg db (cache_key MEMBER_LIST items)
    (ac_members_text cfg (list_members (ac_initial_admins cfg @ [pa_user_id a]) db))"
  unfolding member_views_def by (blast intro: signed_in_refl)

lemma exec_api_pages:
  assumes "pages_ok cfg s" and "exec_api cfg cmd s = Inr s'"
  shows "pages_ok cfg s'"
proof (cases cmd)
  case (ApList t a items)
  have "pages_ok cfg (snd (list_corrections_handler cfg t a items s))"
  proof (cases "ac_params cfg items")
    case (Some p)
    then have "pages_ok cfg (snd (cached_answer t (ac_ttl cfg) CORRECTION_LIST items
        (ac_page_text cfg (list_corrections (query_of p) a (ap_ledger s))) s))"
      by (intro cached_pages [OF assms(1)]) (simp_all add: fresh_page_view)
    with Some show ?thesis by (simp add: list_corrections_handler_def case_prod_beta)
  qed (use assms in \<open>simp add: list_corrections_handler_def\<close>)
  with ApList assms(2) show ?thesis by auto
next
  case (ApCreate env p a)
  with assms show ?thesis
    by (auto simp: write_steps invalidate_other split: sum.splits)
next
  case (ApUpdate env i p a)
  with assms write_pages show ?thesis by (auto simp: update_correction_handler_def)
next
  case (ApCancel env i a)
  with assms write_pages show ?thesis by (auto simp: cancel_correction_handler_def)
next
  case (ApReview env i reject msg a)
  have "pages_ok cfg (snd (review_correction_handler env i reject msg a s))"
    unfolding review_correction_handler_def by (intro admin_only_pages write_pages assms(1))
  with ApReview assms(2) show ?thesis by auto
next
  case (ApRetry env i msg a)
  have "pages_ok cfg (snd (retry_correction_handler env i msg a s))"
    unfolding retry_correction_handler_def by (intro admin_only_pages write_pages assms(1))
  with ApRetry assms(2) show ?thesis by auto
next
  case (ApDispatch mode env t)
  have later: "page_views cfg db k v \<Longrightarrow> process_due_sync_tasks mode env t 20 db = Inr (db', n) \<Longrightarrow>
      page_views cfg db' k v" for db db' n k v
    unfolding page_views_def by (blast intro: dispatched_step)
  show ?thesis
  proof (cases "process_due_sync_tasks mode env t 20 (ap_ledger s)")
    case (Inr r)
    obtain db n where r: "r = (db, n)" by (cases r)
    have "correction_pages.coherent cfg db (ap_cache s)"
      using assms(1) by (blast intro: correction_pages.coherent_mono later [OF _ Inr [unfolded r]])
    with Inr r ApDispatch assms show ?thesis by (auto simp: dispatch_corrections_once_def)
  qed (use ApDispatch assms in \<open>simp add: dispatch_corrections_once_def\<close>)
next
  case (ApMembers t a items)
  have "pages_ok cfg (snd (get_members_handler cfg t a items s))"
  proof (cases "pa_is_admin a")
    case True
    then have "pages_ok cfg (snd (cached_answer t (ac_ttl cfg) MEMBER_LIST items
        (ac_members_text cfg (list_members (ac_initial_admins cfg @ [pa_user_id a]) (ap_access s))) s))"
      by (intro cached_pages [OF assms(1)]) (simp_all add: fresh_member_view)
    with True show ?thesis
      by (simp add: get_members_handler_def admin_only_def require_platform_admin_def case_prod_beta)
  qed (use assms in \<open>simp add: get_members_handler_def admin_only_def require_platform_admin_def\<close>)
  with ApMembers assms(2) show ?thesis by auto
next
  case (ApSetRole uid enabled a rid)
  have "pages_ok cfg (snd (update_admin_role_handler cfg uid enabled a rid s))"
    unfolding update_admin_role_handler_def
    by (rule admin_only_pages [OF assms(1)])
      (use assms(1) in \<open>simp add: invalidate_other split: sum.split access_error.split\<close>)
  with ApSetRole assms(2) show ?thesis by auto
next
  case (ApSignIn p auth first force fault t rid seen)
  let ?db = "sign_in (ac_initial_admins cfg) p auth first force fault t rid seen (ap_access s)"
  have "member_views cfg (ap_access s) k v \<Longrightarrow> member_views cfg ?db k v" for k v
    unfolding member_views_def by (blast intro: signed_in_step)
  then have "member_pages.coherent cfg ?db (ap_cache s)"
    using assms(1) by (blast intro: member_pages.coherent_mono)
  with ApSignIn assms show ?thesis by auto
qed

interpretation api: guarded_system "exec_api cfg" "pages_ok cfg" for cfg :: api_config
  by unfold_locales (rule exec_api_pages)

lemma empty_cache_pages: "ap_cache s = empty_cache \<Longrightarrow> pages_ok cfg s"
  by (simp add: correction_pages.coherent_def member_pages.coherent_def empty_cache_def get_cached_json_def)

section \<open>Listings\<close>

text \<open>
  What a listing may show, as long as no other request comes between the two steps of a write.
  After any such traffic that started with an empty cache, the answer to
  a listing of corrections is a page of the present ledger, or of one that only passes of the
  dispatcher separate from it, for a query with the same parameters; but it may be the page of
  another user, since the cache does not distinguish users.
\<close>

theorem listing_is_of_the_ledger:
  assumes "reach (exec_api cfg) s0 s" and "ap_cache s0 = empty_cache"
    and "list_corrections_handler cfg t a items s = (HttpOk body, s')"
  shows "\<exists>db a' items' p. dispatched db (ap_ledger s) \<and> mset items' = mset items \<and>
    ac_params cfg items' = Some p \<and> body = ac_page_text cfg (list_corrections (query_of p) a' db)"
proof -
  have "pages_ok cfg s" by (rule api.reach_keeps [OF assms(1) empty_cache_pages [OF assms(2)]])
  moreover obtain p where p: "ac_params cfg items = Some p"
    and b: "fst (cached_answer t (ac_ttl cfg) CORRECTION_LIST items
      (ac_page_text cfg (list_corrections (query_of p) a (ap_ledger s))) s) = body"
    using assms(3) by (auto simp: list_corrections_handler_def case_prod_beta split: option.splits)
  ultimately have "page_views cfg (ap_ledger s) (cache_key CORRECTION_LIST items) body"
    using fresh_page_view [OF p, of "ap_ledger s" a] correction_pages.coherent_hit
    by (fastforce simp: cached_answer_def try_get_def split: option.splits)
  then show ?thesis
    unfolding page_views_def cache_key_eq_iff [OF list_names(1,1)] by metis
qed

text \<open>
  A user sees his own write, again without a request between its steps.  When a correction has been created, edited, withdrawn, reviewed
  or retried, the next listing is computed from the new ledger for the user who asks for it, and
  is not taken from the cache; a call that fails leaves ledger, members and cache as they were.
\<close>

definition correction_write :: "(api_state \<Rightarrow> correction_detail http \<times> api_state) \<Rightarrow> bool" where
  "correction_write h \<longleftrightarrow>
     (\<exists>env p a. h = create_correction_handler env p a) \<or>
     (\<exists>env i p a. h = update_correction_handler env i p a) \<or>
     (\<exists>env i a. h = cancel_correction_handler env i a) \<or>
     (\<exists>env i reject msg a. h = review_correction_handler env i reject msg a) \<or>
     (\<exists>env i msg a. h = retry_correction_handler env i msg a)"

lemma row_after_write:
  "update_correction env i p a db = Inr db' \<Longrightarrow> tbl_get mc_id i (k_corrections db') \<noteq> None"
  "cancel_correction env i a db = Inr db' \<Longrightarrow> tbl_get mc_id i (k_corrections db') \<noteq> None"
  "decide env i reject msg a db = Inr db' \<Longrightarrow> tbl_get mc_id i (k_corrections db') \<noteq> None"
  "retry_correction env i msg a db = Inr db' \<Longrightarrow> tbl_get mc_id i (k_corrections db') \<noteq> None"
proof -
  show "update_correction env i p a db = Inr db' \<Longrightarrow> tbl_get mc_id i (k_corrections db') \<noteq> None"
    by (erule update_correction_Inr) (auto simp: tbl_get_put edited_def dest: tbl_get_Some)
  show "cancel_correction env i a db = Inr db' \<Longrightarrow> tbl_get mc_id i (k_corrections db') \<noteq> None"
    by (erule cancel_correction_Inr) (auto simp: tbl_get_put dest: tbl_get_Some)
  show "retry_correction env i msg a db = Inr db' \<Longrightarrow> tbl_get mc_id i (k_corrections db') \<noteq> None"
    by (erule retry_correction_Inr) (auto simp: tbl_get_put dest: tbl_get_Some)
  show "decide env i reject msg a db = Inr db' \<Longrightarrow> tbl_get mc_id i (k_corrections db') \<noteq> None"
    by (erule decide_Inr) (auto simp: tbl_get_put reviewed_def ensure_task_def dest: tbl_get_Some
        split: if_splits option.splits)
qed

definition wrote :: "api_state \<Rightarrow> correction_detail http \<times> api_state \<Rightarrow> bool" where
  \<comment> \<open>a success that replaced the ledger and cleared the listings, or an error without effect\<close>
  "wrote s r \<longleftrightarrow>
     (\<exists>d db. r = (HttpOk d, s\<lparr>ap_cache := invalidate CORRECTION_LIST (ap_cache s), ap_ledger := db\<rparr>)) \<or>
     (\<exists>n m. r = (HttpError n m, s))"

lemma wrote_create: "wrote s (create_correction_handler env p a s)"
  by (auto simp: wrote_def write_steps raise_error_def split: sum.split correction_error.split)

lemma wrote_handler:
  "(\<And>db'. f (ap_ledger s) = Inr db' \<Longrightarrow> tbl_get mc_id i (k_corrections db') \<noteq> None) \<Longrightarrow> wrote s (write_handler f i s)"
  by (fastforce simp: wrote_def write_steps raise_error_def written_def
      split: sum.split correction_error.split option.split)

lemma wrote_admin: "wrote s (h s) \<Longrightarrow> wrote s (admin_only a h s)"
  by (auto simp: admin_only_def wrote_def split: sum.split auth_error.split)

lemma correction_write_wrote: "correction_write h \<Longrightarrow> wrote s (h s)"
  unfolding correction_write_def
  by (elim disjE exE)
    (simp_all add: wrote_create wrote_admin wrote_handler row_after_write update_correction_handler_def
      cancel_correction_handler_def review_correction_handler_def retry_correction_handler_def)

lemma invalidated_miss: "try_get t CORRECTION_LIST items (invalidate CORRECTION_LIST c) = None"
  by (simp add: try_get_def invalidate_def discard_prefix_def response_cache.lookup_discard)

theorem read_your_correction:
  assumes "correction_write h" and "h s = (r, s1)" and "ac_params cfg items = Some p"
  shows "case r of
      HttpOk d \<Rightarrow> fst (list_corrections_handler cfg t a items s1) =
        HttpOk (ac_page_text cfg (list_corrections (query_of p) a (ap_ledger s1)))
    | HttpError n m \<Rightarrow> s1 = s"
  using correction_write_wrote [OF assms(1), of s] assms(2,3)
  by (auto simp: wrote_def list_corrections_handler_def cached_answer_def invalidated_miss case_prod_beta)

section \<open>Answers of the review endpoint\<close>

definition http_status :: "'a http \<Rightarrow> nat" where
  "http_status r = (case r of HttpOk x \<Rightarrow> 200 | HttpError n m \<Rightarrow> n)"

text \<open>
  the status of a review request is decided in this order: 403 for who is no administrator,
  404 for an unknown correction, 409 for one that is already decided, 403 for one's own
  correction, 409 for a rejection without a reason, 500 when the key of the synchronisation task
  is taken, and otherwise 200.
\<close>

theorem review_answers:
  "http_status (fst (review_correction_handler env i reject msg a s)) =
     (if \<not> pa_is_admin a then 403
      else case tbl_get mc_id i (k_corrections (ap_ledger s)) of
        None \<Rightarrow> 404
      | Some c \<Rightarrow>
          if mc_status c \<noteq> PENDING_REVIEW then 409
          else if mc_submitter_id c = pa_user_id a then 403
          else if reject \<and> py_blank msg then 409
          else if reject then 200
          else if task_of (ap_ledger s) i \<noteq> None then 200
          else if ke_id env \<in> ct_id ` set (k_tasks (ap_ledger s)) \<or>
                  ct_idempotency_key (new_task env c) \<in> ct_idempotency_key ` set (k_tasks (ap_ledger s))
               then 500 else 200)"
proof (cases "pa_is_admin a")
  case True
  show ?thesis
  proof (cases "tbl_get mc_id i (k_corrections (ap_ledger s))")
    case None
    with True show ?thesis
      by (simp add: review_correction_handler_def admin_only_def require_platform_admin_def write_steps
          decide_def get_correction_def raise_error_def http_status_def)
  next
    case (Some c)
    have key: "ct_idempotency_key (new_task env (reviewed t m a r c)) = ct_idempotency_key (new_task env c)" for t r m
      by (simp add: new_task_def reviewed_def)
    have id: "mc_id (reviewed t m a r c) = i" for t r m
      using tbl_get_Some [OF Some] by (simp add: reviewed_def)
    have row: "tbl_get mc_id i (tbl_put mc_id (reviewed t m a r c) ts) = Some (reviewed t m a r c)" for t r m ts
      by (simp add: tbl_get_put id)
    have tk: "task_of (put_correction x db) i = task_of db i" for x db
      by (simp add: task_of_def)
    have dup: "list_ex (\<lambda>x. ct_id x = u \<or> ct_idempotency_key x = v) ts \<longleftrightarrow>
        u \<in> ct_id ` set ts \<or> v \<in> ct_idempotency_key ` set ts" for u v ts
      by (auto simp: list_ex_iff)
    have g: "get_correction (ap_ledger s) i = Inr c" using Some by (simp add: get_correction_Inr)
    from True Some show ?thesis
      unfolding review_correction_handler_def admin_only_def require_platform_admin_def write_steps decide_def g
      by (auto simp: Let_def ensure_task_def id tk dup key http_status_def raise_error_def written_def row
          split: option.splits)
  qed
next
  case False
  then show ?thesis
    by (simp add: review_correction_handler_def admin_only_def require_platform_admin_def http_status_def)
qed

section \<open>A concrete run\<close>

definition gx_params :: list_params where
  "gx_params = \<lparr>lp_all = False, lp_status = None, lp_statuses = None, lp_target_type = None,
     lp_keyword = None, lp_page = 1, lp_page_size = 20\<rparr>"

definition gx_config :: api_config where
  "gx_config = \<lparr>ac_ttl = 60, ac_params = (\<lambda>items. Some gx_params),
     ac_page_text = (\<lambda>p. concat (map (\<lambda>d. mc_id (cx_correction d)) (cg_items p))),
     ac_members_text = (\<lambda>ms. concat (map mv_user_id ms)), ac_initial_admins = []\<rparr>"

definition gx_state :: api_state where
  "gx_state = \<lparr>ap_ledger = kx_db1, ap_access = empty_access_db, ap_cache = empty_cache\<rparr>"

definition gx_listed :: api_state where
  "gx_listed = gx_state\<lparr>ap_cache := [cache_key CORRECTION_LIST [] \<mapsto> (70, ''c1'')]\<rparr>"

lemma gx_values [simp]:
  "ac_ttl gx_config = 60" "ac_params gx_config items = Some gx_params"
  "ap_ledger gx_state = kx_db1" "ap_cache gx_state = empty_cache" "ap_ledger gx_listed = kx_db1"
  "ap_cache gx_listed = [cache_key CORRECTION_LIST [] \<mapsto> (70, ''c1'')]"
  by (simp_all add: gx_config_def gx_state_def gx_listed_def)

lemma gx_page:
  "ac_page_text gx_config (list_corrections (query_of gx_params) (kx_actor u) kx_db1) =
   (if u = ''ann'' then ''c1'' else [])"
  by (simp add: gx_config_def gx_params_def list_corrections_def query_of_def kx_tables correction_matches_def
      kx_fields correction_detail_def Let_def opt_truthy_def comma_items_def opt_str_def)

lemmas gx_handler = list_corrections_handler_def cached_answer_def try_get_def get_cached_json_def
  empty_cache_def store_page_def set_cached_json_def gx_page

lemma gx_first: "list_corrections_handler gx_config 10 (kx_actor ''ann'') [] gx_state = (HttpOk ''c1'', gx_listed)"
  by (simp add: gx_handler) (simp add: gx_listed_def empty_cache_def)

lemma gx_reached: "reach (exec_api gx_config) gx_state gx_listed"
  by (rule reach_step [OF reach_init, where c = "ApList 10 (kx_actor ''ann'') []"]) (simp add: gx_first)

text \<open>One user's listing of his own corrections is served to another user.\<close>

lemma other_users_page:
  "list_corrections_handler gx_config 20 (kx_actor ''bob'') [] gx_listed = (HttpOk ''c1'', gx_listed)"
  "fst (list_corrections_handler gx_config 20 (kx_actor ''bob'') [] gx_state) = HttpOk []"
  by (simp_all add: gx_handler)

text \<open>
  A listing computed between the two steps of a write puts the old page back, and the page is served
  after the commit, until it expires.
\<close>

lemma old_page_survives_write:
  "case create_correction_request (kx_env 5 ''c9'') kx_payload (kx_actor ''ann'') gx_listed of (answer, pending, s1) \<Rightarrow>
   case list_corrections_handler gx_config 6 (kx_actor ''ann'') [] s1 of (page, s2) \<Rightarrow>
   case list_corrections_handler gx_config 7 (kx_actor ''ann'') [] (session_commit pending s2) of (page', s3) \<Rightarrow>
     page = HttpOk ''c1'' \<and> page' = HttpOk ''c1'' \<and> map mc_id (k_corrections (ap_ledger s3)) = [''c1'', ''c9'']"
  by code_simp

theorem listing_is_of_the_ledger_witness:
  "\<exists>db a p. dispatched db kx_db1 \<and> ''c1'' = ac_page_text gx_config (list_corrections (query_of p) a db)"
  using listing_is_of_the_ledger [OF gx_reached _ other_users_page(1)] by auto

theorem read_your_correction_witness:
  "\<exists>d s1. cancel_correction_handler (kx_env 5 []) ''c1'' (kx_actor ''ann'') gx_listed = (HttpOk d, s1) \<and>
    fst (list_corrections_handler gx_config 20 (kx_actor ''ann'') [] s1) =
      HttpOk (ac_page_text gx_config (list_corrections (query_of gx_params) (kx_actor ''ann'') (ap_ledger s1)))"
proof -
  let ?h = "cancel_correction_handler (kx_env 5 []) ''c1'' (kx_actor ''ann'')"
  have w: "correction_write ?h" unfolding correction_write_def by blast
  have "\<exists>d. fst (?h gx_listed) = HttpOk d"
    by (simp add: cancel_correction_handler_def write_steps cancel_correction_def get_owned_def
        get_correction_def kx_tables kx_fields written_def kx_put Let_def)
  then obtain d s1 where h: "?h gx_listed = (HttpOk d, s1)"
    by (cases "?h gx_listed") auto
  from read_your_correction [OF w h, of gx_config "[]" gx_params] h show ?thesis by auto
qed

end
