(* ===== verification/Auth_Inv.thy ===== *)
theory Auth_Inv
  imports Auth_Gate
begin

text \<open>
  What every entry of the session store satisfies, and that every call keeps it.
\<close>

section \<open>Keys\<close>

lemma key_classes [simp]:
  "state_key x \<noteq> session_key y" "state_key x \<noteq> bearer_key y" "state_key x \<noteq> audit_key_of y"
  "session_key x \<noteq> state_key y" "session_key x \<noteq> bearer_key y" "session_key x \<noteq> audit_key_of y"
  "bearer_key x \<noteq> state_key y" "bearer_key x \<noteq> session_key y" "bearer_key x \<noteq> audit_key_of y"
  "audit_key_of x \<noteq> state_key y" "audit_key_of x \<noteq> session_key y" "audit_key_of x \<noteq> bearer_key y"
  by (simp_all add: state_key_def session_key_def bearer_key_def audit_key_of_def)

lemma key_inj [simp]:
  "state_key x = state_key y \<longleftrightarrow> x = y" "session_key x = session_key y \<longleftrightarrow> x = y"
  "bearer_key x = bearer_key y \<longleftrightarrow> x = y" "audit_key_of x = audit_key_of y \<longleftrightarrow> x = y"
  by (simp_all add: state_key_def session_key_def bearer_key_def audit_key_of_def)

section \<open>Records\<close>

lemma from_to_record:
  "from_record (to_record c) sid =
     c\<lparr>ax_session_id := Some sid,
       ax_token_source := (if ax_token_source c \<noteq> [] then ax_token_source c
         else if ax_refresh_token c \<noteq> [] then ''oauth'' else ''unknown'')\<rparr>"
  by (cases c; cases "ax_expires_at c")
    (auto simp: from_record_def to_record_def dget_def dget_or_def as_dict_def json_or_def)

lemma read_dump_item: "read_item (dump_item x) = Some x"
  by (simp add: read_item_def dump_item_def str_field_def)

section \<open>The invariant\<close>

text \<open>
  The access tokens that the user center vouches for, the sign-in states and the session ids that
  may be in the store.
\<close>

record grants =
  gr_tokens :: "string set"
  gr_states :: "string set"
  gr_sids :: "string set"

definition uc_ok :: "grants \<Rightarrow> user_center \<Rightarrow> bool" where
  "uc_ok gr uc \<longleftrightarrow>
     (\<forall>code state tok a. uc_exchange uc code state = Inr tok \<longrightarrow> tk_access tok = Some a \<longrightarrow> a \<in> gr_tokens gr) \<and>
     (\<forall>r tok a. uc_refresh uc r = Inr tok \<longrightarrow> tk_access tok = Some a \<longrightarrow> a \<in> gr_tokens gr) \<and>
     (\<forall>a e. uc_check uc a = Inr e \<longrightarrow> a \<in> gr_tokens gr)"

definition entry_ok ::
  "grants \<Rightarrow> auth_settings \<Rightarrow> (string \<Rightarrow> string) \<Rightarrow> string \<Rightarrow> time \<Rightarrow> dict \<Rightarrow> bool" where
  "entry_ok gr st sha k e d \<longleftrightarrow>
     (\<forall>x. k = state_key x \<longrightarrow> x \<in> gr_states gr \<and> (\<exists>p. d = [(''next'', JStr (safe_next p))])) \<and>
     (\<forall>x. k = session_key x \<longrightarrow> x \<in> gr_sids gr \<and> (\<exists>c. d = to_record c \<and> ax_access_token c \<in> gr_tokens gr \<and>
        ax_token_source c \<in> {''oauth'', ''portal''} \<and> ax_expires_at c \<noteq> None)) \<and>
     (\<forall>x. k = bearer_key x \<longrightarrow> (\<exists>c. d = to_record c \<and> ax_access_token c \<in> gr_tokens gr \<and>
        x = sha (ax_access_token c) \<and> ax_token_source c = ''bearer'' \<and>
        (case ax_expires_at c of None \<Rightarrow> True | Some m \<Rightarrow> e \<le> m))) \<and>
     (\<forall>x. k = audit_key_of x \<longrightarrow> (\<exists>xs. d = [(''items'', JList (map (JObj \<circ> dump_item) xs))] \<and>
        length xs \<le> nat (max 1 (st_audit_max_items st))))"

abbreviation store_ok :: "grants \<Rightarrow> auth_settings \<Rightarrow> (string \<Rightarrow> string) \<Rightarrow> jstore \<Rightarrow> bool" where
  "store_ok gr st sha \<equiv> entries_ok (entry_ok gr st sha)"

definition context_ok :: "grants \<Rightarrow> time \<Rightarrow> auth_context \<Rightarrow> bool" where
  "context_ok gr t c \<longleftrightarrow> ax_access_token c \<in> gr_tokens gr \<and>
     (case ax_expires_at c of None \<Rightarrow> True | Some e \<Rightarrow> t < e)"

definition session_ok :: "grants \<Rightarrow> auth_context \<Rightarrow> bool" where
  "session_ok gr c \<longleftrightarrow> ax_access_token c \<in> gr_tokens gr \<and> ax_token_source c \<in> {''oauth'', ''portal''} \<and>
     ax_expires_at c \<noteq> None"

lemma entry_ok_session: "entry_ok gr st sha (session_key sid) e d \<longleftrightarrow>
    sid \<in> gr_sids gr \<and> (\<exists>c. d = to_record c \<and> session_ok gr c)"
  by (auto simp: entry_ok_def session_ok_def)

lemma entry_ok_session_from:
  "entry_ok gr st sha (session_key sid) e d \<Longrightarrow> session_ok gr (from_record d sid)"
  by (auto simp: entry_ok_session from_to_record session_ok_def)

lemma entry_ok_state: "entry_ok gr st sha (state_key x) e d \<longleftrightarrow>
    x \<in> gr_states gr \<and> (\<exists>p. d = [(''next'', JStr (safe_next p))])"
  by (auto simp: entry_ok_def)

lemma entry_ok_bearer: "entry_ok gr st sha (bearer_key x) e d \<longleftrightarrow>
    (\<exists>c. d = to_record c \<and> ax_access_token c \<in> gr_tokens gr \<and> x = sha (ax_access_token c) \<and>
       ax_token_source c = ''bearer'' \<and> (case ax_expires_at c of None \<Rightarrow> True | Some m \<Rightarrow> e \<le> m))"
  by (auto simp: entry_ok_def)

lemma entry_ok_audit: "entry_ok gr st sha (audit_key_of x) e d \<longleftrightarrow>
    (\<exists>xs. d = [(''items'', JList (map (JObj \<circ> dump_item) xs))] \<and>
       length xs \<le> nat (max 1 (st_audit_max_items st)))"
  by (auto simp: entry_ok_def)

section \<open>The calls keep it\<close>

lemma keeps_get:
  "(\<And>r. (\<And>d. r = Some d \<Longrightarrow> \<exists>e. t < e \<and> entry_ok gr st sha k e d) \<Longrightarrow> Q r) \<Longrightarrow>
   keeps (store_ok gr st sha) (acall (mem_get t k)) Q"
  by (rule keeps_acall) (auto simp: mem_get_live entries_ok_ops entries_ok_live)

lemma keeps_pop:
  "(\<And>r. (\<And>d. r = Some d \<Longrightarrow> \<exists>e. t < e \<and> entry_ok gr st sha k e d) \<Longrightarrow> Q r) \<Longrightarrow>
   keeps (store_ok gr st sha) (acall (mem_pop t k)) Q"
  by (rule keeps_acall) (auto simp: mem_pop_live entries_ok_ops entries_ok_live)

lemma keeps_touch_session: "keeps (store_ok gr st sha) (touch_session st t sid) (\<lambda>u. True)"
  unfolding touch_session_def
  by (rule keeps_abind [where R = "\<lambda>x. True"], rule keeps_acall)
    (auto simp: entry_ok_session intro!: entries_ok_ops keeps_intro)

lemma keeps_delete_session: "keeps (store_ok gr st sha) (delete_session sid) (\<lambda>u. True)"
  unfolding delete_session_def by (auto intro!: keeps_intro entries_ok_ops)

lemma keeps_save_session:
  "session_ok gr c \<Longrightarrow> existing \<or> opt_str (ax_session_id c) \<in> gr_sids gr \<Longrightarrow>
   keeps (store_ok gr st sha) (save_session st t c existing) (\<lambda>u. True)"
  unfolding save_session_def Let_def
  by (auto simp: entry_ok_session intro!: keeps_intro entries_ok_ops keeps_acall
      keeps_abind [where R = "\<lambda>x. True"])

lemma auth_of_uc_Inr: "auth_of_uc r = Inr x \<longleftrightarrow> r = Inr x"
  by (auto simp: auth_of_uc_def split: sum.splits)

definition fresh_ok :: "grants \<Rightarrow> time \<Rightarrow> auth_context \<Rightarrow> bool" where
  "fresh_ok gr t c \<longleftrightarrow> session_ok gr c \<and> context_ok gr t c"

lemma fresh_ok_id [simp]: "fresh_ok gr t (c\<lparr>ax_session_id := x\<rparr>) = fresh_ok gr t c"
  by (simp add: fresh_ok_def session_ok_def context_ok_def)

lemma session_ok_id [simp]: "session_ok gr (c\<lparr>ax_session_id := x\<rparr>) = session_ok gr c"
  by (simp add: session_ok_def)

lemma context_from_token_ok:
  assumes "context_from_token uc t tok = Inr c" and "\<And>a. tk_access tok = Some a \<Longrightarrow> a \<in> gr_tokens gr"
  shows "fresh_ok gr t c"
proof -
  have "opt_str (tk_access tok) \<noteq> []" using assms(1) by (auto simp: context_from_token_def Let_def split: if_splits)
  then obtain a where a: "tk_access tok = Some a" by (cases "tk_access tok") (simp_all add: opt_str_def)
  with assms show ?thesis
    by (auto simp: context_from_token_def Let_def opt_str_def fresh_ok_def session_ok_def context_ok_def
        elim!: rbindE split: if_splits)
qed

lemma safe_next_idem [simp]: "safe_next (safe_next p) = safe_next p"
  by (auto simp: safe_next_def OVERVIEW_PATH_def)

lemma safe_next_nonempty [simp]: "safe_next p \<noteq> []"
  by (auto simp: safe_next_def OVERVIEW_PATH_def)

lemma keeps_create_login_url:
  "state \<in> gr_states gr \<Longrightarrow> keeps (store_ok gr st sha) (create_login_url st t p state) (\<lambda>x. True)"
  unfolding create_login_url_def
  by (auto simp: entry_ok_state intro!: keeps_intro entries_ok_ops keeps_abind [where R = "\<lambda>x. True"]
      split: sum.split)

lemma keeps_complete_login:
  assumes "uc_ok gr uc" and "sid \<in> gr_sids gr"
  shows "keeps (store_ok gr st sha) (complete_login st uc t code state sid)
    (\<lambda>(c, p). fresh_ok gr t c \<and> (\<exists>q. p = safe_next q))"
proof -
  have ex: "\<And>c. rbind (auth_of_uc (uc_exchange uc code state)) (context_from_token uc t) = Inr c \<Longrightarrow>
      fresh_ok gr t c"
    using assms(1) by (auto simp: uc_ok_def auth_of_uc_Inr intro!: context_from_token_ok elim!: rbindE)
  show ?thesis
    unfolding complete_login_def
  proof (rule keeps_abind [OF keeps_pop])
    fix r assume "\<And>d. r = Some d \<Longrightarrow> \<exists>e. t < e \<and> entry_ok gr st sha (state_key state) e d"
    then show "\<forall>d. r = Some d \<longrightarrow> (\<exists>p. d = [(''next'', JStr (safe_next p))])"
      by (auto simp: entry_ok_state)
  next
    fix r assume r: "\<forall>d. r = Some d \<longrightarrow> (\<exists>p. d = [(''next'', JStr (safe_next p))])"
    show "keeps (store_ok gr st sha)
        (case r of None \<Rightarrow> araise (AuthError 400 ''state'')
         | Some d \<Rightarrow> abind (alift (rbind (auth_of_uc (uc_exchange uc code state)) (context_from_token uc t)))
             (\<lambda>c0. let c = c0\<lparr>ax_session_id := Some sid\<rparr>
                   in abind (save_session st t c False)
                        (\<lambda>u. aret (c, py_str (json_or (dget d ''next'') (JStr OVERVIEW_PATH))))))
        (\<lambda>(c, p). fresh_ok gr t c \<and> (\<exists>q. p = safe_next q))"
    proof (cases r)
      case None
      then show ?thesis by (simp add: keeps_araise)
    next
      case (Some d)
      with r obtain p where d: "d = [(''next'', JStr (safe_next p))]" by blast
      then have n: "py_str (json_or (dget d ''next'') (JStr OVERVIEW_PATH)) = safe_next p"
        by (simp add: dget_def json_or_def)
      show ?thesis
        unfolding Some option.case Let_def n
        by (rule keeps_abind [OF keeps_alift, where R = "fresh_ok gr t"], erule ex,
            rule keeps_abind [OF keeps_save_session])
          (use assms(2) in \<open>auto simp: opt_str_def fresh_ok_def session_ok_def context_ok_def intro!: keeps_aret\<close>)
    qed
  qed
qed

lemma keeps_refresh_by_token:
  assumes "uc_ok gr uc"
  shows "keeps (store_ok gr st sha) (refresh_by_token st uc t sid current) (fresh_ok gr t)"
proof (cases "uc_refresh uc (ax_refresh_token current)")
  case (Inl e)
  then show ?thesis
    by (cases e) (auto simp: refresh_by_token_def intro!: keeps_abind [where R = "\<lambda>x. True"]
        keeps_araise keeps_delete_session keeps_aret)
next
  case (Inr tok0)
  let ?tok = "if opt_str (tk_refresh tok0) = [] then tok0\<lparr>tk_refresh := Some (ax_refresh_token current)\<rparr> else tok0"
  have "\<And>a. tk_access tok0 = Some a \<Longrightarrow> a \<in> gr_tokens gr" using assms Inr by (auto simp: uc_ok_def)
  then have iss: "tk_access ?tok = Some a \<Longrightarrow> a \<in> gr_tokens gr" for a by (auto split: if_splits)
  have ex: "\<And>c. context_from_token uc t ?tok = Inr c \<Longrightarrow> fresh_ok gr t c"
    by (erule context_from_token_ok) (rule iss)
  show ?thesis
    unfolding refresh_by_token_def Inr sum.case Let_def
    by (rule keeps_abind [OF keeps_alift, where R = "fresh_ok gr t"], erule ex,
        rule keeps_abind [OF keeps_save_session])
      (auto simp: fresh_ok_def session_ok_def context_ok_def intro!: keeps_aret)
qed

lemma keeps_refresh_by_check:
  assumes "session_ok gr current"
  shows "keeps (store_ok gr st sha) (refresh_by_check st uc t sid current) (fresh_ok gr t)"
proof -
  have s: "session_ok gr \<lparr>ax_access_token = ax_access_token current, ax_permission_info = info,
      ax_expires_at = Some e, ax_session_id = Some sid, ax_refresh_token = [],
      ax_token_source = ax_token_source current\<rparr>" for info e
    using assms by (simp add: session_ok_def)
  show ?thesis
    unfolding refresh_by_check_def Let_def
    using s assms
    by (auto simp: fresh_ok_def context_ok_def session_ok_def split: sum.split option.split
        intro!: keeps_abind [where R = "\<lambda>x. True"] keeps_araise keeps_delete_session keeps_aret
          keeps_save_session)
qed

lemma keeps_refresh_session:
  assumes "uc_ok gr uc"
  shows "keeps (store_ok gr st sha) (refresh_session st uc t sid previous)
    (\<lambda>c. session_ok gr c \<and> ((\<exists>p. previous = Some p \<and> ax_access_token c \<noteq> ax_access_token p) \<or> fresh_ok gr t c))"
  unfolding refresh_session_def
proof (rule keeps_abind [OF keeps_get])
  fix r assume "\<And>d. r = Some d \<Longrightarrow> \<exists>e. t < e \<and> entry_ok gr st sha (session_key sid) e d"
  then show "\<forall>d. r = Some d \<longrightarrow> session_ok gr (from_record d sid)"
    by (blast intro: entry_ok_session_from)
next
  fix r assume r: "\<forall>d. r = Some d \<longrightarrow> session_ok gr (from_record d sid)"
  show "keeps (store_ok gr st sha)
      (case r of None \<Rightarrow> araise (AuthError 401 ''login-expired'')
       | Some d \<Rightarrow> let current = from_record d sid in
           if case previous of None \<Rightarrow> False | Some p \<Rightarrow> ax_access_token current \<noteq> ax_access_token p
           then abind (touch_session st t sid) (\<lambda>u. aret current)
           else if ax_refresh_token current = [] then refresh_by_check st uc t sid current
           else refresh_by_token st uc t sid current)
      (\<lambda>c. session_ok gr c \<and> ((\<exists>p. previous = Some p \<and> ax_access_token c \<noteq> ax_access_token p) \<or> fresh_ok gr t c))"
  proof (cases r)
    case None
    then show ?thesis by (simp add: keeps_araise)
  next
    case (Some d)
    with r have ok: "session_ok gr (from_record d sid)" by simp
    show ?thesis
      unfolding Some option.case Let_def
    proof (intro keeps_if)
      assume "case previous of None \<Rightarrow> False | Some p \<Rightarrow> ax_access_token (from_record d sid) \<noteq> ax_access_token p"
      then show "keeps (store_ok gr st sha) (abind (touch_session st t sid) (\<lambda>u. aret (from_record d sid)))
          (\<lambda>c. session_ok gr c \<and> ((\<exists>p. previous = Some p \<and> ax_access_token c \<noteq> ax_access_token p) \<or> fresh_ok gr t c))"
        using ok by (intro keeps_abind [OF keeps_touch_session] keeps_aret) (auto split: option.splits)
    next
      show "keeps (store_ok gr st sha) (refresh_by_check st uc t sid (from_record d sid))
          (\<lambda>c. session_ok gr c \<and> ((\<exists>p. previous = Some p \<and> ax_access_token c \<noteq> ax_access_token p) \<or> fresh_ok gr t c))"
        by (rule keeps_weaken [OF keeps_refresh_by_check [OF ok]]) (simp add: fresh_ok_def)
    next
      show "keeps (store_ok gr st sha) (refresh_by_token st uc t sid (from_record d sid))
          (\<lambda>c. session_ok gr c \<and> ((\<exists>p. previous = Some p \<and> ax_access_token c \<noteq> ax_access_token p) \<or> fresh_ok gr t c))"
        by (rule keeps_weaken [OF keeps_refresh_by_token [OF assms]]) (simp add: fresh_ok_def)
    qed
  qed
qed

lemma get_session_unfold:
  "get_session st uc t sid s =
     (case live t (session_key sid) s of
        None \<Rightarrow> (Inl (AuthError 401 ''login-expired''), snd (mem_get t (session_key sid) s))
      | Some d \<Rightarrow>
          let c = from_record d sid in
          if (case ax_expires_at c of None \<Rightarrow> False | Some e \<Rightarrow> e \<le> t + 30)
          then (if ax_refresh_token c = [] then refresh_by_check st uc t sid c s
                else refresh_by_token st uc t sid c s)
          else abind (touch_session st t sid) (\<lambda>u. aret c) s)"
proof (cases "live t (session_key sid) s")
  case None
  then have "fst (mem_get t (session_key sid) s) = None" by (simp add: mem_get_live)
  then show ?thesis
    by (auto simp: get_session_def abind_def acall_def araise_def None split: prod.split)
next
  case (Some d)
  then have g: "mem_get t (session_key sid) s = (Some d, s)"
    by (auto simp: mem_get_def live_def split: option.splits if_splits)
  then show ?thesis
    by (auto simp: get_session_def refresh_session_def abind_def acall_def Some Let_def)
qed

lemma keeps_get_session:
  assumes "uc_ok gr uc"
  shows "keeps (store_ok gr st sha) (get_session st uc t sid) (fresh_ok gr t)"
  unfolding keeps_def
proof (intro allI impI)
  fix s assume s: "store_ok gr st sha s"
  show "store_ok gr st sha (snd (get_session st uc t sid s)) \<and>
      (\<forall>x. fst (get_session st uc t sid s) = Inr x \<longrightarrow> fresh_ok gr t x)"
  proof (cases "live t (session_key sid) s")
    case None
    with s show ?thesis by (simp add: get_session_unfold entries_ok_ops)
  next
    case (Some d)
    let ?c = "from_record d sid"
    from entries_ok_live [OF s Some] have ok: "session_ok gr ?c" by (blast intro: entry_ok_session_from)
    show ?thesis
    proof (cases "case ax_expires_at ?c of None \<Rightarrow> False | Some e \<Rightarrow> e \<le> t + 30")
      case True
      with Some s keeps_refresh_by_check [OF ok, of st sha uc t sid]
        keeps_refresh_by_token [OF assms, of st sha t sid ?c]
      show ?thesis by (simp add: get_session_unfold Let_def keeps_def)
    next
      case False
      have "fresh_ok gr t ?c"
        using ok False by (auto simp: fresh_ok_def context_ok_def session_ok_def split: option.splits)
      then have "keeps (store_ok gr st sha) (abind (touch_session st t sid) (\<lambda>u. aret ?c)) (fresh_ok gr t)"
        by (intro keeps_abind [OF keeps_touch_session] keeps_aret)
      with False Some s show ?thesis by (simp add: get_session_unfold Let_def keeps_def)
    qed
  qed
qed

lemma check_vouches:
  "uc_ok gr uc \<Longrightarrow> auth_of_uc (check_and_permissions uc tok) = Inr x \<Longrightarrow> tok \<in> gr_tokens gr"
  by (auto simp: uc_ok_def auth_of_uc_Inr check_and_permissions_def elim!: rbindE)

lemma bearer_entry:
  assumes "tok \<in> gr_tokens gr" and "\<not> expired t ex"
  shows "entry_ok gr st sha (bearer_key (sha tok)) (t + bearer_ttl st t ex)
    (to_record (checked_context tok ''bearer'' ex info))"
  unfolding entry_ok_bearer
  by (rule exI [of _ "checked_context tok ''bearer'' ex info"])
    (use assms in \<open>auto simp: checked_context_def expired_def bearer_ttl_def split: option.splits\<close>)

lemma checked_context_ok: "tok \<in> gr_tokens gr \<Longrightarrow> \<not> expired t ex \<Longrightarrow> context_ok gr t (checked_context tok src ex info)"
  by (auto simp: context_ok_def checked_context_def expired_def split: option.splits)

lemma keeps_fetch_bearer:
  assumes "uc_ok gr uc"
  shows "keeps (store_ok gr st sha) (fetch_bearer st sha uc t tok)
    (\<lambda>c. context_ok gr t c \<and> ax_access_token c = tok \<and> ax_token_source c = ''bearer'')"
  unfolding fetch_bearer_def Let_def
proof (rule keeps_abind [OF keeps_alift, where R = "\<lambda>x. tok \<in> gr_tokens gr"])
  show "\<And>x. auth_of_uc (check_and_permissions uc tok) = Inr x \<Longrightarrow> tok \<in> gr_tokens gr"
    by (rule check_vouches [OF assms])
next
  fix x :: "int option \<times> dict" assume tok: "tok \<in> gr_tokens gr"
  show "keeps (store_ok gr st sha) (case x of (exp, info) \<Rightarrow>
      if expired t (positive_exp exp) then araise (AuthError 401 ''token-expired'')
      else abind (awrite (mem_set t (bearer_key (sha tok))
             (to_record (checked_context tok ''bearer'' (positive_exp exp) info)) (bearer_ttl st t (positive_exp exp))))
           (\<lambda>u. aret (checked_context tok ''bearer'' (positive_exp exp) info)))
      (\<lambda>c. context_ok gr t c \<and> ax_access_token c = tok \<and> ax_token_source c = ''bearer'')"
    using bearer_entry [OF tok] checked_context_ok [OF tok]
    by (cases x) (auto simp: checked_context_def intro!: keeps_intro entries_ok_ops
        keeps_abind [where R = "\<lambda>u. True"])
qed

lemma keeps_resolve_bearer:
  assumes "uc_ok gr uc" and "inj sha"
  shows "keeps (store_ok gr st sha) (resolve_bearer st sha uc t tok)
    (\<lambda>c. context_ok gr t c \<and> ax_access_token c = tok \<and> ax_token_source c = ''bearer'')"
  unfolding resolve_bearer_def
proof (rule keeps_abind [OF keeps_get])
  fix r assume "\<And>d. r = Some d \<Longrightarrow> \<exists>e. t < e \<and> entry_ok gr st sha (bearer_key (sha tok)) e d"
  then show "\<forall>d. r = Some d \<longrightarrow> context_ok gr t ((from_record d [])\<lparr>ax_token_source := ''bearer''\<rparr>) \<and>
      ax_access_token (from_record d []) = tok"
    using assms(2) by (fastforce simp: entry_ok_bearer from_to_record context_ok_def dest: injD split: option.splits)
next
  fix r assume "\<forall>d. r = Some d \<longrightarrow> context_ok gr t ((from_record d [])\<lparr>ax_token_source := ''bearer''\<rparr>) \<and>
      ax_access_token (from_record d []) = tok"
  then show "keeps (store_ok gr st sha)
     (case r of Some d \<Rightarrow> aret ((from_record d [])\<lparr>ax_token_source := ''bearer''\<rparr>)
      | None \<Rightarrow> fetch_bearer st sha uc t tok)
     (\<lambda>c. context_ok gr t c \<and> ax_access_token c = tok \<and> ax_token_source c = ''bearer'')"
    by (cases r) (auto intro!: keeps_aret keeps_fetch_bearer [OF assms(1)])
qed

lemma keeps_create_session:
  assumes "uc_ok gr uc" and sid: "sid \<in> gr_sids gr"
  shows "keeps (store_ok gr st sha) (create_session_from_access_token st uc t tok sid) (fresh_ok gr t)"
  unfolding create_session_from_access_token_def Let_def
proof (rule keeps_abind [OF keeps_alift, where R = "\<lambda>x. tok \<in> gr_tokens gr"])
  show "\<And>x. auth_of_uc (check_and_permissions uc tok) = Inr x \<Longrightarrow> tok \<in> gr_tokens gr"
    by (rule check_vouches [OF assms(1)])
next
  fix x :: "int option \<times> dict" assume tok: "tok \<in> gr_tokens gr"
  have ok: "\<not> e \<le> t \<Longrightarrow> fresh_ok gr t (checked_context tok ''portal'' (Some e) info)" for e info
    using tok by (simp add: fresh_ok_def session_ok_def context_ok_def checked_context_def)
  show "keeps (store_ok gr st sha) (case x of (exp, info) \<Rightarrow>
      case positive_exp exp of None \<Rightarrow> araise (AuthError 502 ''no-expiry'')
      | Some e \<Rightarrow> if e \<le> t then araise (AuthError 401 ''token-expired'')
          else abind (save_session st t ((checked_context tok ''portal'' (Some e) info)\<lparr>ax_session_id := Some sid\<rparr>) False)
                 (\<lambda>u. aret ((checked_context tok ''portal'' (Some e) info)\<lparr>ax_session_id := Some sid\<rparr>)))
      (fresh_ok gr t)"
    using ok ok [unfolded fresh_ok_def] sid
    by (cases x) (auto simp: opt_str_def intro!: keeps_intro keeps_abind [OF keeps_save_session] split: option.split)
qed

lemma payload_items_dump: "payload_items (Some [(''items'', JList xs)]) = xs"
  by (simp add: payload_items_def as_list_def dget_def)

lemma keeps_record_operation:
  assumes "store_ok gr st sha' s"
  shows "store_ok gr st sha' (record_operation st valid sha t fresh now_iso c n s)"
proof (cases "audit_key st valid sha c")
  case (Inl e)
  with assms show ?thesis by (simp add: record_operation_def)
next
  case (Inr key)
  then obtain x where key: "key = audit_key_of x" by (auto simp: audit_key_def elim!: rbindE)
  let ?r = "fst (mem_get t key s)"
  have "\<exists>xs. payload_items ?r = map (JObj \<circ> dump_item) xs"
  proof (cases ?r)
    case None
    then show ?thesis by (auto simp: payload_items_def as_list_def dget_def)
  next
    case (Some d)
    then have "live t key s = Some d" by (simp add: mem_get_live)
    from entries_ok_live [OF assms this] show ?thesis
      unfolding Some by (auto simp: key entry_ok_audit payload_items_dump)
  qed
  then obtain xs where xs: "payload_items ?r = map (JObj \<circ> dump_item) xs" by blast
  let ?n = "nat (max 1 (st_audit_max_items st))"
  have "entry_ok gr st sha' key (t + st_audit_ttl_seconds st)
      [(''items'', JList (take ?n (JObj (dump_item y) # payload_items ?r)))]" for y
    unfolding key entry_ok_audit
    by (rule exI [of _ "take ?n (y # xs)"]) (use xs key in \<open>simp add: take_map [symmetric]\<close>)
  then show ?thesis
    unfolding record_operation_def Inr sum.case Let_def case_prod_beta
    by (intro entries_ok_ops) (simp_all add: entries_ok_ops assms)
qed

lemma keeps_logout: "keeps (store_ok gr st sha) (logout st sha uc c) (\<lambda>b. True)"
  unfolding logout_def Let_def
  by (rule keeps_abind [where R = "\<lambda>x. True"])
    (auto intro!: keeps_intro keeps_delete_session entries_ok_ops keeps_abind [where R = "\<lambda>x. True"])

lemma keeps_logout_session: "keeps (store_ok gr st sha) (logout_session st sha uc t sid) (\<lambda>b. True)"
  unfolding logout_session_def Let_def
  by (rule keeps_abind [OF keeps_pop, where R = "\<lambda>x. True"])
    (auto intro!: keeps_intro keeps_abind [OF keeps_logout] split: option.split)

end
