(* ===== verification/Auth_Safety.thy ===== *)
theory Auth_Safety
  imports Auth_Inv Systems
begin

text \<open>
  The session store under the requests of all users: nobody acts without a token that the user
  center vouches for, bearer tokens are never used after they expire, sign-in states are used
  once, sign-out ends the session, and the trail of operations.
\<close>

section \<open>The gate\<close>

definition gate_ok :: "grants \<Rightarrow> auth_world \<Rightarrow> gate_env \<Rightarrow> http_request \<Rightarrow> auth_context \<Rightarrow> bool" where
  "gate_ok gr w env req c \<longleftrightarrow>
     (if st_enabled (aw_settings w)
      then context_ok gr (ge_now env) c \<and>
        (case hr_bearer req of Some (scheme, tok) \<Rightarrow> ax_access_token c = tok | None \<Rightarrow> True)
      else st_allow_insecure_dev_context (aw_settings w) \<and> c = dev_context (aw_settings w))"

lemma keeps_portal_login:
  assumes "uc_ok gr (aw_uc w)" and "ge_sid env \<in> gr_sids gr"
  shows "keeps (store_ok gr (aw_settings w) (aw_sha w)) (portal_login w env req tok)
    (\<lambda>(c, p). fresh_ok gr (ge_now env) c)"
  unfolding portal_login_def
  by (rule keeps_abind [OF keeps_create_session [OF assms]],
      rule keeps_abind [where R = "\<lambda>u. True"])
    (auto intro!: keeps_aret keeps_awrite keeps_record_operation)

lemma keeps_without_session:
  assumes "uc_ok gr (aw_uc w)" and "ge_sid env \<in> gr_sids gr"
  shows "keeps (store_ok gr (aw_settings w) (aw_sha w)) (without_session w env req err)
    (\<lambda>(c, p). fresh_ok gr (ge_now env) c)"
  unfolding without_session_def Let_def
  by (rule keeps_abind [OF keeps_alift, where R = "\<lambda>x. True"])
    (auto intro!: keeps_araise keeps_portal_login [OF assms])

lemma keeps_gate:
  assumes uc: "uc_ok gr (aw_uc w)" and i: "inj (aw_sha w)" and sid: "ge_sid env \<in> gr_sids gr"
  shows "keeps (store_ok gr (aw_settings w) (aw_sha w)) (require_authenticated_user w env req)
    (\<lambda>(c, p). gate_ok gr w env req c)"
proof -
  let ?st = "aw_settings w"
  have fo: "fresh_ok gr (ge_now env) c \<Longrightarrow> context_ok gr (ge_now env) c" for c
    by (simp add: fresh_ok_def)
  show ?thesis
  proof (cases "st_enabled ?st")
    case False
    then show ?thesis
      by (auto simp: require_authenticated_user_def gate_ok_def Let_def intro!: keeps_aret keeps_araise)
  next
    case en: True
    show ?thesis
    proof (cases "hr_bearer req")
      case (Some b)
      then show ?thesis
        using en
        by (cases b) (auto simp: require_authenticated_user_def gate_ok_def intro!: keeps_aret keeps_araise
            keeps_abind [OF keeps_resolve_bearer [OF uc i]])
    next
      case None
      note w = keeps_without_session [OF uc sid, of req, unfolded keeps_def, rule_format]
      note g = keeps_get_session [OF uc, of ?st "aw_sha w", unfolded keeps_def, rule_format]
      show ?thesis
        unfolding keeps_def
      proof (intro allI impI)
        fix s assume s: "store_ok gr ?st (aw_sha w) s"
        let ?sid = "opt_str (hr_cookies req (st_session_cookie_name ?st))"
        obtain r s1 where r: "get_session ?st (aw_uc w) (ge_now env) ?sid s = (r, s1)"
          by (cases "get_session ?st (aw_uc w) (ge_now env) ?sid s")
        have s1: "store_ok gr ?st (aw_sha w) s1" using g [OF s, of "ge_now env" ?sid] r by simp
        have rc: "r = Inr c \<Longrightarrow> context_ok gr (ge_now env) c" for c
          using g [OF s, of "ge_now env" ?sid] r fo by simp
        have w1: "store_ok gr ?st (aw_sha w) (snd (without_session w env req err s')) \<and>
            (\<forall>x. fst (without_session w env req err s') = Inr x \<longrightarrow> (case x of (c, p) \<Rightarrow> gate_ok gr w env req c))"
          if "store_ok gr ?st (aw_sha w) s'" for err s'
          using w [OF that, of err] fo en None by (auto simp: gate_ok_def)
        show "store_ok gr ?st (aw_sha w) (snd (require_authenticated_user w env req s)) \<and>
            (\<forall>x. fst (require_authenticated_user w env req s) = Inr x \<longrightarrow>
               (case x of (c, p) \<Rightarrow> gate_ok gr w env req c))"
          using en None w1 [OF s] w1 [OF s1] s1 rc
          by (auto simp: require_authenticated_user_def Let_def r gate_ok_def
              split: sum.split auth_error.split bool.split)
      qed
    qed
  qed
qed

section \<open>The system\<close>

datatype auth_cmd =
    GLoginUrl time string string
  | GCallback gate_env http_request callback_query
  | GRequest gate_env http_request
  | GRefresh gate_env http_request
  | GLogout gate_env http_request

fun exec_auth :: "(nat \<Rightarrow> user_center) \<Rightarrow> auth_world \<Rightarrow> nat \<times> auth_cmd \<Rightarrow> jstore \<Rightarrow> unit + jstore" where
  \<comment> \<open>the number selects the state of the user center during the call\<close>
  "exec_auth ucs w (n, GLoginUrl t p state) s = Inr (snd (get_login_url (w\<lparr>aw_uc := ucs n\<rparr>) t p state s))"
| "exec_auth ucs w (n, GCallback env req q) s = Inr (snd (oauth_callback (w\<lparr>aw_uc := ucs n\<rparr>) env req q s))"
| "exec_auth ucs w (n, GRequest env req) s =
     Inr (snd (require_authenticated_user (w\<lparr>aw_uc := ucs n\<rparr>) env req s))"
| "exec_auth ucs w (n, GRefresh env req) s =
     Inr (snd (abind (require_authenticated_user (w\<lparr>aw_uc := ucs n\<rparr>) env req)
       (\<lambda>(c, p). refresh_endpoint (w\<lparr>aw_uc := ucs n\<rparr>) env req c) s))"
| "exec_auth ucs w (n, GLogout env req) s = Inr (snd (logout_endpoint (w\<lparr>aw_uc := ucs n\<rparr>) env req s))"

lemma keeps_callback:
  assumes "uc_ok gr (aw_uc w)" and "ge_sid env \<in> gr_sids gr" and s: "store_ok gr (aw_settings w) (aw_sha w) s"
  shows "store_ok gr (aw_settings w) (aw_sha w) (snd (oauth_callback w env req q s))"
proof -
  let ?st = "aw_settings w"
  let ?m = "complete_login ?st (aw_uc w) (ge_now env) (opt_str (cb_code q)) (opt_str (cb_state q)) (ge_sid env) s"
  obtain r s1 where r: "?m = (r, s1)" by (cases ?m)
  have s1: "store_ok gr ?st (aw_sha w) s1"
    using keepsD [OF keeps_complete_login [OF assms(1,2)] s r] by simp
  show ?thesis
    using s s1 keeps_record_operation [OF s1]
    by (auto simp: oauth_callback_def Let_def aret_def abind_def alift_def r
        split: sum.split auth_error.split prod.split)
qed

lemma keeps_logout_step:
  assumes "uc_ok gr (aw_uc w)" and "inj (aw_sha w)"
  shows "keeps (store_ok gr (aw_settings w) (aw_sha w)) (logout_step w env req) (\<lambda>x. True)"
  unfolding logout_step_def Let_def
  by (auto intro!: keeps_aret keeps_logout_session keeps_abind [OF keeps_resolve_bearer [OF assms]]
      keeps_abind [OF keeps_logout] split: option.split)

lemma keeps_logout_endpoint:
  assumes "uc_ok gr (aw_uc w)" and "inj (aw_sha w)" and s: "store_ok gr (aw_settings w) (aw_sha w) s"
  shows "store_ok gr (aw_settings w) (aw_sha w) (snd (logout_endpoint w env req s))"
proof -
  obtain r s1 where r: "logout_step w env req s = (r, s1)" by (cases "logout_step w env req s")
  have s1: "store_ok gr (aw_settings w) (aw_sha w) s1"
    using keepsD [OF keeps_logout_step [OF assms(1,2)] s r] by simp
  show ?thesis
    using s1 keeps_record_operation [OF s1]
    by (auto simp: logout_endpoint_def Let_def r split: sum.split auth_error.split option.split)
qed

lemma keeps_refresh_endpoint:
  assumes "uc_ok gr (aw_uc w)"
  shows "keeps (store_ok gr (aw_settings w) (aw_sha w)) (refresh_endpoint w env req c) (\<lambda>x. True)"
proof -
  have "keeps (store_ok gr (aw_settings w) (aw_sha w))
      (refresh_context (aw_settings w) (aw_uc w) (ge_now env) c) (\<lambda>x. True)"
    by (auto simp: refresh_context_def intro!: keeps_aret keeps_weaken [OF keeps_refresh_session [OF assms]])
  then show ?thesis
    unfolding refresh_endpoint_def
    by (auto intro!: keeps_abind [where R = "\<lambda>x. True"] keeps_awrite keeps_record_operation keeps_alift)
qed

fun admitted :: "grants \<Rightarrow> nat \<times> auth_cmd \<Rightarrow> bool" where
  \<comment> \<open>the fresh state or session id of the command is one of these\<close>
  "admitted gr (n, GLoginUrl t p state) \<longleftrightarrow> state \<in> gr_states gr"
| "admitted gr (n, GCallback env req q) \<longleftrightarrow> ge_sid env \<in> gr_sids gr"
| "admitted gr (n, GRequest env req) \<longleftrightarrow> ge_sid env \<in> gr_sids gr"
| "admitted gr (n, GRefresh env req) \<longleftrightarrow> ge_sid env \<in> gr_sids gr"
| "admitted gr (n, GLogout env req) \<longleftrightarrow> True"

lemma exec_auth_keeps:
  assumes uc: "\<And>n. uc_ok gr (ucs n)" and i: "inj (aw_sha w)" and ad: "admitted gr cmd"
    and s: "store_ok gr (aw_settings w) (aw_sha w) s" and e: "exec_auth ucs w cmd s = Inr s'"
  shows "store_ok gr (aw_settings w) (aw_sha w) s'"
proof -
  obtain n c where cmd: "cmd = (n, c)" by (cases cmd)
  let ?w = "w\<lparr>aw_uc := ucs n\<rparr>"
  have w: "uc_ok gr (aw_uc ?w)" "inj (aw_sha ?w)" using uc i by simp_all
  have s0: "store_ok gr (aw_settings ?w) (aw_sha ?w) s" using s by simp
  let ?I = "store_ok gr (aw_settings ?w) (aw_sha ?w)"
  have "store_ok gr (aw_settings ?w) (aw_sha ?w) s'"
  proof (cases c)
    case (GLoginUrl t p state)
    then have st: "state \<in> gr_states gr" using ad cmd by simp
    have "keeps (store_ok gr (aw_settings ?w) (aw_sha ?w)) (get_login_url ?w t p state) (\<lambda>x. True)"
      unfolding get_login_url_def Let_def
      by (auto intro!: keeps_aret keeps_araise keeps_abind [OF keeps_create_login_url [OF st]] split: prod.split)
    from keeps_store [where I = ?I, OF this s0] e cmd GLoginUrl show ?thesis by auto
  next
    case (GCallback env req q)
    with keeps_callback [OF w(1) _ s0] e cmd ad show ?thesis by auto
  next
    case (GRequest env req)
    with keeps_store [where I = ?I, OF keeps_gate [OF w] s0] e cmd ad show ?thesis by auto
  next
    case (GRefresh env req)
    then have sid: "ge_sid env \<in> gr_sids gr" using ad cmd by simp
    have "keeps (store_ok gr (aw_settings ?w) (aw_sha ?w))
        (abind (require_authenticated_user ?w env req) (\<lambda>(c, p). refresh_endpoint ?w env req c)) (\<lambda>x. True)"
      by (rule keeps_abind [OF keeps_gate [OF w sid]]) (simp only: split_paired_all prod.case, rule keeps_refresh_endpoint [OF w(1)])
    from keeps_store [where I = ?I, OF this s0] e cmd GRefresh show ?thesis by auto
  next
    case (GLogout env req)
    with keeps_logout_endpoint [OF w s0] e cmd show ?thesis by auto
  qed
  then show ?thesis by simp
qed

lemma run_auth_keeps:
  assumes "\<And>n. uc_ok gr (ucs n)" and "inj (aw_sha w)" and "list_all (admitted gr) cmds"
    and "store_ok gr (aw_settings w) (aw_sha w) s"
  shows "store_ok gr (aw_settings w) (aw_sha w) (run_cmds (exec_auth ucs w) cmds s)"
  using assms(3,4)
proof (induction cmds arbitrary: s)
  case (Cons cmd cmds)
  have ad: "admitted gr cmd" using Cons.prems by simp
  show ?case
  proof (cases "exec_auth ucs w cmd s")
    case (Inr s')
    from exec_auth_keeps [OF assms(1,2) ad Cons.prems(2) Inr] Cons Inr show ?thesis by simp
  qed (use Cons in simp)
qed simp

definition vouched :: "(nat \<Rightarrow> user_center) \<Rightarrow> string set" where
  \<comment> \<open>the access tokens that the user center hands out or confirms in one of its states\<close>
  "vouched ucs = {a. \<exists>n. (\<exists>code state tok. uc_exchange (ucs n) code state = Inr tok \<and> tk_access tok = Some a) \<or>
     (\<exists>r tok. uc_refresh (ucs n) r = Inr tok \<and> tk_access tok = Some a) \<or>
     (\<exists>e. uc_check (ucs n) a = Inr e)}"

definition all_grants :: "(nat \<Rightarrow> user_center) \<Rightarrow> grants" where
  "all_grants ucs = \<lparr>gr_tokens = vouched ucs, gr_states = UNIV, gr_sids = UNIV\<rparr>"

lemma vouched_ok: "gr_tokens gr = vouched ucs \<Longrightarrow> uc_ok gr (ucs n)"
  unfolding uc_ok_def vouched_def by (elim ssubst) blast

lemma all_grants_simps [simp]:
  "gr_tokens (all_grants ucs) = vouched ucs" "x \<in> gr_sids (all_grants ucs)" "x \<in> gr_states (all_grants ucs)"
  by (simp_all add: all_grants_def)

lemma admitted_all [simp]: "admitted (all_grants ucs) cmd"
  by (induction "all_grants ucs" cmd rule: admitted.induct) simp_all

lemma reach_store_ok:
  assumes "reach (exec_auth ucs w) empty_jstore s" and "inj (aw_sha w)"
  shows "store_ok (all_grants ucs) (aw_settings w) (aw_sha w) s"
proof -
  obtain cmds where "s = run_cmds (exec_auth ucs w) cmds empty_jstore"
    using assms(1) by (auto simp: reach_iff_run)
  then show ?thesis
    using run_auth_keeps [where gr = "all_grants ucs" and ucs = ucs and cmds = cmds and s = empty_jstore,
        OF _ assms(2)]
    by (simp add: entries_ok_empty list_all_iff vouched_ok)
qed

text \<open>A state or a session id that is not in the store stays out when no command brings it back.\<close>

definition without_state :: "string \<Rightarrow> grants \<Rightarrow> grants" where
  "without_state x gr = gr\<lparr>gr_states := gr_states gr - {x}\<rparr>"

definition without_sid :: "string \<Rightarrow> grants \<Rightarrow> grants" where
  "without_sid x gr = gr\<lparr>gr_sids := gr_sids gr - {x}\<rparr>"

lemma store_without_state:
  assumes "store_ok gr st sha s" and "s (state_key x) = None"
  shows "store_ok (without_state x gr) st sha s"
  unfolding entries_ok_def
proof (intro allI impI)
  fix k e v assume k: "s k = Some (e, v)"
  then have "entry_ok gr st sha k e v" using assms(1) by (simp add: entries_okD)
  moreover have "k \<noteq> state_key x" using assms(2) k by auto
  ultimately show "entry_ok (without_state x gr) st sha k e v"
    by (auto simp: entry_ok_def without_state_def)
qed

lemma store_without_stateD: "store_ok (without_state x gr) st sha s \<Longrightarrow> s (state_key x) = None"
  by (cases "s (state_key x)") (auto dest: entries_okD simp: entry_ok_state without_state_def)

lemma store_without_sid:
  assumes "store_ok gr st sha s" and "s (session_key x) = None"
  shows "store_ok (without_sid x gr) st sha s"
  unfolding entries_ok_def
proof (intro allI impI)
  fix k e v assume k: "s k = Some (e, v)"
  then have "entry_ok gr st sha k e v" using assms(1) by (simp add: entries_okD)
  moreover have "k \<noteq> session_key x" using assms(2) k by auto
  ultimately show "entry_ok (without_sid x gr) st sha k e v"
    by (auto simp: entry_ok_def without_sid_def)
qed

lemma store_without_sidD: "store_ok (without_sid x gr) st sha s \<Longrightarrow> s (session_key x) = None"
  by (cases "s (session_key x)") (auto dest: entries_okD simp: entry_ok_session without_sid_def)

lemma admitted_without_state:
  "admitted (without_state x (all_grants ucs)) cmd \<longleftrightarrow>
     (case snd cmd of GLoginUrl t p y \<Rightarrow> y \<noteq> x | _ \<Rightarrow> True)"
  by (cases cmd; cases "snd cmd") (auto simp: without_state_def)

lemma admitted_without_sid:
  "admitted (without_sid x (all_grants ucs)) cmd \<longleftrightarrow>
     (case snd cmd of GCallback env req q \<Rightarrow> ge_sid env \<noteq> x | GRequest env req \<Rightarrow> ge_sid env \<noteq> x
      | GRefresh env req \<Rightarrow> ge_sid env \<noteq> x | _ \<Rightarrow> True)"
  by (cases cmd; cases "snd cmd") (auto simp: without_sid_def)

text \<open>A call that writes no entry under a key with a given property.\<close>

lemma save_session_other: "k \<noteq> session_key (opt_str (ax_session_id c)) \<Longrightarrow>
    snd (save_session st t c existing s) k = s k"
  by (auto simp: save_session_def Let_def abind_def acall_def araise_def aret_def awrite_def mem_set_def
      mem_replace_def split: option.splits)

lemma complete_login_pops: "snd (complete_login st uc t code x sid s) (state_key x) = None"
proof -
  have p: "snd (mem_pop t (state_key x) s) (state_key x) = None"
    by (auto simp: mem_pop_def split: option.splits)
  have q: "snd (save_session st t c False s') (state_key x) = s' (state_key x)" for c s'
    by (rule save_session_other) simp
  show ?thesis
    using p q
    by (auto simp: complete_login_def abind_def acall_def araise_def alift_def aret_def Let_def
        split: prod.splits option.splits sum.splits) (metis snd_conv)+
qed

lemma save_session_gone:
  "s (session_key (opt_str (ax_session_id c))) = None \<Longrightarrow> \<not> is_ok (fst (save_session st t c True s))"
  by (auto simp: save_session_def Let_def abind_def acall_def araise_def mem_replace_def)

lemma save_session_keeps:
  "s (session_key (opt_str (ax_session_id c))) = None \<Longrightarrow> snd (save_session st t c True s) = s"
  by (auto simp: save_session_def Let_def abind_def acall_def araise_def mem_replace_def)

lemma refresh_gone:
  assumes "s (session_key sid) = None"
  shows "\<not> is_ok (fst (refresh_by_token st uc t sid current s)) \<and> snd (refresh_by_token st uc t sid current s) = s"
    and "\<not> is_ok (fst (refresh_by_check st uc t sid current s)) \<and> snd (refresh_by_check st uc t sid current s) = s"
proof -
  have del: "delete_session sid s = (Inr (), s)"
    using assms by (auto simp: delete_session_def awrite_def mem_delete_def)
  have gone: "\<not> is_ok (fst (save_session st t c True s))" if "ax_session_id c = Some sid" for c
    by (rule save_session_gone) (simp add: that opt_str_def assms)
  have kept: "snd (save_session st t c True s) = s" if "ax_session_id c = Some sid" for c
    by (rule save_session_keeps) (simp add: that opt_str_def assms)
  have no: "save_session st t c True s \<noteq> (Inr u, s')" if "ax_session_id c = Some sid" for c u s'
    using gone [OF that] by auto
  have same: "s' = s" if "save_session st t c True s = (e, s')" and "ax_session_id c = Some sid" for c e s'
    using kept [OF that(2)] that(1) by simp
  show "\<not> is_ok (fst (refresh_by_token st uc t sid current s)) \<and> snd (refresh_by_token st uc t sid current s) = s"
    by (auto simp: refresh_by_token_def abind_def alift_def aret_def araise_def Let_def no del
        split: sum.split prod.split dest!: same)
  show "\<not> is_ok (fst (refresh_by_check st uc t sid current s)) \<and> snd (refresh_by_check st uc t sid current s) = s"
    by (auto simp: refresh_by_check_def abind_def alift_def aret_def araise_def Let_def no del
        split: sum.split prod.split option.split dest!: same)
qed

lemma logout_other: "k \<notin> range bearer_key \<Longrightarrow> s k = None \<Longrightarrow> snd (logout st sha uc c s) k = None"
  by (auto simp: logout_def Let_def abind_def aret_def awrite_def delete_session_def mem_delete_def)

lemma logout_revoked:
  "logout st sha uc c s = (Inr True, s1) \<Longrightarrow> s1 (bearer_key (sha (ax_access_token c))) = None"
  by (auto simp: logout_def Let_def abind_def aret_def awrite_def delete_session_def mem_delete_def split: if_splits)

lemma logout_session_result:
  assumes "logout_session st sha uc t sid s = (r, s1)"
  shows "s1 (session_key sid) = None"
    and "r = Inr (Some c, True) \<Longrightarrow> s1 (bearer_key (sha (ax_access_token c))) = None"
proof -
  obtain d s0 where p: "mem_pop t (session_key sid) s = (d, s0)" by (cases "mem_pop t (session_key sid) s")
  then have s0: "s0 (session_key sid) = None" by (auto simp: mem_pop_def split: option.splits)
  have k: "session_key sid \<notin> range bearer_key" by auto
  have "s1 (session_key sid) = None \<and> (r = Inr (Some c, True) \<longrightarrow> s1 (bearer_key (sha (ax_access_token c))) = None)"
  proof (cases d)
    case None
    with assms p s0 show ?thesis by (auto simp: logout_session_def abind_def acall_def aret_def)
  next
    case (Some x)
    obtain b s2 where l: "logout st sha uc (from_record x sid) s0 = (b, s2)"
      by (cases "logout st sha uc (from_record x sid) s0")
    from logout_other [where k = "session_key sid" and s = s0 and st = st and sha = sha and uc = uc
        and c = "from_record x sid", OF k s0] l
    have "s2 (session_key sid) = None" by simp
    moreover have "b = Inr True \<Longrightarrow> s2 (bearer_key (sha (ax_access_token (from_record x sid)))) = None"
      using l logout_revoked by blast
    ultimately show ?thesis
      using assms p Some l
      by (auto simp: logout_session_def abind_def acall_def aret_def Let_def split: sum.splits)
  qed
  then show "s1 (session_key sid) = None"
    "r = Inr (Some c, True) \<Longrightarrow> s1 (bearer_key (sha (ax_access_token c))) = None" by auto
qed

end
