(* ===== verification/Auth_Claims.thy ===== *)
theory Auth_Claims
  imports Auth_Safety
begin

text \<open>
  What the authentication of the backend promises: who is admitted, sign-in states, sign-out,
  redirects, idle sessions and the trail of operations; and a concrete world in which the
  promises are exercised.
\<close>

section \<open>A concrete world\<close>

definition ax_environ :: environ where
  "ax_environ = map_of [(''USER_CENTER_CLIENT_ID'', ''kg''), (''USER_CENTER_CLIENT_SECRET'', ''secret''),
     (''AUTH_FRONTEND_URL'', ''https://kg.example/'')]"

definition ax_settings :: auth_settings where
  "ax_settings = (case settings_from_env ax_environ of Inr st \<Rightarrow> st | Inl e \<Rightarrow> undefined)"

definition ax_uc :: user_center where
  "ax_uc = \<lparr>uc_exchange = (\<lambda>code state. if code = ''code'' then
       Inr \<lparr>tk_access = Some ''token'', tk_refresh = Some ''again'', tk_expires_in = Some 600\<rparr>
       else Inl (400, ''invalid code'')),
     uc_refresh = (\<lambda>r. Inr \<lparr>tk_access = Some ''token2'', tk_refresh = None, tk_expires_in = Some 600\<rparr>),
     uc_check = (\<lambda>tok. if tok = ''bearer-token'' then Inr (Some 5000) else Inl (401, ''unknown token'')),
     uc_permissions = (\<lambda>tok. Inr [(''userInfo'', JObj [(''id'', JStr ''u1'')])]),
     uc_logout = (\<lambda>tok. Inr True)\<rparr>"

definition ax_user :: full_user where
  "ax_user = \<lparr>up_id = ''u1'', up_username = ''ann'', up_nickname = ''Ann'', up_email = [],
     fu_mobile = [], fu_status = 0\<rparr>"

definition ax_world :: auth_world where
  "ax_world = \<lparr>aw_settings = ax_settings, aw_valid = (\<lambda>d. Some ax_user), aw_sha = (\<lambda>x. x), aw_uc = ax_uc\<rparr>"

lemma ax_settings: "settings_from_env ax_environ = Inr ax_settings"
  by (simp add: ax_settings_def settings_from_env_def ax_environ_def env_int_def Let_def)

lemma ax_settings_values [simp]:
  "st_enabled ax_settings" "st_session_ttl_seconds ax_settings = 1800"
  "st_session_cookie_name ax_settings = ''techkg_session''"
  "st_portal_cookie_login_enabled ax_settings = False"
  "st_audit_max_items ax_settings = 200" "st_audit_ttl_seconds ax_settings = 7776000"
  "st_bearer_cache_ttl_seconds ax_settings = 60" "st_state_ttl_seconds ax_settings = 300"
  "st_client_id ax_settings = ''kg''" "st_client_secret ax_settings = ''secret''"
  "st_frontend_url ax_settings = ''https://kg.example/''"
  by (simp_all add: ax_settings_def settings_from_env_def ax_environ_def env_int_def env_bool_def getenv_def Let_def)

definition ax_env :: "time \<Rightarrow> string \<Rightarrow> gate_env" where
  "ax_env t sid = \<lparr>ge_now = t, ge_now_iso = ''now'', ge_sid = sid, ge_item = ''item''\<rparr>"

definition ax_request :: "(string \<times> string) option \<Rightarrow> (string \<times> string) list \<Rightarrow> http_request" where
  "ax_request bearer cookies = \<lparr>hr_bearer = bearer, hr_cookies = map_of cookies,
     hr_client_host = ''10.0.0.1'', hr_user_agent = ''browser''\<rparr>"

definition ax_query :: "string \<Rightarrow> string \<Rightarrow> callback_query" where
  "ax_query code state = \<lparr>cb_code = Some code, cb_state = Some state, cb_error = None,
     cb_error_description = None\<rparr>"

definition ax_login :: "(nat \<times> auth_cmd) list" where
  "ax_login = [(0, GLoginUrl 0 ''/expert'' ''st''),
     (0, GCallback (ax_env 100 ''sid'') (ax_request None [(''techkg_session_oauth_state'', ''st'')])
        (ax_query ''code'' ''st''))]"

definition ax_store :: jstore where
  "ax_store = run_cmds (exec_auth (\<lambda>n. ax_uc) ax_world) ax_login empty_jstore"

definition ax_context :: auth_context where
  "ax_context = \<lparr>ax_access_token = ''token'',
     ax_permission_info = [(''userInfo'', JObj [(''id'', JStr ''u1'')])], ax_expires_at = Some 700,
     ax_session_id = Some ''sid'', ax_refresh_token = ''again'', ax_token_source = ''oauth''\<rparr>"

lemmas ax_defs = ax_world_def ax_uc_def ax_env_def ax_request_def ax_query_def ax_user_def

lemma ax_world_simps [simp]:
  "aw_settings ax_world = ax_settings" "aw_sha ax_world = (\<lambda>x. x)" "aw_uc ax_world = ax_uc"
  "aw_valid ax_world = (\<lambda>d. Some ax_user)" "ax_world\<lparr>aw_uc := ax_uc\<rparr> = ax_world"
  by (simp_all add: ax_world_def)

lemma ax_reached: "reach (exec_auth (\<lambda>n. ax_uc) ax_world) empty_jstore ax_store"
  by (auto simp: reach_iff_run ax_store_def)

definition ax_entries :: "(string \<times> (time \<times> dict)) list" where
  "ax_entries = [(audit_key_of ''u1'', (7776100, [(''items'', JList [JObj (dump_item
       \<lparr>oi_id = ''item'', oi_action = zh_op_login, oi_category = zh_cat_login, oi_result = zh_success,
        oi_detail = zh_oauth_detail, oi_ip_address = ''10.0.0.1'', oi_user_agent = ''browser'',
        oi_occurred_at = ''now''\<rparr>)])])),
     (session_key ''sid'', (1900, to_record ax_context))]"

lemma ax_store_1: "snd (get_login_url ax_world 0 ''/expert'' ''st'' empty_jstore) =
   [state_key ''st'' \<mapsto> (300, [(''next'', JStr ''/expert'')])]"
  by (simp add: get_login_url_def abind_def create_login_url_def build_login_url_def oauth_credentials_def
      Let_def awrite_def aret_def mem_set_def empty_jstore_def safe_next_def)

lemma ax_complete:
  "complete_login ax_settings ax_uc 100 ''code'' ''st'' ''sid'' [state_key ''st'' \<mapsto> (300, [(''next'', JStr ''/expert'')])] =
     (Inr (ax_context, ''/expert''), [session_key ''sid'' \<mapsto> (1900, to_record ax_context)])"
  by (simp add: complete_login_def abind_def acall_def mem_pop_def alift_def ax_uc_def auth_of_uc_def
      context_from_token_def opt_str_def Let_def save_session_def awrite_def mem_set_def aret_def
      dget_def json_or_def ax_context_def)

lemma ax_store: "ax_store = map_of ax_entries"
  unfolding ax_store_def ax_login_def
  by (simp add: ax_store_1 oauth_callback_def abind_def alift_def compare_digest_def ax_query_def ax_request_def ax_env_def opt_str_def Let_def
      opt_truthy_def ax_complete state_cookie_name_def record_operation_def audit_key_def profile_def
      ax_context_def dget_def as_dict_def ax_user_def mem_get_def mem_set_def payload_items_def as_list_def
      ax_entries_def)

lemma ax_session: "live t (session_key ''sid'') ax_store = (if t < 1900 then Some (to_record ax_context) else None)"
  by (simp add: ax_store ax_entries_def live_def)

lemma ax_get_session:
  "get_session ax_settings ax_uc 200 ''sid'' ax_store =
     (Inr ax_context, ax_store(session_key ''sid'' := Some (2000, to_record ax_context)))"
proof -
  have c: "from_record (to_record ax_context) ''sid'' = ax_context"
    by (simp add: from_to_record ax_context_def)
  have e: "ax_store (session_key ''sid'') = Some (1900, to_record ax_context)"
    by (simp add: ax_store ax_entries_def)
  show ?thesis
    unfolding get_session_unfold ax_session
    by (simp add: c e ax_context_def [THEN arg_cong [of _ _ ax_expires_at]] Let_def abind_def
        touch_session_def acall_def mem_touch_def aret_def)
qed

lemma ax_gate: "require_authenticated_user ax_world (ax_env 200 ''sid2'')
    (ax_request None [(''techkg_session'', ''sid'')]) ax_store =
  (Inr (ax_context, Some ''sid''), ax_store(session_key ''sid'' := Some (2000, to_record ax_context)))"
proof -
  have "ax_token_source ax_context = ''oauth''" by (simp add: ax_context_def)
  then show ?thesis
    by (simp add: require_authenticated_user_def ax_request_def ax_env_def opt_str_def ax_get_session Let_def)
qed

section \<open>Who is admitted\<close>

text \<open>
  C1: nobody acts without a token.  Whenever the gate admits a request, after any history of
  sign-ins, callbacks, requests, refreshes and sign-outs and whatever the user center answers,
  the context it returns carries an access token that the user center handed out or confirmed,
  that has not expired, and that is the presented one when a bearer token was presented.  The
  local administrator is returned only when authentication is switched off, and then only in an
  environment that calls itself a development one.
\<close>

theorem requests_are_authenticated:
  assumes "reach (exec_auth ucs w) empty_jstore s" and "inj (aw_sha w)"
    and "settings_from_env e = Inr (aw_settings w)"
    and "require_authenticated_user (w\<lparr>aw_uc := ucs n\<rparr>) env req s = (Inr (c, p), s')"
  shows "if st_enabled (aw_settings w)
    then ax_access_token c \<in> vouched ucs \<and>
      (case ax_expires_at c of None \<Rightarrow> True | Some x \<Rightarrow> ge_now env < x) \<and>
      (case hr_bearer req of Some (scheme, tok) \<Rightarrow> ax_access_token c = tok | None \<Rightarrow> True)
    else app_env e \<in> DEV_ENVS \<and> c = dev_context (aw_settings w)"
proof -
  let ?w = "w\<lparr>aw_uc := ucs n\<rparr>" and ?gr = "all_grants ucs"
  have "keeps (store_ok ?gr (aw_settings ?w) (aw_sha ?w)) (require_authenticated_user ?w env req)
      (\<lambda>(c, p). gate_ok ?gr ?w env req c)"
    by (rule keeps_gate) (simp_all add: vouched_ok assms(2))
  from keepsD [OF this _ assms(4)] reach_store_ok [OF assms(1,2)]
  have "gate_ok ?gr ?w env req c" by simp
  then show ?thesis
    using settings_dev(1) [OF assms(3)] by (simp add: gate_ok_def context_ok_def split: if_splits)
qed

theorem requests_are_authenticated_witness:
  "ax_access_token ax_context \<in> vouched (\<lambda>n. ax_uc) \<and> ax_expires_at ax_context = Some 700"
  using requests_are_authenticated [OF ax_reached _ _, of ax_environ "ax_env 200 ''sid2''"
      "ax_request None [(''techkg_session'', ''sid'')]"]
  by (simp add: ax_gate ax_settings ax_context_def)

section \<open>Sign-in states\<close>

text \<open>
  C20: a sign-in state works once.  After a callback has presented it, with whatever outcome, no
  later callback with the same state succeeds, for no code, in no state of the user center and
  after any further traffic, unless the same random state is handed out again.
\<close>

theorem login_state_is_single_use:
  assumes "reach (exec_auth ucs w) empty_jstore s" and "inj (aw_sha w)"
    and "complete_login (aw_settings w) (ucs n) t code x sid s = (r, s1)"
    and "list_all (\<lambda>cmd. case snd cmd of GLoginUrl t p y \<Rightarrow> y \<noteq> x | _ \<Rightarrow> True) cmds"
    and "s2 = run_cmds (exec_auth ucs w) cmds s1"
  shows "fst (complete_login (aw_settings w) (ucs n') t' code' x sid' s2) = Inl (AuthError 400 ''state'')"
proof -
  let ?gr = "without_state x (all_grants ucs)"
  let ?I = "\<lambda>gr. store_ok gr (aw_settings w) (aw_sha w)"
  have uc: "uc_ok (all_grants ucs) (ucs m)" for m by (simp add: vouched_ok)
  have "?I (all_grants ucs) s1"
    using keepsD [OF keeps_complete_login [OF uc] _ assms(3)] reach_store_ok [OF assms(1,2)] by simp
  moreover have "s1 (state_key x) = None"
    using complete_login_pops [of "aw_settings w" "ucs n" t code x sid s] assms(3) by simp
  ultimately have "?I ?gr s1" by (rule store_without_state)
  moreover have "list_all (admitted ?gr) cmds"
    using assms(4) by (simp add: list_all_iff admitted_without_state)
  ultimately have "?I ?gr s2"
    unfolding assms(5) by (intro run_auth_keeps [OF vouched_ok assms(2)]) (simp_all add: without_state_def)
  then have "s2 (state_key x) = None" by (rule store_without_stateD)
  then show ?thesis by (simp add: complete_login_def abind_def acall_def mem_pop_def araise_def)
qed

theorem login_state_is_single_use_witness:
  "fst (complete_login ax_settings ax_uc 120 ''code'' ''st'' ''sid2'' [session_key ''sid'' \<mapsto> (1900, to_record ax_context)])
     = Inl (AuthError 400 ''state'')"
proof -
  let ?s = "[state_key ''st'' \<mapsto> (300, [(''next'', JStr ''/expert'')])]"
  have r: "reach (exec_auth (\<lambda>n. ax_uc) ax_world) empty_jstore ?s"
    unfolding reach_iff_run by (rule exI [of _ "[(0, GLoginUrl 0 ''/expert'' ''st'')]"]) (simp add: ax_store_1)
  show ?thesis
    using login_state_is_single_use [OF r, where cmds = "[]" and t = 100 and code = "''code''" and sid = "''sid''"]
    by (simp add: ax_complete)
qed

section \<open>Signing out\<close>

text \<open>
  C2: who signs out stays out.  After a sign-out, and after any further traffic in which the
  random id of the session is not drawn again, the store has no entry of the session and its id is
  refused with 401; a refresh of the session that was still waiting for the user center, with
  whatever record it read before, fails and leaves the store exactly as it is, so that it does not
  bring the session back; and when the user center revoked the token, the bearer
  cache no longer answers for it.
\<close>

theorem signed_out_stays_out:
  assumes "reach (exec_auth ucs w) empty_jstore s" and "inj (aw_sha w)"
    and "logout_session (aw_settings w) (aw_sha w) (ucs n) t sid s = (r, s1)"
    and "list_all (\<lambda>cmd. case snd cmd of GCallback env req q \<Rightarrow> ge_sid env \<noteq> sid
      | GRequest env req \<Rightarrow> ge_sid env \<noteq> sid | GRefresh env req \<Rightarrow> ge_sid env \<noteq> sid | _ \<Rightarrow> True) cmds"
    and "s2 = run_cmds (exec_auth ucs w) cmds s1"
  shows "s2 (session_key sid) = None \<and>
    fst (get_session (aw_settings w) uc t' sid s2) = Inl (AuthError 401 ''login-expired'') \<and>
    \<not> is_ok (fst (refresh_by_token (aw_settings w) uc t' sid current s2)) \<and>
    snd (refresh_by_token (aw_settings w) uc t' sid current s2) = s2 \<and>
    \<not> is_ok (fst (refresh_by_check (aw_settings w) uc t' sid current s2)) \<and>
    snd (refresh_by_check (aw_settings w) uc t' sid current s2) = s2 \<and>
    (case r of Inr (Some c, True) \<Rightarrow> live t' (bearer_key (aw_sha w (ax_access_token c))) s1 = None | _ \<Rightarrow> True)"
proof -
  let ?gr = "without_sid sid (all_grants ucs)"
  let ?I = "\<lambda>gr. store_ok gr (aw_settings w) (aw_sha w)"
  have "?I (all_grants ucs) s1"
    using keepsD [OF keeps_logout_session _ assms(3)] reach_store_ok [OF assms(1,2)] by blast
  from store_without_sid [OF this logout_session_result(1) [OF assms(3)]] have "?I ?gr s1" .
  moreover have "list_all (admitted ?gr) cmds"
    using assms(4) by (simp add: list_all_iff admitted_without_sid)
  ultimately have "?I ?gr s2"
    unfolding assms(5) by (intro run_auth_keeps [OF vouched_ok assms(2)]) (simp_all add: without_sid_def)
  then have gone: "s2 (session_key sid) = None" by (rule store_without_sidD)
  then have "live t' (session_key sid) s2 = None" by (simp add: live_def)
  with gone refresh_gone [where s = s2 and sid = sid, OF gone] logout_session_result(2) [OF assms(3)] show ?thesis
    by (auto simp: get_session_unfold live_def split: sum.split option.split bool.split)
qed

lemma ax_logout:
  "logout_session ax_settings (\<lambda>x. x) ax_uc 300 ''sid'' ax_store =
     (Inr (Some ax_context, True), ax_store(session_key ''sid'' := None, bearer_key ''token'' := None))"
proof -
  have "from_record (to_record ax_context) ''sid'' = ax_context"
    by (simp add: from_to_record ax_context_def)
  then show ?thesis
    by (simp add: logout_session_def abind_def acall_def mem_pop_def ax_store ax_entries_def Let_def logout_def
        aret_def awrite_def delete_session_def mem_delete_def ax_uc_def opt_str_def fun_upd_twist)
      (simp add: ax_context_def fun_upd_twist)
qed

theorem signed_out_stays_out_witness:
  "fst (get_session ax_settings ax_uc 310 ''sid'' (ax_store(session_key ''sid'' := None, bearer_key ''token'' := None)))
     = Inl (AuthError 401 ''login-expired'')"
  using signed_out_stays_out [OF ax_reached, where cmds = "[]" and sid = "''sid''" and t = 300]
  by (simp add: ax_logout)

section \<open>The callback\<close>

lemma state_cookie_differs [simp]: "state_cookie_name st \<noteq> st_session_cookie_name st"
  "logout_cookie_name st \<noteq> st_session_cookie_name st"
  by (simp_all add: state_cookie_name_def logout_cookie_name_def)

lemma safe_next_path: "\<exists>p. safe_next x = CHR ''/'' # p \<and> \<not> prefix ''//'' (safe_next x)"
  by (auto simp: safe_next_def OVERVIEW_PATH_def prefix_def)

lemma complete_login_needs_state:
  "complete_login st uc t code x sid s = (Inr r, s1) \<Longrightarrow> live t (state_key x) s \<noteq> None \<and>
     ax_session_id (fst r) = Some sid"
  by (auto simp: complete_login_def abind_def acall_def araise_def mem_pop_live(1) [symmetric] alift_def aret_def
      Let_def split: prod.splits option.splits sum.splits)

text \<open>
  C21: the callback of the user center cannot be used against a browser.  It always redirects to
  the configured frontend, to a path below its hash route that is no network path; it hands out
  a session cookie only when the browser itself carries the state of the query and the store
  still holds that state; every other answer leads to the login page and sets no session.
\<close>

theorem callback_is_confined:
  assumes "oauth_callback w env req q s = (Inr r, s1)"
  shows "\<exists>url cks. r = Redirect url cks \<and>
    ((\<exists>p. url = rstrip_slash (st_frontend_url (aw_settings w)) @ ''/#/'' @ p \<and> \<not> prefix ''/'' p) \<and>
     (filter (\<lambda>ck. ck_name ck = st_session_cookie_name (aw_settings w)) cks = [] \<or>
      (filter (\<lambda>ck. ck_name ck = st_session_cookie_name (aw_settings w)) cks =
         [set_session_cookie (aw_settings w) (ge_sid env)] \<and>
       (\<exists>x. x \<noteq> [] \<and> cb_state q = Some x \<and> hr_cookies req (state_cookie_name (aw_settings w)) = Some x \<and>
         live (ge_now env) (state_key x) s \<noteq> None))))"
proof -
  let ?st = "aw_settings w"
  have err: "\<exists>p. login_error_url ?st m = rstrip_slash (st_frontend_url ?st) @ ''/#/'' @ p \<and> \<not> prefix ''/'' p" for m
    by (rule exI [of _ "''login?'' @ urlencode [(''error'', m)]"]) (simp add: login_error_url_def)
  have none: "filter (\<lambda>ck. ck_name ck = st_session_cookie_name ?st) [delete_cookie ?st (state_cookie_name ?st)] = []"
    by (simp add: delete_cookie_def)
  show ?thesis
  proof (cases "\<exists>m. r = error_redirect ?st m")
    case True
    then show ?thesis using err none by (auto simp: error_redirect_def)
  next
    case False
    then obtain x c p s2 where x: "x = opt_str (cb_state q)" "x \<noteq> []" "opt_str (hr_cookies req (state_cookie_name ?st)) = x"
      and l: "complete_login ?st (aw_uc w) (ge_now env) (opt_str (cb_code q)) x (ge_sid env) s = (Inr (c, p), s2)"
      and r: "r = Redirect (frontend_redirect ?st p) [delete_cookie ?st (state_cookie_name ?st),
        delete_cookie ?st (logout_cookie_name ?st), set_session_cookie ?st (opt_str (ax_session_id c))]"
      using assms by (auto simp: oauth_callback_def Let_def aret_def abind_def alift_def compare_digest_def
          split: if_splits prod.splits sum.splits auth_error.splits)
    obtain y where y: "safe_next p = CHR ''/'' # y" "\<not> prefix ''//'' (safe_next p)" using safe_next_path by blast
    have "filter (\<lambda>ck. ck_name ck = st_session_cookie_name ?st) [delete_cookie ?st (state_cookie_name ?st),
        delete_cookie ?st (logout_cookie_name ?st), set_session_cookie ?st (opt_str (ax_session_id c))] =
        [set_session_cookie ?st (ge_sid env)]"
      using complete_login_needs_state [OF l] by (simp add: delete_cookie_def set_session_cookie_def opt_str_def)
    moreover have "cb_state q = Some x" "hr_cookies req (state_cookie_name ?st) = Some x"
      using x by (auto simp: opt_str_def split: option.splits)
    moreover have "\<exists>z. frontend_redirect ?st p = rstrip_slash (st_frontend_url ?st) @ ''/#/'' @ z \<and> \<not> prefix ''/'' z"
      using y by (auto simp: frontend_redirect_def)
    ultimately show ?thesis
      using complete_login_needs_state [OF l] x(2) unfolding r by blast
  qed
qed

theorem callback_is_confined_witness:
  "oauth_callback ax_world (ax_env 100 ''sid'') (ax_request None []) (ax_query ''code'' ''st'') empty_jstore =
     (Inr (error_redirect ax_settings ''other-browser''), empty_jstore) \<and>
   (\<exists>url cks. error_redirect ax_settings ''other-browser'' = Redirect url cks)"
proof -
  have e: "oauth_callback ax_world (ax_env 100 ''sid'') (ax_request None []) (ax_query ''code'' ''st'') empty_jstore =
     (Inr (error_redirect ax_settings ''other-browser''), empty_jstore)"
    by (simp add: oauth_callback_def ax_query_def ax_request_def opt_truthy_def opt_str_def Let_def aret_def
        abind_def alift_def)
  with callback_is_confined [OF e] show ?thesis by blast
qed

section \<open>Idle sessions\<close>

text \<open>
  C5: every use of a session restarts its idle time.  After \<open>get_session\<close> has returned a context,
  also when it refreshed the token on the way, the entry ends exactly \<open>session_ttl_seconds\<close>
  later, and without another use the session id is then refused with 401.
\<close>

theorem session_idle_time:
  assumes "get_session st uc t sid s = (Inr c, s1)"
  shows "(live t' (session_key sid) s1 = None \<longleftrightarrow> t + st_session_ttl_seconds st \<le> t') \<and>
    (t' < t + st_session_ttl_seconds st \<or>
     fst (get_session st uc' t' sid s1) = Inl (AuthError 401 ''login-expired''))"
proof -
  have save: "\<exists>v. s' (session_key sid) = Some (t + st_session_ttl_seconds st, v)"
    if "save_session st t x True s0 = (Inr u, s')" "ax_session_id x = Some sid" for x s0 u s'
    using that by (auto simp: save_session_def opt_str_def Let_def abind_def acall_def araise_def aret_def
        mem_replace_def split: if_splits option.splits)
  have "\<exists>v. s1 (session_key sid) = Some (t + st_session_ttl_seconds st, v)"
  proof (cases "live t (session_key sid) s")
    case None
    with assms show ?thesis by (simp add: get_session_unfold)
  next
    case (Some d)
    let ?c = "from_record d sid"
    have tok: "\<exists>v. s1 (session_key sid) = Some (t + st_session_ttl_seconds st, v)"
      if "refresh_by_token st uc t sid ?c s = (Inr c, s1)"
      using that
      by (auto dest!: save simp: refresh_by_token_def abind_def alift_def aret_def araise_def Let_def
          split: sum.splits prod.splits)
    have chk: "\<exists>v. s1 (session_key sid) = Some (t + st_session_ttl_seconds st, v)"
      if "refresh_by_check st uc t sid ?c s = (Inr c, s1)"
      using that save
      by (auto simp: refresh_by_check_def abind_def alift_def aret_def araise_def Let_def
          split: sum.splits prod.splits option.splits if_splits)
    have touch: "\<exists>v. s1 (session_key sid) = Some (t + st_session_ttl_seconds st, v)"
      if "abind (touch_session st t sid) (\<lambda>u. aret ?c) s = (Inr c, s1)"
      using that by (auto simp: touch_session_def abind_def acall_def aret_def araise_def mem_touch_def
          split: option.splits if_splits)
    from assms Some tok chk touch show ?thesis by (auto simp: get_session_unfold Let_def split: if_splits)
  qed
  then obtain v where v: "s1 (session_key sid) = Some (t + st_session_ttl_seconds st, v)" by blast
  then show ?thesis
    by (auto simp: live_def get_session_unfold)
qed

theorem session_idle_time_witness:
  "live 1999 (session_key ''sid'') (ax_store(session_key ''sid'' := Some (2000, to_record ax_context))) \<noteq> None \<and>
   fst (get_session ax_settings ax_uc 2000 ''sid'' (ax_store(session_key ''sid'' := Some (2000, to_record ax_context))))
     = Inl (AuthError 401 ''login-expired'')"
  using session_idle_time [OF ax_get_session, of 1999] session_idle_time [OF ax_get_session, of 2000] by simp

section \<open>The trail\<close>

definition trail :: "time \<Rightarrow> string \<Rightarrow> jstore \<Rightarrow> operation_item list option" where
  "trail t key s = read_items (payload_items (live t key s))"

definition noted_item :: "string \<Rightarrow> string \<Rightarrow> operation_note \<Rightarrow> operation_item" where
  "noted_item fresh now_iso n = \<lparr>oi_id = fresh, oi_action = on_action n, oi_category = on_category n,
     oi_result = on_result n, oi_detail = on_detail n, oi_ip_address = py_take 64 (on_ip_address n),
     oi_user_agent = py_take 240 (on_user_agent n), oi_occurred_at = now_iso\<rparr>"

lemma read_items_dump: "read_items (map (JObj \<circ> dump_item) xs) = Some xs"
  by (induction xs) (simp_all add: read_dump_item)

lemma audit_key_form: "audit_key st valid sha c = Inr key \<Longrightarrow> \<exists>x. key = audit_key_of x"
  by (auto simp: audit_key_def elim!: rbindE)

lemma trail_stored:
  assumes "store_ok gr st sha s"
  shows "\<exists>xs. payload_items (live t (audit_key_of x) s) = map (JObj \<circ> dump_item) xs \<and>
    length xs \<le> nat (max 1 (st_audit_max_items st))"
proof (cases "live t (audit_key_of x) s")
  case None
  then show ?thesis by (auto simp: payload_items_def as_list_def dget_def)
next
  case (Some d)
  from entries_ok_live [OF assms Some] show ?thesis
    unfolding Some by (auto simp: entry_ok_audit payload_items_dump)
qed

text \<open>
  the trail of a user is a bounded log.  In every reachable store it can be read back, holds at
  most \<open>max(1, audit_max_items)\<close> items, and asking for a page of it does not fail; recording an
  operation puts the item, with the address and browser cut to 64 and 240 characters, in front of
  the trail and drops what exceeds the bound; it stays readable for the configured time, and no
  entry under another key changes.
\<close>

theorem trail_is_bounded_log:
  assumes "reach (exec_auth ucs w) empty_jstore s" and "inj (aw_sha w)"
    and "audit_key (aw_settings w) valid sha c = Inr key"
    and "M = nat (max 1 (st_audit_max_items (aw_settings w)))"
    and "s1 = record_operation (aw_settings w) valid sha t fresh now_iso c n s"
    and "t' < t + st_audit_ttl_seconds (aw_settings w)" and "key' \<noteq> key"
  shows "(\<exists>xs. trail t key s = Some xs \<and> length xs \<le> M \<and>
      trail t' key s1 = Some (take M (noted_item fresh now_iso n # xs))) \<and>
    s1 key' = s key' \<and> is_ok (fst (operation_logs (aw_settings w) valid sha t dev c q s))"
proof -
  let ?st = "aw_settings w"
  obtain x where x: "key = audit_key_of x" using audit_key_form [OF assms(3)] by blast
  from trail_stored [OF reach_store_ok [OF assms(1,2)], of t x]
  obtain xs where p: "payload_items (live t key s) = map (JObj \<circ> dump_item) xs" and le: "length xs \<le> M"
    unfolding x assms(4) by blast
  obtain s0 where g: "mem_get t key s = (live t key s, s0)" "\<And>k. k \<noteq> key \<Longrightarrow> s0 k = s k"
    by (cases "mem_get t key s") (auto simp: mem_get_def live_def split: option.splits if_splits)
  have s1: "s1 = mem_set t key [(''items'', JList (take M (map (JObj \<circ> dump_item) (noted_item fresh now_iso n # xs))))]
      (st_audit_ttl_seconds ?st) s0"
    by (simp add: assms(5) record_operation_def assms(3) g(1) p Let_def noted_item_def assms(4))
  have "trail t' key s1 = Some (take M (noted_item fresh now_iso n # xs))"
    using assms(6) by (simp only: trail_def s1 mem_set_live if_True simp_thms payload_items_dump take_map read_items_dump)
  moreover have "trail t key s = Some xs" by (simp add: trail_def p read_items_dump)
  moreover have "s1 key' = s key'" using assms(7) g(2) by (simp add: s1 mem_set_def)
  moreover have "is_ok (fst (operation_logs ?st valid sha t dev c q s))"
    by (simp add: operation_logs_def abind_def alift_def assms(3) acall_def g(1) p read_items_dump aret_def Let_def)
  ultimately show ?thesis using le by blast
qed

lemma ax_audit_key: "audit_key ax_settings (\<lambda>d. Some ax_user) (\<lambda>x. x) ax_context = Inr (audit_key_of ''u1'')"
  by (simp add: audit_key_def profile_def ax_context_def dget_def as_dict_def ax_user_def)

definition ax_note :: operation_note where
  "ax_note = \<lparr>on_action = ''a'', on_category = ''c'', on_detail = [], on_result = ''ok'',
     on_ip_address = ''10.0.0.1'', on_user_agent = ''browser''\<rparr>"

theorem trail_is_bounded_log_witness:
  "\<exists>xs. trail 400 (audit_key_of ''u1'') ax_store = Some xs \<and> length xs \<le> 200 \<and>
     trail 500 (audit_key_of ''u1'') (record_operation ax_settings (\<lambda>d. Some ax_user) (\<lambda>x. x) 400 ''i2'' ''later''
       ax_context ax_note ax_store) = Some (take 200 (noted_item ''i2'' ''later'' ax_note # xs))"
proof -
  have i: "inj (aw_sha ax_world)" by (simp add: inj_def)
  have k: "audit_key (aw_settings ax_world) (\<lambda>d. Some ax_user) (\<lambda>x. x) ax_context = Inr (audit_key_of ''u1'')"
    by (simp add: ax_audit_key)
  show ?thesis
    using trail_is_bounded_log [OF ax_reached i k refl refl, of 500 400 "session_key ''sid''" "''i2''" "''later''" ax_note]
    by auto
qed

section \<open>Records\<close>

text \<open>
  what is stored is what is read.  The record of a context, read back under a session id, is
  the context under that id with its token, permissions, expiry and refresh token (only an empty
  token source is filled in), and an item of the trail read back is the item.
\<close>

theorem stored_records_roundtrip:
  "from_record (to_record c) sid =
     c\<lparr>ax_session_id := Some sid,
       ax_token_source := (if ax_token_source c \<noteq> [] then ax_token_source c
         else if ax_refresh_token c \<noteq> [] then ''oauth'' else ''unknown'')\<rparr> \<and>
   read_item (dump_item x) = Some x"
  by (simp add: from_to_record read_dump_item)

text \<open>A state that is not ASCII text makes the comparison raise, and the callback fails with 500.\<close>

lemma non_ascii_state_crashes:
  "fst (oauth_callback ax_world (ax_env 100 ''sid'') (ax_request None [(''techkg_session_oauth_state'', ''st'')])
     (ax_query ''code'' [CHR 0xE9]) s) = Inl Crash"
  by (simp add: oauth_callback_def ax_query_def ax_request_def opt_truthy_def opt_str_def Let_def
      abind_def alift_def state_cookie_name_def compare_digest_def)

end
