(* ===== verification/Operator_Store.thy ===== *)
theory Operator_Store
  imports Calls Json Tables
begin

text \<open>
  The object store of the operators, backend/infra/operator\_store.py: the keys, the checks of
  the bucket and of an object, and the listing page by page.  The replies of the S3 client are
  arguments.  The loop over the pages has no bound in the code, so it is a partial function; it
  returns whenever the pages go through a finite list of keys.
\<close>

section \<open>Errors and objects\<close>

datatype op_error =
    OperatorNotFound string
  | OperatorConflict string
  | OperatorValidation string
  | OperatorExecution string
  | OperatorStorage string
  | OperatorCrash          \<comment> \<open>an exception of another class\<close>

record store_object =
  so_name :: string
  so_body :: "json option"

fun object_dicts :: "store_object list \<Rightarrow> dict list option" where
  "object_dicts [] = Some []"
| "object_dicts (x # xs) =
     (case so_body x of Some (JObj d) \<Rightarrow> map_option (Cons d) (object_dicts xs) | _ \<Rightarrow> None)"

section \<open>Keys\<close>

definition strip_slashes :: "string \<Rightarrow> string" where
  \<comment> \<open>\<open>prefix.strip("/")\<close>\<close>
  "strip_slashes s =
     rev (dropWhile (\<lambda>c. c = CHR ''/'') (rev (dropWhile (\<lambda>c. c = CHR ''/'') s)))"

definition store_key :: "string \<Rightarrow> string \<Rightarrow> string" where
  "store_key pre n =
     (if pre = [] then n @ ''.json'' else pre @ ''/'' @ n @ ''.json'')"

lemma store_key_inj [simp]: "store_key pre m = store_key pre n \<longleftrightarrow> m = n"
  by (simp add: store_key_def)

section \<open>Replies\<close>

datatype 'a s3_reply = S3Ok 'a | S3Code string | S3Down
  \<comment> \<open>a response, a \<open>ClientError\<close> with its code, a \<open>BotoCoreError\<close>\<close>

definition ensure_ready :: "unit s3_reply \<Rightarrow> unit s3_reply \<Rightarrow> op_error + bool" where
  \<comment> \<open>the replies of \<open>head_bucket\<close> and, when it is called, of \<open>create_bucket\<close>; whether it was created\<close>
  "ensure_ready head create =
     (case head of
        S3Ok u \<Rightarrow> Inr False
      | S3Down \<Rightarrow> Inl (OperatorStorage ''head_bucket'')
      | S3Code c \<Rightarrow>
          if c \<notin> {''404'', ''NoSuchBucket'', ''NotFound''} then Inl (OperatorStorage ''head_bucket'')
          else (case create of S3Ok u \<Rightarrow> Inr True | _ \<Rightarrow> Inl (OperatorStorage ''create_bucket'')))"

definition object_exists :: "unit s3_reply \<Rightarrow> op_error + bool" where
  "object_exists head =
     (case head of
        S3Ok u \<Rightarrow> Inr True
      | S3Code c \<Rightarrow> if c \<in> {''404'', ''NoSuchKey'', ''NotFound''} then Inr False
          else Inl (OperatorStorage ''head'')
      | S3Down \<Rightarrow> Inl (OperatorStorage ''head''))"

section \<open>Listing\<close>

record s3_page =
  pg_keys :: "string list"
  pg_truncated :: bool
  pg_next :: "string option"

definition is_json_key :: "string \<Rightarrow> bool" where
  "is_json_key k \<longleftrightarrow> drop (length k - 5) k = ''.json''"

fun read_objects :: "(string \<Rightarrow> json option s3_reply) \<Rightarrow> string list \<Rightarrow> op_error + dict list" where
  "read_objects get [] = Inr []"
| "read_objects get (k # ks) =
     (if \<not> is_json_key k then read_objects get ks
      else case get k of
        S3Ok (Some (JObj d)) \<Rightarrow> rbind (read_objects get ks) (\<lambda>ds. Inr (d # ds))
      | S3Ok v \<Rightarrow> Inl (OperatorStorage ''object'')
      | _ \<Rightarrow> Inl (OperatorStorage ''list''))"

definition asked :: "string option \<Rightarrow> string option" where
  \<comment> \<open>\<open>if continuation_token\<close>\<close>
  "asked t = (if t = Some [] then None else t)"

partial_function (option) list_pages ::
  "(string option \<Rightarrow> s3_page s3_reply) \<Rightarrow> (string \<Rightarrow> json option s3_reply) \<Rightarrow> string option \<Rightarrow> dict list \<Rightarrow>
   (op_error + dict list) option" where
  "list_pages client get token bundles =
     (case client (asked token) of
        S3Ok p \<Rightarrow>
          (case read_objects get (pg_keys p) of
             Inl e \<Rightarrow> Some (Inl e)
           | Inr ds \<Rightarrow>
               if \<not> pg_truncated p then Some (Inr (bundles @ ds))
               else list_pages client get (pg_next p) (bundles @ ds))
      | _ \<Rightarrow> Some (Inl (OperatorStorage ''list'')))"

definition lists_in_pages ::
  "(string option \<Rightarrow> s3_page s3_reply) \<Rightarrow> string list \<Rightarrow> (string option \<Rightarrow> nat) \<Rightarrow> bool" where
  \<comment> \<open>the documented paging: \<open>pos\<close> is how far into the keys a token points, a page holds the keys from
     there on, and a truncated page is not empty and comes with the token of its end\<close>
  "lists_in_pages client keys pos \<longleftrightarrow> pos None = 0 \<and>
     (\<forall>t. t \<noteq> Some [] \<longrightarrow> (\<exists>p m. client t = S3Ok p \<and> pg_keys p = take m (drop (pos t) keys) \<and>
        (if pg_truncated p
         then 0 < m \<and> pos t + m < length keys \<and> (\<exists>t'. pg_next p = Some t' \<and> t' \<noteq> [] \<and> pos (Some t') = pos t + m)
         else length keys \<le> pos t + m)))"

lemma read_objects_append:
  "read_objects get (ks @ ls) =
     rbind (read_objects get ks) (\<lambda>ds. rbind (read_objects get ls) (\<lambda>es. Inr (ds @ es)))"
  by (induction ks) (auto simp: rbind_def split: sum.splits s3_reply.splits option.splits json.splits)

lemma list_pages_returns:
  assumes "lists_in_pages client keys pos" and "t \<noteq> Some []"
  shows "list_pages client get t acc =
    Some (rbind (read_objects get (drop (pos t) keys)) (\<lambda>ds. Inr (acc @ ds)))"
  using assms(2)
proof (induction "length keys - pos t" arbitrary: t acc rule: less_induct)
  case less
  obtain p m where p: "client t = S3Ok p" "pg_keys p = take m (drop (pos t) keys)"
    and step: "if pg_truncated p
         then 0 < m \<and> pos t + m < length keys \<and> (\<exists>t'. pg_next p = Some t' \<and> t' \<noteq> [] \<and> pos (Some t') = pos t + m)
         else length keys \<le> pos t + m"
    using assms(1) less.prems unfolding lists_in_pages_def by metis
  have asked: "asked t = t" using less.prems by (simp add: asked_def)
  show ?case
  proof (cases "pg_truncated p")
    case False
    with step p have "pg_keys p = drop (pos t) keys" by simp
    with False p(1) asked show ?thesis
      by (subst list_pages.simps) (simp add: rbind_def split: sum.split)
  next
    case True
    with step obtain t' where t': "0 < m" "pos t + m < length keys" "pg_next p = Some t'" "t' \<noteq> []"
      "pos (Some t') = pos t + m" by auto
    have split: "drop (pos t) keys = pg_keys p @ drop (pos (Some t')) keys"
      using append_take_drop_id [of m "drop (pos t) keys"] p(2) t'(5) by (simp add: add.commute)
    have "list_pages client get (Some t') acc' =
        Some (rbind (read_objects get (drop (pos (Some t')) keys)) (\<lambda>ds. Inr (acc' @ ds)))" for acc'
      by (rule less.hyps) (use t' in auto)
    with True p(1) asked t'(3) show ?thesis unfolding split read_objects_append
      by (subst list_pages.simps) (auto simp: rbind_def split: sum.split)
  qed
qed

lemma is_json_key [simp]: "is_json_key (store_key pre n)"
  by (simp add: is_json_key_def store_key_def)

lemma read_stored_objects:
  assumes "\<And>x. x \<in> set objects \<Longrightarrow> get (store_key pre (so_name x)) = S3Ok (so_body x)"
  shows "read_objects get (map (\<lambda>x. store_key pre (so_name x)) objects) =
    (case object_dicts objects of None \<Rightarrow> Inl (OperatorStorage ''object'') | Some ds \<Rightarrow> Inr ds)"
  using assms by (induction objects) (auto simp: rbind_def split: option.splits json.splits sum.splits)

end
