(* ===== verification/Operator_Registry.thy ===== *)
theory Operator_Registry
  imports Operator_Store
begin

text \<open>
  The registry of operators (backend/service/operator\_registry.py with the object store of
  backend/infra/operator\_store.py): built-in and user operators in memory, the directory of their
  sources and manifests, and the shared store.  Compiling a source is an argument, as are the
  faults of the object store and the modification stamps of the files.  The operations of one
  call run under the lock of the registry or one after the other.
\<close>

section \<open>Manifests\<close>

datatype operator_kind = DATA_PROCESSING | ENTITY_EXTRACTION | RELATION_EXTRACTION
  | ENTITY_INGESTION | RELATION_INGESTION

fun kind_value :: "operator_kind \<Rightarrow> string" where
  "kind_value DATA_PROCESSING = ''data_processing''"
| "kind_value ENTITY_EXTRACTION = ''entity_extraction''"
| "kind_value RELATION_EXTRACTION = ''relation_extraction''"
| "kind_value ENTITY_INGESTION = ''entity_ingestion''"
| "kind_value RELATION_INGESTION = ''relation_ingestion''"

definition ALL_KINDS :: "operator_kind list" where
  "ALL_KINDS = [DATA_PROCESSING, ENTITY_EXTRACTION, RELATION_EXTRACTION, ENTITY_INGESTION, RELATION_INGESTION]"

definition kind_of :: "json \<Rightarrow> operator_kind option" where
  \<comment> \<open>\<open>OperatorKind(v)\<close>, \<open>None\<close> for \<open>ValueError\<close>\<close>
  "kind_of v = find (\<lambda>k. v = JStr (kind_value k)) ALL_KINDS"

record operator_manifest =
  om_name :: string
  om_version :: string
  om_kind :: operator_kind
  om_description :: string
  om_builtin :: bool
  om_updated_at :: string

definition to_dict :: "operator_manifest \<Rightarrow> dict" where
  "to_dict m =
     [(''name'', JStr (om_name m)), (''version'', JStr (om_version m)),
      (''kind'', JStr (kind_value (om_kind m))), (''description'', JStr (om_description m)),
      (''builtin'', JBool (om_builtin m)), (''updated_at'', JStr (om_updated_at m))]"

definition manifest_from_dict :: "dict \<Rightarrow> op_error + operator_manifest" where
  "manifest_from_dict d =
     (case (map_of d ''name'', map_of d ''version'', map_of d ''kind'', map_of d ''updated_at'') of
        (Some n, Some v, Some k, Some u) \<Rightarrow>
          (case kind_of k of
             None \<Rightarrow> Inl (OperatorValidation ''manifest'')
           | Some kk \<Rightarrow> Inr \<lparr>om_name = py_str n, om_version = py_str v, om_kind = kk,
               om_description = py_str (dget_or d ''description'' (JStr [])),
               om_builtin = truthy (dget_or d ''builtin'' (JBool False)), om_updated_at = py_str u\<rparr>)
      | _ \<Rightarrow> Inl (OperatorValidation ''manifest''))"

section \<open>Registered operators\<close>

datatype callable = Builtin string | UserSource string

record registered_operator =
  ro_function :: callable
  ro_manifest :: operator_manifest

definition ro_name :: "registered_operator \<Rightarrow> string" where
  "ro_name x = om_name (ro_manifest x)"

definition DEFAULT_OPERATOR_TIMESTAMP :: string where
  "DEFAULT_OPERATOR_TIMESTAMP = ''2026-01-01T00:00:00+00:00''"

definition builtin_operator :: "string \<Rightarrow> operator_kind \<Rightarrow> string \<Rightarrow> registered_operator" where
  "builtin_operator n k description =
     \<lparr>ro_function = Builtin n,
      ro_manifest = \<lparr>om_name = ''builtin.'' @ n, om_version = ''1.0.0'', om_kind = k,
        om_description = description, om_builtin = True, om_updated_at = DEFAULT_OPERATOR_TIMESTAMP\<rparr>\<rparr>"

definition BUILTIN_OPERATORS :: "registered_operator list" where
  \<comment> \<open>the descriptions are Chinese texts that no operation looks at\<close>
  "BUILTIN_OPERATORS =
     [builtin_operator ''data_normalize'' DATA_PROCESSING ''normalize'',
      builtin_operator ''entity_extract'' ENTITY_EXTRACTION ''entities'',
      builtin_operator ''relation_extract'' RELATION_EXTRACTION ''relations'',
      builtin_operator ''entity_load'' ENTITY_INGESTION ''entity plan'',
      builtin_operator ''relation_load'' RELATION_INGESTION ''relation plan'']"

definition reserved_names :: "string list" where
  "reserved_names = map ro_name BUILTIN_OPERATORS"

section \<open>State\<close>

record 'a op_file =
  of_stem :: string      \<comment> \<open>the file name without \<open>.py\<close> or \<open>.json\<close>\<close>
  of_stamp :: nat        \<comment> \<open>modification time\<close>
  of_content :: 'a

type_synonym source_file = "string op_file"
type_synonym manifest_file = "json option op_file"   \<comment> \<open>None: not the text of a JSON value\<close>

record registry =
  rg_dir :: string
  rg_sources :: "source_file list"
  rg_manifests :: "manifest_file list"
  rg_store :: "store_object list option"     \<comment> \<open>None: no shared store\<close>
  rg_operators :: "registered_operator list"
  rg_snapshot :: "source_file list \<times> manifest_file list"

type_synonym compiles = "string \<Rightarrow> string \<Rightarrow> string \<Rightarrow> bool"
  \<comment> \<open>the file name, the operator and the source: whether \<open>_function_from_source\<close> returns\<close>

record op_env =
  oe_stamp :: nat
  oe_now_iso :: string
  oe_put_fault :: "string \<Rightarrow> bool"
  oe_delete_fault :: "string \<Rightarrow> bool"
  oe_write_fault :: "string \<Rightarrow> bool"      \<comment> \<open>writing the file with this name raises\<close>
  oe_head_fault :: bool
  oe_list_fault :: bool
  oe_bucket_head :: "unit s3_reply"
  oe_bucket_create :: "unit s3_reply"

type_synonym 'a op_call = "(op_error, registry, 'a) call"

definition empty_registry :: "string \<Rightarrow> store_object list option \<Rightarrow> registry" where
  \<comment> \<open>the constructor before \<open>reload_all\<close>\<close>
  "empty_registry dir store = \<lparr>rg_dir = dir, rg_sources = [], rg_manifests = [], rg_store = store,
     rg_operators = BUILTIN_OPERATORS, rg_snapshot = ([], [])\<rparr>"

section \<open>Validation\<close>

definition name_char :: "char \<Rightarrow> bool" where
  "name_char c = (let n = of_char c :: nat in
     65 \<le> n \<and> n \<le> 90 \<or> 97 \<le> n \<and> n \<le> 122 \<or> 48 \<le> n \<and> n \<le> 57 \<or> c \<in> {CHR ''_'', CHR ''.'', CHR ''-''})"

definition is_letter :: "char \<Rightarrow> bool" where
  "is_letter c = (let n = of_char c :: nat in 65 \<le> n \<and> n \<le> 90 \<or> 97 \<le> n \<and> n \<le> 122)"

definition name_ok :: "string \<Rightarrow> bool" where
  "name_ok s = (case s of [] \<Rightarrow> False | c # cs \<Rightarrow> is_letter c \<and> length cs \<le> 127 \<and> list_all name_char cs)"

definition validate_name :: "string \<Rightarrow> op_error + unit" where
  "validate_name n = ensure (name_ok n) (OperatorValidation ''name'')"

definition validate_user_manifest :: "operator_manifest \<Rightarrow> op_error + unit" where
  "validate_user_manifest m =
     rbind (validate_name (om_name m)) (\<lambda>_.
       if om_name m \<in> set reserved_names then Inl (OperatorConflict ''reserved'')
       else if om_builtin m then Inl (OperatorValidation ''builtin'')
       else Inr ())"

definition function_from_source :: "compiles \<Rightarrow> string \<Rightarrow> string \<Rightarrow> string \<Rightarrow> op_error + callable" where
  "function_from_source compile src filename n =
     (if compile filename n src then Inr (UserSource src) else Inl (OperatorValidation ''source''))"

definition validate_source :: "compiles \<Rightarrow> string \<Rightarrow> string \<Rightarrow> op_error + unit" where
  "validate_source compile src n =
     (if 256 * 1024 < int (length src) then Inl (OperatorValidation ''size'')
      else rbind (function_from_source compile src (''<operator:'' @ n @ ''>'') n) (\<lambda>_. Inr ()))"

definition source_path :: "registry \<Rightarrow> string \<Rightarrow> string" where
  "source_path r n = rg_dir r @ ''/'' @ n @ ''.py''"

definition load_function :: "compiles \<Rightarrow> registry \<Rightarrow> string \<Rightarrow> string \<Rightarrow> op_error + callable" where
  "load_function compile r n src = function_from_source compile src (source_path r n) n"

section \<open>Reloading\<close>

definition files :: "registry \<Rightarrow> source_file list \<times> manifest_file list" where
  \<comment> \<open>\<open>_snapshot()\<close>; the digest is the content\<close>
  "files r = (rg_sources r, rg_manifests r)"

definition snap :: "registry \<Rightarrow> registry" where
  "snap r = r\<lparr>rg_snapshot := files r\<rparr>"

definition read_manifest :: "manifest_file \<Rightarrow> op_error + operator_manifest" where
  "read_manifest f = (case of_content f of
     Some (JObj d) \<Rightarrow> manifest_from_dict d
   | Some v \<Rightarrow> Inl (OperatorValidation ''manifest'')
   | None \<Rightarrow> Inl OperatorCrash)"

definition load_entry :: "compiles \<Rightarrow> registry \<Rightarrow> manifest_file \<Rightarrow> op_error + registered_operator" where
  \<comment> \<open>the body of the loop of \<open>reload_all\<close>\<close>
  "load_entry compile r f =
     (case tbl_get of_stem (of_stem f) (rg_sources r) of
        None \<Rightarrow> Inl (OperatorNotFound (of_stem f))
      | Some src \<Rightarrow>
          rbind (read_manifest f) (\<lambda>m.
          rbind (ensure (om_name m = of_stem f) (OperatorValidation ''name'')) (\<lambda>_.
          rbind (validate_user_manifest m) (\<lambda>_.
          rbind (load_function compile r (om_name m) (of_content src)) (\<lambda>fn.
            Inr \<lparr>ro_function = fn, ro_manifest = m\<rparr>)))))"

definition loadable :: "compiles \<Rightarrow> registry \<Rightarrow> registered_operator list" where
  \<comment> \<open>in the order of \<open>sorted(glob("*.json"))\<close>\<close>
  "loadable compile r =
     concat (map (\<lambda>f. case load_entry compile r f of Inl e \<Rightarrow> [] | Inr x \<Rightarrow> [x])
       (sort_key (\<lambda>f. of_stem f @ ''.json'') (rg_manifests r)))"

definition reload_all :: "compiles \<Rightarrow> registry \<Rightarrow> string list \<times> registry" where
  "reload_all compile r =
     (let loaded = loadable compile r;
          ops = foldl (\<lambda>t x. tbl_put ro_name x t) (rg_operators r) loaded;
          kept = filter (\<lambda>x. om_builtin (ro_manifest x) \<or> ro_name x \<in> of_stem ` set (rg_manifests r)) ops
      in (map ro_name loaded, snap (r\<lparr>rg_operators := kept\<rparr>)))"

definition changed :: "registry \<Rightarrow> bool" where
  "changed r = (set (rg_sources r) \<noteq> set (fst (rg_snapshot r)) \<or>
                set (rg_manifests r) \<noteq> set (snd (rg_snapshot r)))"

definition refresh_if_changed :: "compiles \<Rightarrow> registry \<Rightarrow> bool \<times> registry" where
  "refresh_if_changed compile r = (if changed r then (True, snd (reload_all compile r)) else (False, r))"

definition reload :: "compiles \<Rightarrow> string \<Rightarrow> operator_manifest op_call" where
  "reload compile n r =
     (case (tbl_get of_stem n (rg_manifests r), tbl_get of_stem n (rg_sources r)) of
        (Some f, Some src) \<Rightarrow>
          (case rbind (validate_name n) (\<lambda>_.
                rbind (read_manifest f) (\<lambda>m.
                rbind (ensure (om_name m = n) (OperatorValidation ''name'')) (\<lambda>_.
                rbind (validate_user_manifest m) (\<lambda>_.
                rbind (load_function compile r n (of_content src)) (\<lambda>fn.
                  Inr \<lparr>ro_function = fn, ro_manifest = m\<rparr>))))) of
             Inl e \<Rightarrow> (Inl e, r)
           | Inr x \<Rightarrow> (Inr (ro_manifest x), snap (r\<lparr>rg_operators := tbl_put ro_name x (rg_operators r)\<rparr>)))
      | _ \<Rightarrow> (Inl (if name_ok n then OperatorNotFound n else OperatorValidation ''name''), r))"

section \<open>Creating, updating and deleting\<close>

definition write_files :: "nat \<Rightarrow> string \<Rightarrow> string \<Rightarrow> json \<Rightarrow> registry \<Rightarrow> registry" where
  \<comment> \<open>\<open>_atomic_write\<close> of the source and of the manifest\<close>
  "write_files stamp n src m r =
     r\<lparr>rg_sources := tbl_put of_stem \<lparr>of_stem = n, of_stamp = stamp, of_content = src\<rparr> (rg_sources r),
       rg_manifests := tbl_put of_stem \<lparr>of_stem = n, of_stamp = stamp, of_content = Some m\<rparr> (rg_manifests r)\<rparr>"

definition write_pair :: "op_env \<Rightarrow> string \<Rightarrow> string \<Rightarrow> json \<Rightarrow> unit op_call" where
  \<comment> \<open>the source first; a write that fails leaves its file as it was\<close>
  "write_pair env n src m r =
     (if oe_write_fault env (n @ ''.py'') then (Inl OperatorCrash, r)
      else if oe_write_fault env (n @ ''.json'')
      then (Inl OperatorCrash, r\<lparr>rg_sources := tbl_put of_stem \<lparr>of_stem = n, of_stamp = oe_stamp env, of_content = src\<rparr> (rg_sources r)\<rparr>)
      else (Inr (), write_files (oe_stamp env) n src m r))"

definition unlink_files :: "string \<Rightarrow> registry \<Rightarrow> registry" where
  "unlink_files n r = r\<lparr>rg_sources := tbl_del of_stem n (rg_sources r),
     rg_manifests := tbl_del of_stem n (rg_manifests r)\<rparr>"

definition op_bundle :: "operator_manifest \<Rightarrow> string \<Rightarrow> dict" where
  "op_bundle m src = [(''manifest'', JObj (to_dict m)), (''source'', JStr src)]"

definition store_put :: "op_env \<Rightarrow> operator_manifest \<Rightarrow> string \<Rightarrow> unit op_call" where
  "store_put env m src r =
     (case rg_store r of
        None \<Rightarrow> (Inr (), r)
      | Some objects \<Rightarrow>
          if oe_put_fault env (om_name m) then (Inl (OperatorStorage ''put''), r)
          else (Inr (), r\<lparr>rg_store := Some (tbl_put so_name
             \<lparr>so_name = om_name m, so_body = Some (JObj (op_bundle m src))\<rparr> objects)\<rparr>))"

definition store_delete :: "op_env \<Rightarrow> string \<Rightarrow> unit op_call" where
  "store_delete env n r =
     (case rg_store r of
        None \<Rightarrow> (Inr (), r)
      | Some objects \<Rightarrow>
          if oe_delete_fault env n then (Inl (OperatorStorage ''delete''), r)
          else (Inr (), r\<lparr>rg_store := Some (tbl_del so_name n objects)\<rparr>))"

definition store_exists :: "op_env \<Rightarrow> string \<Rightarrow> registry \<Rightarrow> op_error + bool" where
  "store_exists env n r =
     (case rg_store r of
        None \<Rightarrow> Inr False
      | Some objects \<Rightarrow>
          object_exists (if oe_head_fault env then S3Down
            else if tbl_get so_name n objects = None then S3Code ''404'' else S3Ok ()))"

definition operator_exists :: "op_env \<Rightarrow> string \<Rightarrow> registry \<Rightarrow> op_error + bool" where
  "operator_exists env n r =
     (if tbl_get of_stem n (rg_manifests r) \<noteq> None then Inr True else store_exists env n r)"

record op_upload =
  ou_version :: string
  ou_kind :: operator_kind
  ou_source :: string
  ou_description :: string

definition write_and_reload :: "compiles \<Rightarrow> op_env \<Rightarrow> string \<Rightarrow> op_upload \<Rightarrow> operator_manifest op_call" where
  "write_and_reload compile env n u =
     (if py_blank (ou_version u) then araise (OperatorValidation ''version'')
      else abind (alift (validate_source compile (ou_source u) n)) (\<lambda>_.
        let m = \<lparr>om_name = n, om_version = py_strip (ou_version u), om_kind = ou_kind u,
                 om_description = py_strip (ou_description u), om_builtin = False,
                 om_updated_at = oe_now_iso env\<rparr>
        in abind (store_put env m (ou_source u)) (\<lambda>_.
           abind (write_pair env n (ou_source u) (JObj (to_dict m))) (\<lambda>_.
             reload compile n))))"

definition create_operator :: "compiles \<Rightarrow> op_env \<Rightarrow> string \<Rightarrow> op_upload \<Rightarrow> operator_manifest op_call" where
  "create_operator compile env n u r =
     (case rbind (validate_name n) (\<lambda>_.
           rbind (ensure (n \<notin> set reserved_names) (OperatorConflict ''reserved'')) (\<lambda>_.
           operator_exists env n r)) of
        Inl e \<Rightarrow> (Inl e, r)
      | Inr True \<Rightarrow> (Inl (OperatorConflict ''exists''), r)
      | Inr False \<Rightarrow> write_and_reload compile env n u r)"

definition update_operator :: "compiles \<Rightarrow> op_env \<Rightarrow> string \<Rightarrow> op_upload \<Rightarrow> operator_manifest op_call" where
  "update_operator compile env n u r =
     (case rbind (validate_name n) (\<lambda>_.
           rbind (ensure (n \<notin> set reserved_names) (OperatorConflict ''reserved'')) (\<lambda>_.
           operator_exists env n r)) of
        Inl e \<Rightarrow> (Inl e, r)
      | Inr False \<Rightarrow> (Inl (OperatorNotFound n), r)
      | Inr True \<Rightarrow> write_and_reload compile env n u r)"

definition delete_operator :: "op_env \<Rightarrow> string \<Rightarrow> unit op_call" where
  "delete_operator env n r =
     (case rbind (validate_name n) (\<lambda>_.
           rbind (ensure (n \<notin> set reserved_names) (OperatorConflict ''reserved'')) (\<lambda>_.
           if tbl_get of_stem n (rg_sources r) \<noteq> None \<or> tbl_get of_stem n (rg_manifests r) \<noteq> None
           then Inr True else store_exists env n r)) of
        Inl e \<Rightarrow> (Inl e, r)
      | Inr False \<Rightarrow> (Inl (OperatorNotFound n), r)
      | Inr True \<Rightarrow>
          abind (store_delete env n) (\<lambda>_.
            awrite (\<lambda>r1. let r2 = unlink_files n r1
                         in snap (r2\<lparr>rg_operators := tbl_del ro_name n (rg_operators r2)\<rparr>))) r)"

section \<open>Looking up and calling\<close>

definition list_operators :: "compiles \<Rightarrow> operator_kind option \<Rightarrow> registry \<Rightarrow> operator_manifest list \<times> registry" where
  "list_operators compile k r =
     (let r1 = snd (refresh_if_changed compile r) in
      (sort_key om_name (filter (\<lambda>m. case k of None \<Rightarrow> True | Some x \<Rightarrow> om_kind m = x)
         (map ro_manifest (rg_operators r1))), r1))"

definition get_operator :: "compiles \<Rightarrow> string \<Rightarrow> operator_manifest op_call" where
  "get_operator compile n r =
     (let r1 = snd (refresh_if_changed compile r) in
      case tbl_get ro_name n (rg_operators r1) of
        None \<Rightarrow> (Inl (OperatorNotFound n), r1)
      | Some x \<Rightarrow> (Inr (ro_manifest x), r1))"

datatype py_result = Raised | Returned json | NotJson   \<comment> \<open>what a call of the function gives\<close>

definition validate_result :: "py_result \<Rightarrow> op_error + dict list" where
  "validate_result v =
     (case v of
        Returned (JList xs) \<Rightarrow>
          if list_all (\<lambda>x. case x of JObj d \<Rightarrow> True | _ \<Rightarrow> False) xs then Inr (map as_dict xs)
          else Inl (OperatorExecution ''result'')
      | _ \<Rightarrow> Inl (OperatorExecution ''result''))"

definition invoke_operator ::
  "compiles \<Rightarrow> (callable \<Rightarrow> dict list \<Rightarrow> dict \<Rightarrow> py_result) \<Rightarrow> string \<Rightarrow> dict list \<Rightarrow> dict \<Rightarrow> dict list op_call" where
  \<comment> \<open>the function gets copies of its arguments\<close>
  "invoke_operator compile run n data ctx r =
     (let r1 = snd (refresh_if_changed compile r) in
      case tbl_get ro_name n (rg_operators r1) of
        None \<Rightarrow> (Inl (OperatorNotFound n), r1)
      | Some x \<Rightarrow> (validate_result (run (ro_function x) data ctx), r1))"

section \<open>Copies of the registry\<close>

definition export_user_operators :: "compiles \<Rightarrow> registry \<Rightarrow> dict list \<times> registry" where
  "export_user_operators compile r =
     (case list_operators compile None r of
        (ms, r1) \<Rightarrow>
          (concat (map (\<lambda>m. if om_builtin m then []
             else case tbl_get of_stem (om_name m) (rg_sources r1) of
               None \<Rightarrow> [] | Some f \<Rightarrow> [op_bundle m (of_content f)]) ms), r1))"

definition validate_bundle :: "compiles \<Rightarrow> dict \<Rightarrow> op_error + (operator_manifest \<times> string)" where
  "validate_bundle compile b =
     (case (dget b ''manifest'', dget b ''source'') of
        (JObj d, JStr src) \<Rightarrow>
          rbind (manifest_from_dict d) (\<lambda>m.
          rbind (validate_user_manifest m) (\<lambda>_.
          rbind (validate_source compile src (om_name m)) (\<lambda>_. Inr (m, src))))
      | _ \<Rightarrow> Inl (OperatorValidation ''bundle''))"

fun validate_bundles :: "compiles \<Rightarrow> dict list \<Rightarrow> op_error + (operator_manifest \<times> string) list" where
  "validate_bundles compile [] = Inr []"
| "validate_bundles compile (b # bs) =
     rbind (validate_bundle compile b) (\<lambda>x. rbind (validate_bundles compile bs) (\<lambda>xs. Inr (x # xs)))"

fun install_files :: "op_env \<Rightarrow> bool \<Rightarrow> (operator_manifest \<times> string) list \<Rightarrow> unit op_call" where
  "install_files env persist [] = aret ()"
| "install_files env persist ((m, src) # xs) =
     abind (if persist then store_put env m src else aret ()) (\<lambda>_.
     abind (write_pair env (om_name m) src (JObj (to_dict m))) (\<lambda>_.
       install_files env persist xs))"

fun remove_stale :: "op_env \<Rightarrow> bool \<Rightarrow> string list \<Rightarrow> unit op_call" where
  \<comment> \<open>the code goes through a set; the order matters only when a deletion fails\<close>
  "remove_stale env persist [] = aret ()"
| "remove_stale env persist (n # ns) =
     abind (if persist then store_delete env n else aret ()) (\<lambda>_.
     abind (awrite (unlink_files n)) (\<lambda>_. remove_stale env persist ns))"

definition install_bundles ::
  "compiles \<Rightarrow> op_env \<Rightarrow> dict list \<Rightarrow> bool \<Rightarrow> bool \<Rightarrow> string list op_call" where
  "install_bundles compile env bundles replace persist =
     abind (alift (validate_bundles compile bundles)) (\<lambda>validated.
     abind (install_files env persist validated) (\<lambda>_.
     abind (if replace then
              abind (acall (list_operators compile None)) (\<lambda>ms.
                remove_stale env persist
                  (filter (\<lambda>n. n \<notin> (\<lambda>x. om_name (fst x)) ` set validated)
                     (map om_name (filter (\<lambda>m. \<not> om_builtin m) ms))))
            else aret ()) (\<lambda>_.
       acall (reload_all compile))))"

definition sync_user_operators :: "compiles \<Rightarrow> op_env \<Rightarrow> dict list \<Rightarrow> bool \<Rightarrow> string list op_call" where
  "sync_user_operators compile env bundles replace = install_bundles compile env bundles replace True"

definition list_bundles :: "op_env \<Rightarrow> store_object list \<Rightarrow> op_error + dict list" where
  "list_bundles env objects =
     (if oe_list_fault env then Inl (OperatorStorage ''list'')
      else case object_dicts (sort_key (\<lambda>x. so_name x @ ''.json'') objects) of
        None \<Rightarrow> Inl (OperatorStorage ''object'') | Some bs \<Rightarrow> Inr bs)"

definition sync_from_store :: "compiles \<Rightarrow> op_env \<Rightarrow> string list op_call" where
  "sync_from_store compile env r =
     (case rg_store r of
        None \<Rightarrow> acall (reload_all compile) r
      | Some objects \<Rightarrow>
          (case list_bundles env objects of
             Inl e \<Rightarrow> (Inl e, r)
           | Inr bs \<Rightarrow> install_bundles compile env bs True False r))"

definition initialize_store :: "compiles \<Rightarrow> op_env \<Rightarrow> string list op_call" where
  "initialize_store compile env r =
     (case rg_store r of
        None \<Rightarrow> acall (reload_all compile) r
      | Some objects \<Rightarrow>
          abind (alift (ensure_ready (oe_bucket_head env) (oe_bucket_create env))) (\<lambda>_.
            sync_from_store compile env) r)"

end
