(* ===== verification/Operator_Builtins.thy ===== *)
theory Operator_Builtins
  imports Operator_Registry
begin

text \<open>
  The built-in operators, backend/service/operator\_builtins.py: normalising records, extracting
  entities and relations with regular expressions, and planning the ingestion of entities and
  relations against what exists.  The regular expression engine, case folding and the comparison
  of floats with integers are arguments; an exception is \<open>None\<close>.
\<close>

section \<open>Python values\<close>

record re_match =
  rm_text :: string                              \<comment> \<open>\<open>group(0)\<close>\<close>
  rm_groups :: "(string \<times> string option) list"  \<comment> \<open>\<open>groupdict()\<close>\<close>
  rm_start :: int
  rm_end :: int

record py_env =
  pe_finditer :: "string \<Rightarrow> string \<Rightarrow> re_match list option"   \<comment> \<open>None: \<open>re.error\<close>\<close>
  pe_casefold :: "string \<Rightarrow> string"
  pe_float_is_int :: "string \<Rightarrow> int \<Rightarrow> bool"

definition float_eq :: "string \<Rightarrow> string \<Rightarrow> bool" where
  "float_eq s t \<longleftrightarrow> s \<noteq> ''nan'' \<and> (s = t \<or> {s, t} \<subseteq> {''0.0'', ''-0.0''})"

definition bool_int :: "bool \<Rightarrow> int" where
  "bool_int b = (if b then 1 else 0)"

function py_eq :: "py_env \<Rightarrow> json \<Rightarrow> json \<Rightarrow> bool" where
  \<comment> \<open>\<open>a == b\<close>; a boolean is an integer\<close>
  "py_eq env JNull v = (v = JNull)"
| "py_eq env (JBool b) v = (case v of JBool c \<Rightarrow> b = c | JInt i \<Rightarrow> bool_int b = i
     | JFloat s \<Rightarrow> pe_float_is_int env s (bool_int b) | _ \<Rightarrow> False)"
| "py_eq env (JInt i) v = (case v of JBool c \<Rightarrow> i = bool_int c | JInt j \<Rightarrow> i = j
     | JFloat s \<Rightarrow> pe_float_is_int env s i | _ \<Rightarrow> False)"
| "py_eq env (JFloat s) v = (case v of JBool c \<Rightarrow> pe_float_is_int env s (bool_int c)
     | JInt j \<Rightarrow> pe_float_is_int env s j | JFloat t \<Rightarrow> float_eq s t | _ \<Rightarrow> False)"
| "py_eq env (JStr s) v = (v = JStr s)"
| "py_eq env (JList xs) v = (case v of JList ys \<Rightarrow>
     length xs = length ys \<and> list_all (\<lambda>p. py_eq env (fst p) (snd p)) (zip xs ys) | _ \<Rightarrow> False)"
| "py_eq env (JObj d) v = (case v of JObj e \<Rightarrow> length d = length e \<and>
     list_all (\<lambda>p. case map_of e (fst p) of None \<Rightarrow> False | Some w \<Rightarrow> py_eq env (snd p) w) d | _ \<Rightarrow> False)"
  by pat_completeness auto
termination
proof (relation "measure (\<lambda>(env, v, w). size v)")
  fix xs ys :: "json list" and p assume "p \<in> set (zip xs ys)"
  then have "fst p \<in> set xs" by (metis prod.collapse set_zip_leftD)
  then show "((env, fst p, snd p), (env, JList xs, v)) \<in> measure (\<lambda>(env, v, w). size v)" for env v
    using size_list_estimation' [of "fst p" xs "size (fst p)" size] by (simp add: case_prod_beta)
next
  fix d :: "(string \<times> json) list" and p assume "p \<in> set d"
  then show "((env, snd p, w), (env, JObj d, v)) \<in> measure (\<lambda>(env, v, w). size v)" for env v w
    by (induction d) auto
qed simp

definition iter_items :: "json \<Rightarrow> json list option" where
  \<comment> \<open>\<open>for x in v\<close>\<close>
  "iter_items v = (case v of
     JList xs \<Rightarrow> Some xs | JStr s \<Rightarrow> Some (map JStr (code_points s)) | JObj d \<Rightarrow> Some (map (\<lambda>p. JStr (fst p)) d) | _ \<Rightarrow> None)"

definition opt_bind :: "'a option \<Rightarrow> ('a \<Rightarrow> 'b option) \<Rightarrow> 'b option" where
  "opt_bind x f = (case x of None \<Rightarrow> None | Some y \<Rightarrow> f y)"

section \<open>Normalising\<close>

fun cut_word :: "string \<Rightarrow> string \<times> string" where
  "cut_word [] = ([], [])"
| "cut_word (c # cs) =
     (if list_ex (\<lambda>w. prefix w (c # cs)) py_ws then ([], c # cs)
      else case cut_word cs of (w, r) \<Rightarrow> (c # w, r))"

lemma cut_word_parts: "cut_word s = (w, r) \<Longrightarrow> s = w @ r"
  by (induction s arbitrary: w) (auto split: if_splits prod.splits)

function py_words :: "string \<Rightarrow> string list" where
  \<comment> \<open>\<open>s.split()\<close>\<close>
  "py_words s =
     (if py_lstrip s = [] then []
      else case cut_word (py_lstrip s) of (w, r) \<Rightarrow> if w = [] then [] else w # py_words r)"
  by pat_completeness auto
termination
proof (relation "measure length")
  fix s w r assume "(w, r) = cut_word (py_lstrip s)" "w \<noteq> []"
  then have "length r < length (py_lstrip s)"
    using cut_word_parts [of "py_lstrip s" w r] by auto
  also have "length (py_lstrip s) \<le> length s"
    unfolding py_lstrip_def by (rule suffix_length_le [OF strip_front_suffix])
  finally show "(r, s) \<in> measure length" by simp
qed simp

declare py_words.simps [simp del]

definition normalize_text :: "string \<Rightarrow> string" where
  "normalize_text s = py_join '' '' (py_words (py_strip s))"

fun normalize_value :: "json \<Rightarrow> json" where
  "normalize_value (JStr s) = JStr (normalize_text s)"
| "normalize_value (JList xs) = JList (map normalize_value xs)"
| "normalize_value (JObj d) = JObj (map (\<lambda>p. (fst p, normalize_value (snd p))) d)"
| "normalize_value v = v"

definition is_empty_value :: "json \<Rightarrow> bool" where
  \<comment> \<open>\<open>value in (None, "", [], {})\<close>\<close>
  "is_empty_value v \<longleftrightarrow> v \<in> {JNull, JStr [], JList [], JObj []}"

definition renamed :: "dict \<Rightarrow> string \<Rightarrow> string" where
  "renamed mapping k = py_str (dget_or mapping k (JStr k))"

definition normalize_item :: "dict \<Rightarrow> bool \<Rightarrow> dict \<Rightarrow> dict" where
  "normalize_item mapping drop_empty source =
     (let item = foldl (\<lambda>d p. dset (renamed mapping (fst p)) (normalize_value (snd p)) d) [] source
      in if drop_empty then filter (\<lambda>p. \<not> is_empty_value (snd p)) item else item)"

definition data_normalize :: "dict list \<Rightarrow> dict \<Rightarrow> dict list option" where
  \<comment> \<open>a mapping that is not a dictionary raises as soon as a field is looked up\<close>
  "data_normalize data ctx =
     (case dget_or ctx ''field_mapping'' (JObj []) of
        JObj mapping \<Rightarrow> Some (map (normalize_item mapping (truthy (dget_or ctx ''drop_empty'' (JBool False)))) data)
      | _ \<Rightarrow> if list_all (\<lambda>d. d = []) data then Some data else None)"

section \<open>Extraction\<close>

definition ctx_str :: "dict \<Rightarrow> string \<Rightarrow> string \<Rightarrow> string" where
  "ctx_str ctx k v = py_str (dget_or ctx k (JStr v))"

definition opt_group :: "string option option \<Rightarrow> string option" where
  \<comment> \<open>\<open>groupdict().get(k)\<close>\<close>
  "opt_group g = (case g of None \<Rightarrow> None | Some v \<Rightarrow> v)"

definition entity_of :: "string \<Rightarrow> int \<Rightarrow> nat \<Rightarrow> re_match \<Rightarrow> dict" where
  "entity_of entity_type row n m =
     [(''id'', JStr (''E'' @ show_nat (n + 1))),
      (''name'', JStr (opt_or (opt_group (map_of (rm_groups m) ''value'')) (rm_text m))),
      (''type'', JStr entity_type), (''source_index'', JInt row),
      (''start'', JInt (rm_start m)), (''end'', JInt (rm_end m))]"

definition add_entities :: "string \<Rightarrow> int \<Rightarrow> re_match list \<Rightarrow> dict list \<Rightarrow> dict list" where
  "add_entities entity_type row ms es = foldl (\<lambda>es m. es @ [entity_of entity_type row (length es) m]) es ms"

fun apply_rules :: "py_env \<Rightarrow> int \<Rightarrow> string \<Rightarrow> json list \<Rightarrow> dict list \<Rightarrow> dict list option" where
  "apply_rules env row txt [] es = Some es"
| "apply_rules env row txt (r # rs) es =
     (case r of
        JObj rule \<Rightarrow>
          (let pattern = ctx_str rule ''pattern'' [] in
           if pattern = [] then apply_rules env row txt rs es
           else opt_bind (pe_finditer env pattern txt) (\<lambda>ms.
             apply_rules env row txt rs (add_entities (ctx_str rule ''entity_type'' ''Entity'') row ms es)))
      | _ \<Rightarrow> None)"

fun extract_rows :: "py_env \<Rightarrow> dict \<Rightarrow> int \<Rightarrow> dict list \<Rightarrow> dict list \<Rightarrow> dict list option" where
  "extract_rows env ctx row [] es = Some es"
| "extract_rows env ctx row (d # ds) es =
     opt_bind (iter_items (dget_or ctx ''rules'' (JList []))) (\<lambda>rules.
     opt_bind (apply_rules env row (py_str (dget_or d (ctx_str ctx ''text_field'' ''text'') (JStr []))) rules es)
       (extract_rows env ctx (row + 1) ds))"

definition entity_extract :: "py_env \<Rightarrow> dict list \<Rightarrow> dict \<Rightarrow> dict list option" where
  "entity_extract env data ctx = extract_rows env ctx 0 data []"

definition relation_of :: "json \<Rightarrow> json \<Rightarrow> json \<Rightarrow> int \<Rightarrow> dict" where
  "relation_of source target type row =
     [(''source'', source), (''target'', target), (''type'', type), (''source_index'', JInt row)]"

definition match_relation :: "string \<Rightarrow> int \<Rightarrow> re_match \<Rightarrow> dict list" where
  "match_relation default_type row m =
     (case (opt_group (map_of (rm_groups m) ''source''), opt_group (map_of (rm_groups m) ''target'')) of
        (Some s, Some t) \<Rightarrow> [relation_of (JStr s) (JStr t)
            (JStr (opt_or (opt_group (map_of (rm_groups m) ''type'')) default_type)) row]
      | _ \<Rightarrow> [])"

definition row_relations :: "py_env \<Rightarrow> dict \<Rightarrow> int \<Rightarrow> dict \<Rightarrow> dict list option" where
  "row_relations env ctx row d =
     (let source = dget d (ctx_str ctx ''source_field'' ''source'');
          target = dget d (ctx_str ctx ''target_field'' ''target'');
          default_type = ctx_str ctx ''default_type'' ''RELATED_TO''
      in if source \<noteq> JNull \<and> target \<noteq> JNull
         then Some [relation_of source target
                (dget_or d (ctx_str ctx ''type_field'' ''type'') (JStr default_type)) row]
         else if truthy (dget ctx ''pattern'')
         then opt_bind (pe_finditer env (py_str (dget ctx ''pattern''))
                  (py_str (dget_or d (ctx_str ctx ''text_field'' ''text'') (JStr []))))
                (\<lambda>ms. Some (concat (map (match_relation default_type row) ms)))
         else Some [])"

fun relation_rows :: "py_env \<Rightarrow> dict \<Rightarrow> int \<Rightarrow> dict list \<Rightarrow> dict list option" where
  "relation_rows env ctx row [] = Some []"
| "relation_rows env ctx row (d # ds) =
     opt_bind (row_relations env ctx row d) (\<lambda>rs.
     opt_bind (relation_rows env ctx (row + 1) ds) (\<lambda>rest. Some (rs @ rest)))"

definition relation_extract :: "py_env \<Rightarrow> dict list \<Rightarrow> dict \<Rightarrow> dict list option" where
  "relation_extract env data ctx = relation_rows env ctx 0 data"

section \<open>Ingestion plans\<close>

fun first_match :: "(json \<Rightarrow> bool option) \<Rightarrow> json list \<Rightarrow> json option option" where
  \<comment> \<open>the first candidate that matches; \<open>None\<close> when a candidate before it raises\<close>
  "first_match p [] = Some None"
| "first_match p (c # cs) = opt_bind (p c) (\<lambda>b. if b then Some (Some c) else first_match p cs)"

definition agree_on :: "py_env \<Rightarrow> string list \<Rightarrow> dict \<Rightarrow> json \<Rightarrow> bool option" where
  \<comment> \<open>\<open>all(candidate.get(key) == item.get(key) for key in keys)\<close>\<close>
  "agree_on env keys item c =
     (if keys = [] then Some True
      else case c of JObj d \<Rightarrow> Some (list_all (\<lambda>k. py_eq env (dget d k) (dget item k)) keys) | _ \<Rightarrow> None)"

definition folded_name :: "py_env \<Rightarrow> json \<Rightarrow> string" where
  "folded_name env v = pe_casefold env (py_strip (py_str v))"

definition same_name :: "py_env \<Rightarrow> string \<Rightarrow> dict \<Rightarrow> json \<Rightarrow> bool option" where
  "same_name env name_key item c =
     (case c of
        JObj d \<Rightarrow> Some (folded_name env (dget_or d name_key (JStr [])) = folded_name env (dget item name_key))
      | _ \<Rightarrow> None)"

definition find_match ::
  "py_env \<Rightarrow> string list \<Rightarrow> string \<Rightarrow> dict \<Rightarrow> json list \<Rightarrow> (json \<times> string) option option" where
  "find_match env primary_keys name_key item existing =
     opt_bind (if primary_keys \<noteq> [] \<and> list_all (\<lambda>k. dget item k \<noteq> JNull) primary_keys
               then first_match (agree_on env primary_keys item) existing else Some None) (\<lambda>by_key.
       case by_key of
         Some c \<Rightarrow> Some (Some (c, ''primary_key''))
       | None \<Rightarrow>
           if dget item name_key = JNull then Some None
           else opt_bind (first_match (same_name env name_key item) existing) (\<lambda>by_name.
             Some (map_option (\<lambda>c. (c, ''name'')) by_name)))"

definition insert_plan :: dict where
  "insert_plan = [(''action'', JStr ''insert''), (''matched_by'', JNull)]"

fun plan_items ::
  "(dict \<Rightarrow> json list \<Rightarrow> (dict \<times> dict) option option) \<Rightarrow> json list \<Rightarrow> dict list \<Rightarrow> dict list option" where
  \<comment> \<open>the loop of both plans: a match gives the existing record and the plan for the item\<close>
  "plan_items finder existing [] = Some []"
| "plan_items finder existing (item # items) =
     opt_bind (finder item existing) (\<lambda>found.
       case found of
         None \<Rightarrow> map_option (Cons (dset ''_ingest'' (JObj insert_plan) item))
                   (plan_items finder (existing @ [JObj item]) items)
       | Some (matched, plan) \<Rightarrow> map_option (Cons (dset ''_ingest'' (JObj plan) (dmerge matched item)))
                   (plan_items finder existing items))"

definition find_entity :: "py_env \<Rightarrow> string list \<Rightarrow> string \<Rightarrow> dict \<Rightarrow> json list \<Rightarrow> (dict \<times> dict) option option" where
  "find_entity env primary_keys name_key item existing =
     opt_bind (find_match env primary_keys name_key item existing) (\<lambda>found.
       case found of
         None \<Rightarrow> Some None
       | Some (JObj d, matched_by) \<Rightarrow> Some (Some (d, [(''action'', JStr ''merge''),
             (''matched_by'', JStr matched_by), (''matched_id'', dget d ''id'')]))
       | _ \<Rightarrow> None)"

definition str_items :: "json \<Rightarrow> string list option" where
  \<comment> \<open>\<open>[str(key) for key in v]\<close>\<close>
  "str_items v = map_option (map py_str) (iter_items v)"

definition entity_load :: "py_env \<Rightarrow> dict list \<Rightarrow> dict \<Rightarrow> dict list option" where
  "entity_load env data ctx =
     opt_bind (iter_items (dget_or ctx ''existing_entities'' (JList []))) (\<lambda>existing.
     opt_bind (str_items (dget_or ctx ''primary_keys'' (JList [JStr ''id'']))) (\<lambda>primary_keys.
       plan_items (find_entity env primary_keys (ctx_str ctx ''name_key'' ''name'')) existing data))"

definition find_relation :: "py_env \<Rightarrow> string list \<Rightarrow> dict \<Rightarrow> json list \<Rightarrow> (dict \<times> dict) option option" where
  "find_relation env key_fields item existing =
     opt_bind (first_match (agree_on env key_fields item) existing) (\<lambda>found.
       case found of
         None \<Rightarrow> Some None
       | Some (JObj d) \<Rightarrow> Some (Some (d, [(''action'', JStr ''merge''),
             (''matched_by'', JList (map JStr key_fields))]))
       | _ \<Rightarrow> None)"

definition relation_load :: "py_env \<Rightarrow> dict list \<Rightarrow> dict \<Rightarrow> dict list option" where
  "relation_load env data ctx =
     opt_bind (iter_items (dget_or ctx ''existing_relations'' (JList []))) (\<lambda>existing.
     opt_bind (str_items (dget_or ctx ''key_fields'' (JList (map JStr [''source'', ''target'', ''type''])))) (\<lambda>key_fields.
       plan_items (find_relation env key_fields) existing data))"

section \<open>Calling them\<close>

definition run_builtin :: "py_env \<Rightarrow> string \<Rightarrow> dict list \<Rightarrow> dict \<Rightarrow> py_result" where
  "run_builtin env n data ctx =
     (let r = (if n = ''data_normalize'' then data_normalize data ctx
               else if n = ''entity_extract'' then entity_extract env data ctx
               else if n = ''relation_extract'' then relation_extract env data ctx
               else if n = ''entity_load'' then entity_load env data ctx
               else if n = ''relation_load'' then relation_load env data ctx
               else None)
      in case r of None \<Rightarrow> Raised | Some ds \<Rightarrow> Returned (JList (map JObj ds)))"

definition run_operator ::
  "py_env \<Rightarrow> (string \<Rightarrow> dict list \<Rightarrow> dict \<Rightarrow> py_result) \<Rightarrow> callable \<Rightarrow> dict list \<Rightarrow> dict \<Rightarrow> py_result" where
  "run_operator env user f data ctx =
     (case f of Builtin n \<Rightarrow> run_builtin env n data ctx | UserSource src \<Rightarrow> user src data ctx)"

end
