(* ===== verification/Operator_Plans.thy ===== *)
theory Operator_Plans
  imports Operator_Builtins
begin

text \<open>
  What the ingestion plans guarantee, stated once for both of them: the interface of the search for
  an existing record, the lemmas on the loop over the items, and the two searches as instances;
  and that normalising is idempotent.
\<close>

section \<open>The loop over the items\<close>

fun planned_inserts ::
  "(dict \<Rightarrow> json list \<Rightarrow> (dict \<times> dict) option option) \<Rightarrow> json list \<Rightarrow> dict list \<Rightarrow> dict list" where
  "planned_inserts finder existing [] = []"
| "planned_inserts finder existing (item # items) =
     (case finder item existing of
        Some None \<Rightarrow> item # planned_inserts finder (existing @ [JObj item]) items
      | _ \<Rightarrow> planned_inserts finder existing items)"

definition plan_of :: "dict \<Rightarrow> dict" where
  "plan_of out = as_dict (dget out ''_ingest'')"

definition is_merge :: "dict \<Rightarrow> bool" where
  "is_merge out \<longleftrightarrow> dget (plan_of out) ''action'' = JStr ''merge''"

lemma plan_of_dset [simp]: "plan_of (dset ''_ingest'' (JObj p) d) = p"
  by (simp add: plan_of_def as_dict_def)

locale ingest_plan =
  fixes finder :: "dict \<Rightarrow> json list \<Rightarrow> (dict \<times> dict) option option"
    and usable :: "dict \<Rightarrow> bool"
  assumes found_later: "finder item ex = Some (Some m) \<Longrightarrow> \<exists>m'. finder item (ex @ map JObj ds) = Some (Some m')"
    and found_self: "usable item \<Longrightarrow> finder item ex = Some None \<Longrightarrow>
      \<exists>m. finder item (ex @ JObj item # map JObj ds) = Some (Some m)"
    and found_merges: "finder item ex = Some (Some (d, p)) \<Longrightarrow> dget p ''action'' = JStr ''merge''"
begin

lemma plan_merges: "plan_items finder ex items = Some out \<Longrightarrow>
    map (\<lambda>p. snd p) (filter (\<lambda>p. \<not> is_merge (fst p)) (zip out items)) = planned_inserts finder ex items \<and>
    length out = length items"
proof (induction items arbitrary: ex out)
  case (Cons item items)
  then obtain found where f: "finder item ex = Some found" by (auto simp: opt_bind_def split: option.splits)
  have new: "\<not> is_merge (dset ''_ingest'' (JObj insert_plan) item)"
    by (simp add: is_merge_def insert_plan_def dget_def)
  have old: "is_merge (dset ''_ingest'' (JObj p) d)" if "found = Some (e, p)" for e p d
    using found_merges [of item ex] f that by (simp add: is_merge_def)
  show ?case
  proof (cases found)
    case None
    with Cons.prems f obtain out' where "plan_items finder (ex @ [JObj item]) items = Some out'"
      "out = dset ''_ingest'' (JObj insert_plan) item # out'" by (auto simp: opt_bind_def)
    with Cons.IH f None new show ?thesis by simp
  next
    case (Some m)
    then obtain d p where m: "found = Some (d, p)" by (cases m) auto
    with Cons.prems f obtain out' where "plan_items finder ex items = Some out'"
      "out = dset ''_ingest'' (JObj p) (dmerge d item) # out'" by (auto simp: opt_bind_def)
    with Cons.IH f m old show ?thesis by simp
  qed
qed simp

lemma all_found:
  "plan_items finder ex items = Some out \<Longrightarrow> list_all usable items \<Longrightarrow> item \<in> set items \<Longrightarrow>
   \<exists>m. finder item (ex @ map JObj (planned_inserts finder ex items @ ds)) = Some (Some m)"
proof (induction items arbitrary: ex out)
  case (Cons i items)
  then obtain found where f: "finder i ex = Some found" by (auto simp: opt_bind_def split: option.splits)
  show ?case
  proof (cases found)
    case None
    with Cons.prems f obtain out' where out: "plan_items finder (ex @ [JObj i]) items = Some out'"
      by (auto simp: opt_bind_def)
    show ?thesis
    proof (cases "item \<in> set items")
      case True
      with Cons.IH [OF out] Cons.prems f None show ?thesis by simp
    next
      case False
      with Cons.prems f None found_self [of i ex "planned_inserts finder (ex @ [JObj i]) items @ ds"]
      show ?thesis by simp
    qed
  next
    case (Some m)
    with Cons.prems f obtain out' where out: "plan_items finder ex items = Some out'"
      by (cases m) (auto simp: opt_bind_def)
    show ?thesis
    proof (cases "item \<in> set items")
      case True
      with Cons.IH [OF out] Cons.prems f Some show ?thesis by (cases m) simp
    next
      case False
      with Cons.prems f Some found_later [of i ex m "planned_inserts finder ex items @ ds"] show ?thesis
        by (cases m) simp
    qed
  qed
qed simp

lemma all_merges:
  assumes "\<And>item. item \<in> set items \<Longrightarrow> \<exists>m. finder item ex = Some (Some m)"
  shows "\<exists>out. plan_items finder ex items = Some out \<and> list_all is_merge out"
  using assms
proof (induction items)
  case (Cons i items)
  then obtain out where out: "plan_items finder ex items = Some out" "list_all is_merge out" by auto
  obtain d p where "finder i ex = Some (Some (d, p))" using Cons.prems [of i] by auto
  moreover from found_merges [OF this] have "is_merge (dset ''_ingest'' (JObj p) (dmerge d i))"
    by (simp add: is_merge_def)
  ultimately show ?case using out by (simp add: opt_bind_def)
qed simp

lemma replan_merges:
  assumes "plan_items finder ex items = Some out" and "list_all usable items"
  shows "\<exists>out'. plan_items finder (ex @ map JObj (planned_inserts finder ex items)) items = Some out' \<and>
    list_all is_merge out'"
  using all_merges [of items] all_found [OF assms, where ds = "[]"] by simp

end

section \<open>The two searches\<close>

lemma first_match_append:
  "first_match p (xs @ ys) = opt_bind (first_match p xs) (\<lambda>r. case r of None \<Rightarrow> first_match p ys | Some c \<Rightarrow> Some (Some c))"
  by (induction xs) (auto simp: opt_bind_def split: option.split)

lemma first_match_dicts:
  assumes "\<And>d. p (JObj d) \<noteq> None"
  shows "\<exists>r. first_match p (map JObj ds) = Some r"
proof (induction ds)
  case (Cons d ds)
  then show ?case using assms [of d] by (auto simp: opt_bind_def)
qed simp

lemma first_match_self:
  assumes "first_match p ex = Some r" and "p (JObj d) = Some True"
  shows "\<exists>c. first_match p (ex @ JObj d # zs) = Some (Some c)"
  using assms by (cases r) (auto simp: first_match_append opt_bind_def)

lemma first_match_true: "first_match p xs = Some (Some c) \<Longrightarrow> p c = Some True"
  by (induction xs) (auto simp: opt_bind_def split: option.splits if_splits)

lemma agree_on_dict [simp]: "\<exists>b. agree_on env keys item (JObj d) = Some b"
  by (auto simp: agree_on_def)

lemma same_name_dict [simp]: "\<exists>b. same_name env nk item (JObj d) = Some b"
  by (simp add: same_name_def)

lemma matched_dict:
  "agree_on env keys item c = Some True \<Longrightarrow> keys \<noteq> [] \<Longrightarrow> \<exists>d. c = JObj d"
  "same_name env nk item c = Some True \<Longrightarrow> \<exists>d. c = JObj d"
  by (auto simp: agree_on_def same_name_def split: json.splits)

definition by_key :: "py_env \<Rightarrow> string list \<Rightarrow> dict \<Rightarrow> json list \<Rightarrow> json option option" where
  "by_key env pks item ex = (if pks \<noteq> [] \<and> list_all (\<lambda>k. dget item k \<noteq> JNull) pks
     then first_match (agree_on env pks item) ex else Some None)"

lemma by_key_dict: "by_key env pks item ex = Some (Some c) \<Longrightarrow> \<exists>d. c = JObj d"
  by (auto simp: by_key_def split: if_splits dest!: first_match_true dest: matched_dict)

lemma find_entity_eq:
  "find_entity env pks nk item ex =
     (case by_key env pks item ex of
        None \<Rightarrow> None
      | Some (Some c) \<Rightarrow> Some (Some (as_dict c, [(''action'', JStr ''merge''), (''matched_by'', JStr ''primary_key''),
          (''matched_id'', dget (as_dict c) ''id'')]))
      | Some None \<Rightarrow>
          if dget item nk = JNull then Some None
          else (case first_match (same_name env nk item) ex of
             None \<Rightarrow> None
           | Some None \<Rightarrow> Some None
           | Some (Some c) \<Rightarrow> Some (Some (as_dict c, [(''action'', JStr ''merge''), (''matched_by'', JStr ''name''),
               (''matched_id'', dget (as_dict c) ''id'')]))))"
proof -
  have name: "\<exists>d. c = JObj d" if "first_match (same_name env nk item) ex = Some (Some c)" for c
    using first_match_true [OF that] by (rule matched_dict(2))
  show ?thesis
    unfolding find_entity_def find_match_def by_key_def [symmetric]
    using by_key_dict [of env pks item ex] name
    by (fastforce simp: opt_bind_def as_dict_def split: option.split)
qed

lemma find_entity_found:
  "(\<exists>m. find_entity env pks nk item ex = Some (Some m)) \<longleftrightarrow>
     (\<exists>c. by_key env pks item ex = Some (Some c)) \<or>
     by_key env pks item ex = Some None \<and> dget item nk \<noteq> JNull \<and>
       (\<exists>c. first_match (same_name env nk item) ex = Some (Some c))"
  by (auto simp: find_entity_eq split: option.splits if_splits)

lemma find_entity_new:
  "find_entity env pks nk item ex = Some None \<longleftrightarrow> by_key env pks item ex = Some None \<and>
     (dget item nk = JNull \<or> first_match (same_name env nk item) ex = Some None)"
  by (auto simp: find_entity_eq split: option.splits if_splits)

lemma by_key_append:
  "by_key env pks item ex = Some r \<Longrightarrow> \<exists>r'. by_key env pks item (ex @ map JObj ds) = Some r' \<and> (r \<noteq> None \<longrightarrow> r' = r)"
  using first_match_dicts [of "agree_on env pks item" ds]
  by (auto simp: by_key_def first_match_append opt_bind_def split: option.split)

lemma same_name_self: "dget item nk \<noteq> JNull \<Longrightarrow> same_name env nk item (JObj item) = Some True"
  by (auto simp: same_name_def dget_def dget_or_def split: option.splits)

interpretation entity_plan: ingest_plan "find_entity env pks nk" "\<lambda>item. dget item nk \<noteq> JNull"
  for env :: py_env and pks :: "string list" and nk :: string
proof
  fix item ex m ds
  assume "find_entity env pks nk item ex = Some (Some m)"
  then have "(\<exists>c. by_key env pks item ex = Some (Some c)) \<or>
     by_key env pks item ex = Some None \<and> dget item nk \<noteq> JNull \<and>
       (\<exists>c. first_match (same_name env nk item) ex = Some (Some c))"
    using find_entity_found [of env pks nk item ex] by blast
  then show "\<exists>m'. find_entity env pks nk item (ex @ map JObj ds) = Some (Some m')"
    unfolding find_entity_found using by_key_append [of env pks item ex _ ds]
    by (fastforce simp: first_match_append opt_bind_def)
next
  fix item ex ds
  assume n: "dget item nk \<noteq> JNull" and "find_entity env pks nk item ex = Some None"
  then have k: "by_key env pks item ex = Some None" and f: "first_match (same_name env nk item) ex = Some None"
    by (auto simp: find_entity_new)
  have "\<exists>c. first_match (same_name env nk item) (ex @ JObj item # map JObj ds) = Some (Some c)"
    by (rule first_match_self [OF f same_name_self [OF n]])
  with n by_key_append [OF k, of "item # ds"]
  show "\<exists>m. find_entity env pks nk item (ex @ JObj item # map JObj ds) = Some (Some m)"
    unfolding find_entity_found by (auto simp: not_None_eq)
next
  fix item ex d p
  assume "find_entity env pks nk item ex = Some (Some (d, p))"
  then show "dget p ''action'' = JStr ''merge''"
    by (auto simp: find_entity_eq dget_def split: option.splits if_splits)
qed

lemma find_relation_eq:
  "find_relation env keys item ex =
     (case first_match (agree_on env keys item) ex of
        None \<Rightarrow> None
      | Some None \<Rightarrow> Some None
      | Some (Some (JObj d)) \<Rightarrow> Some (Some (d, [(''action'', JStr ''merge''), (''matched_by'', JList (map JStr keys))]))
      | _ \<Rightarrow> None)"
  by (simp add: find_relation_def opt_bind_def split: option.split)

interpretation relation_plan: ingest_plan "find_relation env keys"
    "\<lambda>item. list_all (\<lambda>k. py_eq env (dget item k) (dget item k)) keys"
  for env :: py_env and keys :: "string list"
proof
  fix item ex m ds
  assume "find_relation env keys item ex = Some (Some m)"
  then show "\<exists>m'. find_relation env keys item (ex @ map JObj ds) = Some (Some m')"
    by (auto simp: find_relation_eq first_match_append opt_bind_def split: option.splits json.splits)
next
  fix item ex ds
  assume self: "list_all (\<lambda>k. py_eq env (dget item k) (dget item k)) keys"
    and new: "find_relation env keys item ex = Some None"
  then have "first_match (agree_on env keys item) ex = Some None"
    by (auto simp: find_relation_eq split: option.splits json.splits)
  moreover have "agree_on env keys item (JObj item) = Some True" using self by (simp add: agree_on_def)
  ultimately show "\<exists>m. find_relation env keys item (ex @ JObj item # map JObj ds) = Some (Some m)"
    by (simp add: find_relation_eq first_match_append opt_bind_def)
next
  fix item ex d p
  assume "find_relation env keys item ex = Some (Some (d, p))"
  then show "dget p ''action'' = JStr ''merge''"
    by (auto simp: find_relation_eq dget_def split: option.splits json.splits)
qed

section \<open>Replaying a plan\<close>

lemma dget_or_dset [simp]: "dget_or (dset k v d) k' w = (if k' = k then v else dget_or d k' w)"
  by (simp add: dget_or_def)

definition new_records :: "dict list \<Rightarrow> dict list \<Rightarrow> dict list" where
  \<comment> \<open>the items that a plan inserts\<close>
  "new_records out data = map snd (filter (\<lambda>p. \<not> is_merge (fst p)) (zip out data))"

text \<open>
  Once the entities that a plan inserts are there, the plan for the same data inserts nothing:
  every item of it, when it has a name, is merged into a record that exists; and a plan has one entry per item.
\<close>

lemma entity_replay:
  assumes "entity_load env data ctx = Some out"
    and "dget_or ctx ''existing_entities'' (JList []) = JList ex"
    and "list_all (\<lambda>item. dget item (ctx_str ctx ''name_key'' ''name'') \<noteq> JNull) data"
  shows "length out = length data \<and>
    (\<exists>out'. entity_load env data (dset ''existing_entities'' (JList (ex @ map JObj (new_records out data))) ctx) = Some out' \<and>
       list_all is_merge out')"
proof -
  obtain pks where pks: "str_items (dget_or ctx ''primary_keys'' (JList [JStr ''id''])) = Some pks"
    and plan: "plan_items (find_entity env pks (ctx_str ctx ''name_key'' ''name'')) ex data = Some out"
    using assms(1,2) by (auto simp: entity_load_def opt_bind_def iter_items_def split: option.splits)
  from entity_plan.plan_merges [OF plan] have "new_records out data =
      planned_inserts (find_entity env pks (ctx_str ctx ''name_key'' ''name'')) ex data"
    and len: "length out = length data" by (simp_all add: new_records_def)
  with entity_plan.replan_merges [OF plan assms(3)] pks len show ?thesis
    by (simp add: entity_load_def opt_bind_def iter_items_def ctx_str_def)
qed

definition tiny_env :: py_env where
  "tiny_env = \<lparr>pe_finditer = (\<lambda>p s. Some []), pe_casefold = ascii_lower, pe_float_is_int = (\<lambda>s i. False)\<rparr>"

lemma entity_replay_witness:
  "entity_load tiny_env [[(''name'', JStr ''MIT'')], [(''name'', JStr '' mit '')]] [] =
     Some [[(''name'', JStr ''MIT''), (''_ingest'', JObj insert_plan)],
           [(''name'', JStr '' mit ''), (''_ingest'', JObj [(''action'', JStr ''merge''),
              (''matched_by'', JStr ''name''), (''matched_id'', JNull)])]] \<and>
   (\<exists>out'. entity_load tiny_env [[(''name'', JStr ''MIT'')], [(''name'', JStr '' mit '')]]
     [(''existing_entities'', JList [JObj [(''name'', JStr ''MIT'')]])] = Some out' \<and> list_all is_merge out')"
proof
  let ?data = "[[(''name'', JStr ''MIT'')], [(''name'', JStr '' mit '')]]"
  let ?out = "[[(''name'', JStr ''MIT''), (''_ingest'', JObj insert_plan)],
           [(''name'', JStr '' mit ''), (''_ingest'', JObj [(''action'', JStr ''merge''),
              (''matched_by'', JStr ''name''), (''matched_id'', JNull)])]]"
  show out: "entity_load tiny_env ?data [] = Some ?out" by code_simp
  have "list_all (\<lambda>item. dget item (ctx_str [] ''name_key'' ''name'') \<noteq> JNull) ?data"
    by (simp add: ctx_str_def dget_or_def dget_def)
  from entity_replay [OF out _ this, of "[]"]
  show "\<exists>out'. entity_load tiny_env ?data [(''existing_entities'', JList [JObj [(''name'', JStr ''MIT'')]])] = Some out' \<and>
      list_all is_merge out'"
    by (simp add: new_records_def is_merge_def plan_of_def as_dict_def dget_def insert_plan_def dget_or_def)
qed

text \<open>The same holds of relations whose key fields compare equal to themselves (no \<open>NaN\<close> among them).\<close>

lemma relation_replay:
  assumes "relation_load env data ctx = Some out"
    and "dget_or ctx ''existing_relations'' (JList []) = JList ex"
    and "str_items (dget_or ctx ''key_fields'' (JList (map JStr [''source'', ''target'', ''type'']))) = Some keys"
    and "list_all (\<lambda>item. list_all (\<lambda>k. py_eq env (dget item k) (dget item k)) keys) data"
  shows "\<exists>out'. relation_load env data (dset ''existing_relations'' (JList (ex @ map JObj (new_records out data))) ctx) = Some out' \<and>
       list_all is_merge out'"
proof -
  have plan: "plan_items (find_relation env keys) ex data = Some out"
    using assms(1-3) by (simp add: relation_load_def opt_bind_def iter_items_def)
  from relation_plan.plan_merges [OF plan] have "new_records out data = planned_inserts (find_relation env keys) ex data"
    by (simp add: new_records_def)
  with relation_plan.replan_merges [OF plan assms(4)] assms(3) show ?thesis
    by (simp add: relation_load_def opt_bind_def iter_items_def)
qed

text \<open>
  Two matches by name that the comparison of texts brings about: an item whose name is blank matches a
  record without a name, and an item named ``none'' a record whose name is null.
\<close>

lemma blank_name_matches_nameless:
  "find_match tiny_env [] ''name'' [(''name'', JStr '' '')] [JObj [(''id'', JInt 1)]] =
     Some (Some (JObj [(''id'', JInt 1)], ''name''))"
  by code_simp

lemma none_matches_null_name:
  "find_match tiny_env [] ''name'' [(''name'', JStr ''none'')] [JObj [(''name'', JNull)]] =
     Some (Some (JObj [(''name'', JNull)], ''name''))"
  by code_simp

section \<open>Normalising\<close>

definition wordy :: "string \<Rightarrow> bool" where
  \<comment> \<open>a nonempty text in which no whitespace starts\<close>
  "wordy w \<longleftrightarrow> w \<noteq> [] \<and> (\<forall>u v. w = u @ v \<longrightarrow> (\<forall>b \<in> set py_ws. \<not> prefix b v))"

lemma ws_space: "b \<in> set py_ws \<Longrightarrow> CHR '' '' \<in> set b \<Longrightarrow> b = '' ''"
  unfolding py_ws_def by auto

lemma ws_nonempty: "b \<in> set py_ws \<Longrightarrow> b \<noteq> []"
  by (rule py_ws_nonempty)

lemma wordy_before_space:
  assumes "wordy w" and "w = u @ v" and "v \<noteq> []" and "b \<in> set py_ws"
  shows "\<not> prefix b (v @ CHR '' '' # r)"
proof
  assume p: "prefix b (v @ CHR '' '' # r)"
  have "\<not> prefix b v" using assms by (auto simp: wordy_def)
  with p obtain b' where "b = v @ b'" "prefix b' (CHR '' '' # r)" "b' \<noteq> []"
    by (auto simp: prefix_append)
  then have "CHR '' '' \<in> set b" "2 \<le> length b" using assms(3)
    by (cases b'; cases v; simp)+
  with ws_space [OF assms(4)] show False by simp
qed

lemma cut_word_wordy:
  "wordy w \<Longrightarrow> cut_word (w @ CHR '' '' # r) = (w, CHR '' '' # r)" "wordy w \<Longrightarrow> cut_word w = (w, [])"
proof -
  assume w: "wordy w"
  have "cut_word (v @ CHR '' '' # r) = (v, CHR '' '' # r)" if "w = u @ v" for u v
    using that
  proof (induction v arbitrary: u)
    case Nil
    have "'' '' \<in> set py_ws" by (simp add: py_ws_def)
    then show ?case by (auto simp: list_ex_iff intro!: bexI [of _ "'' ''"])
  next
    case (Cons c v)
    then have "\<not> list_ex (\<lambda>b. prefix b ((c # v) @ CHR '' '' # r)) py_ws"
      using wordy_before_space [OF w Cons.prems] by (auto simp: list_ex_iff)
    with Cons.IH [of "u @ [c]"] Cons.prems show ?case by simp
  qed
  then show "cut_word (w @ CHR '' '' # r) = (w, CHR '' '' # r)" by simp
  have "cut_word v = (v, [])" if "w = u @ v" for u v
    using that
  proof (induction v arbitrary: u)
    case (Cons c v)
    then have "\<not> list_ex (\<lambda>b. prefix b (c # v)) py_ws" using w by (auto simp: wordy_def list_ex_iff)
    with Cons.IH [of "u @ [c]"] Cons.prems show ?case by simp
  qed simp
  then show "cut_word w = (w, [])" by simp
qed

lemma lstrip_no_ws: "(\<And>b. b \<in> set py_ws \<Longrightarrow> \<not> prefix b s) \<Longrightarrow> py_lstrip s = s"
  unfolding py_lstrip_def by (rule strip_front_id)

lemma lstrip_space: "py_lstrip (CHR '' '' # s) = py_lstrip s"
proof -
  have "find (\<lambda>w. w \<noteq> [] \<and> prefix w (CHR '' '' # s)) py_ws = Some '' ''"
    by (simp add: py_ws_def)
  then show ?thesis unfolding py_lstrip_def by (subst strip_front.simps) simp
qed

lemma words_wordy:
  assumes "wordy w"
  shows "py_words (w @ CHR '' '' # r) = w # py_words r" "py_words w = [w]"
proof -
  have ne: "w \<noteq> []" using assms by (simp add: wordy_def)
  have "py_lstrip (w @ CHR '' '' # r) = w @ CHR '' '' # r"
    by (rule lstrip_no_ws) (rule wordy_before_space [OF assms, of "[]"], use ne in auto)
  moreover have "py_words (CHR '' '' # r) = py_words r"
    by (subst (1 2) py_words.simps) (simp add: lstrip_space)
  ultimately show "py_words (w @ CHR '' '' # r) = w # py_words r"
    using ne by (subst py_words.simps) (simp add: cut_word_wordy [OF assms])
  have "py_lstrip w = w" using assms by (intro lstrip_no_ws) (auto simp: wordy_def)
  moreover have "py_words [] = []" by (subst py_words.simps) (simp add: py_lstrip_def)
  ultimately show "py_words w = [w]" using ne by (subst py_words.simps) (simp add: cut_word_wordy [OF assms])
qed

lemma words_join: "\<forall>w \<in> set ws. wordy w \<Longrightarrow> py_words (py_join '' '' ws) = ws"
proof (induction "'' ''" ws rule: py_join.induct)
  case 1
  show ?case by (subst py_words.simps) (simp add: py_lstrip_def)
qed (simp_all add: words_wordy)

lemma cut_word_wordy_part:
  "cut_word s = (w, r) \<Longrightarrow> w = u @ v \<Longrightarrow> v \<noteq> [] \<Longrightarrow> b \<in> set py_ws \<Longrightarrow> \<not> prefix b v"
proof (induction s arbitrary: w u)
  case (Cons c s)
  then obtain w' where ws: "\<not> list_ex (\<lambda>b. prefix b (c # s)) py_ws" "cut_word s = (w', r)" "w = c # w'"
    by (auto split: if_splits prod.splits)
  then have s: "s = w' @ r" by (simp add: cut_word_parts)
  show ?case
  proof (cases u)
    case Nil
    with Cons.prems ws(3) have "v = c # w'" by simp
    moreover have "\<not> prefix b (v @ r)" if "v = c # w'" using ws(1) s Cons.prems(4) that by (auto simp: list_ex_iff)
    ultimately show ?thesis using prefix_prefix by blast
  next
    case (Cons c' u')
    with Cons.prems ws(3) have "w' = u' @ v" by simp
    from Cons.IH [OF ws(2) this Cons.prems(3,4)] show ?thesis .
  qed
qed simp

lemma cut_word_gives_wordy: "cut_word s = (w, r) \<Longrightarrow> w \<noteq> [] \<Longrightarrow> wordy w"
  unfolding wordy_def using cut_word_wordy_part ws_nonempty by (metis prefix_Nil)

lemma words_are_wordy: "w \<in> set (py_words s) \<Longrightarrow> wordy w"
proof (induction s rule: py_words.induct)
  case (1 s)
  obtain v r where v: "cut_word (py_lstrip s) = (v, r)" by fastforce
  have "w \<in> set (if py_lstrip s = [] then [] else if v = [] then [] else v # py_words r)"
    using 1(2) unfolding py_words.simps [of s] v by (simp only: prod.case)
  then have "py_lstrip s \<noteq> []" "v \<noteq> []" "w = v \<or> w \<in> set (py_words r)"
    by (auto split: if_splits)
  with 1(1) [OF _ v [symmetric]] cut_word_gives_wordy [OF v] show ?case by blast
qed

lemma no_ws_suffix:
  assumes "wordy w" and "b \<in> set py_ws"
  shows "\<not> suffix b (t @ CHR '' '' # w)" "\<not> suffix b w"
proof -
  have w: "\<not> suffix b w"
  proof
    assume "suffix b w"
    then obtain u where "w = u @ b" by (auto simp: suffix_def)
    with assms show False by (auto simp: wordy_def)
  qed
  then show "\<not> suffix b w" .
  show "\<not> suffix b (t @ CHR '' '' # w)"
  proof
    assume s: "suffix b (t @ CHR '' '' # w)"
    with w have "suffix (CHR '' '' # w) b"
      by (metis suffix_Cons suffix_append suffix_order.refl suffix_same_cases suffixI)
    then have "CHR '' '' \<in> set b" "2 \<le> length b" using assms(1)
      by (auto simp: suffix_def wordy_def Suc_le_eq)
    with ws_space [OF assms(2)] show False by simp
  qed
qed

lemma join_ends:
  assumes "ws \<noteq> []"
  shows "(\<exists>t. py_join '' '' ws = t @ CHR '' '' # last ws) \<or> py_join '' '' ws = last ws"
  using assms
proof (induction "'' ''" ws rule: py_join.induct)
  case (3 s t ts)
  then show ?case by (auto simp: append_assoc [symmetric] simp del: append_assoc)
qed auto

lemma strip_join:
  assumes "\<forall>w \<in> set ws. wordy w"
  shows "py_strip (py_join '' '' ws) = py_join '' '' ws"
proof (cases ws)
  case (Cons w ws')
  have "\<not> prefix b (py_join '' '' ws)" if "b \<in> set py_ws" for b
    using assms wordy_before_space [of w "[]" w b] that
    by (cases ws') (auto simp: Cons wordy_def)
  then have l: "py_lstrip (py_join '' '' ws) = py_join '' '' ws" by (rule lstrip_no_ws)
  have "wordy (last ws)" using assms Cons by simp
  then have "\<not> suffix b (py_join '' '' ws)" if "b \<in> set py_ws" for b
    using join_ends [of ws] no_ws_suffix [of "last ws" b] that Cons by auto
  then have "strip_front (map rev py_ws) (rev (py_join '' '' ws)) = rev (py_join '' '' ws)"
    by (intro strip_front_id) (auto simp: suffix_to_prefix [symmetric])
  then show ?thesis by (simp add: py_strip_def py_rstrip_def l)
qed simp

lemma normalize_text_idem: "normalize_text (normalize_text s) = normalize_text s"
  using words_are_wordy [of _ "py_strip s"] by (simp add: normalize_text_def strip_join words_join)

text \<open>
  Normalising a value is idempotent: the texts of a normalised value, however deeply nested, have no
  whitespace at either end and single spaces inside, so normalising it again changes nothing.
\<close>

lemma normalize_idempotent: "normalize_value (normalize_value v) = normalize_value v"
  by (induction v rule: normalize_value.induct) (simp_all add: normalize_text_idem)

end
