(* ===== verification/Operator_Inv.thy ===== *)
theory Operator_Inv
  imports Operator_Registry Systems
begin

text \<open>
  What holds of the operators in every state of the registry, whatever happens to its directory
  and its store, and what reloading and uploading do to them.
\<close>

section \<open>Manifests\<close>

lemma kind_of_value [simp]: "kind_of (JStr (kind_value k)) = Some k"
  by (cases k) (simp_all add: kind_of_def ALL_KINDS_def)

lemma manifest_roundtrip: "manifest_from_dict (to_dict m) = Inr m"
  by (simp add: manifest_from_dict_def to_dict_def dget_or_def)

section \<open>Tables\<close>

lemma tbl_get_key: "keys_ok key t \<Longrightarrow> r \<in> set t \<Longrightarrow> key r = k \<Longrightarrow> tbl_get key k t = Some r"
  by (auto intro: tbl_get_unique)

lemma tbl_get_perm:
  assumes "keys_ok key t" and "keys_ok key u" and "set u = set t"
  shows "tbl_get key k u = tbl_get key k t"
proof (cases "tbl_get key k t")
  case None
  with assms(3) have "tbl_get key k u = None" by (simp add: tbl_get_None_iff)
  with None show ?thesis by simp
next
  case (Some x)
  then have "x \<in> set u" "key x = k" using assms(3) by (auto dest: tbl_get_Some)
  from tbl_get_key [OF assms(2) this] Some show ?thesis by simp
qed

lemma keys_ok_perm: "mset u = mset t \<Longrightarrow> keys_ok key u = keys_ok key t"
  by (simp add: keys_ok_def) (metis mset_eq_imp_distinct_iff mset_map)

lemma tbl_get_sort: "keys_ok key t \<Longrightarrow> tbl_get key k (sort_key f t) = tbl_get key k t"
  by (rule tbl_get_perm) (simp_all add: keys_ok_perm [of "sort_key f t" t])

lemma tbl_get_foldl_put:
  "keys_ok key xs \<Longrightarrow> tbl_get key k (foldl (\<lambda>t x. tbl_put key x t) t xs) =
     (case tbl_get key k xs of Some x \<Rightarrow> Some x | None \<Rightarrow> tbl_get key k t)"
proof (induction xs arbitrary: t)
  case (Cons x xs)
  then have "tbl_get key (key x) xs = None" by (auto simp: keys_ok_def tbl_get_None_iff)
  with Cons show ?case by (auto simp: tbl_get_put keys_ok_def split: option.split)
qed simp

lemma tbl_get_filter_key:
  assumes "keys_ok key t"
  shows "tbl_get key k (filter P t) = (case tbl_get key k t of Some x \<Rightarrow> if P x then Some x else None | None \<Rightarrow> None)"
proof (cases "tbl_get key k t")
  case None
  then have "tbl_get key k (filter P t) = None" by (auto simp: tbl_get_None_iff)
  with None show ?thesis by simp
next
  case (Some x)
  then have x: "x \<in> set t" "key x = k" by (auto dest: tbl_get_Some)
  show ?thesis
  proof (cases "P x")
    case True
    with x have "x \<in> set (filter P t)" by simp
    from tbl_get_key [OF keys_ok_filter [OF assms] this x(2)] True Some show ?thesis by simp
  next
    case False
    have "y = x" if "y \<in> set t" "key y = k" for y
      using tbl_get_unique [OF assms that(1)] that(2) Some by simp
    with False Some have "tbl_get key k (filter P t) = None" by (auto simp: tbl_get_None_iff)
    with False Some show ?thesis by simp
  qed
qed

section \<open>The invariant\<close>

definition user_ok :: "registered_operator \<Rightarrow> bool" where
  "user_ok x \<longleftrightarrow> \<not> om_builtin (ro_manifest x) \<and> name_ok (ro_name x) \<and> ro_name x \<notin> set reserved_names \<and>
     (\<exists>src. ro_function x = UserSource src)"

definition operators_ok :: "registered_operator list \<Rightarrow> bool" where
  "operators_ok t \<longleftrightarrow> keys_ok ro_name t \<and>
     (\<forall>b \<in> set BUILTIN_OPERATORS. tbl_get ro_name (ro_name b) t = Some b) \<and>
     (\<forall>x \<in> set t. x \<in> set BUILTIN_OPERATORS \<or> user_ok x)"

definition registry_ok :: "registry \<Rightarrow> bool" where
  "registry_ok r \<longleftrightarrow> operators_ok (rg_operators r) \<and> keys_ok of_stem (rg_sources r) \<and>
     keys_ok of_stem (rg_manifests r)"

lemma builtin_flag: "b \<in> set BUILTIN_OPERATORS \<Longrightarrow> om_builtin (ro_manifest b)"
  by (auto simp: BUILTIN_OPERATORS_def builtin_operator_def)

lemma builtin_reserved: "b \<in> set BUILTIN_OPERATORS \<Longrightarrow> ro_name b \<in> set reserved_names"
  by (simp add: reserved_names_def)

lemma operators_ok_put: "operators_ok t \<Longrightarrow> user_ok x \<Longrightarrow> operators_ok (tbl_put ro_name x t)"
  unfolding operators_ok_def
  by (auto simp: keys_ok_put tbl_get_put user_ok_def dest: builtin_reserved in_tbl_put)

lemma operators_ok_foldl:
  "operators_ok t \<Longrightarrow> (\<And>x. x \<in> set xs \<Longrightarrow> user_ok x) \<Longrightarrow>
   operators_ok (foldl (\<lambda>t x. tbl_put ro_name x t) t xs)"
  by (induction xs arbitrary: t) (auto intro: operators_ok_put)

lemma operators_ok_filter:
  "operators_ok t \<Longrightarrow> (\<And>x. om_builtin (ro_manifest x) \<Longrightarrow> P x) \<Longrightarrow> operators_ok (filter P t)"
  unfolding operators_ok_def by (auto simp: keys_ok_filter tbl_get_filter_key builtin_flag)

lemma operators_ok_del:
  "operators_ok t \<Longrightarrow> n \<notin> set reserved_names \<Longrightarrow> operators_ok (tbl_del ro_name n t)"
  unfolding operators_ok_def
  by (auto simp: keys_ok_del tbl_get_del dest: builtin_reserved) (auto simp: tbl_del_def)

lemma operators_ok_builtins: "operators_ok BUILTIN_OPERATORS"
proof -
  have k: "keys_ok ro_name BUILTIN_OPERATORS"
    by (simp add: keys_ok_def BUILTIN_OPERATORS_def builtin_operator_def ro_name_def)
  then show ?thesis by (auto simp: operators_ok_def intro: tbl_get_unique)
qed

lemma load_entry_ok: "load_entry compile r f = Inr x \<Longrightarrow> user_ok x \<and> ro_name x = of_stem f"
  by (auto simp: load_entry_def user_ok_def ro_name_def validate_user_manifest_def validate_name_def
      load_function_def function_from_source_def elim!: rbindE split: option.splits if_splits)

section \<open>Reloading\<close>

lemma loadable_user: "x \<in> set (loadable compile r) \<Longrightarrow> user_ok x"
  by (auto simp: loadable_def load_entry_ok split: sum.splits dest!: sym [of "Inr _"])

lemma loadable_list:
  fixes fs :: "manifest_file list"
  assumes "keys_ok of_stem fs"
  shows "keys_ok ro_name (concat (map (\<lambda>f. case load_entry compile r f of Inl e \<Rightarrow> [] | Inr x \<Rightarrow> [x]) fs)) \<and>
    tbl_get ro_name n (concat (map (\<lambda>f. case load_entry compile r f of Inl e \<Rightarrow> [] | Inr x \<Rightarrow> [x]) fs)) =
      (case tbl_get of_stem n fs of None \<Rightarrow> None
       | Some f \<Rightarrow> (case load_entry compile r f of Inl e \<Rightarrow> None | Inr x \<Rightarrow> Some x))"
  using assms
proof (induction fs)
  case Nil
  then show ?case by (simp add: keys_ok_def)
next
  case (Cons f fs)
  let ?g = "\<lambda>f. case load_entry compile r f of Inl e \<Rightarrow> [] | Inr x \<Rightarrow> [x]"
  from Cons.prems have new: "of_stem f \<notin> of_stem ` set fs" and ok: "keys_ok of_stem fs"
    by (auto simp: keys_ok_def)
  have names: "ro_name x \<in> of_stem ` set fs" if "x \<in> set (concat (map ?g fs))" for x
  proof -
    from that obtain f' where "f' \<in> set fs" "load_entry compile r f' = Inr x"
      by (auto split: sum.splits)
    then show ?thesis by (auto dest: load_entry_ok)
  qed
  show ?case
  proof (cases "load_entry compile r f")
    case (Inl e)
    have "tbl_get ro_name (of_stem f) (concat (map ?g fs)) = None"
      using names new by (fastforce simp: tbl_get_None_iff)
    with Inl Cons.IH [OF ok] show ?thesis by (auto split: option.splits sum.splits)
  next
    case (Inr x)
    then have "ro_name x = of_stem f" by (simp add: load_entry_ok)
    with Inr Cons.IH [OF ok] new names show ?thesis by (fastforce simp: keys_ok_def)
  qed
qed

lemma loadable_get:
  assumes "keys_ok of_stem (rg_manifests r)"
  shows "keys_ok ro_name (loadable compile r) \<and>
    tbl_get ro_name n (loadable compile r) =
      (case tbl_get of_stem n (rg_manifests r) of None \<Rightarrow> None
       | Some f \<Rightarrow> (case load_entry compile r f of Inl e \<Rightarrow> None | Inr x \<Rightarrow> Some x))"
proof -
  let ?fs = "sort_key (\<lambda>f. of_stem f @ ''.json'') (rg_manifests r)"
  have k: "keys_ok of_stem ?fs" using assms by (simp add: keys_ok_perm [of ?fs "rg_manifests r"])
  from loadable_list [OF k, of compile r n] show ?thesis
    by (simp add: loadable_def tbl_get_sort [OF assms])
qed

lemma reload_all_get:
  assumes "registry_ok r"
  shows "tbl_get ro_name n (rg_operators (snd (reload_all compile r))) =
    (if n \<in> set reserved_names then tbl_get ro_name n BUILTIN_OPERATORS
     else case tbl_get of_stem n (rg_manifests r) of
       None \<Rightarrow> None
     | Some f \<Rightarrow> (case load_entry compile r f of
         Inr x \<Rightarrow> Some x | Inl e \<Rightarrow> tbl_get ro_name n (rg_operators r)))"
proof -
  let ?ops = "foldl (\<lambda>t x. tbl_put ro_name x t) (rg_operators r) (loadable compile r)"
  have ok: "operators_ok (rg_operators r)" and km: "keys_ok of_stem (rg_manifests r)"
    using assms by (auto simp: registry_ok_def)
  have okf: "operators_ok ?ops" by (rule operators_ok_foldl [OF ok loadable_user])
  have get: "tbl_get ro_name n ?ops = (case tbl_get of_stem n (rg_manifests r) of
       None \<Rightarrow> tbl_get ro_name n (rg_operators r)
     | Some f \<Rightarrow> (case load_entry compile r f of
         Inr x \<Rightarrow> Some x | Inl e \<Rightarrow> tbl_get ro_name n (rg_operators r)))"
    using loadable_get [OF km, of compile n]
    by (simp add: tbl_get_foldl_put split: option.split sum.split)
  have kept: "tbl_get ro_name n (rg_operators (snd (reload_all compile r))) =
      (case tbl_get ro_name n ?ops of None \<Rightarrow> None
       | Some x \<Rightarrow> if om_builtin (ro_manifest x) \<or> ro_name x \<in> of_stem ` set (rg_manifests r) then Some x else None)"
    using okf by (simp add: reload_all_def Let_def snap_def tbl_get_filter_key operators_ok_def)
  show ?thesis
  proof (cases "n \<in> set reserved_names")
    case True
    then obtain b where b: "b \<in> set BUILTIN_OPERATORS" "ro_name b = n" by (auto simp: reserved_names_def)
    then have "tbl_get ro_name n ?ops = Some b" "tbl_get ro_name n BUILTIN_OPERATORS = Some b"
      using okf operators_ok_builtins by (auto simp: operators_ok_def)
    with kept True builtin_flag [OF b(1)] show ?thesis by simp
  next
    case False
    have user: "user_ok x" if "tbl_get ro_name n ?ops = Some x" for x
      using okf tbl_get_Some [OF that] False by (auto simp: operators_ok_def dest: builtin_reserved)
    show ?thesis
    proof (cases "tbl_get ro_name n ?ops")
      case None
      with kept get False show ?thesis by (auto split: option.splits sum.splits)
    next
      case (Some x)
      with user have "\<not> om_builtin (ro_manifest x)" "ro_name x = n"
        by (auto simp: user_ok_def dest: tbl_get_Some)
      with Some kept have "tbl_get ro_name n (rg_operators (snd (reload_all compile r))) =
          (if tbl_get of_stem n (rg_manifests r) = None then None else Some x)"
        by (simp add: tbl_get_None_iff)
      with Some get False show ?thesis by (auto split: option.splits sum.splits)
    qed
  qed
qed

lemma reload_all_fields [simp]:
  "rg_sources (snd (reload_all compile r)) = rg_sources r"
  "rg_manifests (snd (reload_all compile r)) = rg_manifests r"
  "rg_store (snd (reload_all compile r)) = rg_store r" "rg_dir (snd (reload_all compile r)) = rg_dir r"
  "rg_snapshot (snd (reload_all compile r)) = files r"
  by (simp_all add: reload_all_def Let_def snap_def files_def)

lemma reload_all_ok: "registry_ok r \<Longrightarrow> registry_ok (snd (reload_all compile r))"
proof -
  assume ok: "registry_ok r"
  have "operators_ok (foldl (\<lambda>t x. tbl_put ro_name x t) (rg_operators r) (loadable compile r))"
    by (rule operators_ok_foldl) (use ok loadable_user in \<open>auto simp: registry_ok_def\<close>)
  then have "operators_ok (rg_operators (snd (reload_all compile r)))"
    by (simp add: reload_all_def Let_def snap_def operators_ok_filter)
  with ok show ?thesis by (simp add: registry_ok_def)
qed

lemma refresh_ok: "registry_ok r \<Longrightarrow> registry_ok (snd (refresh_if_changed compile r))"
  by (simp add: refresh_if_changed_def reload_all_ok)

lemma refresh_fields [simp]:
  "rg_sources (snd (refresh_if_changed compile r)) = rg_sources r"
  "rg_manifests (snd (refresh_if_changed compile r)) = rg_manifests r"
  "rg_store (snd (refresh_if_changed compile r)) = rg_store r"
  "rg_dir (snd (refresh_if_changed compile r)) = rg_dir r"
  by (simp_all add: refresh_if_changed_def)

end
