(* ===== verification/Operator_Claims.thy ===== *)
theory Operator_Claims
  imports Operator_Inv
begin

text \<open>
  The registry as a system: its operations, edits of its directory and of the shared store by
  others, and what holds of every state they lead to.
\<close>

section \<open>The operations keep the invariant\<close>

abbreviation (input) anything :: "'a \<Rightarrow> bool" where
  "anything \<equiv> \<lambda>_. True"

lemma registry_okI:
  "operators_ok (rg_operators r) \<Longrightarrow> keys_ok of_stem (rg_sources r) \<Longrightarrow> keys_ok of_stem (rg_manifests r) \<Longrightarrow>
     registry_ok r"
  by (simp add: registry_ok_def)

lemma write_files_ok: "registry_ok r \<Longrightarrow> registry_ok (write_files stamp n src m r)"
  by (simp add: registry_ok_def write_files_def keys_ok_put)

lemma keeps_write_pair [keeps_intro]: "keeps registry_ok (write_pair env n src m) anything"
  by (auto simp: keeps_def write_pair_def write_files_ok) (simp add: registry_ok_def keys_ok_put)

lemma unlink_files_ok: "registry_ok r \<Longrightarrow> registry_ok (unlink_files n r)"
  by (simp add: registry_ok_def unlink_files_def keys_ok_del)

lemma keeps_reload: "keeps registry_ok (reload compile n) anything"
  by (auto simp: keeps_def reload_def registry_ok_def snap_def user_ok_def ro_name_def
      validate_user_manifest_def validate_name_def load_function_def function_from_source_def
      intro!: operators_ok_put elim!: rbindE split: option.splits sum.splits if_splits)

lemma keeps_store_put [keeps_intro]: "keeps registry_ok (store_put env m src) anything"
  by (simp add: keeps_def store_put_def registry_ok_def split: option.splits)

lemma keeps_store_delete [keeps_intro]: "keeps registry_ok (store_delete env n) anything"
  by (simp add: keeps_def store_delete_def registry_ok_def split: option.splits)

lemma keeps_write_and_reload: "keeps registry_ok (write_and_reload compile env n u) anything"
  by (simp add: write_and_reload_def Let_def keeps_araise)
    (intro impI keeps_abind [where R = anything] keeps_intro keeps_reload TrueI)

lemma keeps_guarded:
  assumes "keeps I m Q" and "keeps I m' Q"
  shows "keeps I (\<lambda>r. case g r of Inl e \<Rightarrow> (Inl e, r) | Inr True \<Rightarrow> m r | Inr False \<Rightarrow> m' r) Q"
  using assms by (auto simp: keeps_def split: sum.splits bool.splits)

lemma keeps_same: "(\<And>s. snd (m s) = s) \<Longrightarrow> keeps I m anything"
  by (simp add: keeps_def)

lemma keeps_create: "keeps registry_ok (create_operator compile env n u) anything"
  unfolding create_operator_def
  by (rule keeps_guarded [OF keeps_same keeps_write_and_reload]) simp

lemma keeps_update: "keeps registry_ok (update_operator compile env n u) anything"
  unfolding update_operator_def
  by (rule keeps_guarded [OF keeps_write_and_reload keeps_same]) simp

lemma keeps_delete: "keeps registry_ok (delete_operator env n) anything"
proof -
  have del: "keeps registry_ok (awrite (\<lambda>r1. let r2 = unlink_files n r1
      in snap (r2\<lparr>rg_operators := tbl_del ro_name n (rg_operators r2)\<rparr>))) anything"
    if "n \<notin> set reserved_names"
    using that unlink_files_ok
    by (intro keeps_awrite) (auto simp: registry_ok_def snap_def Let_def intro: operators_ok_del)
  show ?thesis
  proof (cases "n \<in> set reserved_names")
    case True
    then show ?thesis by (auto simp: keeps_def delete_operator_def rbind_def split: sum.splits)
  next
    case False
    show ?thesis unfolding delete_operator_def
      by (rule keeps_guarded [OF keeps_abind [OF keeps_store_delete del [OF False]] keeps_same]) simp
  qed
qed

lemma keeps_list: "registry_ok r \<Longrightarrow> registry_ok (snd (list_operators compile k r))"
  by (simp add: list_operators_def Let_def refresh_ok)

lemma keeps_install_files: "keeps registry_ok (install_files env persist xs) anything"
proof (induction xs)
  case (Cons x xs)
  then show ?case
    by (cases x) (auto intro!: keeps_abind keeps_intro keeps_if)
qed (simp add: keeps_aret)

lemma keeps_remove_stale: "keeps registry_ok (remove_stale env persist ns) anything"
  by (induction ns) (auto intro!: keeps_abind keeps_intro keeps_if unlink_files_ok)

lemma keeps_install: "keeps registry_ok (install_bundles compile env bundles replace persist) anything"
  unfolding install_bundles_def
  by (intro keeps_abind [where R = anything] keeps_if keeps_install_files keeps_remove_stale keeps_intro
      keeps_acall conjI reload_all_ok keeps_list TrueI)

section \<open>The system\<close>

datatype op_cmd =
    CreateOp op_env string op_upload
  | UpdateOp op_env string op_upload
  | DeleteOp op_env string
  | ListOps "operator_kind option"
  | GetOp string
  | InvokeOp string "dict list" dict
  | ExportOps
  | SyncOps op_env "dict list" bool
  | FromStore op_env
  | InitStore op_env
  | ReloadOne string
  | ReloadAll
  | WatchTick
  | EditFiles "source_file list" "manifest_file list"   \<comment> \<open>anyone writes to the directory\<close>
  | EditStore "store_object list"                       \<comment> \<open>another process writes to the store\<close>

fun exec_op :: "compiles \<Rightarrow> (callable \<Rightarrow> dict list \<Rightarrow> dict \<Rightarrow> py_result) \<Rightarrow> op_cmd \<Rightarrow> registry \<Rightarrow> unit + registry" where
  "exec_op compile run (CreateOp env n u) r = Inr (snd (create_operator compile env n u r))"
| "exec_op compile run (UpdateOp env n u) r = Inr (snd (update_operator compile env n u r))"
| "exec_op compile run (DeleteOp env n) r = Inr (snd (delete_operator env n r))"
| "exec_op compile run (ListOps k) r = Inr (snd (list_operators compile k r))"
| "exec_op compile run (GetOp n) r = Inr (snd (get_operator compile n r))"
| "exec_op compile run (InvokeOp n data ctx) r = Inr (snd (invoke_operator compile run n data ctx r))"
| "exec_op compile run ExportOps r = Inr (snd (export_user_operators compile r))"
| "exec_op compile run (SyncOps env bs replace) r = Inr (snd (sync_user_operators compile env bs replace r))"
| "exec_op compile run (FromStore env) r = Inr (snd (sync_from_store compile env r))"
| "exec_op compile run (InitStore env) r = Inr (snd (initialize_store compile env r))"
| "exec_op compile run (ReloadOne n) r = Inr (snd (reload compile n r))"
| "exec_op compile run ReloadAll r = Inr (snd (reload_all compile r))"
| "exec_op compile run WatchTick r = Inr (snd (refresh_if_changed compile r))"
| "exec_op compile run (EditFiles ss ms) r =
     (if keys_ok of_stem ss \<and> keys_ok of_stem ms then Inr (r\<lparr>rg_sources := ss, rg_manifests := ms\<rparr>) else Inl ())"
| "exec_op compile run (EditStore xs) r =
     Inr (r\<lparr>rg_store := map_option (\<lambda>_. xs) (rg_store r)\<rparr>)"

lemma registry_ok_get: "registry_ok r \<Longrightarrow> registry_ok (snd (get_operator compile n r))"
  by (simp add: get_operator_def Let_def refresh_ok split: option.split)

lemma registry_ok_invoke: "registry_ok r \<Longrightarrow> registry_ok (snd (invoke_operator compile run n data ctx r))"
  by (simp add: invoke_operator_def Let_def refresh_ok split: option.split)

lemma registry_ok_export: "registry_ok r \<Longrightarrow> registry_ok (snd (export_user_operators compile r))"
  using keeps_list [of r compile None] by (simp add: export_user_operators_def case_prod_beta)

lemma registry_ok_from_store: "registry_ok r \<Longrightarrow> registry_ok (snd (sync_from_store compile env r))"
  by (simp add: sync_from_store_def acall_def case_prod_beta reload_all_ok keeps_store [OF keeps_install]
      split: option.split sum.split)

lemma keeps_from_store: "keeps registry_ok (sync_from_store compile env) anything"
  by (simp add: keeps_def registry_ok_from_store)

lemma registry_ok_init: "registry_ok r \<Longrightarrow> registry_ok (snd (initialize_store compile env r))"
  by (auto simp: initialize_store_def acall_def case_prod_beta reload_all_ok
      intro!: keeps_store [of registry_ok _ anything] keeps_abind [where R = anything] keeps_intro keeps_from_store
      split: option.split)

lemma exec_op_keeps: "registry_ok r \<Longrightarrow> exec_op compile run c r = Inr r' \<Longrightarrow> registry_ok r'"
  by (cases c) (auto simp: keeps_store [OF keeps_create] keeps_store [OF keeps_update] keeps_store [OF keeps_delete]
      keeps_store [OF keeps_reload] sync_user_operators_def keeps_store [OF keeps_install] keeps_list
      registry_ok_get registry_ok_invoke registry_ok_export registry_ok_from_store registry_ok_init
      reload_all_ok refresh_ok split: if_splits, auto simp: registry_ok_def)

lemma empty_registry_ok: "registry_ok (empty_registry dir store)"
  by (simp add: registry_ok_def empty_registry_def operators_ok_builtins keys_ok_def)

interpretation op_system: guarded_system "exec_op compile run" registry_ok
  for compile :: compiles and run :: "callable \<Rightarrow> dict list \<Rightarrow> dict \<Rightarrow> py_result"
  by unfold_locales (rule exec_op_keeps)

interpretation operator_table: keyed_table "tbl_get ro_name" "tbl_put ro_name" "tbl_del ro_name" ro_name
    "keys_ok ro_name"
  by (rule keyed_table_list)

lemma reach_registry_ok: "reach (exec_op compile run) (empty_registry dir store) r \<Longrightarrow> registry_ok r"
  by (rule op_system.reach_keeps [OF _ empty_registry_ok])

section \<open>Uploads\<close>

definition same_under_any_name :: "compiles \<Rightarrow> bool" where
  \<comment> \<open>whether a source loads does not depend on the file name it is compiled under\<close>
  "same_under_any_name compile \<longleftrightarrow> (\<forall>f g. compile f = compile g)"

definition uploaded :: "op_env \<Rightarrow> string \<Rightarrow> op_upload \<Rightarrow> registered_operator" where
  "uploaded env n u =
     \<lparr>ro_function = UserSource (ou_source u),
      ro_manifest = \<lparr>om_name = n, om_version = py_strip (ou_version u), om_kind = ou_kind u,
        om_description = py_strip (ou_description u), om_builtin = False, om_updated_at = oe_now_iso env\<rparr>\<rparr>"

lemma ro_name_uploaded [simp]: "ro_name (uploaded env n u) = n"
  by (simp add: uploaded_def ro_name_def)

definition after_upload :: "op_env \<Rightarrow> string \<Rightarrow> op_upload \<Rightarrow> registry \<Rightarrow> registry" where
  \<comment> \<open>what a successful upload leaves: the operator in memory, in the directory and in the store\<close>
  "after_upload env n u r =
     (let m = ro_manifest (uploaded env n u) in
      snap ((write_files (oe_stamp env) n (ou_source u) (JObj (to_dict m)) r)
        \<lparr>rg_operators := tbl_put ro_name (uploaded env n u) (rg_operators r),
         rg_store := map_option (tbl_put so_name \<lparr>so_name = n, so_body = Some (JObj (op_bundle m (ou_source u)))\<rparr>)
           (rg_store r)\<rparr>))"

lemma compile_any: "same_under_any_name compile \<Longrightarrow> compile f n src = compile g n src"
  by (simp add: same_under_any_name_def) metis

lemma reload_written:
  assumes "name_ok n" and "n \<notin> set reserved_names"
  shows "reload compile n (write_files stamp n (ou_source u) (JObj (to_dict (ro_manifest (uploaded env n u)))) r) =
    (let w = write_files stamp n (ou_source u) (JObj (to_dict (ro_manifest (uploaded env n u)))) r in
     if compile (source_path r n) n (ou_source u)
     then (Inr (ro_manifest (uploaded env n u)), snap (w\<lparr>rg_operators := tbl_put ro_name (uploaded env n u) (rg_operators r)\<rparr>))
     else (Inl (OperatorValidation ''source''), w))"
  using assms
  by (simp add: reload_def write_files_def table_simps validate_name_def read_manifest_def manifest_roundtrip
      validate_user_manifest_def load_function_def function_from_source_def uploaded_def source_path_def Let_def)

lemma store_put_eq: "store_put env m src r =
   (if rg_store r \<noteq> None \<and> oe_put_fault env (om_name m) then (Inl (OperatorStorage ''put''), r)
    else (Inr (), r\<lparr>rg_store := map_option (tbl_put so_name
       \<lparr>so_name = om_name m, so_body = Some (JObj (op_bundle m src))\<rparr>) (rg_store r)\<rparr>))"
  by (cases r) (simp add: store_put_def split: option.split)

definition stored_upload :: "op_env \<Rightarrow> string \<Rightarrow> op_upload \<Rightarrow> registry \<Rightarrow> registry" where
  \<comment> \<open>the store has the new operator, memory and directory do not yet\<close>
  "stored_upload env n u r =
     r\<lparr>rg_store := map_option (tbl_put so_name
        \<lparr>so_name = n, so_body = Some (JObj (op_bundle (ro_manifest (uploaded env n u)) (ou_source u)))\<rparr>) (rg_store r)\<rparr>"

definition written_upload :: "op_env \<Rightarrow> string \<Rightarrow> op_upload \<Rightarrow> registry \<Rightarrow> registry" where
  "written_upload env n u r =
     write_files (oe_stamp env) n (ou_source u) (JObj (to_dict (ro_manifest (uploaded env n u)))) (stored_upload env n u r)"

definition stranded :: "compiles \<Rightarrow> op_env \<Rightarrow> string \<Rightarrow> op_upload \<Rightarrow> registry \<Rightarrow> registry \<Rightarrow> bool" where
  \<comment> \<open>an upload that raised after it had reached the store\<close>
  "stranded compile env n u r r' \<longleftrightarrow>
     oe_write_fault env (n @ ''.py'') \<and> r' = stored_upload env n u r \<or>
     oe_write_fault env (n @ ''.json'') \<and> r' = (stored_upload env n u r)
       \<lparr>rg_sources := tbl_put of_stem \<lparr>of_stem = n, of_stamp = oe_stamp env, of_content = ou_source u\<rparr> (rg_sources r)\<rparr> \<or>
     \<not> compile (source_path r n) n (ou_source u) \<and> r' = written_upload env n u r"

lemma write_and_reload_cases:
  assumes "name_ok n" and "n \<notin> set reserved_names"
  obtains e where "write_and_reload compile env n u r = (Inl e, r)"
  | e r' where "write_and_reload compile env n u r = (Inl e, r')" "stranded compile env n u r r'"
    "validate_source compile (ou_source u) n = Inr ()"
  | "compile (source_path r n) n (ou_source u)" "validate_source compile (ou_source u) n = Inr ()"
    "write_and_reload compile env n u r = (Inr (ro_manifest (uploaded env n u)), after_upload env n u r)"
proof -
  let ?m = "ro_manifest (uploaded env n u)"
  have name: "om_name ?m = n" by (simp add: uploaded_def)
  consider (blank) "py_blank (ou_version u)"
    | (bad) e where "\<not> py_blank (ou_version u)" "validate_source compile (ou_source u) n = Inl e"
    | (fault) "\<not> py_blank (ou_version u)" "validate_source compile (ou_source u) n = Inr ()"
        "rg_store r \<noteq> None \<and> oe_put_fault env n"
    | (ok) "\<not> py_blank (ou_version u)" "validate_source compile (ou_source u) n = Inr ()"
        "\<not> (rg_store r \<noteq> None \<and> oe_put_fault env n)"
    by (cases "py_blank (ou_version u)"; cases "validate_source compile (ou_source u) n";
        cases "rg_store r \<noteq> None \<and> oe_put_fault env n") auto
  then show ?thesis
  proof cases
    case blank
    then show ?thesis by (intro that(1)) (simp add: write_and_reload_def araise_def)
  next
    case bad
    then show ?thesis by (intro that(1)) (simp add: write_and_reload_def abind_def alift_def)
  next
    case fault
    then show ?thesis
      by (intro that(1)) (simp add: write_and_reload_def abind_def alift_def store_put_eq Let_def)
  next
    case ok
    have path: "source_path (stored_upload env n u r) n = source_path r n"
      by (simp add: stored_upload_def source_path_def)
    have run: "write_and_reload compile env n u r =
        abind (write_pair env n (ou_source u) (JObj (to_dict ?m))) (\<lambda>_. reload compile n) (stored_upload env n u r)"
      using ok name
      by (cases "rg_store r") (simp_all add: write_and_reload_def abind_def alift_def store_put_eq Let_def stored_upload_def uploaded_def)
    show ?thesis
    proof (cases "oe_write_fault env (n @ ''.py'') \<or> oe_write_fault env (n @ ''.json'')")
      case True
      then have "stranded compile env n u r (snd (write_and_reload compile env n u r)) \<and>
          fst (write_and_reload compile env n u r) = Inl OperatorCrash"
        by (auto simp: run abind_def write_pair_def stranded_def stored_upload_def)
      then show ?thesis using ok(2) by (intro that(2)) (auto simp: prod_eq_iff)
    next
      case False
      then have "write_and_reload compile env n u r = reload compile n (written_upload env n u r)"
        by (simp add: run abind_def write_pair_def written_upload_def)
      note after = this [unfolded written_upload_def reload_written [OF assms] Let_def path]
      show ?thesis
      proof (cases "compile (source_path r n) n (ou_source u)")
        case True
        with after show ?thesis
          by (intro that(3) ok(2))
            (simp_all add: after_upload_def Let_def stored_upload_def write_files_def snap_def files_def)
      next
        case False
        with after ok(2) show ?thesis
          by (intro that(2) [of _ "written_upload env n u r"]) (simp_all add: stranded_def written_upload_def)
      qed
    qed
  qed
qed

lemma upload_cases:
  assumes "f = create_operator \<or> f = update_operator"
  obtains e where "f compile env n u r = (Inl e, r)"
  | e r' where "f compile env n u r = (Inl e, r')" "stranded compile env n u r r'" "name_ok n" "n \<notin> set reserved_names"
    "validate_source compile (ou_source u) n = Inr ()"
  | "name_ok n" "n \<notin> set reserved_names" "compile (source_path r n) n (ou_source u)"
    "validate_source compile (ou_source u) n = Inr ()"
    "f compile env n u r = (Inr (ro_manifest (uploaded env n u)), after_upload env n u r)"
proof (cases "name_ok n \<and> n \<notin> set reserved_names")
  case False
  then have "\<exists>e. f compile env n u r = (Inl e, r)" using assms(1)
    by (cases "name_ok n") (auto simp: create_operator_def update_operator_def validate_name_def)
  with that(1) show ?thesis by blast
next
  case True
  then have n: "name_ok n" "n \<notin> set reserved_names" by auto
  show ?thesis
  proof (cases "operator_exists env n r")
    case (Inl e)
    then show ?thesis using assms(1) n
      by (intro that(1)) (auto simp: create_operator_def update_operator_def validate_name_def)
  next
    case (Inr b)
    from n have f: "f compile env n u r = write_and_reload compile env n u r \<or> (\<exists>e. f compile env n u r = (Inl e, r))"
      using assms(1) Inr by (cases b) (auto simp: create_operator_def update_operator_def validate_name_def)
    show ?thesis
    proof (rule write_and_reload_cases [OF n, of compile env u r])
      fix e
      assume "write_and_reload compile env n u r = (Inl e, r)"
      then show ?thesis using f that(1) by metis
    next
      fix e r'
      assume "write_and_reload compile env n u r = (Inl e, r')" "stranded compile env n u r r'"
        "validate_source compile (ou_source u) n = Inr ()"
      then show ?thesis using f n that(1) that(2) by metis
    next
      assume "compile (source_path r n) n (ou_source u)" "validate_source compile (ou_source u) n = Inr ()"
        "write_and_reload compile env n u r = (Inr (ro_manifest (uploaded env n u)), after_upload env n u r)"
      then show ?thesis using f n that(1) that(3) by metis
    qed
  qed
qed

lemma after_upload_get:
  "tbl_get ro_name k (rg_operators (after_upload env n u r)) =
     (if k = n then Some (uploaded env n u) else tbl_get ro_name k (rg_operators r))"
  by (simp add: after_upload_def Let_def snap_def operator_table.get_put)

lemma after_upload_unchanged: "\<not> changed (after_upload env n u r)"
  by (simp add: after_upload_def Let_def snap_def changed_def files_def)

section \<open>Restarts\<close>

definition restarted :: "compiles \<Rightarrow> registry \<Rightarrow> registry" where
  \<comment> \<open>a new process over the directory of \<open>r\<close>\<close>
  "restarted compile r = snd (reload_all compile (r\<lparr>rg_operators := BUILTIN_OPERATORS, rg_snapshot := ([], [])\<rparr>))"

definition reload_spec :: "compiles \<Rightarrow> registry \<Rightarrow> string \<Rightarrow> registered_operator option" where
  \<comment> \<open>the operator that a name stands for after a reload, name by name\<close>
  "reload_spec compile r n =
     (if n \<in> set reserved_names then tbl_get ro_name n BUILTIN_OPERATORS
      else case tbl_get of_stem n (rg_manifests r) of
        None \<Rightarrow> None
      | Some f \<Rightarrow> (case load_entry compile r f of
          Inr x \<Rightarrow> Some x | Inl e \<Rightarrow> tbl_get ro_name n (rg_operators r)))"

lemma load_entry_written:
  assumes "registry_ok r" and "name_ok n" and "n \<notin> set reserved_names" and "compile (source_path r n) n (ou_source u)"
    and "tbl_get of_stem n (rg_manifests r) =
      Some \<lparr>of_stem = n, of_stamp = s, of_content = Some (JObj (to_dict (ro_manifest (uploaded env n u))))\<rparr>"
    and "tbl_get of_stem n (rg_sources r) = Some \<lparr>of_stem = n, of_stamp = s', of_content = ou_source u\<rparr>"
  shows "reload_spec compile r n = Some (uploaded env n u)"
  using assms
  by (simp add: reload_spec_def load_entry_def read_manifest_def manifest_roundtrip validate_user_manifest_def
      validate_name_def load_function_def function_from_source_def uploaded_def)

lemma restarted_get:
  assumes "registry_ok r"
  shows "tbl_get ro_name n (rg_operators (restarted compile r)) =
    reload_spec compile (r\<lparr>rg_operators := BUILTIN_OPERATORS, rg_snapshot := ([], [])\<rparr>) n"
proof -
  have "registry_ok (r\<lparr>rg_operators := BUILTIN_OPERATORS, rg_snapshot := ([], [])\<rparr>)"
    using assms operators_ok_builtins by (simp add: registry_ok_def)
  from reload_all_get [OF this] show ?thesis by (simp add: restarted_def reload_spec_def)
qed

section \<open>Properties\<close>

text \<open>
  C5: After any sequence of operations, syncs from bundles or from the store, and edits of the
  directory and of the store by others, the five built-in operators are registered under their
  names exactly as the program defines them, names are unique, and every other operator has a
  valid name that is not reserved, is not marked built-in and runs an uploaded source.
\<close>

lemma builtins_are_untouchable:
  assumes "reach (exec_op compile run) (empty_registry dir store) r"
  shows "distinct (map ro_name (rg_operators r)) \<and>
    (\<forall>b \<in> set BUILTIN_OPERATORS. tbl_get ro_name (ro_name b) (rg_operators r) = Some b) \<and>
    (\<forall>x \<in> set (rg_operators r). x \<in> set BUILTIN_OPERATORS \<or>
       name_ok (ro_name x) \<and> ro_name x \<notin> set reserved_names \<and> \<not> om_builtin (ro_manifest x) \<and>
       (\<exists>src. ro_function x = UserSource src))"
  using reach_registry_ok [OF assms] unfolding registry_ok_def operators_ok_def keys_ok_def user_ok_def
  by blast


definition any_env :: op_env where
  "any_env = \<lparr>oe_stamp = 7, oe_now_iso = ''2026-07-01T00:00:00+00:00'', oe_put_fault = \<lambda>_. False,
     oe_delete_fault = \<lambda>_. False, oe_write_fault = \<lambda>_. False, oe_head_fault = False, oe_list_fault = False, oe_bucket_head = S3Ok (), oe_bucket_create = S3Ok ()\<rparr>"

definition clean_upload :: op_upload where
  "clean_upload = \<lparr>ou_version = ''1.2'', ou_kind = DATA_PROCESSING, ou_source = ''operator = f'',
     ou_description = ''''\<rparr>"

definition every_source :: compiles where
  "every_source f n src = True"

lemma every_source_same: "same_under_any_name every_source"
  by (simp add: same_under_any_name_def every_source_def fun_eq_iff)

lemma builtins_are_untouchable_witness:
  "map ro_name (rg_operators (run_cmds (exec_op every_source (\<lambda>f d c. Raised))
     [CreateOp any_env ''clean'' clean_upload, CreateOp any_env ''builtin.entity_load'' clean_upload,
      DeleteOp any_env ''builtin.entity_load''] (empty_registry ''ops'' None))) =
     reserved_names @ [''clean''] \<and>
   tbl_get ro_name ''builtin.entity_load'' (rg_operators (run_cmds (exec_op every_source (\<lambda>f d c. Raised))
     [CreateOp any_env ''clean'' clean_upload, CreateOp any_env ''builtin.entity_load'' clean_upload,
      DeleteOp any_env ''builtin.entity_load''] (empty_registry ''ops'' None))) =
     Some (builtin_operator ''entity_load'' ENTITY_INGESTION ''entity plan'')"
  (is "?A \<and> tbl_get ro_name _ (rg_operators ?r) = _")
proof
  show ?A by code_simp
  have "builtin_operator ''entity_load'' ENTITY_INGESTION ''entity plan'' \<in> set BUILTIN_OPERATORS"
    by (simp add: BUILTIN_OPERATORS_def)
  with builtins_are_untouchable [OF reach_run_cmds, of every_source "\<lambda>f d c. Raised"]
  have "tbl_get ro_name (ro_name (builtin_operator ''entity_load'' ENTITY_INGESTION ''entity plan'')) (rg_operators ?r) =
    Some (builtin_operator ''entity_load'' ENTITY_INGESTION ''entity plan'')" by blast
  then show "tbl_get ro_name ''builtin.entity_load'' (rg_operators ?r) =
    Some (builtin_operator ''entity_load'' ENTITY_INGESTION ''entity plan'')"
    by (simp add: ro_name_def builtin_operator_def)
qed


text \<open>
  C7: A reload of the directory refines its specification name by name: a reserved name stands for
  its built-in operator; a name without a manifest file for nothing; a name whose files load
  for what they say; and a name whose files do not load, whatever is wrong with them, for the operator
  it stood for before.
\<close>

lemma reload_refines_spec:
  assumes "reach (exec_op compile run) (empty_registry dir store) r"
  shows "tbl_get ro_name n (rg_operators (snd (reload_all compile r))) = reload_spec compile r n \<and>
    \<not> changed (snd (reload_all compile r)) \<and>
    set (fst (reload_all compile r)) = {of_stem f |f. f \<in> set (rg_manifests r) \<and> is_ok (load_entry compile r f)}"
proof -
  have "set (fst (reload_all compile r)) = ro_name ` set (loadable compile r)"
    by (simp add: reload_all_def Let_def)
  also have "\<dots> = {of_stem f |f. f \<in> set (rg_manifests r) \<and> is_ok (load_entry compile r f)}"
  proof (intro set_eqI iffI)
    fix k assume "k \<in> ro_name ` set (loadable compile r)"
    then obtain f x where "f \<in> set (rg_manifests r)" "load_entry compile r f = Inr x" "k = ro_name x"
      by (auto simp: loadable_def split: sum.splits) metis
    with load_entry_ok [of compile r f x]
    show "k \<in> {of_stem f |f. f \<in> set (rg_manifests r) \<and> is_ok (load_entry compile r f)}"
      by (auto simp: is_ok_iff)
  next
    fix k assume "k \<in> {of_stem f |f. f \<in> set (rg_manifests r) \<and> is_ok (load_entry compile r f)}"
    then obtain f x where f: "f \<in> set (rg_manifests r)" "load_entry compile r f = Inr x" "k = of_stem f"
      by (auto simp: is_ok_iff)
    then have "x \<in> set (loadable compile r)" by (force simp: loadable_def)
    with f load_entry_ok [of compile r f x] show "k \<in> ro_name ` set (loadable compile r)" by (metis imageI)
  qed
  finally show ?thesis
    using reload_all_get [OF reach_registry_ok [OF assms], of n compile]
    by (simp add: reload_spec_def changed_def files_def)
qed

definition not_x :: compiles where
  "not_x f n src = (src \<noteq> ''x'')"

definition broken_file :: registry where
  "broken_file = run_cmds (exec_op not_x (\<lambda>f d c. Raised))
     [CreateOp any_env ''clean'' clean_upload,
      EditFiles [\<lparr>of_stem = ''clean'', of_stamp = 9, of_content = ''x''\<rparr>]
        [\<lparr>of_stem = ''clean'', of_stamp = 7,
          of_content = Some (JObj (to_dict (ro_manifest (uploaded any_env ''clean'' clean_upload))))\<rparr>]]
     (empty_registry ''ops'' None)"

lemma reload_refines_spec_witness:
  "tbl_get ro_name ''clean'' (rg_operators (snd (reload_all not_x broken_file))) =
     Some (uploaded any_env ''clean'' clean_upload) \<and> changed broken_file"
proof
  have "reload_spec not_x broken_file ''clean'' = Some (uploaded any_env ''clean'' clean_upload)" by code_simp
  moreover have "reach (exec_op not_x (\<lambda>f d c. Raised)) (empty_registry ''ops'' None) broken_file"
    unfolding broken_file_def by (rule reach_run_cmds)
  from reload_refines_spec [OF this]
  have "tbl_get ro_name ''clean'' (rg_operators (snd (reload_all not_x broken_file))) = reload_spec not_x broken_file ''clean''"
    by blast
  ultimately show "tbl_get ro_name ''clean'' (rg_operators (snd (reload_all not_x broken_file))) =
     Some (uploaded any_env ''clean'' clean_upload)" by simp
  show "changed broken_file" by code_simp
qed

end
