(* ===== verification/Operator_Sync.thy ===== *)
theory Operator_Sync
  imports Operator_Claims
begin

text \<open>
  A worker that installs the operators exported by the control plane has the same registry, and
  the shared store is read page by page.
\<close>

section \<open>Exporting\<close>

definition source_in :: "registry \<Rightarrow> operator_manifest \<Rightarrow> string" where
  "source_in r m = (case tbl_get of_stem (om_name m) (rg_sources r) of None \<Rightarrow> [] | Some f \<Rightarrow> of_content f)"

definition exportable :: "compiles \<Rightarrow> registry \<Rightarrow> bool" where
  \<comment> \<open>the source file of every user operator is there, is the one that runs, and can be uploaded\<close>
  "exportable compile r \<longleftrightarrow> (\<forall>x \<in> set (rg_operators r). om_builtin (ro_manifest x) \<or>
     (case tbl_get of_stem (ro_name x) (rg_sources r) of None \<Rightarrow> False
      | Some f \<Rightarrow> ro_function x = UserSource (of_content f) \<and>
          is_ok (validate_source compile (of_content f) (ro_name x))))"

definition user_manifests :: "registry \<Rightarrow> operator_manifest list" where
  "user_manifests r = filter (\<lambda>m. \<not> om_builtin m) (sort_key om_name (map ro_manifest (rg_operators r)))"

lemma in_user_manifests:
  "m \<in> set (user_manifests r) \<longleftrightarrow> (\<exists>x \<in> set (rg_operators r). ro_manifest x = m \<and> \<not> om_builtin m)"
  by (auto simp: user_manifests_def)

lemma export_eq:
  assumes "\<not> changed r" and "exportable compile r"
  shows "fst (export_user_operators compile r) = map (\<lambda>m. op_bundle m (source_in r m)) (user_manifests r)"
proof -
  let ?g = "\<lambda>m. if om_builtin m then []
     else case tbl_get of_stem (om_name m) (rg_sources r) of None \<Rightarrow> [] | Some f \<Rightarrow> [op_bundle m (of_content f)]"
  have one: "?g m = (if om_builtin m then [] else [op_bundle m (source_in r m)])"
    if "m \<in> ro_manifest ` set (rg_operators r)" for m
    using that assms(2) by (auto simp: exportable_def source_in_def ro_name_def split: option.splits)
  have "concat (map ?g ms) = map (\<lambda>m. op_bundle m (source_in r m)) (filter (\<lambda>m. \<not> om_builtin m) ms)"
    if "set ms \<subseteq> ro_manifest ` set (rg_operators r)" for ms
    using that by (induction ms) (simp_all add: one)
  then show ?thesis
    by (simp add: export_user_operators_def list_operators_def Let_def refresh_if_changed_def assms(1)
        user_manifests_def)
qed

lemma user_manifests_names:
  assumes "operators_ok (rg_operators r)"
  shows "keys_ok om_name (user_manifests r)"
proof -
  have "keys_ok om_name (map ro_manifest (rg_operators r))"
    using assms by (auto simp: operators_ok_def keys_ok_def ro_name_def [abs_def] comp_def)
  then show ?thesis
    unfolding user_manifests_def
    by (intro keys_ok_filter) (simp add: keys_ok_perm [of "sort_key om_name (map ro_manifest (rg_operators r))"
        "map ro_manifest (rg_operators r)"])
qed

lemma user_manifest_valid:
  assumes "operators_ok (rg_operators r)" and "exportable compile r" and "m \<in> set (user_manifests r)"
  shows "validate_user_manifest m = Inr () \<and> validate_source compile (source_in r m) (om_name m) = Inr () \<and>
    tbl_get ro_name (om_name m) (rg_operators r) = Some \<lparr>ro_function = UserSource (source_in r m), ro_manifest = m\<rparr>"
proof -
  from assms(3) obtain x where x: "x \<in> set (rg_operators r)" "ro_manifest x = m" "\<not> om_builtin m"
    by (auto simp: in_user_manifests)
  have n: "ro_name x = om_name m" using x(2) by (simp add: ro_name_def)
  have u: "user_ok x" using assms(1) x by (auto simp: operators_ok_def dest: builtin_flag)
  obtain f where f: "tbl_get of_stem (om_name m) (rg_sources r) = Some f" "ro_function x = UserSource (of_content f)"
    "is_ok (validate_source compile (of_content f) (om_name m))"
    using assms(2) x n by (auto simp: exportable_def split: option.splits)
  have "tbl_get ro_name (om_name m) (rg_operators r) = Some x"
    using assms(1) x(1) n by (intro tbl_get_key) (auto simp: operators_ok_def)
  moreover have "x = \<lparr>ro_function = UserSource (source_in r m), ro_manifest = m\<rparr>"
    using f(1,2) x(2) by (cases x) (simp add: source_in_def)
  moreover have "validate_user_manifest m = Inr ()"
    using u x(2,3) n by (simp add: user_ok_def validate_user_manifest_def validate_name_def)
  ultimately show ?thesis using f(1,3) by (auto simp: source_in_def is_ok_iff)
qed

section \<open>Installing\<close>

lemma validate_bundles_eq:
  assumes "\<And>m. m \<in> set ms \<Longrightarrow> validate_user_manifest m = Inr () \<and> validate_source compile (src m) (om_name m) = Inr ()"
  shows "validate_bundles compile (map (\<lambda>m. op_bundle m (src m)) ms) = Inr (map (\<lambda>m. (m, src m)) ms)"
  using assms
  by (induction ms) (simp_all add: validate_bundle_def op_bundle_def dget_def manifest_roundtrip)

definition no_store_faults :: "op_env \<Rightarrow> bool" where
  "no_store_faults env \<longleftrightarrow> oe_put_fault env = (\<lambda>_. False) \<and> oe_delete_fault env = (\<lambda>_. False) \<and>
     oe_write_fault env = (\<lambda>_. False)"

definition same_memory :: "registry \<Rightarrow> registry \<Rightarrow> bool" where
  "same_memory r r' \<longleftrightarrow> rg_operators r' = rg_operators r \<and> rg_dir r' = rg_dir r \<and> rg_snapshot r' = rg_snapshot r"

lemma install_files_get:
  assumes "no_store_faults env" and "keys_ok om_name ms"
  shows "\<exists>w'. install_files env True (map (\<lambda>m. (m, src m)) ms) w = (Inr (), w') \<and> same_memory w w' \<and>
    (\<forall>n. tbl_get of_stem n (rg_manifests w') = (case tbl_get om_name n ms of
        Some m \<Rightarrow> Some \<lparr>of_stem = n, of_stamp = oe_stamp env, of_content = Some (JObj (to_dict m))\<rparr>
      | None \<Rightarrow> tbl_get of_stem n (rg_manifests w))) \<and>
    (\<forall>n. tbl_get of_stem n (rg_sources w') = (case tbl_get om_name n ms of
        Some m \<Rightarrow> Some \<lparr>of_stem = n, of_stamp = oe_stamp env, of_content = src m\<rparr>
      | None \<Rightarrow> tbl_get of_stem n (rg_sources w)))"
  using assms(2)
proof (induction ms arbitrary: w)
  case Nil
  then show ?case by (simp add: aret_def same_memory_def)
next
  case (Cons m ms)
  let ?w = "write_files (oe_stamp env) (om_name m) (src m) (JObj (to_dict m))
    (w\<lparr>rg_store := map_option (tbl_put so_name
       \<lparr>so_name = om_name m, so_body = Some (JObj (op_bundle m (src m)))\<rparr>) (rg_store w)\<rparr>)"
  from Cons.prems have ok: "keys_ok om_name ms" and new: "tbl_get om_name (om_name m) ms = None"
    by (auto simp: keys_ok_def tbl_get_None_iff)
  have step: "install_files env True (map (\<lambda>m. (m, src m)) (m # ms)) w =
      install_files env True (map (\<lambda>m. (m, src m)) ms) ?w"
    using assms(1) by (simp add: abind_def write_pair_def store_put_eq no_store_faults_def)
  from Cons.IH [OF ok, of ?w] new show ?case unfolding step
    by (auto simp: same_memory_def write_files_def table_simps split: option.split)
qed

lemma remove_stale_get:
  assumes "no_store_faults env"
  shows "\<exists>w'. remove_stale env True ns w = (Inr (), w') \<and> same_memory w w' \<and>
    (\<forall>n. tbl_get of_stem n (rg_manifests w') = (if n \<in> set ns then None else tbl_get of_stem n (rg_manifests w))) \<and>
    (\<forall>n. tbl_get of_stem n (rg_sources w') = (if n \<in> set ns then None else tbl_get of_stem n (rg_sources w)))"
proof (induction ns arbitrary: w)
  case Nil
  then show ?case by (simp add: aret_def same_memory_def)
next
  case (Cons k ns)
  let ?w = "unlink_files k (w\<lparr>rg_store := map_option (tbl_del so_name k) (rg_store w)\<rparr>)"
  have step: "remove_stale env True (k # ns) w = remove_stale env True ns ?w"
    using assms by (cases w) (simp add: abind_def awrite_def store_delete_def no_store_faults_def split: option.split)
  from Cons.IH [of ?w] show ?case unfolding step
    by (auto simp: same_memory_def unlink_files_def table_simps)
qed

lemma load_entry_cong:
  "tbl_get of_stem (of_stem f) (rg_sources r') = tbl_get of_stem (of_stem f) (rg_sources r) \<Longrightarrow>
   rg_dir r' = rg_dir r \<Longrightarrow> load_entry compile r' f = load_entry compile r f"
proof -
  assume "rg_dir r' = rg_dir r"
  then have "load_function compile r' = load_function compile r"
    by (simp add: load_function_def source_path_def fun_eq_iff)
  moreover assume "tbl_get of_stem (of_stem f) (rg_sources r') = tbl_get of_stem (of_stem f) (rg_sources r)"
  ultimately show ?thesis by (simp only: load_entry_def)
qed

section \<open>Replication\<close>

lemma not_loaded_not_loadable:
  assumes ok: "registry_ok w" and mem: "same_memory (restarted compile w) w1"
    and ok1: "registry_ok w1" and n: "n \<notin> set reserved_names"
    and none: "tbl_get ro_name n (rg_operators (snd (refresh_if_changed compile w1))) = None"
    and f: "tbl_get of_stem n (rg_manifests w1) = Some f"
  shows "\<not> is_ok (load_entry compile w1 f)"
proof (cases "changed w1")
  case True
  with none have "tbl_get ro_name n (rg_operators (snd (reload_all compile w1))) = None"
    by (simp add: refresh_if_changed_def)
  with n f show ?thesis by (auto simp: reload_all_get [OF ok1] is_ok_iff)
next
  case False
  have files: "rg_sources (restarted compile w) = rg_sources w" "rg_manifests (restarted compile w) = rg_manifests w"
    "rg_snapshot (restarted compile w) = (rg_sources w, rg_manifests w)" "rg_dir (restarted compile w) = rg_dir w"
    by (simp_all add: restarted_def files_def)
  with False mem have same: "set (rg_sources w1) = set (rg_sources w)" "set (rg_manifests w1) = set (rg_manifests w)"
    by (simp_all add: changed_def same_memory_def)
  from ok ok1 have keys: "keys_ok of_stem (rg_sources w)" "keys_ok of_stem (rg_sources w1)"
    "keys_ok of_stem (rg_manifests w)" "keys_ok of_stem (rg_manifests w1)"
    by (simp_all add: registry_ok_def)
  have fw: "tbl_get of_stem n (rg_manifests w) = Some f"
    using tbl_get_perm [OF keys(4,3)] same(2) f by metis
  have src: "tbl_get of_stem (of_stem f) (rg_sources w1) = tbl_get of_stem (of_stem f) (rg_sources w)"
    using tbl_get_perm [OF keys(1,2)] same(1) by metis
  let ?start = "w\<lparr>rg_operators := BUILTIN_OPERATORS, rg_snapshot := ([], [])\<rparr>"
  have "load_entry compile w1 f = load_entry compile ?start f"
    using src mem files(4) by (intro load_entry_cong) (simp_all add: same_memory_def)
  moreover from False mem none have "tbl_get ro_name n (rg_operators (restarted compile w)) = None"
    by (simp add: refresh_if_changed_def same_memory_def)
  then have "\<not> is_ok (load_entry compile ?start f)"
    using n fw by (auto simp: restarted_get [OF ok] reload_spec_def is_ok_iff)
  ultimately show ?thesis by simp
qed

lemma restarted_ok: "registry_ok w \<Longrightarrow> registry_ok (restarted compile w)"
  unfolding restarted_def by (intro reload_all_ok) (simp add: registry_ok_def operators_ok_builtins)

lemma reserved_get:
  "registry_ok r \<Longrightarrow> n \<in> set reserved_names \<Longrightarrow>
     tbl_get ro_name n (rg_operators r) = tbl_get ro_name n BUILTIN_OPERATORS"
  using operators_ok_builtins by (auto simp: registry_ok_def operators_ok_def reserved_names_def)

lemma user_manifests_get:
  assumes "operators_ok (rg_operators r)" and "n \<notin> set reserved_names"
  shows "tbl_get ro_name n (rg_operators r) = None \<longleftrightarrow> n \<notin> om_name ` set (user_manifests r)"
proof -
  have "\<not> om_builtin (ro_manifest x)" if "x \<in> set (rg_operators r)" "ro_name x = n" for x
    using assms that by (auto simp: operators_ok_def user_ok_def dest: builtin_reserved)
  then show ?thesis unfolding tbl_get_None_iff image_iff Bex_def in_user_manifests ro_name_def by blast
qed

lemma listed_names:
  "fst (list_operators compile None w) =
     sort_key om_name (map ro_manifest (rg_operators (snd (refresh_if_changed compile w))))"
  "snd (list_operators compile None w) = snd (refresh_if_changed compile w)"
  by (simp_all add: list_operators_def Let_def)

lemma sync_steps:
  assumes "no_store_faults env" and "keys_ok om_name ms"
    and "\<And>m. m \<in> set ms \<Longrightarrow> validate_user_manifest m = Inr () \<and> validate_source compile (src m) (om_name m) = Inr ()"
  obtains w1 w2 where
    "install_files env True (map (\<lambda>m. (m, src m)) ms) w = (Inr (), w1)"
    "remove_stale env True (filter (\<lambda>n. n \<notin> om_name ` set ms) (map om_name (user_manifests (snd (refresh_if_changed compile w1)))))
       (snd (refresh_if_changed compile w1)) = (Inr (), w2)"
    "sync_user_operators compile env (map (\<lambda>m. op_bundle m (src m)) ms) True w =
       (Inr (fst (reload_all compile w2)), snd (reload_all compile w2))"
proof -
  obtain w1 where w1: "install_files env True (map (\<lambda>m. (m, src m)) ms) w = (Inr (), w1)"
    using install_files_get [OF assms(1,2)] by blast
  let ?ns = "filter (\<lambda>n. n \<notin> om_name ` set ms) (map om_name (user_manifests (snd (refresh_if_changed compile w1))))"
  obtain w2 where w2: "remove_stale env True ?ns (snd (refresh_if_changed compile w1)) = (Inr (), w2)"
    using remove_stale_get [OF assms(1)] by blast
  have "sync_user_operators compile env (map (\<lambda>m. op_bundle m (src m)) ms) True w =
       (Inr (fst (reload_all compile w2)), snd (reload_all compile w2))"
    using w1 w2 validate_bundles_eq [of ms compile src] assms(3)
    by (simp add: sync_user_operators_def install_bundles_def abind_def alift_def acall_def image_image listed_names case_prod_beta user_manifests_def [symmetric])
  with w1 w2 show ?thesis by (rule that)
qed

lemma load_entry_installed:
  assumes "tbl_get of_stem (om_name m) (rg_sources w) = Some \<lparr>of_stem = om_name m, of_stamp = s, of_content = src\<rparr>"
    and "validate_user_manifest m = Inr ()" and "validate_source compile src (om_name m) = Inr ()"
    and "same_under_any_name compile"
  shows "load_entry compile w \<lparr>of_stem = om_name m, of_stamp = s', of_content = Some (JObj (to_dict m))\<rparr> =
    Inr \<lparr>ro_function = UserSource src, ro_manifest = m\<rparr>"
proof -
  have "compile g (om_name m) src" for g
    using assms(3) compile_any [OF assms(4)]
    by (auto simp: validate_source_def function_from_source_def split: if_splits)
  with assms(1,2) show ?thesis
    by (simp add: load_entry_def read_manifest_def manifest_roundtrip load_function_def function_from_source_def)
qed

lemma load_entry_kept:
  assumes "tbl_get of_stem n (rg_manifests w) = Some f"
    and "tbl_get of_stem n (rg_sources w') = tbl_get of_stem n (rg_sources w)" and "rg_dir w' = rg_dir w"
  shows "load_entry compile w' f = load_entry compile w f"
  using tbl_get_Some [OF assms(1)] assms(2,3) by (intro load_entry_cong) auto

lemma absent_after_reload:
  assumes "registry_ok w" and "n \<notin> set reserved_names"
    and "tbl_get of_stem n (rg_manifests w) = None \<or> tbl_get ro_name n (rg_operators w) = None"
    and "\<And>f. tbl_get of_stem n (rg_manifests w) = Some f \<Longrightarrow> \<not> is_ok (load_entry compile w f)"
  shows "tbl_get ro_name n (rg_operators (snd (reload_all compile w))) = None"
  using assms(2-) by (auto simp: reload_all_get [OF assms(1)] is_ok_iff split: option.split sum.split)

lemma name_after_sync:
  assumes ok: "registry_ok w" "registry_ok w1" "registry_ok w2" and mem: "same_memory (restarted compile w) w1"
    and mem2: "same_memory (snd (refresh_if_changed compile w1)) w2" and n: "n \<notin> set reserved_names"
    and stale: "\<And>k. k \<in> set ns \<longleftrightarrow> k \<in> om_name ` set (user_manifests (snd (refresh_if_changed compile w1))) \<and> k \<notin> new"
    and files: "\<And>k. tbl_get of_stem k (rg_manifests w2) = (if k \<in> set ns then None else tbl_get of_stem k (rg_manifests w1))"
      "\<And>k. tbl_get of_stem k (rg_sources w2) = (if k \<in> set ns then None else tbl_get of_stem k (rg_sources w1))"
    and notnew: "n \<notin> new"
  shows "tbl_get ro_name n (rg_operators (snd (reload_all compile w2))) = None"
proof (rule absent_after_reload [OF ok(3) n])
  let ?w1 = "snd (refresh_if_changed compile w1)"
  have "operators_ok (rg_operators ?w1)" using refresh_ok [OF ok(2)] by (simp add: registry_ok_def)
  note gone = user_manifests_get [OF this n]
  show "tbl_get of_stem n (rg_manifests w2) = None \<or> tbl_get ro_name n (rg_operators w2) = None"
    using gone notnew files stale mem2 by (auto simp: same_memory_def)
  fix f assume f: "tbl_get of_stem n (rg_manifests w2) = Some f"
  then have kept: "n \<notin> set ns" "tbl_get of_stem n (rg_manifests w1) = Some f"
    using files by (auto split: if_splits)
  then have "\<not> is_ok (load_entry compile w1 f)"
    using not_loaded_not_loadable [OF ok(1) mem ok(2) n] gone stale notnew by auto
  moreover have "load_entry compile w2 f = load_entry compile w1 f"
    using files kept mem2 by (intro load_entry_kept [of n]) (auto simp: same_memory_def)
  ultimately show "\<not> is_ok (load_entry compile w2 f)" by simp
qed

text \<open>
  A worker that was just started over any directory it had and installs the operators
  exported by the control plane has the same registry: every name stands for the same
  manifest and source on both, and names the control plane does not have stand for nothing.
\<close>

lemma sync_replicates:
  assumes plane: "reach (exec_op compile run) (empty_registry dir store) r"
    and clean: "\<not> changed r" "exportable compile r" "same_under_any_name compile"
    and worker: "reach (exec_op compile run) (empty_registry dir' store') w" and env: "no_store_faults env"
  shows "\<exists>names w'. sync_user_operators compile env (fst (export_user_operators compile r)) True (restarted compile w) =
      (Inr names, w') \<and>
    (\<forall>n. tbl_get ro_name n (rg_operators w') = tbl_get ro_name n (rg_operators r))"
proof -
  let ?ms = "user_manifests r" and ?src = "source_in r" and ?w = "restarted compile w"
  have ok: "registry_ok r" "registry_ok w" "registry_ok ?w"
    using reach_registry_ok [OF plane] reach_registry_ok [OF worker] restarted_ok by auto
  then have ops: "operators_ok (rg_operators r)" by (simp add: registry_ok_def)
  note valid = user_manifest_valid [OF ops clean(2)]
  have names: "keys_ok om_name ?ms" by (rule user_manifests_names [OF ops])
  obtain w1 w2 where inst: "install_files env True (map (\<lambda>m. (m, ?src m)) ?ms) ?w = (Inr (), w1)"
    and rem: "remove_stale env True (filter (\<lambda>n. n \<notin> om_name ` set ?ms)
       (map om_name (user_manifests (snd (refresh_if_changed compile w1))))) (snd (refresh_if_changed compile w1)) = (Inr (), w2)"
    and sync: "sync_user_operators compile env (map (\<lambda>m. op_bundle m (?src m)) ?ms) True ?w =
       (Inr (fst (reload_all compile w2)), snd (reload_all compile w2))"
    using sync_steps [OF env names, of compile ?src ?w] valid by blast
  let ?w1 = "snd (refresh_if_changed compile w1)"
  have ok1: "registry_ok w1" using keepsD [OF keeps_install_files ok(3) inst] by simp
  have okr: "registry_ok ?w1" by (rule refresh_ok [OF ok1])
  have ok2: "registry_ok w2" using keepsD [OF keeps_remove_stale okr rem] by simp
  note got1 = install_files_get [OF env names, of ?src ?w, unfolded inst, simplified]
  let ?ns = "filter (\<lambda>n. n \<notin> om_name ` set ?ms) (map om_name (user_manifests ?w1))"
  note got2 = remove_stale_get [OF env, of ?ns ?w1, unfolded rem, simplified]
  have mem1: "same_memory ?w w1" and mem2: "same_memory ?w1 w2" using got1 got2 by auto
  have "tbl_get ro_name n (rg_operators (snd (reload_all compile w2))) = tbl_get ro_name n (rg_operators r)" for n
  proof (cases "n \<in> set reserved_names")
    case True
    then show ?thesis using reserved_get reload_all_ok [OF ok2] ok(1) by simp
  next
    case False
    note final = reload_all_get [OF ok2, of n compile] False
    show ?thesis
    proof (cases "tbl_get om_name n ?ms")
      case (Some m)
      then have m: "m \<in> set ?ms" "om_name m = n" by (auto dest: tbl_get_Some)
      then have "tbl_get of_stem n (rg_manifests w2) = Some \<lparr>of_stem = om_name m, of_stamp = oe_stamp env,
          of_content = Some (JObj (to_dict m))\<rparr>"
        and src: "tbl_get of_stem (om_name m) (rg_sources w2) = Some \<lparr>of_stem = om_name m, of_stamp = oe_stamp env,
          of_content = ?src m\<rparr>"
        using got1 got2 Some by auto
      with final load_entry_installed [OF src _ _ clean(3)] valid [OF m(1)] m(2) show ?thesis by simp
    next
      case None
      then have new: "n \<notin> om_name ` set ?ms" by (simp add: tbl_get_None_iff)
      then have "tbl_get ro_name n (rg_operators r) = None" using user_manifests_get [OF ops False] by simp
      moreover have "tbl_get ro_name n (rg_operators (snd (reload_all compile w2))) = None"
        by (rule name_after_sync [OF ok(2) ok1 ok2 mem1 mem2 False, of ?ns "om_name ` set ?ms"])
          (use got2 new in auto)
      ultimately show ?thesis by simp
    qed
  qed
  with sync show ?thesis by (simp add: export_eq [OF clean(1,2)])
qed

definition plane :: registry where
  "plane = run_cmds (exec_op every_source (\<lambda>f d c. Raised)) [CreateOp any_env ''clean'' clean_upload]
     (empty_registry ''ops'' None)"

definition old_worker :: registry where
  "old_worker = run_cmds (exec_op every_source (\<lambda>f d c. Raised)) [CreateOp any_env ''gone'' clean_upload]
     (empty_registry ''cache'' None)"

section \<open>Listing the store\<close>

text \<open>
  C24: Reading the bundles of the store page by page ends, and gives what the listing of all objects in the
  order of their keys gives, whatever the size of the pages and the number of objects; the loop has
  no bound of its own and ends because each truncated page goes further.
\<close>

lemma listing_returns:
  assumes "lists_in_pages client keys pos"
    and "keys = map (\<lambda>x. store_key pre (so_name x)) (sort_key (\<lambda>x. so_name x @ ''.json'') objects)"
    and "\<And>x. x \<in> set objects \<Longrightarrow> get (store_key pre (so_name x)) = S3Ok (so_body x)"
    and "\<not> oe_list_fault env"
  shows "list_pages client get None [] = Some (list_bundles env objects)"
proof -
  have "pos None = 0" using assms(1) by (simp add: lists_in_pages_def)
  with list_pages_returns [OF assms(1), of None get "[]"]
  have "list_pages client get None [] = Some (rbind (read_objects get keys) Inr)" by simp
  also have "read_objects get keys = (case object_dicts (sort_key (\<lambda>x. so_name x @ ''.json'') objects) of
      None \<Rightarrow> Inl (OperatorStorage ''object'') | Some ds \<Rightarrow> Inr ds)"
    unfolding assms(2) by (rule read_stored_objects) (simp add: assms(3))
  finally show ?thesis using assms(4) by (simp add: list_bundles_def rbind_def split: option.split)
qed

definition one_by_one :: "string list \<Rightarrow> string option \<Rightarrow> s3_page s3_reply" where
  \<comment> \<open>a store with pages of one object\<close>
  "one_by_one keys t = (let i = (case t of None \<Rightarrow> 0 | Some s \<Rightarrow> length s) in
     S3Ok \<lparr>pg_keys = take 1 (drop i keys), pg_truncated = (i + 1 < length keys),
       pg_next = Some (replicate (i + 1) CHR ''t'')\<rparr>)"

lemma one_by_one_pages: "lists_in_pages (one_by_one keys) keys (\<lambda>t. case t of None \<Rightarrow> 0 | Some s \<Rightarrow> length s)"
  unfolding lists_in_pages_def one_by_one_def Let_def
  by (auto intro!: exI [of _ "1 :: nat"])

lemma listing_returns_witness:
  "list_pages (one_by_one [''ops/a.json'', ''ops/b.json'']) (\<lambda>k. S3Ok (Some (JObj []))) None [] =
     Some (list_bundles any_env [\<lparr>so_name = ''b'', so_body = Some (JObj [])\<rparr>, \<lparr>so_name = ''a'', so_body = Some (JObj [])\<rparr>]) \<and>
   list_bundles any_env [\<lparr>so_name = ''b'', so_body = Some (JObj [])\<rparr>, \<lparr>so_name = ''a'', so_body = Some (JObj [])\<rparr>] =
     Inr [[], []]"
proof
  show "list_pages (one_by_one [''ops/a.json'', ''ops/b.json'']) (\<lambda>k. S3Ok (Some (JObj []))) None [] =
     Some (list_bundles any_env [\<lparr>so_name = ''b'', so_body = Some (JObj [])\<rparr>, \<lparr>so_name = ''a'', so_body = Some (JObj [])\<rparr>])"
  proof (rule listing_returns [OF one_by_one_pages])
    show "[''ops/a.json'', ''ops/b.json''] = map (\<lambda>x. store_key ''ops'' (so_name x))
      (sort_key (\<lambda>x. so_name x @ ''.json'') [\<lparr>so_name = ''b'', so_body = Some (JObj [])\<rparr>, \<lparr>so_name = ''a'', so_body = Some (JObj [])\<rparr>])"
      by code_simp
  qed (auto simp: any_env_def)
  show "list_bundles any_env [\<lparr>so_name = ''b'', so_body = Some (JObj [])\<rparr>, \<lparr>so_name = ''a'', so_body = Some (JObj [])\<rparr>] =
     Inr [[], []]" by code_simp
qed

section \<open>Two gaps\<close>

text \<open>
  The snapshot of the directory that an upload stores covers files it has not loaded: an edit of
  another operator made since the last look at the directory is never noticed.
\<close>

lemma upload_hides_edits:
  assumes "create_operator compile env n u r = (Inr m, r')"
  shows "refresh_if_changed compile r' = (False, r')"
    and "k \<noteq> n \<Longrightarrow> tbl_get ro_name k (rg_operators r') = tbl_get ro_name k (rg_operators r)"
proof -
  have "r' = after_upload env n u r"
    by (rule upload_cases [of create_operator compile env n u r]) (use assms in auto)
  then show "refresh_if_changed compile r' = (False, r')"
    and "k \<noteq> n \<Longrightarrow> tbl_get ro_name k (rg_operators r') = tbl_get ro_name k (rg_operators r)"
    by (simp_all add: refresh_if_changed_def after_upload_unchanged after_upload_get)
qed

text \<open>
  The export pairs the manifest in memory with the source on disk.  When the source no longer loads, the
  control plane keeps the previous version, but the export makes the worker refuse the whole snapshot.
\<close>

definition edited_plane :: registry where
  "edited_plane = plane\<lparr>rg_sources := [\<lparr>of_stem = ''clean'', of_stamp = 9, of_content = ''x''\<rparr>]\<rparr>"

lemma broken_file_blocks_export:
  "fst (get_operator not_x ''clean'' edited_plane) = Inr (ro_manifest (uploaded any_env ''clean'' clean_upload))"
  "fst (sync_user_operators not_x any_env (fst (export_user_operators not_x edited_plane)) True
     (empty_registry ''cache'' None)) = Inl (OperatorValidation ''source'')"
  by code_simp+

end
