(* ===== verification/Operator_Api.thy ===== *)
theory Operator_Api
  imports Operator_Sync Operator_Builtins Governance_Api
begin

text \<open>
  The HTTP interface of the operators: backend/biz/handler/operator.py, backend/application/operator.py
  and backend/biz/schemas/operator.py.  A handler answers, changes the registry and the response cache, and
  sends the posts that tell the workers to reload; their answers are only logged.  Character classes of
  the text rules are arguments.
\<close>

section \<open>Requests\<close>

record operator_body =
  ob_name :: string
  ob_version :: string
  ob_kind :: operator_kind
  ob_source :: string
  ob_description :: string

definition check_text :: "(string \<Rightarrow> bool) \<Rightarrow> string \<Rightarrow> string option" where
  \<comment> \<open>biz/schemas/text\_rules.py; the argument says whether the pattern matches; None: \<open>ValueError\<close>\<close>
  "check_text full_match s =
     (if s = [] then Some s else if 64 < py_len s then None else if full_match s then Some s else None)"

definition valid_text :: "(string \<Rightarrow> bool) \<Rightarrow> string \<Rightarrow> string option" where
  \<comment> \<open>the field validators: empty texts pass, others are stripped first\<close>
  "valid_text full_match s = (if s = [] then Some [] else check_text full_match (py_strip s))"

definition valid_update :: "(string \<Rightarrow> bool) \<Rightarrow> operator_body \<Rightarrow> op_upload option" where
  "valid_update keyword_match b =
     opt_bind (valid_text keyword_match (ob_description b)) (\<lambda>d.
       if 1 \<le> py_len (ob_version b) \<and> py_len (ob_version b) \<le> 64 \<and>
          1 \<le> py_len (ob_source b) \<and> int (py_len (ob_source b)) \<le> 262144 \<and> py_len d \<le> 64
       then Some \<lparr>ou_version = ob_version b, ou_kind = ob_kind b, ou_source = ob_source b, ou_description = d\<rparr>
       else None)"

definition valid_upload ::
  "(string \<Rightarrow> bool) \<Rightarrow> (string \<Rightarrow> bool) \<Rightarrow> operator_body \<Rightarrow> (string \<times> op_upload) option" where
  "valid_upload identifier_match keyword_match b =
     opt_bind (valid_text identifier_match (ob_name b)) (\<lambda>n.
       if 1 \<le> py_len n \<and> py_len n \<le> 64 then map_option (Pair n) (valid_update keyword_match b) else None)"

section \<open>State\<close>

record operator_config =
  oc_ttl :: int
  oc_kind :: "query_items \<Rightarrow> operator_kind option option"    \<comment> \<open>None: refused with 422\<close>
  oc_list_text :: "operator_manifest list \<Rightarrow> string"
  oc_workers :: "string option"                              \<comment> \<open>\<open>OPERATOR_WORKER_BASE_URIS\<close>\<close>
  oc_reload_token :: "string option"                         \<comment> \<open>\<open>OPERATOR_RELOAD_TOKEN\<close>\<close>
  oc_compiles :: compiles
  oc_run :: "callable \<Rightarrow> dict list \<Rightarrow> dict \<Rightarrow> py_result"

record operator_state =
  os_registry :: registry
  os_cache :: cache

record reload_post =
  rp_url :: string
  rp_token :: "string option"
  rp_bundles :: "dict list option"       \<comment> \<open>with \<open>replace\<close> true; None: no body\<close>

definition OPERATOR_LIST :: string where
  "OPERATOR_LIST = ''operator:list''"

definition raise_http_error :: "op_error \<Rightarrow> 'a http" where
  "raise_http_error e = (case e of
     OperatorNotFound m \<Rightarrow> HttpError 404 m
   | OperatorConflict m \<Rightarrow> HttpError 409 m
   | OperatorValidation m \<Rightarrow> HttpError 422 m
   | OperatorExecution m \<Rightarrow> HttpError 422 m
   | OperatorStorage m \<Rightarrow> HttpError 503 m
   | OperatorCrash \<Rightarrow> HttpError 500 [])"

section \<open>Telling the workers\<close>

definition worker_uris :: "operator_config \<Rightarrow> string list" where
  "worker_uris cfg = map (\<lambda>u. rstrip_slash (py_strip u))
     (filter (\<lambda>u. \<not> py_blank u) (py_split CHR '','' (opt_str (oc_workers cfg))))"

definition broadcast_reload :: "operator_config \<Rightarrow> registry \<Rightarrow> reload_post list \<times> registry" where
  "broadcast_reload cfg r =
     (if worker_uris cfg = [] then ([], r)
      else case (if rg_store r \<noteq> None then (None, r)
                 else (case export_user_operators (oc_compiles cfg) r of (bs, r1) \<Rightarrow> (Some bs, r1))) of
        (payload, r1) \<Rightarrow>
          (map (\<lambda>u. \<lparr>rp_url = u @ ''/internal/operators/reload'',
              rp_token = (if opt_truthy (oc_reload_token cfg) then oc_reload_token cfg else None),
              rp_bundles = payload\<rparr>) (worker_uris cfg), r1))"

definition after_write ::
  "operator_config \<Rightarrow> (op_error + 'a) \<times> registry \<Rightarrow> operator_state \<Rightarrow>
   'a http \<times> reload_post list \<times> operator_state" where
  \<comment> \<open>broadcast, then drop the cached listings\<close>
  "after_write cfg res s =
     (case res of
        (Inl e, r) \<Rightarrow> (raise_http_error e, [], s\<lparr>os_registry := r\<rparr>)
      | (Inr x, r) \<Rightarrow>
          (case broadcast_reload cfg r of
             (posts, r1) \<Rightarrow> (HttpOk x, posts,
               s\<lparr>os_registry := r1, os_cache := invalidate OPERATOR_LIST (os_cache s)\<rparr>)))"

section \<open>Handlers\<close>

definition list_operators_handler ::
  "operator_config \<Rightarrow> time \<Rightarrow> query_items \<Rightarrow> operator_state \<Rightarrow> string http \<times> operator_state" where
  "list_operators_handler cfg t items s =
     (case oc_kind cfg items of
        None \<Rightarrow> (HttpError 422 [], s)
      | Some k \<Rightarrow>
          (case try_get t OPERATOR_LIST items (os_cache s) of
             Some cached \<Rightarrow> (HttpOk cached, s)
           | None \<Rightarrow>
               (case list_operators (oc_compiles cfg) k (os_registry s) of
                  (ms, r) \<Rightarrow> (HttpOk (oc_list_text cfg ms),
                    s\<lparr>os_registry := r,
                      os_cache := store_page t (oc_ttl cfg) OPERATOR_LIST items (oc_list_text cfg ms) (os_cache s)\<rparr>))))"

definition get_operator_handler ::
  "operator_config \<Rightarrow> string \<Rightarrow> operator_state \<Rightarrow> operator_manifest http \<times> operator_state" where
  "get_operator_handler cfg n s =
     (case get_operator (oc_compiles cfg) n (os_registry s) of
        (Inl e, r) \<Rightarrow> (raise_http_error e, s\<lparr>os_registry := r\<rparr>)
      | (Inr m, r) \<Rightarrow> (HttpOk m, s\<lparr>os_registry := r\<rparr>))"

definition create_operator_handler ::
  "operator_config \<Rightarrow> op_env \<Rightarrow> string \<times> op_upload \<Rightarrow> operator_state \<Rightarrow>
   operator_manifest http \<times> reload_post list \<times> operator_state" where
  "create_operator_handler cfg env b s =
     after_write cfg (create_operator (oc_compiles cfg) env (fst b) (snd b) (os_registry s)) s"

definition update_operator_handler ::
  "operator_config \<Rightarrow> op_env \<Rightarrow> string \<Rightarrow> op_upload \<Rightarrow> operator_state \<Rightarrow>
   operator_manifest http \<times> reload_post list \<times> operator_state" where
  "update_operator_handler cfg env n u s =
     after_write cfg (update_operator (oc_compiles cfg) env n u (os_registry s)) s"

definition delete_operator_handler ::
  "operator_config \<Rightarrow> op_env \<Rightarrow> string \<Rightarrow> operator_state \<Rightarrow> unit http \<times> reload_post list \<times> operator_state" where
  "delete_operator_handler cfg env n s = after_write cfg (delete_operator env n (os_registry s)) s"

definition invoke_operator_handler ::
  "operator_config \<Rightarrow> string \<Rightarrow> dict list \<Rightarrow> dict \<Rightarrow> operator_state \<Rightarrow>
   (operator_manifest \<times> dict list \<times> nat) http \<times> operator_state" where
  "invoke_operator_handler cfg n data ctx s =
     (case abind (invoke_operator (oc_compiles cfg) (oc_run cfg) n data ctx) (\<lambda>ds.
           abind (get_operator (oc_compiles cfg) n) (\<lambda>m. aret (m, ds, length ds))) (os_registry s) of
        (Inl e, r) \<Rightarrow> (raise_http_error e, s\<lparr>os_registry := r\<rparr>)
      | (Inr x, r) \<Rightarrow> (HttpOk x, s\<lparr>os_registry := r\<rparr>))"

definition reload_operators_handler ::
  "operator_config \<Rightarrow> op_env \<Rightarrow> (dict list \<times> bool) option \<Rightarrow> string option \<Rightarrow> operator_state \<Rightarrow>
   (string list \<times> nat) http \<times> operator_state" where
  \<comment> \<open>the body holds the bundles that passed the schema, and \<open>replace\<close>\<close>
  "reload_operators_handler cfg env body token s =
     (if \<not> opt_truthy (oc_reload_token cfg) then (HttpError 503 ''no-token'', s)
      else if \<not> opt_truthy token then (HttpError 401 ''bad-token'', s)
      else case compare_digest (opt_str token) (opt_str (oc_reload_token cfg)) of
        Inl e \<Rightarrow> (HttpError 500 [], s)
      | Inr False \<Rightarrow> (HttpError 401 ''bad-token'', s)
      | Inr True \<Rightarrow>
          (case (case body of
                   Some (bs, replace) \<Rightarrow> sync_user_operators (oc_compiles cfg) env bs replace (os_registry s)
                 | None \<Rightarrow> sync_from_store (oc_compiles cfg) env (os_registry s)) of
             (Inl e, r) \<Rightarrow> (raise_http_error e, s\<lparr>os_registry := r\<rparr>)
           | (Inr loaded, r) \<Rightarrow> (HttpOk (loaded, length loaded), s\<lparr>os_registry := r\<rparr>)))"

end
