(* ===== verification/Operator_Workers.thy ===== *)
theory Operator_Workers
  imports Operator_Api
begin

text \<open>
  From an upload at the control plane to the workers, through the interface of both.
\<close>

section \<open>The plane after an upload\<close>

lemma exportable_after_upload:
  assumes "registry_ok r" and "exportable compile r" and "validate_source compile (ou_source u) n = Inr ()"
  shows "exportable compile (after_upload env n u r)"
  unfolding exportable_def
proof (intro ballI)
  fix x assume x: "x \<in> set (rg_operators (after_upload env n u r))"
  have src: "tbl_get of_stem k (rg_sources (after_upload env n u r)) =
      (if k = n then Some \<lparr>of_stem = n, of_stamp = oe_stamp env, of_content = ou_source u\<rparr>
       else tbl_get of_stem k (rg_sources r))" for k
    by (simp add: after_upload_def Let_def snap_def write_files_def table_simps)
  from x consider "x = uploaded env n u" | "x \<in> set (rg_operators r)" "ro_name x \<noteq> n"
    by (auto simp: after_upload_def Let_def snap_def dest: in_tbl_put)
  then show "om_builtin (ro_manifest x) \<or> (case tbl_get of_stem (ro_name x) (rg_sources (after_upload env n u r)) of
      None \<Rightarrow> False | Some f \<Rightarrow> ro_function x = UserSource (of_content f) \<and>
        is_ok (validate_source compile (of_content f) (ro_name x)))"
  proof cases
    case 1
    then show ?thesis using assms(3) by (simp add: src is_ok_iff) (simp add: uploaded_def)
  next
    case 2
    then show ?thesis using assms(2) by (simp add: src exportable_def)
  qed
qed

lemma export_state: "\<not> changed r \<Longrightarrow> snd (export_user_operators compile r) = r"
  by (simp add: export_user_operators_def list_operators_def Let_def refresh_if_changed_def)

lemma broadcast_payload:
  assumes "rg_store r = None" and "\<not> changed r" and "broadcast_reload cfg r = (posts, r1)" and "post \<in> set posts"
  shows "rp_bundles post = Some (fst (export_user_operators (oc_compiles cfg) r)) \<and> r1 = r \<and>
    rp_token post = (if opt_truthy (oc_reload_token cfg) then oc_reload_token cfg else None)"
  using assms export_state [OF assms(2), of "oc_compiles cfg"]
  by (auto simp: broadcast_reload_def case_prod_beta split: if_splits)

lemma reload_accepts:
  assumes "opt_truthy (oc_reload_token cfg)" and "list_all (\<lambda>c. (of_char c :: nat) < 128) (opt_str (oc_reload_token cfg))"
    and "sync_user_operators (oc_compiles cfg) env bs True (os_registry w) = (Inr loaded, r)"
  shows "reload_operators_handler cfg env (Some (bs, True)) (oc_reload_token cfg) w =
    (HttpOk (loaded, length loaded), w\<lparr>os_registry := r\<rparr>)"
  using assms by (simp add: reload_operators_handler_def compare_digest_def)

section \<open>Properties\<close>

text \<open>
  C8: Let a control plane without a shared store have in its directory, for each of its user operators, the
  source it runs, and let this source pass validation; let whether a source loads not depend on the
  name of its file.  Then each post it sends after a successful creation or update of an operator, given to the reload
  handler of a worker with the same token (of ASCII characters), which has just started over whatever its
  directory held and can write its files and reach its store, is accepted, and leaves the worker with
  the registry of the control plane: the new operator and every other name stand for the same
  manifest and source on both sides.
\<close>

lemma upload_reaches_workers:
  assumes plane: "reach (exec_op (oc_compiles cfg) run) (empty_registry dir None) (os_registry s)"
      "rg_store (os_registry s) = None" "exportable (oc_compiles cfg) (os_registry s)"
    and load: "same_under_any_name (oc_compiles cfg)"
    and up: "create_operator_handler cfg env (n, u) s = (HttpOk m, posts, s') \<or>
        update_operator_handler cfg env n u s = (HttpOk m, posts, s')" "post \<in> set posts"
    and worker: "reach (exec_op (oc_compiles cfg) run) (empty_registry dir' store') base"
      "os_registry w = restarted (oc_compiles cfg) base" "no_store_faults env'"
    and token: "opt_truthy (oc_reload_token cfg)" "list_all (\<lambda>c. (of_char c :: nat) < 128) (opt_str (oc_reload_token cfg))"
  shows "\<exists>loaded w'. reload_operators_handler cfg env' (map_option (\<lambda>bs. (bs, True)) (rp_bundles post)) (rp_token post) w =
      (HttpOk (loaded, length loaded), w') \<and>
    (\<forall>k. tbl_get ro_name k (rg_operators (os_registry w')) = tbl_get ro_name k (rg_operators (os_registry s'))) \<and>
    tbl_get ro_name n (rg_operators (os_registry w')) = Some (uploaded env n u)"
proof -
  let ?c = "oc_compiles cfg" and ?r = "after_upload env n u (os_registry s)"
  obtain f where f: "f = create_operator \<or> f = update_operator"
    and up': "after_write cfg (f ?c env n u (os_registry s)) s = (HttpOk m, posts, s')"
    using up(1) by (auto simp: create_operator_handler_def update_operator_handler_def)
  have "f ?c env n u (os_registry s) = (Inr (ro_manifest (uploaded env n u)), ?r) \<and>
      validate_source ?c (ou_source u) n = Inr ()"
    by (rule upload_cases [OF f, of ?c env n u "os_registry s"])
      (use up' in \<open>auto simp: after_write_def raise_http_error_def split: op_error.splits\<close>)
  then have made: "f ?c env n u (os_registry s) = (Inr (ro_manifest (uploaded env n u)), ?r)"
    and src: "validate_source ?c (ou_source u) n = Inr ()" by auto
  have reached: "reach (exec_op ?c run) (empty_registry dir None) ?r"
    using f reach_step [OF plane(1), of "CreateOp env n u"] reach_step [OF plane(1), of "UpdateOp env n u"] made by auto
  have "exportable ?c ?r"
    by (rule exportable_after_upload [OF reach_registry_ok [OF plane(1)] plane(3) src])
  from sync_replicates [OF reached after_upload_unchanged this load worker(1,3)]
  obtain loaded w' where sync: "sync_user_operators ?c env' (fst (export_user_operators ?c ?r)) True (os_registry w) = (Inr loaded, w')"
    and same: "tbl_get ro_name k (rg_operators w') = tbl_get ro_name k (rg_operators ?r)" for k
    unfolding worker(2) by blast
  have "rg_store ?r = None" using plane(2) by (simp add: after_upload_def Let_def snap_def)
  from up' up(2) made broadcast_payload [OF this after_upload_unchanged]
  have "os_registry s' = ?r" "rp_bundles post = Some (fst (export_user_operators ?c ?r))" "rp_token post = oc_reload_token cfg"
    using token(1) by (auto simp: after_write_def split: prod.splits)
  with reload_accepts [OF token sync] same after_upload_get [of n env n u "os_registry s"] show ?thesis by auto
qed

definition demo_config :: operator_config where
  "demo_config = \<lparr>oc_ttl = 60, oc_kind = (\<lambda>q. Some None), oc_list_text = (\<lambda>ms. show_nat (length ms)),
     oc_workers = Some ''http://w1/, http://w2'', oc_reload_token = Some ''t0'', oc_compiles = every_source,
     oc_run = (\<lambda>f d c. Raised)\<rparr>"

definition demo_plane :: operator_state where
  "demo_plane = \<lparr>os_registry = empty_registry ''ops'' None, os_cache = empty_cache\<rparr>"

definition demo_worker :: operator_state where
  "demo_worker = \<lparr>os_registry = restarted every_source old_worker, os_cache = empty_cache\<rparr>"

lemma upload_reaches_workers_witness:
  "\<exists>m p1 p2 s' loaded w'. create_operator_handler demo_config any_env (''clean'', clean_upload) demo_plane = (HttpOk m, [p1, p2], s') \<and>
     rp_url p2 = ''http://w2/internal/operators/reload'' \<and>
     reload_operators_handler demo_config any_env (map_option (\<lambda>bs. (bs, True)) (rp_bundles p2)) (rp_token p2) demo_worker =
       (HttpOk (loaded, length loaded), w') \<and>
     tbl_get ro_name ''clean'' (rg_operators (os_registry w')) = Some (uploaded any_env ''clean'' clean_upload)"
proof -
  let ?c = "create_operator_handler demo_config any_env (''clean'', clean_upload) demo_plane"
  have "map rp_url (fst (snd ?c)) = [''http://w1/internal/operators/reload'', ''http://w2/internal/operators/reload''] \<and>
      fst ?c = HttpOk (ro_manifest (uploaded any_env ''clean'' clean_upload))"
    by code_simp
  then obtain m p1 p2 s' where up: "?c = (HttpOk m, [p1, p2], s')" and p2: "rp_url p2 = ''http://w2/internal/operators/reload''"
    by (cases ?c) auto
  have "exportable every_source (empty_registry ''ops'' None)" by code_simp
  moreover have "no_store_faults any_env" by (simp add: no_store_faults_def any_env_def)
  moreover have "reach (exec_op every_source (\<lambda>f d c. Raised)) (empty_registry ''cache'' None) old_worker"
    unfolding old_worker_def by (rule reach_run_cmds)
  ultimately have "\<exists>loaded w'. reload_operators_handler demo_config any_env (map_option (\<lambda>bs. (bs, True)) (rp_bundles p2)) (rp_token p2) demo_worker =
      (HttpOk (loaded, length loaded), w') \<and>
    (\<forall>k. tbl_get ro_name k (rg_operators (os_registry w')) = tbl_get ro_name k (rg_operators (os_registry s'))) \<and>
    tbl_get ro_name ''clean'' (rg_operators (os_registry w')) = Some (uploaded any_env ''clean'' clean_upload)"
    by (intro upload_reaches_workers [where run = "\<lambda>f d c. Raised" and dir = "''ops''" and dir' = "''cache''" and store' = None and
          base = old_worker, OF _ _ _ _ disjI1 [OF up]])
      (simp_all add: demo_config_def demo_plane_def demo_worker_def reach_init every_source_same opt_truthy_def opt_str_def
        empty_registry_def [of _ None])
  with up p2 show ?thesis by metis
qed

section \<open>What the listing misses\<close>

text \<open>
  A reload leaves the cached listings of the worker in place: until they expire its list of operators is
  the one from before.
\<close>

lemma reload_keeps_listings: "os_cache (snd (reload_operators_handler cfg env body token s)) = os_cache s"
  by (auto simp: reload_operators_handler_def split: sum.splits bool.splits option.splits prod.splits)

text \<open>Without the token, a reload changes nothing.\<close>

lemma reload_needs_token:
  "\<not> opt_truthy (oc_reload_token cfg) \<or> opt_str token \<noteq> opt_str (oc_reload_token cfg) \<Longrightarrow>
     \<exists>c e. reload_operators_handler cfg env body token s = (HttpError c e, s) \<and> c \<in> {401, 500, 503}"
  by (auto simp: reload_operators_handler_def compare_digest_def)

end
