(* ===== verification/Schema_Ddl.thy ===== *)
theory Schema_Ddl
  imports Json
begin

text \<open>
  The data definition statements of the graph, backend/service/schema\_ddl.py, and the requests that
  reach them (backend/biz/schemas/schema\_management.py).  Which characters beyond ASCII are word
  characters or digits is an argument, as are the answers of the graph service.
\<close>

section \<open>Requests\<close>

record schema_property =
  sp_name :: string
  sp_data_type :: string
  sp_required :: bool
  sp_rule :: string
  sp_category :: string

record unicode_classes =
  uc_word :: "string \<Rightarrow> bool"      \<comment> \<open>\<open>\w\<close> on a character outside ASCII\<close>
  uc_digit :: "string \<Rightarrow> bool"     \<comment> \<open>\<open>\d\<close> on a character outside ASCII\<close>

definition char_in :: "nat \<Rightarrow> nat \<Rightarrow> char \<Rightarrow> bool" where
  "char_in a b c = (let n = of_char c :: nat in a \<le> n \<and> n \<le> b)"

definition upper_char :: "char \<Rightarrow> bool" where "upper_char c = char_in 65 90 c"
definition lower_char :: "char \<Rightarrow> bool" where "lower_char c = char_in 97 122 c"
definition digit_char :: "char \<Rightarrow> bool" where "digit_char c = char_in 48 57 c"

definition word_point :: "unicode_classes \<Rightarrow> string \<Rightarrow> bool" where
  "word_point uc p = (case p of
     [c] \<Rightarrow> upper_char c \<or> lower_char c \<or> digit_char c \<or> c = CHR ''_''
   | _ \<Rightarrow> list_all (\<lambda>c. 128 \<le> (of_char c :: nat)) p \<and> uc_word uc p)"

definition digit_point :: "unicode_classes \<Rightarrow> string \<Rightarrow> bool" where
  "digit_point uc p = (case p of
     [c] \<Rightarrow> digit_char c | _ \<Rightarrow> list_all (\<lambda>c. 128 \<le> (of_char c :: nat)) p \<and> uc_digit uc p)"

definition entity_name_ok :: "string \<Rightarrow> bool" where
  "entity_name_ok s = (case s of [] \<Rightarrow> False
     | c # cs \<Rightarrow> upper_char c \<and> list_all (\<lambda>c. upper_char c \<or> lower_char c \<or> digit_char c) cs)"

definition relation_name_ok :: "string \<Rightarrow> bool" where
  "relation_name_ok s = (case s of [] \<Rightarrow> False
     | c # cs \<Rightarrow> upper_char c \<and> list_all (\<lambda>c. upper_char c \<or> digit_char c \<or> c = CHR ''_'') cs)"

definition key_ok :: "string \<Rightarrow> bool" where
  "key_ok s = (case s of [] \<Rightarrow> False
     | c # cs \<Rightarrow> lower_char c \<and> list_all (\<lambda>c. lower_char c \<or> digit_char c \<or> c = CHR ''_'' \<or> c = CHR ''-'') cs)"

definition property_name_ok :: "unicode_classes \<Rightarrow> string \<Rightarrow> bool" where
  "property_name_ok uc s = (case s of [] \<Rightarrow> False
     | c # cs \<Rightarrow> (upper_char c \<or> lower_char c \<or> c = CHR ''_'') \<and> list_all (word_point uc) (code_points cs))"

definition NEBULA_SCALAR_TYPES :: "string list" where
  "NEBULA_SCALAR_TYPES = [''string'', ''int64'', ''double'', ''bool'', ''date'', ''datetime'', ''geo'']"

definition fixed_string_type :: "unicode_classes \<Rightarrow> string \<Rightarrow> bool" where
  \<comment> \<open>\<open>fixed_string(\d+)\<close>\<close>
  "fixed_string_type uc s =
     (let k = length ''fixed_string('' ; d = butlast (drop k s) in
      take k s = ''fixed_string('' \<and> k < length s \<and> last s = CHR '')'' \<and> d \<noteq> [] \<and>
      list_all (digit_point uc) (code_points d))"

definition is_valid_data_type :: "unicode_classes \<Rightarrow> string \<Rightarrow> bool" where
  "is_valid_data_type uc s \<longleftrightarrow> s \<in> set NEBULA_SCALAR_TYPES \<or> fixed_string_type uc s"

definition property_ok :: "unicode_classes \<Rightarrow> schema_property \<Rightarrow> bool" where
  "property_ok uc p \<longleftrightarrow> property_name_ok uc (sp_name p) \<and> is_valid_data_type uc (sp_data_type p) \<and>
     sp_category p \<in> {''core'', ''dynamic''} \<and>
     py_len (sp_name p) \<le> 64 \<and> py_len (sp_data_type p) \<le> 64 \<and> py_len (sp_rule p) \<le> 64"

section \<open>Statements\<close>

definition column :: "schema_property \<Rightarrow> string" where
  "column p = sp_name p @ '' '' @ sp_data_type p @ (if sp_required p then '' NOT NULL'' else [])"

definition build_create_ddl :: "string \<Rightarrow> string \<Rightarrow> schema_property list \<Rightarrow> string" where
  "build_create_ddl kind name ps =
     ''CREATE '' @ (if kind = ''entity'' then ''TAG'' else ''EDGE'') @ '' IF NOT EXISTS '' @ name @ ''('' @
     py_join '', '' (map column ps) @ '');''"

definition DDL_MAX_RETRIES :: nat where
  "DDL_MAX_RETRIES = 3"

datatype graph_reply = GraphDone | GraphRefused string | GraphFailed string
  \<comment> \<open>\<open>execute_write\<close> returns, raises \<open>GraphRequestError\<close>, raises another exception\<close>

fun ddl_attempts :: "(nat \<Rightarrow> graph_reply) \<Rightarrow> nat \<Rightarrow> nat \<Rightarrow> string option \<Rightarrow> (bool \<times> string option) \<times> nat" where
  \<comment> \<open>the attempts that are left, the number of the next one; success and error, and how many writes were sent\<close>
  "ddl_attempts reply 0 n err = ((False, err), n)"
| "ddl_attempts reply (Suc k) n err =
     (case reply n of
        GraphDone \<Rightarrow> ((True, None), Suc n)
      | GraphRefused m \<Rightarrow> ddl_attempts reply k (Suc n) (Some m)
      | GraphFailed m \<Rightarrow> ((False, Some m), Suc n))"

record graph_service =
  gs_connects :: "string option"     \<comment> \<open>the error of \<open>get_trs_graph_client\<close>\<close>
  gs_reply :: "nat \<Rightarrow> graph_reply"

definition execute_schema_ddl :: "graph_service \<Rightarrow> bool \<times> string option" where
  "execute_schema_ddl g =
     (case gs_connects g of
        Some e \<Rightarrow> (False, Some (''graph: '' @ e))
      | None \<Rightarrow> fst (ddl_attempts (gs_reply g) DDL_MAX_RETRIES 0 None))"

record ddl_result =
  dr_statement :: string
  dr_status :: string
  dr_error :: "string option"
  dr_executed_at :: "string option"

definition run_schema_ddl :: "graph_service \<Rightarrow> string \<Rightarrow> string \<Rightarrow> string \<Rightarrow> schema_property list \<Rightarrow> ddl_result" where
  "run_schema_ddl g now kind name ps =
     (case execute_schema_ddl g of (done_, err) \<Rightarrow>
        \<lparr>dr_statement = build_create_ddl kind name ps,
         dr_status = (if done_ then ''succeeded'' else ''failed''), dr_error = err,
         dr_executed_at = (if done_ then Some now else None)\<rparr>)"

lemma ddl_attempts_writes: "snd (ddl_attempts reply k n err) \<le> n + k"
proof (induction k arbitrary: n err)
  case (Suc k)
  show ?case
    by (cases "reply n") (use Suc [of "Suc n"] in auto)
qed simp

lemma ddl_attempts_done:
  "fst (fst (ddl_attempts reply k n err)) \<longleftrightarrow>
     (\<exists>i < k. reply (n + i) = GraphDone \<and> (\<forall>j < i. \<exists>m. reply (n + j) = GraphRefused m))"
proof (induction k arbitrary: n err)
  case (Suc k)
  show ?case
  proof (cases "reply n")
    case GraphDone
    then show ?thesis by auto
  next
    case (GraphRefused m)
    have "(\<exists>i < Suc k. reply (n + i) = GraphDone \<and> (\<forall>j < i. \<exists>m. reply (n + j) = GraphRefused m)) \<longleftrightarrow>
      (\<exists>i < k. reply (Suc n + i) = GraphDone \<and> (\<forall>j < i. \<exists>m. reply (Suc n + j) = GraphRefused m))"
      using GraphRefused by (simp add: Ex_less_Suc2 All_less_Suc2)
    with GraphRefused Suc show ?thesis by simp
  next
    case (GraphFailed m)
    have no: "\<not> (reply (n + i) = GraphDone \<and> (\<forall>j < i. \<exists>m. reply (n + j) = GraphRefused m))" for i
      using GraphFailed by (cases i) auto
    have "\<not> fst (fst (ddl_attempts reply (Suc k) n err))" using GraphFailed by simp
    with no show ?thesis by blast
  qed
qed simp

section \<open>Reading a statement back\<close>

definition parse_column :: "string \<Rightarrow> string \<times> string \<times> bool" where
  "parse_column s =
     (let rest = drop 1 (dropWhile (\<lambda>c. c \<noteq> CHR '' '') s) in
      (takeWhile (\<lambda>c. c \<noteq> CHR '' '') s, takeWhile (\<lambda>c. c \<noteq> CHR '' '') rest,
       dropWhile (\<lambda>c. c \<noteq> CHR '' '') rest \<noteq> []))"

fun parse_columns :: "string list \<Rightarrow> (string \<times> string \<times> bool) list" where
  \<comment> \<open>every column but the first has a space before it\<close>
  "parse_columns [] = []"
| "parse_columns (c # cs) = parse_column c # map (\<lambda>c. parse_column (drop 1 c)) cs"

definition parse_ddl :: "string \<Rightarrow> string \<times> string \<times> (string \<times> string \<times> bool) list" where
  \<comment> \<open>the kind, the name and the columns of a statement\<close>
  "parse_ddl s =
     (let tag = (take 10 s = ''CREATE TAG'');
          rest = drop (if tag then 25 else 26) s;
          name = takeWhile (\<lambda>c. c \<noteq> CHR ''('') rest;
          body = butlast (butlast (drop 1 (dropWhile (\<lambda>c. c \<noteq> CHR ''('') rest)))
      in (if tag then ''entity'' else ''relation'', name, parse_columns (py_split CHR '','' body)))"

definition plain :: "string \<Rightarrow> bool" where
  "plain s \<longleftrightarrow> s \<noteq> [] \<and> set s \<inter> {CHR '' '', CHR '','', CHR ''('' , CHR '';''} = {}"

definition plain_type :: "string \<Rightarrow> bool" where
  "plain_type s \<longleftrightarrow> s \<noteq> [] \<and> set s \<inter> {CHR '' '', CHR '','', CHR '';''} = {}"

lemma cut_at: "x \<notin> set a \<Longrightarrow> takeWhile (\<lambda>c. c \<noteq> x) (a @ x # b) = a"
  "x \<notin> set a \<Longrightarrow> dropWhile (\<lambda>c. c \<noteq> x) (a @ x # b) = x # b"
  "x \<notin> set a \<Longrightarrow> takeWhile (\<lambda>c. c \<noteq> x) a = a" "x \<notin> set a \<Longrightarrow> dropWhile (\<lambda>c. c \<noteq> x) a = []"
  by (induction a) auto

lemma parse_column_back:
  assumes "plain (sp_name p)" and "plain_type (sp_data_type p)"
  shows "parse_column (column p) = (sp_name p, sp_data_type p, sp_required p)"
  using assms by (auto simp: parse_column_def column_def Let_def plain_def plain_type_def cut_at)

lemma column_no_comma:
  "plain (sp_name p) \<Longrightarrow> plain_type (sp_data_type p) \<Longrightarrow> CHR '','' \<notin> set (column p)"
  by (auto simp: column_def plain_def plain_type_def)

lemma join_comma_space:
  "py_join '', '' (c # cs) = py_join '','' (c # map (Cons CHR '' '') cs)"
proof (induction cs arbitrary: c)
  case (Cons d cs)
  have "py_join '', '' (c # d # cs) = c @ '','' @ CHR '' '' # py_join '', '' (d # cs)" by simp
  also have "CHR '' '' # py_join '', '' (d # cs) = CHR '' '' # py_join '','' (d # map (Cons CHR '' '') cs)"
    by (simp only: Cons)
  also have "\<dots> = py_join '','' ((CHR '' '' # d) # map (Cons CHR '' '') cs)"
    by (cases cs) simp_all
  finally show ?case by simp
qed simp

lemma parse_columns_back:
  assumes "ps \<noteq> []" and "\<And>p. p \<in> set ps \<Longrightarrow> plain (sp_name p) \<and> plain_type (sp_data_type p)"
  shows "parse_columns (py_split CHR '','' (py_join '', '' (map column ps))) =
    map (\<lambda>p. (sp_name p, sp_data_type p, sp_required p)) ps"
proof -
  obtain q qs where ps: "ps = q # qs" using assms(1) by (cases ps) auto
  have "py_split CHR '','' (py_join '', '' (map column ps)) =
      column q # map (Cons CHR '' '') (map column qs)"
    unfolding ps list.map(2) join_comma_space
    by (rule py_split_join) (use assms(2) ps column_no_comma in auto)
  then show ?thesis using assms(2) ps by (simp add: parse_column_back)
qed

lemma parse_build:
  assumes "kind \<in> {''entity'', ''relation''}" and "plain name" and "ps \<noteq> []"
    and "\<And>p. p \<in> set ps \<Longrightarrow> plain (sp_name p) \<and> plain_type (sp_data_type p)"
  shows "parse_ddl (build_create_ddl kind name ps) = (kind, name, map (\<lambda>p. (sp_name p, sp_data_type p, sp_required p)) ps)"
proof -
  have "CHR ''('' \<notin> set name" using assms(2) by (simp add: plain_def)
  then show ?thesis
    using assms(1) parse_columns_back [OF assms(3,4)]
    by (auto simp: parse_ddl_def build_create_ddl_def Let_def cut_at butlast_append)
qed

section \<open>What validation lets through\<close>

lemma ascii_marks:
  "\<not> upper_char c \<and> \<not> lower_char c \<and> \<not> digit_char c \<and> c \<noteq> CHR ''_'' \<and> \<not> 128 \<le> (of_char c :: nat)"
  if "c \<in> {CHR '' '', CHR '','', CHR ''('' , CHR '';''}" for c
  using that by (auto simp: upper_char_def lower_char_def digit_char_def char_in_def)

lemma in_code_points: "c \<in> set s \<Longrightarrow> \<exists>p \<in> set (code_points s). c \<in> set p"
  using concat_code_points [of s] by (metis UN_E set_concat)

lemma word_text_plain:
  assumes "list_all (word_point uc) (code_points s)" and "c \<in> set s"
  shows "c \<notin> {CHR '' '', CHR '','', CHR ''('' , CHR '';''}"
proof
  assume bad: "c \<in> {CHR '' '', CHR '','', CHR ''('' , CHR '';''}"
  obtain p where "p \<in> set (code_points s)" "c \<in> set p" using in_code_points [OF assms(2)] by blast
  with assms(1) have "word_point uc p" "c \<in> set p" by (auto simp: list_all_iff)
  with ascii_marks [OF bad] show False
    by (cases p; cases "tl p") (auto simp: word_point_def list_all_iff)
qed

lemma digit_text_plain:
  assumes "list_all (digit_point uc) (code_points s)" and "c \<in> set s"
  shows "c \<notin> {CHR '' '', CHR '','', CHR '';''}"
proof
  assume bad: "c \<in> {CHR '' '', CHR '','', CHR '';''}"
  obtain p where "p \<in> set (code_points s)" "c \<in> set p" using in_code_points [OF assms(2)] by blast
  with assms(1) have "digit_point uc p" "c \<in> set p" by (auto simp: list_all_iff)
  with ascii_marks [of c] bad show False
    by (cases p; cases "tl p") (auto simp: digit_point_def list_all_iff)
qed

lemma property_name_plain: "property_name_ok uc s \<Longrightarrow> plain s"
  using word_text_plain [of uc "tl s"] ascii_marks [of "hd s"]
  by (cases s) (auto simp: property_name_ok_def plain_def)

lemma name_plain: "entity_name_ok s \<or> relation_name_ok s \<Longrightarrow> plain s"
  using ascii_marks by (cases s) (auto simp: entity_name_ok_def relation_name_ok_def plain_def list_all_iff)

lemma fixed_string_plain:
  assumes "fixed_string_type uc s"
  shows "plain_type s"
proof -
  let ?k = "length ''fixed_string(''"
  have s: "s = ''fixed_string('' @ butlast (drop ?k s) @ '')''"
    using assms append_take_drop_id [of ?k s] append_butlast_last_id [of "drop ?k s"]
    by (simp add: fixed_string_type_def Let_def)
  have "c \<notin> {CHR '' '', CHR '','', CHR '';''}" if "c \<in> set (butlast (drop ?k s))" for c
    by (rule digit_text_plain [where uc = uc, OF _ that]) (use assms in \<open>simp add: fixed_string_type_def Let_def\<close>)
  then show ?thesis unfolding plain_type_def by (subst (2) s, subst s) auto
qed

lemma valid_type_plain: "is_valid_data_type uc s \<Longrightarrow> plain_type s"
  using fixed_string_plain [of uc s]
  by (auto simp: is_valid_data_type_def NEBULA_SCALAR_TYPES_def plain_type_def)

end
