(* ===== verification/Schema_Model.thy ===== *)
theory Schema_Model
  imports Schema_Ddl Calls Tables "HOL-Library.Product_Lexorder" "HOL-Library.Option_ord"
begin

text \<open>
  The catalogue of schemas: the tables of backend/db\_model/schema\_management.py and the data access
  of backend/dao/schema\_management.py.  A definition holds its properties, mappings and script, which
  the tables keep by cascade.  The collation of the database is an argument: two texts are the same
  when it maps them to the same key.
\<close>

section \<open>Rows\<close>

record schema_script =
  ss_id :: string
  ss_bucket :: string
  ss_object_key :: string
  ss_original_filename :: string
  ss_content_type :: string
  ss_size_bytes :: nat
  ss_etag :: "string option"
  ss_sha256 :: string
  ss_uploaded_by :: string
  ss_workflow_definition_id :: "string option"
  ss_workflow_function_name :: "string option"
  ss_uploaded_at :: string

record schema_definition =
  sd_id :: string
  sd_schema_key :: string
  sd_kind :: string
  sd_name :: string
  sd_label :: string
  sd_description :: string
  sd_identity_key :: string
  sd_attribute_identity_key :: string
  sd_attribute_source :: string
  sd_instance_count :: int
  sd_version :: string
  sd_display_order :: int
  sd_is_core :: bool
  sd_relation_category :: "string option"
  sd_is_system :: bool
  sd_created_by :: "string option"
  sd_source_schema_id :: "string option"
  sd_target_schema_id :: "string option"
  sd_source_expression :: "string option"
  sd_target_expression :: "string option"
  sd_llm_config_id :: "string option"
  sd_ddl_statement :: "string option"
  sd_ddl_status :: string
  sd_ddl_error :: "string option"
  sd_ddl_executed_at :: "string option"
  sd_created_at :: string
  sd_updated_at :: string
  sd_properties :: "schema_property list"
  sd_mappings :: "string list"
  sd_script :: "schema_script option"

type_synonym schema_table = "schema_definition list"
type_synonym collation = "string \<Rightarrow> string"

section \<open>Reading\<close>

definition get_definition :: "string \<Rightarrow> schema_table \<Rightarrow> schema_definition option" where
  "get_definition i t = tbl_get sd_id i t"

definition get_entity :: "string \<Rightarrow> schema_table \<Rightarrow> schema_definition option" where
  "get_entity i t = find (\<lambda>d. sd_id d = i \<and> sd_kind d = ''entity'') t"

definition exists_by_key_or_name :: "collation \<Rightarrow> string \<Rightarrow> string \<Rightarrow> schema_table \<Rightarrow> bool" where
  "exists_by_key_or_name coll k n t =
     list_ex (\<lambda>d. coll (sd_schema_key d) = coll k \<or> coll (sd_name d) = coll n) t"

function like_points :: "string list \<Rightarrow> string list \<Rightarrow> bool" where
  \<comment> \<open>\<open>LIKE\<close> on the characters of pattern and text\<close>
  "like_points [] t = (t = [])"
| "like_points (p # ps) [] = (p = ''%'' \<and> like_points ps [])"
| "like_points (p # ps) (c # t) =
     (if p = ''%'' then like_points ps (c # t) \<or> like_points (p # ps) t
      else if p = [CHR 0x5C] \<and> ps \<noteq> [] then c = hd ps \<and> like_points (tl ps) t
      else (p = ''_'' \<or> c = p) \<and> like_points ps t)"
  by pat_completeness auto
termination by (relation "measure (\<lambda>(p, t). length p + length t)") auto

definition sql_like :: "collation \<Rightarrow> string \<Rightarrow> string \<Rightarrow> bool" where
  "sql_like coll pattern s = like_points (code_points (coll pattern)) (code_points (coll s))"

definition schema_matches :: "collation \<Rightarrow> string option \<Rightarrow> string option \<Rightarrow> schema_definition \<Rightarrow> bool" where
  "schema_matches coll kind keyword d \<longleftrightarrow>
     (opt_truthy kind \<longrightarrow> sd_kind d = opt_str kind) \<and>
     (opt_truthy keyword \<longrightarrow>
        (let p = ''%'' @ opt_str keyword @ ''%'' in
         sql_like coll p (sd_name d) \<or> sql_like coll p (sd_label d) \<or> sql_like coll p (sd_schema_key d)))"

definition schema_order :: "collation \<Rightarrow> schema_definition \<Rightarrow> string \<times> string option \<times> int \<times> string \<times> string" where
  \<comment> \<open>a missing category comes first\<close>
  "schema_order coll d = (coll (sd_kind d), map_option coll (sd_relation_category d), sd_display_order d,
     sd_created_at d, coll (sd_id d))"

definition list_all_definitions :: "collation \<Rightarrow> schema_table \<Rightarrow> schema_definition list" where
  "list_all_definitions coll t = sort_key (schema_order coll) t"

definition list_definitions ::
  "collation \<Rightarrow> string option \<Rightarrow> string option \<Rightarrow> nat \<Rightarrow> nat \<Rightarrow> schema_table \<Rightarrow> schema_definition list \<times> nat" where
  \<comment> \<open>pages are counted from one\<close>
  "list_definitions coll kind keyword page page_size t =
     (let hits = filter (schema_matches coll kind keyword) t in
      (take page_size (drop ((page - 1) * page_size) (sort_key (schema_order coll) hits)), length hits))"

definition refers_to :: "string \<Rightarrow> schema_definition \<Rightarrow> bool" where
  "refers_to i d \<longleftrightarrow> sd_source_schema_id d = Some i \<or> sd_target_schema_id d = Some i"

definition referenced_relation_names :: "string \<Rightarrow> schema_table \<Rightarrow> string list" where
  "referenced_relation_names i t = map sd_name (filter (\<lambda>d. sd_kind d = ''relation'' \<and> refers_to i d) t)"

record schema_stats =
  st_entity_count :: nat
  st_relation_count :: nat
  st_core_count :: nat
  st_fact_count :: nat
  st_inferred_count :: nat
  st_property_count :: nat
  st_required_count :: nat
  st_constraint_count :: nat
  st_mapping_count :: nat

definition count_where :: "('a \<Rightarrow> bool) \<Rightarrow> 'a list \<Rightarrow> nat" where
  "count_where p xs = length (filter p xs)"

definition stats :: "collation \<Rightarrow> schema_table \<Rightarrow> schema_stats" where
  "stats coll t =
     (let ps = concat (map sd_properties t) in
      \<lparr>st_entity_count = count_where (\<lambda>d. sd_kind d = ''entity'') t,
       st_relation_count = count_where (\<lambda>d. sd_kind d = ''relation'') t,
       st_core_count = count_where (\<lambda>d. sd_kind d = ''entity'' \<and> sd_is_core d) t,
       st_fact_count = count_where (\<lambda>d. sd_kind d = ''relation'' \<and> sd_relation_category d = Some ''fact'') t,
       st_inferred_count = count_where (\<lambda>d. sd_kind d = ''relation'' \<and> sd_relation_category d = Some ''inferred'') t,
       st_property_count = length ps,
       st_required_count = count_where sp_required ps,
       st_constraint_count = count_where (\<lambda>p. sp_rule p \<noteq> []) ps,
       st_mapping_count = length (remdups (map coll (concat (map sd_mappings t))))\<rparr>)"

section \<open>Writing\<close>

record schema_payload =
  py_schema_key :: string
  py_name :: string
  py_label :: string
  py_description :: string
  py_identity_key :: string
  py_properties :: "schema_property list"
  py_mappings :: "string list"
  py_is_core :: bool
  py_version :: string
  py_llm_config_id :: "string option"
  py_relation_category :: "string option"
  py_source_schema_id :: "string option"
  py_target_schema_id :: "string option"
  py_source_expression :: "string option"
  py_target_expression :: "string option"

definition new_definition :: "string \<Rightarrow> string \<Rightarrow> schema_payload \<Rightarrow> string \<Rightarrow> string \<Rightarrow> schema_definition" where
  "new_definition i kind p user now =
     \<lparr>sd_id = i, sd_schema_key = py_schema_key p, sd_kind = kind, sd_name = py_name p, sd_label = py_label p,
      sd_description = py_description p, sd_identity_key = py_identity_key p,
      sd_attribute_identity_key = py_identity_key p, sd_attribute_source = py_join '' / '' (py_mappings p),
      sd_instance_count = 0, sd_version = py_version p, sd_display_order = - 1, sd_is_core = py_is_core p,
      sd_relation_category = py_relation_category p, sd_is_system = False, sd_created_by = Some user,
      sd_source_schema_id = py_source_schema_id p, sd_target_schema_id = py_target_schema_id p,
      sd_source_expression = py_source_expression p, sd_target_expression = py_target_expression p,
      sd_llm_config_id = py_llm_config_id p, sd_ddl_statement = None, sd_ddl_status = ''pending'',
      sd_ddl_error = None, sd_ddl_executed_at = None, sd_created_at = now, sd_updated_at = now,
      sd_properties = py_properties p, sd_mappings = py_mappings p, sd_script = None\<rparr>"

lemma new_definition_simps [simp]:
  "sd_id (new_definition i kind p user now) = i"
  "sd_kind (new_definition i kind p user now) = kind"
  "sd_schema_key (new_definition i kind p user now) = py_schema_key p"
  "sd_name (new_definition i kind p user now) = py_name p"
  "sd_is_system (new_definition i kind p user now) = False"
  "sd_created_by (new_definition i kind p user now) = Some user"
  "sd_source_schema_id (new_definition i kind p user now) = py_source_schema_id p"
  "sd_target_schema_id (new_definition i kind p user now) = py_target_schema_id p"
  "sd_properties (new_definition i kind p user now) = py_properties p"
  "sd_mappings (new_definition i kind p user now) = py_mappings p"
  "sd_ddl_status (new_definition i kind p user now) = ''pending''"
  "sd_script (new_definition i kind p user now) = None"
  by (simp_all add: new_definition_def)

datatype db_error = IntegrityError | DataError

definition insert_definition :: "collation \<Rightarrow> schema_definition \<Rightarrow> schema_table \<Rightarrow> db_error + schema_table" where
  \<comment> \<open>\<open>flush\<close>: the widths of the columns that a request can exceed, the unique keys of the tables and the
     references to other schemas\<close>
  "insert_definition coll d t =
     (if 1024 < py_len (sd_attribute_source d) then Inl DataError
      else if list_ex (\<lambda>e. sd_id e = sd_id d \<or> coll (sd_schema_key e) = coll (sd_schema_key d) \<or>
            coll (sd_name e) = coll (sd_name d)) t \<or>
         \<not> distinct (map (\<lambda>p. coll (sp_name p)) (sd_properties d)) \<or> \<not> distinct (map coll (sd_mappings d)) \<or>
         \<not> list_all (\<lambda>r. r = None \<or> list_ex (\<lambda>e. Some (sd_id e) = r) t) [sd_source_schema_id d, sd_target_schema_id d]
      then Inl IntegrityError else Inr (t @ [d]))"

definition ddl_fits :: "ddl_result \<Rightarrow> bool" where
  "ddl_fits r \<longleftrightarrow> py_len (dr_statement r) \<le> 2048 \<and> py_len (opt_str (dr_error r)) \<le> 1024"

definition set_ddl :: "string \<Rightarrow> ddl_result \<Rightarrow> schema_definition \<Rightarrow> schema_definition" where
  "set_ddl now r d = d\<lparr>sd_ddl_statement := Some (dr_statement r), sd_ddl_status := dr_status r,
     sd_ddl_error := dr_error r,
     sd_ddl_executed_at := (if opt_truthy (dr_executed_at r) then dr_executed_at r else sd_ddl_executed_at d),
     sd_updated_at := now\<rparr>"

definition script_fits :: "schema_script \<Rightarrow> bool" where
  \<comment> \<open>the widths of the columns of a script\<close>
  "script_fits s \<longleftrightarrow> py_len (ss_bucket s) \<le> 128 \<and> py_len (ss_object_key s) \<le> 512 \<and>
     py_len (ss_original_filename s) \<le> 255 \<and> py_len (ss_content_type s) \<le> 128 \<and>
     py_len (opt_str (ss_etag s)) \<le> 128 \<and> py_len (ss_uploaded_by s) \<le> 128"

definition set_script :: "schema_script \<Rightarrow> schema_definition \<Rightarrow> schema_definition" where
  "set_script s d = d\<lparr>sd_script := Some s\<rparr>"

definition changed_columns :: "schema_script \<Rightarrow> schema_script \<Rightarrow> schema_script \<Rightarrow> schema_script" where
  \<comment> \<open>the \<open>UPDATE\<close> of the mapper: only the attributes that differ from the loaded row are written\<close>
  "changed_columns loaded new row =
     (let col = (\<lambda>f. if f new = f loaded then f row else f new) in
      row\<lparr>ss_bucket := col ss_bucket, ss_object_key := col ss_object_key,
        ss_original_filename := col ss_original_filename, ss_content_type := col ss_content_type,
        ss_size_bytes := (if ss_size_bytes new = ss_size_bytes loaded then ss_size_bytes row else ss_size_bytes new),
        ss_etag := (if ss_etag new = ss_etag loaded then ss_etag row else ss_etag new),
        ss_sha256 := col ss_sha256, ss_uploaded_by := col ss_uploaded_by,
        ss_workflow_definition_id := (if ss_workflow_definition_id new = ss_workflow_definition_id loaded
          then ss_workflow_definition_id row else ss_workflow_definition_id new),
        ss_workflow_function_name := (if ss_workflow_function_name new = ss_workflow_function_name loaded
          then ss_workflow_function_name row else ss_workflow_function_name new)\<rparr>)"

definition save_script :: "schema_definition \<Rightarrow> schema_script \<Rightarrow> schema_table \<Rightarrow> schema_table option" where
  \<comment> \<open>\<open>save\_script\<close> with \<open>flush\<close> for the definition as it was loaded; None: an error of the database\<close>
  "save_script loaded s t =
     (case tbl_get sd_id (sd_id loaded) t of
        None \<Rightarrow> None
      | Some d \<Rightarrow>
          if \<not> script_fits s then None else
          (case sd_script loaded of
             None \<Rightarrow> if sd_script d = None then Some (tbl_upd sd_id (sd_id d) (set_script s) t) else None
           | Some old \<Rightarrow>
               (case sd_script d of
                  None \<Rightarrow> None
                | Some row \<Rightarrow>
                    if ss_id row \<noteq> ss_id old then None
                    else Some (tbl_upd sd_id (sd_id d) (set_script (changed_columns old s row)) t))))"

definition delete_definition :: "string \<Rightarrow> schema_table \<Rightarrow> schema_table option" where
  \<comment> \<open>properties, mappings and script go with the row; None: another row refers to it\<close>
  "delete_definition i t =
     (if list_ex (\<lambda>d. sd_id d \<noteq> i \<and> refers_to i d) t then None else Some (tbl_del sd_id i t))"

end
