(* ===== verification/Schema_Script.thy ===== *)
theory Schema_Script
  imports Schema_Ddl
begin

text \<open>
  Scripts of schemas before they are stored: file names, the identifier of the workflow
  (backend/service/schema\_management.py), the checks of the text, and the security review by a
  language model (backend/service/script\_security.py).  The parser of Python, the reader of JSON texts,
  hashes and the lower case of a text are arguments.
\<close>

datatype schema_error =
    SchemaNotFound string
  | SchemaConflict string
  | SchemaPermission string
  | SchemaScriptError string
  | SchemaStorage string
  | SchemaDdlError string
  | SchemaCrash               \<comment> \<open>an exception of another class\<close>

section \<open>File names\<close>

definition path_name :: "string \<Rightarrow> string" where
  \<comment> \<open>\<open>Path(s).name\<close>\<close>
  "path_name s =
     (let parts = filter (\<lambda>p. p \<noteq> [] \<and> p \<noteq> ''.'') (py_split CHR ''/'' s) in
      if parts = [] then [] else last parts)"

definition path_suffix :: "string \<Rightarrow> string" where
  \<comment> \<open>\<open>Path(s).suffix\<close>: from the last dot, which is neither the first nor the last character\<close>
  "path_suffix s =
     (let n = path_name s; ext = takeWhile (\<lambda>c. c \<noteq> CHR ''.'') (rev n) in
      if ext = [] \<or> length n \<le> Suc (length ext) then [] else CHR ''.'' # rev ext)"

definition path_stem :: "string \<Rightarrow> string" where
  "path_stem s = (let n = path_name s in take (length n - length (path_suffix s)) n)"

definition file_char :: "char \<Rightarrow> bool" where
  "file_char c \<longleftrightarrow> upper_char c \<or> lower_char c \<or> digit_char c \<or> c \<in> {CHR ''.'', CHR ''_'', CHR ''-''}"

fun collapse_bad :: "bool \<Rightarrow> string \<Rightarrow> string" where
  \<comment> \<open>\<open>re.sub("[^A-Za-z0-9.\_-]+", "\_", s)\<close>; the flag says that the run has its underscore\<close>
  "collapse_bad run [] = []"
| "collapse_bad run (c # cs) =
     (if file_char c then c # collapse_bad False cs
      else if run then collapse_bad True cs else CHR ''_'' # collapse_bad True cs)"

definition safe_filename :: "string \<Rightarrow> string" where
  "safe_filename s = (let n = collapse_bad False (path_name s) in if n = [] then ''schema.py'' else n)"

section \<open>The identifier of a workflow\<close>

definition id_char :: "char \<Rightarrow> bool" where
  "id_char c \<longleftrightarrow> lower_char c \<or> digit_char c \<or> c = CHR ''_'' \<or> c = CHR ''-''"

definition dash_point :: "string \<Rightarrow> string" where
  "dash_point p = (case p of [c] \<Rightarrow> if id_char c then [c] else ''-'' | _ \<Rightarrow> ''-'')"

definition strip_dashes :: "string \<Rightarrow> string" where
  "strip_dashes s = rev (dropWhile (\<lambda>c. c = CHR ''-'') (rev (dropWhile (\<lambda>c. c = CHR ''-'') s)))"

definition slug :: "(string \<Rightarrow> string) \<Rightarrow> string \<Rightarrow> string" where
  "slug lower s = strip_dashes (concat (map dash_point (code_points (lower s))))"

definition workflow_definition_id :: "(string \<Rightarrow> string) \<Rightarrow> (string \<Rightarrow> string) \<Rightarrow> string \<Rightarrow> string" where
  "workflow_definition_id lower sha k =
     (let safe = slug lower k;
          candidate = ''schema-'' @ (if safe = [] then take 12 (sha k) else safe)
      in if length candidate \<le> 64 then candidate
         else take 55 candidate @ ''-'' @ take 8 (sha candidate))"

definition valid_definition_id :: "string \<Rightarrow> bool" where
  \<comment> \<open>\<open>[a-z0-9][a-z0-9\_-]{2,63}\<close>\<close>
  "valid_definition_id s \<longleftrightarrow> (case s of [] \<Rightarrow> False
     | c # cs \<Rightarrow> (lower_char c \<or> digit_char c) \<and> 2 \<le> length cs \<and> length cs \<le> 63 \<and> list_all id_char cs)"

definition is_hex_digest :: "string \<Rightarrow> bool" where
  "is_hex_digest h \<longleftrightarrow> length h = 64 \<and> list_all (\<lambda>c. digit_char c \<or> char_in 97 102 c) h"

lemma hex_id_chars: "is_hex_digest h \<Longrightarrow> list_all id_char (take n h)"
  by (auto simp: is_hex_digest_def list_all_iff id_char_def lower_char_def char_in_def Let_def dest!: in_set_takeD)

lemma strip_dashes_subset: "set (strip_dashes s) \<subseteq> set s"
  by (auto simp: strip_dashes_def dest!: set_dropWhileD)

lemma slug_id_chars: "list_all id_char (slug lower s)"
proof -
  have "list_all id_char (concat (map dash_point ps))" for ps
    by (induction ps) (auto simp: dash_point_def id_char_def split: list.split)
  then show ?thesis
    unfolding slug_def list_all_iff using subsetD [OF strip_dashes_subset] by blast
qed

lemma workflow_id_valid:
  assumes "\<And>x. is_hex_digest (sha x)"
  shows "valid_definition_id (workflow_definition_id lower sha k)"
proof -
  let ?body = "if slug lower k = [] then take 12 (sha k) else slug lower k"
  let ?c = "''schema-'' @ ?body"
  have id_schema: "list_all id_char ''schema-''"
    by (simp add: id_char_def lower_char_def char_in_def)
  have body: "list_all id_char ?body"
    using hex_id_chars [OF assms, of 12 k] slug_id_chars [of lower k] by simp
  with id_schema have cand: "list_all id_char ?c" by (simp only: list_all_append)
  have start: "lower_char CHR ''s''" by (simp add: lower_char_def char_in_def)
  show ?thesis
  proof (cases "length ?c \<le> 64")
    case True
    with cand start show ?thesis
      by (simp add: workflow_definition_id_def valid_definition_id_def Let_def)
  next
    case False
    let ?t = "take 54 (''chema-'' @ ?body) @ ''-'' @ take 8 (sha ?c)"
    have id: "workflow_definition_id lower sha k = CHR ''s'' # ?t"
      using False by (simp add: workflow_definition_id_def Let_def)
    have "list_all id_char (take 54 (''chema-'' @ ?body))"
      using cand by (auto simp: list_all_iff dest: in_set_takeD)
    then have "list_all id_char ?t"
      using hex_id_chars [OF assms, of 8 ?c] by (simp add: id_char_def)
    moreover have "length ?t = 63"
      using assms [of ?c] False by (simp add: is_hex_digest_def)
    ultimately show ?thesis unfolding id valid_definition_id_def using start by simp
  qed
qed

section \<open>The text of a script\<close>

definition utf8_point :: "string \<Rightarrow> bool" where
  "utf8_point p = (case map of_char p of
     [a] \<Rightarrow> a < (128 :: nat)
   | [a, b] \<Rightarrow> 194 \<le> a \<and> a \<le> 223
   | [a, b, c] \<Rightarrow> 224 \<le> a \<and> a \<le> 239 \<and> (a = 224 \<longrightarrow> 160 \<le> b) \<and> (a = 237 \<longrightarrow> b \<le> 159)
   | [a, b, c, d] \<Rightarrow> 240 \<le> a \<and> a \<le> 244 \<and> (a = 240 \<longrightarrow> 144 \<le> b) \<and> (a = 244 \<longrightarrow> b \<le> 143)
   | _ \<Rightarrow> False)"

definition utf8_ok :: "string \<Rightarrow> bool" where
  \<comment> \<open>\<open>bytes.decode("utf-8")\<close> does not raise\<close>
  "utf8_ok s = list_all utf8_point (code_points s)"

definition BOM :: string where
  "BOM = [CHR 0xEF, CHR 0xBB, CHR 0xBF]"

definition decode_sig :: "string \<Rightarrow> string option" where
  \<comment> \<open>\<open>data.decode("utf-8-sig")\<close>\<close>
  "decode_sig data =
     (let body = (if prefix BOM data then drop 3 data else data) in if utf8_ok body then Some body else None)"

datatype parse_reply = PyTree "string list" "string list" | PySyntax string | PyRaises
  \<comment> \<open>\<open>ast.parse\<close>: the functions of the module body and those anywhere; \<open>SyntaxError\<close>; another exception\<close>

definition validate_script ::
  "nat \<Rightarrow> (string \<Rightarrow> parse_reply) \<Rightarrow> string \<Rightarrow> string \<Rightarrow> schema_error + string option" where
  "validate_script max_bytes parse filename data =
     (if filename = [] \<or> ascii_lower (path_suffix filename) \<noteq> ''.py'' then Inl (SchemaScriptError ''suffix'')
      else if data = [] then Inl (SchemaScriptError ''empty'')
      else if max_bytes < length data then Inl (SchemaScriptError ''too-large'')
      else case decode_sig data of
        None \<Rightarrow> Inl (SchemaScriptError ''utf-8'')
      | Some source \<Rightarrow>
          (case parse source of
             PySyntax m \<Rightarrow> Inl (SchemaScriptError m)
           | PyRaises \<Rightarrow> Inl SchemaCrash
           | PyTree tops anywhere \<Rightarrow> Inr (if ''workflow'' \<in> set tops then Some ''workflow'' else None)))"

section \<open>The security review\<close>

record verdict =
  vd_safe :: bool
  vd_issues :: "string list"
  vd_summary :: string

definition unsafe :: "string \<Rightarrow> string \<Rightarrow> verdict" where
  "unsafe issue summary = \<lparr>vd_safe = False, vd_issues = [issue], vd_summary = summary\<rparr>"

datatype json_read = JsonRead json | JsonInvalid | JsonRaises
  \<comment> \<open>\<open>json.loads\<close>: a value, \<open>JSONDecodeError\<close>, another exception\<close>

definition object_span :: "string \<Rightarrow> string option" where
  \<comment> \<open>the first match of the greedy pattern: from the first opening brace to the last closing one\<close>
  "object_span raw =
     (let body = rev (dropWhile (\<lambda>c. c \<noteq> CHR ''}'') (rev (dropWhile (\<lambda>c. c \<noteq> CHR ''{'') raw))) in
      if body = [] then None else Some body)"

fun text_items :: "json list \<Rightarrow> string list option" where
  "text_items [] = Some []"
| "text_items (JStr s # xs) = map_option (Cons s) (text_items xs)"
| "text_items (x # xs) = None"

definition parse_verdict :: "(string \<Rightarrow> json_read) \<Rightarrow> string \<Rightarrow> verdict option" where
  \<comment> \<open>None: an exception\<close>
  "parse_verdict loads raw =
     (case object_span raw of
        None \<Rightarrow> Some (unsafe ''no-json'' ''format'')
      | Some body \<Rightarrow>
          (case loads body of
             JsonRaises \<Rightarrow> None
           | JsonInvalid \<Rightarrow> Some (unsafe ''bad-json'' ''format'')
           | JsonRead (JObj d) \<Rightarrow>
               (case dget d ''safe'' of
                  JBool b \<Rightarrow> Some
                    \<lparr>vd_safe = b,
                     vd_issues = (case dget_or d ''issues'' (JList []) of
                        JList xs \<Rightarrow> (case text_items xs of Some ss \<Rightarrow> ss | None \<Rightarrow> []) | _ \<Rightarrow> []),
                     vd_summary = (case dget_or d ''summary'' (JStr []) of JStr s \<Rightarrow> s | _ \<Rightarrow> [])\<rparr>
                | _ \<Rightarrow> Some (unsafe ''no-flag'' ''format''))
           | JsonRead v \<Rightarrow> Some (unsafe ''no-object'' ''format'')))"

type_synonym llm_client = "string \<Rightarrow> string \<Rightarrow> string option"
  \<comment> \<open>the answer to the prompt for a file name and a source; None: the call failed\<close>

definition review_script_security ::
  "(string \<Rightarrow> json_read) \<Rightarrow> llm_client \<Rightarrow> string \<Rightarrow> string \<Rightarrow> verdict option" where
  "review_script_security loads llm filename source =
     (case llm filename source of
        None \<Rightarrow> Some (unsafe ''no-answer'' ''no-answer'')
      | Some raw \<Rightarrow> parse_verdict loads raw)"

lemma safe_verdict:
  assumes "parse_verdict loads raw = Some v" and "vd_safe v"
  shows "\<exists>body d. object_span raw = Some body \<and> loads body = JsonRead (JObj d) \<and> dget d ''safe'' = JBool True"
  using assms by (auto simp: parse_verdict_def unsafe_def split: option.splits json_read.splits json.splits)

end
