(* ===== verification/Schema_Service.thy ===== *)
theory Schema_Service
  imports Schema_Model Schema_Script
begin

text \<open>
  The operations of backend/service/schema\_management.py that change state, put\_bytes and
  delete\_object of backend/infra/s3.py, and create\_python\_definition of
  backend/service/workflow\_operations.py.  A call keeps what it wrote to the object store, the
  script directory, the workflows and the graph before it raised; the catalogue changes when the
  session commits.  What the outside answers, and when, is an argument of each call.
\<close>

section \<open>State\<close>

record workflow_definition =
  wd_id :: string
  wd_name :: string
  wd_task_queue :: string
  wd_function_name :: string
  wd_script_path :: string
  wd_timeout_seconds :: int
  wd_created_at :: string

record schema_state =
  sx_catalogue :: schema_table
  sx_objects :: "string \<times> string \<Rightarrow> string option"    \<comment> \<open>bucket and key to content\<close>
  sx_files :: "string \<Rightarrow> string option"                \<comment> \<open>the directory of workflow scripts\<close>
  sx_workflows :: "workflow_definition list"
  sx_statements :: "string list"                      \<comment> \<open>statements that the graph carried out\<close>

record schema_config =
  sg_bucket :: string
  sg_max_bytes :: nat                                 \<comment> \<open>\<open>SCHEMA_SCRIPT_MAX_BYTES\<close>\<close>
  sg_admins :: string                                 \<comment> \<open>\<open>SCHEMA_ADMIN_USER_IDS\<close>\<close>
  sg_timeout :: "int option"                          \<comment> \<open>None: the setting is not a number\<close>
  sg_directory :: string                              \<comment> \<open>\<open>WORKFLOW_SCRIPT_DIR\<close>\<close>
  sg_task_queue :: string
  sg_collation :: collation
  sg_lower :: "string \<Rightarrow> string"
  sg_sha256 :: "string \<Rightarrow> string"
  sg_parse :: "string \<Rightarrow> parse_reply"
  sg_loads :: "string \<Rightarrow> json_read"

datatype put_reply = PutDone "string option" | PutRaised bool
  \<comment> \<open>the \<open>ETag\<close> of the response; an exception, and whether the object was stored nevertheless\<close>
datatype delete_reply = DeleteDone | DeleteRaised bool
datatype commit_reply = Committed | CommitRefused | CommitLost
  \<comment> \<open>\<open>CommitLost\<close>: the database applied the commit, but the session raised\<close>

record script_env =
  se_uuid :: string
  se_row_id :: string
  se_now :: string
  se_put :: put_reply
  se_delete :: "string \<times> string \<Rightarrow> delete_reply"
  se_file_written :: bool                             \<comment> \<open>False: \<open>OSError\<close>\<close>
  se_workflow_saved :: bool                           \<comment> \<open>False: an exception of the repository\<close>
  se_commit :: commit_reply

record create_env =
  ce_id :: string
  ce_now :: string
  ce_commit :: commit_reply
  ce_graph :: graph_service
  ce_executed_at :: string
  ce_write_back :: commit_reply

section \<open>The object store\<close>

definition strip_quotes :: "string \<Rightarrow> string" where
  "strip_quotes s = rev (dropWhile (\<lambda>c. c = CHR 0x22) (rev (dropWhile (\<lambda>c. c = CHR 0x22) s)))"

definition set_object :: "string \<times> string \<Rightarrow> string option \<Rightarrow> schema_state \<Rightarrow> schema_state" where
  "set_object k v s = s\<lparr>sx_objects := (sx_objects s)(k := v)\<rparr>"

definition put_bytes :: "script_env \<Rightarrow> string \<times> string \<Rightarrow> string \<Rightarrow> (unit, schema_state, string option) call" where
  "put_bytes env k data s =
     (case se_put env of
        PutDone etag \<Rightarrow> (Inr (map_option strip_quotes etag), set_object k (Some data) s)
      | PutRaised stored \<Rightarrow> (Inl (), if stored then set_object k (Some data) s else s))"

definition delete_object :: "script_env \<Rightarrow> string \<times> string \<Rightarrow> schema_state \<Rightarrow> bool \<times> schema_state" where
  \<comment> \<open>whether it returned\<close>
  "delete_object env k s =
     (case se_delete env k of
        DeleteDone \<Rightarrow> (True, set_object k None s)
      | DeleteRaised gone \<Rightarrow> (False, if gone then set_object k None s else s))"

section \<open>Workflows\<close>

definition create_python_definition ::
  "schema_config \<Rightarrow> script_env \<Rightarrow> string \<Rightarrow> string \<Rightarrow> string \<Rightarrow> string option \<Rightarrow> string option \<Rightarrow> int option \<Rightarrow>
   (string option, schema_state, string) call" where
  \<comment> \<open>\<open>Inl (Some m)\<close>: \<open>SyntaxError\<close>, \<open>ValueError\<close> or \<open>OSError\<close>; \<open>Inl None\<close>: another exception\<close>
  "create_python_definition cfg env filename content fn definition_id name timeout s =
     (if 1048576 < int (length content) then (Inl (Some ''too-large''), s)
      else if \<not> utf8_ok content then (Inl (Some ''utf-8''), s)
      else case sg_parse cfg content of
        PySyntax m \<Rightarrow> (Inl (Some m), s)
      | PyRaises \<Rightarrow> (Inl None, s)
      | PyTree tops anywhere \<Rightarrow>
          if fn \<notin> set anywhere then (Inl (Some ''no-function''), s)
          else
            let slugged = slug (sg_lower cfg) (path_stem filename);
                safe = (if opt_truthy definition_id then opt_str definition_id
                        else if slugged \<noteq> [] then slugged else ''python-'' @ take 8 (se_uuid env))
            in if \<not> valid_definition_id safe then (Inl (Some ''definition-id''), s)
               else if \<not> se_file_written env then (Inl (Some ''os-error''), s)
               else
                 let s1 = s\<lparr>sx_files := (sx_files s)(safe := Some content)\<rparr>;
                     w = \<lparr>wd_id = safe, wd_name = (if opt_truthy name then opt_str name else path_stem filename),
                       wd_task_queue = sg_task_queue cfg, wd_function_name = fn,
                       wd_script_path = sg_directory cfg @ ''/'' @ safe @ ''.py'',
                       wd_timeout_seconds = (case timeout of Some n \<Rightarrow> if n = 0 then 60 else max n 1 | None \<Rightarrow> 60),
                       wd_created_at = se_now env\<rparr>
                 in if \<not> se_workflow_saved env then (Inl None, s1)
                    else (Inr safe, s1\<lparr>sx_workflows := tbl_put wd_id w (sx_workflows s1)\<rparr>))"

definition zh_extraction :: string where
  \<comment> \<open>U+62BD U+53D6 (extraction)\<close>
  "zh_extraction = [CHR 0xE6, CHR 0x8A, CHR 0xBD, CHR 0xE5, CHR 0x8F, CHR 0x96]"

definition register_workflow ::
  "schema_config \<Rightarrow> script_env \<Rightarrow> schema_definition \<Rightarrow> string \<Rightarrow> string \<Rightarrow> string option \<Rightarrow>
   (schema_error, schema_state, string option) call" where
  "register_workflow cfg env d filename data fn s =
     (case fn of
        None \<Rightarrow> (Inr None, s)
      | Some f \<Rightarrow>
          (case sg_timeout cfg of
             None \<Rightarrow> (Inl (SchemaScriptError ''timeout''), s)
           | Some t \<Rightarrow>
               (case create_python_definition cfg env filename data f
                       (Some (workflow_definition_id (sg_lower cfg) (sg_sha256 cfg) (sd_schema_key d)))
                       (Some (sd_label d @ '' Schema '' @ zh_extraction)) (Some t) s of
                  (Inl (Some m), s') \<Rightarrow> (Inl (SchemaScriptError m), s')
                | (Inl None, s') \<Rightarrow> (Inl SchemaCrash, s')
                | (Inr i, s') \<Rightarrow> (Inr (Some i), s'))))"

section \<open>Storing a script\<close>

definition script_key :: "script_env \<Rightarrow> schema_definition \<Rightarrow> string \<Rightarrow> string" where
  "script_key env d filename =
     ''schemas/'' @ sd_kind d @ ''/'' @ sd_id d @ ''/'' @ se_uuid env @ ''-'' @ safe_filename filename"

definition script_row ::
  "schema_config \<Rightarrow> script_env \<Rightarrow> schema_definition \<Rightarrow> string \<Rightarrow> string option \<Rightarrow> string \<Rightarrow> string \<Rightarrow>
   string option \<Rightarrow> string option \<Rightarrow> string option \<Rightarrow> schema_script" where
  \<comment> \<open>row identifier and upload time are used when the row is new\<close>
  "script_row cfg env d filename ctype data user fn wfid etag =
     \<lparr>ss_id = se_row_id env, ss_bucket = sg_bucket cfg, ss_object_key = script_key env d filename,
      ss_original_filename = path_name filename,
      ss_content_type = (if opt_truthy ctype then opt_str ctype else ''text/x-python''),
      ss_size_bytes = length data, ss_etag = etag, ss_sha256 = sg_sha256 cfg data, ss_uploaded_by = user,
      ss_workflow_definition_id = wfid, ss_workflow_function_name = fn, ss_uploaded_at = se_now env\<rparr>"

definition persist_script ::
  "schema_config \<Rightarrow> script_env \<Rightarrow> schema_definition \<Rightarrow> string \<Rightarrow> string option \<Rightarrow> string \<Rightarrow> string \<Rightarrow>
   string option \<Rightarrow> (schema_error, schema_state, schema_definition \<times> bool) call" where
  \<comment> \<open>\<open>d\<close> is the definition as the session loaded it\<close>
  "persist_script cfg env d filename ctype data user fn s =
     (let k = (sg_bucket cfg, script_key env d filename);
          fail = (\<lambda>e s'. (Inl e, snd (delete_object env k s')))
      in case put_bytes env k data s of
        (Inl u, s1) \<Rightarrow> (Inl (SchemaStorage ''put''), s1)
      | (Inr etag, s1) \<Rightarrow>
          (case register_workflow cfg env d filename data fn s1 of
             (Inl e, s2) \<Rightarrow> fail e s2
           | (Inr wfid, s2) \<Rightarrow>
               (case save_script d (script_row cfg env d filename ctype data user fn wfid etag) (sx_catalogue s2) of
                  None \<Rightarrow> fail SchemaCrash s2
                | Some t \<Rightarrow>
                    (case se_commit env of
                      CommitRefused \<Rightarrow> fail SchemaCrash s2
                    | CommitLost \<Rightarrow> fail SchemaCrash (s2\<lparr>sx_catalogue := t\<rparr>)
                    | Committed \<Rightarrow>
                      (case (case sd_script d of
                          Some old \<Rightarrow>
                            if ss_object_key old \<noteq> snd k
                            then delete_object env (ss_bucket old, ss_object_key old) (s2\<lparr>sx_catalogue := t\<rparr>)
                            else (True, s2\<lparr>sx_catalogue := t\<rparr>)
                        | None \<Rightarrow> (True, s2\<lparr>sx_catalogue := t\<rparr>)) of
                       (cleaned, s3) \<Rightarrow>
                         (case get_definition (sd_id d) (sx_catalogue s3) of
                            None \<Rightarrow> (Inl (SchemaNotFound (sd_id d)), s3)
                          | Some d' \<Rightarrow> (Inr (d', cleaned), s3)))))))"

definition schema_admin_user_ids :: "schema_config \<Rightarrow> string list" where
  "schema_admin_user_ids cfg = filter (\<lambda>x. x \<noteq> []) (map py_strip (py_split CHR '','' (sg_admins cfg)))"

definition script_permission :: "schema_config \<Rightarrow> string \<Rightarrow> bool \<Rightarrow> schema_definition \<Rightarrow> string option" where
  \<comment> \<open>the reason for which the script may not be replaced\<close>
  "script_permission cfg user admin d =
     (if sd_is_system d \<and> \<not> admin \<and> user \<notin> set (schema_admin_user_ids cfg) then Some ''system-schema''
      else if \<not> sd_is_system d \<and> \<not> admin \<and> sd_created_by d \<noteq> Some user then Some ''own-schema''
      else None)"

definition assert_script_modifiable ::
  "schema_config \<Rightarrow> string \<Rightarrow> string \<Rightarrow> bool \<Rightarrow> schema_state \<Rightarrow> schema_error + schema_definition" where
  "assert_script_modifiable cfg i user admin s =
     (let u = py_strip user in
      if u = [] \<or> 128 < py_len u then Inl (SchemaPermission ''user-id'')
      else case get_definition i (sx_catalogue s) of
        None \<Rightarrow> Inl (SchemaNotFound i)
      | Some d \<Rightarrow> (case script_permission cfg u admin d of Some m \<Rightarrow> Inl (SchemaPermission m) | None \<Rightarrow> Inr d))"

definition replace_script ::
  "schema_config \<Rightarrow> script_env \<Rightarrow> string \<Rightarrow> string \<Rightarrow> string \<Rightarrow> string option \<Rightarrow> string \<Rightarrow> bool \<Rightarrow>
   (schema_error, schema_state, schema_definition \<times> bool) call" where
  "replace_script cfg env i user filename ctype data admin s =
     (case assert_script_modifiable cfg i user admin s of
        Inl e \<Rightarrow> (Inl e, s)
      | Inr d \<Rightarrow>
          (case validate_script (sg_max_bytes cfg) (sg_parse cfg) filename data of
             Inl e \<Rightarrow> (Inl e, s)
           | Inr fn \<Rightarrow> persist_script cfg env d filename ctype data (py_strip user) fn s))"

section \<open>Review and storage of a script\<close>

text \<open>
  \<open>verify_and_save_script\<close> runs in a session of its own.  It loads the definition, waits for the
  language model, and stores the script for the definition as it was loaded; what other requests
  commit in between is not seen.  The two parts are separate steps.
\<close>

datatype sse_event =
    Progress string
  | Refused "string option" string string "string list"    \<comment> \<open>code, stage, message, issues\<close>
  | Saved "(string \<times> string \<times> string \<times> nat \<times> string) option" string
      \<comment> \<open>identifier, name, hash, size and upload time of the script; the name and size sent without one\<close>

record verify_session =
  vs_definition :: schema_definition
  vs_filename :: string
  vs_content_type :: "string option"
  vs_data :: string
  vs_user :: string
  vs_function :: "string option"

datatype verify_step =
    VerifyEnds "sse_event list"
  | VerifyRaises "sse_event list"
  | VerifySaves "sse_event list" verify_session

definition verify_begin ::
  "schema_config \<Rightarrow> llm_client option \<Rightarrow> string \<Rightarrow> string \<Rightarrow> string \<Rightarrow> string option \<Rightarrow> string \<Rightarrow> bool \<Rightarrow>
   schema_state \<Rightarrow> verify_step" where
  "verify_begin cfg client i user filename ctype data admin s =
     (case get_definition i (sx_catalogue s) of
        None \<Rightarrow> VerifyEnds [Refused (Some ''not_found'') ''pre'' i [i]]
      | Some d \<Rightarrow>
          (case script_permission cfg (py_strip user) admin d of
             Some m \<Rightarrow> VerifyEnds [Refused (Some ''permission'') ''pre'' m [m]]
           | None \<Rightarrow>
               (case validate_script (sg_max_bytes cfg) (sg_parse cfg) filename data of
                  Inl (SchemaScriptError m) \<Rightarrow> VerifyEnds [Progress ''syntax'', Refused None ''syntax'' m [m]]
                | Inl e \<Rightarrow> VerifyRaises [Progress ''syntax'']
                | Inr fn \<Rightarrow>
                    let shown = [Progress ''syntax'', Progress ''llm'']; source = opt_str (decode_sig data) in
                    (case client of
                       None \<Rightarrow> VerifyEnds (shown @ [Refused None ''llm'' ''unavailable'' [''unavailable'']])
                     | Some llm \<Rightarrow>
                         (case review_script_security (sg_loads cfg) llm filename source of
                            None \<Rightarrow> VerifyRaises shown
                          | Some v \<Rightarrow>
                              if \<not> vd_safe v
                              then VerifyEnds (shown @ [Refused None ''llm''
                                (if vd_summary v = [] then ''refused'' else vd_summary v)
                                (if vd_issues v = [] then [''refused''] else vd_issues v)])
                              else VerifySaves (shown @ [Progress ''saving''])
                                \<lparr>vs_definition = d, vs_filename = filename, vs_content_type = ctype,
                                 vs_data = data, vs_user = py_strip user, vs_function = fn\<rparr>)))))"

definition verify_save ::
  "schema_config \<Rightarrow> script_env \<Rightarrow> verify_session \<Rightarrow> schema_state \<Rightarrow> verify_step \<times> schema_state" where
  "verify_save cfg env v s =
     (case persist_script cfg env (vs_definition v) (vs_filename v) (vs_content_type v) (vs_data v) (vs_user v)
             (vs_function v) s of
        (Inl SchemaCrash, s') \<Rightarrow> (VerifyRaises [], s')
      | (Inl (SchemaStorage m), s') \<Rightarrow> (VerifyEnds [Refused None ''saving'' m [m]], s')
      | (Inl (SchemaScriptError m), s') \<Rightarrow> (VerifyEnds [Refused None ''saving'' m [m]], s')
      | (Inl (SchemaNotFound m), s') \<Rightarrow> (VerifyEnds [Refused None ''saving'' m [m]], s')
      | (Inl e, s') \<Rightarrow> (VerifyEnds [Refused None ''saving'' ''error'' [''error'']], s')
      | (Inr (d, cleaned), s') \<Rightarrow>
          (VerifyEnds [Saved (map_option (\<lambda>x. (ss_id x, ss_original_filename x, ss_sha256 x, ss_size_bytes x,
             ss_uploaded_at x)) (sd_script d)) (path_name (vs_filename v))], s'))"

section \<open>Schemas\<close>

definition create_schema ::
  "schema_config \<Rightarrow> create_env \<Rightarrow> string \<Rightarrow> schema_payload \<Rightarrow> string \<Rightarrow> (schema_error, schema_state, schema_definition) call" where
  "create_schema cfg env kind p user s =
     (let u = py_strip user; d = new_definition (ce_id env) kind p u (ce_now env) in
      if u = [] \<or> 128 < py_len u then (Inl (SchemaPermission ''user-id''), s)
      else if exists_by_key_or_name (sg_collation cfg) (py_schema_key p) (py_name p) (sx_catalogue s)
      then (Inl (SchemaConflict ''key-or-name''), s)
      else case insert_definition (sg_collation cfg) d (sx_catalogue s) of
        Inl IntegrityError \<Rightarrow> (Inl (SchemaConflict ''key-name-or-property''), s)
      | Inl DataError \<Rightarrow> (Inl SchemaCrash, s)
      | Inr t \<Rightarrow>
          if ce_commit env \<noteq> Committed
          then (Inl SchemaCrash, if ce_commit env = CommitLost then s\<lparr>sx_catalogue := t\<rparr> else s)
          else
            let r = run_schema_ddl (ce_graph env) (ce_executed_at env) kind (py_name p) (py_properties p);
                s1 = s\<lparr>sx_catalogue := t,
                  sx_statements := sx_statements s @ (if dr_status r = ''succeeded'' then [dr_statement r] else [])\<rparr>
            in if \<not> ddl_fits r \<or> ce_write_back env = CommitRefused then (Inl (SchemaDdlError ''write-back''), s1)
               else
                 let t2 = tbl_upd sd_id (ce_id env) (set_ddl (ce_executed_at env) r) t in
                 if ce_write_back env = CommitLost then (Inl (SchemaDdlError ''write-back''), s1\<lparr>sx_catalogue := t2\<rparr>)
                 else (case get_definition (ce_id env) t2 of
                    None \<Rightarrow> (Inl (SchemaNotFound (ce_id env)), s1\<lparr>sx_catalogue := t2\<rparr>)
                  | Some d' \<Rightarrow> (Inr d', s1\<lparr>sx_catalogue := t2\<rparr>)))"

definition create_entity ::
  "schema_config \<Rightarrow> create_env \<Rightarrow> schema_payload \<Rightarrow> string \<Rightarrow> (schema_error, schema_state, schema_definition) call" where
  "create_entity cfg env p user = create_schema cfg env ''entity'' p user"

definition create_relation ::
  "schema_config \<Rightarrow> create_env \<Rightarrow> schema_payload \<Rightarrow> string \<Rightarrow> (schema_error, schema_state, schema_definition) call" where
  "create_relation cfg env p user s =
     (let find_end = (\<lambda>i. if opt_truthy i then get_entity (opt_str i) (sx_catalogue s) else None) in
      if opt_truthy (py_source_schema_id p) \<and> find_end (py_source_schema_id p) = None
      then (Inl (SchemaConflict ''source''), s)
      else if opt_truthy (py_target_schema_id p) \<and> find_end (py_target_schema_id p) = None
      then (Inl (SchemaConflict ''target''), s)
      else case (find_end (py_source_schema_id p), find_end (py_target_schema_id p)) of
        (Some a, Some b) \<Rightarrow>
          create_schema cfg env ''relation''
            (p\<lparr>py_source_expression := (if opt_truthy (py_source_expression p) then py_source_expression p else Some (sd_name a)),
               py_target_expression := (if opt_truthy (py_target_expression p) then py_target_expression p else Some (sd_name b))\<rparr>)
            user s
      | _ \<Rightarrow> (Inl (SchemaConflict ''endpoints''), s))"

definition delete_schema ::
  "script_env \<Rightarrow> string \<Rightarrow> string \<Rightarrow> bool \<Rightarrow> (schema_error, schema_state, bool) call" where
  \<comment> \<open>whether the script was cleaned up\<close>
  "delete_schema env i user admin s =
     (let u = py_strip user in
      if u = [] then (Inl (SchemaPermission ''user-id''), s)
      else case get_definition i (sx_catalogue s) of
        None \<Rightarrow> (Inl (SchemaNotFound i), s)
      | Some d \<Rightarrow>
          if sd_is_system d then (Inl (SchemaPermission ''system-schema''), s)
          else if \<not> admin \<and> sd_created_by d \<noteq> Some u then (Inl (SchemaPermission ''own-schema''), s)
          else
            let refs = referenced_relation_names i (sx_catalogue s) in
            if sd_kind d = ''entity'' \<and> refs \<noteq> [] then (Inl (SchemaConflict (py_join '', '' (take 5 refs))), s)
            else case delete_definition i (sx_catalogue s) of
              None \<Rightarrow> (Inl SchemaCrash, s)
            | Some t \<Rightarrow>
                if se_commit env \<noteq> Committed
                then (Inl SchemaCrash, if se_commit env = CommitLost then s\<lparr>sx_catalogue := t\<rparr> else s)
                else case sd_script d of
                  None \<Rightarrow> (Inr True, s\<lparr>sx_catalogue := t\<rparr>)
                | Some x \<Rightarrow>
                    (case delete_object env (ss_bucket x, ss_object_key x) (s\<lparr>sx_catalogue := t\<rparr>) of
                       (cleaned, s') \<Rightarrow> (Inr cleaned, s')))"

end
