(* ===== verification/Schema_Inv.thy ===== *)
theory Schema_Inv
  imports Schema_Service Systems
begin

text \<open>
  Runs of the schema service: requests of many users, with the review of scripts cut into its two
  steps, and what holds of the catalogue and of the object store along them.
\<close>

section \<open>Runs\<close>

record schema_world =
  sw_state :: schema_state
  sw_sessions :: "verify_session list"      \<comment> \<open>reviews that passed and have not stored yet\<close>

datatype schema_cmd =
    CreateEntity create_env schema_payload string
  | CreateRelation create_env schema_payload string
  | ReplaceScript script_env string string string "string option" string bool
  | VerifyScript "llm_client option" string string string "string option" string bool
  | StoreVerified script_env nat
  | DeleteSchema script_env string string bool
  | UploadPython script_env string string string "string option" "string option" "int option"

definition script_ref :: "schema_definition \<Rightarrow> (string \<times> string \<times> string) list" where
  \<comment> \<open>schema, bucket and key\<close>
  "script_ref d = (case sd_script d of None \<Rightarrow> [] | Some x \<Rightarrow> [(sd_id d, ss_bucket x, ss_object_key x)])"

definition script_refs :: "schema_world \<Rightarrow> (string \<times> string \<times> string) list" where
  "script_refs w =
     concat (map script_ref (sx_catalogue (sw_state w) @ map vs_definition (sw_sessions w)))"

definition fresh_key :: "string \<Rightarrow> schema_world \<Rightarrow> bool" where
  "fresh_key k w \<longleftrightarrow> k \<notin> (\<lambda>(i, b, k). k) ` set (script_refs w)"

definition with_state :: "schema_world \<Rightarrow> ('e + 'a) \<times> schema_state \<Rightarrow> schema_world" where
  "with_state w res = w\<lparr>sw_state := snd res\<rparr>"

definition remove_nth :: "nat \<Rightarrow> 'a list \<Rightarrow> 'a list" where
  "remove_nth n xs = take n xs @ drop (Suc n) xs"

definition exec_schema :: "schema_config \<Rightarrow> schema_cmd \<Rightarrow> schema_world \<Rightarrow> unit + schema_world" where
  \<comment> \<open>identifiers from \<open>uuid4\<close> are new; a command for which that fails, and one without its session, is no step\<close>
  "exec_schema cfg c w =
     (case c of
        CreateEntity env p user \<Rightarrow> Inr (with_state w (create_entity cfg env p user (sw_state w)))
      | CreateRelation env p user \<Rightarrow> Inr (with_state w (create_relation cfg env p user (sw_state w)))
      | ReplaceScript env i user filename ctype data admin \<Rightarrow>
          (case get_definition i (sx_catalogue (sw_state w)) of
             Some d \<Rightarrow>
               if fresh_key (script_key env d filename) w
               then Inr (with_state w (replace_script cfg env i user filename ctype data admin (sw_state w))) else Inl ()
           | None \<Rightarrow> Inr w)
      | VerifyScript client i user filename ctype data admin \<Rightarrow>
          (case verify_begin cfg client i user filename ctype data admin (sw_state w) of
             VerifySaves es v \<Rightarrow> Inr (w\<lparr>sw_sessions := sw_sessions w @ [v]\<rparr>)
           | _ \<Rightarrow> Inr w)
      | StoreVerified env n \<Rightarrow>
          if n < length (sw_sessions w)
          then
            let v = sw_sessions w ! n in
            if fresh_key (script_key env (vs_definition v) (vs_filename v)) w
            then Inr (w\<lparr>sw_state := snd (verify_save cfg env v (sw_state w)), sw_sessions := remove_nth n (sw_sessions w)\<rparr>)
            else Inl ()
          else Inl ()
      | DeleteSchema env i user admin \<Rightarrow> Inr (with_state w (delete_schema env i user admin (sw_state w)))
      | UploadPython env filename data fn i name timeout \<Rightarrow>
          Inr (with_state w (create_python_definition cfg env filename data fn i name timeout (sw_state w))))"

section \<open>What calls change\<close>

lemma python_frame:
  "create_python_definition cfg env filename data fn i name timeout s = (r, s') \<Longrightarrow>
     sx_catalogue s' = sx_catalogue s \<and> sx_objects s' = sx_objects s"
  by (auto simp: create_python_definition_def Let_def split: if_splits parse_reply.splits)

lemma register_frame:
  "register_workflow cfg env d filename data fn s = (r, s') \<Longrightarrow>
     sx_catalogue s' = sx_catalogue s \<and> sx_objects s' = sx_objects s"
  by (auto simp: register_workflow_def dest: python_frame split: option.splits sum.splits prod.splits)

lemma delete_object_frame:
  "delete_object env k s = (b, s') \<Longrightarrow>
     sx_catalogue s' = sx_catalogue s \<and> (\<forall>k'. k' \<noteq> k \<longrightarrow> sx_objects s' k' = sx_objects s k')"
  by (auto simp: delete_object_def set_object_def split: delete_reply.splits if_splits)

lemma put_frame:
  "put_bytes env k data s = (r, s') \<Longrightarrow>
     sx_catalogue s' = sx_catalogue s \<and> (\<forall>k'. k' \<noteq> k \<longrightarrow> sx_objects s' k' = sx_objects s k') \<and>
     (\<forall>etag. r = Inr etag \<longrightarrow> sx_objects s' k = Some data)"
  by (auto simp: put_bytes_def set_object_def split: put_reply.splits if_splits)

definition kept_but ::
  "(string \<times> string) set \<Rightarrow> schema_state \<Rightarrow> schema_state \<Rightarrow> bool" where
  "kept_but ks s s' \<longleftrightarrow> (\<forall>k'. k' \<notin> ks \<longrightarrow> sx_objects s' k' = sx_objects s k')"

definition old_refs :: "schema_definition \<Rightarrow> (string \<times> string) set" where
  "old_refs d = (\<lambda>(i, r). r) ` set (script_ref d)"

text \<open>The workflow of a schema: what may have changed, and what has when the registration returned.\<close>

definition kept_workflows :: "string \<Rightarrow> string \<Rightarrow> schema_state \<Rightarrow> schema_state \<Rightarrow> bool" where
  "kept_workflows i data s s' \<longleftrightarrow> sx_files s' i \<in> {sx_files s i, Some data} \<and>
     (\<forall>j. j \<noteq> i \<longrightarrow> sx_files s' j = sx_files s j \<and>
        tbl_get wd_id j (sx_workflows s') = tbl_get wd_id j (sx_workflows s))"

definition workflow_stored ::
  "string \<Rightarrow> string \<Rightarrow> string option \<Rightarrow> string option \<Rightarrow> schema_state \<Rightarrow> schema_state \<Rightarrow> bool" where
  "workflow_stored i data fn wfid s s' \<longleftrightarrow>
     (case fn of None \<Rightarrow> wfid = None \<and> sx_files s' = sx_files s \<and> sx_workflows s' = sx_workflows s
      | Some f \<Rightarrow> wfid = Some i \<and> sx_files s' i = Some data \<and>
          (\<exists>w. tbl_get wd_id i (sx_workflows s') = Some w \<and> wd_function_name w = f))"

lemma schema_workflow_id [simp]: "workflow_definition_id lower sha k \<noteq> []"
  by (simp add: workflow_definition_id_def Let_def)

lemma python_effect:
  assumes "i \<noteq> []" and "create_python_definition cfg env filename data f (Some i) name timeout s = (r, s')"
  shows "kept_workflows i data s s' \<and> (\<forall>j. r = Inr j \<longrightarrow> workflow_stored i data (Some f) (Some j) s s')"
  using assms
  by (auto simp: create_python_definition_def Let_def kept_workflows_def workflow_stored_def opt_truthy_def opt_str_def
      table_simps split: if_splits parse_reply.splits)

lemma register_effect:
  fixes cfg d
  defines "i \<equiv> workflow_definition_id (sg_lower cfg) (sg_sha256 cfg) (sd_schema_key d)"
  assumes "register_workflow cfg env d filename data fn s = (r, s')"
  shows "kept_workflows i data s s' \<and> (\<forall>wfid. r = Inr wfid \<longrightarrow> workflow_stored i data fn wfid s s')"
proof (cases fn)
  case None
  with assms(2) show ?thesis by (auto simp: register_workflow_def kept_workflows_def workflow_stored_def)
next
  case (Some f)
  have "i \<noteq> []" by (simp add: i_def)
  from python_effect [OF this] assms(2) Some show ?thesis
    by (auto simp: register_workflow_def i_def [symmetric] kept_workflows_def split: option.splits prod.splits sum.splits)
qed

lemma kept_workflows_only:
  assumes "sx_files s1 = sx_files s" "sx_workflows s1 = sx_workflows s"
    and "sx_files s3 = sx_files s2" "sx_workflows s3 = sx_workflows s2"
  shows "kept_workflows i data s1 s2 = kept_workflows i data s s3"
    and "workflow_stored i data fn wfid s1 s2 = workflow_stored i data fn wfid s s3"
  using assms by (auto simp: kept_workflows_def workflow_stored_def split: option.split)

lemma delete_object_workflows:
  "delete_object env k s = (b, s') \<Longrightarrow> sx_files s' = sx_files s \<and> sx_workflows s' = sx_workflows s"
  by (auto simp: delete_object_def set_object_def split: delete_reply.splits if_splits)

lemma put_workflows:
  "put_bytes env k data s = (r, s') \<Longrightarrow> sx_files s' = sx_files s \<and> sx_workflows s' = sx_workflows s"
  by (auto simp: put_bytes_def set_object_def split: put_reply.splits if_splits)

lemma persist_cases:
  fixes cfg env d filename
  defines "k \<equiv> (sg_bucket cfg, script_key env d filename)"
    and "i \<equiv> workflow_definition_id (sg_lower cfg) (sg_sha256 cfg) (sd_schema_key d)"
  assumes "persist_script cfg env d filename ctype data user fn s = (r, s')"
  shows "((\<exists>e. r = Inl e) \<and> sx_catalogue s' = sx_catalogue s \<and> kept_but {k} s s' \<and> kept_workflows i data s s') \<or>
    (\<exists>t wfid etag. save_script d (script_row cfg env d filename ctype data user fn wfid etag) (sx_catalogue s) = Some t \<and>
       sx_catalogue s' = t \<and> kept_workflows i data s s' \<and> workflow_stored i data fn wfid s s' \<and>
       (se_commit env = CommitLost \<and> r = Inl SchemaCrash \<and> kept_but {k} s s' \<or>
        se_commit env = Committed \<and> kept_but ({k} \<union> old_refs d) s s' \<and> sx_objects s' k = Some data \<and>
        (case get_definition (sd_id d) t of None \<Rightarrow> r = Inl (SchemaNotFound (sd_id d)) | Some d' \<Rightarrow> \<exists>b. r = Inr (d', b))))"
proof -
  obtain r1 s1 where p: "put_bytes env k data s = (r1, s1)" by (cases "put_bytes env k data s")
  note f1 = put_frame [OF p] put_workflows [OF p]
  show ?thesis
  proof (cases r1)
    case (Inl u)
    with assms(3) p f1 show ?thesis by (auto simp: persist_script_def Let_def k_def kept_but_def kept_workflows_def)
  next
    case (Inr etag)
    obtain r2 s2 where q: "register_workflow cfg env d filename data fn s1 = (r2, s2)"
      by (cases "register_workflow cfg env d filename data fn s1")
    note f2 = register_frame [OF q]
    have wf: "kept_workflows i data s s3" "r2 = Inr wfid \<Longrightarrow> workflow_stored i data fn wfid s s3"
      if "sx_files s3 = sx_files s2" "sx_workflows s3 = sx_workflows s2" for s3 wfid
      using register_effect [OF q] kept_workflows_only [OF _ _ that, of s1 s] f1 by (simp_all add: i_def)
    have failed: ?thesis if "r = Inl e" "s' = snd (delete_object env k s2)" for e
    proof -
      obtain b s3 where del: "delete_object env k s2 = (b, s3)" by (cases "delete_object env k s2")
      from delete_object_frame [OF del] delete_object_workflows [OF del] f1 f2 that del show ?thesis
        by (simp add: kept_but_def wf)
    qed
    show ?thesis
    proof (cases r2)
      case (Inl e)
      with assms(3) p q Inr show ?thesis by (intro failed) (auto simp: persist_script_def Let_def k_def)
    next
      case wfid: (Inr wfid)
      let ?row = "script_row cfg env d filename ctype data user fn wfid etag"
      show ?thesis
      proof (cases "save_script d ?row (sx_catalogue s2)")
        case None
        with assms(3) p q Inr wfid show ?thesis by (intro failed) (auto simp: persist_script_def Let_def k_def)
      next
        case (Some t)
        show ?thesis
        proof (cases "se_commit env")
          case CommitRefused
          with assms(3) p q Inr wfid Some show ?thesis
            by (intro failed) (auto simp: persist_script_def Let_def k_def)
        next
          case CommitLost
          obtain b s3 where del: "delete_object env k (s2\<lparr>sx_catalogue := t\<rparr>) = (b, s3)"
            by (cases "delete_object env k (s2\<lparr>sx_catalogue := t\<rparr>)")
          with assms(3) p q Inr wfid Some CommitLost have "r = Inl SchemaCrash" "s' = s3"
            by (auto simp: persist_script_def Let_def k_def)
          with delete_object_frame [OF del] delete_object_workflows [OF del] f1 f2 Some CommitLost wfid show ?thesis
            by (intro disjI2 exI [of _ t] exI [of _ wfid] exI [of _ etag]) (simp add: kept_but_def wf)
        next
          case Committed
          define after where "after = (case sd_script d of
              Some old \<Rightarrow> if ss_object_key old \<noteq> snd k
                then delete_object env (ss_bucket old, ss_object_key old) (s2\<lparr>sx_catalogue := t\<rparr>)
                else (True, s2\<lparr>sx_catalogue := t\<rparr>)
            | None \<Rightarrow> (True, s2\<lparr>sx_catalogue := t\<rparr>))"
          obtain b s3 where a: "after = (b, s3)" by (cases after)
          have cat: "sx_catalogue s3 = t" and kept: "kept_but (old_refs d) (s2\<lparr>sx_catalogue := t\<rparr>) s3"
            and obj: "sx_objects s3 k = sx_objects s2 k"
            using a unfolding after_def
            by (auto simp: kept_but_def old_refs_def script_ref_def k_def
                dest!: delete_object_frame split: option.splits if_splits)
          have flows: "sx_files s3 = sx_files s2" "sx_workflows s3 = sx_workflows s2"
            using a unfolding after_def by (auto dest!: delete_object_workflows split: option.splits if_splits)
          have "s' = s3" "case get_definition (sd_id d) t of None \<Rightarrow> r = Inl (SchemaNotFound (sd_id d))
              | Some d' \<Rightarrow> \<exists>b. r = Inr (d', b)"
            using assms(3) p q Inr wfid Some Committed a cat unfolding after_def
            by (auto simp: persist_script_def Let_def k_def split: option.splits)
          with cat kept obj f1 f2 Inr Some Committed wf [OF flows] wfid show ?thesis
            by (intro disjI2 exI [of _ t] exI [of _ wfid] exI [of _ etag]) (auto simp: kept_but_def)
        qed
      qed
    qed
  qed
qed

section \<open>The catalogue\<close>

definition sans_script :: "schema_definition \<Rightarrow> schema_definition" where
  "sans_script d = d\<lparr>sd_script := None\<rparr>"

definition systems :: "schema_table \<Rightarrow> schema_definition list" where
  "systems t = filter sd_is_system (map sans_script t)"

definition ends_exist :: "schema_table \<Rightarrow> schema_definition \<Rightarrow> bool" where
  "ends_exist t d \<longleftrightarrow> (\<forall>i. refers_to i d \<longrightarrow> i \<in> sd_id ` set t) \<and>
     (\<not> sd_is_system d \<and> sd_kind d = ''relation'' \<longrightarrow>
        (\<exists>a b. (a, ''entity'') \<in> (\<lambda>e. (sd_id e, sd_kind e)) ` set t \<and>
           (b, ''entity'') \<in> (\<lambda>e. (sd_id e, sd_kind e)) ` set t \<and>
           sd_source_schema_id d = Some a \<and> sd_target_schema_id d = Some b))"

definition row_ok :: "collation \<Rightarrow> schema_definition \<Rightarrow> bool" where
  "row_ok coll d \<longleftrightarrow> sd_kind d \<in> {''entity'', ''relation''} \<and>
     distinct (map (\<lambda>p. coll (sp_name p)) (sd_properties d)) \<and> distinct (map coll (sd_mappings d))"

definition catalogue_ok :: "collation \<Rightarrow> schema_table \<Rightarrow> bool" where
  "catalogue_ok coll t \<longleftrightarrow> keys_ok sd_id t \<and> keys_ok (\<lambda>d. coll (sd_schema_key d)) t \<and>
     keys_ok (\<lambda>d. coll (sd_name d)) t \<and> (\<forall>d \<in> set t. row_ok coll d \<and> ends_exist t d)"

lemma sans_script_simps [simp]:
  "sd_id (sans_script d) = sd_id d" "sd_kind (sans_script d) = sd_kind d" "sd_name (sans_script d) = sd_name d"
  "sd_schema_key (sans_script d) = sd_schema_key d" "sd_is_system (sans_script d) = sd_is_system d"
  "sd_source_schema_id (sans_script d) = sd_source_schema_id d"
  "sd_target_schema_id (sans_script d) = sd_target_schema_id d"
  "sd_properties (sans_script d) = sd_properties d" "sd_mappings (sans_script d) = sd_mappings d"
  by (simp_all add: sans_script_def)

lemma catalogue_ok_sans: "catalogue_ok coll (map sans_script t) = catalogue_ok coll t"
  by (simp add: catalogue_ok_def keys_ok_def comp_def row_ok_def ends_exist_def refers_to_def image_image)

lemma catalogue_ok_same: "map sans_script t' = map sans_script t \<Longrightarrow> catalogue_ok coll t' = catalogue_ok coll t"
  by (metis catalogue_ok_sans)

lemma sans_set_script: "map sans_script (tbl_upd sd_id i (set_script x) t) = map sans_script t"
  by (induction t) (auto simp: tbl_upd_def sans_script_def set_script_def)

lemma changed_columns_ref:
  "ss_object_key old \<noteq> ss_object_key new \<Longrightarrow> ss_bucket now = ss_bucket new \<Longrightarrow>
     ss_bucket (changed_columns old new now) = ss_bucket new \<and>
     ss_object_key (changed_columns old new now) = ss_object_key new"
  by (simp add: changed_columns_def Let_def)

lemma save_script_cases:
  assumes "save_script d row t = Some t'"
    and "\<And>e y. e \<in> set t \<Longrightarrow> sd_script e = Some y \<Longrightarrow> ss_bucket y = ss_bucket row"
    and "\<And>y. sd_script d = Some y \<Longrightarrow> ss_object_key y \<noteq> ss_object_key row"
  shows "\<exists>x. t' = tbl_upd sd_id (sd_id d) (set_script x) t \<and> ss_bucket x = ss_bucket row \<and>
    ss_object_key x = ss_object_key row"
proof -
  obtain e where e: "tbl_get sd_id (sd_id d) t = Some e" "e \<in> set t" "sd_id e = sd_id d"
    using assms(1) by (auto simp: save_script_def split: option.splits dest: tbl_get_Some)
  show ?thesis
  proof (cases "sd_script d")
    case None
    with assms(1) e have "t' = tbl_upd sd_id (sd_id d) (set_script row) t"
      by (simp add: save_script_def split: if_splits)
    then show ?thesis by blast
  next
    case (Some old)
    then obtain now where now: "sd_script e = Some now"
      and t': "t' = tbl_upd sd_id (sd_id d) (set_script (changed_columns old row now)) t"
      using assms(1) e by (auto simp: save_script_def split: option.splits if_splits)
    from changed_columns_ref [OF assms(3) [OF Some] assms(2) [OF e(2) now]] t' show ?thesis by blast
  qed
qed

lemma catalogue_append:
  assumes "catalogue_ok coll t" and "insert_definition coll d t = Inr t'" and "row_ok coll d"
    and "\<not> sd_is_system d \<and> sd_kind d = ''relation'' \<Longrightarrow>
      \<exists>a b. (a, ''entity'') \<in> (\<lambda>e. (sd_id e, sd_kind e)) ` set t \<and>
        (b, ''entity'') \<in> (\<lambda>e. (sd_id e, sd_kind e)) ` set t \<and>
        sd_source_schema_id d = Some a \<and> sd_target_schema_id d = Some b"
  shows "catalogue_ok coll t' \<and> t' = t @ [d]"
proof -
  have t': "t' = t @ [d]" and new: "\<not> list_ex (\<lambda>e. sd_id e = sd_id d \<or> coll (sd_schema_key e) = coll (sd_schema_key d) \<or>
            coll (sd_name e) = coll (sd_name d)) t"
    and ends: "list_all (\<lambda>r. r = None \<or> list_ex (\<lambda>e. Some (sd_id e) = r) t) [sd_source_schema_id d, sd_target_schema_id d]"
    using assms(2) by (auto simp: insert_definition_def split: if_splits)
  have mono: "ends_exist (t @ [d]) e" if "ends_exist t e" for e
    using that unfolding ends_exist_def by auto
  have refs: "i \<in> sd_id ` set t" if "refers_to i d" for i
    using ends that by (auto simp: refers_to_def list_ex_iff)
  have "ends_exist t d" unfolding ends_exist_def using refs assms(4) by blast
  with mono assms(1,3) new show ?thesis
    unfolding t' by (auto simp: catalogue_ok_def keys_ok_def list_ex_iff)
qed

lemma ends_exist_filter:
  assumes "ends_exist t d" and "\<not> refers_to i d"
  shows "ends_exist (filter (\<lambda>e. sd_id e \<noteq> i) t) d"
  unfolding ends_exist_def
proof (intro conjI allI impI)
  fix j assume j: "refers_to j d"
  with assms have "j \<in> sd_id ` set t" "j \<noteq> i" by (auto simp: ends_exist_def)
  then show "j \<in> sd_id ` set (filter (\<lambda>e. sd_id e \<noteq> i) t)" by auto
next
  let ?P = "\<lambda>t. (\<lambda>e. (sd_id e, sd_kind e)) ` set t"
  assume "\<not> sd_is_system d \<and> sd_kind d = ''relation''"
  with assms(1) obtain a b where ab: "(a, ''entity'') \<in> ?P t" "(b, ''entity'') \<in> ?P t"
    "sd_source_schema_id d = Some a" "sd_target_schema_id d = Some b"
    unfolding ends_exist_def by blast
  with assms(2) have "a \<noteq> i" "b \<noteq> i" by (auto simp: refers_to_def)
  with ab have "(a, ''entity'') \<in> ?P (filter (\<lambda>e. sd_id e \<noteq> i) t)"
    "(b, ''entity'') \<in> ?P (filter (\<lambda>e. sd_id e \<noteq> i) t)" by auto
  with ab(3,4) show "\<exists>a b. (a, ''entity'') \<in> ?P (filter (\<lambda>e. sd_id e \<noteq> i) t) \<and>
      (b, ''entity'') \<in> ?P (filter (\<lambda>e. sd_id e \<noteq> i) t) \<and>
      sd_source_schema_id d = Some a \<and> sd_target_schema_id d = Some b" by blast
qed

lemma catalogue_del:
  assumes "catalogue_ok coll t" and "delete_definition i t = Some t'"
  shows "catalogue_ok coll t'"
proof -
  have t': "t' = filter (\<lambda>d. sd_id d \<noteq> i) t" and free: "\<not> list_ex (\<lambda>d. sd_id d \<noteq> i \<and> refers_to i d) t"
    using assms(2) by (auto simp: delete_definition_def tbl_del_def split: if_splits)
  have "ends_exist t' d" if "d \<in> set t'" for d
    unfolding t' by (rule ends_exist_filter) (use assms(1) that t' free in \<open>auto simp: catalogue_ok_def list_ex_iff\<close>)
  with assms(1) show ?thesis unfolding t' by (auto simp: catalogue_ok_def keys_ok_filter)
qed

lemma tbl_upd_absent: "k \<notin> key ` set t \<Longrightarrow> tbl_upd key k f t = t"
  by (induction t) (auto simp: tbl_upd_def)

lemma create_catalogue:
  assumes "catalogue_ok (sg_collation cfg) (sx_catalogue s)" and "kind \<in> {''entity'', ''relation''}"
    and "kind = ''relation'' \<Longrightarrow>
      \<exists>a b. (a, ''entity'') \<in> (\<lambda>e. (sd_id e, sd_kind e)) ` set (sx_catalogue s) \<and>
        (b, ''entity'') \<in> (\<lambda>e. (sd_id e, sd_kind e)) ` set (sx_catalogue s) \<and>
        py_source_schema_id p = Some a \<and> py_target_schema_id p = Some b"
    and "create_schema cfg env kind p user s = (r, s')"
  shows "catalogue_ok (sg_collation cfg) (sx_catalogue s') \<and> systems (sx_catalogue s') = systems (sx_catalogue s) \<and>
    sx_objects s' = sx_objects s \<and>
    (\<exists>ds. sx_catalogue s' = sx_catalogue s @ ds \<and> (\<forall>d \<in> set ds. sd_script d = None \<and> sd_id d \<notin> sd_id ` set (sx_catalogue s)))"
proof -
  let ?d = "new_definition (ce_id env) kind p (py_strip user) (ce_now env)"
  let ?r = "run_schema_ddl (ce_graph env) (ce_executed_at env) kind (py_name p) (py_properties p)"
  show ?thesis
  proof (cases "insert_definition (sg_collation cfg) ?d (sx_catalogue s)")
    case (Inl e)
    then have "s' = s" using assms(4) by (cases e) (auto simp: create_schema_def Let_def split: if_splits)
    with assms(1) show ?thesis by (auto intro: exI [of _ "[]"])
  next
    case (Inr t)
    have row: "row_ok (sg_collation cfg) ?d"
      using Inr assms(2) by (auto simp: row_ok_def insert_definition_def split: if_splits)
    have ok: "catalogue_ok (sg_collation cfg) t \<and> t = sx_catalogue s @ [?d]"
      by (rule catalogue_append [OF assms(1) Inr row]) (use assms(3) in auto)
    have fresh: "ce_id env \<notin> sd_id ` set (sx_catalogue s)"
      using Inr by (auto simp: insert_definition_def list_ex_iff split: if_splits)
    let ?e = "set_ddl (ce_executed_at env) ?r ?d"
    have upd: "tbl_upd sd_id (ce_id env) (set_ddl (ce_executed_at env) ?r) t = sx_catalogue s @ [?e]"
      using ok tbl_upd_absent [OF fresh] by (simp add: tbl_upd_def)
    have d: "sd_script ?d = None" "sd_id ?d = ce_id env" "\<not> sd_is_system ?d"
      "sd_script ?e = None" "sd_id ?e = ce_id env" "\<not> sd_is_system ?e"
      by (simp_all add: set_ddl_def)
    have "catalogue_ok (sg_collation cfg) (sx_catalogue s @ [?e]) =
        catalogue_ok (sg_collation cfg) (sx_catalogue s @ [?d])"
      by (simp add: catalogue_ok_def keys_ok_def row_ok_def ends_exist_def refers_to_def set_ddl_def)
    moreover have "sx_objects s' = sx_objects s \<and> sx_catalogue s' \<in> {sx_catalogue s, sx_catalogue s @ [?d], sx_catalogue s @ [?e]}"
      using assms(4) Inr ok upd by (auto simp: create_schema_def Let_def split: if_splits option.splits)
    ultimately show ?thesis using ok d fresh assms(1)
      by (auto simp: systems_def)
  qed
qed

section \<open>Scripts and objects\<close>

definition stored :: "schema_state \<Rightarrow> bool" where
  \<comment> \<open>the script of every schema is in the object store\<close>
  "stored s \<longleftrightarrow> (\<forall>d \<in> set (sx_catalogue s). \<forall>r \<in> old_refs d. sx_objects s r \<noteq> None)"

definition one_owner :: "(string \<times> string \<times> string) list \<Rightarrow> bool" where
  "one_owner refs \<longleftrightarrow> (\<forall>i b j c k. (i, b, k) \<in> set refs \<and> (j, c, k) \<in> set refs \<longrightarrow> i = j)"

definition scripts_ok :: "schema_config \<Rightarrow> schema_world \<Rightarrow> bool" where
  "scripts_ok cfg w \<longleftrightarrow> stored (sw_state w) \<and> (\<forall>(i, b, k) \<in> set (script_refs w). b = sg_bucket cfg) \<and>
     one_owner (script_refs w)"

definition schema_inv :: "schema_config \<Rightarrow> schema_definition list \<Rightarrow> schema_world \<Rightarrow> bool" where
  "schema_inv cfg sys w \<longleftrightarrow> catalogue_ok (sg_collation cfg) (sx_catalogue (sw_state w)) \<and>
     systems (sx_catalogue (sw_state w)) = sys \<and>
     (\<forall>(i, b, k) \<in> set (script_refs w). b = sg_bucket cfg) \<and> one_owner (script_refs w)"

definition acknowledged :: "schema_cmd \<Rightarrow> bool" where
  \<comment> \<open>a commit that stores a script does not raise after it was applied\<close>
  "acknowledged c = (case c of ReplaceScript env i user filename ctype data admin \<Rightarrow> se_commit env \<noteq> CommitLost
     | StoreVerified env n \<Rightarrow> se_commit env \<noteq> CommitLost | _ \<Rightarrow> True)"

lemma script_refs_set: "set (script_refs w) =
  (\<Union>d \<in> set (sx_catalogue (sw_state w)) \<union> vs_definition ` set (sw_sessions w). set (script_ref d))"
  by (auto simp: script_refs_def)

lemma old_refs_iff: "(b, k) \<in> old_refs d \<longleftrightarrow> (sd_id d, b, k) \<in> set (script_ref d)"
  by (auto simp: old_refs_def script_ref_def split: option.splits)

lemma old_refs_script [simp]:
  "sd_script d = None \<Longrightarrow> old_refs d = {}"
  "sd_script d = Some x \<Longrightarrow> old_refs d = {(ss_bucket x, ss_object_key x)}"
  by (simp_all add: old_refs_def script_ref_def)

lemma script_ref_id: "(i, b, k) \<in> set (script_ref d) \<Longrightarrow> i = sd_id d"
  by (auto simp: script_ref_def split: option.splits)

lemma one_owner_mono: "one_owner rs \<Longrightarrow> set rs' \<subseteq> set rs \<Longrightarrow> one_owner rs'"
  unfolding one_owner_def by blast

lemma one_owner_insert:
  assumes "one_owner rs" and "set rs' \<subseteq> insert (i, b, k) (set rs)" and "k \<notin> (\<lambda>(i, b, k). k) ` set rs"
  shows "one_owner rs'"
  unfolding one_owner_def
proof (intro allI impI, elim conjE)
  fix i1 b1 j c l assume "(i1, b1, l) \<in> set rs'" "(j, c, l) \<in> set rs'"
  with assms(2) have "(i1, b1, l) = (i, b, k) \<or> (i1, b1, l) \<in> set rs" "(j, c, l) = (i, b, k) \<or> (j, c, l) \<in> set rs"
    by auto
  moreover have "(i2, b2, k) \<notin> set rs" for i2 b2 using assms(3) by force
  ultimately show "i1 = j" using assms(1) unfolding one_owner_def by blast
qed

lemma persist_keeps:
  assumes inv: "schema_inv cfg sys w" and loaded: "set (script_ref d) \<subseteq> set (script_refs w)"
    and fresh: "fresh_key (script_key env d filename) w"
    and call: "persist_script cfg env d filename ctype data user fn (sw_state w) = (r, s')"
  shows "schema_inv cfg sys (w\<lparr>sw_state := s'\<rparr>) \<and>
    (se_commit env \<noteq> CommitLost \<and> stored (sw_state w) \<longrightarrow> stored s')"
proof -
  let ?s = "sw_state w" and ?k = "script_key env d filename"
  have own: "one_owner (script_refs w)" and "\<forall>(i, b, k) \<in> set (script_refs w). b = sg_bucket cfg"
    using inv by (simp_all add: schema_inv_def)
  then have bucket: "b = sg_bucket cfg" if "(i, b, k) \<in> set (script_refs w)" for i b k
    using that by blast
  have new: "(i, b, ?k) \<notin> set (script_refs w)" for i b
    using fresh by (force simp: fresh_key_def)
  have row_ref: "(sd_id e, r) \<in> set (script_refs w)" if "e \<in> set (sx_catalogue ?s)" "r \<in> old_refs e" for e r
    using that by (cases r) (auto simp: script_refs_set old_refs_iff)
  from persist_cases [OF call] show ?thesis
  proof (elim disjE [where R = ?thesis], goal_cases)
    case 1
    have "sx_objects s' q \<noteq> None" if st: "stored ?s" and e: "e \<in> set (sx_catalogue ?s)" "q \<in> old_refs e" for e q
    proof -
      from row_ref [OF e] new have "q \<noteq> (sg_bucket cfg, ?k)" by auto
      with 1 have "sx_objects s' q = sx_objects ?s q" unfolding kept_but_def by blast
      with st e show ?thesis by (simp add: stored_def)
    qed
    with 1 have "stored ?s \<longrightarrow> stored s'" by (simp add: stored_def)
    moreover have "script_refs (w\<lparr>sw_state := s'\<rparr>) = script_refs w" using 1 by (simp add: script_refs_def)
    ultimately show ?case using inv 1 by (simp add: schema_inv_def)
  next
    case 2
    then obtain t wfid etag where save: "save_script d (script_row cfg env d filename ctype data user fn wfid etag)
        (sx_catalogue ?s) = Some t"
      and cat: "sx_catalogue s' = t"
      and stored_new: "se_commit env = CommitLost \<or> kept_but ({(sg_bucket cfg, ?k)} \<union> old_refs d) ?s s' \<and>
        sx_objects s' (sg_bucket cfg, ?k) = Some data" by blast
    let ?row = "script_row cfg env d filename ctype data user fn wfid etag"
    obtain x where t: "t = tbl_upd sd_id (sd_id d) (set_script x) (sx_catalogue ?s)"
      and x: "ss_bucket x = sg_bucket cfg" "ss_object_key x = ?k"
    proof -
      have "\<exists>x. t = tbl_upd sd_id (sd_id d) (set_script x) (sx_catalogue ?s) \<and> ss_bucket x = ss_bucket ?row \<and>
          ss_object_key x = ss_object_key ?row"
      proof (rule save_script_cases [OF save])
        fix e y assume e: "e \<in> set (sx_catalogue ?s)" "sd_script e = Some y"
        then have "(sd_id e, ss_bucket y, ss_object_key y) \<in> set (script_refs w)"
          by (intro row_ref) simp_all
        from bucket [OF this] show "ss_bucket y = ss_bucket ?row" by (simp add: script_row_def)
      next
        fix y assume y: "sd_script d = Some y"
        with loaded have "(sd_id d, ss_bucket y, ss_object_key y) \<in> set (script_refs w)"
          by (simp add: script_ref_def)
        with new show "ss_object_key y \<noteq> ss_object_key ?row" by (auto simp: script_row_def)
      qed
      then show thesis by (auto simp: script_row_def intro: that)
    qed
    have refs: "set (script_refs (w\<lparr>sw_state := s'\<rparr>)) \<subseteq> insert (sd_id d, sg_bucket cfg, ?k) (set (script_refs w))"
    proof -
      have "set (script_ref e) \<subseteq> insert (sd_id d, sg_bucket cfg, ?k) (set (script_refs w))" if "e \<in> set t" for e
        using that x unfolding t by (auto simp: set_tbl_upd script_refs_set script_ref_def set_script_def split: if_splits)
      with cat show ?thesis by (auto simp: script_refs_set)
    qed
    have "stored s'" if st: "stored ?s" and ack: "se_commit env \<noteq> CommitLost"
      unfolding stored_def
    proof (intro ballI)
      fix e q assume e: "e \<in> set (sx_catalogue s')" and q: "q \<in> old_refs e"
      obtain e0 where e0: "e0 \<in> set (sx_catalogue ?s)" "e = (if sd_id e0 = sd_id d then set_script x e0 else e0)"
        using e cat t by (auto simp: set_tbl_upd)
      show "sx_objects s' q \<noteq> None"
      proof (cases "sd_id e0 = sd_id d")
        case True
        with q e0 x stored_new ack show ?thesis by (auto simp: set_script_def)
      next
        case False
        with e0 q have q0: "q \<in> old_refs e0" by simp
        have "q \<noteq> (sg_bucket cfg, ?k)" using row_ref [OF e0(1) q0] new by auto
        moreover have "q \<notin> old_refs d"
        proof
          assume "q \<in> old_refs d"
          then have "(sd_id d, q) \<in> set (script_refs w)"
            using loaded by (cases q) (auto simp: old_refs_iff)
          with row_ref [OF e0(1) q0] own False show False
            unfolding one_owner_def by (cases q) blast
        qed
        ultimately have "sx_objects s' q = sx_objects ?s q" using stored_new ack unfolding kept_but_def by blast
        with st e0(1) q0 show ?thesis by (auto simp: stored_def)
      qed
    qed
    moreover have "one_owner (script_refs (w\<lparr>sw_state := s'\<rparr>))"
      using own refs by (rule one_owner_insert) (use fresh in \<open>simp add: fresh_key_def\<close>)
    moreover have "b = sg_bucket cfg" if "(i, b, k) \<in> set (script_refs (w\<lparr>sw_state := s'\<rparr>))" for i b k
      using subsetD [OF refs that] bucket by auto
    moreover have same: "map sans_script t = map sans_script (sx_catalogue ?s)" unfolding t by (rule sans_set_script)
    moreover have "systems t = systems (sx_catalogue ?s)" using same by (simp add: systems_def)
    ultimately show ?case using inv cat catalogue_ok_same [OF same]
      by (auto simp: schema_inv_def)
  qed
qed

lemma schema_inv_sessions:
  assumes "schema_inv cfg sys w"
    and "vs_definition ` set vs \<subseteq> set (sx_catalogue (sw_state w)) \<union> vs_definition ` set (sw_sessions w)"
  shows "schema_inv cfg sys (w\<lparr>sw_sessions := vs\<rparr>)"
proof -
  have "set (script_refs (w\<lparr>sw_sessions := vs\<rparr>)) \<subseteq> set (script_refs w)"
    using assms(2) unfolding script_refs_set by auto
  with assms(1) show ?thesis
    unfolding schema_inv_def by (auto intro: one_owner_mono)
qed

lemma create_keeps:
  assumes "schema_inv cfg sys w" and "kind \<in> {''entity'', ''relation''}"
    and "kind = ''relation'' \<Longrightarrow>
      \<exists>a b. (a, ''entity'') \<in> (\<lambda>e. (sd_id e, sd_kind e)) ` set (sx_catalogue (sw_state w)) \<and>
        (b, ''entity'') \<in> (\<lambda>e. (sd_id e, sd_kind e)) ` set (sx_catalogue (sw_state w)) \<and>
        py_source_schema_id p = Some a \<and> py_target_schema_id p = Some b"
    and "create_schema cfg env kind p user (sw_state w) = (r, s')"
  shows "schema_inv cfg sys (w\<lparr>sw_state := s'\<rparr>) \<and> (stored (sw_state w) \<longrightarrow> stored s')"
proof -
  have "catalogue_ok (sg_collation cfg) (sx_catalogue (sw_state w))" using assms(1) by (simp add: schema_inv_def)
  from create_catalogue [OF this assms(2,3,4)] obtain ds where
    *: "catalogue_ok (sg_collation cfg) (sx_catalogue s')" "systems (sx_catalogue s') = systems (sx_catalogue (sw_state w))"
    "sx_objects s' = sx_objects (sw_state w)" "sx_catalogue s' = sx_catalogue (sw_state w) @ ds"
    "\<forall>d \<in> set ds. sd_script d = None" by blast
  then have "script_refs (w\<lparr>sw_state := s'\<rparr>) = script_refs w"
    by (auto simp: script_refs_def script_ref_def)
  moreover have "stored s'" if "stored (sw_state w)"
    using that * by (simp add: stored_def ball_Un)
  ultimately show ?thesis using assms(1) * by (auto simp: schema_inv_def)
qed

lemma systems_del:
  "(\<And>d. d \<in> set t \<Longrightarrow> sd_id d = i \<Longrightarrow> \<not> sd_is_system d) \<Longrightarrow> systems (tbl_del sd_id i t) = systems t"
  by (induction t) (auto simp: systems_def tbl_del_def)

lemma delete_cases:
  assumes call: "delete_schema env i user admin s = (r, s')" and moved: "s' \<noteq> s"
  obtains d t where "get_definition i (sx_catalogue s) = Some d" and "\<not> sd_is_system d"
    and "delete_definition i (sx_catalogue s) = Some t" and "sx_catalogue s' = t" and "kept_but (old_refs d) s s'"
proof (cases "get_definition i (sx_catalogue s)")
  case None
  with call moved show ?thesis by (simp add: delete_schema_def Let_def split: if_splits)
next
  case d: (Some d)
  with call moved have sys: "\<not> sd_is_system d"
    by (cases "sd_is_system d") (simp_all add: delete_schema_def Let_def split: if_splits)
  show ?thesis
  proof (cases "delete_definition i (sx_catalogue s)")
    case None
    with call moved d sys show ?thesis by (simp add: delete_schema_def Let_def split: if_splits)
  next
    case t: (Some t)
    have "sx_catalogue s' = t \<and> kept_but (old_refs d) s s'"
    proof (cases "sd_script d")
      case None
      with call moved d sys t have "s' = s\<lparr>sx_catalogue := t\<rparr>"
        by (simp add: delete_schema_def Let_def split: if_splits)
      then show ?thesis by (simp add: kept_but_def)
    next
      case (Some x)
      obtain b s1 where del: "delete_object env (ss_bucket x, ss_object_key x) (s\<lparr>sx_catalogue := t\<rparr>) = (b, s1)"
        by (cases "delete_object env (ss_bucket x, ss_object_key x) (s\<lparr>sx_catalogue := t\<rparr>)")
      with call moved d sys t Some have "s' = s1 \<or> s' = s\<lparr>sx_catalogue := t\<rparr>"
        by (auto simp: delete_schema_def Let_def split: if_splits)
      with delete_object_frame [OF del] Some show ?thesis by (auto simp: kept_but_def)
    qed
    with that d sys t show ?thesis by blast
  qed
qed

lemma delete_keeps:
  assumes inv: "schema_inv cfg sys w" and call: "delete_schema env i user admin (sw_state w) = (r, s')"
  shows "schema_inv cfg sys (w\<lparr>sw_state := s'\<rparr>) \<and> (stored (sw_state w) \<longrightarrow> stored s')"
proof (cases "s' = sw_state w")
  case True
  with inv show ?thesis by simp
next
  case False
  let ?s = "sw_state w"
  obtain d t where d: "get_definition i (sx_catalogue ?s) = Some d" "\<not> sd_is_system d"
    and t: "delete_definition i (sx_catalogue ?s) = Some t" "sx_catalogue s' = t" and kept: "kept_but (old_refs d) ?s s'"
    by (rule delete_cases [OF call False])
  have cat: "catalogue_ok (sg_collation cfg) (sx_catalogue ?s)" and sys: "systems (sx_catalogue ?s) = sys"
    and own: "one_owner (script_refs w)"
    using inv by (simp_all add: schema_inv_def)
  have td: "t = tbl_del sd_id i (sx_catalogue ?s)" using t(1) by (simp add: delete_definition_def split: if_splits)
  have dt: "d \<in> set (sx_catalogue ?s)" "sd_id d = i" using d(1) by (auto simp: get_definition_def dest: tbl_get_Some)
  have only: "\<not> sd_is_system e" if "e \<in> set (sx_catalogue ?s)" "sd_id e = i" for e
    using tbl_get_unique [of sd_id, OF _ that(1)] cat d that(2) by (simp add: catalogue_ok_def get_definition_def)
  have refs: "set (script_refs (w\<lparr>sw_state := s'\<rparr>)) \<subseteq> set (script_refs w)"
    unfolding script_refs_set using t(2) td by (auto simp: tbl_del_def)
  have "sx_objects s' q \<noteq> None" if st: "stored ?s" and e: "e \<in> set t" "q \<in> old_refs e" for e q
  proof -
    from e td have e0: "e \<in> set (sx_catalogue ?s)" "sd_id e \<noteq> i" by (auto simp: tbl_del_def)
    have "q \<notin> old_refs d"
    proof
      assume "q \<in> old_refs d"
      with dt e0 e(2) have "(sd_id d, q) \<in> set (script_refs w)" "(sd_id e, q) \<in> set (script_refs w)"
        by (cases q; auto simp: script_refs_set old_refs_iff)+
      with own dt e0 show False unfolding one_owner_def by (cases q) blast
    qed
    with kept have "sx_objects s' q = sx_objects ?s q" unfolding kept_but_def by blast
    with st e0 e(2) show ?thesis by (simp add: stored_def)
  qed
  then have "stored ?s \<longrightarrow> stored s'" using t(2) by (simp add: stored_def)
  moreover have "systems t = sys" unfolding td sys [symmetric] by (rule systems_del [OF only])
  moreover have "\<forall>(i, b, k) \<in> set (script_refs (w\<lparr>sw_state := s'\<rparr>)). b = sg_bucket cfg"
    using inv refs unfolding schema_inv_def by blast
  ultimately show ?thesis
    using catalogue_del [OF cat t(1)] one_owner_mono [OF own refs] t(2) by (simp add: schema_inv_def)
qed

lemma get_entity_pair:
  "get_entity i t = Some a \<Longrightarrow> (i, ''entity'') \<in> (\<lambda>e. (sd_id e, sd_kind e)) ` set t"
  by (force simp: get_entity_def find_Some_iff image_iff)

lemma replace_keeps:
  assumes "schema_inv cfg sys w" and "get_definition i (sx_catalogue (sw_state w)) = Some d"
    and "fresh_key (script_key env d filename) w"
    and "replace_script cfg env i user filename ctype data admin (sw_state w) = (r, s')"
  shows "schema_inv cfg sys (w\<lparr>sw_state := s'\<rparr>) \<and>
    (se_commit env \<noteq> CommitLost \<and> stored (sw_state w) \<longrightarrow> stored s')"
proof (cases "s' = sw_state w")
  case True
  with assms(1) show ?thesis by simp
next
  case False
  then obtain fn where call: "persist_script cfg env d filename ctype data (py_strip user) fn (sw_state w) = (r, s')"
    using assms(2,4)
    by (auto simp: replace_script_def assert_script_modifiable_def Let_def split: sum.splits if_splits option.splits)
  have "set (script_ref d) \<subseteq> set (script_refs w)"
    using assms(2) by (auto simp: get_definition_def script_refs_set dest!: tbl_get_Some)
  from persist_keeps [OF assms(1) this assms(3) call] show ?thesis .
qed

lemma verify_save_state:
  "snd (verify_save cfg env v s) =
     snd (persist_script cfg env (vs_definition v) (vs_filename v) (vs_content_type v) (vs_data v) (vs_user v) (vs_function v) s)"
  by (auto simp: verify_save_def split: prod.splits sum.splits schema_error.splits)

lemma in_remove_nth: "x \<in> set (remove_nth n xs) \<Longrightarrow> x \<in> set xs"
  by (auto simp: remove_nth_def dest: in_set_takeD in_set_dropD)

lemma verify_begin_saves:
  "verify_begin cfg client i user filename ctype data admin s = VerifySaves es v \<Longrightarrow>
     get_definition i (sx_catalogue s) = Some (vs_definition v)"
  by (auto simp: verify_begin_def Let_def split: option.splits sum.splits schema_error.splits if_splits)

lemma create_relation_cases:
  assumes "snd (create_relation cfg env p user s) \<noteq> s"
  obtains a b p' where "get_entity (opt_str (py_source_schema_id p)) (sx_catalogue s) = Some a"
    and "get_entity (opt_str (py_target_schema_id p)) (sx_catalogue s) = Some b"
    and "py_source_schema_id p' = Some (opt_str (py_source_schema_id p))"
    and "py_target_schema_id p' = Some (opt_str (py_target_schema_id p))"
    and "create_relation cfg env p user s = create_schema cfg env ''relation'' p' user s"
proof -
  let ?target = "\<lambda>i. if opt_truthy i then get_entity (opt_str i) (sx_catalogue s) else None"
  obtain a b where ends: "?target (py_source_schema_id p) = Some a" "?target (py_target_schema_id p) = Some b"
    using assms by (cases "?target (py_source_schema_id p)"; cases "?target (py_target_schema_id p)")
      (auto simp: create_relation_def Let_def split: if_splits)
  then have "opt_truthy (py_source_schema_id p)" "opt_truthy (py_target_schema_id p)" by (auto split: if_splits)
  with ends show ?thesis
    by (intro that) (auto simp: create_relation_def Let_def opt_truthy_def opt_str_def split: option.splits)
qed

lemma exec_schema_keeps:
  assumes "schema_inv cfg sys w" and "exec_schema cfg c w = Inr w'"
  shows "schema_inv cfg sys w' \<and> (acknowledged c \<and> stored (sw_state w) \<longrightarrow> stored (sw_state w'))"
proof (cases c)
  case (CreateEntity env p user)
  obtain r s' where "create_schema cfg env ''entity'' p user (sw_state w) = (r, s')"
    by (cases "create_schema cfg env ''entity'' p user (sw_state w)")
  from create_keeps [OF assms(1) _ _ this] this assms(2) CreateEntity show ?thesis
    by (auto simp: exec_schema_def create_entity_def with_state_def)
next
  case (CreateRelation env p user)
  let ?call = "create_relation cfg env p user (sw_state w)"
  have w': "w' = w\<lparr>sw_state := snd ?call\<rparr>" using assms(2) CreateRelation by (simp add: exec_schema_def with_state_def)
  show ?thesis
  proof (cases "snd ?call = sw_state w")
    case True
    with assms(1) w' show ?thesis by simp
  next
    case False
    then obtain a b p' where ends: "get_entity (opt_str (py_source_schema_id p)) (sx_catalogue (sw_state w)) = Some a"
        "get_entity (opt_str (py_target_schema_id p)) (sx_catalogue (sw_state w)) = Some b"
      and p': "py_source_schema_id p' = Some (opt_str (py_source_schema_id p))"
        "py_target_schema_id p' = Some (opt_str (py_target_schema_id p))"
      and call: "?call = create_schema cfg env ''relation'' p' user (sw_state w)"
      by (rule create_relation_cases)
    obtain r s' where cs: "create_schema cfg env ''relation'' p' user (sw_state w) = (r, s')"
      by (cases "create_schema cfg env ''relation'' p' user (sw_state w)")
    have "schema_inv cfg sys (w\<lparr>sw_state := s'\<rparr>) \<and> (stored (sw_state w) \<longrightarrow> stored s')"
      by (rule create_keeps [OF assms(1) _ _ cs])
        (use get_entity_pair [OF ends(1)] get_entity_pair [OF ends(2)] p' in auto)
    with call cs w' show ?thesis by simp
  qed
next
  case (ReplaceScript env i user filename ctype data admin)
  then show ?thesis
    using assms replace_keeps [OF assms(1) _ _ prod.collapse [symmetric], where env = env]
    by (auto simp: exec_schema_def with_state_def acknowledged_def split: option.splits if_splits)
next
  case (VerifyScript client i user filename ctype data admin)
  show ?thesis
  proof (cases "verify_begin cfg client i user filename ctype data admin (sw_state w)")
    case (VerifySaves es v)
    then have "vs_definition v \<in> set (sx_catalogue (sw_state w))"
      by (auto simp: get_definition_def dest!: verify_begin_saves tbl_get_Some)
    then have "schema_inv cfg sys (w\<lparr>sw_sessions := sw_sessions w @ [v]\<rparr>)"
      by (intro schema_inv_sessions [OF assms(1)]) auto
    with VerifySaves VerifyScript assms(2) show ?thesis by (auto simp: exec_schema_def)
  qed (use VerifyScript assms in \<open>simp_all add: exec_schema_def\<close>)
next
  case (StoreVerified env n)
  let ?v = "sw_sessions w ! n"
  let ?d = "vs_definition ?v"
  let ?s' = "snd (verify_save cfg env ?v (sw_state w))"
  have n: "n < length (sw_sessions w)" and fresh: "fresh_key (script_key env ?d (vs_filename ?v)) w"
    and w': "w' = w\<lparr>sw_state := ?s', sw_sessions := remove_nth n (sw_sessions w)\<rparr>"
    using assms(2) StoreVerified by (auto simp: exec_schema_def Let_def split: if_splits)
  have loaded: "set (script_ref ?d) \<subseteq> set (script_refs w)" using n by (auto simp: script_refs_set)
  obtain r s' where call: "persist_script cfg env ?d (vs_filename ?v) (vs_content_type ?v) (vs_data ?v)
      (vs_user ?v) (vs_function ?v) (sw_state w) = (r, s')" by fastforce
  note kept = persist_keeps [OF assms(1) loaded fresh call]
  then have "schema_inv cfg sys (w\<lparr>sw_state := s'\<rparr>\<lparr>sw_sessions := remove_nth n (sw_sessions w)\<rparr>)"
    by (intro schema_inv_sessions) (auto dest: in_remove_nth)
  with w' call kept StoreVerified show ?thesis by (simp add: verify_save_state acknowledged_def)
next
  case (DeleteSchema env i user admin)
  then show ?thesis
    using assms delete_keeps [OF assms(1) prod.collapse [symmetric], where env = env]
    by (auto simp: exec_schema_def with_state_def)
next
  case (UploadPython env filename data fn i name timeout)
  obtain r s' where call: "create_python_definition cfg env filename data fn i name timeout (sw_state w) = (r, s')"
    by (cases "create_python_definition cfg env filename data fn i name timeout (sw_state w)")
  with UploadPython assms(2) have "w' = w\<lparr>sw_state := s'\<rparr>" by (auto simp: exec_schema_def with_state_def)
  with python_frame [OF call] assms(1) show ?thesis by (simp add: schema_inv_def script_refs_def stored_def)
qed

interpretation schemas: guarded_system "exec_schema cfg" "schema_inv cfg sys"
  for cfg :: schema_config and sys :: "schema_definition list"
  by unfold_locales (use exec_schema_keeps in blast)

lemma run_stored:
  assumes "schema_inv cfg sys w0" and "stored (sw_state w0)" and "list_all acknowledged cs"
  shows "stored (sw_state (run_cmds (exec_schema cfg) cs w0))"
  using assms
proof (induction cs arbitrary: w0)
  case (Cons c cs)
  then show ?case using exec_schema_keeps [of cfg sys w0 c] by (cases "exec_schema cfg c w0") auto
qed simp
end
