(* ===== verification/Schema_Api.thy ===== *)
theory Schema_Api
  imports Schema_Service Operator_Api
begin

text \<open>
  The requests (backend/biz/schemas/schema\_management.py), the queries of backend/service/schema\_management.py and the HTTP interface of schemas,
  backend/biz/handler/schema\_management.py.  An answer is the JSON value the service builds; its
  encoding as text, the validation of query parameters and the stream of events to the browser
  belong to the framework.
\<close>

section \<open>Requests\<close>

fun all_valid :: "('a \<Rightarrow> 'b option) \<Rightarrow> 'a list \<Rightarrow> 'b list option" where
  "all_valid f [] = Some []"
| "all_valid f (x # xs) = opt_bind (f x) (\<lambda>y. map_option (Cons y) (all_valid f xs))"

definition sized :: "nat \<Rightarrow> nat \<Rightarrow> string \<Rightarrow> bool" where
  "sized a b s \<longleftrightarrow> a \<le> py_len s \<and> py_len s \<le> b"

definition valid_property ::
  "(string \<Rightarrow> bool) \<Rightarrow> unicode_classes \<Rightarrow> schema_property \<Rightarrow> schema_property option" where
  \<comment> \<open>\<open>SchemaPropertyInput\<close>; every text is stripped\<close>
  "valid_property keyword_match uc p =
     opt_bind (valid_text keyword_match (sp_rule p)) (\<lambda>rule.
       let q = \<lparr>sp_name = py_strip (sp_name p), sp_data_type = py_strip (sp_data_type p),
             sp_required = sp_required p, sp_rule = rule, sp_category = py_strip (sp_category p)\<rparr>
       in if property_ok uc q then Some q else None)"

definition valid_schema ::
  "(string \<Rightarrow> bool) \<Rightarrow> (string \<Rightarrow> bool) \<Rightarrow> unicode_classes \<Rightarrow> (string \<Rightarrow> bool) \<Rightarrow> schema_payload \<Rightarrow> schema_payload option" where
  \<comment> \<open>\<open>SchemaCreateBase\<close> with the rule for names; None: refused with 422\<close>
  "valid_schema identifier_match keyword_match uc name_rule p =
     opt_bind (valid_text keyword_match (py_label p)) (\<lambda>label.
     opt_bind (valid_text keyword_match (py_description p)) (\<lambda>description.
     opt_bind (valid_text keyword_match (py_identity_key p)) (\<lambda>identity.
     opt_bind (all_valid (valid_property keyword_match uc) (py_properties p)) (\<lambda>ps.
       let key = py_strip (py_schema_key p); n = py_strip (py_name p); v = py_strip (py_version p);
           ms = filter (\<lambda>m. m \<noteq> []) (map py_strip (py_mappings p)); llm = map_option py_strip (py_llm_config_id p)
       in if sized 1 64 key \<and> key_ok key \<and> sized 1 64 n \<and> name_rule n \<and> sized 1 64 label \<and>
             sized 0 64 description \<and> sized 0 64 identity \<and> 1 \<le> length ps \<and> length ps \<le> 200 \<and>
             length (py_mappings p) \<le> 100 \<and> distinct ms \<and>
             list_all (\<lambda>m. check_text identifier_match m \<noteq> None) ms \<and> sized 1 32 v \<and>
             sized 0 64 (opt_str llm) \<and> distinct (map sp_name ps)
          then Some (p\<lparr>py_schema_key := key, py_name := n, py_label := label, py_description := description,
            py_identity_key := identity, py_properties := ps, py_mappings := ms, py_version := v,
            py_llm_config_id := llm\<rparr>)
          else None))))"

definition valid_entity ::
  "(string \<Rightarrow> bool) \<Rightarrow> (string \<Rightarrow> bool) \<Rightarrow> unicode_classes \<Rightarrow> schema_payload \<Rightarrow> schema_payload option" where
  \<comment> \<open>\<open>EntitySchemaCreate\<close>, which has no fields of a relation\<close>
  "valid_entity identifier_match keyword_match uc p =
     valid_schema identifier_match keyword_match uc entity_name_ok
       (p\<lparr>py_relation_category := None, py_source_schema_id := None, py_target_schema_id := None,
          py_source_expression := None, py_target_expression := None\<rparr>)"

definition valid_expression :: "(string \<Rightarrow> bool) \<Rightarrow> string option \<Rightarrow> string option option" where
  "valid_expression keyword_match v =
     (case v of
        None \<Rightarrow> Some None
      | Some e \<Rightarrow> opt_bind (valid_text keyword_match e) (\<lambda>x. if sized 1 64 x then Some (Some x) else None))"

definition valid_relation ::
  "(string \<Rightarrow> bool) \<Rightarrow> (string \<Rightarrow> bool) \<Rightarrow> unicode_classes \<Rightarrow> schema_payload \<Rightarrow> schema_payload option" where
  \<comment> \<open>\<open>RelationSchemaCreate\<close>\<close>
  "valid_relation identifier_match keyword_match uc p =
     opt_bind (valid_expression keyword_match (py_source_expression p)) (\<lambda>source.
     opt_bind (valid_expression keyword_match (py_target_expression p)) (\<lambda>target.
     opt_bind (valid_schema identifier_match keyword_match uc relation_name_ok p) (\<lambda>q.
       let a = map_option py_strip (py_source_schema_id p); b = map_option py_strip (py_target_schema_id p);
           c = py_strip (opt_str (py_relation_category p))
       in if (a = None \<or> sized 1 36 (opt_str a)) \<and> (b = None \<or> sized 1 36 (opt_str b)) \<and>
             c \<in> {''fact'', ''inferred''} \<and> (a \<noteq> None \<or> source \<noteq> None) \<and> (b \<noteq> None \<or> target \<noteq> None)
          then Some (q\<lparr>py_relation_category := Some c, py_source_schema_id := a, py_target_schema_id := b,
            py_source_expression := source, py_target_expression := target\<rparr>)
          else None)))"

lemma all_valid_set: "all_valid f xs = Some ys \<Longrightarrow> y \<in> set ys \<Longrightarrow> \<exists>x. f x = Some y"
  by (induction xs arbitrary: ys) (auto simp: opt_bind_def split: option.splits)

lemma valid_property_ok: "valid_property kw uc p = Some q \<Longrightarrow> property_ok uc q"
  by (auto simp: valid_property_def opt_bind_def Let_def split: option.splits if_splits)

lemma valid_schema_ok:
  assumes "valid_schema idm kw uc name_rule p = Some q"
  shows "name_rule (py_name q) \<and> py_properties q \<noteq> [] \<and> (\<forall>x \<in> set (py_properties q). property_ok uc x)"
  using assms all_valid_set [of "valid_property kw uc" "py_properties p"] valid_property_ok
  by (fastforce simp: valid_schema_def opt_bind_def Let_def split: option.splits if_splits)

lemma valid_request_ok:
  "valid_entity idm kw uc p = Some q \<Longrightarrow>
     entity_name_ok (py_name q) \<and> py_properties q \<noteq> [] \<and> (\<forall>x \<in> set (py_properties q). property_ok uc x)"
  "valid_relation idm kw uc p = Some q \<Longrightarrow>
     relation_name_ok (py_name q) \<and> py_properties q \<noteq> [] \<and> (\<forall>x \<in> set (py_properties q). property_ok uc x)"
proof -
  show "valid_entity idm kw uc p = Some q \<Longrightarrow>
      entity_name_ok (py_name q) \<and> py_properties q \<noteq> [] \<and> (\<forall>x \<in> set (py_properties q). property_ok uc x)"
    unfolding valid_entity_def by (rule valid_schema_ok)
  assume "valid_relation idm kw uc p = Some q"
  then obtain r where "valid_schema idm kw uc relation_name_ok p = Some r" "py_name q = py_name r"
    "py_properties q = py_properties r"
    by (auto simp: valid_relation_def opt_bind_def Let_def split: option.splits if_splits)
  with valid_schema_ok [of idm kw uc relation_name_ok p r]
  show "relation_name_ok (py_name q) \<and> py_properties q \<noteq> [] \<and> (\<forall>x \<in> set (py_properties q). property_ok uc x)"
    by simp
qed

section \<open>Serialization\<close>

definition text_or_null :: "string option \<Rightarrow> json" where
  "text_or_null v = (case v of None \<Rightarrow> JNull | Some s \<Rightarrow> JStr s)"

definition zh_entity :: string where
  \<comment> \<open>U+5B9E U+4F53 (entity)\<close>
  "zh_entity = [CHR 0xE5, CHR 0xAE, CHR 0x9E, CHR 0xE4, CHR 0xBD, CHR 0x93]"

definition end_name :: "schema_table \<Rightarrow> string option \<Rightarrow> string option \<Rightarrow> json" where
  \<comment> \<open>the expression, or the name of the schema at this end\<close>
  "end_name t expr i =
     (if opt_truthy expr then text_or_null expr
      else case i of None \<Rightarrow> JNull
        | Some k \<Rightarrow> (case get_definition k t of None \<Rightarrow> JNull | Some d \<Rightarrow> JStr (sd_name d)))"

definition can_delete :: "string option \<Rightarrow> bool \<Rightarrow> schema_definition \<Rightarrow> bool" where
  "can_delete user admin d \<longleftrightarrow> opt_truthy user \<and> \<not> sd_is_system d \<and> (admin \<or> sd_created_by d = user)"

definition serialize_script :: "string \<Rightarrow> schema_script option \<Rightarrow> json" where
  "serialize_script i script =
     (case script of
        None \<Rightarrow> JNull
      | Some x \<Rightarrow> JObj
          [(''filename'', JStr (ss_original_filename x)), (''contentType'', JStr (ss_content_type x)),
           (''sizeBytes'', JInt (int (ss_size_bytes x))), (''etag'', text_or_null (ss_etag x)),
           (''sha256'', JStr (ss_sha256 x)), (''uploadedBy'', JStr (ss_uploaded_by x)),
           (''uploadedAt'', JStr (ss_uploaded_at x)),
           (''workflowDefinitionId'', text_or_null (ss_workflow_definition_id x)),
           (''workflowFunctionName'', text_or_null (ss_workflow_function_name x)),
           (''downloadUrl'', JStr (''/api/v1/schema-management/schemas/'' @ i @ ''/script''))])"

definition serialize_property :: "schema_property \<Rightarrow> json" where
  "serialize_property p = JObj
     [(''name'', JStr (sp_name p)), (''dataType'', JStr (sp_data_type p)), (''required'', JBool (sp_required p)),
      (''rule'', JStr (sp_rule p)), (''category'', JStr (sp_category p))]"

definition serialize :: "schema_table \<Rightarrow> string option \<Rightarrow> bool \<Rightarrow> bool \<Rightarrow> schema_definition \<Rightarrow> dict" where
  "serialize t user detail admin d =
     [(''id'', JStr (sd_id d)), (''key'', JStr (sd_schema_key d)), (''kind'', JStr (sd_kind d)),
      (''kindLabel'', JStr (if sd_kind d = ''entity'' then zh_entity else zh_relation)),
      (''name'', JStr (sd_name d)), (''label'', JStr (sd_label d)), (''description'', JStr (sd_description d)),
      (''identityKey'', JStr (sd_identity_key d)),
      (''attributeIdentityKey'', JStr (sd_attribute_identity_key d)),
      (''attributeSource'', JStr (sd_attribute_source d)), (''instanceCount'', JInt (sd_instance_count d)),
      (''version'', JStr (sd_version d)), (''isCore'', JBool (sd_is_core d)),
      (''relationCategory'', text_or_null (sd_relation_category d)), (''isSystem'', JBool (sd_is_system d)),
      (''createdBy'', text_or_null (sd_created_by d)), (''createdAt'', JStr (sd_created_at d)),
      (''updatedAt'', JStr (sd_updated_at d)), (''sourceSchemaId'', text_or_null (sd_source_schema_id d)),
      (''sourceSchemaName'', end_name t (sd_source_expression d) (sd_source_schema_id d)),
      (''targetSchemaId'', text_or_null (sd_target_schema_id d)),
      (''targetSchemaName'', end_name t (sd_target_expression d) (sd_target_schema_id d)),
      (''mappings'', JList (map JStr (sd_mappings d))), (''llmConfigId'', text_or_null (sd_llm_config_id d)),
      (''ddlStatement'', text_or_null (sd_ddl_statement d)), (''ddlStatus'', JStr (sd_ddl_status d)),
      (''ddlError'', text_or_null (sd_ddl_error d)), (''ddlExecutedAt'', text_or_null (sd_ddl_executed_at d)),
      (''canDelete'', JBool (can_delete user admin d))] @
     (if detail
      then [(''properties'', JList (map serialize_property (sd_properties d))),
            (''script'', serialize_script (sd_id d) (sd_script d))]
      else [(''propertyCount'', JInt (int (length (sd_properties d)))),
            (''scriptFilename'', text_or_null (map_option ss_original_filename (sd_script d)))])"

section \<open>Queries\<close>

record catalog_settings =
  cg_version :: string          \<comment> \<open>\<open>SCHEMA_CATALOG_VERSION\<close>\<close>
  cg_environment :: string
  cg_released_at :: string

definition overview :: "schema_config \<Rightarrow> catalog_settings \<Rightarrow> schema_table \<Rightarrow> dict" where
  "overview cfg c t =
     (let s = stats (sg_collation cfg) t; n = (\<lambda>k. JInt (int k)) in
      [(''currentVersion'', JStr (cg_version c)), (''environment'', JStr (cg_environment c)),
       (''releasedAt'', JStr (cg_released_at c)), (''entityTypes'', n (st_entity_count s)),
       (''coreEntityTypes'', n (st_core_count s)), (''relationTypes'', n (st_relation_count s)),
       (''factRelationTypes'', n (st_fact_count s)), (''inferredRelationTypes'', n (st_inferred_count s)),
       (''propertyFields'', n (st_property_count s)), (''requiredFields'', n (st_required_count s)),
       (''constraintRules'', n (st_constraint_count s)), (''sourceMappings'', n (st_mapping_count s))])"

definition viewer :: "string option \<Rightarrow> string option" where
  \<comment> \<open>\<open>user\_id.strip() if user\_id else None\<close>\<close>
  "viewer user = (if opt_truthy user then map_option py_strip user else None)"

definition list_schemas ::
  "schema_config \<Rightarrow> string option \<Rightarrow> string option \<Rightarrow> nat \<Rightarrow> nat \<Rightarrow> string option \<Rightarrow> bool \<Rightarrow> bool \<Rightarrow> schema_table \<Rightarrow> dict" where
  "list_schemas cfg kind keyword page page_size user detail admin t =
     (case list_definitions (sg_collation cfg) kind keyword page page_size t of (items, hits) \<Rightarrow>
        [(''items'', JList (map (\<lambda>d. JObj (serialize t (viewer user) detail admin d)) items)),
         (''total'', JInt (int hits)), (''page'', JInt (int page)), (''pageSize'', JInt (int page_size))])"

definition get_schema ::
  "string \<Rightarrow> string option \<Rightarrow> bool \<Rightarrow> schema_table \<Rightarrow> schema_error + dict" where
  "get_schema i user admin t =
     (case get_definition i t of
        None \<Rightarrow> Inl (SchemaNotFound i)
      | Some d \<Rightarrow> Inr (serialize t (viewer user) True admin d))"

definition topology :: "schema_config \<Rightarrow> string option \<Rightarrow> bool \<Rightarrow> schema_table \<Rightarrow> dict" where
  "topology cfg user admin t =
     (let ds = list_all_definitions (sg_collation cfg) t;
          ser = (\<lambda>d. serialize t (viewer user) False admin d) in
      [(''nodes'', JList (map (\<lambda>d. JObj (ser d)) (filter (\<lambda>d. sd_kind d = ''entity'') ds))),
       (''edges'', JList (map (\<lambda>d. JObj (dmerge (ser d)
          [(''sourceSchemaId'', text_or_null (sd_source_schema_id d)), (''targetSchemaId'', text_or_null (sd_target_schema_id d))]))
          (filter (\<lambda>d. sd_kind d = ''relation'') ds)))])"

definition get_script :: "bool \<Rightarrow> string \<Rightarrow> schema_state \<Rightarrow> schema_error + schema_script \<times> string" where
  \<comment> \<open>the flag says that the object store answers; a missing object is an error of the client\<close>
  "get_script answers i s =
     (case get_definition i (sx_catalogue s) of
        None \<Rightarrow> Inl (SchemaNotFound i)
      | Some d \<Rightarrow>
          (case sd_script d of
             None \<Rightarrow> Inl (SchemaNotFound ''no-script'')
           | Some x \<Rightarrow>
               (case (if answers then sx_objects s (ss_bucket x, ss_object_key x) else None) of
                  None \<Rightarrow> Inl (SchemaStorage ''get'')
                | Some body \<Rightarrow> Inr (x, body))))"

definition get_script_content :: "bool \<Rightarrow> bool \<Rightarrow> string \<Rightarrow> schema_state \<Rightarrow> schema_error + dict" where
  \<comment> \<open>the second flag says that the body can be read to its end\<close>
  "get_script_content answers readable i s =
     rbind (get_script answers i s) (\<lambda>(x, body).
       if \<not> readable then Inl (SchemaStorage ''read'')
       else if \<not> utf8_ok body then Inl (SchemaScriptError ''utf-8'')
       else Inr [(''filename'', JStr (ss_original_filename x)), (''content'', JStr body),
         (''contentType'', JStr (ss_content_type x)), (''sizeBytes'', JInt (int (ss_size_bytes x))),
         (''sha256'', JStr (ss_sha256 x)), (''uploadedAt'', JStr (ss_uploaded_at x))])"

section \<open>Handlers\<close>

definition SCHEMA_LIST :: string where
  "SCHEMA_LIST = ''schema-management:schemas''"

record schema_list_params =
  sl_kind :: "string option"
  sl_keyword :: "string option"
  sl_page :: nat
  sl_page_size :: nat
  sl_include_details :: bool

record schema_api_config =
  sa_service :: schema_config
  sa_ttl :: int
  sa_params :: "query_items \<Rightarrow> schema_list_params option"    \<comment> \<open>None: refused with 422\<close>
  sa_text :: "dict \<Rightarrow> string"

record schema_api =
  sp_state :: schema_state
  sp_cache :: cache

definition raise_domain_error :: "schema_error \<Rightarrow> 'a http" where
  "raise_domain_error e = (case e of
     SchemaNotFound m \<Rightarrow> HttpError 404 m
   | SchemaPermission m \<Rightarrow> HttpError 403 m
   | SchemaConflict m \<Rightarrow> HttpError 409 m
   | SchemaScriptError m \<Rightarrow> HttpError 400 m
   | SchemaStorage m \<Rightarrow> HttpError 502 m
   | SchemaDdlError m \<Rightarrow> HttpError 502 m
   | SchemaCrash \<Rightarrow> HttpError 500 [])"

definition schema_admin :: "platform_actor \<Rightarrow> (schema_api \<Rightarrow> 'a http \<times> schema_api) \<Rightarrow> schema_api \<Rightarrow> 'a http \<times> schema_api" where
  \<comment> \<open>the dependency \<open>CurrentAdmin\<close>\<close>
  "schema_admin a h s =
     (case require_platform_admin a of
        Inl (AuthError n m) \<Rightarrow> (HttpError n m, s)
      | Inl Crash \<Rightarrow> (HttpError 500 [], s)
      | Inr b \<Rightarrow> h s)"

definition list_schemas_handler ::
  "schema_api_config \<Rightarrow> time \<Rightarrow> platform_actor \<Rightarrow> query_items \<Rightarrow> schema_api \<Rightarrow> string http \<times> schema_api" where
  "list_schemas_handler cfg t a items =
     schema_admin a (\<lambda>s.
       case sa_params cfg items of
         None \<Rightarrow> (HttpError 422 [], s)
       | Some p \<Rightarrow>
           (case try_get t SCHEMA_LIST items (sp_cache s) of
              Some cached \<Rightarrow> (HttpOk cached, s)
            | None \<Rightarrow>
                let body = sa_text cfg (list_schemas (sa_service cfg) (sl_kind p)
                      (if opt_truthy (sl_keyword p) then map_option py_strip (sl_keyword p) else None)
                      (sl_page p) (sl_page_size p) (Some (pa_user_id a)) (sl_include_details p) (pa_is_admin a)
                      (sx_catalogue (sp_state s)))
                in (HttpOk body, s\<lparr>sp_cache := store_page t (sa_ttl cfg) SCHEMA_LIST items body (sp_cache s)\<rparr>)))"

definition announced :: "(schema_error + 'a) \<times> schema_state \<Rightarrow> schema_api \<Rightarrow> 'a http \<times> schema_api" where
  \<comment> \<open>a write that drops the cached listings when it succeeds\<close>
  "announced res s =
     (case res of
        (Inl e, s') \<Rightarrow> (raise_domain_error e, s\<lparr>sp_state := s'\<rparr>)
      | (Inr x, s') \<Rightarrow> (HttpOk x, s\<lparr>sp_state := s', sp_cache := invalidate SCHEMA_LIST (sp_cache s)\<rparr>))"

definition unannounced :: "(schema_error + 'a) \<times> schema_state \<Rightarrow> schema_api \<Rightarrow> 'a http \<times> schema_api" where
  "unannounced res s =
     (case res of
        (Inl e, s') \<Rightarrow> (raise_domain_error e, s\<lparr>sp_state := s'\<rparr>)
      | (Inr x, s') \<Rightarrow> (HttpOk x, s\<lparr>sp_state := s'\<rparr>))"

definition create_entity_handler ::
  "schema_api_config \<Rightarrow> create_env \<Rightarrow> schema_payload \<Rightarrow> platform_actor \<Rightarrow> schema_api \<Rightarrow> schema_definition http \<times> schema_api" where
  "create_entity_handler cfg env p a =
     schema_admin a (\<lambda>s. announced (create_entity (sa_service cfg) env p (pa_user_id a) (sp_state s)) s)"

definition create_relation_handler ::
  "schema_api_config \<Rightarrow> create_env \<Rightarrow> schema_payload \<Rightarrow> platform_actor \<Rightarrow> schema_api \<Rightarrow> schema_definition http \<times> schema_api" where
  "create_relation_handler cfg env p a =
     schema_admin a (\<lambda>s. announced (create_relation (sa_service cfg) env p (pa_user_id a) (sp_state s)) s)"

definition delete_schema_handler ::
  "script_env \<Rightarrow> string \<Rightarrow> platform_actor \<Rightarrow> schema_api \<Rightarrow> bool http \<times> schema_api" where
  "delete_schema_handler env i a =
     schema_admin a (\<lambda>s. announced (delete_schema env i (pa_user_id a) (pa_is_admin a) (sp_state s)) s)"

definition read_script :: "schema_config \<Rightarrow> string \<Rightarrow> string" where
  \<comment> \<open>one byte more than is allowed, so that the service sees the excess\<close>
  "read_script cfg data = take (Suc (sg_max_bytes cfg)) data"

definition replace_script_handler ::
  "schema_api_config \<Rightarrow> script_env \<Rightarrow> string \<Rightarrow> string option \<Rightarrow> string option \<Rightarrow> string \<Rightarrow> platform_actor \<Rightarrow>
   schema_api \<Rightarrow> (schema_definition \<times> bool) http \<times> schema_api" where
  "replace_script_handler cfg env i filename ctype data a =
     schema_admin a (\<lambda>s. unannounced (replace_script (sa_service cfg) env i (pa_user_id a) (opt_str filename) ctype
        (read_script (sa_service cfg) data) (pa_is_admin a) (sp_state s)) s)"

definition first_event :: "verify_step \<Rightarrow> sse_event option" where
  "first_event v = (case v of
     VerifyEnds es \<Rightarrow> (case es of [] \<Rightarrow> None | e # _ \<Rightarrow> Some e)
   | VerifyRaises es \<Rightarrow> (case es of [] \<Rightarrow> Some (Refused (Some ''internal'') ''unknown'' [] []) | e # _ \<Rightarrow> Some e)
   | VerifySaves es x \<Rightarrow> (case es of [] \<Rightarrow> None | e # _ \<Rightarrow> Some e))"

definition verify_handler ::
  "schema_api_config \<Rightarrow> llm_client option \<Rightarrow> string \<Rightarrow> string option \<Rightarrow> string option \<Rightarrow> string \<Rightarrow> platform_actor \<Rightarrow>
   schema_api \<Rightarrow> verify_step http" where
  \<comment> \<open>the answer is an error when the first event is one that precedes the checks, and a stream otherwise\<close>
  "verify_handler cfg client i filename ctype data a s =
     (case require_platform_admin a of
        Inl (AuthError n m) \<Rightarrow> HttpError n m
      | Inl Crash \<Rightarrow> HttpError 500 []
      | Inr b \<Rightarrow>
          let v = verify_begin (sa_service cfg) client i (pa_user_id a) (opt_str filename) ctype
                (read_script (sa_service cfg) data) (pa_is_admin a) (sp_state s) in
          (case first_event v of
             None \<Rightarrow> HttpError 500 ''no-event''
           | Some (Refused (Some c) g m issues) \<Rightarrow>
               if c = ''not_found'' then HttpError 404 m
               else if c = ''permission'' then HttpError 403 m else HttpOk v
           | Some e \<Rightarrow> HttpOk v))"

definition get_detail_handler :: "string \<Rightarrow> platform_actor \<Rightarrow> schema_api \<Rightarrow> dict http \<times> schema_api" where
  "get_detail_handler i a =
     schema_admin a (\<lambda>s. (case get_schema i (Some (pa_user_id a)) (pa_is_admin a) (sx_catalogue (sp_state s)) of
        Inl e \<Rightarrow> raise_domain_error e | Inr d \<Rightarrow> HttpOk d, s))"

definition topology_handler :: "schema_api_config \<Rightarrow> platform_actor \<Rightarrow> schema_api \<Rightarrow> dict http \<times> schema_api" where
  "topology_handler cfg a =
     schema_admin a (\<lambda>s. (HttpOk (topology (sa_service cfg) (Some (pa_user_id a)) (pa_is_admin a)
        (sx_catalogue (sp_state s))), s))"

definition script_content_handler :: "bool \<Rightarrow> bool \<Rightarrow> string \<Rightarrow> schema_api \<Rightarrow> dict http" where
  \<comment> \<open>here and below the administrator is checked where the router is registered\<close>
  "script_content_handler answers readable i s =
     (case get_script_content answers readable i (sp_state s) of Inl e \<Rightarrow> raise_domain_error e | Inr d \<Rightarrow> HttpOk d)"

definition quote_path :: "string \<Rightarrow> string" where
  \<comment> \<open>\<open>urllib.parse.quote\<close>\<close>
  "quote_path s = concat (map (\<lambda>c. if c = CHR ''/'' then [c] else if c = CHR '' '' then ''%20'' else quote_char c) s)"

definition download_handler ::
  "bool \<Rightarrow> string \<Rightarrow> schema_api \<Rightarrow> (string \<times> string \<times> nat \<times> string \<times> string) http" where
  \<comment> \<open>media type, disposition, content length and hash of the headers, and the body\<close>
  "download_handler answers i s =
     (case get_script answers i (sp_state s) of
        Inl e \<Rightarrow> raise_domain_error e
      | Inr (x, body) \<Rightarrow> HttpOk (ss_content_type x, ''attachment; filename*=UTF-8'' @ [CHR 0x27, CHR 0x27] @ quote_path (ss_original_filename x), ss_size_bytes x, ss_sha256 x, body))"

end
