(* ===== verification/Schema_Claims.thy ===== *)
theory Schema_Claims
  imports Schema_Inv Schema_Api
begin

text \<open>
  The properties of schema management, over single calls and over runs of many users.
\<close>

section \<open>Where stored code comes from\<close>

definition judged_safe :: "schema_config \<Rightarrow> schema_cmd \<Rightarrow> string \<Rightarrow> bool" where
  \<comment> \<open>the language model declared the text of this request safe\<close>
  "judged_safe cfg c data = (case c of
     VerifyScript (Some llm) i user filename ctype d admin \<Rightarrow>
       d = data \<and> (case llm filename (opt_str (decode_sig data)) of
         None \<Rightarrow> False
       | Some raw \<Rightarrow> (case parse_verdict (sg_loads cfg) raw of None \<Rightarrow> False | Some v \<Rightarrow> vd_safe v))
   | _ \<Rightarrow> False)"

definition is_replacement :: "schema_cmd \<Rightarrow> bool" where
  "is_replacement c = (case c of ReplaceScript _ _ _ _ _ _ _ \<Rightarrow> True | _ \<Rightarrow> False)"

definition uploaded_script :: "schema_cmd \<Rightarrow> string \<Rightarrow> bool" where
  \<comment> \<open>the text came through the endpoint for Python workflows, which asks no review\<close>
  "uploaded_script c data = (case c of UploadPython _ _ d _ _ _ _ \<Rightarrow> d = data | _ \<Rightarrow> False)"

definition objects_of :: "schema_state \<Rightarrow> string set" where
  "objects_of s = ran (sx_objects s)"

definition scripts_of :: "schema_state \<Rightarrow> string set" where
  "scripts_of s = ran (sx_files s)"

definition texts_within :: "string set \<Rightarrow> schema_state \<Rightarrow> schema_state \<Rightarrow> bool" where
  \<comment> \<open>every text is an old one or in the set\<close>
  "texts_within D s s' \<longleftrightarrow> objects_of s' \<subseteq> D \<union> objects_of s \<and> scripts_of s' \<subseteq> D \<union> scripts_of s"

lemma texts_within_refl [simp]: "texts_within D s s"
  by (simp add: texts_within_def)

lemma texts_within_trans: "texts_within D s s1 \<Longrightarrow> texts_within D s1 s2 \<Longrightarrow> texts_within D s s2"
  unfolding texts_within_def by blast

lemma texts_within_mono: "texts_within D s s' \<Longrightarrow> D \<subseteq> D' \<Longrightarrow> texts_within D' s s'"
  unfolding texts_within_def by blast

lemma texts_catalogue [simp]: "texts_within D s (s1\<lparr>sx_catalogue := t\<rparr>) = texts_within D s s1"
  by (simp add: texts_within_def objects_of_def scripts_of_def)

lemma texts_put: "texts_within {data} s (snd (put_bytes env k data s))"
  by (auto simp: put_bytes_def set_object_def texts_within_def objects_of_def scripts_of_def ran_def
      split: put_reply.splits)

lemma texts_delete: "texts_within D s (snd (delete_object env k s))"
  by (auto simp: delete_object_def set_object_def texts_within_def objects_of_def scripts_of_def ran_def
      split: delete_reply.splits)

lemma python_files:
  assumes "create_python_definition cfg env filename data fn i n t s = (r, s')"
  shows "sx_objects s' = sx_objects s \<and> (\<exists>k. sx_files s' = sx_files s \<or> sx_files s' = (sx_files s)(k := Some data))"
  using assms by (auto simp: create_python_definition_def Let_def split: if_splits parse_reply.splits)

lemma texts_python: "texts_within {data} s (snd (create_python_definition cfg env filename data fn i n t s))"
proof -
  obtain r s' where call: "create_python_definition cfg env filename data fn i n t s = (r, s')"
    by (cases "create_python_definition cfg env filename data fn i n t s")
  from python_files [OF call] call show ?thesis
    by (auto simp: texts_within_def objects_of_def scripts_of_def ran_def split: if_splits)
qed

lemma texts_register: "texts_within {data} s (snd (register_workflow cfg env d filename data fn s))"
proof -
  have "snd (register_workflow cfg env d filename data fn s) \<in> insert s
      {snd (create_python_definition cfg env filename data f i n t s) | f i n t. True}"
    by (auto simp: register_workflow_def split: option.split sum.split prod.split) (metis snd_conv)+
  then show ?thesis using texts_python by auto
qed

lemma texts_persist: "texts_within {data} s (snd (persist_script cfg env d filename ctype data user fn s))"
proof -
  let ?k = "(sg_bucket cfg, script_key env d filename)"
  obtain r1 s1 where p: "put_bytes env ?k data s = (r1, s1)" by (cases "put_bytes env ?k data s")
  obtain r2 s2 where q: "register_workflow cfg env d filename data fn s1 = (r2, s2)"
    by (cases "register_workflow cfg env d filename data fn s1")
  have s1: "texts_within {data} s s1" using texts_put [of data s env ?k] p by simp
  have s2: "texts_within {data} s s2"
    using texts_within_trans [OF s1] texts_register [of data s1 cfg env d filename fn] q by simp
  have dropped: "texts_within {data} s (snd (delete_object env j (s2\<lparr>sx_catalogue := t\<rparr>)))"
    "texts_within {data} s (snd (delete_object env j s2))" for j t
    by (rule texts_within_trans [OF _ texts_delete], simp add: s2)+
  have moved: "snd (persist_script cfg env d filename ctype data user fn s) \<in>
      {s1, s2} \<union> {s2\<lparr>sx_catalogue := t\<rparr> | t. True} \<union> {snd (delete_object env j s2) | j. True} \<union>
      {snd (delete_object env j (s2\<lparr>sx_catalogue := t\<rparr>)) | j t. True}"
    using p q
    by (auto simp: persist_script_def Let_def split: sum.splits option.splits if_splits prod.splits commit_reply.splits)
      (metis snd_conv)+
  then show ?thesis
    by (elim UnE CollectE exE conjE insertE emptyE) (simp_all only: s1 s2 dropped texts_catalogue)
qed

lemma texts_create: "texts_within D s (snd (create_schema cfg env kind p user s))"
  by (auto simp: create_schema_def Let_def texts_within_def objects_of_def scripts_of_def
      split: sum.splits db_error.splits option.splits if_splits)

lemma texts_create_relation: "texts_within D s (snd (create_relation cfg env p user s))"
  by (auto simp: create_relation_def Let_def texts_create split: option.splits if_splits)

lemma texts_delete_schema: "texts_within D s (snd (delete_schema env i user admin s))"
proof -
  have "snd (delete_schema env i user admin s) \<in> {s} \<union> {s\<lparr>sx_catalogue := t\<rparr> | t. True} \<union>
      {snd (delete_object env j (s\<lparr>sx_catalogue := t\<rparr>)) | j t. True}"
    by (auto simp: delete_schema_def Let_def split: option.splits if_splits prod.splits) (metis snd_conv)+
  moreover have "texts_within D s (snd (delete_object env j (s\<lparr>sx_catalogue := t\<rparr>)))" for j t
    by (rule texts_within_trans [OF _ texts_delete]) simp
  ultimately show ?thesis
    by (elim UnE CollectE exE conjE insertE emptyE) (simp_all only: texts_catalogue texts_within_refl)
qed

lemma verify_begin_judged:
  assumes "verify_begin cfg client i user filename ctype data admin s = VerifySaves es v"
  shows "vs_data v = data \<and> judged_safe cfg (VerifyScript client i user filename ctype data admin) data"
  using assms
  by (auto simp: verify_begin_def judged_safe_def review_script_security_def unsafe_def Let_def
      split: option.splits sum.splits schema_error.splits if_splits)

definition judged :: "schema_config \<Rightarrow> schema_cmd list \<Rightarrow> string set" where
  "judged cfg cs = {x. \<exists>c \<in> set cs. judged_safe cfg c x}"

definition unreviewed :: "schema_cmd list \<Rightarrow> string set" where
  "unreviewed cs = {x. \<exists>c \<in> set cs. uploaded_script c x}"

definition traced :: "schema_config \<Rightarrow> schema_cmd list \<Rightarrow> schema_world \<Rightarrow> schema_world \<Rightarrow> bool" where
  "traced cfg cs w0 w \<longleftrightarrow>
     objects_of (sw_state w) \<subseteq> objects_of (sw_state w0) \<union> judged cfg cs \<and>
     scripts_of (sw_state w) \<subseteq> scripts_of (sw_state w0) \<union> judged cfg cs \<union> unreviewed cs \<and>
     vs_data ` set (sw_sessions w) \<subseteq> vs_data ` set (sw_sessions w0) \<union> judged cfg cs"

lemma traced_texts:
  assumes "traced cfg cs w0 w" and "texts_within D (sw_state w) (sw_state w')" and "D \<subseteq> judged cfg (cs @ [c])"
    and "vs_data ` set (sw_sessions w') \<subseteq> vs_data ` set (sw_sessions w) \<union> D"
  shows "traced cfg (cs @ [c]) w0 w'"
proof -
  have mono: "judged cfg cs \<subseteq> judged cfg (cs @ [c])" "unreviewed cs \<subseteq> unreviewed (cs @ [c])"
    by (auto simp: judged_def unreviewed_def)
  have old: "objects_of (sw_state w) \<subseteq> objects_of (sw_state w0) \<union> judged cfg cs"
    "scripts_of (sw_state w) \<subseteq> scripts_of (sw_state w0) \<union> judged cfg cs \<union> unreviewed cs"
    "vs_data ` set (sw_sessions w) \<subseteq> vs_data ` set (sw_sessions w0) \<union> judged cfg cs"
    using assms(1) by (simp_all add: traced_def)
  have new: "objects_of (sw_state w') \<subseteq> D \<union> objects_of (sw_state w)" "scripts_of (sw_state w') \<subseteq> D \<union> scripts_of (sw_state w)"
    using assms(2) by (simp_all add: texts_within_def)
  show ?thesis
    unfolding traced_def using old(1) new(1) mono(1) assms(3) old(2) new(2) mono(2) old(3) assms(4)
    by (intro conjI) (meson Un_least Un_mono order_refl order_trans sup.coboundedI1 sup.coboundedI2 sup_ge1 sup_ge2)+
qed

lemma exec_traced:
  assumes old: "traced cfg cs w0 w" and none: "sw_sessions w0 = []" and c: "\<not> is_replacement c"
    and step: "exec_schema cfg c w = Inr w'"
  shows "traced cfg (cs @ [c]) w0 w'"
proof (cases c)
  case (CreateEntity env p user)
  with step show ?thesis
    by (intro traced_texts [OF old, of "{}"]) (auto simp: exec_schema_def with_state_def create_entity_def texts_create)
next
  case (CreateRelation env p user)
  with step show ?thesis
    by (intro traced_texts [OF old, of "{}"]) (auto simp: exec_schema_def with_state_def texts_create_relation)
next
  case (ReplaceScript env i user filename ctype data admin)
  with c show ?thesis by (simp add: is_replacement_def)
next
  case (VerifyScript client i user filename ctype data admin)
  show ?thesis
  proof (cases "verify_begin cfg client i user filename ctype data admin (sw_state w)")
    case (VerifySaves es v)
    with VerifyScript step have w': "w' = w\<lparr>sw_sessions := sw_sessions w @ [v]\<rparr>" by (simp add: exec_schema_def)
    have "judged_safe cfg c (vs_data v)" using verify_begin_judged [OF VerifySaves] VerifyScript by simp
    then have "{vs_data v} \<subseteq> judged cfg (cs @ [c])" by (simp add: judged_def)
    then show ?thesis by (intro traced_texts [OF old, of "{vs_data v}"]) (auto simp: w')
  qed (use VerifyScript step in \<open>auto intro!: traced_texts [OF old, of "{}"] simp: exec_schema_def\<close>)
next
  case (StoreVerified env n)
  let ?v = "sw_sessions w ! n"
  have n: "n < length (sw_sessions w)"
    and w': "w' = w\<lparr>sw_state := snd (verify_save cfg env ?v (sw_state w)), sw_sessions := remove_nth n (sw_sessions w)\<rparr>"
    using step StoreVerified by (auto simp: exec_schema_def Let_def split: if_splits)
  have "vs_data ?v \<in> judged cfg cs" using old n none by (auto simp: traced_def)
  then have "{vs_data ?v} \<subseteq> judged cfg (cs @ [c])" by (auto simp: judged_def)
  then show ?thesis
    by (intro traced_texts [OF old, of "{vs_data ?v}"]) (auto simp: w' verify_save_state texts_persist dest: in_remove_nth)
next
  case (DeleteSchema env i user admin)
  with step show ?thesis
    by (intro traced_texts [OF old, of "{}"]) (auto simp: exec_schema_def with_state_def texts_delete_schema)
next
  case (UploadPython env filename data fn i name timeout)
  obtain r s' where call: "create_python_definition cfg env filename data fn i name timeout (sw_state w) = (r, s')"
    by (cases "create_python_definition cfg env filename data fn i name timeout (sw_state w)")
  with UploadPython step have w': "w' = w\<lparr>sw_state := s'\<rparr>" by (auto simp: exec_schema_def with_state_def)
  have "objects_of s' = objects_of (sw_state w)" and "scripts_of s' \<subseteq> insert data (scripts_of (sw_state w))"
    using python_files [OF call] by (auto simp: objects_of_def scripts_of_def ran_def split: if_splits)
  moreover have "data \<in> unreviewed (cs @ [c])" by (simp add: unreviewed_def uploaded_script_def UploadPython)
  moreover have "unreviewed cs \<subseteq> unreviewed (cs @ [c])" "judged cfg cs \<subseteq> judged cfg (cs @ [c])"
    by (auto simp: judged_def unreviewed_def)
  ultimately show ?thesis using old unfolding w' traced_def by auto
qed

lemma run_traced:
  assumes "sw_sessions w0 = []" and "\<And>c. c \<in> set cs \<Longrightarrow> \<not> is_replacement c"
  shows "traced cfg cs w0 (run_cmds (exec_schema cfg) cs w0)"
  using assms(2)
proof (induction cs rule: rev_induct)
  case Nil
  then show ?case by (auto simp: traced_def)
next
  case (snoc c cs)
  let ?w = "run_cmds (exec_schema cfg) cs w0"
  have old: "traced cfg cs w0 ?w" using snoc by simp
  show ?case
  proof (cases "exec_schema cfg c ?w")
    case (Inl e)
    with traced_texts [OF old, of "{}" ?w c] show ?thesis by (simp add: run_cmds_append)
  next
    case (Inr w')
    from exec_traced [OF old assms(1) _ Inr] snoc.prems Inr show ?thesis by (simp add: run_cmds_append)
  qed
qed

section \<open>Replacing a script\<close>

lemma changed_columns_current:
  "changed_columns old new old = new\<lparr>ss_id := ss_id old, ss_uploaded_at := ss_uploaded_at old\<rparr>"
  by (simp add: changed_columns_def Let_def)

lemma save_script_current:
  assumes "keys_ok sd_id t" and "tbl_get sd_id i t = Some d" and "save_script d row t = Some t'"
  shows "tbl_get sd_id i t' = Some (set_script (case sd_script d of None \<Rightarrow> row
       | Some old \<Rightarrow> row\<lparr>ss_id := ss_id old, ss_uploaded_at := ss_uploaded_at old\<rparr>) d) \<and>
     (\<forall>j. j \<noteq> i \<longrightarrow> tbl_get sd_id j t' = tbl_get sd_id j t)"
proof -
  have i: "sd_id d = i" using assms(2) by (auto dest: tbl_get_Some)
  have upd: "tbl_get sd_id j (tbl_upd sd_id i (set_script x) t) =
      (if j = i then map_option (set_script x) (tbl_get sd_id j t) else tbl_get sd_id j t)" for x j
    by (rule tbl_get_upd) (simp add: set_script_def)
  show ?thesis
  proof (cases "sd_script d")
    case None
    with assms i have "t' = tbl_upd sd_id i (set_script row) t" by (auto simp: save_script_def split: if_splits)
    with None assms(2) upd show ?thesis by simp
  next
    case (Some old)
    with assms i have "t' = tbl_upd sd_id i (set_script (changed_columns old row old)) t"
      by (auto simp: save_script_def split: if_splits)
    with Some assms(2) upd show ?thesis by (simp add: changed_columns_current)
  qed
qed

section \<open>A concrete world\<close>

definition demo_cfg :: schema_config where
  "demo_cfg = \<lparr>sg_bucket = ''b'', sg_max_bytes = 100, sg_admins = [], sg_timeout = Some 60, sg_directory = ''/d'',
     sg_task_queue = ''q'', sg_collation = (\<lambda>s. s), sg_lower = (\<lambda>s. s), sg_sha256 = (\<lambda>s. replicate 64 CHR ''a''),
     sg_parse = (\<lambda>s. PyTree [''workflow''] [''workflow'']),
     sg_loads = (\<lambda>s. JsonRead (JObj [(''safe'', JBool True)]))\<rparr>"

definition demo_payload :: schema_payload where
  "demo_payload = \<lparr>py_schema_key = ''paper'', py_name = ''Paper'', py_label = ''p'', py_description = [],
     py_identity_key = [], py_properties = [\<lparr>sp_name = ''title'', sp_data_type = ''string'', sp_required = True,
       sp_rule = [], sp_category = ''core''\<rparr>],
     py_mappings = [], py_is_core = True, py_version = ''v1.0'', py_llm_config_id = None,
     py_relation_category = None, py_source_schema_id = None, py_target_schema_id = None,
     py_source_expression = None, py_target_expression = None\<rparr>"

definition demo_script :: "string \<Rightarrow> nat \<Rightarrow> schema_script" where
  "demo_script k n = \<lparr>ss_id = ''s'', ss_bucket = ''b'', ss_object_key = k, ss_original_filename = ''x.py'',
     ss_content_type = ''text/x-python'', ss_size_bytes = n, ss_etag = None, ss_sha256 = [], ss_uploaded_by = ''u'',
     ss_workflow_definition_id = None, ss_workflow_function_name = None, ss_uploaded_at = ''t''\<rparr>"

definition demo_row :: "string \<Rightarrow> nat \<Rightarrow> schema_definition" where
  "demo_row k n = set_script (demo_script k n) (new_definition ''d'' ''entity'' demo_payload ''u'' ''t'')"

definition demo_state :: "string \<Rightarrow> nat \<Rightarrow> schema_state" where
  "demo_state k n = \<lparr>sx_catalogue = [demo_row k n], sx_objects = [(''b'', k) \<mapsto> ''abc''],
     sx_files = (\<lambda>n. None), sx_workflows = [], sx_statements = []\<rparr>"

definition demo_world :: schema_world where
  "demo_world = \<lparr>sw_state = demo_state ''k'' 3, sw_sessions = []\<rparr>"

definition demo_env :: script_env where
  "demo_env = \<lparr>se_uuid = ''n'', se_row_id = ''r'', se_now = ''now'', se_put = PutDone None,
     se_delete = (\<lambda>k. DeleteDone), se_file_written = True, se_workflow_saved = True, se_commit = Committed\<rparr>"

definition demo_review :: schema_cmd where
  "demo_review = VerifyScript (Some (\<lambda>f s. Some [CHR ''{'', CHR ''}''])) ''d'' ''u'' ''x.py'' None ''xyz'' False"

definition demo_cmds :: "schema_cmd list" where
  "demo_cmds = [demo_review, StoreVerified demo_env 0]"

definition demo_key :: string where
  "demo_key = ''schemas/entity/d/n-x.py''"

lemmas demo_defs = demo_cfg_def demo_payload_def demo_script_def demo_row_def demo_state_def demo_world_def
  demo_env_def demo_review_def demo_cmds_def demo_key_def

lemma demo_ok: "catalogue_ok (sg_collation demo_cfg) (sx_catalogue (sw_state demo_world))"
  "scripts_ok demo_cfg demo_world"
  by (simp_all add: catalogue_ok_def keys_ok_def row_ok_def ends_exist_def refers_to_def scripts_ok_def stored_def
      one_owner_def script_refs_def script_ref_def demo_world_def demo_state_def demo_row_def set_script_def
      demo_script_def demo_cfg_def old_refs_def) (simp add: demo_payload_def)

lemma demo_stored:
  "sx_objects (sw_state (run_cmds (exec_schema demo_cfg) demo_cmds demo_world)) (''b'', demo_key) = Some ''xyz''"
  by code_simp

section \<open>Properties\<close>

text \<open>C9: Reviewed code only.  Along every run of requests in which nobody uses the endpoint that replaces a script
  without review, whatever the outside answers and however the steps of concurrent reviews interleave, each text in
  the object store was there at the start, or is the text of a verify request for which the language model answered
  with an object whose flag is true.  Among the workflow scripts there are also the texts that came through the
  endpoint for Python workflows, which writes to the same directory and asks for no review, and no others.\<close>
theorem stored_code_was_reviewed:
  assumes "sw_sessions w0 = []" and "\<And>c. c \<in> set cs \<Longrightarrow> \<not> is_replacement c"
    and "w = run_cmds (exec_schema cfg) cs w0"
  shows "(sx_objects (sw_state w) k = Some x \<longrightarrow>
      x \<in> ran (sx_objects (sw_state w0)) \<or> (\<exists>c \<in> set cs. judged_safe cfg c x)) \<and>
    (sx_files (sw_state w) n = Some y \<longrightarrow>
      y \<in> ran (sx_files (sw_state w0)) \<or> (\<exists>c \<in> set cs. judged_safe cfg c y \<or> uploaded_script c y))"
  using run_traced [where cfg = cfg, OF assms(1,2)]
  unfolding assms(3) traced_def objects_of_def scripts_of_def judged_def unreviewed_def
  by (auto dest!: subsetD [OF _ ranI])

theorem stored_code_was_reviewed_witness:
  "\<exists>c \<in> set demo_cmds. judged_safe demo_cfg c ''xyz''"
proof -
  have "sw_sessions demo_world = []" by (simp add: demo_world_def)
  moreover have "\<not> is_replacement c" if "c \<in> set demo_cmds" for c
    using that by (auto simp: demo_cmds_def demo_review_def is_replacement_def)
  ultimately have "''xyz'' \<in> ran (sx_objects (sw_state demo_world)) \<or> (\<exists>c \<in> set demo_cmds. judged_safe demo_cfg c ''xyz'')"
    using stored_code_was_reviewed [of demo_world demo_cmds _ demo_cfg "(''b'', demo_key)" "''xyz''"] demo_stored by simp
  then show ?thesis by (auto simp: demo_world_def demo_state_def ran_def split: if_splits)
qed

text \<open>C11: The catalogue stays consistent.  Along every run, concurrent reviews and failing calls included,
  identifiers, keys and names of schemas stay unique, properties and mappings of a schema are distinct, the schemas
  a relation refers to exist, both ends of a relation that a user created are entities of the catalogue, and the
  schemas that came with the system are the same, but for their scripts.\<close>
theorem catalogue_stays_consistent:
  assumes "reach (exec_schema cfg) w0 w" and "catalogue_ok (sg_collation cfg) (sx_catalogue (sw_state w0))"
    and "scripts_ok cfg w0"
  shows "catalogue_ok (sg_collation cfg) (sx_catalogue (sw_state w)) \<and>
    systems (sx_catalogue (sw_state w)) = systems (sx_catalogue (sw_state w0))"
  using schemas.reach_keeps [OF assms(1), of "systems (sx_catalogue (sw_state w0))"] assms(2,3)
  by (simp add: schema_inv_def scripts_ok_def)

theorem catalogue_stays_consistent_witness:
  "catalogue_ok (sg_collation demo_cfg) (sx_catalogue (sw_state (run_cmds (exec_schema demo_cfg) demo_cmds demo_world))) \<and>
   systems (sx_catalogue (sw_state (run_cmds (exec_schema demo_cfg) demo_cmds demo_world))) =
     systems (sx_catalogue (sw_state demo_world))"
  by (rule catalogue_stays_consistent [OF reach_run_cmds demo_ok])

text \<open>C10: Scripts stay retrievable.  Along every run in which new object keys are new and no commit that stores a
  script raises after the database applied it, the script of every schema of the catalogue can be downloaded
  whenever the object store answers: no failure of an upload, of the workflow registration, of a commit that is not
  applied or of a cleanup, no deletion and no interleaving of reviews leaves a schema whose script is gone.
  (\<open>lost_commit_loses_script\<close> shows what the excluded failure does.)\<close>
theorem scripts_stay_retrievable:
  assumes "w = run_cmds (exec_schema cfg) cs w0" and "list_all acknowledged cs"
    and "catalogue_ok (sg_collation cfg) (sx_catalogue (sw_state w0))"
    and "scripts_ok cfg w0" and "d \<in> set (sx_catalogue (sw_state w))" and "sd_script d = Some x"
  shows "\<exists>body. get_script True (sd_id d) (sw_state w) = Inr (x, body)"
proof -
  have inv0: "schema_inv cfg (systems (sx_catalogue (sw_state w0))) w0"
    using assms(3,4) by (simp add: schema_inv_def scripts_ok_def)
  have st: "stored (sw_state w)"
    unfolding assms(1) by (rule run_stored [OF inv0 _ assms(2)]) (use assms(4) in \<open>simp add: scripts_ok_def\<close>)
  have "keys_ok sd_id (sx_catalogue (sw_state w))"
    using schemas.run_keeps [OF inv0] unfolding assms(1) by (auto simp: schema_inv_def catalogue_ok_def)
  then have "get_definition (sd_id d) (sx_catalogue (sw_state w)) = Some d"
    using assms(5) by (simp add: get_definition_def tbl_get_unique)
  moreover obtain body where "sx_objects (sw_state w) (ss_bucket x, ss_object_key x) = Some body"
    using st assms(5) old_refs_script(2) [OF assms(6)] by (fastforce simp: stored_def)
  ultimately show ?thesis using assms(6) by (simp add: get_script_def)
qed

lemma demo_reviewed:
  "map (\<lambda>d. map_option ss_object_key (sd_script d))
     (sx_catalogue (sw_state (run_cmds (exec_schema demo_cfg) demo_cmds demo_world))) = [Some demo_key]"
  by code_simp

theorem scripts_stay_retrievable_witness:
  "\<exists>i x body. ss_object_key x = demo_key \<and>
     get_script True i (sw_state (run_cmds (exec_schema demo_cfg) demo_cmds demo_world)) = Inr (x, body)"
proof -
  let ?t = "sx_catalogue (sw_state (run_cmds (exec_schema demo_cfg) demo_cmds demo_world))"
  obtain d x where d: "d \<in> set ?t" "sd_script d = Some x" "ss_object_key x = demo_key"
    using demo_reviewed by (cases ?t) auto
  have "list_all acknowledged demo_cmds"
    by (simp add: demo_cmds_def demo_review_def demo_env_def acknowledged_def)
  from scripts_stay_retrievable [OF refl this demo_ok d(1,2)] obtain body where
    "get_script True (sd_id d) (sw_state (run_cmds (exec_schema demo_cfg) demo_cmds demo_world)) = Inr (x, body)" ..
  with d(3) show ?thesis by blast
qed

text \<open>A commit that is applied but raises makes the code delete the script that the row has come to name.\<close>

lemma lost_commit_loses_script:
  "case replace_script demo_cfg (demo_env\<lparr>se_commit := CommitLost\<rparr>) ''d'' ''u'' ''x.py'' None ''xyz'' False
       (demo_state ''k'' 3) of (r, s) \<Rightarrow>
     r = Inl SchemaCrash \<and> map (\<lambda>d. map_option ss_object_key (sd_script d)) (sx_catalogue s) = [Some demo_key] \<and>
     sx_objects s (''b'', demo_key) = None"
  by code_simp

text \<open>C12: A replacement happens completely or leaves the old script in use.  When replacing a script raises, every
  object but the one that was being uploaded is as it was, and so is the catalogue, unless the database applied the
  commit whose acknowledgement was lost.  When it returns, the row of the schema has the metadata of the new
  script, which is in the object store under the key of the row; of the old row only the identifier and the upload
  time are left; other schemas and all objects but the old script are unchanged; and when the script declares a
  workflow, the row names the workflow of the schema, whose script is the new one.  Whatever happens, no workflow but that of
  the schema changes; the script of that one may be the new one even when the call raises.\<close>
theorem replacement_all_or_nothing:
  assumes "keys_ok sd_id (sx_catalogue s)" and "get_definition i (sx_catalogue s) = Some d"
    and "replace_script cfg env i user filename ctype data admin s = (r, s')"
    and "wid = workflow_definition_id (sg_lower cfg) (sg_sha256 cfg) (sd_schema_key d)"
  shows "kept_workflows wid data s s' \<and>
    (case r of
      Inl e \<Rightarrow> kept_but {(sg_bucket cfg, script_key env d filename)} s s' \<and>
        (sx_catalogue s' = sx_catalogue s \<or> se_commit env = CommitLost \<and> e = SchemaCrash)
    | Inr (d', cleaned) \<Rightarrow>
        (\<exists>fn wfid etag. let row = script_row cfg env d filename ctype data (py_strip user) fn wfid etag in
           validate_script (sg_max_bytes cfg) (sg_parse cfg) filename data = Inr fn \<and>
           workflow_stored wid data fn wfid s s' \<and>
           d' = set_script (case sd_script d of None \<Rightarrow> row
             | Some old \<Rightarrow> row\<lparr>ss_id := ss_id old, ss_uploaded_at := ss_uploaded_at old\<rparr>) d) \<and>
        get_definition i (sx_catalogue s') = Some d' \<and>
        (\<forall>j. j \<noteq> i \<longrightarrow> get_definition j (sx_catalogue s') = get_definition j (sx_catalogue s)) \<and>
        sx_objects s' (sg_bucket cfg, script_key env d filename) = Some data \<and>
        kept_but ({(sg_bucket cfg, script_key env d filename)} \<union> old_refs d) s s')"
proof (cases "\<exists>fn. validate_script (sg_max_bytes cfg) (sg_parse cfg) filename data = Inr fn \<and>
    persist_script cfg env d filename ctype data (py_strip user) fn s = (r, s')")
  case False
  then have "s' = s" "\<exists>e. r = Inl e"
    using assms(2,3)
    by (auto simp: replace_script_def assert_script_modifiable_def Let_def split: sum.splits if_splits option.splits)
  then show ?thesis by (auto simp: kept_but_def kept_workflows_def)
next
  case True
  then obtain fn where fn: "validate_script (sg_max_bytes cfg) (sg_parse cfg) filename data = Inr fn"
    and call: "persist_script cfg env d filename ctype data (py_strip user) fn s = (r, s')" by blast
  have d: "sd_id d = i" "tbl_get sd_id i (sx_catalogue s) = Some d"
    using assms(2) by (auto simp: get_definition_def dest: tbl_get_Some)
  from persist_cases [OF call] show ?thesis
    unfolding assms(4) [symmetric]
  proof (elim disjE exE conjE, goal_cases)
    case (1 e)
    then show ?case by simp
  next
    case (2 t wfid etag)
    then show ?case by simp
  next
    case (3 t wfid etag)
    note saved = save_script_current [OF assms(1) d(2) 3(1)]
    with 3 d obtain b where "r = Inr (set_script (case sd_script d of
        None \<Rightarrow> script_row cfg env d filename ctype data (py_strip user) fn wfid etag
      | Some old \<Rightarrow> script_row cfg env d filename ctype data (py_strip user) fn wfid etag
          \<lparr>ss_id := ss_id old, ss_uploaded_at := ss_uploaded_at old\<rparr>) d, b)"
      by (auto simp: get_definition_def)
    with 3 saved fn show ?case by (auto simp: get_definition_def Let_def)
  qed
qed

text \<open>A commit that fails leaves the workflow of the schema with a script that no row knows.\<close>

lemma failed_commit_keeps_new_workflow:
  "case replace_script demo_cfg (demo_env\<lparr>se_commit := CommitRefused\<rparr>) ''d'' ''u'' ''x.py'' None ''xyz'' False
       (demo_state ''k'' 3) of (r, s) \<Rightarrow>
     r = Inl SchemaCrash \<and> sx_catalogue s = sx_catalogue (demo_state ''k'' 3) \<and>
     sx_files s ''schema-paper'' = Some ''xyz'' \<and> map wd_id (sx_workflows s) = [''schema-paper'']"
  by code_simp

text \<open>A review that ran beside a replacement leaves a wrong size.  The session of a review keeps the script row it
  loaded, and its update writes the columns in which the new script differs from that row.  When another script was
  stored in between, and the reviewed text is as long as the script that was loaded, the row ends with the key of
  the reviewed text and the size of the other script, which the download announces as its content length.\<close>
theorem stale_review_leaves_wrong_size:
  assumes "get_definition (sd_id (vs_definition v)) (sx_catalogue s) = Some d"
    and "sd_script (vs_definition v) = Some a" and "sd_script d = Some b" and "ss_id b = ss_id a"
    and "length (vs_data v) = ss_size_bytes a" and "ss_size_bytes b \<noteq> ss_size_bytes a"
    and "ss_object_key a \<noteq> script_key env (vs_definition v) (vs_filename v)"
    and "verify_save cfg env v s = (VerifyEnds [Saved m n], s')"
  shows "\<exists>x. get_definition (sd_id d) (sx_catalogue s') = Some (set_script x d) \<and>
    ss_object_key x = script_key env (vs_definition v) (vs_filename v) \<and>
    sx_objects s' (sg_bucket cfg, ss_object_key x) = Some (vs_data v) \<and>
    ss_size_bytes x = ss_size_bytes b \<and> ss_size_bytes x \<noteq> length (vs_data v)"
proof -
  let ?d = "vs_definition v"
  obtain r where call: "persist_script cfg env ?d (vs_filename v) (vs_content_type v) (vs_data v) (vs_user v)
      (vs_function v) s = (r, s')" and ok: "\<nexists>e. r = Inl e"
    using assms(8) by (auto simp: verify_save_def split: prod.splits sum.splits schema_error.splits)
  have d: "sd_id d = sd_id ?d" "tbl_get sd_id (sd_id ?d) (sx_catalogue s) = Some d"
    using assms(1) by (auto simp: get_definition_def dest: tbl_get_Some)
  from persist_cases [OF call] ok obtain t wfid etag where
    save: "save_script ?d (script_row cfg env ?d (vs_filename v) (vs_content_type v) (vs_data v) (vs_user v)
      (vs_function v) wfid etag) (sx_catalogue s) = Some t"
    and s': "sx_catalogue s' = t" "sx_objects s' (sg_bucket cfg, script_key env ?d (vs_filename v)) = Some (vs_data v)"
    by blast
  let ?row = "script_row cfg env ?d (vs_filename v) (vs_content_type v) (vs_data v) (vs_user v) (vs_function v) wfid etag"
  let ?x = "changed_columns a ?row b"
  have "t = tbl_upd sd_id (sd_id ?d) (set_script ?x) (sx_catalogue s)"
    using save d assms(2,3,4) by (auto simp: save_script_def split: if_splits)
  then have "get_definition (sd_id d) (sx_catalogue s') = Some (set_script ?x d)"
    using d s'(1) tbl_get_upd [of sd_id "sd_id ?d" "set_script ?x" "sd_id ?d" "sx_catalogue s"]
    by (simp add: get_definition_def set_script_def)
  moreover have "ss_object_key ?x = script_key env ?d (vs_filename v)" "ss_size_bytes ?x = ss_size_bytes b"
    using assms(5,7) by (simp_all add: changed_columns_def Let_def script_row_def)
  ultimately show ?thesis using s'(2) assms(5,6) by (intro exI [of _ ?x]) simp
qed

section \<open>Witnesses\<close>

definition demo_session :: verify_session where
  "demo_session = \<lparr>vs_definition = demo_row ''k'' 3, vs_filename = ''x.py'', vs_content_type = None,
     vs_data = ''xyz'', vs_user = ''u'', vs_function = None\<rparr>"

lemma demo_session_saved:
  "fst (verify_save demo_cfg demo_env demo_session (demo_state ''k2'' 5)) =
     VerifyEnds [Saved (Some (''s'', ''x.py'', replicate 64 CHR ''a'', 5, ''t'')) ''x.py'']"
  by code_simp

theorem stale_review_leaves_wrong_size_witness:
  "\<exists>x. get_definition ''d'' (sx_catalogue (snd (verify_save demo_cfg demo_env demo_session (demo_state ''k2'' 5)))) =
      Some (set_script x (demo_row ''k2'' 5)) \<and>
    ss_size_bytes x = 5 \<and> ss_size_bytes x \<noteq> length ''xyz''"
proof -
  let ?call = "verify_save demo_cfg demo_env demo_session (demo_state ''k2'' 5)"
  have row: "sd_id (demo_row k n) = ''d''" "sd_script (demo_row k n) = Some (demo_script k n)" for k n
    by (simp_all add: demo_row_def set_script_def)
  have "\<exists>x. get_definition (sd_id (demo_row ''k2'' 5)) (sx_catalogue (snd ?call)) = Some (set_script x (demo_row ''k2'' 5)) \<and>
      ss_object_key x = script_key demo_env (vs_definition demo_session) (vs_filename demo_session) \<and>
      sx_objects (snd ?call) (sg_bucket demo_cfg, ss_object_key x) = Some (vs_data demo_session) \<and>
      ss_size_bytes x = ss_size_bytes (demo_script ''k2'' 5) \<and> ss_size_bytes x \<noteq> length (vs_data demo_session)"
  proof (rule stale_review_leaves_wrong_size)
    show "?call = (VerifyEnds [Saved (Some (''s'', ''x.py'', replicate 64 CHR ''a'', 5, ''t'')) ''x.py''], snd ?call)"
      by (metis demo_session_saved prod.collapse)
    show "sd_script (vs_definition demo_session) = Some (demo_script ''k'' 3)"
      "sd_script (demo_row ''k2'' 5) = Some (demo_script ''k2'' 5)" by (simp_all add: row demo_session_def)
    show "get_definition (sd_id (vs_definition demo_session)) (sx_catalogue (demo_state ''k2'' 5)) = Some (demo_row ''k2'' 5)"
      by (simp add: get_definition_def demo_session_def demo_state_def row)
  qed (simp_all add: demo_script_def demo_session_def script_key_def)
  then show ?thesis by (auto simp: row demo_script_def demo_session_def)
qed

theorem replacement_all_or_nothing_witness:
  "sx_objects (snd (replace_script demo_cfg demo_env ''d'' ''u'' ''x.py'' None ''xyz'' False (demo_state ''k'' 3)))
     (''b'', demo_key) = Some ''xyz''"
proof -
  let ?call = "replace_script demo_cfg demo_env ''d'' ''u'' ''x.py'' None ''xyz'' False (demo_state ''k'' 3)"
  have id: "sd_id (demo_row ''k'' 3) = ''d''" by (simp add: demo_row_def set_script_def)
  have "case fst ?call of Inl e \<Rightarrow> False | Inr p \<Rightarrow> True" by code_simp
  moreover have "(sg_bucket demo_cfg, script_key demo_env (demo_row ''k'' 3) ''x.py'') = (''b'', demo_key)" by code_simp
  moreover have "keys_ok sd_id (sx_catalogue (demo_state ''k'' 3))"
    "get_definition ''d'' (sx_catalogue (demo_state ''k'' 3)) = Some (demo_row ''k'' 3)"
    by (simp_all add: keys_ok_def get_definition_def demo_state_def id)
  ultimately show ?thesis
    using replacement_all_or_nothing [of "demo_state ''k'' 3" "''d''" "demo_row ''k'' 3" demo_cfg demo_env "''u''"
        "''x.py''" None "''xyz''" False "fst ?call" "snd ?call"]
    by (auto split: sum.splits prod.splits)
qed

section \<open>Requests, statements and workflows\<close>

text \<open>C23: A statement says what was requested.  For every request that passes the validation, the statement sent
  to the graph reads back as the kind, the name and the columns of the request, in order, with their types and
  whether they are required: no accepted text can change the shape of the statement.\<close>
theorem statement_reads_back:
  assumes "kind = ''entity'' \<and> valid_entity identifier_match keyword_match uc p = Some q \<or>
    kind = ''relation'' \<and> valid_relation identifier_match keyword_match uc p = Some q"
  shows "parse_ddl (build_create_ddl kind (py_name q) (py_properties q)) =
    (kind, py_name q, map (\<lambda>x. (sp_name x, sp_data_type x, sp_required x)) (py_properties q))"
proof -
  have ok: "entity_name_ok (py_name q) \<or> relation_name_ok (py_name q)" "py_properties q \<noteq> []"
    "\<And>x. x \<in> set (py_properties q) \<Longrightarrow> property_ok uc x"
    using assms valid_request_ok by blast+
  show ?thesis
  proof (rule parse_build [OF _ name_plain [OF ok(1)] ok(2)])
    show "kind \<in> {''entity'', ''relation''}" using assms by auto
    show "plain (sp_name x) \<and> plain_type (sp_data_type x)" if "x \<in> set (py_properties q)" for x
      using ok(3) [OF that] by (auto simp: property_ok_def intro: property_name_plain valid_type_plain)
  qed
qed

lemma demo_request:
  "valid_entity (\<lambda>s. True) (\<lambda>s. True) \<lparr>uc_word = (\<lambda>p. False), uc_digit = (\<lambda>p. False)\<rparr>
     (demo_payload\<lparr>py_name := ''Paper ''\<rparr>) = Some demo_payload"
  by code_simp

theorem statement_reads_back_witness:
  "parse_ddl (build_create_ddl ''entity'' (py_name demo_payload) (py_properties demo_payload)) =
     (''entity'', py_name demo_payload, map (\<lambda>x. (sp_name x, sp_data_type x, sp_required x)) (py_properties demo_payload))"
  by (rule statement_reads_back [OF disjI1 [OF conjI [OF refl demo_request]]])

lemma key_chars: "key_ok k \<Longrightarrow> c \<in> set k \<Longrightarrow> id_char c \<and> \<not> is_continuation c"
  by (cases k) (auto simp: key_ok_def id_char_def list_all_iff lower_char_def digit_char_def char_in_def
      is_continuation_def Let_def)

lemma slug_key:
  assumes "key_ok k" and "lower k = k" and "last k \<noteq> CHR ''-''"
  shows "slug lower k = k"
proof -
  have k: "k \<noteq> []" "hd k \<noteq> CHR ''-''"
    using assms(1) by (cases k; auto simp: key_ok_def lower_char_def char_in_def)+
  have "concat (map dash_point (code_points k)) = k"
  proof -
    have "code_points k = map (\<lambda>c. [c]) k" by (rule code_points_ascii) (use key_chars [OF assms(1)] in blast)
    moreover have "concat (map dash_point (map (\<lambda>c. [c]) cs)) = cs" if "\<And>c. c \<in> set cs \<Longrightarrow> id_char c" for cs
      using that by (induction cs) (simp_all add: dash_point_def)
    ultimately show ?thesis using key_chars [OF assms(1)] by simp
  qed
  moreover have "strip_dashes k = k"
  proof -
    have "dropWhile (\<lambda>c. c = CHR ''-'') k = k" using k by (cases k) simp_all
    moreover have "dropWhile (\<lambda>c. c = CHR ''-'') (rev k) = rev k"
      using k assms(3) by (cases "rev k") (auto simp: hd_rev [symmetric])
    ultimately show ?thesis by (simp add: strip_dashes_def)
  qed
  ultimately show ?thesis using assms(2) by (simp add: slug_def)
qed

text \<open>Workflow identifiers.  Whatever the key of a schema is, also one longer than an identifier may be or without
  a single admissible character, the identifier derived for its workflow is accepted by the registration; for a key
  of at most 57 characters that does not end in a dash it is the key after a fixed prefix, so that such keys never share a
  workflow.\<close>
theorem workflow_identifiers:
  assumes "\<And>x. is_hex_digest (sha x)"
  shows "valid_definition_id (workflow_definition_id lower sha k) \<and>
    (key_ok k \<and> lower k = k \<and> last k \<noteq> CHR ''-'' \<and> length k \<le> 57 \<longrightarrow>
       workflow_definition_id lower sha k = ''schema-'' @ k)"
proof -
  have "workflow_definition_id lower sha k = ''schema-'' @ k"
    if "key_ok k" "lower k = k" "last k \<noteq> CHR ''-''" "length k \<le> 57"
  proof -
    have "k \<noteq> []" using that by (cases k) (simp_all add: key_ok_def)
    with slug_key [where lower = lower and k = k] that show ?thesis by (simp add: workflow_definition_id_def Let_def)
  qed
  with workflow_id_valid [where sha = sha, OF assms] show ?thesis by blast
qed

lemma demo_hex: "is_hex_digest (replicate 64 CHR ''a'')"
  by (simp add: is_hex_digest_def char_in_def list_all_iff)

theorem workflow_identifiers_witness:
  "valid_definition_id (workflow_definition_id (\<lambda>s. s) (\<lambda>s. replicate 64 CHR ''a'') (replicate 80 CHR ''-'')) \<and>
   workflow_definition_id (\<lambda>s. s) (\<lambda>s. replicate 64 CHR ''a'') ''paper'' = ''schema-paper''"
  using workflow_identifiers [of "\<lambda>s. replicate 64 CHR ''a''" "\<lambda>s. s" "replicate 80 CHR ''-''"]
    workflow_identifiers [of "\<lambda>s. replicate 64 CHR ''a''" "\<lambda>s. s" "''paper''"] demo_hex
  by (simp add: key_ok_def lower_char_def char_in_def)

lemma trailing_dash_collides:
  "key_ok ''paper'' \<and> key_ok ''paper-'' \<and>
   workflow_definition_id (\<lambda>s. s) sha ''paper-'' = workflow_definition_id (\<lambda>s. s) sha ''paper''"
  by (simp add: key_ok_def lower_char_def digit_char_def char_in_def workflow_definition_id_def slug_def
      strip_dashes_def dash_point_def id_char_def is_continuation_def)

definition graph_ran :: "graph_service \<Rightarrow> bool" where
  \<comment> \<open>one of the first three offers was taken, and those before it were refused\<close>
  "graph_ran g \<longleftrightarrow> gs_connects g = None \<and>
     (\<exists>i < 3. gs_reply g i = GraphDone \<and> (\<forall>j < i. \<exists>m. gs_reply g j = GraphRefused m))"

lemma run_status [simp]:
  "dr_status (run_schema_ddl g now kind n ps) = (if graph_ran g then ''succeeded'' else ''failed'')"
  using ddl_attempts_done [of "gs_reply g" 3 0 None]
  by (auto simp: run_schema_ddl_def execute_schema_ddl_def graph_ran_def DDL_MAX_RETRIES_def
      split: option.split prod.split)

lemma run_statement [simp]: "dr_statement (run_schema_ddl g now kind n ps) = build_create_ddl kind n ps"
  by (simp add: run_schema_ddl_def split: prod.split)

lemma create_cases:
  fixes cfg env kind p user s
  defines "d \<equiv> new_definition (ce_id env) kind p (py_strip user) (ce_now env)"
    and "run \<equiv> run_schema_ddl (ce_graph env) (ce_executed_at env) kind (py_name p) (py_properties p)"
  defines "said \<equiv> sx_statements s @ (if dr_status run = ''succeeded'' then [dr_statement run] else [])"
  assumes "create_schema cfg env kind p user s = (r, s')"
  shows "(\<exists>e. r = Inl e \<and> (\<forall>m. e \<noteq> SchemaDdlError m) \<and>
      (s' = s \<or> ce_commit env = CommitLost \<and> s' = s\<lparr>sx_catalogue := sx_catalogue s @ [d]\<rparr>)) \<or>
    (\<exists>m. r = Inl (SchemaDdlError m) \<and> sx_statements s' = said \<and> (sx_catalogue s' = sx_catalogue s @ [d] \<or>
       ce_write_back env = CommitLost \<and> sx_catalogue s' = sx_catalogue s @ [set_ddl (ce_executed_at env) run d])) \<or>
    r = Inr (set_ddl (ce_executed_at env) run d) \<and>
      sx_catalogue s' = sx_catalogue s @ [set_ddl (ce_executed_at env) run d] \<and> sx_statements s' = said"
proof (cases "insert_definition (sg_collation cfg) d (sx_catalogue s)")
  case (Inl e)
  with assms(4) show ?thesis by (cases e) (auto simp: create_schema_def Let_def d_def split: if_splits)
next
  case (Inr t)
  have t: "t = sx_catalogue s @ [d]" and fresh: "ce_id env \<notin> sd_id ` set (sx_catalogue s)"
    using Inr by (auto simp: insert_definition_def list_ex_iff d_def split: if_splits)
  have d: "sd_id d = ce_id env" "sd_id (set_ddl now run d) = ce_id env" for now
    by (simp_all add: d_def set_ddl_def)
  have upd: "tbl_upd sd_id (ce_id env) (set_ddl (ce_executed_at env) run) t =
      sx_catalogue s @ [set_ddl (ce_executed_at env) run d]"
    using t tbl_upd_absent [OF fresh] d by (simp add: tbl_upd_def)
  have "tbl_get sd_id (ce_id env) (sx_catalogue s) = None" using fresh by (simp add: tbl_get_None_iff)
  then have got: "get_definition (ce_id env) (sx_catalogue s @ [set_ddl (ce_executed_at env) run d]) =
      Some (set_ddl (ce_executed_at env) run d)"
    by (simp add: get_definition_def tbl_get_append d)
  from assms(4) Inr upd got t show ?thesis
    unfolding create_schema_def Let_def d_def [symmetric] run_def [symmetric] said_def
    by (auto split: if_splits)
qed

text \<open>What creating a schema leaves when no commit is applied and raises nevertheless.  Every error but that of the
  write-back leaves everything unchanged.  Otherwise
  the schema is in the catalogue and its statement was offered to the graph at most three times, again only after a
  refusal; the statement is recorded as carried out exactly when one of these offers succeeded.  When the call returns, the schema
  carries the statement and its outcome; after an error of the write-back it is there as pending.\<close>
theorem creation_outcomes:
  assumes "ce_commit env \<noteq> CommitLost" and "ce_write_back env \<noteq> CommitLost"
  shows "case create_schema cfg env kind p user s of (r, s') \<Rightarrow>
    (let ddl = build_create_ddl kind (py_name p) (py_properties p);
         new = new_definition (ce_id env) kind p (py_strip user) (ce_now env);
         ran = graph_ran (ce_graph env);
         statements = sx_statements s @ (if ran then [ddl] else [])
     in case r of
       Inr d \<Rightarrow> sx_catalogue s' = sx_catalogue s @ [d] \<and> sx_statements s' = statements \<and>
         sd_id d = ce_id env \<and> sd_ddl_statement d = Some ddl \<and>
         sd_ddl_status d = (if ran then ''succeeded'' else ''failed'')
     | Inl (SchemaDdlError m) \<Rightarrow> sx_catalogue s' = sx_catalogue s @ [new] \<and> sx_statements s' = statements \<and>
         sd_ddl_status new = ''pending''
     | Inl e \<Rightarrow> s' = s) \<and>
    snd (ddl_attempts (gs_reply (ce_graph env)) DDL_MAX_RETRIES 0 None) \<le> 3"
proof -
  let ?d = "new_definition (ce_id env) kind p (py_strip user) (ce_now env)"
  let ?r = "run_schema_ddl (ce_graph env) (ce_executed_at env) kind (py_name p) (py_properties p)"
  let ?e = "set_ddl (ce_executed_at env) ?r ?d"
  have writes: "snd (ddl_attempts (gs_reply (ce_graph env)) DDL_MAX_RETRIES 0 None) \<le> 3"
    using ddl_attempts_writes [of "gs_reply (ce_graph env)" DDL_MAX_RETRIES 0 None] by (simp add: DDL_MAX_RETRIES_def)
  obtain r s' where call: "create_schema cfg env kind p user s = (r, s')"
    by (cases "create_schema cfg env kind p user s")
  show ?thesis
    unfolding call prod.case using create_cases [OF call]
  proof (elim disjE exE conjE, goal_cases)
    case (1 e)
    with writes show ?case by (cases e) simp_all
  next
    case (2 e)
    with assms show ?case by simp
  next
    case (3 m)
    with writes show ?case by (simp add: Let_def)
  next
    case (4 m)
    with assms show ?case by simp
  next
    case 5
    with writes show ?case by (simp add: Let_def set_ddl_def)
  qed
qed

section \<open>Listings that are not dropped\<close>

text \<open>
  Only \<open>announced\<close> writes drop the cached listings, and only when they return: a listing does not show a script that
  was replaced since, nor a schema whose outcome could not be written back.
\<close>

lemma replacement_keeps_listings:
  "sp_cache (snd (replace_script_handler cfg env i filename ctype data a s)) = sp_cache s"
  by (simp add: replace_script_handler_def schema_admin_def unannounced_def split: sum.split auth_error.split prod.split)

lemma failed_write_back_keeps_listings:
  assumes "pa_is_admin (a :: platform_actor)"
    and "create_entity (sa_service cfg) env p (pa_user_id a) (sp_state s) = (Inl (SchemaDdlError m), s')"
  shows "create_entity_handler cfg env p a s = (HttpError 502 m, s\<lparr>sp_state := s'\<rparr>) \<and>
    length (sx_catalogue s') = Suc (length (sx_catalogue (sp_state s)))"
proof -
  have "create_schema (sa_service cfg) env ''entity'' p (pa_user_id a) (sp_state s) = (Inl (SchemaDdlError m), s')"
    using assms(2) by (simp add: create_entity_def)
  from create_cases [OF this] have "length (sx_catalogue s') = Suc (length (sx_catalogue (sp_state s)))" by auto
  with assms show ?thesis
    by (simp add: create_entity_handler_def schema_admin_def require_platform_admin_def announced_def raise_domain_error_def)
qed
end
