(* ===== verification/Llm_Config.thy ===== *)
theory Llm_Config
  imports Governance_Api
begin

text \<open>
  The configurations of language models: backend/service/llm\_config.py over
  backend/dao/llm\_config.py, the client that a process keeps (backend/infra/llm.py) and the
  handlers of backend/biz/handler/llm\_config.py.  Every write of the data access commits on its own, so
  an operation of two writes can stop between them, and other requests can come in between.
\<close>

section \<open>Rows and state\<close>

record llm_row =
  lr_id :: string
  lr_name :: string
  lr_description :: string
  lr_base_url :: string
  lr_api_key :: string
  lr_model :: string
  lr_owner :: string
  lr_is_default :: bool
  lr_status :: string
  lr_created_at :: time
  lr_updated_at :: time

type_synonym llm_settings = "string \<times> string \<times> string"    \<comment> \<open>key, base URL and model\<close>

record llm_state =
  ll_rows :: "llm_row list"
  ll_client :: "llm_settings option"       \<comment> \<open>the client of this process\<close>

record llm_env =
  le_id :: string
  le_now :: time
  le_first :: bool                         \<comment> \<open>the first commit succeeds\<close>
  le_second :: bool

definition zh_normal :: string where
  \<comment> \<open>U+6B63 U+5E38 (normal)\<close>
  "zh_normal = [CHR 0xE6, CHR 0xAD, CHR 0xA3, CHR 0xE5, CHR 0xB8, CHR 0xB8]"

definition DEFAULT_BASE_URL :: string where
  "DEFAULT_BASE_URL = ''https://open.bigmodel.cn/api/paas/v4''"

definition DEFAULT_MODEL :: string where
  "DEFAULT_MODEL = ''glm-4.7-flash''"

section \<open>Data access\<close>

definition active_default :: "llm_row \<Rightarrow> bool" where
  "active_default r \<longleftrightarrow> lr_is_default r \<and> lr_status r = zh_normal"

definition get_default :: "llm_row list \<Rightarrow> llm_row option" where
  \<comment> \<open>among rows updated at the same time the database may take any; here the last one\<close>
  "get_default rows = latest lr_updated_at (filter active_default rows)"

definition clear_other_defaults :: "string \<Rightarrow> llm_row list \<Rightarrow> llm_row list" where
  "clear_other_defaults i rows =
     map (\<lambda>r. if lr_is_default r \<and> lr_id r \<noteq> i then r\<lparr>lr_is_default := False\<rparr> else r) rows"

section \<open>The client of the process\<close>

definition resolve_llm_settings :: "(string \<Rightarrow> string option) \<Rightarrow> llm_row list \<Rightarrow> llm_settings option" where
  \<comment> \<open>the argument is the environment of the process\<close>
  "resolve_llm_settings vars rows =
     (case get_default rows of
        Some r \<Rightarrow> Some (lr_api_key r, lr_base_url r, lr_model r)
      | None \<Rightarrow>
          let k = (if opt_truthy (vars ''LLM_API_KEY'') then vars ''LLM_API_KEY'' else vars ''ZHIPUAI_API_KEY'') in
          if \<not> opt_truthy k then None
          else Some (opt_str k, case vars ''LLM_BASE_URL'' of None \<Rightarrow> DEFAULT_BASE_URL | Some u \<Rightarrow> u,
            case vars ''LLM_MODEL'' of None \<Rightarrow> DEFAULT_MODEL | Some m \<Rightarrow> m))"

definition get_llm_client :: "(string \<Rightarrow> string option) \<Rightarrow> llm_state \<Rightarrow> llm_settings option \<times> llm_state" where
  "get_llm_client vars s =
     (case ll_client s of
        Some c \<Rightarrow> (Some c, s)
      | None \<Rightarrow>
          (case resolve_llm_settings vars (ll_rows s) of
             None \<Rightarrow> (None, s)
           | Some c \<Rightarrow> (Some c, s\<lparr>ll_client := Some c\<rparr>)))"

definition get_llm_client_by_id :: "string \<Rightarrow> llm_row list \<Rightarrow> llm_settings option" where
  "get_llm_client_by_id i rows =
     (case tbl_get lr_id i rows of
        None \<Rightarrow> None
      | Some r \<Rightarrow> if lr_api_key r = [] then None else Some (lr_api_key r, lr_base_url r, lr_model r))"

section \<open>Views\<close>

definition bullet :: string where
  \<comment> \<open>U+2022 (bullet)\<close>
  "bullet = [CHR 0xE2, CHR 0x80, CHR 0xA2]"

definition mask_api_key :: "string \<Rightarrow> string" where
  "mask_api_key k =
     (let ps = code_points k; n = length ps in
      if n \<le> 8 then concat (replicate n bullet) else concat (replicate 8 bullet) @ concat (drop (n - 4) ps))"

record llm_view =
  lv_id :: string
  lv_name :: string
  lv_description :: string
  lv_base_url :: string
  lv_model :: string
  lv_owner :: string
  lv_is_default :: bool
  lv_status :: string
  lv_has_api_key :: bool
  lv_api_key_masked :: string
  lv_created_at :: time
  lv_updated_at :: time

definition to_out :: "llm_row \<Rightarrow> llm_view" where
  "to_out r = \<lparr>lv_id = lr_id r, lv_name = lr_name r, lv_description = lr_description r, lv_base_url = lr_base_url r,
     lv_model = lr_model r, lv_owner = lr_owner r, lv_is_default = lr_is_default r, lv_status = lr_status r,
     lv_has_api_key = (lr_api_key r \<noteq> []), lv_api_key_masked = mask_api_key (lr_api_key r),
     lv_created_at = lr_created_at r, lv_updated_at = lr_updated_at r\<rparr>"

definition list_configs :: "llm_row list \<Rightarrow> llm_view list" where
  "list_configs rows = map to_out (take 1000 (rev (sort_key lr_updated_at (rev rows))))"

section \<open>Operations\<close>

record llm_create =
  lc_name :: string
  lc_description :: string
  lc_base_url :: string
  lc_api_key :: string
  lc_model :: string
  lc_owner :: string
  lc_is_default :: bool
  lc_status :: string

record llm_update =
  lu_name :: "string option"
  lu_description :: "string option"
  lu_base_url :: "string option"
  lu_api_key :: "string option"
  lu_model :: "string option"
  lu_owner :: "string option"
  lu_is_default :: "bool option"
  lu_status :: "string option"

definition new_config :: "llm_env \<Rightarrow> llm_create \<Rightarrow> llm_row" where
  "new_config env p =
     \<lparr>lr_id = le_id env, lr_name = lc_name p, lr_description = lc_description p, lr_base_url = lc_base_url p,
      lr_api_key = lc_api_key p, lr_model = lc_model p, lr_owner = lc_owner p, lr_is_default = lc_is_default p,
      lr_status = lc_status p, lr_created_at = le_now env, lr_updated_at = le_now env\<rparr>"

definition or_kept :: "'a option \<Rightarrow> 'a \<Rightarrow> 'a" where
  "or_kept v x = (case v of None \<Rightarrow> x | Some y \<Rightarrow> y)"

definition updated_config :: "llm_env \<Rightarrow> llm_update \<Rightarrow> llm_row \<Rightarrow> llm_row" where
  "updated_config env p r =
     r\<lparr>lr_updated_at := le_now env, lr_name := or_kept (lu_name p) (lr_name r),
       lr_description := or_kept (lu_description p) (lr_description r),
       lr_base_url := or_kept (lu_base_url p) (lr_base_url r), lr_model := or_kept (lu_model p) (lr_model r),
       lr_owner := or_kept (lu_owner p) (lr_owner r), lr_is_default := or_kept (lu_is_default p) (lr_is_default r),
       lr_status := or_kept (lu_status p) (lr_status r),
       lr_api_key := (if opt_truthy (lu_api_key p) then opt_str (lu_api_key p) else lr_api_key r)\<rparr>"

type_synonym 'a llm_call = "llm_state \<Rightarrow> (unit + 'a) \<times> llm_state"    \<comment> \<open>Inl: an exception of the database\<close>

definition settle_default :: "llm_env \<Rightarrow> llm_row \<Rightarrow> llm_view llm_call" where
  \<comment> \<open>the second write of \<open>create\_config\<close> and \<open>update\_config\<close>, and \<open>reset\_llm\_client\<close>\<close>
  "settle_default env r s =
     (if lr_is_default r
      then if le_second env
        then (Inr (to_out r), s\<lparr>ll_rows := clear_other_defaults (lr_id r) (ll_rows s), ll_client := None\<rparr>)
        else (Inl (), s)
      else (Inr (to_out r), s\<lparr>ll_client := None\<rparr>))"

definition create_config :: "llm_env \<Rightarrow> llm_create \<Rightarrow> llm_view llm_call" where
  "create_config env p s =
     (case tbl_insert lr_id (new_config env p) (ll_rows s) of
        None \<Rightarrow> (Inl (), s)
      | Some rows \<Rightarrow>
          if le_first env then settle_default env (new_config env p) (s\<lparr>ll_rows := rows\<rparr>) else (Inl (), s))"

definition update_config :: "llm_env \<Rightarrow> string \<Rightarrow> llm_update \<Rightarrow> llm_view option llm_call" where
  "update_config env i p s =
     (case tbl_get lr_id i (ll_rows s) of
        None \<Rightarrow> (Inr None, s)
      | Some r \<Rightarrow>
          if le_first env
          then (case settle_default env (updated_config env p r)
                  (s\<lparr>ll_rows := tbl_upd lr_id i (\<lambda>_. updated_config env p r) (ll_rows s)\<rparr>) of
              (Inl e, s') \<Rightarrow> (Inl e, s') | (Inr v, s') \<Rightarrow> (Inr (Some v), s'))
          else (Inl (), s))"

definition delete_config :: "llm_env \<Rightarrow> string \<Rightarrow> bool llm_call" where
  "delete_config env i s =
     (if tbl_get lr_id i (ll_rows s) = None then (Inr False, s)
      else if le_first env then (Inr True, s\<lparr>ll_rows := tbl_del lr_id i (ll_rows s), ll_client := None\<rparr>)
      else (Inl (), s))"

definition mark_default :: "llm_env \<Rightarrow> string \<Rightarrow> llm_row list \<Rightarrow> llm_row list" where
  \<comment> \<open>the second write of \<open>set\_default\<close>\<close>
  "mark_default env i rows = tbl_upd lr_id i (\<lambda>r. r\<lparr>lr_is_default := True, lr_updated_at := le_now env\<rparr>) rows"

definition set_default :: "llm_env \<Rightarrow> string \<Rightarrow> llm_view option llm_call" where
  "set_default env i s =
     (if tbl_get lr_id i (ll_rows s) = None then (Inr None, s)
      else if \<not> le_first env then (Inl (), s)
      else
        let cleared = clear_other_defaults i (ll_rows s); marked = mark_default env i cleared in
        if \<not> le_second env then (Inl (), s\<lparr>ll_rows := cleared\<rparr>)
        else (Inr (map_option to_out (tbl_get lr_id i marked)), s\<lparr>ll_rows := marked, ll_client := None\<rparr>))"

record connection_result =
  cr_ok :: bool
  cr_latency_ms :: "int option"
  cr_error :: "string option"

definition test_connection :: "(llm_settings \<Rightarrow> string option) \<Rightarrow> int \<Rightarrow> string \<Rightarrow> llm_row list \<Rightarrow> connection_result" where
  \<comment> \<open>the error of the provider, if any, and how long the call took\<close>
  "test_connection provider ms i rows =
     (case tbl_get lr_id i rows of
        None \<Rightarrow> \<lparr>cr_ok = False, cr_latency_ms = None, cr_error = Some ''no-config''\<rparr>
      | Some r \<Rightarrow>
          if lr_api_key r = [] then \<lparr>cr_ok = False, cr_latency_ms = None, cr_error = Some ''no-key''\<rparr>
          else (case provider (lr_api_key r, lr_base_url r, lr_model r) of
             None \<Rightarrow> \<lparr>cr_ok = True, cr_latency_ms = Some ms, cr_error = None\<rparr>
           | Some e \<Rightarrow> \<lparr>cr_ok = False, cr_latency_ms = Some ms, cr_error = Some e\<rparr>))"

section \<open>Handlers\<close>

definition LLM_LIST :: string where
  "LLM_LIST = ''llm-config:list''"

record llm_api =
  la_state :: llm_state
  la_cache :: cache

definition list_llm_handler ::
  "time \<Rightarrow> int \<Rightarrow> (llm_view list \<Rightarrow> string) \<Rightarrow> query_items \<Rightarrow> llm_api \<Rightarrow> string http \<times> llm_api" where
  "list_llm_handler t ttl txt items s =
     (case try_get t LLM_LIST items (la_cache s) of
        Some cached \<Rightarrow> (HttpOk cached, s)
      | None \<Rightarrow>
          let body = txt (list_configs (ll_rows (la_state s))) in
          (HttpOk body, s\<lparr>la_cache := store_page t ttl LLM_LIST items body (la_cache s)\<rparr>))"

definition llm_written :: "(unit + 'a) \<times> llm_state \<Rightarrow> ('a \<Rightarrow> bool) \<Rightarrow> llm_api \<Rightarrow> 'a http \<times> llm_api" where
  \<comment> \<open>404 when nothing was found; otherwise the listings are dropped\<close>
  "llm_written res found s =
     (case res of
        (Inl e, s') \<Rightarrow> (HttpError 500 [], s\<lparr>la_state := s'\<rparr>)
      | (Inr x, s') \<Rightarrow>
          if found x then (HttpOk x, s\<lparr>la_state := s', la_cache := invalidate LLM_LIST (la_cache s)\<rparr>)
          else (HttpError 404 ''no-config'', s\<lparr>la_state := s'\<rparr>))"

definition create_llm_handler :: "llm_env \<Rightarrow> llm_create \<Rightarrow> llm_api \<Rightarrow> llm_view http \<times> llm_api" where
  "create_llm_handler env p s = llm_written (create_config env p (la_state s)) (\<lambda>_. True) s"

definition update_llm_handler :: "llm_env \<Rightarrow> string \<Rightarrow> llm_update \<Rightarrow> llm_api \<Rightarrow> llm_view option http \<times> llm_api" where
  "update_llm_handler env i p s = llm_written (update_config env i p (la_state s)) (\<lambda>v. v \<noteq> None) s"

definition delete_llm_handler :: "llm_env \<Rightarrow> string \<Rightarrow> llm_api \<Rightarrow> bool http \<times> llm_api" where
  "delete_llm_handler env i s = llm_written (delete_config env i (la_state s)) (\<lambda>b. b) s"

definition set_default_llm_handler :: "llm_env \<Rightarrow> string \<Rightarrow> llm_api \<Rightarrow> llm_view option http \<times> llm_api" where
  "set_default_llm_handler env i s = llm_written (set_default env i (la_state s)) (\<lambda>v. v \<noteq> None) s"

definition get_llm_handler :: "string \<Rightarrow> llm_api \<Rightarrow> llm_view http" where
  "get_llm_handler i s =
     (case tbl_get lr_id i (ll_rows (la_state s)) of None \<Rightarrow> HttpError 404 ''no-config'' | Some r \<Rightarrow> HttpOk (to_out r))"

end
