(* ===== verification/Llm_Claims.thy ===== *)
theory Llm_Claims
  imports Llm_Config Systems
begin

text \<open>
  Runs of the operations on the configurations of language models: one default, a client that
  follows it, and what two writes that are not one transaction can leave.
\<close>

section \<open>Runs\<close>

datatype llm_cmd =
    LlmCreate llm_env llm_create
  | LlmUpdate llm_env string llm_update
  | LlmDelete llm_env string
  | LlmSetDefault llm_env string
  | LlmUse

definition commits :: "llm_env \<Rightarrow> bool" where
  "commits env \<longleftrightarrow> le_first env \<and> le_second env"

definition exec_llm :: "(string \<Rightarrow> string option) \<Rightarrow> llm_cmd \<Rightarrow> llm_state \<Rightarrow> unit + llm_state" where
  \<comment> \<open>operations one after the other, none of them interrupted\<close>
  "exec_llm vars c s =
     (case c of
        LlmCreate env p \<Rightarrow> if commits env then Inr (snd (create_config env p s)) else Inl ()
      | LlmUpdate env i p \<Rightarrow> if commits env then Inr (snd (update_config env i p s)) else Inl ()
      | LlmDelete env i \<Rightarrow> if commits env then Inr (snd (delete_config env i s)) else Inl ()
      | LlmSetDefault env i \<Rightarrow> if commits env then Inr (snd (set_default env i s)) else Inl ()
      | LlmUse \<Rightarrow> Inr (snd (get_llm_client vars s)))"

definition defaults :: "llm_row list \<Rightarrow> llm_row list" where
  "defaults rows = filter lr_is_default rows"

definition llm_inv :: "(string \<Rightarrow> string option) \<Rightarrow> llm_state \<Rightarrow> bool" where
  "llm_inv vars s \<longleftrightarrow> keys_ok lr_id (ll_rows s) \<and> length (defaults (ll_rows s)) \<le> 1 \<and>
     (ll_client s = None \<or> ll_client s = resolve_llm_settings vars (ll_rows s))"

lemma keys_clear [simp]: "keys_ok lr_id (clear_other_defaults i rows) = keys_ok lr_id rows"
  by (simp add: keys_ok_def clear_other_defaults_def comp_def if_distrib cong: if_cong)

lemma one_with_key: "keys_ok key t \<Longrightarrow> length (filter (\<lambda>r. key r = k \<and> P r) t) \<le> Suc 0"
proof (induction t)
  case (Cons a t)
  then have "key a \<notin> key ` set t" by (simp add: keys_ok_def)
  then have "\<And>x. x \<in> set t \<Longrightarrow> key x \<noteq> key a" by (metis imageI)
  then have "filter (\<lambda>r. key r = key a \<and> P r) t = []" by (auto simp: filter_empty_conv)
  with Cons show ?case by (auto simp: keys_ok_def)
qed simp

lemma defaults_clear: "keys_ok lr_id rows \<Longrightarrow> length (defaults (clear_other_defaults i rows)) \<le> Suc 0"
proof -
  have "defaults (clear_other_defaults i rows) = filter (\<lambda>r. lr_id r = i \<and> lr_is_default r) rows"
    by (induction rows) (auto simp: defaults_def clear_other_defaults_def)
  then show "keys_ok lr_id rows \<Longrightarrow> ?thesis" by (simp add: one_with_key)
qed

lemma defaults_upd_off:
  "\<not> lr_is_default r \<Longrightarrow> length (defaults (tbl_upd lr_id i (\<lambda>_. r) rows)) \<le> length (defaults rows)"
  by (induction rows) (auto simp: defaults_def tbl_upd_def)

lemma defaults_del: "length (defaults (tbl_del lr_id i rows)) \<le> length (defaults rows)"
  unfolding defaults_def tbl_del_def by (subst filter_commute) (rule length_filter_le)

lemma mark_after_clear:
  "keys_ok lr_id rows \<Longrightarrow> length (defaults (mark_default env i (clear_other_defaults i rows))) \<le> Suc 0"
proof -
  have "defaults (mark_default env i (clear_other_defaults i rows)) =
      map (\<lambda>r. r\<lparr>lr_is_default := True, lr_updated_at := le_now env\<rparr>) (filter (\<lambda>r. lr_id r = i \<and> True) rows)"
    by (induction rows) (auto simp: defaults_def mark_default_def clear_other_defaults_def tbl_upd_def)
  then show "keys_ok lr_id rows \<Longrightarrow> ?thesis" using one_with_key [of lr_id rows i "\<lambda>_. True"] by simp
qed

lemma keys_mark: "keys_ok lr_id (mark_default env i rows) = keys_ok lr_id rows"
  unfolding mark_default_def by (rule keys_ok_upd) simp

lemma settle_inv:
  assumes "keys_ok lr_id (ll_rows s)" and "\<not> lr_is_default r \<Longrightarrow> length (defaults (ll_rows s)) \<le> 1"
    and "le_second env"
  shows "llm_inv vars (snd (settle_default env r s))"
  using assms by (simp add: settle_default_def llm_inv_def defaults_clear)

lemma exec_llm_inv:
  assumes "llm_inv vars s" and "exec_llm vars c s = Inr s'"
  shows "llm_inv vars s'"
proof (cases c)
  case (LlmCreate env p)
  show ?thesis
  proof (cases "tbl_insert lr_id (new_config env p) (ll_rows s)")
    case None
    with LlmCreate assms show ?thesis by (auto simp: exec_llm_def create_config_def split: if_splits)
  next
    case (Some rows)
    then have "rows = ll_rows s @ [new_config env p]" "keys_ok lr_id rows"
      using assms(1) keys_ok_insert [of lr_id "ll_rows s"] by (auto simp: tbl_insert_Some llm_inv_def)
    with assms(1) have "llm_inv vars (snd (settle_default env (new_config env p) (s\<lparr>ll_rows := rows\<rparr>)))"
      if "le_second env" using that by (intro settle_inv) (auto simp: llm_inv_def defaults_def)
    with Some LlmCreate assms(2) show ?thesis
      by (auto simp: exec_llm_def create_config_def commits_def split: if_splits)
  qed
next
  case (LlmUpdate env i p)
  show ?thesis
  proof (cases "tbl_get lr_id i (ll_rows s)")
    case None
    with LlmUpdate assms show ?thesis by (auto simp: exec_llm_def update_config_def split: if_splits)
  next
    case (Some r)
    let ?r = "updated_config env p r" and ?rows = "tbl_upd lr_id i (\<lambda>_. updated_config env p r) (ll_rows s)"
    have id: "lr_id ?r = i" using Some by (auto simp: updated_config_def dest: tbl_get_Some)
    have k: "keys_ok lr_id ?rows" using assms(1) id by (subst keys_ok_upd) (auto simp: llm_inv_def)
    have "length (defaults ?rows) \<le> 1" if "\<not> lr_is_default ?r"
      using defaults_upd_off [OF that, of i "ll_rows s"] assms(1) by (simp add: llm_inv_def)
    with k have "llm_inv vars (snd (settle_default env ?r (s\<lparr>ll_rows := ?rows\<rparr>)))" if "le_second env"
      using that by (intro settle_inv) simp_all
    with Some LlmUpdate assms(2) show ?thesis
      by (auto simp: exec_llm_def update_config_def commits_def case_prod_beta split: if_splits sum.splits)
  qed
next
  case (LlmDelete env i)
  with assms defaults_del [of i "ll_rows s"] show ?thesis
    by (auto simp: exec_llm_def delete_config_def commits_def llm_inv_def keys_ok_del split: if_splits)
next
  case (LlmSetDefault env i)
  with assms mark_after_clear [of "ll_rows s" env i] show ?thesis
    by (auto simp: exec_llm_def set_default_def commits_def llm_inv_def keys_mark Let_def split: if_splits)
next
  case LlmUse
  with assms show ?thesis
    by (auto simp: exec_llm_def get_llm_client_def llm_inv_def split: option.splits)
qed

interpretation llm: guarded_system "exec_llm vars" "llm_inv vars" for vars :: "string \<Rightarrow> string option"
  by unfold_locales (rule exec_llm_inv)

section \<open>Properties\<close>

lemma current_client:
  assumes "ll_client s = None \<or> ll_client s = resolve_llm_settings vars (ll_rows s)"
  shows "fst (get_llm_client vars s) = resolve_llm_settings vars (ll_rows s)"
  using assms by (auto simp: get_llm_client_def split: option.split)

text \<open>C31: One default, followed by the client.  Along every run of operations that are not interrupted, at most one
  configuration is the default, and whenever the process asks for its client it gets the settings that the
  configurations and the environment give at that moment, although it keeps the client it once made.\<close>
theorem client_follows_default:
  assumes "reach (exec_llm vars) s0 s" and "keys_ok lr_id (ll_rows s0)" and "length (defaults (ll_rows s0)) \<le> 1"
    and "ll_client s0 = None"
  shows "length (defaults (ll_rows s)) \<le> 1 \<and> fst (get_llm_client vars s) = resolve_llm_settings vars (ll_rows s)"
proof -
  have "llm_inv vars s" by (rule llm.reach_keeps [OF assms(1)]) (use assms in \<open>simp add: llm_inv_def\<close>)
  then show ?thesis by (auto simp: llm_inv_def intro: current_client)
qed

definition demo_llm :: "string \<Rightarrow> llm_row" where
  "demo_llm i = \<lparr>lr_id = i, lr_name = i, lr_description = [], lr_base_url = ''u'', lr_api_key = i, lr_model = ''m'',
     lr_owner = [], lr_is_default = False, lr_status = zh_normal, lr_created_at = 0, lr_updated_at = 0\<rparr>"

definition demo_llms :: llm_state where
  "demo_llms = \<lparr>ll_rows = [demo_llm ''a'', demo_llm ''b''], ll_client = None\<rparr>"

definition demo_llm_env :: "time \<Rightarrow> bool \<Rightarrow> llm_env" where
  "demo_llm_env t b = \<lparr>le_id = ''c'', le_now = t, le_first = True, le_second = b\<rparr>"

definition demo_llm_run :: "llm_cmd list" where
  "demo_llm_run = [LlmSetDefault (demo_llm_env 1 True) ''a'', LlmUse, LlmSetDefault (demo_llm_env 2 True) ''b'']"

lemma demo_llm_client:
  "resolve_llm_settings (\<lambda>x. None) (ll_rows (run_cmds (exec_llm (\<lambda>x. None)) demo_llm_run demo_llms)) =
     Some (''b'', ''u'', ''m'')"
  by code_simp

theorem client_follows_default_witness:
  "fst (get_llm_client (\<lambda>x. None) (run_cmds (exec_llm (\<lambda>x. None)) demo_llm_run demo_llms)) = Some (''b'', ''u'', ''m'')"
  using client_follows_default [OF reach_run_cmds, of demo_llms "\<lambda>x. None" demo_llm_run] demo_llm_client
  by (simp add: demo_llms_def demo_llm_def keys_ok_def defaults_def)

text \<open>
  The writes of an operation commit one by one.  Two administrators who choose a default at the same time leave
  two; two who create one leave none; and a creation that fails between its writes leaves two, with the old
  client still in use.
\<close>

lemma concurrent_choices_leave_two_defaults:
  "length (defaults (mark_default (demo_llm_env 2 True) ''b'' (mark_default (demo_llm_env 1 True) ''a''
     (clear_other_defaults ''b'' (clear_other_defaults ''a'' (ll_rows demo_llms)))))) = 2"
  by code_simp

lemma concurrent_creations_leave_no_default:
  "r \<in> set (clear_other_defaults j (clear_other_defaults i rows)) \<Longrightarrow> i \<noteq> j \<Longrightarrow> \<not> lr_is_default r"
  by (auto simp: clear_other_defaults_def split: if_splits)

lemma interrupted_creation_leaves_two_defaults:
  "let s = snd (set_default (demo_llm_env 1 True) ''a'' demo_llms);
       s1 = snd (get_llm_client (\<lambda>x. None) s);
       s2 = snd (create_config (demo_llm_env 2 False) \<lparr>lc_name = ''c'', lc_description = [], lc_base_url = ''u'',
         lc_api_key = ''c'', lc_model = ''m'', lc_owner = [], lc_is_default = True, lc_status = zh_normal\<rparr> s1)
   in length (defaults (ll_rows s2)) = 2 \<and>
      fst (get_llm_client (\<lambda>x. None) s2) = Some (''a'', ''u'', ''m'') \<and>
      resolve_llm_settings (\<lambda>x. None) (ll_rows s2) = Some (''c'', ''u'', ''m'')"
  by code_simp

end
