(* ===== verification/Workflow_Lexicon.thy ===== *)
theory Workflow_Lexicon
  imports Lexicon
begin

text \<open>
  The Chinese literals of workflows, their tasks and schedules, as UTF-8 bytes.
\<close>

definition zh_running :: string where
  \<comment> \<open>U+6267 U+884C U+4E2D (running)\<close>
  "zh_running =
     [CHR 0xE6, CHR 0x89, CHR 0xA7, CHR 0xE8, CHR 0xA1, CHR 0x8C, CHR 0xE4, CHR 0xB8, CHR 0xAD]"

definition zh_run_error :: string where
  \<comment> \<open>U+6267 U+884C U+51FA U+9519 (execution failed)\<close>
  "zh_run_error =
     [CHR 0xE6, CHR 0x89, CHR 0xA7, CHR 0xE8, CHR 0xA1, CHR 0x8C, CHR 0xE5, CHR 0x87, CHR 0xBA,
      CHR 0xE9, CHR 0x94, CHR 0x99]"

definition zh_awaiting_review :: string where
  \<comment> \<open>U+7B49 U+5F85 U+4EBA U+5DE5 U+5BA1 U+6838 (waiting for manual review)\<close>
  "zh_awaiting_review =
     [CHR 0xE7, CHR 0xAD, CHR 0x89, CHR 0xE5, CHR 0xBE, CHR 0x85, CHR 0xE4, CHR 0xBA, CHR 0xBA,
      CHR 0xE5, CHR 0xB7, CHR 0xA5, CHR 0xE5, CHR 0xAE, CHR 0xA1, CHR 0xE6, CHR 0xA0, CHR 0xB8]"

definition zh_run_done :: string where
  \<comment> \<open>U+6267 U+884C U+5B8C U+6210 (execution finished)\<close>
  "zh_run_done =
     [CHR 0xE6, CHR 0x89, CHR 0xA7, CHR 0xE8, CHR 0xA1, CHR 0x8C, CHR 0xE5, CHR 0xAE, CHR 0x8C,
      CHR 0xE6, CHR 0x88, CHR 0x90]"

definition zh_todo :: string where
  \<comment> \<open>U+5F85 U+5904 U+7406 (to be handled)\<close>
  "zh_todo =
     [CHR 0xE5, CHR 0xBE, CHR 0x85, CHR 0xE5, CHR 0xA4, CHR 0x84, CHR 0xE7, CHR 0x90, CHR 0x86]"

definition zh_done :: string where
  \<comment> \<open>U+5DF2 U+5B8C U+6210 (completed)\<close>
  "zh_done =
     [CHR 0xE5, CHR 0xB7, CHR 0xB2, CHR 0xE5, CHR 0xAE, CHR 0x8C, CHR 0xE6, CHR 0x88, CHR 0x90]"

definition zh_revoked :: string where
  \<comment> \<open>U+5DF2 U+64A4 U+9500 (revoked)\<close>
  "zh_revoked =
     [CHR 0xE5, CHR 0xB7, CHR 0xB2, CHR 0xE6, CHR 0x92, CHR 0xA4, CHR 0xE9, CHR 0x94, CHR 0x80]"

definition zh_revoke_task :: string where
  \<comment> \<open>U+64A4 U+9500 U+4EFB U+52A1 (task revoked)\<close>
  "zh_revoke_task =
     [CHR 0xE6, CHR 0x92, CHR 0xA4, CHR 0xE9, CHR 0x94, CHR 0x80, CHR 0xE4, CHR 0xBB, CHR 0xBB,
      CHR 0xE5, CHR 0x8A, CHR 0xA1]"

definition zh_in_progress :: string where
  \<comment> \<open>U+5904 U+7406 U+4E2D (in progress)\<close>
  "zh_in_progress =
     [CHR 0xE5, CHR 0xA4, CHR 0x84, CHR 0xE7, CHR 0x90, CHR 0x86, CHR 0xE4, CHR 0xB8, CHR 0xAD]"

definition zh_wf_entity :: string where
  \<comment> \<open>U+5B9E U+4F53 (entity)\<close>
  "zh_wf_entity = [CHR 0xE5, CHR 0xAE, CHR 0x9E, CHR 0xE4, CHR 0xBD, CHR 0x93]"

definition zh_wf_instance :: string where
  \<comment> \<open>U+5DE5 U+4F5C U+6D41 U+5B9E U+4F8B (workflow instance)\<close>
  "zh_wf_instance =
     [CHR 0xE5, CHR 0xB7, CHR 0xA5, CHR 0xE4, CHR 0xBD, CHR 0x9C, CHR 0xE6, CHR 0xB5, CHR 0x81,
      CHR 0xE5, CHR 0xAE, CHR 0x9E, CHR 0xE4, CHR 0xBE, CHR 0x8B]"

definition zh_job_run :: string where
  \<comment> \<open>U+4F5C U+4E1A U+6267 U+884C (job execution)\<close>
  "zh_job_run =
     [CHR 0xE4, CHR 0xBD, CHR 0x9C, CHR 0xE4, CHR 0xB8, CHR 0x9A, CHR 0xE6, CHR 0x89, CHR 0xA7,
      CHR 0xE8, CHR 0xA1, CHR 0x8C]"

definition zh_all_domains :: string where
  \<comment> \<open>U+7EFC U+5408 U+6570 U+636E U+57DF (all data domains)\<close>
  "zh_all_domains =
     [CHR 0xE7, CHR 0xBB, CHR 0xBC, CHR 0xE5, CHR 0x90, CHR 0x88, CHR 0xE6, CHR 0x95, CHR 0xB0,
      CHR 0xE6, CHR 0x8D, CHR 0xAE, CHR 0xE5, CHR 0x9F, CHR 0x9F]"

definition zh_trigger_build :: string where
  \<comment> \<open>U+7ACB U+5373 U+89E6 U+53D1 U+56FE U+8C31 U+6784 U+5EFA (graph construction triggered)\<close>
  "zh_trigger_build =
     [CHR 0xE7, CHR 0xAB, CHR 0x8B, CHR 0xE5, CHR 0x8D, CHR 0xB3, CHR 0xE8, CHR 0xA7, CHR 0xA6,
      CHR 0xE5, CHR 0x8F, CHR 0x91, CHR 0xE5, CHR 0x9B, CHR 0xBE, CHR 0xE8, CHR 0xB0, CHR 0xB1,
      CHR 0xE6, CHR 0x9E, CHR 0x84, CHR 0xE5, CHR 0xBB, CHR 0xBA]"

definition zh_incremental_build :: string where
  \<comment> \<open>U+589E U+91CF U+56FE U+8C31 U+6784 U+5EFA (incremental graph construction)\<close>
  "zh_incremental_build =
     [CHR 0xE5, CHR 0xA2, CHR 0x9E, CHR 0xE9, CHR 0x87, CHR 0x8F, CHR 0xE5, CHR 0x9B, CHR 0xBE,
      CHR 0xE8, CHR 0xB0, CHR 0xB1, CHR 0xE6, CHR 0x9E, CHR 0x84, CHR 0xE5, CHR 0xBB, CHR 0xBA]"

definition zh_by_domain :: string where
  \<comment> \<open>U+6309 U+4E1A U+52A1 U+57DF U+589E U+91CF (increment per domain)\<close>
  "zh_by_domain =
     [CHR 0xE6, CHR 0x8C, CHR 0x89, CHR 0xE4, CHR 0xB8, CHR 0x9A, CHR 0xE5, CHR 0x8A, CHR 0xA1,
      CHR 0xE5, CHR 0x9F, CHR 0x9F, CHR 0xE5, CHR 0xA2, CHR 0x9E, CHR 0xE9, CHR 0x87, CHR 0x8F]"

definition zh_wf_finished :: string where
  \<comment> \<open>U+5DE5 U+4F5C U+6D41 U+6267 U+884C U+5B8C U+6210 (workflow finished)\<close>
  "zh_wf_finished =
     [CHR 0xE5, CHR 0xB7, CHR 0xA5, CHR 0xE4, CHR 0xBD, CHR 0x9C, CHR 0xE6, CHR 0xB5, CHR 0x81,
      CHR 0xE6, CHR 0x89, CHR 0xA7, CHR 0xE8, CHR 0xA1, CHR 0x8C, CHR 0xE5, CHR 0xAE, CHR 0x8C,
      CHR 0xE6, CHR 0x88, CHR 0x90]"

definition zh_wf_sent :: string where
  \<comment> \<open>U+5DE5 U+4F5C U+6D41 U+5DF2 U+4E0B U+53D1 (workflow dispatched)\<close>
  "zh_wf_sent =
     [CHR 0xE5, CHR 0xB7, CHR 0xA5, CHR 0xE4, CHR 0xBD, CHR 0x9C, CHR 0xE6, CHR 0xB5, CHR 0x81,
      CHR 0xE5, CHR 0xB7, CHR 0xB2, CHR 0xE4, CHR 0xB8, CHR 0x8B, CHR 0xE5, CHR 0x8F, CHR 0x91]"

definition zh_refresh_failed :: string where
  \<comment> \<open>U+72B6 U+6001 U+5237 U+65B0 U+5931 U+8D25 U+003A U+0020 (refresh of the status failed)\<close>
  "zh_refresh_failed =
     [CHR 0xE7, CHR 0x8A, CHR 0xB6, CHR 0xE6, CHR 0x80, CHR 0x81, CHR 0xE5, CHR 0x88, CHR 0xB7,
      CHR 0xE6, CHR 0x96, CHR 0xB0, CHR 0xE5, CHR 0xA4, CHR 0xB1, CHR 0xE8, CHR 0xB4, CHR 0xA5,
      CHR 0x3A, CHR 0x20]"

definition zh_temporal_down :: string where
  \<comment> \<open>U+0054 U+0065 U+006D U+0070 U+006F U+0072 U+0061 U+006C U+0020 U+6682 U+4E0D U+53EF U+7528 U+FF0C U+5DF2 U+4FDD U+5B58 U+5F85 U+4E0B U+53D1 U+8BB0 U+5F55 U+003A U+0020 (Temporal not available, record saved for dispatch)\<close>
  "zh_temporal_down =
     [CHR 0x54, CHR 0x65, CHR 0x6D, CHR 0x70, CHR 0x6F, CHR 0x72, CHR 0x61, CHR 0x6C, CHR 0x20,
      CHR 0xE6, CHR 0x9A, CHR 0x82, CHR 0xE4, CHR 0xB8, CHR 0x8D, CHR 0xE5, CHR 0x8F, CHR 0xAF,
      CHR 0xE7, CHR 0x94, CHR 0xA8, CHR 0xEF, CHR 0xBC, CHR 0x8C, CHR 0xE5, CHR 0xB7, CHR 0xB2,
      CHR 0xE4, CHR 0xBF, CHR 0x9D, CHR 0xE5, CHR 0xAD, CHR 0x98, CHR 0xE5, CHR 0xBE, CHR 0x85,
      CHR 0xE4, CHR 0xB8, CHR 0x8B, CHR 0xE5, CHR 0x8F, CHR 0x91, CHR 0xE8, CHR 0xAE, CHR 0xB0,
      CHR 0xE5, CHR 0xBD, CHR 0x95, CHR 0x3A, CHR 0x20]"

definition zh_wf_exists :: string where
  \<comment> \<open>U+5DE5 U+4F5C U+6D41 U+5DF2 U+5B58 U+5728 U+003A U+0020 (workflow exists already)\<close>
  "zh_wf_exists =
     [CHR 0xE5, CHR 0xB7, CHR 0xA5, CHR 0xE4, CHR 0xBD, CHR 0x9C, CHR 0xE6, CHR 0xB5, CHR 0x81,
      CHR 0xE5, CHR 0xB7, CHR 0xB2, CHR 0xE5, CHR 0xAD, CHR 0x98, CHR 0xE5, CHR 0x9C, CHR 0xA8,
      CHR 0x3A, CHR 0x20]"

definition zh_daily :: string where
  \<comment> \<open>U+6BCF U+5929 (daily)\<close>
  "zh_daily = [CHR 0xE6, CHR 0xAF, CHR 0x8F, CHR 0xE5, CHR 0xA4, CHR 0xA9]"

definition zh_twelve_hours :: string where
  \<comment> \<open>U+6BCF U+0031 U+0032 U+5C0F U+65F6 (every 12 hours)\<close>
  "zh_twelve_hours =
     [CHR 0xE6, CHR 0xAF, CHR 0x8F, CHR 0x31, CHR 0x32, CHR 0xE5, CHR 0xB0, CHR 0x8F, CHR 0xE6,
      CHR 0x97, CHR 0xB6]"

definition zh_six_hours :: string where
  \<comment> \<open>U+6BCF U+0036 U+5C0F U+65F6 (every 6 hours)\<close>
  "zh_six_hours =
     [CHR 0xE6, CHR 0xAF, CHR 0x8F, CHR 0x36, CHR 0xE5, CHR 0xB0, CHR 0x8F, CHR 0xE6, CHR 0x97,
      CHR 0xB6]"

definition zh_weekly :: string where
  \<comment> \<open>U+6BCF U+5468 (weekly)\<close>
  "zh_weekly = [CHR 0xE6, CHR 0xAF, CHR 0x8F, CHR 0xE5, CHR 0x91, CHR 0xA8]"

definition zh_auto_policy :: string where
  \<comment> \<open>U+81EA U+52A8 U+66F4 U+65B0 U+7B56 U+7565 (automatic update policy)\<close>
  "zh_auto_policy =
     [CHR 0xE8, CHR 0x87, CHR 0xAA, CHR 0xE5, CHR 0x8A, CHR 0xA8, CHR 0xE6, CHR 0x9B, CHR 0xB4,
      CHR 0xE6, CHR 0x96, CHR 0xB0, CHR 0xE7, CHR 0xAD, CHR 0x96, CHR 0xE7, CHR 0x95, CHR 0xA5]"

definition zh_by_temporal :: string where
  \<comment> \<open>U+7531 U+0020 U+0054 U+0065 U+006D U+0070 U+006F U+0072 U+0061 U+006C U+0020 U+0053 U+0063 U+0068 U+0065 U+0064 U+0075 U+006C U+0065 U+0020 U+8BA1 U+7B97 (computed by the schedule)\<close>
  "zh_by_temporal =
     [CHR 0xE7, CHR 0x94, CHR 0xB1, CHR 0x20, CHR 0x54, CHR 0x65, CHR 0x6D, CHR 0x70, CHR 0x6F,
      CHR 0x72, CHR 0x61, CHR 0x6C, CHR 0x20, CHR 0x53, CHR 0x63, CHR 0x68, CHR 0x65, CHR 0x64,
      CHR 0x75, CHR 0x6C, CHR 0x65, CHR 0x20, CHR 0xE8, CHR 0xAE, CHR 0xA1, CHR 0xE7, CHR 0xAE,
      CHR 0x97]"

definition zh_ws_quality :: string where
  \<comment> \<open>U+8D28 U+91CF U+6821 U+9A8C (quality check)\<close>
  "zh_ws_quality =
     [CHR 0xE8, CHR 0xB4, CHR 0xA8, CHR 0xE9, CHR 0x87, CHR 0x8F, CHR 0xE6, CHR 0xA0, CHR 0xA1,
      CHR 0xE9, CHR 0xAA, CHR 0x8C]"

definition zh_ws_source_text :: string where
  \<comment> \<open>U+8BFB U+53D6 U+4E1A U+52A1 U+57DF U+589E U+91CF U+6570 U+636E (read the increment of the domain)\<close>
  "zh_ws_source_text =
     [CHR 0xE8, CHR 0xAF, CHR 0xBB, CHR 0xE5, CHR 0x8F, CHR 0x96, CHR 0xE4, CHR 0xB8, CHR 0x9A,
      CHR 0xE5, CHR 0x8A, CHR 0xA1, CHR 0xE5, CHR 0x9F, CHR 0x9F, CHR 0xE5, CHR 0xA2, CHR 0x9E,
      CHR 0xE9, CHR 0x87, CHR 0x8F, CHR 0xE6, CHR 0x95, CHR 0xB0, CHR 0xE6, CHR 0x8D, CHR 0xAE]"

definition zh_ws_normalize_text :: string where
  \<comment> \<open>U+6267 U+884C U+5B57 U+6BB5 U+3001 U+679A U+4E3E U+548C U+5B57 U+5178 U+6807 U+51C6 U+5316 (standardise fields, enumerations and dictionaries)\<close>
  "zh_ws_normalize_text =
     [CHR 0xE6, CHR 0x89, CHR 0xA7, CHR 0xE8, CHR 0xA1, CHR 0x8C, CHR 0xE5, CHR 0xAD, CHR 0x97,
      CHR 0xE6, CHR 0xAE, CHR 0xB5, CHR 0xE3, CHR 0x80, CHR 0x81, CHR 0xE6, CHR 0x9E, CHR 0x9A,
      CHR 0xE4, CHR 0xB8, CHR 0xBE, CHR 0xE5, CHR 0x92, CHR 0x8C, CHR 0xE5, CHR 0xAD, CHR 0x97,
      CHR 0xE5, CHR 0x85, CHR 0xB8, CHR 0xE6, CHR 0xA0, CHR 0x87, CHR 0xE5, CHR 0x87, CHR 0x86,
      CHR 0xE5, CHR 0x8C, CHR 0x96]"

definition zh_ws_schema_text :: string where
  \<comment> \<open>U+6620 U+5C04 U+5B9E U+4F53 U+3001 U+5173 U+7CFB U+4E0E U+5C5E U+6027 U+0020 U+0053 U+0063 U+0068 U+0065 U+006D U+0061 (map entities, relations and attributes)\<close>
  "zh_ws_schema_text =
     [CHR 0xE6, CHR 0x98, CHR 0xA0, CHR 0xE5, CHR 0xB0, CHR 0x84, CHR 0xE5, CHR 0xAE, CHR 0x9E,
      CHR 0xE4, CHR 0xBD, CHR 0x93, CHR 0xE3, CHR 0x80, CHR 0x81, CHR 0xE5, CHR 0x85, CHR 0xB3,
      CHR 0xE7, CHR 0xB3, CHR 0xBB, CHR 0xE4, CHR 0xB8, CHR 0x8E, CHR 0xE5, CHR 0xB1, CHR 0x9E,
      CHR 0xE6, CHR 0x80, CHR 0xA7, CHR 0x20, CHR 0x53, CHR 0x63, CHR 0x68, CHR 0x65, CHR 0x6D,
      CHR 0x61]"

definition zh_ws_extract_text :: string where
  \<comment> \<open>U+8FD0 U+884C U+9886 U+57DF U+4E13 U+5C5E U+5B9E U+4F53 U+002F U+5173 U+7CFB U+5DE5 U+4F5C U+6D41 (run the workflows of the domain)\<close>
  "zh_ws_extract_text =
     [CHR 0xE8, CHR 0xBF, CHR 0x90, CHR 0xE8, CHR 0xA1, CHR 0x8C, CHR 0xE9, CHR 0xA2, CHR 0x86,
      CHR 0xE5, CHR 0x9F, CHR 0x9F, CHR 0xE4, CHR 0xB8, CHR 0x93, CHR 0xE5, CHR 0xB1, CHR 0x9E,
      CHR 0xE5, CHR 0xAE, CHR 0x9E, CHR 0xE4, CHR 0xBD, CHR 0x93, CHR 0x2F, CHR 0xE5, CHR 0x85,
      CHR 0xB3, CHR 0xE7, CHR 0xB3, CHR 0xBB, CHR 0xE5, CHR 0xB7, CHR 0xA5, CHR 0xE4, CHR 0xBD,
      CHR 0x9C, CHR 0xE6, CHR 0xB5, CHR 0x81]"

definition zh_ws_align_text :: string where
  \<comment> \<open>U+5019 U+9009 U+5B9E U+4F53 U+4E0E U+5B58 U+91CF U+56FE U+8C31 U+53EC U+56DE U+3001 U+6D88 U+6B67 U+4E0E U+5408 U+5E76 (recall, disambiguate and merge candidates)\<close>
  "zh_ws_align_text =
     [CHR 0xE5, CHR 0x80, CHR 0x99, CHR 0xE9, CHR 0x80, CHR 0x89, CHR 0xE5, CHR 0xAE, CHR 0x9E,
      CHR 0xE4, CHR 0xBD, CHR 0x93, CHR 0xE4, CHR 0xB8, CHR 0x8E, CHR 0xE5, CHR 0xAD, CHR 0x98,
      CHR 0xE9, CHR 0x87, CHR 0x8F, CHR 0xE5, CHR 0x9B, CHR 0xBE, CHR 0xE8, CHR 0xB0, CHR 0xB1,
      CHR 0xE5, CHR 0x8F, CHR 0xAC, CHR 0xE5, CHR 0x9B, CHR 0x9E, CHR 0xE3, CHR 0x80, CHR 0x81,
      CHR 0xE6, CHR 0xB6, CHR 0x88, CHR 0xE6, CHR 0xAD, CHR 0xA7, CHR 0xE4, CHR 0xB8, CHR 0x8E,
      CHR 0xE5, CHR 0x90, CHR 0x88, CHR 0xE5, CHR 0xB9, CHR 0xB6]"

definition zh_ws_quality_text :: string where
  \<comment> \<open>U+6267 U+884C U+7F6E U+4FE1 U+5EA6 U+3001 U+8BC1 U+636E U+4E0E U+552F U+4E00 U+6027 U+6821 U+9A8C (check confidence, evidence and uniqueness)\<close>
  "zh_ws_quality_text =
     [CHR 0xE6, CHR 0x89, CHR 0xA7, CHR 0xE8, CHR 0xA1, CHR 0x8C, CHR 0xE7, CHR 0xBD, CHR 0xAE,
      CHR 0xE4, CHR 0xBF, CHR 0xA1, CHR 0xE5, CHR 0xBA, CHR 0xA6, CHR 0xE3, CHR 0x80, CHR 0x81,
      CHR 0xE8, CHR 0xAF, CHR 0x81, CHR 0xE6, CHR 0x8D, CHR 0xAE, CHR 0xE4, CHR 0xB8, CHR 0x8E,
      CHR 0xE5, CHR 0x94, CHR 0xAF, CHR 0xE4, CHR 0xB8, CHR 0x80, CHR 0xE6, CHR 0x80, CHR 0xA7,
      CHR 0xE6, CHR 0xA0, CHR 0xA1, CHR 0xE9, CHR 0xAA, CHR 0x8C]"

definition zh_ws_persist_text :: string where
  \<comment> \<open>U+5E42 U+7B49 U+5199 U+5165 U+5B9E U+4F53 U+3001 U+5173 U+7CFB U+548C U+5C5E U+6027 (write entities, relations and attributes idempotently)\<close>
  "zh_ws_persist_text =
     [CHR 0xE5, CHR 0xB9, CHR 0x82, CHR 0xE7, CHR 0xAD, CHR 0x89, CHR 0xE5, CHR 0x86, CHR 0x99,
      CHR 0xE5, CHR 0x85, CHR 0xA5, CHR 0xE5, CHR 0xAE, CHR 0x9E, CHR 0xE4, CHR 0xBD, CHR 0x93,
      CHR 0xE3, CHR 0x80, CHR 0x81, CHR 0xE5, CHR 0x85, CHR 0xB3, CHR 0xE7, CHR 0xB3, CHR 0xBB,
      CHR 0xE5, CHR 0x92, CHR 0x8C, CHR 0xE5, CHR 0xB1, CHR 0x9E, CHR 0xE6, CHR 0x80, CHR 0xA7]"

definition zh_waiting :: string where
  \<comment> \<open>U+5F85 U+6267 U+884C (to be executed)\<close>
  "zh_waiting =
     [CHR 0xE5, CHR 0xBE, CHR 0x85, CHR 0xE6, CHR 0x89, CHR 0xA7, CHR 0xE8, CHR 0xA1, CHR 0x8C]"

definition zh_needs_person :: string where
  \<comment> \<open>U+9700 U+4EBA U+5DE5 U+5904 U+7406 (needs a person)\<close>
  "zh_needs_person =
     [CHR 0xE9, CHR 0x9C, CHR 0x80, CHR 0xE4, CHR 0xBA, CHR 0xBA, CHR 0xE5, CHR 0xB7, CHR 0xA5,
      CHR 0xE5, CHR 0xA4, CHR 0x84, CHR 0xE7, CHR 0x90, CHR 0x86]"

definition zh_one_object :: string where
  \<comment> \<open>U+0031 U+0020 U+4E2A U+5904 U+7406 U+5BF9 U+8C61 (one object)\<close>
  "zh_one_object =
     [CHR 0x31, CHR 0x20, CHR 0xE4, CHR 0xB8, CHR 0xAA, CHR 0xE5, CHR 0xA4, CHR 0x84, CHR 0xE7,
      CHR 0x90, CHR 0x86, CHR 0xE5, CHR 0xAF, CHR 0xB9, CHR 0xE8, CHR 0xB1, CHR 0xA1]"

definition zh_unfinished :: string where
  \<comment> \<open>U+672A U+5B8C U+6210 (not finished)\<close>
  "zh_unfinished =
     [CHR 0xE6, CHR 0x9C, CHR 0xAA, CHR 0xE5, CHR 0xAE, CHR 0x8C, CHR 0xE6, CHR 0x88, CHR 0x90]"

definition zh_six_seconds :: string where
  \<comment> \<open>U+0036 U+79D2 (six seconds)\<close>
  "zh_six_seconds = [CHR 0x36, CHR 0xE7, CHR 0xA7, CHR 0x92]"

definition zh_low_label :: string where
  \<comment> \<open>U+4F4E U+4E8E U+9608 U+503C (below the threshold)\<close>
  "zh_low_label =
     [CHR 0xE4, CHR 0xBD, CHR 0x8E, CHR 0xE4, CHR 0xBA, CHR 0x8E, CHR 0xE9, CHR 0x98, CHR 0x88,
      CHR 0xE5, CHR 0x80, CHR 0xBC]"

definition zh_dash :: string where
  \<comment> \<open>U+2014 (dash)\<close>
  "zh_dash = [CHR 0xE2, CHR 0x80, CHR 0x94]"

definition zh_healthy :: string where
  \<comment> \<open>U+5065 U+5EB7 (healthy)\<close>
  "zh_healthy = [CHR 0xE5, CHR 0x81, CHR 0xA5, CHR 0xE5, CHR 0xBA, CHR 0xB7]"

definition zh_unhealthy :: string where
  \<comment> \<open>U+5F02 U+5E38 (unhealthy)\<close>
  "zh_unhealthy = [CHR 0xE5, CHR 0xBC, CHR 0x82, CHR 0xE5, CHR 0xB8, CHR 0xB8]"

definition zh_unavailable :: string where
  \<comment> \<open>U+4E0D U+53EF U+7528 (not available)\<close>
  "zh_unavailable =
     [CHR 0xE4, CHR 0xB8, CHR 0x8D, CHR 0xE5, CHR 0x8F, CHR 0xAF, CHR 0xE7, CHR 0x94, CHR 0xA8]"

definition zh_unprobed :: string where
  \<comment> \<open>U+5F85 U+63A2 U+6D4B (not probed yet)\<close>
  "zh_unprobed =
     [CHR 0xE5, CHR 0xBE, CHR 0x85, CHR 0xE6, CHR 0x8E, CHR 0xA2, CHR 0xE6, CHR 0xB5, CHR 0x8B]"

definition zh_read_increment :: string where
  \<comment> \<open>U+8BFB U+53D6 U+589E U+91CF (read the increment)\<close>
  "zh_read_increment =
     [CHR 0xE8, CHR 0xAF, CHR 0xBB, CHR 0xE5, CHR 0x8F, CHR 0x96, CHR 0xE5, CHR 0xA2, CHR 0x9E,
      CHR 0xE9, CHR 0x87, CHR 0x8F]"

definition zh_normalize :: string where
  \<comment> \<open>U+6807 U+51C6 U+5316 (standardise)\<close>
  "zh_normalize =
     [CHR 0xE6, CHR 0xA0, CHR 0x87, CHR 0xE5, CHR 0x87, CHR 0x86, CHR 0xE5, CHR 0x8C, CHR 0x96]"

definition zh_extract_align :: string where
  \<comment> \<open>U+62BD U+53D6 U+002F U+5BF9 U+9F50 (extract and align)\<close>
  "zh_extract_align =
     [CHR 0xE6, CHR 0x8A, CHR 0xBD, CHR 0xE5, CHR 0x8F, CHR 0x96, CHR 0x2F, CHR 0xE5, CHR 0xAF,
      CHR 0xB9, CHR 0xE9, CHR 0xBD, CHR 0x90]"

definition zh_graph_write :: string where
  \<comment> \<open>U+56FE U+8C31 U+5199 U+5165 (write to the graph)\<close>
  "zh_graph_write =
     [CHR 0xE5, CHR 0x9B, CHR 0xBE, CHR 0xE8, CHR 0xB0, CHR 0xB1, CHR 0xE5, CHR 0x86, CHR 0x99,
      CHR 0xE5, CHR 0x85, CHR 0xA5]"

definition zh_wf_paper :: string where
  \<comment> \<open>U+8BBA U+6587 U+5B9E U+4F53 U+5DE5 U+4F5C U+6D41 (paper entity workflow)\<close>
  "zh_wf_paper =
     [CHR 0xE8, CHR 0xAE, CHR 0xBA, CHR 0xE6, CHR 0x96, CHR 0x87, CHR 0xE5, CHR 0xAE, CHR 0x9E,
      CHR 0xE4, CHR 0xBD, CHR 0x93, CHR 0xE5, CHR 0xB7, CHR 0xA5, CHR 0xE4, CHR 0xBD, CHR 0x9C,
      CHR 0xE6, CHR 0xB5, CHR 0x81]"

definition zh_wf_scholar :: string where
  \<comment> \<open>U+4EBA U+624D U+5B9E U+4F53 U+5DE5 U+4F5C U+6D41 (scholar entity workflow)\<close>
  "zh_wf_scholar =
     [CHR 0xE4, CHR 0xBA, CHR 0xBA, CHR 0xE6, CHR 0x89, CHR 0x8D, CHR 0xE5, CHR 0xAE, CHR 0x9E,
      CHR 0xE4, CHR 0xBD, CHR 0x93, CHR 0xE5, CHR 0xB7, CHR 0xA5, CHR 0xE4, CHR 0xBD, CHR 0x9C,
      CHR 0xE6, CHR 0xB5, CHR 0x81]"

definition zh_wf_patent :: string where
  \<comment> \<open>U+4E13 U+5229 U+5B9E U+4F53 U+5DE5 U+4F5C U+6D41 (patent entity workflow)\<close>
  "zh_wf_patent =
     [CHR 0xE4, CHR 0xB8, CHR 0x93, CHR 0xE5, CHR 0x88, CHR 0xA9, CHR 0xE5, CHR 0xAE, CHR 0x9E,
      CHR 0xE4, CHR 0xBD, CHR 0x93, CHR 0xE5, CHR 0xB7, CHR 0xA5, CHR 0xE4, CHR 0xBD, CHR 0x9C,
      CHR 0xE6, CHR 0xB5, CHR 0x81]"

definition zh_wf_organization :: string where
  \<comment> \<open>U+673A U+6784 U+5B9E U+4F53 U+5DE5 U+4F5C U+6D41 (organization entity workflow)\<close>
  "zh_wf_organization =
     [CHR 0xE6, CHR 0x9C, CHR 0xBA, CHR 0xE6, CHR 0x9E, CHR 0x84, CHR 0xE5, CHR 0xAE, CHR 0x9E,
      CHR 0xE4, CHR 0xBD, CHR 0x93, CHR 0xE5, CHR 0xB7, CHR 0xA5, CHR 0xE4, CHR 0xBD, CHR 0x9C,
      CHR 0xE6, CHR 0xB5, CHR 0x81]"

definition zh_wf_project :: string where
  \<comment> \<open>U+56FD U+5185 U+5916 U+9879 U+76EE U+5B9E U+4F53 U+5DE5 U+4F5C U+6D41 (project entity workflow)\<close>
  "zh_wf_project =
     [CHR 0xE5, CHR 0x9B, CHR 0xBD, CHR 0xE5, CHR 0x86, CHR 0x85, CHR 0xE5, CHR 0xA4, CHR 0x96,
      CHR 0xE9, CHR 0xA1, CHR 0xB9, CHR 0xE7, CHR 0x9B, CHR 0xAE, CHR 0xE5, CHR 0xAE, CHR 0x9E,
      CHR 0xE4, CHR 0xBD, CHR 0x93, CHR 0xE5, CHR 0xB7, CHR 0xA5, CHR 0xE4, CHR 0xBD, CHR 0x9C,
      CHR 0xE6, CHR 0xB5, CHR 0x81]"

definition zh_wf_authorship :: string where
  \<comment> \<open>U+8BBA U+6587 U+4F5C U+8005 U+5173 U+7CFB U+5DE5 U+4F5C U+6D41 (authorship relation workflow)\<close>
  "zh_wf_authorship =
     [CHR 0xE8, CHR 0xAE, CHR 0xBA, CHR 0xE6, CHR 0x96, CHR 0x87, CHR 0xE4, CHR 0xBD, CHR 0x9C,
      CHR 0xE8, CHR 0x80, CHR 0x85, CHR 0xE5, CHR 0x85, CHR 0xB3, CHR 0xE7, CHR 0xB3, CHR 0xBB,
      CHR 0xE5, CHR 0xB7, CHR 0xA5, CHR 0xE4, CHR 0xBD, CHR 0x9C, CHR 0xE6, CHR 0xB5, CHR 0x81]"

definition zh_wf_employment :: string where
  \<comment> \<open>U+4EBA U+624D U+4EFB U+804C U+5173 U+7CFB U+5DE5 U+4F5C U+6D41 (employment relation workflow)\<close>
  "zh_wf_employment =
     [CHR 0xE4, CHR 0xBA, CHR 0xBA, CHR 0xE6, CHR 0x89, CHR 0x8D, CHR 0xE4, CHR 0xBB, CHR 0xBB,
      CHR 0xE8, CHR 0x81, CHR 0x8C, CHR 0xE5, CHR 0x85, CHR 0xB3, CHR 0xE7, CHR 0xB3, CHR 0xBB,
      CHR 0xE5, CHR 0xB7, CHR 0xA5, CHR 0xE4, CHR 0xBD, CHR 0x9C, CHR 0xE6, CHR 0xB5, CHR 0x81]"

definition zh_wf_citation :: string where
  \<comment> \<open>U+8BBA U+6587 U+5F15 U+7528 U+5173 U+7CFB U+5DE5 U+4F5C U+6D41 (citation relation workflow)\<close>
  "zh_wf_citation =
     [CHR 0xE8, CHR 0xAE, CHR 0xBA, CHR 0xE6, CHR 0x96, CHR 0x87, CHR 0xE5, CHR 0xBC, CHR 0x95,
      CHR 0xE7, CHR 0x94, CHR 0xA8, CHR 0xE5, CHR 0x85, CHR 0xB3, CHR 0xE7, CHR 0xB3, CHR 0xBB,
      CHR 0xE5, CHR 0xB7, CHR 0xA5, CHR 0xE4, CHR 0xBD, CHR 0x9C, CHR 0xE6, CHR 0xB5, CHR 0x81]"

definition zh_wf_cooperation :: string where
  \<comment> \<open>U+5408 U+4F5C U+5173 U+7CFB U+5DE5 U+4F5C U+6D41 (cooperation relation workflow)\<close>
  "zh_wf_cooperation =
     [CHR 0xE5, CHR 0x90, CHR 0x88, CHR 0xE4, CHR 0xBD, CHR 0x9C, CHR 0xE5, CHR 0x85, CHR 0xB3,
      CHR 0xE7, CHR 0xB3, CHR 0xBB, CHR 0xE5, CHR 0xB7, CHR 0xA5, CHR 0xE4, CHR 0xBD, CHR 0x9C,
      CHR 0xE6, CHR 0xB5, CHR 0x81]"

definition zh_wf_build :: string where
  \<comment> \<open>U+56FE U+8C31 U+6784 U+5EFA U+603B U+5DE5 U+4F5C U+6D41 (graph construction workflow)\<close>
  "zh_wf_build =
     [CHR 0xE5, CHR 0x9B, CHR 0xBE, CHR 0xE8, CHR 0xB0, CHR 0xB1, CHR 0xE6, CHR 0x9E, CHR 0x84,
      CHR 0xE5, CHR 0xBB, CHR 0xBA, CHR 0xE6, CHR 0x80, CHR 0xBB, CHR 0xE5, CHR 0xB7, CHR 0xA5,
      CHR 0xE4, CHR 0xBD, CHR 0x9C, CHR 0xE6, CHR 0xB5, CHR 0x81]"

definition zh_stage_note :: string where
  \<comment> \<open>U+9636 U+6BB5 U+56DE U+5199 U+FF1A (stages written back)\<close>
  "zh_stage_note =
     [CHR 0xE9, CHR 0x98, CHR 0xB6, CHR 0xE6, CHR 0xAE, CHR 0xB5, CHR 0xE5, CHR 0x9B, CHR 0x9E,
      CHR 0xE5, CHR 0x86, CHR 0x99, CHR 0xEF, CHR 0xBC, CHR 0x9A]"

definition zh_stage_unit :: string where
  \<comment> \<open>U+0020 U+4E2A U+0020 U+0073 U+0074 U+0061 U+0067 U+0065 U+FF0C U+72B6 U+6001 U+003D ( stages, status)\<close>
  "zh_stage_unit =
     [CHR 0x20, CHR 0xE4, CHR 0xB8, CHR 0xAA, CHR 0x20, CHR 0x73, CHR 0x74, CHR 0x61, CHR 0x67,
      CHR 0x65, CHR 0xEF, CHR 0xBC, CHR 0x8C, CHR 0xE7, CHR 0x8A, CHR 0xB6, CHR 0xE6, CHR 0x80,
      CHR 0x81, CHR 0x3D]"

end
