(* ===== verification/Workflow_Store.thy ===== *)
theory Workflow_Store
  imports Schema_Service Workflow_Lexicon Json
begin

text \<open>
  The database of workflows, tasks and legacy reviews (backend/service/workflow\_repository.py): rows,
  listings and writes, and what a new database holds.  The code keeps each row as JSON next to
  the columns it filters by; a record has the fields of that JSON.  The demonstration tasks and
  reviews of \<open>\_seed\<close> are left out.
\<close>

section \<open>Rows\<close>

datatype wf_source =
    Builtin
  | Declarative
  | PythonSource string string int      \<comment> \<open>function, path of the script and timeout\<close>

record wf_definition =
  wd_key :: string
  wd_title :: string
  wd_type :: string
  wd_category :: string
  wd_queue :: string
  wd_active :: bool
  wd_source :: wf_source
  wd_steps :: "json list"
  wd_created :: string

record wf_execution =
  we_id :: string
  we_definition_id :: string
  we_workflow_id :: string
  we_run_id :: "string option"
  we_status :: string
  we_started_at :: string
  we_completed_at :: "string option"
  we_payload :: dict
  we_dispatch_mode :: string
  we_message :: string
  we_output :: "json option"            \<comment> \<open>None: no such key\<close>
  we_task_id :: "string option"

record wf_task =
  wt_id :: string
  wt_batch_id :: string
  wt_stage :: string
  wt_kind :: string
  wt_object_id :: string
  wt_object_name :: string
  wt_object_type :: string
  wt_action :: string
  wt_source_table :: string
  wt_source_record_id :: json
  wt_rule :: string
  wt_confidence :: string
  wt_result :: string
  wt_status :: string
  wt_task_status :: string
  wt_data_domain :: string
  wt_processed_at :: string
  wt_review_type :: "string option"
  wt_current_step :: string
  wt_steps :: "json list"
  wt_workflow_type :: string
  wt_workflow_id :: string
  wt_run_id :: "string option"
  wt_input :: dict
  wt_output :: json
  wt_logs :: "string list"

record wf_review =
  wr_id :: string
  wr_batch :: string
  wr_module :: string
  wr_status :: string
  wr_domain :: string
  wr_category :: string
  wr_score :: "string option"
  wr_handler :: string
  wr_updated_at :: string
  wr_decision :: "string option"
  wr_decision_note :: "string option"
  wr_modified_result :: "dict option"
  wr_completed_at :: "string option"
  wr_last_retry_at :: "string option"
  wr_retry_execution_id :: "string option"
  wr_revision :: int
  wr_rest :: dict                       \<comment> \<open>what the code only shows\<close>

record wf_batch =
  wb_id :: string
  wb_update_date :: string
  wb_data_window :: string
  wb_input :: int
  wb_rest :: dict

record source_update =
  su_domain :: string
  su_detected_at :: string
  su_rest :: dict

record wf_schedule =
  ws_id :: string
  ws_definition_id :: string
  ws_cron :: string
  ws_timezone :: string
  ws_active :: bool
  ws_payload :: dict
  ws_dispatch :: "string option"        \<comment> \<open>\<open>dispatchStatus\<close>\<close>
  ws_message :: "string option"

record wf_policy =
  wp_enabled :: bool
  wp_frequency :: string
  wp_execution_time :: string
  wp_timezone :: string
  wp_cron :: string
  wp_skip :: bool
  wp_updated_at :: "string option"
  wp_next_run_at :: string

record remote_schedule =
  \<comment> \<open>a schedule as Temporal holds it\<close>
  rs_type :: string
  rs_queue :: string
  rs_input :: dict
  rs_cron :: string
  rs_timezone :: string
  rs_paused :: bool

record remote_run =
  rr_workflow_id :: string
  rr_type :: string
  rr_input :: dict
  rr_queue :: string

record wf_state =
  wx_batches :: "wf_batch list"
  wx_tasks :: "wf_task list"
  wx_reviews :: "wf_review list"
  wx_updates :: "source_update list"
  wx_policy :: "wf_policy option"
  wx_definitions :: "wf_definition list"
  wx_executions :: "wf_execution list"
  wx_schedules :: "wf_schedule list"
  wx_files :: "string \<Rightarrow> string option"              \<comment> \<open>the directory of workflow scripts\<close>
  wx_remote :: "string \<Rightarrow> remote_schedule option"    \<comment> \<open>the schedules of Temporal\<close>
  wx_runs :: "remote_run list"                      \<comment> \<open>the runs that Temporal started\<close>
  wx_client :: bool                                 \<comment> \<open>the process holds a connection\<close>

section \<open>Reads\<close>

text \<open>Times are texts of a fixed form, which the database compares byte by byte.\<close>

definition descending :: "('r \<Rightarrow> string) \<Rightarrow> 'r list \<Rightarrow> 'r list" where
  \<comment> \<open>\<open>ORDER BY f DESC\<close>\<close>
  "descending f rows = rev (sort_key f (rev rows))"

definition col_is :: "string option \<Rightarrow> string \<Rightarrow> bool" where
  \<comment> \<open>a filter that is not given holds of every row\<close>
  "col_is v x \<longleftrightarrow> \<not> opt_truthy v \<or> v = Some x"

definition in_window :: "string option \<Rightarrow> string option \<Rightarrow> string \<Rightarrow> bool" where
  "in_window lo hi x \<longleftrightarrow> (\<not> opt_truthy lo \<or> opt_str lo \<le> x) \<and> (\<not> opt_truthy hi \<or> x \<le> opt_str hi)"

record task_filter =
  tf_stage :: "string option"
  tf_task_status :: "string option"
  tf_domain :: "string option"
  tf_kind :: "string option"
  tf_batch_id :: "string option"
  tf_start_time :: "string option"
  tf_end_time :: "string option"
  tf_keyword :: "string option"
  tf_page :: int
  tf_page_size :: int

definition no_task_filter :: task_filter where
  "no_task_filter = \<lparr>tf_stage = None, tf_task_status = None, tf_domain = None, tf_kind = None, tf_batch_id = None,
     tf_start_time = None, tf_end_time = None, tf_keyword = None, tf_page = 0, tf_page_size = 0\<rparr>"

definition keyword_in :: "(string \<Rightarrow> string) \<Rightarrow> string option \<Rightarrow> string \<Rightarrow> bool" where
  \<comment> \<open>\<open>keyword.lower() in \_json(item).lower()\<close>\<close>
  "keyword_in lower k text \<longleftrightarrow> \<not> opt_truthy k \<or> py_in (lower (opt_str k)) (lower text)"

definition repo_list_tasks :: "(string \<Rightarrow> string) \<Rightarrow> (wf_task \<Rightarrow> string) \<Rightarrow> task_filter \<Rightarrow> wf_task list \<Rightarrow> wf_task list" where
  \<comment> \<open>the second argument is the JSON text of a task\<close>
  "repo_list_tasks lower text f rows =
     filter (\<lambda>t. keyword_in lower (tf_keyword f) (text t))
       (descending wt_processed_at
          (filter (\<lambda>t. col_is (tf_stage f) (wt_stage t) \<and> col_is (tf_task_status f) (wt_task_status t) \<and>
                 col_is (tf_domain f) (wt_data_domain t) \<and> col_is (tf_kind f) (wt_kind t) \<and>
                 col_is (tf_batch_id f) (wt_batch_id t) \<and>
                 in_window (tf_start_time f) (tf_end_time f) (wt_processed_at t)) rows))"

record review_filter =
  rf_status :: "string option"
  rf_domain :: "string option"
  rf_category :: "string option"
  rf_batch_id :: "string option"
  rf_start_time :: "string option"
  rf_end_time :: "string option"
  rf_keyword :: "string option"
  rf_page :: int
  rf_page_size :: int

definition repo_list_reviews ::
  "(string \<Rightarrow> string) \<Rightarrow> (wf_review \<Rightarrow> string) \<Rightarrow> review_filter \<Rightarrow> wf_review list \<Rightarrow> wf_review list" where
  "repo_list_reviews lower text f rows =
     filter (\<lambda>r. keyword_in lower (rf_keyword f) (text r))
       (descending wr_updated_at
          (filter (\<lambda>r. col_is (rf_status f) (wr_status r) \<and> col_is (rf_domain f) (wr_domain r) \<and>
                 col_is (rf_category f) (wr_category r) \<and> col_is (rf_batch_id f) (wr_batch r) \<and>
                 in_window (rf_start_time f) (rf_end_time f) (wr_updated_at r)) rows))"

definition list_batches :: "wf_state \<Rightarrow> wf_batch list" where
  "list_batches s = descending wb_update_date (wx_batches s)"

definition list_source_updates ::
  "string option \<Rightarrow> string option \<Rightarrow> string option \<Rightarrow> wf_state \<Rightarrow> source_update list" where
  "list_source_updates domain since until s =
     descending su_detected_at
       (filter (\<lambda>u. col_is domain (su_domain u) \<and> in_window since until (su_detected_at u)) (wx_updates s))"

definition repo_list_definitions :: "wf_state \<Rightarrow> wf_definition list" where
  "repo_list_definitions s = sort_key (\<lambda>d. (wd_category d, wd_key d)) (wx_definitions s)"

definition repo_list_executions :: "nat \<Rightarrow> wf_state \<Rightarrow> wf_execution list" where
  "repo_list_executions limit s = take limit (descending we_started_at (wx_executions s))"

definition list_schedules :: "wf_state \<Rightarrow> wf_schedule list" where
  "list_schedules s = sort_key ws_id (wx_schedules s)"

definition repo_get_definition :: "string \<Rightarrow> wf_state \<Rightarrow> wf_definition option" where
  "repo_get_definition i s = tbl_get wd_key i (wx_definitions s)"

definition get_task :: "string \<Rightarrow> wf_state \<Rightarrow> wf_task option" where
  "get_task i s = tbl_get wt_id i (wx_tasks s)"

definition get_review :: "string \<Rightarrow> wf_state \<Rightarrow> wf_review option" where
  "get_review i s = tbl_get wr_id i (wx_reviews s)"

definition get_batch :: "string \<Rightarrow> wf_state \<Rightarrow> wf_batch option" where
  "get_batch i s = tbl_get wb_id i (wx_batches s)"

definition repo_get_execution :: "string \<Rightarrow> wf_state \<Rightarrow> wf_execution option" where
  "repo_get_execution i s = tbl_get we_id i (wx_executions s)"

definition get_schedule :: "string \<Rightarrow> wf_state \<Rightarrow> wf_schedule option" where
  "get_schedule i s = tbl_get ws_id i (wx_schedules s)"

section \<open>Writes\<close>

text \<open>Every write is one statement in its own transaction.\<close>

definition save_task :: "wf_task \<Rightarrow> wf_state \<Rightarrow> wf_state" where
  "save_task t s = s\<lparr>wx_tasks := tbl_put wt_id t (wx_tasks s)\<rparr>"

definition save_review :: "wf_review \<Rightarrow> wf_state \<Rightarrow> wf_state" where
  "save_review r s = s\<lparr>wx_reviews := tbl_put wr_id r (wx_reviews s)\<rparr>"

definition save_setting :: "wf_policy \<Rightarrow> wf_state \<Rightarrow> wf_state" where
  \<comment> \<open>the one key that the services use, \<open>update\_policy\<close>\<close>
  "save_setting p s = s\<lparr>wx_policy := Some p\<rparr>"

definition save_definition :: "wf_definition \<Rightarrow> wf_state \<Rightarrow> wf_state" where
  "save_definition d s = s\<lparr>wx_definitions := tbl_put wd_key d (wx_definitions s)\<rparr>"

definition save_execution :: "wf_execution \<Rightarrow> wf_state \<Rightarrow> wf_state" where
  "save_execution e s = s\<lparr>wx_executions := tbl_put we_id e (wx_executions s)\<rparr>"

definition save_schedule :: "wf_schedule \<Rightarrow> wf_state \<Rightarrow> wf_state" where
  "save_schedule c s = s\<lparr>wx_schedules := tbl_put ws_id c (wx_schedules s)\<rparr>"

definition repo_delete_schedule :: "string \<Rightarrow> wf_state \<Rightarrow> bool \<times> wf_state" where
  "repo_delete_schedule i s =
     (tbl_get ws_id i (wx_schedules s) \<noteq> None, s\<lparr>wx_schedules := tbl_del ws_id i (wx_schedules s)\<rparr>)"

section \<open>The steps of a task\<close>

definition step_rows :: "(string \<times> string \<times> string \<times> string) list" where
  "step_rows =
     [(''source'', zh_step_source, zh_data_processing, zh_ws_source_text),
      (''normalize'', zh_step_normalize, zh_data_processing, zh_ws_normalize_text),
      (''schema'', zh_step_schema, zh_graph_build, zh_ws_schema_text),
      (''extract'', zh_step_extract, zh_graph_build, zh_ws_extract_text),
      (''align'', zh_step_align, zh_graph_build, zh_ws_align_text),
      (''validate'', zh_ws_quality, zh_graph_build, zh_ws_quality_text),
      (''persist'', zh_step_persist, zh_graph_build, zh_ws_persist_text)]"

definition step_json :: "string \<times> string \<times> string \<times> string \<Rightarrow> string \<Rightarrow> json" where
  "step_json r status =
     (case r of (i, name, phase, description) \<Rightarrow>
        JObj [(''id'', JStr i), (''name'', JStr name), (''phase'', JStr phase), (''description'', JStr description),
          (''status'', JStr status), (''count'', JStr zh_one_object),
          (''abnormal'', JStr (if status = zh_needs_person then ''1'' else ''0'')),
          (''duration'', JStr (if status \<noteq> zh_success then zh_unfinished else zh_six_seconds))])"

fun task_steps :: "string option \<Rightarrow> bool \<Rightarrow> (string \<times> string \<times> string \<times> string) list \<Rightarrow> json list" where
  \<comment> \<open>\<open>\_steps\<close>; the flag is \<open>blocked\<close>\<close>
  "task_steps blocking blocked [] = []"
| "task_steps blocking blocked (r # rs) =
     (if blocked then step_json r zh_waiting # task_steps blocking True rs
      else if blocking = Some (fst r) then step_json r zh_needs_person # task_steps blocking True rs
      else step_json r zh_success # task_steps blocking False rs)"

section \<open>A new database\<close>

definition builtin_steps :: "json list" where
  "builtin_steps = map JStr [zh_read_increment, zh_normalize, zh_extract_align, zh_ws_quality, zh_graph_write]"

definition builtin_definition :: "string \<Rightarrow> string \<Rightarrow> string \<times> string \<times> string \<times> string \<Rightarrow> wf_definition" where
  "builtin_definition queue now r =
     (case r of (i, t, c, n) \<Rightarrow> \<lparr>wd_key = i, wd_title = n, wd_type = t, wd_category = c, wd_queue = queue,
        wd_active = True, wd_source = Builtin, wd_steps = builtin_steps, wd_created = now\<rparr>)"

definition insert_or_ignore :: "wf_definition \<Rightarrow> wf_state \<Rightarrow> wf_state" where
  "insert_or_ignore d s = (case repo_get_definition (wd_key d) s of None \<Rightarrow> save_definition d s | Some x \<Rightarrow> s)"

definition ensure_builtin_definitions :: "string \<Rightarrow> string \<Rightarrow> wf_state \<Rightarrow> wf_state" where
  "ensure_builtin_definitions queue now s =
     foldl (\<lambda>s r. insert_or_ignore (builtin_definition queue now r) s) s
       [(''entity-project'', ''kg.entity.project'', ''entity'', zh_wf_project)]"

definition seed_rows :: "(string \<times> string \<times> string \<times> string) list" where
  "seed_rows =
     [(''entity-paper'', ''kg.entity.paper'', ''entity'', zh_wf_paper),
      (''entity-scholar'', ''kg.entity.scholar'', ''entity'', zh_wf_scholar),
      (''entity-patent'', ''kg.entity.patent'', ''entity'', zh_wf_patent),
      (''entity-organization'', ''kg.entity.organization'', ''entity'', zh_wf_organization),
      (''entity-project'', ''kg.entity.project'', ''entity'', zh_wf_project),
      (''relation-authorship'', ''kg.relation.authorship'', ''relation'', zh_wf_authorship),
      (''relation-employment'', ''kg.relation.employment'', ''relation'', zh_wf_employment),
      (''relation-citation'', ''kg.relation.citation'', ''relation'', zh_wf_citation),
      (''relation-cooperation'', ''kg.relation.cooperation'', ''relation'', zh_wf_cooperation),
      (''graph-build'', ''kg.graph.build'', ''graph'', zh_wf_build)]"

definition seed_definitions :: "string \<Rightarrow> string \<Rightarrow> wf_state \<Rightarrow> wf_state" where
  "seed_definitions queue now s = foldl (\<lambda>s r. insert_or_ignore (builtin_definition queue now r) s) s seed_rows"

definition demo_enabled :: "string option \<Rightarrow> bool" where
  \<comment> \<open>\<open>WORKFLOW\_DEMO\_DATA\_ENABLED\<close>\<close>
  "demo_enabled v \<longleftrightarrow>
     ascii_lower (case v of None \<Rightarrow> ''false'' | Some x \<Rightarrow> x) \<in> set [''1'', ''true'', ''yes'', ''on'']"

definition initial_definitions :: "string option \<Rightarrow> string \<Rightarrow> string \<Rightarrow> wf_state \<Rightarrow> wf_state" where
  \<comment> \<open>\<open>\_initialize\<close>, for the definitions\<close>
  "initial_definitions demo queue now s =
     ensure_builtin_definitions queue now
       (if wx_tasks s = [] \<and> demo_enabled demo then seed_definitions queue now s else s)"

text \<open>Without the demonstration data a new database does not hold the workflow that builds the graph.\<close>

lemma no_graph_build_without_demo:
  assumes "wx_definitions s = []" and "\<not> demo_enabled demo"
  shows "map wd_key (wx_definitions (initial_definitions demo queue now s)) = [''entity-project'']"
  using assms by (simp add: initial_definitions_def ensure_builtin_definitions_def insert_or_ignore_def
      repo_get_definition_def save_definition_def builtin_definition_def tbl_put_def)

end
