(* ===== verification/Workflow_Runtime.thy ===== *)
theory Workflow_Runtime
  imports Workflow_Store
begin

text \<open>
  The client of the workflow engine Temporal (backend/service/temporal\_runtime.py).  The state keeps what
  Temporal was told to do: the runs it started and its schedules.  Whether a call is carried out
  and whether it raises is an argument; a call without a fault does what its documentation says: a
  schedule is created under a free identifier only, and deleting, pausing or triggering a missing one
  raises.
\<close>

section \<open>The connection\<close>

definition temporal_client :: "string option \<Rightarrow> wf_state \<Rightarrow> string option \<times> wf_state" where
  \<comment> \<open>the argument is the error of connecting; the result the exception, if any\<close>
  "temporal_client refused s =
     (if wx_client s then (None, s)
      else case refused of None \<Rightarrow> (None, s\<lparr>wx_client := True\<rparr>) | Some m \<Rightarrow> (Some m, s))"

definition forget_client :: "wf_state \<Rightarrow> wf_state" where
  \<comment> \<open>\<open>temporal\_runtime.\_client = None\<close>\<close>
  "forget_client s = s\<lparr>wx_client := False\<rparr>"

datatype health_answer = HealthOk bool | HealthRaised string

definition health :: "string option \<Rightarrow> health_answer \<Rightarrow> wf_state \<Rightarrow> (string \<times> string option) \<times> wf_state" where
  \<comment> \<open>status and error; address, namespace and queue of the answer are settings\<close>
  "health refused a s =
     (case temporal_client refused s of
        (Some m, s') \<Rightarrow> ((zh_unavailable, Some m), forget_client s')
      | (None, s') \<Rightarrow>
          (case a of
             HealthOk h \<Rightarrow> ((if h then zh_healthy else zh_unhealthy, None), s')
           | HealthRaised m \<Rightarrow> ((zh_unavailable, Some m), forget_client s')))"

section \<open>Starting a workflow\<close>

datatype start_answer =
    StartDone "string option"          \<comment> \<open>the identifier of the first run\<close>
  | StartRaised bool string            \<comment> \<open>whether the workflow was started nevertheless\<close>

record run_env =
  re_uuid :: string
  re_queued :: string                  \<comment> \<open>12 hexadecimal digits\<close>
  re_execution :: string               \<comment> \<open>16 hexadecimal digits in upper case\<close>
  re_task :: string                    \<comment> \<open>6 hexadecimal digits in upper case\<close>
  re_day :: string
  re_now :: string
  re_refused :: "string option"
  re_start :: start_answer

definition remote_input :: "wf_definition \<Rightarrow> dict \<Rightarrow> dict" where
  "remote_input d payload =
     (case wd_source d of Builtin \<Rightarrow> payload
      | _ \<Rightarrow> [(''definitionId'', JStr (wd_key d)), (''payload'', JObj payload)])"

definition start_id :: "run_env \<Rightarrow> wf_definition \<Rightarrow> string option \<Rightarrow> string" where
  "start_id env d wid = opt_or wid (wd_key d @ ''-'' @ re_uuid env)"

definition start ::
  "run_env \<Rightarrow> wf_definition \<Rightarrow> dict \<Rightarrow> string option \<Rightarrow> wf_state \<Rightarrow> (string + string \<times> string option) \<times> wf_state" where
  "start env d payload wid s =
     (let i = start_id env d wid;
          run = \<lparr>rr_workflow_id = i, rr_type = wd_type d, rr_input = remote_input d payload, rr_queue = wd_queue d\<rparr> in
      case temporal_client (re_refused env) s of
        (Some m, s') \<Rightarrow> (Inl m, s')
      | (None, s') \<Rightarrow>
          (case re_start env of
             StartDone r \<Rightarrow> (Inr (i, r), s'\<lparr>wx_runs := wx_runs s' @ [run]\<rparr>)
           | StartRaised started m \<Rightarrow>
               (Inl m, if started then s'\<lparr>wx_runs := wx_runs s' @ [run]\<rparr> else s')))"

definition execution_record ::
  "run_env \<Rightarrow> string \<Rightarrow> string \<Rightarrow> string option \<Rightarrow> string \<Rightarrow> string \<Rightarrow> string \<Rightarrow> dict \<Rightarrow> wf_execution" where
  "execution_record env d wid rid status mode msg payload =
     \<lparr>we_id = ''EXEC-'' @ re_execution env, we_definition_id = d, we_workflow_id = wid, we_run_id = rid,
      we_status = status, we_started_at = re_now env, we_completed_at = None, we_payload = payload,
      we_dispatch_mode = mode, we_message = msg, we_output = None, we_task_id = None\<rparr>"

section \<open>The outcome of a run\<close>

datatype run_result = ResultOk json | ResultRaised string

datatype describe_answer =
    Described string run_result        \<comment> \<open>the status, and what \<open>result()\<close> gives when it is asked\<close>
  | DescribeRaised string              \<comment> \<open>connecting included\<close>

definition refresh_execution :: "describe_answer \<Rightarrow> string \<Rightarrow> wf_execution \<Rightarrow> string + wf_execution" where
  "refresh_execution a now e =
     (if we_dispatch_mode e = ''LOCAL_FALLBACK'' then Inr e
      else case a of
        DescribeRaised m \<Rightarrow> Inl m
      | Described status res \<Rightarrow>
          let r = e\<lparr>we_status := status\<rparr> in
          if status = ''RUNNING'' then Inr r
          else
            let r1 = r\<lparr>we_completed_at := Some now\<rparr> in
            if status = ''COMPLETED''
            then (case res of
                ResultRaised m \<Rightarrow> Inl m
              | ResultOk v \<Rightarrow> Inr (r1\<lparr>we_output := Some v, we_message := zh_wf_finished\<rparr>))
            else (case res of
                ResultRaised m \<Rightarrow> Inr (r1\<lparr>we_message := m\<rparr>)
              | ResultOk v \<Rightarrow> Inr r1))"

section \<open>Schedules\<close>

datatype remote_fault = RemoteOk | RemoteFault bool string    \<comment> \<open>whether the call was carried out; the exception\<close>

type_synonym remotes = "string \<Rightarrow> remote_schedule option"

definition remote_create :: "remote_fault \<Rightarrow> string \<Rightarrow> remote_schedule \<Rightarrow> remotes \<Rightarrow> string option \<times> remotes" where
  "remote_create f i x r =
     (case f of
        RemoteOk \<Rightarrow> if r i = None then (None, r(i := Some x)) else (Some ''already-running'', r)
      | RemoteFault carried m \<Rightarrow> (Some m, if carried \<and> r i = None then r(i := Some x) else r))"

definition remote_delete :: "remote_fault \<Rightarrow> string \<Rightarrow> remotes \<Rightarrow> string option \<times> remotes" where
  "remote_delete f i r =
     (case f of
        RemoteOk \<Rightarrow> if r i = None then (Some ''not-found'', r) else (None, r(i := None))
      | RemoteFault carried m \<Rightarrow> (Some m, if carried then r(i := None) else r))"

definition remote_pause :: "remote_fault \<Rightarrow> string \<Rightarrow> bool \<Rightarrow> remotes \<Rightarrow> string option \<times> remotes" where
  "remote_pause f i b r =
     (let r' = r(i := map_option (\<lambda>x. x\<lparr>rs_paused := b\<rparr>) (r i)) in
      case f of
        RemoteOk \<Rightarrow> if r i = None then (Some ''not-found'', r) else (None, r')
      | RemoteFault carried m \<Rightarrow> (Some m, if carried then r' else r))"

record schedule_env =
  sv_refused :: "string option"
  sv_delete :: remote_fault
  sv_create :: remote_fault
  sv_pause :: remote_fault

definition schedule_of :: "wf_definition \<Rightarrow> wf_schedule \<Rightarrow> remote_schedule" where
  "schedule_of d c = \<lparr>rs_type = wd_type d, rs_queue = wd_queue d, rs_input = remote_input d (ws_payload c),
     rs_cron = ws_cron c, rs_timezone = ws_timezone c, rs_paused = (\<not> ws_active c)\<rparr>"

definition create_schedule :: "schedule_env \<Rightarrow> wf_definition \<Rightarrow> wf_schedule \<Rightarrow> wf_state \<Rightarrow> (string + wf_schedule) \<times> wf_state" where
  \<comment> \<open>the exception of the deletion is swallowed\<close>
  "create_schedule env d c s =
     (case temporal_client (sv_refused env) s of
        (Some m, s') \<Rightarrow> (Inl m, s')
      | (None, s') \<Rightarrow>
          let r = snd (remote_delete (sv_delete env) (ws_id c) (wx_remote s')) in
          (case remote_create (sv_create env) (ws_id c) (schedule_of d c) r of
             (Some m, r') \<Rightarrow> (Inl m, s'\<lparr>wx_remote := r'\<rparr>)
           | (None, r') \<Rightarrow> (Inr (c\<lparr>ws_dispatch := Some ''TEMPORAL_CREATED''\<rparr>), s'\<lparr>wx_remote := r'\<rparr>)))"

definition pause_schedule :: "schedule_env \<Rightarrow> string \<Rightarrow> bool \<Rightarrow> wf_state \<Rightarrow> string option \<times> wf_state" where
  "pause_schedule env i paused s =
     (case temporal_client (sv_refused env) s of
        (Some m, s') \<Rightarrow> (Some m, s')
      | (None, s') \<Rightarrow>
          (case remote_pause (sv_pause env) i paused (wx_remote s') of (e, r') \<Rightarrow> (e, s'\<lparr>wx_remote := r'\<rparr>)))"

definition delete_remote_schedule :: "schedule_env \<Rightarrow> string \<Rightarrow> wf_state \<Rightarrow> string option \<times> wf_state" where
  "delete_remote_schedule env i s =
     (case temporal_client (sv_refused env) s of
        (Some m, s') \<Rightarrow> (Some m, s')
      | (None, s') \<Rightarrow>
          (case remote_delete (sv_delete env) i (wx_remote s') of (e, r') \<Rightarrow> (e, s'\<lparr>wx_remote := r'\<rparr>)))"

definition trigger_remote_schedule :: "schedule_env \<Rightarrow> remote_fault \<Rightarrow> string \<Rightarrow> wf_state \<Rightarrow> string option \<times> wf_state" where
  \<comment> \<open>the run that it starts is not recorded by the program\<close>
  "trigger_remote_schedule env f i s =
     (case temporal_client (sv_refused env) s of
        (Some m, s') \<Rightarrow> (Some m, s')
      | (None, s') \<Rightarrow>
          (case f of RemoteOk \<Rightarrow> (if wx_remote s' i = None then Some ''not-found'' else None, s')
           | RemoteFault carried m \<Rightarrow> (Some m, s')))"

end
