(* ===== verification/Workflow_Service.thy ===== *)
theory Workflow_Service
  imports Workflow_Runtime
begin

text \<open>
  The operations of backend/service/workflow\_operations.py: executing definitions, following executions, the
  legacy reviews, the update policy and the registration of definitions.  A call keeps what it
  wrote before it raised.  Calls that wait for Temporal between reading and saving are split
  there: \<open>finish\_refresh\<close>, \<open>finish\_handle\<close> and \<open>finish\_retry\<close> take the row as it was read.
\<close>

datatype wf_error =
    WfMissing                            \<comment> \<open>\<open>KeyError\<close>\<close>
  | WfConflict string                    \<comment> \<open>\<open>ValueError\<close>\<close>
  | WfCrash string

type_synonym 'a wf_call = "wf_state \<Rightarrow> (wf_error + 'a) \<times> wf_state"

section \<open>Executing a definition\<close>

definition job_task ::
  "run_env \<Rightarrow> wf_definition \<Rightarrow> wf_execution \<Rightarrow> dict \<Rightarrow> string \<Rightarrow> string \<Rightarrow> string \<Rightarrow> json \<Rightarrow> string \<Rightarrow> wf_task" where
  "job_task env d e payload name action table source rule =
     \<lparr>wt_id = ''PI-'' @ re_day env @ ''-'' @ re_task env, wt_batch_id = ''UPD-'' @ re_day env,
      wt_stage = zh_graph_build, wt_kind = zh_wf_entity, wt_object_id = we_workflow_id e, wt_object_name = name,
      wt_object_type = zh_wf_instance, wt_action = action, wt_source_table = table, wt_source_record_id = source,
      wt_rule = rule, wt_confidence = [], wt_result = we_message e,
      wt_status = (if we_status e = ''COMPLETED'' then zh_done else zh_in_progress),
      wt_task_status = zh_running, wt_data_domain = zh_all_domains, wt_processed_at = re_now env,
      wt_review_type = None, wt_current_step = zh_step_source, wt_steps = task_steps None False step_rows,
      wt_workflow_type = wd_type d, wt_workflow_id = we_workflow_id e, wt_run_id = we_run_id e,
      wt_input = payload, wt_output = JNull, wt_logs = [we_message e]\<rparr>"

definition dispatch ::
  "run_env \<Rightarrow> wf_definition \<Rightarrow> dict \<Rightarrow> string option \<Rightarrow> wf_execution wf_call" where
  \<comment> \<open>the execution that \<open>execute\_definition\<close> saves first\<close>
  "dispatch env d payload wid s =
     (case start env d payload wid s of
        (Inr (i, r), s') \<Rightarrow>
          (Inr (execution_record env (wd_key d) i r ''RUNNING'' ''TEMPORAL'' zh_wf_sent payload), s')
      | (Inl m, s') \<Rightarrow>
          if py_in ''already started'' (ascii_lower m)
          then (Inl (WfConflict (zh_wf_exists @ (case wid of None \<Rightarrow> ''None'' | Some w \<Rightarrow> w))), s')
          else (Inr (execution_record env (wd_key d) (opt_or wid (''queued-'' @ wd_key d @ ''-'' @ re_queued env)) None
                   ''QUEUED'' ''LOCAL_FALLBACK'' (zh_temporal_down @ m) payload), forget_client s'))"

definition execute_definition ::
  "run_env \<Rightarrow> wf_definition \<Rightarrow> dict \<Rightarrow> string option \<Rightarrow> bool \<Rightarrow> wf_execution wf_call" where
  "execute_definition env d payload wid persist s =
     (case dispatch env d payload wid s of
        (Inl e, s') \<Rightarrow> (Inl e, s')
      | (Inr x, s') \<Rightarrow>
          let s1 = save_execution x s' in
          if \<not> persist then (Inr x, s1)
          else
            let t = job_task env d x payload (wd_title d) zh_job_run []
                      (json_or (dget payload ''since'') (JStr ''latest-cursor'')) (wd_key d);
                x1 = x\<lparr>we_task_id := Some (wt_id t)\<rparr> in
            (Inr x1, save_execution x1 (save_task t s1)))"

section \<open>Following an execution\<close>

definition final_status :: "string \<Rightarrow> (string \<times> string) option" where
  \<comment> \<open>\<open>taskStatus\<close> and \<open>status\<close> of the task\<close>
  "final_status status =
     (if status = ''COMPLETED'' then Some (zh_run_done, zh_done)
      else if status \<in> set [''FAILED'', ''CANCELED'', ''TERMINATED'', ''TIMED_OUT''] then Some (zh_run_error, zh_run_error)
      else None)"

definition stages_of :: "wf_execution \<Rightarrow> json list option" where
  "stages_of e =
     (case we_output e of
        Some (JObj d) \<Rightarrow> (case map_of d ''stages'' of Some (JList xs) \<Rightarrow> Some xs | _ \<Rightarrow> None)
      | _ \<Rightarrow> None)"

definition stage_note :: "json list \<Rightarrow> string \<Rightarrow> string" where
  "stage_note xs status = zh_stage_note @ show_nat (length xs) @ zh_stage_unit @ status"

definition reported_task :: "wf_execution \<Rightarrow> json list \<Rightarrow> wf_task \<Rightarrow> wf_task" where
  "reported_task e xs t =
     (let t1 = t\<lparr>wt_steps := xs, wt_output := (case we_output e of Some v \<Rightarrow> v | None \<Rightarrow> JNull)\<rparr>;
          t2 = (case final_status (we_status e) of Some (a, b) \<Rightarrow> t1\<lparr>wt_task_status := a, wt_status := b\<rparr> | None \<Rightarrow> t1)
      in t2\<lparr>wt_logs := wt_logs t @ [stage_note xs (we_status e)]\<rparr>)"

definition sync_task_from_execution :: "wf_execution \<Rightarrow> wf_state \<Rightarrow> wf_state" where
  "sync_task_from_execution e s =
     (if \<not> opt_truthy (we_task_id e) then s
      else case stages_of e of
        None \<Rightarrow> s
      | Some xs \<Rightarrow>
          (case get_task (opt_str (we_task_id e)) s of
             None \<Rightarrow> s
           | Some t \<Rightarrow> save_task (reported_task e xs t) s))"

definition finish_refresh :: "describe_answer \<Rightarrow> string \<Rightarrow> wf_execution \<Rightarrow> wf_state \<Rightarrow> wf_execution \<times> wf_state" where
  "finish_refresh a now e s =
     (case refresh_execution a now e of
        Inl m \<Rightarrow>
          let e' = e\<lparr>we_message := zh_refresh_failed @ m\<rparr> in
          (e', sync_task_from_execution e' (save_execution e' (forget_client s)))
      | Inr e' \<Rightarrow>
          let s1 = (if we_dispatch_mode e = ''LOCAL_FALLBACK'' then s else s\<lparr>wx_client := True\<rparr>) in
          (e', sync_task_from_execution e' (save_execution e' s1)))"

definition begin_get_execution :: "string \<Rightarrow> wf_state \<Rightarrow> wf_execution option + wf_execution" where
  \<comment> \<open>what \<open>get\_execution\<close> does before it waits: Inl the answer, Inr the execution to refresh\<close>
  "begin_get_execution i s =
     (case repo_get_execution i s of
        None \<Rightarrow> Inl None
      | Some e \<Rightarrow> if we_status e \<noteq> ''RUNNING'' then Inl (Some e) else Inr e)"

definition get_execution :: "describe_answer \<Rightarrow> string \<Rightarrow> string \<Rightarrow> wf_state \<Rightarrow> wf_execution option \<times> wf_state" where
  "get_execution a now i s =
     (case begin_get_execution i s of
        Inl r \<Rightarrow> (r, s)
      | Inr e \<Rightarrow> (case finish_refresh a now e s of (e', s') \<Rightarrow> (Some e', s')))"

lemma get_execution_eq:
  "get_execution a now i s =
     (case repo_get_execution i s of
        None \<Rightarrow> (None, s)
      | Some e \<Rightarrow>
          if we_status e \<noteq> ''RUNNING'' then (Some e, s)
          else (case finish_refresh a now e s of (e', s') \<Rightarrow> (Some e', s')))"
  by (simp add: get_execution_def begin_get_execution_def split: option.split)

section \<open>Legacy reviews\<close>

record review_action =
  va_action_id :: string
  va_note :: string
  va_result :: dict
  va_handler :: "string option"
  va_rerun :: bool

definition decided_review :: "review_action \<Rightarrow> string \<Rightarrow> wf_review \<Rightarrow> wf_review" where
  "decided_review a now r =
     r\<lparr>wr_decision := Some (va_action_id a), wr_decision_note := Some (va_note a),
       wr_modified_result := Some (va_result a), wr_handler := opt_or (va_handler a) (wr_handler r),
       wr_status := zh_done, wr_completed_at := Some now, wr_updated_at := now, wr_revision := wr_revision r + 1\<rparr>"

definition retry_payload :: "wf_review \<Rightarrow> dict \<Rightarrow> dict" where
  "retry_payload r payload =
     dmerge [(''reviewId'', JStr (wr_id r)), (''batchId'', JStr (wr_batch r)), (''domain'', JStr (wr_domain r))] payload"

definition finish_handle ::
  "run_env \<Rightarrow> wf_definition \<Rightarrow> wf_review \<Rightarrow> dict \<Rightarrow> (wf_review \<times> wf_execution option) wf_call" where
  \<comment> \<open>from the start of the workflow to the end of \<open>handle\_review\<close>\<close>
  "finish_handle env d r payload s =
     (case execute_definition env d (retry_payload r payload) None False s of
        (Inl e, s') \<Rightarrow> (Inl e, s')
      | (Inr x, s') \<Rightarrow>
          let r' = r\<lparr>wr_retry_execution_id := Some (we_id x)\<rparr> in (Inr (r', Some x), save_review r' s'))"

definition begin_handle ::
  "run_env \<Rightarrow> string \<Rightarrow> review_action \<Rightarrow> wf_state \<Rightarrow> wf_error + wf_review \<times> wf_definition option" where
  \<comment> \<open>what \<open>handle\_review\<close> does before it waits: the decided review, and the workflow to start for a rerun\<close>
  "begin_handle env i a s =
     (case get_review i s of
        None \<Rightarrow> Inl WfMissing
      | Some r \<Rightarrow>
          if wr_status r \<noteq> zh_todo then Inl (WfConflict ''not-pending'')
          else
            let r1 = decided_review a (re_now env) r in
            if va_rerun a
            then (case repo_get_definition ''graph-build'' s of
                None \<Rightarrow> Inl (WfCrash ''no-definition'')
              | Some d \<Rightarrow> Inr (r1, Some d))
            else Inr (r1, None))"

definition handle_review :: "run_env \<Rightarrow> string \<Rightarrow> review_action \<Rightarrow> (wf_review \<times> wf_execution option) wf_call" where
  "handle_review env i a s =
     (case begin_handle env i a s of
        Inl e \<Rightarrow> (Inl e, s)
      | Inr (r, None) \<Rightarrow> (Inr (r, None), save_review r s)
      | Inr (r, Some d) \<Rightarrow> finish_handle env d r (va_result a) s)"

lemma handle_review_eq:
  "handle_review env i a s =
     (case get_review i s of
        None \<Rightarrow> (Inl WfMissing, s)
      | Some r \<Rightarrow>
          if wr_status r \<noteq> zh_todo then (Inl (WfConflict ''not-pending''), s)
          else
            let r1 = decided_review a (re_now env) r in
            if va_rerun a
            then (case repo_get_definition ''graph-build'' s of
                None \<Rightarrow> (Inl (WfCrash ''no-definition''), s)
              | Some d \<Rightarrow> finish_handle env d r1 (va_result a) s)
            else (Inr (r1, None), save_review r1 s))"
  by (simp add: handle_review_def begin_handle_def Let_def split: option.split)

definition modify_review_result :: "string \<Rightarrow> string \<Rightarrow> dict \<Rightarrow> string \<Rightarrow> string option \<Rightarrow> wf_review wf_call" where
  "modify_review_result now i result note handler s =
     (case get_review i s of
        None \<Rightarrow> (Inl WfMissing, s)
      | Some r \<Rightarrow>
          let r' = r\<lparr>wr_modified_result := Some result, wr_decision_note := Some note,
                wr_handler := opt_or handler (wr_handler r), wr_updated_at := now, wr_revision := wr_revision r + 1\<rparr>
          in (Inr r', save_review r' s))"

definition finish_retry :: "run_env \<Rightarrow> wf_definition \<Rightarrow> wf_review \<Rightarrow> dict \<Rightarrow> wf_execution wf_call" where
  "finish_retry env d r payload s =
     (case execute_definition env d (retry_payload r payload) None False s of
        (Inl e, s') \<Rightarrow> (Inl e, s')
      | (Inr x, s') \<Rightarrow>
          (Inr x, save_review (r\<lparr>wr_last_retry_at := Some (re_now env), wr_retry_execution_id := Some (we_id x),
              wr_updated_at := re_now env\<rparr>) s'))"

definition begin_retry :: "string \<Rightarrow> wf_state \<Rightarrow> wf_error + wf_review \<times> wf_definition" where
  \<comment> \<open>what \<open>retry\_review\<close> does before it waits\<close>
  "begin_retry i s =
     (case get_review i s of
        None \<Rightarrow> Inl WfMissing
      | Some r \<Rightarrow>
          (case repo_get_definition ''graph-build'' s of
             None \<Rightarrow> Inl (WfCrash ''no-definition'')
           | Some d \<Rightarrow> Inr (r, d)))"

definition retry_review :: "run_env \<Rightarrow> string \<Rightarrow> dict \<Rightarrow> wf_execution wf_call" where
  \<comment> \<open>with \<open>save\_review=True\<close>; \<open>handle\_review\<close> makes the other call\<close>
  "retry_review env i payload s =
     (case begin_retry i s of
        Inl e \<Rightarrow> (Inl e, s)
      | Inr (r, d) \<Rightarrow> finish_retry env d r payload s)"

definition revoke_review :: "string \<Rightarrow> string \<Rightarrow> string \<Rightarrow> string option \<Rightarrow> wf_review wf_call" where
  "revoke_review now i reason handler s =
     (case get_review i s of
        None \<Rightarrow> (Inl WfMissing, s)
      | Some r \<Rightarrow>
          let r' = r\<lparr>wr_status := zh_revoked, wr_decision := Some zh_revoke_task, wr_decision_note := Some reason,
                wr_handler := opt_or handler (wr_handler r), wr_completed_at := Some now, wr_updated_at := now,
                wr_revision := wr_revision r + 1\<rparr>
          in (Inr r', save_review r' s))"

section \<open>Graph construction and its policy\<close>

record trigger_request =
  tr_domains :: "string list"
  tr_entities :: "string list"
  tr_relations :: "string list"
  tr_since :: "string option"
  tr_reason :: string
  tr_payload :: dict

definition trigger_payload :: "trigger_request \<Rightarrow> dict" where
  "trigger_payload q =
     dmerge [(''domains'', JList (map JStr (tr_domains q))), (''entities'', JList (map JStr (tr_entities q))),
        (''relations'', JList (map JStr (tr_relations q))),
        (''since'', case tr_since q of None \<Rightarrow> JNull | Some x \<Rightarrow> JStr x), (''reason'', JStr (tr_reason q))]
       (tr_payload q)"

definition trigger_graph_build :: "run_env \<Rightarrow> trigger_request \<Rightarrow> (wf_task \<times> wf_execution) wf_call" where
  "trigger_graph_build env q s =
     (case repo_get_definition ''graph-build'' s of
        None \<Rightarrow> (Inl (WfCrash ''no-definition''), s)
      | Some d \<Rightarrow>
          (case execute_definition env d (trigger_payload q) None False s of
             (Inl e, s') \<Rightarrow> (Inl e, s')
           | (Inr x, s') \<Rightarrow>
               let t = job_task env d x (trigger_payload q) zh_trigger_build zh_incremental_build zh_by_domain
                         (JStr (opt_or (tr_since q) ''latest-cursor'')) ''AUTO-GRAPH-BUILD''
               in (Inr (t, x), save_task t s')))"

record policy_request =
  pq_enabled :: bool
  pq_frequency :: string
  pq_execution_time :: string
  pq_timezone :: string
  pq_skip :: bool

definition cron_template :: "string \<Rightarrow> string \<Rightarrow> string option" where
  \<comment> \<open>\<open>cron\_map[frequency].format(hour=...)\<close>; None: \<open>KeyError\<close>\<close>
  "cron_template frequency hour =
     (if frequency = zh_daily then Some (''0 '' @ hour @ '' * * *'')
      else if frequency = zh_twelve_hours then Some ''0 */12 * * *''
      else if frequency = zh_six_hours then Some ''0 */6 * * *''
      else if frequency = zh_weekly then Some (''0 '' @ hour @ '' * * 1'')
      else None)"

definition find_char :: "char \<Rightarrow> nat \<Rightarrow> string \<Rightarrow> nat option" where
  \<comment> \<open>\<open>s.find(c, n)\<close>, None for -1\<close>
  "find_char c n s = (let r = dropWhile (\<lambda>x. x \<noteq> c) (drop n s) in if r = [] then None else Some (length s - length r))"

definition from_second_space :: "string \<Rightarrow> string" where
  \<comment> \<open>\<open>cron[cron.find(" ", cron.find(" ") + 1):]\<close>\<close>
  "from_second_space s =
     (case find_char CHR '' '' (case find_char CHR '' '' 0 s of None \<Rightarrow> 0 | Some k \<Rightarrow> Suc k) s of
        None \<Rightarrow> drop (length s - 1) s
      | Some k \<Rightarrow> drop k s)"

definition policy_cron :: "string \<Rightarrow> string \<Rightarrow> wf_error + string" where
  "policy_cron frequency execution_time =
     (case py_split CHR '':'' execution_time of
        [hour, minute] \<Rightarrow>
          (case py_int_str hour of
             None \<Rightarrow> if cron_template frequency [] = None then Inl WfMissing else Inl (WfConflict ''hour'')
           | Some h \<Rightarrow>
               (case cron_template frequency (show_int h) of
                  None \<Rightarrow> Inl WfMissing
                | Some cron \<Rightarrow>
                    if frequency \<in> set [zh_daily, zh_weekly]
                    then (case py_int_str minute of
                        None \<Rightarrow> Inl (WfConflict ''minute'')
                      | Some m \<Rightarrow> Inr (show_int m @ '' '' @ show_int h @ from_second_space cron))
                    else Inr cron))
      | _ \<Rightarrow> Inl (WfConflict ''time''))"

text \<open>The requests about schedules wait for Temporal and then save: the two parts are separate definitions.\<close>

definition begin_save_policy ::
  "schedule_env \<Rightarrow> string \<Rightarrow> policy_request \<Rightarrow> (wf_policy \<times> wf_schedule) wf_call" where
  "begin_save_policy env now q s =
     (case policy_cron (pq_frequency q) (pq_execution_time q) of
        Inl e \<Rightarrow> (Inl e, s)
      | Inr cron \<Rightarrow>
          let p = \<lparr>wp_enabled = pq_enabled q, wp_frequency = pq_frequency q, wp_execution_time = pq_execution_time q,
                wp_timezone = pq_timezone q, wp_cron = cron, wp_skip = pq_skip q, wp_updated_at = Some now,
                wp_next_run_at = zh_by_temporal\<rparr>;
              c = \<lparr>ws_id = ''auto-graph-build'', ws_definition_id = ''graph-build'', ws_cron = cron,
                ws_timezone = pq_timezone q, ws_active = pq_enabled q,
                ws_payload = [(''reason'', JStr zh_auto_policy)], ws_dispatch = None, ws_message = None\<rparr>;
              res = (case repo_get_definition ''graph-build'' s of
                  None \<Rightarrow> (c, s)
                | Some d \<Rightarrow>
                    (case create_schedule env d c s of
                       (Inl m, s') \<Rightarrow> (c\<lparr>ws_dispatch := Some ''LOCAL_SAVED'', ws_message := Some m\<rparr>, forget_client s')
                     | (Inr c', s') \<Rightarrow> (c', s')))
          in (Inr (p, fst res), snd res))"

definition finish_save_policy :: "wf_policy \<Rightarrow> wf_schedule \<Rightarrow> wf_state \<Rightarrow> wf_state" where
  "finish_save_policy p c s = save_setting p (save_schedule c s)"

definition save_update_policy ::
  "schedule_env \<Rightarrow> string \<Rightarrow> policy_request \<Rightarrow> (wf_policy \<times> wf_schedule) wf_call" where
  "save_update_policy env now q s =
     (case begin_save_policy env now q s of
        (Inl e, s') \<Rightarrow> (Inl e, s')
      | (Inr (p, c), s') \<Rightarrow> (Inr (p, c), finish_save_policy p c s'))"

section \<open>Definitions\<close>

record definition_request =
  dq_id :: string
  dq_name :: string
  dq_category :: string
  dq_steps :: "json list"
  dq_queue :: string
  dq_active :: bool

definition create_definition :: "string \<Rightarrow> definition_request \<Rightarrow> wf_state \<Rightarrow> wf_definition \<times> wf_state" where
  "create_definition now q s =
     (let d = \<lparr>wd_key = dq_id q, wd_title = dq_name q, wd_type = ''kg.custom.configurable'', wd_category = dq_category q,
            wd_queue = dq_queue q, wd_active = dq_active q, wd_source = Declarative, wd_steps = dq_steps q,
            wd_created = now\<rparr>
      in (d, save_definition d s))"

definition python_definition :: "workflow_definition \<Rightarrow> wf_definition" where
  \<comment> \<open>the row that \<open>create\_python\_definition\<close> saves\<close>
  "python_definition w =
     \<lparr>wd_key = wd_id w, wd_title = wd_name w, wd_type = ''kg.custom.python'', wd_category = ''custom'',
      wd_queue = wd_task_queue w, wd_active = True,
      wd_source = PythonSource (wd_function_name w) (wd_script_path w) (wd_timeout_seconds w),
      wd_steps = [JStr (''python:'' @ wd_function_name w)], wd_created = wd_created_at w\<rparr>"

definition script_part :: "wf_state \<Rightarrow> schema_state" where
  \<comment> \<open>what \<open>create\_python\_definition\<close> reads and writes: the directory, and no definition yet\<close>
  "script_part s = \<lparr>sx_catalogue = [], sx_objects = (\<lambda>_. None), sx_files = wx_files s, sx_workflows = [], sx_statements = []\<rparr>"

definition upload_python_definition ::
  "schema_config \<Rightarrow> script_env \<Rightarrow> string \<Rightarrow> string \<Rightarrow> string \<Rightarrow> string option \<Rightarrow> string option \<Rightarrow> int option \<Rightarrow>
   wf_definition wf_call" where
  "upload_python_definition cfg env filename content fn i name timeout s =
     (case create_python_definition cfg env filename content fn i name timeout (script_part s) of
        (Inl m, v) \<Rightarrow> (Inl (case m of Some x \<Rightarrow> WfConflict x | None \<Rightarrow> WfCrash []), s\<lparr>wx_files := sx_files v\<rparr>)
      | (Inr k, v) \<Rightarrow>
          (case sx_workflows v of
             [] \<Rightarrow> (Inl (WfCrash []), s\<lparr>wx_files := sx_files v\<rparr>)
           | w # ws \<Rightarrow> (Inr (python_definition w), save_definition (python_definition w) (s\<lparr>wx_files := sx_files v\<rparr>))))"

section \<open>Views\<close>

definition wf_page :: "int \<Rightarrow> int \<Rightarrow> 'a list \<Rightarrow> 'a list \<times> nat \<times> int \<times> int" where
  \<comment> \<open>items, total, page and size\<close>
  "wf_page page psize items =
     (let p = max (if page = 0 then 1 else page) 1;
          n = min (max (if psize = 0 then 50 else psize) 1) 200
      in (take (nat n) (drop (nat ((p - 1) * n)) items), length items, p, n))"

definition list_wf_tasks ::
  "(string \<Rightarrow> string) \<Rightarrow> (wf_task \<Rightarrow> string) \<Rightarrow> task_filter \<Rightarrow> wf_state \<Rightarrow> wf_task list \<times> nat \<times> int \<times> int" where
  "list_wf_tasks lower text f s =
     wf_page (tf_page f) (tf_page_size f) (repo_list_tasks lower text f (wx_tasks s))"

definition list_wf_executions :: "nat \<Rightarrow> wf_state \<Rightarrow> wf_execution list \<times> nat" where
  "list_wf_executions limit s = (let items = repo_list_executions limit s in (items, length items))"

record task_view =
  tv_task :: wf_task
  tv_batch :: "wf_batch option"
  tv_review :: "wf_review option"

definition get_task_view :: "string \<Rightarrow> wf_state \<Rightarrow> wf_error + task_view" where
  "get_task_view i s =
     (case get_task i s of
        None \<Rightarrow> Inl WfMissing
      | Some t \<Rightarrow> Inr \<lparr>tv_task = t, tv_batch = get_batch (wt_batch_id t) s, tv_review = get_review i s\<rparr>)"

record review_view =
  vv_review :: wf_review
  vv_task :: "wf_task option"
  vv_batch :: "wf_batch option"

definition get_review_view :: "string \<Rightarrow> wf_state \<Rightarrow> wf_error + review_view" where
  "get_review_view i s =
     (case get_review i s of
        None \<Rightarrow> Inl WfMissing
      | Some r \<Rightarrow> Inr \<lparr>vv_review = r, vv_task = get_task i s, vv_batch = get_batch (wr_batch r) s\<rparr>)"

record review_row =
  vr_review :: wf_review
  vr_data_window :: string
  vr_confidence :: string
  vr_label :: string

definition review_row_of :: "(string \<Rightarrow> bool) \<Rightarrow> wf_batch list \<Rightarrow> wf_review \<Rightarrow> review_row" where
  \<comment> \<open>the first argument is \<open>float(score) < 0.9\<close>\<close>
  "review_row_of low batches r =
     (let value = (if opt_truthy (wr_score r) \<and> low (opt_str (wr_score r)) \<and> wr_module r \<noteq> zh_data_processing
                   then opt_str (wr_score r) else zh_dash)
      in \<lparr>vr_review = r,
          vr_data_window = (case tbl_get wb_id (wr_batch r) batches of None \<Rightarrow> ''-'' | Some b \<Rightarrow> wb_data_window b),
          vr_confidence = value, vr_label = (if value \<noteq> zh_dash then zh_low_label else [])\<rparr>)"

definition list_wf_reviews ::
  "(string \<Rightarrow> string) \<Rightarrow> (wf_review \<Rightarrow> string) \<Rightarrow> (string \<Rightarrow> bool) \<Rightarrow> review_filter \<Rightarrow> wf_state \<Rightarrow>
   (review_row list \<times> nat \<times> int \<times> int) \<times> (string \<times> nat) list" where
  \<comment> \<open>a page, and how many of all pages have each status\<close>
  "list_wf_reviews lower text low f s =
     (let rows = map (review_row_of low (wx_batches s)) (repo_list_reviews lower text f (wx_reviews s))
      in (wf_page (rf_page f) (rf_page_size f) rows,
          map (\<lambda>st. (st, length (filter (\<lambda>v. wr_status (vr_review v) = st) rows))) [zh_todo, zh_done, zh_revoked]))"

record task_summary =
  ov_tasks :: nat
  ov_processing :: nat
  ov_building :: nat
  ov_counts :: "(string \<times> nat) list"
  ov_batch :: "wf_batch option"
  ov_total :: int
  ov_changes :: "nat \<times> nat \<times> nat"        \<comment> \<open>added, updated and deleted\<close>
  ov_detected :: "string \<times> string"
  ov_policy :: "wf_policy option"

definition task_overview :: "wf_state \<Rightarrow> task_summary" where
  \<comment> \<open>the changes and their times are fixed in the code\<close>
  "task_overview s =
     (let b = (case list_batches s of [] \<Rightarrow> None | x # xs \<Rightarrow> Some x);
          ts = filter (\<lambda>t. case b of None \<Rightarrow> True | Some x \<Rightarrow> wt_batch_id t = wb_id x) (descending wt_processed_at (wx_tasks s));
          count = (\<lambda>P. length (filter P ts))
      in \<lparr>ov_tasks = length ts, ov_processing = count (\<lambda>t. wt_stage t = zh_data_processing),
          ov_building = count (\<lambda>t. wt_stage t = zh_graph_build),
          ov_counts = map (\<lambda>st. (st, count (\<lambda>t. wt_task_status t = st))) [zh_running, zh_run_error, zh_awaiting_review, zh_run_done],
          ov_batch = b,
          ov_total = (case b of Some x \<Rightarrow> wb_input x | None \<Rightarrow> int (length (wx_updates s))),
          ov_changes = (18420, 6408, 312), ov_detected = (''2026-07-14 02:00:00'', ''2026-07-14 02:18:00''),
          ov_policy = wx_policy s\<rparr>)"

end
