(* ===== verification/Workflow_Run.thy ===== *)
theory Workflow_Run
  imports Workflow_Service
begin

text \<open>
  The workflows and activities that the workers run (backend/service/temporal\_workflows.py).  The engine
  repeats an activity that raised, at most as often as the retry policy says; which attempts fail for
  reasons outside the program is an argument.  A workflow whose own code raises, and a child of
  a type that no worker knows, are tried again by the engine without end: the value None.
\<close>

section \<open>Activities\<close>

definition MAXIMUM_ATTEMPTS :: nat where
  "MAXIMUM_ATTEMPTS = 5"

fun attempts :: "nat \<Rightarrow> nat \<Rightarrow> (nat \<Rightarrow> string + 'a) \<Rightarrow> string + 'a" where
  \<comment> \<open>attempts number k and following, n more after the first\<close>
  "attempts 0 k f = f k"
| "attempts (Suc n) k f = (case f k of Inr x \<Rightarrow> Inr x | Inl m \<Rightarrow> attempts n (Suc k) f)"

definition run_activity :: "(nat \<Rightarrow> string + 'a) \<Rightarrow> string + 'a" where
  "run_activity f = attempts (MAXIMUM_ATTEMPTS - 1) 0 f"

type_synonym engine = "dict \<Rightarrow> nat \<Rightarrow> string option"
  \<comment> \<open>for the request of an activity and the number of an attempt, the fault of that attempt\<close>

definition attempt_with :: "engine \<Rightarrow> dict \<Rightarrow> (dict \<Rightarrow> string + json) \<Rightarrow> nat \<Rightarrow> string + json" where
  "attempt_with en q body k = (case en q k of Some m \<Rightarrow> Inl m | None \<Rightarrow> body q)"

definition execute_kg_step :: "dict \<Rightarrow> string + json" where
  \<comment> \<open>no caller sets \<open>delaySeconds\<close>\<close>
  "execute_kg_step q =
     (case map_of q ''step'' of
        None \<Rightarrow> Inl ''step''
      | Some step \<Rightarrow>
          let payload = json_or (dget_or q ''payload'' (JObj [])) (JObj []) in
          Inr (JObj [(''step'', step), (''domain'', dget q ''domain''), (''kind'', dget q ''kind''),
            (''status'', JStr ''completed''), (''input'', payload), (''output'', payload)]))"

definition load_workflow_definition :: "string \<Rightarrow> wf_state \<Rightarrow> string + wf_definition" where
  "load_workflow_definition i s =
     (case repo_get_definition i s of None \<Rightarrow> Inl ''no-definition'' | Some d \<Rightarrow> Inr d)"

datatype script_exit =
    ScriptTimeout
  | ScriptExit int string string       \<comment> \<open>return code, standard error and standard output\<close>

definition last_points :: "nat \<Rightarrow> string \<Rightarrow> string" where
  \<comment> \<open>\<open>s[-n:]\<close>\<close>
  "last_points n s = (let ps = code_points s in concat (drop (length ps - n) ps))"

definition execute_python_script ::
  "(string \<Rightarrow> string + json) \<Rightarrow> (string \<Rightarrow> bool) \<Rightarrow> string \<Rightarrow> script_exit \<Rightarrow> string + json" where
  \<comment> \<open>\<open>json.loads\<close>, which paths are files, the path, and how the process of this attempt ends\<close>
  "execute_python_script loads is_file path r =
     (if \<not> is_file path then Inl ''no-script''
      else case r of
        ScriptTimeout \<Rightarrow> Inl ''timeout''
      | ScriptExit code err out \<Rightarrow>
          if code \<noteq> 0 then Inl (last_points 4000 err)
          else loads (if out = [] then ''null'' else out))"

section \<open>Pipelines of a domain\<close>

definition step_request :: "json \<Rightarrow> string \<Rightarrow> string \<Rightarrow> json \<Rightarrow> dict" where
  "step_request step kind domain payload =
     [(''step'', step), (''kind'', JStr kind), (''domain'', JStr domain), (''payload'', payload)]"

fun run_steps :: "engine \<Rightarrow> dict list \<Rightarrow> string + json list" where
  "run_steps en [] = Inr []"
| "run_steps en (q # qs) =
     rbind (run_activity (attempt_with en q execute_kg_step)) (\<lambda>v. rbind (run_steps en qs) (\<lambda>vs. Inr (v # vs)))"

definition domain_steps :: "string list" where
  "domain_steps = [''load_increment'', ''normalize'', ''extract'', ''align'', ''validate'', ''persist'']"

definition run_domain_pipeline :: "engine \<Rightarrow> dict \<Rightarrow> string \<Rightarrow> string \<Rightarrow> string + json" where
  "run_domain_pipeline en request kind domain =
     rbind (run_steps en (map (\<lambda>x. step_request (JStr x) kind domain (JObj request)) domain_steps))
       (\<lambda>vs. Inr (JObj [(''kind'', JStr kind), (''domain'', JStr domain), (''status'', JStr ''completed''), (''steps'', JList vs)]))"

definition domain_workflows :: "(string \<times> string \<times> string) list" where
  \<comment> \<open>the nine workflow classes of a domain: type, kind and domain\<close>
  "domain_workflows =
     [(''kg.entity.paper'', ''entity'', ''paper''), (''kg.entity.scholar'', ''entity'', ''scholar''),
      (''kg.entity.patent'', ''entity'', ''patent''), (''kg.entity.organization'', ''entity'', ''organization''),
      (''kg.entity.project'', ''entity'', ''project''), (''kg.relation.authorship'', ''relation'', ''authorship''),
      (''kg.relation.employment'', ''relation'', ''employment''), (''kg.relation.citation'', ''relation'', ''citation''),
      (''kg.relation.cooperation'', ''relation'', ''cooperation'')]"

section \<open>The build of the graph\<close>

definition iterate :: "json \<Rightarrow> json list option" where
  \<comment> \<open>the items of \<open>for item in v\<close>; None: not iterable\<close>
  "iterate v =
     (case v of
        JList xs \<Rightarrow> Some xs
      | JStr s \<Rightarrow> Some (map JStr (code_points s))
      | JObj d \<Rightarrow> Some (map (\<lambda>p. JStr (fst p)) d)
      | _ \<Rightarrow> None)"

definition default_entities :: json where
  "default_entities = JList (map JStr [''paper'', ''scholar'', ''patent'', ''organization'', ''project''])"

definition default_relations :: json where
  "default_relations = JList (map JStr [''authorship'', ''employment'', ''citation'', ''cooperation''])"

definition child_types :: "dict \<Rightarrow> string list option" where
  "child_types request =
     (case (iterate (json_or (dget request ''entities'') default_entities),
            iterate (json_or (dget request ''relations'') default_relations)) of
        (Some es, Some rs) \<Rightarrow>
          Some (map (\<lambda>x. ''kg.entity.'' @ py_str x) es @ map (\<lambda>x. ''kg.relation.'' @ py_str x) rs)
      | _ \<Rightarrow> None)"

definition after_dot :: "string \<Rightarrow> string" where
  \<comment> \<open>\<open>s.rsplit(".", 1)[-1]\<close>\<close>
  "after_dot s = rev (takeWhile (\<lambda>c. c \<noteq> CHR ''.'') (rev s))"

definition child_id :: "string \<Rightarrow> nat \<Rightarrow> string \<Rightarrow> string" where
  "child_id wid n t = wid @ ''-'' @ show_nat n @ ''-'' @ after_dot t"

definition run_child :: "engine \<Rightarrow> dict \<Rightarrow> string \<Rightarrow> (string + json) option" where
  "run_child en request t =
     (case map_of domain_workflows t of None \<Rightarrow> None | Some (k, d) \<Rightarrow> Some (run_domain_pipeline en request k d))"

fun run_children ::
  "engine \<Rightarrow> dict \<Rightarrow> string \<Rightarrow> nat \<Rightarrow> string list \<Rightarrow> string list \<times> (string + json list) option" where
  \<comment> \<open>the children that were started, and the result\<close>
  "run_children en request wid n [] = ([], Some (Inr []))"
| "run_children en request wid n (t # ts) =
     (case run_child en request t of
        None \<Rightarrow> ([child_id wid n t], None)
      | Some (Inl m) \<Rightarrow> ([child_id wid n t], Some (Inl m))
      | Some (Inr v) \<Rightarrow>
          (case run_children en request wid (Suc n) ts of
             (ids, r) \<Rightarrow> (child_id wid n t # ids,
               case r of None \<Rightarrow> None | Some (Inl m) \<Rightarrow> Some (Inl m) | Some (Inr vs) \<Rightarrow> Some (Inr (v # vs)))))"

definition run_graph_build :: "engine \<Rightarrow> string \<Rightarrow> dict \<Rightarrow> string list \<times> (string + json) option" where
  "run_graph_build en wid request =
     (case child_types request of
        None \<Rightarrow> ([], None)
      | Some ts \<Rightarrow>
          (case run_children en request wid 0 ts of
             (ids, None) \<Rightarrow> (ids, None)
           | (ids, Some (Inl m)) \<Rightarrow> (ids, Some (Inl m))
           | (ids, Some (Inr vs)) \<Rightarrow>
               (ids, Some (Inr (JObj [(''status'', JStr ''completed''), (''children'', JList vs)])))))"

section \<open>Custom workflows\<close>

definition step_name :: "json \<Rightarrow> json option" where
  \<comment> \<open>None: an exception in the code of the workflow\<close>
  "step_name v =
     (case v of
        JStr x \<Rightarrow> Some (JStr x)
      | JObj d \<Rightarrow> Some (json_or (dget d ''id'') (dget d ''name''))
      | _ \<Rightarrow> None)"

fun run_custom_steps :: "engine \<Rightarrow> string \<Rightarrow> json \<Rightarrow> json list \<Rightarrow> (string + json list) option" where
  "run_custom_steps en i payload [] = Some (Inr [])"
| "run_custom_steps en i payload (x # xs) =
     (case step_name x of
        None \<Rightarrow> None
      | Some n \<Rightarrow>
          (case run_activity (attempt_with en (step_request n ''custom'' i payload) execute_kg_step) of
             Inl m \<Rightarrow> Some (Inl m)
           | Inr v \<Rightarrow>
               (case run_custom_steps en i payload xs of
                  None \<Rightarrow> None
                | Some (Inl m) \<Rightarrow> Some (Inl m)
                | Some (Inr vs) \<Rightarrow> Some (Inr (v # vs)))))"

definition run_configurable :: "engine \<Rightarrow> (nat \<Rightarrow> wf_state) \<Rightarrow> dict \<Rightarrow> (string + json) option" where
  \<comment> \<open>the states that the attempts to load the definition see\<close>
  "run_configurable en db request =
     (case map_of request ''definitionId'' of
        Some (JStr i) \<Rightarrow>
          (case run_activity (\<lambda>k. load_workflow_definition i (db k)) of
             Inl m \<Rightarrow> Some (Inl m)
           | Inr d \<Rightarrow>
               (case run_custom_steps en (wd_key d) (dget_or request ''payload'' (JObj [])) (wd_steps d) of
                  None \<Rightarrow> None
                | Some (Inl m) \<Rightarrow> Some (Inl m)
                | Some (Inr vs) \<Rightarrow>
                    Some (Inr (JObj [(''definitionId'', JStr (wd_key d)), (''status'', JStr ''completed''), (''steps'', JList vs)]))))
      | _ \<Rightarrow> None)"

definition script_timeout :: "wf_definition \<Rightarrow> int" where
  "script_timeout d = (case wd_source d of PythonSource f p t \<Rightarrow> max t 1 | _ \<Rightarrow> 60)"

definition run_python ::
  "(string \<Rightarrow> string + json) \<Rightarrow> (string \<Rightarrow> bool) \<Rightarrow> (nat \<Rightarrow> script_exit) \<Rightarrow> (nat \<Rightarrow> wf_state) \<Rightarrow> dict \<Rightarrow>
   (string + json) option" where
  \<comment> \<open>a definition without \<open>scriptPath\<close> is a \<open>KeyError\<close> of the workflow\<close>
  "run_python loads is_file ends db request =
     (case map_of request ''definitionId'' of
        Some (JStr i) \<Rightarrow>
          (case run_activity (\<lambda>k. load_workflow_definition i (db k)) of
             Inl m \<Rightarrow> Some (Inl m)
           | Inr d \<Rightarrow>
               (case wd_source d of
                  PythonSource f p t \<Rightarrow> Some (run_activity (\<lambda>k. execute_python_script loads is_file p (ends k)))
                | _ \<Rightarrow> None))
      | _ \<Rightarrow> None)"

section \<open>What the pipelines return\<close>

lemma attempts_give:
  assumes "\<And>i y. f i = Inr y \<Longrightarrow> y = x" and "j \<le> n" and "f (k + j) = Inr x"
  shows "attempts n k f = Inr x"
  using assms(2,3)
proof (induction n arbitrary: k j)
  case 0
  then show ?case by simp
next
  case (Suc n)
  show ?case
  proof (cases "f k")
    case (Inl m)
    with Suc.prems have "j \<noteq> 0" by (intro notI) simp
    with Suc.prems have "j - 1 \<le> n" "f (Suc k + (j - 1)) = Inr x" by simp_all
    from Suc.IH [OF this] Inl show ?thesis by simp
  next
    case (Inr y)
    with assms(1) [OF Inr] show ?thesis by simp
  qed
qed

definition reaches :: "engine \<Rightarrow> dict \<Rightarrow> bool" where
  \<comment> \<open>one of the attempts is not disturbed\<close>
  "reaches en q \<longleftrightarrow> list_ex (\<lambda>k. en q k = None) [0..<MAXIMUM_ATTEMPTS]"

lemma undisturbed_activity:
  assumes "reaches en q" and "body q = Inr v"
  shows "run_activity (attempt_with en q body) = Inr v"
proof -
  from assms(1) obtain j where "j < MAXIMUM_ATTEMPTS" and "en q j = None"
    by (auto simp: reaches_def list_ex_iff)
  with assms(2) show ?thesis
    unfolding run_activity_def
    by (intro attempts_give [where j = j]) (auto simp: attempt_with_def MAXIMUM_ATTEMPTS_def split: option.splits)
qed

definition step_result :: "json \<Rightarrow> string \<Rightarrow> string \<Rightarrow> json \<Rightarrow> json" where
  "step_result step kind domain payload =
     JObj [(''step'', step), (''domain'', JStr domain), (''kind'', JStr kind), (''status'', JStr ''completed''),
       (''input'', json_or payload (JObj [])), (''output'', json_or payload (JObj []))]"

lemma kg_step_result: "execute_kg_step (step_request step kind domain payload) = Inr (step_result step kind domain payload)"
  by (simp add: execute_kg_step_def step_request_def step_result_def dget_def dget_or_def Let_def)

lemma undisturbed_step:
  "reaches en (step_request step kind domain payload) \<Longrightarrow>
   run_activity (attempt_with en (step_request step kind domain payload) execute_kg_step) =
     Inr (step_result step kind domain payload)"
  by (rule undisturbed_activity) (simp_all add: kg_step_result)

lemma run_steps_ok:
  assumes "\<And>x. x \<in> set xs \<Longrightarrow> reaches en (step_request (JStr x) kind domain payload)"
  shows "run_steps en (map (\<lambda>x. step_request (JStr x) kind domain payload) xs) =
    Inr (map (\<lambda>x. step_result (JStr x) kind domain payload) xs)"
  using assms by (induction xs) (simp_all add: undisturbed_step)

definition pipeline_result :: "dict \<Rightarrow> string \<times> string \<Rightarrow> json" where
  \<comment> \<open>what a pipeline returns when nothing fails\<close>
  "pipeline_result request kd =
     JObj [(''kind'', JStr (fst kd)), (''domain'', JStr (snd kd)), (''status'', JStr ''completed''),
       (''steps'', JList (map (\<lambda>x. step_result (JStr x) (fst kd) (snd kd) (JObj request)) domain_steps))]"

lemma pipeline_ok:
  assumes "\<And>q. reaches en q"
  shows "run_domain_pipeline en request kind domain = Inr (pipeline_result request (kind, domain))"
  using run_steps_ok [of domain_steps en kind domain "JObj request"] assms
  by (simp add: run_domain_pipeline_def pipeline_result_def)

fun child_ids :: "string \<Rightarrow> nat \<Rightarrow> string list \<Rightarrow> string list" where
  "child_ids wid n [] = []"
| "child_ids wid n (t # ts) = child_id wid n t # child_ids wid (Suc n) ts"

lemma run_children_ok:
  assumes "\<And>q. reaches en q" and "list_all (\<lambda>t. map_of domain_workflows t \<noteq> None) ts"
  shows "run_children en request wid n ts =
    (child_ids wid n ts, Some (Inr (map (\<lambda>t. pipeline_result request (the (map_of domain_workflows t))) ts)))"
  using assms(2)
proof (induction ts arbitrary: n)
  case Nil
  then show ?case by simp
next
  case (Cons t ts)
  then obtain k d where "map_of domain_workflows t = Some (k, d)" by auto
  with Cons pipeline_ok [OF assms(1)] show ?case by (simp add: run_child_def)
qed

lemma unknown_child_blocks:
  assumes "map_of domain_workflows t = None" and "\<And>q. reaches en q"
    and "list_all (\<lambda>t. map_of domain_workflows t \<noteq> None) ts"
  shows "run_children en request wid n (ts @ t # us) = (child_ids wid n (ts @ [t]), None)"
  using assms(3)
proof (induction ts arbitrary: n)
  case Nil
  with assms(1) show ?case by (simp add: run_child_def)
next
  case (Cons x ts)
  then obtain k d where "map_of domain_workflows x = Some (k, d)" by auto
  with Cons pipeline_ok [OF assms(2)] show ?case by (simp add: run_child_def)
qed

lemma child_ids_append: "child_ids wid n (xs @ ys) = child_ids wid n xs @ child_ids wid (n + length xs) ys"
  by (induction xs arbitrary: n) simp_all

lemma failing_script_runs_again:
  \<comment> \<open>a script that ends with an error is run five times, with what it did before\<close>
  assumes "is_file p" and "\<And>k. k < 4 \<Longrightarrow> ends k = ScriptExit 1 err out" and "ends 4 = ScriptExit 0 [] ''null''"
  shows "run_activity (\<lambda>k. execute_python_script loads is_file p (ends k)) = loads ''null''"
proof -
  have "ends 0 = ScriptExit 1 err out" "ends (Suc 0) = ScriptExit 1 err out" "ends (Suc (Suc 0)) = ScriptExit 1 err out"
    "ends (Suc (Suc (Suc 0))) = ScriptExit 1 err out" "ends (Suc (Suc (Suc (Suc 0)))) = ScriptExit 0 [] ''null''"
    using assms by (simp_all add: eval_nat_numeral)
  with assms(1) show ?thesis
    by (simp add: run_activity_def MAXIMUM_ATTEMPTS_def execute_python_script_def eval_nat_numeral)
qed

end
