(* ===== verification/Workflow_Api.thy ===== *)
theory Workflow_Api
  imports Workflow_Run Governance_Api
begin

text \<open>
  The HTTP interface of workflows: backend/biz/handler/workflow\_system.py and task\_center.py, the legacy
  endpoints of biz/handler/manual\_review.py, and what the request models of
  biz/schemas/workflow\_operations.py refuse.  The parsing of query parameters and the encoding of answers
  are arguments; text validators are those of the operators and left out here.
\<close>

section \<open>State and answers\<close>

record wf_api =
  wa_state :: wf_state
  wa_cache :: cache

definition TASKS :: string where
  "TASKS = ''task-center:tasks''"

definition DEFINITIONS :: string where
  "DEFINITIONS = ''workflow:definitions''"

definition REVIEWS :: string where
  "REVIEWS = ''manual-review:list''"

definition wf_http :: "bool \<Rightarrow> nat \<Rightarrow> wf_error + 'a \<Rightarrow> 'a http" where
  \<comment> \<open>whether \<open>KeyError\<close> is caught, and the status for \<open>ValueError\<close>\<close>
  "wf_http missing conflict r =
     (case r of
        Inr x \<Rightarrow> HttpOk x
      | Inl WfMissing \<Rightarrow> if missing then HttpError 404 ''not-found'' else HttpError 500 []
      | Inl (WfConflict m) \<Rightarrow> HttpError conflict m
      | Inl (WfCrash m) \<Rightarrow> HttpError 500 m)"

definition cached_listing :: "time \<Rightarrow> int \<Rightarrow> string \<Rightarrow> query_items \<Rightarrow> string \<Rightarrow> wf_api \<Rightarrow> string \<times> wf_api" where
  "cached_listing t ttl p items body s =
     (case try_get t p items (wa_cache s) of
        Some cached \<Rightarrow> (cached, s)
      | None \<Rightarrow> (body, s\<lparr>wa_cache := store_page t ttl p items body (wa_cache s)\<rparr>))"

definition on_state :: "(wf_state \<Rightarrow> 'a \<times> wf_state) \<Rightarrow> wf_api \<Rightarrow> 'a \<times> wf_api" where
  "on_state f s = (case f (wa_state s) of (x, s') \<Rightarrow> (x, s\<lparr>wa_state := s'\<rparr>))"

definition then_drop :: "string \<Rightarrow> 'a http \<times> wf_api \<Rightarrow> 'a http \<times> wf_api" where
  \<comment> \<open>\<open>get\_cache.invalidate\<close> after a call that did not raise\<close>
  "then_drop p r =
     (case r of
        (HttpOk x, s) \<Rightarrow> (HttpOk x, s\<lparr>wa_cache := invalidate p (wa_cache s)\<rparr>)
      | (HttpError n m, s) \<Rightarrow> (HttpError n m, s))"

section \<open>Requests\<close>

definition clock_digits :: "string \<Rightarrow> bool" where
  \<comment> \<open>\<open>([01]\d|2[0-3]):[0-5]\d\<close>, for ASCII digits\<close>
  "clock_digits s =
     (case s of
        [a, b, c, d, e] \<Rightarrow>
          (a \<in> set ''01'' \<and> digit_val b \<noteq> None \<or> a = CHR ''2'' \<and> b \<in> set ''0123'') \<and> c = CHR '':'' \<and>
          d \<in> set ''012345'' \<and> digit_val e \<noteq> None
      | _ \<Rightarrow> False)"

definition valid_policy :: "policy_request \<Rightarrow> bool" where
  "valid_policy q \<longleftrightarrow>
     pq_frequency q \<in> set [zh_daily, zh_twelve_hours, zh_six_hours, zh_weekly] \<and>
     clock_digits (pq_execution_time q) \<and> py_len (pq_timezone q) \<le> 64"

definition valid_schedule_id :: "string \<Rightarrow> bool" where
  \<comment> \<open>\<open>[a-zA-Z0-9][a-zA-Z0-9\_-]{2,63}\<close>\<close>
  "valid_schedule_id s \<longleftrightarrow>
     (let ok = (\<lambda>c. char_in 97 122 c \<or> char_in 65 90 c \<or> char_in 48 57 c) in
      case s of [] \<Rightarrow> False
      | c # cs \<Rightarrow> ok c \<and> 2 \<le> length cs \<and> length cs \<le> 63 \<and> list_all (\<lambda>c. ok c \<or> c = CHR ''_'' \<or> c = CHR ''-'') cs)"

definition valid_definition :: "definition_request \<Rightarrow> bool" where
  "valid_definition q \<longleftrightarrow>
     valid_definition_id (dq_id q) \<and> 1 \<le> py_len (dq_name q) \<and> py_len (dq_name q) \<le> 64 \<and>
     dq_category q \<in> set [''entity'', ''relation'', ''graph'', ''custom''] \<and> dq_steps q \<noteq> [] \<and>
     list_all (\<lambda>v. case v of JStr _ \<Rightarrow> True | JObj _ \<Rightarrow> True | _ \<Rightarrow> False) (dq_steps q) \<and> py_len (dq_queue q) \<le> 64"

definition valid_limit :: "dict \<Rightarrow> bool" where
  \<comment> \<open>\<open>validate\_limit\<close>\<close>
  "valid_limit payload \<longleftrightarrow> (case map_of payload ''limit'' of None \<Rightarrow> True | Some (JInt n) \<Rightarrow> 0 < n | Some _ \<Rightarrow> False)"

record execute_request =
  eq_payload :: dict
  eq_workflow_id :: "string option"
  eq_llm_config_id :: "string option"
  eq_since :: "string option"

definition set_if :: "string \<Rightarrow> string option \<Rightarrow> dict \<Rightarrow> dict" where
  "set_if k v d = (case v of None \<Rightarrow> d | Some x \<Rightarrow> dset k (JStr x) d)"

definition execute_payload :: "execute_request \<Rightarrow> dict" where
  "execute_payload q = set_if ''since'' (eq_since q) (set_if ''llm_config_id'' (eq_llm_config_id q) (eq_payload q))"

section \<open>Definitions and executions\<close>

definition list_definitions_handler ::
  "time \<Rightarrow> int \<Rightarrow> (wf_definition list \<Rightarrow> string) \<Rightarrow> query_items \<Rightarrow> wf_api \<Rightarrow> string http \<times> wf_api" where
  "list_definitions_handler t ttl txt items s =
     (case cached_listing t ttl DEFINITIONS items (txt (repo_list_definitions (wa_state s))) s of
        (body, s') \<Rightarrow> (HttpOk body, s'))"

definition create_definition_handler :: "string \<Rightarrow> definition_request \<Rightarrow> wf_api \<Rightarrow> wf_definition http \<times> wf_api" where
  "create_definition_handler now q s =
     (if \<not> valid_definition q then (HttpError 422 [], s)
      else case on_state (create_definition now q) s of (d, s') \<Rightarrow> then_drop DEFINITIONS (HttpOk d, s'))"

definition upload_definition_handler ::
  "schema_config \<Rightarrow> script_env \<Rightarrow> string \<Rightarrow> string \<Rightarrow> string \<Rightarrow> string option \<Rightarrow> string option \<Rightarrow> int option \<Rightarrow>
   wf_api \<Rightarrow> wf_definition http \<times> wf_api" where
  "upload_definition_handler cfg env filename content fn i name timeout s =
     (case on_state (upload_python_definition cfg env
              (if filename = [] then ''workflow.py'' else filename) content fn i name timeout) s of
        (r, s') \<Rightarrow> then_drop DEFINITIONS (wf_http False 400 r, s'))"

definition get_definition_handler :: "string \<Rightarrow> wf_api \<Rightarrow> wf_definition http" where
  "get_definition_handler i s =
     (case repo_get_definition i (wa_state s) of None \<Rightarrow> HttpError 404 ''no-definition'' | Some d \<Rightarrow> HttpOk d)"

definition execute_definition_handler :: "run_env \<Rightarrow> string \<Rightarrow> execute_request \<Rightarrow> wf_api \<Rightarrow> wf_execution http \<times> wf_api" where
  "execute_definition_handler env i q s =
     (if \<not> valid_limit (eq_payload q) then (HttpError 422 [], s)
      else case repo_get_definition i (wa_state s) of
        None \<Rightarrow> (HttpError 404 ''no-definition'', s)
      | Some d \<Rightarrow>
          (case on_state (execute_definition env d (execute_payload q) (eq_workflow_id q) True) s of
             (r, s') \<Rightarrow> (wf_http False 409 r, s')))"

definition list_executions_handler :: "int \<Rightarrow> wf_api \<Rightarrow> (wf_execution list \<times> nat) http" where
  "list_executions_handler limit s =
     (if limit < 1 \<or> 500 < limit then HttpError 422 [] else HttpOk (list_wf_executions (nat limit) (wa_state s)))"

definition get_execution_handler :: "describe_answer \<Rightarrow> string \<Rightarrow> string \<Rightarrow> wf_api \<Rightarrow> wf_execution http \<times> wf_api" where
  "get_execution_handler a now i s =
     (case on_state (get_execution a now i) s of
        (None, s') \<Rightarrow> (HttpError 404 ''no-execution'', s')
      | (Some e, s') \<Rightarrow> (HttpOk e, s'))"

section \<open>Schedules\<close>

record schedule_request =
  sq_id :: string
  sq_cron :: string
  sq_timezone :: string
  sq_active :: bool
  sq_payload :: dict

definition valid_schedule :: "schedule_request \<Rightarrow> bool" where
  "valid_schedule q \<longleftrightarrow> valid_schedule_id (sq_id q) \<and> 5 \<le> py_len (sq_cron q) \<and> py_len (sq_cron q) \<le> 64 \<and>
     py_len (sq_timezone q) \<le> 64"

text \<open>
  A handler reads the record, calls Temporal, waits for the answer, and then saves: other requests may
  come between the call and the save.  \<open>begin\<close> is the part up to the answer, with the read of the record
  and the effect of the call at Temporal as one step; a handler is both parts.
\<close>

definition begin_create_schedule :: "schedule_env \<Rightarrow> string \<Rightarrow> schedule_request \<Rightarrow> wf_state \<Rightarrow> wf_schedule http \<times> wf_state" where
  "begin_create_schedule env i q s =
     (if \<not> valid_schedule q then (HttpError 422 [], s)
      else case repo_get_definition i s of
        None \<Rightarrow> (HttpError 404 ''no-definition'', s)
      | Some d \<Rightarrow>
          let c = \<lparr>ws_id = sq_id q, ws_definition_id = i, ws_cron = sq_cron q, ws_timezone = sq_timezone q,
                ws_active = sq_active q, ws_payload = sq_payload q, ws_dispatch = None, ws_message = None\<rparr>;
              res = (case create_schedule env d c s of
                  (Inl m, s') \<Rightarrow> (c\<lparr>ws_dispatch := Some ''LOCAL_SAVED'', ws_message := Some ''temporal-down''\<rparr>, forget_client s')
                | (Inr c', s') \<Rightarrow> (c', s'))
          in (HttpOk (fst res), snd res))"

definition begin_schedule_state :: "schedule_env \<Rightarrow> string \<Rightarrow> bool \<Rightarrow> wf_state \<Rightarrow> wf_schedule http \<times> wf_state" where
  "begin_schedule_state env i on s =
     (case get_schedule i s of
        None \<Rightarrow> (HttpError 404 ''no-schedule'', s)
      | Some c \<Rightarrow>
          let res = (case pause_schedule env i (\<not> on) s of
                  (Some m, s') \<Rightarrow> (c\<lparr>ws_dispatch := Some ''LOCAL_SAVED'', ws_message := Some ''temporal-down''\<rparr>, forget_client s')
                | (None, s') \<Rightarrow> (c\<lparr>ws_dispatch := Some ''TEMPORAL_UPDATED''\<rparr>, s'));
              c' = (fst res)\<lparr>ws_active := on\<rparr>
          in (HttpOk c', snd res))"

definition then_save :: "wf_schedule http \<times> wf_state \<Rightarrow> wf_schedule http \<times> wf_state" where
  "then_save r = (case r of (HttpOk c, s) \<Rightarrow> (HttpOk c, save_schedule c s) | (HttpError n m, s) \<Rightarrow> (HttpError n m, s))"

definition create_schedule_handler :: "schedule_env \<Rightarrow> string \<Rightarrow> schedule_request \<Rightarrow> wf_state \<Rightarrow> wf_schedule http \<times> wf_state" where
  "create_schedule_handler env i q s = then_save (begin_create_schedule env i q s)"

definition update_schedule_state_handler :: "schedule_env \<Rightarrow> string \<Rightarrow> bool \<Rightarrow> wf_state \<Rightarrow> wf_schedule http \<times> wf_state" where
  "update_schedule_state_handler env i on s = then_save (begin_schedule_state env i on s)"

datatype trigger_answer = Triggered | TriggerFailed     \<comment> \<open>the second with code 503 in the body\<close>

definition trigger_schedule_handler :: "schedule_env \<Rightarrow> remote_fault \<Rightarrow> string \<Rightarrow> wf_state \<Rightarrow> trigger_answer http \<times> wf_state" where
  "trigger_schedule_handler env f i s =
     (if get_schedule i s = None then (HttpError 404 ''no-schedule'', s)
      else case trigger_remote_schedule env f i s of
        (None, s') \<Rightarrow> (HttpOk Triggered, s')
      | (Some m, s') \<Rightarrow> (HttpOk TriggerFailed, forget_client s'))"

definition begin_delete_schedule :: "schedule_env \<Rightarrow> string \<Rightarrow> wf_state \<Rightarrow> string http \<times> wf_state" where
  "begin_delete_schedule env i s =
     (if get_schedule i s = None then (HttpError 404 ''no-schedule'', s)
      else (HttpOk i, case delete_remote_schedule env i s of (None, s') \<Rightarrow> s' | (Some m, s') \<Rightarrow> forget_client s'))"

definition delete_schedule_handler :: "schedule_env \<Rightarrow> string \<Rightarrow> wf_state \<Rightarrow> string http \<times> wf_state" where
  "delete_schedule_handler env i s =
     (case begin_delete_schedule env i s of
        (HttpOk j, s') \<Rightarrow> (HttpOk j, snd (repo_delete_schedule j s'))
      | (HttpError n m, s') \<Rightarrow> (HttpError n m, s'))"

section \<open>The task center\<close>

definition list_tasks_handler ::
  "time \<Rightarrow> int \<Rightarrow> (wf_task list \<times> nat \<times> int \<times> int \<Rightarrow> string) \<Rightarrow> (string \<Rightarrow> string) \<Rightarrow> (wf_task \<Rightarrow> string) \<Rightarrow>
   (query_items \<Rightarrow> task_filter option) \<Rightarrow> query_items \<Rightarrow> wf_api \<Rightarrow> string http \<times> wf_api" where
  "list_tasks_handler t ttl txt lower text parse items s =
     (case parse items of
        None \<Rightarrow> (HttpError 422 [], s)
      | Some f \<Rightarrow>
          (case cached_listing t ttl TASKS items (txt (list_wf_tasks lower text f (wa_state s))) s of
             (body, s') \<Rightarrow> (HttpOk body, s')))"

definition get_task_handler :: "string \<Rightarrow> wf_api \<Rightarrow> task_view http" where
  "get_task_handler i s = wf_http True 500 (get_task_view i (wa_state s))"

definition source_updates_handler ::
  "string option \<Rightarrow> string option \<Rightarrow> string option \<Rightarrow> int \<Rightarrow> int \<Rightarrow> wf_api \<Rightarrow> source_update list \<times> nat" where
  "source_updates_handler domain since until page psize s =
     (let items = list_source_updates domain since until (wa_state s);
          n = min (max psize 1) 200
      in (take (nat n) (drop (nat ((max page 1 - 1) * n)) items), length items))"

definition source_health :: "(string \<times> string) list" where
  \<comment> \<open>identifier and status of the sources; the service has no \<open>temporal\_health\<close>, so the handler shows these\<close>
  "source_health = [(''mysql-elements'', zh_healthy), (''trs-graph'', zh_healthy), (''temporal'', zh_unprobed)]"

definition save_update_policy_handler ::
  "schedule_env \<Rightarrow> string \<Rightarrow> policy_request \<Rightarrow> wf_api \<Rightarrow> (wf_policy \<times> wf_schedule) http \<times> wf_api" where
  "save_update_policy_handler env now q s =
     (if \<not> valid_policy q then (HttpError 422 [], s)
      else case on_state (save_update_policy env now q) s of (r, s') \<Rightarrow> (wf_http False 500 r, s'))"

definition trigger_graph_build_handler ::
  "run_env \<Rightarrow> trigger_request \<Rightarrow> wf_api \<Rightarrow> (wf_task \<times> wf_execution) http \<times> wf_api" where
  "trigger_graph_build_handler env q s =
     (case on_state (trigger_graph_build env q) s of (r, s') \<Rightarrow> then_drop TASKS (wf_http False 500 r, s'))"

section \<open>Legacy reviews\<close>

definition list_legacy_reviews_handler ::
  "time \<Rightarrow> int \<Rightarrow> ((review_row list \<times> nat \<times> int \<times> int) \<times> (string \<times> nat) list \<Rightarrow> string) \<Rightarrow> (string \<Rightarrow> string) \<Rightarrow>
   (wf_review \<Rightarrow> string) \<Rightarrow> (string \<Rightarrow> bool) \<Rightarrow> (query_items \<Rightarrow> review_filter option) \<Rightarrow> query_items \<Rightarrow>
   wf_api \<Rightarrow> string http \<times> wf_api" where
  "list_legacy_reviews_handler t ttl txt lower text low parse items s =
     (case parse items of
        None \<Rightarrow> (HttpError 422 [], s)
      | Some f \<Rightarrow>
          (case cached_listing t ttl REVIEWS items (txt (list_wf_reviews lower text low f (wa_state s))) s of
             (body, s') \<Rightarrow> (HttpOk body, s')))"

definition get_legacy_review_handler :: "string \<Rightarrow> wf_api \<Rightarrow> review_view http" where
  "get_legacy_review_handler i s = wf_http True 500 (get_review_view i (wa_state s))"

definition handle_legacy_review_handler ::
  "run_env \<Rightarrow> string \<Rightarrow> review_action \<Rightarrow> wf_api \<Rightarrow> (wf_review \<times> wf_execution option) http \<times> wf_api" where
  "handle_legacy_review_handler env i a s =
     (case on_state (handle_review env i a) s of (r, s') \<Rightarrow> then_drop REVIEWS (wf_http True 409 r, s'))"

definition modify_legacy_result_handler ::
  "string \<Rightarrow> string \<Rightarrow> dict \<Rightarrow> string \<Rightarrow> string option \<Rightarrow> wf_api \<Rightarrow> wf_review http \<times> wf_api" where
  "modify_legacy_result_handler now i result note handler s =
     (case on_state (modify_review_result now i result note handler) s of
        (r, s') \<Rightarrow> then_drop REVIEWS (wf_http True 500 r, s'))"

definition retry_legacy_review_handler :: "run_env \<Rightarrow> string \<Rightarrow> dict \<Rightarrow> wf_api \<Rightarrow> wf_execution http \<times> wf_api" where
  "retry_legacy_review_handler env i payload s =
     (case on_state (retry_review env i payload) s of (r, s') \<Rightarrow> then_drop REVIEWS (wf_http True 500 r, s'))"

definition revoke_legacy_review_handler ::
  "string \<Rightarrow> string \<Rightarrow> string \<Rightarrow> string option \<Rightarrow> wf_api \<Rightarrow> wf_review http \<times> wf_api" where
  "revoke_legacy_review_handler now i reason handler s =
     (if py_len reason < 1 \<or> 64 < py_len reason then (HttpError 422 [], s)
      else case on_state (revoke_review now i reason handler) s of (r, s') \<Rightarrow> then_drop REVIEWS (wf_http True 500 r, s'))"

end
