(* ===== verification/Workflow_Inv.thy ===== *)
theory Workflow_Inv
  imports Workflow_Api Systems
begin

text \<open>
  Runs of many requests.  A request that waits for Temporal between reading a row and saving it is
  in flight with the row it read, and others come in between.  The invariant says what the
  tables, the scripts and the schedules of Temporal have to do with each other.
\<close>

section \<open>What operations leave alone\<close>

named_theorems wf_frame

lemma client_frame [wf_frame]:
  "wx_executions (snd (temporal_client m s)) = wx_executions s" "wx_tasks (snd (temporal_client m s)) = wx_tasks s"
  "wx_reviews (snd (temporal_client m s)) = wx_reviews s" "wx_definitions (snd (temporal_client m s)) = wx_definitions s"
  "wx_schedules (snd (temporal_client m s)) = wx_schedules s" "wx_files (snd (temporal_client m s)) = wx_files s"
  "wx_remote (snd (temporal_client m s)) = wx_remote s" "wx_runs (snd (temporal_client m s)) = wx_runs s"
  by (auto simp: temporal_client_def split: option.split)

lemma forget_frame [wf_frame]:
  "wx_executions (forget_client s) = wx_executions s" "wx_tasks (forget_client s) = wx_tasks s"
  "wx_reviews (forget_client s) = wx_reviews s" "wx_definitions (forget_client s) = wx_definitions s"
  "wx_schedules (forget_client s) = wx_schedules s" "wx_files (forget_client s) = wx_files s"
  "wx_remote (forget_client s) = wx_remote s" "wx_runs (forget_client s) = wx_runs s"
  "wx_batches (forget_client s) = wx_batches s" "wx_updates (forget_client s) = wx_updates s"
  "wx_policy (forget_client s) = wx_policy s"
  by (simp_all add: forget_client_def)

lemma save_frame [wf_frame]:
  "wx_executions (save_task t s) = wx_executions s" "wx_tasks (save_task t s) = tbl_put wt_id t (wx_tasks s)"
  "wx_reviews (save_task t s) = wx_reviews s" "wx_definitions (save_task t s) = wx_definitions s"
  "wx_schedules (save_task t s) = wx_schedules s" "wx_files (save_task t s) = wx_files s"
  "wx_remote (save_task t s) = wx_remote s" "wx_runs (save_task t s) = wx_runs s"
  "wx_executions (save_execution e s) = tbl_put we_id e (wx_executions s)" "wx_tasks (save_execution e s) = wx_tasks s"
  "wx_reviews (save_execution e s) = wx_reviews s" "wx_definitions (save_execution e s) = wx_definitions s"
  "wx_schedules (save_execution e s) = wx_schedules s" "wx_files (save_execution e s) = wx_files s"
  "wx_remote (save_execution e s) = wx_remote s" "wx_runs (save_execution e s) = wx_runs s"
  "wx_executions (save_review r s) = wx_executions s" "wx_tasks (save_review r s) = wx_tasks s"
  "wx_reviews (save_review r s) = tbl_put wr_id r (wx_reviews s)" "wx_definitions (save_review r s) = wx_definitions s"
  "wx_schedules (save_review r s) = wx_schedules s" "wx_files (save_review r s) = wx_files s"
  "wx_remote (save_review r s) = wx_remote s" "wx_runs (save_review r s) = wx_runs s"
  "wx_executions (save_definition d s) = wx_executions s" "wx_tasks (save_definition d s) = wx_tasks s"
  "wx_reviews (save_definition d s) = wx_reviews s"
  "wx_definitions (save_definition d s) = tbl_put wd_key d (wx_definitions s)"
  "wx_schedules (save_definition d s) = wx_schedules s" "wx_files (save_definition d s) = wx_files s"
  "wx_remote (save_definition d s) = wx_remote s" "wx_runs (save_definition d s) = wx_runs s"
  "wx_executions (save_schedule c s) = wx_executions s" "wx_tasks (save_schedule c s) = wx_tasks s"
  "wx_reviews (save_schedule c s) = wx_reviews s" "wx_definitions (save_schedule c s) = wx_definitions s"
  "wx_schedules (save_schedule c s) = tbl_put ws_id c (wx_schedules s)" "wx_files (save_schedule c s) = wx_files s"
  "wx_remote (save_schedule c s) = wx_remote s" "wx_runs (save_schedule c s) = wx_runs s"
  "wx_executions (save_setting p s) = wx_executions s" "wx_tasks (save_setting p s) = wx_tasks s"
  "wx_reviews (save_setting p s) = wx_reviews s" "wx_definitions (save_setting p s) = wx_definitions s"
  "wx_schedules (save_setting p s) = wx_schedules s" "wx_files (save_setting p s) = wx_files s"
  "wx_remote (save_setting p s) = wx_remote s" "wx_runs (save_setting p s) = wx_runs s"
  by (simp_all add: save_task_def save_execution_def save_review_def save_definition_def save_schedule_def save_setting_def)

definition engine_only :: "wf_state \<Rightarrow> wf_state \<Rightarrow> bool" where
  \<comment> \<open>only the connection changed, and runs were added\<close>
  "engine_only s s' \<longleftrightarrow>
     wx_batches s' = wx_batches s \<and> wx_updates s' = wx_updates s \<and> wx_policy s' = wx_policy s \<and>
     wx_executions s' = wx_executions s \<and> wx_tasks s' = wx_tasks s \<and> wx_reviews s' = wx_reviews s \<and>
     wx_definitions s' = wx_definitions s \<and> wx_schedules s' = wx_schedules s \<and> wx_files s' = wx_files s \<and>
     wx_remote s' = wx_remote s \<and> set (wx_runs s) \<subseteq> set (wx_runs s')"

lemma engine_onlyD:
  assumes "engine_only s s'"
  shows "wx_executions s' = wx_executions s" "wx_tasks s' = wx_tasks s" "wx_reviews s' = wx_reviews s"
    "wx_definitions s' = wx_definitions s" "wx_schedules s' = wx_schedules s" "wx_files s' = wx_files s"
    "wx_remote s' = wx_remote s" "set (wx_runs s) \<subseteq> set (wx_runs s')"
  using assms by (simp_all add: engine_only_def)

lemma start_engine: "start env d p w s = (r, s') \<Longrightarrow> engine_only s s'"
  by (auto simp: start_def Let_def temporal_client_def engine_only_def
      split: option.splits start_answer.splits if_splits)

lemma start_runs: "start env d p w s = (Inr (i, r), s') \<Longrightarrow> \<exists>x \<in> set (wx_runs s'). rr_workflow_id x = i"
  by (auto simp: start_def Let_def split: option.splits start_answer.splits prod.splits if_splits)

lemma forget_engine: "engine_only s s' \<Longrightarrow> engine_only s (forget_client s')"
  by (simp add: engine_only_def wf_frame)

lemma dispatch_engine: "dispatch env d p w s = (r, s') \<Longrightarrow> engine_only s s'"
  by (cases "start env d p w s")
    (auto simp: dispatch_def dest: start_engine intro: forget_engine split: sum.splits prod.splits if_splits)

definition fresh_execution :: "run_env \<Rightarrow> wf_state \<Rightarrow> wf_execution \<Rightarrow> bool" where
  \<comment> \<open>the execution of a start that succeeded, or one that waits for no one\<close>
  "fresh_execution env s x \<longleftrightarrow>
     we_id x = ''EXEC-'' @ re_execution env \<and> we_output x = None \<and>
     (we_status x = ''RUNNING'' \<and> we_dispatch_mode x = ''TEMPORAL'' \<and> (\<exists>r \<in> set (wx_runs s). rr_workflow_id r = we_workflow_id x) \<or>
      we_status x = ''QUEUED'' \<and> we_dispatch_mode x = ''LOCAL_FALLBACK'')"

lemma dispatch_fresh: "dispatch env d p w s = (Inr x, s') \<Longrightarrow> fresh_execution env s' x \<and> we_task_id x = None"
  by (auto simp: dispatch_def fresh_execution_def execution_record_def dest: start_runs
      split: sum.splits prod.splits if_splits)

lemma execute_frame [wf_frame]:
  "wx_reviews (snd (execute_definition env d p w b s)) = wx_reviews s"
  "wx_definitions (snd (execute_definition env d p w b s)) = wx_definitions s"
  "wx_schedules (snd (execute_definition env d p w b s)) = wx_schedules s"
  "wx_files (snd (execute_definition env d p w b s)) = wx_files s"
  "wx_remote (snd (execute_definition env d p w b s)) = wx_remote s"
  "set (wx_runs s) \<subseteq> set (wx_runs (snd (execute_definition env d p w b s)))"
proof -
  obtain r s' where q: "dispatch env d p w s = (r, s')" by (cases "dispatch env d p w s")
  note f = engine_onlyD [OF dispatch_engine [OF q]]
  show "wx_reviews (snd (execute_definition env d p w b s)) = wx_reviews s"
    "wx_definitions (snd (execute_definition env d p w b s)) = wx_definitions s"
    "wx_schedules (snd (execute_definition env d p w b s)) = wx_schedules s"
    "wx_files (snd (execute_definition env d p w b s)) = wx_files s"
    "wx_remote (snd (execute_definition env d p w b s)) = wx_remote s"
    "set (wx_runs s) \<subseteq> set (wx_runs (snd (execute_definition env d p w b s)))"
    using f by (cases r; simp add: execute_definition_def q Let_def wf_frame)+
qed

lemma put_twice:
  assumes "key r = key r'"
  shows "tbl_put key r (tbl_put key r' t) = tbl_put key r t"
proof (cases "list_ex (\<lambda>x. key x = key r) t")
  case True
  then have "tbl_put key r' t = tbl_upd key (key r) (\<lambda>_. r') t" using assms by (simp add: tbl_put_def)
  moreover have "list_ex (\<lambda>x. key x = key r) (tbl_upd key (key r) (\<lambda>_. r') t)"
    using True assms by (induction t) (auto simp: tbl_upd_def)
  moreover have "tbl_upd key (key r) (\<lambda>_. r) (tbl_upd key (key r) (\<lambda>_. r') t) = tbl_upd key (key r) (\<lambda>_. r) t"
    using assms by (simp add: tbl_upd_def)
  ultimately show ?thesis using True by (simp add: tbl_put_def)
next
  case False
  then have "tbl_put key r' t = t @ [r']" and "tbl_put key r t = t @ [r]" using assms by (simp_all add: tbl_put_def)
  moreover have "tbl_upd key (key r) (\<lambda>_. r) t = t" using False by (induction t) (auto simp: tbl_upd_def)
  ultimately show ?thesis using assms by (simp add: tbl_put_def) (simp add: tbl_upd_def)
qed

text \<open>An execution adds at most one row to the executions and one to the tasks.\<close>

lemma execute_cases:
  obtains (Refused) e where "fst (execute_definition env d p w b s) = Inl e"
      and "wx_executions (snd (execute_definition env d p w b s)) = wx_executions s"
      and "wx_tasks (snd (execute_definition env d p w b s)) = wx_tasks s"
  | (Saved) x where "fst (execute_definition env d p w b s) = Inr x"
      and "wx_executions (snd (execute_definition env d p w b s)) = tbl_put we_id x (wx_executions s)"
      and "fresh_execution env (snd (execute_definition env d p w b s)) x"
      and "wx_tasks (snd (execute_definition env d p w b s)) = wx_tasks s \<or>
        (\<exists>t. wx_tasks (snd (execute_definition env d p w b s)) = tbl_put wt_id t (wx_tasks s) \<and>
          wt_id t = ''PI-'' @ re_day env @ ''-'' @ re_task env \<and> wt_task_status t = zh_running \<and> wt_status t = zh_in_progress)"
proof (cases "dispatch env d p w s")
  case (Pair r s')
  have f: "wx_executions s' = wx_executions s" "wx_tasks s' = wx_tasks s"
    using engine_onlyD [OF dispatch_engine [OF Pair]] by simp_all
  show thesis
  proof (cases r)
    case (Inl e)
    with Pair f show thesis by (intro Refused) (simp_all add: execute_definition_def)
  next
    case (Inr x)
    have x: "fresh_execution env s' x" using dispatch_fresh Pair Inr by blast
    then have st: "we_status x \<noteq> ''COMPLETED''" by (auto simp: fresh_execution_def)
    show thesis
    proof (cases b)
      case False
      with Pair Inr f x show thesis
        by (intro Saved [of x]) (auto simp: execute_definition_def Let_def wf_frame fresh_execution_def)
    next
      case True
      let ?t = "job_task env d x p (wd_title d) zh_job_run [] (json_or (dget p ''since'') (JStr ''latest-cursor'')) (wd_key d)"
      let ?x = "x\<lparr>we_task_id := Some (wt_id ?t)\<rparr>"
      have e: "execute_definition env d p w b s = (Inr ?x, save_execution ?x (save_task ?t (save_execution x s')))"
        using Pair Inr True by (simp add: execute_definition_def Let_def)
      have t: "wt_id ?t = ''PI-'' @ re_day env @ ''-'' @ re_task env" "wt_task_status ?t = zh_running"
        "wt_status ?t = zh_in_progress"
        using st by (simp_all add: job_task_def)
      have ex: "wx_executions (save_execution ?x (save_task ?t (save_execution x s'))) = tbl_put we_id ?x (wx_executions s)"
        by (simp add: wf_frame put_twice f)
      have tk: "wx_tasks (save_execution ?x (save_task ?t (save_execution x s'))) = tbl_put wt_id ?t (wx_tasks s)"
        by (simp add: wf_frame f)
      have fr: "fresh_execution env (save_execution ?x (save_task ?t (save_execution x s'))) ?x"
        using x by (simp add: fresh_execution_def wf_frame)
      show thesis
        by (rule Saved [of ?x]) (use ex tk fr t in \<open>unfold e, auto\<close>)
    qed
  qed
qed

section \<open>Runs\<close>

datatype flight =
    FRefresh wf_execution                      \<comment> \<open>\<open>get\_execution\<close>\<close>
  | FHandle wf_definition wf_review dict       \<comment> \<open>\<open>handle\_review\<close> with a rerun\<close>
  | FRetry wf_definition wf_review dict        \<comment> \<open>\<open>retry\_review\<close>\<close>
  | FSchedule wf_schedule                      \<comment> \<open>a schedule that Temporal has answered for, before the save\<close>
  | FPolicy wf_policy wf_schedule
  | FUnschedule string

record wf_world =
  wu_state :: wf_state
  wu_flights :: "flight list"

datatype wf_cmd =
    CExecute run_env string execute_request
  | CTrigger run_env trigger_request
  | CPoll string
  | CPolled nat describe_answer string
  | CHandle run_env string review_action
  | CHandled nat run_env
  | CRetry string dict
  | CRetried nat run_env
  | CModify string string dict string "string option"
  | CRevoke string string string "string option"
  | CAbandon nat                               \<comment> \<open>the request in flight is cancelled\<close>
  | CPolicy schedule_env string policy_request
  | CDefine string definition_request
  | CUpload script_env string string string "string option" "string option" "int option"
  | CSchedule schedule_env string schedule_request
  | CScheduleState schedule_env string bool
  | CScheduleDelete schedule_env string
  | CSaved nat                                 \<comment> \<open>the save after the answer of Temporal\<close>

definition via_api :: "(wf_api \<Rightarrow> 'a \<times> wf_api) \<Rightarrow> wf_state \<Rightarrow> wf_state" where
  \<comment> \<open>what a handler does to the database; the cache is not read on the way\<close>
  "via_api h s = wa_state (snd (h \<lparr>wa_state = s, wa_cache = empty_cache\<rparr>))"

definition unused :: "run_env \<Rightarrow> wf_state \<Rightarrow> bool" where
  \<comment> \<open>the random identifiers of a call are new\<close>
  "unused env s \<longleftrightarrow>
     ''EXEC-'' @ re_execution env \<notin> we_id ` set (wx_executions s) \<and>
     ''PI-'' @ re_day env @ ''-'' @ re_task env \<notin> wt_id ` set (wx_tasks s)"

definition drop_nth :: "nat \<Rightarrow> 'a list \<Rightarrow> 'a list" where
  "drop_nth n xs = take n xs @ drop (Suc n) xs"

definition direct :: "wf_state \<Rightarrow> wf_world \<Rightarrow> unit + wf_world" where
  "direct s u = Inr (u\<lparr>wu_state := s\<rparr>)"

definition take_off :: "flight \<Rightarrow> wf_world \<Rightarrow> unit + wf_world" where
  "take_off f u = Inr (u\<lparr>wu_flights := wu_flights u @ [f]\<rparr>)"

definition land :: "nat \<Rightarrow> (flight \<Rightarrow> wf_state option) \<Rightarrow> wf_world \<Rightarrow> unit + wf_world" where
  "land n f u =
     (if length (wu_flights u) \<le> n then Inl ()
      else case f (wu_flights u ! n) of
        None \<Rightarrow> Inl ()
      | Some s \<Rightarrow> Inr (u\<lparr>wu_state := s, wu_flights := drop_nth n (wu_flights u)\<rparr>))"

definition schedule_save :: "wf_state \<Rightarrow> flight \<Rightarrow> wf_state option" where
  "schedule_save s f =
     (case f of
        FSchedule c \<Rightarrow> Some (save_schedule c s)
      | FPolicy p c \<Rightarrow> Some (finish_save_policy p c s)
      | FUnschedule i \<Rightarrow> Some (snd (repo_delete_schedule i s))
      | _ \<Rightarrow> None)"

fun exec_wf :: "schema_config \<Rightarrow> wf_cmd \<Rightarrow> wf_world \<Rightarrow> unit + wf_world" where
  "exec_wf cfg (CExecute env i q) u =
     (if unused env (wu_state u) then direct (via_api (execute_definition_handler env i q) (wu_state u)) u else Inl ())"
| "exec_wf cfg (CTrigger env q) u =
     (if unused env (wu_state u) then direct (via_api (trigger_graph_build_handler env q) (wu_state u)) u else Inl ())"
| "exec_wf cfg (CPoll i) u =
     (case begin_get_execution i (wu_state u) of
        Inl r \<Rightarrow> Inl ()
      | Inr e \<Rightarrow> take_off (FRefresh e) u)"
| "exec_wf cfg (CPolled n a now) u =
     land n (\<lambda>f. case f of FRefresh e \<Rightarrow> Some (snd (finish_refresh a now e (wu_state u))) | _ \<Rightarrow> None) u"
| "exec_wf cfg (CHandle env i a) u =
     (case begin_handle env i a (wu_state u) of
        Inl e \<Rightarrow> Inl ()
      | Inr (r, None) \<Rightarrow> direct (via_api (handle_legacy_review_handler env i a) (wu_state u)) u
      | Inr (r, Some d) \<Rightarrow> take_off (FHandle d r (va_result a)) u)"
| "exec_wf cfg (CHandled n env) u =
     (if \<not> unused env (wu_state u) then Inl ()
      else land n (\<lambda>f. case f of FHandle d r p \<Rightarrow> Some (snd (finish_handle env d r p (wu_state u))) | _ \<Rightarrow> None) u)"
| "exec_wf cfg (CRetry i p) u =
     (case begin_retry i (wu_state u) of
        Inl e \<Rightarrow> Inl ()
      | Inr (r, d) \<Rightarrow> take_off (FRetry d r p) u)"
| "exec_wf cfg (CRetried n env) u =
     (if \<not> unused env (wu_state u) then Inl ()
      else land n (\<lambda>f. case f of FRetry d r p \<Rightarrow> Some (snd (finish_retry env d r p (wu_state u))) | _ \<Rightarrow> None) u)"
| "exec_wf cfg (CModify now i v note h) u = direct (via_api (modify_legacy_result_handler now i v note h) (wu_state u)) u"
| "exec_wf cfg (CRevoke now i reason h) u = direct (via_api (revoke_legacy_review_handler now i reason h) (wu_state u)) u"
| "exec_wf cfg (CAbandon n) u = land n (\<lambda>f. Some (wu_state u)) u"
| "exec_wf cfg (CPolicy env now q) u =
     (if \<not> valid_policy q then Inl ()
      else case begin_save_policy env now q (wu_state u) of
        (Inl e, s) \<Rightarrow> Inl ()
      | (Inr (p, c), s) \<Rightarrow> take_off (FPolicy p c) (u\<lparr>wu_state := s\<rparr>))"
| "exec_wf cfg (CDefine now q) u = direct (via_api (create_definition_handler now q) (wu_state u)) u"
| "exec_wf cfg (CUpload env filename content fn i name t) u =
     direct (via_api (upload_definition_handler cfg env filename content fn i name t) (wu_state u)) u"
| "exec_wf cfg (CSchedule env i q) u =
     (case begin_create_schedule env i q (wu_state u) of
        (HttpOk c, s) \<Rightarrow> take_off (FSchedule c) (u\<lparr>wu_state := s\<rparr>)
      | (HttpError n m, s) \<Rightarrow> Inl ())"
| "exec_wf cfg (CScheduleState env i on) u =
     (case begin_schedule_state env i on (wu_state u) of
        (HttpOk c, s) \<Rightarrow> take_off (FSchedule c) (u\<lparr>wu_state := s\<rparr>)
      | (HttpError n m, s) \<Rightarrow> Inl ())"
| "exec_wf cfg (CScheduleDelete env i) u =
     (case begin_delete_schedule env i (wu_state u) of
        (HttpOk j, s) \<Rightarrow> take_off (FUnschedule j) (u\<lparr>wu_state := s\<rparr>)
      | (HttpError n m, s) \<Rightarrow> Inl ())"
| "exec_wf cfg (CSaved n) u = land n (schedule_save (wu_state u)) u"

lemma exec_begin:
  "exec_wf cfg (CPoll i) u =
     (case repo_get_execution i (wu_state u) of
        None \<Rightarrow> Inl ()
      | Some e \<Rightarrow> if we_status e = ''RUNNING'' then take_off (FRefresh e) u else Inl ())"
  "exec_wf cfg (CHandle env i a) u =
     (case get_review i (wu_state u) of
        None \<Rightarrow> Inl ()
      | Some r \<Rightarrow>
          if wr_status r \<noteq> zh_todo then Inl ()
          else if va_rerun a
          then (case repo_get_definition ''graph-build'' (wu_state u) of
              None \<Rightarrow> Inl ()
            | Some d \<Rightarrow> take_off (FHandle d (decided_review a (re_now env) r) (va_result a)) u)
          else direct (via_api (handle_legacy_review_handler env i a) (wu_state u)) u)"
  "exec_wf cfg (CRetry i p) u =
     (case (get_review i (wu_state u), repo_get_definition ''graph-build'' (wu_state u)) of
        (Some r, Some d) \<Rightarrow> take_off (FRetry d r p) u
      | _ \<Rightarrow> Inl ())"
  by (simp_all add: begin_get_execution_def begin_handle_def begin_retry_def Let_def split: option.split)

declare exec_begin [simp]
declare exec_wf.simps(3,5,7) [simp del]

text \<open>A request that meets no other is the two steps one after the other.\<close>

lemma poll_in_two_steps:
  "exec_wf cfg (CPoll i) \<lparr>wu_state = s, wu_flights = []\<rparr> = Inr u \<Longrightarrow>
   exec_wf cfg (CPolled 0 a now) u = Inr \<lparr>wu_state = snd (get_execution a now i s), wu_flights = []\<rparr>"
  by (auto simp: take_off_def land_def drop_nth_def get_execution_eq split: option.splits if_splits prod.splits)

lemma handle_in_two_steps:
  "exec_wf cfg (CHandle env i a) \<lparr>wu_state = s, wu_flights = []\<rparr> = Inr u \<Longrightarrow> va_rerun a \<Longrightarrow> unused env s \<Longrightarrow>
   exec_wf cfg (CHandled 0 env) u = Inr \<lparr>wu_state = snd (handle_review env i a s), wu_flights = []\<rparr>"
  by (auto simp: take_off_def land_def drop_nth_def handle_review_eq split: option.splits if_splits)

section \<open>What a step does to the tables\<close>

definition started :: "wf_state \<Rightarrow> wf_execution \<Rightarrow> bool" where
  "started s x \<longleftrightarrow>
     we_status x = ''RUNNING'' \<and> we_dispatch_mode x = ''TEMPORAL'' \<and> (\<exists>r \<in> set (wx_runs s). rr_workflow_id r = we_workflow_id x) \<or>
     we_status x = ''QUEUED'' \<and> we_dispatch_mode x = ''LOCAL_FALLBACK''"

definition refreshed :: "wf_execution \<Rightarrow> wf_execution \<Rightarrow> bool" where
  "refreshed e x \<longleftrightarrow>
     we_id x = we_id e \<and> we_workflow_id x = we_workflow_id e \<and> we_dispatch_mode x = we_dispatch_mode e \<and>
     (we_output x = we_output e \<or> we_status x = ''COMPLETED'')"

definition exec_change :: "flight list \<Rightarrow> wf_state \<Rightarrow> wf_state \<Rightarrow> bool" where
  "exec_change fs s s' \<longleftrightarrow>
     wx_executions s' = wx_executions s \<or>
     (\<exists>x. wx_executions s' = tbl_put we_id x (wx_executions s) \<and> we_id x \<notin> we_id ` set (wx_executions s) \<and>
        we_output x = None \<and> started s' x) \<or>
     (\<exists>e x. FRefresh e \<in> set fs \<and> refreshed e x \<and> wx_executions s' = tbl_put we_id x (wx_executions s))"

definition task_change :: "flight list \<Rightarrow> wf_state \<Rightarrow> wf_state \<Rightarrow> bool" where
  "task_change fs s s' \<longleftrightarrow>
     wx_tasks s' = wx_tasks s \<or>
     (\<exists>t. wx_tasks s' = tbl_put wt_id t (wx_tasks s) \<and> wt_task_status t = zh_running \<and> wt_status t = zh_in_progress) \<or>
     (\<exists>e x xs t. FRefresh e \<in> set fs \<and> refreshed e x \<and> stages_of x = Some xs \<and> t \<in> set (wx_tasks s) \<and>
        wx_tasks s' = tbl_put wt_id (reported_task x xs t) (wx_tasks s))"

definition review_change :: "flight list \<Rightarrow> wf_state \<Rightarrow> wf_state \<Rightarrow> bool" where
  "review_change fs s s' \<longleftrightarrow>
     wx_reviews s' = wx_reviews s \<or>
     (\<exists>r. wx_reviews s' = tbl_put wr_id r (wx_reviews s) \<and>
        (wr_status r \<noteq> zh_todo \<or>
         (\<exists>r0. get_review (wr_id r) s = Some r0 \<and> wr_status r = wr_status r0) \<or>
         (\<exists>d r0 p. FRetry d r0 p \<in> set fs \<and> wr_id r = wr_id r0 \<and> wr_status r = wr_status r0) \<or>
         (\<exists>d r0 p. FHandle d r0 p \<in> set fs \<and> wr_id r = wr_id r0 \<and> wr_status r = wr_status r0)))"

lemma exec_changeI:
  "wx_executions s' = tbl_put we_id x (wx_executions s) \<Longrightarrow> we_id x \<notin> we_id ` set (wx_executions s) \<Longrightarrow>
     we_output x = None \<Longrightarrow> started s' x \<Longrightarrow> exec_change fs s s'"
  "FRefresh e \<in> set fs \<Longrightarrow> refreshed e x \<Longrightarrow> wx_executions s' = tbl_put we_id x (wx_executions s) \<Longrightarrow> exec_change fs s s'"
  unfolding exec_change_def by blast+

lemma task_changeI:
  "wx_tasks s' = tbl_put wt_id t (wx_tasks s) \<Longrightarrow> wt_task_status t = zh_running \<Longrightarrow> wt_status t = zh_in_progress \<Longrightarrow>
     task_change fs s s'"
  "FRefresh e \<in> set fs \<Longrightarrow> refreshed e x \<Longrightarrow> stages_of x = Some xs \<Longrightarrow> t \<in> set (wx_tasks s) \<Longrightarrow>
     wx_tasks s' = tbl_put wt_id (reported_task x xs t) (wx_tasks s) \<Longrightarrow> task_change fs s s'"
  unfolding task_change_def by blast+

lemma same_change:
  "wx_executions s' = wx_executions s \<Longrightarrow> exec_change fs s s'"
  "wx_tasks s' = wx_tasks s \<Longrightarrow> task_change fs s s'"
  "wx_reviews s' = wx_reviews s \<Longrightarrow> review_change fs s s'"
  by (simp_all add: exec_change_def task_change_def review_change_def)

lemma refresh_refreshed: "refresh_execution a now e = Inr x \<Longrightarrow> refreshed e x"
  by (auto simp: refresh_execution_def refreshed_def Let_def split: if_splits describe_answer.splits run_result.splits)

lemma finish_refresh_steps:
  obtains x s0 where "refreshed e x" and "snd (finish_refresh a now e s) = sync_task_from_execution x (save_execution x s0)"
    and "engine_only s s0"
proof (cases "refresh_execution a now e")
  case (Inl m)
  then show thesis
    by (intro that [of "e\<lparr>we_message := zh_refresh_failed @ m\<rparr>" "forget_client s"])
      (simp_all add: finish_refresh_def Let_def refreshed_def engine_only_def wf_frame)
next
  case (Inr x)
  then show thesis
    by (intro that [of x "if we_dispatch_mode e = ''LOCAL_FALLBACK'' then s else s\<lparr>wx_client := True\<rparr>"])
      (simp_all add: finish_refresh_def Let_def refresh_refreshed engine_only_def)
qed

lemma sync_cases:
  obtains (Same) "sync_task_from_execution e s = s"
  | (Reported) xs t where "stages_of e = Some xs" and "t \<in> set (wx_tasks s)"
      and "sync_task_from_execution e s = save_task (reported_task e xs t) s"
  by (cases "opt_truthy (we_task_id e)"; cases "stages_of e"; cases "get_task (opt_str (we_task_id e)) s")
    (auto simp: sync_task_from_execution_def get_task_def dest: tbl_get_Some)

section \<open>Handlers on the database\<close>

lemma then_drop_state [simp]: "wa_state (snd (then_drop p r)) = wa_state (snd r)"
  by (auto simp: then_drop_def split: prod.splits http.splits)

lemma on_state_state [simp]: "wa_state (snd (on_state f s)) = snd (f (wa_state s))"
  by (auto simp: on_state_def split: prod.splits)

lemma via_api_handlers [wf_frame]:
  "via_api (execute_definition_handler env i q) s =
     (if \<not> valid_limit (eq_payload q) then s
      else case repo_get_definition i s of
        None \<Rightarrow> s | Some d \<Rightarrow> snd (execute_definition env d (execute_payload q) (eq_workflow_id q) True s))"
  "via_api (trigger_graph_build_handler env g) s = snd (trigger_graph_build env g s)"
  "via_api (handle_legacy_review_handler env i a) s = snd (handle_review env i a s)"
  "via_api (modify_legacy_result_handler now i v note h) s = snd (modify_review_result now i v note h s)"
  "via_api (revoke_legacy_review_handler now i reason h) s =
     (if py_len reason < 1 \<or> 64 < py_len reason then s else snd (revoke_review now i reason h s))"
  "via_api (create_definition_handler now dq) s = (if valid_definition dq then snd (create_definition now dq s) else s)"
  "via_api (upload_definition_handler cfg uenv filename content fn oi name t) s =
     snd (upload_python_definition cfg uenv (if filename = [] then ''workflow.py'' else filename) content fn oi name t s)"
  by (auto simp: via_api_def execute_definition_handler_def trigger_graph_build_handler_def
      handle_legacy_review_handler_def modify_legacy_result_handler_def revoke_legacy_review_handler_def
      create_definition_handler_def upload_definition_handler_def
      on_state_def then_drop_def split: option.splits prod.splits http.splits)

lemma landE:
  assumes "land n f u = Inr u'"
  obtains x s where "x \<in> set (wu_flights u)" and "f x = Some s"
    and "u' = u\<lparr>wu_state := s, wu_flights := drop_nth n (wu_flights u)\<rparr>"
proof (cases "f (wu_flights u ! n)")
  case None
  with assms show thesis by (simp add: land_def split: if_splits)
next
  case (Some s)
  with assms show thesis by (intro that [of "wu_flights u ! n" s]) (auto simp: land_def split: if_splits)
qed

section \<open>Changes of executions and tasks\<close>

lemma fresh_started: "fresh_execution env s x \<Longrightarrow> started s x \<and> we_output x = None \<and> we_id x = ''EXEC-'' @ re_execution env"
  by (auto simp: fresh_execution_def started_def)

lemma execute_changes:
  assumes "unused env s"
  shows "exec_change fs s (snd (execute_definition env d p w b s))"
    and "task_change fs s (snd (execute_definition env d p w b s))"
proof -
  have "exec_change fs s (snd (execute_definition env d p w b s)) \<and> task_change fs s (snd (execute_definition env d p w b s))"
  proof (cases rule: execute_cases [of env d p w b s])
    case (Refused e)
    then show ?thesis by (simp add: same_change)
  next
    case (Saved x)
    note x = fresh_started [OF Saved(3)]
    have "we_id x \<notin> we_id ` set (wx_executions s)" using x assms by (simp only: unused_def simp_thms)
    with Saved(2) x have "exec_change fs s (snd (execute_definition env d p w b s))" by (blast intro: exec_changeI)
    moreover from Saved(4) have "task_change fs s (snd (execute_definition env d p w b s))"
      by (blast intro: task_changeI(1) same_change(2))
    ultimately show ?thesis ..
  qed
  then show "exec_change fs s (snd (execute_definition env d p w b s))"
    and "task_change fs s (snd (execute_definition env d p w b s))" by simp_all
qed

lemma unpersisted_tasks: "wx_tasks (snd (execute_definition env d p w False s)) = wx_tasks s"
proof -
  obtain r s' where q: "dispatch env d p w s = (r, s')" by (cases "dispatch env d p w s")
  from engine_onlyD(2) [OF dispatch_engine [OF q]] show ?thesis
    by (cases r) (simp_all add: execute_definition_def q Let_def wf_frame)
qed

lemma later_exec_change:
  assumes "exec_change fs s s1" and "wx_executions s2 = wx_executions s1" and "set (wx_runs s1) \<subseteq> set (wx_runs s2)"
  shows "exec_change fs s s2"
  using assms unfolding exec_change_def started_def by (elim disjE exE conjE) (auto 0 4)

lemma refresh_changes:
  assumes "FRefresh e \<in> set fs"
  shows "exec_change fs s (snd (finish_refresh a now e s))" and "task_change fs s (snd (finish_refresh a now e s))"
    and "wx_reviews (snd (finish_refresh a now e s)) = wx_reviews s"
proof -
  obtain x s0 where x: "refreshed e x" "snd (finish_refresh a now e s) = sync_task_from_execution x (save_execution x s0)"
    and s0: "engine_only s s0"
    by (rule finish_refresh_steps)
  note f = engine_onlyD [OF s0]
  have "wx_executions (snd (finish_refresh a now e s)) = tbl_put we_id x (wx_executions s)"
    by (cases rule: sync_cases [of x "save_execution x s0"]) (simp_all add: x f wf_frame)
  with assms x(1) show "exec_change fs s (snd (finish_refresh a now e s))" by (rule exec_changeI(2))
  show "wx_reviews (snd (finish_refresh a now e s)) = wx_reviews s"
    by (cases rule: sync_cases [of x "save_execution x s0"]) (simp_all add: x f wf_frame)
  show "task_change fs s (snd (finish_refresh a now e s))"
  proof (cases rule: sync_cases [of x "save_execution x s0"])
    case Same
    then show ?thesis by (intro same_change) (simp add: x f wf_frame)
  next
    case (Reported xs t)
    then show ?thesis by (intro task_changeI(2) [OF assms x(1), of xs t]) (simp_all add: x f wf_frame)
  qed
qed

lemma finish_review_changes:
  assumes "unused env s"
  shows "exec_change fs s (snd (finish_handle env d r p s))" and "task_change fs s (snd (finish_handle env d r p s))"
    and "exec_change fs s (snd (finish_retry env d r p s))" and "task_change fs s (snd (finish_retry env d r p s))"
proof -
  obtain v s1 where q: "execute_definition env d (retry_payload r p) None False s = (v, s1)"
    by (cases "execute_definition env d (retry_payload r p) None False s")
  have c: "exec_change fs s s1" "task_change fs s s1"
    using execute_changes [OF assms, of fs d "retry_payload r p" None False] q by simp_all
  show "exec_change fs s (snd (finish_handle env d r p s))" "exec_change fs s (snd (finish_retry env d r p s))"
    using c by (auto simp: finish_handle_def finish_retry_def q Let_def wf_frame
        intro: later_exec_change split: sum.split)
  have "wx_tasks s1 = wx_tasks s" using unpersisted_tasks [of env d "retry_payload r p" None s] q by simp
  then show "task_change fs s (snd (finish_handle env d r p s))" "task_change fs s (snd (finish_retry env d r p s))"
    by (auto intro!: same_change simp: finish_handle_def finish_retry_def q Let_def wf_frame split: sum.split)
qed

lemma trigger_changes:
  assumes "unused env s"
  shows "exec_change fs s (snd (trigger_graph_build env q s))" and "task_change fs s (snd (trigger_graph_build env q s))"
proof -
  have "exec_change fs s (snd (trigger_graph_build env q s)) \<and> task_change fs s (snd (trigger_graph_build env q s))"
  proof (cases "repo_get_definition ''graph-build'' s")
    case None
    then show ?thesis by (simp add: trigger_graph_build_def same_change)
  next
    case (Some d)
    obtain v s1 where e: "execute_definition env d (trigger_payload q) None False s = (v, s1)"
      by (cases "execute_definition env d (trigger_payload q) None False s")
    have c: "exec_change fs s s1" using execute_changes(1) [OF assms, of fs d "trigger_payload q" None False] e by simp
    have t: "wx_tasks s1 = wx_tasks s" using unpersisted_tasks [of env d "trigger_payload q" None s] e by simp
    show ?thesis
    proof (cases v)
      case (Inl m)
      with c t show ?thesis by (simp add: trigger_graph_build_def Some e same_change)
    next
      case (Inr x)
      have "we_status x \<noteq> ''COMPLETED''"
        by (cases rule: execute_cases [of env d "trigger_payload q" None False s])
          (use e Inr in \<open>auto simp: fresh_execution_def\<close>)
      with c t Inr show ?thesis
        by (auto simp: trigger_graph_build_def Some e Let_def wf_frame job_task_def
            intro: later_exec_change task_changeI(1))
    qed
  qed
  then show "exec_change fs s (snd (trigger_graph_build env q s))" and "task_change fs s (snd (trigger_graph_build env q s))"
    by simp_all
qed

section \<open>Changes of reviews\<close>

lemma execute_reviews: "execute_definition env d p w b s = (v, s1) \<Longrightarrow> wx_reviews s1 = wx_reviews s"
  using execute_frame(1) [where env = env and d = d and p = p and w = w and b = b and s = s] by simp

lemma review_changeI:
  "wx_reviews s' = tbl_put wr_id r (wx_reviews s) \<Longrightarrow> wr_status r \<noteq> zh_todo \<Longrightarrow> review_change fs s s'"
  "wx_reviews s' = tbl_put wr_id r (wx_reviews s) \<Longrightarrow> get_review (wr_id r) s = Some r0 \<Longrightarrow> wr_status r = wr_status r0 \<Longrightarrow>
     review_change fs s s'"
  "wx_reviews s' = tbl_put wr_id r (wx_reviews s) \<Longrightarrow> FRetry d r0 p \<in> set fs \<Longrightarrow> wr_id r = wr_id r0 \<Longrightarrow>
     wr_status r = wr_status r0 \<Longrightarrow> review_change fs s s'"
  "wx_reviews s' = tbl_put wr_id r (wx_reviews s) \<Longrightarrow> FHandle d r0 p \<in> set fs \<Longrightarrow> wr_id r = wr_id r0 \<Longrightarrow>
     wr_status r = wr_status r0 \<Longrightarrow> review_change fs s s'"
  unfolding review_change_def by blast+

lemma zh_statuses [simp]: "zh_done \<noteq> zh_todo" "zh_revoked \<noteq> zh_todo"
  by (simp_all add: zh_done_def zh_todo_def zh_revoked_def)

lemma get_review_key: "get_review i s = Some r \<Longrightarrow> wr_id r = i"
  by (auto simp: get_review_def dest: tbl_get_Some)

lemma finish_handle_reviews:
  assumes "FHandle d r p \<in> set fs"
  shows "review_change fs s (snd (finish_handle env d r p s))"
proof -
  obtain v s1 where q: "execute_definition env d (retry_payload r p) None False s = (v, s1)"
    by (cases "execute_definition env d (retry_payload r p) None False s")
  show ?thesis
  proof (cases v)
    case (Inl e)
    with execute_reviews [OF q] show ?thesis by (simp add: finish_handle_def q same_change)
  next
    case (Inr x)
    with execute_reviews [OF q] show ?thesis
      by (intro review_changeI(4) [where r = "r\<lparr>wr_retry_execution_id := Some (we_id x)\<rparr>", OF _ assms])
        (simp_all add: finish_handle_def q Let_def wf_frame)
  qed
qed

lemma finish_retry_reviews:
  assumes "FRetry d r p \<in> set fs"
  shows "review_change fs s (snd (finish_retry env d r p s))"
proof -
  obtain v s1 where q: "execute_definition env d (retry_payload r p) None False s = (v, s1)"
    by (cases "execute_definition env d (retry_payload r p) None False s")
  show ?thesis
  proof (cases v)
    case (Inl e)
    with execute_reviews [OF q] show ?thesis by (simp add: finish_retry_def q same_change)
  next
    case (Inr x)
    with execute_reviews [OF q] show ?thesis
      by (intro review_changeI(3) [where r = "r\<lparr>wr_last_retry_at := Some (re_now env),
            wr_retry_execution_id := Some (we_id x), wr_updated_at := re_now env\<rparr>", OF _ assms])
        (simp_all add: finish_retry_def q Let_def wf_frame)
  qed
qed

lemma direct_review_changes:
  "\<not> va_rerun a \<Longrightarrow> review_change fs s (snd (handle_review env i a s))"
  "review_change fs s (snd (modify_review_result now i v note h s))"
  "review_change fs s (snd (revoke_review now i reason h s))"
proof -
  show "review_change fs s (snd (handle_review env i a s))" if "\<not> va_rerun a"
  proof (cases "get_review i s")
    case (Some r)
    with that show ?thesis
      by (cases "wr_status r = zh_todo")
        (auto intro: same_change review_changeI(1) simp: handle_review_eq Let_def wf_frame decided_review_def)
  qed (simp add: handle_review_eq same_change)
  show "review_change fs s (snd (modify_review_result now i v note h s))"
  proof (cases "get_review i s")
    case (Some r)
    then show ?thesis
      using get_review_key [OF Some]
      by (auto intro!: review_changeI(2) [of _ _ _ r] simp: modify_review_result_def Let_def wf_frame)
  qed (simp add: modify_review_result_def same_change)
  show "review_change fs s (snd (revoke_review now i reason h s))"
    by (cases "get_review i s") (auto intro: same_change review_changeI(1) simp: revoke_review_def Let_def wf_frame)
qed

section \<open>Steps\<close>

definition tables_same :: "wf_state \<Rightarrow> wf_state \<Rightarrow> bool" where
  "tables_same s s' \<longleftrightarrow> wx_executions s' = wx_executions s \<and> wx_tasks s' = wx_tasks s \<and> wx_reviews s' = wx_reviews s \<and>
     wx_runs s' = wx_runs s"

definition other_same :: "wf_state \<Rightarrow> wf_state \<Rightarrow> bool" where
  "other_same s s' \<longleftrightarrow> tables_same s s' \<and> wx_definitions s' = wx_definitions s \<and> wx_schedules s' = wx_schedules s \<and>
     wx_files s' = wx_files s"

lemma client_other: "temporal_client m s = (r, s') \<Longrightarrow> other_same s s' \<and> wx_remote s' = wx_remote s"
  by (auto simp: temporal_client_def other_same_def tables_same_def split: if_splits option.splits)

lemma remote_calls_other:
  "create_schedule env d c s = (r, s') \<Longrightarrow> other_same s s'"
  "pause_schedule env i b s = (m, s') \<Longrightarrow> other_same s s'"
  "delete_remote_schedule env i s = (m, s') \<Longrightarrow> other_same s s'"
  by (auto simp: create_schedule_def pause_schedule_def delete_remote_schedule_def Let_def other_same_def tables_same_def
      dest!: client_other split: prod.splits option.splits)

lemmas begin_schedule_defs = begin_create_schedule_def begin_schedule_state_def begin_delete_schedule_def begin_save_policy_def

lemma begin_schedule_same:
  \<comment> \<open>up to the answer of Temporal only the schedules there and the client change\<close>
  "other_same s (snd (begin_create_schedule env i q s))"
  "other_same s (snd (begin_schedule_state env i on s))"
  "other_same s (snd (begin_delete_schedule env i s))"
  "other_same s (snd (begin_save_policy env now pq s))"
  by (auto simp: begin_schedule_defs Let_def other_same_def tables_same_def wf_frame
      dest!: remote_calls_other split: option.split sum.split prod.split)

lemma schedule_save_same:
  "schedule_save s f = Some s' \<Longrightarrow> tables_same s s' \<and> wx_definitions s' = wx_definitions s \<and> wx_files s' = wx_files s"
  by (auto simp: schedule_save_def finish_save_policy_def repo_delete_schedule_def tables_same_def wf_frame
      split: flight.splits)

lemma schedule_tables:
  "tables_same s (snd (create_definition now dq s))"
  "tables_same s (snd (upload_python_definition cfg uenv filename content fn oi name t s))"
proof -
  show "tables_same s (snd (create_definition now dq s))"
    by (simp add: create_definition_def tables_same_def Let_def wf_frame)
  show "tables_same s (snd (upload_python_definition cfg uenv filename content fn oi name t s))"
    by (auto simp: upload_python_definition_def tables_same_def Let_def wf_frame split: prod.split sum.split list.split)
qed

lemma tables_change:
  "tables_same s s' \<Longrightarrow> exec_change fs s s' \<and> task_change fs s s' \<and> review_change fs s s' \<and> set (wx_runs s) \<subseteq> set (wx_runs s')"
  by (simp add: tables_same_def same_change)

definition new_flight :: "wf_state \<Rightarrow> flight \<Rightarrow> bool" where
  \<comment> \<open>what a request has read when it starts to wait\<close>
  "new_flight s f =
     (case f of
        FRefresh e \<Rightarrow> e \<in> set (wx_executions s) \<and> we_status e = ''RUNNING''
      | FHandle d r p \<Rightarrow> wr_status r = zh_done \<and> (\<exists>r0. get_review (wr_id r) s = Some r0 \<and> wr_status r0 = zh_todo)
      | FRetry d r p \<Rightarrow> get_review (wr_id r) s = Some r
      | _ \<Rightarrow> True)"

definition flight_change :: "wf_world \<Rightarrow> wf_world \<Rightarrow> bool" where
  "flight_change u u' \<longleftrightarrow>
     set (wu_flights u') \<subseteq> set (wu_flights u) \<or>
     (\<exists>f. wu_flights u' = wu_flights u @ [f] \<and> new_flight (wu_state u) f)"

lemma set_drop_nth: "set (drop_nth n xs) \<subseteq> set xs"
  by (auto simp: drop_nth_def dest: in_set_takeD in_set_dropD)

definition changes :: "flight list \<Rightarrow> wf_state \<Rightarrow> wf_state \<Rightarrow> bool" where
  "changes fs s s' \<longleftrightarrow> exec_change fs s s' \<and> task_change fs s s' \<and> review_change fs s s' \<and>
     set (wx_runs s) \<subseteq> set (wx_runs s')"

lemma changes_refl: "changes fs s s"
  by (simp add: changes_def same_change)

lemma changes_tables: "tables_same s s' \<Longrightarrow> changes fs s s'"
  by (simp add: changes_def tables_change)

lemma engine_runs:
  "set (wx_runs s) \<subseteq> set (wx_runs (snd (finish_refresh a now e s)))"
  "set (wx_runs s) \<subseteq> set (wx_runs (snd (finish_handle env d r p s)))"
  "set (wx_runs s) \<subseteq> set (wx_runs (snd (finish_retry env d r p s)))"
  "set (wx_runs s) \<subseteq> set (wx_runs (snd (trigger_graph_build env q s)))"
proof -
  obtain x s0 where "snd (finish_refresh a now e s) = sync_task_from_execution x (save_execution x s0)" "engine_only s s0"
    by (rule finish_refresh_steps)
  then show "set (wx_runs s) \<subseteq> set (wx_runs (snd (finish_refresh a now e s)))"
    by (cases rule: sync_cases [of x "save_execution x s0"]) (auto simp: wf_frame dest: engine_onlyD(8))
  have e: "set (wx_runs s) \<subseteq> set (wx_runs s1)" if "execute_definition env d p w b s = (v, s1)" for d p w b v s1
    using execute_frame(6) [where env = env and d = d and p = p and w = w and b = b and s = s] that by simp
  show "set (wx_runs s) \<subseteq> set (wx_runs (snd (finish_handle env d r p s)))"
    "set (wx_runs s) \<subseteq> set (wx_runs (snd (finish_retry env d r p s)))"
    "set (wx_runs s) \<subseteq> set (wx_runs (snd (trigger_graph_build env q s)))"
    by (auto simp: finish_handle_def finish_retry_def trigger_graph_build_def Let_def wf_frame
        split: prod.split sum.split option.split dest!: e)
qed

lemma trigger_reviews: "wx_reviews (snd (trigger_graph_build env q s)) = wx_reviews s"
  by (auto simp: trigger_graph_build_def Let_def wf_frame split: option.split prod.split sum.split dest: execute_reviews)

lemma review_only:
  "\<not> va_rerun a \<Longrightarrow> wx_executions (snd (handle_review env i a s)) = wx_executions s \<and>
     wx_tasks (snd (handle_review env i a s)) = wx_tasks s \<and> wx_runs (snd (handle_review env i a s)) = wx_runs s"
  "wx_executions (snd (modify_review_result now i v note h s)) = wx_executions s \<and>
     wx_tasks (snd (modify_review_result now i v note h s)) = wx_tasks s \<and>
     wx_runs (snd (modify_review_result now i v note h s)) = wx_runs s"
  "wx_executions (snd (revoke_review now i reason h s)) = wx_executions s \<and>
     wx_tasks (snd (revoke_review now i reason h s)) = wx_tasks s \<and> wx_runs (snd (revoke_review now i reason h s)) = wx_runs s"
  by (auto simp: handle_review_eq modify_review_result_def revoke_review_def Let_def wf_frame split: option.split)

lemma changesI:
  "exec_change fs s s' \<Longrightarrow> task_change fs s s' \<Longrightarrow> wx_reviews s' = wx_reviews s \<Longrightarrow> set (wx_runs s) \<subseteq> set (wx_runs s') \<Longrightarrow>
     changes fs s s'"
  "wx_executions s' = wx_executions s \<and> wx_tasks s' = wx_tasks s \<and> wx_runs s' = wx_runs s \<Longrightarrow> review_change fs s s' \<Longrightarrow>
     changes fs s s'"
  by (simp_all add: changes_def same_change)

lemma refresh_step: "FRefresh e \<in> set fs \<Longrightarrow> changes fs s (snd (finish_refresh a now e s))"
  by (intro changesI refresh_changes engine_runs)

lemma step_changes:
  assumes "exec_wf cfg c u = Inr u'"
  shows "changes (wu_flights u) (wu_state u) (wu_state u') \<and> flight_change u u'"
proof -
  have dir: ?thesis if "direct s' u = Inr u'" and "changes (wu_flights u) (wu_state u) s'" for s'
    using that by (auto simp: direct_def flight_change_def)
  have off: ?thesis if "take_off f u = Inr u'" and "new_flight (wu_state u) f" for f
    using that by (auto simp: take_off_def flight_change_def changes_refl)
  have called: ?thesis if "take_off f (u\<lparr>wu_state := s\<rparr>) = Inr u'" and "other_same (wu_state u) s" and "new_flight (wu_state u) f" for f s
    using that by (auto simp: take_off_def flight_change_def other_same_def changes_tables)
  have down: ?thesis if "land n g u = Inr u'"
    and "\<And>x s. x \<in> set (wu_flights u) \<Longrightarrow> g x = Some s \<Longrightarrow> changes (wu_flights u) (wu_state u) s" for n g
    by (rule landE [OF that(1)]) (use that(2) set_drop_nth in \<open>fastforce simp: flight_change_def\<close>)
  show ?thesis
  proof (cases c)
    case (CExecute env i q)
    with assms have un: "unused env (wu_state u)"
      and d: "direct (via_api (execute_definition_handler env i q) (wu_state u)) u = Inr u'"
      by (simp_all split: if_splits)
    have "changes (wu_flights u) (wu_state u) (snd (execute_definition env d p w b (wu_state u)))" for d p w b
      using execute_changes [OF un] execute_frame by (intro changesI) auto
    then have "changes (wu_flights u) (wu_state u) (via_api (execute_definition_handler env i q) (wu_state u))"
      by (simp add: wf_frame changes_refl split: option.split)
    with d show ?thesis by (rule dir)
  next
    case (CTrigger env q)
    with assms have un: "unused env (wu_state u)" and d: "direct (snd (trigger_graph_build env q (wu_state u))) u = Inr u'"
      by (simp_all add: wf_frame split: if_splits)
    show ?thesis
      by (rule dir [OF d]) (intro changesI trigger_changes [OF un] trigger_reviews engine_runs)
  next
    case (CPoll i)
    with assms obtain e where "repo_get_execution i (wu_state u) = Some e" "we_status e = ''RUNNING''"
      "take_off (FRefresh e) u = Inr u'" by (auto split: option.splits if_splits)
    then show ?thesis
      by (intro off) (auto simp: new_flight_def repo_get_execution_def dest: tbl_get_Some)
  next
    case (CPolled n a now)
    with assms show ?thesis
      by (intro down [of n "\<lambda>f. case f of FRefresh e \<Rightarrow> Some (snd (finish_refresh a now e (wu_state u))) | _ \<Rightarrow> None"])
        (auto intro: refresh_step split: flight.splits)
  next
    case (CHandle env i a)
    then obtain r where r: "get_review i (wu_state u) = Some r" "wr_status r = zh_todo"
      using assms by (auto split: option.splits if_splits)
    show ?thesis
    proof (cases "va_rerun a")
      case True
      with CHandle r assms obtain d where "take_off (FHandle d (decided_review a (re_now env) r) (va_result a)) u = Inr u'"
        by (auto split: option.splits)
      then show ?thesis
        by (rule off) (use r get_review_key [OF r(1)] in \<open>auto simp: new_flight_def decided_review_def\<close>)
    next
      case False
      with CHandle r assms have "direct (snd (handle_review env i a (wu_state u))) u = Inr u'" by (simp add: wf_frame)
      then show ?thesis by (rule dir) (intro changesI review_only direct_review_changes False)
    qed
  next
    case (CHandled n env)
    with assms have un: "unused env (wu_state u)" by (simp split: if_splits)
    with CHandled assms show ?thesis
      by (intro down [of n "\<lambda>f. case f of FHandle d r p \<Rightarrow> Some (snd (finish_handle env d r p (wu_state u))) | _ \<Rightarrow> None"])
        (auto simp: changes_def intro: finish_review_changes finish_handle_reviews engine_runs [THEN subsetD] split: flight.splits)
  next
    case (CRetry i p)
    with assms obtain r d where "get_review i (wu_state u) = Some r" "take_off (FRetry d r p) u = Inr u'"
      by (auto split: option.splits)
    then show ?thesis using get_review_key by (intro off) (auto simp: new_flight_def)
  next
    case (CRetried n env)
    with assms have un: "unused env (wu_state u)" by (simp split: if_splits)
    with CRetried assms show ?thesis
      by (intro down [of n "\<lambda>f. case f of FRetry d r p \<Rightarrow> Some (snd (finish_retry env d r p (wu_state u))) | _ \<Rightarrow> None"])
        (auto simp: changes_def intro: finish_review_changes finish_retry_reviews engine_runs [THEN subsetD] split: flight.splits)
  next
    case (CModify now i v msg h)
    with assms have "direct (snd (modify_review_result now i v msg h (wu_state u))) u = Inr u'" by (simp add: wf_frame)
    then show ?thesis by (rule dir) (intro changesI review_only direct_review_changes)
  next
    case (CRevoke now i reason h)
    with assms have d: "direct (via_api (revoke_legacy_review_handler now i reason h) (wu_state u)) u = Inr u'" by simp
    have "changes (wu_flights u) (wu_state u) (snd (revoke_review now i reason h (wu_state u)))"
      by (intro changesI review_only direct_review_changes)
    then show ?thesis by (intro dir [OF d]) (simp add: wf_frame changes_refl)
  next
    case (CAbandon n)
    with assms show ?thesis by (intro down [of n "\<lambda>f. Some (wu_state u)"]) (auto simp: changes_refl)
  next
    case (CPolicy env now q)
    with assms obtain p k s where b: "begin_save_policy env now q (wu_state u) = (Inr (p, k), s)"
      and "take_off (FPolicy p k) (u\<lparr>wu_state := s\<rparr>) = Inr u'"
      by (auto split: if_splits prod.splits sum.splits)
    then show ?thesis
      using begin_schedule_same(4) [where env = env and now = now and pq = q and s = "wu_state u"]
      by (intro called) (auto simp: new_flight_def)
  next
    case (CDefine now q)
    with assms have d: "direct (via_api (create_definition_handler now q) (wu_state u)) u = Inr u'" by simp
    show ?thesis by (rule dir [OF d]) (simp add: wf_frame changes_refl changes_tables schedule_tables)
  next
    case (CUpload env filename content fn i name t)
    with assms have d: "direct (via_api (upload_definition_handler cfg env filename content fn i name t) (wu_state u)) u = Inr u'"
      by simp
    show ?thesis by (rule dir [OF d]) (simp add: wf_frame changes_refl changes_tables schedule_tables)
  next
    case (CSchedule env i q)
    with assms obtain k s where "begin_create_schedule env i q (wu_state u) = (HttpOk k, s)"
      and "take_off (FSchedule k) (u\<lparr>wu_state := s\<rparr>) = Inr u'" by (auto split: prod.splits http.splits)
    then show ?thesis
      using begin_schedule_same(1) [where env = env and i = i and q = q and s = "wu_state u"]
      by (intro called) (auto simp: new_flight_def)
  next
    case (CScheduleState env i on)
    with assms obtain k s where "begin_schedule_state env i on (wu_state u) = (HttpOk k, s)"
      and "take_off (FSchedule k) (u\<lparr>wu_state := s\<rparr>) = Inr u'" by (auto split: prod.splits http.splits)
    then show ?thesis
      using begin_schedule_same(2) [where env = env and i = i and on = on and s = "wu_state u"]
      by (intro called) (auto simp: new_flight_def)
  next
    case (CScheduleDelete env i)
    with assms obtain j s where "begin_delete_schedule env i (wu_state u) = (HttpOk j, s)"
      and "take_off (FUnschedule j) (u\<lparr>wu_state := s\<rparr>) = Inr u'" by (auto split: prod.splits http.splits)
    then show ?thesis
      using begin_schedule_same(3) [where env = env and i = i and s = "wu_state u"]
      by (intro called) (auto simp: new_flight_def)
  next
    case (CSaved n)
    with assms show ?thesis
      by (intro down [of n "schedule_save (wu_state u)"]) (auto intro: changes_tables dest: schedule_save_same)
  qed
qed

section \<open>The invariant\<close>

definition sent_ok :: "wf_state \<Rightarrow> wf_execution \<Rightarrow> bool" where
  \<comment> \<open>an execution that was handed over belongs to a run that Temporal started\<close>
  "sent_ok s x \<longleftrightarrow> we_dispatch_mode x = ''TEMPORAL'' \<longrightarrow> (\<exists>r \<in> set (wx_runs s). rr_workflow_id r = we_workflow_id x)"

definition execs_ok :: "wf_state \<Rightarrow> bool" where
  "execs_ok s \<longleftrightarrow> keys_ok we_id (wx_executions s) \<and>
     (\<forall>x \<in> set (wx_executions s). (we_output x \<noteq> None \<longrightarrow> we_status x = ''COMPLETED'') \<and> sent_ok s x)"

definition flight_ok :: "wf_state \<Rightarrow> flight \<Rightarrow> bool" where
  "flight_ok s f =
     (case f of
        FRefresh e \<Rightarrow> we_output e = None \<and> sent_ok s e
      | FHandle d r p \<Rightarrow> wr_status r = zh_done
      | _ \<Rightarrow> True)"

definition schedule_ok :: "wf_state \<Rightarrow> wf_schedule \<Rightarrow> bool" where
  \<comment> \<open>what the mark of the last call to Temporal says about the schedule there\<close>
  "schedule_ok s c \<longleftrightarrow>
     (ws_dispatch c = Some ''TEMPORAL_CREATED'' \<longrightarrow>
        (\<exists>x. wx_remote s (ws_id c) = Some x \<and> rs_cron x = ws_cron c \<and> rs_timezone x = ws_timezone c \<and>
           rs_paused x = (\<not> ws_active c))) \<and>
     (ws_dispatch c = Some ''TEMPORAL_UPDATED'' \<longrightarrow>
        (\<exists>x. wx_remote s (ws_id c) = Some x \<and> rs_paused x = (\<not> ws_active c)))"

definition schedules_ok :: "wf_state \<Rightarrow> bool" where
  "schedules_ok s \<longleftrightarrow> (\<forall>c \<in> set (wx_schedules s). schedule_ok s c)"

definition script_ok :: "schema_config \<Rightarrow> wf_state \<Rightarrow> wf_definition \<Rightarrow> bool" where
  "script_ok cfg s d =
     (case wd_source d of
        PythonSource f p t \<Rightarrow>
          valid_definition_id (wd_key d) \<and> p = sg_directory cfg @ ''/'' @ wd_key d @ ''.py'' \<and> wx_files s (wd_key d) \<noteq> None
      | _ \<Rightarrow> True)"

definition py_scripts_ok :: "schema_config \<Rightarrow> wf_state \<Rightarrow> bool" where
  "py_scripts_ok cfg s \<longleftrightarrow> (\<forall>d \<in> set (wx_definitions s). script_ok cfg s d)"

definition wf_inv :: "schema_config \<Rightarrow> wf_world \<Rightarrow> bool" where
  "wf_inv cfg u \<longleftrightarrow> execs_ok (wu_state u) \<and> (\<forall>f \<in> set (wu_flights u). flight_ok (wu_state u) f) \<and>
     py_scripts_ok cfg (wu_state u)"

lemma sent_mono: "sent_ok s x \<Longrightarrow> set (wx_runs s) \<subseteq> set (wx_runs s') \<Longrightarrow> sent_ok s' x"
  by (auto simp: sent_ok_def)

lemma flight_mono: "flight_ok s f \<Longrightarrow> set (wx_runs s) \<subseteq> set (wx_runs s') \<Longrightarrow> flight_ok s' f"
  by (auto simp: flight_ok_def intro: sent_mono split: flight.splits)

lemma execs_ok_put:
  assumes "execs_ok s" and "set (wx_runs s) \<subseteq> set (wx_runs s')" and "wx_executions s' = tbl_put we_id x (wx_executions s)"
    and "we_output x \<noteq> None \<longrightarrow> we_status x = ''COMPLETED''" and "sent_ok s' x"
  shows "execs_ok s'"
  using assms unfolding execs_ok_def
  by (auto simp: keys_ok_put dest: in_tbl_put intro: sent_mono)

lemma execs_ok_same:
  assumes "execs_ok s" and "set (wx_runs s) \<subseteq> set (wx_runs s')" and "wx_executions s' = wx_executions s"
  shows "execs_ok s'"
  using assms unfolding execs_ok_def by (auto intro: sent_mono)

lemma started_sent: "started s x \<Longrightarrow> sent_ok s x"
  by (auto simp: started_def sent_ok_def)

lemma refreshed_ok:
  assumes "refreshed e x" and "flight_ok s (FRefresh e)"
  shows "(we_output x \<noteq> None \<longrightarrow> we_status x = ''COMPLETED'') \<and> sent_ok s x"
  using assms by (auto simp: refreshed_def flight_ok_def sent_ok_def)

lemma changes_keep_execs:
  assumes c: "changes fs s s'" and ok: "execs_ok s" and f: "\<And>f. f \<in> set fs \<Longrightarrow> flight_ok s f"
  shows "execs_ok s'"
proof -
  from c have runs: "set (wx_runs s) \<subseteq> set (wx_runs s')" and e: "exec_change fs s s'" by (simp_all add: changes_def)
  from e consider "wx_executions s' = wx_executions s"
    | x where "wx_executions s' = tbl_put we_id x (wx_executions s)" "we_output x = None" "started s' x"
    | e x where "FRefresh e \<in> set fs" "refreshed e x" "wx_executions s' = tbl_put we_id x (wx_executions s)"
    unfolding exec_change_def by blast
  then show ?thesis
  proof cases
    case 1
    then show ?thesis by (rule execs_ok_same [OF ok runs])
  next
    case 2
    from 2(2) have "we_output x \<noteq> None \<longrightarrow> we_status x = ''COMPLETED''" by simp
    then show ?thesis by (rule execs_ok_put [OF ok runs 2(1) _ started_sent [OF 2(3)]])
  next
    case 3
    have "(we_output x \<noteq> None \<longrightarrow> we_status x = ''COMPLETED'') \<and> sent_ok s x"
      by (rule refreshed_ok [OF 3(2) f [OF 3(1)]])
    then show ?thesis using execs_ok_put [OF ok runs 3(3)] sent_mono [OF _ runs] by blast
  qed
qed

lemma step_keeps_execs:
  assumes "exec_wf cfg c u = Inr u'" and "execs_ok (wu_state u)" and "\<forall>f \<in> set (wu_flights u). flight_ok (wu_state u) f"
  shows "execs_ok (wu_state u') \<and> (\<forall>f \<in> set (wu_flights u'). flight_ok (wu_state u') f)"
proof -
  from step_changes [OF assms(1)] have c: "changes (wu_flights u) (wu_state u) (wu_state u')" and fl: "flight_change u u'"
    by simp_all
  then have runs: "set (wx_runs (wu_state u)) \<subseteq> set (wx_runs (wu_state u'))" by (simp add: changes_def)
  have "flight_ok (wu_state u') f" if "f \<in> set (wu_flights u')" for f
  proof (cases "f \<in> set (wu_flights u)")
    case True
    with assms(3) runs show ?thesis by (blast intro: flight_mono)
  next
    case False
    with fl that have "new_flight (wu_state u) f" by (auto simp: flight_change_def)
    with assms(2) have "flight_ok (wu_state u) f"
      by (auto simp: new_flight_def flight_ok_def execs_ok_def split: flight.splits)
    with runs show ?thesis by (rule flight_mono [rotated])
  qed
  with changes_keep_execs [OF c assms(2)] assms(3) show ?thesis by blast
qed

section \<open>Definitions, scripts and schedules\<close>

definition setup_same :: "wf_state \<Rightarrow> wf_state \<Rightarrow> bool" where
  "setup_same s s' \<longleftrightarrow> wx_definitions s' = wx_definitions s \<and> wx_files s' = wx_files s \<and>
     wx_schedules s' = wx_schedules s \<and> wx_remote s' = wx_remote s"

lemma setup_refl: "setup_same s s"
  by (simp add: setup_same_def)

lemma execute_setup: "execute_definition env d p w b s = (v, s1) \<Longrightarrow> setup_same s s1"
  using execute_frame [where env = env and d = d and p = p and w = w and b = b and s = s] by (simp add: setup_same_def)

lemma setup_keeps:
  "setup_same s (snd (finish_refresh a now e s))"
  "setup_same s (snd (finish_handle env d r p s))"
  "setup_same s (snd (finish_retry env d r p s))"
  "setup_same s (snd (trigger_graph_build env q s))"
  "setup_same s (via_api (execute_definition_handler env i eq) s)"
  "\<not> va_rerun act \<Longrightarrow> setup_same s (snd (handle_review env i act s))"
  "setup_same s (snd (modify_review_result now i v msg h s))"
  "setup_same s (snd (revoke_review now i reason h s))"
proof -
  obtain x s0 where "snd (finish_refresh a now e s) = sync_task_from_execution x (save_execution x s0)" "engine_only s s0"
    by (rule finish_refresh_steps)
  then show "setup_same s (snd (finish_refresh a now e s))"
    by (cases rule: sync_cases [of x "save_execution x s0"]) (simp_all add: wf_frame setup_same_def engine_onlyD)
  show "setup_same s (via_api (execute_definition_handler env i eq) s)"
    by (simp add: wf_frame setup_same_def split: option.split)
  show "setup_same s (snd (finish_handle env d r p s))" "setup_same s (snd (finish_retry env d r p s))"
    "setup_same s (snd (trigger_graph_build env q s))"
    by (auto simp: finish_handle_def finish_retry_def trigger_graph_build_def Let_def wf_frame setup_same_def
        split: prod.split sum.split option.split dest!: execute_setup)
qed (auto simp: handle_review_eq modify_review_result_def revoke_review_def Let_def wf_frame setup_same_def split: option.split)

lemma setup_schedules: "setup_same s s' \<Longrightarrow> schedules_ok s \<Longrightarrow> schedules_ok s'"
  by (auto simp: setup_same_def schedules_ok_def schedule_ok_def)

lemma setup_scripts: "setup_same s s' \<Longrightarrow> py_scripts_ok cfg s \<Longrightarrow> py_scripts_ok cfg s'"
  by (auto simp: setup_same_def py_scripts_ok_def script_ok_def split: wf_source.splits)

definition remote_at :: "string \<Rightarrow> wf_state \<Rightarrow> wf_state \<Rightarrow> bool" where
  \<comment> \<open>no schedule of Temporal but this one is touched\<close>
  "remote_at i s s' \<longleftrightarrow> (\<forall>j. j \<noteq> i \<longrightarrow> wx_remote s' j = wx_remote s j)"

lemma remote_ops_at:
  "j \<noteq> i \<Longrightarrow> snd (remote_create f i x r) j = r j"
  "j \<noteq> i \<Longrightarrow> snd (remote_delete f i r) j = r j"
  "j \<noteq> i \<Longrightarrow> snd (remote_pause f i b r) j = r j"
  by (auto simp: remote_create_def remote_delete_def remote_pause_def Let_def split: remote_fault.split)

lemma create_schedule_at:
  assumes "create_schedule env d c s = (r, s')"
  shows "remote_at (ws_id c) s s'"
proof -
  obtain m s1 where t: "temporal_client (sv_refused env) s = (m, s1)" by (cases "temporal_client (sv_refused env) s")
  then have s1: "wx_remote s1 = wx_remote s" using client_other by blast
  let ?r = "snd (remote_delete (sv_delete env) (ws_id c) (wx_remote s1))"
  have "wx_remote s' = (case m of Some k \<Rightarrow> wx_remote s1
      | None \<Rightarrow> snd (remote_create (sv_create env) (ws_id c) (schedule_of d c) ?r))"
    using assms t by (auto simp: create_schedule_def Let_def split: option.splits prod.splits)
  then show ?thesis by (cases m) (simp_all add: remote_at_def remote_ops_at s1)
qed

lemma pause_schedule_at:
  assumes "pause_schedule env i b s = (r, s')"
  shows "remote_at i s s'"
proof -
  obtain m s1 where t: "temporal_client (sv_refused env) s = (m, s1)" by (cases "temporal_client (sv_refused env) s")
  then have s1: "wx_remote s1 = wx_remote s" using client_other by blast
  have "wx_remote s' = (case m of Some k \<Rightarrow> wx_remote s1 | None \<Rightarrow> snd (remote_pause (sv_pause env) i b (wx_remote s1)))"
    using assms t by (auto simp: pause_schedule_def split: option.splits prod.splits)
  then show ?thesis by (cases m) (simp_all add: remote_at_def remote_ops_at s1)
qed

lemma delete_remote_at:
  assumes "delete_remote_schedule env i s = (r, s')"
  shows "remote_at i s s'"
proof -
  obtain m s1 where t: "temporal_client (sv_refused env) s = (m, s1)" by (cases "temporal_client (sv_refused env) s")
  then have s1: "wx_remote s1 = wx_remote s" using client_other by blast
  have "wx_remote s' = (case m of Some k \<Rightarrow> wx_remote s1 | None \<Rightarrow> snd (remote_delete (sv_delete env) i (wx_remote s1)))"
    using assms t by (auto simp: delete_remote_schedule_def split: option.splits prod.splits)
  then show ?thesis by (cases m) (simp_all add: remote_at_def remote_ops_at s1)
qed

lemma create_schedule_done:
  assumes "create_schedule env d c s = (Inr c', s')"
  shows "schedule_ok s' c'" and "ws_id c' = ws_id c"
proof -
  obtain m s1 where t: "temporal_client (sv_refused env) s = (m, s1)" by (cases "temporal_client (sv_refused env) s")
  from assms t have n: "m = None" by (cases m) (simp_all add: create_schedule_def)
  let ?r = "snd (remote_delete (sv_delete env) (ws_id c) (wx_remote s1))"
  from assms t n have c: "c' = c\<lparr>ws_dispatch := Some ''TEMPORAL_CREATED''\<rparr>"
    and k: "remote_create (sv_create env) (ws_id c) (schedule_of d c) ?r = (None, wx_remote s')"
    by (auto simp: create_schedule_def Let_def split: prod.splits option.splits)
  from k have "wx_remote s' = ?r(ws_id c := Some (schedule_of d c))"
    by (auto simp: remote_create_def split: remote_fault.splits if_splits)
  then have "wx_remote s' (ws_id c) = Some (schedule_of d c)" by simp
  then show "schedule_ok s' c'" by (simp add: c schedule_ok_def schedule_of_def)
  show "ws_id c' = ws_id c" by (simp add: c)
qed

lemma pause_schedule_done:
  assumes "pause_schedule env i b s = (None, s')"
  shows "\<exists>x. wx_remote s' i = Some x \<and> rs_paused x = b"
  using assms
  by (auto simp: pause_schedule_def remote_pause_def Let_def split: prod.splits option.splits remote_fault.splits if_splits)

lemma schedules_ok_save:
  assumes "schedules_ok s" and "wx_schedules s1 = wx_schedules s" and "remote_at (ws_id c) s s1" and "schedule_ok s1 c"
  shows "schedules_ok (save_schedule c s1)"
proof -
  have "schedule_ok (save_schedule c s1) x" if x: "x \<in> set (wx_schedules (save_schedule c s1))" for x
  proof -
    from x assms(2) consider "x = c" | "x \<in> set (wx_schedules s)" "ws_id x \<noteq> ws_id c"
      by (auto simp: wf_frame dest: in_tbl_put)
    then show ?thesis
    proof cases
      case 1
      with assms(4) show ?thesis by (simp add: schedule_ok_def wf_frame)
    next
      case 2
      with assms(1,3) show ?thesis by (auto simp: schedules_ok_def schedule_ok_def remote_at_def wf_frame)
    qed
  qed
  then show ?thesis by (simp add: schedules_ok_def)
qed

lemma local_saved_ok: "schedule_ok s (c\<lparr>ws_dispatch := Some ''LOCAL_SAVED'', ws_message := m\<rparr>)"
  by (simp add: schedule_ok_def)

lemma at_forget: "remote_at i s s' \<Longrightarrow> remote_at i s (forget_client s')"
  by (simp add: remote_at_def wf_frame)

lemma create_or_local:
  \<comment> \<open>the record that is saved after \<open>create\_schedule\<close>, and the state it is saved in\<close>
  assumes "schedules_ok s" and "ws_dispatch c = None"
  shows "schedules_ok (case create_schedule env d c s of
      (Inl m, s') \<Rightarrow> save_schedule (c\<lparr>ws_dispatch := Some ''LOCAL_SAVED'', ws_message := Some (g m)\<rparr>) (forget_client s')
    | (Inr c', s') \<Rightarrow> save_schedule c' s')"
proof -
  obtain r s' where q: "create_schedule env d c s = (r, s')" by (cases "create_schedule env d c s")
  have sch: "wx_schedules s' = wx_schedules s" using remote_calls_other(1) [OF q] by (simp add: other_same_def)
  note at = create_schedule_at [OF q]
  show ?thesis
  proof (cases r)
    case (Inl m)
    with q sch at show ?thesis
      by (auto intro!: schedules_ok_save [OF assms(1)] at_forget local_saved_ok simp: wf_frame)
  next
    case (Inr c')
    with q have "schedule_ok s' c'" "ws_id c' = ws_id c" using create_schedule_done by blast+
    with q sch at Inr show ?thesis by (auto intro!: schedules_ok_save [OF assms(1)])
  qed
qed

lemmas handler_defs = create_schedule_handler_def update_schedule_state_handler_def delete_schedule_handler_def
  save_update_policy_def finish_save_policy_def then_save_def begin_schedule_defs

text \<open>A request about a schedule that no other request interrupts.\<close>

lemma schedule_handlers_ok:
  assumes "schedules_ok s"
  shows "schedules_ok (snd (create_schedule_handler env i q s))"
    and "schedules_ok (snd (update_schedule_state_handler env i on s))"
    and "schedules_ok (snd (delete_schedule_handler env i s))"
    and "schedules_ok (snd (save_update_policy env now pq s))"
proof -
  let ?c = "\<lparr>ws_id = sq_id q, ws_definition_id = i, ws_cron = sq_cron q, ws_timezone = sq_timezone q,
      ws_active = sq_active q, ws_payload = sq_payload q, ws_dispatch = None, ws_message = None\<rparr>"
  show "schedules_ok (snd (create_schedule_handler env i q s))"
  proof (cases "repo_get_definition i s")
    case (Some d)
    with create_or_local [OF assms, where c = ?c and env = env and d = d and g = "\<lambda>m. ''temporal-down''"] assms show ?thesis
      by (auto simp: handler_defs Let_def split: prod.splits sum.splits)
  qed (simp add: handler_defs assms)
  show "schedules_ok (snd (update_schedule_state_handler env i on s))"
  proof (cases "get_schedule i s")
    case (Some c)
    then have id: "ws_id c = i" by (auto simp: get_schedule_def dest: tbl_get_Some)
    obtain m s' where q: "pause_schedule env i (\<not> on) s = (m, s')" by (cases "pause_schedule env i (\<not> on) s")
    have sch: "wx_schedules s' = wx_schedules s" using remote_calls_other(2) [OF q] by (simp add: other_same_def)
    note at = pause_schedule_at [OF q]
    show ?thesis
    proof (cases m)
      case None
      with pause_schedule_done q obtain x where "wx_remote s' i = Some x" "rs_paused x = (\<not> on)" by blast
      with Some q None sch at id show ?thesis
        by (auto simp: handler_defs Let_def schedule_ok_def intro!: schedules_ok_save [OF assms])
    next
      case (Some e)
      with \<open>get_schedule i s = Some c\<close> q sch at id show ?thesis
        by (auto simp: handler_defs Let_def schedule_ok_def wf_frame
            intro!: schedules_ok_save [OF assms] at_forget)
    qed
  qed (simp add: handler_defs assms)
  show "schedules_ok (snd (delete_schedule_handler env i s))"
  proof -
    obtain m s' where q: "delete_remote_schedule env i s = (m, s')" by (cases "delete_remote_schedule env i s")
    have sch: "wx_schedules s' = wx_schedules s" using remote_calls_other(3) [OF q] by (simp add: other_same_def)
    from assms sch delete_remote_at [OF q] q show ?thesis
      by (auto simp: handler_defs repo_delete_schedule_def schedules_ok_def schedule_ok_def tbl_del_def
          remote_at_def wf_frame split: option.split)
  qed
  show "schedules_ok (snd (save_update_policy env now pq s))"
  proof (cases "policy_cron (pq_frequency pq) (pq_execution_time pq)")
    case (Inr cron)
    let ?c = "\<lparr>ws_id = ''auto-graph-build'', ws_definition_id = ''graph-build'', ws_cron = cron,
        ws_timezone = pq_timezone pq, ws_active = pq_enabled pq, ws_payload = [(''reason'', JStr zh_auto_policy)],
        ws_dispatch = None, ws_message = None\<rparr>"
    have set_ok: "schedules_ok t \<Longrightarrow> schedules_ok (save_setting p t)" for p t
      by (simp add: schedules_ok_def schedule_ok_def wf_frame)
    show ?thesis
    proof (cases "repo_get_definition ''graph-build'' s")
      case None
      with Inr show ?thesis
        by (auto simp: handler_defs Let_def remote_at_def schedule_ok_def
            intro!: set_ok schedules_ok_save [OF assms])
    next
      case (Some d)
      with Inr create_or_local [OF assms, where c = ?c and env = env and d = d and g = "\<lambda>m. m"] show ?thesis
        by (auto simp: handler_defs Let_def intro!: set_ok split: prod.splits sum.splits)
    qed
  qed (simp add: handler_defs assms)
qed

lemma py_scripts_ok_save:
  assumes "py_scripts_ok cfg s" and "wx_definitions s1 = wx_definitions s" and "\<And>k. wx_files s k \<noteq> None \<Longrightarrow> wx_files s1 k \<noteq> None"
    and "script_ok cfg s1 d"
  shows "py_scripts_ok cfg (save_definition d s1)"
proof -
  have "script_ok cfg (save_definition d s1) x" if x: "x \<in> set (wx_definitions (save_definition d s1))" for x
  proof -
    from x assms(2) consider "x = d" | "x \<in> set (wx_definitions s)"
      by (auto simp: wf_frame dest: in_tbl_put)
    then show ?thesis
    proof cases
      case 1
      with assms(4) show ?thesis by (simp add: script_ok_def wf_frame split: wf_source.splits)
    next
      case 2
      with assms(1,3) show ?thesis by (auto simp: py_scripts_ok_def script_ok_def wf_frame split: wf_source.splits)
    qed
  qed
  then show ?thesis by (simp add: py_scripts_ok_def)
qed

lemma upload_result:
  assumes "create_python_definition cfg env filename content fn i name t (script_part s) = (r, v)"
  obtains (Refused) m where "r = Inl m"
      and "\<And>k. wx_files s k \<noteq> None \<Longrightarrow> sx_files v k \<noteq> None"
  | (Saved) k w where "r = Inr k" and "sx_workflows v = [w]" and "wd_id w = k" and "valid_definition_id k"
      and "wd_script_path w = sg_directory cfg @ ''/'' @ k @ ''.py''" and "wd_function_name w = fn"
      and "sx_files v = (wx_files s)(k := Some content)"
  using assms
  by (auto simp: create_python_definition_def script_part_def Let_def tbl_put_def split: parse_reply.splits if_splits)

lemma upload_scripts:
  assumes "py_scripts_ok cfg s"
  shows "py_scripts_ok cfg (snd (upload_python_definition cfg env filename content fn i name t s))"
proof -
  obtain r v where q: "create_python_definition cfg env filename content fn i name t (script_part s) = (r, v)"
    by (cases "create_python_definition cfg env filename content fn i name t (script_part s)")
  show ?thesis
  proof (cases rule: upload_result [OF q])
    case (1 m)
    with assms q show ?thesis
      by (auto simp: upload_python_definition_def py_scripts_ok_def script_ok_def split: wf_source.splits)
  next
    case (2 k w)
    then show ?thesis
      using q by (auto simp: upload_python_definition_def script_ok_def python_definition_def
          intro!: py_scripts_ok_save [OF assms])
  qed
qed

lemma upload_schedules: "schedules_ok s \<Longrightarrow> schedules_ok (snd (upload_python_definition cfg env filename content fn i name t s))"
  by (auto simp: upload_python_definition_def schedules_ok_def schedule_ok_def wf_frame split: prod.split sum.split list.split)

lemma define_setup:
  "py_scripts_ok cfg s \<Longrightarrow> py_scripts_ok cfg (snd (create_definition now q s))"
  "schedules_ok s \<Longrightarrow> schedules_ok (snd (create_definition now q s))"
  by (auto simp: create_definition_def Let_def script_ok_def schedules_ok_def schedule_ok_def wf_frame intro!: py_scripts_ok_save)

lemma scripts_same: "wx_definitions s' = wx_definitions s \<Longrightarrow> wx_files s' = wx_files s \<Longrightarrow> py_scripts_ok cfg s \<Longrightarrow> py_scripts_ok cfg s'"
  by (auto simp: py_scripts_ok_def script_ok_def split: wf_source.splits)

lemma begin_schedule_scripts:
  assumes "py_scripts_ok cfg s"
  shows "begin_create_schedule env i q s = (r, s') \<Longrightarrow> py_scripts_ok cfg s'"
    and "begin_schedule_state env i on s = (r, s') \<Longrightarrow> py_scripts_ok cfg s'"
    and "begin_delete_schedule env i s = (r2, s') \<Longrightarrow> py_scripts_ok cfg s'"
    and "begin_save_policy env now pq s = (r3, s') \<Longrightarrow> py_scripts_ok cfg s'"
  using begin_schedule_same(1) [of s env i q] begin_schedule_same(2) [of s env i on]
    begin_schedule_same(3) [of s env i] begin_schedule_same(4) [of s env now pq]
  by (auto simp: other_same_def intro: scripts_same [OF _ _ assms])

definition changes_setup :: "wf_cmd \<Rightarrow> bool" where
  \<comment> \<open>commands about schedules, and those that define workflows\<close>
  "changes_setup c \<longleftrightarrow> (case c of CPolicy _ _ _ \<Rightarrow> True | CSchedule _ _ _ \<Rightarrow> True | CScheduleState _ _ _ \<Rightarrow> True
     | CScheduleDelete _ _ \<Rightarrow> True | CSaved _ \<Rightarrow> True | CDefine _ _ \<Rightarrow> True | CUpload _ _ _ _ _ _ _ \<Rightarrow> True | _ \<Rightarrow> False)"

lemma step_setup:
  assumes "exec_wf cfg c u = Inr u'" and "\<not> changes_setup c"
  shows "setup_same (wu_state u) (wu_state u')"
proof -
  have down: ?thesis if "land n g u = Inr u'" and "\<And>x s. g x = Some s \<Longrightarrow> setup_same (wu_state u) s" for n g
    by (rule landE [OF that(1)]) (use that(2) in fastforce)
  show ?thesis
  proof (cases c)
    case (CPolled n a now)
    with assms show ?thesis
      by (intro down [of n "\<lambda>f. case f of FRefresh e \<Rightarrow> Some (snd (finish_refresh a now e (wu_state u))) | _ \<Rightarrow> None"])
        (auto intro: setup_keeps split: flight.splits)
  next
    case (CHandled n env)
    with assms show ?thesis
      by (intro down [of n "\<lambda>f. case f of FHandle d r p \<Rightarrow> Some (snd (finish_handle env d r p (wu_state u))) | _ \<Rightarrow> None"])
        (auto intro: setup_keeps split: flight.splits if_splits)
  next
    case (CRetried n env)
    with assms show ?thesis
      by (intro down [of n "\<lambda>f. case f of FRetry d r p \<Rightarrow> Some (snd (finish_retry env d r p (wu_state u))) | _ \<Rightarrow> None"])
        (auto intro: setup_keeps split: flight.splits if_splits)
  next
    case (CAbandon n)
    with assms show ?thesis by (intro down [of n "\<lambda>f. Some (wu_state u)"]) (auto intro: setup_refl)
  next
    case (CExecute env i q)
    with assms setup_keeps(5) show ?thesis by (auto simp: direct_def split: if_splits)
  next
    case (CTrigger env q)
    with assms setup_keeps(4) show ?thesis by (auto simp: direct_def wf_frame split: if_splits)
  next
    case (CHandle env i a)
    with assms setup_keeps(6) setup_refl show ?thesis
      by (auto simp: direct_def take_off_def wf_frame split: option.splits if_splits)
  next
    case (CModify now i v msg h)
    with assms setup_keeps(7) show ?thesis by (auto simp: direct_def wf_frame)
  next
    case (CRevoke now i reason h)
    with assms setup_keeps(8) setup_refl show ?thesis by (auto simp: direct_def wf_frame)
  next
    case (CPoll i)
    with assms setup_refl show ?thesis by (auto simp: take_off_def split: option.splits if_splits)
  next
    case (CRetry i p)
    with assms setup_refl show ?thesis by (auto simp: take_off_def split: option.splits)
  qed (use assms(2) in \<open>simp_all add: changes_setup_def\<close>)
qed

lemma step_keeps_scripts:
  assumes "exec_wf cfg c u = Inr u'" and "py_scripts_ok cfg (wu_state u)"
  shows "py_scripts_ok cfg (wu_state u')"
proof (cases "changes_setup c")
  case False
  from setup_scripts [OF step_setup [OF assms(1) this] assms(2)] show ?thesis .
next
  case True
  show ?thesis
  proof (cases c)
    case (CSaved n)
    with assms show ?thesis
      by (auto elim!: landE dest!: schedule_save_same intro: scripts_same [OF _ _ assms(2)])
  next
    case (CPolicy env now q)
    with assms show ?thesis
      by (auto simp: take_off_def split: if_splits prod.splits sum.splits intro: begin_schedule_scripts(4) [OF assms(2)])
  next
    case (CSchedule env i q)
    with assms show ?thesis
      by (auto simp: take_off_def split: prod.splits http.splits intro: begin_schedule_scripts(1) [OF assms(2)])
  next
    case (CScheduleState env i on)
    with assms show ?thesis
      by (auto simp: take_off_def split: prod.splits http.splits intro: begin_schedule_scripts(2) [OF assms(2)])
  next
    case (CScheduleDelete env i)
    with assms show ?thesis
      by (auto simp: take_off_def split: prod.splits http.splits intro: begin_schedule_scripts(3) [OF assms(2)])
  qed (use assms True in \<open>auto simp: direct_def wf_frame upload_scripts define_setup changes_setup_def\<close>)
qed

lemma exec_wf_keeps: "wf_inv cfg u \<Longrightarrow> exec_wf cfg c u = Inr u' \<Longrightarrow> wf_inv cfg u'"
  using step_keeps_execs [of cfg c u u'] step_keeps_scripts [of cfg c u u'] by (simp add: wf_inv_def)

interpretation workflows: guarded_system "exec_wf cfg" "wf_inv cfg" for cfg :: schema_config
  by unfold_locales (rule exec_wf_keeps)

section \<open>Runs in which no request about a schedule is interrupted\<close>

definition about_schedule :: "wf_cmd \<Rightarrow> bool" where
  "about_schedule c \<longleftrightarrow> (case c of CPolicy _ _ _ \<Rightarrow> True | CSchedule _ _ _ \<Rightarrow> True | CScheduleState _ _ _ \<Rightarrow> True
     | CScheduleDelete _ _ \<Rightarrow> True | _ \<Rightarrow> False)"

definition exec_serial :: "schema_config \<Rightarrow> wf_cmd \<Rightarrow> wf_world \<Rightarrow> unit + wf_world" where
  \<comment> \<open>a request about a schedule saves before anything else happens; all others interleave as they like\<close>
  "exec_serial cfg c u =
     (case exec_wf cfg c u of
        Inl e \<Rightarrow> Inl e
      | Inr u' \<Rightarrow>
          if about_schedule c then exec_wf cfg (CSaved (length (wu_flights u))) u'
          else case c of CSaved n \<Rightarrow> Inl () | _ \<Rightarrow> Inr u')"

lemma land_last:
  "land (length fs) g (u\<lparr>wu_state := s, wu_flights := fs @ [f]\<rparr>) =
     (case g f of None \<Rightarrow> Inl () | Some s' \<Rightarrow> Inr (u\<lparr>wu_state := s', wu_flights := fs\<rparr>))"
  by (simp add: land_def drop_nth_def split: option.split)

lemma serial_is_handler:
  "exec_serial cfg (CSchedule env i q) u = Inr u' \<Longrightarrow> wu_state u' = snd (create_schedule_handler env i q (wu_state u))"
  "exec_serial cfg (CScheduleState env i on) u = Inr u' \<Longrightarrow>
     wu_state u' = snd (update_schedule_state_handler env i on (wu_state u))"
  "exec_serial cfg (CScheduleDelete env i) u = Inr u' \<Longrightarrow> wu_state u' = snd (delete_schedule_handler env i (wu_state u))"
  "exec_serial cfg (CPolicy env now pq) u = Inr u' \<Longrightarrow> wu_state u' = snd (save_update_policy env now pq (wu_state u))"
  by (auto simp: about_schedule_def exec_serial_def take_off_def land_last schedule_save_def then_save_def
      create_schedule_handler_def update_schedule_state_handler_def delete_schedule_handler_def save_update_policy_def
      split: prod.splits http.splits sum.splits if_splits)

lemma serial_keeps:
  assumes "schedules_ok (wu_state u)" and "exec_serial cfg c u = Inr u'"
  shows "schedules_ok (wu_state u')"
proof (cases "about_schedule c")
  case True
  with assms(2) show ?thesis
    by (cases c) (auto simp: about_schedule_def schedule_handlers_ok [OF assms(1)] dest!: serial_is_handler)
next
  case False
  then have step: "exec_wf cfg c u = Inr u'" and saved: "\<And>n. c \<noteq> CSaved n"
    using assms(2) by (auto simp: exec_serial_def split: sum.splits wf_cmd.splits)
  show ?thesis
  proof (cases "changes_setup c")
    case True
    with False saved step assms(1) show ?thesis
      by (cases c) (auto simp: changes_setup_def about_schedule_def direct_def wf_frame upload_schedules define_setup)
  next
    case False
    from setup_schedules [OF step_setup [OF step this] assms(1)] show ?thesis .
  qed
qed

interpretation serial_workflows: guarded_system "exec_serial cfg" "\<lambda>u. schedules_ok (wu_state u)" for cfg :: schema_config
  by unfold_locales (rule serial_keeps)

end
