(* ===== verification/Workflow_Claims.thy ===== *)
theory Workflow_Claims
  imports Workflow_Inv
begin

text \<open>
  Properties of workflows, and the runs that show their limits: what requests that meet each other
  can undo, and what the records and schedules do not say.
\<close>

section \<open>A concrete world\<close>

definition wf_demo_cfg :: schema_config where
  "wf_demo_cfg = \<lparr>sg_bucket = ''b'', sg_max_bytes = 100, sg_admins = [], sg_timeout = Some 60, sg_directory = ''/d'',
     sg_task_queue = ''q'', sg_collation = (\<lambda>s. s), sg_lower = (\<lambda>s. s), sg_sha256 = (\<lambda>s. replicate 64 CHR ''a''),
     sg_parse = (\<lambda>s. PyTree [''workflow''] [''workflow'']), sg_loads = (\<lambda>s. JsonRead (JObj []))\<rparr>"

definition wf_demo_build :: wf_definition where
  "wf_demo_build = builtin_definition ''q'' ''t'' (''graph-build'', ''kg.graph.build'', ''graph'', zh_wf_build)"

definition wf_demo_python :: wf_definition where
  "wf_demo_python = \<lparr>wd_key = ''py-double'', wd_title = ''p'', wd_type = ''kg.custom.python'', wd_category = ''custom'',
     wd_queue = ''q'', wd_active = True, wd_source = PythonSource ''workflow'' ''/d/py-double.py'' 60, wd_steps = [],
     wd_created = ''t''\<rparr>"

definition wf_demo_queued :: wf_execution where
  "wf_demo_queued = \<lparr>we_id = ''EXEC-q'', we_definition_id = ''py-double'', we_workflow_id = ''queued-1'', we_run_id = None,
     we_status = ''QUEUED'', we_started_at = ''t'', we_completed_at = None, we_payload = [],
     we_dispatch_mode = ''LOCAL_FALLBACK'', we_message = ''m'', we_output = None, we_task_id = None\<rparr>"

definition wf_demo_review :: "string \<Rightarrow> string \<Rightarrow> wf_review" where
  "wf_demo_review i st = \<lparr>wr_id = i, wr_batch = ''b'', wr_module = ''m'', wr_status = st, wr_domain = ''d'', wr_category = ''c'',
     wr_score = None, wr_handler = ''h'', wr_updated_at = ''t'', wr_decision = None, wr_decision_note = None,
     wr_modified_result = None, wr_completed_at = None, wr_last_retry_at = None, wr_retry_execution_id = None,
     wr_revision = 1, wr_rest = []\<rparr>"

definition wf_demo_env :: "string \<Rightarrow> start_answer \<Rightarrow> run_env" where
  "wf_demo_env i a = \<lparr>re_uuid = i, re_queued = i, re_execution = i, re_task = i, re_day = ''d'', re_now = ''n'',
     re_refused = None, re_start = a\<rparr>"

definition wf_demo_failed :: wf_task where
  "wf_demo_failed = (job_task (wf_demo_env ''0'' (StartDone None)) wf_demo_build wf_demo_queued [] [] [] [] JNull [])
     \<lparr>wt_task_status := zh_run_error\<rparr>"

definition wf_demo_state :: wf_state where
  "wf_demo_state = \<lparr>wx_batches = [], wx_tasks = [wf_demo_failed], wx_reviews = [wf_demo_review ''r'' zh_todo, wf_demo_review ''s'' zh_done],
     wx_updates = [], wx_policy = None, wx_definitions = [wf_demo_build, wf_demo_python], wx_executions = [wf_demo_queued],
     wx_schedules = [], wx_files = [''py-double'' \<mapsto> ''x''], wx_remote = (\<lambda>_. None), wx_runs = [], wx_client = False\<rparr>"

definition wf_demo_world :: wf_world where
  "wf_demo_world = \<lparr>wu_state = wf_demo_state, wu_flights = []\<rparr>"

definition wf_demo_schedule_env :: "remote_fault \<Rightarrow> remote_fault \<Rightarrow> schedule_env" where
  "wf_demo_schedule_env f g = \<lparr>sv_refused = None, sv_delete = f, sv_create = g, sv_pause = RemoteOk\<rparr>"

definition wf_demo_schedule :: "string \<Rightarrow> schedule_request" where
  "wf_demo_schedule cron = \<lparr>sq_id = ''nightly'', sq_cron = cron, sq_timezone = ''UTC'', sq_active = True, sq_payload = []\<rparr>"

definition wf_demo_request :: execute_request where
  "wf_demo_request = \<lparr>eq_payload = [], eq_workflow_id = Some ''w'', eq_llm_config_id = None, eq_since = None\<rparr>"

definition wf_demo_cmds :: "wf_cmd list" where
  \<comment> \<open>a schedule; an execution that fails, followed; a retry of a decided review\<close>
  "wf_demo_cmds =
     [CSchedule (wf_demo_schedule_env RemoteOk RemoteOk) ''graph-build'' (wf_demo_schedule ''0 2 * * *''), CSaved 0,
      CExecute (wf_demo_env ''1'' (StartDone (Some ''run''))) ''py-double'' wf_demo_request,
      CPoll ''EXEC-1'', CPolled 0 (Described ''FAILED'' (ResultRaised ''boom'')) ''n'',
      CRetry ''s'' [], CRetried 0 (wf_demo_env ''2'' (StartDone None))]"

definition wf_demo_end :: wf_world where
  "wf_demo_end = run_cmds (exec_wf wf_demo_cfg) wf_demo_cmds wf_demo_world"

lemmas wf_demo_defs = wf_demo_cfg_def wf_demo_build_def wf_demo_python_def wf_demo_queued_def wf_demo_review_def
  wf_demo_env_def wf_demo_failed_def wf_demo_state_def wf_demo_world_def builtin_definition_def

lemma wf_demo_inv: "wf_inv wf_demo_cfg wf_demo_world"
proof -
  have "valid_definition_id ''py-double''" by code_simp
  then show ?thesis
    by (simp add: wf_inv_def execs_ok_def keys_ok_def sent_ok_def py_scripts_ok_def script_ok_def wf_demo_defs)
qed

lemma wf_demo_reach: "reach (exec_wf wf_demo_cfg) wf_demo_world wf_demo_end"
  unfolding wf_demo_end_def by (rule reach_run_cmds)

lemma wf_demo_facts:
  "map (\<lambda>e. (we_id e, we_status e, we_message e)) (wx_executions (wu_state wf_demo_end)) =
     [(''EXEC-q'', ''QUEUED'', ''m''), (''EXEC-1'', ''FAILED'', ''boom''), (''EXEC-2'', ''RUNNING'', zh_wf_sent)]"
  "map (\<lambda>t. (wt_id t, wt_task_status t)) (wx_tasks (wu_state wf_demo_end)) =
     [(''PI-d-0'', zh_run_error), (''PI-d-1'', zh_running)]"
  "map_option (\<lambda>c. (ws_dispatch c, ws_active c, ws_cron c)) (get_schedule ''nightly'' (wu_state wf_demo_end)) =
     Some (Some ''TEMPORAL_CREATED'', True, ''0 2 * * *'')"
  by code_simp+

section \<open>Executions\<close>

definition settled :: "string \<Rightarrow> wf_execution \<Rightarrow> wf_world \<Rightarrow> bool" where
  \<comment> \<open>no request is refreshing the execution\<close>
  "settled i e u \<longleftrightarrow> repo_get_execution i (wu_state u) = Some e \<and>
     (\<forall>f. FRefresh f \<in> set (wu_flights u) \<longrightarrow> we_id f \<noteq> i)"

lemma get_after_put: "repo_get_execution i s = Some e \<Longrightarrow> wx_executions s' = tbl_put we_id x (wx_executions s) \<Longrightarrow>
    we_id x \<noteq> i \<Longrightarrow> repo_get_execution i s' = Some e"
  by (simp add: repo_get_execution_def table_simps)

lemma step_settled:
  assumes "exec_wf cfg c u = Inr u'" and "execs_ok (wu_state u)" and "settled i e u" and "we_status e \<noteq> ''RUNNING''"
  shows "settled i e u'"
proof -
  from step_changes [OF assms(1)] have ch: "exec_change (wu_flights u) (wu_state u) (wu_state u')"
    and fl: "flight_change u u'" by (simp_all add: changes_def)
  from assms(3) have get: "repo_get_execution i (wu_state u) = Some e"
    and free: "\<And>f. FRefresh f \<in> set (wu_flights u) \<Longrightarrow> we_id f \<noteq> i" by (auto simp: settled_def)
  then have key: "i \<in> we_id ` set (wx_executions (wu_state u))"
    by (auto simp: repo_get_execution_def dest: tbl_get_Some)
  from ch consider "wx_executions (wu_state u') = wx_executions (wu_state u)"
    | x where "wx_executions (wu_state u') = tbl_put we_id x (wx_executions (wu_state u))" "we_id x \<noteq> i"
    unfolding exec_change_def refreshed_def using key free by metis
  then have get': "repo_get_execution i (wu_state u') = Some e"
  proof cases
    case 1
    with get show ?thesis by (simp add: repo_get_execution_def)
  next
    case 2
    with get show ?thesis by (blast intro: get_after_put)
  qed
  have "we_id f \<noteq> i" if f: "FRefresh f \<in> set (wu_flights u')" for f
  proof (cases "FRefresh f \<in> set (wu_flights u)")
    case False
    with fl f have "f \<in> set (wx_executions (wu_state u))" "we_status f = ''RUNNING''"
      by (auto simp: flight_change_def new_flight_def)
    with assms(2,4) get show ?thesis
      by (auto simp: execs_ok_def repo_get_execution_def dest: tbl_get_unique)
  qed (use free in blast)
  with get' show ?thesis by (simp add: settled_def)
qed

lemma reach_settled:
  assumes "reach (exec_wf cfg) u u'" and "wf_inv cfg u" and "settled i e u" and "we_status e \<noteq> ''RUNNING''"
  shows "settled i e u'"
  using assms(1)
proof (induction rule: reach.induct)
  case (reach_step v c v')
  then have "execs_ok (wu_state v)" using workflows.reach_keeps [OF reach_step.hyps(1) assms(2)] by (simp add: wf_inv_def)
  with reach_step assms(4) show ?case by (blast intro: step_settled)
qed (use assms in simp)



text \<open>Two requests that refresh the same execution: the one that was told first can save last.\<close>

lemma stale_refresh_reopens:
  "map we_status (wx_executions (wu_state (run_cmds (exec_wf wf_demo_cfg)
     [CExecute (wf_demo_env ''1'' (StartDone None)) ''py-double'' wf_demo_request, CPoll ''EXEC-1'', CPoll ''EXEC-1'',
      CPolled 1 (Described ''COMPLETED'' (ResultOk JNull)) ''n'', CPolled 0 (Described ''RUNNING'' (ResultOk JNull)) ''n'']
     wf_demo_world))) = [''QUEUED'', ''RUNNING'']"
  by code_simp

section \<open>Reviews\<close>

definition review_decided :: "string \<Rightarrow> wf_world \<Rightarrow> bool" where
  \<comment> \<open>the review is not pending, nor is a copy that a retry will save\<close>
  "review_decided i u \<longleftrightarrow> (\<exists>r. get_review i (wu_state u) = Some r \<and> wr_status r \<noteq> zh_todo) \<and>
     (\<forall>d r p. FRetry d r p \<in> set (wu_flights u) \<longrightarrow> wr_id r = i \<longrightarrow> wr_status r \<noteq> zh_todo)"

lemma step_review_decided:
  assumes "exec_wf cfg c u = Inr u'" and "\<forall>f \<in> set (wu_flights u). flight_ok (wu_state u) f" and "review_decided i u"
  shows "review_decided i u'"
proof -
  from step_changes [OF assms(1)] have ch: "review_change (wu_flights u) (wu_state u) (wu_state u')"
    and fl: "flight_change u u'" by (simp_all add: changes_def)
  from assms(3) obtain r where r: "get_review i (wu_state u) = Some r" "wr_status r \<noteq> zh_todo"
    and retry: "\<And>d r p. FRetry d r p \<in> set (wu_flights u) \<Longrightarrow> wr_id r = i \<Longrightarrow> wr_status r \<noteq> zh_todo"
    by (auto simp: review_decided_def)
  have handle: "wr_status x \<noteq> zh_todo" if "FHandle d x p \<in> set (wu_flights u)" for d x p
    using bspec [OF assms(2) that] by (simp add: flight_ok_def)
  have "\<exists>r. get_review i (wu_state u') = Some r \<and> wr_status r \<noteq> zh_todo"
  proof (cases "wx_reviews (wu_state u') = wx_reviews (wu_state u)")
    case True
    with r show ?thesis by (simp add: get_review_def)
  next
    case False
    with ch obtain x where x: "wx_reviews (wu_state u') = tbl_put wr_id x (wx_reviews (wu_state u))"
      and st: "wr_status x \<noteq> zh_todo \<or>
        (\<exists>r0. get_review (wr_id x) (wu_state u) = Some r0 \<and> wr_status x = wr_status r0) \<or>
        (\<exists>d r0 p. FRetry d r0 p \<in> set (wu_flights u) \<and> wr_id x = wr_id r0 \<and> wr_status x = wr_status r0) \<or>
        (\<exists>d r0 p. FHandle d r0 p \<in> set (wu_flights u) \<and> wr_id x = wr_id r0 \<and> wr_status x = wr_status r0)"
      unfolding review_change_def by blast
    show ?thesis
    proof (cases "wr_id x = i")
      case True
      from st have "wr_status x \<noteq> zh_todo"
        by (elim disjE exE conjE) (use r retry handle True in \<open>metis option.inject\<close>)+
      with x True show ?thesis by (simp add: get_review_def table_simps)
    next
      case False
      with x r show ?thesis by (simp add: get_review_def table_simps)
    qed
  qed
  moreover have "wr_status x \<noteq> zh_todo" if f: "FRetry d x p \<in> set (wu_flights u')" "wr_id x = i" for d x p
  proof (cases "FRetry d x p \<in> set (wu_flights u)")
    case False
    with fl f have "get_review i (wu_state u) = Some x" by (auto simp: flight_change_def new_flight_def)
    with r show ?thesis by simp
  qed (use retry f in blast)
  ultimately show ?thesis by (auto simp: review_decided_def)
qed

lemma reach_review_decided:
  assumes "reach (exec_wf cfg) u u'" and "wf_inv cfg u" and "review_decided i u"
  shows "review_decided i u'"
  using assms(1)
proof (induction rule: reach.induct)
  case (reach_step v c v')
  then have "\<forall>f \<in> set (wu_flights v). flight_ok (wu_state v) f"
    using workflows.reach_keeps [OF reach_step.hyps(1) assms(2)] by (simp add: wf_inv_def)
  with reach_step show ?case by (blast intro: step_review_decided)
qed (use assms in simp)

text \<open>C32: Decided reviews stay decided.  A review that was completed or revoked is never pending again, however
  decisions, retries, edits and revocations interleave, unless a retry was already waiting for Temporal with
  the pending review when the decision came.\<close>
theorem decided_reviews_stay_decided:
  assumes "reach (exec_wf cfg) u u'" and "wf_inv cfg u" and "get_review i (wu_state u) = Some r" and "wr_status r \<noteq> zh_todo"
    and "\<And>d x p. FRetry d x p \<in> set (wu_flights u) \<Longrightarrow> wr_id x = i \<Longrightarrow> wr_status x \<noteq> zh_todo"
  shows "\<exists>r'. get_review i (wu_state u') = Some r' \<and> wr_status r' \<noteq> zh_todo"
  using reach_review_decided [OF assms(1,2), of i] assms(3-5) by (auto simp: review_decided_def)

theorem decided_reviews_stay_decided_witness:
  "\<exists>r'. get_review ''s'' (wu_state wf_demo_end) = Some r' \<and> wr_status r' \<noteq> zh_todo"
  using decided_reviews_stay_decided [OF wf_demo_reach wf_demo_inv, of "''s''" "wf_demo_review ''s'' zh_done"]
  by (simp add: wf_demo_world_def wf_demo_state_def get_review_def wf_demo_review_def)

text \<open>A retry that waits for Temporal while the review is decided saves the review as it was: the decision is lost.\<close>

definition wf_demo_action :: review_action where
  "wf_demo_action = \<lparr>va_action_id = ''pass'', va_note = [], va_result = [], va_handler = None, va_rerun = False\<rparr>"

lemma retry_undoes_decision:
  "map_option (\<lambda>r. (wr_status r, wr_decision r))
     (get_review ''r'' (wu_state (run_cmds (exec_wf wf_demo_cfg)
        [CRetry ''r'' [], CHandle (wf_demo_env ''1'' (StartDone None)) ''r'' wf_demo_action,
         CRetried 0 (wf_demo_env ''2'' (StartDone None))] wf_demo_world))) = Some (zh_todo, None)"
  by code_simp

section \<open>Tasks\<close>

lemma reported_status: "we_status x = ''COMPLETED'' \<Longrightarrow> wt_task_status (reported_task x xs t) = zh_run_done"
  by (simp add: reported_task_def final_status_def Let_def)

lemma zh_run_distinct [simp]: "zh_run_done \<noteq> zh_run_error" "zh_running \<noteq> zh_run_error"
  by (simp_all add: zh_run_done_def zh_run_error_def zh_running_def)

definition failed_tasks :: "wf_state \<Rightarrow> string set" where
  "failed_tasks s = {wt_id t | t. t \<in> set (wx_tasks s) \<and> wt_task_status t = zh_run_error}"

lemma failed_put: "wt_task_status t \<noteq> zh_run_error \<Longrightarrow> wx_tasks s' = tbl_put wt_id t (wx_tasks s) \<Longrightarrow>
    failed_tasks s' \<subseteq> failed_tasks s"
  by (auto simp: failed_tasks_def dest!: in_tbl_put)

lemma step_failed_tasks:
  assumes "exec_wf cfg c u = Inr u'" and "\<forall>f \<in> set (wu_flights u). flight_ok (wu_state u) f"
  shows "failed_tasks (wu_state u') \<subseteq> failed_tasks (wu_state u)"
proof -
  from step_changes [OF assms(1)] have ch: "task_change (wu_flights u) (wu_state u) (wu_state u')"
    by (simp add: changes_def)
  then consider "wx_tasks (wu_state u') = wx_tasks (wu_state u)"
    | t where "wx_tasks (wu_state u') = tbl_put wt_id t (wx_tasks (wu_state u))" "wt_task_status t = zh_running"
    | e x xs t where "FRefresh e \<in> set (wu_flights u)" "refreshed e x" "stages_of x = Some xs"
        "wx_tasks (wu_state u') = tbl_put wt_id (reported_task x xs t) (wx_tasks (wu_state u))"
    unfolding task_change_def by blast
  then show ?thesis
  proof cases
    case 1
    then show ?thesis by (simp add: failed_tasks_def)
  next
    case 2
    then show ?thesis by (intro failed_put) simp_all
  next
    case 3
    then have "we_output x \<noteq> None" by (auto simp: stages_of_def split: option.splits)
    with refreshed_ok [OF 3(2)] assms(2) 3(1) have "we_status x = ''COMPLETED''" by blast
    from reported_status [OF this] 3(4) show ?thesis by (intro failed_put) simp_all
  qed
qed

text \<open>C33: Failures do not reach the tasks.  Along every run no task becomes failed: a task that shows the failed status
  showed it at the start.  The branch that would record the failure needs an output, and only completed
  workflows have one.\<close>
theorem failures_never_reach_tasks:
  assumes "reach (exec_wf cfg) u u'" and "wf_inv cfg u" and "t \<in> set (wx_tasks (wu_state u'))"
    and "wt_task_status t = zh_run_error"
  shows "\<exists>t0 \<in> set (wx_tasks (wu_state u)). wt_id t0 = wt_id t \<and> wt_task_status t0 = zh_run_error"
proof -
  have "failed_tasks (wu_state u') \<subseteq> failed_tasks (wu_state u)"
    using assms(1)
  proof (induction rule: reach.induct)
    case (reach_step v c v')
    have "\<forall>f \<in> set (wu_flights v). flight_ok (wu_state v) f"
      using workflows.reach_keeps [OF reach_step.hyps(1) assms(2)] by (simp add: wf_inv_def)
    from step_failed_tasks [OF reach_step.hyps(2) this] reach_step.IH show ?case by blast
  qed simp
  moreover from assms(3,4) have "wt_id t \<in> failed_tasks (wu_state u')" by (auto simp: failed_tasks_def)
  ultimately show ?thesis by (force simp: failed_tasks_def)
qed

theorem failures_never_reach_tasks_witness:
  "\<exists>t0 \<in> set (wx_tasks wf_demo_state). wt_id t0 = ''PI-d-0'' \<and> wt_task_status t0 = zh_run_error"
proof -
  have "(''PI-d-0'', zh_run_error) \<in> set (map (\<lambda>t. (wt_id t, wt_task_status t)) (wx_tasks (wu_state wf_demo_end)))"
    unfolding wf_demo_facts by simp
  then obtain t where "t \<in> set (wx_tasks (wu_state wf_demo_end))" "wt_id t = ''PI-d-0''" "wt_task_status t = zh_run_error"
    by auto
  with failures_never_reach_tasks [OF wf_demo_reach wf_demo_inv, of t] show ?thesis by (simp add: wf_demo_world_def)
qed

section \<open>Schedules and scripts\<close>

text \<open>C27: Schedules follow Temporal when their requests do not overlap.  Along every run in which a request that creates,
  switches or deletes a schedule saves before anything else happens, while all other requests interleave as they
  like, a schedule whose last call to Temporal succeeded exists there and is paused exactly when its record is
  not active; after a creation also the cron expression and the time zone are those of the record.
  (\<open>overlapping_switches_diverge\<close> shows what two overlapping requests do.)\<close>
theorem schedules_follow_remote:
  assumes "reach (exec_serial cfg) u u'" and "schedules_ok (wu_state u)" and "get_schedule i (wu_state u') = Some c"
    and "ws_dispatch c = Some m" and "m \<in> {''TEMPORAL_CREATED'', ''TEMPORAL_UPDATED''}"
  shows "\<exists>x. wx_remote (wu_state u') i = Some x \<and> rs_paused x = (\<not> ws_active c) \<and>
    (m = ''TEMPORAL_CREATED'' \<longrightarrow> rs_cron x = ws_cron c \<and> rs_timezone x = ws_timezone c)"
proof -
  have "schedules_ok (wu_state u')" by (rule serial_workflows.reach_keeps [OF assms(1,2)])
  moreover from assms(3) have "c \<in> set (wx_schedules (wu_state u'))" "ws_id c = i"
    by (auto simp: get_schedule_def dest: tbl_get_Some)
  ultimately show ?thesis using assms(4,5) by (auto simp: schedules_ok_def schedule_ok_def)
qed

definition wf_demo_switched :: wf_world where
  "wf_demo_switched = run_cmds (exec_serial wf_demo_cfg)
     [CSchedule (wf_demo_schedule_env RemoteOk RemoteOk) ''graph-build'' (wf_demo_schedule ''0 2 * * *''),
      CRetry ''s'' [], CScheduleState (wf_demo_schedule_env RemoteOk RemoteOk) ''nightly'' False] wf_demo_world"

theorem schedules_follow_remote_witness:
  "\<exists>x. wx_remote (wu_state wf_demo_switched) ''nightly'' = Some x \<and> rs_paused x"
proof -
  have "map_option (\<lambda>c. (ws_dispatch c, ws_active c)) (get_schedule ''nightly'' (wu_state wf_demo_switched)) =
      Some (Some ''TEMPORAL_UPDATED'', False)" by code_simp
  then obtain c where c: "get_schedule ''nightly'' (wu_state wf_demo_switched) = Some c"
    "ws_dispatch c = Some ''TEMPORAL_UPDATED''" "\<not> ws_active c" by auto
  have "reach (exec_serial wf_demo_cfg) wf_demo_world wf_demo_switched"
    unfolding wf_demo_switched_def by (rule reach_run_cmds)
  moreover have "schedules_ok (wu_state wf_demo_world)"
    by (simp add: schedules_ok_def wf_demo_world_def wf_demo_state_def)
  ultimately show ?thesis using schedules_follow_remote [of wf_demo_cfg wf_demo_world wf_demo_switched "''nightly''" c] c
    by auto
qed

text \<open>
  What the marks do not say.  Of two requests that switch a schedule off and on, one can reach Temporal last and the
  other save last: the record says that the schedule is updated and off, and it runs.  A schedule that was
  replaced while Temporal was away is marked as updated as soon as it is switched on, and still runs at the
  old times; one that was deleted while Temporal was away runs on.
\<close>

lemma overlapping_switches_diverge:
  "let env = wf_demo_schedule_env RemoteOk RemoteOk;
       s = wu_state (run_cmds (exec_wf wf_demo_cfg)
         [CSchedule env ''graph-build'' (wf_demo_schedule ''0 2 * * *''), CSaved 0,
          CScheduleState env ''nightly'' False, CScheduleState env ''nightly'' True, CSaved 1, CSaved 0] wf_demo_world)
   in map_option (\<lambda>c. (ws_dispatch c, ws_active c)) (get_schedule ''nightly'' s) = Some (Some ''TEMPORAL_UPDATED'', False) \<and>
      map_option rs_paused (wx_remote s ''nightly'') = Some False"
  by code_simp

lemma stale_times_after_update:
  "let s = wu_state (run_cmds (exec_serial wf_demo_cfg)
       [CSchedule (wf_demo_schedule_env RemoteOk RemoteOk) ''graph-build'' (wf_demo_schedule ''0 2 * * *''),
        CSchedule (wf_demo_schedule_env (RemoteFault False []) (RemoteFault False [])) ''graph-build'' (wf_demo_schedule ''0 5 * * *''),
        CScheduleState (wf_demo_schedule_env RemoteOk RemoteOk) ''nightly'' True] wf_demo_world)
   in map_option (\<lambda>c. (ws_dispatch c, ws_cron c)) (get_schedule ''nightly'' s) =
        Some (Some ''TEMPORAL_UPDATED'', ''0 5 * * *'') \<and>
      map_option rs_cron (wx_remote s ''nightly'') = Some ''0 2 * * *''"
  by code_simp

lemma deleted_schedule_runs_on:
  "let s = wu_state (run_cmds (exec_serial wf_demo_cfg)
       [CSchedule (wf_demo_schedule_env RemoteOk RemoteOk) ''graph-build'' (wf_demo_schedule ''0 2 * * *''),
        CScheduleDelete (wf_demo_schedule_env (RemoteFault False []) RemoteOk) ''nightly''] wf_demo_world)
   in get_schedule ''nightly'' s = None \<and> map_option rs_paused (wx_remote s ''nightly'') = Some False"
  by code_simp

lemma id_char_safe: "id_char c \<Longrightarrow> c \<noteq> CHR ''/'' \<and> c \<noteq> CHR ''.''"
  by (auto simp: id_char_def lower_char_def digit_char_def char_in_def Let_def)

lemma valid_id_safe: "valid_definition_id k \<Longrightarrow> CHR ''/'' \<notin> set k \<and> CHR ''.'' \<notin> set k \<and> k \<noteq> []"
  using id_char_safe
  by (cases k) (auto simp: valid_definition_id_def list_all_iff id_char_def)

text \<open>C28: Python workflows have their scripts.  Along every run the script of a Python workflow lies directly in the
  script directory, under a name without path separator or dot, and the file exists, whatever identifiers and
  file names users upload and whatever definitions replace others.\<close>
theorem python_workflows_have_scripts:
  assumes "reach (exec_wf cfg) u u'" and "wf_inv cfg u" and "repo_get_definition i (wu_state u') = Some d"
    and "wd_source d = PythonSource f p t"
  shows "p = sg_directory cfg @ ''/'' @ i @ ''.py'' \<and> CHR ''/'' \<notin> set i \<and> CHR ''.'' \<notin> set i \<and> wx_files (wu_state u') i \<noteq> None"
proof -
  have "py_scripts_ok cfg (wu_state u')" using workflows.reach_keeps [OF assms(1,2)] by (simp add: wf_inv_def)
  moreover from assms(3) have "d \<in> set (wx_definitions (wu_state u'))" "wd_key d = i"
    by (auto simp: repo_get_definition_def dest: tbl_get_Some)
  ultimately have "script_ok cfg (wu_state u') d" by (simp add: py_scripts_ok_def)
  with assms(4) \<open>wd_key d = i\<close> valid_id_safe show ?thesis by (auto simp: script_ok_def)
qed

theorem python_workflows_have_scripts_witness:
  "wx_files (wu_state wf_demo_end) ''py-double'' \<noteq> None"
proof -
  have "repo_get_definition ''py-double'' (wu_state wf_demo_end) = Some wf_demo_python" by code_simp
  from python_workflows_have_scripts [OF wf_demo_reach wf_demo_inv this] show ?thesis
    by (simp add: wf_demo_python_def)
qed

text \<open>Nothing protects the workflows of the platform: a definition with the identifier of one replaces it.\<close>

lemma custom_replaces_builtin:
  "map_option wd_type (repo_get_definition ''graph-build'' (wu_state (run_cmds (exec_wf wf_demo_cfg)
     [CDefine ''n'' \<lparr>dq_id = ''graph-build'', dq_name = ''x'', dq_category = ''custom'', dq_steps = [JStr ''s''],
        dq_queue = ''q'', dq_active = True\<rparr>] wf_demo_world))) = Some ''kg.custom.configurable''"
  by code_simp

end
