(* ===== verification/Workflow_Outcomes.thy ===== *)
theory Workflow_Outcomes
  imports Workflow_Claims
begin

text \<open>
  What single operations come to: the cron expression of the update policy, the children of a build of
  the graph, and the way of the stages that a script reports from the worker to its task.
\<close>

section \<open>The update policy\<close>

definition two_digits :: "nat \<Rightarrow> string" where
  "two_digits n = [char_of (48 + n div 10), char_of (48 + n mod 10)]"

lemma digit_char_not:
  fixes d :: nat
  shows "d < 10 \<Longrightarrow> char_of (48 + d) \<noteq> CHR '':''" "d < 10 \<Longrightarrow> char_of (48 + d) \<noteq> CHR '' ''"
    "d < 10 \<Longrightarrow> char_of (48 + d) \<noteq> CHR ''-''" "d < 10 \<Longrightarrow> char_of (48 + d) \<noteq> CHR ''+''"
proof -
  have "\<forall>d < 10 :: nat. char_of (48 + d) \<notin> set '': -+''" by code_simp
  then show "d < 10 \<Longrightarrow> char_of (48 + d) \<noteq> CHR '':''" "d < 10 \<Longrightarrow> char_of (48 + d) \<noteq> CHR '' ''"
    "d < 10 \<Longrightarrow> char_of (48 + d) \<noteq> CHR ''-''" "d < 10 \<Longrightarrow> char_of (48 + d) \<noteq> CHR ''+''" by auto
qed

lemma int_of_two_digits:
  assumes "n < 100"
  shows "py_int_str (two_digits n) = Some (int n)"
proof -
  have d: "n div 10 < 10" "n mod 10 < 10" using assms by simp_all
  have "py_strip (two_digits n) = two_digits n"
    by (rule py_strip_id) (use digit_no_ws d in \<open>auto simp: two_digits_def\<close>)
  with d digit_char_not [OF d(1)] show ?thesis
    by (simp add: py_int_str_def two_digits_def digit_val_show)
qed

lemma split_clock: "h < 100 \<Longrightarrow> m < 100 \<Longrightarrow> py_split CHR '':'' (two_digits h @ CHR '':'' # two_digits m) = [two_digits h, two_digits m]"
  using py_split_join [of "[two_digits h, two_digits m]" "CHR '':''"] digit_char_not(1) [of "h div 10"]
    digit_char_not(1) [of "h mod 10"] digit_char_not(1) [of "m div 10"] digit_char_not(1) [of "m mod 10"]
  by (fastforce simp: two_digits_def)

lemma digits_no_space: "CHR '' '' \<notin> set (show_nat n)"
proof
  assume "CHR '' '' \<in> set (show_nat n)"
  then obtain d :: nat where "d < 10" "CHR '' '' = char_of (48 + d)" using show_nat_digits by blast
  with digit_char_not(2) [of d] show False by simp
qed

lemma second_space: "CHR '' '' \<notin> set w \<Longrightarrow> from_second_space (''0 '' @ w @ CHR '' '' # r) = CHR '' '' # r"
proof -
  assume w: "CHR '' '' \<notin> set w"
  let ?s = "''0 '' @ w @ CHR '' '' # r"
  have "find_char CHR '' '' 0 ?s = Some 1" by (simp add: find_char_def)
  moreover have "dropWhile (\<lambda>x. x \<noteq> CHR '' '') (w @ CHR '' '' # r) = CHR '' '' # r"
    using w by (subst dropWhile_append2) auto
  then have "find_char CHR '' '' (Suc 1) ?s = Some (length ?s - length (CHR '' '' # r))"
    by (simp add: find_char_def)
  ultimately have "from_second_space ?s = drop (length ?s - length (CHR '' '' # r)) ?s"
    by (simp only: from_second_space_def option.case)
  then show ?thesis by simp
qed

lemma frequencies_distinct [simp]:
  "zh_twelve_hours \<noteq> zh_daily" "zh_six_hours \<noteq> zh_daily" "zh_weekly \<noteq> zh_daily" "zh_six_hours \<noteq> zh_twelve_hours"
  "zh_weekly \<noteq> zh_twelve_hours" "zh_weekly \<noteq> zh_six_hours" "zh_twelve_hours \<noteq> zh_weekly" "zh_six_hours \<noteq> zh_weekly"
  by (simp_all add: zh_daily_def zh_twelve_hours_def zh_six_hours_def zh_weekly_def)

text \<open>The update policy.  For every time of day the policy runs daily, or on Mondays, at that hour and minute, written
  without leading zeros; every twelve or six hours it runs on the hour, whatever the time.\<close>
theorem update_policy_cron:
  assumes "h < 24" and "m < 60"
  defines "t \<equiv> two_digits h @ CHR '':'' # two_digits m"
  shows "policy_cron zh_daily t = Inr (show_nat m @ '' '' @ show_nat h @ '' * * *'') \<and>
    policy_cron zh_weekly t = Inr (show_nat m @ '' '' @ show_nat h @ '' * * 1'') \<and>
    policy_cron zh_twelve_hours t = Inr ''0 */12 * * *'' \<and> policy_cron zh_six_hours t = Inr ''0 */6 * * *''"
proof -
  have t: "py_split CHR '':'' t = [two_digits h, two_digits m]" unfolding t_def by (rule split_clock) (use assms in simp_all)
  have i: "py_int_str (two_digits h) = Some (int h)" "py_int_str (two_digits m) = Some (int m)"
    using assms by (simp_all add: int_of_two_digits)
  have s: "from_second_space (''0 '' @ show_nat h @ '' * * *'') = '' * * *''"
    "from_second_space (''0 '' @ show_nat h @ '' * * 1'') = '' * * 1''"
    using second_space [OF digits_no_space, of h "''* * *''"] second_space [OF digits_no_space, of h "''* * 1''"] by simp_all
  show ?thesis using s by (simp add: policy_cron_def t i cron_template_def show_int_def)
qed

theorem update_policy_cron_witness:
  "policy_cron zh_daily ''02:05'' = Inr ''5 2 * * *'' \<and> policy_cron zh_weekly ''02:05'' = Inr ''5 2 * * 1''"
proof -
  have "two_digits 2 @ CHR '':'' # two_digits 5 = ''02:05''" "show_nat 5 = ''5''" "show_nat 2 = ''2''" by code_simp+
  with update_policy_cron [of 2 5] show ?thesis by simp
qed

section \<open>The build of the graph\<close>

definition entity_domains :: "string list" where
  "entity_domains = [''paper'', ''scholar'', ''patent'', ''organization'', ''project'']"

definition relation_domains :: "string list" where
  "relation_domains = [''authorship'', ''employment'', ''citation'', ''cooperation'']"

definition asked_for :: "string list \<Rightarrow> string list \<Rightarrow> string list" where
  "asked_for xs defaults = (if xs = [] then defaults else xs)"

lemma domain_types:
  "e \<in> set entity_domains \<Longrightarrow> map_of domain_workflows (''kg.entity.'' @ e) = Some (''entity'', e)"
  "r \<in> set relation_domains \<Longrightarrow> map_of domain_workflows (''kg.relation.'' @ r) = Some (''relation'', r)"
proof -
  have "list_all (\<lambda>e. map_of domain_workflows (''kg.entity.'' @ e) = Some (''entity'', e)) entity_domains" by code_simp
  then show "e \<in> set entity_domains \<Longrightarrow> map_of domain_workflows (''kg.entity.'' @ e) = Some (''entity'', e)"
    by (simp add: list_all_iff)
  have "list_all (\<lambda>e. map_of domain_workflows (''kg.relation.'' @ e) = Some (''relation'', e)) relation_domains" by code_simp
  then show "r \<in> set relation_domains \<Longrightarrow> map_of domain_workflows (''kg.relation.'' @ r) = Some (''relation'', r)"
    by (simp add: list_all_iff)
qed

lemma child_types_asked:
  assumes "dget request ''entities'' = JList (map JStr es)" and "dget request ''relations'' = JList (map JStr rs)"
  shows "child_types request = Some (map (\<lambda>x. ''kg.entity.'' @ x) (asked_for es entity_domains) @
    map (\<lambda>x. ''kg.relation.'' @ x) (asked_for rs relation_domains))"
  using assms
  by (simp add: child_types_def json_or_def iterate_def asked_for_def default_entities_def default_relations_def
      entity_domains_def relation_domains_def comp_def)

lemma show_nat_inj: "show_nat n = show_nat m \<Longrightarrow> n = m"
  using py_digits_show [of n "[]"] py_digits_show [of m "[]"] by simp

lemma child_id_inj:
  assumes "child_id wid n t = child_id wid m t'"
  shows "n = m"
proof -
  have no: "CHR ''-'' \<notin> set (show_nat k)" for k
  proof
    assume "CHR ''-'' \<in> set (show_nat k)"
    then obtain d :: nat where "d < 10" "CHR ''-'' = char_of (48 + d)" using show_nat_digits by blast
    with digit_char_not(3) [of d] show False by simp
  qed
  have "takeWhile (\<lambda>c. c \<noteq> CHR ''-'') (show_nat k @ CHR ''-'' # u) = show_nat k" for k u
    using no [of k] by (subst takeWhile_append2) auto
  with assms have "show_nat n = show_nat m" unfolding child_id_def by (metis append_Cons append_Nil same_append_eq)
  then show ?thesis by (rule show_nat_inj)
qed

lemma child_ids_later: "x \<in> set (child_ids wid n ts) \<Longrightarrow> \<exists>k t. n \<le> k \<and> x = child_id wid k t"
proof (induction ts arbitrary: n)
  case Nil
  then show ?case by simp
next
  case (Cons t ts)
  then consider "x = child_id wid n t" | "x \<in> set (child_ids wid (Suc n) ts)" by auto
  then show ?case
  proof cases
    case 1
    then show ?thesis by blast
  next
    case 2
    from Cons.IH [OF this] obtain k t' where "Suc n \<le> k" "x = child_id wid k t'" by blast
    then show ?thesis by (intro exI [of _ k] exI [of _ t']) simp
  qed
qed

lemma distinct_child_ids: "distinct (child_ids wid n ts)"
proof (induction ts arbitrary: n)
  case Nil
  then show ?case by simp
next
  case (Cons t ts)
  have "child_id wid n t \<notin> set (child_ids wid (Suc n) ts)"
    using child_id_inj [of wid n t] by (auto dest!: child_ids_later)
  with Cons show ?case by simp
qed

text \<open>The build of the graph.  When each activity gets through within its five attempts, a build runs one child for each
  entity and then for each relation it was asked for, or for all of them, in this order and under identifiers of
  their own, and returns what their pipelines return: the six steps of each with the request as input.\<close>
theorem graph_build_children:
  assumes "\<And>q. reaches en q" and "dget request ''entities'' = JList (map JStr es)"
    and "dget request ''relations'' = JList (map JStr rs)" and "set es \<subseteq> set entity_domains" and "set rs \<subseteq> set relation_domains"
  shows "\<exists>ids. run_graph_build en wid request =
      (ids, Some (Inr (JObj [(''status'', JStr ''completed''), (''children'', JList (map (pipeline_result request)
         (map (Pair ''entity'') (asked_for es entity_domains) @ map (Pair ''relation'') (asked_for rs relation_domains))))]))) \<and>
    distinct ids \<and> length ids = length (asked_for es entity_domains) + length (asked_for rs relation_domains)"
proof -
  let ?es = "asked_for es entity_domains" and ?rs = "asked_for rs relation_domains"
  let ?ts = "map (\<lambda>x. ''kg.entity.'' @ x) ?es @ map (\<lambda>x. ''kg.relation.'' @ x) ?rs"
  have sub: "set ?es \<subseteq> set entity_domains" "set ?rs \<subseteq> set relation_domains" using assms(4,5) by (auto simp: asked_for_def)
  then have known: "list_all (\<lambda>t. map_of domain_workflows t \<noteq> None) ?ts"
    using domain_types by (fastforce simp: list_all_iff)
  have "map (\<lambda>x. pipeline_result request (the (map_of domain_workflows (''kg.entity.'' @ x)))) ?es =
      map (\<lambda>x. pipeline_result request (''entity'', x)) ?es"
    by (rule map_cong [OF refl]) (use sub domain_types(1) in \<open>simp add: subset_iff\<close>)
  moreover have "map (\<lambda>x. pipeline_result request (the (map_of domain_workflows (''kg.relation.'' @ x)))) ?rs =
      map (\<lambda>x. pipeline_result request (''relation'', x)) ?rs"
    by (rule map_cong [OF refl]) (use sub domain_types(2) in \<open>simp add: subset_iff\<close>)
  ultimately have res: "map (\<lambda>t. pipeline_result request (the (map_of domain_workflows t))) ?ts =
      map (pipeline_result request) (map (Pair ''entity'') ?es @ map (Pair ''relation'') ?rs)"
    by (simp only: map_append map_map comp_def)
  have len: "length (child_ids wid n ts) = length ts" for n ts by (induction ts arbitrary: n) simp_all
  show ?thesis
    using run_children_ok [where en = en and request = request and wid = wid and n = 0, OF assms(1) known]
      child_types_asked [OF assms(2,3)] res distinct_child_ids [of wid 0 ?ts] len [of 0 ?ts]
    by (simp add: run_graph_build_def)
qed

definition demo_build_request :: dict where
  "demo_build_request = [(''entities'', JList [JStr ''paper'']), (''relations'', JList [])]"

theorem graph_build_children_witness:
  "length (fst (run_graph_build (\<lambda>q k. if k < 4 then Some ''down'' else None) ''w'' demo_build_request)) = 5"
  using graph_build_children [of "\<lambda>q k. if k < 4 then Some ''down'' else None" demo_build_request "[''paper'']" "[]" "''w''"]
  by (auto simp: reaches_def MAXIMUM_ATTEMPTS_def demo_build_request_def dget_def asked_for_def entity_domains_def
      relation_domains_def upt_rec)

text \<open>A name that no workflow has is not refused: the build waits for its child, and the others are never started.\<close>

lemma unknown_entity_blocks_build:
  "run_graph_build (\<lambda>q k. None) ''w'' [(''entities'', JList [JStr ''papers'', JStr ''paper''])] = ([''w-0-papers''], None)"
  by code_simp

section \<open>From a script to its task\<close>

lemma start_input:
  "start env d p w s = (Inr (i, r), s') \<Longrightarrow>
   \<exists>x \<in> set (wx_runs s'). rr_workflow_id x = i \<and> rr_type x = wd_type d \<and> rr_input x = remote_input d p"
  by (auto simp: start_def Let_def split: option.splits start_answer.splits prod.splits if_splits)

lemma dispatch_input:
  assumes "dispatch env d p w s = (Inr x, s')" and "we_status x = ''RUNNING''"
  shows "\<exists>r \<in> set (wx_runs s'). rr_workflow_id r = we_workflow_id x \<and> rr_type r = wd_type d \<and> rr_input r = remote_input d p"
    and "we_dispatch_mode x = ''TEMPORAL''"
  using assms start_input [of env d p w s]
  by (auto simp: dispatch_def execution_record_def split: sum.splits prod.splits if_splits)

lemma persisted:
  assumes "execute_definition env d p w True s = (Inr x, s1)"
  obtains x0 s' t where "dispatch env d p w s = (Inr x0, s')" and "x = x0\<lparr>we_task_id := Some (wt_id t)\<rparr>"
    and "s1 = save_execution x (save_task t (save_execution x0 s'))" and "wt_id t \<noteq> []"
proof -
  obtain r s' where q: "dispatch env d p w s = (r, s')" by (cases "dispatch env d p w s")
  with assms obtain x0 where r: "r = Inr x0" by (cases r) (simp_all add: execute_definition_def)
  let ?t = "job_task env d x0 p (wd_title d) zh_job_run [] (json_or (dget p ''since'') (JStr ''latest-cursor'')) (wd_key d)"
  have "wt_id ?t \<noteq> []" by (simp add: job_task_def)
  with assms q r show thesis by (intro that [of x0 s' ?t]) (auto simp: execute_definition_def Let_def)
qed

lemma save_rows:
  "repo_get_execution i (save_execution e s) = (if i = we_id e then Some e else repo_get_execution i s)"
  "repo_get_execution i (save_task t s) = repo_get_execution i s"
  "get_task j (save_task t s) = (if j = wt_id t then Some t else get_task j s)"
  "get_task j (save_execution e s) = get_task j s"
  "repo_get_definition k (save_task t s) = repo_get_definition k s"
  "repo_get_definition k (save_execution e s) = repo_get_definition k s"
  by (simp_all add: repo_get_execution_def get_task_def repo_get_definition_def wf_frame table_simps)

lemma completed_refresh:
  assumes "repo_get_execution i s = Some x" and "we_status x = ''RUNNING''" and "we_dispatch_mode x = ''TEMPORAL''"
    and "we_task_id x = Some k" and "k \<noteq> []" and "get_task k s = Some t"
    and "map_of o' ''stages'' = Some (JList xs)"
  shows "\<exists>t'. get_task k (snd (get_execution (Described ''COMPLETED'' (ResultOk (JObj o'))) now i s)) = Some t' \<and>
    wt_steps t' = xs \<and> wt_output t' = JObj o' \<and> wt_task_status t' = zh_run_done \<and> wt_status t' = zh_done"
proof -
  let ?x = "x\<lparr>we_status := ''COMPLETED'', we_completed_at := Some now, we_output := Some (JObj o'), we_message := zh_wf_finished\<rparr>"
  have e: "get_execution (Described ''COMPLETED'' (ResultOk (JObj o'))) now i s =
      (Some ?x, sync_task_from_execution ?x (save_execution ?x (s\<lparr>wx_client := True\<rparr>)))"
    using assms(1-3) by (simp add: get_execution_eq finish_refresh_def refresh_execution_def Let_def)
  have "get_task k (save_execution ?x (s\<lparr>wx_client := True\<rparr>)) = Some t"
    using assms(6) by (simp add: save_rows) (simp add: get_task_def)
  moreover have "stages_of ?x = Some xs" using assms(7) by (simp add: stages_of_def)
  moreover have "wt_id t = k" using assms(6) by (auto simp: get_task_def dest: tbl_get_Some)
  ultimately show ?thesis
    unfolding e using assms(4,5)
    by (simp add: sync_task_from_execution_def opt_truthy_def opt_str_def save_rows reported_task_def final_status_def Let_def)
qed

text \<open>C26: Stages reach the task.  When a Python workflow was executed and handed over, the worker runs the script of its
  definition with the payload of the request, and when the script ends well and reports stages, the next
  look at the execution after the end puts these stages into the task of the execution and completes it.\<close>
theorem stages_reach_task:
  assumes "repo_get_definition i s = Some d" and "wd_source d = PythonSource f p t"
    and "execute_definition env d payload wid True s = (Inr x, s1)" and "we_status x = ''RUNNING''"
    and "is_file p" and "ends 0 = ScriptExit 0 err out" and "out \<noteq> []" and "loads out = Inr (JObj o')"
    and "map_of o' ''stages'' = Some (JList xs)"
  shows "(\<exists>r \<in> set (wx_runs s1). rr_workflow_id r = we_workflow_id x \<and> rr_type r = wd_type d \<and>
       run_python loads is_file ends (\<lambda>_. s1) (rr_input r) = Some (Inr (JObj o'))) \<and>
    (\<exists>t'. get_task (opt_str (we_task_id x)) (snd (get_execution (Described ''COMPLETED'' (ResultOk (JObj o'))) now (we_id x) s1)) =
         Some t' \<and> wt_steps t' = xs \<and> wt_output t' = JObj o' \<and> wt_task_status t' = zh_run_done \<and> wt_status t' = zh_done)"
proof -
  obtain x0 s' k where q: "dispatch env d payload wid s = (Inr x0, s')" "x = x0\<lparr>we_task_id := Some (wt_id k)\<rparr>"
    "s1 = save_execution x (save_task k (save_execution x0 s'))" "wt_id k \<noteq> []"
    by (rule persisted [OF assms(3)])
  have st: "we_status x0 = ''RUNNING''" using assms(4) q(2) by simp
  have key: "wd_key d = i" using assms(1) by (auto simp: repo_get_definition_def dest: tbl_get_Some)
  have "repo_get_definition i s' = Some d"
    using assms(1) engine_onlyD(4) [OF dispatch_engine [OF q(1)]] by (simp add: repo_get_definition_def)
  then have def: "repo_get_definition i s1 = Some d" by (simp add: q(3) save_rows)
  from dispatch_input(1) [OF q(1) st] obtain r where r: "r \<in> set (wx_runs s1)" "rr_workflow_id r = we_workflow_id x"
    "rr_type r = wd_type d" "rr_input r = [(''definitionId'', JStr i), (''payload'', JObj payload)]"
    using assms(2) key by (auto simp: q(2,3) wf_frame remote_input_def)
  have "run_python loads is_file ends (\<lambda>_. s1) (rr_input r) = Some (Inr (JObj o'))"
    using assms(2,5-8) def by (simp add: r(4) run_python_def run_activity_def MAXIMUM_ATTEMPTS_def
        load_workflow_definition_def execute_python_script_def eval_nat_numeral)
  moreover have rows: "repo_get_execution (we_id x) s1 = Some x" "get_task (wt_id k) s1 = Some k"
    by (simp_all add: q(3) save_rows)
  have "\<exists>t'. get_task (wt_id k) (snd (get_execution (Described ''COMPLETED'' (ResultOk (JObj o'))) now (we_id x) s1)) = Some t' \<and>
      wt_steps t' = xs \<and> wt_output t' = JObj o' \<and> wt_task_status t' = zh_run_done \<and> wt_status t' = zh_done"
    by (rule completed_refresh [OF rows(1) assms(4) _ _ q(4) rows(2) assms(9)])
      (use dispatch_input(2) [OF q(1) st] in \<open>simp_all add: q(2)\<close>)
  ultimately show ?thesis using r(1-3) by (auto simp: q(2) opt_str_def)
qed

lemma demo_execution:
  "case fst (execute_definition (wf_demo_env ''1'' (StartDone None)) wf_demo_python [] None True wf_demo_state) of
     Inl e \<Rightarrow> False
   | Inr x \<Rightarrow> we_status x = ''RUNNING'' \<and> we_id x = ''EXEC-1'' \<and> we_task_id x = Some ''PI-d-1''"
  by code_simp

theorem stages_reach_task_witness:
  "\<exists>t'. get_task ''PI-d-1'' (snd (get_execution (Described ''COMPLETED'' (ResultOk (JObj [(''stages'', JList [JStr ''a''])]))) ''n''
       ''EXEC-1'' (snd (execute_definition (wf_demo_env ''1'' (StartDone None)) wf_demo_python [] None True wf_demo_state)))) =
     Some t' \<and> wt_steps t' = [JStr ''a''] \<and> wt_task_status t' = zh_run_done"
proof -
  obtain r s1 where q: "execute_definition (wf_demo_env ''1'' (StartDone None)) wf_demo_python [] None True wf_demo_state = (r, s1)"
    by (cases "execute_definition (wf_demo_env ''1'' (StartDone None)) wf_demo_python [] None True wf_demo_state")
  with demo_execution obtain x where x: "r = Inr x" "we_status x = ''RUNNING''" "we_id x = ''EXEC-1''" "we_task_id x = Some ''PI-d-1''"
    by (cases r) auto
  have d: "repo_get_definition ''py-double'' wf_demo_state = Some wf_demo_python"
    "wd_source wf_demo_python = PythonSource ''workflow'' ''/d/py-double.py'' 60"
    by (simp_all add: repo_get_definition_def wf_demo_state_def wf_demo_build_def wf_demo_python_def builtin_definition_def)
  from stages_reach_task [OF d q [unfolded x(1)] x(2), where is_file = "\<lambda>p. True" and err = "[]"
      and ends = "\<lambda>k. ScriptExit 0 [] ''x''" and out = "''x''"
      and loads = "\<lambda>t. Inr (JObj [(''stages'', JList [JStr ''a''])])" and o' = "[(''stages'', JList [JStr ''a''])]"
      and xs = "[JStr ''a'']" and now = "''n''"]
  show ?thesis by (auto simp: q x opt_str_def)
qed
end
