(* ===== verification/Etl_Tables.thy ===== *)
theory Etl_Tables
  imports Prelude
begin

text \<open>
  The tables of the organization ETL (script/organization\_etl\_common.py and organization\_entity\_etl.py):
  which source tables there are, what entity and which relations each carries, and the names and
  marks that the checks of rows look for.  Chinese texts are UTF-8 bytes.
\<close>

section \<open>Source tables\<close>

record table_spec =
  ts_name :: string
  ts_cn_name :: string
  ts_scope :: string
  ts_entity_tag :: "string option"
  ts_entity_kind :: string
  ts_raw_id_fields :: "string list"

definition cn_org_base_info :: string where
  \<comment> \<open>U+673A U+6784 U+57FA U+672C U+4FE1 U+606F\<close>
  "cn_org_base_info =
     [CHR 0xE6, CHR 0x9C, CHR 0xBA, CHR 0xE6, CHR 0x9E, CHR 0x84, CHR 0xE5, CHR 0x9F, CHR 0xBA, CHR 0xE6, CHR 0x9C,
      CHR 0xAC, CHR 0xE4, CHR 0xBF, CHR 0xA1, CHR 0xE6, CHR 0x81, CHR 0xAF]"

definition cn_org_shareholder_info :: string where
  \<comment> \<open>U+56FD U+5185 U+673A U+6784 U+80A1 U+4E1C U+4FE1 U+606F\<close>
  "cn_org_shareholder_info =
     [CHR 0xE5, CHR 0x9B, CHR 0xBD, CHR 0xE5, CHR 0x86, CHR 0x85, CHR 0xE6, CHR 0x9C, CHR 0xBA, CHR 0xE6, CHR 0x9E,
      CHR 0x84, CHR 0xE8, CHR 0x82, CHR 0xA1, CHR 0xE4, CHR 0xB8, CHR 0x9C, CHR 0xE4, CHR 0xBF, CHR 0xA1, CHR 0xE6,
      CHR 0x81, CHR 0xAF]"

definition cn_org_executive_info :: string where
  \<comment> \<open>U+56FD U+5185 U+673A U+6784 U+9AD8 U+7BA1 U+4FE1 U+606F\<close>
  "cn_org_executive_info =
     [CHR 0xE5, CHR 0x9B, CHR 0xBD, CHR 0xE5, CHR 0x86, CHR 0x85, CHR 0xE6, CHR 0x9C, CHR 0xBA, CHR 0xE6, CHR 0x9E,
      CHR 0x84, CHR 0xE9, CHR 0xAB, CHR 0x98, CHR 0xE7, CHR 0xAE, CHR 0xA1, CHR 0xE4, CHR 0xBF, CHR 0xA1, CHR 0xE6,
      CHR 0x81, CHR 0xAF]"

definition cn_org_org_product_info :: string where
  \<comment> \<open>U+56FD U+5185 U+673A U+6784 U+7ECF U+8425 U+4FE1 U+606F\<close>
  "cn_org_org_product_info =
     [CHR 0xE5, CHR 0x9B, CHR 0xBD, CHR 0xE5, CHR 0x86, CHR 0x85, CHR 0xE6, CHR 0x9C, CHR 0xBA, CHR 0xE6, CHR 0x9E,
      CHR 0x84, CHR 0xE7, CHR 0xBB, CHR 0x8F, CHR 0xE8, CHR 0x90, CHR 0xA5, CHR 0xE4, CHR 0xBF, CHR 0xA1, CHR 0xE6,
      CHR 0x81, CHR 0xAF]"

definition cn_org_annual_financial_info :: string where
  \<comment> \<open>U+5E74 U+62A5 U+8D22 U+52A1 U+4FE1 U+606F\<close>
  "cn_org_annual_financial_info =
     [CHR 0xE5, CHR 0xB9, CHR 0xB4, CHR 0xE6, CHR 0x8A, CHR 0xA5, CHR 0xE8, CHR 0xB4, CHR 0xA2, CHR 0xE5, CHR 0x8A,
      CHR 0xA1, CHR 0xE4, CHR 0xBF, CHR 0xA1, CHR 0xE6, CHR 0x81, CHR 0xAF]"

definition cn_org_important_news_info :: string where
  \<comment> \<open>U+91CD U+70B9 U+8D44 U+8BAF\<close>
  "cn_org_important_news_info =
     [CHR 0xE9, CHR 0x87, CHR 0x8D, CHR 0xE7, CHR 0x82, CHR 0xB9, CHR 0xE8, CHR 0xB5, CHR 0x84, CHR 0xE8, CHR 0xAE,
      CHR 0xAF]"

definition cn_org_changerecord_info :: string where
  \<comment> \<open>U+5DE5 U+5546 U+53D8 U+66F4\<close>
  "cn_org_changerecord_info =
     [CHR 0xE5, CHR 0xB7, CHR 0xA5, CHR 0xE5, CHR 0x95, CHR 0x86, CHR 0xE5, CHR 0x8F, CHR 0x98, CHR 0xE6, CHR 0x9B,
      CHR 0xB4]"

definition cn_org_merger_acquisition_info :: string where
  \<comment> \<open>U+5E76 U+8D2D U+4E8B U+4EF6\<close>
  "cn_org_merger_acquisition_info =
     [CHR 0xE5, CHR 0xB9, CHR 0xB6, CHR 0xE8, CHR 0xB4, CHR 0xAD, CHR 0xE4, CHR 0xBA, CHR 0x8B, CHR 0xE4, CHR 0xBB,
      CHR 0xB6]"

definition cn_org_financing_info :: string where
  \<comment> \<open>U+878D U+8D44 U+4E8B U+4EF6\<close>
  "cn_org_financing_info =
     [CHR 0xE8, CHR 0x9E, CHR 0x8D, CHR 0xE8, CHR 0xB5, CHR 0x84, CHR 0xE4, CHR 0xBA, CHR 0x8B, CHR 0xE4, CHR 0xBB,
      CHR 0xB6]"

definition cn_org_invest_info :: string where
  \<comment> \<open>U+6295 U+8D44 U+4E8B U+4EF6\<close>
  "cn_org_invest_info =
     [CHR 0xE6, CHR 0x8A, CHR 0x95, CHR 0xE8, CHR 0xB5, CHR 0x84, CHR 0xE4, CHR 0xBA, CHR 0x8B, CHR 0xE4, CHR 0xBB,
      CHR 0xB6]"

definition cn_org_recruit_info :: string where
  \<comment> \<open>U+62DB U+8058 U+4FE1 U+606F\<close>
  "cn_org_recruit_info =
     [CHR 0xE6, CHR 0x8B, CHR 0x9B, CHR 0xE8, CHR 0x81, CHR 0x98, CHR 0xE4, CHR 0xBF, CHR 0xA1, CHR 0xE6, CHR 0x81,
      CHR 0xAF]"

definition cn_org_heis_info :: string where
  \<comment> \<open>U+9AD8 U+6821 U+57FA U+672C U+4FE1 U+606F\<close>
  "cn_org_heis_info =
     [CHR 0xE9, CHR 0xAB, CHR 0x98, CHR 0xE6, CHR 0xA0, CHR 0xA1, CHR 0xE5, CHR 0x9F, CHR 0xBA, CHR 0xE6, CHR 0x9C,
      CHR 0xAC, CHR 0xE4, CHR 0xBF, CHR 0xA1, CHR 0xE6, CHR 0x81, CHR 0xAF]"

definition cn_org_stock_base :: string where
  \<comment> \<open>U+4E0A U+5E02 U+4F01 U+4E1A U+57FA U+672C U+4FE1 U+606F\<close>
  "cn_org_stock_base =
     [CHR 0xE4, CHR 0xB8, CHR 0x8A, CHR 0xE5, CHR 0xB8, CHR 0x82, CHR 0xE4, CHR 0xBC, CHR 0x81, CHR 0xE4, CHR 0xB8,
      CHR 0x9A, CHR 0xE5, CHR 0x9F, CHR 0xBA, CHR 0xE6, CHR 0x9C, CHR 0xAC, CHR 0xE4, CHR 0xBF, CHR 0xA1, CHR 0xE6,
      CHR 0x81, CHR 0xAF]"

definition cn_org_stock_finance_info :: string where
  \<comment> \<open>U+4E0A U+5E02 U+4F01 U+4E1A U+8D22 U+52A1 U+4FE1 U+606F\<close>
  "cn_org_stock_finance_info =
     [CHR 0xE4, CHR 0xB8, CHR 0x8A, CHR 0xE5, CHR 0xB8, CHR 0x82, CHR 0xE4, CHR 0xBC, CHR 0x81, CHR 0xE4, CHR 0xB8,
      CHR 0x9A, CHR 0xE8, CHR 0xB4, CHR 0xA2, CHR 0xE5, CHR 0x8A, CHR 0xA1, CHR 0xE4, CHR 0xBF, CHR 0xA1, CHR 0xE6,
      CHR 0x81, CHR 0xAF]"

definition cn_org_company_abnormal :: string where
  \<comment> \<open>U+7ECF U+8425 U+5F02 U+5E38\<close>
  "cn_org_company_abnormal =
     [CHR 0xE7, CHR 0xBB, CHR 0x8F, CHR 0xE8, CHR 0x90, CHR 0xA5, CHR 0xE5, CHR 0xBC, CHR 0x82, CHR 0xE5, CHR 0xB8,
      CHR 0xB8]"

definition cn_org_company_punish :: string where
  \<comment> \<open>U+884C U+653F U+5904 U+7F5A\<close>
  "cn_org_company_punish =
     [CHR 0xE8, CHR 0xA1, CHR 0x8C, CHR 0xE6, CHR 0x94, CHR 0xBF, CHR 0xE5, CHR 0xA4, CHR 0x84, CHR 0xE7, CHR 0xBD,
      CHR 0x9A]"

definition cn_org_company_illegal :: string where
  \<comment> \<open>U+4E25 U+91CD U+8FDD U+6CD5\<close>
  "cn_org_company_illegal =
     [CHR 0xE4, CHR 0xB8, CHR 0xA5, CHR 0xE9, CHR 0x87, CHR 0x8D, CHR 0xE8, CHR 0xBF, CHR 0x9D, CHR 0xE6, CHR 0xB3,
      CHR 0x95]"

definition cn_org_risk_tax_punish :: string where
  \<comment> \<open>U+7A0E U+6536 U+8FDD U+6CD5\<close>
  "cn_org_risk_tax_punish =
     [CHR 0xE7, CHR 0xA8, CHR 0x8E, CHR 0xE6, CHR 0x94, CHR 0xB6, CHR 0xE8, CHR 0xBF, CHR 0x9D, CHR 0xE6, CHR 0xB3,
      CHR 0x95]"

definition cn_org_opt_judicial_case :: string where
  \<comment> \<open>U+53F8 U+6CD5 U+6848 U+4EF6\<close>
  "cn_org_opt_judicial_case =
     [CHR 0xE5, CHR 0x8F, CHR 0xB8, CHR 0xE6, CHR 0xB3, CHR 0x95, CHR 0xE6, CHR 0xA1, CHR 0x88, CHR 0xE4, CHR 0xBB,
      CHR 0xB6]"

definition cn_org_risk_shixin :: string where
  \<comment> \<open>U+5931 U+4FE1 U+88AB U+6267 U+884C U+4EBA\<close>
  "cn_org_risk_shixin =
     [CHR 0xE5, CHR 0xA4, CHR 0xB1, CHR 0xE4, CHR 0xBF, CHR 0xA1, CHR 0xE8, CHR 0xA2, CHR 0xAB, CHR 0xE6, CHR 0x89,
      CHR 0xA7, CHR 0xE8, CHR 0xA1, CHR 0x8C, CHR 0xE4, CHR 0xBA, CHR 0xBA]"

definition cn_org_risk_zhixing :: string where
  \<comment> \<open>U+88AB U+6267 U+884C U+4EBA\<close>
  "cn_org_risk_zhixing =
     [CHR 0xE8, CHR 0xA2, CHR 0xAB, CHR 0xE6, CHR 0x89, CHR 0xA7, CHR 0xE8, CHR 0xA1, CHR 0x8C, CHR 0xE4, CHR 0xBA,
      CHR 0xBA]"

definition cn_org_bankruptcy_public_cases :: string where
  \<comment> \<open>U+7834 U+4EA7 U+6848 U+4EF6\<close>
  "cn_org_bankruptcy_public_cases =
     [CHR 0xE7, CHR 0xA0, CHR 0xB4, CHR 0xE4, CHR 0xBA, CHR 0xA7, CHR 0xE6, CHR 0xA1, CHR 0x88, CHR 0xE4, CHR 0xBB,
      CHR 0xB6]"

definition cn_org_bankruptcy_public_cases_list :: string where
  \<comment> \<open>U+7834 U+4EA7 U+6848 U+4EF6 U+5F53 U+4E8B U+4EBA\<close>
  "cn_org_bankruptcy_public_cases_list =
     [CHR 0xE7, CHR 0xA0, CHR 0xB4, CHR 0xE4, CHR 0xBA, CHR 0xA7, CHR 0xE6, CHR 0xA1, CHR 0x88, CHR 0xE4, CHR 0xBB,
      CHR 0xB6, CHR 0xE5, CHR 0xBD, CHR 0x93, CHR 0xE4, CHR 0xBA, CHR 0x8B, CHR 0xE4, CHR 0xBA, CHR 0xBA]"

definition cn_special_hongkong_company :: string where
  \<comment> \<open>U+9999 U+6E2F U+4F01 U+4E1A\<close>
  "cn_special_hongkong_company =
     [CHR 0xE9, CHR 0xA6, CHR 0x99, CHR 0xE6, CHR 0xB8, CHR 0xAF, CHR 0xE4, CHR 0xBC, CHR 0x81, CHR 0xE4, CHR 0xB8,
      CHR 0x9A]"

definition cn_special_taiwan_company :: string where
  \<comment> \<open>U+53F0 U+6E7E U+4F01 U+4E1A\<close>
  "cn_special_taiwan_company =
     [CHR 0xE5, CHR 0x8F, CHR 0xB0, CHR 0xE6, CHR 0xB9, CHR 0xBE, CHR 0xE4, CHR 0xBC, CHR 0x81, CHR 0xE4, CHR 0xB8,
      CHR 0x9A]"

definition cn_special_aomen_company :: string where
  \<comment> \<open>U+6FB3 U+95E8 U+4F01 U+4E1A\<close>
  "cn_special_aomen_company =
     [CHR 0xE6, CHR 0xBE, CHR 0xB3, CHR 0xE9, CHR 0x97, CHR 0xA8, CHR 0xE4, CHR 0xBC, CHR 0x81, CHR 0xE4, CHR 0xB8,
      CHR 0x9A]"

definition cn_bid_base_out :: string where
  \<comment> \<open>U+62DB U+6295 U+6807 U+516C U+544A\<close>
  "cn_bid_base_out =
     [CHR 0xE6, CHR 0x8B, CHR 0x9B, CHR 0xE6, CHR 0x8A, CHR 0x95, CHR 0xE6, CHR 0xA0, CHR 0x87, CHR 0xE5, CHR 0x85,
      CHR 0xAC, CHR 0xE5, CHR 0x91, CHR 0x8A]"

definition cn_bid_win_candidate_out :: string where
  \<comment> \<open>U+4E2D U+6807 U+5019 U+9009 U+4EBA\<close>
  "cn_bid_win_candidate_out =
     [CHR 0xE4, CHR 0xB8, CHR 0xAD, CHR 0xE6, CHR 0xA0, CHR 0x87, CHR 0xE5, CHR 0x80, CHR 0x99, CHR 0xE9, CHR 0x80,
      CHR 0x89, CHR 0xE4, CHR 0xBA, CHR 0xBA]"

definition cn_bid_purchase_agency_out :: string where
  \<comment> \<open>U+91C7 U+8D2D U+4EE3 U+7406\<close>
  "cn_bid_purchase_agency_out =
     [CHR 0xE9, CHR 0x87, CHR 0x87, CHR 0xE8, CHR 0xB4, CHR 0xAD, CHR 0xE4, CHR 0xBB, CHR 0xA3, CHR 0xE7, CHR 0x90,
      CHR 0x86]"

definition cn_bid_target_item_out :: string where
  \<comment> \<open>U+62DB U+6295 U+6807 U+6807 U+7684 U+7269\<close>
  "cn_bid_target_item_out =
     [CHR 0xE6, CHR 0x8B, CHR 0x9B, CHR 0xE6, CHR 0x8A, CHR 0x95, CHR 0xE6, CHR 0xA0, CHR 0x87, CHR 0xE6, CHR 0xA0,
      CHR 0x87, CHR 0xE7, CHR 0x9A, CHR 0x84, CHR 0xE7, CHR 0x89, CHR 0xA9]"

definition cn_research_institute_base_info :: string where
  \<comment> \<open>U+79D1 U+7814 U+673A U+6784 U+57FA U+672C U+4FE1 U+606F\<close>
  "cn_research_institute_base_info =
     [CHR 0xE7, CHR 0xA7, CHR 0x91, CHR 0xE7, CHR 0xA0, CHR 0x94, CHR 0xE6, CHR 0x9C, CHR 0xBA, CHR 0xE6, CHR 0x9E,
      CHR 0x84, CHR 0xE5, CHR 0x9F, CHR 0xBA, CHR 0xE6, CHR 0x9C, CHR 0xAC, CHR 0xE4, CHR 0xBF, CHR 0xA1, CHR 0xE6,
      CHR 0x81, CHR 0xAF]"

definition cn_forg_base_info :: string where
  \<comment> \<open>U+6D77 U+5916 U+673A U+6784 U+57FA U+672C U+4FE1 U+606F\<close>
  "cn_forg_base_info =
     [CHR 0xE6, CHR 0xB5, CHR 0xB7, CHR 0xE5, CHR 0xA4, CHR 0x96, CHR 0xE6, CHR 0x9C, CHR 0xBA, CHR 0xE6, CHR 0x9E,
      CHR 0x84, CHR 0xE5, CHR 0x9F, CHR 0xBA, CHR 0xE6, CHR 0x9C, CHR 0xAC, CHR 0xE4, CHR 0xBF, CHR 0xA1, CHR 0xE6,
      CHR 0x81, CHR 0xAF]"

definition cn_forg_shareholder_info :: string where
  \<comment> \<open>U+6D77 U+5916 U+673A U+6784 U+80A1 U+4E1C U+4FE1 U+606F\<close>
  "cn_forg_shareholder_info =
     [CHR 0xE6, CHR 0xB5, CHR 0xB7, CHR 0xE5, CHR 0xA4, CHR 0x96, CHR 0xE6, CHR 0x9C, CHR 0xBA, CHR 0xE6, CHR 0x9E,
      CHR 0x84, CHR 0xE8, CHR 0x82, CHR 0xA1, CHR 0xE4, CHR 0xB8, CHR 0x9C, CHR 0xE4, CHR 0xBF, CHR 0xA1, CHR 0xE6,
      CHR 0x81, CHR 0xAF]"

definition cn_forg_subsidiary_info :: string where
  \<comment> \<open>U+6D77 U+5916 U+673A U+6784 U+5B50 U+516C U+53F8\<close>
  "cn_forg_subsidiary_info =
     [CHR 0xE6, CHR 0xB5, CHR 0xB7, CHR 0xE5, CHR 0xA4, CHR 0x96, CHR 0xE6, CHR 0x9C, CHR 0xBA, CHR 0xE6, CHR 0x9E,
      CHR 0x84, CHR 0xE5, CHR 0xAD, CHR 0x90, CHR 0xE5, CHR 0x85, CHR 0xAC, CHR 0xE5, CHR 0x8F, CHR 0xB8]"

definition cn_forg_executive_info :: string where
  \<comment> \<open>U+6D77 U+5916 U+673A U+6784 U+9AD8 U+7BA1 U+4FE1 U+606F\<close>
  "cn_forg_executive_info =
     [CHR 0xE6, CHR 0xB5, CHR 0xB7, CHR 0xE5, CHR 0xA4, CHR 0x96, CHR 0xE6, CHR 0x9C, CHR 0xBA, CHR 0xE6, CHR 0x9E,
      CHR 0x84, CHR 0xE9, CHR 0xAB, CHR 0x98, CHR 0xE7, CHR 0xAE, CHR 0xA1, CHR 0xE4, CHR 0xBF, CHR 0xA1, CHR 0xE6,
      CHR 0x81, CHR 0xAF]"

definition cn_forg_product_info :: string where
  \<comment> \<open>U+6D77 U+5916 U+673A U+6784 U+7ECF U+8425 U+4FE1 U+606F\<close>
  "cn_forg_product_info =
     [CHR 0xE6, CHR 0xB5, CHR 0xB7, CHR 0xE5, CHR 0xA4, CHR 0x96, CHR 0xE6, CHR 0x9C, CHR 0xBA, CHR 0xE6, CHR 0x9E,
      CHR 0x84, CHR 0xE7, CHR 0xBB, CHR 0x8F, CHR 0xE8, CHR 0x90, CHR 0xA5, CHR 0xE4, CHR 0xBF, CHR 0xA1, CHR 0xE6,
      CHR 0x81, CHR 0xAF]"

definition cn_forg_beneficiary_info :: string where
  \<comment> \<open>U+6D77 U+5916 U+673A U+6784 U+53D7 U+76CA U+4EBA\<close>
  "cn_forg_beneficiary_info =
     [CHR 0xE6, CHR 0xB5, CHR 0xB7, CHR 0xE5, CHR 0xA4, CHR 0x96, CHR 0xE6, CHR 0x9C, CHR 0xBA, CHR 0xE6, CHR 0x9E,
      CHR 0x84, CHR 0xE5, CHR 0x8F, CHR 0x97, CHR 0xE7, CHR 0x9B, CHR 0x8A, CHR 0xE4, CHR 0xBA, CHR 0xBA]"

definition cn_forg_act_contro_info :: string where
  \<comment> \<open>U+6D77 U+5916 U+673A U+6784 U+5B9E U+9645 U+63A7 U+5236 U+4EBA\<close>
  "cn_forg_act_contro_info =
     [CHR 0xE6, CHR 0xB5, CHR 0xB7, CHR 0xE5, CHR 0xA4, CHR 0x96, CHR 0xE6, CHR 0x9C, CHR 0xBA, CHR 0xE6, CHR 0x9E,
      CHR 0x84, CHR 0xE5, CHR 0xAE, CHR 0x9E, CHR 0xE9, CHR 0x99, CHR 0x85, CHR 0xE6, CHR 0x8E, CHR 0xA7, CHR 0xE5,
      CHR 0x88, CHR 0xB6, CHR 0xE4, CHR 0xBA, CHR 0xBA]"

definition cn_forg_stock_fin_info :: string where
  \<comment> \<open>U+6D77 U+5916 U+4E0A U+5E02 U+4F01 U+4E1A U+8D22 U+52A1 U+4FE1 U+606F\<close>
  "cn_forg_stock_fin_info =
     [CHR 0xE6, CHR 0xB5, CHR 0xB7, CHR 0xE5, CHR 0xA4, CHR 0x96, CHR 0xE4, CHR 0xB8, CHR 0x8A, CHR 0xE5, CHR 0xB8,
      CHR 0x82, CHR 0xE4, CHR 0xBC, CHR 0x81, CHR 0xE4, CHR 0xB8, CHR 0x9A, CHR 0xE8, CHR 0xB4, CHR 0xA2, CHR 0xE5,
      CHR 0x8A, CHR 0xA1, CHR 0xE4, CHR 0xBF, CHR 0xA1, CHR 0xE6, CHR 0x81, CHR 0xAF]"

definition domain_spec :: "string \<Rightarrow> string \<Rightarrow> string \<Rightarrow> string option \<Rightarrow> string \<Rightarrow> string list \<Rightarrow> table_spec" where
  "domain_spec n c sc t k fs = \<lparr>ts_name = n, ts_cn_name = c, ts_scope = sc, ts_entity_tag = t, ts_entity_kind = k,
     ts_raw_id_fields = fs\<rparr>"

definition organization_tables :: "table_spec list" where
  "organization_tables =
     [domain_spec ''dwd_org_base_info'' cn_org_base_info ''domestic'' (Some ''Organization'') ''organization''
        [],
      domain_spec ''dwd_org_shareholder_info'' cn_org_shareholder_info ''domestic'' (Some ''Person'') ''shareholder''
        [],
      domain_spec ''dwd_org_executive_info'' cn_org_executive_info ''domestic'' (Some ''Person'') ''executive''
        [],
      domain_spec ''dwd_org_org_product_info'' cn_org_org_product_info ''domestic'' (Some ''Organization'') ''organization_enrichment''
        [],
      domain_spec ''dwd_org_annual_financial_info'' cn_org_annual_financial_info ''domestic'' (Some ''Event'') ''annual_finance''
        [''org_id'', ''year''],
      domain_spec ''dwd_org_important_news_info'' cn_org_important_news_info ''domestic'' (Some ''News'') ''news''
        [],
      domain_spec ''dwd_org_changerecord_info'' cn_org_changerecord_info ''domestic'' (Some ''Event'') ''change_record''
        [''org_id'', ''update_date'', ''update_content''],
      domain_spec ''dwd_org_merger_acquisition_info'' cn_org_merger_acquisition_info ''domestic'' None ''relation''
        [],
      domain_spec ''dwd_org_financing_info'' cn_org_financing_info ''domestic'' (Some ''Event'') ''financing''
        [''org_id'', ''completion_date'', ''funding_round''],
      domain_spec ''dwd_org_invest_info'' cn_org_invest_info ''domestic'' None ''relation''
        [],
      domain_spec ''dwd_org_recruit_info'' cn_org_recruit_info ''domestic'' (Some ''Event'') ''recruit''
        [''org_id'', ''release_date'', ''job_title''],
      domain_spec ''dwd_org_heis_info'' cn_org_heis_info ''domestic'' (Some ''Organization'') ''organization''
        [],
      domain_spec ''dwd_org_stock_base'' cn_org_stock_base ''domestic'' (Some ''Organization'') ''organization_enrichment''
        []]"

definition risk_tables :: "table_spec list" where
  "risk_tables =
     [domain_spec ''dwd_org_stock_finance_info'' cn_org_stock_finance_info ''domestic'' (Some ''Event'') ''stock_finance''
        [''org_id'', ''occur_period''],
      domain_spec ''dwd_org_company_abnormal'' cn_org_company_abnormal ''domestic'' (Some ''Event'') ''abnormal''
        [''abnormal_id''],
      domain_spec ''dwd_org_company_punish'' cn_org_company_punish ''domestic'' (Some ''Event'') ''punish''
        [''penalty_id''],
      domain_spec ''dwd_org_company_illegal'' cn_org_company_illegal ''domestic'' (Some ''Event'') ''illegal''
        [''sv_id''],
      domain_spec ''dwd_org_risk_tax_punish'' cn_org_risk_tax_punish ''domestic'' (Some ''Event'') ''tax_punish''
        [''tax_vio_id''],
      domain_spec ''dwd_org_opt_judicial_case'' cn_org_opt_judicial_case ''domestic'' (Some ''Event'') ''judicial_case''
        [''case_id''],
      domain_spec ''dwd_org_risk_shixin'' cn_org_risk_shixin ''domestic'' (Some ''Event'') ''shixin''
        [''dishonest_id''],
      domain_spec ''dwd_org_risk_zhixing'' cn_org_risk_zhixing ''domestic'' (Some ''Event'') ''zhixing''
        [''exec_person_id''],
      domain_spec ''dwd_org_bankruptcy_public_cases'' cn_org_bankruptcy_public_cases ''domestic'' (Some ''Event'') ''bankruptcy''
        [''case_no''],
      domain_spec ''dwd_org_bankruptcy_public_cases_list'' cn_org_bankruptcy_public_cases_list ''domestic'' None ''relation''
        [],
      domain_spec ''dwd_special_hongkong_company'' cn_special_hongkong_company ''domestic'' (Some ''Organization'') ''organization''
        [],
      domain_spec ''dwd_special_taiwan_company'' cn_special_taiwan_company ''domestic'' (Some ''Organization'') ''organization''
        [],
      domain_spec ''dwd_special_aomen_company'' cn_special_aomen_company ''domestic'' (Some ''Organization'') ''organization''
        []]"

definition bid_tables :: "table_spec list" where
  "bid_tables =
     [domain_spec ''dwd_bid_base_out'' cn_bid_base_out ''domestic'' (Some ''Event'') ''bid''
        [''u_id''],
      domain_spec ''dwd_bid_win_candidate_out'' cn_bid_win_candidate_out ''domestic'' None ''relation''
        [],
      domain_spec ''dwd_bid_purchase_agency_out'' cn_bid_purchase_agency_out ''domestic'' None ''relation''
        [],
      domain_spec ''dwd_bid_target_item_out'' cn_bid_target_item_out ''domestic'' (Some ''Event'') ''bid_item''
        [''u_id'', ''target_item_name'', ''bid_section_number''],
      domain_spec ''dwd_research_institute_base_info'' cn_research_institute_base_info ''domestic'' (Some ''Organization'') ''organization''
        []]"

definition foreign_tables :: "table_spec list" where
  "foreign_tables =
     [domain_spec ''dwd_forg_base_info'' cn_forg_base_info ''foreign'' (Some ''Organization'') ''organization''
        [],
      domain_spec ''dwd_forg_shareholder_info'' cn_forg_shareholder_info ''foreign'' None ''relation''
        [],
      domain_spec ''dwd_forg_subsidiary_info'' cn_forg_subsidiary_info ''foreign'' None ''relation''
        [],
      domain_spec ''dwd_forg_executive_info'' cn_forg_executive_info ''foreign'' (Some ''Person'') ''executive''
        [],
      domain_spec ''dwd_forg_product_info'' cn_forg_product_info ''foreign'' (Some ''Organization'') ''organization_enrichment''
        [],
      domain_spec ''dwd_forg_beneficiary_info'' cn_forg_beneficiary_info ''foreign'' (Some ''Person'') ''beneficial_owner''
        [],
      domain_spec ''dwd_forg_act_contro_info'' cn_forg_act_contro_info ''foreign'' (Some ''Person'') ''actual_controller''
        [],
      domain_spec ''dwd_forg_stock_fin_info'' cn_forg_stock_fin_info ''foreign'' (Some ''Event'') ''stock_finance''
        [''org_id'', ''occur_period'']]"

definition DOMAIN_TABLE_SPECS :: "table_spec list" where
  "DOMAIN_TABLE_SPECS = organization_tables @ risk_tables @ bid_tables @ foreign_tables"

definition domain_table :: "string \<Rightarrow> table_spec option" where
  \<comment> \<open>\<open>DOMAIN\_TABLE\_BY\_NAME.get(name)\<close>\<close>
  "domain_table n = find (\<lambda>t. ts_name t = n) DOMAIN_TABLE_SPECS"

section \<open>Relations\<close>

record relation_spec =
  rel_key :: string
  rel_table :: string
  rel_edge_type :: string
  rel_target_tag :: string
  rel_scope :: string
  rel_extractor :: string
  rel_required :: "string list"
  rel_edge_props :: "string list"
  rel_numeric :: "string list"
  rel_record_fields :: "string list"
  rel_source_tags :: "string list"

definition EDGE_PROVENANCE :: "string list" where
  "EDGE_PROVENANCE =
     [''organization_id'', ''confidence'', ''source_table'', ''source_record_id'', ''ingest_batch'', ''ingest_time'']"

definition relation_entry ::
  "string \<Rightarrow> string \<Rightarrow> string \<Rightarrow> string \<Rightarrow> string \<Rightarrow> string \<Rightarrow> string list \<Rightarrow> string list \<Rightarrow> string list \<Rightarrow> string list \<Rightarrow>
   string list \<Rightarrow> relation_spec" where
  \<comment> \<open>the edge properties end with \<open>EDGE\_PROVENANCE\<close> in every specification\<close>
  "relation_entry k t e tt sc x req ps num fs tags =
     \<lparr>rel_key = k, rel_table = t, rel_edge_type = e, rel_target_tag = tt, rel_scope = sc, rel_extractor = x,
      rel_required = req, rel_edge_props = ps @ EDGE_PROVENANCE, rel_numeric = num, rel_record_fields = fs,
      rel_source_tags = tags\<rparr>"

definition person_relations :: "relation_spec list" where
  "person_relations =
     [relation_entry ''legal_representative'' ''dwd_org_base_info'' ''LEGAL_REP_OF'' ''Organization'' ''domestic'' ''legal_representative''
        [''org_id'', ''lerep''] [''extra_json'']
        [] [''org_id'', ''lerep''] [''Person''],
      relation_entry ''legal_representative'' ''dwd_research_institute_base_info'' ''LEGAL_REP_OF'' ''Organization'' ''domestic'' ''legal_representative''
        [''org_id'', ''lerep''] [''extra_json'']
        [] [''org_id'', ''lerep''] [''Person''],
      relation_entry ''legal_representative'' ''dwd_special_taiwan_company'' ''LEGAL_REP_OF'' ''Organization'' ''domestic'' ''legal_representative''
        [''org_id'', ''legal_person''] [''extra_json'']
        [] [''org_id'', ''legal_person''] [''Person''],
      relation_entry ''shareholder'' ''dwd_org_shareholder_info'' ''SHAREHOLDER_OF'' ''Organization'' ''domestic'' ''domestic_shareholder''
        [''org_id'', ''inv_org_id'', ''owners_type'', ''ownership_percentage''] [''ownership_percentage'', ''extra_json'']
        [''ownership_percentage''] [''inv_org_id'', ''org_id'', ''owners_type''] [''Person'', ''Organization''],
      relation_entry ''shareholder'' ''dwd_forg_shareholder_info'' ''SHAREHOLDER_OF'' ''Organization'' ''foreign'' ''foreign_shareholder''
        [''org_id'', ''owners_name'', ''ownership_percentage''] [''ownership_percentage'', ''extra_json'']
        [''ownership_percentage''] [''owners_name'', ''org_id''] [''Person'', ''Organization''],
      relation_entry ''executive'' ''dwd_org_executive_info'' ''EXECUTIVE_OF'' ''Organization'' ''domestic'' ''executive''
        [''org_id'', ''executives_name'', ''executives_position''] [''position'', ''extra_json'']
        [] [''org_id'', ''executives_name'', ''executives_position''] [''Person''],
      relation_entry ''executive'' ''dwd_forg_executive_info'' ''EXECUTIVE_OF'' ''Organization'' ''foreign'' ''executive''
        [''org_id'', ''executives_name'', ''executives_position''] [''position'', ''extra_json'']
        [] [''org_id'', ''executives_name'', ''dm_birthdate''] [''Person''],
      relation_entry ''beneficial_owner'' ''dwd_forg_beneficiary_info'' ''BENEFICIAL_OWNER_OF'' ''Organization'' ''foreign'' ''beneficial_owner''
        [''org_id'', ''bo_name'', ''direct_percent'', ''indirect_percent'', ''total_percent''] [''direct_percent'', ''indirect_percent'', ''total_percent'', ''extra_json'']
        [''direct_percent'', ''indirect_percent'', ''total_percent''] [''org_id'', ''bo_name'', ''bo_birthdate''] [''Person''],
      relation_entry ''actual_controller'' ''dwd_forg_act_contro_info'' ''ACTUAL_CONTROLLER_OF'' ''Organization'' ''foreign'' ''actual_controller''
        [''org_id'', ''entity_name'', ''entity_type'', ''direct_pct'', ''total_pct''] [''direct_pct'', ''total_pct'', ''extra_json'']
        [''direct_pct'', ''total_pct''] [''org_id'', ''entity_eid'', ''entity_name''] [''Person'', ''Organization'']]"

definition organization_relations :: "relation_spec list" where
  "organization_relations =
     [relation_entry ''investment'' ''dwd_org_invest_info'' ''INVESTS_IN'' ''Organization'' ''domestic'' ''investment''
        [''org_id'', ''inv_org_id'', ''investment_amount'', ''investment_ratio''] [''investment_amount'', ''investment_ratio'', ''extra_json'']
        [''investment_amount'', ''investment_ratio''] [''org_id'', ''inv_org_id''] [''Organization''],
      relation_entry ''acquisition'' ''dwd_org_merger_acquisition_info'' ''ACQUIRES'' ''Organization'' ''domestic'' ''acquisition''
        [''acquiring_org_id'', ''acquired_org_id'', ''ma_amount'', ''currency_code''] [''ma_amount'', ''currency_code'', ''extra_json'']
        [''ma_amount''] [''acquiring_org_id'', ''acquired_org_id''] [''Organization''],
      relation_entry ''subsidiary'' ''dwd_forg_subsidiary_info'' ''SUBSIDIARY_OF'' ''Organization'' ''foreign'' ''subsidiary''
        [''org_id'', ''affiliate'', ''affiliates_company_id'', ''affiliates_name''] [''extra_json'']
        [] [''org_id'', ''affiliate'', ''affiliates_company_id'', ''affiliates_name''] [''Organization''],
      relation_entry ''project'' ''dwd_zh_project'' ''PARTICIPATES_IN'' ''Project'' ''domestic'' ''project''
        [''id'', ''participating_institution''] [''extra_json'']
        [] [''id''] [''Organization''],
      relation_entry ''project'' ''dwd_en_project'' ''PARTICIPATES_IN'' ''Project'' ''foreign'' ''project''
        [''id'', ''participating_institution''] [''extra_json'']
        [] [''id''] [''Organization''],
      relation_entry ''project'' ''dwd_zh_project'' ''FUNDED_BY'' ''Organization'' ''domestic'' ''project_funder''
        [''id'', ''funded_institution''] [''funded_amount'', ''fund_category'', ''extra_json'']
        [''funded_amount''] [''id'', ''funded_institution''] [''Project''],
      relation_entry ''project'' ''dwd_en_project'' ''FUNDED_BY'' ''Organization'' ''foreign'' ''project_funder''
        [''id'', ''funded_institution''] [''funded_amount'', ''fund_category'', ''extra_json'']
        [''funded_amount''] [''id'', ''funded_institution''] [''Project'']]"

definition event_relations :: "relation_spec list" where
  "event_relations =
     [relation_entry ''news'' ''dwd_org_important_news_info'' ''HAS_NEWS'' ''News'' ''domestic'' ''news''
        [''org_id'', ''news_title'', ''news_date'', ''news_content''] [''extra_json'']
        [] [] [''Organization''],
      relation_entry ''event'' ''dwd_org_annual_financial_info'' ''INVOLVED_IN'' ''Event'' ''domestic'' ''event''
        [''org_id'', ''year''] [''role'', ''extra_json'']
        [] [''org_id'', ''year''] [''Organization''],
      relation_entry ''event'' ''dwd_org_stock_finance_info'' ''INVOLVED_IN'' ''Event'' ''domestic'' ''event''
        [''org_id'', ''occur_period''] [''role'', ''extra_json'']
        [] [''org_id'', ''occur_period''] [''Organization''],
      relation_entry ''event'' ''dwd_forg_stock_fin_info'' ''INVOLVED_IN'' ''Event'' ''foreign'' ''event''
        [''org_id'', ''occur_period''] [''role'', ''extra_json'']
        [] [''org_id'', ''occur_period''] [''Organization''],
      relation_entry ''event'' ''dwd_org_changerecord_info'' ''INVOLVED_IN'' ''Event'' ''domestic'' ''event''
        [''org_id'', ''update_date'', ''update_content''] [''role'', ''extra_json'']
        [] [''org_id'', ''update_date'', ''update_content''] [''Organization''],
      relation_entry ''event'' ''dwd_org_financing_info'' ''INVOLVED_IN'' ''Event'' ''domestic'' ''event''
        [''org_id'', ''completion_date'', ''funding_round''] [''role'', ''extra_json'']
        [] [''org_id'', ''completion_date'', ''funding_round''] [''Organization''],
      relation_entry ''event'' ''dwd_org_recruit_info'' ''INVOLVED_IN'' ''Event'' ''domestic'' ''event''
        [''org_id'', ''release_date'', ''job_title''] [''role'', ''extra_json'']
        [] [''org_id'', ''release_date'', ''job_title''] [''Organization''],
      relation_entry ''event'' ''dwd_org_company_abnormal'' ''INVOLVED_IN'' ''Event'' ''domestic'' ''event''
        [''org_id'', ''abnormal_id''] [''role'', ''extra_json'']
        [] [''abnormal_id''] [''Organization''],
      relation_entry ''event'' ''dwd_org_company_punish'' ''INVOLVED_IN'' ''Event'' ''domestic'' ''event''
        [''org_id'', ''penalty_id''] [''role'', ''extra_json'']
        [] [''penalty_id''] [''Organization''],
      relation_entry ''event'' ''dwd_org_company_illegal'' ''INVOLVED_IN'' ''Event'' ''domestic'' ''event''
        [''org_id'', ''sv_id''] [''role'', ''extra_json'']
        [] [''sv_id''] [''Organization''],
      relation_entry ''event'' ''dwd_org_risk_tax_punish'' ''INVOLVED_IN'' ''Event'' ''domestic'' ''event''
        [''org_id'', ''tax_vio_id''] [''role'', ''extra_json'']
        [] [''tax_vio_id''] [''Organization''],
      relation_entry ''event'' ''dwd_org_opt_judicial_case'' ''INVOLVED_IN'' ''Event'' ''domestic'' ''event''
        [''org_id'', ''case_id''] [''role'', ''extra_json'']
        [] [''case_id''] [''Organization''],
      relation_entry ''event'' ''dwd_org_risk_shixin'' ''INVOLVED_IN'' ''Event'' ''domestic'' ''event''
        [''org_id'', ''dishonest_id''] [''role'', ''extra_json'']
        [] [''dishonest_id''] [''Organization''],
      relation_entry ''event'' ''dwd_org_risk_zhixing'' ''INVOLVED_IN'' ''Event'' ''domestic'' ''event''
        [''org_id'', ''exec_person_id''] [''role'', ''extra_json'']
        [] [''exec_person_id''] [''Organization'']]"

definition party_relations :: "relation_spec list" where
  "party_relations =
     [relation_entry ''event'' ''dwd_org_bankruptcy_public_cases_list'' ''INVOLVED_IN'' ''Event'' ''domestic'' ''bankruptcy_party''
        [''org_id'', ''case_no'', ''bankruptcy_party_id''] [''role'', ''extra_json'']
        [] [''bankruptcy_party_id''] [''Organization''],
      relation_entry ''event'' ''dwd_org_bankruptcy_public_cases'' ''INVOLVED_IN'' ''Event'' ''domestic'' ''bankruptcy_admin''
        [''case_no'', ''admin_org''] [''role'', ''extra_json'']
        [] [''case_no'', ''admin_org_id'', ''admin_org''] [''Organization''],
      relation_entry ''event'' ''dwd_bid_win_candidate_out'' ''INVOLVED_IN'' ''Event'' ''domestic'' ''bid_party''
        [''u_id'', ''org_id'', ''relate_type''] [''role'', ''extra_json'']
        [] [''u_id'', ''org_id'', ''ranking''] [''Organization''],
      relation_entry ''event'' ''dwd_bid_purchase_agency_out'' ''INVOLVED_IN'' ''Event'' ''domestic'' ''bid_party''
        [''u_id'', ''company_id'', ''relate_type''] [''role'', ''extra_json'']
        [] [''u_id'', ''company_id'', ''relate_type''] [''Organization'']]"

definition product_relations :: "relation_spec list" where
  "product_relations =
     [relation_entry ''industry_node'' ''dwd_org_industry_chain_dtl'' ''BELONGS_TO_NODE'' ''IndustryNode'' ''domestic'' ''industry_node''
        [''antitypic'', ''node_id'', ''chain_score''] [''chain_score'']
        [''chain_score''] [''antitypic'', ''node_id''] [''Organization''],
      relation_entry ''product'' ''dwd_org_industry_chain_prod_dtl'' ''PRODUCES'' ''Product'' ''domestic'' ''product''
        [''antitypic'', ''tech_product'', ''tech_product_seq''] [''tech_product_seq'', ''extra_json'']
        [''tech_product_seq''] [''antitypic'', ''tech_product''] [''Organization''],
      relation_entry ''product'' ''dwd_org_org_product_info'' ''PRODUCES'' ''Product'' ''domestic'' ''organization_product''
        [''org_id'', ''main_prod''] [''extra_json'']
        [] [''org_id'', ''main_prod''] [''Organization''],
      relation_entry ''product'' ''dwd_forg_product_info'' ''PRODUCES'' ''Product'' ''foreign'' ''organization_product''
        [''org_id'', ''main_products''] [''extra_json'']
        [] [''org_id'', ''main_products''] [''Organization'']]"

definition ALL_RELATION_SPECS :: "relation_spec list" where
  "ALL_RELATION_SPECS =
     person_relations @ organization_relations @ event_relations @ party_relations @ product_relations"

definition RELATION_SPECS :: "relation_spec list" where
  "RELATION_SPECS = filter (\<lambda>r. domain_table (rel_table r) \<noteq> None) ALL_RELATION_SPECS"

definition ETL_RELATION_KEYS :: "string list" where
  \<comment> \<open>each key once; only membership matters\<close>
  "ETL_RELATION_KEYS = remdups (map rel_key RELATION_SPECS)"

section \<open>Marks of synthetic rows\<close>

definition VIRTUAL_SOURCE_MARKERS :: "string list" where
  "VIRTUAL_SOURCE_MARKERS =
     [''mock'', ''stub'', ''virtual'', ''placeholder'', ''test'']"

definition VIRTUAL_SOURCE_FIELDS :: "string list" where
  "VIRTUAL_SOURCE_FIELDS =
     [''data_source'', ''source_system'']"

definition VIRTUAL_ID_FIELDS :: "string list" where
  "VIRTUAL_ID_FIELDS =
     [''org_id'', ''organization_id'', ''company_id'', ''scholar_id'', ''entity_eid'', ''scholar_org_id'']"

definition VIRTUAL_ID_PREFIXES :: "string list" where
  "VIRTUAL_ID_PREFIXES =
     [''mock_org'', ''stub_org'', ''virtual_org'', ''placeholder_org'', ''org_stub'', ''kgtest'']"

definition VIRTUAL_EXTRA_MARKERS :: "string list" where
  "VIRTUAL_EXTRA_MARKERS =
     [''mock_org'', ''stub_org'', ''virtual_org'', ''placeholder_org'', ''test_org'']"

definition VIRTUAL_NAME_FIELDS :: "string list" where
  "VIRTUAL_NAME_FIELDS =
     [''name_cn'', ''name_zh'', ''name_en'', ''company_name'', ''org_loc_name'', ''scholar_org_name_zh'',
      ''scholar_org_name_en'', ''work_experience_institution_zh'', ''work_experience_institution_en'']"

definition ORGANIZATION_ID_FIELDS :: "string list" where
  "ORGANIZATION_ID_FIELDS =
     [''organization_id'', ''org_id'', ''company_id'', ''entity_eid'', ''acquiring_org_id'', ''admin_org_id'',
      ''antitypic'']"

definition DEMO_ORG_NAME_MARKERS :: "string list" where
  \<comment> \<open>U+6FE0 U+6C5F U+6E2C U+8A66; U+6FE0 U+6C5F U+6D4B U+8BD5; U+6E2C U+8A66 U+6578 U+78BC U+6709 U+9650 U+516C U+53F8; U+6D4B U+8BD5 U+6570 U+7801 U+6709 U+9650 U+516C U+53F8\<close>
  "DEMO_ORG_NAME_MARKERS =
     [[CHR 0xE6, CHR 0xBF, CHR 0xA0, CHR 0xE6, CHR 0xB1, CHR 0x9F, CHR 0xE6, CHR 0xB8, CHR 0xAC, CHR 0xE8, CHR 0xA9,
       CHR 0xA6],
      [CHR 0xE6, CHR 0xBF, CHR 0xA0, CHR 0xE6, CHR 0xB1, CHR 0x9F, CHR 0xE6, CHR 0xB5, CHR 0x8B, CHR 0xE8, CHR 0xAF,
       CHR 0x95],
      [CHR 0xE6, CHR 0xB8, CHR 0xAC, CHR 0xE8, CHR 0xA9, CHR 0xA6, CHR 0xE6, CHR 0x95, CHR 0xB8, CHR 0xE7, CHR 0xA2,
       CHR 0xBC, CHR 0xE6, CHR 0x9C, CHR 0x89, CHR 0xE9, CHR 0x99, CHR 0x90, CHR 0xE5, CHR 0x85, CHR 0xAC, CHR 0xE5,
       CHR 0x8F, CHR 0xB8],
      [CHR 0xE6, CHR 0xB5, CHR 0x8B, CHR 0xE8, CHR 0xAF, CHR 0x95, CHR 0xE6, CHR 0x95, CHR 0xB0, CHR 0xE7, CHR 0xA0,
       CHR 0x81, CHR 0xE6, CHR 0x9C, CHR 0x89, CHR 0xE9, CHR 0x99, CHR 0x90, CHR 0xE5, CHR 0x85, CHR 0xAC, CHR 0xE5,
       CHR 0x8F, CHR 0xB8]]"

section \<open>Damaged text\<close>

definition mojibake_hints :: "nat list" where
  \<comment> \<open>the characters of \<open>\_MOJIBAKE\_HINT\_RE\<close>\<close>
  "mojibake_hints =
     [229, 230, 248, 231, 233, 232, 234, 235, 236, 237, 238, 239, 240, 241, 242, 243, 244, 246, 249, 250, 251, 252,
      255, 196, 197, 198, 199, 201, 209, 214, 216, 220, 223, 188, 189, 190, 164, 162, 163, 165, 166, 167, 168, 169,
      170, 171, 172, 174, 175, 176, 177, 178, 179, 180, 181, 182, 183, 184, 185, 186, 187]"

definition cp1252_table :: "(nat \<times> nat) list" where
  \<comment> \<open>code points outside Latin-1 with a byte in Windows-1252, as the codec of Python has them\<close>
  "cp1252_table =
     [(8364, 128), (8218, 130), (402, 131), (8222, 132), (8230, 133), (8224, 134), (8225, 135), (710, 136),
      (8240, 137), (352, 138), (8249, 139), (338, 140), (381, 142), (8216, 145), (8217, 146), (8220, 147),
      (8221, 148), (8226, 149), (8211, 150), (8212, 151), (732, 152), (8482, 153), (353, 154), (8250, 155),
      (339, 156), (382, 158), (376, 159)]"

section \<open>Words for kinds of owners\<close>

definition zh_jigou :: string where
  \<comment> \<open>U+673A U+6784\<close>
  "zh_jigou = [CHR 0xE6, CHR 0x9C, CHR 0xBA, CHR 0xE6, CHR 0x9E, CHR 0x84]"

definition zh_qiye :: string where
  \<comment> \<open>U+4F01 U+4E1A\<close>
  "zh_qiye = [CHR 0xE4, CHR 0xBC, CHR 0x81, CHR 0xE4, CHR 0xB8, CHR 0x9A]"

definition zh_gongsi :: string where
  \<comment> \<open>U+516C U+53F8\<close>
  "zh_gongsi = [CHR 0xE5, CHR 0x85, CHR 0xAC, CHR 0xE5, CHR 0x8F, CHR 0xB8]"

definition zh_ziranren :: string where
  \<comment> \<open>U+81EA U+7136 U+4EBA\<close>
  "zh_ziranren = [CHR 0xE8, CHR 0x87, CHR 0xAA, CHR 0xE7, CHR 0x84, CHR 0xB6, CHR 0xE4, CHR 0xBA, CHR 0xBA]"

definition zh_geren :: string where
  \<comment> \<open>U+4E2A U+4EBA\<close>
  "zh_geren = [CHR 0xE4, CHR 0xB8, CHR 0xAA, CHR 0xE4, CHR 0xBA, CHR 0xBA]"

definition organization_types :: "string list" where
  "organization_types = [zh_jigou, zh_qiye, zh_gongsi, ''organization'', ''company'', ''enterprise'']"

definition person_types :: "string list" where
  "person_types = [zh_ziranren, zh_geren, ''person'', ''individual'', ''natural person'']"

section \<open>Properties of vertices\<close>

definition organization_props :: "string list" where
  "organization_props =
     [''org_id'', ''organization_id'', ''confidence'', ''name_cn'', ''name_en'', ''external_id'', ''province'',
      ''city'', ''area'', ''country_code'', ''country'', ''address'', ''postal_code'', ''phone'', ''email'',
      ''legal_rep'', ''org_type'', ''org_size'', ''founded_year'', ''listing_status'', ''listed_date'',
      ''registered_capital'', ''capital_currency'', ''industry_class'', ''stock_code'', ''stock_noun'',
      ''stock_type'', ''org_kind'', ''description'', ''main_products'', ''extra_json'', ''source_system'',
      ''source_table'', ''source_record_id'', ''source_url'', ''ingest_batch'', ''ingest_time'',
      ''source_update_time'']"

definition person_props :: "string list" where
  "person_props =
     [''name_cn'', ''name_en'', ''person_kind'', ''country_code'', ''country'', ''birth_date'', ''gender'',
      ''biography'', ''organization_id'', ''confidence'', ''extra_json'', ''source_system'', ''source_table'',
      ''source_record_id'', ''source_url'', ''ingest_batch'', ''ingest_time'', ''source_update_time'']"

definition news_props :: "string list" where
  "news_props =
     [''title'', ''content'', ''release_date'', ''original_url'', ''organization_id'', ''confidence'',
      ''extra_json'', ''source_system'', ''source_table'', ''source_record_id'', ''source_url'', ''ingest_batch'',
      ''ingest_time'', ''source_update_time'']"

definition event_props :: "string list" where
  "event_props =
     [''event_type'', ''raw_id'', ''title'', ''content'', ''case_no'', ''case_cause'', ''occur_date'', ''amount'',
      ''currency'', ''organization_id'', ''confidence'', ''extra_json'', ''source_system'', ''source_table'',
      ''source_record_id'', ''source_url'', ''ingest_batch'', ''ingest_time'', ''source_update_time'']"

definition project_props :: "string list" where
  "project_props =
     [''project_number'', ''title'', ''project_source'', ''project_level'', ''funded_amount'', ''discipline'',
      ''discipline_code'', ''fund_category'', ''funded_region'', ''approval_year'', ''approval_time'',
      ''research_period'', ''abstract'', ''final_report_abstract'', ''project_page_url'', ''extra_json'',
      ''source_system'', ''source_table'', ''source_record_id'', ''source_url'', ''ingest_batch'', ''ingest_time'',
      ''source_update_time'']"

definition product_props :: "string list" where
  "product_props =
     [''name'', ''category'', ''description'', ''organization_id'', ''confidence'', ''extra_json'',
      ''source_system'', ''source_table'', ''source_record_id'', ''source_url'', ''ingest_batch'', ''ingest_time'',
      ''source_update_time'']"

definition datasource_props :: "string list" where
  "datasource_props =
     [''source_table'', ''table_cn_name'', ''tier'', ''library'']"

definition organization_base_props :: "string list" where
  "organization_base_props =
     [''organization_id'', ''confidence'', ''source_system'', ''source_table'', ''source_record_id'', ''source_url'',
      ''ingest_batch'', ''ingest_time'', ''source_update_time'', ''extra_json'']"

definition TAG_PROPERTIES :: "string \<Rightarrow> string list option" where
  "TAG_PROPERTIES = map_of
     [(''Organization'', organization_props),
      (''Person'', person_props),
      (''News'', news_props),
      (''Event'', event_props),
      (''Project'', project_props),
      (''Product'', product_props),
      (''DataSource'', datasource_props),
      (''organization_base'', organization_base_props)]"

definition TAG_NUMERIC_PROPERTIES :: "string \<Rightarrow> string list" where
  \<comment> \<open>\<open>TAG\_NUMERIC\_PROPERTIES.get(tag, frozenset())\<close>\<close>
  "TAG_NUMERIC_PROPERTIES t = (case map_of
     [(''Organization'', [''confidence'', ''founded_year'', ''registered_capital'']),
      (''Person'', [''confidence'']),
      (''News'', [''confidence'']),
      (''Event'', [''amount'', ''confidence'']),
      (''Project'', [''funded_amount'']),
      (''Product'', [''confidence'']),
      (''organization_base'', [''confidence''])] t of None \<Rightarrow> [] | Some ps \<Rightarrow> ps)"

definition TABLE_CN_NAMES :: "(string \<times> string) list" where
  \<comment> \<open>the entries that the update repeats are those of the specifications\<close>
  "TABLE_CN_NAMES = map (\<lambda>t. (ts_name t, ts_cn_name t)) DOMAIN_TABLE_SPECS"

definition ENTITY_TABLE_SPECS :: "table_spec list" where
  "ENTITY_TABLE_SPECS = filter (\<lambda>t. ts_entity_tag t \<noteq> None) DOMAIN_TABLE_SPECS"

definition zh_foreign_library :: string where
  \<comment> \<open>U+56FD U+5916 U+673A U+6784 U+8981 U+7D20 U+5E93\<close>
  "zh_foreign_library =
     [CHR 0xE5, CHR 0x9B, CHR 0xBD, CHR 0xE5, CHR 0xA4, CHR 0x96, CHR 0xE6, CHR 0x9C, CHR 0xBA, CHR 0xE6, CHR 0x9E,
      CHR 0x84, CHR 0xE8, CHR 0xA6, CHR 0x81, CHR 0xE7, CHR 0xB4, CHR 0xA0, CHR 0xE5, CHR 0xBA, CHR 0x93]"

definition zh_domestic_library :: string where
  \<comment> \<open>U+56FD U+5185 U+673A U+6784 U+8981 U+7D20 U+5E93\<close>
  "zh_domestic_library =
     [CHR 0xE5, CHR 0x9B, CHR 0xBD, CHR 0xE5, CHR 0x86, CHR 0x85, CHR 0xE6, CHR 0x9C, CHR 0xBA, CHR 0xE6, CHR 0x9E,
      CHR 0x84, CHR 0xE8, CHR 0xA6, CHR 0x81, CHR 0xE7, CHR 0xB4, CHR 0xA0, CHR 0xE5, CHR 0xBA, CHR 0x93]"

end
