(* ===== verification/Etl_Values.thy ===== *)
theory Etl_Values
  imports Schema_Script Etl_Tables
begin

text \<open>
  The primitives of the organization ETL (script/organization\_etl\_common.py): values of source rows and
  their cleaning, marks of synthetic rows, scores, identifiers of vertices and records, literals of
  statements.  Case folding, NFKC, digests, the JSON parser and the decimal numbers of Python are arguments.
\<close>

section \<open>Values and rows\<close>

datatype cell =
    Val json
  | Decimal string                     \<comment> \<open>its \<open>str\<close>\<close>
  | Stamp string                       \<comment> \<open>a datetime, its \<open>isoformat(sep=" ")\<close>\<close>
  | Day string                         \<comment> \<open>a date, its \<open>isoformat()\<close>\<close>
  | Bytes string

type_synonym source_row = "(string \<times> cell) list"

definition rget :: "source_row \<Rightarrow> string \<Rightarrow> cell" where
  \<comment> \<open>\<open>row.get(k)\<close>\<close>
  "rget r k = (case map_of r k of None \<Rightarrow> Val JNull | Some v \<Rightarrow> v)"

definition cell_str :: "cell \<Rightarrow> string" where
  \<comment> \<open>\<open>str(v)\<close>; of bytes without the escapes of those that are not ASCII\<close>
  "cell_str c = (case c of Val j \<Rightarrow> py_str j | Decimal s \<Rightarrow> s | Stamp s \<Rightarrow> s | Day s \<Rightarrow> s | Bytes s \<Rightarrow> CHR ''b'' # repr_str s)"

definition cell_truthy :: "cell \<Rightarrow> bool" where
  "cell_truthy c =
     (case c of Val j \<Rightarrow> truthy j | Decimal s \<Rightarrow> list_ex (\<lambda>x. x \<in> set ''123456789'') (takeWhile (\<lambda>x. x \<noteq> CHR ''E'') s)
      | Bytes s \<Rightarrow> s \<noteq> [] | _ \<Rightarrow> True)"

definition cell_or :: "cell \<Rightarrow> cell \<Rightarrow> cell" where
  "cell_or a b = (if cell_truthy a then a else b)"

datatype etl_error =
    RelationData string                \<comment> \<open>\<open>RelationDataError\<close>\<close>
  | EtlCrash string                    \<comment> \<open>another exception\<close>

type_synonym 'a etl = "etl_error + 'a"

record etl_lib =
  lb_fold :: "string \<Rightarrow> string"              \<comment> \<open>\<open>str.casefold\<close>\<close>
  lb_nfkc :: "string \<Rightarrow> string"
  lb_md5 :: "string \<Rightarrow> string"               \<comment> \<open>32 hexadecimal digits\<close>
  lb_sha256 :: "string \<Rightarrow> string"            \<comment> \<open>64 hexadecimal digits\<close>
  lb_loads :: "string \<Rightarrow> json option"        \<comment> \<open>\<open>json.loads\<close>, None: \<open>JSONDecodeError\<close>\<close>
  lb_decimal :: "string \<Rightarrow> string option"    \<comment> \<open>\<open>float(Decimal(s))\<close>, None: \<open>InvalidOperation\<close>\<close>
  lb_float :: "int \<Rightarrow> string"                \<comment> \<open>\<open>float(i)\<close>\<close>
  lb_trunc :: "string \<Rightarrow> int option"         \<comment> \<open>\<open>int(x)\<close> of a float, None: it raises\<close>
  lb_literal :: "string \<Rightarrow> string"           \<comment> \<open>\<open>str(int(x))\<close> of an integral float, else \<open>format(x, ".15g")\<close>\<close>
  lb_uc :: unicode_classes

section \<open>Cleaning\<close>

definition point_value :: "string \<Rightarrow> nat" where
  \<comment> \<open>the number of a code point\<close>
  "point_value p =
     (case map of_char p of
        [a] \<Rightarrow> a
      | [a, b] \<Rightarrow> (a mod 32) * 64 + b mod 64
      | [a, b, c] \<Rightarrow> (a mod 16) * 4096 + (b mod 64) * 64 + c mod 64
      | [a, b, c, d] \<Rightarrow> (a mod 8) * 262144 + (b mod 64) * 4096 + (c mod 64) * 64 + d mod 64
      | _ \<Rightarrow> 0)"

definition has_cjk :: "string \<Rightarrow> bool" where
  \<comment> \<open>\<open>\_CJK\_RE.search\<close>: U+4E00 to U+9FFF\<close>
  "has_cjk s = list_ex (\<lambda>p. 19968 \<le> point_value p \<and> point_value p \<le> 40959) (code_points s)"

definition has_hint :: "string \<Rightarrow> bool" where
  "has_hint s = list_ex (\<lambda>p. point_value p \<in> set mojibake_hints) (code_points s)"

definition replacement_character :: string where
  "replacement_character = [CHR 0xEF, CHR 0xBF, CHR 0xBD]"

definition latin1_byte :: "nat \<Rightarrow> nat option" where
  "latin1_byte n = (if n < 256 then Some n else None)"

definition cp1252_byte :: "nat \<Rightarrow> nat option" where
  "cp1252_byte n = (if n < 128 \<or> 160 \<le> n \<and> n < 256 then Some n else map_of cp1252_table n)"

fun encode_points :: "(nat \<Rightarrow> nat option) \<Rightarrow> string list \<Rightarrow> string option" where
  \<comment> \<open>\<open>value.encode(encoding)\<close>, None: \<open>UnicodeEncodeError\<close>\<close>
  "encode_points f [] = Some []"
| "encode_points f (p # ps) =
     (case f (point_value p) of
        None \<Rightarrow> None
      | Some b \<Rightarrow> map_option (Cons (char_of b)) (encode_points f ps))"

definition repaired :: "(nat \<Rightarrow> nat option) \<Rightarrow> string \<Rightarrow> string option" where
  \<comment> \<open>the body of the loop over the encodings\<close>
  "repaired f s =
     (case encode_points f (code_points s) of
        None \<Rightarrow> None
      | Some b \<Rightarrow> if utf8_ok b \<and> b \<noteq> s \<and> has_cjk b then Some b else None)"

definition repair_mojibake :: "string \<Rightarrow> string" where
  "repair_mojibake s =
     (if s = [] \<or> has_cjk s then s
      else if \<not> has_hint s \<and> \<not> py_in replacement_character s then s
      else case repaired latin1_byte s of
        Some b \<Rightarrow> b
      | None \<Rightarrow> (case repaired cp1252_byte s of Some b \<Rightarrow> b | None \<Rightarrow> s))"

definition latin1_decode :: "string \<Rightarrow> string" where
  "latin1_decode s =
     concat (map (\<lambda>c. let n = of_char c :: nat in if n < 128 then [c] else [char_of (192 + n div 64), char_of (128 + n mod 64)]) s)"

definition MAX_TEXT_LENGTH :: nat where
  "MAX_TEXT_LENGTH = 20000"

definition clean_text :: "cell \<Rightarrow> string option" where
  "clean_text c =
     (if c = Val JNull then None
      else
        let result = (case c of
                Stamp s \<Rightarrow> s
              | Day s \<Rightarrow> s
              | Bytes s \<Rightarrow> py_strip (if utf8_ok s then s else latin1_decode s)
              | _ \<Rightarrow> py_strip (cell_str c)) in
        if result = [] then None
        else
          let r = repair_mojibake result in
          Some (if MAX_TEXT_LENGTH < py_len r then py_take MAX_TEXT_LENGTH r else r))"

definition first_value :: "source_row \<Rightarrow> string list \<Rightarrow> cell" where
  "first_value r ns =
     (case find (\<lambda>n. clean_text (rget r n) \<noteq> None) ns of None \<Rightarrow> Val JNull | Some n \<Rightarrow> rget r n)"

definition clean_first :: "source_row \<Rightarrow> string list \<Rightarrow> string option" where
  \<comment> \<open>\<open>clean\_text(first\_value(row, ...))\<close>\<close>
  "clean_first r ns = clean_text (first_value r ns)"

definition has_text :: "source_row \<Rightarrow> string \<Rightarrow> bool" where
  \<comment> \<open>\<open>clean\_text(row.get(name)) is not None\<close>\<close>
  "has_text r n \<longleftrightarrow> clean_text (rget r n) \<noteq> None"

section \<open>Synthetic rows\<close>

definition plain_token :: "etl_lib \<Rightarrow> string \<Rightarrow> string" where
  "plain_token lb s = map (\<lambda>c. if c = CHR ''-'' then CHR ''_'' else c) (lb_fold lb s)"

definition is_synthetic_token :: "etl_lib \<Rightarrow> string \<Rightarrow> bool" where
  \<comment> \<open>the first two alternatives of the code are cases of the third\<close>
  "is_synthetic_token lb s = list_ex (\<lambda>p. prefix p (plain_token lb s)) VIRTUAL_ID_PREFIXES"

definition marked_source :: "etl_lib \<Rightarrow> string \<Rightarrow> bool" where
  "marked_source lb s =
     (let n = plain_token lb s in
      list_ex (\<lambda>m. n = m \<or> prefix (m @ ''_'') n \<or> suffix (CHR ''_'' # m) n \<or> py_in (CHR ''_'' # m @ ''_'') n)
        VIRTUAL_SOURCE_MARKERS)"

definition is_virtual_source_row :: "etl_lib \<Rightarrow> source_row \<Rightarrow> bool" where
  "is_virtual_source_row lb r \<longleftrightarrow>
     list_ex (\<lambda>f. case clean_text (rget r f) of None \<Rightarrow> False | Some v \<Rightarrow> marked_source lb v) VIRTUAL_SOURCE_FIELDS \<or>
     list_ex (\<lambda>f. rget r f \<noteq> Val JNull \<and>
         (let t = py_strip (cell_str (rget r f)) in t \<noteq> [] \<and> is_synthetic_token lb t)) VIRTUAL_ID_FIELDS \<or>
     (let x = lb_fold lb (case rget r ''extra_json'' of Val (JStr s) \<Rightarrow> s | c \<Rightarrow> opt_str (clean_text c)) in
        x \<noteq> [] \<and> py_in_any VIRTUAL_EXTRA_MARKERS x) \<or>
     list_ex (\<lambda>f. case clean_text (rget r f) of None \<Rightarrow> False | Some v \<Rightarrow> py_in_any DEMO_ORG_NAME_MARKERS v) VIRTUAL_NAME_FIELDS"

definition organization_id_from_row :: "source_row \<Rightarrow> string option" where
  "organization_id_from_row r = clean_first r ORGANIZATION_ID_FIELDS"

section \<open>Scores\<close>

text \<open>
  A score is a sum of hundredths, rounded to four digits: the float nearest to a number of hundredths,
  whose \<open>repr\<close> is that number.
\<close>

definition hundredths :: "nat \<Rightarrow> string" where
  "hundredths n =
     (if 100 \<le> n then ''1.0''
      else if n mod 10 = 0 then ''0.'' @ show_nat (n div 10)
      else ''0.'' @ show_nat (n div 10) @ show_nat (n mod 10))"

definition NAMES_OF_ENTITIES :: "string list" where
  "NAMES_OF_ENTITIES =
     [''name_cn'', ''name_en'', ''company_name'', ''org_loc_name'', ''executives_name'', ''bo_name'', ''entity_name'',
      ''news_title'', ''title'', ''job_title'', ''target_item_name'', ''main_prod'', ''main_products'']"

definition entity_score :: "source_row \<Rightarrow> string \<Rightarrow> nat" where
  "entity_score r t =
     (if prefix ''dwd_'' t then 40 else 30) + (if organization_id_from_row r \<noteq> None then 20 else 0) +
     (if list_ex (has_text r) [''external_id'', ''credit_no''] then 10 else 0) +
     (if list_ex (has_text r) NAMES_OF_ENTITIES then 20 else 0) +
     (if list_ex (has_text r) [''country_code'', ''country'', ''province'', ''city'', ''address'', ''updated_time''] then 10 else 0)"

definition entity_confidence :: "source_row \<Rightarrow> string \<Rightarrow> cell" where
  "entity_confidence r t = Val (JFloat (hundredths (entity_score r t)))"

definition IDS_OF_RELATIONS :: "string list" where
  "IDS_OF_RELATIONS =
     [''organization_id'', ''org_id'', ''company_id'', ''entity_eid'', ''inv_org_id'', ''acquiring_org_id'', ''acquired_org_id'',
      ''affiliate'', ''affiliates_company_id'', ''admin_org_id'', ''antitypic'']"

definition relation_score :: "source_row \<Rightarrow> string \<Rightarrow> nat" where
  "relation_score r t =
     (let ids = length (filter (has_text r) IDS_OF_RELATIONS) in
      (if prefix ''dwd_'' t then 55 else 45) + (if 1 \<le> ids then 25 else 0) + (if 2 \<le> ids then 10 else 0) +
      (if 3 \<le> length (filter (\<lambda>p. clean_text (snd p) \<noteq> None) r) then 5 else 0) +
      (if list_ex (has_text r) [''external_id'', ''credit_no''] then 5 else 0))"

definition relation_confidence :: "source_row \<Rightarrow> string \<Rightarrow> cell" where
  "relation_confidence r t = Val (JFloat (hundredths (relation_score r t)))"

lemma scores_are_fractions:
  "30 \<le> entity_score r t \<and> entity_score r t \<le> 100"
  "45 \<le> relation_score r t \<and> relation_score r t \<le> 100"
  by (auto simp: entity_score_def relation_score_def Let_def)

section \<open>Numbers\<close>

definition to_float :: "etl_lib \<Rightarrow> cell \<Rightarrow> string option" where
  \<comment> \<open>None also for \<open>InvalidOperation\<close>\<close>
  "to_float lb c =
     (case c of
        Val JNull \<Rightarrow> None
      | Val (JBool b) \<Rightarrow> None
      | Val (JFloat s) \<Rightarrow> if s \<in> {''nan'', ''inf'', ''-inf''} then None else Some s
      | Val (JInt i) \<Rightarrow> Some (lb_float lb i)
      | Decimal s \<Rightarrow> lb_decimal lb s
      | _ \<Rightarrow>
          (case clean_text c of
             None \<Rightarrow> None
           | Some raw \<Rightarrow>
               if lb_fold lb raw \<in> {''-'', ''n/a'', ''n.a.'', ''null'', ''none''} then None
               else
                 let n = filter (\<lambda>x. digit_char x \<or> x \<in> set ''eE.+-'') raw in
                 if n = [] then None else lb_decimal lb n))"

definition to_int :: "etl_lib \<Rightarrow> cell \<Rightarrow> int option etl" where
  "to_int lb c =
     (case to_float lb c of
        None \<Rightarrow> Inr None
      | Some x \<Rightarrow> (case lb_trunc lb x of None \<Rightarrow> Inl (EtlCrash ''int'') | Some i \<Rightarrow> Inr (Some i)))"

definition float_cell :: "string option \<Rightarrow> cell" where
  "float_cell x = (case x of None \<Rightarrow> Val JNull | Some s \<Rightarrow> Val (JFloat s))"

definition text_cell :: "string option \<Rightarrow> cell" where
  "text_cell x = (case x of None \<Rightarrow> Val JNull | Some s \<Rightarrow> Val (JStr s))"

section \<open>JSON\<close>

definition normalize_json :: "etl_lib \<Rightarrow> cell \<Rightarrow> json etl" where
  \<comment> \<open>bytes are left as they are, which \<open>json.dumps\<close> then refuses\<close>
  "normalize_json lb c =
     (case c of
        Stamp s \<Rightarrow> Inr (JStr s)
      | Day s \<Rightarrow> Inr (JStr s)
      | Decimal s \<Rightarrow> (case lb_decimal lb s of None \<Rightarrow> Inl (EtlCrash ''decimal'') | Some x \<Rightarrow> Inr (JFloat x))
      | Val (JFloat s) \<Rightarrow> Inr (if s \<in> {''nan'', ''inf'', ''-inf''} then JNull else JFloat s)
      | Val j \<Rightarrow> Inr j
      | Bytes s \<Rightarrow> Inl (EtlCrash ''circular''))"

fun row_dict :: "etl_lib \<Rightarrow> source_row \<Rightarrow> dict etl" where
  "row_dict lb [] = Inr []"
| "row_dict lb (p # ps) =
     rbind (normalize_json lb (snd p)) (\<lambda>j. rbind (row_dict lb ps) (\<lambda>d. Inr ((fst p, j) # d)))"

definition compact_row :: "etl_lib \<Rightarrow> source_row \<Rightarrow> string etl" where
  \<comment> \<open>\<open>compact\_json\<close> of a row whose values are normalised: keys sorted, no spaces\<close>
  "compact_row lb r = rbind (row_dict lb r) (\<lambda>d. Inr (dump (JObj d)))"

definition MAX_EXTRA_JSON_LENGTH :: nat where
  "MAX_EXTRA_JSON_LENGTH = 64000"

definition bounded_json :: "etl_lib \<Rightarrow> string \<Rightarrow> string" where
  \<comment> \<open>of the rendered value\<close>
  "bounded_json lb t =
     (if py_len t \<le> MAX_EXTRA_JSON_LENGTH then t
      else dump (JObj [(''truncated'', JBool True), (''sha256'', JStr (lb_sha256 lb t)), (''original_length'', JInt (int (py_len t))),
        (''preview'', JStr (py_take (MAX_EXTRA_JSON_LENGTH div 2) t))]))"

definition parse_json_list :: "etl_lib \<Rightarrow> cell \<Rightarrow> json list etl" where
  "parse_json_list lb c =
     (case c of
        Val (JList xs) \<Rightarrow> Inr xs
      | _ \<Rightarrow>
          (case clean_text c of
             None \<Rightarrow> Inr []
           | Some raw \<Rightarrow>
               (case lb_loads lb raw of
                  None \<Rightarrow> Inl (RelationData (''invalid JSON array: '' @ py_take 120 raw))
                | Some JNull \<Rightarrow> Inr []
                | Some (JList xs) \<Rightarrow> Inr xs
                | Some j \<Rightarrow> Inr [j])))"

section \<open>Identifiers\<close>

definition VID_MAX_BYTES :: nat where
  "VID_MAX_BYTES = 64"

fun take_bytes :: "nat \<Rightarrow> string list \<Rightarrow> string" where
  \<comment> \<open>whole characters, as long as the budget lasts\<close>
  "take_bytes n [] = []"
| "take_bytes n (p # ps) = (if n < length p then [] else p @ take_bytes (n - length p) ps)"

definition bounded_vid :: "etl_lib \<Rightarrow> string \<Rightarrow> string" where
  "bounded_vid lb s =
     (if length s \<le> VID_MAX_BYTES then s
      else
        let suff = CHR ''_'' # lb_md5 lb s in
        take_bytes (VID_MAX_BYTES - length suff) (code_points s) @ suff)"

definition organization_vid :: "etl_lib \<Rightarrow> cell \<Rightarrow> string etl" where
  "organization_vid lb c =
     (case clean_text c of
        None \<Rightarrow> Inl (RelationData ''missing organization id'')
      | Some raw \<Rightarrow> Inr (bounded_vid lb (''org_'' @ raw)))"

definition person_vid :: "etl_lib \<Rightarrow> string \<Rightarrow> cell list \<Rightarrow> string etl" where
  "person_vid lb kind xs =
     (let ns = map (\<lambda>v. lb_fold lb (lb_nfkc lb v)) (List.map_filter clean_text xs) in
      if ns = [] then Inl (RelationData ''missing stable person identity'')
      else Inr (bounded_vid lb (''person_'' @ lb_md5 lb (py_join ''|'' (kind # ns)))))"

definition project_vid :: "etl_lib \<Rightarrow> cell \<Rightarrow> string etl" where
  "project_vid lb c =
     (case clean_text c of
        None \<Rightarrow> Inl (RelationData ''missing project id'')
      | Some raw \<Rightarrow> Inr (bounded_vid lb (''project_'' @ raw)))"

definition event_vid :: "etl_lib \<Rightarrow> string \<Rightarrow> string \<Rightarrow> string" where
  "event_vid lb t i = bounded_vid lb (''event_'' @ t @ ''_'' @ i)"

definition news_vid :: "etl_lib \<Rightarrow> string \<Rightarrow> string etl" where
  "news_vid lb i =
     (case clean_text (Val (JStr i)) of
        None \<Rightarrow> Inl (RelationData ''missing news record id'')
      | Some raw \<Rightarrow> Inr (bounded_vid lb (''news_'' @ raw)))"

definition product_vid :: "etl_lib \<Rightarrow> cell \<Rightarrow> string etl" where
  "product_vid lb c =
     (case clean_text c of
        None \<Rightarrow> Inl (RelationData ''missing product name'')
      | Some raw \<Rightarrow> Inr (bounded_vid lb (''product_'' @ lb_md5 lb (lb_fold lb (lb_nfkc lb raw)))))"

definition datasource_vid :: "etl_lib \<Rightarrow> string \<Rightarrow> string" where
  \<comment> \<open>no caller asks for the raw table\<close>
  "datasource_vid lb t = bounded_vid lb (''ds_'' @ t)"

definition stable_record_id :: "etl_lib \<Rightarrow> string \<Rightarrow> source_row \<Rightarrow> string list \<Rightarrow> string etl" where
  "stable_record_id lb t r fs =
     (let preferred = map (\<lambda>n. clean_text (rget r n)) fs in
      if preferred \<noteq> [] \<and> list_all (\<lambda>x. x \<noteq> None) preferred
      then Inr (py_join ''|'' (map opt_str preferred))
      else rbind (compact_row lb r) (\<lambda>c. Inr (lb_md5 lb (t @ ''|'' @ c))))"

definition hex_value :: "string \<Rightarrow> nat" where
  "hex_value s =
     foldl (\<lambda>n c. 16 * n + (let k = of_char c :: nat in if 97 \<le> k then k - 87 else k - 48)) 0 s"

definition stable_rank :: "etl_lib \<Rightarrow> string \<Rightarrow> nat" where
  \<comment> \<open>eight bytes of the digest without the sign bit\<close>
  "stable_rank lb s = hex_value (take 16 (lb_sha256 lb s)) mod 2 ^ 63"

definition edge_rank :: "etl_lib \<Rightarrow> string \<Rightarrow> string \<Rightarrow> string \<Rightarrow> string \<Rightarrow> nat" where
  "edge_rank lb e s t i = stable_rank lb (e @ ''|'' @ s @ ''|'' @ t @ ''|'' @ i)"

definition node_provenance :: "string \<Rightarrow> string \<Rightarrow> source_row \<Rightarrow> string \<Rightarrow> string \<Rightarrow> (string \<times> cell) list" where
  "node_provenance t i r batch now =
     [(''organization_id'', text_cell (organization_id_from_row r)), (''confidence'', entity_confidence r t),
      (''source_system'', Val (JStr ''gkx_element'')), (''source_table'', Val (JStr t)), (''source_record_id'', Val (JStr i)),
      (''source_url'', text_cell (clean_text (cell_or (rget r ''source_url'') (cell_or (rget r ''original_link'')
         (cell_or (rget r ''original_textlink'') (rget r ''web_link'')))))),
      (''ingest_batch'', Val (JStr batch)), (''ingest_time'', Val (JStr now)),
      (''source_update_time'', text_cell (clean_text (cell_or (rget r ''updated_time'') (rget r ''update_time''))))]"

section \<open>Statements\<close>

definition ngql_identifier :: "etl_lib \<Rightarrow> string \<Rightarrow> string etl" where
  \<comment> \<open>\<open>[A-Za-z\_]\w*\<close>\<close>
  "ngql_identifier lb s =
     (case s of
        [] \<Rightarrow> Inl (EtlCrash ''identifier'')
      | c # cs \<Rightarrow>
          if (upper_char c \<or> lower_char c \<or> c = CHR ''_'') \<and> list_all (word_point (lb_uc lb)) (code_points cs)
          then Inr (''`'' @ s @ ''`'') else Inl (EtlCrash ''identifier''))"

definition ngql_literal :: "etl_lib \<Rightarrow> bool \<Rightarrow> cell \<Rightarrow> string" where
  "ngql_literal lb numeric c =
     (if numeric then (case to_float lb c of None \<Rightarrow> ''NULL'' | Some x \<Rightarrow> lb_literal lb x)
      else case c of
        Val JNull \<Rightarrow> ''NULL''
      | Val (JBool b) \<Rightarrow> if b then ''true'' else ''false''
      | _ \<Rightarrow> dump_str (opt_str (clean_text c)))"

fun chunks :: "nat \<Rightarrow> 'a list \<Rightarrow> 'a list list" where
  \<comment> \<open>for a positive size\<close>
  "chunks n [] = []"
| "chunks n (x # xs) = (if n = 0 then [] else take n (x # xs) # chunks n (drop n (x # xs)))"

lemma concat_chunks [simp]: "0 < n \<Longrightarrow> concat (chunks n xs) = xs"
  by (induction n xs rule: chunks.induct) simp_all

section \<open>ASCII text\<close>

text \<open>Text of ASCII characters is no damaged text: equations that evaluate faster.\<close>

definition ascii_char :: "char \<Rightarrow> bool" where
  "ascii_char c = (\<not> digit7 c)"

lemma ascii_char_iff: "ascii_char c \<longleftrightarrow> (of_char c :: nat) < 128"
  by (cases c) (auto simp: ascii_char_def of_char_def)

lemma ascii_points:
  assumes "list_all ascii_char s"
  shows "code_points s = map (\<lambda>c. [c]) s"
  by (rule code_points_ascii) (use assms in \<open>auto simp: list_all_iff ascii_char_iff is_continuation_def\<close>)

lemma ascii_point_value: "list_all ascii_char s \<Longrightarrow> p \<in> set (code_points s) \<Longrightarrow> point_value p < 128"
  by (auto simp: ascii_points list_all_iff ascii_char_iff point_value_def)

lemma hints_not_ascii: "list_all (\<lambda>n. 128 \<le> n) mojibake_hints"
  by (simp add: mojibake_hints_def)

lemma py_in_subset: "py_in x s \<Longrightarrow> set x \<subseteq> set s"
proof (induction x s rule: py_in.induct)
  case (2 p c cs)
  then show ?case using set_mono_prefix [of p "c # cs"] by auto
qed simp

lemma repair_ascii:
  assumes "list_all ascii_char s"
  shows "repair_mojibake s = s"
proof -
  have "\<not> has_hint s"
    using ascii_point_value [OF assms] hints_not_ascii by (fastforce simp: has_hint_def list_ex_iff list_all_iff)
  moreover have "\<not> py_in replacement_character s"
    using py_in_subset [of replacement_character s] assms
    by (auto simp: replacement_character_def list_all_iff dest!: bspec [where x = "CHR 0xEF"]) (simp add: ascii_char_iff)
  ultimately show ?thesis
    by (simp add: repair_mojibake_def)
qed

lemma py_len_ascii: "list_all ascii_char s \<Longrightarrow> py_len s = length s"
  by (auto simp: py_len_def list_all_iff ascii_char_iff intro!: arg_cong [where f = length] filter_True)

definition repaired_length :: "string \<Rightarrow> string \<times> nat" where
  "repaired_length s = (let r = repair_mojibake s in (r, py_len r))"

lemma repaired_length_code [code]:
  "repaired_length s = (if list_all ascii_char s then (s, length s) else let r = repair_mojibake s in (r, py_len r))"
  by (simp add: repaired_length_def repair_ascii py_len_ascii)

lemma clean_text_code [code]:
  "clean_text c =
     (if c = Val JNull then None
      else
        let result = (case c of
                Stamp s \<Rightarrow> s
              | Day s \<Rightarrow> s
              | Bytes s \<Rightarrow> py_strip (if utf8_ok s then s else latin1_decode s)
              | _ \<Rightarrow> py_strip (cell_str c)) in
        if result = [] then None
        else case repaired_length result of (r, n) \<Rightarrow> Some (if 20000 < int n then py_take MAX_TEXT_LENGTH r else r))"
  by (simp add: clean_text_def repaired_length_def MAX_TEXT_LENGTH_def Let_def)

lemma bounded_json_code [code]:
  "bounded_json lb t =
     (if int (py_len t) \<le> 64000 then t
      else dump (JObj [(''truncated'', JBool True), (''sha256'', JStr (lb_sha256 lb t)), (''original_length'', JInt (int (py_len t))),
        (''preview'', JStr (py_take (MAX_EXTRA_JSON_LENGTH div 2) t))]))"
  by (simp add: bounded_json_def MAX_EXTRA_JSON_LENGTH_def)

definition digit_value :: "char \<Rightarrow> int" where
  "digit_value c = (let k = of_char c :: int in if 97 \<le> k then k - 87 else max 0 (k - 48))"

definition hex_int :: "string \<Rightarrow> int" where
  "hex_int s = foldl (\<lambda>n c. 16 * n + digit_value c) 0 s"

lemma digit_value_int: "digit_value c = int (let k = of_char c :: nat in if 97 \<le> k then k - 87 else k - 48)"
proof -
  have k: "(of_char c :: int) = int (of_char c)" by (simp only: of_nat_of_char)
  show ?thesis unfolding digit_value_def Let_def k by (simp add: of_nat_diff max_def)
qed

lemma hex_int_value: "hex_int s = int (hex_value s)"
proof -
  let ?f = "\<lambda>n c. 16 * n + (let k = of_char c :: nat in if 97 \<le> k then k - 87 else k - 48)"
  have step: "16 * int m + digit_value c = int (?f m c)" for m c
    by (simp add: digit_value_int)
  have "foldl (\<lambda>n c. 16 * n + digit_value c) (int m) s = int (foldl ?f m s)" for m
    by (induction s arbitrary: m) (simp_all only: foldl.simps step)
  from this [of 0] show ?thesis by (simp add: hex_int_def hex_value_def)
qed

lemma continuation_code [code]: "is_continuation c \<longleftrightarrow> digit7 c \<and> \<not> digit6 c"
  by (cases c) (auto simp: is_continuation_def of_char_def)

lemma py_len_code [code]: "py_len s = length (filter (\<lambda>c. \<not> is_continuation c) s)"
  by (auto simp: py_len_def is_continuation_def intro!: arg_cong [where f = length] filter_cong)

lemma stable_rank_code [code]: "stable_rank lb s = nat (hex_int (take 16 (lb_sha256 lb s)) mod 9223372036854775808)"
  by (simp add: stable_rank_def hex_int_value nat_mod_distrib)

text \<open>Classes of characters, read off their bits.\<close>

definition letter_bits :: "bool \<Rightarrow> bool \<Rightarrow> bool \<Rightarrow> bool \<Rightarrow> bool \<Rightarrow> bool" where
  "letter_bits b0 b1 b2 b3 b4 \<longleftrightarrow> (b0 \<or> b1 \<or> b2 \<or> b3 \<or> b4) \<and> \<not> (b4 \<and> b3 \<and> (b2 \<or> b1 \<and> b0))"

lemma upper_char_code [code]: "upper_char (Char b0 b1 b2 b3 b4 b5 b6 b7) = (\<not> b7 \<and> b6 \<and> \<not> b5 \<and> letter_bits b0 b1 b2 b3 b4)"
  and lower_char_code [code]: "lower_char (Char b0 b1 b2 b3 b4 b5 b6 b7) = (\<not> b7 \<and> b6 \<and> b5 \<and> letter_bits b0 b1 b2 b3 b4)"
  and digit_char_code [code]: "digit_char (Char b0 b1 b2 b3 b4 b5 b6 b7) = (\<not> b7 \<and> \<not> b6 \<and> b5 \<and> b4 \<and> \<not> (b3 \<and> (b2 \<or> b1)))"
  by (cases b0; cases b1; cases b2; cases b3; cases b4; cases b5; cases b6; cases b7;
      simp add: upper_char_def lower_char_def digit_char_def char_in_def Let_def of_char_def letter_bits_def)+

definition escaped :: "char \<Rightarrow> string" where
  "escaped = esc_char"

lemma escaped_code [code]:
  "escaped c =
     (let n = of_char c :: nat in
      if n = 34 then [CHR 0x5C, CHR 0x22]
      else if n = 92 then [CHR 0x5C, CHR 0x5C]
      else if n = 10 then [CHR 0x5C, CHR ''n'']
      else if n = 13 then [CHR 0x5C, CHR ''r'']
      else if n = 9 then [CHR 0x5C, CHR ''t'']
      else if n = 12 then [CHR 0x5C, CHR ''f'']
      else if n = 8 then [CHR 0x5C, CHR ''b'']
      else if n < 32 then [CHR 0x5C, CHR ''u'', CHR ''0'', CHR ''0'', hex_digit (n div 16), hex_digit (n mod 16)]
      else [c])"
  by (simp add: escaped_def esc_char_def)

lemma esc_char_code [code]:
  "esc_char c = (if (digit5 c \<or> digit6 c \<or> digit7 c) \<and> c \<noteq> CHR 0x22 \<and> c \<noteq> CHR 0x5C then [c] else escaped c)"
proof (cases "(digit5 c \<or> digit6 c \<or> digit7 c) \<and> c \<noteq> CHR 0x22 \<and> c \<noteq> CHR 0x5C")
  case True
  have "32 \<le> (of_char c :: nat)"
    using True by (cases c) (auto simp: of_char_def)
  moreover have "(of_char c :: nat) \<noteq> of_char (CHR 0x22)" "(of_char c :: nat) \<noteq> of_char (CHR 0x5C)"
    using True by (simp_all only: of_char_eq_iff not_False_eq_True)
  ultimately show ?thesis
    using True by (simp add: esc_char_def Let_def)
qed (auto simp: escaped_def)

end
