(* ===== verification/Etl_Relations.thy ===== *)
theory Etl_Relations
  imports Etl_Values
begin

text \<open>
  From a source row to edges (script/organization\_relation\_etl.py, \<open>extract\_candidates\<close>): the resolution of
  organizations, the properties of an edge, and one definition for each extractor.  A resolver is an
  argument; the exact one, which knows the names of the base tables, is defined here.
\<close>

section \<open>Edges\<close>

record edge_candidate =
  ec_edge_type :: string
  ec_source_vid :: string
  ec_target_vid :: string
  ec_target_tag :: string
  ec_rank :: nat
  ec_properties :: "(string \<times> cell) list"
  ec_source_table :: string
  ec_source_record_id :: string
  ec_source_tag :: string

type_synonym edge_id = "string \<times> string \<times> string \<times> nat"

definition edge_identity :: "edge_candidate \<Rightarrow> edge_id" where
  "edge_identity e = (ec_edge_type e, ec_source_vid e, ec_target_vid e, ec_rank e)"

record org_resolver =
  og_resolve :: "cell \<Rightarrow> source_row option \<Rightarrow> string option etl"
  og_exact :: "cell \<Rightarrow> string option"

record extract_env =
  xe_lib :: etl_lib
  xe_resolver :: org_resolver
  xe_batch :: string
  xe_now :: string

section \<open>The exact resolver\<close>

definition SOURCES :: "(string \<times> string \<times> string list) list" where
  "SOURCES =
     [(''dwd_org_base_info'', ''org_id'', [''name_cn'']), (''dwd_org_heis_info'', ''org_id'', [''name_cn'', ''name_en'']),
      (''dwd_research_institute_base_info'', ''org_id'', [''name_cn'', ''name_en'']),
      (''dwd_special_hongkong_company'', ''org_id'', [''name_cn'', ''name_en'', ''traditional_name'']),
      (''dwd_special_taiwan_company'', ''org_id'', [''company_name'', ''n_company_name'', ''name_en'']),
      (''dwd_special_aomen_company'', ''org_id'', [''org_loc_name'', ''en_name'']),
      (''dwd_forg_base_info'', ''org_id'', [''name_en'', ''name_alias''])]"

definition names_of_row :: "string \<Rightarrow> string list \<Rightarrow> source_row \<Rightarrow> (string \<times> string) list" where
  "names_of_row id_column columns r =
     (case clean_text (rget r id_column) of
        None \<Rightarrow> []
      | Some i \<Rightarrow> List.map_filter (\<lambda>c. map_option (\<lambda>n. (n, i)) (clean_text (rget r c))) columns)"

definition load_names :: "(string \<Rightarrow> source_row list) \<Rightarrow> (string \<times> string) list" where
  \<comment> \<open>\<open>by\_name\<close>, as pairs of a name and an identifier\<close>
  "load_names db = concat (map (\<lambda>(t, i, cs). concat (map (names_of_row i cs) (db t))) SOURCES)"

definition resolve_exact :: "(string \<times> string) list \<Rightarrow> cell \<Rightarrow> string option" where
  "resolve_exact names c =
     (case clean_text c of
        None \<Rightarrow> None
      | Some k \<Rightarrow> (case remdups (map snd (filter (\<lambda>p. fst p = k) names)) of [i] \<Rightarrow> Some i | _ \<Rightarrow> None))"

definition exact_resolver :: "(string \<times> string) list \<Rightarrow> org_resolver" where
  "exact_resolver names = \<lparr>og_resolve = (\<lambda>c ctx. Inr (resolve_exact names c)), og_exact = resolve_exact names\<rparr>"

section \<open>Organizations of a row\<close>

record evidence =
  ev_external :: "string list"
  ev_country_code :: "string list"
  ev_country :: "string list"
  ev_province :: "string list"
  ev_city :: "string list"
  ev_address :: "string list"

definition no_evidence :: evidence where
  "no_evidence = \<lparr>ev_external = [], ev_country_code = [], ev_country = [], ev_province = [], ev_city = [], ev_address = []\<rparr>"

definition by_external :: "string list \<Rightarrow> evidence" where
  "by_external fs = no_evidence\<lparr>ev_external := fs\<rparr>"

definition alignment_context :: "relation_spec \<Rightarrow> source_row \<Rightarrow> string \<Rightarrow> evidence \<Rightarrow> source_row" where
  "alignment_context sp r i v =
     [(''source_table'', Val (JStr (rel_table sp))), (''source_record_id'', Val (JStr i)),
      (''external_id'', first_value r (ev_external v)), (''country_code'', first_value r (ev_country_code v)),
      (''country'', first_value r (ev_country v)), (''province'', first_value r (ev_province v)),
      (''city'', first_value r (ev_city v)), (''address'', first_value r (ev_address v))]"

definition resolved_organization_vid :: "extract_env \<Rightarrow> cell \<Rightarrow> source_row \<Rightarrow> string etl" where
  \<comment> \<open>the callers give no fallback name, which is resolved as None\<close>
  "resolved_organization_vid xe c ctx =
     (let raw = clean_text c; og = og_resolve (xe_resolver xe) in
      rbind (case raw of None \<Rightarrow> Inr None | Some s \<Rightarrow> og (Val (JStr s)) (Some ctx)) (\<lambda>x.
      rbind (if opt_truthy x then Inr x else og (Val JNull) (Some ctx)) (\<lambda>y.
        case y of
          Some i \<Rightarrow> organization_vid (xe_lib xe) (Val (JStr i))
        | None \<Rightarrow>
            (case raw of
               None \<Rightarrow> Inl (RelationData ''organization has no stable or exact unique identifier'')
             | Some s \<Rightarrow> organization_vid (xe_lib xe) (Val (JStr s))))))"

definition organization_vid_from_row ::
  "extract_env \<Rightarrow> relation_spec \<Rightarrow> source_row \<Rightarrow> string \<Rightarrow> string list \<Rightarrow> string list \<Rightarrow> evidence \<Rightarrow> string etl" where
  "organization_vid_from_row xe sp r i id_fields name_fields v =
     (let raw = first_value r id_fields in
      if clean_text raw \<noteq> None
      then (case og_exact (xe_resolver xe) raw of
          Some x \<Rightarrow> organization_vid (xe_lib xe) (Val (JStr x))
        | None \<Rightarrow> organization_vid (xe_lib xe) raw)
      else resolved_organization_vid xe (first_value r name_fields) (alignment_context sp r i v))"

definition person_vid_for_row :: "extract_env \<Rightarrow> source_row \<Rightarrow> string \<Rightarrow> string \<Rightarrow> string etl" where
  "person_vid_for_row xe r kind name_field =
     (case clean_text (rget r name_field) of
        None \<Rightarrow> Inl (RelationData ''missing person name'')
      | Some name \<Rightarrow>
          person_vid (xe_lib xe) kind
            [rget r ''org_id'', Val (JStr name), first_value r [''dm_birthdate'', ''bo_birthdate'', ''birth_date''],
             first_value r [''dm_nationalities'', ''bo_country_code'', ''country_code'']])"

definition parse_entity_list :: "etl_lib \<Rightarrow> cell \<Rightarrow> json list etl" where
  "parse_entity_list lb c =
     (case c of
        Val (JList xs) \<Rightarrow> Inr xs
      | Val (JObj d) \<Rightarrow> Inr [JObj d]
      | _ \<Rightarrow>
          (case clean_text c of
             None \<Rightarrow> Inr []
           | Some raw \<Rightarrow>
               if hd raw \<in> {CHR ''['', CHR ''{''} then parse_json_list lb (Val (JStr raw)) else Inr [JStr raw]))"

section \<open>Properties of edges\<close>

definition edge_props ::
  "extract_env \<Rightarrow> relation_spec \<Rightarrow> source_row \<Rightarrow> string \<Rightarrow> (string \<times> cell) list \<Rightarrow> (string \<times> cell) list etl" where
  "edge_props xe sp r i business =
     (let base = [(''organization_id'', text_cell (organization_id_from_row r)),
            (''confidence'', relation_confidence r (rel_table sp)), (''source_table'', Val (JStr (rel_table sp))),
            (''source_record_id'', Val (JStr i)), (''ingest_batch'', Val (JStr (xe_batch xe))), (''ingest_time'', Val (JStr (xe_now xe)))] in
      rbind (if ''extra_json'' \<in> set (rel_edge_props sp)
             then rbind (compact_row (xe_lib xe) r) (\<lambda>t. Inr [(''extra_json'', Val (JStr (bounded_json (xe_lib xe) t)))])
             else Inr []) (\<lambda>x.
        Inr (map (\<lambda>n. (n, rget (business @ x @ base) n)) (rel_edge_props sp))))"

definition candidate ::
  "etl_lib \<Rightarrow> relation_spec \<Rightarrow> string option \<Rightarrow> string \<Rightarrow> string \<Rightarrow> string \<Rightarrow> (string \<times> cell) list \<Rightarrow> edge_candidate" where
  "candidate lb sp tag s t i ps =
     \<lparr>ec_edge_type = rel_edge_type sp, ec_source_vid = s, ec_target_vid = t, ec_target_tag = rel_target_tag sp,
      ec_rank = edge_rank lb (rel_edge_type sp) s t i, ec_properties = ps, ec_source_table = rel_table sp,
      ec_source_record_id = i, ec_source_tag = opt_or tag (hd (rel_source_tags sp))\<rparr>"

definition one_edge ::
  "extract_env \<Rightarrow> relation_spec \<Rightarrow> source_row \<Rightarrow> string \<Rightarrow> string option \<Rightarrow> string \<Rightarrow> string \<Rightarrow> (string \<times> cell) list \<Rightarrow>
   edge_candidate list etl" where
  "one_edge xe sp r i tag s t business =
     rbind (edge_props xe sp r i business) (\<lambda>ps. Inr [candidate (xe_lib xe) sp tag s t i ps])"

section \<open>Extractors of persons and owners\<close>

definition extract_legal_representative :: "extract_env \<Rightarrow> relation_spec \<Rightarrow> source_row \<Rightarrow> string \<Rightarrow> edge_candidate list etl" where
  "extract_legal_representative xe sp r i =
     rbind (person_vid (xe_lib xe) ''legal_representative'' [rget r ''org_id'', first_value r [''lerep'', ''legal_person'']]) (\<lambda>s.
     rbind (organization_vid_from_row xe sp r i [''org_id''] [''name_cn'', ''company_name'']
        ((by_external [''external_id''])\<lparr>ev_province := [''province''], ev_city := [''city''], ev_address := [''address'', ''company_address'']\<rparr>))
       (\<lambda>t. one_edge xe sp r i (Some ''Person'') s t []))"

definition extract_domestic_shareholder :: "extract_env \<Rightarrow> relation_spec \<Rightarrow> source_row \<Rightarrow> string \<Rightarrow> edge_candidate list etl" where
  "extract_domestic_shareholder xe sp r i =
     rbind (organization_vid_from_row xe sp r i [''org_id''] [''name_cn''] (by_external [''external_id''])) (\<lambda>t.
       let owner_type = lb_fold (xe_lib xe) (opt_str (clean_text (rget r ''owners_type'')));
           owner_name = first_value r [''owners_name'', ''inv_name'']
       in rbind (if clean_text (rget r ''inv_org_id'') \<noteq> None \<or> owner_type \<in> set organization_types
              then rbind (organization_vid_from_row xe sp r i [''inv_org_id''] [''owners_name'', ''inv_name''] no_evidence)
                (\<lambda>s. Inr (s, ''Organization''))
              else if owner_type \<in> set person_types
              then rbind (person_vid (xe_lib xe) ''shareholder'' [rget r ''org_id'', owner_name]) (\<lambda>s. Inr (s, ''Person''))
              else Inl (RelationData ''shareholder endpoint type is not explicit'')) (\<lambda>(s, tag).
            one_edge xe sp r i (Some tag) s t
              [(''ownership_percentage'', float_cell (to_float (xe_lib xe) (rget r ''ownership_percentage'')))]))"

definition extract_foreign_shareholder :: "extract_env \<Rightarrow> relation_spec \<Rightarrow> source_row \<Rightarrow> string \<Rightarrow> edge_candidate list etl" where
  "extract_foreign_shareholder xe sp r i =
     rbind (og_resolve (xe_resolver xe) (rget r ''owners_name'')
         (Some (alignment_context sp r i (no_evidence\<lparr>ev_country_code := [''owners_country_code''], ev_country := [''owners_country'']\<rparr>)))) (\<lambda>x.
       case x of
         None \<Rightarrow> Inl (RelationData ''foreign shareholder type is unknown and is not an exact unique Organization'')
       | Some owner \<Rightarrow>
           rbind (organization_vid (xe_lib xe) (Val (JStr owner))) (\<lambda>s.
           rbind (organization_vid_from_row xe sp r i [''org_id''] [''name_en'', ''name_cn''] no_evidence) (\<lambda>t.
             one_edge xe sp r i None s t
               [(''ownership_percentage'', float_cell (to_float (xe_lib xe) (rget r ''ownership_percentage'')))])))"

definition extract_executive :: "extract_env \<Rightarrow> relation_spec \<Rightarrow> source_row \<Rightarrow> string \<Rightarrow> edge_candidate list etl" where
  "extract_executive xe sp r i =
     rbind (person_vid_for_row xe r ''executive'' ''executives_name'') (\<lambda>s.
     rbind (organization_vid_from_row xe sp r i [''org_id''] [''name_cn'', ''name_en''] (by_external [''external_id''])) (\<lambda>t.
       one_edge xe sp r i (Some ''Person'') s t [(''position'', text_cell (clean_text (rget r ''executives_position'')))]))"

definition extract_beneficial_owner :: "extract_env \<Rightarrow> relation_spec \<Rightarrow> source_row \<Rightarrow> string \<Rightarrow> edge_candidate list etl" where
  "extract_beneficial_owner xe sp r i =
     rbind (person_vid_for_row xe r ''beneficial_owner'' ''bo_name'') (\<lambda>s.
     rbind (organization_vid_from_row xe sp r i [''org_id''] [''name_en'', ''name_cn''] no_evidence) (\<lambda>t.
       one_edge xe sp r i (Some ''Person'') s t
         (map (\<lambda>n. (n, float_cell (to_float (xe_lib xe) (rget r n)))) [''direct_percent'', ''indirect_percent'', ''total_percent''])))"

definition controller_evidence :: evidence where
  "controller_evidence = (by_external [''entity_eid''])\<lparr>ev_country_code := [''entity_country_code'', ''country_code''],
     ev_country := [''entity_country'', ''country'']\<rparr>"

definition extract_actual_controller :: "extract_env \<Rightarrow> relation_spec \<Rightarrow> source_row \<Rightarrow> string \<Rightarrow> edge_candidate list etl" where
  "extract_actual_controller xe sp r i =
     rbind (organization_vid_from_row xe sp r i [''org_id''] [''name_en'', ''name_cn''] no_evidence) (\<lambda>t.
       let kind = lb_fold (xe_lib xe) (opt_str (clean_text (rget r ''entity_type''))) in
       rbind (if kind \<in> set organization_types
              then rbind (organization_vid_from_row xe sp r i [''entity_eid''] [''entity_name''] controller_evidence) (\<lambda>s. Inr (s, ''Organization''))
              else if kind \<in> set person_types
              then rbind (person_vid_for_row xe r ''actual_controller'' ''entity_name'') (\<lambda>s. Inr (s, ''Person''))
              else rbind (og_resolve (xe_resolver xe) (rget r ''entity_name'') (Some (alignment_context sp r i controller_evidence))) (\<lambda>x.
                case x of
                  None \<Rightarrow> Inl (RelationData ''actual controller entity_type is unknown and name is not an exact Organization'')
                | Some y \<Rightarrow> rbind (organization_vid (xe_lib xe) (Val (JStr y))) (\<lambda>s. Inr (s, ''Organization'')))) (\<lambda>(s, tag).
         if s = t then Inl (RelationData ''actual controller resolves to target Organization itself'')
         else one_edge xe sp r i (Some tag) s t
           [(''direct_pct'', float_cell (to_float (xe_lib xe) (first_value r [''direct_pct_num'', ''direct_pct'']))),
            (''total_pct'', float_cell (to_float (xe_lib xe) (first_value r [''total_pct_num'', ''total_pct''])))]))"

section \<open>Extractors between organizations\<close>

definition extract_investment :: "extract_env \<Rightarrow> relation_spec \<Rightarrow> source_row \<Rightarrow> string \<Rightarrow> edge_candidate list etl" where
  "extract_investment xe sp r i =
     rbind (organization_vid_from_row xe sp r i [''org_id''] [''name_cn''] (by_external [''external_id''])) (\<lambda>s.
     rbind (organization_vid_from_row xe sp r i [''inv_org_id''] [''inv_name''] (by_external [''inv_external_id''])) (\<lambda>t.
       one_edge xe sp r i None s t
         (map (\<lambda>n. (n, float_cell (to_float (xe_lib xe) (rget r n)))) [''investment_amount'', ''investment_ratio''])))"

definition extract_acquisition :: "extract_env \<Rightarrow> relation_spec \<Rightarrow> source_row \<Rightarrow> string \<Rightarrow> edge_candidate list etl" where
  "extract_acquisition xe sp r i =
     rbind (organization_vid_from_row xe sp r i [''acquiring_org_id''] [''acquiring_name''] (by_external [''acquiring_external_id''])) (\<lambda>s.
     rbind (organization_vid_from_row xe sp r i [''acquired_org_id''] [''acquired_name''] (by_external [''acquired_external_id''])) (\<lambda>t.
       one_edge xe sp r i None s t
         [(''ma_amount'', float_cell (to_float (xe_lib xe) (rget r ''ma_amount''))),
          (''currency_code'', text_cell (clean_text (rget r ''currency_code'')))]))"

definition subsidiary_evidence :: evidence where
  "subsidiary_evidence = (by_external [''affiliates_company_id''])\<lparr>ev_country_code := [''affiliates_country_code''],
     ev_country := [''affiliates_country'']\<rparr>"

definition extract_subsidiary :: "extract_env \<Rightarrow> relation_spec \<Rightarrow> source_row \<Rightarrow> string \<Rightarrow> edge_candidate list etl" where
  "extract_subsidiary xe sp r i =
     rbind (organization_vid_from_row xe sp r i [''org_id''] [''name_en'', ''name_cn''] no_evidence) (\<lambda>parent.
       let known = (case clean_text (rget r ''affiliate'') of Some x \<Rightarrow> Some x | None \<Rightarrow> clean_text (rget r ''affiliates_company_id'')) in
       rbind (if known \<noteq> None then Inr known
              else og_resolve (xe_resolver xe) (rget r ''affiliates_name'') (Some (alignment_context sp r i subsidiary_evidence))) (\<lambda>x.
         if x = None then Inl (RelationData ''subsidiary target has no stable or exact unique Organization id'')
         else rbind (organization_vid_from_row xe sp r i [''affiliate'', ''affiliates_company_id''] [''affiliates_name''] subsidiary_evidence)
           (\<lambda>child. one_edge xe sp r i None child parent [])))"

section \<open>Extractors of projects\<close>

definition item_name :: "json \<Rightarrow> cell" where
  "item_name v = (case v of JObj d \<Rightarrow> Val (dget d ''name'') | _ \<Rightarrow> Val v)"

definition item_id :: "json \<Rightarrow> string option" where
  "item_id v =
     (case v of
        JObj d \<Rightarrow> clean_text (Val (json_or (dget d ''org_id'') (json_or (dget d ''organization_id'') (dget d ''institution_id''))))
      | _ \<Rightarrow> None)"

definition item_organization :: "extract_env \<Rightarrow> json \<Rightarrow> string option etl" where
  \<comment> \<open>\<open>item\_id or resolver.resolve(name)\<close>\<close>
  "item_organization xe v =
     (if opt_truthy (item_id v) then Inr (item_id v) else og_resolve (xe_resolver xe) (item_name v) None)"

fun item_edges ::
  "extract_env \<Rightarrow> string \<Rightarrow> (string \<Rightarrow> string \<Rightarrow> edge_candidate etl) \<Rightarrow> nat \<Rightarrow> json list \<Rightarrow> edge_candidate list etl" where
  \<comment> \<open>the loop over the items: the start of the record identifiers, the edge for a record and an organization\<close>
  "item_edges xe start edge n [] = Inr []"
| "item_edges xe start edge n (v # vs) =
     rbind (item_organization xe v) (\<lambda>x.
       case x of
         None \<Rightarrow> item_edges xe start edge (Suc n) vs
       | Some oid \<Rightarrow>
           rbind (edge (start @ show_nat n @ ''|'' @ opt_or (clean_text (item_name v)) oid) oid) (\<lambda>e.
           rbind (item_edges xe start edge (Suc n) vs) (\<lambda>es. Inr (e # es))))"

definition some_edges :: "string \<Rightarrow> edge_candidate list \<Rightarrow> edge_candidate list etl" where
  "some_edges m es = (if es = [] then Inl (RelationData m) else Inr es)"

definition extract_project :: "extract_env \<Rightarrow> relation_spec \<Rightarrow> source_row \<Rightarrow> string \<Rightarrow> edge_candidate list etl" where
  "extract_project xe sp r i =
     rbind (project_vid (xe_lib xe) (rget r ''id'')) (\<lambda>t.
     rbind (parse_entity_list (xe_lib xe) (rget r ''participating_institution'')) (\<lambda>vs.
     rbind (item_edges xe (i @ ''|participant|'')
        (\<lambda>k oid. rbind (edge_props xe sp r k []) (\<lambda>ps. rbind (organization_vid (xe_lib xe) (Val (JStr oid)))
           (\<lambda>s. Inr (candidate (xe_lib xe) sp None s t k ps)))) 0 vs)
       (some_edges ''project has no participant with a stable or exact unique org id'')))"

definition extract_project_funder :: "extract_env \<Rightarrow> relation_spec \<Rightarrow> source_row \<Rightarrow> string \<Rightarrow> edge_candidate list etl" where
  "extract_project_funder xe sp r i =
     rbind (project_vid (xe_lib xe) (rget r ''id'')) (\<lambda>s.
     rbind (parse_entity_list (xe_lib xe) (rget r ''funded_institution'')) (\<lambda>vs.
     rbind (item_edges xe (i @ ''|funder|'')
        (\<lambda>k oid. rbind (edge_props xe sp r k
             [(''funded_amount'', float_cell (to_float (xe_lib xe) (rget r ''funded_amount''))),
              (''fund_category'', text_cell (clean_text (rget r ''fund_category'')))])
           (\<lambda>ps. rbind (organization_vid (xe_lib xe) (Val (JStr oid)))
             (\<lambda>t. Inr (candidate (xe_lib xe) sp (Some ''Project'') s t k ps)))) 0 vs)
       (some_edges ''project has no funder with a stable or exact unique org id'')))"

section \<open>Extractors of news, events and products\<close>

definition extract_news :: "extract_env \<Rightarrow> relation_spec \<Rightarrow> source_row \<Rightarrow> string \<Rightarrow> edge_candidate list etl" where
  "extract_news xe sp r i =
     rbind (organization_vid_from_row xe sp r i [''org_id''] [''name_cn''] (by_external [''external_id''])) (\<lambda>s.
     rbind (news_vid (xe_lib xe) (rel_table sp @ ''_'' @ i)) (\<lambda>t. one_edge xe sp r i None s t []))"

definition extract_event :: "extract_env \<Rightarrow> relation_spec \<Rightarrow> source_row \<Rightarrow> string \<Rightarrow> edge_candidate list etl" where
  "extract_event xe sp r i =
     rbind (organization_vid_from_row xe sp r i [''org_id''] [''name_cn'', ''company_name'', ''taxpayer_name'', ''exec_person_name'']
        ((by_external [''external_id'', ''credit_no''])\<lparr>ev_province := [''province''], ev_city := [''city''],
           ev_address := [''address'', ''reg_address'']\<rparr>)) (\<lambda>s.
       one_edge xe sp r i None s (event_vid (xe_lib xe) (rel_table sp) i)
         [(''role'', Val (JStr (opt_or (clean_text (cell_or (rget r ''case_role'') (rget r ''exec_person_type''))) ''subject'')))])"

definition extract_bankruptcy_party :: "extract_env \<Rightarrow> relation_spec \<Rightarrow> source_row \<Rightarrow> string \<Rightarrow> edge_candidate list etl" where
  "extract_bankruptcy_party xe sp r i =
     rbind (organization_vid_from_row xe sp r i [''org_id''] [''related_person_name'', ''name_cn''] (by_external [''external_id''])) (\<lambda>s.
       case clean_text (rget r ''case_no'') of
         None \<Rightarrow> Inl (RelationData ''bankruptcy party has no case_no'')
       | Some k \<Rightarrow>
           one_edge xe sp r i None s (event_vid (xe_lib xe) ''dwd_org_bankruptcy_public_cases'' k)
             [(''role'', Val (JStr (opt_or (clean_text (rget r ''party_role_type'')) ''bankruptcy_party'')))])"

definition extract_bankruptcy_admin :: "extract_env \<Rightarrow> relation_spec \<Rightarrow> source_row \<Rightarrow> string \<Rightarrow> edge_candidate list etl" where
  "extract_bankruptcy_admin xe sp r i =
     rbind (organization_vid_from_row xe sp r i [''admin_org_id''] [''admin_org''] no_evidence) (\<lambda>s.
       case clean_text (rget r ''case_no'') of
         None \<Rightarrow> Inl (RelationData ''bankruptcy case has no case_no'')
       | Some k \<Rightarrow>
           one_edge xe sp r i None s (event_vid (xe_lib xe) (rel_table sp) k) [(''role'', Val (JStr ''bankruptcy_administrator''))])"

definition extract_bid_party :: "extract_env \<Rightarrow> relation_spec \<Rightarrow> source_row \<Rightarrow> string \<Rightarrow> edge_candidate list etl" where
  "extract_bid_party xe sp r i =
     rbind (organization_vid_from_row xe sp r i [''org_id'', ''company_id''] [''name_cn'', ''company_name'']
        (by_external [''external_id'', ''credit_no''])) (\<lambda>s.
       case clean_text (rget r ''u_id'') of
         None \<Rightarrow> Inl (RelationData ''bid party has no u_id'')
       | Some k \<Rightarrow>
           one_edge xe sp r i None s (event_vid (xe_lib xe) ''dwd_bid_base_out'' k)
             [(''role'', Val (JStr (if rel_table sp = ''dwd_bid_win_candidate_out'' then ''winner_candidate'' else ''purchase_agency'')))])"

definition extract_industry_node :: "extract_env \<Rightarrow> relation_spec \<Rightarrow> source_row \<Rightarrow> string \<Rightarrow> edge_candidate list etl" where
  "extract_industry_node xe sp r i =
     rbind (organization_vid (xe_lib xe) (rget r ''antitypic'')) (\<lambda>s.
       case clean_text (rget r ''node_id'') of
         None \<Rightarrow> Inl (RelationData ''missing industry node id'')
       | Some k \<Rightarrow>
           one_edge xe sp r i None s (bounded_vid (xe_lib xe) (''node_'' @ k))
             [(''chain_score'', float_cell (to_float (xe_lib xe) (rget r ''chain_score'')))])"

definition extract_product :: "extract_env \<Rightarrow> relation_spec \<Rightarrow> source_row \<Rightarrow> string \<Rightarrow> edge_candidate list etl" where
  "extract_product xe sp r i =
     rbind (organization_vid (xe_lib xe) (rget r ''antitypic'')) (\<lambda>s.
     rbind (product_vid (xe_lib xe) (rget r ''tech_product'')) (\<lambda>t.
     rbind (to_int (xe_lib xe) (rget r ''tech_product_seq'')) (\<lambda>n.
       one_edge xe sp r i None s t [(''tech_product_seq'', case n of None \<Rightarrow> Val JNull | Some k \<Rightarrow> Val (JInt k))])))"

definition extract_organization_product :: "extract_env \<Rightarrow> relation_spec \<Rightarrow> source_row \<Rightarrow> string \<Rightarrow> edge_candidate list etl" where
  "extract_organization_product xe sp r i =
     rbind (organization_vid_from_row xe sp r i [''org_id''] [''name_cn'', ''name_en''] (by_external [''external_id''])) (\<lambda>s.
     rbind (product_vid (xe_lib xe) (first_value r [''main_prod'', ''main_products''])) (\<lambda>t. one_edge xe sp r i None s t []))"

section \<open>All extractors\<close>

definition extractors :: "(string \<times> (extract_env \<Rightarrow> relation_spec \<Rightarrow> source_row \<Rightarrow> string \<Rightarrow> edge_candidate list etl)) list" where
  "extractors =
     [(''legal_representative'', extract_legal_representative), (''domestic_shareholder'', extract_domestic_shareholder),
      (''foreign_shareholder'', extract_foreign_shareholder), (''executive'', extract_executive),
      (''beneficial_owner'', extract_beneficial_owner), (''actual_controller'', extract_actual_controller),
      (''investment'', extract_investment), (''acquisition'', extract_acquisition), (''subsidiary'', extract_subsidiary),
      (''project'', extract_project), (''project_funder'', extract_project_funder), (''news'', extract_news),
      (''event'', extract_event), (''bankruptcy_party'', extract_bankruptcy_party),
      (''bankruptcy_admin'', extract_bankruptcy_admin), (''bid_party'', extract_bid_party),
      (''industry_node'', extract_industry_node), (''product'', extract_product),
      (''organization_product'', extract_organization_product)]"

definition extract_candidates :: "extract_env \<Rightarrow> relation_spec \<Rightarrow> source_row \<Rightarrow> edge_candidate list etl" where
  "extract_candidates xe sp r =
     rbind (stable_record_id (xe_lib xe) (rel_table sp) r (rel_record_fields sp)) (\<lambda>i.
       case map_of extractors (rel_extractor sp) of
         None \<Rightarrow> Inl (EtlCrash ''unsupported extractor'')
       | Some f \<Rightarrow> f xe sp r i)"

lemmas extractor_defs = extract_legal_representative_def extract_domestic_shareholder_def extract_foreign_shareholder_def
  extract_executive_def extract_beneficial_owner_def extract_actual_controller_def extract_investment_def
  extract_acquisition_def extract_subsidiary_def extract_project_def extract_project_funder_def extract_news_def
  extract_event_def extract_bankruptcy_party_def extract_bankruptcy_admin_def extract_bid_party_def
  extract_industry_node_def extract_product_def extract_organization_product_def

end
