(* ===== verification/Etl_Load.thy ===== *)
theory Etl_Load
  imports Etl_Relations Calls Tables "HOL-Library.Product_Lexorder"
begin

text \<open>
  Loading relations into the graph (script/organization\_relation\_etl.py): the batches with their checks of
  both ends, the statement that is split when the graph refuses it, the run over the source tables, and
  the watermark (script/etl\_watermark.py).  The graph is state: the vertices with their tags and the
  edges; which of its calls fail, and whether a failing statement was carried out, are arguments.
\<close>

section \<open>The watermark\<close>

definition mark_point :: "unicode_classes \<Rightarrow> char option \<Rightarrow> string \<Rightarrow> bool" where
  \<comment> \<open>a digit, or the given character\<close>
  "mark_point uc c p = (case c of None \<Rightarrow> digit_point uc p | Some x \<Rightarrow> p = [x])"

definition mark_pattern :: "char option list" where
  \<comment> \<open>\<open>dddd-dd-dd dd:dd:dd\<close>, the blank or a T\<close>
  "mark_pattern =
     (let d = None; m = Some (CHR ''-''); k = Some (CHR '':'') in
      [d, d, d, d, m, d, d, m, d, d, Some (CHR '' ''), d, d, k, d, d, k, d, d])"

definition mark_ok :: "unicode_classes \<Rightarrow> string \<Rightarrow> bool" where
  \<comment> \<open>\<open>\_TS\_RE.match\<close>\<close>
  "mark_ok uc s \<longleftrightarrow>
     list_all2 (mark_point uc) mark_pattern (code_points s) \<or>
     list_all2 (mark_point uc) (mark_pattern[10 := Some (CHR ''T'')]) (code_points s)"

definition read_mark :: "unicode_classes \<Rightarrow> string option \<Rightarrow> string option etl" where
  \<comment> \<open>of the bytes of the file; text that is not UTF-8 is not an \<open>OSError\<close>\<close>
  "read_mark uc f =
     (case f of
        None \<Rightarrow> Inr None
      | Some b \<Rightarrow>
          if \<not> utf8_ok b then Inl (EtlCrash ''UnicodeDecodeError'')
          else let v = py_strip b in Inr (if v = [] \<or> \<not> mark_ok uc v then None else Some v))"

definition advance_if_higher :: "unicode_classes \<Rightarrow> bool \<Rightarrow> string \<Rightarrow> string option \<Rightarrow> unit etl \<times> string option" where
  \<comment> \<open>the flag: writing the temporary file fails, which leaves the mark\<close>
  "advance_if_higher uc fault ts f =
     (case read_mark uc f of
        Inl e \<Rightarrow> (Inl e, f)
      | Inr (Some current) \<Rightarrow>
          if ts \<le> current then (Inr (), f)
          else if fault then (Inl (EtlCrash ''OSError''), f) else (Inr (), Some ts)
      | Inr None \<Rightarrow> if fault then (Inl (EtlCrash ''OSError''), f) else (Inr (), Some ts))"

section \<open>State\<close>

record relation_stats =
  st_queried :: nat
  st_valid :: nat
  st_written :: nat
  st_updated :: nat
  st_skipped :: nat
  st_source_missing :: nat
  st_target_missing :: nat
  st_invalid :: nat
  st_unresolved_identifier :: nat
  st_duplicate :: nat
  st_existing :: nat
  st_failed :: nat
  st_batches :: nat
  st_examples :: "string list"

definition no_stats :: relation_stats where
  "no_stats = \<lparr>st_queried = 0, st_valid = 0, st_written = 0, st_updated = 0, st_skipped = 0, st_source_missing = 0,
     st_target_missing = 0, st_invalid = 0, st_unresolved_identifier = 0, st_duplicate = 0, st_existing = 0, st_failed = 0,
     st_batches = 0, st_examples = []\<rparr>"

record etl_state =
  ks_vertices :: "(string \<times> string) list"                          \<comment> \<open>tag and identifier\<close>
  ks_edges :: "(edge_id \<times> (string \<times> cell) list) list"
  ks_calls :: nat                                                    \<comment> \<open>calls of the graph so far\<close>
  ks_stats :: relation_stats                                         \<comment> \<open>of the current table\<close>
  ks_results :: "(string \<times> relation_stats) list"
  ks_mark :: "string option"

type_synonym 'a etl_call = "(etl_error, etl_state, 'a) call"

record graph_faults =
  gf_read :: "nat \<Rightarrow> bool"                                           \<comment> \<open>the call with this number raises\<close>
  gf_write :: "nat \<Rightarrow> edge_candidate list \<Rightarrow> bool \<times> bool"              \<comment> \<open>carried out; raised\<close>

definition stat :: "(relation_stats \<Rightarrow> relation_stats) \<Rightarrow> etl_state \<Rightarrow> etl_state" where
  "stat f s = s\<lparr>ks_stats := f (ks_stats s)\<rparr>"

definition graph_read :: "graph_faults \<Rightarrow> (etl_state \<Rightarrow> 'a) \<Rightarrow> 'a etl_call" where
  "graph_read gf f s =
     (if gf_read gf (ks_calls s) then Inl (EtlCrash ''graph'') else Inr (f s), s\<lparr>ks_calls := Suc (ks_calls s)\<rparr>)"

definition put_edges :: "edge_candidate list \<Rightarrow> (edge_id \<times> (string \<times> cell) list) list \<Rightarrow> (edge_id \<times> (string \<times> cell) list) list" where
  \<comment> \<open>\<open>INSERT EDGE\<close>: the properties of an edge that is there are replaced\<close>
  "put_edges es g = foldl (\<lambda>g e. tbl_put fst (edge_identity e, ec_properties e) g) g es"

definition graph_write :: "graph_faults \<Rightarrow> edge_candidate list \<Rightarrow> etl_state \<Rightarrow> bool \<times> etl_state" where
  "graph_write gf es s =
     (case gf_write gf (ks_calls s) es of
        (carried, raised) \<Rightarrow>
          (raised, s\<lparr>ks_calls := Suc (ks_calls s), ks_edges := (if carried then put_edges es (ks_edges s) else ks_edges s)\<rparr>))"

section \<open>Reading the graph\<close>

fun fetch_chunks :: "graph_faults \<Rightarrow> string \<Rightarrow> string list list \<Rightarrow> string list etl_call" where
  "fetch_chunks gf tag [] = aret []"
| "fetch_chunks gf tag (b # bs) =
     abind (graph_read gf (\<lambda>s. filter (\<lambda>v. (tag, v) \<in> set (ks_vertices s)) b)) (\<lambda>vs.
     abind (fetch_chunks gf tag bs) (\<lambda>us. aret (List.map_filter (\<lambda>v. clean_text (Val (JStr v))) vs @ us)))"

definition existing_vids :: "graph_faults \<Rightarrow> etl_lib \<Rightarrow> nat \<Rightarrow> string \<Rightarrow> string list \<Rightarrow> string list etl_call" where
  "existing_vids gf lb bsz tag vids =
     abind (alift (ngql_identifier lb tag)) (\<lambda>_. fetch_chunks gf tag (chunks bsz (sort (remdups vids))))"

fun found_ends ::
  "graph_faults \<Rightarrow> etl_lib \<Rightarrow> nat \<Rightarrow> (string \<Rightarrow> string list) \<Rightarrow> string list \<Rightarrow> (string \<times> string) list etl_call" where
  \<comment> \<open>the loops over the tags; the identifiers asked for under a tag are an argument\<close>
  "found_ends gf lb bsz vids [] = aret []"
| "found_ends gf lb bsz vids (tag # tags) =
     abind (existing_vids gf lb bsz tag (vids tag)) (\<lambda>vs.
     abind (found_ends gf lb bsz vids tags) (\<lambda>ps. aret (map (Pair tag) vs @ ps)))"

definition edges_between :: "string \<Rightarrow> string list \<Rightarrow> string list \<Rightarrow> etl_state \<Rightarrow> edge_id list" where
  "edges_between ty ss ts s =
     filter (\<lambda>(e, a, b, k). e = ty \<and> a \<in> set ss \<and> b \<in> set ts) (map fst (ks_edges s))"

definition existing_edge_identities :: "graph_faults \<Rightarrow> etl_lib \<Rightarrow> relation_spec \<Rightarrow> edge_candidate list \<Rightarrow> edge_id list etl_call" where
  "existing_edge_identities gf lb sp es =
     (if es = [] then aret []
      else abind (alift (ngql_identifier lb (rel_edge_type sp))) (\<lambda>_.
        abind (graph_read gf (edges_between (rel_edge_type sp) (map ec_source_vid es) (map ec_target_vid es))) (\<lambda>ids.
          aret (List.map_filter (\<lambda>(e, a, b, k).
            case (clean_text (Val (JStr a)), clean_text (Val (JStr b))) of
              (Some a', Some b') \<Rightarrow> Some (rel_edge_type sp, a', b', k) | _ \<Rightarrow> None) ids))))"

section \<open>Writing\<close>

fun all_ok :: "('e + 'a) list \<Rightarrow> 'e + 'a list" where
  "all_ok [] = Inr []"
| "all_ok (x # xs) = rbind x (\<lambda>v. rbind (all_ok xs) (\<lambda>vs. Inr (v # vs)))"

definition render_edge :: "etl_lib \<Rightarrow> relation_spec \<Rightarrow> edge_candidate \<Rightarrow> string" where
  "render_edge lb sp e =
     ngql_literal lb False (Val (JStr (ec_source_vid e))) @ ''->'' @ ngql_literal lb False (Val (JStr (ec_target_vid e))) @
     ''@'' @ show_nat (ec_rank e) @ '':('' @
     py_join '','' (map (\<lambda>n. ngql_literal lb (n \<in> set (rel_numeric sp) \<or> n = ''confidence'') (rget (ec_properties e) n)) (rel_edge_props sp)) @
     '')''"

definition render_edge_insert :: "etl_lib \<Rightarrow> relation_spec \<Rightarrow> edge_candidate list \<Rightarrow> string etl" where
  "render_edge_insert lb sp es =
     (if es = [] then Inl (EtlCrash ''empty'')
      else rbind (all_ok (map (ngql_identifier lb) (rel_edge_props sp))) (\<lambda>ps.
        rbind (ngql_identifier lb (rel_edge_type sp)) (\<lambda>ty.
          Inr (''INSERT EDGE '' @ ty @ '' ('' @ py_join '','' ps @ '') VALUES '' @ py_join '','' (map (render_edge lb sp) es) @ '';''))))"

definition add_example :: "string \<Rightarrow> relation_stats \<Rightarrow> relation_stats" where
  "add_example q st = (if length (st_examples st) < 3 then st\<lparr>st_examples := st_examples st @ [py_take 1500 q]\<rparr> else st)"

definition count_written :: "edge_id list \<Rightarrow> edge_candidate list \<Rightarrow> relation_stats \<Rightarrow> relation_stats" where
  "count_written existing es st =
     st\<lparr>st_updated := st_updated st + length (filter (\<lambda>e. edge_identity e \<in> set existing) es),
        st_written := st_written st + length (filter (\<lambda>e. edge_identity e \<notin> set existing) es)\<rparr>"

function write_edges ::
  "graph_faults \<Rightarrow> etl_lib \<Rightarrow> relation_spec \<Rightarrow> bool \<Rightarrow> edge_id list \<Rightarrow> edge_candidate list \<Rightarrow> unit etl_call" where
  "write_edges gf lb sp dry existing es s =
     (case render_edge_insert lb sp es of
        Inl x \<Rightarrow> (Inl x, s)
      | Inr q \<Rightarrow>
          let s1 = stat (add_example q) s in
          if dry then (Inr (), s1)
          else
            (case graph_write gf es s1 of
               (raised, s2) \<Rightarrow>
                 if \<not> raised then (Inr (), stat (count_written existing es) s2)
                 else if 1 < length es
                 then (case write_edges gf lb sp dry existing (take (length es div 2) es) s2 of
                     (Inl x, s3) \<Rightarrow> (Inl x, s3)
                   | (Inr _, s3) \<Rightarrow> write_edges gf lb sp dry existing (drop (length es div 2) es) s3)
                 else (Inr (), stat (\<lambda>st. st\<lparr>st_failed := st_failed st + 1\<rparr>) s2)))"
  by pat_completeness auto
termination by (relation "measure (\<lambda>(gf, lb, sp, dry, ids, es, s). length es)") auto

declare write_edges.simps [simp del]

fun write_chunks ::
  "graph_faults \<Rightarrow> etl_lib \<Rightarrow> relation_spec \<Rightarrow> bool \<Rightarrow> edge_id list \<Rightarrow> edge_candidate list list \<Rightarrow> unit etl_call" where
  "write_chunks gf lb sp dry existing [] = aret ()"
| "write_chunks gf lb sp dry existing (b # bs) =
     abind (write_edges gf lb sp dry existing b) (\<lambda>_. write_chunks gf lb sp dry existing bs)"

section \<open>A batch of candidates\<close>

fun distinct_edges :: "edge_id list \<Rightarrow> edge_candidate list \<Rightarrow> edge_candidate list \<times> nat" where
  \<comment> \<open>the first candidate of each identity, and how many others there are\<close>
  "distinct_edges seen [] = ([], 0)"
| "distinct_edges seen (e # es) =
     (if edge_identity e \<in> set seen then (case distinct_edges seen es of (us, n) \<Rightarrow> (us, Suc n))
      else (case distinct_edges (edge_identity e # seen) es of (us, n) \<Rightarrow> (e # us, n)))"

definition tags_of :: "(edge_candidate \<Rightarrow> string) \<Rightarrow> edge_candidate list \<Rightarrow> string list" where
  "tags_of f es = sort (remdups (map f es))"

definition missing_ends ::
  "(string \<times> string) list \<Rightarrow> (string \<times> string) list \<Rightarrow> edge_candidate \<Rightarrow> bool \<times> bool" where
  "missing_ends sources targets e =
     ((ec_source_tag e, ec_source_vid e) \<notin> set sources, (ec_target_tag e, ec_target_vid e) \<notin> set targets)"

definition count_missing ::
  "(string \<times> string) list \<Rightarrow> (string \<times> string) list \<Rightarrow> edge_candidate list \<Rightarrow> relation_stats \<Rightarrow> relation_stats" where
  "count_missing sources targets es st =
     (let ms = map (missing_ends sources targets) es in
      st\<lparr>st_source_missing := st_source_missing st + length (filter fst ms),
         st_target_missing := st_target_missing st + length (filter snd ms),
         st_skipped := st_skipped st + length (filter (\<lambda>m. fst m \<or> snd m) ms)\<rparr>)"

definition ready_edges ::
  "(string \<times> string) list \<Rightarrow> (string \<times> string) list \<Rightarrow> edge_candidate list \<Rightarrow> edge_candidate list" where
  "ready_edges sources targets es = filter (\<lambda>e. missing_ends sources targets e = (False, False)) es"

definition process_candidate_batch ::
  "graph_faults \<Rightarrow> etl_lib \<Rightarrow> nat \<Rightarrow> bool \<Rightarrow> relation_spec \<Rightarrow> edge_candidate list \<Rightarrow> unit etl_call" where
  "process_candidate_batch gf lb bsz dry sp es =
     (case distinct_edges [] es of
        (us, n) \<Rightarrow>
          abind (awrite (stat (\<lambda>st. st\<lparr>st_duplicate := st_duplicate st + n\<rparr>))) (\<lambda>_.
          abind (found_ends gf lb bsz (\<lambda>t. map ec_source_vid (filter (\<lambda>e. ec_source_tag e = t) us)) (tags_of ec_source_tag us)) (\<lambda>sources.
          abind (found_ends gf lb bsz (\<lambda>t. map ec_target_vid (filter (\<lambda>e. ec_target_tag e = t) us)) (tags_of ec_target_tag us)) (\<lambda>targets.
          abind (awrite (stat (count_missing sources targets us))) (\<lambda>_.
            let ready = ready_edges sources targets us in
            abind (existing_edge_identities gf lb sp ready) (\<lambda>existing.
            abind (awrite (stat (\<lambda>st. st\<lparr>st_existing := st_existing st + length (filter (\<lambda>e. edge_identity e \<in> set existing) ready),
               st_valid := st_valid st + length ready\<rparr>))) (\<lambda>_.
              write_chunks gf lb sp dry existing (chunks bsz ready))))))))"

section \<open>The run\<close>

record source_db =
  db_columns :: "string \<Rightarrow> string list"
  db_rows :: "string \<Rightarrow> source_row list"            \<comment> \<open>ordered by the first column\<close>
  db_after :: "cell \<Rightarrow> string \<Rightarrow> bool"               \<comment> \<open>\<open>column > text\<close> in the database\<close>

record etl_options =
  eo_relation :: string
  eo_batch_size :: int
  eo_dry_run :: bool
  eo_max_records :: "int option"
  eo_domestic_only :: bool
  eo_foreign_only :: bool
  eo_incremental :: bool
  eo_labels :: "string list"                        \<comment> \<open>\<open>graph.labels()\<close>\<close>
  eo_edge_types :: "string list"
  eo_mark_fault :: bool

definition iter_source_rows :: "source_db \<Rightarrow> string \<Rightarrow> int option \<Rightarrow> string option \<Rightarrow> source_row list" where
  "iter_source_rows db t limit since =
     (let column = (if opt_truthy since then find (\<lambda>c. c \<in> set (db_columns db t)) [''updated_time'', ''update_time''] else None);
          rows = (case column of None \<Rightarrow> db_rows db t | Some c \<Rightarrow> filter (\<lambda>r. db_after db (rget r c) (opt_str since)) (db_rows db t))
      in case limit of None \<Rightarrow> rows | Some n \<Rightarrow> take (nat n) rows)"

definition validate_source_schema :: "source_db \<Rightarrow> relation_spec list \<Rightarrow> unit etl" where
  "validate_source_schema db sps =
     (if list_all (\<lambda>sp. db_columns db (rel_table sp) \<noteq> [] \<and> set (rel_required sp) \<subseteq> set (db_columns db (rel_table sp))) sps
      then Inr () else Inl (EtlCrash ''SchemaMismatchError''))"

definition selected_specs :: "etl_options \<Rightarrow> relation_spec list" where
  "selected_specs o' =
     filter (\<lambda>sp. (eo_domestic_only o' \<longrightarrow> rel_scope sp = ''domestic'') \<and> (eo_foreign_only o' \<longrightarrow> rel_scope sp = ''foreign''))
       (filter (\<lambda>sp. eo_relation o' = ''all'' \<or> rel_key sp = eo_relation o') RELATION_SPECS)"

definition schema_available :: "etl_options \<Rightarrow> relation_spec \<Rightarrow> bool" where
  "schema_available o' sp \<longleftrightarrow>
     set (rel_source_tags sp) \<subseteq> set (eo_labels o') \<and> rel_target_tag sp \<in> set (eo_labels o') \<and>
     rel_edge_type sp \<in> set (eo_edge_types o')"

definition later :: "string \<Rightarrow> source_row \<Rightarrow> string" where
  \<comment> \<open>the latest time seen so far\<close>
  "later mx r =
     (let ts = cell_or (rget r ''updated_time'') (rget r ''update_time'') in
      if cell_truthy ts \<and> mx < cell_str ts then cell_str ts else mx)"

definition unresolved :: "string \<Rightarrow> bool" where
  "unresolved m = list_ex (\<lambda>x. py_in x m) [''exact unique'', ''stable'', ''high-confidence'']"

definition count_invalid :: "bool \<Rightarrow> relation_stats \<Rightarrow> relation_stats" where
  "count_invalid unres st = st\<lparr>st_invalid := st_invalid st + 1, st_skipped := st_skipped st + 1,
     st_unresolved_identifier := st_unresolved_identifier st + (if unres then 1 else 0)\<rparr>"

definition flush ::
  "graph_faults \<Rightarrow> extract_env \<Rightarrow> etl_options \<Rightarrow> relation_spec \<Rightarrow> edge_candidate list \<Rightarrow> unit etl_call" where
  "flush gf xe o' sp pending =
     abind (awrite (stat (\<lambda>st. st\<lparr>st_batches := st_batches st + 1\<rparr>))) (\<lambda>_.
       process_candidate_batch gf (xe_lib xe) (nat (eo_batch_size o')) (eo_dry_run o') sp pending)"

fun run_rows ::
  "graph_faults \<Rightarrow> extract_env \<Rightarrow> etl_options \<Rightarrow> relation_spec \<Rightarrow> source_row list \<Rightarrow> edge_candidate list \<Rightarrow> string \<Rightarrow> string etl_call" where
  \<comment> \<open>the loop over the rows with the candidates that wait and the latest time; the last batch included\<close>
  "run_rows gf xe o' sp [] pending mx =
     (if pending = [] then aret mx else abind (flush gf xe o' sp pending) (\<lambda>_. aret mx))"
| "run_rows gf xe o' sp (r # rs) pending mx =
     abind (awrite (stat (\<lambda>st. st\<lparr>st_queried := st_queried st + 1\<rparr>))) (\<lambda>_.
       let mx' = later mx r in
       if is_virtual_source_row (xe_lib xe) r
       then abind (awrite (stat (\<lambda>st. st\<lparr>st_skipped := st_skipped st + 1\<rparr>))) (\<lambda>_. run_rows gf xe o' sp rs pending mx')
       else (case extract_candidates xe sp r of
           Inl (RelationData m) \<Rightarrow>
             abind (awrite (stat (count_invalid (unresolved m)))) (\<lambda>_. run_rows gf xe o' sp rs pending mx')
         | Inl (EtlCrash m) \<Rightarrow>
             abind (awrite (stat (count_invalid False))) (\<lambda>_.
               \<comment> \<open>the message of the log prints the row, outside the try\<close>
               abind (alift (compact_row (xe_lib xe) r)) (\<lambda>_. run_rows gf xe o' sp rs pending mx'))
         | Inr es \<Rightarrow>
             if nat (eo_batch_size o') \<le> length (pending @ es)
             then abind (flush gf xe o' sp (pending @ es)) (\<lambda>_. run_rows gf xe o' sp rs [] mx')
             else run_rows gf xe o' sp rs (pending @ es) mx'))"

fun run_specs ::
  "graph_faults \<Rightarrow> extract_env \<Rightarrow> etl_options \<Rightarrow> source_db \<Rightarrow> string option \<Rightarrow> relation_spec list \<Rightarrow> string \<Rightarrow> string etl_call" where
  "run_specs gf xe o' db since [] mx = aret mx"
| "run_specs gf xe o' db since (sp # sps) mx =
     abind (awrite (\<lambda>s. s\<lparr>ks_stats := no_stats\<rparr>)) (\<lambda>_.
     abind (if schema_available o' sp
            then run_rows gf xe o' sp (iter_source_rows db (rel_table sp) (eo_max_records o') since) [] mx
            else if eo_relation o' \<noteq> ''all'' then araise (EtlCrash ''SchemaMismatchError'') else aret mx) (\<lambda>mx'.
     abind (awrite (\<lambda>s. s\<lparr>ks_results := tbl_put fst (rel_table sp, ks_stats s) (ks_results s)\<rparr>)) (\<lambda>_.
       run_specs gf xe o' db since sps mx')))"

definition check_options :: "etl_options \<Rightarrow> unit etl" where
  "check_options o' =
     (if eo_domestic_only o' \<and> eo_foreign_only o' then Inl (EtlCrash ''exclusive'')
      else if eo_relation o' \<noteq> ''all'' \<and> eo_relation o' \<notin> set ETL_RELATION_KEYS then Inl (EtlCrash ''unknown relation'')
      else if eo_batch_size o' \<le> 0 then Inl (EtlCrash ''batch_size'')
      else if (case eo_max_records o' of None \<Rightarrow> False | Some n \<Rightarrow> n \<le> 0) then Inl (EtlCrash ''max_records'')
      else if selected_specs o' = [] then Inl (EtlCrash ''no specs'')
      else Inr ())"

definition read_since :: "extract_env \<Rightarrow> etl_options \<Rightarrow> string option etl_call" where
  "read_since xe o' s = (if eo_incremental o' then read_mark (lb_uc (xe_lib xe)) (ks_mark s) else Inr None, s)"

definition advance_mark :: "extract_env \<Rightarrow> etl_options \<Rightarrow> string \<Rightarrow> unit etl_call" where
  "advance_mark xe o' mx s =
     (if eo_incremental o' \<and> \<not> eo_dry_run o' \<and> mx \<noteq> []
      then (case advance_if_higher (lb_uc (xe_lib xe)) (eo_mark_fault o') mx (ks_mark s) of (r, f) \<Rightarrow> (r, s\<lparr>ks_mark := f\<rparr>))
      else (Inr (), s))"

definition run_relation_etl :: "graph_faults \<Rightarrow> extract_env \<Rightarrow> etl_options \<Rightarrow> source_db \<Rightarrow> (string \<times> relation_stats) list etl_call" where
  \<comment> \<open>the resolver of the environment stands for the one the alignment options choose\<close>
  "run_relation_etl gf xe o' db =
     abind (alift (check_options o')) (\<lambda>_.
     abind (alift (validate_source_schema db (selected_specs o'))) (\<lambda>_.
     abind (awrite (\<lambda>s. s\<lparr>ks_results := []\<rparr>)) (\<lambda>_.
     abind (read_since xe o') (\<lambda>since.
     abind (run_specs gf xe o' db since (selected_specs o') []) (\<lambda>mx.
     abind (advance_mark xe o' mx) (\<lambda>_ s. (Inr (ks_results s), s)))))))"

definition exit_code :: "(string \<times> relation_stats) list \<Rightarrow> nat" where
  "exit_code results = (if list_ex (\<lambda>p. st_failed (snd p) \<noteq> 0) results then 1 else 0)"

end
