(* ===== verification/Etl_Inv.thy ===== *)
theory Etl_Inv
  imports Etl_Load
begin

text \<open>
  What every part of a load keeps: the graph changes only by the edges of a batch whose two ends were
  found, the watermark only after the last table.  The triples \<open>keeps\<close> hold for the calls that
  raise, too.
\<close>

section \<open>Calls\<close>

lemma abind_Inr:
  "abind m f s = (Inr y, s'') \<longleftrightarrow> (\<exists>x s'. m s = (Inr x, s') \<and> f x s' = (Inr y, s''))"
  by (auto simp: abind_def split: prod.splits sum.splits)

section \<open>The graph and the mark\<close>

definition graph_inv :: "(string \<times> string) list \<Rightarrow> ((edge_id \<times> (string \<times> cell) list) list \<Rightarrow> bool) \<Rightarrow> etl_state \<Rightarrow> bool" where
  "graph_inv V J s \<longleftrightarrow> ks_vertices s = V \<and> J (ks_edges s)"

definition closed_by :: "((edge_id \<times> (string \<times> cell) list) list \<Rightarrow> bool) \<Rightarrow> (edge_candidate \<Rightarrow> bool) \<Rightarrow> bool" where
  "closed_by J Q \<longleftrightarrow> (\<forall>e g. Q e \<longrightarrow> J g \<longrightarrow> J (tbl_put fst (edge_identity e, ec_properties e) g))"

lemma put_edges_append: "put_edges (xs @ ys) g = put_edges ys (put_edges xs g)"
  by (simp add: put_edges_def)

lemma put_edges_closed: "closed_by J Q \<Longrightarrow> \<forall>e\<in>set es. Q e \<Longrightarrow> J g \<Longrightarrow> J (put_edges es g)"
  by (induction es arbitrary: g) (simp_all add: put_edges_def closed_by_def)

lemma graph_inv_fields [simp]:
  "graph_inv V J (stat f s) = graph_inv V J s"
  "graph_inv V J (s\<lparr>ks_calls := n\<rparr>) = graph_inv V J s"
  "graph_inv V J (s\<lparr>ks_stats := st\<rparr>) = graph_inv V J s"
  "graph_inv V J (s\<lparr>ks_results := rs\<rparr>) = graph_inv V J s"
  "graph_inv V J (s\<lparr>ks_mark := m\<rparr>) = graph_inv V J s"
  by (simp_all add: graph_inv_def stat_def)

lemma keeps_stat: "(\<And>st s. I s \<Longrightarrow> I (stat st s)) \<Longrightarrow> keeps I (awrite (stat f)) (\<lambda>_. True)"
  by (rule keeps_awrite) simp_all

lemma keeps_read:
  "(\<And>s n. I s \<Longrightarrow> I (s\<lparr>ks_calls := n\<rparr>)) \<Longrightarrow> (\<And>s. I s \<Longrightarrow> Q (f s)) \<Longrightarrow> keeps I (graph_read gf f) Q"
  by (simp add: keeps_def graph_read_def)

definition vids_clean :: "(string \<times> string) list \<Rightarrow> bool" where
  \<comment> \<open>the identifiers come back from the graph as they are\<close>
  "vids_clean V \<longleftrightarrow> list_all (\<lambda>p. clean_text (Val (JStr (snd p))) = Some (snd p)) V"

text \<open>An invariant of the state that the counters and the number of calls do not show.\<close>

definition framed :: "(etl_state \<Rightarrow> bool) \<Rightarrow> bool" where
  "framed I \<longleftrightarrow> (\<forall>s n f. I (s\<lparr>ks_calls := n\<rparr>) = I s \<and> I (stat f s) = I s)"

lemma frame_graph: "framed (graph_inv V J)"
  by (simp add: framed_def)

lemma frame_keeps_stat [keeps_intro]: "framed I \<Longrightarrow> keeps I (awrite (stat f)) (\<lambda>_. True)"
  by (rule keeps_awrite) (simp_all add: framed_def)

definition finds :: "(string \<times> string \<Rightarrow> bool) \<Rightarrow> (etl_state \<Rightarrow> bool) \<Rightarrow> bool" where
  \<comment> \<open>what reading can find in a state of the invariant\<close>
  "finds W I \<longleftrightarrow> (\<forall>s t v u. I s \<longrightarrow> (t, v) \<in> set (ks_vertices s) \<longrightarrow> clean_text (Val (JStr v)) = Some u \<longrightarrow> W (t, u))"

lemma finds_clean: "vids_clean V \<Longrightarrow> finds (\<lambda>p. p \<in> set V) (graph_inv V J)"
  by (fastforce simp: finds_def graph_inv_def vids_clean_def list_all_iff)

lemma fetch_chunks_keeps:
  assumes "framed I" and "finds W I"
  shows "keeps I (fetch_chunks gf tag bs) (\<lambda>vs. \<forall>v\<in>set vs. W (tag, v))"
proof (induction bs)
  case Nil
  then show ?case by (simp add: keeps_aret)
next
  case (Cons b bs)
  have "keeps I (graph_read gf (\<lambda>s. filter (\<lambda>v. (tag, v) \<in> set (ks_vertices s)) b))
      (\<lambda>vs. \<forall>v\<in>set vs. \<forall>u. clean_text (Val (JStr v)) = Some u \<longrightarrow> W (tag, u))"
    by (rule keeps_read) (use assms in \<open>auto simp: framed_def finds_def\<close>)
  then show ?case
    unfolding fetch_chunks.simps
    apply (rule keeps_abind)
    apply (rule keeps_abind [OF Cons.IH])
    apply (rule keeps_aret)
    by (fastforce simp: map_filter_def)
qed

lemma found_ends_keeps:
  assumes "framed I" and "finds W I"
  shows "keeps I (found_ends gf lb n vids tags) (\<lambda>ps. \<forall>p\<in>set ps. W p)"
proof (induction tags)
  case Nil
  then show ?case by (simp add: keeps_aret)
next
  case (Cons t ts)
  have e: "keeps I (existing_vids gf lb n t (vids t)) (\<lambda>vs. \<forall>v\<in>set vs. W (t, v))"
    unfolding existing_vids_def
    by (rule keeps_abind [OF keeps_alift [where Q = "\<lambda>_. True"]]) (simp_all add: fetch_chunks_keeps assms)
  show ?case
    unfolding found_ends.simps
    by (rule keeps_abind [OF e], rule keeps_abind [OF Cons.IH], rule keeps_aret) auto
qed

lemma existing_edges_keeps:
  "framed I \<Longrightarrow> keeps I (existing_edge_identities gf lb sp es) (\<lambda>_. True)"
  unfolding existing_edge_identities_def
  by (auto simp: framed_def intro!: keeps_abind [where R = "\<lambda>_. True"] keeps_aret keeps_alift keeps_read)

section \<open>Writing\<close>

lemma graph_write_Inl: "graph_write gf es s = (raised, s') \<Longrightarrow>
   ks_vertices s' = ks_vertices s \<and> ks_mark s' = ks_mark s \<and> ks_stats s' = ks_stats s \<and> ks_results s' = ks_results s \<and>
   (ks_edges s' = ks_edges s \<or> ks_edges s' = put_edges es (ks_edges s))"
  by (auto simp: graph_write_def split: prod.splits)

definition writes_keep :: "bool \<Rightarrow> edge_candidate list \<Rightarrow> (etl_state \<Rightarrow> bool) \<Rightarrow> bool" where
  \<comment> \<open>no statement for some of these edges breaks the invariant\<close>
  "writes_keep dry es I \<longleftrightarrow> dry \<or>
     (\<forall>s us n. set us \<subseteq> set es \<longrightarrow> I s \<longrightarrow> I (s\<lparr>ks_calls := n, ks_edges := put_edges us (ks_edges s)\<rparr>))"

lemma writes_keep_subset: "writes_keep dry es I \<Longrightarrow> set us \<subseteq> set es \<Longrightarrow> writes_keep dry us I"
  unfolding writes_keep_def by (meson order_trans)

lemma write_edges_refused: "render_edge_insert lb sp es = Inl x \<Longrightarrow> write_edges gf lb sp dry ex es s = (Inl x, s)"
  by (simp add: write_edges.simps)

lemma write_edges_dry:
  "render_edge_insert lb sp es = Inr q \<Longrightarrow> write_edges gf lb sp True ex es s = (Inr (), stat (add_example q) s)"
  by (simp add: write_edges.simps Let_def)

lemma write_edges_run:
  assumes "render_edge_insert lb sp es = Inr q" and "graph_write gf es (stat (add_example q) s) = (raised, s2)"
  shows "write_edges gf lb sp False ex es s =
    (if \<not> raised then (Inr (), stat (count_written ex es) s2)
     else if 1 < length es
     then abind (write_edges gf lb sp False ex (take (length es div 2) es))
            (\<lambda>_. write_edges gf lb sp False ex (drop (length es div 2) es)) s2
     else (Inr (), stat (\<lambda>st. st\<lparr>st_failed := st_failed st + 1\<rparr>) s2))"
  using assms by (subst write_edges.simps) (simp add: Let_def abind_def)

lemma write_edges_frame:
  "framed I \<Longrightarrow> writes_keep dry es I \<Longrightarrow> I s \<Longrightarrow> I (snd (write_edges gf lb sp dry ex es s))"
proof (induction gf lb sp dry ex es s rule: write_edges.induct)
  case (1 gf lb sp dry ex es s)
  show ?case
  proof (cases "render_edge_insert lb sp es")
    case (Inl x)
    then show ?thesis using 1 by (simp add: write_edges.simps)
  next
    case (Inr q)
    let ?s1 = "stat (add_example q) s"
    obtain raised s2 where w: "graph_write gf es ?s1 = (raised, s2)" by fastforce
    have i1: "I ?s1" using 1 by (simp add: framed_def)
    show ?thesis
    proof (cases dry)
      case True
      then show ?thesis using i1 by (simp add: write_edges_dry [OF Inr])
    next
      case False
      have i2: "I s2"
        using w i1 "1.prems"(1,2) False
        by (auto simp: graph_write_def writes_keep_def framed_def split: prod.splits if_splits)
      have h: "writes_keep dry (take n es) I" "writes_keep dry (drop n es) I" for n
        using writes_keep_subset [OF "1.prems"(2)] by (simp_all add: set_take_subset set_drop_subset)
      note step = "1.IH" [OF Inr refl False w [symmetric]]
      show ?thesis
      proof (cases "raised \<and> 1 < length es")
        case True
        obtain r3 s3 where t: "write_edges gf lb sp dry ex (take (length es div 2) es) s2 = (r3, s3)" by fastforce
        have "I s3"
          using step(1) h(1) i2 "1.prems"(1) t True by (metis snd_conv)
        then show ?thesis
          using step(2) [OF _ _ t [symmetric]] h(2) "1.prems"(1) True t False
          by (cases r3) (simp_all add: write_edges_run [OF Inr w] abind_def)
      next
        case notsplit: False
        then show ?thesis
          using i2 "1.prems"(1) False by (auto simp: write_edges_run [OF Inr w] framed_def)
      qed
    qed
  qed
qed

lemma write_chunks_keeps:
  "framed I \<Longrightarrow> writes_keep dry (concat bs) I \<Longrightarrow> keeps I (write_chunks gf lb sp dry ex bs) (\<lambda>_. True)"
proof (induction bs)
  case Nil
  then show ?case by (simp add: keeps_aret)
next
  case (Cons b bs)
  have "writes_keep dry b I" "writes_keep dry (concat bs) I"
    using writes_keep_subset [OF Cons.prems(2)] by simp_all
  then show ?case
    using Cons.IH Cons.prems(1) write_edges_frame
    by (auto simp: keeps_def [of I "write_edges gf lb sp dry ex b"] intro!: keeps_abind [where R = "\<lambda>_. True"])
qed

section \<open>A batch and a run\<close>

definition ends_in :: "(string \<times> string \<Rightarrow> bool) \<Rightarrow> edge_candidate \<Rightarrow> bool" where
  "ends_in W e \<longleftrightarrow> W (ec_source_tag e, ec_source_vid e) \<and> W (ec_target_tag e, ec_target_vid e)"

definition write_ok :: "bool \<Rightarrow> (string \<times> string \<Rightarrow> bool) \<Rightarrow> (edge_candidate \<Rightarrow> bool) \<Rightarrow> (etl_state \<Rightarrow> bool) \<Rightarrow> bool" where
  "write_ok dry W C I \<longleftrightarrow> (\<forall>us. (\<forall>e\<in>set us. C e \<and> ends_in W e) \<longrightarrow> writes_keep dry us I)"

text \<open>An invariant that the counters, the results and the number of calls do not show.\<close>

definition graph_frame :: "(string \<times> string \<Rightarrow> bool) \<Rightarrow> (etl_state \<Rightarrow> bool) \<Rightarrow> bool" where
  "graph_frame W I \<longleftrightarrow> framed I \<and> finds W I \<and> (\<forall>s rs. I (s\<lparr>ks_results := rs\<rparr>) = I s)"

lemma graph_frameD:
  "graph_frame W I \<Longrightarrow> framed I" "graph_frame W I \<Longrightarrow> finds W I" "graph_frame W I \<Longrightarrow> I (s\<lparr>ks_results := rs\<rparr>) = I s"
  by (simp_all add: graph_frame_def)

lemma distinct_edges_set: "fst (distinct_edges seen es) = us \<Longrightarrow> set us \<subseteq> set es"
  by (induction seen es arbitrary: us rule: distinct_edges.induct) (auto split: if_splits prod.splits)

lemma chunks_set: "set (concat (chunks n xs)) \<subseteq> set xs"
  by (cases "0 < n") (simp, cases xs, simp_all)

lemma ready_edges_in:
  "e \<in> set (ready_edges ss ts us) \<Longrightarrow> \<forall>p\<in>set ss. W p \<Longrightarrow> \<forall>p\<in>set ts. W p \<Longrightarrow> e \<in> set us \<and> ends_in W e"
  by (auto simp: ready_edges_def missing_ends_def ends_in_def)

lemma process_batch_keeps:
  assumes I: "graph_frame W I" and w: "write_ok dry W C I" and c: "\<forall>e\<in>set es. C e"
  shows "keeps I (process_candidate_batch gf lb n dry sp es) (\<lambda>_. True)"
proof -
  note F = graph_frameD(1) [OF I]
  obtain us k where d: "distinct_edges [] es = (us, k)" by fastforce
  have us: "\<forall>e\<in>set us. C e"
    using distinct_edges_set [of "[]" es us] c d by auto
  have e: "keeps I (found_ends gf lb n v ts) (\<lambda>ps. \<forall>p\<in>set ps. W p)" for v ts
    by (rule found_ends_keeps [OF F graph_frameD(2) [OF I]])
  have "keeps I (write_chunks gf lb sp dry ex (chunks n (ready_edges ss ts us))) (\<lambda>_. True)"
    if "\<forall>p\<in>set ss. W p" "\<forall>p\<in>set ts. W p" for ss ts ex
  proof (rule write_chunks_keeps [OF F])
    have "writes_keep dry (ready_edges ss ts us) I"
      using w us ready_edges_in [OF _ that] by (auto simp: write_ok_def)
    then show "writes_keep dry (concat (chunks n (ready_edges ss ts us))) I"
      by (rule writes_keep_subset) (rule chunks_set)
  qed
  then show ?thesis
    unfolding process_candidate_batch_def d prod.case Let_def
    by (intro keeps_abind [OF frame_keeps_stat [OF F]] keeps_abind [OF e]
          keeps_abind [OF existing_edges_keeps [OF F]]) simp_all
qed

lemma flush_keeps:
  assumes "graph_frame W I" and "write_ok (eo_dry_run o') W C I" and "\<forall>e\<in>set es. C e"
  shows "keeps I (flush gf xe o' sp es) (\<lambda>_. True)"
  unfolding flush_def
  by (rule keeps_abind [OF frame_keeps_stat [OF graph_frameD(1)]]) (use assms in \<open>simp_all add: process_batch_keeps\<close>)

definition extracts :: "extract_env \<Rightarrow> relation_spec \<Rightarrow> (edge_candidate \<Rightarrow> bool) \<Rightarrow> bool" where
  "extracts xe sp C \<longleftrightarrow> (\<forall>r es. extract_candidates xe sp r = Inr es \<longrightarrow> (\<forall>e\<in>set es. C e))"

lemma run_rows_keeps:
  assumes I: "graph_frame W I" and w: "write_ok (eo_dry_run o') W C I" and x: "extracts xe sp C"
  shows "\<forall>e\<in>set pending. C e \<Longrightarrow> keeps I (run_rows gf xe o' sp rs pending mx) (\<lambda>y. y = foldl later mx rs)"
proof (induction rs arbitrary: pending mx)
  case Nil
  then show ?case
    by (auto intro!: keeps_aret keeps_abind [OF flush_keeps [OF I w]])
next
  case (Cons r rs)
  note st = keeps_abind [OF frame_keeps_stat [OF graph_frameD(1) [OF I]]]
  show ?case
  proof (cases "extract_candidates xe sp r")
    case (Inl e)
    have l: "keeps I (alift (compact_row (xe_lib xe) r)) (\<lambda>_. True)" by (simp add: keeps_alift)
    show ?thesis
      using Inl Cons by (cases e) (auto simp: Let_def intro!: st keeps_abind [OF l])
  next
    case (Inr es)
    then have "\<forall>e\<in>set (pending @ es). C e"
      using x Cons.prems by (auto simp: extracts_def)
    then show ?thesis
      using Inr Cons by (auto simp: Let_def intro!: st keeps_abind [OF flush_keeps [OF I w]])
  qed
qed

definition rows_read :: "etl_options \<Rightarrow> source_db \<Rightarrow> string option \<Rightarrow> relation_spec list \<Rightarrow> source_row list" where
  "rows_read o' db since sps =
     concat (map (\<lambda>sp. iter_source_rows db (rel_table sp) (eo_max_records o') since) (filter (schema_available o') sps))"

lemma run_specs_keeps:
  assumes I: "graph_frame W I"
  shows "\<forall>sp\<in>set sps. schema_available o' sp \<longrightarrow> write_ok (eo_dry_run o') W (C sp) I \<and> extracts xe sp (C sp) \<Longrightarrow>
    keeps I (run_specs gf xe o' db since sps mx) (\<lambda>y. y = foldl later mx (rows_read o' db since sps))"
proof (induction sps arbitrary: mx)
  case Nil
  then show ?case by (simp add: keeps_aret rows_read_def)
next
  case (Cons sp sps)
  have a: "keeps I (awrite (\<lambda>s. s\<lparr>ks_stats := no_stats\<rparr>)) (\<lambda>_. True)"
  proof -
    have "(\<lambda>s. s\<lparr>ks_stats := no_stats\<rparr>) = stat (\<lambda>_. no_stats)"
      by (rule ext) (simp add: stat_def)
    then show ?thesis
      using frame_keeps_stat [OF graph_frameD(1) [OF I], of "\<lambda>_. no_stats"] by simp
  qed
  have b: "keeps I (awrite (\<lambda>s. s\<lparr>ks_results := f s\<rparr>)) (\<lambda>_. True)" for f
    by (rule keeps_awrite) (simp_all add: graph_frameD(3) [OF I])
  have c: "keeps I (if schema_available o' sp
              then run_rows gf xe o' sp (iter_source_rows db (rel_table sp) (eo_max_records o') since) [] mx
              else if eo_relation o' \<noteq> ''all'' then araise (EtlCrash ''SchemaMismatchError'') else aret mx)
            (\<lambda>y. y = foldl later mx (rows_read o' db since [sp]))"
    using run_rows_keeps [OF I, of o' "C sp" xe sp "[]"] Cons.prems
    by (auto simp: rows_read_def intro: keeps_araise keeps_aret)
  have m: "rows_read o' db since (sp # sps) = rows_read o' db since [sp] @ rows_read o' db since sps"
    by (simp add: rows_read_def)
  show ?case
    unfolding run_specs.simps m foldl_append
    by (rule keeps_abind [OF a], rule keeps_abind [OF c], rule keeps_abind [OF b]) (use Cons in auto)
qed

section \<open>The end of a run\<close>

definition mark_read :: "extract_env \<Rightarrow> etl_options \<Rightarrow> etl_state \<Rightarrow> string option" where
  \<comment> \<open>the mark that selects the rows\<close>
  "mark_read xe o' s = (case fst (read_since xe o' s) of Inr m \<Rightarrow> m | Inl e \<Rightarrow> None)"

definition latest_read :: "extract_env \<Rightarrow> etl_options \<Rightarrow> source_db \<Rightarrow> etl_state \<Rightarrow> string" where
  "latest_read xe o' db s = foldl later [] (rows_read o' db (mark_read xe o' s) (selected_specs o'))"

lemma run_etl_cases:
  assumes "run_relation_etl gf xe o' db s = (r, s')"
  obtains (refused) e where "r = Inl e" "s' = s \<or> s' = s\<lparr>ks_results := []\<rparr>"
  | (loaded) r1 s1 where
    "run_specs gf xe o' db (mark_read xe o' s) (selected_specs o') [] (s\<lparr>ks_results := []\<rparr>) = (r1, s1)"
    "case r1 of Inl e \<Rightarrow> r = Inl e \<and> s' = s1
     | Inr mx \<Rightarrow> s' = snd (advance_mark xe o' mx s1) \<and> r = map_sum id (\<lambda>_. ks_results s') (fst (advance_mark xe o' mx s1))"
proof -
  let ?s0 = "s\<lparr>ks_results := []\<rparr>"
  note defs = run_relation_etl_def abind_def awrite_def alift_def
  show thesis
  proof (cases "check_options o' = Inr () \<and> validate_source_schema db (selected_specs o') = Inr () \<and> (\<exists>m. read_since xe o' ?s0 = (Inr m, ?s0))")
    case False
    then have "(\<exists>e. r = Inl e) \<and> (s' = s \<or> s' = ?s0)"
      using assms by (auto simp: defs read_since_def split: sum.splits)
    then show ?thesis using refused by blast
  next
    case True
    then obtain m where m: "read_since xe o' ?s0 = (Inr m, ?s0)" by blast
    have mr: "mark_read xe o' s = m"
      using m by (simp add: mark_read_def read_since_def split: if_splits)
    obtain r1 s1 where run: "run_specs gf xe o' db m (selected_specs o') [] ?s0 = (r1, s1)" by fastforce
    show ?thesis
    proof (rule loaded [of r1 s1])
      show "run_specs gf xe o' db (mark_read xe o' s) (selected_specs o') [] ?s0 = (r1, s1)"
        using run mr by simp
      show "case r1 of Inl e \<Rightarrow> r = Inl e \<and> s' = s1
        | Inr mx \<Rightarrow> s' = snd (advance_mark xe o' mx s1) \<and> r = map_sum id (\<lambda>_. ks_results s') (fst (advance_mark xe o' mx s1))"
        using assms True m run by (auto simp: defs split: sum.splits prod.splits)
    qed
  qed
qed

end
