(* ===== verification/Etl_Edges.thy ===== *)
theory Etl_Edges
  imports Etl_Inv
begin

text \<open>
  What the extractors make: edges of the type, the target and a source of the specification, between
  bounded identifiers; the same edges whatever the batch and the time of the load are.
\<close>

section \<open>Bounded identifiers\<close>

lemma length_take_bytes: "length (take_bytes n ps) \<le> n"
  by (induction n ps rule: take_bytes.induct) auto

lemma length_bounded_vid: "length (lb_md5 lb s) = 32 \<Longrightarrow> length (bounded_vid lb s) \<le> VID_MAX_BYTES"
  using length_take_bytes [of 31 "code_points s"] by (auto simp: bounded_vid_def VID_MAX_BYTES_def Let_def)

definition vid :: "etl_lib \<Rightarrow> string \<Rightarrow> bool" where
  "vid lb v \<longleftrightarrow> (\<exists>s. v = bounded_vid lb s)"

named_theorems vid_intro

lemma vid_bounded [vid_intro]: "vid lb (bounded_vid lb s)"
  by (auto simp: vid_def)

lemma vid_organization [vid_intro]: "organization_vid lb c = Inr v \<Longrightarrow> vid lb v"
  and vid_person [vid_intro]: "person_vid lb k xs = Inr v \<Longrightarrow> vid lb v"
  and vid_project [vid_intro]: "project_vid lb c = Inr v \<Longrightarrow> vid lb v"
  and vid_news [vid_intro]: "news_vid lb s = Inr v \<Longrightarrow> vid lb v"
  and vid_product [vid_intro]: "product_vid lb c = Inr v \<Longrightarrow> vid lb v"
  and vid_event [vid_intro]: "vid lb (event_vid lb t s)"
  by (auto simp: organization_vid_def person_vid_def project_vid_def news_vid_def product_vid_def event_vid_def Let_def
      intro: vid_bounded split: option.splits if_splits)

lemma vid_person_row [vid_intro]: "person_vid_for_row xe r k n = Inr v \<Longrightarrow> vid (xe_lib xe) v"
  by (auto simp: person_vid_for_row_def intro: vid_person split: option.splits)

lemma vid_resolved [vid_intro]: "resolved_organization_vid xe c ctx = Inr v \<Longrightarrow> vid (xe_lib xe) v"
  by (auto simp: resolved_organization_vid_def Let_def result_simps intro: vid_organization split: option.splits if_splits)

lemma vid_row [vid_intro]: "organization_vid_from_row xe sp r i fs ns ev = Inr v \<Longrightarrow> vid (xe_lib xe) v"
  by (auto simp: organization_vid_from_row_def Let_def intro: vid_organization vid_resolved split: option.splits if_splits)

section \<open>The edges of an extractor\<close>

definition made :: "etl_lib \<Rightarrow> relation_spec \<Rightarrow> string list \<Rightarrow> edge_candidate \<Rightarrow> bool" where
  "made lb sp tags e \<longleftrightarrow>
     (\<exists>tag s t i ps. e = candidate lb sp tag s t i ps \<and> set_option tag \<subseteq> set tags \<and> vid lb s \<and> vid lb t)"

lemma made_candidate: "set_option tag \<subseteq> set tags \<Longrightarrow> vid lb s \<Longrightarrow> vid lb t \<Longrightarrow> made lb sp tags (candidate lb sp tag s t i ps)"
  unfolding made_def by blast

definition makes :: "etl_lib \<Rightarrow> relation_spec \<Rightarrow> string list \<Rightarrow> edge_candidate list etl \<Rightarrow> bool" where
  "makes lb sp tags m \<longleftrightarrow> (\<forall>es. m = Inr es \<longrightarrow> (\<forall>e\<in>set es. made lb sp tags e))"

lemma makes_Inl: "makes lb sp tags (Inl e)"
  by (simp add: makes_def)

lemma makes_rbind: "(\<And>x. m = Inr x \<Longrightarrow> makes lb sp tags (f x)) \<Longrightarrow> makes lb sp tags (rbind m f)"
  by (auto simp: makes_def result_simps)

lemma makes_one_edge:
  assumes "set_option tag \<subseteq> set tags" and "vid (xe_lib xe) s" and "vid (xe_lib xe) t"
  shows "makes (xe_lib xe) sp tags (one_edge xe sp r i tag s t b)"
  unfolding makes_def one_edge_def result_simps using assms by (auto intro: made_candidate)

lemma makes_some_edges: "(\<forall>e\<in>set es. made lb sp tags e) \<Longrightarrow> makes lb sp tags (some_edges m es)"
  by (simp add: makes_def some_edges_def)

lemma item_edges_all:
  "item_edges xe start edge n vs = Inr es \<Longrightarrow> (\<And>k oid e. edge k oid = Inr e \<Longrightarrow> P e) \<Longrightarrow> \<forall>e\<in>set es. P e"
  by (induction xe start edge n vs arbitrary: es rule: item_edges.induct)
    (auto simp: result_simps split: option.splits)

lemma makes_option: "(\<And>y. x = Some y \<Longrightarrow> makes lb sp tags (f y)) \<Longrightarrow> makes lb sp tags (case x of None \<Rightarrow> Inl e | Some y \<Rightarrow> f y)"
  by (auto simp: makes_Inl split: option.split)

lemma makes_if: "(\<not> b \<Longrightarrow> makes lb sp tags m) \<Longrightarrow> makes lb sp tags (if b then Inl e else m)"
  by (simp add: makes_Inl)

lemmas makes_intro = makes_rbind makes_one_edge makes_option makes_if makes_Inl

lemma persons_made:
  "makes (xe_lib xe) sp [''Person''] (extract_legal_representative xe sp r i)"
  "makes (xe_lib xe) sp [''Person''] (extract_executive xe sp r i)"
  "makes (xe_lib xe) sp [''Person''] (extract_beneficial_owner xe sp r i)"
  unfolding extract_legal_representative_def extract_executive_def extract_beneficial_owner_def
  by (intro makes_intro; auto intro: vid_intro)+

lemma owners_made:
  "makes (xe_lib xe) sp [''Organization'', ''Person''] (extract_domestic_shareholder xe sp r i)"
  "makes (xe_lib xe) sp [''Organization'', ''Person''] (extract_actual_controller xe sp r i)"
  unfolding extract_domestic_shareholder_def extract_actual_controller_def Let_def
  by (auto simp: result_simps intro!: makes_intro intro: vid_intro split: if_splits option.splits)+

lemma organizations_made:
  "makes (xe_lib xe) sp [] (extract_foreign_shareholder xe sp r i)"
  "makes (xe_lib xe) sp [] (extract_investment xe sp r i)"
  "makes (xe_lib xe) sp [] (extract_acquisition xe sp r i)"
  "makes (xe_lib xe) sp [] (extract_subsidiary xe sp r i)"
  "makes (xe_lib xe) sp [] (extract_news xe sp r i)"
  "makes (xe_lib xe) sp [] (extract_event xe sp r i)"
  "makes (xe_lib xe) sp [] (extract_bankruptcy_party xe sp r i)"
  "makes (xe_lib xe) sp [] (extract_bankruptcy_admin xe sp r i)"
  "makes (xe_lib xe) sp [] (extract_bid_party xe sp r i)"
  "makes (xe_lib xe) sp [] (extract_industry_node xe sp r i)"
  "makes (xe_lib xe) sp [] (extract_product xe sp r i)"
  "makes (xe_lib xe) sp [] (extract_organization_product xe sp r i)"
  unfolding extractor_defs Let_def
  by (intro makes_intro; auto intro: vid_intro)+

lemma projects_made:
  "makes (xe_lib xe) sp [] (extract_project xe sp r i)"
  "makes (xe_lib xe) sp [''Project''] (extract_project_funder xe sp r i)"
  unfolding extract_project_def extract_project_funder_def
  by (intro makes_rbind makes_some_edges; erule item_edges_all; auto simp: result_simps intro!: made_candidate intro: vid_intro)+

section \<open>Every specification\<close>

definition tags_of_extractor :: "string \<Rightarrow> string list" where
  "tags_of_extractor x =
     (if x \<in> {''legal_representative'', ''executive'', ''beneficial_owner''} then [''Person'']
      else if x \<in> {''domestic_shareholder'', ''actual_controller''} then [''Organization'', ''Person'']
      else if x = ''project_funder'' then [''Project''] else [])"

lemma extractors_made: "(x, f) \<in> set extractors \<Longrightarrow> makes (xe_lib xe) sp (tags_of_extractor x) (f xe sp r i)"
  unfolding extractors_def set_simps
  by (elim insertE emptyE Pair_inject; simp only:; simp add: tags_of_extractor_def persons_made owners_made organizations_made projects_made)

lemma candidates_made:
  "extract_candidates xe sp r = Inr es \<Longrightarrow> e \<in> set es \<Longrightarrow> made (xe_lib xe) sp (tags_of_extractor (rel_extractor sp)) e"
  using extractors_made [of "rel_extractor sp" _ xe sp r]
  by (auto simp: extract_candidates_def result_simps makes_def dest: map_of_SomeD split: option.splits)

end
