(* ===== verification/Etl_Counts.thy ===== *)
theory Etl_Counts
  imports Etl_Edges
begin

text \<open>
  The counters of a load and the edges a graph refuses: every candidate is counted once, and a statement
  that fails is split until only the refused edges are left out.  Also: what an extractor makes does not
  depend on the batch and the time of the load.
\<close>

section \<open>What a statement adds to the counters\<close>

definition accounted :: "relation_stats \<Rightarrow> nat" where
  "accounted st = st_written st + st_updated st + st_failed st"

definition rest :: "relation_stats \<Rightarrow> relation_stats" where
  \<comment> \<open>the counters that writing leaves alone\<close>
  "rest st = st\<lparr>st_written := 0, st_updated := 0, st_failed := 0, st_examples := []\<rparr>"

lemma restD:
  "rest st = rest st' \<Longrightarrow> st_queried st = st_queried st' \<and> st_valid st = st_valid st' \<and> st_skipped st = st_skipped st' \<and>
     st_source_missing st = st_source_missing st' \<and> st_target_missing st = st_target_missing st' \<and>
     st_invalid st = st_invalid st' \<and> st_unresolved_identifier st = st_unresolved_identifier st' \<and>
     st_duplicate st = st_duplicate st' \<and> st_existing st = st_existing st' \<and> st_batches st = st_batches st'"
  by (cases st, cases st') (simp add: rest_def)

lemma count_written_accounted: "accounted (count_written ex es st) = accounted st + length es"
  by (simp add: accounted_def count_written_def) (simp add: sum_length_filter_compl add.commute add.left_commute)

lemma rest_simps [simp]:
  "rest (count_written ex es st) = rest st" "rest (add_example q st) = rest st"
  "rest (st\<lparr>st_failed := n\<rparr>) = rest st"
  "accounted (add_example q st) = accounted st" "accounted (st\<lparr>st_failed := Suc (st_failed st)\<rparr>) = Suc (accounted st)"
  by (simp_all add: rest_def count_written_def add_example_def accounted_def)

lemma ks_stats_stat [simp]: "ks_stats (stat f s) = f (ks_stats s)" "ks_results (stat f s) = ks_results s"
  "ks_edges (stat f s) = ks_edges s" "ks_vertices (stat f s) = ks_vertices s" "ks_mark (stat f s) = ks_mark s"
  "ks_calls (stat f s) = ks_calls s"
  by (simp_all add: stat_def)

text \<open>\<open>counted\<close>: the statement accounted or refused this many edges and left the other counters and the results.\<close>

definition counted :: "nat \<Rightarrow> etl_state \<Rightarrow> etl_state \<Rightarrow> bool" where
  "counted n s s' \<longleftrightarrow> accounted (ks_stats s') = accounted (ks_stats s) + n \<and> rest (ks_stats s') = rest (ks_stats s) \<and>
     ks_results s' = ks_results s"

lemma counted_trans: "counted n s s' \<Longrightarrow> counted m s' s'' \<Longrightarrow> counted (n + m) s s''"
  by (simp add: counted_def)

lemma write_edges_counted:
  "write_edges gf lb sp dry ex es s = (Inr (), s') \<Longrightarrow> counted (if dry then 0 else length es) s s'"
proof (induction gf lb sp dry ex es s arbitrary: s' rule: write_edges.induct)
  case (1 gf lb sp dry ex es s)
  then obtain q where q: "render_edge_insert lb sp es = Inr q"
    by (cases "render_edge_insert lb sp es") (simp_all add: write_edges_refused)
  then have ne: "es \<noteq> []" by (auto simp: render_edge_insert_def)
  show ?case
  proof (cases dry)
    case True
    then show ?thesis using "1.prems" by (auto simp: write_edges_dry [OF q] counted_def)
  next
    case False
    obtain raised s2 where w: "graph_write gf es (stat (add_example q) s) = (raised, s2)" by fastforce
    note w' = graph_write_Inl [OF w]
    have prem: "write_edges gf lb sp False ex es s = (Inr (), s')" using "1.prems" False by simp
    note run = prem [unfolded write_edges_run [OF q w]]
    note step = "1.IH" [OF q refl False w [symmetric]]
    show ?thesis
    proof (cases "raised \<and> 1 < length es")
      case True
      then obtain s3 where a: "write_edges gf lb sp dry ex (take (length es div 2) es) s2 = (Inr (), s3)"
        and b: "write_edges gf lb sp dry ex (drop (length es div 2) es) s3 = (Inr (), s')"
        using run False by (auto simp: abind_Inr)
      have "counted (length (take (length es div 2) es)) s2 s3" "counted (length (drop (length es div 2) es)) s3 s'"
        using step(1) [OF _ _ a] step(2) [OF _ _ a [symmetric] _ b] True False by simp_all
      then have "counted (length es) s2 s'"
        using counted_trans by fastforce
      then show ?thesis
        using w' False by (simp add: counted_def)
    next
      case notsplit: False
      then have "length es = 1 \<or> \<not> raised"
        using ne length_greater_0_conv [of es] by linarith
      then show ?thesis
        using run w' notsplit False by (auto simp: counted_def count_written_accounted split: if_splits)
    qed
  qed
qed

lemma write_chunks_counted:
  "write_chunks gf lb sp dry ex bs s = (Inr (), s') \<Longrightarrow> counted (if dry then 0 else length (concat bs)) s s'"
proof (induction bs arbitrary: s)
  case Nil
  then show ?case by (simp add: aret_def counted_def)
next
  case (Cons b bs)
  then obtain s1 where "write_edges gf lb sp dry ex b s = (Inr (), s1)" "write_chunks gf lb sp dry ex bs s1 = (Inr (), s')"
    by (auto simp: abind_Inr)
  then show ?case
    using counted_trans [OF write_edges_counted Cons.IH] by (cases dry) fastforce+
qed

section \<open>A batch\<close>

lemma distinct_edges_length: "distinct_edges seen es = (us, n) \<Longrightarrow> length es = length us + n"
  by (induction seen es arbitrary: us n rule: distinct_edges.induct) (auto split: if_splits prod.splits)

lemma ready_or_missing:
  "length (filter (\<lambda>m. fst m \<or> snd m) (map (missing_ends ss ts) us)) + length (ready_edges ss ts us) = length us"
proof -
  have "ready_edges ss ts us = filter (\<lambda>e. \<not> (fst (missing_ends ss ts e) \<or> snd (missing_ends ss ts e))) us"
    unfolding ready_edges_def by (rule filter_cong) (auto simp: prod_eq_iff)
  then show ?thesis
    using sum_length_filter_compl [of "\<lambda>e. fst (missing_ends ss ts e) \<or> snd (missing_ends ss ts e)" us]
    by (simp add: filter_map o_def)
qed

definition reads_only :: "('a etl_call) \<Rightarrow> bool" where
  \<comment> \<open>only the number of calls changes\<close>
  "reads_only m \<longleftrightarrow> (\<forall>s r s'. m s = (r, s') \<longrightarrow> (\<exists>n. s' = s\<lparr>ks_calls := n\<rparr>))"

lemma reads_only_abind: "reads_only m \<Longrightarrow> (\<And>x. reads_only (f x)) \<Longrightarrow> reads_only (abind m f)"
  unfolding reads_only_def abind_def by (fastforce split: prod.splits sum.splits)

lemma reads_only_simps: "reads_only (aret x)" "reads_only (alift r)" "reads_only (graph_read gf g)"
  by (auto simp: reads_only_def aret_def alift_def graph_read_def) (metis etl_state.surjective etl_state.update_convs(3))+

lemma fetch_chunks_reads: "reads_only (fetch_chunks gf tag bs)"
  by (induction bs) (auto intro!: reads_only_abind reads_only_simps)

lemma found_ends_reads: "reads_only (found_ends gf lb n v ts)"
  by (induction ts) (auto simp: existing_vids_def intro!: reads_only_abind reads_only_simps fetch_chunks_reads)

lemma existing_edges_reads: "reads_only (existing_edge_identities gf lb sp es)"
  by (auto simp: existing_edge_identities_def intro!: reads_only_abind reads_only_simps)

lemma reads_only_stats: "reads_only m \<Longrightarrow> m s = (r, s') \<Longrightarrow> ks_stats s' = ks_stats s \<and> ks_results s' = ks_results s \<and>
   ks_edges s' = ks_edges s \<and> ks_vertices s' = ks_vertices s \<and> ks_mark s' = ks_mark s"
  unfolding reads_only_def by (metis etl_state.ext_inject etl_state.surjective etl_state.update_convs(3))

text \<open>The parts of a batch: its ends, the edges that are there, its statements.\<close>

lemma process_batch_parts:
  assumes "process_candidate_batch gf lb n dry sp es s = (Inr (), s')" and "distinct_edges [] es = (us, k)"
  obtains ss ts ex s2 s3 where
    "existing_edge_identities gf lb sp (ready_edges ss ts us) s2 = (Inr ex, s3)"
    "ks_stats s2 = count_missing ss ts us ((ks_stats s)\<lparr>st_duplicate := st_duplicate (ks_stats s) + k\<rparr>)"
    "ks_results s2 = ks_results s" "ks_edges s2 = ks_edges s" "ks_vertices s2 = ks_vertices s"
    "write_chunks gf lb sp dry ex (chunks n (ready_edges ss ts us))
       (stat (\<lambda>st. st\<lparr>st_existing := st_existing st + length (filter (\<lambda>e. edge_identity e \<in> set ex) (ready_edges ss ts us)),
            st_valid := st_valid st + length (ready_edges ss ts us)\<rparr>) s3) = (Inr (), s')"
proof -
  let ?s0 = "stat (\<lambda>st. st\<lparr>st_duplicate := st_duplicate st + k\<rparr>) s"
  let ?v = "\<lambda>t. map ec_source_vid (filter (\<lambda>e. ec_source_tag e = t) us)"
  let ?w = "\<lambda>t. map ec_target_vid (filter (\<lambda>e. ec_target_tag e = t) us)"
  obtain ss sa ts sb ex s3 where
    a: "found_ends gf lb n ?v (tags_of ec_source_tag us) ?s0 = (Inr ss, sa)" and
    b: "found_ends gf lb n ?w (tags_of ec_target_tag us) sa = (Inr ts, sb)" and
    c: "existing_edge_identities gf lb sp (ready_edges ss ts us) (stat (count_missing ss ts us) sb) = (Inr ex, s3)" and
    d: "write_chunks gf lb sp dry ex (chunks n (ready_edges ss ts us))
       (stat (\<lambda>st. st\<lparr>st_existing := st_existing st + length (filter (\<lambda>e. edge_identity e \<in> set ex) (ready_edges ss ts us)),
            st_valid := st_valid st + length (ready_edges ss ts us)\<rparr>) s3) = (Inr (), s')"
    using assms(1) unfolding process_candidate_batch_def assms(2) by (auto simp: abind_Inr awrite_def Let_def)
  show thesis
    by (rule that [OF c]) (use reads_only_stats [OF found_ends_reads a] reads_only_stats [OF found_ends_reads b] d in simp_all)
qed

definition handled :: "relation_stats \<Rightarrow> nat" where
  "handled st = st_duplicate st + st_skipped st + st_valid st"

definition batch_counted :: "bool \<Rightarrow> nat \<Rightarrow> etl_state \<Rightarrow> etl_state \<Rightarrow> bool" where
  "batch_counted dry n s s' \<longleftrightarrow>
     handled (ks_stats s') = handled (ks_stats s) + n \<and>
     accounted (ks_stats s') + (if dry then 0 else st_valid (ks_stats s)) =
       accounted (ks_stats s) + (if dry then 0 else st_valid (ks_stats s')) \<and>
     st_queried (ks_stats s') = st_queried (ks_stats s) \<and> st_invalid (ks_stats s') = st_invalid (ks_stats s) \<and>
     ks_results s' = ks_results s"

lemma process_batch_counts:
  assumes "process_candidate_batch gf lb n dry sp es s = (Inr (), s')" and n: "0 < n"
  shows "batch_counted dry (length es) s s'"
proof -
  obtain us k where d: "distinct_edges [] es = (us, k)" by fastforce
  obtain ss ts ex s2 s3 where
    c: "existing_edge_identities gf lb sp (ready_edges ss ts us) s2 = (Inr ex, s3)" and
    st: "ks_stats s2 = count_missing ss ts us ((ks_stats s)\<lparr>st_duplicate := st_duplicate (ks_stats s) + k\<rparr>)"
      "ks_results s2 = ks_results s" and
    w: "write_chunks gf lb sp dry ex (chunks n (ready_edges ss ts us))
       (stat (\<lambda>st. st\<lparr>st_existing := st_existing st + length (filter (\<lambda>e. edge_identity e \<in> set ex) (ready_edges ss ts us)),
            st_valid := st_valid st + length (ready_edges ss ts us)\<rparr>) s3) = (Inr (), s')"
    by (rule process_batch_parts [OF assms(1) d])
  define m where "m = length (ready_edges ss ts us)"
  have s3: "ks_stats s3 = ks_stats s2" "ks_results s3 = ks_results s2"
    using reads_only_stats [OF existing_edges_reads c] by simp_all
  from write_chunks_counted [OF w, unfolded concat_chunks [OF n] counted_def, folded m_def]
  have r: "ks_results s' = ks_results s" "accounted (ks_stats s') = accounted (ks_stats s2) + (if dry then 0 else m)"
    "st_valid (ks_stats s') = st_valid (ks_stats s2) + m" "st_duplicate (ks_stats s') = st_duplicate (ks_stats s2)"
    "st_skipped (ks_stats s') = st_skipped (ks_stats s2)" "st_queried (ks_stats s') = st_queried (ks_stats s2)"
    "st_invalid (ks_stats s') = st_invalid (ks_stats s2)"
    using s3 st(2) by (auto dest!: restD simp: accounted_def)
  have len: "length es = length us + k"
    by (rule distinct_edges_length [OF d])
  show ?thesis
    using r len st(1) ready_or_missing [of ss ts us, folded m_def]
    by (cases dry) (simp_all add: batch_counted_def handled_def count_missing_def Let_def accounted_def)
qed

section \<open>The rows of a table\<close>

definition row_virtual :: "extract_env \<Rightarrow> source_row \<Rightarrow> bool" where
  "row_virtual xe r = is_virtual_source_row (xe_lib xe) r"

definition refused_row :: "extract_env \<Rightarrow> relation_spec \<Rightarrow> source_row \<Rightarrow> bool" where
  "refused_row xe sp r \<longleftrightarrow> \<not> row_virtual xe r \<and> isl (extract_candidates xe sp r)"

definition row_edges :: "extract_env \<Rightarrow> relation_spec \<Rightarrow> source_row \<Rightarrow> edge_candidate list" where
  "row_edges xe sp r = (if row_virtual xe r then [] else case extract_candidates xe sp r of Inl e \<Rightarrow> [] | Inr es \<Rightarrow> es)"

definition table_counted :: "bool \<Rightarrow> nat \<Rightarrow> nat \<Rightarrow> nat \<Rightarrow> etl_state \<Rightarrow> etl_state \<Rightarrow> bool" where
  \<comment> \<open>rows, refused rows, candidates and synthetic or refused rows\<close>
  "table_counted dry q i n s s' \<longleftrightarrow>
     handled (ks_stats s') = handled (ks_stats s) + n \<and>
     accounted (ks_stats s') + (if dry then 0 else st_valid (ks_stats s)) =
       accounted (ks_stats s) + (if dry then 0 else st_valid (ks_stats s')) \<and>
     st_queried (ks_stats s') = st_queried (ks_stats s) + q \<and> st_invalid (ks_stats s') = st_invalid (ks_stats s) + i \<and>
     ks_results s' = ks_results s"

lemma batch_table: "batch_counted dry n s s' \<Longrightarrow> table_counted dry 0 0 n s s'"
  by (simp add: batch_counted_def table_counted_def)

lemma table_trans:
  assumes "table_counted dry q i n s s'" and "table_counted dry q' i' n' s' s''"
  shows "table_counted dry (q + q') (i + i') (n + n') s s''"
  using assms by (cases dry) (simp_all add: table_counted_def)

lemma table_stat:
  assumes "handled (f (ks_stats s)) = handled (ks_stats s) + n" "accounted (f (ks_stats s)) = accounted (ks_stats s)"
    "st_valid (f (ks_stats s)) = st_valid (ks_stats s)"
    "st_queried (f (ks_stats s)) = st_queried (ks_stats s) + q" "st_invalid (f (ks_stats s)) = st_invalid (ks_stats s) + i"
  shows "table_counted dry q i n s (stat f s)"
  using assms by (simp add: table_counted_def)

lemma flush_counted:
  assumes "flush gf xe o' sp es s = (Inr (), s')" and "0 < eo_batch_size o'"
  shows "table_counted (eo_dry_run o') 0 0 (length es) s s'"
proof -
  have "process_candidate_batch gf (xe_lib xe) (nat (eo_batch_size o')) (eo_dry_run o') sp es
      (stat (\<lambda>st. st\<lparr>st_batches := st_batches st + 1\<rparr>) s) = (Inr (), s')"
    using assms(1) by (simp add: flush_def abind_Inr awrite_def)
  then have "batch_counted (eo_dry_run o') (length es) (stat (\<lambda>st. st\<lparr>st_batches := st_batches st + 1\<rparr>) s) s'"
    using process_batch_counts assms(2) by auto
  then show ?thesis
    by (cases "eo_dry_run o'") (simp_all add: batch_counted_def table_counted_def handled_def accounted_def)
qed

lemma run_rows_counted:
  assumes n: "0 < eo_batch_size o'"
  shows "run_rows gf xe o' sp rs pending mx s = (Inr y, s') \<Longrightarrow>
    table_counted (eo_dry_run o') (length rs) (length (filter (refused_row xe sp) rs))
      (length pending + length (concat (map (row_edges xe sp) rs)) +
       length (filter (\<lambda>r. row_virtual xe r \<or> refused_row xe sp r) rs)) s s'"
proof (induction rs arbitrary: pending mx s)
  case Nil
  then show ?case
  proof (cases "pending = []")
    case True
    then show ?thesis using Nil by (simp add: aret_def table_counted_def)
  next
    case False
    then show ?thesis
      using Nil flush_counted [OF _ n] by (auto simp: aret_def abind_Inr)
  qed
next
  case (Cons r rs)
  define s1 where "s1 = stat (\<lambda>st. st\<lparr>st_queried := st_queried st + 1\<rparr>) s"
  have a: "table_counted (eo_dry_run o') 1 0 0 s s1"
    unfolding s1_def by (rule table_stat) (simp_all add: handled_def accounted_def)
  note IH = Cons.IH
  show ?case
  proof (cases "row_virtual xe r")
    case True
    let ?f = "\<lambda>st. st\<lparr>st_skipped := st_skipped st + 1\<rparr>"
    have b: "table_counted (eo_dry_run o') 0 0 1 s1 (stat ?f s1)"
      by (rule table_stat) (simp_all add: handled_def accounted_def)
    have run: "run_rows gf xe o' sp rs pending (later mx r) (stat ?f s1) = (Inr y, s')"
      using Cons.prems True by (simp add: abind_Inr awrite_def s1_def row_virtual_def Let_def)
    from table_trans [OF a table_trans [OF b IH [OF run]]] show ?thesis
      using True by (simp add: refused_row_def row_edges_def)
  next
    case nv: False
    show ?thesis
    proof (cases "extract_candidates xe sp r")
      case (Inl e)
      obtain u where run: "run_rows gf xe o' sp rs pending (later mx r) (stat (count_invalid u) s1) = (Inr y, s')"
        using Cons.prems nv Inl
        by (cases e) (auto simp: abind_Inr awrite_def alift_def s1_def row_virtual_def Let_def)
      have "table_counted (eo_dry_run o') 0 1 1 s1 (stat (count_invalid u) s1)"
        by (rule table_stat) (simp_all add: handled_def accounted_def count_invalid_def)
      from table_trans [OF a table_trans [OF this IH [OF run]]] show ?thesis
        using nv Inl by (simp add: refused_row_def row_edges_def)
    next
      case (Inr es)
      then have rr: "\<not> refused_row xe sp r" "row_edges xe sp r = es"
        using nv by (simp_all add: refused_row_def row_edges_def)
      show ?thesis
      proof (cases "nat (eo_batch_size o') \<le> length (pending @ es)")
        case True
        obtain s2 where f: "flush gf xe o' sp (pending @ es) s1 = (Inr (), s2)"
          and run: "run_rows gf xe o' sp rs [] (later mx r) s2 = (Inr y, s')"
          using Cons.prems nv Inr True by (auto simp: abind_Inr awrite_def s1_def row_virtual_def Let_def)
        from table_trans [OF a table_trans [OF flush_counted [OF f n] IH [OF run]]] show ?thesis
          using nv rr by (simp add: add.assoc)
      next
        case False
        then have run: "run_rows gf xe o' sp rs (pending @ es) (later mx r) s1 = (Inr y, s')"
          using Cons.prems nv Inr by (auto simp: abind_Inr awrite_def s1_def row_virtual_def Let_def)
        from table_trans [OF a IH [OF run]] show ?thesis
          using nv rr by (simp add: add.assoc)
      qed
    qed
  qed
qed

end
