(* ===== verification/Etl_Isolation.thy ===== *)
theory Etl_Isolation
  imports Etl_Counts
begin

text \<open>
  The statement that is split: an edge is given up only after a statement of its own, and all the others are
  stored.  And the edges of a row are the same in every load: their identities do not depend on its
  batch and its time.
\<close>

section \<open>Names of the specifications\<close>

definition plain_char :: "char \<Rightarrow> bool" where
  "plain_char c \<longleftrightarrow> upper_char c \<or> lower_char c \<or> digit_char c \<or> c = CHR ''_''"

definition plain_name :: "string \<Rightarrow> bool" where
  "plain_name s \<longleftrightarrow> s \<noteq> [] \<and> \<not> digit_char (hd s) \<and> list_all plain_char s"

lemma plain_ascii: "plain_char c \<Longrightarrow> \<not> is_continuation c"
  by (auto simp: plain_char_def upper_char_def lower_char_def digit_char_def char_in_def Let_def is_continuation_def)

lemma plain_name_identifier: "plain_name s \<Longrightarrow> \<exists>q. ngql_identifier lb s = Inr q"
proof (cases s)
  case (Cons c cs)
  assume p: "plain_name s"
  then have "code_points cs = map (\<lambda>c. [c]) cs"
    using Cons by (intro code_points_ascii plain_ascii) (simp add: plain_name_def list_all_iff)
  then have "list_all (word_point (lb_uc lb)) (code_points cs)"
    using p Cons by (auto simp: plain_name_def list_all_iff word_point_def plain_char_def)
  then show ?thesis
    using p Cons by (auto simp: ngql_identifier_def plain_name_def plain_char_def)
qed (simp add: plain_name_def)

lemma names_plain: "list_all plain_name
  (EDGE_PROVENANCE @ [
    ''ACQUIRES'', ''ACTUAL_CONTROLLER_OF'', ''BELONGS_TO_NODE'', ''BENEFICIAL_OWNER_OF'', ''EXECUTIVE_OF'',
    ''FUNDED_BY'', ''HAS_NEWS'', ''INVESTS_IN'', ''INVOLVED_IN'', ''LEGAL_REP_OF'', ''PARTICIPATES_IN'',
    ''PRODUCES'', ''SHAREHOLDER_OF'', ''SUBSIDIARY_OF'', ''chain_score'', ''currency_code'', ''direct_pct'',
    ''direct_percent'', ''extra_json'', ''fund_category'', ''funded_amount'', ''indirect_percent'',
    ''investment_amount'', ''investment_ratio'', ''ma_amount'', ''ownership_percentage'', ''position'', ''role'',
    ''tech_product_seq'', ''total_pct'', ''total_percent''])"
  by code_simp

lemma entry_plain:
  "rel_edge_type (relation_entry k t e tt sc x req ps num fs tags) = e"
  "rel_edge_props (relation_entry k t e tt sc x req ps num fs tags) = ps @ EDGE_PROVENANCE"
  by (simp_all add: relation_entry_def)

lemmas relation_groups = person_relations_def organization_relations_def event_relations_def party_relations_def
  product_relations_def

lemma specs_plain: "list_all (\<lambda>sp. plain_name (rel_edge_type sp) \<and> list_all plain_name (rel_edge_props sp)) ALL_RELATION_SPECS"
  unfolding ALL_RELATION_SPECS_def list_all_append relation_groups list.pred_inject entry_plain
  using names_plain by simp

lemma all_ok_map: "(\<And>x. x \<in> set xs \<Longrightarrow> \<exists>y. f x = Inr y) \<Longrightarrow> \<exists>ys. all_ok (map f xs) = Inr ys"
  by (induction xs) (auto simp: result_simps)

lemma render_spec:
  assumes "sp \<in> set RELATION_SPECS" and "es \<noteq> []"
  obtains q where "render_edge_insert lb sp es = Inr q"
proof -
  have p: "plain_name (rel_edge_type sp)" "list_all plain_name (rel_edge_props sp)"
    using specs_plain assms(1) by (auto simp: RELATION_SPECS_def list_all_iff)
  have "\<exists>ps. all_ok (map (ngql_identifier lb) (rel_edge_props sp)) = Inr ps"
    by (rule all_ok_map, rule plain_name_identifier) (use p(2) in \<open>simp add: list_all_iff\<close>)
  moreover obtain ty where "ngql_identifier lb (rel_edge_type sp) = Inr ty"
    using plain_name_identifier [OF p(1)] by blast
  ultimately show thesis
    using that assms(2) by (auto simp: render_edge_insert_def)
qed

section \<open>Statements that fail because of some edges\<close>

lemma add_example_counts [simp]:
  "st_failed (add_example q st) = st_failed st" "st_updated (add_example q st) = st_updated st"
  "st_written (add_example q st) = st_written st"
  by (simp_all add: add_example_def)

definition returns_carried :: "graph_faults \<Rightarrow> bool" where
  \<comment> \<open>a statement whose call returns was carried out; one that raises may have been\<close>
  "returns_carried gf \<longleftrightarrow> (\<forall>n us. snd (gf_write gf n us) \<or> fst (gf_write gf n us))"

definition split_stored :: "graph_faults \<Rightarrow> edge_candidate list \<Rightarrow> etl_state \<Rightarrow> etl_state \<Rightarrow> bool" where
  \<comment> \<open>new edges are stored, or given up after a statement of their own\<close>
  "split_stored gf es s s' \<longleftrightarrow>
     (\<exists>bad. set bad \<subseteq> set es \<and> (\<forall>e. e \<in> set bad \<longrightarrow> (\<exists>k. snd (gf_write gf k [e]))) \<and>
        (\<forall>e. e \<in> set es - set bad \<longrightarrow> (edge_identity e, ec_properties e) \<in> set (ks_edges s')) \<and>
        st_failed (ks_stats s') = st_failed (ks_stats s) + length bad \<and>
        st_written (ks_stats s') + length bad = st_written (ks_stats s) + length es) \<and>
     (\<forall>p. fst p \<notin> edge_identity ` set es \<longrightarrow> (p \<in> set (ks_edges s')) = (p \<in> set (ks_edges s))) \<and>
     ks_vertices s' = ks_vertices s \<and> st_updated (ks_stats s') = st_updated (ks_stats s)"

lemma put_other: "fst p \<noteq> i \<Longrightarrow> (p \<in> set (tbl_put fst (i, ps) g)) = (p \<in> set g)"
  by (cases p) (auto simp: tbl_put_def tbl_upd_def split: if_splits)

lemma put_edges_other: "fst p \<notin> edge_identity ` set es \<Longrightarrow> (p \<in> set (put_edges es g)) = (p \<in> set g)"
  by (induction es arbitrary: g) (simp_all add: put_edges_def put_other)

lemma put_in: "(i, ps) \<in> set (tbl_put fst (i, ps) g)"
proof (cases "list_ex (\<lambda>p. fst p = i) g")
  case True
  then obtain p where "p \<in> set g" "fst p = i" by (auto simp: list_ex_iff)
  then have "(i, ps) \<in> (\<lambda>r. if fst r = i then (i, ps) else r) ` set g"
    by (intro image_eqI [of _ _ p]) simp_all
  then show ?thesis by (simp add: tbl_put_def tbl_upd_def)
qed (simp add: tbl_put_def)

lemma put_edges_in: "distinct (map edge_identity es) \<Longrightarrow> e \<in> set es \<Longrightarrow> (edge_identity e, ec_properties e) \<in> set (put_edges es g)"
proof (induction es arbitrary: g)
  case (Cons x es)
  have "(edge_identity x, ec_properties x) \<in> set (tbl_put fst (edge_identity x, ec_properties x) g)"
    by (rule put_in)
  then have "(edge_identity x, ec_properties x) \<in> set (put_edges es (tbl_put fst (edge_identity x, ec_properties x) g))"
    using Cons.prems(1) by (subst put_edges_other) auto
  then show ?case
    using Cons by (auto simp: put_edges_def)
qed simp

lemma split_stored_append:
  assumes d: "distinct (map edge_identity (xs @ ys))" and a: "split_stored gf xs s s1" and b: "split_stored gf ys s1 s2"
  shows "split_stored gf (xs @ ys) s s2"
proof -
  obtain bx where x: "set bx \<subseteq> set xs" "\<forall>e. e \<in> set bx \<longrightarrow> (\<exists>k. snd (gf_write gf k [e]))"
    "\<forall>e. e \<in> set xs - set bx \<longrightarrow> (edge_identity e, ec_properties e) \<in> set (ks_edges s1)"
    "st_failed (ks_stats s1) = st_failed (ks_stats s) + length bx"
    "st_written (ks_stats s1) + length bx = st_written (ks_stats s) + length xs"
    using a by (auto simp: split_stored_def)
  obtain bq where y: "set bq \<subseteq> set ys" "\<forall>e. e \<in> set bq \<longrightarrow> (\<exists>k. snd (gf_write gf k [e]))"
    "\<forall>e. e \<in> set ys - set bq \<longrightarrow> (edge_identity e, ec_properties e) \<in> set (ks_edges s2)"
    "st_failed (ks_stats s2) = st_failed (ks_stats s1) + length bq"
    "st_written (ks_stats s2) + length bq = st_written (ks_stats s1) + length ys"
    using b by (auto simp: split_stored_def)
  have keep: "(edge_identity e, ec_properties e) \<in> set (ks_edges s2)" if "e \<in> set xs - set bx" for e
  proof -
    have "edge_identity e \<notin> edge_identity ` set ys" using d that by auto
    moreover have "\<forall>p. fst p \<notin> edge_identity ` set ys \<longrightarrow> (p \<in> set (ks_edges s2)) = (p \<in> set (ks_edges s1))"
      using b unfolding split_stored_def by blast
    ultimately show ?thesis
      using x(3) that by (metis fst_conv)
  qed
  have "\<exists>bad. set bad \<subseteq> set (xs @ ys) \<and> (\<forall>e. e \<in> set bad \<longrightarrow> (\<exists>k. snd (gf_write gf k [e]))) \<and>
        (\<forall>e. e \<in> set (xs @ ys) - set bad \<longrightarrow> (edge_identity e, ec_properties e) \<in> set (ks_edges s2)) \<and>
        st_failed (ks_stats s2) = st_failed (ks_stats s) + length bad \<and>
        st_written (ks_stats s2) + length bad = st_written (ks_stats s) + length (xs @ ys)"
    by (rule exI [of _ "bx @ bq"]) (use x y keep in auto)
  then show ?thesis
    using a b by (simp add: split_stored_def image_Un)
qed

lemma write_edges_stored:
  assumes g: "returns_carried gf" and sp: "sp \<in> set RELATION_SPECS"
  shows "es \<noteq> [] \<Longrightarrow> distinct (map edge_identity es) \<Longrightarrow> edge_identity ` set es \<inter> set ex = {} \<Longrightarrow>
    \<exists>s'. write_edges gf lb sp False ex es s = (Inr (), s') \<and> split_stored gf es s s'"
proof (induction "length es" arbitrary: es s rule: less_induct)
  case less
  obtain q where q: "render_edge_insert lb sp es = Inr q"
    by (rule render_spec [OF sp less.prems(1)])
  obtain raised s1 where w: "graph_write gf es (stat (add_example q) s) = (raised, s1)" by fastforce
  note run = write_edges_run [OF q w]
  have new: "filter (\<lambda>e. edge_identity e \<in> set ex) es = []" "filter (\<lambda>e. edge_identity e \<notin> set ex) es = es"
    using less.prems(3) by (auto simp: filter_empty_conv filter_id_conv)
  have same: "ks_vertices s1 = ks_vertices s" "st_failed (ks_stats s1) = st_failed (ks_stats s)"
    "st_written (ks_stats s1) = st_written (ks_stats s)" "st_updated (ks_stats s1) = st_updated (ks_stats s)"
    "ks_edges s1 = ks_edges s \<or> ks_edges s1 = put_edges es (ks_edges s)"
    using graph_write_Inl [OF w] by (simp_all add: stat_def)
  have carried: "\<not> raised \<Longrightarrow> ks_edges s1 = put_edges es (ks_edges s)"
    using w g [unfolded returns_carried_def, rule_format, of "ks_calls s" es]
    by (auto simp: graph_write_def stat_def split: prod.splits)
  have other: "(p \<in> set (ks_edges s1)) = (p \<in> set (ks_edges s))" if "fst p \<notin> edge_identity ` set es" for p
    using same(5) put_edges_other [OF that, of "ks_edges s"] by (elim disjE) simp_all
  then have others: "\<forall>p. fst p \<notin> edge_identity ` set es \<longrightarrow> (p \<in> set (ks_edges s1)) = (p \<in> set (ks_edges s))" by blast
  consider (all) "\<not> raised" | (split) "raised" "1 < length es" | (one) e where "raised" "es = [e]"
    using less.prems(1) by (cases es; cases "tl es") auto
  then show ?case
  proof cases
    case all
    have i: "\<forall>e. e \<in> set es \<longrightarrow> (edge_identity e, ec_properties e) \<in> set (ks_edges s1)"
      using put_edges_in [OF less.prems(2)] by (simp add: carried [OF all])
    let ?t = "stat (count_written ex es) s1"
    have t: "ks_edges ?t = ks_edges s1" "ks_vertices ?t = ks_vertices s" "st_failed (ks_stats ?t) = st_failed (ks_stats s)"
      "st_updated (ks_stats ?t) = st_updated (ks_stats s)" "st_written (ks_stats ?t) = st_written (ks_stats s) + length es"
      by (simp_all add: stat_def count_written_def same(1-4) new)
    have "split_stored gf es s ?t"
      unfolding split_stored_def t using i others by (intro conjI exI [of _ "[]"]) simp_all
    then show ?thesis using all run by simp
  next
    case split
    let ?k = "length es div 2"
    have d: "distinct (map edge_identity (take ?k es @ drop ?k es))" using less.prems(2) by simp
    have p: "length (take ?k es) < length es" "length (drop ?k es) < length es" "take ?k es \<noteq> []" "drop ?k es \<noteq> []"
      "distinct (map edge_identity (take ?k es))" "distinct (map edge_identity (drop ?k es))"
      "edge_identity ` set (take ?k es) \<inter> set ex = {}" "edge_identity ` set (drop ?k es) \<inter> set ex = {}"
      using split(2) less.prems(3) d set_take_subset [of ?k es] set_drop_subset [of ?k es]
      by (simp, simp, fastforce, simp, simp only: map_append distinct_append, simp only: map_append distinct_append, blast, blast)
    obtain s2 where a: "write_edges gf lb sp False ex (take ?k es) s1 = (Inr (), s2)" "split_stored gf (take ?k es) s1 s2"
      using less.hyps [OF p(1,3,5,7), of s1] by blast
    obtain s3 where b: "write_edges gf lb sp False ex (drop ?k es) s2 = (Inr (), s3)" "split_stored gf (drop ?k es) s2 s3"
      using less.hyps [OF p(2,4,6,8), of s2] by blast
    have "split_stored gf es s1 s3"
      using split_stored_append [OF d a(2) b(2)] by simp
    then have "split_stored gf es s s3"
      using same other by (simp add: split_stored_def)
    then show ?thesis
      using split a(1) b(1) by (simp add: run abind_def)
  next
    case one
    have "snd (gf_write gf (ks_calls s) [e])"
      using w one by (auto simp: graph_write_def stat_def split: prod.splits)
    then have "split_stored gf es s (stat (\<lambda>st. st\<lparr>st_failed := st_failed st + 1\<rparr>) s1)"
      unfolding split_stored_def
      by (intro conjI exI [of _ "[e]"]) (use other same one in \<open>auto simp: stat_def\<close>)
    then show ?thesis using one run by simp
  qed
qed

lemma write_chunks_stored:
  assumes "returns_carried gf" and "sp \<in> set RELATION_SPECS"
  shows "[] \<notin> set bs \<Longrightarrow> distinct (map edge_identity (concat bs)) \<Longrightarrow> edge_identity ` set (concat bs) \<inter> set ex = {} \<Longrightarrow>
    \<exists>s'. write_chunks gf lb sp False ex bs s = (Inr (), s') \<and> split_stored gf (concat bs) s s'"
proof (induction bs arbitrary: s)
  case Nil
  have "split_stored gf [] s s" by (auto simp: split_stored_def intro!: exI [of _ "[]"])
  then show ?case by (simp add: aret_def)
next
  case (Cons b bs)
  have d: "distinct (map edge_identity (b @ concat bs))" using Cons.prems(2) by simp
  obtain s1 where a: "write_edges gf lb sp False ex b s = (Inr (), s1)" "split_stored gf b s s1"
    using write_edges_stored [OF assms, of b ex lb s] Cons.prems d by auto
  obtain s2 where b: "write_chunks gf lb sp False ex bs s1 = (Inr (), s2)" "split_stored gf (concat bs) s1 s2"
    using Cons.IH [of s1] Cons.prems d by auto
  show ?case
    using a b split_stored_append [OF d a(2) b(2)] by (simp add: abind_def)
qed

lemma chunks_not_empty: "[] \<notin> set (chunks n xs)"
  by (induction n xs rule: chunks.induct) auto

section \<open>Loads at another time\<close>

definition at_load :: "string \<Rightarrow> string \<Rightarrow> extract_env \<Rightarrow> extract_env" where
  "at_load b t xe = xe\<lparr>xe_batch := b, xe_now := t\<rparr>"

definition ids :: "edge_candidate list etl \<Rightarrow> edge_id list etl" where
  "ids m = rbind m (\<lambda>es. Inr (map edge_identity es))"

lemma ids_simps [simp]: "ids (Inl e) = Inl e" "ids (Inr es) = Inr (map edge_identity es)"
  by (simp_all add: ids_def)

lemma ids_rbind: "ids (rbind m f) = rbind m (\<lambda>x. ids (f x))"
  by (cases m) simp_all

lemma rbind_ids_cong: "(\<And>x. ids (f x) = ids (g x)) \<Longrightarrow> ids (rbind m f) = ids (rbind m g)"
  by (simp add: ids_rbind)

lemma at_load_lib [simp]: "xe_lib (at_load b t xe) = xe_lib xe" "xe_resolver (at_load b t xe) = xe_resolver xe"
  by (simp_all add: at_load_def)

lemma at_load_ends [simp]:
  "resolved_organization_vid (at_load b t xe) = resolved_organization_vid xe"
  "person_vid_for_row (at_load b t xe) = person_vid_for_row xe"
  "item_organization (at_load b t xe) = item_organization xe"
  unfolding fun_eq_iff resolved_organization_vid_def person_vid_for_row_def item_organization_def at_load_lib by simp_all

lemma at_load_row [simp]: "organization_vid_from_row (at_load b t xe) = organization_vid_from_row xe"
  unfolding fun_eq_iff organization_vid_from_row_def at_load_lib at_load_ends by simp

definition blank :: "(string \<times> cell) list etl \<Rightarrow> unit etl" where
  "blank m = rbind m (\<lambda>_. Inr ())"

lemma edge_props_blank: "blank (edge_props (at_load b t xe) sp r i ps) = blank (edge_props xe sp r i ps)"
  by (cases "compact_row (xe_lib xe) r") (simp_all add: blank_def edge_props_def)

lemma rbind_blank: "blank m = blank m' \<Longrightarrow> (\<And>x y. f x = g y) \<Longrightarrow> rbind m f = rbind m' g"
  by (cases m; cases m') (simp_all add: blank_def)

lemma one_edge_ids [simp]: "ids (one_edge (at_load b t xe) sp r i tag v w ps) = ids (one_edge xe sp r i tag v w ps)"
  unfolding one_edge_def ids_rbind
  by (rule rbind_blank [OF edge_props_blank]) (simp add: candidate_def edge_identity_def)

definition the_id :: "edge_candidate etl \<Rightarrow> edge_id etl" where
  "the_id m = rbind m (\<lambda>e. Inr (edge_identity e))"

lemma item_edges_ids:
  assumes "\<And>k oid. the_id (f k oid) = the_id (g k oid)"
  shows "ids (item_edges (at_load b t xe) start f n vs) = ids (item_edges xe start g n vs)"
proof (induction vs arbitrary: n)
  case Nil
  then show ?case by simp
next
  case (Cons v vs)
  have step: "ids (rbind x (\<lambda>e. rbind m (\<lambda>es. Inr (e # es)))) = rbind (the_id x) (\<lambda>a. rbind (ids m) (\<lambda>as. Inr (a # as)))"
    for x and m :: "edge_candidate list etl"
    by (cases x; cases m) (simp_all add: the_id_def)
  show ?case
    by (cases "item_organization xe v")
      (simp_all add: Cons.IH step assms split: option.split)
qed

lemma ids_some_edges: "ids m = ids m' \<Longrightarrow> ids (rbind m (some_edges e)) = ids (rbind m' (some_edges e))"
  by (cases m; cases m') (auto simp: some_edges_def)

lemma extractor_ids:
  "ids (extract_legal_representative (at_load b t xe) sp r i) = ids (extract_legal_representative xe sp r i)"
  "ids (extract_domestic_shareholder (at_load b t xe) sp r i) = ids (extract_domestic_shareholder xe sp r i)"
  "ids (extract_foreign_shareholder (at_load b t xe) sp r i) = ids (extract_foreign_shareholder xe sp r i)"
  "ids (extract_executive (at_load b t xe) sp r i) = ids (extract_executive xe sp r i)"
  "ids (extract_beneficial_owner (at_load b t xe) sp r i) = ids (extract_beneficial_owner xe sp r i)"
  "ids (extract_actual_controller (at_load b t xe) sp r i) = ids (extract_actual_controller xe sp r i)"
  "ids (extract_investment (at_load b t xe) sp r i) = ids (extract_investment xe sp r i)"
  "ids (extract_acquisition (at_load b t xe) sp r i) = ids (extract_acquisition xe sp r i)"
  "ids (extract_subsidiary (at_load b t xe) sp r i) = ids (extract_subsidiary xe sp r i)"
  "ids (extract_news (at_load b t xe) sp r i) = ids (extract_news xe sp r i)"
  "ids (extract_event (at_load b t xe) sp r i) = ids (extract_event xe sp r i)"
  "ids (extract_bankruptcy_party (at_load b t xe) sp r i) = ids (extract_bankruptcy_party xe sp r i)"
  "ids (extract_bankruptcy_admin (at_load b t xe) sp r i) = ids (extract_bankruptcy_admin xe sp r i)"
  "ids (extract_bid_party (at_load b t xe) sp r i) = ids (extract_bid_party xe sp r i)"
  "ids (extract_industry_node (at_load b t xe) sp r i) = ids (extract_industry_node xe sp r i)"
  "ids (extract_product (at_load b t xe) sp r i) = ids (extract_product xe sp r i)"
  "ids (extract_organization_product (at_load b t xe) sp r i) = ids (extract_organization_product xe sp r i)"
  unfolding extractor_defs Let_def at_load_lib at_load_ends at_load_row
  by (auto intro!: rbind_ids_cong split: option.split prod.split)

lemma edge_at_load:
  "the_id (rbind (edge_props (at_load b t xe) sp r k ps) (\<lambda>ps. rbind m (\<lambda>x. Inr (candidate lb sp tag (f x) (g x) k ps)))) =
   the_id (rbind (edge_props xe sp r k ps) (\<lambda>ps. rbind m (\<lambda>x. Inr (candidate lb sp tag (f x) (g x) k ps))))"
proof -
  have push: "the_id (rbind y h) = rbind y (\<lambda>x. the_id (h x))" for y :: "(string \<times> cell) list etl" and h
    by (cases y) (simp_all add: the_id_def)
  show ?thesis
    unfolding push
    by (rule rbind_blank [OF edge_props_blank]; cases m) (simp_all add: the_id_def candidate_def edge_identity_def)
qed

lemma project_ids:
  "ids (extract_project (at_load b t xe) sp r i) = ids (extract_project xe sp r i)"
  "ids (extract_project_funder (at_load b t xe) sp r i) = ids (extract_project_funder xe sp r i)"
  unfolding extract_project_def extract_project_funder_def at_load_lib
  by (intro rbind_ids_cong ids_some_edges item_edges_ids edge_at_load)+

lemma extractors_ids: "(x, f) \<in> set extractors \<Longrightarrow> ids (f (at_load b t xe) sp r i) = ids (f xe sp r i)"
  unfolding extractors_def set_simps
  by (elim insertE emptyE Pair_inject; simp only: extractor_ids project_ids)

lemma candidates_ids: "ids (extract_candidates (at_load b t xe) sp r) = ids (extract_candidates xe sp r)"
  unfolding extract_candidates_def at_load_lib
  by (rule rbind_ids_cong) (auto simp: extractors_ids dest: map_of_SomeD split: option.split)

end
