(* ===== verification/Etl_Claims.thy ===== *)
theory Etl_Claims
  imports Etl_Isolation
begin

text \<open>
  The properties of the load of relations: which edges it can leave in the graph, what its counters and its
  exit code mean, what a refused statement costs, where the watermark goes, and what the exact
  resolver answers.
\<close>

section \<open>The graph after a run\<close>

definition edge_of_spec :: "(string \<times> string) list \<Rightarrow> relation_spec \<Rightarrow> edge_id \<Rightarrow> bool" where
  \<comment> \<open>the type of the specification between vertices with its tags\<close>
  "edge_of_spec V sp i =
     (case i of (ty, a, b, k) \<Rightarrow>
        ty = rel_edge_type sp \<and> list_ex (\<lambda>t. (t, a) \<in> set V) (rel_source_tags sp) \<and> (rel_target_tag sp, b) \<in> set V)"

definition read_back :: "(string \<times> string) list \<Rightarrow> (string \<times> string) list" where
  \<comment> \<open>the tagged identifiers as the load reads them from the graph: cleaned\<close>
  "read_back V = List.map_filter (\<lambda>p. map_option (Pair (fst p)) (clean_text (Val (JStr (snd p))))) V"

lemma in_read_back: "(t, a) \<in> set (read_back V) \<longleftrightarrow> (\<exists>v. (t, v) \<in> set V \<and> clean_text (Val (JStr v)) = Some a)"
  by (force simp: read_back_def map_filter_def image_iff)

lemma read_back_clean: "vids_clean V \<Longrightarrow> set (read_back V) = set V"
  by (fastforce simp: vids_clean_def list_all_iff in_read_back)

lemma finds_read_back: "finds (\<lambda>p. p \<in> set (read_back V)) (graph_inv V J)"
  by (auto simp: finds_def graph_inv_def in_read_back)

definition new_edges_ok :: "etl_options \<Rightarrow> etl_state \<Rightarrow> (edge_id \<times> (string \<times> cell) list) list \<Rightarrow> bool" where
  "new_edges_ok o' s g \<longleftrightarrow>
     (\<forall>p\<in>set g. p \<in> set (ks_edges s) \<or> (\<exists>sp\<in>set (selected_specs o'). schema_available o' sp \<and> edge_of_spec (read_back (ks_vertices s)) sp (fst p))) \<and>
     fst ` set (ks_edges s) \<subseteq> fst ` set g"

lemma specs_tagged:
  "list_all (\<lambda>sp. rel_source_tags sp \<noteq> [] \<and> set (tags_of_extractor (rel_extractor sp)) \<subseteq> set (rel_source_tags sp)) ALL_RELATION_SPECS"
  by code_simp

lemma selected_in: "sp \<in> set (selected_specs o') \<Longrightarrow> sp \<in> set RELATION_SPECS"
  by (simp add: selected_specs_def)

definition shaped :: "relation_spec \<Rightarrow> edge_candidate \<Rightarrow> bool" where
  "shaped sp e \<longleftrightarrow> ec_edge_type e = rel_edge_type sp \<and> ec_target_tag e = rel_target_tag sp \<and> ec_source_tag e \<in> set (rel_source_tags sp)"

lemma extracts_shaped:
  assumes "sp \<in> set RELATION_SPECS"
  shows "extracts xe sp (shaped sp)"
proof -
  have "rel_source_tags sp \<noteq> []" "set (tags_of_extractor (rel_extractor sp)) \<subseteq> set (rel_source_tags sp)"
    using specs_tagged assms by (auto simp: RELATION_SPECS_def list_all_iff)
  then have "made (xe_lib xe) sp (tags_of_extractor (rel_extractor sp)) e \<Longrightarrow> shaped sp e" for e
    unfolding made_def candidate_def shaped_def opt_or_def opt_str_def opt_truthy_def
    by (elim exE conjE; case_tac tag) auto
  then show ?thesis
    by (auto simp: extracts_def dest: candidates_made)
qed

lemma shaped_edge:
  "shaped sp e \<Longrightarrow> ends_in (\<lambda>p. p \<in> set V) e \<Longrightarrow> edge_of_spec V sp (edge_identity e)"
  by (auto simp: shaped_def ends_in_def edge_of_spec_def edge_identity_def list_ex_iff)

lemma new_edges_put:
  assumes "sp \<in> set (selected_specs o')" "schema_available o' sp" "edge_of_spec (read_back (ks_vertices s)) sp i" "new_edges_ok o' s g"
  shows "new_edges_ok o' s (tbl_put fst (i, ps) g)"
  unfolding new_edges_ok_def
proof (intro conjI ballI)
  fix p assume "p \<in> set (tbl_put fst (i, ps) g)"
  then have "p = (i, ps) \<or> p \<in> set g" by (auto dest: in_tbl_put)
  then show "p \<in> set (ks_edges s) \<or> (\<exists>sp\<in>set (selected_specs o'). schema_available o' sp \<and> edge_of_spec (read_back (ks_vertices s)) sp (fst p))"
    using assms by (auto simp: new_edges_ok_def)
next
  show "fst ` set (ks_edges s) \<subseteq> fst ` set (tbl_put fst (i, ps) g)"
    using assms(4) by (auto simp: new_edges_ok_def keys_put)
qed

lemma new_edges_writes:
  assumes "sp \<in> set (selected_specs o')" "schema_available o' sp"
  shows "write_ok (eo_dry_run o') (\<lambda>p. p \<in> set (read_back (ks_vertices s))) (shaped sp)
    (graph_inv (ks_vertices s) (\<lambda>g. new_edges_ok o' s g \<and> (eo_dry_run o' \<longrightarrow> g = ks_edges s)))"
proof (cases "eo_dry_run o'")
  case False
  have "closed_by (new_edges_ok o' s) (\<lambda>e. shaped sp e \<and> ends_in (\<lambda>p. p \<in> set (read_back (ks_vertices s))) e)"
    unfolding closed_by_def by (intro allI impI new_edges_put [OF assms] shaped_edge) simp_all
  note put = put_edges_closed [OF this]
  show ?thesis
    unfolding write_ok_def writes_keep_def
  proof (intro allI impI disjI2)
    fix us s0 vs n
    assume "\<forall>e\<in>set us. shaped sp e \<and> ends_in (\<lambda>p. p \<in> set (read_back (ks_vertices s))) e" "set vs \<subseteq> set us"
      and g: "graph_inv (ks_vertices s) (\<lambda>g. new_edges_ok o' s g \<and> (eo_dry_run o' \<longrightarrow> g = ks_edges s)) s0"
    then have "\<forall>e\<in>set vs. shaped sp e \<and> ends_in (\<lambda>p. p \<in> set (read_back (ks_vertices s))) e" by blast
    from put [OF this] show "graph_inv (ks_vertices s) (\<lambda>g. new_edges_ok o' s g \<and> (eo_dry_run o' \<longrightarrow> g = ks_edges s))
        (s0\<lparr>ks_calls := n, ks_edges := put_edges vs (ks_edges s0)\<rparr>)"
      using g False by (simp add: graph_inv_def)
  qed
qed (simp add: write_ok_def writes_keep_def)

lemma run_etl_keeps:
  assumes I: "graph_frame W I" and m: "\<And>s f. I (s\<lparr>ks_mark := f\<rparr>) = I s"
    and w: "\<And>sp. sp \<in> set (selected_specs o') \<Longrightarrow> schema_available o' sp \<Longrightarrow> write_ok (eo_dry_run o') W (shaped sp) I"
    and s: "I s" and run: "run_relation_etl gf xe o' db s = (r, s')"
  shows "I s'"
  using run
proof (cases rule: run_etl_cases)
  case refused
  then show ?thesis using s graph_frameD(3) [OF I] by auto
next
  case (loaded r1 s1)
  have k: "keeps I (run_specs gf xe o' db (mark_read xe o' s) (selected_specs o') [])
      (\<lambda>y. y = foldl later [] (rows_read o' db (mark_read xe o' s) (selected_specs o')))"
    by (rule run_specs_keeps [OF I]) (auto simp: w intro: extracts_shaped selected_in)
  have "I s1"
    using keeps_store [OF k, of "s\<lparr>ks_results := []\<rparr>"] s graph_frameD(3) [OF I, where s = s and rs = "[]"] loaded(1) by simp
  then show ?thesis
    using loaded(2) m by (auto simp: advance_mark_def split: sum.splits if_splits prod.splits)
qed

section \<open>Example runs\<close>

definition demo_etl_lib :: etl_lib where
  "demo_etl_lib = \<lparr>lb_fold = id, lb_nfkc = id, lb_md5 = (\<lambda>s. replicate 32 CHR ''0''), lb_sha256 = (\<lambda>s. replicate 64 CHR ''0''),
     lb_loads = (\<lambda>s. None), lb_decimal = Some, lb_float = (\<lambda>i. ''0.0''), lb_trunc = (\<lambda>s. None), lb_literal = id,
     lb_uc = \<lparr>uc_word = (\<lambda>p. False), uc_digit = (\<lambda>p. False)\<rparr>\<rparr>"

definition load_env :: extract_env where
  "load_env = \<lparr>xe_lib = demo_etl_lib, xe_resolver = exact_resolver [], xe_batch = ''b1'', xe_now = ''t1''\<rparr>"

definition load_row :: source_row where
  "load_row = [(''org_id'', Val (JStr ''1'')), (''news_title'', Val (JStr ''t'')), (''updated_time'', Stamp ''2026-01-02 00:00:00'')]"

definition load_db :: source_db where
  "load_db = \<lparr>db_columns = (\<lambda>t. [''org_id'', ''news_title'', ''news_date'', ''news_content'', ''updated_time'']),
     db_rows = (\<lambda>t. [load_row]), db_after = (\<lambda>c s. True)\<rparr>"

definition load_options :: etl_options where
  "load_options = \<lparr>eo_relation = ''news'', eo_batch_size = 10, eo_dry_run = False, eo_max_records = None, eo_domestic_only = False,
     eo_foreign_only = False, eo_incremental = True, eo_labels = [''Organization'', ''News''], eo_edge_types = [''HAS_NEWS''],
     eo_mark_fault = False\<rparr>"

definition demo_news :: string where
  "demo_news = bounded_vid demo_etl_lib (''news_dwd_org_important_news_info_'' @ replicate 32 CHR ''0'')"

definition load_state :: etl_state where
  "load_state = \<lparr>ks_vertices = [(''Organization'', ''org_1''), (''News'', demo_news)], ks_edges = [], ks_calls = 0, ks_stats = no_stats,
     ks_results = [], ks_mark = Some ''2026-01-01 00:00:00''\<rparr>"

definition demo_faults :: graph_faults where
  "demo_faults = \<lparr>gf_read = (\<lambda>n. False), gf_write = (\<lambda>n es. (True, False))\<rparr>"

text \<open>A row without an organization, which the extractor refuses.\<close>

definition idle_row :: source_row where
  "idle_row = [(''news_title'', Val (JStr ''t'')), (''updated_time'', Stamp ''2026-01-02 00:00:00'')]"

definition idle_db :: source_db where
  "idle_db = load_db\<lparr>db_rows := (\<lambda>t. [idle_row])\<rparr>"

definition news_spec :: relation_spec where
  "news_spec = relation_entry ''news'' ''dwd_org_important_news_info'' ''HAS_NEWS'' ''News'' ''domestic'' ''news''
     [''org_id'', ''news_title'', ''news_date'', ''news_content''] [''extra_json''] [] [] [''Organization'']"

lemma demo_specs: "selected_specs load_options = [news_spec]"
  by code_simp

lemma news_spec_in: "news_spec \<in> set RELATION_SPECS"
  by (rule selected_in [of _ load_options]) (simp add: demo_specs)

lemma demo_checked: "check_options load_options = Inr ()"
proof -
  have "rel_key news_spec \<in> set ETL_RELATION_KEYS"
    using news_spec_in by (simp add: ETL_RELATION_KEYS_def)
  then have "''news'' \<in> set ETL_RELATION_KEYS"
    by (simp add: news_spec_def relation_entry_def)
  then show ?thesis
    by (simp add: check_options_def demo_specs) (simp add: load_options_def)
qed

lemma idle_row_refused:
  "extract_candidates load_env news_spec idle_row = Inl (RelationData ''organization has no stable or exact unique identifier'')"
  "\<not> is_virtual_source_row demo_etl_lib idle_row" "later [] idle_row = ''2026-01-02 00:00:00''"
  "unresolved ''organization has no stable or exact unique identifier''"
  by code_simp+

definition idle_done :: "etl_state \<Rightarrow> etl_state" where
  "idle_done s = stat (count_invalid True) (stat (\<lambda>st. st\<lparr>st_queried := st_queried st + 1\<rparr>) s)"

lemma idle_rows: "run_rows demo_faults load_env load_options news_spec [idle_row] [] [] s = (Inr ''2026-01-02 00:00:00'', idle_done s)"
proof -
  have "xe_lib load_env = demo_etl_lib" by (simp add: load_env_def)
  then show ?thesis
    by (simp add: idle_row_refused idle_done_def abind_def awrite_def aret_def Let_def)
qed

lemma idle_start:
  "validate_source_schema idle_db [news_spec] = Inr ()" "schema_available load_options news_spec"
  "iter_source_rows idle_db (rel_table news_spec) None (Some ''2026-01-01 00:00:00'') = [idle_row]"
  "read_since load_env load_options (load_state\<lparr>ks_results := []\<rparr>) = (Inr (Some ''2026-01-01 00:00:00''), load_state\<lparr>ks_results := []\<rparr>)"
  "advance_if_higher (lb_uc (xe_lib load_env)) False ''2026-01-02 00:00:00'' (Some ''2026-01-01 00:00:00'') =
     (Inr (), Some ''2026-01-02 00:00:00'')"
  by code_simp+

lemma idle_run:
  obtains s' where
    "run_relation_etl demo_faults load_env load_options idle_db load_state =
       (Inr [(''dwd_org_important_news_info'', count_invalid True (no_stats\<lparr>st_queried := 1\<rparr>))], s')"
    "ks_mark s' = Some ''2026-01-02 00:00:00''"
proof -
  have o: "eo_max_records load_options = None" "eo_incremental load_options" "\<not> eo_dry_run load_options" "\<not> eo_mark_fault load_options"
    by (simp_all add: load_options_def)
  have t: "rel_table news_spec = ''dwd_org_important_news_info''"
    by (simp add: news_spec_def relation_entry_def)
  let ?s = "load_state\<lparr>ks_results := [], ks_stats := no_stats\<rparr>"
  have "run_specs demo_faults load_env load_options idle_db (Some ''2026-01-01 00:00:00'') [news_spec] [] (load_state\<lparr>ks_results := []\<rparr>) =
      (Inr ''2026-01-02 00:00:00'',
       (idle_done ?s)\<lparr>ks_results := [(''dwd_org_important_news_info'', count_invalid True (no_stats\<lparr>st_queried := 1\<rparr>))]\<rparr>)"
    by (simp add: idle_start idle_start(3) [unfolded t] idle_rows o abind_def awrite_def aret_def t del: run_rows.simps) (simp add: idle_done_def tbl_put_def no_stats_def)
  then show thesis
    using that
    by (simp add: run_relation_etl_def abind_def awrite_def alift_def demo_checked demo_specs idle_start o advance_mark_def)
      (simp add: idle_done_def load_state_def idle_start)
qed

text \<open>A run that stores an edge.\<close>

lemma existing_one:
  assumes "\<not> gf_read gf (ks_calls s)" and "ngql_identifier lb tag = Inr q" and "0 < n"
    and "(tag, v) \<in> set (ks_vertices s)" and "clean_text (Val (JStr v)) = Some v"
  shows "existing_vids gf lb n tag [v] s = (Inr [v], s\<lparr>ks_calls := Suc (ks_calls s)\<rparr>)"
proof -
  have "chunks n [v] = [[v]]" using assms(3) by (cases n) simp_all
  then show ?thesis
    using assms by (simp add: existing_vids_def abind_def alift_def graph_read_def aret_def map_filter_def)
qed

lemma batch_of_one:
  assumes f: "\<And>n. \<not> gf_read gf n" "\<And>n es. gf_write gf n es = (True, False)"
    and sp: "sp \<in> set RELATION_SPECS" and n: "0 < n" and g: "ks_edges s = []"
    and a: "ngql_identifier lb (ec_source_tag e) = Inr q1" "(ec_source_tag e, ec_source_vid e) \<in> set (ks_vertices s)"
      "clean_text (Val (JStr (ec_source_vid e))) = Some (ec_source_vid e)"
    and b: "ngql_identifier lb (ec_target_tag e) = Inr q2" "(ec_target_tag e, ec_target_vid e) \<in> set (ks_vertices s)"
      "clean_text (Val (JStr (ec_target_vid e))) = Some (ec_target_vid e)"
    and ty: "ngql_identifier lb (rel_edge_type sp) = Inr q3"
  obtains s' where "process_candidate_batch gf lb n False sp [e] s = (Inr (), s')"
    "ks_edges s' = [(edge_identity e, ec_properties e)]" "ks_vertices s' = ks_vertices s" "ks_mark s' = ks_mark s"
    "ks_results s' = ks_results s" "st_valid (ks_stats s') = st_valid (ks_stats s) + 1"
    "st_written (ks_stats s') = st_written (ks_stats s) + 1" "st_failed (ks_stats s') = st_failed (ks_stats s)"
    "st_updated (ks_stats s') = st_updated (ks_stats s)"
proof -
  have src: "found_ends gf lb n (\<lambda>t. map ec_source_vid (filter (\<lambda>e. ec_source_tag e = t) [e])) [ec_source_tag e] s1 =
      (Inr [(ec_source_tag e, ec_source_vid e)], s1\<lparr>ks_calls := Suc (ks_calls s1)\<rparr>)" if "ks_vertices s1 = ks_vertices s" for s1
    using existing_one [OF f(1) a(1) n _ a(3)] a(2) that by (simp add: abind_def aret_def)
  have tgt: "found_ends gf lb n (\<lambda>t. map ec_target_vid (filter (\<lambda>e. ec_target_tag e = t) [e])) [ec_target_tag e] s1 =
      (Inr [(ec_target_tag e, ec_target_vid e)], s1\<lparr>ks_calls := Suc (ks_calls s1)\<rparr>)" if "ks_vertices s1 = ks_vertices s" for s1
    using existing_one [OF f(1) b(1) n _ b(3)] b(2) that by (simp add: abind_def aret_def)
  have ready: "ready_edges [(ec_source_tag e, ec_source_vid e)] [(ec_target_tag e, ec_target_vid e)] [e] = [e]"
    by (simp add: ready_edges_def missing_ends_def)
  have old: "existing_edge_identities gf lb sp [e] s1 = (Inr [], s1\<lparr>ks_calls := Suc (ks_calls s1)\<rparr>)" if "ks_edges s1 = []" for s1
    using f(1) ty that by (simp add: existing_edge_identities_def edges_between_def abind_def alift_def graph_read_def aret_def map_filter_def)
  have one: "chunks n [e] = [[e]]" using n by (cases n) simp_all
  obtain q where q: "render_edge_insert lb sp [e] = Inr q" by (rule render_spec [OF sp, of "[e]" lb]) simp_all
  have wr: "write_chunks gf lb sp False [] [[e]] s1 =
      (Inr (), stat (count_written [] [e]) ((stat (add_example q) s1)\<lparr>ks_calls := Suc (ks_calls s1), ks_edges := put_edges [e] (ks_edges s1)\<rparr>))"
    for s1
  proof -
    have "graph_write gf [e] (stat (add_example q) s1) =
        (False, (stat (add_example q) s1)\<lparr>ks_calls := Suc (ks_calls s1), ks_edges := put_edges [e] (ks_edges s1)\<rparr>)"
      by (simp add: graph_write_def f(2) stat_def)
    from write_edges_run [OF q this] show ?thesis
      by (simp add: abind_def aret_def)
  qed
  have d: "distinct_edges [] [e] = ([e], 0)" by simp
  have tags: "tags_of ec_source_tag [e] = [ec_source_tag e]" "tags_of ec_target_tag [e] = [ec_target_tag e]"
    by (simp_all add: tags_of_def)
  let ?b = "stat (\<lambda>st. st\<lparr>st_duplicate := st_duplicate st + 0\<rparr>) s"
  let ?d = "stat (count_missing [(ec_source_tag e, ec_source_vid e)] [(ec_target_tag e, ec_target_vid e)] [e])
      (?b\<lparr>ks_calls := Suc (Suc (ks_calls s))\<rparr>)"
  let ?u = "stat (\<lambda>st. st\<lparr>st_existing := st_existing st + length (filter (\<lambda>e. edge_identity e \<in> set []) [e]), st_valid := st_valid st + length [e]\<rparr>)
      (?d\<lparr>ks_calls := Suc (Suc (Suc (ks_calls s)))\<rparr>)"
  have "process_candidate_batch gf lb n False sp [e] s =
      (Inr (), stat (count_written [] [e]) ((stat (add_example q) ?u)\<lparr>ks_calls := Suc (ks_calls ?u), ks_edges := put_edges [e] (ks_edges ?u)\<rparr>))"
    unfolding process_candidate_batch_def d prod.case tags Let_def abind_def awrite_def
    using src [of ?b] tgt [of "?b\<lparr>ks_calls := Suc (ks_calls s)\<rparr>"] old [of ?d] wr [of ?u]
    by (simp add: stat_def ready one g n del: found_ends.simps write_chunks.simps filter.simps chunks.simps)
  then show thesis
    by (rule that) (simp_all add: stat_def count_missing_def missing_ends_def count_written_def put_edges_def tbl_put_def add_example_def g)
qed

lemma news_edge:
  obtains e where "extract_candidates load_env news_spec load_row = Inr [e]" "ec_edge_type e = ''HAS_NEWS''"
    "ec_source_tag e = ''Organization''" "ec_source_vid e = ''org_1''" "ec_target_tag e = ''News''" "ec_target_vid e = demo_news"
proof -
  have "map_sum (\<lambda>_. ()) (map (\<lambda>e. (ec_edge_type e, ec_source_tag e, ec_source_vid e, ec_target_tag e, ec_target_vid e)))
      (extract_candidates load_env news_spec load_row) = Inr [(''HAS_NEWS'', ''Organization'', ''org_1'', ''News'', demo_news)]"
    by code_simp
  then show thesis
    using that by (cases "extract_candidates load_env news_spec load_row") auto
qed

lemma news_names:
  "ngql_identifier demo_etl_lib ''Organization'' = Inr ''`Organization`''" "ngql_identifier demo_etl_lib ''News'' = Inr ''`News`''"
  "ngql_identifier demo_etl_lib ''HAS_NEWS'' = Inr ''`HAS_NEWS`''"
  "clean_text (Val (JStr ''org_1'')) = Some ''org_1''" "clean_text (Val (JStr demo_news)) = Some demo_news"
  "\<not> is_virtual_source_row demo_etl_lib load_row" "later [] load_row = ''2026-01-02 00:00:00''"
  "validate_source_schema load_db [news_spec] = Inr ()" "rel_edge_type news_spec = ''HAS_NEWS''"
  "iter_source_rows load_db (rel_table news_spec) None (Some ''2026-01-01 00:00:00'') = [load_row]"
  by code_simp+

lemma load_run:
  obtains st s' k ps where
    "run_relation_etl demo_faults load_env load_options load_db load_state = (Inr [(''dwd_org_important_news_info'', st)], s')"
    "ks_edges s' = [((''HAS_NEWS'', ''org_1'', demo_news, k), ps)]"
    "st_valid st = 1" "st_written st = 1" "st_failed st = 0" "st_updated st = 0"
proof -
  obtain e where e: "extract_candidates load_env news_spec load_row = Inr [e]" "ec_edge_type e = ''HAS_NEWS''"
    "ec_source_tag e = ''Organization''" "ec_source_vid e = ''org_1''" "ec_target_tag e = ''News''" "ec_target_vid e = demo_news"
    by (rule news_edge)
  have o: "eo_max_records load_options = None" "eo_incremental load_options" "\<not> eo_dry_run load_options" "\<not> eo_mark_fault load_options"
    "eo_batch_size load_options = 10"
    by (simp_all add: load_options_def)
  have t: "rel_table news_spec = ''dwd_org_important_news_info''"
    by (simp add: news_spec_def relation_entry_def)
  have lb: "xe_lib load_env = demo_etl_lib" by (simp add: load_env_def)
  let ?s = "load_state\<lparr>ks_results := [], ks_stats := no_stats\<lparr>st_queried := 1, st_batches := 1\<rparr>\<rparr>"
  obtain s1 where b: "process_candidate_batch demo_faults demo_etl_lib 10 False news_spec [e] ?s = (Inr (), s1)"
    "ks_edges s1 = [(edge_identity e, ec_properties e)]" "ks_mark s1 = ks_mark ?s" "ks_results s1 = ks_results ?s"
    "st_valid (ks_stats s1) = st_valid (ks_stats ?s) + 1" "st_written (ks_stats s1) = st_written (ks_stats ?s) + 1"
    "st_failed (ks_stats s1) = st_failed (ks_stats ?s)" "st_updated (ks_stats s1) = st_updated (ks_stats ?s)"
    by (rule batch_of_one [of demo_faults news_spec 10 ?s demo_etl_lib e])
      (simp_all add: demo_faults_def news_spec_in e news_names load_state_def)
  have rows: "run_rows demo_faults load_env load_options news_spec [load_row] [] [] (load_state\<lparr>ks_results := [], ks_stats := no_stats\<rparr>) =
      (Inr ''2026-01-02 00:00:00'', s1)"
    using b(1) by (simp add: e(1) lb news_names o flush_def abind_def awrite_def aret_def Let_def stat_def no_stats_def)
  let ?r = "[(''dwd_org_important_news_info'', ks_stats s1)]"
  have "run_specs demo_faults load_env load_options load_db (Some ''2026-01-01 00:00:00'') [news_spec] [] (load_state\<lparr>ks_results := []\<rparr>) =
      (Inr ''2026-01-02 00:00:00'', s1\<lparr>ks_results := ?r\<rparr>)"
    by (simp add: idle_start(2) news_names(10) [unfolded t] rows o b(4) abind_def awrite_def aret_def t tbl_put_def del: run_rows.simps)
  then have "run_relation_etl demo_faults load_env load_options load_db load_state =
      (Inr ?r, s1\<lparr>ks_results := ?r, ks_mark := Some ''2026-01-02 00:00:00''\<rparr>)"
    using b(3) by (simp add: run_relation_etl_def abind_def awrite_def alift_def demo_checked demo_specs news_names(8) idle_start(4) o advance_mark_def)
      (simp add: load_state_def idle_start(5))
  then show thesis
    using that b e by (simp add: edge_identity_def no_stats_def)
qed

section \<open>Edges of a run\<close>

text \<open>
  C34: Whatever the graph refuses and whichever of its calls fail, a run of the relation ETL, also one
  that stops with an error, leaves the vertices and removes no edge; every entry it adds or changes is an
  edge of the type of a selected specification whose tags and type the space has, between two vertices, with a
  source tag and the target tag of that specification, that the graph has under these identifiers once they are
  cleaned, and under just these when cleaning leaves the identifiers of the graph as they are.  A dry run leaves
  the edges as they are.
\<close>

theorem edges_join_known_vertices:
  assumes "run_relation_etl gf xe o' db s = (r, s')"
  shows "ks_vertices s' = ks_vertices s \<and>
    fst ` set (ks_edges s) \<subseteq> fst ` set (ks_edges s') \<and>
    set (ks_edges s') - set (ks_edges s) \<subseteq>
      {p. \<exists>sp. sp \<in> set (selected_specs o') \<and> schema_available o' sp \<and> edge_of_spec (read_back (ks_vertices s)) sp (fst p)} \<and>
    (vids_clean (ks_vertices s) \<longrightarrow> set (ks_edges s') - set (ks_edges s) \<subseteq>
      {p. \<exists>sp. sp \<in> set (selected_specs o') \<and> schema_available o' sp \<and> edge_of_spec (ks_vertices s) sp (fst p)}) \<and>
    (eo_dry_run o' \<longrightarrow> ks_edges s' = ks_edges s)"
proof -
  let ?J = "\<lambda>g. new_edges_ok o' s g \<and> (eo_dry_run o' \<longrightarrow> g = ks_edges s)"
  have F: "graph_frame (\<lambda>p. p \<in> set (read_back (ks_vertices s))) (graph_inv (ks_vertices s) ?J)"
    by (simp add: graph_frame_def frame_graph finds_read_back)
  have "graph_inv (ks_vertices s) ?J s'"
    by (rule run_etl_keeps [OF F _ new_edges_writes _ assms]) (auto simp: graph_inv_def new_edges_ok_def)
  then have k: "ks_vertices s' = ks_vertices s" "new_edges_ok o' s (ks_edges s')" "eo_dry_run o' \<longrightarrow> ks_edges s' = ks_edges s"
    by (simp_all add: graph_inv_def)
  have "edge_of_spec (read_back (ks_vertices s)) = edge_of_spec (ks_vertices s)" if "vids_clean (ks_vertices s)"
    by (intro ext) (simp add: edge_of_spec_def read_back_clean [OF that])
  with k show ?thesis
    unfolding new_edges_ok_def by (cases "vids_clean (ks_vertices s)") auto
qed

theorem edges_join_known_vertices_witness:
  "\<exists>rs s' k ps. run_relation_etl demo_faults load_env load_options load_db load_state = (Inr rs, s') \<and>
     ks_vertices s' = [(''Organization'', ''org_1''), (''News'', demo_news)] \<and>
     ks_edges load_state = [] \<and> ks_edges s' = [((''HAS_NEWS'', ''org_1'', demo_news, k), ps)] \<and>
     edge_of_spec (ks_vertices load_state) news_spec (''HAS_NEWS'', ''org_1'', demo_news, k)"
proof -
  obtain st s' k ps where run: "run_relation_etl demo_faults load_env load_options load_db load_state =
      (Inr [(''dwd_org_important_news_info'', st)], s')"
    and new: "ks_edges s' = [((''HAS_NEWS'', ''org_1'', demo_news, k), ps)]"
    by (rule load_run) blast
  have clean: "vids_clean (ks_vertices load_state)" by code_simp
  have old: "ks_vertices load_state = [(''Organization'', ''org_1''), (''News'', demo_news)]" "ks_edges load_state = []"
    by (simp_all add: load_state_def)
  from edges_join_known_vertices [OF run] clean new old run demo_specs show ?thesis
    by auto
qed

section \<open>The watermark\<close>

definition row_times :: "source_row list \<Rightarrow> string set" where
  \<comment> \<open>the update times of the rows\<close>
  "row_times rs = {cell_str c | c r. r \<in> set rs \<and> c = cell_or (rget r ''updated_time'') (rget r ''update_time'') \<and> cell_truthy c}"

lemma later_cases:
  "later mx r = mx \<and> row_times [r] \<subseteq> {t. t \<le> mx} \<or> later mx r \<in> row_times [r] \<and> mx < later mx r \<and> row_times [r] = {later mx r}"
  by (auto simp: later_def row_times_def Let_def)

lemma row_times_Cons: "row_times (r # rs) = row_times [r] \<union> row_times rs"
  by (auto simp: row_times_def)

lemma foldl_later:
  "foldl later mx rs \<in> insert mx (row_times rs) \<and> (\<forall>t\<in>insert mx (row_times rs). t \<le> foldl later mx rs)"
proof (induction rs arbitrary: mx)
  case Nil
  then show ?case by (simp add: row_times_def)
next
  case (Cons r rs)
  show ?case
    using Cons.IH [of "later mx r"] later_cases [of mx r]
    by (auto simp: row_times_Cons [of r rs] intro: order_trans less_imp_le)
qed

lemma run_etl_mark:
  assumes "run_relation_etl gf xe o' db s = (r, s')" and "ks_mark s' \<noteq> ks_mark s"
  shows "eo_incremental o' \<and> \<not> eo_dry_run o' \<and> isl r = False \<and> latest_read xe o' db s \<noteq> [] \<and>
    ks_mark s' = Some (latest_read xe o' db s) \<and> (\<forall>m. mark_read xe o' s = Some m \<longrightarrow> m < latest_read xe o' db s)"
  using assms(1)
proof (cases rule: run_etl_cases)
  case refused
  then show ?thesis using assms(2) by auto
next
  case (loaded r1 s1)
  let ?I = "\<lambda>s1. ks_mark s1 = ks_mark s"
  have I: "graph_frame (\<lambda>_. True) ?I"
    by (simp add: graph_frame_def framed_def finds_def)
  have k: "keeps ?I (run_specs gf xe o' db (mark_read xe o' s) (selected_specs o') [])
      (\<lambda>y. y = foldl later [] (rows_read o' db (mark_read xe o' s) (selected_specs o')))"
    by (rule run_specs_keeps [OF I]) (auto simp: write_ok_def writes_keep_def intro: extracts_shaped selected_in)
  from keepsD [OF k _ loaded(1)] have m: "ks_mark s1 = ks_mark s" "\<And>y. r1 = Inr y \<Longrightarrow> y = latest_read xe o' db s"
    by (auto simp: latest_read_def)
  show ?thesis
  proof (cases r1)
    case (Inl e)
    then show ?thesis using loaded(2) m(1) assms(2) by auto
  next
    case (Inr mx)
    then have s': "s' = snd (advance_mark xe o' mx s1)" and mx: "mx = latest_read xe o' db s"
      and ok: "fst (advance_mark xe o' mx s1) = Inr () \<Longrightarrow> isl r = False"
      using loaded(2) m(2) Inr by auto
    show ?thesis
      using assms(2) m(1) ok unfolding s' mx [symmetric]
      by (auto simp: advance_mark_def advance_if_higher_def mark_read_def read_since_def
          split: if_splits sum.splits option.splits)
  qed
qed

text \<open>
  The watermark changes only in an incremental run that writes and returns; it is then the greatest
  update time among the rows the run read, synthetic and refused ones included, and later than the mark that
  selected them.
\<close>

theorem mark_is_latest_read:
  assumes "run_relation_etl gf xe o' db s = (r, s')" and "ks_mark s' \<noteq> ks_mark s"
  shows "eo_incremental o' \<and> \<not> eo_dry_run o' \<and> (\<exists>rs. r = Inr rs) \<and>
    (\<exists>ts. ks_mark s' = Some ts \<and> ts \<in> row_times (rows_read o' db (mark_read xe o' s) (selected_specs o')) \<and>
      row_times (rows_read o' db (mark_read xe o' s) (selected_specs o')) \<subseteq> {t. t \<le> ts} \<and>
      (mark_read xe o' s = None \<or> the (mark_read xe o' s) < ts))"
proof -
  have f: "latest_read xe o' db s \<in> insert [] (row_times (rows_read o' db (mark_read xe o' s) (selected_specs o')))"
    "\<forall>t\<in>insert [] (row_times (rows_read o' db (mark_read xe o' s) (selected_specs o'))). t \<le> latest_read xe o' db s"
    using foldl_later [of "[]" "rows_read o' db (mark_read xe o' s) (selected_specs o')"] by (simp_all add: latest_read_def)
  from run_etl_mark [OF assms] f show ?thesis
    by (cases r; cases "mark_read xe o' s") auto
qed

theorem mark_is_latest_read_witness:
  "\<exists>r s'. run_relation_etl demo_faults load_env load_options idle_db load_state = (r, s') \<and>
     ks_mark load_state = Some ''2026-01-01 00:00:00'' \<and> ks_mark s' = Some ''2026-01-02 00:00:00'' \<and> (\<exists>rs. r = Inr rs)"
proof -
  obtain r s' where run: "run_relation_etl demo_faults load_env load_options idle_db load_state = (r, s')"
    and mark: "ks_mark s' = Some ''2026-01-02 00:00:00''"
    by (rule idle_run) blast
  have old: "ks_mark load_state = Some ''2026-01-01 00:00:00''" by (simp add: load_state_def)
  from mark_is_latest_read [OF run] mark old run show ?thesis by auto
qed

section \<open>Counters\<close>

text \<open>
  C36: When the loop over the rows of a table returns, every row was counted once, a refused row is an invalid
  one, and every candidate of the other rows was counted once: as a duplicate, as skipped because an end is
  missing, or as valid.  A run that writes has written, updated or given up every valid one; a dry run none.
\<close>

theorem rows_accounted:
  assumes "0 < eo_batch_size o'"
    and "run_rows gf xe o' sp rs [] mx (s\<lparr>ks_stats := no_stats\<rparr>) = (Inr y, s')"
  shows "st_queried (ks_stats s') = length rs \<and>
    st_invalid (ks_stats s') = length (filter (refused_row xe sp) rs) \<and>
    st_duplicate (ks_stats s') + st_skipped (ks_stats s') + st_valid (ks_stats s') =
      length (concat (map (row_edges xe sp) rs)) + length (filter (\<lambda>r. row_virtual xe r \<or> refused_row xe sp r) rs) \<and>
    st_written (ks_stats s') + st_updated (ks_stats s') + st_failed (ks_stats s') =
      (if eo_dry_run o' then 0 else st_valid (ks_stats s'))"
  using run_rows_counted [OF assms]
  by (cases "eo_dry_run o'") (simp_all add: table_counted_def handled_def accounted_def no_stats_def)

theorem rows_accounted_witness:
  "\<exists>s'. run_rows demo_faults load_env load_options news_spec [idle_row] [] [] (load_state\<lparr>ks_stats := no_stats\<rparr>) =
      (Inr ''2026-01-02 00:00:00'', s') \<and>
     st_queried (ks_stats s') = 1 \<and> st_invalid (ks_stats s') = length (filter (refused_row load_env news_spec) [idle_row]) \<and>
     st_skipped (ks_stats s') = 1"
proof -
  have b: "0 < eo_batch_size load_options" by (simp add: load_options_def)
  show ?thesis
    using rows_accounted [OF b idle_rows [of "load_state\<lparr>ks_stats := no_stats\<rparr>"]] idle_rows [of "load_state\<lparr>ks_stats := no_stats\<rparr>"]
    by (simp add: idle_done_def count_invalid_def no_stats_def del: run_rows.simps)
qed

definition all_counted :: "bool \<Rightarrow> (string \<times> relation_stats) list \<Rightarrow> bool" where
  "all_counted dry rs \<longleftrightarrow> (\<forall>p\<in>set rs. accounted (snd p) = (if dry then 0 else st_valid (snd p)))"

lemma all_counted_put: "all_counted dry rs \<Longrightarrow> accounted st = (if dry then 0 else st_valid st) \<Longrightarrow> all_counted dry (tbl_put fst (k, st) rs)"
  by (fastforce simp: all_counted_def dest: in_tbl_put)

lemma run_specs_counted:
  assumes n: "0 < eo_batch_size o'"
  shows "run_specs gf xe o' db since sps mx s = (Inr y, s') \<Longrightarrow> all_counted (eo_dry_run o') (ks_results s) \<Longrightarrow>
    all_counted (eo_dry_run o') (ks_results s')"
proof (induction sps arbitrary: mx s)
  case Nil
  then show ?case by (simp add: aret_def)
next
  case (Cons sp sps)
  let ?s1 = "s\<lparr>ks_stats := no_stats\<rparr>"
  obtain mx' s2 where
    table: "schema_available o' sp \<Longrightarrow>
      run_rows gf xe o' sp (iter_source_rows db (rel_table sp) (eo_max_records o') since) [] mx ?s1 = (Inr mx', s2)"
      "\<not> schema_available o' sp \<Longrightarrow> s2 = ?s1" and
    rest: "run_specs gf xe o' db since sps mx' (s2\<lparr>ks_results := tbl_put fst (rel_table sp, ks_stats s2) (ks_results s2)\<rparr>) = (Inr y, s')"
    using Cons.prems(1) by (auto simp: abind_Inr awrite_def aret_def araise_def split: if_splits)
  have "ks_results s2 = ks_results s \<and> accounted (ks_stats s2) = (if eo_dry_run o' then 0 else st_valid (ks_stats s2))"
  proof (cases "schema_available o' sp")
    case True
    from run_rows_counted [OF n table(1) [OF True]] show ?thesis
      by (cases "eo_dry_run o'") (simp_all add: table_counted_def accounted_def no_stats_def)
  qed (simp add: table(2) accounted_def no_stats_def)
  then show ?case
    using Cons.IH [OF rest] Cons.prems(2) by (simp add: all_counted_put)
qed



section \<open>Refused statements\<close>

text \<open>
  C35: Whatever the graph refuses and however often (of its calls only this is assumed: a statement whose call
  returns was carried out), the statements for different edges that the graph did not have, with all their
  splits, come to an end without an error.  An edge is given up only when a statement with it alone raised;
  every other one is in the graph with its properties.  The given up ones are counted as failed, the others as
  written, and the other entries of the graph are as before.
\<close>

theorem refused_edges_isolated:
  assumes "returns_carried gf" and "sp \<in> set RELATION_SPECS" and "0 < n"
    and "distinct (map edge_identity es)" and "edge_identity ` set es \<inter> set ex = {}"
  shows "\<exists>s' bad. write_chunks gf lb sp False ex (chunks n es) s = (Inr (), s') \<and>
    set bad \<subseteq> set es \<and> (\<forall>e. e \<in> set bad \<longrightarrow> (\<exists>k. snd (gf_write gf k [e]))) \<and>
    (\<forall>e. e \<in> set es - set bad \<longrightarrow> (edge_identity e, ec_properties e) \<in> set (ks_edges s')) \<and>
    st_failed (ks_stats s') = st_failed (ks_stats s) + length bad \<and>
    st_written (ks_stats s') + length bad = st_written (ks_stats s) + length es \<and>
    st_updated (ks_stats s') = st_updated (ks_stats s) \<and> ks_vertices s' = ks_vertices s \<and>
    (\<forall>p. fst p \<notin> edge_identity ` set es \<longrightarrow> (p \<in> set (ks_edges s')) = (p \<in> set (ks_edges s)))"
proof -
  have c: "concat (chunks n es) = es" using assms(3) by simp
  show ?thesis
    using write_chunks_stored [OF assms(1,2) chunks_not_empty [of n es], unfolded c, OF assms(4,5), of lb s]
    unfolding split_stored_def by blast
qed

definition demo_edge :: "string \<Rightarrow> edge_candidate" where
  "demo_edge v = \<lparr>ec_edge_type = ''HAS_NEWS'', ec_source_vid = ''org_1'', ec_target_vid = v, ec_target_tag = ''News'', ec_rank = 0,
     ec_properties = [], ec_source_table = ''t'', ec_source_record_id = ''r'', ec_source_tag = ''Organization''\<rparr>"

definition picky_faults :: graph_faults where
  \<comment> \<open>a statement with an edge to b raises, and was carried out all the same when it has other edges\<close>
  "picky_faults = \<lparr>gf_read = (\<lambda>n. False),
     gf_write = (\<lambda>n es. (list_all (\<lambda>e. ec_target_vid e \<noteq> ''b'') es \<or> 1 < length es, \<not> list_all (\<lambda>e. ec_target_vid e \<noteq> ''b'') es))\<rparr>"

theorem refused_edges_isolated_witness:
  "\<exists>s' bad. write_chunks picky_faults demo_etl_lib news_spec False [] (chunks 10 (map demo_edge [''a'', ''b'', ''c''])) load_state = (Inr (), s') \<and>
     set bad \<subseteq> {demo_edge ''b''} \<and>
     ((''HAS_NEWS'', ''org_1'', ''a'', 0), []) \<in> set (ks_edges s') \<and> ((''HAS_NEWS'', ''org_1'', ''c'', 0), []) \<in> set (ks_edges s') \<and>
     st_failed (ks_stats s') = length bad"
proof -
  have r: "returns_carried picky_faults"
    by (simp add: returns_carried_def picky_faults_def)
  have x: "snd (gf_write picky_faults k [e]) = (ec_target_vid e = ''b'')" for k e
    by (simp add: picky_faults_def)
  obtain s' bad where w: "write_chunks picky_faults demo_etl_lib news_spec False [] (chunks 10 (map demo_edge [''a'', ''b'', ''c''])) load_state = (Inr (), s')"
    "set bad \<subseteq> set (map demo_edge [''a'', ''b'', ''c''])" "\<forall>e. e \<in> set bad \<longrightarrow> (\<exists>k. snd (gf_write picky_faults k [e]))"
    "\<forall>e. e \<in> set (map demo_edge [''a'', ''b'', ''c'']) - set bad \<longrightarrow> (edge_identity e, ec_properties e) \<in> set (ks_edges s')"
    "st_failed (ks_stats s') = st_failed (ks_stats load_state) + length bad"
    using refused_edges_isolated [OF r news_spec_in, of 10 "map demo_edge [''a'', ''b'', ''c'']" "[]" demo_etl_lib load_state]
    by (auto simp: demo_edge_def edge_identity_def)
  have t: "ec_target_vid (demo_edge v) = v" "(edge_identity (demo_edge v), ec_properties (demo_edge v)) = ((''HAS_NEWS'', ''org_1'', v, 0), [])" for v
    by (simp_all add: demo_edge_def edge_identity_def)
  have b: "set bad \<subseteq> {demo_edge ''b''}"
  proof
    fix x assume "x \<in> set bad"
    with w(2,3) have "x \<in> set (map demo_edge [''a'', ''b'', ''c''])" "ec_target_vid x = ''b''" unfolding x by blast+
    then show "x \<in> {demo_edge ''b''}" by (auto simp: t)
  qed
  then have "demo_edge ''a'' \<notin> set bad" "demo_edge ''c'' \<notin> set bad"
    by (auto dest!: subsetD arg_cong [where f = ec_target_vid] simp: t)
  with w(4) have "(edge_identity (demo_edge v), ec_properties (demo_edge v)) \<in> set (ks_edges s')" if "v \<in> {''a'', ''c''}" for v
    using that by auto
  then show ?thesis
    using w(1,5) b unfolding t by (auto simp: load_state_def no_stats_def)
qed

section \<open>Identities of edges\<close>

text \<open>
  C39: The edges made from a row do not depend on the batch and the time of the load: the same row gives edges
  with the same identities, type, ends and rank, or the same error, so that a later load updates the edges of
  an earlier one.
\<close>

theorem same_edges_in_every_load:
  "map_sum id (map edge_identity) (extract_candidates (xe\<lparr>xe_batch := b, xe_now := t\<rparr>) sp r) =
   map_sum id (map edge_identity) (extract_candidates xe sp r)"
proof -
  have "map_sum id (map edge_identity) m = ids m" for m
    by (cases m) simp_all
  then show ?thesis
    using candidates_ids [of b t xe sp r] by (simp add: at_load_def)
qed

text \<open>
  C40: Every edge made from a row has the type and the target tag of its specification, one of its source tags,
  a rank that fits in 63 bits and, with the digests of MD5, ends of at most 64 bytes.
\<close>

theorem candidates_fit:
  assumes "\<And>x. length (lb_md5 (xe_lib xe) x) = 32" and "sp \<in> set RELATION_SPECS"
    and "extract_candidates xe sp r = Inr es" and "e \<in> set es"
  shows "ec_edge_type e = rel_edge_type sp \<and> ec_target_tag e = rel_target_tag sp \<and> ec_source_tag e \<in> set (rel_source_tags sp) \<and>
    ec_rank e < 2 ^ 63 \<and> length (ec_source_vid e) \<le> 64 \<and> length (ec_target_vid e) \<le> 64"
proof -
  have "shaped sp e"
    using extracts_shaped [OF assms(2)] assms(3,4) by (auto simp: extracts_def)
  moreover have "vid (xe_lib xe) v \<Longrightarrow> length v \<le> 64" for v
    using length_bounded_vid [OF assms(1)] by (auto simp: vid_def VID_MAX_BYTES_def)
  moreover have "made (xe_lib xe) sp (tags_of_extractor (rel_extractor sp)) e"
    by (rule candidates_made [OF assms(3,4)])
  ultimately show ?thesis
    by (auto simp: shaped_def made_def candidate_def edge_rank_def stable_rank_def)
qed

theorem candidates_fit_witness:
  "\<exists>e. extract_candidates load_env news_spec load_row = Inr [e] \<and> ec_target_tag e = ''News'' \<and>
     length (ec_target_vid e) = 64 \<and> ec_rank e < 2 ^ 63"
proof -
  have c: "map_sum (\<lambda>_. ()) (map (\<lambda>e. (ec_target_tag e, length (ec_target_vid e))))
      (extract_candidates load_env news_spec load_row) = Inr [(''News'', 64)]"
    by code_simp
  then obtain e where e: "extract_candidates load_env news_spec load_row = Inr [e]"
    by (cases "extract_candidates load_env news_spec load_row") auto
  have md5: "length (lb_md5 (xe_lib load_env) x) = 32" for x
    by (simp add: load_env_def demo_etl_lib_def)
  show ?thesis
    using candidates_fit [OF md5 news_spec_in e, of e] c e by auto
qed

section \<open>The exact resolver\<close>

lemma remdups_single: "remdups xs = [i] \<longleftrightarrow> set xs = {i}"
  using distinct_set_single [of "remdups xs" i] by (auto dest: arg_cong [where f = set])

lemma names_of_row_iff:
  "(k, j) \<in> set (names_of_row col cs r) \<longleftrightarrow>
     clean_text (rget r col) = Some j \<and> (\<exists>n\<in>set cs. clean_text (rget r n) = Some k)"
  by (force simp: names_of_row_def map_filter_def image_iff split: option.splits)

lemma load_names_iff:
  "(k, j) \<in> set (load_names db) \<longleftrightarrow> (\<exists>t col cs r n. (t, col, cs) \<in> set SOURCES \<and> r \<in> set (db t) \<and> n \<in> set cs \<and>
      clean_text (rget r n) = Some k \<and> clean_text (rget r col) = Some j)"
proof -
  have "(k, j) \<in> set (load_names db) \<longleftrightarrow>
      (\<exists>x\<in>set SOURCES. \<exists>r\<in>set (db (fst x)). (k, j) \<in> set (names_of_row (fst (snd x)) (snd (snd x)) r))"
    by (simp add: load_names_def split_beta)
  also have "\<dots> \<longleftrightarrow> (\<exists>t col cs. (t, col, cs) \<in> set SOURCES \<and> (\<exists>r\<in>set (db t). (k, j) \<in> set (names_of_row col cs r)))"
    unfolding Bex_def by (simp only: split_paired_Ex fst_conv snd_conv)
  finally show ?thesis
    unfolding names_of_row_iff by blast
qed

lemma only_value: "(case remdups xs of [i] \<Rightarrow> Some i | _ \<Rightarrow> None) = Some i \<longleftrightarrow> set xs = {i}"
proof (cases "remdups xs")
  case Nil
  then show ?thesis by (simp add: remdups_single [symmetric])
next
  case (Cons a ys)
  then show ?thesis by (cases ys) (simp_all add: remdups_single [symmetric])
qed


end
