(* ===== verification/Spec2Isabelle.thy ===== *)
theory Spec2Isabelle
  imports Review_Queries Review_Overlap Governance_Claims Auth_Claims Operator_Plans Operator_Workers Schema_Claims
    Llm_Claims Workflow_Outcomes Etl_Claims
begin

text \<open>
  A verification development for the backend of the technology knowledge-graph platform
  (backend/): the workflows in which people decide what enters the graph, and who may take part.

  \<^bold>\<open>The program.\<close>  Two workflows change the graph under human control.  Manual review
  (service/manual\_review\_production.py over service/manual\_review\_domain.py) takes exceptions of
  the build pipeline, lets reviewers claim, edit and decide them, asks a second person to approve
  the risky ones, hands accepted corrections through an outbox to graph construction and follows
  its callbacks until the result is verified.  The correction ledger (service/correction.py) takes
  corrections that users submit, has an administrator decide them, and a worker applies them to a
  projection table and, in dual mode, to the graph.  Who is a user and who an administrator is
  decided by service/platform\_access.py.  Requests reach these services through the sign-in of
  service/auth.py (sessions over the unified user center, bearer tokens, a trail of operations),
  the dependency of biz/dependencies/auth.py that admits them, and handlers whose listings stand
  behind a response cache (infra/result\_cache.py, biz/handler/get\_cache.py).  Two more services
  decide what the pipeline runs.  The operator registry (service/operator\_registry.py) keeps the
  operators of the pipeline, built in or uploaded as source, in memory, in a directory and in an
  object store, and tells the workers to reload.  Schema management
  (service/schema\_management.py) keeps the catalogue of entity and relation schemas, creates them in
  the graph (service/schema\_ddl.py) and stores the scripts that extract them, after a review by a
  language model (service/script\_security.py).  Which language model that is, administrators
  configure (service/llm\_config.py, infra/llm.py).  The workflows themselves are kept by
  service/workflow\_operations.py over a SQLite file (service/workflow\_repository.py): definitions,
  executions, the tasks that follow them, schedules, and the reviews of an older kind.  They are
  handed to Temporal (service/temporal\_runtime.py), whose workers run the workflow classes and
  activities of service/temporal\_workflows.py.  The scripts such workflows run load tables into the
  graph; of them the load of relations between organizations (script/organization\_relation\_etl.py
  with organization\_etl\_common.py and etl\_watermark.py) is part of the development.

  \<^bold>\<open>Theories.\<close>
  Prelude, Lexicon, Json, Tables, Systems and Ttl\_Store are the library: results as sums, text
  operations, the Chinese literals of the code, JSON values and their compact text, tables as
  lists of rows with the interface \<open>keyed_table\<close>, the contracts \<open>guarded_system\<close> (commands that
  keep an invariant), \<open>optimistic_lock\<close> and \<open>competing_locks\<close>, and those of a store whose entries
  expire (\<open>ttl_store\<close>) and of listings kept in it (\<open>cached_views\<close>).
  Review\_Domain models the rules; Review\_Store the tables of db\_model/manual\_review.py and the
  primitive writes; Review\_Service the operations of reviewers; Review\_Outbox the outbox worker,
  the callbacks, evidence and the queries.  Review\_Inv states the invariant, Review\_Commands
  proves that every command keeps it and interprets the contracts on the service, Review\_History
  proves that history only grows, Review\_Scenario holds a concrete run, Review\_Safety and
  Review\_Queries the properties; Review\_Overlap splits a command into its two steps and shows what two
  that overlap do.
  Platform\_Access models roles and members.  Correction and Correction\_Sync model the ledger and
  its worker, with a database that may refuse the flush of a pass; Correction\_Inv the invariant,
  Correction\_Safety and Correction\_Worker the properties, among them that the projection is the one that
  the history of applied corrections describes.
  Result\_Cache models the response cache and its keys and interprets \<open>ttl_store\<close>; Governance\_Api
  models the handlers of corrections and members (biz/handler/correction.py, admin\_member.py) and
  the dispatcher of main.py over it, Governance\_Claims interprets \<open>cached_views\<close> on their
  listings.  A handler that writes is a request and the commit of its session, which comes after the cache was
  invalidated: a listing in between keeps the old page (lemma \<open>old_page_survives_write\<close>).
  Session\_Store models MemoryJsonStore of infra/redis.py (a second \<open>ttl_store\<close>), Auth\_Settings
  config/auth.py, Auth the core of service/auth.py, Auth\_Profile the profile, the trail and
  application/auth.py, Auth\_Gate the cookies, the dependency and biz/handler/auth.py.  Auth\_Inv
  states what every entry of the session store satisfies, as triples that every call keeps,
  Auth\_Safety lifts this to sequences of requests, Auth\_Claims holds a concrete world and the
  properties.
  Calls is the library of calls that keep what they wrote before they raised, with their triples.
  Operator\_Store models the keys and the paged listing of infra/operator\_store.py,
  Operator\_Registry service/operator\_registry.py, Operator\_Builtins the five operators of
  service/operator\_builtins.py, Operator\_Api the handlers and request checks
  (biz/handler/operator.py, biz/schemas/operator.py, text\_rules.py).  Operator\_Inv states the
  invariant of the registry and the specification of a reload, Operator\_Claims proves them over
  sequences of operations, Operator\_Sync follows uploads to another registry and the listing to its
  end, Operator\_Plans proves what the insert plans of the built-in operators promise (interface
  \<open>ingest_plan\<close>), Operator\_Workers composes handlers of control plane and worker.
  Schema\_Ddl models the statements and what validation lets through, Schema\_Model the tables and
  the data access (dao/schema\_management.py), Schema\_Script file names, workflow identifiers, the
  checks of a script and the verdict of its review, Schema\_Service the operations with the object
  store (infra/s3.py) and the registration of workflows (service/workflow\_operations.py), Schema\_Api
  requests, queries and handlers.  A commit is acknowledged, refused, or
  lost: applied although the caller sees an error.  Schema\_Inv models runs of many users, in which the two steps of
  a review are separate and others upload workflow scripts that nobody reviews, and their invariant; Schema\_Claims holds a concrete world and the properties.
  Llm\_Config models the configurations of the language model with the client that a process keeps,
  Llm\_Claims the invariant of the default (a \<open>guarded_system\<close>) and the runs that break it when writes meet.
  Workflow\_Store models the tables of workflows with the schedules that Temporal holds,
  Workflow\_Runtime the calls of Temporal, Workflow\_Service the operations, Workflow\_Run what the
  workers run, Workflow\_Api the endpoints (biz/handler/workflow\_system.py, task\_center.py, the
  legacy part of manual\_review.py); Workflow\_Lexicon holds their literals.  An operation that waits
  for Temporal, the switches and deletions of schedules included, is two definitions, before and after.  Workflow\_Inv composes them to runs in which
  requests that wait are in flight, and proves the invariant (the last \<open>guarded_system\<close>);
  Workflow\_Claims holds a concrete world, the properties along runs (the agreement of schedules with Temporal
  along runs in which requests about a schedule do not overlap), and runs that show their limits; Workflow\_Outcomes what single operations come to, from the request to the worker and back.
  Etl\_Tables holds the specifications of source tables and relations, Etl\_Values the cleaning of
  values, scores and identifiers, Etl\_Relations the resolution of organizations and one definition for
  each extractor, Etl\_Load the watermark, batches, statements and the run.  Etl\_Inv shows what every part
  of a load keeps, also when it raises; Etl\_Edges what the extractors make; Etl\_Counts follows the
  counters, Etl\_Isolation the splitting of refused statements (a graph may refuse what it likes, and carry out
  what it reports as failed) and loads at another time; Etl\_Claims
  holds example runs and the properties.

  \<^bold>\<open>How state and calls are modelled.\<close>  A database is a record of tables, a table a list of rows
  in insertion order.  A public method is a function from the database to an error or the next
  database; a raised exception leaves the database as it was, because the session is closed
  without a commit.  A call of the authentication service keeps what it wrote to the session store
  before it raised, and so do calls of the operator registry and of schema management for files,
  objects and workflows.  Writing the files of an operator may fail after the object store has
  them, deleting them does not.  The commands of a reviewer are single steps, as if no two overlapped
  (the claim of a case is one conditional UPDATE in the code, too).  The time of a call, fresh identifiers, hashes and the answers of external
  services (user center, graph construction, graph client, object store, language model, Temporal) are
  arguments, as are the parsing of requests and the encoding of answers by the web framework, the
  compiler and parser of Python, the regular expression engine, Unicode case folding and character
  classes, the collation of the database and the modification times of files.  In the load of relations the
  graph is state; which of its calls fail, and whether a failing statement was carried out, are arguments,
  as are digests, Unicode normalisation and decimal numbers.  For sign-in the
  answers of the user center may differ from call to call; what is proved holds for all of them.

  \<^bold>\<open>Bounds.\<close>  The model uses no fuel: loops of the code are structural recursions, recursions with a
  measure, or, for the listing of the operator store, a partial function that is proved to return
  when the pages follow the documented protocol.  The attempts of a statement are bounded by three and those of the outbox
  and of the sync worker by their settings, as in the code.  An activity is attempted five times, as
  its retry policy says; a workflow that no worker can finish has the outcome None.

  \<^bold>\<open>Not modelled.\<close>  The relation-analysis services and the other ETL scripts (query text against external
  databases), the hybrid resolver of organizations, clients of external services, the frontend; of workflows the demonstration tasks and reviews, the text rules of
  request fields, faults of SQLite, and of Temporal all but the documented meaning of its calls; within the modelled services, rounding of times below a second, the
  validation of request fields, a failing session store, and the isolation of concurrent
  transactions and requests apart from the races that a property names.
\<close>

end
